(* ===== verification/Asense_Prelude.thy ===== *)
theory Asense_Prelude
  imports Main "HOL-Library.Word" "HOL-Library.Sublist" "HOL-Library.Char_ord"
    "HOL-Library.List_Lexorder" "HOL-Library.Product_Lexorder" "HOL-Library.Option_ord"
begin

text \<open>
  Shared vocabulary of the development: machine integers, the two error-carrying
  computation types (pure results and computations that thread a world), their
  combinators, and the lemma collections the component theories add to.

  \<^item> Rust's \<open>Result<T, E>\<close> is the sum \<open>'e + 'a\<close> (\<open>Inl\<close> is \<open>Err\<close>, \<open>Inr\<close> is \<open>Ok\<close>).
  \<^item> A computation that touches the machine is a function \<open>'w \<Rightarrow> ('e + 'a) \<times> 'w\<close>; the
    \<open>?\<close> operator is \<open>io_bind\<close>, an inspected \<open>Result\<close> is \<open>io_try\<close>.
\<close>

section \<open>Machine integers\<close>

type_synonym u8 = "8 word"
type_synonym u16 = "16 word"
type_synonym u32 = "32 word"
type_synonym u64 = "64 word"
type_synonym rgb = "u8 \<times> u8 \<times> u8"

definition u8_max :: nat where "u8_max = 255"
definition u16_max :: nat where "u16_max = 65535"
definition u32_max :: nat where "u32_max = 4294967295"
definition u64_max :: nat where "u64_max = 18446744073709551615"

lemma unat_u8_le: "unat (w :: u8) \<le> u8_max"
  using unsigned_less [of w, where ?'a = nat] by (simp add: u8_max_def)

lemma unat_u16_le: "unat (w :: u16) \<le> u16_max"
  using unsigned_less [of w, where ?'a = nat] by (simp add: u16_max_def)

lemma unat_u32_le: "unat (w :: u32) \<le> u32_max"
  using unsigned_less [of w, where ?'a = nat] by (simp add: u32_max_def)

lemma unat_u64_le: "unat (w :: u64) \<le> u64_max"
  using unsigned_less [of w, where ?'a = nat] by (simp add: u64_max_def)

section \<open>Results\<close>

definition res_bind :: "'e + 'a \<Rightarrow> ('a \<Rightarrow> 'e + 'b) \<Rightarrow> 'e + 'b" where
  "res_bind r f = (case r of Inl e \<Rightarrow> Inl e | Inr a \<Rightarrow> f a)"

definition res_map_err :: "('e \<Rightarrow> 'd) \<Rightarrow> 'e + 'a \<Rightarrow> 'd + 'a" where
  "res_map_err g r = (case r of Inl e \<Rightarrow> Inl (g e) | Inr a \<Rightarrow> Inr a)"

definition ok_or :: "'e \<Rightarrow> 'a option \<Rightarrow> 'e + 'a" where
  "ok_or e x = (case x of None \<Rightarrow> Inl e | Some a \<Rightarrow> Inr a)"

definition res_ok :: "'e + 'a \<Rightarrow> 'a option" where
  "res_ok r = (case r of Inl e \<Rightarrow> None | Inr a \<Rightarrow> Some a)"

definition is_ok :: "'e + 'a \<Rightarrow> bool" where
  "is_ok r = (case r of Inl e \<Rightarrow> False | Inr a \<Rightarrow> True)"

text \<open>Rust's \<open>collect::<Result<Vec<_>, _>>\<close>: the first error wins.\<close>

fun res_map_list :: "('a \<Rightarrow> 'e + 'b) \<Rightarrow> 'a list \<Rightarrow> 'e + 'b list" where
  "res_map_list f [] = Inr []"
| "res_map_list f (x # xs) = (case f x of Inl e \<Rightarrow> Inl e
     | Inr y \<Rightarrow> (case res_map_list f xs of Inl e \<Rightarrow> Inl e | Inr ys \<Rightarrow> Inr (y # ys)))"

named_theorems res_simps \<open>evaluation of the result combinators\<close>

lemma res_bind_simps [simp, res_simps]:
  "res_bind (Inl e) f = Inl e" "res_bind (Inr a) f = f a"
  by (simp_all add: res_bind_def)

lemma res_map_err_simps [simp, res_simps]:
  "res_map_err g (Inl e) = Inl (g e)" "res_map_err g (Inr a) = Inr a"
  by (simp_all add: res_map_err_def)

lemma ok_or_simps [simp, res_simps]: "ok_or e None = Inl e" "ok_or e (Some a) = Inr a"
  by (simp_all add: ok_or_def)

lemma res_ok_simps [simp, res_simps]: "res_ok (Inl e) = None" "res_ok (Inr a) = Some a"
  by (simp_all add: res_ok_def)

lemma is_ok_simps [simp, res_simps]: "\<not> is_ok (Inl e)" "is_ok (Inr a)"
  by (simp_all add: is_ok_def)

lemma res_bind_Inr_iff: "res_bind r f = Inr b \<longleftrightarrow> (\<exists>a. r = Inr a \<and> f a = Inr b)"
  by (cases r) auto

lemma res_bind_Inl_iff:
  "res_bind r f = Inl e \<longleftrightarrow> r = Inl e \<or> (\<exists>a. r = Inr a \<and> f a = Inl e)"
  by (cases r) auto

lemma res_map_err_Inr_iff [simp]: "res_map_err g r = Inr a \<longleftrightarrow> r = Inr a"
  by (cases r) auto

lemma ok_or_Inr_iff [simp]: "ok_or e x = Inr a \<longleftrightarrow> x = Some a"
  by (cases x) auto

lemma res_ok_Some_iff [simp]: "res_ok r = Some a \<longleftrightarrow> r = Inr a"
  by (cases r) auto

lemma is_ok_iff: "is_ok r \<longleftrightarrow> (\<exists>a. r = Inr a)"
  by (cases r) auto

lemma res_map_list_Inr_length: "res_map_list f xs = Inr ys \<Longrightarrow> length ys = length xs"
  by (induction xs arbitrary: ys) (auto split: sum.splits)

lemma res_map_list_map: "(\<And>x. x \<in> set xs \<Longrightarrow> f (g x) = Inr x) \<Longrightarrow> res_map_list f (map g xs) = Inr xs"
  by (induction xs) auto

lemma res_map_list_ok: "(\<And>x. x \<in> set xs \<Longrightarrow> f (g x) = Inr (h x)) \<Longrightarrow> res_map_list f (map g xs) = Inr (map h xs)"
  by (induction xs) auto

lemma res_map_list_Inr_all:
  "res_map_list f xs = Inr ys \<Longrightarrow> list_all2 (\<lambda>x y. f x = Inr y) xs ys"
  by (induction xs arbitrary: ys) (auto split: sum.splits)

lemma res_map_list_Inr_mem:
  "res_map_list f xs = Inr ys \<Longrightarrow> x \<in> set xs \<Longrightarrow> \<exists>y \<in> set ys. f x = Inr y"
  by (induction xs arbitrary: ys) (auto split: sum.splits)

section \<open>Computations over a world\<close>

type_synonym ('w, 'e, 'a) io = "'w \<Rightarrow> ('e + 'a) \<times> 'w"

definition io_ret :: "'a \<Rightarrow> ('w, 'e, 'a) io" where
  "io_ret a = (\<lambda>w. (Inr a, w))"

definition io_err :: "'e \<Rightarrow> ('w, 'e, 'a) io" where
  "io_err e = (\<lambda>w. (Inl e, w))"

definition io_of :: "'e + 'a \<Rightarrow> ('w, 'e, 'a) io" where
  "io_of r = (\<lambda>w. (r, w))"

definition io_bind :: "('w, 'e, 'a) io \<Rightarrow> ('a \<Rightarrow> ('w, 'e, 'b) io) \<Rightarrow> ('w, 'e, 'b) io" where
  "io_bind m f = (\<lambda>w. case m w of (Inl e, w') \<Rightarrow> (Inl e, w') | (Inr a, w') \<Rightarrow> f a w')"

definition io_then :: "('w, 'e, 'a) io \<Rightarrow> ('w, 'e, 'b) io \<Rightarrow> ('w, 'e, 'b) io" where
  "io_then m n = io_bind m (\<lambda>_. n)"

definition io_try :: "('w, 'e, 'a) io \<Rightarrow> ('e + 'a \<Rightarrow> ('w, 'd, 'b) io) \<Rightarrow> ('w, 'd, 'b) io" where
  "io_try m f = (\<lambda>w. case m w of (r, w') \<Rightarrow> f r w')"

definition io_map_err :: "('e \<Rightarrow> 'd) \<Rightarrow> ('w, 'e, 'a) io \<Rightarrow> ('w, 'd, 'a) io" where
  "io_map_err g m = (\<lambda>w. case m w of (r, w') \<Rightarrow> (res_map_err g r, w'))"

fun io_map_list :: "('a \<Rightarrow> ('w, 'e, 'b) io) \<Rightarrow> 'a list \<Rightarrow> ('w, 'e, 'b list) io" where
  "io_map_list f [] = io_ret []"
| "io_map_list f (x # xs) =
     io_bind (f x) (\<lambda>y. io_bind (io_map_list f xs) (\<lambda>ys. io_ret (y # ys)))"

text \<open>\<open>.ok()\<close>, \<open>.is_ok()\<close>, and the short-circuiting \<open>all\<close> of an iterator.\<close>

definition io_ok :: "('w, 'e, 'a) io \<Rightarrow> ('w, 'd, 'a option) io" where
  "io_ok m = io_try m (\<lambda>r. io_ret (res_ok r))"

definition io_is_ok :: "('w, 'e, 'a) io \<Rightarrow> ('w, 'd, bool) io" where
  "io_is_ok m = io_try m (\<lambda>r. io_ret (is_ok r))"

fun io_all :: "('a \<Rightarrow> ('w, 'e, bool) io) \<Rightarrow> 'a list \<Rightarrow> ('w, 'e, bool) io" where
  "io_all f [] = io_ret True"
| "io_all f (x # xs) = io_bind (f x) (\<lambda>b. if b then io_all f xs else io_ret False)"

text \<open>\<open>filter_map\<close> over an iterator whose closure reads the world.\<close>

fun io_filter_map :: "('a \<Rightarrow> ('w, 'e, 'b option) io) \<Rightarrow> 'a list \<Rightarrow> ('w, 'e, 'b list) io" where
  "io_filter_map f [] = io_ret []"
| "io_filter_map f (x # xs) = io_bind (f x) (\<lambda>y. io_bind (io_filter_map f xs)
     (\<lambda>ys. io_ret (case y of None \<Rightarrow> ys | Some b \<Rightarrow> b # ys)))"

named_theorems io_simps \<open>evaluation of the world-threading combinators\<close>

lemma io_ret_apply [io_simps]: "io_ret a w = (Inr a, w)"
  by (simp add: io_ret_def)

lemma io_err_apply [io_simps]: "io_err e w = (Inl e, w)"
  by (simp add: io_err_def)

lemma io_of_apply [io_simps]: "io_of r w = (r, w)"
  by (simp add: io_of_def)

lemma io_bind_apply [io_simps]:
  "io_bind m f w = (case m w of (Inl e, w') \<Rightarrow> (Inl e, w') | (Inr a, w') \<Rightarrow> f a w')"
  by (simp add: io_bind_def)

lemma io_then_apply [io_simps]:
  "io_then m n w = (case m w of (Inl e, w') \<Rightarrow> (Inl e, w') | (Inr a, w') \<Rightarrow> n w')"
  by (simp add: io_then_def io_bind_def)

lemma io_try_apply [io_simps]: "io_try m f w = (case m w of (r, w') \<Rightarrow> f r w')"
  by (simp add: io_try_def)

lemma io_map_err_apply [io_simps]:
  "io_map_err g m w = (case m w of (r, w') \<Rightarrow> (res_map_err g r, w'))"
  by (simp add: io_map_err_def)

lemma io_bind_Inr:
  assumes "io_bind m f w = (Inr b, w')"
  obtains a w1 where "m w = (Inr a, w1)" and "f a w1 = (Inr b, w')"
  using assms by (auto simp: io_bind_def split: prod.splits sum.splits)

lemma io_bind_Inl:
  assumes "io_bind m f w = (Inl e, w')"
  obtains "m w = (Inl e, w')" | a w1 where "m w = (Inr a, w1)" and "f a w1 = (Inl e, w')"
  using assms by (auto simp: io_bind_def split: prod.splits sum.splits)

lemma io_then_Inr:
  assumes "io_then m n w = (Inr b, w')"
  obtains a w1 where "m w = (Inr a, w1)" and "n w1 = (Inr b, w')"
  using assms by (auto simp: io_then_def elim: io_bind_Inr)

lemma io_then_Inl:
  assumes "io_then m n w = (Inl e, w')"
  obtains "m w = (Inl e, w')" | a w1 where "m w = (Inr a, w1)" and "n w1 = (Inl e, w')"
  using assms by (auto simp: io_then_def elim: io_bind_Inl)

subsection \<open>World predicates kept by a computation\<close>

text \<open>
  \<open>io_keeps R m\<close>: every run of \<open>m\<close> relates the world before to the world after by \<open>R\<close>,
  whether it succeeds or fails. With \<open>R\<close> reflexive and transitive it is compositional, which
  is how ``this code never writes'' and ``this field is never touched'' are proved.
\<close>

definition io_keeps :: "('w \<Rightarrow> 'w \<Rightarrow> bool) \<Rightarrow> ('w, 'e, 'a) io \<Rightarrow> bool" where
  "io_keeps R m \<longleftrightarrow> (\<forall>w. R w (snd (m w)))"

named_theorems io_keeps_intros \<open>compositional rules for \<open>io_keeps\<close>\<close>

lemma io_keepsD: "io_keeps R m \<Longrightarrow> m w = (r, w') \<Longrightarrow> R w w'"
  by (metis io_keeps_def snd_conv)

lemma io_keeps_ret [io_keeps_intros]: "reflp R \<Longrightarrow> io_keeps R (io_ret a)"
  by (simp add: io_keeps_def reflp_def io_simps)

lemma io_keeps_err [io_keeps_intros]: "reflp R \<Longrightarrow> io_keeps R (io_err e)"
  by (simp add: io_keeps_def reflp_def io_simps)

lemma io_keeps_of [io_keeps_intros]: "reflp R \<Longrightarrow> io_keeps R (io_of r)"
  by (simp add: io_keeps_def reflp_def io_simps)

lemma io_keeps_bind [io_keeps_intros]:
  assumes "transp R" and "io_keeps R m" and "\<And>a. io_keeps R (f a)"
  shows "io_keeps R (io_bind m f)"
  using assms unfolding io_keeps_def io_bind_def transp_def
  by (auto split: prod.splits sum.splits) (metis snd_conv)+

lemma io_keeps_then [io_keeps_intros]:
  "transp R \<Longrightarrow> io_keeps R m \<Longrightarrow> io_keeps R n \<Longrightarrow> io_keeps R (io_then m n)"
  by (simp add: io_then_def io_keeps_bind)

lemma io_keeps_try [io_keeps_intros]:
  assumes "transp R" and "io_keeps R m" and "\<And>r. io_keeps R (f r)"
  shows "io_keeps R (io_try m f)"
  using assms unfolding io_keeps_def io_try_def transp_def
  by (auto split: prod.splits) (metis snd_conv)

lemma io_keeps_map_err [io_keeps_intros]: "io_keeps R m \<Longrightarrow> io_keeps R (io_map_err g m)"
  unfolding io_keeps_def io_map_err_def by (auto split: prod.splits) (metis snd_conv)

lemma io_keeps_map_list [io_keeps_intros]:
  assumes "reflp R" and "transp R" and "\<And>x. io_keeps R (f x)"
  shows "io_keeps R (io_map_list f xs)"
  by (induction xs) (auto intro!: io_keeps_intros assms)

lemma io_keeps_ok [io_keeps_intros]:
  "reflp R \<Longrightarrow> transp R \<Longrightarrow> io_keeps R m \<Longrightarrow> io_keeps R (io_ok m)"
  unfolding io_ok_def by (intro io_keeps_intros)

lemma io_keeps_is_ok [io_keeps_intros]:
  "reflp R \<Longrightarrow> transp R \<Longrightarrow> io_keeps R m \<Longrightarrow> io_keeps R (io_is_ok m)"
  unfolding io_is_ok_def by (intro io_keeps_intros)

lemma io_keeps_all [io_keeps_intros]:
  assumes "reflp R" and "transp R" and "\<And>x. io_keeps R (f x)"
  shows "io_keeps R (io_all f xs)"
  by (induction xs) (auto intro!: io_keeps_intros assms)

lemma io_keeps_filter_map [io_keeps_intros]:
  assumes "reflp R" and "transp R" and "\<And>x. io_keeps R (f x)"
  shows "io_keeps R (io_filter_map f xs)"
  by (induction xs) (auto intro!: io_keeps_intros assms)

lemma io_keeps_if [io_keeps_intros]:
  "(b \<Longrightarrow> io_keeps R m) \<Longrightarrow> (\<not> b \<Longrightarrow> io_keeps R n) \<Longrightarrow> io_keeps R (if b then m else n)"
  by simp

subsection \<open>Computations that cannot fail\<close>

definition io_total :: "('w, 'e, 'a) io \<Rightarrow> bool" where
  "io_total m \<longleftrightarrow> (\<forall>w. is_ok (fst (m w)))"

lemma io_total_ret [simp]: "io_total (io_ret a)"
  by (simp add: io_total_def io_ret_apply)

lemma io_total_try: "(\<And>r. io_total (f r)) \<Longrightarrow> io_total (io_try m f)"
  by (simp add: io_total_def io_try_def split: prod.split)

lemma io_total_bind: "io_total m \<Longrightarrow> (\<And>a. io_total (f a)) \<Longrightarrow> io_total (io_bind m f)"
  unfolding io_total_def io_bind_def by (auto split: prod.split sum.split) (metis fst_conv is_ok_simps(1))

lemma io_total_all: "(\<And>x. io_total (f x)) \<Longrightarrow> io_total (io_all f xs)"
  by (induction xs) (auto intro!: io_total_bind)

lemma io_total_then: "io_total m \<Longrightarrow> io_total n \<Longrightarrow> io_total (io_then m n)"
  by (simp add: io_then_def io_total_bind)

lemma io_total_ok: "io_total (io_ok m)"
  unfolding io_ok_def by (intro io_total_try io_total_ret)

lemma io_totalE:
  assumes "io_total m" obtains a w' where "m w = (Inr a, w')"
  using assms that by (cases "m w"; cases "fst (m w)") (auto simp: io_total_def dest: spec [of _ w])

end
