(* ===== verification/Rust_Text.thy ===== *)
theory Rust_Text
  imports Asense_Prelude
begin

text \<open>
  The operations of Rust's \<open>str\<close> the program uses, on UTF-8 byte strings: a Rust \<open>String\<close> is
  the list of its bytes (a HOL \<open>char\<close> is a byte), so \<open>length\<close> is Rust's \<open>len()\<close>. Splitting,
  trimming, the integer parsers of \<open>core::num\<close>, decimal and hexadecimal printing, UTF-8
  validity and decomposition into characters, with the lemmas by which the wire formats are
  shown to be read back.
\<close>

section \<open>Characters\<close>

definition byte :: "char \<Rightarrow> nat" where "byte c = of_char c"

definition is_digit :: "char \<Rightarrow> bool" where "is_digit c \<longleftrightarrow> 48 \<le> byte c \<and> byte c \<le> 57"
definition is_lower :: "char \<Rightarrow> bool" where "is_lower c \<longleftrightarrow> 97 \<le> byte c \<and> byte c \<le> 122"
definition is_upper :: "char \<Rightarrow> bool" where "is_upper c \<longleftrightarrow> 65 \<le> byte c \<and> byte c \<le> 90"
definition is_alnum :: "char \<Rightarrow> bool" where "is_alnum c \<longleftrightarrow> is_digit c \<or> is_lower c \<or> is_upper c"

definition is_hexdigit :: "char \<Rightarrow> bool" where
  "is_hexdigit c \<longleftrightarrow> is_digit c \<or> (97 \<le> byte c \<and> byte c \<le> 102) \<or> (65 \<le> byte c \<and> byte c \<le> 70)"

text \<open>\<open>u8::is_ascii_whitespace\<close>: space, tab, line feed, form feed, carriage return.\<close>

definition is_ascii_ws :: "char \<Rightarrow> bool" where
  "is_ascii_ws c \<longleftrightarrow> byte c \<in> {32, 9, 10, 12, 13}"

text \<open>Printable ASCII other than space: the characters of every wire token.\<close>

definition graphic :: "char \<Rightarrow> bool" where "graphic c \<longleftrightarrow> 33 \<le> byte c \<and> byte c \<le> 126"

definition to_lower :: "char \<Rightarrow> char" where
  "to_lower c = (if is_upper c then char_of (byte c + 32) else c)"

definition to_upper :: "char \<Rightarrow> char" where
  "to_upper c = (if is_lower c then char_of (byte c - 32) else c)"

definition ascii_lower :: "string \<Rightarrow> string" where "ascii_lower s = map to_lower s"
definition ascii_upper :: "string \<Rightarrow> string" where "ascii_upper s = map to_upper s"

definition eq_ignore_case :: "string \<Rightarrow> string \<Rightarrow> bool" where
  "eq_ignore_case a b \<longleftrightarrow> ascii_lower a = ascii_lower b"

named_theorems char_defs \<open>the character classes\<close>

lemmas [char_defs] = byte_def is_digit_def is_lower_def is_upper_def is_alnum_def
  is_hexdigit_def is_ascii_ws_def graphic_def

lemma byte_char_of [simp]: "n < 256 \<Longrightarrow> byte (char_of n) = n"
  by (simp add: byte_def)

lemma digit_graphic: "is_digit c \<Longrightarrow> graphic c"
  by (simp add: is_digit_def graphic_def)

lemma alnum_graphic: "is_alnum c \<Longrightarrow> graphic c"
  by (auto simp: is_alnum_def is_digit_def is_lower_def is_upper_def graphic_def)

lemma hexdigit_graphic: "is_hexdigit c \<Longrightarrow> graphic c"
  by (auto simp: is_hexdigit_def is_digit_def graphic_def)

lemma graphic_not_ws: "graphic c \<Longrightarrow> \<not> is_ascii_ws c"
  by (auto simp: graphic_def is_ascii_ws_def)

section \<open>Splitting and joining\<close>

text \<open>\<open>str::split\<close> by a character class: every separator ends a field, empty fields kept.\<close>

fun split_on :: "(char \<Rightarrow> bool) \<Rightarrow> string \<Rightarrow> string list" where
  "split_on p [] = [[]]"
| "split_on p (c # cs) =
     (if p c then [] # split_on p cs
      else (case split_on p cs of [] \<Rightarrow> [[c]] | f # fs \<Rightarrow> (c # f) # fs))"

definition split_char :: "char \<Rightarrow> string \<Rightarrow> string list" where
  "split_char c = split_on (\<lambda>d. d = c)"

definition split_ascii_ws :: "string \<Rightarrow> string list" where
  "split_ascii_ws s = filter (\<lambda>t. t \<noteq> []) (split_on is_ascii_ws s)"

fun join_with :: "string \<Rightarrow> string list \<Rightarrow> string" where
  "join_with sep [] = []"
| "join_with sep [t] = t"
| "join_with sep (t # u # ts) = t @ sep @ join_with sep (u # ts)"

definition split_once :: "char \<Rightarrow> string \<Rightarrow> (string \<times> string) option" where
  "split_once c s = (case dropWhile (\<lambda>d. d \<noteq> c) s of
      [] \<Rightarrow> None | _ # rest \<Rightarrow> Some (takeWhile (\<lambda>d. d \<noteq> c) s, rest))"

definition strip_pre :: "string \<Rightarrow> string \<Rightarrow> string option" where
  "strip_pre pre s = (if prefix pre s then Some (drop (length pre) s) else None)"

definition strip_suf :: "string \<Rightarrow> string \<Rightarrow> string option" where
  "strip_suf suf s = (if suffix suf s then Some (take (length s - length suf) s) else None)"

text \<open>\<open>str::lines\<close>: fields ended by a line feed, a trailing carriage return dropped, no
  last empty field.\<close>

definition drop_cr :: "string \<Rightarrow> string" where
  "drop_cr l = (if l \<noteq> [] \<and> last l = CHR 0x0D then butlast l else l)"

definition str_lines :: "string \<Rightarrow> string list" where
  "str_lines s = (let fs = split_char (CHR 0x0A) s in
     map drop_cr (butlast fs) @ (if last fs = [] then [] else [last fs]))"

text \<open>\<open>str::contains\<close> of a literal: some suffix starts with it.\<close>

definition str_contains :: "string \<Rightarrow> string \<Rightarrow> bool" where
  "str_contains s pat \<longleftrightarrow> (\<exists>t \<in> set (suffixes s). prefix pat t)"

lemma split_on_nonempty [simp]: "split_on p s \<noteq> []"
  by (induction s) (auto split: list.splits)

lemma split_on_free: "\<forall>c \<in> set s. \<not> p c \<Longrightarrow> split_on p s = [s]"
  by (induction s) auto

lemma split_on_append_sep:
  "\<forall>d \<in> set t. \<not> p d \<Longrightarrow> p c \<Longrightarrow> split_on p (t @ c # s) = t # split_on p s"
  by (induction t) auto

lemma split_on_join:
  assumes "ts \<noteq> []" and "p c" and "\<forall>t \<in> set ts. \<forall>d \<in> set t. \<not> p d"
  shows "split_on p (join_with [c] ts) = ts"
  using assms
proof (induction "[c]" ts rule: join_with.induct)
  case 1
  then show ?case by simp
next
  case (2 t)
  then show ?case by (simp add: split_on_free)
next
  case (3 t u ts)
  then show ?case by (simp add: split_on_append_sep)
qed

lemma split_on_fields_free: "f \<in> set (split_on p s) \<Longrightarrow> d \<in> set f \<Longrightarrow> \<not> p d"
proof (induction s arbitrary: f d)
  case Nil
  then show ?case by simp
next
  case (Cons c cs)
  obtain g gs where gs: "split_on p cs = g # gs"
    by (cases "split_on p cs") auto
  show ?case
    using Cons.prems Cons.IH gs by (cases "p c") (auto, blast+)
qed

lemma split_on_chars: "f \<in> set (split_on p s) \<Longrightarrow> set f \<subseteq> set s"
proof (induction s arbitrary: f)
  case Nil
  then show ?case by simp
next
  case (Cons c cs)
  obtain g gs where gs: "split_on p cs = g # gs"
    by (cases "split_on p cs") auto
  show ?case
    using Cons.prems Cons.IH gs by (fastforce split: if_splits)
qed

definition token :: "string \<Rightarrow> bool" where
  "token t \<longleftrightarrow> t \<noteq> [] \<and> (\<forall>c \<in> set t. graphic c)"

lemma tokenD: "token t \<Longrightarrow> t \<noteq> []" "token t \<Longrightarrow> c \<in> set t \<Longrightarrow> graphic c"
  by (auto simp: token_def)

lemma token_no_ws: "token t \<Longrightarrow> c \<in> set t \<Longrightarrow> \<not> is_ascii_ws c"
  by (auto dest: tokenD(2) graphic_not_ws)

text \<open>A line of graphic tokens separated by single spaces is split back into its tokens.\<close>

lemma split_ascii_ws_tokens:
  assumes "\<forall>t \<in> set ts. token t"
  shows "split_ascii_ws (join_with '' '' ts) = ts"
proof (cases "ts = []")
  case True
  then show ?thesis by (simp add: split_ascii_ws_def)
next
  case False
  have "split_on is_ascii_ws (join_with '' '' ts) = ts"
    by (rule split_on_join [OF False])
      (use assms token_no_ws in \<open>auto simp: is_ascii_ws_def byte_def\<close>)
  moreover have "filter (\<lambda>t. t \<noteq> []) ts = ts"
    using assms by (auto simp: filter_id_conv token_def)
  ultimately show ?thesis by (simp add: split_ascii_ws_def)
qed

lemma split_char_join:
  "ts \<noteq> [] \<Longrightarrow> \<forall>t \<in> set ts. c \<notin> set t \<Longrightarrow> split_char c (join_with [c] ts) = ts"
  unfolding split_char_def by (rule split_on_join) auto

lemma split_once_append:
  "c \<notin> set a \<Longrightarrow> split_once c (a @ c # b) = Some (a, b)"
proof -
  assume c: "c \<notin> set a"
  have "takeWhile (\<lambda>d. d \<noteq> c) (a @ c # b) = a @ takeWhile (\<lambda>d. d \<noteq> c) (c # b)"
    by (rule takeWhile_append2) (use c in auto)
  moreover have "dropWhile (\<lambda>d. d \<noteq> c) (a @ c # b) = dropWhile (\<lambda>d. d \<noteq> c) (c # b)"
    by (rule dropWhile_append2) (use c in auto)
  ultimately show ?thesis by (simp add: split_once_def)
qed

lemma split_once_Some:
  assumes "split_once c s = Some (a, b)"
  shows "s = a @ c # b" and "c \<notin> set a"
proof -
  obtain d where d: "dropWhile (\<lambda>d. d \<noteq> c) s = d # b" and a: "a = takeWhile (\<lambda>d. d \<noteq> c) s"
    using assms by (auto simp: split_once_def split: list.splits)
  have "d = c" using hd_dropWhile [of "\<lambda>d. d \<noteq> c" s] d by simp
  moreover have "s = takeWhile (\<lambda>d. d \<noteq> c) s @ dropWhile (\<lambda>d. d \<noteq> c) s" by simp
  ultimately show "s = a @ c # b" using a d by simp
  from a show "c \<notin> set a" by (auto dest: set_takeWhileD)
qed

lemma strip_pre_append [simp]: "strip_pre p (p @ s) = Some s"
  by (simp add: strip_pre_def)

lemma strip_pre_Some: "strip_pre p s = Some t \<Longrightarrow> s = p @ t"
  by (auto simp: strip_pre_def prefix_def split: if_splits)

section \<open>Trimming\<close>

text \<open>
  \<open>str::trim\<close> removes Unicode \<open>White_Space\<close>: the ASCII controls 9 to 13 and space, and the
  two- and three-byte encodings of U+0085, U+00A0, U+1680, U+2000 to U+200A, U+2028, U+2029,
  U+202F, U+205F and U+3000. \<open>ws_len\<close> is the number of bytes of a white-space character at
  the head of a string, 0 if there is none; \<open>ws_len_rev\<close> reads a reversed string.
\<close>

definition ws2 :: "nat \<Rightarrow> nat \<Rightarrow> bool" where
  "ws2 a b \<longleftrightarrow> a = 0xC2 \<and> (b = 0x85 \<or> b = 0xA0)"

definition ws3 :: "nat \<Rightarrow> nat \<Rightarrow> nat \<Rightarrow> bool" where
  "ws3 a b c \<longleftrightarrow> (a = 0xE1 \<and> b = 0x9A \<and> c = 0x80)
     \<or> (a = 0xE2 \<and> b = 0x80 \<and> ((0x80 \<le> c \<and> c \<le> 0x8A) \<or> c = 0xA8 \<or> c = 0xA9 \<or> c = 0xAF))
     \<or> (a = 0xE2 \<and> b = 0x81 \<and> c = 0x9F) \<or> (a = 0xE3 \<and> b = 0x80 \<and> c = 0x80)"

definition ws1 :: "nat \<Rightarrow> bool" where "ws1 a \<longleftrightarrow> (9 \<le> a \<and> a \<le> 13) \<or> a = 32"

definition ws_len :: "string \<Rightarrow> nat" where
  "ws_len s = (case s of [] \<Rightarrow> 0
     | a # r \<Rightarrow> if ws1 (byte a) then 1 else (case r of [] \<Rightarrow> 0
         | b # r' \<Rightarrow> if ws2 (byte a) (byte b) then 2 else (case r' of [] \<Rightarrow> 0
             | c # _ \<Rightarrow> if ws3 (byte a) (byte b) (byte c) then 3 else 0)))"

definition ws_len_rev :: "string \<Rightarrow> nat" where
  "ws_len_rev s = (case s of [] \<Rightarrow> 0
     | a # r \<Rightarrow> if ws1 (byte a) then 1 else (case r of [] \<Rightarrow> 0
         | b # r' \<Rightarrow> if ws2 (byte b) (byte a) then 2 else (case r' of [] \<Rightarrow> 0
             | c # _ \<Rightarrow> if ws3 (byte c) (byte b) (byte a) then 3 else 0)))"

lemma ws_len_le: "ws_len s \<le> length s" and ws_len_rev_le: "ws_len_rev s \<le> length s"
  by (auto simp: ws_len_def ws_len_rev_def split: list.splits)

function drop_ws :: "(string \<Rightarrow> nat) \<Rightarrow> string \<Rightarrow> string" where
  "drop_ws f s = (if f s = 0 \<or> s = [] then s else drop_ws f (drop (f s) s))"
  by pat_completeness auto
termination
  by (relation "measure (\<lambda>(f, s). length s)") auto

declare drop_ws.simps [simp del]

definition trim_start :: "string \<Rightarrow> string" where "trim_start s = drop_ws ws_len s"
definition trim_end :: "string \<Rightarrow> string" where "trim_end s = rev (drop_ws ws_len_rev (rev s))"
definition str_trim :: "string \<Rightarrow> string" where "str_trim s = trim_end (trim_start s)"

lemma graphic_ws_len: "graphic c \<Longrightarrow> ws_len (c # s) = 0"
  by (auto simp: ws_len_def graphic_def ws1_def ws2_def ws3_def split: list.splits)

lemma graphic_ws_len_rev: "graphic c \<Longrightarrow> ws_len_rev (c # s) = 0"
  by (auto simp: ws_len_rev_def graphic_def ws1_def ws2_def ws3_def split: list.splits)

lemma drop_ws_stop: "f s = 0 \<Longrightarrow> drop_ws f s = s"
  by (subst drop_ws.simps) simp

lemma drop_ws_step: "f s \<noteq> 0 \<Longrightarrow> s \<noteq> [] \<Longrightarrow> drop_ws f s = drop_ws f (drop (f s) s)"
  by (subst drop_ws.simps) simp

lemma drop_ws_Nil [simp]: "drop_ws f [] = []"
  by (subst drop_ws.simps) simp

text \<open>Text whose first and last characters are graphic is unchanged by \<open>trim\<close>.\<close>

definition trimmed :: "string \<Rightarrow> bool" where
  "trimmed s \<longleftrightarrow> s = [] \<or> (graphic (hd s) \<and> graphic (last s))"

lemma str_trim_trimmed: "trimmed s \<Longrightarrow> str_trim s = s"
proof (cases "s = []")
  case True
  then show ?thesis by (simp add: str_trim_def trim_start_def trim_end_def)
next
  case False
  assume "trimmed s"
  with False have h: "graphic (hd s)" and l: "graphic (last s)"
    by (auto simp: trimmed_def)
  from False h have "ws_len s = 0"
    by (cases s) (auto simp: graphic_ws_len)
  then have "trim_start s = s" by (simp add: trim_start_def drop_ws_stop)
  moreover from False l have "ws_len_rev (rev s) = 0"
    by (metis graphic_ws_len_rev hd_Cons_tl hd_rev rev_is_Nil_conv)
  then have "trim_end s = s" by (simp add: trim_end_def drop_ws_stop)
  ultimately show ?thesis by (simp add: str_trim_def)
qed

lemma trim_end_newline:
  assumes "s = [] \<or> graphic (last s)"
  shows "trim_end (s @ [CHR 0x0A]) = s"
proof -
  have one: "ws_len_rev (CHR 0x0A # rev s) = 1"
    by (simp add: ws_len_rev_def ws1_def byte_def)
  have "ws_len_rev (rev s) = 0"
  proof (cases "s = []")
    case True
    then show ?thesis by (simp add: ws_len_rev_def)
  next
    case False
    with assms show ?thesis
      by (metis graphic_ws_len_rev hd_Cons_tl hd_rev rev_is_Nil_conv)
  qed
  then show ?thesis
    by (simp add: trim_end_def drop_ws_step one drop_ws_stop)
qed

lemma str_trim_newline:
  assumes "trimmed s" shows "str_trim (s @ [CHR 0x0A]) = s"
proof (cases "s = []")
  case True
  have "ws_len [CHR 0x0A] = 1" by (simp add: ws_len_def ws1_def byte_def)
  with True show ?thesis
    by (simp add: str_trim_def trim_start_def trim_end_def drop_ws_step)
next
  case False
  with assms have "ws_len (s @ [CHR 0x0A]) = 0"
    by (cases s) (auto simp: graphic_ws_len trimmed_def)
  then have "trim_start (s @ [CHR 0x0A]) = s @ [CHR 0x0A]"
    by (simp add: trim_start_def drop_ws_stop)
  with assms False show ?thesis
    by (simp add: str_trim_def trim_end_newline trimmed_def)
qed

lemma token_trimmed: "token t \<Longrightarrow> trimmed t"
  by (auto simp: token_def trimmed_def)

lemma str_trim_token [simp]: "token t \<Longrightarrow> str_trim t = t"
  by (simp add: token_trimmed str_trim_trimmed)

section \<open>Numbers\<close>

definition digit_val :: "nat \<Rightarrow> char \<Rightarrow> nat option" where
  "digit_val radix c = (let v = (if is_digit c then byte c - 48
       else if is_lower c then byte c - 87 else if is_upper c then byte c - 55 else radix)
     in if v < radix then Some v else None)"

definition strip_plus :: "string \<Rightarrow> string" where
  "strip_plus s = (case s of a # b # r \<Rightarrow> if a = CHR ''+'' then b # r else s | _ \<Rightarrow> s)"

definition digits_value :: "nat \<Rightarrow> nat list \<Rightarrow> nat" where
  "digits_value radix ds = foldl (\<lambda>a d. a * radix + d) 0 ds"

text \<open>
  \<open>uN::from_str_radix\<close> and \<open>str::parse::<uN>\<close>: one leading \<open>+\<close> is accepted before at least
  one digit, any number of leading zeros, and a value above the type's maximum is an error.
\<close>

definition parse_uint :: "nat \<Rightarrow> nat \<Rightarrow> string \<Rightarrow> nat option" where
  "parse_uint radix mx s = (if s = [] then None else
     (case those (map (digit_val radix) (strip_plus s)) of None \<Rightarrow> None
      | Some ds \<Rightarrow> if digits_value radix ds \<le> mx then Some (digits_value radix ds) else None))"

definition parse_u8 :: "string \<Rightarrow> u8 option" where
  "parse_u8 s = map_option of_nat (parse_uint 10 u8_max s)"
definition parse_u16 :: "string \<Rightarrow> u16 option" where
  "parse_u16 s = map_option of_nat (parse_uint 10 u16_max s)"
definition parse_u32 :: "string \<Rightarrow> u32 option" where
  "parse_u32 s = map_option of_nat (parse_uint 10 u32_max s)"
definition parse_u64 :: "string \<Rightarrow> u64 option" where
  "parse_u64 s = map_option of_nat (parse_uint 10 u64_max s)"

text \<open>\<open>str::parse::<i32>\<close>, \<open>str::parse::<i64>\<close>: a leading minus sign reaches one further.\<close>

definition parse_sint :: "nat \<Rightarrow> string \<Rightarrow> int option" where
  "parse_sint bits s = (case s of
      CHR ''-'' # d # r \<Rightarrow> (if d = CHR ''+'' then None else
         map_option (\<lambda>n. - int n) (parse_uint 10 (2 ^ (bits - 1)) (d # r)))
    | _ \<Rightarrow> map_option int (parse_uint 10 (2 ^ (bits - 1) - 1) s))"

definition digit_char :: "nat \<Rightarrow> char" where
  "digit_char d = (if d < 10 then char_of (48 + d) else char_of (87 + d))"

fun show_radix :: "nat \<Rightarrow> nat \<Rightarrow> string" where
  "show_radix radix n = (if radix < 2 \<or> n < radix then [digit_char n]
     else show_radix radix (n div radix) @ [digit_char (n mod radix)])"

declare show_radix.simps [simp del]

definition show_nat :: "nat \<Rightarrow> string" where "show_nat n = show_radix 10 n"
definition show_hex :: "nat \<Rightarrow> string" where "show_hex n = show_radix 16 n"

definition show_word :: "'a::len word \<Rightarrow> string" where "show_word w = show_nat (unat w)"

text \<open>\<open>format!("{:02x}")\<close> of a byte and of three bytes.\<close>

definition hex2 :: "u8 \<Rightarrow> string" where
  "hex2 w = [digit_char (unat w div 16), digit_char (unat w mod 16)]"

definition hex_rgb :: "rgb \<Rightarrow> string" where
  "hex_rgb c = hex2 (fst c) @ hex2 (fst (snd c)) @ hex2 (snd (snd c))"

lemma digit_val_char: "radix \<le> 16 \<Longrightarrow> d < radix \<Longrightarrow> digit_val radix (digit_char d) = Some d"
  by (auto simp: digit_val_def digit_char_def is_digit_def is_lower_def is_upper_def Let_def)

lemma digit_char_hexdigit: "d < 16 \<Longrightarrow> is_hexdigit (digit_char d)"
  by (auto simp: digit_char_def is_hexdigit_def is_digit_def)

lemma digit_char_digit: "d < 10 \<Longrightarrow> is_digit (digit_char d)"
  by (auto simp: digit_char_def is_digit_def)

lemma digits_value_snoc: "digits_value r (ds @ [d]) = digits_value r ds * r + d"
  by (simp add: digits_value_def)

lemma those_append: "those (xs @ ys) =
   (case those xs of None \<Rightarrow> None | Some a \<Rightarrow> map_option (\<lambda>b. a @ b) (those ys))"
proof (induction xs)
  case Nil
  then show ?case by (cases "those ys") simp_all
next
  case (Cons x xs)
  then show ?case
    by (cases x; cases "those xs"; cases "those ys") simp_all
qed

lemma show_radix_digits:
  assumes "2 \<le> r" "r \<le> 16"
  shows "\<exists>ds. those (map (digit_val r) (show_radix r n)) = Some ds \<and> digits_value r ds = n"
  using assms
proof (induction r n rule: show_radix.induct)
  case (1 r n)
  show ?case
  proof (cases "n < r")
    case True
    with 1 show ?thesis
      by (auto simp: show_radix.simps [of r n] digit_val_char digits_value_def)
  next
    case False
    with 1 obtain ds where "those (map (digit_val r) (show_radix r (n div r))) = Some ds"
      and "digits_value r ds = n div r" by auto
    with 1 False show ?thesis
      by (auto simp: show_radix.simps [of r n] those_append digit_val_char digits_value_snoc)
  qed
qed

lemma show_radix_chars:
  "2 \<le> r \<Longrightarrow> r \<le> 16 \<Longrightarrow> c \<in> set (show_radix r n) \<Longrightarrow> \<exists>d < r. c = digit_char d"
proof (induction r n rule: show_radix.induct)
  case (1 r n)
  have m: "n mod r < r" using 1 by simp
  show ?case
  proof (cases "n < r")
    case True
    with 1 show ?thesis by (auto simp: show_radix.simps [of r n])
  next
    case False
    with 1 consider "c = digit_char (n mod r)" | "c \<in> set (show_radix r (n div r))"
      by (auto simp: show_radix.simps [of r n])
    then show ?thesis
    proof cases
      case 1
      with m show ?thesis by blast
    next
      case 2
      then show ?thesis using "1.IH" "1.prems" False by auto
    qed
  qed
qed

lemma show_radix_nonempty [simp]: "show_radix r n \<noteq> []"
  by (subst show_radix.simps) simp

lemma strip_plus_id: "hd s \<noteq> CHR ''+'' \<Longrightarrow> strip_plus s = s"
  by (auto simp: strip_plus_def split: list.splits)

lemma digit_char_not_plus: "d < 16 \<Longrightarrow> digit_char d \<noteq> CHR ''+''"
proof
  assume "d < 16" and "digit_char d = CHR ''+''"
  then have "byte (digit_char d) = 43" by (simp add: byte_def)
  with \<open>d < 16\<close> show False by (auto simp: digit_char_def split: if_splits)
qed

lemma parse_show_radix:
  assumes "2 \<le> r" "r \<le> 16"
  shows "parse_uint r mx (show_radix r n) = (if n \<le> mx then Some n else None)"
proof -
  obtain ds where ds: "those (map (digit_val r) (show_radix r n)) = Some ds"
    and v: "digits_value r ds = n"
    using show_radix_digits [OF assms] by blast
  have "hd (show_radix r n) \<in> set (show_radix r n)" by simp
  from show_radix_chars [OF assms this] obtain d where
    "d < r" and "hd (show_radix r n) = digit_char d" by blast
  then have "hd (show_radix r n) \<noteq> CHR ''+''"
    using digit_char_not_plus [of d] assms(2) by simp
  then have "strip_plus (show_radix r n) = show_radix r n"
    by (simp add: strip_plus_id)
  with ds v show ?thesis by (simp add: parse_uint_def)
qed

lemma parse_show_nat [simp]:
  "parse_uint 10 mx (show_nat n) = (if n \<le> mx then Some n else None)"
  unfolding show_nat_def by (rule parse_show_radix) auto

lemma parse_show_hex [simp]:
  "parse_uint 16 mx (show_hex n) = (if n \<le> mx then Some n else None)"
  unfolding show_hex_def by (rule parse_show_radix) auto

named_theorems roundtrip \<open>printed values are read back\<close>

lemma parse_u8_show [simp, roundtrip]: "parse_u8 (show_word w) = Some w"
  using unat_u8_le [of w] by (simp add: parse_u8_def show_word_def)

lemma parse_u16_show [simp, roundtrip]: "parse_u16 (show_word w) = Some w"
  using unat_u16_le [of w] by (simp add: parse_u16_def show_word_def)

lemma parse_u32_show [simp, roundtrip]: "parse_u32 (show_word w) = Some w"
  using unat_u32_le [of w] by (simp add: parse_u32_def show_word_def)

lemma parse_u64_show [simp, roundtrip]: "parse_u64 (show_word w) = Some w"
  using unat_u64_le [of w] by (simp add: parse_u64_def show_word_def)

lemma parse_uint_le: "parse_uint r mx s = Some n \<Longrightarrow> n \<le> mx"
  by (auto simp: parse_uint_def split: if_splits option.splits)

lemma show_nat_digits: "c \<in> set (show_nat n) \<Longrightarrow> is_digit c"
  unfolding show_nat_def using show_radix_chars [of 10 c n] digit_char_digit by fastforce

lemma show_hex_digits: "c \<in> set (show_hex n) \<Longrightarrow> is_hexdigit c"
  unfolding show_hex_def using show_radix_chars [of 16 c n] digit_char_hexdigit by fastforce

lemma show_nat_nonempty [simp]: "show_nat n \<noteq> []"
  by (simp add: show_nat_def)

lemma show_hex_nonempty [simp]: "show_hex n \<noteq> []"
  by (simp add: show_hex_def)

lemma token_show_nat [simp]: "token (show_nat n)"
  by (auto simp: token_def dest: show_nat_digits digit_graphic)

lemma token_show_hex [simp]: "token (show_hex n)"
  by (auto simp: token_def dest: show_hex_digits hexdigit_graphic)

lemma token_show_word [simp]: "token (show_word w)"
  by (simp add: show_word_def)

lemma show_nat_no_sep: "\<not> is_digit c \<Longrightarrow> c \<notin> set (show_nat n)"
  by (auto dest: show_nat_digits)

text \<open>The number of digits is bounded by the magnitude.\<close>

lemma show_radix_length: "2 \<le> r \<Longrightarrow> n < r ^ Suc k \<Longrightarrow> length (show_radix r n) \<le> Suc k"
proof (induction k arbitrary: n)
  case 0
  then show ?case by (subst show_radix.simps) simp
next
  case (Suc k)
  then have "n div r < r ^ Suc k"
    by (metis less_mult_imp_div_less mult.commute power_Suc)
  with Suc show ?case by (subst show_radix.simps) simp
qed

lemma hex2_chars: "c \<in> set (hex2 w) \<Longrightarrow> is_hexdigit c"
proof -
  have "unat w div 16 < 16" using unat_u8_le [of w] by (simp add: u8_max_def)
  then show "c \<in> set (hex2 w) \<Longrightarrow> is_hexdigit c"
    by (auto simp: hex2_def digit_char_hexdigit)
qed

lemma length_hex2 [simp]: "length (hex2 w) = 2"
  by (simp add: hex2_def)

lemma parse_hex2 [simp, roundtrip]: "parse_uint 16 u8_max (hex2 w) = Some (unat w)"
proof -
  have lt: "unat w div 16 < 16" using unat_u8_le [of w] by (simp add: u8_max_def)
  have "strip_plus (hex2 w) = hex2 w"
    by (rule strip_plus_id) (simp add: hex2_def digit_char_not_plus lt)
  moreover have "those (map (digit_val 16) (hex2 w)) = Some [unat w div 16, unat w mod 16]"
    by (simp add: hex2_def digit_val_char lt)
  moreover have "digits_value 16 [unat w div 16, unat w mod 16] = unat w"
    by (simp add: digits_value_def)
  ultimately show ?thesis
    using unat_u8_le [of w] by (simp add: parse_uint_def hex2_def)
qed

lemma hex_rgb_chars: "c \<in> set (hex_rgb x) \<Longrightarrow> is_hexdigit c"
  by (auto simp: hex_rgb_def dest: hex2_chars)

lemma length_hex_rgb [simp]: "length (hex_rgb x) = 6"
  by (simp add: hex_rgb_def)

lemma token_hex_rgb [simp]: "token (hex_rgb x)"
  by (auto simp: token_def hex_rgb_def dest: hex2_chars hexdigit_graphic) (simp add: hex2_def)

section \<open>Colours\<close>

text \<open>The six-digit RRGGBB reading that \<open>daemon.rs\<close>, \<open>lighting.rs\<close> and \<open>platform.rs\<close> share.\<close>

definition rgb_of_hex :: "string \<Rightarrow> rgb option" where
  "rgb_of_hex s = (if length s \<noteq> 6 \<or> \<not> list_all is_hexdigit s then None else
     (case (parse_uint 16 u8_max (take 2 s), parse_uint 16 u8_max (take 2 (drop 2 s)),
            parse_uint 16 u8_max (drop 4 s)) of
       (Some r, Some g, Some b) \<Rightarrow> Some (of_nat r, of_nat g, of_nat b)
     | _ \<Rightarrow> None))"

lemma rgb_of_hex_rgb [simp, roundtrip]: "rgb_of_hex (hex_rgb c) = Some c"
proof -
  obtain r g b where c: "c = (r, g, b)" by (cases c) auto
  have "list_all is_hexdigit (hex_rgb c)"
    by (auto simp: list_all_iff dest: hex_rgb_chars)
  moreover have "take 2 (hex_rgb c) = hex2 r" "take 2 (drop 2 (hex_rgb c)) = hex2 g"
    "drop 4 (hex_rgb c) = hex2 b"
    by (simp_all add: c hex_rgb_def)
  ultimately show ?thesis by (simp add: rgb_of_hex_def c)
qed

section \<open>UTF-8\<close>

definition cont :: "char \<Rightarrow> bool" where "cont c \<longleftrightarrow> 0x80 \<le> byte c \<and> byte c \<le> 0xBF"

text \<open>Width of the character a lead byte announces; 0 for a byte that starts none.\<close>

definition lead_width :: "char \<Rightarrow> nat" where
  "lead_width c = (if byte c < 0x80 then 1 else if byte c < 0xC2 then 0
     else if byte c < 0xE0 then 2 else if byte c < 0xF0 then 3
     else if byte c < 0xF5 then 4 else 0)"

definition utf8_second_ok :: "char \<Rightarrow> char \<Rightarrow> bool" where
  "utf8_second_ok a b \<longleftrightarrow> cont b \<and> (byte a = 0xE0 \<longrightarrow> 0xA0 \<le> byte b) \<and> (byte a = 0xED \<longrightarrow> byte b \<le> 0x9F)
     \<and> (byte a = 0xF0 \<longrightarrow> 0x90 \<le> byte b) \<and> (byte a = 0xF4 \<longrightarrow> byte b \<le> 0x8F)"

definition utf8_head_ok :: "string \<Rightarrow> bool" where
  "utf8_head_ok s = (case s of [] \<Rightarrow> False | a # r \<Rightarrow>
     lead_width a \<noteq> 0 \<and> lead_width a \<le> length s \<and>
     (lead_width a = 1 \<or> utf8_second_ok a (hd r)) \<and>
     list_all cont (take (lead_width a - 1) r))"

text \<open>\<open>str::from_utf8\<close> and \<open>str::chars\<close>: a valid string is a sequence of well-formed
  character encodings; \<open>utf8_chars\<close> returns them, \<open>None\<close> for an invalid string.\<close>

function utf8_chars :: "string \<Rightarrow> string list option" where
  "utf8_chars s = (if s = [] then Some []
     else if utf8_head_ok s
       then map_option (\<lambda>cs. take (lead_width (hd s)) s # cs) (utf8_chars (drop (lead_width (hd s)) s))
     else None)"
  by pat_completeness auto
termination
  by (relation "measure length") (auto simp: utf8_head_ok_def split: list.splits)

declare utf8_chars.simps [simp del]

definition utf8_valid :: "string \<Rightarrow> bool" where "utf8_valid s \<longleftrightarrow> utf8_chars s \<noteq> None"

text \<open>\<open>String::from_utf8_lossy\<close>: each maximal invalid prefix of a character becomes U+FFFD.\<close>

definition utf8_bad_len :: "string \<Rightarrow> nat" where
  "utf8_bad_len s = (case s of [] \<Rightarrow> 0 | a # r \<Rightarrow>
     if lead_width a \<le> 1 \<or> r = [] \<or> \<not> utf8_second_ok a (hd r) then 1
     else 1 + length (takeWhile cont (take (lead_width a - 1) r)))"

function utf8_lossy :: "string \<Rightarrow> string" where
  "utf8_lossy s = (if s = [] then []
     else if utf8_head_ok s then take (lead_width (hd s)) s @ utf8_lossy (drop (lead_width (hd s)) s)
     else [CHR 0xEF, CHR 0xBF, CHR 0xBD] @ utf8_lossy (drop (utf8_bad_len s) s))"
  by pat_completeness auto
termination
  by (relation "measure length") (auto simp: utf8_head_ok_def utf8_bad_len_def split: list.splits)

declare utf8_lossy.simps [simp del]

lemma utf8_chars_Nil [simp]: "utf8_chars [] = Some []"
  by (subst utf8_chars.simps) simp

lemma utf8_chars_ascii_Cons:
  "byte c < 0x80 \<Longrightarrow> utf8_chars (c # s) = map_option (\<lambda>cs. [c] # cs) (utf8_chars s)"
  by (subst utf8_chars.simps) (simp add: utf8_head_ok_def lead_width_def)

lemma utf8_chars_ascii: "\<forall>c \<in> set s. byte c < 0x80 \<Longrightarrow> utf8_chars s = Some (map (\<lambda>c. [c]) s)"
  by (induction s) (auto simp: utf8_chars_ascii_Cons)

lemma utf8_chars_concat: "utf8_chars s = Some cs \<Longrightarrow> concat cs = s"
proof (induction s arbitrary: cs rule: utf8_chars.induct)
  case (1 s)
  show ?case
  proof (cases "s = []")
    case True
    with 1 show ?thesis by simp
  next
    case False
    with 1 show ?thesis
      by (auto simp: utf8_chars.simps [of s] split: if_splits)
  qed
qed

lemma utf8_chars_nonempty: "utf8_chars s = Some cs \<Longrightarrow> [] \<notin> set cs"
proof (induction s arbitrary: cs rule: utf8_chars.induct)
  case (1 s)
  show ?case
  proof (cases "s = []")
    case True
    with 1 show ?thesis by simp
  next
    case False
    with 1 show ?thesis
      by (auto simp: utf8_chars.simps [of s] utf8_head_ok_def split: if_splits list.splits)
  qed
qed

lemma graphic_ascii: "graphic c \<Longrightarrow> byte c < 0x80"
  by (simp add: graphic_def)

text \<open>\<open>char::is_control\<close> on an encoded character: U+0000 to U+001F and U+007F to U+009F.\<close>

definition is_control :: "string \<Rightarrow> bool" where
  "is_control ch = (case ch of [a] \<Rightarrow> byte a < 0x20 \<or> byte a = 0x7F
     | [a, b] \<Rightarrow> byte a = 0xC2 \<and> 0x80 \<le> byte b \<and> byte b \<le> 0x9F | _ \<Rightarrow> False)"

text \<open>\<open>s.chars().any(char::is_control)\<close> of a valid string.\<close>

definition has_control :: "string \<Rightarrow> bool" where
  "has_control s = (case utf8_chars s of None \<Rightarrow> False | Some cs \<Rightarrow> list_ex is_control cs)"

lemma graphic_not_control: "graphic c \<Longrightarrow> \<not> is_control [c]"
  by (auto simp: graphic_def is_control_def)

section \<open>Lines of tokens\<close>

lemma token_append: "token s \<Longrightarrow> token t \<Longrightarrow> token (s @ t)"
  by (auto simp: token_def)

lemma token_literal: "s \<noteq> [] \<Longrightarrow> list_all graphic s \<Longrightarrow> token s"
  by (simp add: token_def list_all_iff)

lemma join_snoc: "ts \<noteq> [] \<Longrightarrow> join_with sep ts @ sep @ u = join_with sep (ts @ [u])"
  by (induction sep ts rule: join_with.induct) simp_all

lemma token_comma: "token s \<Longrightarrow> token t \<Longrightarrow> token (s @ CHR '','' # t)"
proof -
  have "graphic (CHR '','')" by (simp add: char_defs)
  then show "token s \<Longrightarrow> token t \<Longrightarrow> token (s @ CHR '','' # t)" by (auto simp: token_def)
qed

lemma token_join_comma: "ts \<noteq> [] \<Longrightarrow> \<forall>t \<in> set ts. token t \<Longrightarrow> token (join_with '','' ts)"
proof (induction "'',''" ts rule: join_with.induct)
  case (3 t u ts)
  then show ?case by (simp add: token_comma)
qed simp_all

lemma token_line: "token t \<Longrightarrow> utf8_valid (t @ ''\<newline>'')" "token t \<Longrightarrow> str_trim (t @ ''\<newline>'') = t"
proof -
  assume t: "token t"
  then have "\<forall>c \<in> set (t @ ''\<newline>''). byte c < 0x80"
    using graphic_ascii by (auto simp: token_def byte_def)
  then show "utf8_valid (t @ ''\<newline>'')" unfolding utf8_valid_def by (subst utf8_chars_ascii) simp_all
  have "CHR 0x0A = CHR ''\<newline>''" by simp
  with str_trim_newline [OF token_trimmed [OF t]] show "str_trim (t @ ''\<newline>'') = t" by metis
qed

section \<open>Evaluation of fixtures\<close>

text \<open>Text of graphic characters is valid and trimmed; numbers are read digit by digit.\<close>

lemma graphic_text:
  assumes "list_all graphic s" shows "utf8_valid s" and "str_trim s = s"
proof -
  from assms have "\<forall>c \<in> set s. byte c < 0x80" by (auto simp: list_all_iff graphic_ascii)
  then show "utf8_valid s" by (simp add: utf8_valid_def utf8_chars_ascii)
  from assms show "str_trim s = s"
    by (intro str_trim_trimmed) (auto simp: trimmed_def list_all_iff)
qed

lemmas number_eval = parse_sint_def parse_u8_def parse_u16_def parse_u32_def parse_u64_def
  parse_uint_def strip_plus_def digit_val_def digits_value_def char_defs
  u8_max_def u16_max_def u32_max_def u64_max_def

lemma show_word_channels:
  "show_word (1 :: u8) = ''1''" "show_word (2 :: u8) = ''2''" "show_word (3 :: u8) = ''3''"
  "show_word (4 :: u8) = ''4''" "show_word (5 :: u8) = ''5''" "show_word (6 :: u8) = ''6''"
  "show_word (7 :: u8) = ''7''" "show_word (8 :: u8) = ''8''"
  by code_simp+

end
