(* ===== verification/Sysfs.thy ===== *)
theory Sysfs
  imports Rust_Text
begin

text \<open>
  The file interface the program drives firmware through. The kernel and its drivers are not
  part of the repository, so they are a parameter: a record \<open>sysfs\<close> of functions on an
  environment state \<open>'e\<close>, which may answer and change state in any way. Every read and write
  of the program goes through \<open>fs_read_to_string\<close>, \<open>fs_write_existing\<close> and \<open>fs_write\<close>, which
  also record the event in the world, so that theorems can speak of the order of firmware
  accesses. Metadata queries are answered by the current environment and are not recorded.
  \<open>tree_sysfs\<close> is the kernel of a plain directory of regular files, the fixture against which
  the program's own \<open>discover_at\<close> entry points are exercised. The WMI group lookup shared by
  the profile, fan, lighting and platform components closes the theory.
\<close>

section \<open>Paths and errors\<close>

type_synonym path = "string list"

definition path_of :: "string \<Rightarrow> path" where
  "path_of s = filter (\<lambda>c. c \<noteq> []) (split_char (CHR ''/'') s)"

definition rooted :: "path \<Rightarrow> string \<Rightarrow> path" where
  "rooted root rel = root @ path_of rel"

definition path_join :: "path \<Rightarrow> string \<Rightarrow> path" where
  "path_join p name = p @ [name]"

definition path_file_name :: "path \<Rightarrow> string option" where
  "path_file_name p = (if p = [] \<or> last p = ''..'' then None else Some (last p))"

text \<open>\<open>std::io::Error\<close>: an operating-system code, or an error without one (invalid UTF-8).\<close>

datatype io_error = Os_error int | Invalid_data

datatype io_kind = NotFound | PermissionDenied | WouldBlock | TimedOut | Interrupted | OtherKind

definition raw_os_error :: "io_error \<Rightarrow> int option" where
  "raw_os_error e = (case e of Os_error n \<Rightarrow> Some n | Invalid_data \<Rightarrow> None)"

definition ENOENT :: int where "ENOENT = 2"
definition ENXIO :: int where "ENXIO = 6"

definition io_error_kind :: "io_error \<Rightarrow> io_kind" where
  "io_error_kind e = (case e of Invalid_data \<Rightarrow> OtherKind
     | Os_error n \<Rightarrow> (if n = 2 then NotFound else if n = 1 \<or> n = 13 then PermissionDenied
         else if n = 11 then WouldBlock else if n = 110 then TimedOut
         else if n = 4 then Interrupted else OtherKind))"

section \<open>The kernel as a parameter\<close>

record 'e sysfs =
  k_read :: "path \<Rightarrow> 'e \<Rightarrow> (io_error + string) \<times> 'e"
  k_write :: "path \<Rightarrow> string \<Rightarrow> 'e \<Rightarrow> (io_error + unit) \<times> 'e"
  k_create :: "path \<Rightarrow> string \<Rightarrow> 'e \<Rightarrow> (io_error + unit) \<times> 'e"
  k_is_file :: "path \<Rightarrow> 'e \<Rightarrow> bool"
  k_is_dir :: "path \<Rightarrow> 'e \<Rightarrow> bool"
  k_read_dir :: "path \<Rightarrow> 'e \<Rightarrow> io_error + string list"
  k_read_link :: "path \<Rightarrow> 'e \<Rightarrow> io_error + path"
  u_upper :: "string \<Rightarrow> string"

text \<open>\<open>u_upper\<close> is the standard library's Unicode upper-casing of one encoded character.\<close>

datatype fs_event =
    Fs_read path "io_error + string"
  | Fs_write path string "io_error + unit"
  | Dev_ioctl path u64 "u8 list"

record 'e world =
  wenv :: 'e
  wlog :: "fs_event list"

type_synonym ('e, 'a) fs_io = "('e world, io_error, 'a) io"

definition fs_read :: "'e sysfs \<Rightarrow> path \<Rightarrow> ('e, string) fs_io" where
  "fs_read fs p = (\<lambda>w. case k_read fs p (wenv w) of (r, e) \<Rightarrow>
     (r, w\<lparr>wenv := e, wlog := wlog w @ [Fs_read p r]\<rparr>))"

text \<open>\<open>fs::read_to_string\<close>: the bytes must be UTF-8.\<close>

definition fs_read_to_string :: "'e sysfs \<Rightarrow> path \<Rightarrow> ('e, string) fs_io" where
  "fs_read_to_string fs p = io_bind (fs_read fs p)
     (\<lambda>s. if utf8_valid s then io_ret s else io_err Invalid_data)"

text \<open>\<open>OpenOptions::write(true).truncate(true)\<close> without \<open>create\<close>, then \<open>write_all\<close>.\<close>

definition fs_write_existing :: "'e sysfs \<Rightarrow> path \<Rightarrow> string \<Rightarrow> ('e, unit) fs_io" where
  "fs_write_existing fs p v = (\<lambda>w. case k_write fs p v (wenv w) of (r, e) \<Rightarrow>
     (r, w\<lparr>wenv := e, wlog := wlog w @ [Fs_write p v r]\<rparr>))"

text \<open>\<open>fs::write\<close>, which creates a missing file.\<close>

definition fs_write :: "'e sysfs \<Rightarrow> path \<Rightarrow> string \<Rightarrow> ('e, unit) fs_io" where
  "fs_write fs p v = (\<lambda>w. case k_create fs p v (wenv w) of (r, e) \<Rightarrow>
     (r, w\<lparr>wenv := e, wlog := wlog w @ [Fs_write p v r]\<rparr>))"

definition fs_query :: "('e \<Rightarrow> 'a) \<Rightarrow> ('e world, 'x, 'a) io" where
  "fs_query f = (\<lambda>w. (Inr (f (wenv w)), w))"

section \<open>Recorded events\<close>

fun writes_of :: "fs_event list \<Rightarrow> (path \<times> string) list" where
  "writes_of [] = []"
| "writes_of (Fs_read p r # es) = writes_of es"
| "writes_of (Fs_write p v r # es) = (p, v) # writes_of es"
| "writes_of (Dev_ioctl p q b # es) = writes_of es"

text \<open>The device controls among the events, in order.\<close>

fun ioctls_of :: "fs_event list \<Rightarrow> (path \<times> u64 \<times> u8 list) list" where
  "ioctls_of [] = []"
| "ioctls_of (Fs_read p r # es) = ioctls_of es"
| "ioctls_of (Fs_write p v r # es) = ioctls_of es"
| "ioctls_of (Dev_ioctl p q b # es) = (p, q, b) # ioctls_of es"

lemma ioctls_of_append [simp]: "ioctls_of (xs @ ys) = ioctls_of xs @ ioctls_of ys"
  by (induction xs rule: ioctls_of.induct) auto

lemma writes_of_append [simp]: "writes_of (xs @ ys) = writes_of xs @ writes_of ys"
  by (induction xs rule: writes_of.induct) auto

text \<open>The events between two worlds of one run, and the relation ``nothing was written''.\<close>

definition events_between :: "'e world \<Rightarrow> 'e world \<Rightarrow> fs_event list" where
  "events_between w w' = drop (length (wlog w)) (wlog w')"

definition log_grows :: "'e world \<Rightarrow> 'e world \<Rightarrow> bool" where
  "log_grows w w' \<longleftrightarrow> (\<exists>es. wlog w' = wlog w @ es)"

definition unwritten :: "'e world \<Rightarrow> 'e world \<Rightarrow> bool" where
  "unwritten w w' \<longleftrightarrow> (\<exists>es. wlog w' = wlog w @ es \<and> writes_of es = [])"

lemma reflp_log_grows [simp]: "reflp log_grows" and transp_log_grows [simp]: "transp log_grows"
  by (auto simp: reflp_def transp_def log_grows_def)

lemma reflp_unwritten [simp]: "reflp unwritten"
  by (auto simp: reflp_def unwritten_def)

lemma transp_unwritten [simp]: "transp unwritten"
  by (auto simp: transp_def unwritten_def)

lemma unwritten_refl [simp]: "unwritten w w"
  by (simp add: unwritten_def)

lemma unwritten_events: "unwritten w w' \<Longrightarrow> writes_of (events_between w w') = []"
  by (auto simp: unwritten_def events_between_def)

lemma fs_read_unwritten [io_keeps_intros]: "io_keeps unwritten (fs_read fs p)"
  by (auto simp: io_keeps_def fs_read_def unwritten_def split: prod.splits)

lemma fs_read_to_string_unwritten [io_keeps_intros]:
  "io_keeps unwritten (fs_read_to_string fs p)"
  unfolding fs_read_to_string_def by (intro io_keeps_intros) simp_all

lemma io_total_query [simp]: "io_total (fs_query f)"
  by (simp add: io_total_def fs_query_def)

lemma fs_query_keeps [io_keeps_intros]: "reflp R \<Longrightarrow> io_keeps R (fs_query f)"
  by (simp add: io_keeps_def fs_query_def reflp_def)

lemma fs_read_log_grows [io_keeps_intros]: "io_keeps log_grows (fs_read fs p)"
  by (auto simp: io_keeps_def fs_read_def log_grows_def split: prod.splits)

lemma fs_read_to_string_log_grows [io_keeps_intros]:
  "io_keeps log_grows (fs_read_to_string fs p)"
  unfolding fs_read_to_string_def by (intro io_keeps_intros) simp_all

lemma fs_write_existing_log_grows [io_keeps_intros]:
  "io_keeps log_grows (fs_write_existing fs p v)"
  by (auto simp: io_keeps_def fs_write_existing_def log_grows_def split: prod.splits)

lemma fs_write_log_grows [io_keeps_intros]: "io_keeps log_grows (fs_write fs p v)"
  by (auto simp: io_keeps_def fs_write_def log_grows_def split: prod.splits)

text \<open>
  Write traces. \<open>traces ws m\<close>: however the kernel answers, the writes of a run of \<open>m\<close> are a
  prefix of \<open>ws\<close>, and all of \<open>ws\<close> when the run succeeds. It composes along \<open>io_then\<close>.
\<close>

definition traces :: "(path \<times> string) list \<Rightarrow> ('e world, 'x, 'a) io \<Rightarrow> bool" where
  "traces ws m \<longleftrightarrow> (\<forall>w r w'. m w = (r, w') \<longrightarrow>
     (\<exists>es. wlog w' = wlog w @ es \<and> prefix (writes_of es) ws \<and> (is_ok r \<longrightarrow> writes_of es = ws)))"

lemma traces_then:
  assumes "traces ws m" and "traces vs n"
  shows "traces (ws @ vs) (io_then m n)"
  unfolding traces_def
proof (intro allI impI)
  fix w r w' assume run: "io_then m n w = (r, w')"
  obtain q w1 where m: "m w = (q, w1)" by (cases "m w") auto
  from assms(1) m obtain es where es: "wlog w1 = wlog w @ es" "prefix (writes_of es) ws"
    "is_ok q \<longrightarrow> writes_of es = ws"
    unfolding traces_def by blast
  show "\<exists>es. wlog w' = wlog w @ es \<and> prefix (writes_of es) (ws @ vs)
      \<and> (is_ok r \<longrightarrow> writes_of es = ws @ vs)"
  proof (cases q)
    case (Inl e)
    with run m have "r = Inl e" "w' = w1" by (simp_all add: io_then_apply)
    with es show ?thesis by (auto intro: prefix_prefix)
  next
    case (Inr a)
    with run m have n: "n w1 = (r, w')" by (simp add: io_then_apply)
    from assms(2) n obtain fs where "wlog w' = wlog w1 @ fs" "prefix (writes_of fs) vs"
      "is_ok r \<longrightarrow> writes_of fs = vs"
      unfolding traces_def by blast
    with es Inr show ?thesis by (intro exI [of _ "es @ fs"]) (auto simp: same_prefix_prefix)
  qed
qed

lemma traces_quiet:
  assumes "io_keeps unwritten m" shows "traces [] m"
  unfolding traces_def
proof (intro allI impI)
  fix w r w' assume "m w = (r, w')"
  with assms have "unwritten w w'" by (rule io_keepsD)
  then show "\<exists>es. wlog w' = wlog w @ es \<and> prefix (writes_of es) [] \<and> (is_ok r \<longrightarrow> writes_of es = [])"
    by (auto simp: unwritten_def)
qed

lemma is_ok_map_err [simp]: "is_ok (res_map_err g r) = is_ok r"
  by (cases r) auto

lemma traces_map_err: "traces ws m \<Longrightarrow> traces ws (io_map_err g m)"
  unfolding traces_def io_map_err_def by (fastforce split: prod.splits)

lemma traces_write_existing: "traces [(p, v)] (fs_write_existing fs p v)"
  unfolding traces_def fs_write_existing_def by (auto split: prod.splits)

lemma traces_prefix:
  "traces ws m \<Longrightarrow> m w = (r, w') \<Longrightarrow> prefix (writes_of (events_between w w')) ws"
  unfolding traces_def events_between_def by (metis append_eq_conv_conj)

text \<open>One write of \<open>v\<close> to \<open>p\<close> between two worlds.\<close>

definition wrote :: "path \<Rightarrow> string \<Rightarrow> 'e world \<Rightarrow> 'e world \<Rightarrow> bool" where
  "wrote p v w w' \<longleftrightarrow> (\<exists>es. wlog w' = wlog w @ es \<and> writes_of es = [(p, v)])"

lemma wrote_unwritten: "wrote p v w w1 \<Longrightarrow> unwritten w1 w' \<Longrightarrow> wrote p v w w'"
  unfolding wrote_def unwritten_def by fastforce

lemma wrote_events: "wrote p v w w' \<Longrightarrow> writes_of (events_between w w') = [(p, v)]"
  by (auto simp: wrote_def events_between_def)

lemma fs_write_wrote: "fs_write fs p v w = (r, w') \<Longrightarrow> wrote p v w w'"
  by (auto simp: fs_write_def wrote_def split: prod.splits)

section \<open>Readers of the environment\<close>

text \<open>\<open>env_reader m\<close>: the run of \<open>m\<close> leaves the environment, and its result depends on it only.\<close>

definition env_reader :: "('e world, 'x, 'a) io \<Rightarrow> bool" where
  "env_reader m \<longleftrightarrow> (\<exists>f. \<forall>w. fst (m w) = f (wenv w) \<and> wenv (snd (m w)) = wenv w)"

named_theorems env_readers \<open>computations that only read the environment\<close>

lemma env_readerI: "(\<And>w. fst (m w) = f (wenv w) \<and> wenv (snd (m w)) = wenv w) \<Longrightarrow> env_reader m"
  by (auto simp: env_reader_def)

lemma env_readerE:
  assumes "env_reader m"
  obtains f where "\<And>w. fst (m w) = f (wenv w)" and "\<And>w. wenv (snd (m w)) = wenv w"
  using assms by (auto simp: env_reader_def)

lemma env_readerD:
  assumes "env_reader m"
  shows "wenv (snd (m w)) = wenv w" and "wenv v = wenv w \<Longrightarrow> fst (m v) = fst (m w)"
  using assms by (auto elim!: env_readerE)

lemma env_reader_of [env_readers]: "env_reader (io_of r)"
  by (rule env_readerI [where f = "\<lambda>_. r"]) (simp add: io_of_apply)

lemma env_reader_ret [env_readers]: "env_reader (io_ret a)"
  by (rule env_readerI [where f = "\<lambda>_. Inr a"]) (simp add: io_ret_apply)

lemma env_reader_err [env_readers]: "env_reader (io_err e)"
  by (rule env_readerI [where f = "\<lambda>_. Inl e"]) (simp add: io_err_apply)

lemma env_reader_try [env_readers]:
  assumes "env_reader m" and "\<And>r. env_reader (f r)"
  shows "env_reader (io_try m f)"
proof -
  obtain g where g: "\<And>w. fst (m w) = g (wenv w)" and gk: "\<And>w. wenv (snd (m w)) = wenv w"
    using env_readerE [OF assms(1)] by blast
  have "\<forall>r. \<exists>h. \<forall>w. fst (f r w) = h (wenv w) \<and> wenv (snd (f r w)) = wenv w"
    using assms(2) by (simp add: env_reader_def)
  then obtain h where h: "\<And>r w. fst (f r w) = h r (wenv w)" "\<And>r w. wenv (snd (f r w)) = wenv w"
    by metis
  have "io_try m f w = f (fst (m w)) (snd (m w))" for w by (simp add: io_try_def split: prod.split)
  then show ?thesis
    by (intro env_readerI [where f = "\<lambda>e. h (g e) e"]) (simp add: g gk h)
qed

lemma env_reader_bind [env_readers]:
  assumes "env_reader m" and "\<And>a. env_reader (f a)"
  shows "env_reader (io_bind m f)"
proof -
  have "io_bind m f = io_try m (case_sum io_err f)"
    by (auto simp: fun_eq_iff io_bind_apply io_try_apply io_err_apply split: sum.split prod.split)
  moreover have "env_reader (io_try m (case_sum io_err f))"
    by (rule env_reader_try [OF assms(1)]) (auto split: sum.split intro: env_readers assms(2))
  ultimately show ?thesis by simp
qed

lemma env_reader_map_err [env_readers]: "env_reader m \<Longrightarrow> env_reader (io_map_err g m)"
proof -
  assume m: "env_reader m"
  have "io_map_err g m = io_try m (\<lambda>r. io_of (res_map_err g r))"
    by (auto simp: fun_eq_iff io_map_err_apply io_try_apply io_of_apply split: prod.split)
  with m show ?thesis by (auto intro: env_readers)
qed

lemma env_reader_map_list [env_readers]: "(\<And>x. env_reader (f x)) \<Longrightarrow> env_reader (io_map_list f xs)"
  by (induction xs) (auto intro: env_readers)

lemma env_reader_query [env_readers]: "env_reader (fs_query f)"
  by (rule env_readerI [where f = "\<lambda>e. Inr (f e)"]) (simp add: fs_query_def)

section \<open>A directory of regular files\<close>

type_synonym file_tree = "(path \<times> string) list"

definition tree_put :: "path \<Rightarrow> string \<Rightarrow> file_tree \<Rightarrow> file_tree" where
  "tree_put p v t = map (\<lambda>(q, s). if q = p then (q, v) else (q, s)) t"

definition tree_children :: "path \<Rightarrow> file_tree \<Rightarrow> string list" where
  "tree_children p t = remdups (map (\<lambda>(q, _). q ! length p)
     (filter (\<lambda>(q, _). strict_prefix p q) t))"

definition tree_sysfs :: "file_tree sysfs" where
  "tree_sysfs = \<lparr>
     k_read = (\<lambda>p t. (case map_of t p of None \<Rightarrow> Inl (Os_error ENOENT) | Some s \<Rightarrow> Inr s, t)),
     k_write = (\<lambda>p v t. case map_of t p of None \<Rightarrow> (Inl (Os_error ENOENT), t)
        | Some s \<Rightarrow> (Inr (), tree_put p v t)),
     k_create = (\<lambda>p v t. case map_of t p of None \<Rightarrow> (Inr (), (p, v) # t)
        | Some s \<Rightarrow> (Inr (), tree_put p v t)),
     k_is_file = (\<lambda>p t. map_of t p \<noteq> None),
     k_is_dir = (\<lambda>p t. list_ex (\<lambda>(q, _). strict_prefix p q) t),
     k_read_dir = (\<lambda>p t. if list_ex (\<lambda>(q, _). strict_prefix p q) t
        then Inr (tree_children p t) else Inl (Os_error ENOENT)),
     k_read_link = (\<lambda>p t. Inl (Os_error ENOENT)),
     u_upper = ascii_upper \<rparr>"

lemma map_of_tree_put:
  "map_of (tree_put p v t) q = (if q = p \<and> map_of t p \<noteq> None then Some v else map_of t q)"
  by (induction t) (auto simp: tree_put_def)

text \<open>
  The register contract: attributes whose reads return the value last accepted and change
  nothing, and whose writes, when accepted, change that attribute only.
\<close>

locale attribute_store =
  fixes fs :: "'e sysfs" and val :: "'e \<Rightarrow> path \<Rightarrow> string option"
  assumes read_present: "val e p = Some s \<Longrightarrow> k_read fs p e = (Inr s, e)"
    and read_absent: "val e p = None \<Longrightarrow> \<exists>x. k_read fs p e = (Inl x, e)"
    and write_present: "val e p = Some s \<Longrightarrow>
      \<exists>e'. k_write fs p v e = (Inr (), e') \<and> val e' = (val e)(p \<mapsto> v)"
begin

lemma write_then_read:
  assumes "val e p = Some s" and "k_write fs p v e = (r, e')"
  shows "k_read fs p e' = (Inr v, e')"
proof -
  from write_present [OF assms(1), of v] assms(2) have "val e' p = Some v" by auto
  then show ?thesis by (rule read_present)
qed

lemma write_other:
  "val e p = Some s \<Longrightarrow> k_write fs p v e = (r, e') \<Longrightarrow> q \<noteq> p \<Longrightarrow> val e' q = val e q"
  using write_present [of e p s v] by auto

text \<open>The same laws for the recorded operations, on text.\<close>

lemma fs_read_val:
  assumes "val (wenv w) p = Some s" and "utf8_valid s"
  obtains w' where "fs_read_to_string fs p w = (Inr s, w')" and "wenv w' = wenv w"
  using read_present [OF assms(1)] assms(2)
  by (auto simp: fs_read_to_string_def fs_read_def io_simps)

lemma fs_write_val:
  assumes "val (wenv w) p = Some s"
  obtains w' where "fs_write_existing fs p v w = (Inr (), w')"
    and "val (wenv w') = (val (wenv w))(p \<mapsto> v)"
  using write_present [OF assms, of v] by (auto simp: fs_write_existing_def)

end

interpretation tree: attribute_store tree_sysfs map_of
proof unfold_locales
  fix t :: file_tree and p v s
  assume "map_of t p = Some s"
  then show "\<exists>e'. k_write tree_sysfs p v t = (Inr (), e') \<and> map_of e' = (map_of t)(p \<mapsto> v)"
    by (auto simp: tree_sysfs_def map_of_tree_put)
qed (auto simp: tree_sysfs_def)

text \<open>Reading an attribute only reads the environment.\<close>

context attribute_store
begin

lemma store_read_reader: "env_reader (fs_read_to_string fs p)"
proof -
  have e: "snd (k_read fs p e) = e" for e
  proof (cases "val e p")
    case None
    from read_absent [OF this] show ?thesis by (elim exE) simp
  next
    case (Some s)
    from read_present [OF this] show ?thesis by simp
  qed
  have "env_reader (fs_read fs p)"
    by (rule env_readerI [where f = "\<lambda>e. fst (k_read fs p e)"])
      (simp add: fs_read_def case_prod_beta e)
  then show ?thesis unfolding fs_read_to_string_def by (auto intro!: env_reader_bind env_readers)
qed

end

text \<open>
  A store whose existing attributes are regular files and whose \<open>fs::write\<close> replaces them.
\<close>

locale file_store = attribute_store fs val for fs :: "'e sysfs" and val :: "'e \<Rightarrow> path \<Rightarrow> string option" +
  assumes create_present: "val e p = Some s \<Longrightarrow>
      \<exists>e'. k_create fs p v e = (Inr (), e') \<and> val e' = (val e)(p \<mapsto> v)"
    and file_present: "k_is_file fs p e \<longleftrightarrow> val e p \<noteq> None"
begin

lemma fs_create_val:
  assumes "val (wenv w) p = Some s"
  obtains w' where "fs_write fs p v w = (Inr (), w')"
    and "val (wenv w') = (val (wenv w))(p \<mapsto> v)"
  using create_present [OF assms, of v] by (auto simp: fs_write_def)

end

interpretation tree_files: file_store tree_sysfs map_of
proof unfold_locales
  fix t :: file_tree and p v s
  assume "map_of t p = Some s"
  then show "\<exists>e'. k_create tree_sysfs p v t = (Inr (), e') \<and> map_of e' = (map_of t)(p \<mapsto> v)"
    by (auto simp: tree_sysfs_def map_of_tree_put)
qed (simp add: tree_sysfs_def)

text \<open>The recorded operations on a directory of files, for the evaluation of fixtures.\<close>

lemma tree_sysfs_run:
  "k_is_file tree_sysfs p t = (map_of t p \<noteq> None)"
  "fs_read_to_string tree_sysfs p w = (case map_of (wenv w) p of
      None \<Rightarrow> (Inl (Os_error ENOENT), w\<lparr>wlog := wlog w @ [Fs_read p (Inl (Os_error ENOENT))]\<rparr>)
    | Some s \<Rightarrow> (if utf8_valid s then Inr s else Inl Invalid_data, w\<lparr>wlog := wlog w @ [Fs_read p (Inr s)]\<rparr>))"
  "fs_write_existing tree_sysfs p v w = (case map_of (wenv w) p of
      None \<Rightarrow> (Inl (Os_error ENOENT), w\<lparr>wlog := wlog w @ [Fs_write p v (Inl (Os_error ENOENT))]\<rparr>)
    | Some s \<Rightarrow> (Inr (), w\<lparr>wenv := tree_put p v (wenv w), wlog := wlog w @ [Fs_write p v (Inr ())]\<rparr>))"
  "fs_query f w = (Inr (f (wenv w)), w)"
  by (auto simp: tree_sysfs_def fs_read_to_string_def fs_read_def fs_write_existing_def fs_query_def
    io_simps split: option.splits)

section \<open>WMI groups\<close>

text \<open>\<open>platform.rs\<close>: a GUID directory, optionally with an instance suffix, and a group inside.\<close>

definition wmi_name_matches :: "string \<Rightarrow> string \<Rightarrow> bool" where
  "wmi_name_matches name guid \<longleftrightarrow> eq_ignore_case name guid \<or>
     (length guid \<le> length name \<and>
      (case strip_pre ''-'' (drop (length guid) name) of None \<Rightarrow> False
       | Some inst \<Rightarrow> eq_ignore_case (take (length guid) name) guid \<and> inst \<noteq> []
           \<and> list_all is_digit inst))"

definition matching_wmi_devices :: "'e sysfs \<Rightarrow> path \<Rightarrow> string \<Rightarrow> 'e \<Rightarrow> path list" where
  "matching_wmi_devices fs wmi_root guid e =
     sort (map (path_join wmi_root) (filter (\<lambda>n. wmi_name_matches n guid)
       (case k_read_dir fs wmi_root e of Inl _ \<Rightarrow> [] | Inr names \<Rightarrow> names)))"

definition find_wmi_group :: "'e sysfs \<Rightarrow> path \<Rightarrow> string \<Rightarrow> string \<Rightarrow> 'e \<Rightarrow> path option" where
  "find_wmi_group fs wmi_root guid grp e =
     List.find (\<lambda>p. k_is_dir fs p e)
       (map (\<lambda>d. path_join d grp) (matching_wmi_devices fs wmi_root guid e))"

lemma find_wmi_group_Some:
  assumes "find_wmi_group fs wmi_root guid grp e = Some p"
  obtains n where "p = wmi_root @ [n, grp]" and "wmi_name_matches n guid" and "k_is_dir fs p e"
proof -
  let ?ds = "matching_wmi_devices fs wmi_root guid e"
  from assms have d: "k_is_dir fs p e" and "p \<in> set (map (\<lambda>d. path_join d grp) ?ds)"
    by (auto simp: find_wmi_group_def find_Some_iff)
  then obtain n where "p = wmi_root @ [n, grp]" and "wmi_name_matches n guid"
    by (auto simp: matching_wmi_devices_def path_join_def split: sum.splits)
  with d show thesis by (rule that [rotated 2])
qed

end
