(* ===== verification/Hardware.thy ===== *)
theory Hardware
  imports Sysfs
begin

text \<open>
  \<open>src/hardware.rs\<close>: the Acer firmware surface. Discovery of the platform identity, the hwmon
  directory, the profile and fan interfaces; profile and fan operations with readback; the fan
  transaction with its Auto and Maximum recovery. Reads and writes go through the kernel
  parameter of \<open>Sysfs\<close>.
\<close>

section \<open>Data\<close>

definition EXPECTED_VENDOR :: string where "EXPECTED_VENDOR = ''Acer''"
definition REFERENCE_PRODUCT :: string where "REFERENCE_PRODUCT = ''Predator PHN16-72''"
definition GAMING_WMI_GUID :: string where
  "GAMING_WMI_GUID = ''7A4DDFE7-5B5D-40B4-8595-4408E0CC7F56''"
definition PWM_MAX :: u32 where "PWM_MAX = 255"

datatype platform_profile = Eco | Quiet | Balanced | Performance | Turbo

datatype hardware_error =
    Hw_io string path io_error
  | Unsupported_platform string string
  | Acer_hwmon_not_found
  | Fan_control_unavailable
  | Manual_fan_unavailable
  | Missing_interface path
  | Invalid_value string string
  | Profile_unavailable platform_profile
  | Readback_mismatch string string string
  | Mutation_rolled_back hardware_error
  | Mutation_failsafe_maximum hardware_error hardware_error
  | Mutation_recovery_failed hardware_error hardware_error hardware_error

type_synonym ('e, 'a) hw_io = "('e world, hardware_error, 'a) io"

record profile_choice =
  pc_raw :: string
  pc_label :: string
  pc_selectable :: bool

datatype profile_backend = Profile_kernel | Profile_acer_gaming_wmi
datatype fan_backend = Fan_kernel_pwm | Fan_acer_gaming_wmi

record fan_rpm_channel =
  rc_index :: u8
  rc_label :: string
  rc_rpm :: "u32 option"

record fan_capabilities =
  fc_backend :: "fan_backend option"
  fc_rpm_channels :: "fan_rpm_channel list"
  fc_auto :: bool
  fc_manual :: bool
  fc_maximum :: bool

record profile_capabilities =
  prc_backend :: "profile_backend option"
  prc_choices :: "profile_choice list"
  prc_current :: "string option"

record hardware_capabilities =
  hc_vendor :: string
  hc_product :: string
  hc_reference_model :: bool
  hc_profiles :: profile_capabilities
  hc_fans :: fan_capabilities

datatype fan_mode = Mode_maximum | Mode_manual | Mode_automatic
datatype fan_setting = Set_automatic | Set_maximum | Set_manual u8 u8

record fan_channel_state =
  ch_mode :: "fan_mode option"
  ch_pwm_raw :: "u8 option"
  ch_rpm :: "u32 option"

record fan_state =
  fan_cpu :: fan_channel_state
  fan_gpu :: fan_channel_state

record verified_platform =
  vp_vendor :: string
  vp_product :: string
  vp_acer :: bool

record profile_interface =
  pi_backend :: profile_backend
  pi_profile :: path
  pi_choices :: path
  pi_performance_is_turbo :: bool

datatype fan_interface = I_kernel_pwm path bool | I_acer_gaming_wmi path bool

record acer_hardware =
  hw_platform :: verified_platform
  hw_root :: path
  hw_hwmon :: "path option"
  hw_profile :: "profile_interface option"
  hw_fan :: "fan_interface option"

fun profile_as_sysfs :: "platform_profile \<Rightarrow> string" where
  "profile_as_sysfs Eco = ''low-power''"
| "profile_as_sysfs Quiet = ''quiet''"
| "profile_as_sysfs Balanced = ''balanced''"
| "profile_as_sysfs Performance = ''balanced-performance''"
| "profile_as_sysfs Turbo = ''performance''"

definition profile_from_sysfs :: "string \<Rightarrow> hardware_error + platform_profile" where
  "profile_from_sysfs value = (let v = str_trim value in
     if v = ''low-power'' then Inr Eco
     else if v = ''quiet'' then Inr Quiet
     else if v = ''balanced'' then Inr Balanced
     else if v = ''balanced-performance'' then Inr Performance
     else if v = ''performance'' then Inr Turbo
     else Inl (Invalid_value ''platform_profile'' v))"

fun mode_as_sysfs :: "fan_mode \<Rightarrow> string" where
  "mode_as_sysfs Mode_maximum = ''0''"
| "mode_as_sysfs Mode_manual = ''1''"
| "mode_as_sysfs Mode_automatic = ''2''"

definition mode_from_sysfs :: "string \<Rightarrow> hardware_error + fan_mode" where
  "mode_from_sysfs value = (let v = str_trim value in
     if v = ''0'' then Inr Mode_maximum
     else if v = ''1'' then Inr Mode_manual
     else if v = ''2'' then Inr Mode_automatic
     else Inl (Invalid_value ''pwm_enable'' v))"

section \<open>Numeric helpers\<close>

text \<open>\<open>u32::div_ceil(100)\<close> and the truncating casts to \<open>u8\<close>.\<close>

definition percent_to_pwm :: "u8 \<Rightarrow> u8" where
  "percent_to_pwm percent = (let n = ucast percent * PWM_MAX in
     ucast (if n mod 100 = 0 then n div 100 else n div 100 + 1 :: u32))"

definition pwm_to_percent :: "u8 \<Rightarrow> u8" where
  "pwm_to_percent pwm = ucast ((ucast pwm * 100 + PWM_MAX div 2) div PWM_MAX :: u32)"

definition validate_percent :: "string \<Rightarrow> u8 \<Rightarrow> hardware_error + unit" where
  "validate_percent field v = (if 20 \<le> v \<and> v \<le> 100 then Inr ()
     else Inl (Invalid_value field (show_word v)))"

definition ensure_readback :: "string \<Rightarrow> string \<Rightarrow> string \<Rightarrow> hardware_error + unit" where
  "ensure_readback field expected actual = (if str_trim actual = expected then Inr ()
     else Inl (Readback_mismatch field expected (str_trim actual)))"

section \<open>File access\<close>

definition read_trimmed :: "'e sysfs \<Rightarrow> path \<Rightarrow> string \<Rightarrow> ('e, string) hw_io" where
  "read_trimmed fs p operation = io_bind
     (io_map_err (Hw_io operation p) (fs_read_to_string fs p)) (\<lambda>s. io_ret (str_trim s))"

definition parse_value :: "'e sysfs \<Rightarrow> (string \<Rightarrow> 'a option) \<Rightarrow> path \<Rightarrow> string \<Rightarrow> ('e, 'a) hw_io" where
  "parse_value fs parse p field = io_bind
     (read_trimmed fs p ''read numeric firmware value'')
     (\<lambda>v. io_of (ok_or (Invalid_value field v) (parse v)))"

definition write_existing :: "'e sysfs \<Rightarrow> path \<Rightarrow> string \<Rightarrow> string \<Rightarrow> ('e, unit) hw_io" where
  "write_existing fs p v operation = io_map_err (Hw_io operation p) (fs_write_existing fs p v)"

definition is_unavailable_fan_mode :: "hardware_error \<Rightarrow> bool" where
  "is_unavailable_fan_mode e = (case e of Hw_io _ _ src \<Rightarrow> raw_os_error src = Some ENXIO | _ \<Rightarrow> False)"

definition optional_fan_mode :: "hardware_error + string \<Rightarrow> hardware_error + fan_mode option" where
  "optional_fan_mode obs = (case obs of
      Inr v \<Rightarrow> res_bind (mode_from_sysfs v) (\<lambda>m. Inr (Some m))
    | Inl e \<Rightarrow> if is_unavailable_fan_mode e then Inr None else Inl e)"

definition read_optional_fan_mode :: "'e sysfs \<Rightarrow> path \<Rightarrow> ('e, fan_mode option) hw_io" where
  "read_optional_fan_mode fs p =
     io_try (read_trimmed fs p ''read fan mode'') (\<lambda>r. io_of (optional_fan_mode r))"

definition read_optional_pwm :: "'e sysfs \<Rightarrow> path \<Rightarrow> ('e, u8 option) hw_io" where
  "read_optional_pwm fs p = io_try (parse_value fs parse_u8 p ''PWM'') (\<lambda>r. case r of
      Inr v \<Rightarrow> io_ret (Some v)
    | Inl (Hw_io op q src) \<Rightarrow> if raw_os_error src \<in> {Some ENXIO, Some ENOENT} then io_ret None
        else io_err (Hw_io op q src)
    | Inl e \<Rightarrow> io_err e)"

definition read_watchdog_temperature :: "'e sysfs \<Rightarrow> path \<Rightarrow> ('e, int) hw_io" where
  "read_watchdog_temperature fs p = io_bind (parse_value fs (parse_sint 64) p ''temperature'')
     (\<lambda>v. if -50000 \<le> v \<and> v \<le> 200000 then io_ret v
        else io_err (Invalid_value ''temperature''
          (if v < 0 then ''-'' @ show_nat (nat (- v)) else show_nat (nat v))))"

definition fan_role :: "u8 \<Rightarrow> hardware_error + string" where
  "fan_role channel = (if channel = 1 then Inr ''cpu'' else if channel = 2 then Inr ''gpu''
     else Inl (Invalid_value ''fan channel'' (show_word channel)))"

definition channels_1_8 :: "u8 list" where "channels_1_8 = [1, 2, 3, 4, 5, 6, 7, 8]"

fun find_temperature_input :: "'e sysfs \<Rightarrow> path \<Rightarrow> string \<Rightarrow> u8 list \<Rightarrow> ('e world, 'x, path option) io" where
  "find_temperature_input fs base role [] = io_ret None"
| "find_temperature_input fs base role (i # is) =
     io_try (fs_read_to_string fs (path_join base (''temp'' @ show_word i @ ''_label''))) (\<lambda>r. case r of
        Inl _ \<Rightarrow> find_temperature_input fs base role is
      | Inr label \<Rightarrow>
          (let input = path_join base (''temp'' @ show_word i @ ''_input'') in
           io_bind (fs_query (k_is_file fs input)) (\<lambda>f.
             if f \<and> str_contains (ascii_lower (str_trim label)) role then io_ret (Some input)
             else find_temperature_input fs base role is)))"

definition acer_temperature_path :: "'e sysfs \<Rightarrow> path \<Rightarrow> u8 \<Rightarrow> ('e world, 'x, path) io" where
  "acer_temperature_path fs base channel = (let dflt = path_join base (''temp'' @ show_word channel @ ''_input'') in
     (case fan_role channel of Inl _ \<Rightarrow> io_ret dflt
      | Inr role \<Rightarrow> io_bind (find_temperature_input fs base role channels_1_8)
          (\<lambda>r. io_ret (case r of None \<Rightarrow> dflt | Some p \<Rightarrow> p))))"

definition manual_watchdog_available :: "'e sysfs \<Rightarrow> path \<Rightarrow> ('e world, 'x, bool) io" where
  "manual_watchdog_available fs base = io_all (\<lambda>channel. io_bind (acer_temperature_path fs base channel)
     (\<lambda>p. io_is_ok (read_watchdog_temperature fs p))) [1, 2]"

section \<open>Discovery\<close>

definition discover_platform :: "'e sysfs \<Rightarrow> path \<Rightarrow> ('e, verified_platform) hw_io" where
  "discover_platform fs root =
     io_bind (read_trimmed fs (rooted root ''sys/class/dmi/id/sys_vendor'') ''read DMI vendor'') (\<lambda>vendor.
     io_bind (read_trimmed fs (rooted root ''sys/class/dmi/id/product_name'') ''read DMI product'') (\<lambda>prod.
       io_ret \<lparr>vp_vendor = vendor, vp_product = prod, vp_acer = eq_ignore_case vendor EXPECTED_VENDOR\<rparr>))"

definition is_acer_hwmon_identity :: "string \<Rightarrow> bool" where
  "is_acer_hwmon_identity ident =
     (map (\<lambda>c. if c = CHR ''_'' then CHR ''-'' else c) (ascii_lower (str_trim ident)) \<in> {''acer'', ''acer-wmi''})"

definition hwmon_driver_identity :: "'e sysfs \<Rightarrow> path \<Rightarrow> 'e \<Rightarrow> string option" where
  "hwmon_driver_identity fs hwmon e =
     (let driver = hwmon @ [''device'', ''driver''] in
      case (case k_read_link fs driver e of Inr t \<Rightarrow> Some t
              | Inl _ \<Rightarrow> res_ok (k_read_link fs (path_join driver ''module'') e)) of
        None \<Rightarrow> None | Some t \<Rightarrow> map_option utf8_lossy (path_file_name t))"

definition hwmon_attributes :: "string list" where
  "hwmon_attributes = concat (map (\<lambda>i. [''fan'' @ show_word i @ ''_input'', ''temp'' @ show_word i @ ''_input'',
     ''pwm'' @ show_word i, ''pwm'' @ show_word i @ ''_enable'']) channels_1_8)"

definition hwmon_score :: "'e sysfs \<Rightarrow> path \<Rightarrow> 'e \<Rightarrow> nat" where
  "hwmon_score fs p e = length (filter (\<lambda>n. k_is_file fs (path_join p n) e) hwmon_attributes)"

type_synonym hwmon_candidate = "bool \<times> nat \<times> path"

definition hwmon_candidate :: "'e sysfs \<Rightarrow> path \<Rightarrow> ('e world, 'x, hwmon_candidate option) io" where
  "hwmon_candidate fs p = io_try (fs_read_to_string fs (path_join p ''name'')) (\<lambda>r. case r of
      Inl _ \<Rightarrow> io_ret None
    | Inr name \<Rightarrow> if \<not> is_acer_hwmon_identity name then io_ret None
        else fs_query (\<lambda>e. case hwmon_driver_identity fs p e of
            Some d \<Rightarrow> if is_acer_hwmon_identity d then Some (True, hwmon_score fs p e, p) else None
          | None \<Rightarrow> Some (False, hwmon_score fs p e, p)))"

definition hwmon_rank :: "hwmon_candidate \<Rightarrow> bool \<times> int \<times> path" where
  "hwmon_rank c = (case c of (driver, score, p) \<Rightarrow> (\<not> driver, - int score, p))"

definition select_hwmon :: "hwmon_candidate list \<Rightarrow> path option" where
  "select_hwmon cands = (case sort_key hwmon_rank cands of
      [] \<Rightarrow> None
    | [(d, s, p)] \<Rightarrow> Some p
    | (d, s, p) # (d', s', p') # _ \<Rightarrow> if d' = d \<and> s' = s then None else Some p)"

definition discover_acer_hwmon :: "'e sysfs \<Rightarrow> path \<Rightarrow> ('e world, 'x, path option) io" where
  "discover_acer_hwmon fs root = (let hwmon_root = rooted root ''sys/class/hwmon'' in
     io_bind (fs_query (k_read_dir fs hwmon_root)) (\<lambda>r. case r of
        Inl _ \<Rightarrow> io_ret None
      | Inr names \<Rightarrow> io_bind (io_filter_map (\<lambda>n. hwmon_candidate fs (path_join hwmon_root n)) names)
          (\<lambda>cands. io_ret (select_hwmon cands))))"

definition kernel_profile_candidate :: "'e sysfs \<Rightarrow> path \<Rightarrow> string \<Rightarrow> ('e world, 'x, profile_interface option) io" where
  "kernel_profile_candidate fs class_root n = (let p = path_join class_root n;
       profile = path_join p ''profile''; choices = path_join p ''choices'' in
     io_bind (fs_query (\<lambda>e. k_is_file fs profile e \<and> k_is_file fs choices e)) (\<lambda>complete.
       if \<not> complete then io_ret None
       else io_try (fs_read_to_string fs (path_join p ''name'')) (\<lambda>r.
         let name = ascii_lower (str_trim (case r of Inr s \<Rightarrow> s | Inl _ \<Rightarrow> utf8_lossy n)) in
         io_ret (if str_contains name ''acer'' then
             Some \<lparr>pi_backend = Profile_kernel, pi_profile = profile, pi_choices = choices,
                   pi_performance_is_turbo = (name = ''acer-wmi'')\<rparr>
           else None))))"

definition legacy_profile :: "'e sysfs \<Rightarrow> path \<Rightarrow> 'e \<Rightarrow> profile_interface option" where
  "legacy_profile fs root e = (let profile = rooted root ''sys/firmware/acpi/platform_profile'';
       choices = rooted root ''sys/firmware/acpi/platform_profile_choices'' in
     if k_is_file fs profile e \<and> k_is_file fs choices e then
       Some \<lparr>pi_backend = Profile_kernel, pi_profile = profile, pi_choices = choices,
             pi_performance_is_turbo = False\<rparr>
     else None)"

definition discover_kernel_profile_interface :: "'e sysfs \<Rightarrow> path \<Rightarrow> ('e world, 'x, profile_interface option) io" where
  "discover_kernel_profile_interface fs root = (let class_root = rooted root ''sys/class/platform-profile'' in
     io_bind (fs_query (k_read_dir fs class_root)) (\<lambda>r.
     io_bind (case r of Inl _ \<Rightarrow> io_ret []
       | Inr names \<Rightarrow> io_filter_map (kernel_profile_candidate fs class_root) names) (\<lambda>cands.
       case sort_key pi_profile cands of
         p # _ \<Rightarrow> io_ret (Some p)
       | [] \<Rightarrow> fs_query (legacy_profile fs root))))"

definition discover_gaming_wmi_profile_interface :: "'e sysfs \<Rightarrow> path \<Rightarrow> 'e \<Rightarrow> profile_interface option" where
  "discover_gaming_wmi_profile_interface fs root e =
     (case find_wmi_group fs (rooted root ''sys/bus/wmi/devices'') GAMING_WMI_GUID ''gaming_profile'' e of
        None \<Rightarrow> None
      | Some g \<Rightarrow> (let profile = path_join g ''profile''; choices = path_join g ''choices'' in
          if k_is_file fs profile e \<and> k_is_file fs choices e then
            Some \<lparr>pi_backend = Profile_acer_gaming_wmi, pi_profile = profile, pi_choices = choices,
                  pi_performance_is_turbo = True\<rparr>
          else None))"

definition discover_kernel_fan_interface :: "'e sysfs \<Rightarrow> path option \<Rightarrow> ('e world, 'x, fan_interface option) io" where
  "discover_kernel_fan_interface fs hwmon = (case hwmon of None \<Rightarrow> io_ret None
     | Some base \<Rightarrow>
        io_bind (fs_query (\<lambda>e. list_all (\<lambda>n. k_is_file fs (path_join base n) e) [''pwm1_enable'', ''pwm2_enable''])) (\<lambda>complete.
        io_bind (io_all (\<lambda>ch. io_try (read_trimmed fs (path_join base (''pwm'' @ show_word (ch :: u8) @ ''_enable'')) ''probe fan mode'')
            (\<lambda>r. io_ret (is_ok (optional_fan_mode r)))) [1, 2]) (\<lambda>usable.
          if complete \<and> usable then
            io_bind (manual_watchdog_available fs base) (\<lambda>wd.
            io_bind (if wd then io_all (\<lambda>ch. io_try (read_optional_pwm fs (path_join base (''pwm'' @ show_word (ch :: u8))))
                 (\<lambda>r. io_ret (case r of Inr (Some _) \<Rightarrow> True | _ \<Rightarrow> False))) [1, 2] else io_ret False) (\<lambda>manual.
              io_ret (Some (I_kernel_pwm base manual))))
          else io_ret None)))"

definition discover_gaming_wmi_fan_interface :: "'e sysfs \<Rightarrow> path \<Rightarrow> path option \<Rightarrow> ('e world, 'x, fan_interface option) io" where
  "discover_gaming_wmi_fan_interface fs root hwmon =
     io_bind (fs_query (find_wmi_group fs (rooted root ''sys/bus/wmi/devices'') GAMING_WMI_GUID ''gaming_fan'')) (\<lambda>g. case g of
        None \<Rightarrow> io_ret None
      | Some base \<Rightarrow>
        io_bind (fs_query (\<lambda>e. k_is_file fs (path_join base ''cpu_mode'') e \<and> k_is_file fs (path_join base ''gpu_mode'') e)) (\<lambda>present.
        if \<not> present then io_ret None else
        io_bind (io_all (\<lambda>n. io_try (read_trimmed fs (path_join base n) ''probe Gaming-WMI fan mode'')
            (\<lambda>r. io_ret (is_ok (res_bind r mode_from_sysfs)))) [''cpu_mode'', ''gpu_mode'']) (\<lambda>readable.
        if \<not> readable then io_ret None else
        io_bind (case hwmon of None \<Rightarrow> io_ret False | Some h \<Rightarrow> manual_watchdog_available fs h) (\<lambda>temps.
        io_bind (if temps then io_all (\<lambda>n. io_try (parse_value fs parse_u8 (path_join base n) ''Gaming-WMI fan speed'')
            (\<lambda>r. io_ret (case r of Inr v \<Rightarrow> v \<le> 100 | Inl _ \<Rightarrow> False))) [''cpu_speed'', ''gpu_speed''] else io_ret False) (\<lambda>manual.
          io_ret (Some (I_acer_gaming_wmi base manual)))))))"

definition discover_at :: "'e sysfs \<Rightarrow> path \<Rightarrow> ('e, acer_hardware) hw_io" where
  "discover_at fs root =
     io_bind (discover_platform fs root) (\<lambda>pl.
     io_bind (if vp_acer pl then discover_acer_hwmon fs root else io_ret None) (\<lambda>hwmon.
     io_bind (discover_kernel_profile_interface fs root) (\<lambda>kprofile.
     io_bind (if vp_acer pl then fs_query (discover_gaming_wmi_profile_interface fs root) else io_ret None) (\<lambda>gprofile.
     io_bind (if vp_acer pl then
         io_bind (discover_kernel_fan_interface fs hwmon) (\<lambda>k. case k of
             Some i \<Rightarrow> io_ret (Some i)
           | None \<Rightarrow> discover_gaming_wmi_fan_interface fs root hwmon)
       else io_ret None) (\<lambda>fan.
       io_ret \<lparr>hw_platform = pl, hw_root = root, hw_hwmon = hwmon,
               hw_profile = (case kprofile of Some p \<Rightarrow> Some p | None \<Rightarrow> gprofile),
               hw_fan = fan\<rparr>)))))"

definition refreshed :: "'e sysfs \<Rightarrow> acer_hardware \<Rightarrow> ('e, acer_hardware) hw_io" where
  "refreshed fs hw = discover_at fs (hw_root hw)"

section \<open>Queries\<close>

definition is_acer :: "acer_hardware \<Rightarrow> bool" where "is_acer hw = vp_acer (hw_platform hw)"

definition is_reference_model :: "acer_hardware \<Rightarrow> bool" where
  "is_reference_model hw \<longleftrightarrow> is_acer hw \<and> vp_product (hw_platform hw) = REFERENCE_PRODUCT"

definition performance_is_turbo :: "acer_hardware \<Rightarrow> bool" where
  "performance_is_turbo hw \<longleftrightarrow> is_reference_model hw \<or>
     (case hw_profile hw of None \<Rightarrow> False | Some p \<Rightarrow> pi_performance_is_turbo p)"

definition k_exists :: "'e sysfs \<Rightarrow> path \<Rightarrow> 'e \<Rightarrow> bool" where
  "k_exists fs p e \<longleftrightarrow> k_is_file fs p e \<or> k_is_dir fs p e"

definition fan_control_exposed :: "'e sysfs \<Rightarrow> acer_hardware \<Rightarrow> 'e \<Rightarrow> bool" where
  "fan_control_exposed fs hw e \<longleftrightarrow> is_acer hw \<and>
     ((case hw_hwmon hw of None \<Rightarrow> False
       | Some base \<Rightarrow> list_ex (\<lambda>n. k_exists fs (path_join base n) e) [''pwm1_enable'', ''pwm2_enable''])
     \<or> (case find_wmi_group fs (rooted (hw_root hw) ''sys/bus/wmi/devices'') GAMING_WMI_GUID ''gaming_fan'' e of
         None \<Rightarrow> False
       | Some base \<Rightarrow> list_ex (\<lambda>n. k_exists fs (path_join base n) e) [''cpu_mode'', ''gpu_mode'']))"

definition require_acer :: "acer_hardware \<Rightarrow> hardware_error + unit" where
  "require_acer hw = (if is_acer hw then Inr ()
     else Inl (Unsupported_platform (vp_vendor (hw_platform hw)) (vp_product (hw_platform hw))))"

definition read_acer_temp_millidegrees :: "'e sysfs \<Rightarrow> acer_hardware \<Rightarrow> u8 \<Rightarrow> ('e, int) hw_io" where
  "read_acer_temp_millidegrees fs hw channel = (case hw_hwmon hw of
      None \<Rightarrow> io_err Acer_hwmon_not_found
    | Some base \<Rightarrow> io_bind (acer_temperature_path fs base channel) (read_watchdog_temperature fs))"

definition read_rpm :: "'e sysfs \<Rightarrow> acer_hardware \<Rightarrow> u8 \<Rightarrow> ('e, u32) hw_io" where
  "read_rpm fs hw channel = (case hw_hwmon hw of
      None \<Rightarrow> io_err Acer_hwmon_not_found
    | Some base \<Rightarrow> parse_value fs parse_u32 (path_join base (''fan'' @ show_word channel @ ''_input'')) ''fan RPM'')"

definition fan_rpm_channels :: "'e sysfs \<Rightarrow> acer_hardware \<Rightarrow> ('e world, 'x, fan_rpm_channel list) io" where
  "fan_rpm_channels fs hw = (case hw_hwmon hw of None \<Rightarrow> io_ret []
     | Some base \<Rightarrow> io_filter_map (\<lambda>i.
        io_bind (fs_query (k_is_file fs (path_join base (''fan'' @ show_word i @ ''_input'')))) (\<lambda>f.
        if \<not> f then io_ret None else
        io_bind (io_ok (fs_read_to_string fs (path_join base (''fan'' @ show_word i @ ''_label'')))) (\<lambda>l.
        let label = (case l of Some v \<Rightarrow> if str_trim v \<noteq> [] then Some (str_trim v) else None | None \<Rightarrow> None) in
        io_bind (io_ok (read_rpm fs hw i)) (\<lambda>rpm.
          io_ret (Some \<lparr>rc_index = i,
            rc_label = (case label of Some v \<Rightarrow> v | None \<Rightarrow>
              if i = 1 then ''CPU'' else if i = 2 then ''GPU'' else ''Fan '' @ show_word i),
            rc_rpm = rpm\<rparr>))))) channels_1_8)"

section \<open>Profiles\<close>

definition current_profile_raw :: "'e sysfs \<Rightarrow> acer_hardware \<Rightarrow> ('e, string) hw_io" where
  "current_profile_raw fs hw = (case hw_profile hw of
      None \<Rightarrow> io_err (Missing_interface (rooted (hw_root hw) ''sys/class/platform-profile''))
    | Some p \<Rightarrow> read_trimmed fs (pi_profile p) ''read platform profile'')"

definition current_profile :: "'e sysfs \<Rightarrow> acer_hardware \<Rightarrow> ('e, platform_profile) hw_io" where
  "current_profile fs hw = io_bind (current_profile_raw fs hw) (\<lambda>s. io_of (profile_from_sysfs s))"

definition valid_profile_request :: "string \<Rightarrow> bool" where
  "valid_profile_request r \<longleftrightarrow> r \<noteq> [] \<and> length r \<le> 48 \<and>
     list_all (\<lambda>c. is_alnum c \<or> c = CHR ''-'' \<or> c = CHR ''_'') r"

definition set_profile_raw :: "'e sysfs \<Rightarrow> acer_hardware \<Rightarrow> string \<Rightarrow> ('e, unit) hw_io" where
  "set_profile_raw fs hw requested =
     io_then (io_of (require_acer hw))
     (if \<not> valid_profile_request requested then io_err (Invalid_value ''platform_profile'' requested)
      else (case hw_profile hw of
        None \<Rightarrow> io_err (Missing_interface (rooted (hw_root hw) ''sys/class/platform-profile''))
      | Some p \<Rightarrow>
        io_bind (read_trimmed fs (pi_choices p) ''read platform profile choices'') (\<lambda>choices.
        if requested \<notin> set (split_ascii_ws choices) then
          io_err (case profile_from_sysfs requested of
              Inl _ \<Rightarrow> Invalid_value ''platform_profile'' requested
            | Inr pr \<Rightarrow> Profile_unavailable pr)
        else
          io_then (write_existing fs (pi_profile p) requested ''set platform profile'')
          (io_bind (read_trimmed fs (pi_profile p) ''verify platform profile'')
             (\<lambda>actual. io_of (ensure_readback ''platform_profile'' requested actual))))))"

definition set_profile :: "'e sysfs \<Rightarrow> acer_hardware \<Rightarrow> platform_profile \<Rightarrow> ('e, unit) hw_io" where
  "set_profile fs hw profile = set_profile_raw fs hw (profile_as_sysfs profile)"

definition capitalise :: "'e sysfs \<Rightarrow> string \<Rightarrow> string" where
  "capitalise fs part = (case part of [] \<Rightarrow> [] | c # _ \<Rightarrow>
     u_upper fs (take (lead_width c) part) @ drop (lead_width c) part)"

definition profile_label :: "'e sysfs \<Rightarrow> string \<Rightarrow> string" where
  "profile_label fs raw =
     (if raw = ''low-power'' then ''Low power''
      else if raw = ''cool'' then ''Cool''
      else if raw = ''quiet'' then ''Quiet''
      else if raw = ''balanced'' then ''Balanced''
      else if raw = ''balanced-performance'' then ''Balanced performance''
      else if raw = ''performance'' then ''Performance''
      else if raw = ''custom'' then ''Custom''
      else join_with '' '' (map (capitalise fs) (filter (\<lambda>p. p \<noteq> [])
        (split_on (\<lambda>c. c = CHR ''-'' \<or> c = CHR ''_'') raw))))"

definition choice_of :: "'e sysfs \<Rightarrow> acer_hardware \<Rightarrow> string \<Rightarrow> profile_choice" where
  "choice_of fs hw raw = \<lparr>pc_raw = raw,
     pc_label = (if performance_is_turbo hw \<and> raw = ''performance'' then ''Turbo'' else profile_label fs raw),
     pc_selectable = (is_acer hw \<and> raw \<noteq> ''custom'' \<and>
       (\<not> is_reference_model hw \<or> is_ok (profile_from_sysfs raw)))\<rparr>"

definition profile_choices :: "'e sysfs \<Rightarrow> acer_hardware \<Rightarrow> ('e, profile_choice list) hw_io" where
  "profile_choices fs hw = (case hw_profile hw of None \<Rightarrow> io_ret []
     | Some p \<Rightarrow> io_bind (read_trimmed fs (pi_choices p) ''read platform profile choices'')
         (\<lambda>choices. io_ret (map (choice_of fs hw) (split_ascii_ws choices))))"

definition fan_backend_modes :: "fan_interface option \<Rightarrow> fan_backend option \<times> bool \<times> bool \<times> bool" where
  "fan_backend_modes i = (case i of
      Some (I_kernel_pwm _ manual) \<Rightarrow> (Some Fan_kernel_pwm, True, manual, True)
    | Some (I_acer_gaming_wmi _ manual) \<Rightarrow> (Some Fan_acer_gaming_wmi, True, manual, True)
    | None \<Rightarrow> (None, False, False, False))"

definition capabilities :: "'e sysfs \<Rightarrow> acer_hardware \<Rightarrow> ('e world, 'x, hardware_capabilities) io" where
  "capabilities fs hw =
     io_bind (io_ok (profile_choices fs hw)) (\<lambda>choices.
     io_bind (io_ok (current_profile_raw fs hw)) (\<lambda>current.
     io_bind (fan_rpm_channels fs hw) (\<lambda>rpm.
       case fan_backend_modes (hw_fan hw) of (backend, auto, manual, maximum) \<Rightarrow>
       io_ret \<lparr>hc_vendor = vp_vendor (hw_platform hw), hc_product = vp_product (hw_platform hw),
         hc_reference_model = is_reference_model hw,
         hc_profiles = \<lparr>prc_backend = map_option pi_backend (hw_profile hw),
           prc_choices = (case choices of None \<Rightarrow> [] | Some cs \<Rightarrow> cs), prc_current = current\<rparr>,
         hc_fans = \<lparr>fc_backend = backend, fc_rpm_channels = rpm, fc_auto = auto,
           fc_manual = manual, fc_maximum = maximum\<rparr>\<rparr>)))"

section \<open>Fans\<close>

definition mode_path :: "acer_hardware \<Rightarrow> u8 \<Rightarrow> hardware_error + path" where
  "mode_path hw channel = (case hw_fan hw of
      Some (I_kernel_pwm base _) \<Rightarrow> Inr (path_join base (''pwm'' @ show_word channel @ ''_enable''))
    | Some (I_acer_gaming_wmi base _) \<Rightarrow>
        res_bind (fan_role channel) (\<lambda>role. Inr (path_join base (role @ ''_mode'')))
    | None \<Rightarrow> Inl (Missing_interface (rooted (hw_root hw) ''sys/class/hwmon/fan-mode'')))"

definition write_mode :: "'e sysfs \<Rightarrow> acer_hardware \<Rightarrow> u8 \<Rightarrow> fan_mode \<Rightarrow> ('e, unit) hw_io" where
  "write_mode fs hw channel mode = io_bind (io_of (mode_path hw channel))
     (\<lambda>p. write_existing fs p (mode_as_sysfs mode) ''set fan mode'')"

definition verify_mode :: "'e sysfs \<Rightarrow> acer_hardware \<Rightarrow> u8 \<Rightarrow> fan_mode \<Rightarrow> ('e, unit) hw_io" where
  "verify_mode fs hw channel expected = io_bind (io_of (mode_path hw channel)) (\<lambda>p.
     io_bind (read_trimmed fs p ''verify fan mode'')
       (\<lambda>actual. io_of (ensure_readback ''pwm_enable'' (mode_as_sysfs expected) actual)))"

text \<open>The file and text \<open>write_speed_percent\<close> uses, and the file \<open>verify_pwm_percent\<close> reads.\<close>

definition speed_target :: "acer_hardware \<Rightarrow> u8 \<Rightarrow> u8 \<Rightarrow> hardware_error + path \<times> string" where
  "speed_target hw channel percent = (case hw_fan hw of
      Some (I_kernel_pwm base _) \<Rightarrow>
        Inr (path_join base (''pwm'' @ show_word channel), show_word (percent_to_pwm percent))
    | Some (I_acer_gaming_wmi base True) \<Rightarrow>
        res_bind (fan_role channel) (\<lambda>role. Inr (path_join base (role @ ''_speed''), show_word percent))
    | _ \<Rightarrow> Inl (Missing_interface (rooted (hw_root hw) ''sys/class/hwmon/fan-speed'')))"

definition write_speed_percent :: "'e sysfs \<Rightarrow> acer_hardware \<Rightarrow> u8 \<Rightarrow> u8 \<Rightarrow> ('e, unit) hw_io" where
  "write_speed_percent fs hw channel percent = io_bind (io_of (speed_target hw channel percent))
     (\<lambda>(p, v). write_existing fs p v ''set fan speed'')"

definition pwm_readback :: "acer_hardware \<Rightarrow> u8 \<Rightarrow> string \<Rightarrow> hardware_error + unit" where
  "pwm_readback hw expected_percent actual = (case parse_u8 actual of
      None \<Rightarrow> Inl (Invalid_value ''PWM'' actual)
    | Some raw \<Rightarrow> (let actual_percent = (case hw_fan hw of
          Some (I_kernel_pwm _ _) \<Rightarrow> pwm_to_percent raw
        | Some (I_acer_gaming_wmi _ _) \<Rightarrow> raw
        | None \<Rightarrow> 0) in
        if actual_percent = expected_percent then Inr ()
        else Inl (Readback_mismatch ''PWM'' (show_word expected_percent @ ''%'')
          (show_word actual_percent @ ''% (raw '' @ actual @ '')''))))"

definition verify_pwm_percent :: "'e sysfs \<Rightarrow> acer_hardware \<Rightarrow> u8 \<Rightarrow> u8 \<Rightarrow> ('e, unit) hw_io" where
  "verify_pwm_percent fs hw channel expected_percent =
     io_bind (io_of (speed_target hw channel expected_percent)) (\<lambda>(p, _).
     io_bind (read_trimmed fs p ''verify fan PWM'')
       (\<lambda>actual. io_of (pwm_readback hw expected_percent actual)))"

definition set_both_modes :: "'e sysfs \<Rightarrow> acer_hardware \<Rightarrow> fan_mode \<Rightarrow> ('e, unit) hw_io" where
  "set_both_modes fs hw mode =
     io_then (write_mode fs hw 1 mode)
     (io_then (write_mode fs hw 2 mode)
     (io_then (verify_mode fs hw 1 mode)
       (verify_mode fs hw 2 mode)))"

definition set_manual :: "'e sysfs \<Rightarrow> acer_hardware \<Rightarrow> u8 \<Rightarrow> u8 \<Rightarrow> ('e, unit) hw_io" where
  "set_manual fs hw cpu_percent gpu_percent =
     io_then (io_of (validate_percent ''CPU fan percent'' cpu_percent))
     (io_then (io_of (validate_percent ''GPU fan percent'' gpu_percent))
     (io_then (write_mode fs hw 1 Mode_maximum)
     (io_then (write_mode fs hw 2 Mode_maximum)
     (io_then (verify_mode fs hw 1 Mode_maximum)
     (io_then (verify_mode fs hw 2 Mode_maximum)
     (io_then (write_speed_percent fs hw 1 cpu_percent)
     (io_then (write_speed_percent fs hw 2 gpu_percent)
     (io_then (write_mode fs hw 1 Mode_manual)
     (io_then (write_mode fs hw 2 Mode_manual)
     (io_then (write_speed_percent fs hw 1 cpu_percent)
     (io_then (write_speed_percent fs hw 2 gpu_percent)
     (io_then (verify_pwm_percent fs hw 1 cpu_percent)
     (io_then (verify_pwm_percent fs hw 2 gpu_percent)
     (io_then (verify_mode fs hw 1 Mode_manual)
       (verify_mode fs hw 2 Mode_manual)))))))))))))))"

definition force_mode_unchecked :: "'e sysfs \<Rightarrow> acer_hardware \<Rightarrow> fan_mode \<Rightarrow> ('e, unit) hw_io" where
  "force_mode_unchecked fs hw mode =
     io_try (write_mode fs hw 1 mode) (\<lambda>first.
     io_try (write_mode fs hw 2 mode) (\<lambda>second.
       case (first, second) of
         (Inl e, _) \<Rightarrow> io_err e
       | (Inr _, Inl e) \<Rightarrow> io_err e
       | (Inr _, Inr _) \<Rightarrow> io_then (verify_mode fs hw 1 mode) (verify_mode fs hw 2 mode)))"

definition read_fan_channel :: "'e sysfs \<Rightarrow> acer_hardware \<Rightarrow> u8 \<Rightarrow> ('e, fan_channel_state) hw_io" where
  "read_fan_channel fs hw channel =
     io_bind (io_ok (read_rpm fs hw channel)) (\<lambda>rpm. case hw_fan hw of
        Some (I_kernel_pwm base _) \<Rightarrow>
          io_bind (read_optional_fan_mode fs (path_join base (''pwm'' @ show_word channel @ ''_enable''))) (\<lambda>mode.
          io_bind (io_ok (read_optional_pwm fs (path_join base (''pwm'' @ show_word channel)))) (\<lambda>pwm.
            io_ret \<lparr>ch_mode = mode, ch_pwm_raw = (case pwm of None \<Rightarrow> None | Some v \<Rightarrow> v), ch_rpm = rpm\<rparr>))
      | Some (I_acer_gaming_wmi base manual) \<Rightarrow>
          io_bind (io_of (fan_role channel)) (\<lambda>role.
          io_bind (read_trimmed fs (path_join base (role @ ''_mode'')) ''read Gaming-WMI fan mode'') (\<lambda>m.
          io_bind (io_of (mode_from_sysfs m)) (\<lambda>mode.
          io_bind (if manual then
              io_bind (parse_value fs parse_u8 (path_join base (role @ ''_speed'')) ''Gaming-WMI fan speed'') (\<lambda>v.
                if v > 100 then io_err (Invalid_value ''Gaming-WMI fan speed'' (show_word v))
                else io_ret (Some (percent_to_pwm v)))
            else io_ret None) (\<lambda>percent.
            io_ret \<lparr>ch_mode = Some mode, ch_pwm_raw = percent, ch_rpm = rpm\<rparr>))))
      | None \<Rightarrow> io_ret \<lparr>ch_mode = None, ch_pwm_raw = None, ch_rpm = rpm\<rparr>)"

definition read_fan_state :: "'e sysfs \<Rightarrow> acer_hardware \<Rightarrow> ('e, fan_state) hw_io" where
  "read_fan_state fs hw = io_bind (read_fan_channel fs hw 1) (\<lambda>c.
     io_bind (read_fan_channel fs hw 2) (\<lambda>g. io_ret \<lparr>fan_cpu = c, fan_gpu = g\<rparr>))"

definition mode_text :: "fan_mode option \<Rightarrow> string" where
  "mode_text m = (case m of None \<Rightarrow> ''unavailable'' | Some k \<Rightarrow> mode_as_sysfs k)"

definition read_verified_fan_state :: "'e sysfs \<Rightarrow> acer_hardware \<Rightarrow> fan_mode \<Rightarrow> ('e, fan_state) hw_io" where
  "read_verified_fan_state fs hw expected =
     io_bind (read_fan_state fs hw) (\<lambda>st.
     io_then (io_of (ensure_readback ''fan mode'' (mode_as_sysfs expected) (mode_text (ch_mode (fan_cpu st)))))
     (io_then (io_of (ensure_readback ''fan mode'' (mode_as_sysfs expected) (mode_text (ch_mode (fan_gpu st)))))
       (io_ret st)))"

definition expected_mode :: "fan_setting \<Rightarrow> fan_mode" where
  "expected_mode s = (case s of Set_automatic \<Rightarrow> Mode_automatic | Set_maximum \<Rightarrow> Mode_maximum
     | Set_manual _ _ \<Rightarrow> Mode_manual)"

definition fan_mutation :: "'e sysfs \<Rightarrow> acer_hardware \<Rightarrow> fan_setting \<Rightarrow> ('e, unit) hw_io" where
  "fan_mutation fs hw s = (case s of
      Set_automatic \<Rightarrow> set_both_modes fs hw Mode_automatic
    | Set_maximum \<Rightarrow> set_both_modes fs hw Mode_maximum
    | Set_manual c g \<Rightarrow> set_manual fs hw c g)"

definition fan_manual_flag :: "fan_interface \<Rightarrow> bool" where
  "fan_manual_flag i = (case i of I_kernel_pwm _ m \<Rightarrow> m | I_acer_gaming_wmi _ m \<Rightarrow> m)"

definition is_manual :: "fan_setting \<Rightarrow> bool" where
  "is_manual s = (case s of Set_manual _ _ \<Rightarrow> True | _ \<Rightarrow> False)"

text \<open>The checks before the first write of \<open>apply_fan_setting\<close>.\<close>

definition fan_preconditions :: "'e sysfs \<Rightarrow> acer_hardware \<Rightarrow> fan_setting \<Rightarrow> ('e, unit) hw_io" where
  "fan_preconditions fs hw s =
     io_then (io_of (require_acer hw))
     (case hw_fan hw of None \<Rightarrow> io_err Fan_control_unavailable
      | Some i \<Rightarrow>
        if is_manual s \<and> \<not> fan_manual_flag i then io_err Manual_fan_unavailable
        else if is_manual s then
          io_bind (case hw_hwmon hw of None \<Rightarrow> io_ret False | Some b \<Rightarrow> manual_watchdog_available fs b)
            (\<lambda>ok. if ok then io_ret () else io_err Manual_fan_unavailable)
        else io_ret ())"

text \<open>The recovery after a failed mutation: Auto first, verified Maximum if Auto fails.\<close>

definition fan_recovery :: "'e sysfs \<Rightarrow> acer_hardware \<Rightarrow> hardware_error \<Rightarrow> ('e, 'a) hw_io" where
  "fan_recovery fs hw cause =
     io_try (force_mode_unchecked fs hw Mode_automatic) (\<lambda>r. case r of
        Inr _ \<Rightarrow> io_err (Mutation_rolled_back cause)
      | Inl automatic \<Rightarrow> io_try (force_mode_unchecked fs hw Mode_maximum) (\<lambda>q. case q of
            Inr _ \<Rightarrow> io_err (Mutation_failsafe_maximum cause automatic)
          | Inl maximum \<Rightarrow> io_err (Mutation_recovery_failed cause automatic maximum)))"

definition fan_transaction :: "'e sysfs \<Rightarrow> acer_hardware \<Rightarrow> fan_setting \<Rightarrow> ('e, fan_state) hw_io" where
  "fan_transaction fs hw s =
     io_try (io_then (fan_mutation fs hw s) (read_verified_fan_state fs hw (expected_mode s)))
       (\<lambda>r. case r of Inr st \<Rightarrow> io_ret st | Inl cause \<Rightarrow> fan_recovery fs hw cause)"

definition apply_fan_setting :: "'e sysfs \<Rightarrow> acer_hardware \<Rightarrow> fan_setting \<Rightarrow> ('e, fan_state) hw_io" where
  "apply_fan_setting fs hw s = io_then (fan_preconditions fs hw s) (fan_transaction fs hw s)"

end
