(* ===== verification/Nvidia.thy ===== *)
theory Nvidia
  imports Sysfs
begin

text \<open>
  \<open>src/nvidia.rs\<close>: the read-only NVIDIA telemetry controller and the VF-offset transactions of
  the exact OEM target. \<open>libnvidia-ml\<close> is not part of the repository: the symbols the program
  loads are the parameter \<open>nvml\<close>, functions on the same environment state the kernel uses,
  with the optional symbols as options. An error message built from other values is
  represented by these values, not by its English text.
\<close>

section \<open>Data\<close>

definition GPU_PCI_BUS_ID :: string where "GPU_PCI_BUS_ID = ''0000:01:00.0''"
definition NVIDIA_VENDOR_ID :: u16 where "NVIDIA_VENDOR_ID = 0x10DE"
definition RTX_4070_LAPTOP_DEVICE_ID :: u16 where "RTX_4070_LAPTOP_DEVICE_ID = 0x2860"
definition ACER_SUBSYSTEM_VENDOR_ID :: u16 where "ACER_SUBSYSTEM_VENDOR_ID = 0x1025"
definition PHN16_72_SUBSYSTEM_DEVICE_ID :: u16 where "PHN16_72_SUBSYSTEM_DEVICE_ID = 0x1731"

definition NVML_SUCCESS :: int where "NVML_SUCCESS = 0"
definition NVML_ERROR_NOT_SUPPORTED :: int where "NVML_ERROR_NOT_SUPPORTED = 3"
definition NVML_CLOCK_GRAPHICS :: int where "NVML_CLOCK_GRAPHICS = 0"
definition NVML_CLOCK_MEMORY :: int where "NVML_CLOCK_MEMORY = 2"
definition NVML_PSTATE_UNKNOWN :: int where "NVML_PSTATE_UNKNOWN = 32"
definition NVML_MAX_GPU_PERF_PSTATES :: nat where "NVML_MAX_GPU_PERF_PSTATES = 16"
definition BYTES_PER_MIB :: u64 where "BYTES_PER_MIB = 1048576"

datatype performance_state = P0 | P1 | P2 | P3 | P4 | P5 | P6 | P7 | P8 | P9 | P10 | P11 | P12
  | P13 | P14 | P15

definition all_pstates :: "performance_state list" where
  "all_pstates = [P0, P1, P2, P3, P4, P5, P6, P7, P8, P9, P10, P11, P12, P13, P14, P15]"

fun pstate_index :: "performance_state \<Rightarrow> int" where
  "pstate_index P0 = 0" | "pstate_index P1 = 1" | "pstate_index P2 = 2" | "pstate_index P3 = 3"
| "pstate_index P4 = 4" | "pstate_index P5 = 5" | "pstate_index P6 = 6" | "pstate_index P7 = 7"
| "pstate_index P8 = 8" | "pstate_index P9 = 9" | "pstate_index P10 = 10" | "pstate_index P11 = 11"
| "pstate_index P12 = 12" | "pstate_index P13 = 13" | "pstate_index P14 = 14" | "pstate_index P15 = 15"

lemma pstate_index_inj: "pstate_index a = pstate_index b \<Longrightarrow> a = b"
  by (cases a; cases b) simp_all

text \<open>The derived order of the enumeration.\<close>

instantiation performance_state :: linorder
begin

definition less_eq_performance_state :: "performance_state \<Rightarrow> performance_state \<Rightarrow> bool" where
  "less_eq_performance_state a b \<longleftrightarrow> pstate_index a \<le> pstate_index b"

definition less_performance_state :: "performance_state \<Rightarrow> performance_state \<Rightarrow> bool" where
  "less_performance_state a b \<longleftrightarrow> pstate_index a < pstate_index b"

instance
  by standard (auto simp: less_eq_performance_state_def less_performance_state_def dest: pstate_index_inj)

end

datatype clock_domain = Core | Memory

fun nvml_clock_type :: "clock_domain \<Rightarrow> int" where
  "nvml_clock_type Core = NVML_CLOCK_GRAPHICS"
| "nvml_clock_type Memory = NVML_CLOCK_MEMORY"

record clock_offsets =
  co_core :: int
  co_memory :: int

definition OEM_TURBO :: clock_offsets where "OEM_TURBO = \<lparr>co_core = 100, co_memory = 200\<rparr>"
definition RESET :: clock_offsets where "RESET = \<lparr>co_core = 0, co_memory = 0\<rparr>"

fun for_domain :: "clock_offsets \<Rightarrow> clock_domain \<Rightarrow> int" where
  "for_domain offs Core = co_core offs"
| "for_domain offs Memory = co_memory offs"

record offset_reading =
  or_current :: int
  or_minimum :: int
  or_maximum :: int

definition accepts :: "offset_reading \<Rightarrow> int \<Rightarrow> bool" where
  "accepts r v \<longleftrightarrow> or_minimum r \<le> v \<and> v \<le> or_maximum r"

record state_offsets =
  so_state :: performance_state
  so_core :: offset_reading
  so_memory :: offset_reading

fun reading :: "state_offsets \<Rightarrow> clock_domain \<Rightarrow> offset_reading" where
  "reading s Core = so_core s"
| "reading s Memory = so_memory s"

type_synonym offset_snapshot = "state_offsets list"

definition snapshot_state :: "offset_snapshot \<Rightarrow> performance_state \<Rightarrow> state_offsets option" where
  "snapshot_state snap p = List.find (\<lambda>r. so_state r = p) snap"

record offset_transition =
  ot_previous :: offset_snapshot
  ot_current :: offset_snapshot

record pci_identity =
  id_vendor :: u16
  id_device :: u16
  id_subsystem_vendor :: u16
  id_subsystem_device :: u16

definition EXPECTED_IDENTITY :: pci_identity where
  "EXPECTED_IDENTITY = \<lparr>id_vendor = NVIDIA_VENDOR_ID, id_device = RTX_4070_LAPTOP_DEVICE_ID,
     id_subsystem_vendor = ACER_SUBSYSTEM_VENDOR_ID, id_subsystem_device = PHN16_72_SUBSYSTEM_DEVICE_ID\<rparr>"

datatype nvidia_runtime_status = Rt_active | Rt_suspended | Rt_suspending | Rt_resuming | Rt_unsupported | Rt_unknown

definition permits_live_nvml :: "nvidia_runtime_status \<Rightarrow> bool" where
  "permits_live_nvml s \<longleftrightarrow> s = Rt_active \<or> s = Rt_unsupported"

record nvidia_pci_device =
  pd_bus_id :: string
  pd_identity :: pci_identity
  pd_runtime_status :: nvidia_runtime_status
  pd_runtime_usage :: "u32 option"

definition is_exact_oem_target :: "nvidia_pci_device \<Rightarrow> bool" where
  "is_exact_oem_target d \<longleftrightarrow> pd_identity d = EXPECTED_IDENTITY"

datatype nvidia_error =
    Nv_io path io_error
  | Invalid_sysfs_hex path string
  | Wrong_gpu string pci_identity pci_identity
  | Library_load
  | Missing_symbol string
  | Unavailable_capability string
  | Invalid_telemetry string string
  | Runtime_power_state string nvidia_runtime_status
  | Nvml_error string int string
  | Unsupported_offset_topology "performance_state list" "performance_state list"
  | Invalid_performance_state int
  | Offset_unsupported_state performance_state
  | Asymmetric_offset_support performance_state bool bool
  | Missing_snapshot_state performance_state
  | Offset_out_of_range performance_state clock_domain int int int
  | Offset_readback_mismatch performance_state clock_domain int int
  | Transaction_rolled_back nvidia_error
  | Transaction_rollback_failed nvidia_error "rollback_failure list"
and rollback_failure =
    Rollback_write performance_state clock_domain nvidia_error
  | Rollback_readback performance_state clock_domain int int
  | Rollback_read performance_state clock_domain nvidia_error

type_synonym ('e, 'a) nv_io = "('e world, nvidia_error, 'a) io"

definition pstate_of_int :: "int \<Rightarrow> nvidia_error + performance_state" where
  "pstate_of_int v = (case List.find (\<lambda>p. pstate_index p = v) all_pstates of
      Some p \<Rightarrow> Inr p | None \<Rightarrow> Inl (Invalid_performance_state v))"

definition EXPECTED_STATES :: "performance_state list" where
  "EXPECTED_STATES = [P0, P3, P4, P5, P8]"

definition invalidates_session :: "nvidia_error \<Rightarrow> bool" where
  "invalidates_session e = (case e of Nvml_error _ code _ \<Rightarrow> code \<in> {1, 9, 15, 16, 18, 27} | _ \<Rightarrow> False)"

text \<open>Clock-event reason bits.\<close>

definition contains_reason :: "u64 \<Rightarrow> u64 \<Rightarrow> bool" where
  "contains_reason bits reason \<longleftrightarrow> and bits reason \<noteq> 0"

definition active_labels :: "u64 \<Rightarrow> string list" where
  "active_labels bits = map snd (filter (\<lambda>(bit, label). contains_reason bits bit)
     [(0x1, ''idle''), (0x2, ''application-clocks''), (0x4, ''software-power-cap''),
      (0x8, ''hardware-slowdown''), (0x10, ''sync-boost''), (0x20, ''software-thermal''),
      (0x40, ''hardware-thermal''), (0x80, ''hardware-power-brake''), (0x100, ''display-clock'')])"

record power_telemetry =
  pt_draw :: "u32 option"
  pt_enforced_limit :: u32
  pt_default_limit :: u32
  pt_minimum_limit :: u32
  pt_maximum_limit :: u32
  pt_clock_event_reasons :: u64

record nvidia_live_telemetry =
  nl_temperature :: "u32 option"
  nl_utilization :: "u32 option"
  nl_power_draw :: "u32 option"
  nl_pstate :: "performance_state option"
  nl_memory_used_mib :: "u64 option"
  nl_memory_total_mib :: "u64 option"
  nl_graphics_clock :: "u32 option"
  nl_memory_clock :: "u32 option"
  nl_session_lost :: bool
  nl_errors :: "nvidia_error list"

definition is_runtime_idle :: "nvidia_live_telemetry \<Rightarrow> bool" where
  "is_runtime_idle t \<longleftrightarrow> nl_utilization t = Some 0 \<and>
     (case nl_pstate t of None \<Rightarrow> False | Some p \<Rightarrow> P8 \<le> p)"

record nvidia_static_info =
  ni_model :: "string option"
  ni_driver_version :: "string option"
  ni_pci_bus_id :: "string option"
  ni_maximum_graphics_clock :: "u32 option"
  ni_maximum_memory_clock :: "u32 option"
  ni_errors :: "nvidia_error list"

section \<open>The NVML library as a parameter\<close>

text \<open>
  Return codes are the \<open>c_int\<close> of NVML, output parameters are returned beside them, and a device
  handle is a number, \<open>None\<close> the null pointer. \<open>nv_get_states\<close> receives the buffer of the caller
  and returns it filled.
\<close>

record 'e nvml =
  nv_load :: "'e \<Rightarrow> bool"
  nv_has_symbol :: "string \<Rightarrow> bool"
  nv_init :: "'e \<Rightarrow> int \<times> 'e"
  nv_shutdown :: "'e \<Rightarrow> 'e"
  nv_error_string :: "int \<Rightarrow> string option"
  nv_handle :: "string \<Rightarrow> 'e \<Rightarrow> (int \<times> nat option) \<times> 'e"
  nv_get_states :: "(nat \<Rightarrow> int list \<Rightarrow> 'e \<Rightarrow> (int \<times> int list) \<times> 'e) option"
  nv_get_offsets :: "(nat \<Rightarrow> int \<Rightarrow> int \<Rightarrow> 'e \<Rightarrow> (int \<times> offset_reading) \<times> 'e) option"
  nv_set_offsets :: "(nat \<Rightarrow> int \<Rightarrow> int \<Rightarrow> int \<Rightarrow> 'e \<Rightarrow> int \<times> 'e) option"
  nv_power_usage :: "(nat \<Rightarrow> 'e \<Rightarrow> (int \<times> u32) \<times> 'e) option"
  nv_enforced_limit :: "(nat \<Rightarrow> 'e \<Rightarrow> (int \<times> u32) \<times> 'e) option"
  nv_default_limit :: "(nat \<Rightarrow> 'e \<Rightarrow> (int \<times> u32) \<times> 'e) option"
  nv_limit_constraints :: "(nat \<Rightarrow> 'e \<Rightarrow> (int \<times> u32 \<times> u32) \<times> 'e) option"
  nv_event_reasons :: "(nat \<Rightarrow> 'e \<Rightarrow> (int \<times> u64) \<times> 'e) option"
  nv_temperature :: "(nat \<Rightarrow> 'e \<Rightarrow> (int \<times> u32) \<times> 'e) option"
  nv_utilization :: "(nat \<Rightarrow> 'e \<Rightarrow> (int \<times> u32 \<times> u32) \<times> 'e) option"
  nv_memory :: "(nat \<Rightarrow> 'e \<Rightarrow> (int \<times> u64 \<times> u64 \<times> u64) \<times> 'e) option"
  nv_clock_info :: "(nat \<Rightarrow> int \<Rightarrow> 'e \<Rightarrow> (int \<times> u32) \<times> 'e) option"
  nv_max_clock_info :: "(nat \<Rightarrow> int \<Rightarrow> 'e \<Rightarrow> (int \<times> u32) \<times> 'e) option"
  nv_performance_state :: "(nat \<Rightarrow> 'e \<Rightarrow> (int \<times> int) \<times> 'e) option"
  nv_name :: "(nat \<Rightarrow> 'e \<Rightarrow> (int \<times> string) \<times> 'e) option"
  nv_driver_version :: "('e \<Rightarrow> (int \<times> string) \<times> 'e) option"

definition nv_call :: "('e \<Rightarrow> 'a \<times> 'e) \<Rightarrow> ('e world, 'x, 'a) io" where
  "nv_call f = (\<lambda>w. case f (wenv w) of (r, e) \<Rightarrow> (Inr r, w\<lparr>wenv := e\<rparr>))"

definition nvml_error_from :: "'e nvml \<Rightarrow> string \<Rightarrow> int \<Rightarrow> nvidia_error" where
  "nvml_error_from nv operation code = Nvml_error operation code
     (case nv_error_string nv code of None \<Rightarrow> ''unknown NVML error'' | Some s \<Rightarrow> utf8_lossy s)"

definition required_symbols :: "string list" where
  "required_symbols = [''nvmlInit_v2'', ''nvmlShutdown'', ''nvmlErrorString'', ''nvmlDeviceGetHandleByPciBusId_v2'']"

definition runtime_load :: "'e nvml \<Rightarrow> ('e, unit) nv_io" where
  "runtime_load nv =
     io_bind (fs_query (nv_load nv)) (\<lambda>present.
     if \<not> present then io_err Library_load
     else (case List.find (\<lambda>n. \<not> nv_has_symbol nv n) required_symbols of
        Some n \<Rightarrow> io_err (Missing_symbol n)
      | None \<Rightarrow> io_bind (nv_call (nv_init nv)) (\<lambda>code.
          if code \<noteq> NVML_SUCCESS then io_err (nvml_error_from nv ''nvmlInit_v2'' code) else io_ret ())))"

text \<open>\<open>Drop for NvmlRuntime\<close>, and its effect when an error leaves the scope that owns the runtime.\<close>

definition runtime_drop :: "'e nvml \<Rightarrow> ('e world, 'x, unit) io" where
  "runtime_drop nv = nv_call (\<lambda>e. ((), nv_shutdown nv e))"

definition owning_runtime :: "'e nvml \<Rightarrow> ('e, 'a) nv_io \<Rightarrow> ('e, 'a) nv_io" where
  "owning_runtime nv m = io_try m (\<lambda>r. case r of Inr a \<Rightarrow> io_ret a
     | Inl e \<Rightarrow> io_then (runtime_drop nv) (io_err e))"

record nvidia_controller =
  nc_device :: nat
  nc_bus_id :: string
  nc_states :: "performance_state list"
  nc_exact_target :: bool
  nc_mutation_authorized :: bool

definition open_device :: "'e nvml \<Rightarrow> string \<Rightarrow> ('e, nat) nv_io" where
  "open_device nv bus_id =
     (if CHR 0x00 \<in> set bus_id then io_err (Invalid_telemetry ''PCI bus ID'' bus_id)
      else io_bind (nv_call (nv_handle nv bus_id)) (\<lambda>(code, device).
        if code \<noteq> NVML_SUCCESS then io_err (nvml_error_from nv ''nvmlDeviceGetHandleByPciBusId_v2'' code)
        else (case device of Some d \<Rightarrow> io_ret d
          | None \<Rightarrow> io_err (Nvml_error ''nvmlDeviceGetHandleByPciBusId_v2'' (-1)
              ''NVML returned a null device handle''))))"

definition read_clock_optional ::
  "'e nvml \<Rightarrow> nvidia_controller \<Rightarrow> performance_state \<Rightarrow> clock_domain \<Rightarrow> ('e, offset_reading option) nv_io" where
  "read_clock_optional nv c state domain = (case nv_get_offsets nv of
      None \<Rightarrow> io_err (Unavailable_capability ''nvmlDeviceGetClockOffsets'')
    | Some f \<Rightarrow> io_bind (nv_call (f (nc_device c) (nvml_clock_type domain) (pstate_index state))) (\<lambda>(code, info).
        if code = NVML_SUCCESS then io_ret (Some info)
        else if code = NVML_ERROR_NOT_SUPPORTED then io_ret None
        else io_err (nvml_error_from nv ''nvmlDeviceGetClockOffsets'' code)))"

fun probe_states :: "'e nvml \<Rightarrow> nvidia_controller \<Rightarrow> performance_state list \<Rightarrow> ('e, performance_state list) nv_io" where
  "probe_states nv c [] = io_ret []"
| "probe_states nv c (p # ps) =
     io_bind (read_clock_optional nv c p Core) (\<lambda>core.
     io_bind (read_clock_optional nv c p Memory) (\<lambda>memory.
       case (core, memory) of
         (Some _, Some _) \<Rightarrow> io_bind (probe_states nv c ps) (\<lambda>rest. io_ret (p # rest))
       | (None, None) \<Rightarrow> io_err (Offset_unsupported_state p)
       | _ \<Rightarrow> io_err (Asymmetric_offset_support p (core \<noteq> None) (memory \<noteq> None))))"

definition advertised_states :: "int list \<Rightarrow> nvidia_error + performance_state list" where
  "advertised_states raw = res_bind
     (res_map_list pstate_of_int (takeWhile (\<lambda>v. v \<noteq> NVML_PSTATE_UNKNOWN) raw))
     (\<lambda>ps. Inr (remdups_adj (sort ps)))"

definition probe_supported_states :: "'e nvml \<Rightarrow> nvidia_controller \<Rightarrow> ('e, performance_state list) nv_io" where
  "probe_supported_states nv c = (case nv_get_states nv of
      None \<Rightarrow> io_err (Unavailable_capability ''nvmlDeviceGetSupportedPerformanceStates'')
    | Some f \<Rightarrow> io_bind (nv_call (f (nc_device c) (replicate NVML_MAX_GPU_PERF_PSTATES NVML_PSTATE_UNKNOWN))) (\<lambda>(code, raw).
        if code \<noteq> NVML_SUCCESS then io_err (nvml_error_from nv ''nvmlDeviceGetSupportedPerformanceStates'' code)
        else io_bind (io_of (advertised_states raw)) (probe_states nv c)))"

section \<open>PCI identity\<close>

definition hex_digits :: "string \<Rightarrow> string" where
  "hex_digits t = (case strip_pre ''0x'' t of Some d \<Rightarrow> d
     | None \<Rightarrow> (case strip_pre ''0X'' t of Some d \<Rightarrow> d | None \<Rightarrow> t))"

definition read_hex :: "'e sysfs \<Rightarrow> nat \<Rightarrow> path \<Rightarrow> ('e, nat) nv_io" where
  "read_hex fs mx p = io_bind (io_map_err (Nv_io p) (fs_read_to_string fs p))
     (\<lambda>v. io_of (ok_or (Invalid_sysfs_hex p (str_trim v)) (parse_uint 16 mx (hex_digits (str_trim v)))))"

definition read_hex_u16 :: "'e sysfs \<Rightarrow> path \<Rightarrow> ('e, u16) nv_io" where
  "read_hex_u16 fs p = io_bind (read_hex fs u16_max p) (\<lambda>n. io_ret (of_nat n))"

definition read_hex_u32 :: "'e sysfs \<Rightarrow> path \<Rightarrow> ('e, u32) nv_io" where
  "read_hex_u32 fs p = io_bind (read_hex fs u32_max p) (\<lambda>n. io_ret (of_nat n))"

definition read_pci_identity_at :: "'e sysfs \<Rightarrow> path \<Rightarrow> string \<Rightarrow> ('e, pci_identity) nv_io" where
  "read_pci_identity_at fs root bus_id = (let d = path_join (rooted root ''sys/bus/pci/devices'') bus_id in
     io_bind (read_hex_u16 fs (path_join d ''vendor'')) (\<lambda>v.
     io_bind (read_hex_u16 fs (path_join d ''device'')) (\<lambda>dev.
     io_bind (read_hex_u16 fs (path_join d ''subsystem_vendor'')) (\<lambda>sv.
     io_bind (read_hex_u16 fs (path_join d ''subsystem_device'')) (\<lambda>sd.
       io_ret \<lparr>id_vendor = v, id_device = dev, id_subsystem_vendor = sv, id_subsystem_device = sd\<rparr>)))))"

definition classify_runtime_status :: "io_error + string \<Rightarrow> nvidia_runtime_status" where
  "classify_runtime_status r = (case r of
      Inr value \<Rightarrow> (let v = str_trim value in
        if v = ''active'' then Rt_active else if v = ''suspended'' then Rt_suspended
        else if v = ''suspending'' then Rt_suspending else if v = ''resuming'' then Rt_resuming
        else if v = ''unsupported'' then Rt_unsupported else Rt_unknown)
    | Inl e \<Rightarrow> if io_error_kind e = NotFound then Rt_unsupported else Rt_unknown)"

text \<open>The closure of the enumeration's \<open>filter_map\<close>: any failure inside skips the entry.\<close>

definition skip_error :: "('w, 'x, 'a) io \<Rightarrow> ('w, unit, 'a) io" where
  "skip_error m = io_map_err (\<lambda>_. ()) m"

definition pci_candidate :: "'e sysfs \<Rightarrow> path \<Rightarrow> string \<Rightarrow> ('e world, unit, nvidia_pci_device) io" where
  "pci_candidate fs root bus_id = (let d = path_join (rooted root ''sys/bus/pci/devices'') bus_id in
     if \<not> utf8_valid bus_id then io_err () else
     io_bind (skip_error (read_hex_u16 fs (path_join d ''vendor''))) (\<lambda>vendor.
     io_bind (skip_error (read_hex_u32 fs (path_join d ''class''))) (\<lambda>cls.
     if vendor \<noteq> NVIDIA_VENDOR_ID \<or> drop_bit 16 cls \<noteq> 0x03 then io_err () else
     io_bind (skip_error (read_pci_identity_at fs root bus_id)) (\<lambda>ident.
     io_try (fs_read_to_string fs (d @ [''power'', ''runtime_status''])) (\<lambda>status.
     io_try (fs_read_to_string fs (d @ [''power'', ''runtime_usage''])) (\<lambda>usage.
       io_ret \<lparr>pd_bus_id = bus_id, pd_identity = ident, pd_runtime_status = classify_runtime_status status,
         pd_runtime_usage = (case usage of Inl _ \<Rightarrow> None | Inr s \<Rightarrow> parse_u32 (str_trim s))\<rparr>))))))"

definition pci_rank :: "nvidia_pci_device \<Rightarrow> bool \<times> bool \<times> string" where
  "pci_rank d = (\<not> is_exact_oem_target d, pd_bus_id d \<noteq> GPU_PCI_BUS_ID, pd_bus_id d)"

definition select_pci_device :: "nvidia_pci_device list \<Rightarrow> nvidia_pci_device option" where
  "select_pci_device ds = (case sort_key pci_rank ds of [] \<Rightarrow> None | d # _ \<Rightarrow> Some d)"

definition discover_nvidia_pci_device :: "'e sysfs \<Rightarrow> path \<Rightarrow> ('e world, 'x, nvidia_pci_device option) io" where
  "discover_nvidia_pci_device fs root =
     io_bind (fs_query (k_read_dir fs (rooted root ''sys/bus/pci/devices''))) (\<lambda>r. case r of
        Inl _ \<Rightarrow> io_ret None
      | Inr names \<Rightarrow> io_bind (io_filter_map (\<lambda>n. io_ok (pci_candidate fs root n)) names)
          (\<lambda>ds. io_ret (select_pci_device ds)))"

section \<open>The controller\<close>

definition discover_telemetry ::
  "'e nvml \<Rightarrow> 'e sysfs \<Rightarrow> nvidia_pci_device \<Rightarrow> path \<Rightarrow> bool \<Rightarrow> ('e, nvidia_controller) nv_io" where
  "discover_telemetry nv fs d root probe_offsets =
     (if \<not> permits_live_nvml (pd_runtime_status d)
      then io_err (Runtime_power_state (pd_bus_id d) (pd_runtime_status d))
      else io_bind (read_pci_identity_at fs root (pd_bus_id d)) (\<lambda>actual.
        io_then (runtime_load nv) (owning_runtime nv
          (io_bind (open_device nv (pd_bus_id d)) (\<lambda>device.
             let c = \<lparr>nc_device = device, nc_bus_id = pd_bus_id d, nc_states = [],
                      nc_exact_target = (actual = EXPECTED_IDENTITY), nc_mutation_authorized = False\<rparr> in
             if probe_offsets then io_try (probe_supported_states nv c)
               (\<lambda>r. io_ret (c\<lparr>nc_states := (case r of Inr ps \<Rightarrow> ps | Inl _ \<Rightarrow> [])\<rparr>))
             else io_ret c)))))"

definition oem_symbols_present :: "'e nvml \<Rightarrow> bool" where
  "oem_symbols_present nv \<longleftrightarrow> nv_get_states nv \<noteq> None \<and> nv_get_offsets nv \<noteq> None \<and> nv_set_offsets nv \<noteq> None"

definition controller_discover :: "'e nvml \<Rightarrow> 'e sysfs \<Rightarrow> path \<Rightarrow> ('e, nvidia_controller) nv_io" where
  "controller_discover nv fs root =
     io_bind (discover_nvidia_pci_device fs root) (\<lambda>found.
     io_bind (case found of Some d \<Rightarrow> io_ret (pd_bus_id d, pd_identity d)
        | None \<Rightarrow> io_bind (read_pci_identity_at fs root GPU_PCI_BUS_ID) (\<lambda>i. io_ret (GPU_PCI_BUS_ID, i)))
       (\<lambda>(bus_id, actual).
     if actual \<noteq> EXPECTED_IDENTITY then io_err (Wrong_gpu bus_id EXPECTED_IDENTITY actual)
     else io_then (runtime_load nv) (owning_runtime nv
       (if \<not> oem_symbols_present nv then io_err (Unavailable_capability ''OEM VF clock offsets'')
        else io_bind (open_device nv bus_id) (\<lambda>device.
          let c = \<lparr>nc_device = device, nc_bus_id = bus_id, nc_states = [], nc_exact_target = True,
                   nc_mutation_authorized = True\<rparr> in
          io_bind (probe_supported_states nv c) (\<lambda>states.
            if states \<noteq> EXPECTED_STATES then io_err (Unsupported_offset_topology EXPECTED_STATES states)
            else io_ret (c\<lparr>nc_states := states\<rparr>)))))))"

definition ensure_mutation_authorized :: "nvidia_controller \<Rightarrow> nvidia_error + unit" where
  "ensure_mutation_authorized c = (if nc_mutation_authorized c then Inr ()
     else Inl (Unavailable_capability ''OEM VF mutation on a read-only telemetry controller''))"

text \<open>An optional getter: an absent symbol and \<open>NOT_SUPPORTED\<close> are no value.\<close>

definition optional_get :: "'e nvml \<Rightarrow> string \<Rightarrow> ('e \<Rightarrow> (int \<times> 'a) \<times> 'e) option \<Rightarrow>
    ('a \<Rightarrow> nvidia_error + 'b option) \<Rightarrow> ('e, 'b option) nv_io" where
  "optional_get nv operation f conv = (case f of None \<Rightarrow> io_ret None
     | Some g \<Rightarrow> io_bind (nv_call g) (\<lambda>(code, v).
         if code = NVML_SUCCESS then io_of (conv v)
         else if code = NVML_ERROR_NOT_SUPPORTED then io_ret None
         else io_err (nvml_error_from nv operation code)))"

definition get_optional_u32 :: "'e nvml \<Rightarrow> nvidia_controller \<Rightarrow> string \<Rightarrow>
    (nat \<Rightarrow> 'e \<Rightarrow> (int \<times> u32) \<times> 'e) option \<Rightarrow> ('e, u32 option) nv_io" where
  "get_optional_u32 nv c operation f =
     optional_get nv operation (map_option (\<lambda>g. g (nc_device c)) f) (\<lambda>v. Inr (Some v))"

definition get_required_u32 :: "'e nvml \<Rightarrow> nvidia_controller \<Rightarrow> string \<Rightarrow>
    (nat \<Rightarrow> 'e \<Rightarrow> (int \<times> u32) \<times> 'e) option \<Rightarrow> ('e, u32) nv_io" where
  "get_required_u32 nv c operation f = (case f of
      None \<Rightarrow> io_err (Unavailable_capability operation)
    | Some g \<Rightarrow> io_bind (nv_call (g (nc_device c))) (\<lambda>(code, v).
        if code = NVML_SUCCESS then io_ret v else io_err (nvml_error_from nv operation code)))"

definition clock_info :: "'e nvml \<Rightarrow> nvidia_controller \<Rightarrow> string \<Rightarrow>
    (nat \<Rightarrow> int \<Rightarrow> 'e \<Rightarrow> (int \<times> u32) \<times> 'e) option \<Rightarrow> int \<Rightarrow> ('e, u32 option) nv_io" where
  "clock_info nv c operation f domain =
     optional_get nv operation (map_option (\<lambda>g. g (nc_device c) domain) f) (\<lambda>v. Inr (Some v))"

definition temperature :: "'e nvml \<Rightarrow> nvidia_controller \<Rightarrow> ('e, u32 option) nv_io" where
  "temperature nv c = optional_get nv ''nvmlDeviceGetTemperature''
     (map_option (\<lambda>g. g (nc_device c)) (nv_temperature nv)) (\<lambda>v. Inr (Some v))"

definition utilization :: "'e nvml \<Rightarrow> nvidia_controller \<Rightarrow> ('e, u32 option) nv_io" where
  "utilization nv c = optional_get nv ''nvmlDeviceGetUtilizationRates''
     (map_option (\<lambda>g. g (nc_device c)) (nv_utilization nv))
     (\<lambda>(gpu, _). if gpu \<le> 100 then Inr (Some gpu)
        else Inl (Invalid_telemetry ''GPU utilization'' (show_word gpu)))"

definition memory_info :: "'e nvml \<Rightarrow> nvidia_controller \<Rightarrow> ('e, (u64 \<times> u64 \<times> u64) option) nv_io" where
  "memory_info nv c = optional_get nv ''nvmlDeviceGetMemoryInfo''
     (map_option (\<lambda>g. g (nc_device c)) (nv_memory nv))
     (\<lambda>(total, free, used). if used \<le> total then Inr (Some (total, free, used))
        else Inl (Invalid_telemetry ''GPU memory'' (''used='' @ show_word used @ '' total='' @ show_word total)))"

definition read_performance_state :: "'e nvml \<Rightarrow> nvidia_controller \<Rightarrow> ('e, performance_state option) nv_io" where
  "read_performance_state nv c = optional_get nv ''nvmlDeviceGetPerformanceState''
     (map_option (\<lambda>g. g (nc_device c)) (nv_performance_state nv))
     (\<lambda>v. if v = NVML_PSTATE_UNKNOWN then Inr None
        else res_bind (pstate_of_int v) (\<lambda>p. Inr (Some p)))"

definition c_buffer_to_string :: "string \<Rightarrow> string" where
  "c_buffer_to_string buffer = utf8_lossy (takeWhile (\<lambda>b. b \<noteq> CHR 0x00) buffer)"

definition device_name :: "'e nvml \<Rightarrow> nvidia_controller \<Rightarrow> ('e, string option) nv_io" where
  "device_name nv c = optional_get nv ''nvmlDeviceGetName''
     (map_option (\<lambda>g. g (nc_device c)) (nv_name nv)) (\<lambda>b. Inr (Some (c_buffer_to_string b)))"

definition driver_version :: "'e nvml \<Rightarrow> ('e, string option) nv_io" where
  "driver_version nv = optional_get nv ''nvmlSystemGetDriverVersion'' (nv_driver_version nv)
     (\<lambda>b. Inr (Some (c_buffer_to_string b)))"

text \<open>\<open>collect_metric\<close> and \<open>collect_live_metric\<close>: an error is recorded and the metric is missing.\<close>

definition collect_metric :: "nvidia_error list \<Rightarrow> ('e, 'a option) nv_io \<Rightarrow>
    ('e world, 'x, 'a option \<times> nvidia_error list) io" where
  "collect_metric errs m = io_try m (\<lambda>r. io_ret (case r of Inr v \<Rightarrow> (v, errs) | Inl e \<Rightarrow> (None, errs @ [e])))"

definition collect_live_metric :: "nvidia_error list \<times> bool \<Rightarrow> ('e, 'a option) nv_io \<Rightarrow>
    ('e world, 'x, 'a option \<times> nvidia_error list \<times> bool) io" where
  "collect_live_metric st m = io_try m (\<lambda>r. io_ret (case r of Inr v \<Rightarrow> (v, st)
     | Inl e \<Rightarrow> (None, fst st @ [e], snd st \<or> invalidates_session e)))"

definition live_telemetry :: "'e nvml \<Rightarrow> nvidia_controller \<Rightarrow> ('e world, 'x, nvidia_live_telemetry) io" where
  "live_telemetry nv c =
     io_bind (collect_live_metric ([], False) (temperature nv c)) (\<lambda>(temp, s1).
     io_bind (collect_live_metric s1 (utilization nv c)) (\<lambda>(util, s2).
     io_bind (collect_live_metric s2 (get_optional_u32 nv c ''nvmlDeviceGetPowerUsage'' (nv_power_usage nv))) (\<lambda>(draw, s3).
     io_bind (collect_live_metric s3 (read_performance_state nv c)) (\<lambda>(pstate, s4).
     io_bind (collect_live_metric s4 (memory_info nv c)) (\<lambda>(mem, s5).
     io_bind (collect_live_metric s5 (clock_info nv c ''nvmlDeviceGetClockInfo(graphics)'' (nv_clock_info nv) NVML_CLOCK_GRAPHICS)) (\<lambda>(gclk, s6).
     io_bind (collect_live_metric s6 (clock_info nv c ''nvmlDeviceGetClockInfo(memory)'' (nv_clock_info nv) NVML_CLOCK_MEMORY)) (\<lambda>(mclk, s7).
       io_ret \<lparr>nl_temperature = temp, nl_utilization = util, nl_power_draw = draw, nl_pstate = pstate,
         nl_memory_used_mib = map_option (\<lambda>(total, free, used). used div BYTES_PER_MIB) mem,
         nl_memory_total_mib = map_option (\<lambda>(total, free, used). total div BYTES_PER_MIB) mem,
         nl_graphics_clock = gclk, nl_memory_clock = mclk,
         nl_session_lost = snd s7, nl_errors = fst s7\<rparr>)))))))"

definition static_info :: "'e nvml \<Rightarrow> nvidia_controller \<Rightarrow> ('e world, 'x, nvidia_static_info) io" where
  "static_info nv c =
     io_bind (collect_metric [] (device_name nv c)) (\<lambda>(model, e1).
     io_bind (collect_metric e1 (driver_version nv)) (\<lambda>(version, e2).
     io_bind (collect_metric e2 (clock_info nv c ''nvmlDeviceGetMaxClockInfo(graphics)'' (nv_max_clock_info nv) NVML_CLOCK_GRAPHICS)) (\<lambda>(gmax, e3).
     io_bind (collect_metric e3 (clock_info nv c ''nvmlDeviceGetMaxClockInfo(memory)'' (nv_max_clock_info nv) NVML_CLOCK_MEMORY)) (\<lambda>(mmax, e4).
       io_ret \<lparr>ni_model = model, ni_driver_version = version, ni_pci_bus_id = Some (nc_bus_id c),
         ni_maximum_graphics_clock = gmax, ni_maximum_memory_clock = mmax, ni_errors = e4\<rparr>))))"

definition read_power_telemetry :: "'e nvml \<Rightarrow> nvidia_controller \<Rightarrow> ('e, power_telemetry) nv_io" where
  "read_power_telemetry nv c =
     io_bind (get_optional_u32 nv c ''nvmlDeviceGetPowerUsage'' (nv_power_usage nv)) (\<lambda>draw.
     io_bind (get_required_u32 nv c ''nvmlDeviceGetEnforcedPowerLimit'' (nv_enforced_limit nv)) (\<lambda>enforced.
     io_bind (get_required_u32 nv c ''nvmlDeviceGetPowerManagementDefaultLimit'' (nv_default_limit nv)) (\<lambda>dflt.
     io_bind (case nv_limit_constraints nv of
         None \<Rightarrow> io_err (Unavailable_capability ''nvmlDeviceGetPowerManagementLimitConstraints'')
       | Some g \<Rightarrow> io_bind (nv_call (g (nc_device c))) (\<lambda>(code, lims). if code \<noteq> NVML_SUCCESS
           then io_err (nvml_error_from nv ''nvmlDeviceGetPowerManagementLimitConstraints'' code)
           else io_ret lims)) (\<lambda>(minimum, maximum).
     io_bind (case nv_event_reasons nv of
         None \<Rightarrow> io_err (Unavailable_capability ''nvmlDeviceGetCurrentClocksEventReasons'')
       | Some g \<Rightarrow> io_bind (nv_call (g (nc_device c))) (\<lambda>(code, bits). if code \<noteq> NVML_SUCCESS
           then io_err (nvml_error_from nv ''nvmlDeviceGetCurrentClocksEventReasons'' code)
           else io_ret bits)) (\<lambda>bits.
       io_ret \<lparr>pt_draw = draw, pt_enforced_limit = enforced, pt_default_limit = dflt,
         pt_minimum_limit = minimum, pt_maximum_limit = maximum, pt_clock_event_reasons = bits\<rparr>)))))"

section \<open>Offset transactions\<close>

text \<open>The trait \<open>OffsetDevice\<close>, and its implementation by the controller.\<close>

record 'w offset_device =
  od_states :: "performance_state list"
  od_read :: "performance_state \<Rightarrow> clock_domain \<Rightarrow> ('w, nvidia_error, offset_reading) io"
  od_write :: "performance_state \<Rightarrow> clock_domain \<Rightarrow> int \<Rightarrow> ('w, nvidia_error, unit) io"

definition controller_read_offset ::
  "'e nvml \<Rightarrow> nvidia_controller \<Rightarrow> performance_state \<Rightarrow> clock_domain \<Rightarrow> ('e, offset_reading) nv_io" where
  "controller_read_offset nv c state domain = io_bind (read_clock_optional nv c state domain)
     (\<lambda>r. io_of (ok_or (Unsupported_offset_topology EXPECTED_STATES (nc_states c)) r))"

definition controller_write_offset ::
  "'e nvml \<Rightarrow> nvidia_controller \<Rightarrow> performance_state \<Rightarrow> clock_domain \<Rightarrow> int \<Rightarrow> ('e, unit) nv_io" where
  "controller_write_offset nv c state domain mhz =
     io_then (io_of (ensure_mutation_authorized c))
     (case nv_set_offsets nv of
        None \<Rightarrow> io_err (Unavailable_capability ''nvmlDeviceSetClockOffsets'')
      | Some f \<Rightarrow> io_bind (nv_call (f (nc_device c) (nvml_clock_type domain) (pstate_index state) mhz)) (\<lambda>code.
          if code = NVML_SUCCESS then io_ret () else io_err (nvml_error_from nv ''nvmlDeviceSetClockOffsets'' code)))"

definition controller_device :: "'e nvml \<Rightarrow> nvidia_controller \<Rightarrow> 'e world offset_device" where
  "controller_device nv c = \<lparr>od_states = nc_states c, od_read = controller_read_offset nv c,
     od_write = controller_write_offset nv c\<rparr>"

type_synonym ('w, 'a) od_io = "('w, nvidia_error, 'a) io"

definition snapshot_one :: "'w offset_device \<Rightarrow> performance_state \<Rightarrow> ('w, state_offsets) od_io" where
  "snapshot_one dev p = io_bind (od_read dev p Core) (\<lambda>core.
     io_bind (od_read dev p Memory) (\<lambda>memory.
       io_ret \<lparr>so_state = p, so_core = core, so_memory = memory\<rparr>))"

definition snapshot_device :: "'w offset_device \<Rightarrow> ('w, offset_snapshot) od_io" where
  "snapshot_device dev = io_map_list (snapshot_one dev) (od_states dev)"

type_synonym target = "performance_state \<times> clock_offsets"
type_synonym cell = "performance_state \<times> clock_domain"
type_synonym mutation = "performance_state \<times> clock_domain \<times> int"

text \<open>The two nested loops over targets and domains visit these cells with these requests.\<close>

definition target_cells :: "target list \<Rightarrow> mutation list" where
  "target_cells targets = concat (map (\<lambda>(p, t). [(p, Core, for_domain t Core), (p, Memory, for_domain t Memory)]) targets)"

definition check_range :: "offset_snapshot \<Rightarrow> mutation \<Rightarrow> nvidia_error + unit" where
  "check_range previous m = (case m of (p, domain, requested) \<Rightarrow>
     res_bind (ok_or (Missing_snapshot_state p) (snapshot_state previous p)) (\<lambda>before.
       if accepts (reading before domain) requested then Inr ()
       else Inl (Offset_out_of_range p domain requested
         (or_minimum (reading before domain)) (or_maximum (reading before domain)))))"

definition rollback_step :: "'w offset_device \<Rightarrow> mutation \<Rightarrow> ('w, rollback_failure option) od_io" where
  "rollback_step dev m = (case m of (p, domain, prior) \<Rightarrow>
     io_try (od_write dev p domain prior) (\<lambda>r. case r of
        Inl e \<Rightarrow> io_ret (Some (Rollback_write p domain e))
      | Inr _ \<Rightarrow> io_try (od_read dev p domain) (\<lambda>q. case q of
            Inr readback \<Rightarrow> if or_current readback = prior then io_ret None
              else io_ret (Some (Rollback_readback p domain prior (or_current readback)))
          | Inl e \<Rightarrow> io_ret (Some (Rollback_read p domain e)))))"

definition rollback_after_failure :: "'w offset_device \<Rightarrow> mutation list \<Rightarrow> nvidia_error \<Rightarrow> ('w, 'a) od_io" where
  "rollback_after_failure dev mutations cause =
     io_bind (io_filter_map (rollback_step dev) (rev mutations)) (\<lambda>failures.
       if failures = [] then io_err (Transaction_rolled_back cause)
       else io_err (Transaction_rollback_failed cause failures))"

text \<open>The mutation loop: \<open>mutated\<close> are the mutations so far, oldest first.\<close>

fun mutate :: "'w offset_device \<Rightarrow> offset_snapshot \<Rightarrow> mutation list \<Rightarrow> mutation list \<Rightarrow> ('w, mutation list) od_io" where
  "mutate dev previous mutated [] = io_ret mutated"
| "mutate dev previous mutated ((p, domain, requested) # cells) =
     io_bind (io_of (ok_or (Missing_snapshot_state p) (snapshot_state previous p))) (\<lambda>before.
       let prior = or_current (reading before domain) in
       if prior = requested then mutate dev previous mutated cells
       else io_try (od_write dev p domain requested) (\<lambda>r. case r of
          Inl cause \<Rightarrow> rollback_after_failure dev mutated cause
        | Inr _ \<Rightarrow> (let mutated' = mutated @ [(p, domain, prior)] in
            io_try (od_read dev p domain) (\<lambda>q. case q of
              Inr readback \<Rightarrow> if or_current readback = requested then mutate dev previous mutated' cells
                else rollback_after_failure dev mutated'
                  (Offset_readback_mismatch p domain requested (or_current readback))
            | Inl cause \<Rightarrow> rollback_after_failure dev mutated' cause))))"

definition check_current :: "offset_snapshot \<Rightarrow> mutation \<Rightarrow> nvidia_error + unit" where
  "check_current current m = (case m of (p, domain, expected) \<Rightarrow>
     res_bind (ok_or (Missing_snapshot_state p) (snapshot_state current p)) (\<lambda>actual.
       if or_current (reading actual domain) = expected then Inr ()
       else Inl (Offset_readback_mismatch p domain expected (or_current (reading actual domain)))))"

definition apply_offset_targets :: "'w offset_device \<Rightarrow> target list \<Rightarrow> ('w, offset_transition) od_io" where
  "apply_offset_targets dev targets =
     io_bind (snapshot_device dev) (\<lambda>previous.
     io_then (io_of (res_map_list (check_range previous) (target_cells targets)))
     (io_bind (mutate dev previous [] (target_cells targets)) (\<lambda>mutated.
     io_try (snapshot_device dev) (\<lambda>r. case r of
        Inl cause \<Rightarrow> rollback_after_failure dev mutated cause
      | Inr current \<Rightarrow> (case res_map_list (check_current current) (target_cells targets) of
            Inl cause \<Rightarrow> rollback_after_failure dev mutated cause
          | Inr _ \<Rightarrow> io_ret \<lparr>ot_previous = previous, ot_current = current\<rparr>)))))"

definition apply_uniform_offsets :: "'w offset_device \<Rightarrow> clock_offsets \<Rightarrow> ('w, offset_transition) od_io" where
  "apply_uniform_offsets dev offsets = apply_offset_targets dev (map (\<lambda>p. (p, offsets)) (od_states dev))"

definition snapshot_offsets :: "'e nvml \<Rightarrow> nvidia_controller \<Rightarrow> ('e, offset_snapshot) nv_io" where
  "snapshot_offsets nv c = snapshot_device (controller_device nv c)"

definition apply_oem_turbo :: "'e nvml \<Rightarrow> nvidia_controller \<Rightarrow> ('e, offset_transition) nv_io" where
  "apply_oem_turbo nv c = io_then (io_of (ensure_mutation_authorized c))
     (apply_uniform_offsets (controller_device nv c) OEM_TURBO)"

definition reset_oem_offsets :: "'e nvml \<Rightarrow> nvidia_controller \<Rightarrow> ('e, offset_transition) nv_io" where
  "reset_oem_offsets nv c = io_then (io_of (ensure_mutation_authorized c))
     (apply_uniform_offsets (controller_device nv c) RESET)"

definition restore_targets :: "performance_state list \<Rightarrow> offset_snapshot \<Rightarrow> nvidia_error + target list" where
  "restore_targets states snap = res_map_list (\<lambda>p.
     res_bind (ok_or (Missing_snapshot_state p) (snapshot_state snap p)) (\<lambda>r.
       Inr (p, \<lparr>co_core = or_current (so_core r), co_memory = or_current (so_memory r)\<rparr>))) states"

definition restore_offsets :: "'e nvml \<Rightarrow> nvidia_controller \<Rightarrow> offset_snapshot \<Rightarrow> ('e, offset_transition) nv_io" where
  "restore_offsets nv c snap = io_then (io_of (ensure_mutation_authorized c))
     (io_bind (io_of (restore_targets (nc_states c) snap))
       (apply_offset_targets (controller_device nv c)))"

end
