(* ===== verification/Nvidia_Safety.thy ===== *)
theory Nvidia_Safety
  imports Nvidia
begin

text \<open>
  The offset transactions of \<open>src/nvidia.rs\<close>. \<open>offset_bank\<close> is the contract of an
  \<open>OffsetDevice\<close> whose offsets are registers: reads report the register and change nothing,
  accepted writes set it, refused writes leave it. Under it a transaction is all or nothing.
  \<open>nvml_registers\<close> is the same contract for the two NVML calls the controller uses, so the
  controller is an \<open>offset_bank\<close>; a table of registers is a model of it.
\<close>

section \<open>The register contract of an offset device\<close>

definition undo_cell :: "mutation \<Rightarrow> (cell \<Rightarrow> int) \<Rightarrow> cell \<Rightarrow> int" where
  "undo_cell m v = (case m of (p, domain, prior) \<Rightarrow> v((p, domain) := prior))"

definition mutation_cell :: "mutation \<Rightarrow> cell" where
  "mutation_cell m = (case m of (p, domain, prior) \<Rightarrow> (p, domain))"

definition failure_cell :: "rollback_failure \<Rightarrow> cell" where
  "failure_cell f = (case f of Rollback_write p d _ \<Rightarrow> (p, d) | Rollback_readback p d _ _ \<Rightarrow> (p, d)
     | Rollback_read p d _ \<Rightarrow> (p, d))"

text \<open>What an outcome of a transaction says of the registers, \<open>v\<close> before and \<open>v'\<close> after.\<close>

definition restored :: "(cell \<Rightarrow> int) \<Rightarrow> (cell \<Rightarrow> int) \<Rightarrow> nvidia_error \<Rightarrow> bool" where
  "restored v v' e = (case e of
      Transaction_rollback_failed cause fs \<Rightarrow> (\<forall>c. v' c = v c \<or> c \<in> failure_cell ` set fs)
    | _ \<Rightarrow> v' = v)"

locale offset_bank =
  fixes dev :: "'w offset_device" and val :: "'w \<Rightarrow> cell \<Rightarrow> int"
  assumes read_value: "od_read dev p d w = (Inr r, w') \<Longrightarrow> or_current r = val w (p, d)"
    and read_keeps: "od_read dev p d w = (q, w') \<Longrightarrow> val w' = val w"
    and write_accepted: "od_write dev p d x w = (Inr u, w') \<Longrightarrow> val w' = (val w)((p, d) := x)"
    and write_refused: "od_write dev p d x w = (Inl e, w') \<Longrightarrow> val w' = val w"
begin

definition same_val :: "'w \<Rightarrow> 'w \<Rightarrow> bool" where "same_val w w' \<longleftrightarrow> val w' = val w"

lemma same_val_order [simp]: "reflp same_val" "transp same_val"
  by (auto simp: same_val_def reflp_def transp_def)

lemma read_same_val [io_keeps_intros]: "io_keeps same_val (od_read dev p d)"
  using read_keeps by (simp add: io_keeps_def same_val_def) (metis prod.collapse)

lemma snapshot_same_val: "io_keeps same_val (snapshot_device dev)"
  unfolding snapshot_device_def snapshot_one_def by (intro io_keeps_intros) simp_all

lemma snapshot_one_value:
  assumes "snapshot_one dev p w = (Inr s, w')"
  shows "so_state s = p" and "or_current (reading s d) = val w (p, d)"
proof -
  from assms obtain rc w1 rm where c: "od_read dev p Core w = (Inr rc, w1)"
    and m: "od_read dev p Memory w1 = (Inr rm, w')"
    and s: "s = \<lparr>so_state = p, so_core = rc, so_memory = rm\<rparr>"
    unfolding snapshot_one_def by (auto elim!: io_bind_Inr simp: io_ret_apply)
  then show "so_state s = p" by simp
  from read_value [OF c] read_value [OF m] read_keeps [OF c] s
  show "or_current (reading s d) = val w (p, d)" by (cases d) simp_all
qed

lemma snapshot_value:
  assumes "snapshot_device dev w = (Inr snap, w')"
  shows "map so_state snap = od_states dev" and "\<forall>s \<in> set snap. \<forall>d. or_current (reading s d) = val w (so_state s, d)"
proof -
  have "map so_state ss = ps \<and> (\<forall>s \<in> set ss. \<forall>d. or_current (reading s d) = val w (so_state s, d))"
    if "io_map_list (snapshot_one dev) ps w = (Inr ss, w')" for ps ss w
    using that
  proof (induction ps arbitrary: ss w)
    case Nil
    then show ?case by (simp add: io_ret_apply)
  next
    case (Cons p ps)
    then obtain s w1 rest where one: "snapshot_one dev p w = (Inr s, w1)"
      and tl: "io_map_list (snapshot_one dev) ps w1 = (Inr rest, w')" and ss: "ss = s # rest"
      by (auto elim!: io_bind_Inr simp: io_ret_apply)
    have "io_keeps same_val (snapshot_one dev p)"
      unfolding snapshot_one_def by (intro io_keeps_intros) simp_all
    from io_keepsD [OF this one] have "val w1 = val w" by (simp add: same_val_def)
    with Cons.IH [OF tl] snapshot_one_value [OF one] ss show ?case by auto
  qed
  with assms show "map so_state snap = od_states dev"
    and "\<forall>s \<in> set snap. \<forall>d. or_current (reading s d) = val w (so_state s, d)"
    unfolding snapshot_device_def by blast+
qed

lemma snapshot_state_value:
  assumes "snapshot_device dev w = (Inr snap, w')" and "snapshot_state snap p = Some s"
  shows "or_current (reading s d) = val w (p, d)"
proof -
  from assms(2) have "s \<in> set snap" and "so_state s = p"
    by (auto simp: snapshot_state_def find_Some_iff)
  with snapshot_value(2) [OF assms(1)] show ?thesis by auto
qed

text \<open>One step of the rollback, and the whole.\<close>

lemma rollback_step_cases:
  assumes "rollback_step dev (p, d, x) w = (r, w')"
  shows "(r = Inr None \<and> val w' = (val w)((p, d) := x))
    \<or> (\<exists>f. r = Inr (Some f) \<and> failure_cell f = (p, d) \<and> (\<forall>c. c \<noteq> (p, d) \<longrightarrow> val w' c = val w c))"
proof -
  obtain r1 w1 where wr: "od_write dev p d x w = (r1, w1)" by fastforce
  obtain r2 w2 where rd: "od_read dev p d w1 = (r2, w2)" by fastforce
  show ?thesis
  proof (cases r1)
    case (Inl e)
    with wr have "val w1 = val w" using write_refused by blast
    with assms wr Inl show ?thesis
      by (auto simp: rollback_step_def io_simps failure_cell_def)
  next
    case (Inr u)
    with wr have v: "val w1 = (val w)((p, d) := x)" using write_accepted by blast
    moreover have "val w2 = val w1" using rd read_keeps by blast
    ultimately show ?thesis
      using assms wr rd Inr
      by (cases r2) (auto simp: rollback_step_def io_simps failure_cell_def split: if_splits)
  qed
qed

lemma rollback_steps:
  assumes "io_filter_map (rollback_step dev) ms w = (r, w')"
    and "\<forall>(p, d, x) \<in> set ms. x = v0 (p, d)"
  shows "\<exists>fs. r = Inr fs \<and> (\<forall>c. c \<in> failure_cell ` set fs
    \<or> val w' c = (if c \<in> mutation_cell ` set ms then v0 c else val w c))"
  using assms
proof (induction ms arbitrary: w r w')
  case Nil
  then show ?case by (auto simp: io_ret_apply)
next
  case (Cons m ms)
  obtain p d where m: "m = (p, d, v0 (p, d))" using Cons.prems(2) by (cases m) auto
  obtain q w1 where st: "rollback_step dev (p, d, v0 (p, d)) w = (q, w1)" by fastforce
  obtain r1 w2 where tl: "io_filter_map (rollback_step dev) ms w1 = (r1, w2)" by fastforce
  have "\<forall>(p, d, x) \<in> set ms. x = v0 (p, d)" using Cons.prems(2) by simp
  from Cons.IH [OF tl this] obtain fs where fs: "r1 = Inr fs"
    and at: "\<And>c. c \<in> failure_cell ` set fs \<or> val w2 c = (if c \<in> mutation_cell ` set ms then v0 c else val w1 c)"
    by auto
  have cell: "mutation_cell m = (p, d)" using m by (simp add: mutation_cell_def)
  from rollback_step_cases [OF st] consider
      (ok) "q = Inr None" "val w1 = (val w)((p, d) := v0 (p, d))"
    | (bad) f where "q = Inr (Some f)" "failure_cell f = (p, d)" "\<And>c. c \<noteq> (p, d) \<Longrightarrow> val w1 c = val w c"
    by blast
  then show ?case
  proof cases
    case ok
    then have "r = Inr fs" "w' = w2"
      using Cons.prems(1) st tl fs m by (auto simp: io_simps)
    moreover have "c \<in> failure_cell ` set fs \<or> val w2 c = (if c \<in> mutation_cell ` set (m # ms) then v0 c else val w c)" for c
      using at [of c] ok(2) cell by (cases "c = (p, d)"; cases "c \<in> mutation_cell ` set ms") simp_all
    ultimately show ?thesis by blast
  next
    case bad
    then have "r = Inr (f # fs)" "w' = w2"
      using Cons.prems(1) st tl fs m by (auto simp: io_simps)
    moreover have "c \<in> failure_cell ` set (f # fs) \<or> val w2 c = (if c \<in> mutation_cell ` set (m # ms) then v0 c else val w c)" for c
      using at [of c] bad(2) bad(3) [of c] cell
      by (cases "c = (p, d)"; cases "c \<in> mutation_cell ` set ms") auto
    ultimately show ?thesis by blast
  qed
qed

text \<open>The mutations recorded so far carry the values of \<open>v0\<close>, and everything else still has them.\<close>

definition pending :: "(cell \<Rightarrow> int) \<Rightarrow> mutation list \<Rightarrow> 'w \<Rightarrow> bool" where
  "pending v0 ms w \<longleftrightarrow> (\<forall>(p, d, x) \<in> set ms. x = v0 (p, d))
     \<and> (\<forall>c. c \<notin> mutation_cell ` set ms \<longrightarrow> val w c = v0 c)"

lemma rollback_restores:
  assumes run: "rollback_after_failure dev ms cause w = (r, w')" and "pending v0 ms w"
  shows "\<exists>e. r = Inl e \<and> restored v0 (val w') e"
proof -
  obtain q w1 where steps: "io_filter_map (rollback_step dev) (rev ms) w = (q, w1)" by fastforce
  have "\<forall>(p, d, x) \<in> set (rev ms). x = v0 (p, d)" using assms(2) by (simp add: pending_def)
  from rollback_steps [OF steps this] obtain fs where fs: "q = Inr fs"
    and at: "\<And>c. c \<in> failure_cell ` set fs \<or> val w1 c = (if c \<in> mutation_cell ` set ms then v0 c else val w c)"
    by auto
  have all: "c \<in> failure_cell ` set fs \<or> val w1 c = v0 c" for c
    using at [of c] assms(2) unfolding pending_def by (cases "c \<in> mutation_cell ` set ms") metis+
  show ?thesis
  proof (cases "fs = []")
    case True
    with all have "val w1 = v0" by (auto simp: fun_eq_iff)
    with True run steps fs show ?thesis
      by (auto simp: rollback_after_failure_def io_simps restored_def)
  next
    case False
    with run steps fs have "r = Inl (Transaction_rollback_failed cause fs)" and "w' = w1"
      by (simp_all add: rollback_after_failure_def io_simps)
    with all show ?thesis by (simp add: restored_def) metis
  qed
qed

lemma pending_write:
  assumes "pending v0 ms w" and "val w' = (val w)((p, d) := x)"
  shows "pending v0 (ms @ [(p, d, v0 (p, d))]) w'"
  using assms by (auto simp: pending_def mutation_cell_def)

text \<open>The mutation loop either finishes with every requested cell set, or restores.\<close>

lemma mutate_outcome:
  assumes "mutate dev previous ms cells w = (r, w')" and "pending v0 ms w"
    and prev: "\<And>p s d. snapshot_state previous p = Some s \<Longrightarrow> or_current (reading s d) = v0 (p, d)"
    and known: "\<forall>(p, d, x) \<in> set cells. snapshot_state previous p \<noteq> None"
  shows "(\<exists>ms'. r = Inr ms' \<and> pending v0 ms' w') \<or> (\<exists>e. r = Inl e \<and> restored v0 (val w') e)"
  using assms(1,2) known
proof (induction cells arbitrary: w ms)
  case Nil
  then show ?case by (auto simp: io_ret_apply)
next
  case (Cons m cells)
  obtain p d x where m: "m = (p, d, x)" by (cases m) auto
  from Cons.prems(3) m obtain before where before: "snapshot_state previous p = Some before" by auto
  have prior: "or_current (reading before d) = v0 (p, d)" using prev [OF before] .
  have known': "\<forall>(p, d, x) \<in> set cells. snapshot_state previous p \<noteq> None" using Cons.prems(3) by auto
  show ?case
  proof (cases "v0 (p, d) = x")
    case True
    with Cons.prems(1) m before prior have "mutate dev previous ms cells w = (r, w')"
      by (simp add: io_bind_apply io_of_apply Let_def)
    from Cons.IH [OF this Cons.prems(2) known'] show ?thesis .
  next
    case False
    obtain r1 w1 where wr: "od_write dev p d x w = (r1, w1)" by fastforce
    obtain r2 w2 where rd: "od_read dev p d w1 = (r2, w2)" by fastforce
    note run = Cons.prems(1) [unfolded m mutate.simps before ok_or_simps io_bind_apply io_of_apply
        Let_def prod.case sum.case prior if_not_P [OF False] io_try_apply wr]
    show ?thesis
    proof (cases r1)
      case (Inl cause)
      then have "pending v0 ms w1" using Cons.prems(2) write_refused [of p d x w cause w1] wr
        by (simp add: pending_def)
      with run Inl show ?thesis by (auto dest: rollback_restores)
    next
      case (Inr u)
      then have "pending v0 (ms @ [(p, d, v0 (p, d))]) w1"
        using pending_write [OF Cons.prems(2)] write_accepted wr by blast
      then have pend: "pending v0 (ms @ [(p, d, v0 (p, d))]) w2"
        using read_keeps [OF rd] by (simp add: pending_def)
      note run' = run [unfolded Inr sum.case io_try_apply rd prod.case]
      show ?thesis
      proof (cases "\<exists>rb. r2 = Inr rb \<and> or_current rb = x")
        case True
        with run' have "mutate dev previous (ms @ [(p, d, v0 (p, d))]) cells w2 = (r, w')" by auto
        from Cons.IH [OF this pend known'] show ?thesis .
      next
        case False
        with run' obtain c where "rollback_after_failure dev (ms @ [(p, d, v0 (p, d))]) c w2 = (r, w')"
          by (cases r2) auto
        from rollback_restores [OF this pend] show ?thesis by blast
      qed
    qed
  qed
qed

text \<open>The whole transaction.\<close>

lemma check_range_known:
  assumes "res_map_list (check_range previous) cells = Inr us" and "(p, d, x) \<in> set cells"
  shows "\<exists>s. snapshot_state previous p = Some s \<and> accepts (reading s d) x"
proof -
  from res_map_list_Inr_all [OF assms(1)] assms(2) obtain u where "check_range previous (p, d, x) = Inr u"
    by (auto simp: list_all2_conv_all_nth in_set_conv_nth)
  then show ?thesis
    by (auto simp: check_range_def res_bind_Inr_iff split: if_splits)
qed

lemma check_current_exact:
  assumes "res_map_list (check_current current) cells = Inr us" and "(p, d, x) \<in> set cells"
  shows "\<exists>s. snapshot_state current p = Some s \<and> or_current (reading s d) = x"
proof -
  from res_map_list_Inr_all [OF assms(1)] assms(2) obtain u where "check_current current (p, d, x) = Inr u"
    by (auto simp: list_all2_conv_all_nth in_set_conv_nth)
  then show ?thesis
    by (auto simp: check_current_def res_bind_Inr_iff split: if_splits)
qed

lemma mutate_untouched:
  assumes "mutate dev previous ms cells w = (Inr ms', w')"
  shows "mutation_cell ` set ms' \<subseteq> mutation_cell ` set ms \<union> mutation_cell ` set cells"
  using assms
proof (induction cells arbitrary: w ms)
  case Nil
  then show ?case by (simp add: io_ret_apply)
next
  case (Cons m cells)
  obtain p d x where m: "m = (p, d, x)" by (cases m) auto
  have roll: "rollback_after_failure dev k c v \<noteq> (Inr ms', w')" for k c v
    by (auto simp: rollback_after_failure_def io_simps split: prod.split sum.split)
  from Cons.prems m obtain k v where "mutate dev previous k cells v = (Inr ms', w')"
    and "mutation_cell ` set k \<subseteq> insert (p, d) (mutation_cell ` set ms)"
    by (fastforce simp: io_simps Let_def mutation_cell_def roll
      split: prod.splits sum.splits if_splits elim!: io_bind_Inr)
  moreover have "mutation_cell ` set (m # cells) = insert (p, d) (mutation_cell ` set cells)"
    using m by (simp add: mutation_cell_def)
  ultimately show ?case using Cons.IH [of k v] by blast
qed

lemma apply_offset_targets_outcome:
  assumes run: "apply_offset_targets dev targets w = (r, w')"
  shows "case r of Inl e \<Rightarrow> restored (val w) (val w') e
    | Inr tr \<Rightarrow> (\<forall>(p, d, x) \<in> set (target_cells targets). val w' (p, d) = x)
        \<and> (\<forall>c. c \<notin> mutation_cell ` set (target_cells targets) \<longrightarrow> val w' c = val w c)"
proof -
  let ?cells = "target_cells targets"
  obtain r0 w0 where snap: "snapshot_device dev w = (r0, w0)" by fastforce
  have v0: "val w0 = val w" using io_keepsD [OF snapshot_same_val snap] by (simp add: same_val_def)
  have plain: "restored (val w) (val w0) e" for e using v0 by (simp add: restored_def split: nvidia_error.split)
  show ?thesis
  proof (cases r0)
    case (Inl e)
    with run snap plain show ?thesis by (auto simp: apply_offset_targets_def io_simps)
  next
    case (Inr previous)
    note prev = snapshot_state_value [OF snap [unfolded Inr]]
    show ?thesis
    proof (cases "res_map_list (check_range previous) ?cells")
      case (Inl e)
      with run snap Inr plain show ?thesis by (auto simp: apply_offset_targets_def io_simps)
    next
      case (Inr us)
      have known: "\<forall>(p, d, x) \<in> set ?cells. snapshot_state previous p \<noteq> None"
        using check_range_known [OF Inr] by fastforce
      have pend0: "pending (val w) [] w0" using v0 by (simp add: pending_def)
      obtain r1 w1 where mut: "mutate dev previous [] ?cells w0 = (r1, w1)" by fastforce
      from mutate_outcome [OF mut pend0 prev known]
      consider (undone) e where "r1 = Inl e" "restored (val w) (val w1) e"
        | (through) ms where "r1 = Inr ms" "pending (val w) ms w1" by blast
      then show ?thesis
      proof cases
        case undone
        with run snap \<open>r0 = Inr previous\<close> Inr mut show ?thesis
          by (auto simp: apply_offset_targets_def io_simps)
      next
        case through
        obtain r2 w2 where snap2: "snapshot_device dev w1 = (r2, w2)" by fastforce
        have v2: "val w2 = val w1" using io_keepsD [OF snapshot_same_val snap2] by (simp add: same_val_def)
        then have pend: "pending (val w) ms w2" using through(2) by (simp add: pending_def)
        note run' = run [unfolded apply_offset_targets_def io_bind_apply io_then_apply snap io_of_apply
            \<open>r0 = Inr previous\<close> Inr prod.case sum.case mut through(1) io_try_apply snap2]
        show ?thesis
        proof (cases "\<exists>current us. r2 = Inr current \<and> res_map_list (check_current current) ?cells = Inr us")
          case True
          then obtain current us' where cur: "r2 = Inr current" and ok: "res_map_list (check_current current) ?cells = Inr us'"
            by blast
          with run' have "w' = w2" and "r = Inr \<lparr>ot_previous = previous, ot_current = current\<rparr>"
            by (auto simp: io_ret_apply)
          moreover have "val w2 (p, d) = x" if "(p, d, x) \<in> set ?cells" for p d x
            using check_current_exact [OF ok that] snapshot_state_value [OF snap2 [unfolded cur]] v2 by auto
          moreover have "val w2 c = val w c" if "c \<notin> mutation_cell ` set ?cells" for c
            using mutate_untouched [OF mut [unfolded through(1)]] pend that
            unfolding pending_def by (metis Un_iff empty_iff image_empty list.set(1) subsetD)
          ultimately show ?thesis by auto
        next
          case False
          with run' obtain c where "rollback_after_failure dev ms c w2 = (r, w')"
            by (cases r2) (auto split: sum.splits)
          from rollback_restores [OF this pend] show ?thesis by auto
        qed
      qed
    qed
  qed
qed

end

section \<open>The NVML calls as registers\<close>

text \<open>The clock-offset calls of NVML keep one register per device, clock type and P-state: a
  successful get reports it, a successful set stores it, an error code leaves it.\<close>

locale nvml_registers =
  fixes nv :: "'e nvml" and reg :: "'e \<Rightarrow> nat \<Rightarrow> int \<Rightarrow> int \<Rightarrow> int"
  assumes get_value: "nv_get_offsets nv = Some f \<Longrightarrow> f dv t p e = ((NVML_SUCCESS, r), e') \<Longrightarrow> or_current r = reg e dv t p"
    and get_keeps: "nv_get_offsets nv = Some f \<Longrightarrow> f dv t p e = (q, e') \<Longrightarrow> reg e' = reg e"
    and set_accepted: "nv_set_offsets nv = Some g \<Longrightarrow> g dv t p x e = (NVML_SUCCESS, e') \<Longrightarrow>
      reg e' = (\<lambda>dv' t' p'. if dv' = dv \<and> t' = t \<and> p' = p then x else reg e dv' t' p')"
    and set_refused: "nv_set_offsets nv = Some g \<Longrightarrow> g dv t p x e = (code, e') \<Longrightarrow> code \<noteq> NVML_SUCCESS \<Longrightarrow> reg e' = reg e"

definition cell_value :: "('e \<Rightarrow> nat \<Rightarrow> int \<Rightarrow> int \<Rightarrow> int) \<Rightarrow> nvidia_controller \<Rightarrow> 'e world \<Rightarrow> cell \<Rightarrow> int" where
  "cell_value reg c w pd = (case pd of (p, d) \<Rightarrow> reg (wenv w) (nc_device c) (nvml_clock_type d) (pstate_index p))"

lemma nvml_clock_type_inj: "nvml_clock_type a = nvml_clock_type b \<Longrightarrow> a = b"
  by (cases a; cases b) (simp_all add: NVML_CLOCK_GRAPHICS_def NVML_CLOCK_MEMORY_def)

lemma nv_call_run: "nv_call f w = (Inr a, w') \<longleftrightarrow> f (wenv w) = (a, wenv w') \<and> w' = w\<lparr>wenv := wenv w'\<rparr>"
  by (cases w; cases w') (auto simp: nv_call_def split: prod.splits)

sublocale nvml_registers \<subseteq> bank: offset_bank "controller_device nv c" "cell_value reg c" for c
proof
  show "or_current r = cell_value reg c w (p, d)"
    if "od_read (controller_device nv c) p d w = (Inr r, w')" for p d w r w'
    using that get_value
    by (auto simp: controller_device_def controller_read_offset_def read_clock_optional_def nv_call_def
      io_simps cell_value_def split: option.splits prod.splits if_splits)
  show "cell_value reg c w' = cell_value reg c w"
    if "od_read (controller_device nv c) p d w = (q, w')" for p d w q w'
  proof -
    from that get_keeps have "reg (wenv w') = reg (wenv w)"
      by (auto simp: controller_device_def controller_read_offset_def read_clock_optional_def nv_call_def
        io_simps split: option.splits prod.splits if_splits sum.splits)
    then show ?thesis by (simp add: cell_value_def fun_eq_iff)
  qed
  show "cell_value reg c w' = (cell_value reg c w)((p, d) := x)"
    if "od_write (controller_device nv c) p d x w = (Inr u, w')" for p d x w u w'
  proof -
    from that obtain g where "nv_set_offsets nv = Some g"
      and "g (nc_device c) (nvml_clock_type d) (pstate_index p) x (wenv w) = (NVML_SUCCESS, wenv w')"
      by (auto simp: controller_device_def controller_write_offset_def nv_call_def io_simps
        ensure_mutation_authorized_def split: option.splits prod.splits if_splits)
    from set_accepted [OF this] show ?thesis
      by (auto simp: cell_value_def fun_eq_iff dest: nvml_clock_type_inj pstate_index_inj)
  qed
  show "cell_value reg c w' = cell_value reg c w"
    if "od_write (controller_device nv c) p d x w = (Inl e, w')" for p d x w e w'
  proof -
    from that set_refused have "reg (wenv w') = reg (wenv w)"
      by (auto simp: controller_device_def controller_write_offset_def nv_call_def io_simps
        ensure_mutation_authorized_def split: option.splits prod.splits if_splits)
    then show ?thesis by (simp add: cell_value_def fun_eq_iff)
  qed
qed

context nvml_registers
begin

lemma controller_is_bank: "offset_bank (controller_device nv c) (cell_value reg c)"
  by (rule bank.offset_bank_axioms)

end

lemmas controller_transaction = offset_bank.apply_offset_targets_outcome [OF nvml_registers.controller_is_bank]

lemmas controller_snapshot = offset_bank.snapshot_state_value [OF nvml_registers.controller_is_bank]

text \<open>A table of registers. \<open>refuse\<close> are the clock types and P-states whose setter fails; with
  \<open>dirty\<close> the failing setter stores the value all the same.\<close>

type_synonym bank = "((nat \<times> int \<times> int) \<times> int) list"

definition bank_value :: "bank \<Rightarrow> nat \<Rightarrow> int \<Rightarrow> int \<Rightarrow> int" where
  "bank_value b dv t p = (case map_of b (dv, t, p) of None \<Rightarrow> 0 | Some x \<Rightarrow> x)"

definition bank_nvml :: "(int \<times> int) list \<Rightarrow> bool \<Rightarrow> bank nvml" where
  "bank_nvml refuse dirty = \<lparr>
     nv_load = (\<lambda>_. True), nv_has_symbol = (\<lambda>_. True), nv_init = (\<lambda>e. (0, e)), nv_shutdown = id,
     nv_error_string = (\<lambda>_. None), nv_handle = (\<lambda>_ e. ((0, Some 1), e)),
     nv_get_states = Some (\<lambda>_ buf e. ((0, [0, 3, 4, 5, 8] @ drop 5 buf), e)),
     nv_get_offsets = Some (\<lambda>dv t p e.
       ((0, \<lparr>or_current = bank_value e dv t p, or_minimum = -1000, or_maximum = 1000\<rparr>), e)),
     nv_set_offsets = Some (\<lambda>dv t p x e. if (t, p) \<in> set refuse
        then (999, if dirty then ((dv, t, p), x) # e else e) else (0, ((dv, t, p), x) # e)),
     nv_power_usage = None, nv_enforced_limit = None, nv_default_limit = None, nv_limit_constraints = None,
     nv_event_reasons = None, nv_temperature = None, nv_utilization = None, nv_memory = None,
     nv_clock_info = None, nv_max_clock_info = None, nv_performance_state = None, nv_name = None,
     nv_driver_version = None \<rparr>"

interpretation table: nvml_registers "bank_nvml refuse False" bank_value
proof
  show "bank_value e' = (\<lambda>dv' t' p'. if dv' = dv \<and> t' = t \<and> p' = p then x else bank_value e dv' t' p')"
    if "nv_set_offsets (bank_nvml refuse False) = Some g" "g dv t p x e = (NVML_SUCCESS, e')" for g dv t p x e e'
  proof -
    from that have "e' = ((dv, t, p), x) # e"
      by (auto simp: bank_nvml_def NVML_SUCCESS_def split: if_splits)
    then show ?thesis by (auto simp: bank_value_def fun_eq_iff)
  qed
qed (auto simp: bank_nvml_def NVML_SUCCESS_def split: if_splits)

section \<open>Properties\<close>

text \<open>The OEM controller of the fixture and a world whose P8 offsets are not zero.\<close>

definition example_controller :: nvidia_controller where
  "example_controller = \<lparr>nc_device = 1, nc_bus_id = GPU_PCI_BUS_ID, nc_states = EXPECTED_STATES,
     nc_exact_target = True, nc_mutation_authorized = True\<rparr>"

definition bank_world :: "bank world" where
  "bank_world = \<lparr>wenv = [((1, 2, 8), 50)], wlog = []\<rparr>"

lemma target_cells_iff:
  "(p, d, x) \<in> set (target_cells ts) \<longleftrightarrow> (\<exists>t. (p, t) \<in> set ts \<and> x = for_domain t d)"
  by (cases d) (force simp: target_cells_def)+

lemma mutation_cells_of_targets:
  "(p, d) \<in> mutation_cell ` set (target_cells ts) \<longleftrightarrow> p \<in> fst ` set ts"
proof -
  have "(p, d) \<in> mutation_cell ` set (target_cells ts) \<longleftrightarrow> (\<exists>x. (p, d, x) \<in> set (target_cells ts))"
    by (force simp: mutation_cell_def)
  then show ?thesis by (auto simp: target_cells_iff) force
qed

lemma targets_reached:
  assumes "\<forall>(p, d, x) \<in> set (target_cells ts). v (p, d) = x" and "(p, t) \<in> set ts"
  shows "v (p, d) = for_domain t d"
proof -
  have "(p, d, for_domain t d) \<in> set (target_cells ts)" using assms(2) by (auto simp: target_cells_iff)
  with assms(1) show ?thesis by auto
qed

text \<open>C5: on NVML registers, an offset transaction of the controller is all or nothing. Success
  means every P-state of the targets has the requested core and memory offsets and every other
  register is unchanged. An error means all registers are as before, except that a failed
  rollback names every register it could not restore.\<close>

theorem offset_transaction_atomic:
  assumes "nvml_registers nv reg"
    and "apply_offset_targets (controller_device nv c) targets w = (r, w')"
  shows "case r of
      Inr tr \<Rightarrow> (\<forall>(p, t) \<in> set targets. \<forall>d. cell_value reg c w' (p, d) = for_domain t d)
        \<and> (\<forall>p d. p \<notin> fst ` set targets \<longrightarrow> cell_value reg c w' (p, d) = cell_value reg c w (p, d))
    | Inl e \<Rightarrow> restored (cell_value reg c w) (cell_value reg c w') e"
proof (cases r)
  case (Inl e)
  with controller_transaction [OF assms] show ?thesis by simp
next
  case (Inr tr)
  with controller_transaction [OF assms] show ?thesis
    by (auto simp: mutation_cells_of_targets elim: targets_reached)
qed

theorem offset_transaction_atomic_witness:
  "cell_value bank_value example_controller
     (snd (apply_offset_targets (controller_device (bank_nvml [(2, 8)] False) example_controller)
        [(P0, OEM_TURBO), (P8, OEM_TURBO)] bank_world)) (P8, Memory) = 50"
proof -
  let ?run = "apply_offset_targets (controller_device (bank_nvml [(2, 8)] False) example_controller)
        [(P0, OEM_TURBO), (P8, OEM_TURBO)] bank_world"
  have "case fst ?run of Inl (Transaction_rolled_back e) \<Rightarrow> True | _ \<Rightarrow> False" by code_simp
  then obtain e where "?run = (Inl (Transaction_rolled_back e), snd ?run)"
    by (cases ?run) (auto split: sum.splits nvidia_error.splits)
  from offset_transaction_atomic [OF table.nvml_registers_axioms this]
  have "cell_value bank_value example_controller (snd ?run) = cell_value bank_value example_controller bank_world"
    by (simp add: restored_def)
  moreover have "cell_value bank_value example_controller bank_world (P8, Memory) = 50" by code_simp
  ultimately show ?thesis by simp
qed

text \<open>The transactions of the controller's public entry points.\<close>

definition uniform_cells :: "nvidia_controller \<Rightarrow> clock_offsets \<Rightarrow> (cell \<Rightarrow> int) \<Rightarrow> bool" where
  "uniform_cells c offs v \<longleftrightarrow> list_all (\<lambda>p. v (p, Core) = co_core offs \<and> v (p, Memory) = co_memory offs) (nc_states c)"

lemma uniform_outcome:
  assumes "nvml_registers nv reg" and "apply_uniform_offsets (controller_device nv c) offs w = (Inr tr, w')"
  shows "uniform_cells c offs (cell_value reg c w')"
proof -
  let ?ts = "map (\<lambda>p. (p, offs)) (nc_states c)"
  have "apply_offset_targets (controller_device nv c) ?ts w = (Inr tr, w')"
    using assms(2) by (simp add: apply_uniform_offsets_def controller_device_def)
  from controller_transaction [OF assms(1) this]
  have all: "\<forall>(p, d, x) \<in> set (target_cells ?ts). cell_value reg c w' (p, d) = x" by simp
  have "cell_value reg c w' (p, d) = for_domain offs d" if "p \<in> set (nc_states c)" for p d
    by (rule targets_reached [OF all]) (use that in auto)
  then show ?thesis by (simp add: uniform_cells_def list_all_iff)
qed

text \<open>On NVML registers, restoring a snapshot undoes whatever happened since: after a successful
  \<open>restore_offsets\<close> every supported P-state has the core and memory offsets it had when the
  snapshot was taken, however the registers changed in between.\<close>

theorem restore_after_snapshot:
  assumes "nvml_registers nv reg"
    and "snapshot_offsets nv c w = (Inr snap, w1)"
    and "restore_offsets nv c snap w2 = (Inr tr, w3)"
    and "p \<in> set (nc_states c)"
  shows "cell_value reg c w3 (p, d) = cell_value reg c w (p, d)"
proof -
  have snap: "snapshot_device (controller_device nv c) w = (Inr snap, w1)"
    using assms(2) by (simp add: snapshot_offsets_def)
  from assms(3) obtain targets where ts: "restore_targets (nc_states c) snap = Inr targets"
    and run: "apply_offset_targets (controller_device nv c) targets w2 = (Inr tr, w3)"
    unfolding restore_offsets_def by (auto elim!: io_then_Inr io_bind_Inr simp: io_of_apply)
  from res_map_list_Inr_mem [OF ts [unfolded restore_targets_def] assms(4)]
  obtain pt where pt: "pt \<in> set targets" and "res_bind (ok_or (Missing_snapshot_state p) (snapshot_state snap p))
      (\<lambda>r. Inr (p, \<lparr>co_core = or_current (so_core r), co_memory = or_current (so_memory r)\<rparr>)) = Inr pt"
    by blast
  then obtain s where s: "snapshot_state snap p = Some s"
    and pt': "pt = (p, \<lparr>co_core = or_current (so_core s), co_memory = or_current (so_memory s)\<rparr>)"
    by (auto simp: res_bind_Inr_iff)
  have "(p, d, or_current (reading s d)) \<in> set (target_cells targets)"
    using pt pt' by (cases d) (auto simp: target_cells_iff intro!: exI)
  with controller_transaction [OF assms(1) run]
  have "cell_value reg c w3 (p, d) = or_current (reading s d)" by fastforce
  with controller_snapshot [OF assms(1) snap s] show ?thesis by simp
qed

theorem restore_after_snapshot_witness:
  "cell_value bank_value example_controller
     (snd (restore_offsets (bank_nvml [] False) example_controller
        (projr (fst (snapshot_offsets (bank_nvml [] False) example_controller bank_world)))
        \<lparr>wenv = [((1, 2, 8), -300)], wlog = []\<rparr>)) (P8, Memory) = 50"
proof -
  let ?snap = "projr (fst (snapshot_offsets (bank_nvml [] False) example_controller bank_world))"
  let ?run = "restore_offsets (bank_nvml [] False) example_controller ?snap \<lparr>wenv = [((1, 2, 8), -300)], wlog = []\<rparr>"
  have "is_ok (fst (snapshot_offsets (bank_nvml [] False) example_controller bank_world))" by code_simp
  then obtain w1 where "snapshot_offsets (bank_nvml [] False) example_controller bank_world = (Inr ?snap, w1)"
    by (metis is_ok_iff prod.collapse sum.sel(2))
  moreover have "is_ok (fst ?run)" by code_simp
  then obtain tr where "?run = (Inr tr, snd ?run)" by (metis is_ok_iff prod.collapse)
  moreover have "cell_value bank_value example_controller bank_world (P8, Memory) = 50" by code_simp
  ultimately show ?thesis
    using restore_after_snapshot [OF table.nvml_registers_axioms, of "[]" example_controller bank_world ?snap w1
      "\<lparr>wenv = [((1, 2, 8), -300)], wlog = []\<rparr>" tr "snd ?run" P8 Memory]
    by (simp add: example_controller_def EXPECTED_STATES_def)
qed

text \<open>A telemetry controller cannot tune. Whatever the library does, the controller that
  \<open>discover_telemetry\<close> opens refuses the Turbo offsets, the reset and a restore without any
  NVML call, and it is only opened while the runtime state permits live NVML.\<close>

theorem telemetry_controller_cannot_mutate:
  assumes "discover_telemetry nv fs d root probe w = (Inr c, w')"
  shows "permits_live_nvml (pd_runtime_status d)
    \<and> (\<forall>v. \<exists>e. apply_oem_turbo nv c v = (Inl e, v))
    \<and> (\<forall>v. \<exists>e. reset_oem_offsets nv c v = (Inl e, v))
    \<and> (\<forall>v snap. \<exists>e. restore_offsets nv c snap v = (Inl e, v))"
proof -
  from assms have "permits_live_nvml (pd_runtime_status d)" and "\<not> nc_mutation_authorized c"
    unfolding discover_telemetry_def owning_runtime_def
    by (auto simp: io_simps Let_def split: if_splits prod.splits sum.splits)
  then show ?thesis
    by (simp add: apply_oem_turbo_def reset_oem_offsets_def restore_offsets_def
      ensure_mutation_authorized_def io_simps)
qed

text \<open>A library that opens one device and offers nothing else, and a display controller's files.\<close>

definition bare_nvml :: "'e nvml" where
  "bare_nvml = \<lparr>nv_load = (\<lambda>_. True), nv_has_symbol = (\<lambda>_. True), nv_init = (\<lambda>e. (0, e)), nv_shutdown = id,
     nv_error_string = (\<lambda>_. None), nv_handle = (\<lambda>_ e. ((0, Some 1), e)), nv_get_states = None,
     nv_get_offsets = None, nv_set_offsets = None, nv_power_usage = None, nv_enforced_limit = None,
     nv_default_limit = None, nv_limit_constraints = None, nv_event_reasons = None, nv_temperature = None,
     nv_utilization = None, nv_memory = None, nv_clock_info = None, nv_max_clock_info = None,
     nv_performance_state = None, nv_name = None, nv_driver_version = None\<rparr>"

definition pci_files :: file_tree where
  "pci_files = map (\<lambda>(n, v). ([''sys'', ''bus'', ''pci'', ''devices'', ''gpu'', n], v))
     [(''vendor'', ''0x1''), (''device'', ''0x2''), (''subsystem_vendor'', ''0x3''), (''subsystem_device'', ''0x4'')]"

definition pci_example :: nvidia_pci_device where
  "pci_example = \<lparr>pd_bus_id = ''gpu'', pd_identity = EXPECTED_IDENTITY, pd_runtime_status = Rt_active, pd_runtime_usage = None\<rparr>"

lemma pci_files_readable:
  "rooted [] ''sys/bus/pci/devices'' = [''sys'', ''bus'', ''pci'', ''devices'']"
  "hex_digits ''0x1'' = ''1''" "hex_digits ''0x2'' = ''2''" "hex_digits ''0x3'' = ''3''" "hex_digits ''0x4'' = ''4''"
  by code_simp+

lemma pci_example_opens:
  "is_ok (fst (discover_telemetry bare_nvml tree_sysfs pci_example [] False \<lparr>wenv = pci_files, wlog = []\<rparr>))"
  by (simp add: discover_telemetry_def [THEN fun_cong] read_pci_identity_at_def read_hex_u16_def read_hex_def
    runtime_load_def owning_runtime_def open_device_def nv_call_def bare_nvml_def pci_files_def pci_example_def
    permits_live_nvml_def required_symbols_def NVML_SUCCESS_def pci_files_readable io_simps tree_sysfs_run path_join_def
    graphic_text graphic_def byte_def number_eval)

theorem telemetry_controller_cannot_mutate_witness:
  "\<exists>c e. fst (discover_telemetry bare_nvml tree_sysfs pci_example [] False \<lparr>wenv = pci_files, wlog = []\<rparr>) = Inr c
     \<and> fst (apply_oem_turbo bare_nvml c \<lparr>wenv = pci_files, wlog = []\<rparr>) = Inl e"
proof -
  obtain c w' where "discover_telemetry bare_nvml tree_sysfs pci_example [] False \<lparr>wenv = pci_files, wlog = []\<rparr> = (Inr c, w')"
    using pci_example_opens by (metis is_ok_iff prod.collapse)
  with telemetry_controller_cannot_mutate [OF this] show ?thesis by (metis fst_conv)
qed

end
