(* ===== verification/Tuning.thy ===== *)
theory Tuning
  imports Hardware Nvidia_Safety
begin

text \<open>
  \<open>src/tuning.rs\<close>: the platform profile together with the optional NVIDIA offsets, set and
  rolled back as one transaction. The two traits of the file are records of operations; the
  texts of causes and failures are represented by the values they print.
\<close>

section \<open>Data\<close>

datatype gpu_offset_state = Gpu_unavailable | Gpu_reset | Gpu_oem_turbo | Gpu_custom_or_partial

record tuning_state =
  ts_profile :: platform_profile
  ts_gpu_offsets :: gpu_offset_state
  ts_gpu_pstate_count :: nat
  ts_gpu_capability_error :: "nvidia_error option"
  ts_power :: "power_telemetry option"
  ts_power_error :: "nvidia_error option"

datatype tuning_error =
    Tn_hardware hardware_error
  | Tn_nvidia nvidia_error
  | Tn_rolled_back tuning_cause
  | Tn_rollback_failed tuning_cause "tuning_failure list"
  | Tn_external_offsets gpu_offset_state
and tuning_cause =
    Cause_set_turbo hardware_error
  | Cause_apply_gpu nvidia_error
  | Cause_reset_gpu nvidia_error
  | Cause_set_profile platform_profile hardware_error
  | Cause_readback tuning_error
  | Cause_acer_readback hardware_error
  | Cause_unexpected_state platform_profile gpu_offset_state platform_profile gpu_offset_state
  | Cause_unexpected_profile platform_profile platform_profile
and tuning_failure =
    Fail_restore_gpu nvidia_error
  | Fail_restore_profile hardware_error
  | Fail_profile_mismatch platform_profile platform_profile
  | Fail_profile_readback hardware_error
  | Fail_gpu_mismatch
  | Fail_gpu_readback nvidia_error

text \<open>The traits \<open>FirmwareProfileControl\<close> and \<open>NvidiaProfileControl\<close>.\<close>

record 'w firmware_control =
  fw_current :: "('w, hardware_error, platform_profile) io"
  fw_set :: "platform_profile \<Rightarrow> ('w, hardware_error, unit) io"

record 'w nvidia_control =
  ng_state_count :: nat
  ng_snapshot :: "('w, nvidia_error, offset_snapshot) io"
  ng_turbo :: "('w, nvidia_error, unit) io"
  ng_reset :: "('w, nvidia_error, unit) io"
  ng_restore :: "offset_snapshot \<Rightarrow> ('w, nvidia_error, unit) io"
  ng_power :: "('w, nvidia_error, power_telemetry) io"

definition io_unit :: "('w, 'x, 'a) io \<Rightarrow> ('w, 'x, unit) io" where
  "io_unit m = io_bind m (\<lambda>_. io_ret ())"

definition acer_firmware :: "'e sysfs \<Rightarrow> acer_hardware \<Rightarrow> 'e world firmware_control" where
  "acer_firmware fs hw = \<lparr>fw_current = current_profile fs hw, fw_set = set_profile fs hw\<rparr>"

definition nvidia_plane :: "'e nvml \<Rightarrow> nvidia_controller \<Rightarrow> 'e world nvidia_control" where
  "nvidia_plane nv c = \<lparr>ng_state_count = length (nc_states c), ng_snapshot = snapshot_offsets nv c,
     ng_turbo = io_unit (apply_oem_turbo nv c), ng_reset = io_unit (reset_oem_offsets nv c),
     ng_restore = (\<lambda>s. io_unit (restore_offsets nv c s)), ng_power = read_power_telemetry nv c\<rparr>"

datatype nvidia_capability = Nvidia_available nvidia_controller | Nvidia_unavailable nvidia_error

definition classify_offsets :: "offset_snapshot \<Rightarrow> gpu_offset_state" where
  "classify_offsets snap =
     (if list_all (\<lambda>s. or_current (so_core s) = co_core RESET \<and> or_current (so_memory s) = co_memory RESET) snap
      then Gpu_reset
      else if list_all (\<lambda>s. or_current (so_core s) = co_core OEM_TURBO \<and> or_current (so_memory s) = co_memory OEM_TURBO) snap
      then Gpu_oem_turbo else Gpu_custom_or_partial)"

section \<open>Operations\<close>

type_synonym ('w, 'a) tn_io = "('w, tuning_error, 'a) io"

definition optional_power :: "'w nvidia_control \<Rightarrow> ('w, 'x, power_telemetry option \<times> nvidia_error option) io" where
  "optional_power ng = io_try (ng_power ng) (\<lambda>r. io_ret (case r of Inr p \<Rightarrow> (Some p, None) | Inl e \<Rightarrow> (None, Some e)))"

definition required_nvidia_state ::
  "'w firmware_control \<Rightarrow> 'w nvidia_control \<Rightarrow> ('w, platform_profile \<times> gpu_offset_state) tn_io" where
  "required_nvidia_state fw ng = io_bind (io_map_err Tn_hardware (fw_current fw)) (\<lambda>p.
     io_bind (io_map_err Tn_nvidia (ng_snapshot ng)) (\<lambda>offs. io_ret (p, classify_offsets offs)))"

text \<open>One restore command, contributing its failure to the list.\<close>

definition note_failure :: "('d \<Rightarrow> tuning_failure) \<Rightarrow> ('w, 'd, unit) io \<Rightarrow> ('w, 'x, tuning_failure list) io" where
  "note_failure f m = io_try m (\<lambda>r. io_ret (case r of Inl e \<Rightarrow> [f e] | Inr _ \<Rightarrow> []))"

definition verify_profile :: "'w firmware_control \<Rightarrow> platform_profile \<Rightarrow> ('w, 'x, tuning_failure list) io" where
  "verify_profile fw previous = io_try (fw_current fw) (\<lambda>r. io_ret (case r of
      Inr p \<Rightarrow> if p = previous then [] else [Fail_profile_mismatch previous p]
    | Inl e \<Rightarrow> [Fail_profile_readback e]))"

definition verify_offsets :: "'w nvidia_control \<Rightarrow> offset_snapshot \<Rightarrow> ('w, 'x, tuning_failure list) io" where
  "verify_offsets ng previous = io_try (ng_snapshot ng) (\<lambda>r. io_ret (case r of
      Inr s \<Rightarrow> if s = previous then [] else [Fail_gpu_mismatch]
    | Inl e \<Rightarrow> [Fail_gpu_readback e]))"

definition rollback ::
  "'w nvidia_control \<Rightarrow> 'w firmware_control \<Rightarrow> platform_profile \<Rightarrow> platform_profile \<Rightarrow> offset_snapshot
     \<Rightarrow> tuning_cause \<Rightarrow> ('w, 'a) tn_io" where
  "rollback ng fw forward_target previous_profile previous_offsets cause =
     io_bind (if forward_target = Turbo then
         io_bind (note_failure Fail_restore_gpu (ng_restore ng previous_offsets)) (\<lambda>a.
         io_bind (note_failure Fail_restore_profile (fw_set fw previous_profile)) (\<lambda>b. io_ret (a @ b)))
       else
         io_bind (note_failure Fail_restore_profile (fw_set fw previous_profile)) (\<lambda>a.
         io_bind (note_failure Fail_restore_gpu (ng_restore ng previous_offsets)) (\<lambda>b. io_ret (a @ b)))) (\<lambda>commands.
     io_bind (if commands = [] then
         io_bind (verify_profile fw previous_profile) (\<lambda>a.
         io_bind (verify_offsets ng previous_offsets) (\<lambda>b. io_ret (a @ b)))
       else io_ret commands) (\<lambda>failures.
     if failures = [] then io_err (Tn_rolled_back cause) else io_err (Tn_rollback_failed cause failures)))"

definition rollback_firmware ::
  "'w firmware_control \<Rightarrow> platform_profile \<Rightarrow> tuning_cause \<Rightarrow> ('w, 'a) tn_io" where
  "rollback_firmware fw previous_profile cause =
     io_bind (io_try (fw_set fw previous_profile) (\<lambda>r. case r of
         Inl e \<Rightarrow> io_ret [Fail_restore_profile e]
       | Inr _ \<Rightarrow> verify_profile fw previous_profile)) (\<lambda>failures.
     if failures = [] then io_err (Tn_rolled_back cause) else io_err (Tn_rollback_failed cause failures))"

definition forward_mutation ::
  "'w firmware_control \<Rightarrow> 'w nvidia_control \<Rightarrow> platform_profile \<Rightarrow> ('w, tuning_cause, unit) io" where
  "forward_mutation fw ng target =
     (if target = Turbo then
        io_then (io_map_err Cause_set_turbo (fw_set fw target)) (io_map_err Cause_apply_gpu (ng_turbo ng))
      else
        io_then (io_map_err Cause_reset_gpu (ng_reset ng)) (io_map_err (Cause_set_profile target) (fw_set fw target)))"

definition expected_gpu_state :: "platform_profile \<Rightarrow> gpu_offset_state" where
  "expected_gpu_state target = (if target = Turbo then Gpu_oem_turbo else Gpu_reset)"

definition check_readback ::
  "platform_profile \<Rightarrow> tuning_error + platform_profile \<times> gpu_offset_state \<Rightarrow>
     tuning_cause + platform_profile \<times> gpu_offset_state" where
  "check_readback target r = (case r of
      Inl e \<Rightarrow> Inl (Cause_readback e)
    | Inr (profile, gpu) \<Rightarrow> if profile = target \<and> gpu = expected_gpu_state target then Inr (profile, gpu)
        else Inl (Cause_unexpected_state target (expected_gpu_state target) profile gpu))"

definition set_profile_with_nvidia ::
  "'w firmware_control \<Rightarrow> platform_profile \<Rightarrow> 'w nvidia_control \<Rightarrow> ('w, tuning_state) tn_io" where
  "set_profile_with_nvidia fw target ng =
     io_bind (io_map_err Tn_hardware (fw_current fw)) (\<lambda>previous_profile.
     io_bind (io_map_err Tn_nvidia (ng_snapshot ng)) (\<lambda>previous_offsets.
     if classify_offsets previous_offsets = Gpu_custom_or_partial
     then io_err (Tn_external_offsets Gpu_custom_or_partial)
     else io_try (forward_mutation fw ng target) (\<lambda>r. case r of
         Inl cause \<Rightarrow> rollback ng fw target previous_profile previous_offsets cause
       | Inr _ \<Rightarrow> io_try (required_nvidia_state fw ng) (\<lambda>q. case check_readback target q of
           Inl cause \<Rightarrow> rollback ng fw target previous_profile previous_offsets cause
         | Inr (profile, gpu) \<Rightarrow> io_bind (optional_power ng) (\<lambda>(power, power_error).
             io_ret \<lparr>ts_profile = profile, ts_gpu_offsets = gpu, ts_gpu_pstate_count = ng_state_count ng,
               ts_gpu_capability_error = None, ts_power = power, ts_power_error = power_error\<rparr>)))))"

definition set_firmware_profile ::
  "'w firmware_control \<Rightarrow> platform_profile \<Rightarrow> nvidia_error \<Rightarrow> ('w, tuning_state) tn_io" where
  "set_firmware_profile fw target capability_error =
     io_bind (io_map_err Tn_hardware (fw_current fw)) (\<lambda>previous_profile.
     io_try (fw_set fw target) (\<lambda>r. case r of
        Inl e \<Rightarrow> rollback_firmware fw previous_profile (Cause_set_profile target e)
      | Inr _ \<Rightarrow> io_try (fw_current fw) (\<lambda>q. case q of
          Inl e \<Rightarrow> rollback_firmware fw previous_profile (Cause_acer_readback e)
        | Inr profile \<Rightarrow> if profile = target then
              io_ret \<lparr>ts_profile = profile, ts_gpu_offsets = Gpu_unavailable, ts_gpu_pstate_count = 0,
                ts_gpu_capability_error = Some capability_error, ts_power = None, ts_power_error = None\<rparr>
            else rollback_firmware fw previous_profile (Cause_unexpected_profile target profile))))"

definition profile_controller_discover :: "'e nvml \<Rightarrow> 'e sysfs \<Rightarrow> ('e world, 'x, nvidia_capability) io" where
  "profile_controller_discover nv fs = io_try (controller_discover nv fs []) (\<lambda>r. io_ret (case r of
      Inr c \<Rightarrow> Nvidia_available c | Inl e \<Rightarrow> Nvidia_unavailable e))"

definition tuning_set_profile ::
  "'e nvml \<Rightarrow> 'e sysfs \<Rightarrow> nvidia_capability \<Rightarrow> acer_hardware \<Rightarrow> platform_profile \<Rightarrow> ('e world, tuning_state) tn_io" where
  "tuning_set_profile nv fs cap hw target = (case cap of
      Nvidia_available c \<Rightarrow> set_profile_with_nvidia (acer_firmware fs hw) target (nvidia_plane nv c)
    | Nvidia_unavailable e \<Rightarrow> set_firmware_profile (acer_firmware fs hw) target e)"

definition tuning_read_state ::
  "'e nvml \<Rightarrow> 'e sysfs \<Rightarrow> nvidia_capability \<Rightarrow> acer_hardware \<Rightarrow> ('e world, tuning_state) tn_io" where
  "tuning_read_state nv fs cap hw =
     io_bind (io_map_err Tn_hardware (current_profile fs hw)) (\<lambda>profile. case cap of
        Nvidia_available c \<Rightarrow>
          io_bind (io_map_err Tn_nvidia (snapshot_offsets nv c)) (\<lambda>offs.
          io_bind (optional_power (nvidia_plane nv c)) (\<lambda>(power, power_error).
            io_ret \<lparr>ts_profile = profile, ts_gpu_offsets = classify_offsets offs,
              ts_gpu_pstate_count = length (nc_states c), ts_gpu_capability_error = None,
              ts_power = power, ts_power_error = power_error\<rparr>))
      | Nvidia_unavailable e \<Rightarrow>
          io_ret \<lparr>ts_profile = profile, ts_gpu_offsets = Gpu_unavailable, ts_gpu_pstate_count = 0,
            ts_gpu_capability_error = Some e, ts_power = None, ts_power_error = None\<rparr>)"

end
