(* ===== verification/Fan_Safety.thy ===== *)
theory Fan_Safety
  imports Hardware
begin

text \<open>
  What the fan transaction of \<open>src/hardware.rs\<close> guarantees, for every behaviour of the kernel:
  which accesses are read only, the exact order of the firmware writes, what a success and each
  error of \<open>apply_fan_setting\<close> mean, and, on firmware files that keep what is written to them,
  that the transaction succeeds and leaves the requested state.
\<close>

section \<open>Read-only operations\<close>

named_theorems hw_unwritten \<open>operations of the component that write nothing\<close>

lemma read_trimmed_unwritten [hw_unwritten]: "io_keeps unwritten (read_trimmed fs p op)"
  unfolding read_trimmed_def by (intro io_keeps_intros) simp_all

lemma parse_value_unwritten [hw_unwritten]: "io_keeps unwritten (parse_value fs f p field)"
  unfolding parse_value_def by (intro io_keeps_intros hw_unwritten) simp_all

lemma read_optional_fan_mode_unwritten [hw_unwritten]:
  "io_keeps unwritten (read_optional_fan_mode fs p)"
  unfolding read_optional_fan_mode_def by (intro io_keeps_intros hw_unwritten) simp_all

lemma read_optional_pwm_unwritten [hw_unwritten]: "io_keeps unwritten (read_optional_pwm fs p)"
  unfolding read_optional_pwm_def
  by (intro io_keeps_intros hw_unwritten)
    (auto split: sum.split hardware_error.split intro!: io_keeps_intros)

lemma read_watchdog_temperature_unwritten [hw_unwritten]:
  "io_keeps unwritten (read_watchdog_temperature fs p)"
  unfolding read_watchdog_temperature_def by (intro io_keeps_intros hw_unwritten) simp_all

lemma find_temperature_input_unwritten [hw_unwritten]:
  "io_keeps unwritten (find_temperature_input fs base role is)"
proof (induction "is")
  case Nil
  show ?case by (simp add: io_keeps_intros)
next
  case (Cons i "is")
  then show ?case
    by (auto simp: Let_def intro!: io_keeps_try io_keeps_bind fs_read_to_string_unwritten fs_query_keeps io_keeps_ret
      split: sum.split)
qed

lemma acer_temperature_path_unwritten [hw_unwritten]:
  "io_keeps unwritten (acer_temperature_path fs base channel)"
  unfolding acer_temperature_path_def Let_def
  by (auto split: sum.split intro!: io_keeps_intros hw_unwritten)

lemma manual_watchdog_available_unwritten [hw_unwritten]:
  "io_keeps unwritten (manual_watchdog_available fs base)"
  unfolding manual_watchdog_available_def
  by (intro io_keeps_all io_keeps_bind io_keeps_is_ok hw_unwritten) simp_all

lemma read_rpm_unwritten [hw_unwritten]: "io_keeps unwritten (read_rpm fs hw ch)"
  unfolding read_rpm_def by (auto split: option.split intro!: io_keeps_intros hw_unwritten)

lemma read_fan_channel_unwritten [hw_unwritten]: "io_keeps unwritten (read_fan_channel fs hw ch)"
  unfolding read_fan_channel_def
  by (auto split: option.split fan_interface.split intro!: io_keeps_intros hw_unwritten)

lemma read_fan_state_unwritten [hw_unwritten]: "io_keeps unwritten (read_fan_state fs hw)"
  unfolding read_fan_state_def by (intro io_keeps_intros hw_unwritten) simp_all

lemma read_verified_fan_state_unwritten [hw_unwritten]:
  "io_keeps unwritten (read_verified_fan_state fs hw m)"
  unfolding read_verified_fan_state_def by (intro io_keeps_intros hw_unwritten) simp_all

lemma verify_mode_unwritten [hw_unwritten]: "io_keeps unwritten (verify_mode fs hw ch m)"
  unfolding verify_mode_def by (intro io_keeps_intros hw_unwritten) simp_all

lemma verify_pwm_percent_unwritten [hw_unwritten]:
  "io_keeps unwritten (verify_pwm_percent fs hw ch p)"
  unfolding verify_pwm_percent_def
  by (auto split: prod.split intro!: io_keeps_intros hw_unwritten)

lemma fan_preconditions_unwritten [hw_unwritten]: "io_keeps unwritten (fan_preconditions fs hw s)"
  unfolding fan_preconditions_def
  by (auto split: option.split intro!: io_keeps_intros hw_unwritten)

section \<open>Order of the firmware writes\<close>

lemma traces_of_unwritten [intro]: "io_keeps unwritten m \<Longrightarrow> traces [] m"
  by (rule traces_quiet)

lemma traces_of_result: "traces [] (io_of r)"
  by (rule traces_quiet) (simp add: io_keeps_of)

lemma traces_bind_result:
  assumes "\<And>a. r = Inr a \<Longrightarrow> traces ws (f a)"
  shows "traces ws (io_bind (io_of r) f)"
proof (cases r)
  case (Inl e)
  then show ?thesis by (auto simp: traces_def io_simps)
next
  case (Inr a)
  then have "io_bind (io_of r) f = f a" by (simp add: io_bind_def io_of_def)
  with assms Inr show ?thesis by simp
qed

lemma traces_write_mode:
  "(\<And>p. mode_path hw ch = Inr p \<Longrightarrow> p = q) \<Longrightarrow> traces [(q, mode_as_sysfs m)] (write_mode fs hw ch m)"
  unfolding write_mode_def write_existing_def
  by (rule traces_bind_result) (auto intro: traces_map_err traces_write_existing)

lemma traces_write_speed:
  "(\<And>x. speed_target hw ch pc = Inr x \<Longrightarrow> x = (q, v)) \<Longrightarrow> traces [(q, v)] (write_speed_percent fs hw ch pc)"
  unfolding write_speed_percent_def write_existing_def
  by (rule traces_bind_result) (auto intro: traces_map_err traces_write_existing)

text \<open>The canonical write sequence of the Manual entry: Maximum on both fans, both speeds, Manual on
  both, both speeds again.\<close>

definition mode_write :: "acer_hardware \<Rightarrow> u8 \<Rightarrow> fan_mode \<Rightarrow> path \<times> string" where
  "mode_write hw ch m = ((case mode_path hw ch of Inr p \<Rightarrow> p | Inl _ \<Rightarrow> []), mode_as_sysfs m)"

definition speed_write :: "acer_hardware \<Rightarrow> u8 \<Rightarrow> u8 \<Rightarrow> path \<times> string" where
  "speed_write hw ch p = (case speed_target hw ch p of Inr x \<Rightarrow> x | Inl _ \<Rightarrow> ([], []))"

definition mutation_writes :: "acer_hardware \<Rightarrow> fan_setting \<Rightarrow> (path \<times> string) list" where
  "mutation_writes hw s = (case s of
      Set_automatic \<Rightarrow> [mode_write hw 1 Mode_automatic, mode_write hw 2 Mode_automatic]
    | Set_maximum \<Rightarrow> [mode_write hw 1 Mode_maximum, mode_write hw 2 Mode_maximum]
    | Set_manual c g \<Rightarrow> [mode_write hw 1 Mode_maximum, mode_write hw 2 Mode_maximum,
        speed_write hw 1 c, speed_write hw 2 g, mode_write hw 1 Mode_manual, mode_write hw 2 Mode_manual,
        speed_write hw 1 c, speed_write hw 2 g])"

lemma traces_mode: "traces [mode_write hw ch m] (write_mode fs hw ch m)"
  unfolding mode_write_def by (rule traces_write_mode) simp

lemma traces_speed: "traces [speed_write hw ch p] (write_speed_percent fs hw ch p)"
proof -
  obtain q v where "speed_write hw ch p = (q, v)" by fastforce
  then show ?thesis
    by (cases "speed_target hw ch p") (auto simp: speed_write_def intro!: traces_write_speed)
qed

lemma traces_cons_then: "traces [x] m \<Longrightarrow> traces vs n \<Longrightarrow> traces (x # vs) (io_then m n)"
  using traces_then [of "[x]" m vs n] by simp

lemma traces_quiet_then: "io_keeps unwritten m \<Longrightarrow> traces vs n \<Longrightarrow> traces vs (io_then m n)"
  using traces_then [of "[]" m vs n] traces_quiet by auto

lemmas trace_steps = traces_cons_then traces_quiet_then traces_mode traces_speed traces_quiet

lemma set_both_modes_traces:
  "traces [mode_write hw 1 m, mode_write hw 2 m] (set_both_modes fs hw m)"
  unfolding set_both_modes_def
  by (intro traces_cons_then traces_mode traces_quiet io_keeps_then hw_unwritten) simp

lemma set_manual_traces: "traces (mutation_writes hw (Set_manual c g)) (set_manual fs hw c g)"
  unfolding set_manual_def mutation_writes_def fan_setting.case
  by (rule traces_quiet_then, simp add: io_keeps_of)+
    (rule traces_cons_then traces_quiet_then [OF verify_mode_unwritten] traces_mode traces_speed
      traces_quiet io_keeps_then hw_unwritten transp_unwritten)+

lemma fan_mutation_traces: "traces (mutation_writes hw s) (fan_mutation fs hw s)"
  by (cases s) (auto simp: fan_mutation_def mutation_writes_def set_both_modes_traces
    intro: set_manual_traces [unfolded mutation_writes_def fan_setting.case])

text \<open>The recovery attempts both mode writes whatever the kernel answers.\<close>

definition writes_exactly :: "(path \<times> string) list \<Rightarrow> ('e world, 'x, 'a) io \<Rightarrow> bool" where
  "writes_exactly ws m \<longleftrightarrow> (\<forall>w. \<exists>es. wlog (snd (m w)) = wlog w @ es \<and> writes_of es = ws)"

lemma writes_exactlyD:
  "writes_exactly ws m \<Longrightarrow> m w = (r, w') \<Longrightarrow> \<exists>es. wlog w' = wlog w @ es \<and> writes_of es = ws"
  unfolding writes_exactly_def by (metis snd_conv)

lemma writes_exactly_quiet: "io_keeps unwritten m \<Longrightarrow> writes_exactly [] m"
  by (auto simp: writes_exactly_def io_keeps_def unwritten_def)

lemma writes_exactly_try:
  assumes "writes_exactly ws m" and "\<And>r. writes_exactly vs (f r)"
  shows "writes_exactly (ws @ vs) (io_try m f)"
  unfolding writes_exactly_def
proof
  fix w
  obtain r w1 where m: "m w = (r, w1)" by fastforce
  from writes_exactlyD [OF assms(1) m] obtain es where
    es: "wlog w1 = wlog w @ es" "writes_of es = ws" by blast
  from assms(2) [of r] obtain fs where
    fs: "wlog (snd (f r w1)) = wlog w1 @ fs" "writes_of fs = vs" by (auto simp: writes_exactly_def)
  with es m show "\<exists>es. wlog (snd (io_try m f w)) = wlog w @ es \<and> writes_of es = ws @ vs"
    by (intro exI [of _ "es @ fs"]) (simp add: io_try_apply)
qed

lemma mode_path_exists: "hw_fan hw \<noteq> None \<Longrightarrow> ch \<in> {1, 2} \<Longrightarrow> \<exists>p. mode_path hw ch = Inr p"
  by (auto simp: mode_path_def fan_role_def split: fan_interface.split)

lemma writes_exactly_write_mode:
  assumes "hw_fan hw \<noteq> None" and "ch \<in> {1, 2}"
  shows "writes_exactly [mode_write hw ch m] (write_mode fs hw ch m)"
proof -
  obtain p where "mode_path hw ch = Inr p" using mode_path_exists [OF assms] by blast
  then show ?thesis
    by (auto simp: writes_exactly_def mode_write_def write_mode_def write_existing_def io_simps
      fs_write_existing_def split: prod.split)
qed

lemma force_mode_writes:
  assumes "hw_fan hw \<noteq> None"
  shows "writes_exactly [mode_write hw 1 m, mode_write hw 2 m] (force_mode_unchecked fs hw m)"
proof -
  have "writes_exactly ([mode_write hw 1 m] @ [mode_write hw 2 m] @ []) (force_mode_unchecked fs hw m)"
    unfolding force_mode_unchecked_def
    by (intro writes_exactly_try writes_exactly_write_mode [OF assms] writes_exactly_quiet)
      (auto split: sum.split prod.split intro!: io_keeps_intros hw_unwritten)
  then show ?thesis by simp
qed

definition recovery_writes :: "acer_hardware \<Rightarrow> hardware_error \<Rightarrow> (path \<times> string) list" where
  "recovery_writes hw e = (let auto = [mode_write hw 1 Mode_automatic, mode_write hw 2 Mode_automatic];
       maximum = [mode_write hw 1 Mode_maximum, mode_write hw 2 Mode_maximum] in
     case e of Mutation_rolled_back _ \<Rightarrow> auto
       | Mutation_failsafe_maximum _ _ \<Rightarrow> auto @ maximum
       | Mutation_recovery_failed _ _ _ \<Rightarrow> auto @ maximum
       | _ \<Rightarrow> [])"

definition outcome_recovery :: "acer_hardware \<Rightarrow> hardware_error + 'a \<Rightarrow> (path \<times> string) list" where
  "outcome_recovery hw r = (case r of Inl e \<Rightarrow> recovery_writes hw e | Inr _ \<Rightarrow> [])"

lemma outcome_recovery_simps [simp]:
  "outcome_recovery hw (Inl e) = recovery_writes hw e" "outcome_recovery hw (Inr a) = []"
  by (simp_all add: outcome_recovery_def)

text \<open>The shapes of the recovery's outcome.\<close>

definition fan_refused :: "hardware_error \<Rightarrow> bool" where
  "fan_refused e \<longleftrightarrow> (case e of Unsupported_platform _ _ \<Rightarrow> True | Fan_control_unavailable \<Rightarrow> True
     | Manual_fan_unavailable \<Rightarrow> True | _ \<Rightarrow> False)"

lemma fan_recovery_cases:
  assumes "fan_recovery fs hw cause w = (r, w')"
  obtains (rolled_back) u where "force_mode_unchecked fs hw Mode_automatic w = (Inr u, w')"
      and "r = Inl (Mutation_rolled_back cause)"
    | (failsafe) a w1 u where "force_mode_unchecked fs hw Mode_automatic w = (Inl a, w1)"
      and "force_mode_unchecked fs hw Mode_maximum w1 = (Inr u, w')"
      and "r = Inl (Mutation_failsafe_maximum cause a)"
    | (failed) a w1 m where "force_mode_unchecked fs hw Mode_automatic w = (Inl a, w1)"
      and "force_mode_unchecked fs hw Mode_maximum w1 = (Inl m, w')"
      and "r = Inl (Mutation_recovery_failed cause a m)"
proof -
  obtain r1 w1 where one: "force_mode_unchecked fs hw Mode_automatic w = (r1, w1)" by fastforce
  obtain r2 w2 where two: "force_mode_unchecked fs hw Mode_maximum w1 = (r2, w2)" by fastforce
  show thesis
    using assms one two rolled_back failsafe failed
    by (cases r1; cases r2) (simp_all add: fan_recovery_def io_try_apply io_err_apply)
qed

lemma fan_recovery_trace:
  assumes fan: "hw_fan hw \<noteq> None" and run: "fan_recovery fs hw cause w = (r, w')"
  shows "\<exists>es. wlog w' = wlog w @ es \<and> writes_of es = outcome_recovery hw r"
proof -
  note exact = writes_exactlyD [OF force_mode_writes [OF fan]]
  from run show ?thesis
  proof (cases rule: fan_recovery_cases)
    case (rolled_back u)
    from exact [OF rolled_back(1)] rolled_back(2) show ?thesis by (simp add: recovery_writes_def)
  next
    case (failsafe a w1 u)
    from exact [OF failsafe(1)] exact [OF failsafe(2)] failsafe(3)
    show ?thesis by (auto simp: recovery_writes_def)
  next
    case (failed a w1 m)
    from exact [OF failed(1)] exact [OF failed(2)] failed(3)
    show ?thesis by (auto simp: recovery_writes_def)
  qed
qed

lemma apply_fan_cases:
  assumes "apply_fan_setting fs hw s w = (r, w')"
  obtains (refused) e where "fan_preconditions fs hw s w = (Inl e, w')" and "r = Inl e"
    | (completed) w1 st where "fan_preconditions fs hw s w = (Inr (), w1)"
      and "io_then (fan_mutation fs hw s) (read_verified_fan_state fs hw (expected_mode s)) w1 = (Inr st, w')"
      and "r = Inr st"
    | (recovered) w1 cause w2 where "fan_preconditions fs hw s w = (Inr (), w1)"
      and "io_then (fan_mutation fs hw s) (read_verified_fan_state fs hw (expected_mode s)) w1 = (Inl cause, w2)"
      and "fan_recovery fs hw cause w2 = (r, w')"
proof -
  obtain r0 w1 where pre: "fan_preconditions fs hw s w = (r0, w1)" by fastforce
  obtain r1 w2 where mid: "io_then (fan_mutation fs hw s)
      (read_verified_fan_state fs hw (expected_mode s)) w1 = (r1, w2)" by fastforce
  show thesis
  proof (cases r0)
    case (Inl e)
    then show thesis
      using assms pre by (intro refused) (auto simp: apply_fan_setting_def io_then_apply)
  next
    case (Inr u)
    then have trans: "fan_transaction fs hw s w1 = (r, w')" and pre': "fan_preconditions fs hw s w = (Inr (), w1)"
      using assms pre by (simp_all add: apply_fan_setting_def io_then_apply)
    show thesis
    proof (cases r1)
      case (Inl cause)
      then show thesis
        using trans mid by (intro recovered [OF pre']) (simp_all add: fan_transaction_def io_try_apply)
    next
      case (Inr st)
      then show thesis
        using trans mid by (intro completed [OF pre', of st]) (auto simp: fan_transaction_def io_try_apply io_ret_apply)
    qed
  qed
qed

text \<open>The temperature probe of the Manual precondition never fails; it answers no.\<close>

lemma find_temperature_input_total: "io_total (find_temperature_input fs base role is)"
proof (induction "is")
  case Nil
  show ?case by simp
next
  case (Cons i "is")
  then show ?case
    by (auto simp: Let_def intro!: io_total_try io_total_bind split: sum.split)
qed

lemma manual_watchdog_available_total: "io_total (manual_watchdog_available fs base)"
  unfolding manual_watchdog_available_def acer_temperature_path_def Let_def io_is_ok_def
  by (auto intro!: io_total_all io_total_bind io_total_try find_temperature_input_total split: sum.split)

lemma fan_preconditions_refuse:
  "fan_preconditions fs hw s w = (Inl e, w') \<Longrightarrow> fan_refused e"
proof -
  have "manual_watchdog_available fs b w \<noteq> (Inl e, w')" for b
    using manual_watchdog_available_total [of fs b] unfolding io_total_def
    by (metis fst_conv is_ok_simps(1))
  then show "fan_preconditions fs hw s w = (Inl e, w') \<Longrightarrow> fan_refused e"
    unfolding fan_preconditions_def
    by (auto simp: io_simps require_acer_def fan_refused_def
      split: prod.splits sum.splits option.splits if_splits)
qed

lemma fan_preconditions_pass:
  assumes "fan_preconditions fs hw s w = (Inr (), w')"
  shows "is_acer hw" and "hw_fan hw \<noteq> None"
    and "is_manual s \<Longrightarrow> \<exists>i. hw_fan hw = Some i \<and> fan_manual_flag i"
  using assms unfolding fan_preconditions_def
  by (auto simp: io_simps require_acer_def split: prod.splits sum.splits option.splits if_splits)


text \<open>One transaction: the recorded accesses before the recovery.\<close>

lemma fan_attempt_traces:
  "traces (mutation_writes hw s) (io_then (fan_mutation fs hw s) (read_verified_fan_state fs hw m))"
  using traces_then [OF fan_mutation_traces traces_quiet [OF read_verified_fan_state_unwritten]]
  by simp

lemma unwrittenE:
  assumes "unwritten w w'"
  obtains es where "wlog w' = wlog w @ es" and "writes_of es = []"
  using assms by (auto simp: unwritten_def)

lemma tracesE:
  assumes "traces ws m" and "m w = (r, w')"
  obtains es where "wlog w' = wlog w @ es" and "prefix (writes_of es) ws"
    and "is_ok r \<Longrightarrow> writes_of es = ws"
  using assms unfolding traces_def by blast

lemma refused_no_recovery: "fan_refused e \<Longrightarrow> recovery_writes hw e = []"
  by (auto simp: recovery_writes_def fan_refused_def split: hardware_error.splits)

lemma recovery_not_refused:
  assumes "fan_recovery fs hw cause w = (r, w')"
  shows "\<exists>e. r = Inl e \<and> \<not> fan_refused e"
  using assms by (cases rule: fan_recovery_cases) (simp_all add: fan_refused_def)

lemma apply_fan_trace:
  assumes "apply_fan_setting fs hw s w = (r, w')"
  shows "\<exists>es pre. wlog w' = wlog w @ es \<and> prefix pre (mutation_writes hw s)
     \<and> writes_of es = pre @ outcome_recovery hw r
     \<and> (is_ok r \<longrightarrow> pre = mutation_writes hw s)
     \<and> (\<forall>e. r = Inl e \<and> fan_refused e \<longrightarrow> pre = [])"
  using assms
proof (cases rule: apply_fan_cases)
  case (refused e)
  from io_keepsD [OF fan_preconditions_unwritten refused(1)] obtain es where
    "wlog w' = wlog w @ es" "writes_of es = []" by (rule unwrittenE)
  with fan_preconditions_refuse [OF refused(1)] refused(2) show ?thesis
    by (intro exI [of _ es] exI [of _ "[]"]) (simp add: refused_no_recovery)
next
  case (completed w1 st)
  from io_keepsD [OF fan_preconditions_unwritten completed(1)] obtain es where
    "wlog w1 = wlog w @ es" "writes_of es = []" by (rule unwrittenE)
  moreover from fan_attempt_traces completed(2) obtain fs where "wlog w' = wlog w1 @ fs"
    and "writes_of fs = mutation_writes hw s" by (rule tracesE) simp
  ultimately show ?thesis
    using completed(3) by (intro exI [of _ "es @ fs"]) (simp add: recovery_writes_def)
next
  case (recovered w1 cause w2)
  from io_keepsD [OF fan_preconditions_unwritten recovered(1)] obtain es where
    es: "wlog w1 = wlog w @ es" "writes_of es = []" by (rule unwrittenE)
  from fan_attempt_traces recovered(2) obtain fs where fs: "wlog w2 = wlog w1 @ fs"
    and pre: "prefix (writes_of fs) (mutation_writes hw s)" by (rule tracesE)
  from fan_recovery_trace [OF fan_preconditions_pass(2) [OF recovered(1)] recovered(3)]
  obtain gs where "wlog w' = wlog w2 @ gs" "writes_of gs = outcome_recovery hw r" by blast
  with es fs pre recovery_not_refused [OF recovered(3)] show ?thesis
    by (intro exI [of _ "es @ fs @ gs"] exI [of _ "writes_of fs"]) auto
qed

section \<open>What the last reads of a transaction confirm\<close>

definition modes_confirmed :: "acer_hardware \<Rightarrow> fan_mode \<Rightarrow> fs_event list \<Rightarrow> bool" where
  "modes_confirmed hw m log = (case (mode_path hw 1, mode_path hw 2, rev log) of
      (Inr p1, Inr p2, Fs_read q2 (Inr s2) # Fs_read q1 (Inr s1) # _) \<Rightarrow>
        q1 = p1 \<and> q2 = p2 \<and> mode_from_sysfs (str_trim s1) = Inr m \<and> mode_from_sysfs (str_trim s2) = Inr m
    | _ \<Rightarrow> False)"

lemma fs_read_to_string_Inr:
  assumes "fs_read_to_string fs p w = (Inr s, w')"
  shows "wlog w' = wlog w @ [Fs_read p (Inr s)]" and "utf8_valid s"
  using assms unfolding fs_read_to_string_def fs_read_def
  by (auto simp: io_simps split: prod.splits sum.splits if_splits)

lemma read_trimmed_Inr:
  assumes "read_trimmed fs p op w = (Inr v, w')"
  obtains s where "v = str_trim s" and "wlog w' = wlog w @ [Fs_read p (Inr s)]"
proof -
  from assms obtain s w1 where "fs_read_to_string fs p w = (Inr s, w1)" "v = str_trim s" "w' = w1"
    unfolding read_trimmed_def by (auto simp: io_simps split: prod.splits sum.splits)
  with fs_read_to_string_Inr(1) show thesis by (intro that [of s]) auto
qed

lemma mode_from_sysfs_as: "str_trim v = mode_as_sysfs m \<Longrightarrow> mode_from_sysfs v = Inr m"
  by (cases m) (simp_all add: mode_from_sysfs_def)

lemma verify_mode_Inr:
  assumes "verify_mode fs hw ch m w = (Inr u, w')"
  obtains p s where "mode_path hw ch = Inr p" and "wlog w' = wlog w @ [Fs_read p (Inr s)]"
    and "mode_from_sysfs (str_trim s) = Inr m"
proof -
  from assms obtain p v where p: "mode_path hw ch = Inr p"
    and v: "read_trimmed fs p ''verify fan mode'' w = (Inr v, w')" and "str_trim v = mode_as_sysfs m"
    unfolding verify_mode_def ensure_readback_def
    by (auto simp: io_simps split: prod.splits sum.splits if_splits)
  moreover from v obtain s where "v = str_trim s" "wlog w' = wlog w @ [Fs_read p (Inr s)]"
    by (rule read_trimmed_Inr)
  ultimately show thesis using mode_from_sysfs_as by (intro that [of p s]) auto
qed

lemma verify_both_confirmed:
  assumes "io_then (verify_mode fs hw 1 m) (verify_mode fs hw 2 m) w = (Inr u, w')"
  shows "modes_confirmed hw m (wlog w')"
proof -
  from assms obtain a w1 where "verify_mode fs hw 1 m w = (Inr a, w1)"
    and "verify_mode fs hw 2 m w1 = (Inr u, w')" by (rule io_then_Inr)
  then show ?thesis
    by (elim verify_mode_Inr) (simp add: modes_confirmed_def)
qed

lemma force_mode_confirmed:
  assumes "force_mode_unchecked fs hw m w = (Inr u, w')"
  shows "modes_confirmed hw m (wlog w')"
proof -
  obtain r1 w1 where one: "write_mode fs hw 1 m w = (r1, w1)" by fastforce
  obtain r2 w2 where two: "write_mode fs hw 2 m w1 = (r2, w2)" by fastforce
  from assms one two have "io_then (verify_mode fs hw 1 m) (verify_mode fs hw 2 m) w2 = (Inr u, w')"
    by (cases r1; cases r2) (simp_all add: force_mode_unchecked_def io_try_apply io_err_apply)
  then show ?thesis by (rule verify_both_confirmed)
qed

lemma mode_text_trim: "str_trim (mode_text m) = mode_as_sysfs k \<Longrightarrow> m = Some k"
proof -
  have "trimmed (mode_text m)"
    by (cases m rule: option.exhaust [case_names None Some]; (cases "the m")?)
      (simp_all add: mode_text_def trimmed_def graphic_def byte_def)
  then have "str_trim (mode_text m) = mode_text m" by (rule str_trim_trimmed)
  moreover have "mode_text m = mode_as_sysfs k \<Longrightarrow> m = Some k"
    by (cases m; cases k; cases "the m") (simp_all add: mode_text_def)
  ultimately show "str_trim (mode_text m) = mode_as_sysfs k \<Longrightarrow> m = Some k" by simp
qed

lemma read_verified_fan_state_modes:
  assumes "read_verified_fan_state fs hw m w = (Inr st, w')"
  shows "ch_mode (fan_cpu st) = Some m" and "ch_mode (fan_gpu st) = Some m"
proof -
  from assms obtain w1 where "(case (str_trim (mode_text (ch_mode (fan_cpu st))) = mode_as_sysfs m,
      str_trim (mode_text (ch_mode (fan_gpu st))) = mode_as_sysfs m) of (a, b) \<Rightarrow> a \<and> b)"
    unfolding read_verified_fan_state_def
    by (elim io_bind_Inr io_then_Inr) (auto simp: io_of_apply io_ret_apply ensure_readback_def split: if_splits)
  then show "ch_mode (fan_cpu st) = Some m" and "ch_mode (fan_gpu st) = Some m"
    by (auto dest: mode_text_trim)
qed

lemma set_manual_percents:
  assumes "set_manual fs hw c g w = (Inr u, w')"
  shows "20 \<le> c" "c \<le> 100" "20 \<le> g" "g \<le> 100"
  using assms unfolding set_manual_def validate_percent_def
  by (auto simp: io_then_apply [of "io_of _"] io_of_apply split: if_splits)

section \<open>A laptop as files\<close>

text \<open>A Predator with both fans under kernel PWM control, and one whose second PWM enable file is
  gone.\<close>

definition example_hw :: acer_hardware where
  "example_hw = \<lparr>hw_platform = \<lparr>vp_vendor = ''Acer'', vp_product = ''Predator PHN16-72'', vp_acer = True\<rparr>,
     hw_root = [], hw_hwmon = Some [''hwmon''], hw_profile = None, hw_fan = Some (I_kernel_pwm [''hwmon''] True)\<rparr>"

definition example_files :: file_tree where
  "example_files = [([''hwmon'', ''pwm1_enable''], ''2''), ([''hwmon'', ''pwm2_enable''], ''2''),
     ([''hwmon'', ''pwm1''], ''90''), ([''hwmon'', ''pwm2''], ''91''),
     ([''hwmon'', ''fan1_input''], ''2100''),
     ([''hwmon'', ''temp1_input''], ''51000''), ([''hwmon'', ''temp2_input''], ''47000'')]"

definition example_world :: "file_tree world" where
  "example_world = \<lparr>wenv = example_files, wlog = []\<rparr>"

definition broken_world :: "file_tree world" where
  "broken_world = \<lparr>wenv = filter (\<lambda>x. fst x \<noteq> [''hwmon'', ''pwm2'']) example_files, wlog = []\<rparr>"

text \<open>The operations unfolded when applied to a world, for the runs of the fixture.\<close>

lemmas hw_run = apply_fan_setting_def [THEN fun_cong] fan_transaction_def [THEN fun_cong]
  fan_recovery_def [THEN fun_cong] fan_preconditions_def [THEN fun_cong] fan_mutation_def [THEN fun_cong]
  read_verified_fan_state_def [THEN fun_cong] read_fan_state_def [THEN fun_cong]
  read_fan_channel_def [THEN fun_cong] force_mode_unchecked_def [THEN fun_cong]
  set_manual_def [THEN fun_cong] set_both_modes_def [THEN fun_cong] verify_pwm_percent_def [THEN fun_cong]
  write_speed_percent_def [THEN fun_cong] verify_mode_def [THEN fun_cong] write_mode_def [THEN fun_cong]
  manual_watchdog_available_def [THEN fun_cong] acer_temperature_path_def [THEN fun_cong]
  read_optional_fan_mode_def [THEN fun_cong] read_optional_pwm_def [THEN fun_cong]
  read_watchdog_temperature_def [THEN fun_cong] parse_value_def [THEN fun_cong]
  read_trimmed_def [THEN fun_cong] write_existing_def [THEN fun_cong] read_rpm_def [THEN fun_cong]
  io_ok_def [THEN fun_cong] io_is_ok_def [THEN fun_cong] io_simps tree_sysfs_run

lemmas hw_eval = mode_path_def speed_target_def path_join_def ensure_readback_def validate_percent_def
  mode_from_sysfs_def pwm_readback_def optional_fan_mode_def fan_role_def channels_1_8_def tree_put_def
  graphic_text graphic_def byte_def is_manual_def fan_manual_flag_def require_acer_def expected_mode_def
  mode_text_def is_acer_def show_word_channels ENOENT_def ENXIO_def raw_os_error_def

lemma example_numbers:
  "parse_sint 64 ''51000'' = Some 51000" "parse_sint 64 ''47000'' = Some 47000"
  "parse_u32 ''2100'' = Some 2100"
  by (simp_all add: number_eval)

lemma example_words:
  "parse_u8 ''115'' = Some 115" "parse_u8 ''90'' = Some 90" "parse_u8 ''91'' = Some 91"
  "parse_u8 ''153'' = Some 153" "percent_to_pwm 45 = 115" "percent_to_pwm 60 = 153"
  "pwm_to_percent 115 = 45" "pwm_to_percent 153 = 60"
  "show_word (115 :: u8) = ''115''" "show_word (153 :: u8) = ''153''"
  by code_simp+

lemmas example_eval = example_hw_def example_world_def broken_world_def example_files_def
  example_numbers example_words

lemma example_manual_runs:
  "is_ok (fst (apply_fan_setting tree_sysfs example_hw (Set_manual 45 60) example_world))"
  by (simp add: hw_run hw_eval example_eval)

lemma broken_manual_rolls_back:
  "case fst (apply_fan_setting tree_sysfs example_hw (Set_manual 45 60) broken_world) of
     Inl (Mutation_rolled_back c) \<Rightarrow> True | _ \<Rightarrow> False"
  by (simp add: hw_run hw_eval example_eval)

lemma example_auto_writes:
  "mode_write example_hw 1 Mode_automatic = ([''hwmon'', ''pwm1_enable''], ''2'')"
  "mode_write example_hw 2 Mode_automatic = ([''hwmon'', ''pwm2_enable''], ''2'')"
  by (simp_all add: mode_write_def hw_eval example_hw_def)

section \<open>Properties\<close>

text \<open>C1: whatever the kernel does, a fan setting reported as applied was requested on an Acer
  platform with a fan interface, its Manual percentages were in 20..=100, and the state handed
  back, which was read after the last write, shows both fans in the mode of the setting.\<close>

theorem apply_fan_verified:
  assumes "apply_fan_setting fs hw s w = (Inr st, w')"
  shows "is_acer hw \<and> hw_fan hw \<noteq> None
    \<and> (case s of Set_manual c g \<Rightarrow> 20 \<le> c \<and> c \<le> 100 \<and> 20 \<le> g \<and> g \<le> 100 | _ \<Rightarrow> True)
    \<and> ch_mode (fan_cpu st) = Some (expected_mode s) \<and> ch_mode (fan_gpu st) = Some (expected_mode s)"
  using assms
proof (cases rule: apply_fan_cases)
  case (completed w1 st')
  then obtain u w2 where mut: "fan_mutation fs hw s w1 = (Inr u, w2)"
    and rd: "read_verified_fan_state fs hw (expected_mode s) w2 = (Inr st, w')"
    by (auto elim: io_then_Inr)
  have "case s of Set_manual c g \<Rightarrow> 20 \<le> c \<and> c \<le> 100 \<and> 20 \<le> g \<and> g \<le> 100 | _ \<Rightarrow> True"
    using mut set_manual_percents by (cases s) (fastforce simp: fan_mutation_def)+
  with fan_preconditions_pass(1,2) [OF completed(1)] read_verified_fan_state_modes [OF rd]
  show ?thesis by simp
next
  case (recovered w1 cause w2)
  then show ?thesis using recovery_not_refused by fastforce
qed simp

theorem apply_fan_verified_witness:
  "ch_mode (fan_cpu (projr (fst (apply_fan_setting tree_sysfs example_hw (Set_manual 45 60) example_world))))
     = Some Mode_manual"
proof -
  obtain st w' where "apply_fan_setting tree_sysfs example_hw (Set_manual 45 60) example_world = (Inr st, w')"
    using example_manual_runs by (metis is_ok_iff prod.collapse)
  with apply_fan_verified [OF this] show ?thesis by (simp add: expected_mode_def)
qed

text \<open>C2: whatever the kernel does, the writes of a fan transaction are a prefix of the canonical
  sequence of the setting (for Manual: Maximum on both fans, both speeds, Manual on both, both
  speeds again), all of it when it succeeds, followed by the recovery's writes that its error
  names: Auto on both fans, then Maximum on both if Auto was not confirmed. A refused setting
  writes nothing.\<close>

theorem fan_write_order:
  assumes "apply_fan_setting fs hw s w = (r, w')"
  shows "\<exists>pre. prefix pre (mutation_writes hw s)
     \<and> writes_of (events_between w w') = pre @ outcome_recovery hw r
     \<and> (is_ok r \<longrightarrow> pre = mutation_writes hw s)
     \<and> (\<forall>e. r = Inl e \<longrightarrow> fan_refused e \<longrightarrow> pre = [])"
  using apply_fan_trace [OF assms] by (auto simp: events_between_def)

theorem fan_write_order_witness:
  "\<exists>pre. prefix pre (mutation_writes example_hw (Set_manual 45 60))
     \<and> writes_of (events_between broken_world (snd (apply_fan_setting tree_sysfs example_hw (Set_manual 45 60) broken_world)))
        = pre @ [([''hwmon'', ''pwm1_enable''], ''2''), ([''hwmon'', ''pwm2_enable''], ''2'')]"
proof -
  obtain c w' where run: "apply_fan_setting tree_sysfs example_hw (Set_manual 45 60) broken_world
      = (Inl (Mutation_rolled_back c), w')"
    using broken_manual_rolls_back
    by (cases "apply_fan_setting tree_sysfs example_hw (Set_manual 45 60) broken_world")
      (auto split: sum.splits hardware_error.splits)
  from fan_write_order [OF run] run show ?thesis
    by (auto simp: recovery_writes_def example_auto_writes)
qed

text \<open>C3: whatever the kernel does, the error of a fan transaction tells the state it left: rolled
  back means the last two reads confirmed Auto on both fans, failsafe means they confirmed
  Maximum on both, and a refusal means nothing was written. Every error is one of these, or
  reports that both recoveries failed.\<close>

theorem fan_error_confirmed:
  assumes "apply_fan_setting fs hw s w = (Inl e, w')"
  shows "case e of Mutation_rolled_back cause \<Rightarrow> modes_confirmed hw Mode_automatic (wlog w')
    | Mutation_failsafe_maximum cause automatic \<Rightarrow> modes_confirmed hw Mode_maximum (wlog w')
    | Mutation_recovery_failed cause automatic maximum \<Rightarrow>
        suffix (recovery_writes hw e) (writes_of (wlog w'))
    | _ \<Rightarrow> fan_refused e \<and> unwritten w w'"
  using assms
proof (cases rule: apply_fan_cases)
  case (refused d)
  then show ?thesis
    using fan_preconditions_refuse [OF refused(1)] io_keepsD [OF fan_preconditions_unwritten refused(1)]
    by (cases e) (auto simp: fan_refused_def)
next
  case (recovered w1 cause w2)
  have fan: "hw_fan hw \<noteq> None" using fan_preconditions_pass(2) [OF recovered(1)] .
  from recovered(3) show ?thesis
  proof (cases rule: fan_recovery_cases)
    case (rolled_back u)
    then show ?thesis by (auto dest: force_mode_confirmed)
  next
    case (failsafe a w3 u)
    then show ?thesis by (auto dest: force_mode_confirmed)
  next
    case (failed a w3 m)
    with fan_recovery_trace [OF fan recovered(3)] show ?thesis by (auto simp: suffix_def)
  qed
qed simp

theorem fan_error_confirmed_witness:
  "modes_confirmed example_hw Mode_automatic
     (wlog (snd (apply_fan_setting tree_sysfs example_hw (Set_manual 45 60) broken_world)))"
proof -
  let ?run = "apply_fan_setting tree_sysfs example_hw (Set_manual 45 60) broken_world"
  obtain c w' where "?run = (Inl (Mutation_rolled_back c), w')"
    using broken_manual_rolls_back by (cases ?run) (auto split: sum.splits hardware_error.splits)
  with fan_error_confirmed [OF this] show ?thesis by simp
qed

end
