(* ===== verification/Fan_Liveness.thy ===== *)
theory Fan_Liveness
  imports Fan_Safety
begin

text \<open>
  The fan transaction on firmware files that obey the register contract \<open>attribute_store\<close> of
  \<open>Sysfs\<close> (a read returns the value last accepted, a write changes its own attribute only):
  the requests of \<open>src/hardware.rs\<close> succeed, and the files end in the requested state. The
  lemmas are proved in the contract and applied to a directory of files.
\<close>

section \<open>Percentages and PWM values\<close>

definition percent_exact :: "u8 \<Rightarrow> bool" where
  "percent_exact p \<longleftrightarrow> pwm_to_percent (percent_to_pwm p) = p \<and> uint (percent_to_pwm p) * 100 div 255 = uint p"

lemma percent_pwm_table: "list_all percent_exact (map word_of_int [0..100])"
  by code_simp

lemma percent_exact_le:
  assumes "p \<le> 100" shows "percent_exact p"
proof -
  have "uint p \<le> 100" using assms by (simp add: word_le_def)
  moreover have "\<forall>x \<in> {0..100}. percent_exact (word_of_int x)"
    using percent_pwm_table unfolding list_all_iff set_map set_upto by blast
  ultimately have "percent_exact (word_of_int (uint p))"
    by (metis atLeastAtMost_iff uint_ge_0)
  then show ?thesis by simp
qed

text \<open>Every percentage survives the conversion to the 0..=255 PWM scale of the kernel files and
  back, both with the program's rounding and with the truncating division of a driver that maps
  the scale back to percent.\<close>

theorem percent_pwm_round_trip:
  assumes "p \<le> 100"
  shows "pwm_to_percent (percent_to_pwm p) = p \<and> uint (percent_to_pwm p) * 100 div 255 = uint p"
  using percent_exact_le [OF assms] by (simp add: percent_exact_def)

theorem percent_pwm_round_trip_witness: "pwm_to_percent (percent_to_pwm 57) = 57"
  using percent_pwm_round_trip [of 57] by simp

section \<open>Deterministic runs on an attribute store\<close>

text \<open>\<open>runs val s m r s'\<close>: on any world whose attributes are \<open>s\<close>, \<open>m\<close> returns \<open>r\<close> and leaves the
  attributes \<open>s'\<close>.\<close>

type_synonym attrs = "path \<Rightarrow> string option"

definition runs :: "('e \<Rightarrow> attrs) \<Rightarrow> attrs \<Rightarrow> ('e world, 'x, 'a) io \<Rightarrow> 'x + 'a \<Rightarrow> attrs \<Rightarrow> bool" where
  "runs val s m r s' \<longleftrightarrow> (\<forall>w. val (wenv w) = s \<longrightarrow> (\<exists>w'. m w = (r, w') \<and> val (wenv w') = s'))"

named_theorems runs_rules \<open>runs of the combinators and of the file operations\<close>

lemma runsE:
  assumes "runs val s m r s'" and "val (wenv w) = s"
  obtains w' where "m w = (r, w')" and "val (wenv w') = s'"
  using assms unfolding runs_def by blast

lemma runs_ret [runs_rules]: "runs val s (io_ret a) (Inr a) s"
  by (simp add: runs_def io_ret_apply)

lemma runs_of [runs_rules]: "runs val s (io_of r) r s"
  by (simp add: runs_def io_of_apply)

lemma runs_try [runs_rules]:
  fixes m :: "('a world, 'x, 'b) io"
  assumes "runs val s m q s1" and "runs val s1 (f q) r s2"
  shows "runs val s (io_try m f) r s2"
  unfolding runs_def
proof (intro allI impI)
  fix w :: "'a world" assume "val (wenv w) = s"
  with assms(1) obtain w1 where "m w = (q, w1)" and v: "val (wenv w1) = s1" by (rule runsE)
  moreover from assms(2) v obtain w2 where "f q w1 = (r, w2)" "val (wenv w2) = s2" by (rule runsE)
  ultimately show "\<exists>w'. io_try m f w = (r, w') \<and> val (wenv w') = s2" by (simp add: io_try_apply)
qed

lemma runs_bind [runs_rules]:
  assumes "runs val s m (Inr a) s1" and "runs val s1 (f a) r s2"
  shows "runs val s (io_bind m f) r s2"
proof -
  have "io_bind m f = io_try m (case_sum io_err f)"
    by (auto simp: fun_eq_iff io_bind_apply io_try_apply io_err_apply split: sum.split prod.split)
  moreover have "runs val s (io_try m (case_sum io_err f)) r s2"
    by (rule runs_try [OF assms(1)]) (use assms(2) in simp)
  ultimately show ?thesis by simp
qed

lemma runs_then [runs_rules]:
  "runs val s m (Inr a) s1 \<Longrightarrow> runs val s1 n r s2 \<Longrightarrow> runs val s (io_then m n) r s2"
  unfolding io_then_def by (rule runs_bind)

lemma runs_ok [runs_rules]: "runs val s m r s1 \<Longrightarrow> runs val s (io_ok m) (Inr (res_ok r)) s1"
  unfolding io_ok_def by (rule runs_try) (auto intro: runs_ret)

context attribute_store
begin

lemma runs_read_trimmed:
  assumes "s p = Some v" and "utf8_valid v"
  shows "runs val s (read_trimmed fs p op) (Inr (str_trim v)) s"
  unfolding runs_def
proof (intro allI impI)
  fix w :: "'e world" assume "val (wenv w) = s"
  with assms obtain w' where "fs_read_to_string fs p w = (Inr v, w')" "wenv w' = wenv w"
    using fs_read_val by metis
  then show "\<exists>w'. read_trimmed fs p op w = (Inr (str_trim v), w') \<and> val (wenv w') = s"
    using \<open>val (wenv w) = s\<close> by (simp add: read_trimmed_def io_simps)
qed

lemma runs_write_existing:
  assumes "s p = Some v"
  shows "runs val s (write_existing fs p x op) (Inr ()) (s(p \<mapsto> x))"
  unfolding runs_def
proof (intro allI impI)
  fix w :: "'e world" assume "val (wenv w) = s"
  with assms obtain w' where "fs_write_existing fs p x w = (Inr (), w')"
    "val (wenv w') = (val (wenv w))(p \<mapsto> x)"
    using fs_write_val by metis
  then show "\<exists>w'. write_existing fs p x op w = (Inr (), w') \<and> val (wenv w') = s(p \<mapsto> x)"
    using \<open>val (wenv w) = s\<close> by (simp add: write_existing_def io_simps)
qed

text \<open>A read changes no attribute, whatever it returns.\<close>

definition same_attrs :: "'e world \<Rightarrow> 'e world \<Rightarrow> bool" where
  "same_attrs w w' \<longleftrightarrow> val (wenv w') = val (wenv w)"

lemma same_attrs_refl [simp]: "reflp same_attrs" and same_attrs_trans [simp]: "transp same_attrs"
  by (auto simp: same_attrs_def reflp_def transp_def)

lemma fs_read_same_attrs: "io_keeps same_attrs (fs_read fs p)"
proof -
  have "\<exists>r. k_read fs p e = (r, e)" for e
    using read_present [of e p] read_absent [of e p] by (cases "val e p") auto
  then have "snd (k_read fs p e) = e" for e by (metis snd_conv)
  then show ?thesis
    by (auto simp: io_keeps_def fs_read_def same_attrs_def split: prod.split) (metis snd_conv)+
qed

lemma fs_read_to_string_same_attrs [io_keeps_intros]: "io_keeps same_attrs (fs_read_to_string fs p)"
  unfolding fs_read_to_string_def by (intro io_keeps_intros fs_read_same_attrs) simp_all

lemma fan_preconditions_same_attrs: "io_keeps same_attrs (fan_preconditions fs hw s)"
proof -
  have r: "io_keeps same_attrs (read_trimmed fs p op)" for p op
    unfolding read_trimmed_def by (intro io_keeps_intros) simp_all
  have f: "io_keeps same_attrs (find_temperature_input fs base role is)" for base role "is"
    by (induction "is") (auto simp: Let_def intro!: io_keeps_intros split: sum.split)
  have a: "io_keeps same_attrs (acer_temperature_path fs base channel)" for base channel
    unfolding acer_temperature_path_def Let_def by (auto split: sum.split intro!: io_keeps_intros f)
  have "io_keeps same_attrs (manual_watchdog_available fs base)" for base
    unfolding manual_watchdog_available_def read_watchdog_temperature_def parse_value_def
    by (intro io_keeps_intros a r) simp_all
  then show ?thesis
    unfolding fan_preconditions_def by (auto split: option.split intro!: io_keeps_intros)
qed

text \<open>The steps of the transaction.\<close>

lemma runs_write_mode:
  "mode_path hw ch = Inr p \<Longrightarrow> s p = Some x \<Longrightarrow>
     runs val s (write_mode fs hw ch m) (Inr ()) (s(p \<mapsto> mode_as_sysfs m))"
  unfolding write_mode_def by (auto intro: runs_rules runs_write_existing simp: io_of_def io_bind_def)

lemma runs_verify_mode:
  assumes "mode_path hw ch = Inr p" and "s p = Some (mode_as_sysfs m)"
  shows "runs val s (verify_mode fs hw ch m) (Inr ()) s"
proof -
  have g: "list_all graphic (mode_as_sysfs m)" by (cases m) (simp_all add: graphic_def byte_def)
  have rd: "runs val s (read_trimmed fs p ''verify fan mode'') (Inr (mode_as_sysfs m)) s"
    using runs_read_trimmed [of s p "mode_as_sysfs m"] assms(2) graphic_text [OF g] by simp
  have ok: "ensure_readback ''pwm_enable'' (mode_as_sysfs m) (mode_as_sysfs m) = Inr ()"
    using graphic_text(2) [OF g] by (simp add: ensure_readback_def)
  show ?thesis
    unfolding verify_mode_def assms(1)
    by (rule runs_bind [OF runs_of], rule runs_bind [OF rd]) (simp add: ok runs_of)
qed

lemma runs_write_speed:
  "speed_target hw ch pc = Inr (p, v) \<Longrightarrow> s p = Some x \<Longrightarrow>
     runs val s (write_speed_percent fs hw ch pc) (Inr ()) (s(p \<mapsto> v))"
  unfolding write_speed_percent_def
  by (auto intro!: runs_bind [OF runs_of] runs_write_existing)

lemma runs_verify_pwm:
  assumes "speed_target hw ch pc = Inr (p, v)" and "s p = Some v" and "list_all graphic v"
    and "pwm_readback hw pc v = Inr ()"
  shows "runs val s (verify_pwm_percent fs hw ch pc) (Inr ()) s"
proof -
  have rd: "runs val s (read_trimmed fs p ''verify fan PWM'') (Inr v) s"
    using runs_read_trimmed [of s p v] assms(2) graphic_text [OF assms(3)] by simp
  show ?thesis
    unfolding verify_pwm_percent_def assms(1)
    by (rule runs_bind [OF runs_of], unfold prod.case, rule runs_bind [OF rd]) (simp add: assms(4) runs_of)
qed

text \<open>The two mutations on distinct mode and speed files.\<close>

lemma runs_set_both_modes:
  assumes "mode_path hw 1 = Inr p1" "mode_path hw 2 = Inr p2" "p1 \<noteq> p2"
    and "s p1 \<noteq> None" "s p2 \<noteq> None"
  shows "runs val s (set_both_modes fs hw m) (Inr ())
    (s(p1 \<mapsto> mode_as_sysfs m, p2 \<mapsto> mode_as_sysfs m))"
proof -
  obtain x1 x2 where "s p1 = Some x1" "s p2 = Some x2" using assms by auto
  then show ?thesis
    unfolding set_both_modes_def using assms(3)
    by (intro runs_then [OF runs_write_mode [OF assms(1)]] runs_then [OF runs_write_mode [OF assms(2)]]
        runs_then [OF runs_verify_mode [OF assms(1)]] runs_verify_mode [OF assms(2)]) auto
qed

lemma runs_set_manual:
  assumes "mode_path hw 1 = Inr p1" "mode_path hw 2 = Inr p2"
    and "speed_target hw 1 c = Inr (q1, v1)" "speed_target hw 2 g = Inr (q2, v2)"
    and dist: "distinct [p1, p2, q1, q2]" and def: "\<forall>p \<in> {p1, p2, q1, q2}. s p \<noteq> None"
    and gr: "list_all graphic v1" "list_all graphic v2"
    and rb: "pwm_readback hw c v1 = Inr ()" "pwm_readback hw g v2 = Inr ()"
    and range: "20 \<le> c" "c \<le> 100" "20 \<le> g" "g \<le> 100"
  shows "runs val s (set_manual fs hw c g) (Inr ())
    (s(p1 \<mapsto> ''1'', p2 \<mapsto> ''1'', q1 \<mapsto> v1, q2 \<mapsto> v2))"
proof -
  obtain x1 x2 y1 y2 where pre: "s p1 = Some x1" "s p2 = Some x2" "s q1 = Some y1" "s q2 = Some y2"
    using def by auto
  have pc: "validate_percent f c = Inr ()" "validate_percent f g = Inr ()" for f
    using range by (simp_all add: validate_percent_def)
  note steps = runs_then [OF runs_write_mode [OF assms(1)]] runs_then [OF runs_write_mode [OF assms(2)]]
    runs_then [OF runs_verify_mode [OF assms(1)]] runs_then [OF runs_verify_mode [OF assms(2)]]
    runs_then [OF runs_write_speed [OF assms(3)]] runs_then [OF runs_write_speed [OF assms(4)]]
    runs_then [OF runs_verify_pwm [OF assms(3) _ gr(1) rb(1)]]
    runs_then [OF runs_verify_pwm [OF assms(4) _ gr(2) rb(2)]]
  have d: "p1 \<noteq> p2" "p2 \<noteq> p1" "p1 \<noteq> q1" "q1 \<noteq> p1" "p1 \<noteq> q2" "q2 \<noteq> p1"
      "p2 \<noteq> q1" "q1 \<noteq> p2" "p2 \<noteq> q2" "q2 \<noteq> p2" "q1 \<noteq> q2" "q2 \<noteq> q1"
    using dist by auto
  let ?s = "s(p1 \<mapsto> mode_as_sysfs Mode_maximum, p2 \<mapsto> mode_as_sysfs Mode_maximum, q1 \<mapsto> v1, q2 \<mapsto> v2,
      p1 \<mapsto> mode_as_sysfs Mode_manual, p2 \<mapsto> mode_as_sysfs Mode_manual, q1 \<mapsto> v1, q2 \<mapsto> v2)"
  have "runs val s (set_manual fs hw c g) (Inr ()) ?s"
    unfolding set_manual_def pc
    by (rule runs_then [OF runs_of], rule runs_then [OF runs_of], (rule steps, use d pre in force)+)
      (rule runs_verify_mode [OF assms(2)], use d in simp)
  moreover have "?s = s(p1 \<mapsto> ''1'', p2 \<mapsto> ''1'', q1 \<mapsto> v1, q2 \<mapsto> v2)"
    using dist by (auto simp: fun_eq_iff)
  ultimately show ?thesis by simp
qed

text \<open>Reading the state back, for the kernel PWM files and for the Gaming-WMI files.\<close>

lemma runs_read_rpm: "\<exists>rpm. runs val s (io_ok (read_rpm fs hw ch)) (Inr rpm) s"
proof (cases "hw_hwmon hw")
  case None
  then have "io_ok (read_rpm fs hw ch) = io_ret None"
    by (simp add: read_rpm_def io_ok_def io_try_def io_err_def io_ret_def)
  then show ?thesis by (metis runs_ret)
next
  case (Some base)
  let ?p = "path_join base (''fan'' @ show_word ch @ ''_input'')"
  obtain t where t: "\<forall>w. val (wenv w) = s \<longrightarrow>
      (\<exists>w' e. val (wenv w') = s \<and> (case t of Some x \<Rightarrow> fs_read_to_string fs ?p w = (Inr x, w')
         | None \<Rightarrow> fs_read_to_string fs ?p w = (Inl e, w')))"
  proof (cases "\<exists>x. s ?p = Some x \<and> utf8_valid x")
    case True
    then obtain x where "s ?p = Some x" "utf8_valid x" by blast
    then show thesis using fs_read_val by (intro that [of "Some x"]) (simp, metis)
  next
    case False
    have "\<exists>w' e. val (wenv w') = s \<and> fs_read_to_string fs ?p w = (Inl e, w')" if "val (wenv w) = s" for w :: "'e world"
      using read_present [of "wenv w" ?p] read_absent [of "wenv w" ?p] False that
      by (cases "s ?p") (auto simp: fs_read_to_string_def fs_read_def io_simps)
    then show thesis by (intro that [of None]) simp
  qed
  define rpm where "rpm = (case t of None \<Rightarrow> None | Some x \<Rightarrow> parse_u32 (str_trim x))"
  have "runs val s (io_ok (read_rpm fs hw ch)) (Inr rpm) s"
    unfolding runs_def
  proof (intro allI impI)
    fix w :: "'e world" assume "val (wenv w) = s"
    with t obtain w' e where "val (wenv w') = s" and "case t of Some x \<Rightarrow> fs_read_to_string fs ?p w = (Inr x, w')
         | None \<Rightarrow> fs_read_to_string fs ?p w = (Inl e, w')" by blast
    then show "\<exists>w'. io_ok (read_rpm fs hw ch) w = (Inr rpm, w') \<and> val (wenv w') = s"
      unfolding rpm_def
      by (cases t; cases "parse_u32 (str_trim (the t))")
        (auto simp: read_rpm_def Some io_ok_def parse_value_def read_trimmed_def io_simps)
  qed
  then show ?thesis by blast
qed

lemma runs_read_kernel_channel:
  assumes "hw_fan hw = Some (I_kernel_pwm base man)"
    and "s (path_join base (''pwm'' @ show_word ch @ ''_enable'')) = Some (mode_as_sysfs m)"
    and "s (path_join base (''pwm'' @ show_word ch)) = Some (show_word (v :: u8))"
  obtains rpm where "runs val s (read_fan_channel fs hw ch)
    (Inr \<lparr>ch_mode = Some m, ch_pwm_raw = Some v, ch_rpm = rpm\<rparr>) s"
proof -
  have g: "list_all graphic (mode_as_sysfs m)" by (cases m) (simp_all add: graphic_def byte_def)
  have gv: "list_all graphic (show_word v)"
    using token_show_word [of v] by (auto simp: token_def list_all_iff)
  obtain rpm where rpm: "runs val s (io_ok (read_rpm fs hw ch)) (Inr rpm :: hardware_error + _) s"
    using runs_read_rpm by blast
  have rd: "runs val s (read_trimmed fs (path_join base (''pwm'' @ show_word ch @ ''_enable'')) op) (Inr (mode_as_sysfs m)) s" for op
    using runs_read_trimmed [of s _ "mode_as_sysfs m"] assms(2) graphic_text [OF g] by simp
  have mode: "runs val s (read_optional_fan_mode fs (path_join base (''pwm'' @ show_word ch @ ''_enable''))) (Inr (Some m)) s"
    unfolding read_optional_fan_mode_def
    by (rule runs_try [OF rd])
      (use mode_from_sysfs_as [OF graphic_text(2) [OF g]] in \<open>simp add: optional_fan_mode_def runs_of\<close>)
  have rv: "runs val s (read_trimmed fs (path_join base (''pwm'' @ show_word ch)) op) (Inr (show_word v)) s" for op
    using runs_read_trimmed [of s _ "show_word v"] assms(3) graphic_text [OF gv] by simp
  have "runs val s (parse_value fs parse_u8 (path_join base (''pwm'' @ show_word ch)) ''PWM'') (Inr v) s"
    unfolding parse_value_def by (rule runs_bind [OF rv]) (simp add: runs_of)
  then have pwm: "runs val s (read_optional_pwm fs (path_join base (''pwm'' @ show_word ch))) (Inr (Some v)) s"
    unfolding read_optional_pwm_def by (rule runs_try) (simp add: runs_ret)
  have "runs val s (read_fan_channel fs hw ch) (Inr \<lparr>ch_mode = Some m, ch_pwm_raw = Some v, ch_rpm = rpm\<rparr>) s"
    unfolding read_fan_channel_def
    by (rule runs_bind [OF rpm], simp only: assms(1) option.case fan_interface.case, rule runs_bind [OF mode], rule runs_bind [OF runs_ok [OF pwm]])
      (simp add: runs_ret)
  then show thesis by (rule that)
qed

lemma runs_read_gaming_channel:
  assumes fan: "hw_fan hw = Some (I_acer_gaming_wmi base True)" and role: "fan_role ch = Inr role"
    and "s (path_join base (role @ ''_mode'')) = Some (mode_as_sysfs m)"
    and "s (path_join base (role @ ''_speed'')) = Some (show_word (pc :: u8))" and le: "pc \<le> 100"
  obtains rpm where "runs val s (read_fan_channel fs hw ch)
    (Inr \<lparr>ch_mode = Some m, ch_pwm_raw = Some (percent_to_pwm pc), ch_rpm = rpm\<rparr>) s"
proof -
  have g: "list_all graphic (mode_as_sysfs m)" by (cases m) (simp_all add: graphic_def byte_def)
  have gv: "list_all graphic (show_word pc)"
    using token_show_word [of pc] by (auto simp: token_def list_all_iff)
  obtain rpm where rpm: "runs val s (io_ok (read_rpm fs hw ch)) (Inr rpm :: hardware_error + _) s"
    using runs_read_rpm by blast
  have mode: "runs val s (read_trimmed fs (path_join base (role @ ''_mode'')) op) (Inr (mode_as_sysfs m)) s" for op
    using runs_read_trimmed [of s _ "mode_as_sysfs m"] assms(3) graphic_text [OF g] by simp
  have rv: "runs val s (read_trimmed fs (path_join base (role @ ''_speed'')) op) (Inr (show_word pc)) s" for op
    using runs_read_trimmed [of s _ "show_word pc"] assms(4) graphic_text [OF gv] by simp
  have speed: "runs val s (parse_value fs parse_u8 (path_join base (role @ ''_speed'')) op) (Inr pc) s" for op
    unfolding parse_value_def by (rule runs_bind [OF rv]) (simp add: runs_of)
  have parsed: "mode_from_sysfs (mode_as_sysfs m) = Inr m"
    using mode_from_sysfs_as [OF graphic_text(2) [OF g]] .
  have in_range: "\<not> pc > 100" using le by simp
  have "runs val s (read_fan_channel fs hw ch) (Inr \<lparr>ch_mode = Some m, ch_pwm_raw = Some (percent_to_pwm pc), ch_rpm = rpm\<rparr>) s"
    unfolding read_fan_channel_def
    by (rule runs_bind [OF rpm], simp only: fan option.case fan_interface.case role if_True,
        rule runs_bind [OF runs_of], rule runs_bind [OF mode], simp only: parsed,
        rule runs_bind [OF runs_of], rule runs_bind [OF runs_bind [OF speed]], simp only: in_range if_False,
        rule runs_ret, rule runs_ret)
  then show thesis by (rule that)
qed

text \<open>What a Manual request reads back of one fan, with the mode and the speed files of its backend.\<close>

lemma runs_read_manual_channel:
  assumes fan: "hw_fan hw = Some i" "fan_manual_flag i"
    and "mode_path hw ch = Inr p" "speed_target hw ch pc = Inr (q, v)" and "pc \<le> 100"
    and "s p = Some (mode_as_sysfs m)" "s q = Some v"
  obtains rpm where "runs val s (read_fan_channel fs hw ch)
    (Inr \<lparr>ch_mode = Some m, ch_pwm_raw = Some (percent_to_pwm pc), ch_rpm = rpm\<rparr>) s"
proof (cases i)
  case (I_kernel_pwm base man)
  with fan(1) have k: "hw_fan hw = Some (I_kernel_pwm base man)" by simp
  with assms(3,4) have "p = path_join base (''pwm'' @ show_word ch @ ''_enable'')" "q = path_join base (''pwm'' @ show_word ch)"
      "v = show_word (percent_to_pwm pc)"
    by (simp_all add: mode_path_def speed_target_def)
  with assms(6,7) obtain rpm where "runs val s (read_fan_channel fs hw ch)
      (Inr \<lparr>ch_mode = Some m, ch_pwm_raw = Some (percent_to_pwm pc), ch_rpm = rpm\<rparr>) s"
    using runs_read_kernel_channel [OF k, of s ch m "percent_to_pwm pc"] by blast
  then show thesis by (rule that)
next
  case (I_acer_gaming_wmi base man)
  with fan have k: "hw_fan hw = Some (I_acer_gaming_wmi base True)" by (simp add: fan_manual_flag_def)
  with assms(3) obtain role where role: "fan_role ch = Inr role" by (cases "fan_role ch") (simp_all add: mode_path_def)
  with k assms(3,4) have "p = path_join base (role @ ''_mode'')" "q = path_join base (role @ ''_speed'')" "v = show_word pc"
    by (simp_all add: mode_path_def speed_target_def)
  with assms(6,7) obtain rpm where "runs val s (read_fan_channel fs hw ch)
      (Inr \<lparr>ch_mode = Some m, ch_pwm_raw = Some (percent_to_pwm pc), ch_rpm = rpm\<rparr>) s"
    using runs_read_gaming_channel [OF k role _ _ assms(5), of s m] by blast
  then show thesis by (rule that)
qed

end

text \<open>The files of a Manual request and what it leaves in them: the kernel's PWM files hold the speed
  on the 0..=255 scale, the files of the Gaming-WMI driver hold the percentage itself.\<close>

fun manual_writes :: "fan_interface \<Rightarrow> u8 \<Rightarrow> u8 \<Rightarrow> (path \<times> string) list" where
  "manual_writes (I_kernel_pwm base _) c g =
     [(path_join base ''pwm1_enable'', ''1''), (path_join base ''pwm2_enable'', ''1''),
      (path_join base ''pwm1'', show_word (percent_to_pwm c)), (path_join base ''pwm2'', show_word (percent_to_pwm g))]"
| "manual_writes (I_acer_gaming_wmi base _) c g =
     [(path_join base ''cpu_mode'', ''1''), (path_join base ''gpu_mode'', ''1''),
      (path_join base ''cpu_speed'', show_word c), (path_join base ''gpu_speed'', show_word g)]"

lemma pwm_readback_speed:
  assumes "hw_fan hw = Some i" "speed_target hw ch pc = Inr (q, v)" "pc \<le> 100"
  shows "pwm_readback hw pc v = Inr ()" and "list_all graphic v"
proof -
  have "list_all graphic (show_word (x :: u8))" for x
    using token_show_word [of x] by (auto simp: token_def list_all_iff)
  with assms percent_exact_le [OF assms(3)] show "pwm_readback hw pc v = Inr ()" "list_all graphic v"
    by (cases i; cases "fan_role ch"; auto simp: speed_target_def pwm_readback_def percent_exact_def split: bool.splits)+
qed

lemma manual_files:
  assumes "hw_fan hw = Some i" "fan_manual_flag i"
  obtains p1 p2 q1 q2 v1 v2 where "manual_writes i c g = [(p1, ''1''), (p2, ''1''), (q1, v1), (q2, v2)]"
    and "distinct [p1, p2, q1, q2]" and "mode_path hw 1 = Inr p1" "mode_path hw 2 = Inr p2"
    and "speed_target hw 1 c = Inr (q1, v1)" "speed_target hw 2 g = Inr (q2, v2)"
proof (cases i)
  case (I_kernel_pwm base man)
  with assms(1) show ?thesis
    by (intro that) (simp_all add: mode_path_def speed_target_def show_word_channels path_join_def)
next
  case (I_acer_gaming_wmi base man)
  with assms show ?thesis
    by (intro that) (simp_all add: mode_path_def speed_target_def fan_role_def fan_manual_flag_def path_join_def)
qed

context attribute_store
begin

text \<open>A whole transaction: it succeeds, reports the requested state and leaves the two mode files and
  the two speed files as requested, every other attribute untouched.\<close>

lemma apply_manual_delivers:
  assumes fan: "hw_fan hw = Some i"
    and pre: "fan_preconditions fs hw (Set_manual c g) w = (Inr (), w1)"
    and range: "20 \<le> c" "c \<le> 100" "20 \<le> g" "g \<le> 100"
    and files: "\<forall>(p, _) \<in> set (manual_writes i c g). val (wenv w) p \<noteq> None"
  obtains st w' where "apply_fan_setting fs hw (Set_manual c g) w = (Inr st, w')"
    and "ch_mode (fan_cpu st) = Some Mode_manual" "ch_pwm_raw (fan_cpu st) = Some (percent_to_pwm c)"
    and "ch_mode (fan_gpu st) = Some Mode_manual" "ch_pwm_raw (fan_gpu st) = Some (percent_to_pwm g)"
    and "val (wenv w') = val (wenv w) ++ map_of (manual_writes i c g)"
proof -
  have man: "fan_manual_flag i"
    using pre fan by (auto simp: fan_preconditions_def io_simps is_manual_def split: if_splits sum.splits)
  obtain p1 p2 q1 q2 v1 v2 where mw: "manual_writes i c g = [(p1, ''1''), (p2, ''1''), (q1, v1), (q2, v2)]"
    and dist: "distinct [p1, p2, q1, q2]" and mp: "mode_path hw 1 = Inr p1" "mode_path hw 2 = Inr p2"
    and sp: "speed_target hw 1 c = Inr (q1, v1)" "speed_target hw 2 g = Inr (q2, v2)"
    by (rule manual_files [OF fan man])
  define s where "s = val (wenv w)"
  define s' where "s' = s(p1 \<mapsto> ''1'', p2 \<mapsto> ''1'', q1 \<mapsto> v1, q2 \<mapsto> v2)"
  have s': "s ++ map_of (manual_writes i c g) = s'" using dist by (auto simp: mw s'_def fun_eq_iff map_add_def)
  have at: "s' p1 = Some (mode_as_sysfs Mode_manual)" "s' p2 = Some (mode_as_sysfs Mode_manual)" "s' q1 = Some v1" "s' q2 = Some v2"
    using dist by (auto simp: s'_def)
  have w1: "val (wenv w1) = s"
    using io_keepsD [OF fan_preconditions_same_attrs pre] by (simp add: same_attrs_def s_def)
  note rb = pwm_readback_speed [OF fan sp(1) range(2)] pwm_readback_speed [OF fan sp(2) range(4)]
  have def: "\<forall>p \<in> {p1, p2, q1, q2}. s p \<noteq> None" using files by (auto simp: mw s_def)
  have set: "runs val s (fan_mutation fs hw (Set_manual c g)) (Inr ()) s'"
    unfolding fan_mutation_def fan_setting.case s'_def
    by (rule runs_set_manual [OF mp sp dist def rb(2,4,1,3) range])
  obtain rpm1 where one: "runs val s' (read_fan_channel fs hw 1)
      (Inr \<lparr>ch_mode = Some Mode_manual, ch_pwm_raw = Some (percent_to_pwm c), ch_rpm = rpm1\<rparr>) s'"
    by (rule runs_read_manual_channel [OF fan man mp(1) sp(1) range(2) at(1,3)])
  obtain rpm2 where two: "runs val s' (read_fan_channel fs hw 2)
      (Inr \<lparr>ch_mode = Some Mode_manual, ch_pwm_raw = Some (percent_to_pwm g), ch_rpm = rpm2\<rparr>) s'"
    by (rule runs_read_manual_channel [OF fan man mp(2) sp(2) range(4) at(2,4)])
  let ?st = "\<lparr>fan_cpu = \<lparr>ch_mode = Some Mode_manual, ch_pwm_raw = Some (percent_to_pwm c), ch_rpm = rpm1\<rparr>,
    fan_gpu = \<lparr>ch_mode = Some Mode_manual, ch_pwm_raw = Some (percent_to_pwm g), ch_rpm = rpm2\<rparr>\<rparr>"
  have rd: "runs val s' (read_fan_state fs hw) (Inr ?st) s'"
    unfolding read_fan_state_def by (rule runs_bind [OF one], rule runs_bind [OF two], rule runs_ret)
  have same: "ensure_readback ''fan mode'' (mode_as_sysfs Mode_manual) (mode_text (Some Mode_manual)) = Inr ()"
    by (simp add: ensure_readback_def mode_text_def graphic_text graphic_def byte_def)
  have ver: "runs val s' (read_verified_fan_state fs hw (expected_mode (Set_manual c g))) (Inr ?st) s'"
    unfolding expected_mode_def fan_setting.case read_verified_fan_state_def
    by (rule runs_bind [OF rd], simp only: fan_state.simps fan_channel_state.simps same)
      (intro runs_then [OF runs_of] runs_ret)
  have "runs val s (fan_transaction fs hw (Set_manual c g)) (Inr ?st) s'"
    unfolding fan_transaction_def
    by (rule runs_try [OF runs_then [OF set ver]], simp only: sum.case, rule runs_ret)
  with w1 obtain w' where "fan_transaction fs hw (Set_manual c g) w1 = (Inr ?st, w')" "val (wenv w') = s'"
    by (auto elim: runsE)
  then show thesis
    using pre s' by (intro that [of ?st w']) (simp_all add: apply_fan_setting_def io_then_apply s_def)
qed

end

text \<open>C4: on files that keep what is written to them, a Manual request of 20..=100 percent for both fans
  succeeds under either fan backend, the kernel's PWM files or the files of the Acer Gaming-WMI driver,
  whenever its preconditions hold (an Acer machine, a backend that offers Manual, both watchdog temperatures
  readable) and the four files of the backend exist: both fans are reported in Manual with the requested
  speeds, the files hold exactly these values, and no other file changed.\<close>

theorem fan_manual_delivers:
  assumes "hw_fan hw = Some i"
    and "fst (fan_preconditions tree_sysfs hw (Set_manual c g) w) = Inr ()"
    and "20 \<le> c" "c \<le> 100" "20 \<le> g" "g \<le> 100"
    and "\<forall>(p, _) \<in> set (manual_writes i c g). map_of (wenv w) p \<noteq> None"
  shows "\<exists>st w'. apply_fan_setting tree_sysfs hw (Set_manual c g) w = (Inr st, w')
    \<and> ch_mode (fan_cpu st) = Some Mode_manual \<and> ch_pwm_raw (fan_cpu st) = Some (percent_to_pwm c)
    \<and> ch_mode (fan_gpu st) = Some Mode_manual \<and> ch_pwm_raw (fan_gpu st) = Some (percent_to_pwm g)
    \<and> map_of (wenv w') = map_of (wenv w) ++ map_of (manual_writes i c g)"
proof -
  from assms(2) obtain w1 where "fan_preconditions tree_sysfs hw (Set_manual c g) w = (Inr (), w1)"
    by (metis prod.collapse)
  from tree.apply_manual_delivers [OF assms(1) this assms(3-7)] show ?thesis by metis
qed

text \<open>The same machine under Gaming-WMI control: the temperatures stay in the hwmon directory.\<close>

definition gaming_hw :: acer_hardware where
  "gaming_hw = example_hw \<lparr>hw_fan := Some (I_acer_gaming_wmi [''wmi'', ''gaming_fan''] True)\<rparr>"

definition gaming_world :: "file_tree world" where
  "gaming_world = \<lparr>wenv = [([''wmi'', ''gaming_fan'', ''cpu_mode''], ''2''), ([''wmi'', ''gaming_fan'', ''gpu_mode''], ''2''),
     ([''wmi'', ''gaming_fan'', ''cpu_speed''], ''30''), ([''wmi'', ''gaming_fan'', ''gpu_speed''], ''35''),
     ([''hwmon'', ''temp1_input''], ''51000''), ([''hwmon'', ''temp2_input''], ''47000'')], wlog = []\<rparr>"

theorem fan_manual_delivers_witness:
  "(\<exists>st w'. apply_fan_setting tree_sysfs example_hw (Set_manual 45 60) example_world = (Inr st, w')
     \<and> ch_pwm_raw (fan_gpu st) = Some 153 \<and> map_of (wenv w') [''hwmon'', ''pwm2''] = Some ''153'')
   \<and> (\<exists>st w'. apply_fan_setting tree_sysfs gaming_hw (Set_manual 45 60) gaming_world = (Inr st, w')
     \<and> ch_pwm_raw (fan_gpu st) = Some 153 \<and> map_of (wenv w') [''wmi'', ''gaming_fan'', ''gpu_speed''] = Some ''60'')"
proof
  have "fst (fan_preconditions tree_sysfs example_hw (Set_manual 45 60) example_world) = Inr ()"
    by (simp add: hw_run hw_eval example_eval)
  from fan_manual_delivers [of example_hw "I_kernel_pwm [''hwmon''] True" 45 60 example_world, OF _ this]
  show "\<exists>st w'. apply_fan_setting tree_sysfs example_hw (Set_manual 45 60) example_world = (Inr st, w')
     \<and> ch_pwm_raw (fan_gpu st) = Some 153 \<and> map_of (wenv w') [''hwmon'', ''pwm2''] = Some ''153''"
    by (fastforce simp: example_eval path_join_def)
next
  have sixty: "show_word (60 :: u8) = ''60''" by code_simp
  have "fst (fan_preconditions tree_sysfs gaming_hw (Set_manual 45 60) gaming_world) = Inr ()"
    by (simp add: gaming_hw_def gaming_world_def hw_run hw_eval example_eval)
  from fan_manual_delivers [of gaming_hw "I_acer_gaming_wmi [''wmi'', ''gaming_fan''] True" 45 60 gaming_world, OF _ this]
  show "\<exists>st w'. apply_fan_setting tree_sysfs gaming_hw (Set_manual 45 60) gaming_world = (Inr st, w')
     \<and> ch_pwm_raw (fan_gpu st) = Some 153 \<and> map_of (wenv w') [''wmi'', ''gaming_fan'', ''gpu_speed''] = Some ''60''"
    by (fastforce simp: gaming_hw_def gaming_world_def example_eval sixty path_join_def)
qed

end
