(* ===== verification/Tuning_Safety.thy ===== *)
theory Tuning_Safety
  imports Tuning Fan_Liveness
begin

text \<open>
  The profile transaction of \<open>src/tuning.rs\<close>. \<open>observed_planes\<close> is the contract of its two
  control planes: what they report can be observed without changing what either reports. The
  setters are unconstrained: they may fail, succeed without effect, or set something else.
\<close>

definition prof_obs :: "'w firmware_control \<Rightarrow> 'w \<Rightarrow> hardware_error + platform_profile" where
  "prof_obs fw w = fst (fw_current fw w)"

definition offs_obs :: "'w nvidia_control \<Rightarrow> 'w \<Rightarrow> nvidia_error + offset_snapshot" where
  "offs_obs ng w = fst (ng_snapshot ng w)"

locale observed_firmware =
  fixes fw :: "'w firmware_control"
  assumes current_observes: "prof_obs fw (snd (fw_current fw w)) = prof_obs fw w"
begin

lemma verify_profile_run:
  assumes "verify_profile fw p w = (r, w')"
  shows "\<exists>fs. r = Inr fs \<and> (fs = [] \<longrightarrow> prof_obs fw w' = Inr p)"
proof -
  obtain rp w1 where cur: "fw_current fw w = (rp, w1)" by fastforce
  then have "prof_obs fw w1 = rp" using current_observes [of w] by (simp add: prof_obs_def)
  with assms cur show ?thesis
    by (cases rp) (auto simp: verify_profile_def io_simps split: if_splits)
qed

lemma rollback_firmware_outcome:
  assumes "rollback_firmware fw p cause w = (r, w')"
  shows "(r = Inl (Tn_rolled_back cause) \<and> prof_obs fw w' = Inr p)
    \<or> (\<exists>fs. r = Inl (Tn_rollback_failed cause fs) \<and> fs \<noteq> [])"
proof -
  obtain rs w1 where st: "fw_set fw p w = (rs, w1)" by fastforce
  obtain q :: "tuning_error + _" and w2 where ver: "verify_profile fw p w1 = (q, w2)" by fastforce
  from verify_profile_run [OF ver] obtain fs where fs: "q = Inr fs" "fs = [] \<longrightarrow> prof_obs fw w2 = Inr p" by blast
  show ?thesis
    using assms st ver fs by (cases rs; cases "fs = []") (auto simp: rollback_firmware_def io_simps)
qed

lemma firmware_outcome:
  assumes "set_firmware_profile fw target ce w = (r, w')"
  shows "case r of
      Inr st \<Rightarrow> ts_profile st = target \<and> prof_obs fw w' = Inr target
    | Inl (Tn_rollback_failed cause fs) \<Rightarrow> fs \<noteq> []
    | Inl e \<Rightarrow> prof_obs fw w' = prof_obs fw w"
proof -
  obtain rp w1 where cur: "fw_current fw w = (rp, w1)" by fastforce
  then have o1: "prof_obs fw w = rp" "prof_obs fw w1 = rp"
    using current_observes [of w] by (simp_all add: prof_obs_def)
  show ?thesis
  proof (cases rp)
    case (Inl e)
    with assms cur o1 show ?thesis by (auto simp: set_firmware_profile_def io_simps)
  next
    case (Inr p)
    have failed: ?thesis if "rollback_firmware fw p cause v = (r, w')" for cause v
      using rollback_firmware_outcome [OF that] o1 Inr by auto
    obtain rs w2 where st: "fw_set fw target w1 = (rs, w2)" by fastforce
    obtain rq w3 where rd: "fw_current fw w2 = (rq, w3)" by fastforce
    then have "prof_obs fw w3 = rq" using current_observes [of w2] by (simp add: prof_obs_def)
    then show ?thesis
      using assms cur st rd Inr failed
      by (cases rs; cases rq) (auto simp: set_firmware_profile_def io_simps split: if_splits)
  qed
qed

end

locale observed_planes = observed_firmware fw for fw :: "'w firmware_control" +
  fixes ng :: "'w nvidia_control"
  assumes current_keeps_offsets: "offs_obs ng (snd (fw_current fw w)) = offs_obs ng w"
    and snapshot_keeps_profile: "prof_obs fw (snd (ng_snapshot ng w)) = prof_obs fw w"
    and snapshot_observes: "offs_obs ng (snd (ng_snapshot ng w)) = offs_obs ng w"
    and power_keeps_profile: "prof_obs fw (snd (ng_power ng w)) = prof_obs fw w"
    and power_keeps_offsets: "offs_obs ng (snd (ng_power ng w)) = offs_obs ng w"
begin

definition observed :: "'w \<Rightarrow> (hardware_error + platform_profile) \<times> (nvidia_error + offset_snapshot)" where
  "observed w = (prof_obs fw w, offs_obs ng w)"

definition same_obs :: "'w \<Rightarrow> 'w \<Rightarrow> bool" where "same_obs w w' \<longleftrightarrow> observed w' = observed w"

lemma same_obs_order [simp]: "reflp same_obs" "transp same_obs"
  by (auto simp: same_obs_def reflp_def transp_def)

lemma current_same [io_keeps_intros]: "io_keeps same_obs (fw_current fw)"
  by (simp add: io_keeps_def same_obs_def observed_def current_observes current_keeps_offsets)

lemma snapshot_same [io_keeps_intros]: "io_keeps same_obs (ng_snapshot ng)"
  by (simp add: io_keeps_def same_obs_def observed_def snapshot_observes snapshot_keeps_profile)

lemma power_same: "io_keeps same_obs (optional_power ng)"
proof -
  have "io_keeps same_obs (ng_power ng)"
    by (simp add: io_keeps_def same_obs_def observed_def power_keeps_profile power_keeps_offsets)
  then show ?thesis unfolding optional_power_def by (intro io_keeps_intros) simp_all
qed

lemma current_run: "fw_current fw w = (r, w') \<Longrightarrow> prof_obs fw w = r \<and> observed w' = observed w"
  using io_keepsD [OF current_same] by (simp add: prof_obs_def same_obs_def)

lemma snapshot_run: "ng_snapshot ng w = (r, w') \<Longrightarrow> offs_obs ng w = r \<and> observed w' = observed w"
  using io_keepsD [OF snapshot_same] by (simp add: offs_obs_def same_obs_def)

text \<open>The verification of a rollback: no failure means both planes report the previous state.\<close>

lemma verify_run:
  assumes "io_bind (verify_profile fw p) (\<lambda>a. io_bind (verify_offsets ng s) (\<lambda>b. io_ret (a @ b))) w = (r, w')"
  shows "\<exists>fs. r = Inr fs \<and> (fs = [] \<longrightarrow> observed w' = (Inr p, Inr s))"
proof -
  obtain rp w1 where cur: "fw_current fw w = (rp, w1)" by fastforce
  obtain rs w2 where snap: "ng_snapshot ng w1 = (rs, w2)" by fastforce
  from current_run [OF cur] snapshot_run [OF snap]
  have obs: "prof_obs fw w = rp" "observed w1 = observed w" "offs_obs ng w1 = rs" "observed w2 = observed w1"
    by auto
  then have "observed w2 = (rp, rs)" by (simp add: observed_def)
  with assms cur snap show ?thesis
    by (cases rp; cases rs) (auto simp: verify_profile_def verify_offsets_def io_simps split: if_splits)
qed

lemma note_failure_total: "\<exists>fs w'. note_failure f m w = (Inr fs, w')"
  by (cases "m w") (auto simp: note_failure_def io_simps)

lemma rollback_outcome:
  assumes "rollback ng fw target p s cause w = (r, w')"
  shows "(r = Inl (Tn_rolled_back cause) \<and> observed w' = (Inr p, Inr s))
    \<or> (\<exists>fs. r = Inl (Tn_rollback_failed cause fs) \<and> fs \<noteq> [])"
proof -
  let ?commands = "(if target = Turbo then
         io_bind (note_failure Fail_restore_gpu (ng_restore ng s)) (\<lambda>a.
         io_bind (note_failure Fail_restore_profile (fw_set fw p)) (\<lambda>b. io_ret (a @ b)))
       else
         io_bind (note_failure Fail_restore_profile (fw_set fw p)) (\<lambda>a.
         io_bind (note_failure Fail_restore_gpu (ng_restore ng s)) (\<lambda>b. io_ret (a @ b))))
       :: ('w, tuning_error, tuning_failure list) io"
  have "\<exists>cs w1. ?commands w = (Inr cs, w1)"
  proof -
    have two: "\<exists>cs w1. io_bind m (\<lambda>a. io_bind n (\<lambda>b. io_ret (a @ b))) w = (Inr cs, w1)"
      if m: "\<exists>a v. m w = (Inr a, v)" and n: "\<And>v. \<exists>b u. n v = (Inr b, u)" for m n :: "('w, tuning_error, tuning_failure list) io"
    proof -
      from m obtain a v where "m w = (Inr a, v)" by blast
      moreover obtain b u where "n v = (Inr b, u)" using n by blast
      ultimately show ?thesis by (simp add: io_bind_apply io_ret_apply)
    qed
    show ?thesis
    proof (cases "target = Turbo")
      case True
      show ?thesis unfolding if_P [OF True] by (rule two; rule note_failure_total)
    next
      case False
      show ?thesis unfolding if_not_P [OF False] by (rule two; rule note_failure_total)
    qed
  qed
  then obtain cs w1 where cs: "?commands w = (Inr cs, w1)" by blast
  obtain q :: "tuning_error + _" and w2 where ver: "io_bind (verify_profile fw p) (\<lambda>a. io_bind (verify_offsets ng s) (\<lambda>b. io_ret (a @ b))) w1 = (q, w2)"
    by fastforce
  from verify_run [OF ver] obtain fs where fs: "q = Inr fs" "fs = [] \<longrightarrow> observed w2 = (Inr p, Inr s)" by blast
  note run = assms [unfolded rollback_def, unfolded io_bind_apply [of ?commands] cs prod.case sum.case]
  show ?thesis
  proof (cases "cs = []")
    case True
    with run have "io_bind (io_bind (verify_profile fw p) (\<lambda>a. io_bind (verify_offsets ng s) (\<lambda>b. io_ret (a @ b))))
        (\<lambda>failures. if failures = [] then io_err (Tn_rolled_back cause) else io_err (Tn_rollback_failed cause failures)) w1 = (r, w')"
      by simp
    then show ?thesis unfolding io_bind_apply [of "io_bind (verify_profile fw p) _"]
      using ver fs by (cases "fs = []") (auto simp: io_err_apply)
  next
    case False
    with run show ?thesis by (auto simp: io_simps)
  qed
qed

lemma optional_power_run:
  assumes "optional_power ng w = (r, w')"
  shows "\<exists>p e. r = Inr (p, e)" and "observed w' = observed w"
proof -
  show "\<exists>p e. r = Inr (p, e)"
    using assms by (cases "ng_power ng w") (auto simp: optional_power_def io_simps split: sum.splits)
  show "observed w' = observed w"
    using io_keepsD [OF power_same assms] by (simp add: same_obs_def)
qed

lemma required_state_run:
  assumes "required_nvidia_state fw ng w = (r, w')"
  shows "observed w' = observed w" and "r = Inr (p, g) \<Longrightarrow> \<exists>s. observed w = (Inr p, Inr s) \<and> classify_offsets s = g"
proof -
  have "io_keeps same_obs (required_nvidia_state fw ng)"
    unfolding required_nvidia_state_def by (intro io_keeps_intros) simp_all
  from io_keepsD [OF this assms] show "observed w' = observed w" by (simp add: same_obs_def)
  show "\<exists>s. observed w = (Inr p, Inr s) \<and> classify_offsets s = g" if "r = Inr (p, g)"
  proof -
    from assms that obtain w1 s where "fw_current fw w = (Inr p, w1)" "ng_snapshot ng w1 = (Inr s, w')"
      "classify_offsets s = g"
      unfolding required_nvidia_state_def
      by (auto simp: io_simps split: prod.splits sum.splits)
    with current_run snapshot_run show ?thesis unfolding observed_def by (metis prod.inject)
  qed
qed

text \<open>The outcomes of a profile transaction over both planes.\<close>

lemma set_profile_outcome:
  assumes "set_profile_with_nvidia fw target ng w = (r, w')"
  shows "case r of
      Inr st \<Rightarrow> ts_profile st = target \<and> ts_gpu_offsets st = expected_gpu_state target
        \<and> (\<exists>s. observed w' = (Inr target, Inr s) \<and> classify_offsets s = expected_gpu_state target)
    | Inl (Tn_rollback_failed cause fs) \<Rightarrow> fs \<noteq> []
    | Inl e \<Rightarrow> observed w' = observed w"
proof -
  obtain rp w1 where cur: "fw_current fw w = (rp, w1)" by fastforce
  obtain rs w2 where snap: "ng_snapshot ng w1 = (rs, w2)" by fastforce
  from current_run [OF cur] snapshot_run [OF snap]
  have o1: "observed w1 = observed w" and o2: "observed w2 = observed w" and obs: "observed w = (rp, rs)"
    by (auto simp: observed_def)
  show ?thesis
  proof (cases "\<exists>p s. rp = Inr p \<and> rs = Inr s \<and> classify_offsets s \<noteq> Gpu_custom_or_partial")
    case False
    then show ?thesis
      using assms cur snap o1 o2
      by (cases rp; cases rs) (auto simp: set_profile_with_nvidia_def io_simps)
  next
    case True
    then obtain p s where ps: "rp = Inr p" "rs = Inr s" "classify_offsets s \<noteq> Gpu_custom_or_partial" by blast
    have failed: ?thesis if "rollback ng fw target p s cause v = (r, w')" for cause v
      using rollback_outcome [OF that] obs ps by auto
    obtain rm w3 where mut: "forward_mutation fw ng target w2 = (rm, w3)" by fastforce
    obtain rq w4 where req: "required_nvidia_state fw ng w3 = (rq, w4)" by fastforce
    obtain ro :: "tuning_error + _" and w5 where pow: "optional_power ng w4 = (ro, w5)" by fastforce
    note run = assms [unfolded set_profile_with_nvidia_def io_bind_apply io_map_err_apply cur snap ps
        prod.case sum.case res_map_err_simps if_not_P [OF ps(3)] io_try_apply mut]
    show ?thesis
    proof (cases rm)
      case (Inl cause)
      with run failed show ?thesis by simp
    next
      case (Inr u)
      note run' = run [unfolded Inr sum.case io_try_apply req prod.case]
      show ?thesis
      proof (cases "check_readback target rq")
        case (Inl cause)
        with run' failed show ?thesis by simp
      next
        case (Inr pg)
        then obtain prof gpu where pg: "pg = (prof, gpu)" "rq = Inr (prof, gpu)"
          "prof = target" "gpu = expected_gpu_state target"
          by (cases rq) (auto simp: check_readback_def split: if_splits)
        from required_state_run(2) [OF req, of target "expected_gpu_state target"] pg
        obtain s' where "observed w3 = (Inr target, Inr s')" "classify_offsets s' = expected_gpu_state target" by auto
        moreover have "observed w5 = observed w3"
          using required_state_run(1) [OF req] optional_power_run(2) [OF pow] by simp
        moreover obtain pw pe where "ro = Inr (pw, pe)" using optional_power_run(1) [OF pow] by blast
        with run' Inr pg pow have "w' = w5" "\<exists>st. r = Inr st \<and> ts_profile st = target \<and> ts_gpu_offsets st = expected_gpu_state target"
          by (auto simp: io_simps)
        ultimately show ?thesis by auto
      qed
    qed
  qed
qed

end

section \<open>A machine with files and an NVIDIA register table\<close>

type_synonym machine = "file_tree \<times> bank"

definition machine_sysfs :: "machine sysfs" where
  "machine_sysfs = \<lparr>
     k_read = (\<lambda>p (t, b). case k_read tree_sysfs p t of (r, t') \<Rightarrow> (r, (t', b))),
     k_write = (\<lambda>p v (t, b). case k_write tree_sysfs p v t of (r, t') \<Rightarrow> (r, (t', b))),
     k_create = (\<lambda>p v (t, b). case k_create tree_sysfs p v t of (r, t') \<Rightarrow> (r, (t', b))),
     k_is_file = (\<lambda>p (t, b). k_is_file tree_sysfs p t), k_is_dir = (\<lambda>p (t, b). k_is_dir tree_sysfs p t),
     k_read_dir = (\<lambda>p (t, b). k_read_dir tree_sysfs p t), k_read_link = (\<lambda>p (t, b). k_read_link tree_sysfs p t),
     u_upper = ascii_upper\<rparr>"

definition machine_nvml :: "(int \<times> int) list \<Rightarrow> machine nvml" where
  "machine_nvml refuse = bare_nvml\<lparr>
     nv_get_offsets := Some (\<lambda>dv t p (f, b).
       ((0, \<lparr>or_current = bank_value b dv t p, or_minimum = -1000, or_maximum = 1000\<rparr>), (f, b))),
     nv_set_offsets := Some (\<lambda>dv t p x (f, b). if (t, p) \<in> set refuse then (999, (f, b)) else (0, (f, ((dv, t, p), x) # b)))\<rparr>"

lemma machine_read [env_readers]: "env_reader (fs_read_to_string machine_sysfs p)"
proof -
  have "env_reader (fs_read machine_sysfs p)"
    by (rule env_readerI [where f = "\<lambda>e. case map_of (fst e) p of None \<Rightarrow> Inl (Os_error ENOENT) | Some s \<Rightarrow> Inr s"])
      (simp add: fs_read_def machine_sysfs_def tree_sysfs_def split: prod.split)
  then show ?thesis unfolding fs_read_to_string_def by (auto intro!: env_reader_bind env_readers)
qed

lemma machine_profile_reader: "env_reader (current_profile machine_sysfs hw)"
  unfolding current_profile_def current_profile_raw_def read_trimmed_def
  by (auto split: option.split intro!: env_readers)

lemma machine_snapshot_reader: "env_reader (snapshot_offsets (machine_nvml refuse) c)"
proof -
  have "env_reader (nv_call (\<lambda>(f, b). ((code, h b), (f, b))) :: (machine world, nvidia_error, _) io)" for code h
    by (rule env_readerI [where f = "\<lambda>e. Inr (code, h (snd e))"]) (simp add: nv_call_def split: prod.split)
  then have "env_reader (read_clock_optional (machine_nvml refuse) c p d)" for p d
    unfolding read_clock_optional_def machine_nvml_def by (auto intro!: env_readers)
  then have "env_reader (snapshot_one (controller_device (machine_nvml refuse) c) p)" for p
    unfolding snapshot_one_def controller_device_def controller_read_offset_def by (auto intro!: env_readers)
  then show ?thesis
    unfolding snapshot_offsets_def snapshot_device_def by (rule env_reader_map_list)
qed

lemma machine_power_reader: "env_reader (read_power_telemetry (machine_nvml refuse) c)"
  unfolding read_power_telemetry_def get_optional_u32_def optional_get_def get_required_u32_def
  by (auto simp: machine_nvml_def bare_nvml_def intro!: env_readers)

interpretation machine: observed_planes "acer_firmware machine_sysfs hw" "nvidia_plane (machine_nvml refuse) c"
proof unfold_locales
  fix w :: "machine world"
  let ?fw = "acer_firmware machine_sysfs hw" and ?ng = "nvidia_plane (machine_nvml refuse) c"
  have r: "env_reader (fw_current ?fw)" "env_reader (ng_snapshot ?ng)" "env_reader (ng_power ?ng)"
    by (simp_all add: acer_firmware_def nvidia_plane_def machine_profile_reader machine_snapshot_reader machine_power_reader)
  note same = env_readerD(2) [OF r(1)] env_readerD(2) [OF r(2)]
  show "prof_obs ?fw (snd (fw_current ?fw w)) = prof_obs ?fw w" "prof_obs ?fw (snd (ng_snapshot ?ng w)) = prof_obs ?fw w"
    "prof_obs ?fw (snd (ng_power ?ng w)) = prof_obs ?fw w"
    unfolding prof_obs_def by (rule same(1), rule env_readerD(1) [OF r(1)] env_readerD(1) [OF r(2)] env_readerD(1) [OF r(3)])+
  show "offs_obs ?ng (snd (fw_current ?fw w)) = offs_obs ?ng w" "offs_obs ?ng (snd (ng_snapshot ?ng w)) = offs_obs ?ng w"
    "offs_obs ?ng (snd (ng_power ?ng w)) = offs_obs ?ng w"
    unfolding offs_obs_def by (rule same(2), rule env_readerD(1) [OF r(1)] env_readerD(1) [OF r(2)] env_readerD(1) [OF r(3)])+
qed

section \<open>Properties\<close>

definition machine_hw :: acer_hardware where
  "machine_hw = \<lparr>hw_platform = \<lparr>vp_vendor = ''Acer'', vp_product = ''Predator PHN16-72'', vp_acer = True\<rparr>,
     hw_root = [], hw_hwmon = None, hw_profile = Some \<lparr>pi_backend = Profile_kernel, pi_profile = [''profile''],
       pi_choices = [''choices''], pi_performance_is_turbo = True\<rparr>, hw_fan = None\<rparr>"

definition machine_start :: "machine world" where
  "machine_start = \<lparr>wenv = ([([''profile''], ''balanced''),
     ([''choices''], ''low-power quiet balanced balanced-performance performance'')], []), wlog = []\<rparr>"

definition machine_set_turbo :: "(int \<times> int) list \<Rightarrow> (tuning_error + tuning_state) \<times> machine world" where
  "machine_set_turbo refuse = set_profile_with_nvidia (acer_firmware machine_sysfs machine_hw) Turbo
     (nvidia_plane (machine_nvml refuse) example_controller) machine_start"

lemma machine_turbo_rolls_back:
  "case fst (machine_set_turbo [(2, 8)]) of Inl (Tn_rolled_back c) \<Rightarrow> True | _ \<Rightarrow> False"
  by code_simp

text \<open>C7: the profile transaction over firmware and GPU never lies about its outcome, whatever the
  setters of the two planes do, as long as their readers only observe. Success means the
  firmware reports the target profile and the GPU reports the offsets of that profile on every
  P-state. ``Rolled back'', and every error before the first mutation, means both planes report
  exactly what they reported before; only an incomplete rollback, with its failures listed, may
  leave anything else.\<close>

theorem profile_transaction_outcome:
  assumes "observed_planes fw ng"
    and "set_profile_with_nvidia fw target ng w = (r, w')"
  shows "case r of
      Inr st \<Rightarrow> ts_profile st = target \<and> ts_gpu_offsets st = expected_gpu_state target
        \<and> prof_obs fw w' = Inr target
        \<and> (\<exists>s. offs_obs ng w' = Inr s \<and> classify_offsets s = expected_gpu_state target)
    | Inl (Tn_rollback_failed cause fs) \<Rightarrow> fs \<noteq> []
    | Inl e \<Rightarrow> prof_obs fw w' = prof_obs fw w \<and> offs_obs ng w' = offs_obs ng w"
  using observed_planes.set_profile_outcome [OF assms]
  by (auto simp: observed_planes.observed_def [OF assms(1)] split: sum.splits tuning_error.splits)

theorem profile_transaction_outcome_witness:
  "offs_obs (nvidia_plane (machine_nvml [(2, 8)]) example_controller) (snd (machine_set_turbo [(2, 8)]))
     = offs_obs (nvidia_plane (machine_nvml [(2, 8)]) example_controller) machine_start"
proof -
  obtain c w' where run: "machine_set_turbo [(2, 8)] = (Inl (Tn_rolled_back c), w')"
    using machine_turbo_rolls_back
    by (cases "machine_set_turbo [(2, 8)]") (auto split: sum.splits tuning_error.splits)
  from profile_transaction_outcome [OF machine.observed_planes_axioms run [unfolded machine_set_turbo_def]] run
  show ?thesis by simp
qed

text \<open>Custom or partial GPU offsets are never overwritten: when the snapshot is neither all reset
  nor all OEM Turbo, the request is refused after the two reads, and no setter of either plane has
  run.\<close>

theorem external_offsets_refused:
  assumes "fw_current fw w = (Inr p, w1)" and "ng_snapshot ng w1 = (Inr s, w2)"
    and "classify_offsets s = Gpu_custom_or_partial"
  shows "set_profile_with_nvidia fw target ng w = (Inl (Tn_external_offsets Gpu_custom_or_partial), w2)"
  using assms by (simp add: set_profile_with_nvidia_def io_simps)

definition machine_partial :: "machine world" where
  "machine_partial = machine_start\<lparr>wenv := (fst (wenv machine_start), [((1, 0, 0), 100)])\<rparr>"

theorem external_offsets_refused_witness:
  "\<exists>w'. set_profile_with_nvidia (acer_firmware machine_sysfs machine_hw) Quiet
     (nvidia_plane (machine_nvml []) example_controller) machine_partial
     = (Inl (Tn_external_offsets Gpu_custom_or_partial), w')"
proof -
  let ?fw = "acer_firmware machine_sysfs machine_hw" and ?ng = "nvidia_plane (machine_nvml []) example_controller"
  have "case fw_current ?fw machine_partial of (Inr p, w1) \<Rightarrow> (case ng_snapshot ?ng w1 of
      (Inr s, w2) \<Rightarrow> classify_offsets s = Gpu_custom_or_partial | _ \<Rightarrow> False) | _ \<Rightarrow> False"
    by code_simp
  then obtain p w1 s w2 where "fw_current ?fw machine_partial = (Inr p, w1)" "ng_snapshot ?ng w1 = (Inr s, w2)"
    "classify_offsets s = Gpu_custom_or_partial"
    by (auto split: prod.splits sum.splits)
  from external_offsets_refused [OF this] show ?thesis by blast
qed

text \<open>Without the NVIDIA capability the firmware profile alone is set with the same honesty:
  success means the firmware reports the target, ``rolled back'' and an early error mean it
  reports the previous profile again, and anything else is an incomplete rollback with its
  failures.\<close>

theorem firmware_profile_outcome:
  assumes "\<And>v. prof_obs fw (snd (fw_current fw v)) = prof_obs fw v"
    and "set_firmware_profile fw target ce w = (r, w')"
  shows "case r of
      Inr st \<Rightarrow> ts_profile st = target \<and> prof_obs fw w' = Inr target
    | Inl (Tn_rollback_failed cause fs) \<Rightarrow> fs \<noteq> []
    | Inl e \<Rightarrow> prof_obs fw w' = prof_obs fw w"
  using observed_firmware.firmware_outcome [OF observed_firmware.intro, OF assms] .

theorem firmware_profile_outcome_witness:
  "prof_obs (acer_firmware machine_sysfs machine_hw) (snd (set_firmware_profile
     (acer_firmware machine_sysfs machine_hw) Quiet Library_load machine_start)) = Inr Quiet"
proof -
  let ?fw = "acer_firmware machine_sysfs machine_hw"
  have "is_ok (fst (set_firmware_profile ?fw Quiet Library_load machine_start))" by code_simp
  then obtain st w' where run: "set_firmware_profile ?fw Quiet Library_load machine_start = (Inr st, w')"
    by (metis is_ok_iff prod.collapse)
  from firmware_profile_outcome [OF machine.current_observes run] run show ?thesis by simp
qed

end
