(* ===== verification/Nvidia_Escape.thy ===== *)
theory Nvidia_Escape
  imports Nvidia_Safety
begin

text \<open>
  The one way out of the offset transaction of \<open>src/nvidia.rs\<close>: a setter that stores the value and
  then reports an error. \<open>sticky_bank\<close> is a device with one such register, \<open>sticky_registers\<close> the
  same for the NVML calls; a table of registers is a model of it. The journal of the transaction
  does not name that register, so the rollback leaves it.
\<close>

section \<open>A device with one dirty register\<close>

locale sticky_bank =
  fixes dev :: "'w offset_device" and val :: "'w \<Rightarrow> cell \<Rightarrow> int" and bad :: cell
  assumes reads: "\<exists>r w'. od_read dev p d w = (Inr r, w') \<and> or_current r = val w (p, d) \<and> accepts r (for_domain OEM_TURBO d) \<and> val w' = val w"
    and writes: "(p, d) \<noteq> bad \<Longrightarrow> \<exists>w'. od_write dev p d x w = (Inr (), w') \<and> val w' = (val w)((p, d) := x)"
    and sticks: "(p, d) = bad \<Longrightarrow> \<exists>e w'. od_write dev p d x w = (Inl e, w') \<and> val w' = (val w)((p, d) := x)"
begin

lemma rollback_runs:
  assumes "bad \<notin> mutation_cell ` set ms" and "\<forall>(p, d, x) \<in> set ms. x = v0 (p, d)"
  shows "\<exists>w'. io_filter_map (rollback_step dev) ms w = (Inr [], w')
    \<and> (\<forall>c. val w' c = (if c \<in> mutation_cell ` set ms then v0 c else val w c))"
  using assms
proof (induction ms arbitrary: w)
  case Nil
  then show ?case by (simp add: io_ret_apply)
next
  case (Cons m ms)
  obtain p d where m: "m = (p, d, v0 (p, d))" using Cons.prems(2) by (cases m) auto
  have good: "(p, d) \<noteq> bad" and ms: "bad \<notin> mutation_cell ` set ms" "\<forall>(p, d, x) \<in> set ms. x = v0 (p, d)"
    using Cons.prems m by (auto simp: mutation_cell_def)
  obtain w1 where w1: "od_write dev p d (v0 (p, d)) w = (Inr (), w1)" "val w1 = (val w)((p, d) := v0 (p, d))"
    using writes [OF good] by blast
  obtain r w2 where w2: "od_read dev p d w1 = (Inr r, w2)" "or_current r = v0 (p, d)" "val w2 = val w1"
    using reads [of p d w1] w1(2) by auto
  have step: "rollback_step dev m w = (Inr None, w2)"
    by (simp add: rollback_step_def m io_try_apply w1 w2 io_ret_apply)
  obtain w3 where "io_filter_map (rollback_step dev) ms w2 = (Inr [], w3)"
    "\<forall>c. val w3 c = (if c \<in> mutation_cell ` set ms then v0 c else val w2 c)"
    using Cons.IH [OF ms] by blast
  with step m w1(2) w2(3) show ?case by (auto simp: io_simps mutation_cell_def)
qed

text \<open>The loop reaches the dirty register, undoes what it has recorded, and reports a complete rollback.\<close>

definition recorded :: "(cell \<Rightarrow> int) \<Rightarrow> mutation list \<Rightarrow> 'w \<Rightarrow> bool" where
  "recorded v0 ms w \<longleftrightarrow> bad \<notin> mutation_cell ` set ms \<and> (\<forall>(p, d, x) \<in> set ms. x = v0 (p, d))
     \<and> (\<forall>c. c \<notin> mutation_cell ` set ms \<longrightarrow> val w c = v0 c)"

lemma recorded_write:
  "recorded v0 ms w \<Longrightarrow> (p, d) \<noteq> bad \<Longrightarrow> val w' = (val w)((p, d) := x) \<Longrightarrow> recorded v0 (ms @ [(p, d, v0 (p, d))]) w'"
  by (auto simp: recorded_def mutation_cell_def)

lemma rollback_escapes:
  assumes "recorded v0 ms w" and "val w1 = (val w)(bad := x)"
  shows "\<exists>w'. rollback_after_failure dev ms cause w1 = (Inl (Transaction_rolled_back cause), w') \<and> val w' = v0(bad := x)"
proof -
  obtain w' where run: "io_filter_map (rollback_step dev) (rev ms) w1 = (Inr [], w')"
    and at: "\<And>c. val w' c = (if c \<in> mutation_cell ` set ms then v0 c else val w1 c)"
    using rollback_runs [of "rev ms" v0 w1] assms(1) by (auto simp: recorded_def)
  have "val w' = v0(bad := x)" using at assms by (auto simp: fun_eq_iff recorded_def)
  with run show ?thesis by (simp add: rollback_after_failure_def io_bind_apply io_err_apply)
qed

lemma mutate_escapes:
  assumes "recorded v0 ms w" and "bad = (pb, db)" and "(pb, db, x) \<in> set cells" and "x \<noteq> v0 bad"
    and "distinct (map mutation_cell cells)"
    and prev: "\<And>p d y. (p, d, y) \<in> set cells \<Longrightarrow> \<exists>s. snapshot_state previous p = Some s \<and> or_current (reading s d) = v0 (p, d)"
  shows "\<exists>e w'. mutate dev previous ms cells w = (Inl (Transaction_rolled_back e), w') \<and> val w' = v0(bad := x)"
  using assms
proof (induction cells arbitrary: w ms)
  case (Cons m cells)
  obtain p d y where m: "m = (p, d, y)" by (cases m)
  obtain before where before: "snapshot_state previous p = Some before" "or_current (reading before d) = v0 (p, d)"
    using Cons.prems(6) [of p d y] m by auto
  note run = m mutate.simps before(1) ok_or_simps io_bind_apply io_of_apply Let_def prod.case sum.case before(2) io_try_apply
  show ?case
  proof (cases "(p, d) = bad")
    case True
    then have "(pb, db, x) \<notin> set cells"
      using Cons.prems(2,5) m by (force simp: mutation_cell_def image_iff)
    then have y: "y = x" using Cons.prems(2,3) m True by auto
    obtain e w1 where w1: "od_write dev p d y w = (Inl e, w1)" "val w1 = (val w)((p, d) := y)"
      using sticks [OF True] by blast
    have "v0 (p, d) \<noteq> y" using Cons.prems(4) True y by simp
    then have "mutate dev previous ms (m # cells) w = rollback_after_failure dev ms e w1"
      by (simp only: run w1 if_False)
    moreover have "val w1 = (val w)(bad := x)" using w1(2) y True by simp
    ultimately show ?thesis using rollback_escapes [OF Cons.prems(1)] by metis
  next
    case False
    then have rest: "(pb, db, x) \<in> set cells" "distinct (map mutation_cell cells)" using Cons.prems(2,3,5) m by auto
    have prev': "\<exists>s. snapshot_state previous p' = Some s \<and> or_current (reading s d') = v0 (p', d')" if "(p', d', y') \<in> set cells" for p' d' y'
      by (rule Cons.prems(6) [of p' d' y']) (simp add: that)
    note IH = Cons.IH [OF _ Cons.prems(2) rest(1) Cons.prems(4) rest(2) prev']
    show ?thesis
    proof (cases "v0 (p, d) = y")
      case True
      then have "mutate dev previous ms (m # cells) w = mutate dev previous ms cells w" by (simp only: run if_True refl)
      with IH [OF Cons.prems(1)] show ?thesis by simp
    next
      case change: False
      obtain w1 where w1: "od_write dev p d y w = (Inr (), w1)" "val w1 = (val w)((p, d) := y)"
        using writes [OF False] by blast
      obtain r w2 where w2: "od_read dev p d w1 = (Inr r, w2)" "or_current r = y" "val w2 = val w1"
        using reads [of p d w1] w1(2) by auto
      have "mutate dev previous ms (m # cells) w = mutate dev previous (ms @ [(p, d, v0 (p, d))]) cells w2"
        using change by (simp only: run w1 w2 if_False if_True refl)
      moreover have "recorded v0 (ms @ [(p, d, v0 (p, d))]) w2"
        using recorded_write [OF Cons.prems(1) False, of w2 y] w1(2) w2(3) by simp
      ultimately show ?thesis using IH by simp
    qed
  qed
qed simp

lemma snapshot_runs: "\<exists>snap w'. io_map_list (snapshot_one dev) ps w = (Inr snap, w') \<and> val w' = val w \<and> map so_state snap = ps
    \<and> (\<forall>s \<in> set snap. \<forall>d. or_current (reading s d) = val w (so_state s, d) \<and> accepts (reading s d) (for_domain OEM_TURBO d))"
proof (induction ps arbitrary: w)
  case Nil
  then show ?case by (simp add: io_ret_apply)
next
  case (Cons p ps)
  obtain a w1 where a: "od_read dev p Core w = (Inr a, w1)" "or_current a = val w (p, Core)" "accepts a (for_domain OEM_TURBO Core)" "val w1 = val w"
    using reads by blast
  obtain b w2 where b: "od_read dev p Memory w1 = (Inr b, w2)" "or_current b = val w1 (p, Memory)" "accepts b (for_domain OEM_TURBO Memory)" "val w2 = val w1"
    using reads by blast
  have one: "snapshot_one dev p w = (Inr \<lparr>so_state = p, so_core = a, so_memory = b\<rparr>, w2)"
    by (simp add: snapshot_one_def io_bind_apply a b io_ret_apply)
  obtain snap w3 where "io_map_list (snapshot_one dev) ps w2 = (Inr snap, w3)" "val w3 = val w2" "map so_state snap = ps"
    "\<forall>s \<in> set snap. \<forall>d. or_current (reading s d) = val w2 (so_state s, d) \<and> accepts (reading s d) (for_domain OEM_TURBO d)"
    using Cons.IH by blast
  moreover have "or_current (reading \<lparr>so_state = p, so_core = a, so_memory = b\<rparr> d) = val w (p, d)
      \<and> accepts (reading \<lparr>so_state = p, so_core = a, so_memory = b\<rparr> d) (for_domain OEM_TURBO d)" for d
    using a b by (cases d) simp_all
  ultimately show ?case using one a(4) b(4) by (auto simp: io_bind_apply io_ret_apply)
qed

lemma turbo_escapes:
  assumes "distinct (od_states dev)" and "bad = (p, d)" and "p \<in> set (od_states dev)" and "val w bad \<noteq> for_domain OEM_TURBO d"
  shows "\<exists>e w'. apply_uniform_offsets dev OEM_TURBO w = (Inl (Transaction_rolled_back e), w') \<and> val w' = (val w)(bad := for_domain OEM_TURBO d)"
proof -
  let ?cells = "target_cells (map (\<lambda>p. (p, OEM_TURBO)) (od_states dev))"
  obtain snap w0 where snap: "snapshot_device dev w = (Inr snap, w0)" and w0: "val w0 = val w" and states: "map so_state snap = od_states dev"
    and at: "\<And>s d. s \<in> set snap \<Longrightarrow> or_current (reading s d) = val w (so_state s, d) \<and> accepts (reading s d) (for_domain OEM_TURBO d)"
    unfolding snapshot_device_def using snapshot_runs [of "od_states dev" w] by blast
  have cells: "(q, k, y) \<in> set ?cells \<longleftrightarrow> q \<in> set (od_states dev) \<and> y = for_domain OEM_TURBO k" for q k y
    by (auto simp: target_cells_iff)
  have known: "\<exists>s. snapshot_state snap q = Some s \<and> or_current (reading s k) = val w (q, k) \<and> accepts (reading s k) (for_domain OEM_TURBO k)"
    if "q \<in> set (od_states dev)" for q k
  proof -
    from that states obtain s where "s \<in> set snap" "so_state s = q" by (metis imageE list.set_map)
    then obtain s' where s': "snapshot_state snap q = Some s'"
      by (cases "snapshot_state snap q") (auto simp: snapshot_state_def find_None_iff)
    then have "s' \<in> set snap" "so_state s' = q" by (auto simp: snapshot_state_def find_Some_iff)
    with at [of s' k] s' show ?thesis by auto
  qed
  have "\<forall>m \<in> set ?cells. check_range snap m = Inr ()"
  proof
    fix m assume "m \<in> set ?cells"
    moreover obtain q k y where m: "m = (q, k, y)" by (cases m)
    ultimately have "q \<in> set (od_states dev)" "y = for_domain OEM_TURBO k" using cells [of q k y] by auto
    with known [of q k] m show "check_range snap m = Inr ()" by (auto simp: check_range_def res_bind_def)
  qed
  moreover have "\<forall>m \<in> set ms. f m = Inr () \<Longrightarrow> \<exists>us. res_map_list f ms = (Inr us :: nvidia_error + _)" for f and ms :: "mutation list"
    by (induction ms) (auto simp: res_simps)
  ultimately have range: "\<exists>us. res_map_list (check_range snap) ?cells = Inr us" by blast
  have "distinct (map mutation_cell ?cells)"
  proof -
    have "distinct (concat (map (\<lambda>p. [(p, Core), (p, Memory)]) ps))" if "distinct ps" for ps :: "performance_state list"
      using that by (induction ps) auto
    moreover have "map mutation_cell ?cells = concat (map (\<lambda>p. [(p, Core), (p, Memory)]) (od_states dev))"
      by (simp add: target_cells_def map_concat comp_def mutation_cell_def)
    ultimately show ?thesis using assms(1) by simp
  qed
  moreover have "recorded (val w) [] w0" by (simp add: recorded_def w0)
  moreover have "\<exists>s. snapshot_state snap q = Some s \<and> or_current (reading s k) = val w (q, k)" if "(q, k, y) \<in> set ?cells" for q k y
    using known [of q k] that cells by blast
  moreover have "(p, d, for_domain OEM_TURBO d) \<in> set ?cells" using assms(3) cells by blast
  moreover have "for_domain OEM_TURBO d \<noteq> val w bad" using assms(4) by simp
  ultimately have "\<exists>e w'. mutate dev snap [] ?cells w0 = (Inl (Transaction_rolled_back e), w') \<and> val w' = (val w)(bad := for_domain OEM_TURBO d)"
    by (intro mutate_escapes [OF _ assms(2)]) blast+
  then obtain e w' where "mutate dev snap [] ?cells w0 = (Inl (Transaction_rolled_back e), w')" "val w' = (val w)(bad := for_domain OEM_TURBO d)"
    by blast
  with snap range show ?thesis
    by (auto simp: apply_uniform_offsets_def apply_offset_targets_def io_bind_apply io_then_apply io_of_apply)
qed

end

section \<open>The NVML calls\<close>

text \<open>\<open>nvml_registers\<close> with every call succeeding and every range wide enough, but for the register
  \<open>bad\<close>: its setter stores the value and answers with an error code.\<close>

locale sticky_registers =
  fixes nv :: "'e nvml" and reg :: "'e \<Rightarrow> nat \<Rightarrow> int \<Rightarrow> int \<Rightarrow> int" and bad :: "int \<times> int"
  assumes gets: "\<exists>f. nv_get_offsets nv = Some f \<and> (\<forall>dv t p e. \<exists>r e'. f dv t p e = ((NVML_SUCCESS, r), e')
      \<and> or_current r = reg e dv t p \<and> or_minimum r \<le> 0 \<and> 200 \<le> or_maximum r \<and> reg e' = reg e)"
    and sets: "\<exists>g. nv_set_offsets nv = Some g \<and> (\<forall>dv t p x e. \<exists>code e'. g dv t p x e = (code, e')
      \<and> (code = NVML_SUCCESS \<longleftrightarrow> (t, p) \<noteq> bad)
      \<and> reg e' = (\<lambda>dv' t' p'. if dv' = dv \<and> t' = t \<and> p' = p then x else reg e dv' t' p'))"
begin

lemma controller_sticky:
  assumes "nc_mutation_authorized c" and "bad = (nvml_clock_type d, pstate_index p)"
  shows "sticky_bank (controller_device nv c) (cell_value reg c) (p, d)"
proof
  obtain f where f: "nv_get_offsets nv = Some f" "\<And>dv t p e. \<exists>r e'. f dv t p e = ((NVML_SUCCESS, r), e')
      \<and> or_current r = reg e dv t p \<and> or_minimum r \<le> 0 \<and> 200 \<le> or_maximum r \<and> reg e' = reg e"
    using gets by blast
  obtain g where g: "nv_set_offsets nv = Some g" "\<And>dv t p x e. \<exists>code e'. g dv t p x e = (code, e')
      \<and> (code = NVML_SUCCESS \<longleftrightarrow> (t, p) \<noteq> bad)
      \<and> reg e' = (\<lambda>dv' t' p'. if dv' = dv \<and> t' = t \<and> p' = p then x else reg e dv' t' p')"
    using sets by blast
  have turbo: "0 \<le> for_domain OEM_TURBO k" "for_domain OEM_TURBO k \<le> 200" for k by (cases k; simp add: OEM_TURBO_def)+
  fix q k x and w :: "'e world"
  obtain r e where r: "f (nc_device c) (nvml_clock_type k) (pstate_index q) (wenv w) = ((NVML_SUCCESS, r), e)"
      "or_current r = reg (wenv w) (nc_device c) (nvml_clock_type k) (pstate_index q)" "or_minimum r \<le> 0" "200 \<le> or_maximum r" "reg e = reg (wenv w)"
    using f(2) by blast
  have "od_read (controller_device nv c) q k w = (Inr r, w\<lparr>wenv := e\<rparr>)"
    by (simp add: controller_device_def controller_read_offset_def read_clock_optional_def f(1) nv_call_def io_simps r(1))
  moreover have "accepts r (for_domain OEM_TURBO k)" using r(3,4) turbo [of k] by (simp add: accepts_def)
  ultimately show "\<exists>r w'. od_read (controller_device nv c) q k w = (Inr r, w') \<and> or_current r = cell_value reg c w (q, k)
      \<and> accepts r (for_domain OEM_TURBO k) \<and> cell_value reg c w' = cell_value reg c w"
    using r(2,5) by (intro exI [of _ r] exI [of _ "w\<lparr>wenv := e\<rparr>"]) (simp add: cell_value_def fun_eq_iff)
  obtain code e' where s: "g (nc_device c) (nvml_clock_type k) (pstate_index q) x (wenv w) = (code, e')"
      "code = NVML_SUCCESS \<longleftrightarrow> (nvml_clock_type k, pstate_index q) \<noteq> bad"
      "reg e' = (\<lambda>dv' t' p'. if dv' = nc_device c \<and> t' = nvml_clock_type k \<and> p' = pstate_index q then x else reg (wenv w) dv' t' p')"
    using g(2) by blast
  have run: "od_write (controller_device nv c) q k x w = (if code = NVML_SUCCESS then Inr ()
      else Inl (nvml_error_from nv ''nvmlDeviceSetClockOffsets'' code), w\<lparr>wenv := e'\<rparr>)"
    by (simp add: controller_device_def controller_write_offset_def ensure_mutation_authorized_def assms(1) g(1) nv_call_def io_simps s(1))
  have val: "cell_value reg c (w\<lparr>wenv := e'\<rparr>) = (cell_value reg c w)((q, k) := x)"
    by (auto simp: cell_value_def fun_eq_iff s(3) dest: nvml_clock_type_inj pstate_index_inj)
  have cell: "(nvml_clock_type k, pstate_index q) = bad \<longleftrightarrow> (q, k) = (p, d)"
    using assms(2) by (auto dest: nvml_clock_type_inj pstate_index_inj)
  show "\<exists>w'. od_write (controller_device nv c) q k x w = (Inr (), w') \<and> cell_value reg c w' = (cell_value reg c w)((q, k) := x)"
    if "(q, k) \<noteq> (p, d)" using that run val s(2) cell by auto
  show "\<exists>e w'. od_write (controller_device nv c) q k x w = (Inl e, w') \<and> cell_value reg c w' = (cell_value reg c w)((q, k) := x)"
    if "(q, k) = (p, d)" using that run val s(2) cell by auto
qed

end

lemmas controller_escapes = sticky_bank.turbo_escapes [OF sticky_registers.controller_sticky]

interpretation sticky_table: sticky_registers "bank_nvml [bad] True" bank_value bad
proof
  show "\<exists>f. nv_get_offsets (bank_nvml [bad] True) = Some f \<and> (\<forall>dv t p e. \<exists>r e'. f dv t p e = ((NVML_SUCCESS, r), e')
      \<and> or_current r = bank_value e dv t p \<and> or_minimum r \<le> 0 \<and> 200 \<le> or_maximum r \<and> bank_value e' = bank_value e)"
    unfolding bank_nvml_def nvml.select_convs by (rule exI, rule conjI, rule refl) (simp add: NVML_SUCCESS_def)
  show "\<exists>g. nv_set_offsets (bank_nvml [bad] True) = Some g \<and> (\<forall>dv t p x e. \<exists>code e'. g dv t p x e = (code, e')
      \<and> (code = NVML_SUCCESS \<longleftrightarrow> (t, p) \<noteq> bad)
      \<and> bank_value e' = (\<lambda>dv' t' p'. if dv' = dv \<and> t' = t \<and> p' = p then x else bank_value e dv' t' p'))"
    unfolding bank_nvml_def nvml.select_convs by (rule exI, rule conjI, rule refl) (auto simp: NVML_SUCCESS_def bank_value_def fun_eq_iff)
qed

text \<open>The controllers that may mutate are those of \<open>controller_discover\<close>.\<close>

lemma discovered_controller:
  "controller_discover nv fs root w = (Inr c, w') \<Longrightarrow> nc_states c = EXPECTED_STATES \<and> nc_mutation_authorized c"
  by (auto simp: controller_discover_def owning_runtime_def Let_def io_simps elim!: io_bind_Inr
      split: if_splits prod.splits sum.splits option.splits)

section \<open>The escape\<close>

text \<open>C6: the promise of the transaction, ``any partial failure restores the snapshot'', does not cover
  a setter that stores the value and then reports an error. Let every NVML call succeed, but for the
  setter of one clock of one P-state, which stores and reports an error. For a controller with the
  P-states discovery insists on, the OEM Turbo transaction then always reports a complete rollback, while
  that register keeps the new offset, whichever it is; all others have their old offsets.\<close>

theorem dirty_setter_reported_rolled_back:
  assumes "sticky_registers nv reg (nvml_clock_type d, pstate_index p)"
    and "nc_states c = EXPECTED_STATES" and "nc_mutation_authorized c" and "p \<in> set EXPECTED_STATES"
    and "cell_value reg c w (p, d) \<noteq> for_domain OEM_TURBO d"
  shows "\<exists>e w'. apply_oem_turbo nv c w = (Inl (Transaction_rolled_back e), w')
    \<and> cell_value reg c w' = (cell_value reg c w)((p, d) := for_domain OEM_TURBO d)"
proof -
  have states: "od_states (controller_device nv c) = EXPECTED_STATES" using assms(2) by (simp add: controller_device_def)
  then have "distinct (od_states (controller_device nv c))" by (simp add: EXPECTED_STATES_def)
  from controller_escapes [OF assms(1,3) refl this refl] states assms(3-5) show ?thesis
    by (simp add: apply_oem_turbo_def io_then_apply io_of_apply ensure_mutation_authorized_def)
qed

theorem dirty_setter_reported_rolled_back_witness:
  "\<exists>e w'. apply_oem_turbo (bank_nvml [(2, 8)] True) example_controller bank_world = (Inl (Transaction_rolled_back e), w')
    \<and> cell_value bank_value example_controller bank_world (P8, Memory) = 50
    \<and> cell_value bank_value example_controller w' (P8, Memory) = 200"
proof -
  have cell: "(nvml_clock_type Memory, pstate_index P8) = (2, 8)" by code_simp
  have sticky: "sticky_registers (bank_nvml [(2, 8)] True) bank_value (nvml_clock_type Memory, pstate_index P8)"
    unfolding cell by (rule sticky_table.sticky_registers_axioms)
  have before: "cell_value bank_value example_controller bank_world (P8, Memory) = 50" by code_simp
  show ?thesis
    using dirty_setter_reported_rolled_back [OF sticky, of example_controller bank_world] before
    by (auto simp: example_controller_def OEM_TURBO_def EXPECTED_STATES_def)
qed

end
