(* ===== verification/Platform.thy ===== *)
theory Platform
  imports Sysfs
begin

text \<open>
  \<open>src/platform.rs\<close>: the battery, USB, keyboard, boot-sound, display and rear-logo attributes of
  the ASense kernel transport, their getters and verified setters, and the one-line state that
  crosses the control socket.
\<close>

section \<open>Data\<close>

definition PLATFORM_GAMING_GUID :: string where "PLATFORM_GAMING_GUID = ''7A4DDFE7-5B5D-40B4-8595-4408E0CC7F56''"
definition BATTERY_WMI_GUID :: string where "BATTERY_WMI_GUID = ''79772EC5-04B1-4BFD-843C-61E7F77B6CC9''"
definition APGE_WMI_GUID :: string where "APGE_WMI_GUID = ''61EF69EA-865C-4BC3-A502-A0DEBA0CB531''"

definition READ_ERROR_BATTERY_LIMIT :: u8 where "READ_ERROR_BATTERY_LIMIT = 1"
definition READ_ERROR_BATTERY_CALIBRATION :: u8 where "READ_ERROR_BATTERY_CALIBRATION = 2"
definition READ_ERROR_USB_CHARGING :: u8 where "READ_ERROR_USB_CHARGING = 4"
definition READ_ERROR_KEYBOARD_TIMEOUT :: u8 where "READ_ERROR_KEYBOARD_TIMEOUT = 8"
definition READ_ERROR_BOOT_SOUND :: u8 where "READ_ERROR_BOOT_SOUND = 16"
definition READ_ERROR_LCD_OVERRIDE :: u8 where "READ_ERROR_LCD_OVERRIDE = 32"
definition READ_ERROR_REAR_LOGO :: u8 where "READ_ERROR_REAR_LOGO = 64"

definition READ_ERROR_MASK_ALL :: u8 where
  "READ_ERROR_MASK_ALL = or READ_ERROR_BATTERY_LIMIT (or READ_ERROR_BATTERY_CALIBRATION
     (or READ_ERROR_USB_CHARGING (or READ_ERROR_KEYBOARD_TIMEOUT (or READ_ERROR_BOOT_SOUND
     (or READ_ERROR_LCD_OVERRIDE READ_ERROR_REAR_LOGO)))))"

datatype usb_charging = Usb_disabled | Stop_at_10 | Stop_at_20 | Stop_at_30

fun threshold :: "usb_charging \<Rightarrow> u8" where
  "threshold Usb_disabled = 0" | "threshold Stop_at_10 = 10" | "threshold Stop_at_20 = 20" | "threshold Stop_at_30 = 30"

record rear_logo_state =
  lg_enabled :: bool
  lg_brightness :: u8
  lg_color :: rgb

record platform_state =
  ps_battery_limit :: "bool option"
  ps_battery_calibration :: "bool option"
  ps_usb_charging :: "usb_charging option"
  ps_keyboard_timeout :: "bool option"
  ps_boot_sound :: "bool option"
  ps_lcd_override :: "bool option"
  ps_rear_logo :: "rear_logo_state option"
  ps_read_error_mask :: u8

record platform_controls =
  pc_gaming :: "path option"
  pc_battery :: "path option"
  pc_apge :: "path option"

record platform_capabilities =
  cap_battery_limit :: bool
  cap_battery_calibration :: bool
  cap_usb_off_charging :: bool
  cap_keyboard_timeout :: bool
  cap_boot_sound :: bool
  cap_lcd_override :: bool
  cap_rear_logo :: bool

datatype platform_error = Pf_message string | Pf_rejected string io_error | Pf_cannot_read string io_error

type_synonym ('e, 'a) pf_io = "('e world, platform_error, 'a) io"

definition from_threshold :: "u8 \<Rightarrow> platform_error + usb_charging" where
  "from_threshold v = (if v = 0 then Inr Usb_disabled else if v = 10 then Inr Stop_at_10
     else if v = 20 then Inr Stop_at_20 else if v = 30 then Inr Stop_at_30
     else Inl (Pf_message ''USB charging threshold must be 0, 10, 20, or 30''))"

section \<open>The state line\<close>

definition parse_bool :: "string \<Rightarrow> platform_error + bool" where
  "parse_bool v = (if v = ''0'' \<or> v = ''off'' then Inr False else if v = ''1'' \<or> v = ''on'' then Inr True
     else Inl (Pf_message ''invalid boolean state''))"

definition encode_bool :: "bool \<Rightarrow> string" where "encode_bool b = (if b then ''on'' else ''off'')"

definition encode_optional_bool :: "bool option \<Rightarrow> string" where
  "encode_optional_bool v = (case v of None \<Rightarrow> ''unsupported'' | Some b \<Rightarrow> encode_bool b)"

definition parse_optional_bool :: "string \<Rightarrow> platform_error + bool option" where
  "parse_optional_bool v = (if v = ''unsupported'' then Inr None else res_bind (parse_bool v) (\<lambda>b. Inr (Some b)))"

definition encode_usb :: "usb_charging option \<Rightarrow> string" where
  "encode_usb v = (case v of None \<Rightarrow> ''unsupported'' | Some u \<Rightarrow> show_word (threshold u))"

definition parse_optional_usb :: "string \<Rightarrow> platform_error + usb_charging option" where
  "parse_optional_usb v = (if v = ''unsupported'' then Inr None else
     res_bind (ok_or (Pf_message ''invalid USB charging state'') (parse_u8 v))
       (\<lambda>n. res_bind (from_threshold n) (\<lambda>u. Inr (Some u))))"

definition encode_logo :: "rear_logo_state option \<Rightarrow> string" where
  "encode_logo v = (case v of None \<Rightarrow> ''unsupported''
     | Some l \<Rightarrow> hex_rgb (lg_color l) @ '','' @ show_word (lg_brightness l) @ '','' @ encode_bool (lg_enabled l))"

definition parse_logo :: "string \<Rightarrow> platform_error + rear_logo_state" where
  "parse_logo v = (case split_char (CHR '','') v of
      [color, brightness, enabled] \<Rightarrow>
        (case rgb_of_hex color of None \<Rightarrow> Inl (Pf_message ''rear logo color must be exactly RRGGBB'')
         | Some c \<Rightarrow> (case parse_u8 brightness of None \<Rightarrow> Inl (Pf_message ''invalid rear logo brightness'')
           | Some b \<Rightarrow> if b > 100 then Inl (Pf_message ''rear logo brightness must be within 0..=100'')
               else res_bind (parse_bool enabled) (\<lambda>e. Inr \<lparr>lg_enabled = e, lg_brightness = b, lg_color = c\<rparr>)))
    | _ \<Rightarrow> Inl (Pf_message ''invalid rear logo field count''))"

definition parse_optional_logo :: "string \<Rightarrow> platform_error + rear_logo_state option" where
  "parse_optional_logo v = (if v = ''unsupported'' then Inr None else res_bind (parse_logo v) (\<lambda>l. Inr (Some l)))"

definition parse_read_error_mask :: "string \<Rightarrow> platform_error + u8" where
  "parse_read_error_mask v = (case parse_u8 v of None \<Rightarrow> Inl (Pf_message ''invalid platform read error mask'')
     | Some m \<Rightarrow> if and m (not READ_ERROR_MASK_ALL) = 0 then Inr m
         else Inl (Pf_message ''unknown platform read error mask bit''))"

definition state_fields :: "platform_state \<Rightarrow> (string \<times> string) list" where
  "state_fields s = [(''battery_limit'', encode_optional_bool (ps_battery_limit s)),
     (''battery_calibration'', encode_optional_bool (ps_battery_calibration s)),
     (''usb_charging'', encode_usb (ps_usb_charging s)),
     (''keyboard_timeout'', encode_optional_bool (ps_keyboard_timeout s)),
     (''boot_sound'', encode_optional_bool (ps_boot_sound s)),
     (''lcd_override'', encode_optional_bool (ps_lcd_override s)),
     (''rear_logo'', encode_logo (ps_rear_logo s)),
     (''read_error_mask'', show_word (ps_read_error_mask s))]"

definition encode_state :: "platform_state \<Rightarrow> string" where
  "encode_state s = join_with '' '' (map (\<lambda>(k, v). k @ ''='' @ v) (state_fields s))"

text \<open>The eight slots of the parser.\<close>

record state_slots =
  sl_battery_limit :: "bool option option"
  sl_battery_calibration :: "bool option option"
  sl_usb_charging :: "usb_charging option option"
  sl_keyboard_timeout :: "bool option option"
  sl_boot_sound :: "bool option option"
  sl_lcd_override :: "bool option option"
  sl_rear_logo :: "rear_logo_state option option"
  sl_read_error_mask :: "u8 option"

definition empty_slots :: state_slots where
  "empty_slots = \<lparr>sl_battery_limit = None, sl_battery_calibration = None, sl_usb_charging = None,
     sl_keyboard_timeout = None, sl_boot_sound = None, sl_lcd_override = None, sl_rear_logo = None,
     sl_read_error_mask = None\<rparr>"

definition set_once :: "'a option \<Rightarrow> 'a \<Rightarrow> platform_error + 'a option" where
  "set_once slot v = (if slot = None then Inr (Some v) else Inl (Pf_message ''duplicate platform state field''))"

definition parse_field :: "state_slots \<Rightarrow> string \<Rightarrow> platform_error + state_slots" where
  "parse_field sl field = (case split_once (CHR ''='') field of
      None \<Rightarrow> Inl (Pf_message ''invalid platform state field'')
    | Some (key, v) \<Rightarrow>
        if key = ''battery_limit'' then res_bind (parse_optional_bool v) (\<lambda>x.
          res_bind (set_once (sl_battery_limit sl) x) (\<lambda>y. Inr (sl\<lparr>sl_battery_limit := y\<rparr>)))
        else if key = ''battery_calibration'' then res_bind (parse_optional_bool v) (\<lambda>x.
          res_bind (set_once (sl_battery_calibration sl) x) (\<lambda>y. Inr (sl\<lparr>sl_battery_calibration := y\<rparr>)))
        else if key = ''usb_charging'' then res_bind (parse_optional_usb v) (\<lambda>x.
          res_bind (set_once (sl_usb_charging sl) x) (\<lambda>y. Inr (sl\<lparr>sl_usb_charging := y\<rparr>)))
        else if key = ''keyboard_timeout'' then res_bind (parse_optional_bool v) (\<lambda>x.
          res_bind (set_once (sl_keyboard_timeout sl) x) (\<lambda>y. Inr (sl\<lparr>sl_keyboard_timeout := y\<rparr>)))
        else if key = ''boot_sound'' then res_bind (parse_optional_bool v) (\<lambda>x.
          res_bind (set_once (sl_boot_sound sl) x) (\<lambda>y. Inr (sl\<lparr>sl_boot_sound := y\<rparr>)))
        else if key = ''lcd_override'' then res_bind (parse_optional_bool v) (\<lambda>x.
          res_bind (set_once (sl_lcd_override sl) x) (\<lambda>y. Inr (sl\<lparr>sl_lcd_override := y\<rparr>)))
        else if key = ''rear_logo'' then res_bind (parse_optional_logo v) (\<lambda>x.
          res_bind (set_once (sl_rear_logo sl) x) (\<lambda>y. Inr (sl\<lparr>sl_rear_logo := y\<rparr>)))
        else if key = ''read_error_mask'' then res_bind (parse_read_error_mask v) (\<lambda>x.
          res_bind (set_once (sl_read_error_mask sl) x) (\<lambda>y. Inr (sl\<lparr>sl_read_error_mask := y\<rparr>)))
        else Inl (Pf_message ''unknown platform state field''))"

fun parse_fields :: "state_slots \<Rightarrow> string list \<Rightarrow> platform_error + state_slots" where
  "parse_fields sl [] = Inr sl"
| "parse_fields sl (f # fs) = res_bind (parse_field sl f) (\<lambda>sl'. parse_fields sl' fs)"

definition take_slot :: "'a option \<Rightarrow> platform_error + 'a" where
  "take_slot s = ok_or (Pf_message ''missing platform state field'') s"

definition parse_state :: "string \<Rightarrow> platform_error + platform_state" where
  "parse_state v = (let fields = split_ascii_ws v in
     if length fields \<noteq> 8 then Inl (Pf_message ''invalid platform state field count'')
     else res_bind (parse_fields empty_slots fields) (\<lambda>sl.
       res_bind (take_slot (sl_battery_limit sl)) (\<lambda>bl.
       res_bind (take_slot (sl_battery_calibration sl)) (\<lambda>bc.
       res_bind (take_slot (sl_usb_charging sl)) (\<lambda>usb.
       res_bind (take_slot (sl_keyboard_timeout sl)) (\<lambda>kt.
       res_bind (take_slot (sl_boot_sound sl)) (\<lambda>bs.
       res_bind (take_slot (sl_lcd_override sl)) (\<lambda>lcd.
       res_bind (take_slot (sl_rear_logo sl)) (\<lambda>logo.
       res_bind (take_slot (sl_read_error_mask sl)) (\<lambda>em.
         Inr \<lparr>ps_battery_limit = bl, ps_battery_calibration = bc, ps_usb_charging = usb, ps_keyboard_timeout = kt,
           ps_boot_sound = bs, ps_lcd_override = lcd, ps_rear_logo = logo, ps_read_error_mask = em\<rparr>))))))))))"

section \<open>The controls\<close>

definition legacy_group_with :: "'e sysfs \<Rightarrow> path \<Rightarrow> string \<Rightarrow> string \<Rightarrow> 'e \<Rightarrow> path option" where
  "legacy_group_with fs wmi_root guid attribute e = (case find_wmi_group fs wmi_root guid ''asense_rgb'' e of
      Some base \<Rightarrow> if k_is_file fs (path_join base attribute) e then Some base else None | None \<Rightarrow> None)"

definition or_else :: "'a option \<Rightarrow> 'a option \<Rightarrow> 'a option" where
  "or_else a b = (case a of Some x \<Rightarrow> Some x | None \<Rightarrow> b)"

definition platform_discover_at :: "'e sysfs \<Rightarrow> path \<Rightarrow> ('e, platform_controls) pf_io" where
  "platform_discover_at fs wmi_root = io_bind (fs_query (\<lambda>e.
       \<lparr>pc_gaming = find_wmi_group fs wmi_root PLATFORM_GAMING_GUID ''asense_rgb'' e,
        pc_battery = or_else (find_wmi_group fs wmi_root BATTERY_WMI_GUID ''asense_battery'' e)
          (legacy_group_with fs wmi_root PLATFORM_GAMING_GUID ''battery_limit'' e),
        pc_apge = or_else (find_wmi_group fs wmi_root APGE_WMI_GUID ''asense_apge'' e)
          (legacy_group_with fs wmi_root PLATFORM_GAMING_GUID ''usb_charging'' e)\<rparr>)) (\<lambda>pc.
     if pc_gaming pc = None \<and> pc_battery pc = None \<and> pc_apge pc = None
     then io_err (Pf_message ''ASense platform kernel transport is unavailable'') else io_ret pc)"

definition attribute_path :: "'e sysfs \<Rightarrow> platform_controls \<Rightarrow> string \<Rightarrow> 'e \<Rightarrow> path option" where
  "attribute_path fs pc name e = (let
       preferred = (if name \<in> {''battery_limit'', ''battery_calibration''} then pc_battery pc
         else if name \<in> {''usb_charging'', ''keyboard_timeout''} then pc_apge pc else pc_gaming pc);
       file = (\<lambda>base. case base of None \<Rightarrow> None
         | Some b \<Rightarrow> if k_is_file fs (path_join b name) e then Some (path_join b name) else None) in
     or_else (file preferred) (file (pc_gaming pc)))"

definition platform_read_capabilities :: "'e sysfs \<Rightarrow> platform_controls \<Rightarrow> 'e \<Rightarrow> platform_capabilities" where
  "platform_read_capabilities fs pc e = (let has = (\<lambda>n. attribute_path fs pc n e \<noteq> None) in
     \<lparr>cap_battery_limit = has ''battery_limit'', cap_battery_calibration = has ''battery_calibration'',
      cap_usb_off_charging = has ''usb_charging'', cap_keyboard_timeout = has ''keyboard_timeout'',
      cap_boot_sound = has ''boot_sound'', cap_lcd_override = has ''lcd_override'', cap_rear_logo = has ''rear_logo''\<rparr>)"

text \<open>A getter of an optional attribute: absent is no value, otherwise read, trim and parse.\<close>

definition read_optional :: "'e sysfs \<Rightarrow> platform_controls \<Rightarrow> string \<Rightarrow> string \<Rightarrow> (string \<Rightarrow> platform_error + 'a) \<Rightarrow> ('e, 'a option) pf_io" where
  "read_optional fs pc name label parse = io_bind (fs_query (attribute_path fs pc name)) (\<lambda>p. case p of
      None \<Rightarrow> io_ret None
    | Some q \<Rightarrow> io_bind (io_map_err (Pf_cannot_read label) (fs_read_to_string fs q))
        (\<lambda>v. io_of (res_bind (parse (str_trim v)) (\<lambda>x. Inr (Some x)))))"

definition read_optional_bool :: "'e sysfs \<Rightarrow> platform_controls \<Rightarrow> string \<Rightarrow> string \<Rightarrow> ('e, bool option) pf_io" where
  "read_optional_bool fs pc name label = read_optional fs pc name label
     (\<lambda>v. res_map_err (\<lambda>_. Pf_message (''invalid '' @ label @ '' readback'')) (parse_bool v))"

definition read_optional_usb :: "'e sysfs \<Rightarrow> platform_controls \<Rightarrow> ('e, usb_charging option) pf_io" where
  "read_optional_usb fs pc = read_optional fs pc ''usb_charging'' ''USB charging''
     (\<lambda>v. res_bind (ok_or (Pf_message ''invalid USB charging readback'') (parse_u8 v)) from_threshold)"

definition read_optional_logo :: "'e sysfs \<Rightarrow> platform_controls \<Rightarrow> ('e, rear_logo_state option) pf_io" where
  "read_optional_logo fs pc = read_optional fs pc ''rear_logo'' ''rear logo'' parse_logo"

text \<open>A failed getter sets its bit in the mask and yields no value; the journal line is not modelled.\<close>

definition isolate_getter_failure :: "('e, 'a option) pf_io \<Rightarrow> u8 \<Rightarrow> u8 \<Rightarrow> ('e world, 'x, 'a option \<times> u8) io" where
  "isolate_getter_failure m flag errs = io_try m (\<lambda>r. io_ret (case r of Inr v \<Rightarrow> (v, errs) | Inl _ \<Rightarrow> (None, or errs flag)))"

definition platform_read :: "'e sysfs \<Rightarrow> platform_controls \<Rightarrow> ('e, platform_state) pf_io" where
  "platform_read fs pc =
     io_bind (isolate_getter_failure (read_optional_bool fs pc ''battery_limit'' ''battery limit'') READ_ERROR_BATTERY_LIMIT 0) (\<lambda>(bl, m1).
     io_bind (isolate_getter_failure (read_optional_bool fs pc ''battery_calibration'' ''battery calibration'') READ_ERROR_BATTERY_CALIBRATION m1) (\<lambda>(bc, m2).
     io_bind (isolate_getter_failure (read_optional_usb fs pc) READ_ERROR_USB_CHARGING m2) (\<lambda>(usb, m3).
     io_bind (isolate_getter_failure (read_optional_bool fs pc ''keyboard_timeout'' ''keyboard timeout'') READ_ERROR_KEYBOARD_TIMEOUT m3) (\<lambda>(kt, m4).
     io_bind (isolate_getter_failure (read_optional_bool fs pc ''boot_sound'' ''boot sound'') READ_ERROR_BOOT_SOUND m4) (\<lambda>(bs, m5).
     io_bind (isolate_getter_failure (read_optional_bool fs pc ''lcd_override'' ''LCD override'') READ_ERROR_LCD_OVERRIDE m5) (\<lambda>(lcd, m6).
     io_bind (isolate_getter_failure (read_optional_logo fs pc) READ_ERROR_REAR_LOGO m6) (\<lambda>(logo, m7).
       io_ret \<lparr>ps_battery_limit = bl, ps_battery_calibration = bc, ps_usb_charging = usb, ps_keyboard_timeout = kt,
         ps_boot_sound = bs, ps_lcd_override = lcd, ps_rear_logo = logo, ps_read_error_mask = m7\<rparr>)))))))"

definition require_attribute :: "'e sysfs \<Rightarrow> platform_controls \<Rightarrow> string \<Rightarrow> string \<Rightarrow> ('e, path) pf_io" where
  "require_attribute fs pc name label = io_bind (fs_query (attribute_path fs pc name))
     (\<lambda>p. io_of (ok_or (Pf_message (label @ '' is not supported by this firmware'')) p))"

text \<open>A verified setter: write the attribute (\<open>fs::write\<close>), read it back, compare, read the state.\<close>

definition set_verified :: "'e sysfs \<Rightarrow> platform_controls \<Rightarrow> string \<Rightarrow> string \<Rightarrow> string \<Rightarrow>
    ('e, 'a option) pf_io \<Rightarrow> 'a \<Rightarrow> ('e, unit) pf_io" where
  "set_verified fs pc name label payload getter v =
     io_bind (require_attribute fs pc name label) (\<lambda>p.
     io_then (io_map_err (Pf_rejected label) (fs_write fs p payload))
     (io_bind getter (\<lambda>actual. if actual = Some v then io_ret ()
        else io_err (Pf_message (label @ '' readback mismatch'')))))"

definition set_bool :: "'e sysfs \<Rightarrow> platform_controls \<Rightarrow> string \<Rightarrow> string \<Rightarrow> bool \<Rightarrow> ('e, unit) pf_io" where
  "set_bool fs pc name label enabled = set_verified fs pc name label (if enabled then ''1\<newline>'' else ''0\<newline>'')
     (read_optional_bool fs pc name label) enabled"

definition set_battery_limit :: "'e sysfs \<Rightarrow> platform_controls \<Rightarrow> bool \<Rightarrow> ('e, platform_state) pf_io" where
  "set_battery_limit fs pc b = io_then (set_bool fs pc ''battery_limit'' ''battery limit'' b) (platform_read fs pc)"

definition set_battery_calibration :: "'e sysfs \<Rightarrow> platform_controls \<Rightarrow> bool \<Rightarrow> ('e, platform_state) pf_io" where
  "set_battery_calibration fs pc b =
     io_then (set_bool fs pc ''battery_calibration'' ''battery calibration'' b) (platform_read fs pc)"

definition set_keyboard_timeout :: "'e sysfs \<Rightarrow> platform_controls \<Rightarrow> bool \<Rightarrow> ('e, platform_state) pf_io" where
  "set_keyboard_timeout fs pc b =
     io_then (set_bool fs pc ''keyboard_timeout'' ''keyboard timeout'' b) (platform_read fs pc)"

definition set_boot_sound :: "'e sysfs \<Rightarrow> platform_controls \<Rightarrow> bool \<Rightarrow> ('e, platform_state) pf_io" where
  "set_boot_sound fs pc b = io_then (set_bool fs pc ''boot_sound'' ''boot sound'' b) (platform_read fs pc)"

definition set_lcd_override :: "'e sysfs \<Rightarrow> platform_controls \<Rightarrow> bool \<Rightarrow> ('e, platform_state) pf_io" where
  "set_lcd_override fs pc b = io_then (set_bool fs pc ''lcd_override'' ''LCD override'' b) (platform_read fs pc)"

definition set_usb_charging :: "'e sysfs \<Rightarrow> platform_controls \<Rightarrow> usb_charging \<Rightarrow> ('e, platform_state) pf_io" where
  "set_usb_charging fs pc mode = io_then (set_verified fs pc ''usb_charging'' ''USB charging''
     (show_word (threshold mode) @ ''\<newline>'') (read_optional_usb fs pc) mode) (platform_read fs pc)"

definition logo_payload :: "rear_logo_state \<Rightarrow> string" where
  "logo_payload l = hex_rgb (lg_color l) @ '','' @ show_word (lg_brightness l) @ '',''
     @ (if lg_enabled l then ''1'' else ''0'') @ ''\<newline>''"

definition set_rear_logo :: "'e sysfs \<Rightarrow> platform_controls \<Rightarrow> rear_logo_state \<Rightarrow> ('e, platform_state) pf_io" where
  "set_rear_logo fs pc request = (if lg_brightness request > 100
     then io_err (Pf_message ''rear logo brightness must be within 0..=100'')
     else io_then (set_verified fs pc ''rear_logo'' ''rear logo'' (logo_payload request) (read_optional_logo fs pc) request)
       (platform_read fs pc))"

end
