(* ===== verification/Platform_Safety.thy ===== *)
theory Platform_Safety
  imports Platform
begin

text \<open>
  What the platform controls promise: the state line is read back exactly by its parser, and a
  parsed line is always a well-formed state; the snapshot never fails and never writes; a
  setter that succeeds wrote its attribute once and read the requested value back.
\<close>

section \<open>The state line\<close>

definition valid_logo :: "rear_logo_state \<Rightarrow> bool" where
  "valid_logo l \<longleftrightarrow> lg_brightness l \<le> 100"

definition valid_platform_state :: "platform_state \<Rightarrow> bool" where
  "valid_platform_state s \<longleftrightarrow> and (ps_read_error_mask s) (not READ_ERROR_MASK_ALL) = 0
     \<and> (case ps_rear_logo s of None \<Rightarrow> True | Some l \<Rightarrow> valid_logo l)"

lemma parse_encode_bool [simp, roundtrip]: "parse_bool (encode_bool b) = Inr b"
  by (simp add: parse_bool_def encode_bool_def)

lemma parse_encode_optional_bool [simp, roundtrip]:
  "parse_optional_bool (encode_optional_bool b) = Inr b"
proof (cases b)
  case None
  then show ?thesis by (simp add: parse_optional_bool_def encode_optional_bool_def)
next
  case (Some x)
  have "encode_bool x \<noteq> ''unsupported''" by (simp add: encode_bool_def)
  with Some show ?thesis by (simp add: parse_optional_bool_def encode_optional_bool_def)
qed

lemma from_threshold_threshold [simp, roundtrip]: "from_threshold (threshold u) = Inr u"
  by (cases u) (simp_all add: from_threshold_def)

lemma threshold_from: "from_threshold v = Inr u \<Longrightarrow> threshold u = v"
  by (auto simp: from_threshold_def split: if_splits)

lemma show_word_not_unsupported [simp]:
  "show_word w \<noteq> ''unsupported''" "''unsupported'' \<noteq> show_word w"
proof -
  show "show_word w \<noteq> ''unsupported''"
  proof
    assume "show_word w = ''unsupported''"
    then have "CHR ''u'' \<in> set (show_nat (unat w))" by (simp add: show_word_def)
    then have "is_digit (CHR ''u'')" by (rule show_nat_digits)
    then show False by (simp add: char_defs)
  qed
  then show "''unsupported'' \<noteq> show_word w" by metis
qed

lemma parse_encode_usb [simp, roundtrip]: "parse_optional_usb (encode_usb u) = Inr u"
  by (cases u) (simp_all add: parse_optional_usb_def encode_usb_def)

lemma comma_not_hex: "CHR '','' \<notin> set (hex_rgb c)"
  using hex_rgb_chars [of "CHR '',''" c] by (auto simp: char_defs)

lemma comma_not_shown: "CHR '','' \<notin> set (show_word w)"
  unfolding show_word_def by (rule show_nat_no_sep) (simp add: char_defs)

lemma split_logo:
  "split_char (CHR '','') (hex_rgb c @ '','' @ show_word b @ '','' @ encode_bool e)
     = [hex_rgb c, show_word b, encode_bool e]"
proof -
  have "CHR '','' \<notin> set (encode_bool e)" by (simp add: encode_bool_def)
  then show ?thesis
    using split_char_join [of "[hex_rgb c, show_word b, encode_bool e]" "CHR '',''"]
    by (simp add: comma_not_hex comma_not_shown)
qed

lemma parse_encode_logo_value:
  assumes "valid_logo l"
  shows "parse_logo (hex_rgb (lg_color l) @ '','' @ show_word (lg_brightness l) @ '','' @ encode_bool (lg_enabled l)) = Inr l"
  using assms unfolding parse_logo_def split_logo by (simp add: valid_logo_def not_less)

lemma encoded_logo_supported:
  "hex_rgb c @ '','' @ rest \<noteq> ''unsupported''"
proof
  assume eq: "hex_rgb c @ '','' @ rest = ''unsupported''"
  have "CHR '','' \<in> set (hex_rgb c @ '','' @ rest)" by simp
  with eq have "CHR '','' \<in> set ''unsupported''" by simp
  then show False by simp
qed

lemma parse_encode_logo [simp, roundtrip]:
  assumes "case l of None \<Rightarrow> True | Some x \<Rightarrow> valid_logo x"
  shows "parse_optional_logo (encode_logo l) = Inr l"
proof (cases l)
  case None
  then show ?thesis by (simp add: parse_optional_logo_def encode_logo_def)
next
  case (Some x)
  with assms have "valid_logo x" by simp
  from parse_encode_logo_value [OF this] encoded_logo_supported Some show ?thesis
    by (simp add: parse_optional_logo_def encode_logo_def)
qed

lemma parse_encode_mask [simp, roundtrip]:
  "and m (not READ_ERROR_MASK_ALL) = 0 \<Longrightarrow> parse_read_error_mask (show_word m) = Inr m"
  by (simp add: parse_read_error_mask_def)

text \<open>Every field is a token, so the line splits back into its fields.\<close>

lemma token_encode_bool [simp]: "token (encode_bool b)"
  by (simp add: encode_bool_def token_literal char_defs)

lemma token_encode_optional_bool [simp]: "token (encode_optional_bool b)"
  by (cases b) (simp_all add: encode_optional_bool_def token_literal char_defs)

lemma token_encode_usb [simp]: "token (encode_usb u)"
  by (cases u) (simp_all add: encode_usb_def token_literal char_defs)

lemma token_encode_logo [simp]: "token (encode_logo l)"
proof (cases l)
  case None
  then show ?thesis by (simp add: encode_logo_def token_literal char_defs)
next
  case (Some x)
  have "token '',''" by (simp add: token_literal char_defs)
  then show ?thesis
    using Some token_append [of "hex_rgb (lg_color x)"] token_append [of "'',''"]
      token_append [of "show_word (lg_brightness x)"]
    by (simp add: encode_logo_def)
qed

lemma state_fields_tokens:
  "t \<in> set (map (\<lambda>(k, v). k @ ''='' @ v) (state_fields s)) \<Longrightarrow> token t"
proof -
  have kv: "token (k @ ''='' @ v)" if "token v" "list_all graphic k" for k v
    using that by (auto simp: token_def list_all_iff graphic_def byte_def)
  assume "t \<in> set (map (\<lambda>(k, v). k @ ''='' @ v) (state_fields s))"
  then show ?thesis
    by (simp only: state_fields_def list.map prod.case list.set insert_iff empty_iff)
      (elim disjE FalseE; simp only:; rule kv; simp add: char_defs)
qed

lemma parse_field_keys:
  "parse_field sl (k @ CHR ''='' # v) = parse_field sl (k @ ''='' @ v)"
  by simp

lemma split_once_field:
  "CHR ''='' \<notin> set k \<Longrightarrow> split_once (CHR ''='') (k @ ''='' @ v) = Some (k, v)"
  using split_once_append [of "CHR ''=''" k v] by simp

lemma parse_state_fields:
  assumes "valid_platform_state s"
  shows "parse_fields empty_slots (map (\<lambda>(k, v). k @ ''='' @ v) (state_fields s)) =
    Inr \<lparr>sl_battery_limit = Some (ps_battery_limit s), sl_battery_calibration = Some (ps_battery_calibration s),
      sl_usb_charging = Some (ps_usb_charging s), sl_keyboard_timeout = Some (ps_keyboard_timeout s),
      sl_boot_sound = Some (ps_boot_sound s), sl_lcd_override = Some (ps_lcd_override s),
      sl_rear_logo = Some (ps_rear_logo s), sl_read_error_mask = Some (ps_read_error_mask s)\<rparr>"
proof -
  from assms have m: "and (ps_read_error_mask s) (not READ_ERROR_MASK_ALL) = 0"
    and l: "case ps_rear_logo s of None \<Rightarrow> True | Some x \<Rightarrow> valid_logo x"
    by (simp_all add: valid_platform_state_def)
  show ?thesis
    unfolding state_fields_def list.map prod.case parse_fields.simps
    unfolding parse_field_def
    by (subst split_once_field, simp)+
      (simp add: empty_slots_def set_once_def m parse_encode_logo [OF l])
qed

lemma state_line_codec:
  assumes "valid_platform_state s"
  shows "parse_state (encode_state s) = Inr s"
proof -
  let ?fs = "map (\<lambda>(k, v). k @ ''='' @ v) (state_fields s)"
  have split: "split_ascii_ws (encode_state s) = ?fs"
    unfolding encode_state_def by (rule split_ascii_ws_tokens) (use state_fields_tokens in blast)
  have len: "length ?fs = 8" by (simp add: state_fields_def)
  show ?thesis
    unfolding parse_state_def Let_def split len parse_state_fields [OF assms]
    by (simp add: take_slot_def)
qed

text \<open>The platform state crosses the control socket unchanged: the parser of the client reads
  back exactly the state the daemon encoded, for every well-formed state.\<close>

theorem platform_state_round_trip:
  assumes "valid_platform_state s"
  shows "parse_state (encode_state s) = Inr s"
  by (rule state_line_codec [OF assms])

definition sample_platform_state :: platform_state where
  "sample_platform_state = \<lparr>ps_battery_limit = Some True, ps_battery_calibration = None,
     ps_usb_charging = Some Stop_at_20, ps_keyboard_timeout = Some False, ps_boot_sound = None,
     ps_lcd_override = Some True,
     ps_rear_logo = Some \<lparr>lg_enabled = True, lg_brightness = 80, lg_color = (0x12, 0xAB, 0xFF)\<rparr>,
     ps_read_error_mask = 18\<rparr>"

lemma sample_platform_valid: "valid_platform_state sample_platform_state"
  by code_simp

lemma platform_state_round_trip_witness:
  "parse_state (encode_state sample_platform_state) = Inr sample_platform_state"
  by (rule platform_state_round_trip [OF sample_platform_valid])

subsection \<open>Only well-formed states are parsed\<close>

definition valid_slots :: "state_slots \<Rightarrow> bool" where
  "valid_slots sl \<longleftrightarrow> (case sl_rear_logo sl of Some (Some l) \<Rightarrow> valid_logo l | _ \<Rightarrow> True)
     \<and> (case sl_read_error_mask sl of Some m \<Rightarrow> and m (not READ_ERROR_MASK_ALL) = 0 | None \<Rightarrow> True)"

lemma parse_logo_valid: "parse_logo v = Inr l \<Longrightarrow> valid_logo l"
  by (auto simp: parse_logo_def valid_logo_def res_bind_Inr_iff split: list.splits option.splits if_splits)

lemma parse_optional_logo_valid:
  "parse_optional_logo v = Inr l \<Longrightarrow> case l of None \<Rightarrow> True | Some x \<Rightarrow> valid_logo x"
  by (auto simp: parse_optional_logo_def res_bind_Inr_iff parse_logo_valid split: if_splits)

lemma parse_mask_valid: "parse_read_error_mask v = Inr m \<Longrightarrow> and m (not READ_ERROR_MASK_ALL) = 0"
  by (auto simp: parse_read_error_mask_def split: option.splits if_splits)

lemma set_once_Inr: "set_once slot v = Inr x \<longleftrightarrow> slot = None \<and> x = Some v"
  by (auto simp: set_once_def)

lemma parse_field_valid:
  assumes "parse_field sl f = Inr sl'" and "valid_slots sl"
  shows "valid_slots sl'"
proof -
  obtain k v where kv: "split_once (CHR ''='') f = Some (k, v)"
    using assms(1) by (auto simp: parse_field_def split: option.splits)
  show ?thesis
    using assms kv
    by (auto simp: parse_field_def res_bind_Inr_iff set_once_Inr valid_slots_def
        dest!: parse_optional_logo_valid parse_mask_valid split: if_splits option.splits)
qed

lemma parse_fields_valid: "parse_fields sl fs = Inr sl' \<Longrightarrow> valid_slots sl \<Longrightarrow> valid_slots sl'"
  by (induction sl fs rule: parse_fields.induct) (auto simp: res_bind_Inr_iff intro: parse_field_valid)

text \<open>Whatever text the platform parser accepts denotes a well-formed state: the error mask has
  known bits only and a logo brightness is at most 100.\<close>

theorem platform_parsed_valid:
  assumes "parse_state v = Inr s"
  shows "valid_platform_state s"
proof -
  from assms obtain sl where sl: "parse_fields empty_slots (split_ascii_ws v) = Inr sl"
    and logo: "sl_rear_logo sl = Some (ps_rear_logo s)"
    and mask: "sl_read_error_mask sl = Some (ps_read_error_mask s)"
    by (auto simp: parse_state_def Let_def res_bind_Inr_iff take_slot_def split: if_splits)
  have "valid_slots empty_slots" by (simp add: valid_slots_def empty_slots_def)
  with sl have "valid_slots sl" by (rule parse_fields_valid)
  with logo mask show ?thesis
    by (auto simp: valid_slots_def valid_platform_state_def split: option.splits)
qed

lemma platform_parsed_valid_witness: "valid_platform_state sample_platform_state"
  by (rule platform_parsed_valid [of "encode_state sample_platform_state"]) code_simp

section \<open>The snapshot\<close>

lemma read_optional_unwritten [io_keeps_intros]: "io_keeps unwritten (read_optional fs pc name label parse)"
  unfolding read_optional_def
  by (intro io_keeps_intros) (auto intro!: io_keeps_intros split: option.splits)

lemma platform_getters_unwritten [io_keeps_intros]:
  "io_keeps unwritten (read_optional_bool fs pc name label)"
  "io_keeps unwritten (read_optional_usb fs pc)"
  "io_keeps unwritten (read_optional_logo fs pc)"
  unfolding read_optional_bool_def read_optional_usb_def read_optional_logo_def
  by (rule read_optional_unwritten)+

lemma isolate_getter_run:
  assumes "io_keeps unwritten m"
  obtains v bad w' where "isolate_getter_failure m flag errs w = (Inr (v, or errs (if bad then flag else 0)), w')"
    and "unwritten w w'" and "bad \<longrightarrow> v = None" and "\<not> bad \<longrightarrow> fst (m w) = Inr v"
proof -
  obtain r w' where r: "m w = (r, w')" by (cases "m w")
  then have u: "unwritten w w'" using assms by (rule io_keepsD [rotated])
  show thesis
  proof (cases r)
    case (Inl x)
    with r have "isolate_getter_failure m flag errs w = (Inr (None, or errs (if True then flag else 0)), w')"
      by (simp add: isolate_getter_failure_def io_simps)
    with u show thesis by (intro that [of None True w']) simp_all
  next
    case (Inr v)
    with r have "isolate_getter_failure m flag errs w = (Inr (v, or errs (if False then flag else 0)), w')"
      by (simp add: isolate_getter_failure_def io_simps)
    with u r Inr show thesis by (intro that [of v False w']) simp_all
  qed
qed

definition error_mask_of :: "bool list \<Rightarrow> u8" where
  "error_mask_of bs = foldl or 0 (map2 (\<lambda>b f. if b then f else 0) bs [READ_ERROR_BATTERY_LIMIT,
     READ_ERROR_BATTERY_CALIBRATION, READ_ERROR_USB_CHARGING, READ_ERROR_KEYBOARD_TIMEOUT,
     READ_ERROR_BOOT_SOUND, READ_ERROR_LCD_OVERRIDE, READ_ERROR_REAR_LOGO])"

lemmas error_flags = READ_ERROR_BATTERY_LIMIT_def READ_ERROR_BATTERY_CALIBRATION_def
  READ_ERROR_USB_CHARGING_def READ_ERROR_KEYBOARD_TIMEOUT_def READ_ERROR_BOOT_SOUND_def
  READ_ERROR_LCD_OVERRIDE_def READ_ERROR_REAR_LOGO_def

lemma platform_read_run:
  obtains s w' b1 b2 b3 b4 b5 b6 b7 where "platform_read fs pc w = (Inr s, w')" and "unwritten w w'"
    and "ps_read_error_mask s = error_mask_of [b1, b2, b3, b4, b5, b6, b7]"
    and "b1 \<longrightarrow> ps_battery_limit s = None" and "b2 \<longrightarrow> ps_battery_calibration s = None"
    and "b3 \<longrightarrow> ps_usb_charging s = None" and "b4 \<longrightarrow> ps_keyboard_timeout s = None"
    and "b5 \<longrightarrow> ps_boot_sound s = None" and "b6 \<longrightarrow> ps_lcd_override s = None"
    and "b7 \<longrightarrow> ps_rear_logo s = None"
    and "\<forall>l. ps_rear_logo s = Some l \<longrightarrow> valid_logo l"
proof -
  obtain v1 b1 w1 where 1: "isolate_getter_failure (read_optional_bool fs pc ''battery_limit'' ''battery limit'')
      READ_ERROR_BATTERY_LIMIT 0 w = (Inr (v1, or 0 (if b1 then READ_ERROR_BATTERY_LIMIT else 0)) :: platform_error + _, w1)"
    "unwritten w w1" "b1 \<longrightarrow> v1 = None"
    using isolate_getter_run [OF platform_getters_unwritten(1)] by metis
  define m1 where "m1 = or 0 (if b1 then READ_ERROR_BATTERY_LIMIT else 0)"
  obtain v2 b2 w2 where 2: "isolate_getter_failure (read_optional_bool fs pc ''battery_calibration'' ''battery calibration'')
      READ_ERROR_BATTERY_CALIBRATION m1 w1 = (Inr (v2, or m1 (if b2 then READ_ERROR_BATTERY_CALIBRATION else 0)) :: platform_error + _, w2)"
    "unwritten w1 w2" "b2 \<longrightarrow> v2 = None"
    using isolate_getter_run [OF platform_getters_unwritten(1)] by metis
  define m2 where "m2 = or m1 (if b2 then READ_ERROR_BATTERY_CALIBRATION else 0)"
  obtain v3 b3 w3 where 3: "isolate_getter_failure (read_optional_usb fs pc)
      READ_ERROR_USB_CHARGING m2 w2 = (Inr (v3, or m2 (if b3 then READ_ERROR_USB_CHARGING else 0)) :: platform_error + _, w3)"
    "unwritten w2 w3" "b3 \<longrightarrow> v3 = None"
    using isolate_getter_run [OF platform_getters_unwritten(2)] by metis
  define m3 where "m3 = or m2 (if b3 then READ_ERROR_USB_CHARGING else 0)"
  obtain v4 b4 w4 where 4: "isolate_getter_failure (read_optional_bool fs pc ''keyboard_timeout'' ''keyboard timeout'')
      READ_ERROR_KEYBOARD_TIMEOUT m3 w3 = (Inr (v4, or m3 (if b4 then READ_ERROR_KEYBOARD_TIMEOUT else 0)) :: platform_error + _, w4)"
    "unwritten w3 w4" "b4 \<longrightarrow> v4 = None"
    using isolate_getter_run [OF platform_getters_unwritten(1)] by metis
  define m4 where "m4 = or m3 (if b4 then READ_ERROR_KEYBOARD_TIMEOUT else 0)"
  obtain v5 b5 w5 where 5: "isolate_getter_failure (read_optional_bool fs pc ''boot_sound'' ''boot sound'')
      READ_ERROR_BOOT_SOUND m4 w4 = (Inr (v5, or m4 (if b5 then READ_ERROR_BOOT_SOUND else 0)) :: platform_error + _, w5)"
    "unwritten w4 w5" "b5 \<longrightarrow> v5 = None"
    using isolate_getter_run [OF platform_getters_unwritten(1)] by metis
  define m5 where "m5 = or m4 (if b5 then READ_ERROR_BOOT_SOUND else 0)"
  obtain v6 b6 w6 where 6: "isolate_getter_failure (read_optional_bool fs pc ''lcd_override'' ''LCD override'')
      READ_ERROR_LCD_OVERRIDE m5 w5 = (Inr (v6, or m5 (if b6 then READ_ERROR_LCD_OVERRIDE else 0)) :: platform_error + _, w6)"
    "unwritten w5 w6" "b6 \<longrightarrow> v6 = None"
    using isolate_getter_run [OF platform_getters_unwritten(1)] by metis
  define m6 where "m6 = or m5 (if b6 then READ_ERROR_LCD_OVERRIDE else 0)"
  obtain v7 b7 w7 where 7: "isolate_getter_failure (read_optional_logo fs pc)
      READ_ERROR_REAR_LOGO m6 w6 = (Inr (v7, or m6 (if b7 then READ_ERROR_REAR_LOGO else 0)) :: platform_error + _, w7)"
    "unwritten w6 w7" "b7 \<longrightarrow> v7 = None" "\<not> b7 \<longrightarrow> fst (read_optional_logo fs pc w6) = Inr v7"
    using isolate_getter_run [OF platform_getters_unwritten(3)] by metis
  have logo: "valid_logo l" if l: "v7 = Some l" for l
  proof -
    from l 7 obtain w'' where "read_optional_logo fs pc w6 = (Inr (Some l), w'')"
      by (metis option.distinct(1) prod.collapse)
    then show ?thesis
      by (auto simp: read_optional_logo_def read_optional_def io_simps res_bind_Inr_iff parse_logo_valid
          elim!: io_bind_Inr split: option.splits prod.splits sum.splits)
  qed
  have u: "unwritten w w7"
    using 1(2) 2(2) 3(2) 4(2) 5(2) 6(2) 7(2) transp_unwritten unfolding transp_def by metis
  show thesis
  proof (rule that)
    show "platform_read fs pc w = (Inr \<lparr>ps_battery_limit = v1, ps_battery_calibration = v2, ps_usb_charging = v3,
        ps_keyboard_timeout = v4, ps_boot_sound = v5, ps_lcd_override = v6, ps_rear_logo = v7,
        ps_read_error_mask = or m6 (if b7 then READ_ERROR_REAR_LOGO else 0)\<rparr>, w7)"
      by (simp only: platform_read_def io_bind_apply 1(1) 2(1) [unfolded m1_def] 3(1) [unfolded m2_def m1_def]
        4(1) [unfolded m3_def m2_def m1_def] 5(1) [unfolded m4_def m3_def m2_def m1_def]
        6(1) [unfolded m5_def m4_def m3_def m2_def m1_def] 7(1) [unfolded m6_def m5_def m4_def m3_def m2_def m1_def]
        m6_def m5_def m4_def m3_def m2_def m1_def prod.case sum.case io_ret_apply)
  qed (use u 1 2 3 4 5 6 7 logo in \<open>simp_all add: error_mask_of_def m6_def m5_def m4_def m3_def m2_def m1_def\<close>)
qed

lemma error_mask_bits:
  "\<forall>b1 b2 b3 b4 b5 b6 b7.
     (and (error_mask_of [b1, b2, b3, b4, b5, b6, b7]) READ_ERROR_BATTERY_LIMIT \<noteq> 0) = b1
   \<and> (and (error_mask_of [b1, b2, b3, b4, b5, b6, b7]) READ_ERROR_BATTERY_CALIBRATION \<noteq> 0) = b2
   \<and> (and (error_mask_of [b1, b2, b3, b4, b5, b6, b7]) READ_ERROR_USB_CHARGING \<noteq> 0) = b3
   \<and> (and (error_mask_of [b1, b2, b3, b4, b5, b6, b7]) READ_ERROR_KEYBOARD_TIMEOUT \<noteq> 0) = b4
   \<and> (and (error_mask_of [b1, b2, b3, b4, b5, b6, b7]) READ_ERROR_BOOT_SOUND \<noteq> 0) = b5
   \<and> (and (error_mask_of [b1, b2, b3, b4, b5, b6, b7]) READ_ERROR_LCD_OVERRIDE \<noteq> 0) = b6
   \<and> (and (error_mask_of [b1, b2, b3, b4, b5, b6, b7]) READ_ERROR_REAR_LOGO \<noteq> 0) = b7
   \<and> and (error_mask_of [b1, b2, b3, b4, b5, b6, b7]) (not READ_ERROR_MASK_ALL) = 0"
  by code_simp

text \<open>A field whose error bit is set carries no value.\<close>

definition failed_absent :: "platform_state \<Rightarrow> bool" where
  "failed_absent s \<longleftrightarrow> (let failed = (\<lambda>flag. and (ps_read_error_mask s) flag \<noteq> 0) in
     \<not> (failed READ_ERROR_BATTERY_LIMIT \<and> ps_battery_limit s \<noteq> None)
   \<and> \<not> (failed READ_ERROR_BATTERY_CALIBRATION \<and> ps_battery_calibration s \<noteq> None)
   \<and> \<not> (failed READ_ERROR_USB_CHARGING \<and> ps_usb_charging s \<noteq> None)
   \<and> \<not> (failed READ_ERROR_KEYBOARD_TIMEOUT \<and> ps_keyboard_timeout s \<noteq> None)
   \<and> \<not> (failed READ_ERROR_BOOT_SOUND \<and> ps_boot_sound s \<noteq> None)
   \<and> \<not> (failed READ_ERROR_LCD_OVERRIDE \<and> ps_lcd_override s \<noteq> None)
   \<and> \<not> (failed READ_ERROR_REAR_LOGO \<and> ps_rear_logo s \<noteq> None))"

text \<open>Reading the platform state never fails and never writes, whatever the kernel answers: a
  getter that fails only sets its bit in the error mask and leaves its field empty, and the
  resulting state can be sent over the socket.\<close>

theorem platform_read_isolates:
  "\<exists>s w'. platform_read fs pc w = (Inr s, w') \<and> unwritten w w' \<and> valid_platform_state s
     \<and> failed_absent s \<and> parse_state (encode_state s) = Inr s"
proof -
  obtain s w' b1 b2 b3 b4 b5 b6 b7 where run: "platform_read fs pc w = (Inr s, w')" "unwritten w w'"
    and mask: "ps_read_error_mask s = error_mask_of [b1, b2, b3, b4, b5, b6, b7]"
    and absent: "b1 \<longrightarrow> ps_battery_limit s = None" "b2 \<longrightarrow> ps_battery_calibration s = None"
     "b3 \<longrightarrow> ps_usb_charging s = None" "b4 \<longrightarrow> ps_keyboard_timeout s = None"
     "b5 \<longrightarrow> ps_boot_sound s = None" "b6 \<longrightarrow> ps_lcd_override s = None" "b7 \<longrightarrow> ps_rear_logo s = None"
    and logo: "\<forall>l. ps_rear_logo s = Some l \<longrightarrow> valid_logo l"
    by (rule platform_read_run [of fs pc w])
  note bits = error_mask_bits [rule_format, of b1 b2 b3 b4 b5 b6 b7]
  have valid: "valid_platform_state s"
    using bits logo by (simp add: valid_platform_state_def mask split: option.splits)
  have "failed_absent s"
    using bits absent unfolding failed_absent_def Let_def mask by auto
  moreover have "parse_state (encode_state s) = Inr s"
    using state_line_codec [OF valid] .
  ultimately show ?thesis using run valid by blast
qed

section \<open>Verified setters\<close>

lemma set_verified_run:
  assumes run: "set_verified fs pc name label payload getter v w = (r, w')"
    and quiet: "io_keeps unwritten getter"
  shows "(w' = w \<and> attribute_path fs pc name (wenv w) = None \<and> \<not> is_ok r)
    \<or> (\<exists>p. attribute_path fs pc name (wenv w) = Some p \<and> wrote p payload w w'
          \<and> (is_ok r \<longrightarrow> (\<exists>w1. getter w1 = (Inr (Some v), w') \<and> wrote p payload w w1)))"
proof (cases "attribute_path fs pc name (wenv w)")
  case None
  with run show ?thesis
    by (auto simp: set_verified_def require_attribute_def io_simps fs_query_def)
next
  case (Some p)
  obtain q w1 where wr: "fs_write fs p payload w = (q, w1)" by (cases "fs_write fs p payload w")
  then have one: "wrote p payload w w1" by (rule fs_write_wrote)
  show ?thesis
  proof (cases q)
    case (Inl x)
    with run Some wr one show ?thesis
      by (auto simp: set_verified_def require_attribute_def io_simps fs_query_def)
  next
    case (Inr u)
    obtain g w2 where g: "getter w1 = (g, w2)" by (cases "getter w1")
    with quiet have "unwritten w1 w2" by (rule io_keepsD)
    with one have two: "wrote p payload w w2" by (rule wrote_unwritten)
    have "w' = w2" "is_ok r \<longrightarrow> g = Inr (Some v)"
      using run Some wr Inr g
      by (cases g; auto simp: set_verified_def require_attribute_def io_simps fs_query_def split: if_splits)+
    with Some two one g show ?thesis by blast
  qed
qed

text \<open>The seven setters as requests, with the attribute and text each one writes.\<close>

datatype platform_request =
    Req_battery_limit bool | Req_battery_calibration bool | Req_usb_charging usb_charging
  | Req_keyboard_timeout bool | Req_boot_sound bool | Req_lcd_override bool | Req_rear_logo rear_logo_state

fun apply_request :: "'e sysfs \<Rightarrow> platform_controls \<Rightarrow> platform_request \<Rightarrow> ('e, platform_state) pf_io" where
  "apply_request fs pc (Req_battery_limit b) = set_battery_limit fs pc b"
| "apply_request fs pc (Req_battery_calibration b) = set_battery_calibration fs pc b"
| "apply_request fs pc (Req_usb_charging u) = set_usb_charging fs pc u"
| "apply_request fs pc (Req_keyboard_timeout b) = set_keyboard_timeout fs pc b"
| "apply_request fs pc (Req_boot_sound b) = set_boot_sound fs pc b"
| "apply_request fs pc (Req_lcd_override b) = set_lcd_override fs pc b"
| "apply_request fs pc (Req_rear_logo l) = set_rear_logo fs pc l"

fun request_attribute :: "platform_request \<Rightarrow> string" where
  "request_attribute (Req_battery_limit b) = ''battery_limit''"
| "request_attribute (Req_battery_calibration b) = ''battery_calibration''"
| "request_attribute (Req_usb_charging u) = ''usb_charging''"
| "request_attribute (Req_keyboard_timeout b) = ''keyboard_timeout''"
| "request_attribute (Req_boot_sound b) = ''boot_sound''"
| "request_attribute (Req_lcd_override b) = ''lcd_override''"
| "request_attribute (Req_rear_logo l) = ''rear_logo''"

definition bool_payload :: "bool \<Rightarrow> string" where
  "bool_payload b = (if b then ''1\<newline>'' else ''0\<newline>'')"

fun request_payload :: "platform_request \<Rightarrow> string" where
  "request_payload (Req_usb_charging u) = show_word (threshold u) @ ''\<newline>''"
| "request_payload (Req_rear_logo l) = logo_payload l"
| "request_payload (Req_battery_limit b) = bool_payload b"
| "request_payload (Req_battery_calibration b) = bool_payload b"
| "request_payload (Req_keyboard_timeout b) = bool_payload b"
| "request_payload (Req_boot_sound b) = bool_payload b"
| "request_payload (Req_lcd_override b) = bool_payload b"

definition bool_confirmed :: "'e sysfs \<Rightarrow> platform_controls \<Rightarrow> string \<Rightarrow> bool \<Rightarrow> 'e world \<Rightarrow> bool" where
  "bool_confirmed fs pc name b w \<longleftrightarrow>
     (\<exists>label w'. read_optional_bool fs pc name label w = (Inr (Some b), w'))"

text \<open>In world \<open>w\<close> the attribute of the request reads as the requested value.\<close>

fun request_confirmed :: "'e sysfs \<Rightarrow> platform_controls \<Rightarrow> platform_request \<Rightarrow> 'e world \<Rightarrow> bool" where
  "request_confirmed fs pc (Req_usb_charging u) w = (\<exists>w'. read_optional_usb fs pc w = (Inr (Some u), w'))"
| "request_confirmed fs pc (Req_rear_logo l) w = (\<exists>w'. read_optional_logo fs pc w = (Inr (Some l), w'))"
| "request_confirmed fs pc (Req_battery_limit b) w = bool_confirmed fs pc ''battery_limit'' b w"
| "request_confirmed fs pc (Req_battery_calibration b) w = bool_confirmed fs pc ''battery_calibration'' b w"
| "request_confirmed fs pc (Req_keyboard_timeout b) w = bool_confirmed fs pc ''keyboard_timeout'' b w"
| "request_confirmed fs pc (Req_boot_sound b) w = bool_confirmed fs pc ''boot_sound'' b w"
| "request_confirmed fs pc (Req_lcd_override b) w = bool_confirmed fs pc ''lcd_override'' b w"

lemma platform_read_total:
  obtains s w' where "platform_read fs pc w = (Inr s, w')" and "unwritten w w'"
  by (rule platform_read_run [of fs pc w]) (rule that)

lemma setter_then_snapshot:
  assumes run: "io_then (set_verified fs pc name label payload getter v) (platform_read fs pc) w = (r, w')"
    and quiet: "io_keeps unwritten getter"
  shows "(unwritten w w' \<and> attribute_path fs pc name (wenv w) = None \<and> \<not> is_ok r)
    \<or> (\<exists>p. attribute_path fs pc name (wenv w) = Some p \<and> wrote p payload w w'
          \<and> (is_ok r \<longrightarrow> (\<exists>w1 w2. wrote p payload w w1 \<and> getter w1 = (Inr (Some v), w2)
                \<and> platform_read fs pc w2 = (r, w'))))"
proof -
  obtain q w1 where q: "set_verified fs pc name label payload getter v w = (q, w1)"
    by (cases "set_verified fs pc name label payload getter v w")
  note s = set_verified_run [OF q quiet]
  obtain st w2 where rd: "platform_read fs pc w1 = (Inr st, w2)" "unwritten w1 w2"
    by (rule platform_read_total)
  show ?thesis
  proof (cases q)
    case (Inl x)
    with run q have "r = Inl x" "w' = w1" by (simp_all add: io_then_apply)
    with s Inl show ?thesis by auto
  next
    case (Inr u)
    with run q rd have "r = Inr st" "w' = w2" by (simp_all add: io_then_apply)
    moreover from s Inr obtain p w3 where "attribute_path fs pc name (wenv w) = Some p"
      "wrote p payload w w1" "getter w3 = (Inr (Some v), w1)" "wrote p payload w w3"
      by auto
    ultimately show ?thesis using rd wrote_unwritten by metis
  qed
qed

text \<open>C8: A platform setter writes at most once: nothing when the firmware lacks the attribute or the
  brightness is out of range, otherwise exactly the request's text to the request's attribute;
  and it succeeds only after the attribute was read back as the requested value.\<close>

theorem platform_setter_verified:
  assumes "apply_request fs pc req w = (r, w')"
  shows "(writes_of (events_between w w') = [] \<and> \<not> is_ok r)
    \<or> (\<exists>p. attribute_path fs pc (request_attribute req) (wenv w) = Some p
         \<and> writes_of (events_between w w') = [(p, request_payload req)]
         \<and> (is_ok r \<longrightarrow> (\<exists>w1. wrote p (request_payload req) w w1 \<and> request_confirmed fs pc req w1)))"
proof -
  have main: ?thesis
    if "io_then (set_verified fs pc (request_attribute req) label (request_payload req) getter v)
          (platform_read fs pc) w = (r, w')"
      and "io_keeps unwritten getter"
      and "\<And>w1 w2. getter w1 = (Inr (Some v), w2) \<Longrightarrow> request_confirmed fs pc req w1"
    for label and getter :: "('a, 'c option) pf_io" and v
    using setter_then_snapshot [OF that(1,2)] that(3) wrote_events unwritten_events by metis
  show ?thesis
  proof (cases req)
    case (Req_rear_logo l)
    show ?thesis
    proof (cases "lg_brightness l > 100")
      case True
      with assms Req_rear_logo show ?thesis
        by (auto simp: set_rear_logo_def io_err_apply events_between_def)
    next
      case False
      with assms Req_rear_logo show ?thesis
        by (intro main [of "''rear logo''" "read_optional_logo fs pc" l])
          (auto simp: set_rear_logo_def intro!: io_keeps_intros)
    qed
  next
    case (Req_usb_charging u)
    with assms show ?thesis
      by (intro main [of "''USB charging''" "read_optional_usb fs pc" u])
        (auto simp: set_usb_charging_def intro!: io_keeps_intros)
  next
    case (Req_battery_limit b)
    with assms show ?thesis
      by (intro main [of "''battery limit''" "read_optional_bool fs pc ''battery_limit'' ''battery limit''" b])
        (auto simp: set_battery_limit_def set_bool_def bool_payload_def bool_confirmed_def intro!: io_keeps_intros)
  next
    case (Req_battery_calibration b)
    with assms show ?thesis
      by (intro main [of "''battery calibration''" "read_optional_bool fs pc ''battery_calibration'' ''battery calibration''" b])
        (auto simp: set_battery_calibration_def set_bool_def bool_payload_def bool_confirmed_def intro!: io_keeps_intros)
  next
    case (Req_keyboard_timeout b)
    with assms show ?thesis
      by (intro main [of "''keyboard timeout''" "read_optional_bool fs pc ''keyboard_timeout'' ''keyboard timeout''" b])
        (auto simp: set_keyboard_timeout_def set_bool_def bool_payload_def bool_confirmed_def intro!: io_keeps_intros)
  next
    case (Req_boot_sound b)
    with assms show ?thesis
      by (intro main [of "''boot sound''" "read_optional_bool fs pc ''boot_sound'' ''boot sound''" b])
        (auto simp: set_boot_sound_def set_bool_def bool_payload_def bool_confirmed_def intro!: io_keeps_intros)
  next
    case (Req_lcd_override b)
    with assms show ?thesis
      by (intro main [of "''LCD override''" "read_optional_bool fs pc ''lcd_override'' ''LCD override''" b])
        (auto simp: set_lcd_override_def set_bool_def bool_payload_def bool_confirmed_def intro!: io_keeps_intros)
  qed
qed

end
