(* ===== verification/Platform_Delivery.thy ===== *)
theory Platform_Delivery
  imports Platform_Safety
begin

text \<open>
  On attributes that keep what is written, a platform request is delivered: the setter succeeds
  and the state it returns shows the requested value. The argument uses only the laws of
  \<open>file_store\<close> and is applied to a directory of files.
\<close>

section \<open>Getters on a store\<close>

definition requested :: "platform_request \<Rightarrow> platform_state \<Rightarrow> bool" where
  "requested req s \<longleftrightarrow> (case req of
      Req_battery_limit b \<Rightarrow> ps_battery_limit s = Some b
    | Req_battery_calibration b \<Rightarrow> ps_battery_calibration s = Some b
    | Req_usb_charging u \<Rightarrow> ps_usb_charging s = Some u
    | Req_keyboard_timeout b \<Rightarrow> ps_keyboard_timeout s = Some b
    | Req_boot_sound b \<Rightarrow> ps_boot_sound s = Some b
    | Req_lcd_override b \<Rightarrow> ps_lcd_override s = Some b
    | Req_rear_logo l \<Rightarrow> ps_rear_logo s = Some l)"

definition valid_request :: "platform_request \<Rightarrow> bool" where
  "valid_request req \<longleftrightarrow> (case req of Req_rear_logo l \<Rightarrow> valid_logo l | _ \<Rightarrow> True)"

lemma isolate_reader:
  assumes "env_reader m"
  shows "env_reader (isolate_getter_failure m flag errs)"
  unfolding isolate_getter_failure_def by (intro env_reader_try assms env_reader_ret)

lemma isolate_value:
  "m w = (Inr v, w') \<Longrightarrow> isolate_getter_failure m flag errs w = (Inr (v, errs), w')"
  by (simp add: isolate_getter_failure_def io_simps)

text \<open>Each field of the snapshot is what its getter yields in the unchanged environment.\<close>

definition field_of :: "('e, 'a option) pf_io \<Rightarrow> 'e world \<Rightarrow> 'a option" where
  "field_of m w = (case fst (m w) of Inr v \<Rightarrow> v | Inl _ \<Rightarrow> None)"

lemma field_of_env: "env_reader m \<Longrightarrow> wenv v = wenv w \<Longrightarrow> field_of m v = field_of m w"
  unfolding field_of_def by (metis env_readerD(2))

lemma isolate_field:
  assumes "env_reader m"
  obtains errs' w' where "isolate_getter_failure m flag errs w = (Inr (field_of m w, errs') :: platform_error + _, w')"
    and "wenv w' = wenv w"
proof -
  obtain r w' where r: "m w = (r, w')" by (cases "m w")
  then have e: "wenv w' = wenv w" using env_readerD(1) [OF assms, of w] by simp
  show thesis
  proof (cases r)
    case (Inl x)
    with r have "isolate_getter_failure m flag errs w = (Inr (field_of m w, or errs flag), w')"
      by (simp add: isolate_getter_failure_def io_simps field_of_def)
    with e show thesis by (rule that [rotated])
  next
    case (Inr v)
    with r have "isolate_getter_failure m flag errs w = (Inr (field_of m w, errs), w')"
      by (simp add: isolate_getter_failure_def io_simps field_of_def)
    with e show thesis by (rule that [rotated])
  qed
qed

lemma platform_read_fields:
  assumes b: "\<And>name label. env_reader (read_optional_bool fs pc name label)"
    and u: "env_reader (read_optional_usb fs pc)" and l: "env_reader (read_optional_logo fs pc)"
  obtains s w' where "platform_read fs pc w = (Inr s, w')"
    and "ps_battery_limit s = field_of (read_optional_bool fs pc ''battery_limit'' ''battery limit'') w"
    and "ps_battery_calibration s = field_of (read_optional_bool fs pc ''battery_calibration'' ''battery calibration'') w"
    and "ps_usb_charging s = field_of (read_optional_usb fs pc) w"
    and "ps_keyboard_timeout s = field_of (read_optional_bool fs pc ''keyboard_timeout'' ''keyboard timeout'') w"
    and "ps_boot_sound s = field_of (read_optional_bool fs pc ''boot_sound'' ''boot sound'') w"
    and "ps_lcd_override s = field_of (read_optional_bool fs pc ''lcd_override'' ''LCD override'') w"
    and "ps_rear_logo s = field_of (read_optional_logo fs pc) w"
proof -
  note step = isolate_field [OF b] isolate_field [OF u] isolate_field [OF l]
  obtain m1 w1 where 1: "isolate_getter_failure (read_optional_bool fs pc ''battery_limit'' ''battery limit'')
      READ_ERROR_BATTERY_LIMIT 0 w = (Inr (field_of (read_optional_bool fs pc ''battery_limit'' ''battery limit'') w, m1) :: platform_error + _, w1)" "wenv w1 = wenv w"
    by (rule step(1))
  obtain m2 w2 where 2: "isolate_getter_failure (read_optional_bool fs pc ''battery_calibration'' ''battery calibration'')
      READ_ERROR_BATTERY_CALIBRATION m1 w1 = (Inr (field_of (read_optional_bool fs pc ''battery_calibration'' ''battery calibration'') w1, m2) :: platform_error + _, w2)" "wenv w2 = wenv w1"
    by (rule step(1))
  obtain m3 w3 where 3: "isolate_getter_failure (read_optional_usb fs pc)
      READ_ERROR_USB_CHARGING m2 w2 = (Inr (field_of (read_optional_usb fs pc) w2, m3) :: platform_error + _, w3)" "wenv w3 = wenv w2"
    by (rule step(2))
  obtain m4 w4 where 4: "isolate_getter_failure (read_optional_bool fs pc ''keyboard_timeout'' ''keyboard timeout'')
      READ_ERROR_KEYBOARD_TIMEOUT m3 w3 = (Inr (field_of (read_optional_bool fs pc ''keyboard_timeout'' ''keyboard timeout'') w3, m4) :: platform_error + _, w4)" "wenv w4 = wenv w3"
    by (rule step(1))
  obtain m5 w5 where 5: "isolate_getter_failure (read_optional_bool fs pc ''boot_sound'' ''boot sound'')
      READ_ERROR_BOOT_SOUND m4 w4 = (Inr (field_of (read_optional_bool fs pc ''boot_sound'' ''boot sound'') w4, m5) :: platform_error + _, w5)" "wenv w5 = wenv w4"
    by (rule step(1))
  obtain m6 w6 where 6: "isolate_getter_failure (read_optional_bool fs pc ''lcd_override'' ''LCD override'')
      READ_ERROR_LCD_OVERRIDE m5 w5 = (Inr (field_of (read_optional_bool fs pc ''lcd_override'' ''LCD override'') w5, m6) :: platform_error + _, w6)" "wenv w6 = wenv w5"
    by (rule step(1))
  obtain m7 w7 where 7: "isolate_getter_failure (read_optional_logo fs pc)
      READ_ERROR_REAR_LOGO m6 w6 = (Inr (field_of (read_optional_logo fs pc) w6, m7) :: platform_error + _, w7)" "wenv w7 = wenv w6"
    by (rule step(3))
  show thesis
  proof (rule that)
    show "platform_read fs pc w = (Inr \<lparr>ps_battery_limit = field_of (read_optional_bool fs pc ''battery_limit'' ''battery limit'') w,
        ps_battery_calibration = field_of (read_optional_bool fs pc ''battery_calibration'' ''battery calibration'') w1,
        ps_usb_charging = field_of (read_optional_usb fs pc) w2,
        ps_keyboard_timeout = field_of (read_optional_bool fs pc ''keyboard_timeout'' ''keyboard timeout'') w3,
        ps_boot_sound = field_of (read_optional_bool fs pc ''boot_sound'' ''boot sound'') w4,
        ps_lcd_override = field_of (read_optional_bool fs pc ''lcd_override'' ''LCD override'') w5,
        ps_rear_logo = field_of (read_optional_logo fs pc) w6, ps_read_error_mask = m7\<rparr>, w7)"
      by (simp only: platform_read_def io_bind_apply 1(1) 2(1) 3(1) 4(1) 5(1) 6(1) 7(1) prod.case sum.case io_ret_apply)
  qed (simp_all only: platform_state.select_convs,
      (rule field_of_env [OF b] field_of_env [OF u] field_of_env [OF l], simp only: 1(2) 2(2) 3(2) 4(2) 5(2) 6(2) 7(2))+)
qed

section \<open>Delivery\<close>

context file_store
begin

lemma read_optional_reader: "env_reader (read_optional fs pc name label parse)"
  unfolding read_optional_def
  by (auto intro!: env_reader_bind env_readers store_read_reader split: option.split)

lemma getters_readers:
  "env_reader (read_optional_bool fs pc name label)" "env_reader (read_optional_usb fs pc)"
  "env_reader (read_optional_logo fs pc)"
  unfolding read_optional_bool_def read_optional_usb_def read_optional_logo_def by (rule read_optional_reader)+

lemma attribute_path_stable:
  assumes "val e p = Some s" and "val e' = (val e)(p \<mapsto> v)"
  shows "attribute_path fs pc name e' = attribute_path fs pc name e"
proof -
  have "k_is_file fs q e' = k_is_file fs q e" for q using assms by (simp add: file_present)
  then show ?thesis by (simp add: attribute_path_def cong: option.case_cong)
qed

lemma attribute_path_present:
  assumes "attribute_path fs pc name e = Some p" obtains s where "val e p = Some s"
proof -
  from assms have "k_is_file fs p e"
    by (auto simp: attribute_path_def Let_def or_else_def split: option.splits if_splits)
  then show thesis using that by (auto simp: file_present)
qed

lemma read_optional_value:
  assumes "attribute_path fs pc name (wenv w) = Some p" and "val (wenv w) p = Some t" and "utf8_valid t"
    and "parse (str_trim t) = Inr x"
  shows "fst (read_optional fs pc name label parse w) = Inr (Some x)"
proof -
  obtain w' where "fs_read_to_string fs p w = (Inr t, w')"
    using fs_read_val [OF assms(2,3)] by blast
  with assms(1,4) show ?thesis
    by (simp add: read_optional_def io_simps fs_query_def)
qed

lemma setter_delivers:
  assumes path: "attribute_path fs pc name (wenv w) = Some p"
    and plain: "utf8_valid payload" and parsed: "parse (str_trim payload) = Inr v"
  obtains s w1 w' where
    "io_then (set_verified fs pc name label payload (read_optional fs pc name label parse) v) (platform_read fs pc) w = (Inr s, w')"
    and "platform_read fs pc w1 = (Inr s, w')"
    and "field_of (read_optional fs pc name label parse) w1 = Some v"
proof -
  obtain old where old: "val (wenv w) p = Some old" using attribute_path_present [OF path] .
  obtain w0 where w0: "fs_write fs p payload w = (Inr (), w0)" "val (wenv w0) = (val (wenv w))(p \<mapsto> payload)"
    using fs_create_val [OF old] .
  have path0: "attribute_path fs pc name (wenv w0) = Some p"
    using attribute_path_stable [OF old w0(2)] path by simp
  have val0: "val (wenv w0) p = Some payload" using w0(2) by simp
  note got = read_optional_value [OF path0 val0 plain, where parse = parse, OF parsed]
  obtain r w1 where g: "read_optional fs pc name label parse w0 = (r, w1)"
    by (cases "read_optional fs pc name label parse w0")
  with got have r: "r = Inr (Some v)" by (metis fst_conv)
  have same: "wenv w1 = wenv w0" using env_readerD(1) [OF read_optional_reader, of pc name label parse w0] g by simp
  obtain s w' where rd: "platform_read fs pc w1 = (Inr s, w')"
    using platform_read_total by blast
  have path1: "attribute_path fs pc name (wenv w1) = Some p" and val1: "val (wenv w1) p = Some payload"
    using path0 val0 same by simp_all
  show thesis
  proof (rule that [OF _ rd])
    show "io_then (set_verified fs pc name label payload (read_optional fs pc name label parse) v) (platform_read fs pc) w = (Inr s, w')"
      using path w0(1) g r rd by (simp add: set_verified_def require_attribute_def io_simps fs_query_def)
    show "field_of (read_optional fs pc name label parse) w1 = Some v"
      unfolding field_of_def read_optional_value [where parse = parse, OF path1 val1 plain parsed] by simp
  qed
qed

end

text \<open>The texts the setters write are read back as the requested values.\<close>

lemma bool_payload_text: "utf8_valid (bool_payload b)" "parse_bool (str_trim (bool_payload b)) = Inr b"
proof -
  have "token ''0''" "token ''1''" by (simp_all add: token_literal char_defs)
  from token_line [OF this(1)] token_line [OF this(2)]
  show "utf8_valid (bool_payload b)" "parse_bool (str_trim (bool_payload b)) = Inr b"
    by (cases b; simp add: bool_payload_def parse_bool_def)+
qed

lemma usb_payload_text:
  "utf8_valid (show_word (threshold u) @ ''\<newline>'')"
  "parse_u8 (str_trim (show_word (threshold u) @ ''\<newline>'')) = Some (threshold u)"
  by (simp_all add: token_line)

lemma logo_payload_text:
  assumes "valid_logo l"
  shows "utf8_valid (logo_payload l)" and "parse_logo (str_trim (logo_payload l)) = Inr l"
proof -
  let ?f = "if lg_enabled l then ''1'' else ''0''"
  let ?t = "hex_rgb (lg_color l) @ '','' @ show_word (lg_brightness l) @ '','' @ ?f"
  have tk: "token ?t"
    by (intro token_append token_hex_rgb token_show_word token_literal) (simp_all add: char_defs)
  have pl: "logo_payload l = ?t @ ''\<newline>''" by (simp add: logo_payload_def)
  show "utf8_valid (logo_payload l)" unfolding pl by (rule token_line(1) [OF tk])
  have "CHR '','' \<notin> set ?f" by simp
  then have split: "split_char (CHR '','') ?t = [hex_rgb (lg_color l), show_word (lg_brightness l), ?f]"
    using split_char_join [of "[hex_rgb (lg_color l), show_word (lg_brightness l), ?f]" "CHR '',''"]
    by (simp add: comma_not_hex comma_not_shown)
  show "parse_logo (str_trim (logo_payload l)) = Inr l"
    unfolding pl token_line(2) [OF tk] parse_logo_def split
    using assms by (auto simp: valid_logo_def not_less parse_bool_def)
qed

context file_store
begin

lemma bool_setter_delivers:
  assumes "attribute_path fs pc name (wenv w) = Some p"
  obtains s w1 w' where "io_then (set_bool fs pc name label b) (platform_read fs pc) w = (Inr s, w')"
    and "platform_read fs pc w1 = (Inr s, w')" and "field_of (read_optional_bool fs pc name label) w1 = Some b"
proof -
  have "res_map_err (\<lambda>_. Pf_message (''invalid '' @ label @ '' readback''))
      (parse_bool (str_trim (bool_payload b))) = Inr b"
    by (simp add: bool_payload_text)
  note delivered = setter_delivers [where label = label, OF assms bool_payload_text(1)
      [of b], of "\<lambda>v. res_map_err (\<lambda>_. Pf_message (''invalid '' @ label @ '' readback'')) (parse_bool v)", OF this]
  show thesis
    by (rule delivered [unfolded bool_payload_def], rule that [unfolded set_bool_def read_optional_bool_def])
qed

lemma usb_setter_delivers:
  assumes "attribute_path fs pc ''usb_charging'' (wenv w) = Some p"
  obtains s w1 w' where "set_usb_charging fs pc u w = (Inr s, w')"
    and "platform_read fs pc w1 = (Inr s, w')" and "field_of (read_optional_usb fs pc) w1 = Some u"
proof -
  have "res_bind (ok_or (Pf_message ''invalid USB charging readback'')
      (parse_u8 (str_trim (show_word (threshold u) @ ''\<newline>'')))) from_threshold = Inr u"
    by (simp only: usb_payload_text ok_or_simps res_bind_simps from_threshold_threshold)
  note delivered = setter_delivers [where label = "''USB charging''", OF assms usb_payload_text(1) [of u],
      of "\<lambda>v. res_bind (ok_or (Pf_message ''invalid USB charging readback'') (parse_u8 v)) from_threshold", OF this]
  show thesis
    by (rule delivered, rule that [unfolded set_usb_charging_def read_optional_usb_def])
qed

lemma logo_setter_delivers:
  assumes "attribute_path fs pc ''rear_logo'' (wenv w) = Some p" and v: "valid_logo l"
  obtains s w1 w' where "set_rear_logo fs pc l w = (Inr s, w')"
    and "platform_read fs pc w1 = (Inr s, w')" and "field_of (read_optional_logo fs pc) w1 = Some l"
proof -
  from v have eq: "set_rear_logo fs pc l = io_then (set_verified fs pc ''rear_logo'' ''rear logo'' (logo_payload l)
      (read_optional_logo fs pc) l) (platform_read fs pc)"
    by (simp add: set_rear_logo_def valid_logo_def not_less [symmetric])
  note delivered = setter_delivers [where label = "''rear logo''", OF assms(1) logo_payload_text(1) [OF v],
      of parse_logo, OF logo_payload_text(2) [OF v]]
  show thesis
    by (rule delivered, rule that [unfolded eq read_optional_logo_def])
qed

lemma request_delivers:
  assumes path: "attribute_path fs pc (request_attribute req) (wenv w) = Some p" and valid: "valid_request req"
  obtains s w' where "apply_request fs pc req w = (Inr s, w')" and "requested req s"
proof -
  note fields = platform_read_fields [OF getters_readers]
  note goal = that
  have bool: thesis
    if name: "request_attribute req = name" and eq: "apply_request fs pc req = io_then (set_bool fs pc name label b) (platform_read fs pc)"
      and shown: "\<And>s w1 w'. platform_read fs pc w1 = (Inr s, w') \<Longrightarrow>
         field_of (read_optional_bool fs pc name label) w1 = Some b \<Longrightarrow> requested req s" for name label b
  proof -
    from path name have "attribute_path fs pc name (wenv w) = Some p" by simp
    then obtain s w1 w' where "io_then (set_bool fs pc name label b) (platform_read fs pc) w = (Inr s, w')"
      "platform_read fs pc w1 = (Inr s, w')" "field_of (read_optional_bool fs pc name label) w1 = Some b"
      by (rule bool_setter_delivers)
    with eq shown goal show thesis by metis
  qed
  show thesis
  proof (cases req)
    case (Req_battery_limit b)
    show thesis
      by (rule bool [of "''battery_limit''" "''battery limit''" b])
        (simp_all add: Req_battery_limit set_battery_limit_def requested_def, metis Inr_inject Pair_inject fields)
  next
    case (Req_battery_calibration b)
    show thesis
      by (rule bool [of "''battery_calibration''" "''battery calibration''" b])
        (simp_all add: Req_battery_calibration set_battery_calibration_def requested_def, metis Inr_inject Pair_inject fields)
  next
    case (Req_keyboard_timeout b)
    show thesis
      by (rule bool [of "''keyboard_timeout''" "''keyboard timeout''" b])
        (simp_all add: Req_keyboard_timeout set_keyboard_timeout_def requested_def, metis Inr_inject Pair_inject fields)
  next
    case (Req_boot_sound b)
    show thesis
      by (rule bool [of "''boot_sound''" "''boot sound''" b])
        (simp_all add: Req_boot_sound set_boot_sound_def requested_def, metis Inr_inject Pair_inject fields)
  next
    case (Req_lcd_override b)
    show thesis
      by (rule bool [of "''lcd_override''" "''LCD override''" b])
        (simp_all add: Req_lcd_override set_lcd_override_def requested_def, metis Inr_inject Pair_inject fields)
  next
    case (Req_usb_charging u)
    with path have "attribute_path fs pc ''usb_charging'' (wenv w) = Some p" by simp
    then obtain s w1 w' where "set_usb_charging fs pc u w = (Inr s, w')"
      "platform_read fs pc w1 = (Inr s, w')" "field_of (read_optional_usb fs pc) w1 = Some u"
      by (rule usb_setter_delivers)
    then show thesis using that Req_usb_charging
      by (simp add: requested_def) (metis Inr_inject Pair_inject fields)
  next
    case (Req_rear_logo l)
    with path valid have "attribute_path fs pc ''rear_logo'' (wenv w) = Some p" "valid_logo l"
      by (simp_all add: valid_request_def)
    then obtain s w1 w' where "set_rear_logo fs pc l w = (Inr s, w')"
      "platform_read fs pc w1 = (Inr s, w')" "field_of (read_optional_logo fs pc) w1 = Some l"
      by (rule logo_setter_delivers)
    then show thesis using that Req_rear_logo
      by (simp add: requested_def) (metis Inr_inject Pair_inject fields)
  qed
qed

end

text \<open>C9: On a directory of attribute files every platform request in range is delivered: the setter
  succeeds and the state it returns shows the requested value.\<close>

theorem platform_request_delivers:
  assumes "attribute_path tree_sysfs pc (request_attribute req) (wenv w) = Some p" and "valid_request req"
  shows "\<exists>s w'. apply_request tree_sysfs pc req w = (Inr s, w') \<and> requested req s"
  using tree_files.request_delivers [OF assms] by blast

definition sample_controls :: platform_controls where
  "sample_controls = \<lparr>pc_gaming = Some [''w'', ''asense_rgb''], pc_battery = Some [''w'', ''asense_battery''], pc_apge = None\<rparr>"

definition sample_world :: "file_tree world" where
  "sample_world = \<lparr>wenv = [([''w'', ''asense_battery'', ''battery_limit''], ''0''),
     ([''w'', ''asense_rgb'', ''rear_logo''], ''junk'')], wlog = []\<rparr>"

lemma platform_request_delivers_witness:
  "\<exists>s w'. apply_request tree_sysfs sample_controls (Req_battery_limit True) sample_world = (Inr s, w')
     \<and> requested (Req_battery_limit True) s"
  by (rule platform_request_delivers [where p = "[''w'', ''asense_battery'', ''battery_limit'']"]; code_simp)

lemma platform_setter_verified_witness:
  "writes_of (events_between sample_world (snd (apply_request tree_sysfs sample_controls (Req_battery_limit True) sample_world)))
     = [([''w'', ''asense_battery'', ''battery_limit''], ''1\<newline>'')]"
proof -
  let ?run = "apply_request tree_sysfs sample_controls (Req_battery_limit True) sample_world"
  have "is_ok (fst ?run)" by code_simp
  moreover have "attribute_path tree_sysfs sample_controls ''battery_limit'' (wenv sample_world)
      = Some [''w'', ''asense_battery'', ''battery_limit'']"
    by code_simp
  ultimately show ?thesis
    using platform_setter_verified [of tree_sysfs sample_controls "Req_battery_limit True" sample_world "fst ?run" "snd ?run"]
    by (auto simp: bool_payload_def)
qed

end
