(* ===== verification/Lighting.thy ===== *)
theory Lighting
  imports Sysfs
begin

text \<open>
  \<open>src/lighting.rs\<close>: the lighting vocabulary shared by both transports, and the zoned WMI
  keyboard: its discovery, the texts of its \<open>power\<close>, \<open>effect\<close> and \<open>zones\<close> attributes, their
  parsers, and the setters that read every write back.
\<close>

section \<open>Data\<close>

datatype lighting_backend = Zoned_wmi | Enek5130_hid

datatype lighting_target = Keyboard | Cover_logo | Rear_logo | Lightbar

datatype lighting_mode = Mode_off | Mode_static | Mode_breathing | Mode_neon

record lighting_modes =
  lm_static_color :: bool
  lm_brightness :: bool
  lm_breathing :: bool
  lm_neon :: bool

record lighting_device =
  ld_id :: string
  ld_backend :: lighting_backend
  ld_target :: lighting_target
  ld_zones :: u8
  ld_modes :: lighting_modes
  ld_state_readable :: bool

record lighting_request =
  lr_target :: lighting_target
  lr_mode :: lighting_mode
  lr_brightness :: u8
  lr_speed :: u8
  lr_color :: rgb
  lr_zone_colors :: "rgb list"

text \<open>\<open>ls_zones\<close> is an array of four colours.\<close>

record lighting_state =
  ls_powered :: bool
  ls_mode :: u8
  ls_speed :: u8
  ls_brightness :: u8
  ls_direction :: u8
  ls_color :: rgb
  ls_zones :: "rgb list"

datatype lighting_status = Firmware_state lighting_state | Unknown_state | Last_applied lighting_request

record effect_request =
  er_mode :: u8
  er_speed :: u8
  er_brightness :: u8
  er_direction :: u8
  er_color :: rgb

record zones_request =
  zr_zones :: "rgb list"
  zr_brightness :: u8

record keyboard_lighting =
  kl_power :: path
  kl_effect :: path
  kl_zones :: path
  kl_zone_count :: u8

datatype lighting_error =
    Lg_message string
  | Lg_rejected string io_error
  | Lg_cannot_read string io_error
  | Lg_cannot_open path io_error
  | Lg_ioctl string io_error

type_synonym ('e, 'a) lg_io = "('e world, lighting_error, 'a) io"

definition RGB_WMI_GUID :: string where "RGB_WMI_GUID = ''7A4DDFE7-5B5D-40B4-8595-4408E0CC7F56''"

section \<open>Attribute texts\<close>

definition zone_count_from_mask :: "string \<Rightarrow> lighting_error + u8" where
  "zone_count_from_mask v = (let v' = (case strip_pre ''0x'' v of None \<Rightarrow> v | Some t \<Rightarrow> t) in
     (case parse_uint 16 u8_max v' of None \<Rightarrow> Inl (Lg_message ''invalid keyboard zone mask'')
      | Some m \<Rightarrow> if m = 1 then Inr 1 else if m = 3 then Inr 2 else if m = 7 then Inr 3 else if m = 15 then Inr 4
          else Inl (Lg_message ''keyboard zone mask must be contiguous within 1..=4 zones'')))"

definition as_u8 :: "u16 \<Rightarrow> string \<Rightarrow> lighting_error + u8" where
  "as_u8 v label = (if unat v \<le> 255 then Inr (ucast v) else Inl (Lg_message (label @ '' out of range'')))"

text \<open>\<open>parse_decimal_list::<N>\<close>: exactly \<open>n\<close> comma-separated 16-bit numbers.\<close>

definition parse_decimal_list :: "nat \<Rightarrow> string \<Rightarrow> string \<Rightarrow> lighting_error + u16 list" where
  "parse_decimal_list n input label = (let values = split_char (CHR '','') (str_trim input) in
     if length values \<noteq> n then Inl (Lg_message (''invalid '' @ label @ '' field count''))
     else res_map_list (\<lambda>v. ok_or (Lg_message (''invalid '' @ label @ '' value'')) (parse_u16 v)) values)"

definition parse_zone_color :: "string \<Rightarrow> lighting_error + rgb" where
  "parse_zone_color v = ok_or (Lg_message ''invalid keyboard zone color'') (rgb_of_hex v)"

definition BLACK :: rgb where "BLACK = (0, 0, 0)"

definition parse_zones :: "string \<Rightarrow> u8 \<Rightarrow> lighting_error + (rgb list \<times> u8)" where
  "parse_zones input zone_count = (let n = unat zone_count in
     if \<not> (1 \<le> n \<and> n \<le> 4) then Inl (Lg_message ''invalid keyboard zone count'')
     else (let fields = split_char (CHR '','') (str_trim input) in
       if length fields \<noteq> n + 1 then Inl (Lg_message ''invalid keyboard zone field count'')
       else res_bind (res_map_list parse_zone_color (take n fields)) (\<lambda>zs.
         (case parse_u8 (fields ! n) of None \<Rightarrow> Inl (Lg_message ''invalid keyboard brightness'')
          | Some b \<Rightarrow> if b > 100 then Inl (Lg_message ''keyboard brightness out of range'')
              else Inr (zs @ replicate (4 - n) BLACK, b)))))"

definition parse_state_with_zones :: "string \<Rightarrow> string \<Rightarrow> u8 \<Rightarrow> lighting_error + lighting_state" where
  "parse_state_with_zones effect zones zone_count =
     res_bind (parse_decimal_list 7 effect ''keyboard effect'') (\<lambda>ef.
     res_bind (parse_zones zones zone_count) (\<lambda>(zs, zb).
     res_bind (as_u8 (ef ! 0) ''effect mode'') (\<lambda>mode.
     res_bind (as_u8 (ef ! 1) ''effect speed'') (\<lambda>speed.
     res_bind (as_u8 (ef ! 2) ''brightness'') (\<lambda>brightness.
     res_bind (as_u8 (ef ! 3) ''direction'') (\<lambda>direction.
     res_bind (as_u8 (ef ! 4) ''red'') (\<lambda>r.
     res_bind (as_u8 (ef ! 5) ''green'') (\<lambda>g.
     res_bind (as_u8 (ef ! 6) ''blue'') (\<lambda>b.
       if brightness \<noteq> zb then Inl (Lg_message ''keyboard brightness getters disagree'')
       else Inr \<lparr>ls_powered = ef ! 2 \<noteq> 0, ls_mode = mode, ls_speed = speed, ls_brightness = brightness,
         ls_direction = direction, ls_color = (r, g, b), ls_zones = zs\<rparr>)))))))))"

text \<open>The state line sent to clients.\<close>

definition encode_lighting_state :: "lighting_state \<Rightarrow> string" where
  "encode_lighting_state s = ''power='' @ (if ls_powered s then ''on'' else ''off'')
     @ '' mode='' @ show_word (ls_mode s) @ '' speed='' @ show_word (ls_speed s)
     @ '' brightness='' @ show_word (ls_brightness s) @ '' direction='' @ show_word (ls_direction s)
     @ '' color='' @ hex_rgb (ls_color s) @ '' zones='' @ join_with '','' (map hex_rgb (ls_zones s))"

section \<open>The zoned keyboard\<close>

definition validate_effect :: "effect_request \<Rightarrow> lighting_error + unit" where
  "validate_effect r = (let mode = unat (er_mode r); direction = unat (er_direction r) in
     if mode > 7 then Inl (Lg_message ''keyboard effect mode must be within 0..=7'')
     else if er_speed r > 9 then Inl (Lg_message ''keyboard effect speed must be within 0..=9'')
     else if er_brightness r > 100 then Inl (Lg_message ''keyboard brightness must be within 0..=100'')
     else if (mode = 0 \<or> mode = 1) \<and> (er_speed r \<noteq> 0 \<or> direction \<noteq> 0)
       then Inl (Lg_message ''static/breathing modes require speed=0 and direction=0'')
     else if mode = 2 \<and> direction \<noteq> 0 then Inl (Lg_message ''neon mode requires direction=0'')
     else if (mode = 3 \<or> mode = 4) \<and> \<not> (1 \<le> direction \<and> direction \<le> 2)
       then Inl (Lg_message ''wave/shifting modes require direction 1 or 2'')
     else if 5 \<le> mode \<and> mode \<le> 7 \<and> direction \<noteq> 0
       then Inl (Lg_message ''zoom/meteor/twinkling modes require direction=0'')
     else Inr ())"

definition keyboard_discover_at :: "'e sysfs \<Rightarrow> path \<Rightarrow> ('e, keyboard_lighting) lg_io" where
  "keyboard_discover_at fs wmi_root =
     io_bind (fs_query (find_wmi_group fs wmi_root RGB_WMI_GUID ''asense_rgb'')) (\<lambda>found.
     (case found of None \<Rightarrow> io_err (Lg_message ''ASense RGB kernel transport is unavailable'')
      | Some base \<Rightarrow>
          io_bind (fs_query (\<lambda>e. k_is_file fs (path_join base ''power'') e \<and> k_is_file fs (path_join base ''effect'') e
            \<and> k_is_file fs (path_join base ''zones'') e)) (\<lambda>present.
          if \<not> present then io_err (Lg_message ''ASense RGB kernel transport is unavailable'')
          else io_bind (io_try (fs_read_to_string fs (path_join base ''zone_mask'')) (\<lambda>r. (case r of
              Inr m \<Rightarrow> io_of (zone_count_from_mask (str_trim m))
            | Inl x \<Rightarrow> if io_error_kind x = NotFound then io_ret 4
                else io_err (Lg_cannot_read ''keyboard zone mask'' x)))) (\<lambda>n.
            io_ret \<lparr>kl_power = path_join base ''power'', kl_effect = path_join base ''effect'',
              kl_zones = path_join base ''zones'', kl_zone_count = n\<rparr>))))"

definition keyboard_read :: "'e sysfs \<Rightarrow> keyboard_lighting \<Rightarrow> ('e, lighting_state) lg_io" where
  "keyboard_read fs kl =
     io_bind (io_map_err (Lg_cannot_read ''keyboard effect'') (fs_read_to_string fs (kl_effect kl))) (\<lambda>effect.
     io_bind (io_map_err (Lg_cannot_read ''keyboard zones'') (fs_read_to_string fs (kl_zones kl))) (\<lambda>zones.
       io_of (parse_state_with_zones effect zones (kl_zone_count kl))))"

definition power_payload :: "bool \<Rightarrow> string" where
  "power_payload enabled = (if enabled then ''1\<newline>'' else ''0\<newline>'')"

definition set_power :: "'e sysfs \<Rightarrow> keyboard_lighting \<Rightarrow> bool \<Rightarrow> ('e, lighting_state) lg_io" where
  "set_power fs kl enabled =
     io_then (io_map_err (Lg_rejected ''keyboard power'') (fs_write fs (kl_power kl) (power_payload enabled)))
     (io_bind (keyboard_read fs kl) (\<lambda>actual.
       if ls_powered actual \<noteq> enabled then io_err (Lg_message ''keyboard power readback mismatch'') else io_ret actual))"

definition effect_payload :: "effect_request \<Rightarrow> string" where
  "effect_payload r = (case er_color r of (red, green, blue) \<Rightarrow>
     join_with '','' (map show_word [er_mode r, er_speed r, er_brightness r, er_direction r, red, green, blue]) @ ''\<newline>'')"

definition set_effect :: "'e sysfs \<Rightarrow> keyboard_lighting \<Rightarrow> effect_request \<Rightarrow> ('e, lighting_state) lg_io" where
  "set_effect fs kl r = io_then (io_of (validate_effect r))
     (io_then (io_map_err (Lg_rejected ''keyboard effect'') (fs_write fs (kl_effect kl) (effect_payload r)))
     (io_bind (keyboard_read fs kl) (\<lambda>actual.
       if ls_mode actual \<noteq> er_mode r \<or> ls_speed actual \<noteq> er_speed r \<or> ls_brightness actual \<noteq> er_brightness r
         \<or> ls_direction actual \<noteq> er_direction r \<or> ls_color actual \<noteq> er_color r
       then io_err (Lg_message ''keyboard effect readback mismatch'') else io_ret actual)))"

definition zones_payload :: "u8 \<Rightarrow> zones_request \<Rightarrow> string" where
  "zones_payload n r = join_with '','' (map hex_rgb (take (unat n) (zr_zones r))) @ '','' @ show_word (zr_brightness r) @ ''\<newline>''"

definition set_zones :: "'e sysfs \<Rightarrow> keyboard_lighting \<Rightarrow> zones_request \<Rightarrow> ('e, lighting_state) lg_io" where
  "set_zones fs kl r = (let active = unat (kl_zone_count kl) in
     if zr_brightness r > 100 then io_err (Lg_message ''keyboard brightness must be within 0..=100'')
     else io_then (io_map_err (Lg_rejected ''keyboard zones'') (fs_write fs (kl_zones kl) (zones_payload (kl_zone_count kl) r)))
     (io_bind (keyboard_read fs kl) (\<lambda>actual.
       if ls_mode actual \<noteq> 0 \<or> ls_brightness actual \<noteq> zr_brightness r
         \<or> take active (ls_zones actual) \<noteq> take active (zr_zones r)
       then io_err (Lg_message ''keyboard zone readback mismatch'') else io_ret actual)))"

text \<open>The colours of a static request, spread over the keyboard's zones.\<close>

definition static_zones :: "u8 \<Rightarrow> lighting_request \<Rightarrow> lighting_error + rgb list" where
  "static_zones zone_count r = (let colors = lr_zone_colors r in (case colors of
      [] \<Rightarrow> Inr (replicate 4 (lr_color r))
    | [c] \<Rightarrow> Inr (replicate 4 c)
    | _ \<Rightarrow> if length colors = unat zone_count then Inr (colors @ drop (length colors) (replicate 4 (lr_color r)))
        else Inl (Lg_message (''zoned WMI keyboard requires one or '' @ show_word zone_count @ '' colors''))))"

definition apply_zoned_wmi :: "'e sysfs \<Rightarrow> keyboard_lighting \<Rightarrow> lighting_request \<Rightarrow> ('e, lighting_status) lg_io" where
  "apply_zoned_wmi fs kl r =
     (if lr_target r \<noteq> Keyboard then io_err (Lg_message ''zoned WMI transport only exposes the keyboard target'')
      else if lr_brightness r > 100 then io_err (Lg_message ''keyboard brightness must be within 0..=100'')
      else if lr_speed r > 9 then io_err (Lg_message ''keyboard effect speed must be within 0..=9'')
      else io_bind (case lr_mode r of
          Mode_off \<Rightarrow> set_power fs kl False
        | Mode_static \<Rightarrow> io_bind (io_of (static_zones (kl_zone_count kl) r)) (\<lambda>zs.
            set_zones fs kl \<lparr>zr_zones = zs, zr_brightness = lr_brightness r\<rparr>)
        | _ \<Rightarrow> if lr_zone_colors r \<noteq> [] then io_err (Lg_message ''firmware effects accept one global color'')
            else set_effect fs kl \<lparr>er_mode = (if lr_mode r = Mode_breathing then 1 else 2), er_speed = lr_speed r,
              er_brightness = lr_brightness r, er_direction = 0, er_color = lr_color r\<rparr>)
        (\<lambda>st. io_ret (Firmware_state st)))"

end
