(* ===== verification/Enek5130.thy ===== *)
theory Enek5130
  imports Lighting
begin

text \<open>
  \<open>src/lighting/enek5130.rs\<close>: the ENEK5130 HID lighting controller. The kernel's hidraw
  interface (opening a node, the two feature-report controls) is the parameter \<open>hid\<close>; report
  parsing, capability checks and the reports of a lighting request are the program's own.
\<close>

section \<open>Constants and capabilities\<close>

definition HID_BUS_I2C :: nat where "HID_BUS_I2C = 0x18"
definition HID_VENDOR :: nat where "HID_VENDOR = 0x0CF2"
definition HID_PRODUCT :: nat where "HID_PRODUCT = 0x5130"
definition REPORT_TARGET_LIST :: u8 where "REPORT_TARGET_LIST = 0xA1"
definition REPORT_TARGET_SELECT :: u8 where "REPORT_TARGET_SELECT = 0xA2"
definition REPORT_TARGET_CAPABILITIES :: u8 where "REPORT_TARGET_CAPABILITIES = 0xA3"
definition REPORT_LIGHTING :: u8 where "REPORT_LIGHTING = 0xA4"
definition TARGET_KEYBOARD :: u8 where "TARGET_KEYBOARD = 0x21"
definition TARGET_COVER_LOGO :: u8 where "TARGET_COVER_LOGO = 0x83"
definition MODE_STATIC :: u8 where "MODE_STATIC = 2"
definition MODE_BREATHING :: u8 where "MODE_BREATHING = 4"
definition MODE_NEON :: u8 where "MODE_NEON = 5"
definition TARGET_LIST_REPORT_LEN :: nat where "TARGET_LIST_REPORT_LEN = 11"
definition TARGET_CAPABILITIES_REPORT_LEN :: nat where "TARGET_CAPABILITIES_REPORT_LEN = 9"
definition TARGET_CAPABILITIES_MIN_LEN :: nat where "TARGET_CAPABILITIES_MIN_LEN = 6"
definition LIGHTING_REPORT_LEN :: nat where "LIGHTING_REPORT_LEN = 11"

lemmas report_ids = REPORT_TARGET_LIST_def REPORT_TARGET_SELECT_def REPORT_TARGET_CAPABILITIES_def
  REPORT_LIGHTING_def
lemmas wire_modes = MODE_STATIC_def MODE_BREATHING_def MODE_NEON_def
lemmas wire_targets = TARGET_KEYBOARD_def TARGET_COVER_LOGO_def

record target_capabilities =
  tc_target_id :: u8
  tc_zone_count :: u8
  tc_mode_mask :: u32

definition caps_target :: "target_capabilities \<Rightarrow> lighting_target option" where
  "caps_target c = (if tc_target_id c = TARGET_KEYBOARD then Some Keyboard
     else if tc_target_id c = TARGET_COVER_LOGO then Some Cover_logo else None)"

definition supports_wire_mode :: "target_capabilities \<Rightarrow> u8 \<Rightarrow> bool" where
  "supports_wire_mode c mode \<longleftrightarrow> 1 \<le> unat mode \<and> unat mode \<le> 32
     \<and> and (tc_mode_mask c) (push_bit (unat mode - 1) 1) \<noteq> 0"

definition wire_mode :: "lighting_mode \<Rightarrow> u8" where
  "wire_mode m = (case m of Mode_off \<Rightarrow> MODE_STATIC | Mode_static \<Rightarrow> MODE_STATIC
     | Mode_breathing \<Rightarrow> MODE_BREATHING | Mode_neon \<Rightarrow> MODE_NEON)"

definition caps_supports :: "target_capabilities \<Rightarrow> lighting_mode \<Rightarrow> bool" where
  "caps_supports c m = supports_wire_mode c (wire_mode m)"

definition all_zones :: "target_capabilities \<Rightarrow> u16" where
  "all_zones c = (let n = unat (tc_zone_count c) in
     if n = 0 then 0 else if n \<le> 15 then push_bit n 1 - 1 else 0xFFFF)"

definition caps_modes :: "target_capabilities \<Rightarrow> lighting_modes" where
  "caps_modes c = \<lparr>lm_static_color = caps_supports c Mode_static, lm_brightness = True,
     lm_breathing = caps_supports c Mode_breathing, lm_neon = caps_supports c Mode_neon\<rparr>"

text \<open>The code expects a known target here: discovery checks it first.\<close>

definition device_from_caps :: "target_capabilities \<Rightarrow> lighting_device option" where
  "device_from_caps c = (case caps_target c of None \<Rightarrow> None
     | Some t \<Rightarrow> Some \<lparr>ld_id = ''enek5130-'' @ hex2 (tc_target_id c), ld_backend = Enek5130_hid, ld_target = t,
         ld_zones = tc_zone_count c, ld_modes = caps_modes c, ld_state_readable = False\<rparr>)"

definition target_id :: "lighting_target \<Rightarrow> u8 option" where
  "target_id t = (case t of Keyboard \<Rightarrow> Some TARGET_KEYBOARD | Cover_logo \<Rightarrow> Some TARGET_COVER_LOGO
     | Rear_logo \<Rightarrow> None | Lightbar \<Rightarrow> None)"

section \<open>The hidraw interface\<close>

text \<open>
  \<open>hd_open\<close> opens a node (read-write or read-only); \<open>hd_ioctl\<close> takes the request number and the
  caller's buffer and gives the error of \<open>last_os_error\<close>, or the non-negative result with the
  buffer as the kernel left it.
\<close>

record 'e hid =
  hd_open :: "path \<Rightarrow> bool \<Rightarrow> 'e \<Rightarrow> (io_error + unit) \<times> 'e"
  hd_ioctl :: "path \<Rightarrow> u64 \<Rightarrow> u8 list \<Rightarrow> 'e \<Rightarrow> (io_error + nat \<times> u8 list) \<times> 'e"

definition dev_open :: "'e hid \<Rightarrow> path \<Rightarrow> bool \<Rightarrow> ('e, unit) fs_io" where
  "dev_open hr p rw = (\<lambda>w. case hd_open hr p rw (wenv w) of (r, e) \<Rightarrow> (r, w\<lparr>wenv := e\<rparr>))"

definition dev_ioctl :: "'e hid \<Rightarrow> path \<Rightarrow> u64 \<Rightarrow> u8 list \<Rightarrow> ('e, nat \<times> u8 list) fs_io" where
  "dev_ioctl hr p q buf = (\<lambda>w. case hd_ioctl hr p q buf (wenv w) of (r, e) \<Rightarrow>
     (r, w\<lparr>wenv := e, wlog := wlog w @ [Dev_ioctl p q buf]\<rparr>))"

definition open_controller :: "'e hid \<Rightarrow> path \<Rightarrow> ('e, path) lg_io" where
  "open_controller hr p = io_bind (io_map_err (Lg_cannot_open p) (dev_open hr p True)) (\<lambda>_. io_ret p)"

text \<open>\<open>HIDIOCSFEATURE(len)\<close> and \<open>HIDIOCGFEATURE(len)\<close>: direction, size, type and number fields.\<close>

definition feature_ioctl :: "u8 \<Rightarrow> nat \<Rightarrow> lighting_error + u64" where
  "feature_ioctl operation len = (if len = 0 \<or> len > 16383 then Inl (Lg_message ''invalid hidraw feature-report length'')
     else Inr (or (or (or (push_bit 30 (or 2 1)) (push_bit 16 (of_nat len))) (push_bit 8 0x48)) (ucast operation)))"

definition set_feature :: "'e hid \<Rightarrow> path \<Rightarrow> u8 list \<Rightarrow> ('e, unit) lg_io" where
  "set_feature hr file report = io_bind (io_of (feature_ioctl 6 (length report))) (\<lambda>q.
     io_bind (io_map_err (Lg_ioctl ''ENEK5130 HIDIOCSFEATURE failed'') (dev_ioctl hr file q report)) (\<lambda>(n, _).
       if n \<noteq> length report then io_err (Lg_message (''ENEK5130 feature write returned '' @ show_nat n @ '' bytes, expected '' @ show_nat (length report))) else io_ret ()))"

definition get_feature :: "'e hid \<Rightarrow> nat \<Rightarrow> path \<Rightarrow> u8 \<Rightarrow> ('e, u8 list) lg_io" where
  "get_feature hr n file report_id = (let report = (replicate n 0)[0 := report_id] in
     io_bind (io_of (feature_ioctl 7 (length report))) (\<lambda>q.
     io_bind (io_map_err (Lg_ioctl ''ENEK5130 HIDIOCGFEATURE failed'') (dev_ioctl hr file q report)) (\<lambda>(received, buf).
       if received = 0 \<or> received > length report
       then io_err (Lg_message (''ENEK5130 feature read returned invalid length '' @ show_nat received)) else io_ret (take received buf))))"

section \<open>Reports\<close>

definition parse_target_list :: "u8 list \<Rightarrow> lighting_error + u8 list" where
  "parse_target_list report = (if length report < 2 \<or> report ! 0 \<noteq> REPORT_TARGET_LIST
     then Inl (Lg_message ''invalid ENEK5130 target-list report'')
     else (let end_index = 2 + unat (report ! 1) in
       if end_index \<le> length report then Inr (drop 2 (take end_index report))
       else Inl (Lg_message ''invalid ENEK5130 target count'')))"

definition u32_from_le_bytes :: "u8 \<Rightarrow> u8 \<Rightarrow> u8 \<Rightarrow> u8 \<Rightarrow> u32" where
  "u32_from_le_bytes b0 b1 b2 b3 =
     or (ucast b0) (or (push_bit 8 (ucast b1)) (or (push_bit 16 (ucast b2)) (push_bit 24 (ucast b3))))"

definition byte_at :: "u8 list \<Rightarrow> nat \<Rightarrow> u8" where
  "byte_at r i = (if i < length r then r ! i else 0)"

definition supported_mask :: u32 where
  "supported_mask = or (push_bit 1 1) (or (push_bit 3 1) (push_bit 4 1))"

definition parse_target_capabilities :: "u8 \<Rightarrow> u8 list \<Rightarrow> lighting_error + target_capabilities" where
  "parse_target_capabilities expected report =
     (if length report < TARGET_CAPABILITIES_MIN_LEN \<or> report ! 0 \<noteq> REPORT_TARGET_CAPABILITIES \<or> report ! 1 \<noteq> expected
      then Inl (Lg_message ''invalid ENEK5130 target-capabilities report'')
      else if \<not> (1 \<le> unat (report ! 3) \<and> unat (report ! 3) \<le> 16)
      then Inl (Lg_message ''ENEK5130 zone count must be within 1..=16'')
      else (let mask = u32_from_le_bytes (byte_at report 5) (byte_at report 6) (byte_at report 7) (byte_at report 8) in
        if and mask supported_mask = 0 then Inl (Lg_message ''ENEK5130 target has no supported lighting mode'')
        else Inr \<lparr>tc_target_id = report ! 1, tc_zone_count = report ! 3, tc_mode_mask = mask\<rparr>))"

definition enek_validate_request :: "lighting_request \<Rightarrow> lighting_error + unit" where
  "enek_validate_request r = (if lr_brightness r > 100 then Inl (Lg_message ''ENEK5130 brightness must be within 0..=100'')
     else if lr_speed r > 9 then Inl (Lg_message ''ENEK5130 effect speed must be within 0..=9'')
     else if length (lr_zone_colors r) > 16 then Inl (Lg_message ''ENEK5130 accepts at most 16 zone colors'')
     else Inr ())"

definition encode_lighting_report :: "target_capabilities \<Rightarrow> u8 \<Rightarrow> u8 \<Rightarrow> u8 \<Rightarrow> rgb \<Rightarrow> u16 \<Rightarrow> u8 list" where
  "encode_lighting_report c mode brightness speed color zones = (case color of (r, g, b) \<Rightarrow>
     [REPORT_LIGHTING, tc_target_id c, mode, brightness, speed,
      (if mode = MODE_STATIC then (if tc_target_id c = TARGET_COVER_LOGO then 1 else 0) else 2),
      r, g, b, ucast zones, ucast (drop_bit 8 zones)])"

definition static_reports :: "target_capabilities \<Rightarrow> lighting_request \<Rightarrow> lighting_error + u8 list list" where
  "static_reports c r = (let colors = lr_zone_colors r in (case colors of
      [] \<Rightarrow> Inr [encode_lighting_report c MODE_STATIC (lr_brightness r) 0 (lr_color r) (all_zones c)]
    | [color] \<Rightarrow> Inr [encode_lighting_report c MODE_STATIC (lr_brightness r) 0 color (all_zones c)]
    | _ \<Rightarrow> if length colors = unat (tc_zone_count c)
        then Inr (map (\<lambda>(i, color). encode_lighting_report c MODE_STATIC (lr_brightness r) 0 color (push_bit i 1))
               (enumerate 0 colors))
        else Inl (Lg_message (''ENEK5130 target requires one or '' @ show_word (tc_zone_count c) @ '' zone colors''))))"

definition lighting_reports :: "target_capabilities \<Rightarrow> lighting_request \<Rightarrow> lighting_error + u8 list list" where
  "lighting_reports c r =
     (if caps_target c \<noteq> Some (lr_target r) then Inl (Lg_message ''ENEK5130 target-capabilities mismatch'')
      else if \<not> caps_supports c (lr_mode r) then Inl (Lg_message ''requested ENEK5130 lighting mode is unavailable'')
      else (case lr_mode r of
          Mode_off \<Rightarrow> Inr [encode_lighting_report c MODE_STATIC 0 0 BLACK (all_zones c)]
        | Mode_static \<Rightarrow> static_reports c r
        | m \<Rightarrow> Inr [encode_lighting_report c (if m = Mode_breathing then MODE_BREATHING else MODE_NEON)
                 (lr_brightness r) (lr_speed r) (lr_color r) (all_zones c)]))"

definition canonical_request :: "lighting_request \<Rightarrow> lighting_request" where
  "canonical_request r = (case lr_mode r of
      Mode_off \<Rightarrow> r\<lparr>lr_brightness := 0, lr_speed := 0, lr_color := BLACK, lr_zone_colors := []\<rparr>
    | Mode_static \<Rightarrow> r\<lparr>lr_speed := 0\<rparr>
    | _ \<Rightarrow> r\<lparr>lr_zone_colors := []\<rparr>)"

section \<open>Discovery and transactions\<close>

record enek5130 =
  ek_node :: path
  ek_capabilities :: "target_capabilities list"
  ek_devices :: "lighting_device list"

text \<open>\<open>id.trim().split(':')\<close>: exactly three fields, each a hexadecimal number.\<close>

definition hid_identity :: "string \<Rightarrow> bool option" where
  "hid_identity v = (case split_char (CHR '':'') (str_trim v) of
      [bus, vendor, product] \<Rightarrow> Some (parse_uint 16 u32_max bus = Some HID_BUS_I2C
        \<and> parse_uint 16 u32_max vendor = Some HID_VENDOR \<and> parse_uint 16 u32_max product = Some HID_PRODUCT)
    | _ \<Rightarrow> None)"

fun uevent_identity :: "bool option \<Rightarrow> string list \<Rightarrow> bool" where
  "uevent_identity known [] \<longleftrightarrow> known = Some True"
| "uevent_identity known (l # ls) \<longleftrightarrow> (case strip_pre ''HID_ID='' l of
      None \<Rightarrow> uevent_identity known ls
    | Some v \<Rightarrow> known = None \<and> (case hid_identity v of None \<Rightarrow> False | Some b \<Rightarrow> uevent_identity (Some b) ls))"

definition matches_uevent :: "string \<Rightarrow> bool" where
  "matches_uevent uevent = uevent_identity None (str_lines uevent)"

definition controller_candidates :: "'e sysfs \<Rightarrow> path \<Rightarrow> path \<Rightarrow> ('e world, 'x, path list) io" where
  "controller_candidates fs sysfs_root dev_root =
     io_bind (fs_query (k_read_dir fs sysfs_root)) (\<lambda>entries. (case entries of
        Inl _ \<Rightarrow> io_ret []
      | Inr names \<Rightarrow> io_bind (io_filter_map (\<lambda>name.
          io_bind (io_ok (fs_read_to_string fs (path_join sysfs_root name @ [''device'', ''uevent'']))) (\<lambda>u.
            io_ret (case u of None \<Rightarrow> None | Some t \<Rightarrow> if matches_uevent t then Some (path_join dev_root name) else None)))
          names) (\<lambda>nodes. io_ret (sort nodes))))"

definition read_target_list :: "'e hid \<Rightarrow> path \<Rightarrow> ('e, u8 list) lg_io" where
  "read_target_list hr file = io_bind (get_feature hr TARGET_LIST_REPORT_LEN file REPORT_TARGET_LIST)
     (\<lambda>r. io_of (parse_target_list r))"

definition read_target_capabilities :: "'e hid \<Rightarrow> path \<Rightarrow> u8 \<Rightarrow> ('e, target_capabilities) lg_io" where
  "read_target_capabilities hr file target =
     io_then (set_feature hr file [REPORT_TARGET_SELECT, target])
     (io_bind (get_feature hr TARGET_CAPABILITIES_REPORT_LEN file REPORT_TARGET_CAPABILITIES)
       (\<lambda>r. io_of (parse_target_capabilities target r)))"

definition read_only_target_ids :: "'e hid \<Rightarrow> path \<Rightarrow> ('e, u8 list) lg_io" where
  "read_only_target_ids hr node = io_then (io_map_err (Lg_cannot_open node) (dev_open hr node False)) (read_target_list hr node)"

definition candidate_target :: "'e hid \<Rightarrow> path \<Rightarrow> u8 list \<Rightarrow> u8 \<Rightarrow> ('e world, lighting_error, target_capabilities option) io" where
  "candidate_target hr file targets target = (if target \<notin> set targets then io_ret None
     else io_bind (io_ok (read_target_capabilities hr file target)) (\<lambda>caps. io_ret (case caps of None \<Rightarrow> None
       | Some c \<Rightarrow> if caps_target c \<noteq> None \<and> list_ex (caps_supports c) [Mode_static, Mode_breathing, Mode_neon]
           then Some c else None)))"

definition discover_candidate :: "'e hid \<Rightarrow> path \<Rightarrow> ('e, target_capabilities list \<times> lighting_device list) lg_io" where
  "discover_candidate hr node = io_bind (open_controller hr node) (\<lambda>file.
     io_bind (read_target_list hr file) (\<lambda>targets.
     io_bind (io_filter_map (candidate_target hr file targets) [TARGET_KEYBOARD, TARGET_COVER_LOGO]) (\<lambda>caps.
       if caps = [] then io_err (Lg_message ''ENEK5130 interface exposes no supported lighting target'')
       else io_ret (caps, List.map_filter device_from_caps caps))))"

fun discover_nodes :: "'e hid \<Rightarrow> lighting_error option \<Rightarrow> path list \<Rightarrow> ('e, enek5130) lg_io" where
  "discover_nodes hr last_error [] = io_err (case last_error of Some x \<Rightarrow> x
     | None \<Rightarrow> Lg_message ''ENEK5130 exposes no supported lighting target'')"
| "discover_nodes hr last_error (n # ns) = io_try (discover_candidate hr n) (\<lambda>r. (case r of
     Inr (caps, devices) \<Rightarrow> io_ret \<lparr>ek_node = n, ek_capabilities = caps, ek_devices = devices\<rparr>
   | Inl x \<Rightarrow> discover_nodes hr (Some x) ns))"

definition enek_discover_at :: "'e sysfs \<Rightarrow> 'e hid \<Rightarrow> path \<Rightarrow> path \<Rightarrow> ('e, enek5130) lg_io" where
  "enek_discover_at fs hr sysfs_root dev_root = io_bind (controller_candidates fs sysfs_root dev_root) (\<lambda>nodes.
     if nodes = [] then io_err (Lg_message ''ENEK5130 lighting controller is unavailable'') else discover_nodes hr None nodes)"

definition enek_apply :: "'e hid \<Rightarrow> enek5130 \<Rightarrow> lighting_request \<Rightarrow> ('e, lighting_status) lg_io" where
  "enek_apply hr ek r = io_then (io_of (enek_validate_request r))
     (io_bind (io_of (ok_or (Lg_message ''ENEK5130 does not support this lighting target'') (target_id (lr_target r)))) (\<lambda>target.
     io_bind (open_controller hr (ek_node ek)) (\<lambda>file.
     io_bind (read_target_list hr file) (\<lambda>targets.
     if target \<notin> set targets then io_err (Lg_message ''ENEK5130 lighting target is no longer present'')
     else io_bind (read_target_capabilities hr file target) (\<lambda>caps.
     io_bind (io_of (lighting_reports caps r)) (\<lambda>reports.
     io_then (io_map_list (set_feature hr file) reports)
       (io_ret (Last_applied (canonical_request r)))))))))"

end
