(* ===== verification/Lighting_Control.thy ===== *)
theory Lighting_Control
  imports Enek5130
begin

text \<open>
  \<open>src/lighting.rs\<close>, the controller over both transports: discovery of each independently of the
  other, and the dispatch of state, apply and power requests to the transport that has the
  target.
\<close>

datatype lighting_controller = Zoned_controller keyboard_lighting | Enek_controller enek5130

text \<open>The fixed roots \<open>/sys/bus/wmi/devices\<close>, \<open>/sys/class/hidraw\<close> and \<open>/dev\<close>.\<close>

definition WMI_DEVICES :: path where "WMI_DEVICES = [''sys'', ''bus'', ''wmi'', ''devices'']"
definition SYSFS_HIDRAW :: path where "SYSFS_HIDRAW = [''sys'', ''class'', ''hidraw'']"
definition DEV_ROOT :: path where "DEV_ROOT = [''dev'']"

definition keyboard_discover :: "'e sysfs \<Rightarrow> ('e, keyboard_lighting) lg_io" where
  "keyboard_discover fs = keyboard_discover_at fs WMI_DEVICES"

definition enek_discover :: "'e sysfs \<Rightarrow> 'e hid \<Rightarrow> ('e, enek5130) lg_io" where
  "enek_discover fs hr = enek_discover_at fs hr SYSFS_HIDRAW DEV_ROOT"

definition opt_list :: "'a option \<Rightarrow> 'a list" where
  "opt_list x = (case x of None \<Rightarrow> [] | Some a \<Rightarrow> [a])"

definition discover_all :: "'e sysfs \<Rightarrow> 'e hid \<Rightarrow> ('e world, 'x, lighting_controller list) io" where
  "discover_all fs hr = io_bind (io_ok (keyboard_discover fs)) (\<lambda>k.
     io_bind (io_ok (enek_discover fs hr)) (\<lambda>n.
       io_ret (opt_list (map_option Zoned_controller k) @ opt_list (map_option Enek_controller n))))"

fun controller_backend :: "lighting_controller \<Rightarrow> lighting_backend" where
  "controller_backend (Zoned_controller k) = Zoned_wmi"
| "controller_backend (Enek_controller n) = Enek5130_hid"

definition zoned_device :: "keyboard_lighting \<Rightarrow> lighting_device" where
  "zoned_device k = \<lparr>ld_id = ''zoned-wmi-keyboard'', ld_backend = Zoned_wmi, ld_target = Keyboard, ld_zones = kl_zone_count k,
     ld_modes = \<lparr>lm_static_color = True, lm_brightness = True, lm_breathing = True, lm_neon = True\<rparr>,
     ld_state_readable = True\<rparr>"

fun controller_devices :: "lighting_controller \<Rightarrow> lighting_device list" where
  "controller_devices (Zoned_controller k) = [zoned_device k]"
| "controller_devices (Enek_controller n) = ek_devices n"

fun controller_state :: "'e sysfs \<Rightarrow> lighting_controller \<Rightarrow> ('e, lighting_status) lg_io" where
  "controller_state fs (Zoned_controller k) = io_bind (keyboard_read fs k) (\<lambda>s. io_ret (Firmware_state s))"
| "controller_state fs (Enek_controller n) = io_ret Unknown_state"

fun controller_apply :: "'e sysfs \<Rightarrow> 'e hid \<Rightarrow> lighting_controller \<Rightarrow> lighting_request \<Rightarrow> ('e, lighting_status) lg_io" where
  "controller_apply fs hr (Zoned_controller k) r = apply_zoned_wmi fs k r"
| "controller_apply fs hr (Enek_controller n) r = enek_apply hr n r"

fun controller_set_power :: "'e sysfs \<Rightarrow> lighting_controller \<Rightarrow> lighting_target \<Rightarrow> bool \<Rightarrow> ('e, lighting_status) lg_io" where
  "controller_set_power fs (Zoned_controller k) target enabled = (if target = Keyboard
     then io_bind (set_power fs k enabled) (\<lambda>s. io_ret (Firmware_state s))
     else io_err (Lg_message ''zoned WMI transport only exposes the keyboard target''))"
| "controller_set_power fs (Enek_controller n) target enabled =
     io_err (Lg_message ''lighting power control is unsupported for the ENEK5130 HID backend'')"

end
