(* ===== verification/Lighting_Safety.thy ===== *)
theory Lighting_Safety
  imports Lighting_Control
begin

text \<open>
  Lighting: the zoned keyboard's attribute texts are read back as the request they encode; an
  applied request wrote one attribute and was read back; the ENEK5130 controller is written
  only after a fresh capability query, with reports whose zone masks partition the target's
  zones, and the canonical form of a request produces the same reports.
\<close>

section \<open>Attribute texts of the zoned keyboard\<close>

lemma comma_free: "CHR '','' \<notin> set (hex_rgb c)" "CHR '','' \<notin> set (show_word w)"
  using hex_rgb_chars [of "CHR '',''" c] show_nat_no_sep [of "CHR '',''" "unat w"]
  by (auto simp: char_defs show_word_def)

lemma unat_widen [simp]: "unat (ucast (x :: u8) :: u16) = unat x"
proof -
  have "unat x < 2 ^ 16" using unat_u8_le [of x] by (simp add: u8_max_def)
  then show ?thesis by (simp add: unsigned_ucast_eq take_bit_nat_eq_self)
qed

lemma parse_effect_payload:
  "parse_decimal_list 7 (effect_payload r) ''keyboard effect'' = Inr (case er_color r of (red, green, blue) \<Rightarrow>
     map ucast [er_mode r, er_speed r, er_brightness r, er_direction r, red, green, blue])"
proof -
  obtain red green blue where c: "er_color r = (red, green, blue)" by (cases "er_color r") auto
  let ?ws = "[er_mode r, er_speed r, er_brightness r, er_direction r, red, green, blue]"
  have tk: "token (join_with '','' (map show_word ?ws))" by (rule token_join_comma) simp_all
  have sp: "split_char (CHR '','') (join_with '','' (map show_word ?ws)) = map show_word ?ws"
    by (rule split_char_join) (auto simp: comma_free)
  have w: "parse_u16 (show_word (x :: u8)) = Some (ucast x)" for x
  proof -
    have "show_word x = show_word (ucast x :: u16)" by (simp add: show_word_def)
    then show ?thesis by simp
  qed
  have pl: "effect_payload r = join_with '','' (map show_word ?ws) @ ''\<newline>''"
    by (simp only: effect_payload_def c prod.case)
  show ?thesis
    unfolding parse_decimal_list_def pl token_line(2) [OF tk] sp Let_def
    using res_map_list_ok [of ?ws "\<lambda>v. ok_or (Lg_message (''invalid '' @ ''keyboard effect'' @ '' value'')) (parse_u16 v)" show_word ucast]
    by (simp add: c w)
qed

lemma parse_zones_payload:
  assumes "1 \<le> unat n" "unat n \<le> 4" and "length (zr_zones r) = 4" and "zr_brightness r \<le> 100"
  shows "parse_zones (zones_payload n r) n = Inr (take (unat n) (zr_zones r) @ replicate (4 - unat n) BLACK, zr_brightness r)"
proof -
  let ?zs = "take (unat n) (zr_zones r)" and ?b = "show_word (zr_brightness r)"
  let ?ts = "map hex_rgb ?zs @ [?b]"
  have ne: "map hex_rgb ?zs \<noteq> []" using assms by (cases "zr_zones r") auto
  have pl: "zones_payload n r = join_with '','' ?ts @ ''\<newline>''"
    using join_snoc [OF ne, of "'',''" ?b] by (simp add: zones_payload_def)
  have tk: "token (join_with '','' ?ts)" by (rule token_join_comma) auto
  have sp: "split_char (CHR '','') (join_with '','' ?ts) = ?ts"
    by (rule split_char_join) (auto simp: comma_free)
  have len: "length ?ts = unat n + 1" using assms by simp
  have tk1: "take (unat n) ?ts = map hex_rgb ?zs" and nth: "?ts ! unat n = ?b"
    using assms by (simp_all add: nth_append)
  have zs: "res_map_list parse_zone_color (map hex_rgb ?zs) = Inr ?zs"
    by (rule res_map_list_map) (simp add: parse_zone_color_def)
  show ?thesis
    unfolding parse_zones_def pl token_line(2) [OF tk] sp Let_def len tk1 zs nth
    using assms by (simp add: not_less)
qed

lemma as_u8_ucast [simp]: "as_u8 (ucast (x :: u8)) label = Inr x"
proof -
  have "unat x \<le> 255" using unat_u8_le [of x] by (simp add: u8_max_def)
  moreover have "(ucast (ucast x :: u16) :: u8) = x" by (simp add: ucast_up_ucast_id is_up)
  ultimately show ?thesis by (simp add: as_u8_def)
qed

text \<open>C10: When the keyboard's attributes hold the texts written for an effect and for zones of the same
  brightness, the state read from them is exactly that effect with those zones.\<close>

theorem keyboard_texts_round_trip:
  assumes "1 \<le> unat n" "unat n \<le> 4" and "length (zr_zones z) = 4" and "zr_brightness z \<le> 100"
    and "er_brightness r = zr_brightness z"
  shows "parse_state_with_zones (effect_payload r) (zones_payload n z) n = Inr
    \<lparr>ls_powered = er_brightness r \<noteq> 0, ls_mode = er_mode r, ls_speed = er_speed r, ls_brightness = er_brightness r,
     ls_direction = er_direction r, ls_color = er_color r,
     ls_zones = take (unat n) (zr_zones z) @ replicate (4 - unat n) BLACK\<rparr>"
proof -
  obtain red green blue where c: "er_color r = (red, green, blue)" by (cases "er_color r") auto
  have "(ucast (er_brightness r) :: u16) = 0 \<longleftrightarrow> er_brightness r = 0"
    by (metis as_u8_ucast Inr_inject ucast_0)
  then show ?thesis
    using assms(5) unfolding parse_state_with_zones_def parse_effect_payload parse_zones_payload [OF assms(1-4)]
    by (simp add: c)
qed

definition sample_effect :: effect_request where
  "sample_effect = \<lparr>er_mode = 3, er_speed = 5, er_brightness = 40, er_direction = 2, er_color = (1, 2, 255)\<rparr>"

definition sample_zones :: zones_request where
  "sample_zones = \<lparr>zr_zones = [(1, 2, 3), (255, 0, 16), (0, 0, 0), (9, 9, 9)], zr_brightness = 40\<rparr>"

lemma keyboard_texts_round_trip_witness:
  "parse_state_with_zones (effect_payload sample_effect) (zones_payload 2 sample_zones) 2 = Inr
    \<lparr>ls_powered = er_brightness sample_effect \<noteq> 0, ls_mode = er_mode sample_effect, ls_speed = er_speed sample_effect,
     ls_brightness = er_brightness sample_effect, ls_direction = er_direction sample_effect,
     ls_color = er_color sample_effect,
     ls_zones = take (unat (2 :: u8)) (zr_zones sample_zones) @ replicate (4 - unat (2 :: u8)) BLACK\<rparr>"
  by (rule keyboard_texts_round_trip; code_simp)

section \<open>Verified keyboard transactions\<close>

text \<open>The single attribute write of a request, and what the readback must show for it.\<close>

definition request_effect :: "lighting_request \<Rightarrow> effect_request" where
  "request_effect r = \<lparr>er_mode = (if lr_mode r = Mode_breathing then 1 else 2), er_speed = lr_speed r,
     er_brightness = lr_brightness r, er_direction = 0, er_color = lr_color r\<rparr>"

definition zoned_write :: "keyboard_lighting \<Rightarrow> lighting_request \<Rightarrow> path \<times> string" where
  "zoned_write kl r = (case lr_mode r of
      Mode_off \<Rightarrow> (kl_power kl, ''0\<newline>'')
    | Mode_static \<Rightarrow> (kl_zones kl, zones_payload (kl_zone_count kl)
         \<lparr>zr_zones = (case static_zones (kl_zone_count kl) r of Inr zs \<Rightarrow> zs | Inl _ \<Rightarrow> []), zr_brightness = lr_brightness r\<rparr>)
    | _ \<Rightarrow> (kl_effect kl, effect_payload (request_effect r)))"

definition zoned_shows :: "keyboard_lighting \<Rightarrow> lighting_request \<Rightarrow> lighting_state \<Rightarrow> bool" where
  "zoned_shows kl r s \<longleftrightarrow> (case lr_mode r of
      Mode_off \<Rightarrow> \<not> ls_powered s
    | Mode_static \<Rightarrow> ls_mode s = 0 \<and> ls_brightness s = lr_brightness r
        \<and> (\<exists>zs. static_zones (kl_zone_count kl) r = Inr zs
             \<and> take (unat (kl_zone_count kl)) (ls_zones s) = take (unat (kl_zone_count kl)) zs)
    | _ \<Rightarrow> ls_mode s = (if lr_mode r = Mode_breathing then 1 else 2) \<and> ls_speed s = lr_speed r
        \<and> ls_brightness s = lr_brightness r \<and> ls_direction s = 0 \<and> ls_color s = lr_color r)"

lemma keyboard_read_unwritten [io_keeps_intros]: "io_keeps unwritten (keyboard_read fs kl)"
  unfolding keyboard_read_def by (intro io_keeps_intros) simp_all

lemma write_then_check:
  assumes run: "io_then (io_map_err g (fs_write fs p v)) (io_bind m (\<lambda>a. if bad a then io_err x else io_ret a)) w = (q, w')"
    and quiet: "io_keeps unwritten m"
  shows "wrote p v w w' \<and> (\<forall>s. q = Inr s \<longrightarrow> \<not> bad s \<and> (\<exists>w1. wrote p v w w1 \<and> m w1 = (Inr s, w')))"
proof -
  obtain a w1 where wr: "fs_write fs p v w = (a, w1)" by (cases "fs_write fs p v w")
  then have one: "wrote p v w w1" by (rule fs_write_wrote)
  show ?thesis
  proof (cases a)
    case (Inl y)
    with run wr one show ?thesis by (auto simp: io_simps)
  next
    case (Inr u)
    obtain b w2 where m: "m w1 = (b, w2)" by (cases "m w1")
    with quiet have "unwritten w1 w2" by (rule io_keepsD)
    with one have two: "wrote p v w w2" by (rule wrote_unwritten)
    from run wr m Inr have "w' = w2" and "\<forall>s. q = Inr s \<longrightarrow> b = Inr s \<and> \<not> bad s"
      by (cases b; auto simp: io_simps split: if_splits)+
    with one two m show ?thesis by auto
  qed
qed

lemma firmware_result:
  assumes "io_bind m (\<lambda>st. io_ret (Firmware_state st)) w = (q, w')"
  obtains a where "m w = (a, w')" and "\<forall>st. q = Inr st \<longleftrightarrow> (\<exists>s. st = Firmware_state s \<and> a = Inr s)"
proof -
  obtain a w1 where m: "m w = (a, w1)" by (cases "m w")
  with assms have "w' = w1" by (cases a) (auto simp: io_simps)
  moreover have "q = Inr st \<longleftrightarrow> (\<exists>s. st = Firmware_state s \<and> a = Inr s)" for st
    using assms m by (cases a) (auto simp: io_simps)
  ultimately show thesis using m that by metis
qed

text \<open>C11: Applying a request to the zoned keyboard either is refused before anything is written, or writes
  exactly the one attribute of its mode; it succeeds only when the state read back shows the
  request, and returns that state.\<close>

theorem zoned_apply_verified:
  assumes "apply_zoned_wmi fs kl r w = (q, w')"
  shows "(writes_of (events_between w w') = [] \<and> \<not> is_ok q)
    \<or> (writes_of (events_between w w') = [zoned_write kl r]
        \<and> (is_ok q \<longrightarrow> (\<exists>s. q = Inr (Firmware_state s) \<and> zoned_shows kl r s)))"
proof -
  let ?main = "case lr_mode r of
          Mode_off \<Rightarrow> set_power fs kl False
        | Mode_static \<Rightarrow> io_bind (io_of (static_zones (kl_zone_count kl) r)) (\<lambda>zs.
            set_zones fs kl \<lparr>zr_zones = zs, zr_brightness = lr_brightness r\<rparr>)
        | _ \<Rightarrow> if lr_zone_colors r \<noteq> [] then io_err (Lg_message ''firmware effects accept one global color'')
            else set_effect fs kl (request_effect r)"
  show ?thesis
  proof (cases "lr_target r \<noteq> Keyboard \<or> lr_brightness r > 100 \<or> lr_speed r > 9")
    case True
    with assms show ?thesis by (auto simp: apply_zoned_wmi_def io_err_apply events_between_def split: if_splits)
  next
    case False
    then have "apply_zoned_wmi fs kl r = io_bind ?main (\<lambda>st. io_ret (Firmware_state st))"
      by (cases "lr_mode r") (auto simp: apply_zoned_wmi_def request_effect_def)
    with assms have "io_bind ?main (\<lambda>st. io_ret (Firmware_state st)) w = (q, w')" by simp
    then obtain a where a: "?main w = (a, w')" and q: "\<forall>st. q = Inr st \<longleftrightarrow> (\<exists>s. st = Firmware_state s \<and> a = Inr s)"
      by (rule firmware_result)
    have refused: ?thesis if "a = Inl x" "w' = w" for x
      using that q by (auto simp: events_between_def is_ok_iff)
    have verified: ?thesis
      if "wrote (fst (zoned_write kl r)) (snd (zoned_write kl r)) w w'" "\<And>s. a = Inr s \<Longrightarrow> zoned_shows kl r s"
      using that wrote_events [OF that(1)] q by (auto simp: is_ok_iff)
    have effect: ?thesis
      if main: "?main = (if lr_zone_colors r \<noteq> [] then io_err x else set_effect fs kl (request_effect r))"
        and mode: "lr_mode r = Mode_breathing \<or> lr_mode r = Mode_neon" for x
    proof (cases "lr_zone_colors r \<noteq> [] \<or> (\<exists>y. validate_effect (request_effect r) = Inl y)")
      case True
      with a main refused show ?thesis by (auto simp: set_effect_def io_simps split: if_splits)
    next
      case False
      then have "validate_effect (request_effect r) = Inr ()" by (cases "validate_effect (request_effect r)") auto
      with a main False have run: "io_then (io_map_err (Lg_rejected ''keyboard effect'') (fs_write fs (kl_effect kl) (effect_payload (request_effect r))))
          (io_bind (keyboard_read fs kl) (\<lambda>actual.
            if ls_mode actual \<noteq> er_mode (request_effect r) \<or> ls_speed actual \<noteq> er_speed (request_effect r)
              \<or> ls_brightness actual \<noteq> er_brightness (request_effect r)
              \<or> ls_direction actual \<noteq> er_direction (request_effect r) \<or> ls_color actual \<noteq> er_color (request_effect r)
            then io_err (Lg_message ''keyboard effect readback mismatch'') else io_ret actual)) w = (a, w')"
        by (simp add: set_effect_def io_then_apply [of "io_of _"] io_of_apply)
      note chk = write_then_check [OF run keyboard_read_unwritten]
      show ?thesis
        by (rule verified) (use chk mode in \<open>auto simp: zoned_write_def zoned_shows_def request_effect_def\<close>)
    qed
    show ?thesis
    proof (cases "lr_mode r")
      case Mode_off
      with a have "set_power fs kl False w = (a, w')" by simp
      note chk = write_then_check [OF this [unfolded set_power_def] keyboard_read_unwritten]
      show ?thesis
        by (rule verified) (use chk Mode_off in \<open>auto simp: zoned_write_def zoned_shows_def power_payload_def\<close>)
    next
      case Mode_static
      show ?thesis
      proof (cases "static_zones (kl_zone_count kl) r")
        case (Inl x)
        with a Mode_static refused show ?thesis by (auto simp: io_simps)
      next
        case (Inr zs)
        with a Mode_static False have "set_zones fs kl \<lparr>zr_zones = zs, zr_brightness = lr_brightness r\<rparr> w = (a, w')"
          by (simp add: io_simps)
        with False have "io_then (io_map_err (Lg_rejected ''keyboard zones'') (fs_write fs (kl_zones kl)
             (zones_payload (kl_zone_count kl) \<lparr>zr_zones = zs, zr_brightness = lr_brightness r\<rparr>)))
            (io_bind (keyboard_read fs kl) (\<lambda>actual. if ls_mode actual \<noteq> 0 \<or> ls_brightness actual \<noteq> lr_brightness r
               \<or> take (unat (kl_zone_count kl)) (ls_zones actual) \<noteq> take (unat (kl_zone_count kl)) zs
             then io_err (Lg_message ''keyboard zone readback mismatch'') else io_ret actual)) w = (a, w')"
          by (simp add: set_zones_def Let_def)
        note chk = write_then_check [OF this keyboard_read_unwritten]
        show ?thesis
          by (rule verified) (use chk Mode_static Inr in \<open>auto simp: zoned_write_def zoned_shows_def\<close>)
      qed
    next
      case Mode_breathing
      then show ?thesis by (intro effect) simp_all
    next
      case Mode_neon
      then show ?thesis by (intro effect) simp_all
    qed
  qed
qed

definition sample_keyboard :: keyboard_lighting where
  "sample_keyboard = \<lparr>kl_power = [''k'', ''power''], kl_effect = [''k'', ''effect''], kl_zones = [''k'', ''zones''], kl_zone_count = 2\<rparr>"

definition sample_keyboard_world :: "file_tree world" where
  "sample_keyboard_world = \<lparr>wenv = [([''k'', ''power''], ''1''), ([''k'', ''effect''], ''0,0,40,0,1,2,3''),
     ([''k'', ''zones''], ''000000,000000,9'')], wlog = []\<rparr>"

definition sample_static :: lighting_request where
  "sample_static = \<lparr>lr_target = Keyboard, lr_mode = Mode_static, lr_brightness = 40, lr_speed = 0, lr_color = (1, 2, 3),
     lr_zone_colors = [(255, 0, 16), (18, 52, 86)]\<rparr>"

lemma sample_keyboard_readback:
  "parse_state_with_zones ''0,0,40,0,1,2,3'' ''ff0010,123456,40\<newline>'' 2 = Inr
    \<lparr>ls_powered = True, ls_mode = 0, ls_speed = 0, ls_brightness = 40, ls_direction = 0, ls_color = (1, 2, 3),
     ls_zones = [(255, 0, 16), (18, 52, 86), BLACK, BLACK]\<rparr>"
proof -
  have trims: "str_trim ''0,0,40,0,1,2,3'' = ''0,0,40,0,1,2,3''" "str_trim ''ff0010,123456,40\<newline>'' = ''ff0010,123456,40''"
    by code_simp+
  have splits: "split_char (CHR '','') ''0,0,40,0,1,2,3'' = [''0'', ''0'', ''40'', ''0'', ''1'', ''2'', ''3'']"
    "split_char (CHR '','') ''ff0010,123456,40'' = [''ff0010'', ''123456'', ''40'']"
    by code_simp+
  have hex: "rgb_of_hex ''ff0010'' = Some (255, 0, 16)" "rgb_of_hex ''123456'' = Some (18, 52, 86)"
    by code_simp+
  have pad: "replicate 2 BLACK = [BLACK, BLACK]" by (simp add: numeral_2_eq_2)
  have two: "unat (2 :: u8) = 2" by simp
  have effect: "parse_decimal_list 7 ''0,0,40,0,1,2,3'' ''keyboard effect'' = Inr [0, 0, 40, 0, 1, 2, 3]"
    by (simp add: parse_decimal_list_def trims splits number_eval)
  have zones: "parse_zones ''ff0010,123456,40\<newline>'' 2 = Inr ([(255, 0, 16), (18, 52, 86), BLACK, BLACK], 40)"
    by (simp add: parse_zones_def trims splits hex parse_zone_color_def pad two number_eval del: unsigned_numeral)
  show ?thesis
    by (simp add: parse_state_with_zones_def effect zones as_u8_def)
qed

lemma zoned_apply_verified_witness:
  "writes_of (events_between sample_keyboard_world (snd (apply_zoned_wmi tree_sysfs sample_keyboard sample_static sample_keyboard_world)))
     = [([''k'', ''zones''], ''ff0010,123456,40\<newline>'')]"
proof -
  let ?run = "apply_zoned_wmi tree_sysfs sample_keyboard sample_static sample_keyboard_world"
  have w: "zoned_write sample_keyboard sample_static = ([''k'', ''zones''], ''ff0010,123456,40\<newline>'')" by code_simp
  have valid: "utf8_valid ''0,0,40,0,1,2,3''" "utf8_valid ''ff0010,123456,40\<newline>''" by code_simp+
  have zones: "zones_payload 2 \<lparr>zr_zones = (255, 0, 16) # (18, 52, 86) # replicate 2 (1, 2, 3), zr_brightness = 40\<rparr>
      = ''ff0010,123456,40\<newline>''"
    by code_simp
  have "is_ok (fst ?run)"
    by (simp add: apply_zoned_wmi_def sample_keyboard_def sample_static_def sample_keyboard_world_def static_zones_def
        set_zones_def keyboard_read_def io_simps tree_sysfs_run fs_write_def tree_sysfs_def [THEN arg_cong [of _ _ k_create]]
        tree_put_def zones valid sample_keyboard_readback Let_def)
  with w show ?thesis
    using zoned_apply_verified [of tree_sysfs sample_keyboard sample_static sample_keyboard_world "fst ?run" "snd ?run"]
    by simp
qed

text \<open>C12: The zoned keyboard refuses a breathing request with any nonzero speed, before writing anything,
  although the control protocol documents speeds 0 to 9 for it and the request passes the
  speed check.\<close>

theorem zoned_breathing_speed_refused:
  assumes "lr_mode r = Mode_breathing" and "lr_speed r \<noteq> 0"
  shows "\<exists>x. apply_zoned_wmi fs kl r w = (Inl x, w)"
proof -
  have "\<exists>x. validate_effect (request_effect r) = Inl x"
    using assms by (simp add: validate_effect_def request_effect_def)
  with assms show ?thesis
    by (auto simp: apply_zoned_wmi_def set_effect_def io_simps request_effect_def)
qed

lemma zoned_breathing_speed_refused_witness:
  "\<exists>x. apply_zoned_wmi tree_sysfs sample_keyboard (sample_static\<lparr>lr_mode := Mode_breathing, lr_speed := 5, lr_zone_colors := []\<rparr>)
     sample_keyboard_world = (Inl x, sample_keyboard_world)"
  by (rule zoned_breathing_speed_refused) simp_all

section \<open>ENEK5130 reports\<close>

text \<open>Capabilities as the parser accepts them: 1 to 16 zones and a supported mode.\<close>

definition valid_caps :: "target_capabilities \<Rightarrow> bool" where
  "valid_caps c \<longleftrightarrow> 1 \<le> unat (tc_zone_count c) \<and> unat (tc_zone_count c) \<le> 16
     \<and> and (tc_mode_mask c) supported_mask \<noteq> 0"

lemma parsed_caps_valid:
  "parse_target_capabilities t r = Inr c \<Longrightarrow> valid_caps c \<and> tc_target_id c = t"
  by (auto simp: parse_target_capabilities_def valid_caps_def Let_def split: if_splits)

text \<open>The zone bits of a report, as a set of zone numbers.\<close>

definition report_mask :: "u8 list \<Rightarrow> u16" where
  "report_mask r = or (ucast (r ! 9)) (push_bit 8 (ucast (r ! 10)))"

definition report_ok :: "target_capabilities \<Rightarrow> lighting_request \<Rightarrow> u8 list \<Rightarrow> bool" where
  "report_ok c r rep \<longleftrightarrow> length rep = LIGHTING_REPORT_LEN \<and> rep ! 0 = REPORT_LIGHTING \<and> rep ! 1 = tc_target_id c
     \<and> rep ! 2 = wire_mode (lr_mode r) \<and> rep ! 3 = (if lr_mode r = Mode_off then 0 else lr_brightness r)"

lemma word16_bytes: "or (ucast (ucast (z :: u16) :: u8) :: u16) (push_bit 8 (ucast (ucast (drop_bit 8 z) :: u8))) = z"
  by (rule bit_word_eqI) (auto simp: bit_simps)

lemma report_mask_encode [simp]: "report_mask (encode_lighting_report c m b s col z) = z"
  by (cases col) (simp add: report_mask_def encode_lighting_report_def word16_bytes)

lemma report_ok_encode:
  "m = wire_mode (lr_mode r) \<Longrightarrow> b = (if lr_mode r = Mode_off then 0 else lr_brightness r)
    \<Longrightarrow> report_ok c r (encode_lighting_report c m b s col z)"
  by (cases col) (simp add: report_ok_def encode_lighting_report_def LIGHTING_REPORT_LEN_def)

text \<open>The masks of several reports address each zone of the target exactly once.\<close>

definition zones_partition :: "target_capabilities \<Rightarrow> u8 list list \<Rightarrow> bool" where
  "zones_partition c reps \<longleftrightarrow> (\<forall>z < 16.
     (z < unat (tc_zone_count c) \<longrightarrow> length (filter (\<lambda>rep. bit (report_mask rep) z) reps) = 1)
   \<and> (\<not> z < unat (tc_zone_count c) \<longrightarrow> length (filter (\<lambda>rep. bit (report_mask rep) z) reps) = 0))"

lemma all_zones_bit:
  assumes "valid_caps c" and "z < 16"
  shows "bit (all_zones c) z \<longleftrightarrow> z < unat (tc_zone_count c)"
proof -
  let ?n = "unat (tc_zone_count c)"
  have n: "1 \<le> ?n" "?n \<le> 16" using assms(1) by (auto simp: valid_caps_def)
  show ?thesis
  proof (cases "?n \<le> 15")
    case True
    have "push_bit ?n 1 - 1 = (mask ?n :: u16)" by (simp add: mask_eq_exp_minus_1 push_bit_eq_mult)
    with True n assms(2) show ?thesis by (simp add: all_zones_def Let_def bit_mask_iff)
  next
    case False
    with n have "?n = 16" by simp
    have "(0xFFFF :: u16) = mask 16" by (simp add: mask_eq_exp_minus_1)
    moreover have "bit (mask 16 :: u16) z" using assms(2) by (simp add: bit_mask_iff)
    ultimately have "bit (0xFFFF :: u16) z" by metis
    with \<open>?n = 16\<close> assms(2) show ?thesis by (simp add: all_zones_def Let_def)
  qed
qed

lemma single_zone_bits:
  assumes "z < 16" and "k + length cs \<le> 16"
  shows "length (filter (\<lambda>rep. bit (report_mask rep) z)
      (map (\<lambda>(i, col). encode_lighting_report c m b s col (push_bit i 1)) (enumerate k cs)))
    = (if k \<le> z \<and> z < k + length cs then 1 else 0)"
  using assms(2)
proof (induction cs arbitrary: k)
  case Nil
  then show ?case by simp
next
  case (Cons x xs)
  let ?f = "\<lambda>(i, col). encode_lighting_report c m b s col (push_bit i 1)"
  have "bit (report_mask (?f (k, x))) z \<longleftrightarrow> z = k"
    using assms(1) Cons.prems by (auto simp: bit_exp_iff)
  then have "length (filter (\<lambda>rep. bit (report_mask rep) z) (map ?f (enumerate k (x # xs))))
      = (if z = k then 1 else 0) + length (filter (\<lambda>rep. bit (report_mask rep) z) (map ?f (enumerate (Suc k) xs)))"
    by (simp only: enumerate_simps list.map filter.simps if_distrib [of length] list.size) (simp split: if_split)
  also have "\<dots> = (if z = k then 1 else 0) + (if Suc k \<le> z \<and> z < Suc k + length xs then 1 else 0)"
    using Cons.IH [of "Suc k"] Cons.prems by (simp only: list.size)
  finally show ?case by (auto split: if_splits)
qed

lemma reports_partition:
  assumes "valid_caps c" and "lighting_reports c r = Inr reps"
  shows "caps_target c = Some (lr_target r) \<and> caps_supports c (lr_mode r)
    \<and> list_all (report_ok c r) reps \<and> zones_partition c reps"
proof -
  have one: "zones_partition c [encode_lighting_report c m b s col (all_zones c)]" for m b s col
    using all_zones_bit [OF assms(1)] by (auto simp: zones_partition_def)
  have many: "zones_partition c (map (\<lambda>(i, col). encode_lighting_report c m b s col (push_bit i 1)) (enumerate 0 cs))"
    if "length cs = unat (tc_zone_count c)" for m b s cs
    using that assms(1) single_zone_bits [of _ 0 cs c m b s] by (simp add: zones_partition_def valid_caps_def)
  have static: "list_all (report_ok c r) reps \<and> zones_partition c reps"
    if "static_reports c r = Inr reps" "lr_mode r = Mode_static"
  proof (cases "length (lr_zone_colors r) \<le> 1")
    case True
    then have "\<exists>col. reps = [encode_lighting_report c MODE_STATIC (lr_brightness r) 0 col (all_zones c)]"
      using that(1) by (auto simp: static_reports_def Let_def simp del: split_paired_Ex split: list.splits)
    with that(2) one show ?thesis by (auto simp: report_ok_encode wire_mode_def)
  next
    case False
    then have "length (lr_zone_colors r) = unat (tc_zone_count c)"
      and "reps = map (\<lambda>(i, col). encode_lighting_report c MODE_STATIC (lr_brightness r) 0 col (push_bit i 1))
          (enumerate 0 (lr_zone_colors r))"
      using that(1) by (auto simp: static_reports_def Let_def split: list.splits if_splits)
    with that(2) many show ?thesis by (auto simp: report_ok_encode wire_mode_def list_all_iff simp del: push_bit_of_1)
  qed
  show ?thesis
    using assms(2) static
    by (cases "lr_mode r") (auto simp: lighting_reports_def wire_mode_def report_ok_encode intro: one split: if_splits)
qed

text \<open>C13: The reports an ENEK5130 request is turned into are complete and well formed: each is an 11-byte
  lighting report for the requested target, mode and brightness, and together their zone masks
  address every zone of the target exactly once and no other zone.\<close>

theorem lighting_reports_partition:
  assumes "valid_caps c" and "lighting_reports c r = Inr reps"
  shows "caps_target c = Some (lr_target r) \<and> caps_supports c (lr_mode r)
    \<and> list_all (report_ok c r) reps \<and> zones_partition c reps"
  by (rule reports_partition [OF assms])

text \<open>Replaying the canonical form of a request drives the controller exactly as the request itself,
  and taking the canonical form again changes nothing.\<close>

theorem canonical_request_equivalent:
  "lighting_reports c (canonical_request r) = lighting_reports c r
   \<and> canonical_request (canonical_request r) = canonical_request r"
  by (cases "lr_mode r") (auto simp: canonical_request_def lighting_reports_def static_reports_def Let_def split: list.split)

definition sample_caps :: target_capabilities where
  "sample_caps = \<lparr>tc_target_id = 0x21, tc_zone_count = 2, tc_mode_mask = 0x1A\<rparr>"

lemma lighting_reports_partition_witness:
  "zones_partition sample_caps [[0xA4, 0x21, 2, 40, 0, 0, 255, 0, 16, 1, 0], [0xA4, 0x21, 2, 40, 0, 0, 18, 52, 86, 2, 0]]"
proof -
  have "valid_caps sample_caps" by code_simp
  moreover have "lighting_reports sample_caps sample_static
      = Inr [[0xA4, 0x21, 2, 40, 0, 0, 255, 0, 16, 1, 0], [0xA4, 0x21, 2, 40, 0, 0, 18, 52, 86, 2, 0]]"
    by code_simp
  ultimately show ?thesis using lighting_reports_partition by blast
qed

section \<open>ENEK5130 transactions\<close>

text \<open>
  The device controls of an apply: the query of the target list, the selection of the target and the
  query of its capabilities, then the lighting reports. Nothing else is recorded of a run.
\<close>

definition feature_code :: "u8 \<Rightarrow> nat \<Rightarrow> u64" where
  "feature_code operation n = (case feature_ioctl operation n of Inr code \<Rightarrow> code | Inl _ \<Rightarrow> 0)"

definition sends :: "path \<Rightarrow> u8 list \<Rightarrow> fs_event" where
  "sends node rep = Dev_ioctl node (feature_code 6 (length rep)) rep"

definition queries :: "path \<Rightarrow> u8 \<Rightarrow> nat \<Rightarrow> fs_event" where
  "queries node rid n = Dev_ioctl node (feature_code 7 n) ((replicate n 0)[0 := rid])"

definition enek_queries :: "path \<Rightarrow> u8 \<Rightarrow> fs_event list" where
  "enek_queries node t = [queries node REPORT_TARGET_LIST TARGET_LIST_REPORT_LEN, sends node [REPORT_TARGET_SELECT, t],
     queries node REPORT_TARGET_CAPABILITIES TARGET_CAPABILITIES_REPORT_LEN]"

text \<open>What the controller answered in this transaction: the target is in the list, and these are its capabilities.\<close>

definition target_listed :: "'e hid \<Rightarrow> path \<Rightarrow> u8 \<Rightarrow> 'e world \<Rightarrow> 'e world \<Rightarrow> bool" where
  "target_listed hr node t w w2 \<longleftrightarrow> (\<exists>w1 targets. open_controller hr node w = (Inr node, w1)
     \<and> read_target_list hr node w1 = (Inr targets, w2) \<and> t \<in> set targets)"

definition caps_reported :: "'e hid \<Rightarrow> path \<Rightarrow> u8 \<Rightarrow> 'e world \<Rightarrow> target_capabilities \<Rightarrow> bool" where
  "caps_reported hr node t w c \<longleftrightarrow> (\<exists>w2 w3. target_listed hr node t w w2 \<and> read_target_capabilities hr node t w2 = (Inr c, w3))"

lemma read_caps_valid:
  "read_target_capabilities hr p t w = (Inr c, w') \<Longrightarrow> valid_caps c \<and> tc_target_id c = t"
  unfolding read_target_capabilities_def
  by (auto simp: io_of_apply dest: parsed_caps_valid elim!: io_then_Inr io_bind_Inr)

lemma open_log: "open_controller hr p w = (q, w') \<Longrightarrow> wlog w' = wlog w \<and> (\<forall>f. q = Inr f \<longrightarrow> f = p)"
  by (auto simp: open_controller_def dev_open_def io_simps split: prod.splits sum.splits)

lemma set_feature_log:
  assumes "set_feature hr p rep w = (q, w')" and "0 < length rep" "length rep \<le> 16383"
  shows "wlog w' = wlog w @ [sends p rep]"
proof -
  obtain code where code: "feature_ioctl 6 (length rep) = Inr code" using assms(2,3) by (simp add: feature_ioctl_def)
  with assms(1) show ?thesis
    by (auto simp: set_feature_def io_simps dev_ioctl_def sends_def feature_code_def split: prod.splits sum.splits if_splits)
qed

lemma get_feature_log:
  assumes "get_feature hr n p rid w = (q, w')" and "0 < n" "n \<le> 16383"
  shows "wlog w' = wlog w @ [queries p rid n]"
proof -
  obtain code where code: "feature_ioctl 7 n = Inr code" using assms(2,3) by (simp add: feature_ioctl_def)
  with assms(1) show ?thesis
    by (auto simp: get_feature_def Let_def io_simps dev_ioctl_def queries_def feature_code_def split: prod.splits sum.splits if_splits)
qed

lemma target_list_log:
  assumes "read_target_list hr p w = (q, w')"
  shows "wlog w' = wlog w @ [queries p REPORT_TARGET_LIST TARGET_LIST_REPORT_LEN]"
proof -
  obtain a w1 where "get_feature hr TARGET_LIST_REPORT_LEN p REPORT_TARGET_LIST w = (a, w1)" by fastforce
  moreover from this assms have "w' = w1" by (cases a) (auto simp: read_target_list_def io_simps)
  ultimately show ?thesis using get_feature_log [of hr TARGET_LIST_REPORT_LEN p REPORT_TARGET_LIST w a w1] by (simp add: TARGET_LIST_REPORT_LEN_def)
qed

lemma capabilities_log:
  assumes "read_target_capabilities hr p t w = (q, w')"
  shows "\<exists>es. wlog w' = wlog w @ es \<and> (es = tl (enek_queries p t) \<or> es = [sends p [REPORT_TARGET_SELECT, t]] \<and> \<not> is_ok q)"
proof -
  obtain a w1 where a: "set_feature hr p [REPORT_TARGET_SELECT, t] w = (a, w1)" by fastforce
  obtain b w2 where b: "get_feature hr TARGET_CAPABILITIES_REPORT_LEN p REPORT_TARGET_CAPABILITIES w1 = (b, w2)" by fastforce
  have logs: "wlog w1 = wlog w @ [sends p [REPORT_TARGET_SELECT, t]]"
    "wlog w2 = wlog w1 @ [queries p REPORT_TARGET_CAPABILITIES TARGET_CAPABILITIES_REPORT_LEN]"
    using set_feature_log [OF a] get_feature_log [OF b] by (simp_all add: TARGET_CAPABILITIES_REPORT_LEN_def)
  show ?thesis
  proof (cases a)
    case (Inl x)
    with assms a logs(1) show ?thesis by (auto simp: read_target_capabilities_def io_simps)
  next
    case (Inr u)
    with assms a b have "w' = w2" by (cases b) (auto simp: read_target_capabilities_def io_simps)
    with logs show ?thesis by (simp add: enek_queries_def)
  qed
qed

lemma send_reports:
  assumes "list_all (report_ok c r) reps" and "io_map_list (set_feature hr p) reps w = (q, w')"
  shows "\<exists>sent. wlog w' = wlog w @ map (sends p) sent \<and> prefix sent reps \<and> (is_ok q \<longrightarrow> sent = reps)"
  using assms
proof (induction reps arbitrary: w q w')
  case Nil
  then show ?case by (auto simp: io_simps)
next
  case (Cons rep reps)
  obtain a w1 where a: "set_feature hr p rep w = (a, w1)" by (cases "set_feature hr p rep w")
  from Cons.prems(1) have "length rep = 11" by (simp add: report_ok_def LIGHTING_REPORT_LEN_def)
  then have one: "wlog w1 = wlog w @ [sends p rep]" using set_feature_log [OF a] by simp
  show ?case
  proof (cases a)
    case (Inl x)
    with Cons.prems(2) a have "w' = w1" "\<not> is_ok q" by (auto simp: io_simps)
    with one show ?thesis by (intro exI [of _ "[rep]"]) simp
  next
    case (Inr u)
    obtain b w2 where b: "io_map_list (set_feature hr p) reps w1 = (b, w2)"
      by (cases "io_map_list (set_feature hr p) reps w1")
    have "list_all (report_ok c r) reps" using Cons.prems(1) by simp
    from Cons.IH [OF this b] obtain sent where sent: "wlog w2 = wlog w1 @ map (sends p) sent" "prefix sent reps" "is_ok b \<longrightarrow> sent = reps"
      by blast
    have "io_map_list (set_feature hr p) (rep # reps) w = (case b of Inl e \<Rightarrow> (Inl e, w2) | Inr ys \<Rightarrow> (Inr (u # ys), w2))"
      using a Inr b by (simp add: io_bind_apply io_ret_apply split: sum.split)
    with Cons.prems(2) have "w' = w2 \<and> is_ok q = is_ok b" by (cases b) auto
    with one sent show ?thesis by (intro exI [of _ "rep # sent"]) simp
  qed
qed

lemma enek_send_reports:
  assumes run: "io_bind (io_of (lighting_reports c r)) (\<lambda>reports.
      io_then (io_map_list (set_feature hr p) reports) (io_ret (Last_applied (canonical_request r)))) w = (q, w')"
    and "valid_caps c"
  shows "w' = w \<and> \<not> is_ok q \<or> (\<exists>reps sent. lighting_reports c r = Inr reps \<and> wlog w' = wlog w @ map (sends p) sent \<and> prefix sent reps
     \<and> (is_ok q \<longrightarrow> sent = reps \<and> q = Inr (Last_applied (canonical_request r))))"
proof (cases "lighting_reports c r")
  case (Inl x)
  with run show ?thesis by (auto simp: io_simps)
next
  case (Inr reps)
  have ok: "list_all (report_ok c r) reps"
    using reports_partition [OF assms(2) Inr] by blast
  obtain b w1 where b: "io_map_list (set_feature hr p) reps w = (b, w1)" by (cases "io_map_list (set_feature hr p) reps w")
  have "w' = w1" "is_ok q \<longrightarrow> is_ok b \<and> q = Inr (Last_applied (canonical_request r))"
    using run Inr b by (cases b; auto simp: io_simps)+
  with send_reports [OF ok b] Inr show ?thesis by auto
qed

text \<open>What follows once the target is listed.\<close>

lemma enek_listed_run:
  assumes run: "io_bind (read_target_capabilities hr p t) (\<lambda>caps. io_bind (io_of (lighting_reports caps r)) (\<lambda>reports.
      io_then (io_map_list (set_feature hr p) reports) (io_ret (Last_applied (canonical_request r))))) w2 = (q, w')"
    and first: "wlog w2 = wlog w @ take 1 (enek_queries p t)" and listed: "target_listed hr p t w w2"
  shows "(\<exists>n. wlog w' = wlog w @ take n (enek_queries p t) \<and> \<not> is_ok q)
    \<or> (\<exists>c reps sent. caps_reported hr p t w c \<and> valid_caps c \<and> tc_target_id c = t \<and> lighting_reports c r = Inr reps
        \<and> wlog w' = wlog w @ enek_queries p t @ map (sends p) sent \<and> prefix sent reps
        \<and> (is_ok q \<longrightarrow> sent = reps \<and> q = Inr (Last_applied (canonical_request r))))"
proof -
  obtain k w3 where k: "read_target_capabilities hr p t w2 = (k, w3)" by fastforce
  obtain es where es: "wlog w3 = wlog w2 @ es" "es = tl (enek_queries p t) \<or> es = [sends p [REPORT_TARGET_SELECT, t]] \<and> \<not> is_ok k"
    using capabilities_log [OF k] by blast
  have whole: "wlog w3 = wlog w @ take 3 (enek_queries p t)" if "es = tl (enek_queries p t)"
    using that first es(1) by (simp add: enek_queries_def)
  have "wlog w3 = wlog w @ take 2 (enek_queries p t)" if "es = [sends p [REPORT_TARGET_SELECT, t]]"
    using that first es(1) by (simp add: enek_queries_def)
  with whole es(2) have begun: "\<exists>n. wlog w3 = wlog w @ take n (enek_queries p t)" by blast
  show ?thesis
  proof (cases k)
    case (Inl x)
    with run k have "w' = w3" "\<not> is_ok q" by (auto simp: io_bind_apply)
    with begun show ?thesis by blast
  next
    case (Inr c)
    with es(2) whole have all: "wlog w3 = wlog w @ enek_queries p t" by (simp add: enek_queries_def)
    have c: "caps_reported hr p t w c" "valid_caps c" "tc_target_id c = t"
      unfolding caps_reported_def using listed k Inr read_caps_valid [OF k [unfolded Inr]] by blast+
    from run k Inr have "io_bind (io_of (lighting_reports c r)) (\<lambda>reports.
        io_then (io_map_list (set_feature hr p) reports) (io_ret (Last_applied (canonical_request r)))) w3 = (q, w')"
      by (simp add: io_bind_apply [of "read_target_capabilities _ _ _"])
    from enek_send_reports [OF this c(2)] show ?thesis
      using all c begun by auto
  qed
qed

text \<open>C14: However the HID device answers, everything an apply sends to it is known. A request that is not
  validated, or whose target the controller does not have, sends nothing. Otherwise the first control queries
  the target list; only when that answer lists the target is the target selected and its capabilities queried;
  and only when they were answered are lighting reports sent: in order, the reports of the request for
  these capabilities. Success means all of them were sent, a failure sent a prefix of this sequence.\<close>

theorem enek_apply_safe:
  assumes "enek_apply hr ek r w = (q, w')"
  shows "\<exists>es. wlog w' = wlog w @ es \<and> (es = [] \<and> \<not> is_ok q \<or>
    enek_validate_request r = Inr () \<and> (\<exists>t. target_id (lr_target r) = Some t \<and>
      (es = take 1 (enek_queries (ek_node ek) t) \<and> \<not> is_ok q
       \<or> (\<exists>n w2. es = take n (enek_queries (ek_node ek) t) \<and> target_listed hr (ek_node ek) t w w2 \<and> \<not> is_ok q)
       \<or> (\<exists>c reps sent. caps_reported hr (ek_node ek) t w c \<and> valid_caps c \<and> tc_target_id c = t \<and> lighting_reports c r = Inr reps
            \<and> es = enek_queries (ek_node ek) t @ map (sends (ek_node ek)) sent \<and> prefix sent reps
            \<and> (is_ok q \<longrightarrow> sent = reps \<and> q = Inr (Last_applied (canonical_request r)))))))"
proof (cases "enek_validate_request r")
  case (Inl x)
  with assms show ?thesis by (auto simp: enek_apply_def io_simps)
next
  case valid: (Inr u)
  show ?thesis
  proof (cases "target_id (lr_target r)")
    case None
    with assms valid show ?thesis by (auto simp: enek_apply_def io_simps)
  next
    case (Some t)
    let ?p = "ek_node ek"
    obtain a w1 where a: "open_controller hr ?p w = (a, w1)" by fastforce
    obtain b w2 where b: "read_target_list hr ?p w1 = (b, w2)" by fastforce
    note opened = open_log [OF a] and run = assms [unfolded enek_apply_def io_then_apply [of "io_of _"] io_of_apply io_bind_apply [of "io_of _"]
        valid Some ok_or_simps sum.case prod.case io_bind_apply [of "open_controller _ _"] a]
    show ?thesis
    proof (cases a)
      case (Inl x)
      with run opened show ?thesis by auto
    next
      case (Inr f)
      with opened have f: "a = Inr ?p" by simp
      note run = run [unfolded f sum.case io_bind_apply [of "read_target_list _ _"] b prod.case]
      have first: "wlog w2 = wlog w @ take 1 (enek_queries ?p t)"
        using target_list_log [OF b] opened by (simp add: enek_queries_def)
      show ?thesis
      proof (cases "\<exists>targets. b = Inr targets \<and> t \<in> set targets")
        case False
        with run have "w' = w2" "\<not> is_ok q" by (cases b; auto simp: io_err_apply)+
        with first valid Some show ?thesis by auto
      next
        case True
        then obtain targets where ts: "b = Inr targets" "t \<in> set targets" by blast
        have listed: "target_listed hr ?p t w w2" unfolding target_listed_def using a f b ts by blast
        have "\<not> t \<notin> set targets" using ts(2) by simp
        note run = run [unfolded ts(1) sum.case if_not_P [OF this]]
        from run have "io_bind (read_target_capabilities hr ?p t) (\<lambda>caps. io_bind (io_of (lighting_reports caps r)) (\<lambda>reports.
            io_then (io_map_list (set_feature hr ?p) reports) (io_ret (Last_applied (canonical_request r))))) w2 = (q, w')"
          by (simp add: io_of_def)
        from enek_listed_run [OF this first listed] show ?thesis
        proof (elim disjE exE conjE)
          fix n assume "wlog w' = wlog w @ take n (enek_queries ?p t)" "\<not> is_ok q"
          with listed valid Some show ?thesis by auto
        next
          fix c reps sent assume "caps_reported hr ?p t w c" "valid_caps c" "tc_target_id c = t" "lighting_reports c r = Inr reps"
            "wlog w' = wlog w @ enek_queries ?p t @ map (sends ?p) sent" "prefix sent reps"
            "is_ok q \<longrightarrow> sent = reps \<and> q = Inr (Last_applied (canonical_request r))"
          with valid Some show ?thesis
            by (intro exI [of _ "enek_queries ?p t @ map (sends ?p) sent"] conjI disjI2 exI [of _ t]) (simp, simp, simp, metis)
        qed
      qed
    qed
  qed
qed

definition sample_hid :: "unit hid" where
  "sample_hid = \<lparr>hd_open = (\<lambda>p rw e. (Inr (), e)),
     hd_ioctl = (\<lambda>p q b e. (Inr (if b ! 0 = 0xA1 then (11, [0xA1, 1, 0x21, 0, 0, 0, 0, 0, 0, 0, 0])
       else if b ! 0 = 0xA3 then (9, [0xA3, 0x21, 0, 2, 0, 0x1A, 0, 0, 0]) else (length b, b)), e))\<rparr>"

definition sample_enek :: enek5130 where
  "sample_enek = \<lparr>ek_node = [''dev'', ''hidraw0''], ek_capabilities = [], ek_devices = []\<rparr>"

lemma enek_apply_safe_witness:
  "\<exists>c reps. valid_caps c \<and> lighting_reports c sample_static = Inr reps
     \<and> wlog (snd (enek_apply sample_hid sample_enek sample_static \<lparr>wenv = (), wlog = []\<rparr>))
       = enek_queries [''dev'', ''hidraw0''] 0x21 @ map (sends [''dev'', ''hidraw0'']) reps"
proof -
  let ?run = "enek_apply sample_hid sample_enek sample_static \<lparr>wenv = (), wlog = []\<rparr>"
  have ok: "is_ok (fst ?run)" and t: "target_id (lr_target sample_static) = Some 0x21" by code_simp+
  show ?thesis
    using enek_apply_safe [of sample_hid sample_enek sample_static "\<lparr>wenv = (), wlog = []\<rparr>" "fst ?run" "snd ?run"] ok t
    by (auto simp: sample_enek_def)
qed

end
