(* ===== verification/Line_Io.thy ===== *)
theory Line_Io
  imports Sysfs
begin

text \<open>
  Reading lines from a socket. A buffered reader is what its \<open>fill_buf\<close> calls will return: data
  of any size, or an error (with whether the reader's deadline has passed by then). The end of
  the list is the end of the stream, as is an empty buffer. Both line readers of the program,
  the daemon's \<open>CommandDecoder\<close> and the client's \<open>read_response_line\<close>, run on this type; the
  theory states what it means for a stream to carry given bytes in some chunking.
\<close>

datatype read_event = Bytes string | Read_error io_error bool

definition NL :: char where "NL = CHR 0x0A"

definition line_part :: "string \<Rightarrow> string" where "line_part s = takeWhile (\<lambda>c. c \<noteq> NL) s"
definition after_line :: "string \<Rightarrow> string" where "after_line s = drop (length (line_part s) + 1) s"
definition has_newline :: "string \<Rightarrow> bool" where "has_newline s \<longleftrightarrow> NL \<in> set s"

text \<open>\<open>consume\<close> leaves the unread part of a buffer for the next call.\<close>

definition push_back :: "string \<Rightarrow> read_event list \<Rightarrow> read_event list" where
  "push_back rest es = (if rest = [] then es else Bytes rest # es)"

text \<open>\<open>carries es bytes\<close>: the events deliver exactly \<open>bytes\<close>, in non-empty pieces, without errors.\<close>

fun carries :: "read_event list \<Rightarrow> string \<Rightarrow> bool" where
  "carries [] s \<longleftrightarrow> s = []"
| "carries (Bytes b # es) s \<longleftrightarrow> b \<noteq> [] \<and> prefix b s \<and> carries es (drop (length b) s)"
| "carries (Read_error x late # es) s \<longleftrightarrow> False"

lemma line_part_free: "\<not> has_newline s \<Longrightarrow> line_part s = s"
  by (auto simp: line_part_def has_newline_def takeWhile_eq_all_conv)

lemma line_part_no_newline: "NL \<notin> set (line_part s)"
  by (auto simp: line_part_def dest: set_takeWhileD)

lemma line_split: "has_newline s \<Longrightarrow> s = line_part s @ NL # after_line s"
proof -
  assume "has_newline s"
  then have ne: "dropWhile (\<lambda>c. c \<noteq> NL) s \<noteq> []" by (auto simp: has_newline_def dropWhile_eq_Nil_conv)
  then obtain rest where d: "dropWhile (\<lambda>c. c \<noteq> NL) s = NL # rest"
    using hd_dropWhile [OF ne] by (cases "dropWhile (\<lambda>c. c \<noteq> NL) s") auto
  have s: "s = line_part s @ NL # rest"
    using takeWhile_dropWhile_id [of "\<lambda>c. c \<noteq> NL" s] d by (simp add: line_part_def)
  have "after_line s = drop (length (line_part s) + 1) (line_part s @ NL # rest)"
    unfolding after_line_def using s by metis
  then have "after_line s = rest" by simp
  with s show ?thesis by metis
qed

lemma line_part_append: "NL \<notin> set a \<Longrightarrow> line_part (a @ NL # b) = a"
  unfolding line_part_def by (subst takeWhile_append2) auto

lemma after_line_append: "NL \<notin> set a \<Longrightarrow> after_line (a @ NL # b) = b"
  by (simp add: after_line_def line_part_append)

lemma carries_push_back: "carries es s \<Longrightarrow> carries (push_back b es) (b @ s)"
  by (simp add: push_back_def)

text \<open>A stream carrying a line and more: its first piece ends inside the line or after it.\<close>

lemma carries_line_cases:
  assumes "carries es (l @ NL # rest)" and "NL \<notin> set l"
  obtains b fs where "es = Bytes b # fs" "b \<noteq> []" "\<not> has_newline b" "prefix b l" "carries fs (drop (length b) l @ NL # rest)"
  | b fs where "es = Bytes b # fs" "has_newline b" "line_part b = l" "carries (push_back (after_line b) fs) rest"
proof -
  from assms(1) obtain b fs where es: "es = Bytes b # fs" "b \<noteq> []" "prefix b (l @ NL # rest)"
    "carries fs (drop (length b) (l @ NL # rest))"
    by (cases es rule: carries.cases [of "(es, l @ NL # rest)" for es]) auto
  from es(3) have "prefix b l \<or> (\<exists>c. b = l @ NL # c \<and> prefix c rest)"
    by (auto simp: prefix_append prefix_Cons)
  then show thesis
  proof
    assume p: "prefix b l"
    then have "\<not> has_newline b" using assms(2) by (auto simp: has_newline_def prefix_def)
    moreover have "carries fs (drop (length b) l @ NL # rest)"
      using es(4) p by (auto simp: prefix_def)
    ultimately show thesis using that(1) es p by blast
  next
    assume "\<exists>c. b = l @ NL # c \<and> prefix c rest"
    then obtain c where c: "b = l @ NL # c" "prefix c rest" by blast
    then obtain d where d: "rest = c @ d" by (auto simp: prefix_def)
    have "carries fs d" using es(4) c d by simp
    then have "carries (push_back (after_line b) fs) rest"
      using c d assms(2) by (simp add: after_line_append carries_push_back)
    moreover have "has_newline b" "line_part b = l"
      using c assms(2) by (auto simp: has_newline_def line_part_append)
    ultimately show thesis using that(2) es by blast
  qed
qed

end
