(* ===== verification/Control.thy ===== *)
theory Control
  imports Line_Io Lighting_Control Platform Tuning
begin

text \<open>
  \<open>src/control.rs\<close>: the client side of the control socket. Errors and whether they end the
  session, the bounded response reader, the response and receipt formats, the validation of
  capability snapshots, and the commands of each client operation. The connected stream is a
  parameter \<open>link\<close>; JSON (\<open>serde_json\<close>) is a pair of functions passed to the two
  capability codecs.
\<close>

section \<open>Constants and errors\<close>

definition CONTROL_SOCKET :: string where "CONTROL_SOCKET = ''/run/asense-control.sock''"
definition CONTROL_PROTOCOL_VERSION :: u16 where "CONTROL_PROTOCOL_VERSION = 2"
definition MAX_CONTROL_COMMAND_BYTES :: nat where "MAX_CONTROL_COMMAND_BYTES = 192"
definition MAX_CONTROL_RESPONSE_LINE_BYTES :: nat where "MAX_CONTROL_RESPONSE_LINE_BYTES = 32768"
definition MAX_CONTROL_RESPONSE_PAYLOAD_BYTES :: nat where
  "MAX_CONTROL_RESPONSE_PAYLOAD_BYTES = MAX_CONTROL_RESPONSE_LINE_BYTES - length ''ERR ''"
definition CAPABILITIES_SCHEMA_VERSION :: u8 where "CAPABILITIES_SCHEMA_VERSION = 1"
definition MAX_CAPABILITY_PROFILES :: nat where "MAX_CAPABILITY_PROFILES = 8"
definition MAX_CAPABILITY_FANS :: nat where "MAX_CAPABILITY_FANS = 8"
definition MAX_CAPABILITY_LIGHTING_DEVICES :: nat where "MAX_CAPABILITY_LIGHTING_DEVICES = 8"
definition MAX_CAPABILITY_TOKEN_BYTES :: nat where "MAX_CAPABILITY_TOKEN_BYTES = 48"
definition MAX_CAPABILITY_LABEL_BYTES :: nat where "MAX_CAPABILITY_LABEL_BYTES = 64"
definition MAX_CAPABILITY_IDENTITY_BYTES :: nat where "MAX_CAPABILITY_IDENTITY_BYTES = 96"

datatype control_error =
    Command_rejected string
  | Invalid_request string
  | Transport string
  | Transport_io string io_error
  | Timeout
  | Protocol string
  | Protocol_platform platform_error

definition invalidates_session :: "control_error \<Rightarrow> bool" where
  "invalidates_session e \<longleftrightarrow> (case e of Command_rejected _ \<Rightarrow> False | Invalid_request _ \<Rightarrow> False | _ \<Rightarrow> True)"

record profile_power_receipt =
  pp_enforced_limit_mw :: u32
  pp_maximum_limit_mw :: u32
  pp_clock_event_reasons :: u64

record profile_apply_receipt =
  pr_firmware_profile :: string
  pr_gpu_offsets :: gpu_offset_state
  pr_gpu_pstate_count :: nat
  pr_gpu_capability_available :: bool
  pr_power :: "profile_power_receipt option"

record control_capabilities =
  cc_vendor :: string
  cc_product :: string
  cc_reference_model :: bool
  cc_profiles :: profile_capabilities
  cc_fans :: fan_capabilities
  cc_lighting :: "lighting_device list"
  cc_platform :: platform_capabilities

record handshake_receipt =
  hr_protocol :: u16
  hr_daemon_version :: string

section \<open>Reading a response\<close>

text \<open>\<open>response\<close> are the bytes kept so far, \<open>oversized\<close> that they were given up.\<close>

definition closed_early :: "string \<Rightarrow> bool \<Rightarrow> control_error" where
  "closed_early response oversized = (if response = [] \<and> \<not> oversized
     then Transport ''control service closed the connection''
     else if oversized then Protocol ''control response exceeded 32768 bytes''
     else Transport ''control service closed before completing its response'')"

fun read_response_line :: "string \<Rightarrow> bool \<Rightarrow> read_event list \<Rightarrow> (control_error + string) \<times> read_event list" where
  "read_response_line response oversized [] = (Inl (closed_early response oversized), [])"
| "read_response_line response oversized (Bytes b # es) =
     (if b = [] then (Inl (closed_early response oversized), es)
      else (let payload = line_part b;
                too_long = \<not> oversized \<and> length payload > MAX_CONTROL_RESPONSE_LINE_BYTES - length response;
                oversized' = (oversized \<or> too_long);
                response' = (if oversized then response else if too_long then [] else response @ payload) in
        if has_newline b then
          ((if oversized' then Inl (Protocol ''control response exceeded 32768 bytes'')
            else if utf8_valid response' then Inr response'
            else Inl (Protocol ''control response was not valid UTF-8'')), push_back (after_line b) es)
        else read_response_line response' oversized' es))"
| "read_response_line response oversized (Read_error x late # es) =
     (if io_error_kind x = Interrupted then read_response_line response oversized es
      else if io_error_kind x = WouldBlock \<or> io_error_kind x = TimedOut then
        (if \<not> late then read_response_line response oversized es else (Inl Timeout, es))
      else (Inl (Transport_io ''control read failed'' x), es))"

definition parse_response :: "string \<Rightarrow> control_error + string" where
  "parse_response line = (let r = str_trim line in
     if r = ''OK'' then Inr []
     else (case strip_pre ''OK '' r of Some v \<Rightarrow> Inr (str_trim v)
       | None \<Rightarrow> if r = ''ERR'' then Inl (Command_rejected [])
         else (case strip_pre ''ERR '' r of Some e \<Rightarrow> Inl (Command_rejected (str_trim e))
           | None \<Rightarrow> Inl (Protocol ''invalid response from control service''))))"

section \<open>Fields and receipts\<close>

definition exact_field :: "string \<times> string \<Rightarrow> control_error + string" where
  "exact_field nt = (case nt of (name, tok) \<Rightarrow> (case split_once (CHR ''='') tok of
      None \<Rightarrow> Inl (Protocol ''invalid field in control response'')
    | Some (k, v) \<Rightarrow> if k \<noteq> name \<or> v = [] then Inl (Protocol (''expected '' @ name @ '' field in control response''))
        else Inr v))"

definition parse_exact_fields :: "string \<Rightarrow> string list \<Rightarrow> control_error + string list" where
  "parse_exact_fields v names = (let tokens = split_ascii_ws v in
     if length tokens \<noteq> length names then Inl (Protocol ''invalid field count in control response'')
     else res_map_list exact_field (zip names tokens))"

definition parse_handshake :: "string \<Rightarrow> control_error + handshake_receipt" where
  "parse_handshake v = res_bind (parse_exact_fields v [''protocol'', ''daemon'']) (\<lambda>vals.
     res_bind (ok_or (Protocol ''invalid protocol version from control service'') (parse_u16 (vals ! 0))) (\<lambda>p.
       if vals ! 1 = [] then Inl (Protocol ''control service returned an empty daemon version'')
       else Inr \<lparr>hr_protocol = p, hr_daemon_version = vals ! 1\<rparr>))"

definition require_capability :: "bool \<Rightarrow> bool \<Rightarrow> string \<Rightarrow> control_error + unit" where
  "require_capability valid protocol message = (if valid then Inr ()
     else if protocol then Inl (Protocol message) else Inl (Invalid_request message))"

definition profile_char :: "char \<Rightarrow> bool" where
  "profile_char c \<longleftrightarrow> is_lower c \<or> is_digit c \<or> c = CHR ''-'' \<or> c = CHR ''_''"

definition validate_profile_token :: "string \<Rightarrow> bool \<Rightarrow> control_error + unit" where
  "validate_profile_token v protocol = require_capability
     (v \<noteq> [] \<and> length v \<le> MAX_CAPABILITY_TOKEN_BYTES \<and> list_all profile_char v) protocol ''invalid profile token''"

definition valid_lighting_device_id :: "string \<Rightarrow> bool" where
  "valid_lighting_device_id v \<longleftrightarrow> v \<noteq> [] \<and> length v \<le> MAX_CAPABILITY_TOKEN_BYTES
     \<and> list_all (\<lambda>c. is_alnum c \<or> c = CHR ''-'' \<or> c = CHR ''_'') v"

definition parse_capability :: "string \<Rightarrow> string \<Rightarrow> control_error + bool" where
  "parse_capability v label = (if v = ''available'' then Inr True else if v = ''unavailable'' then Inr False
     else Inl (Protocol (''invalid '' @ label @ '' capability in control receipt'')))"

definition parse_u32_receipt :: "string \<Rightarrow> string \<Rightarrow> control_error + u32" where
  "parse_u32_receipt v label = ok_or (Protocol (''invalid '' @ label @ '' in control receipt'')) (parse_u32 v)"

definition gpu_offsets_name :: "gpu_offset_state \<Rightarrow> string" where
  "gpu_offsets_name g = (case g of Gpu_unavailable \<Rightarrow> ''unavailable'' | Gpu_reset \<Rightarrow> ''reset''
     | Gpu_oem_turbo \<Rightarrow> ''oem-turbo'' | Gpu_custom_or_partial \<Rightarrow> ''custom-or-partial'')"

definition parse_gpu_offsets :: "string \<Rightarrow> control_error + gpu_offset_state" where
  "parse_gpu_offsets v = (if v = ''unavailable'' then Inr Gpu_unavailable else if v = ''reset'' then Inr Gpu_reset
     else if v = ''oem-turbo'' then Inr Gpu_oem_turbo else if v = ''custom-or-partial'' then Inr Gpu_custom_or_partial
     else Inl (Protocol ''invalid GPU offset state in control receipt''))"

definition RECEIPT_FIELDS :: "string list" where
  "RECEIPT_FIELDS = [''profile'', ''gpu'', ''pstates'', ''gpu_capability'', ''power_capability'', ''enforced_mw'', ''max_mw'', ''reasons'']"

definition parse_receipt_power :: "string list \<Rightarrow> bool \<Rightarrow> control_error + profile_power_receipt option" where
  "parse_receipt_power vals available = (if available then
       res_bind (parse_u32_receipt (vals ! 5) ''enforced power limit'') (\<lambda>enforced.
       res_bind (parse_u32_receipt (vals ! 6) ''maximum power limit'') (\<lambda>maximum.
       res_bind (ok_or (Protocol ''invalid clock event reasons in control receipt'') (strip_pre ''0x'' (vals ! 7))) (\<lambda>h.
       res_bind (ok_or (Protocol ''invalid clock event reasons in control receipt'') (parse_uint 16 u64_max h)) (\<lambda>bits.
         Inr (Some \<lparr>pp_enforced_limit_mw = enforced, pp_maximum_limit_mw = maximum, pp_clock_event_reasons = of_nat bits\<rparr>)))))
     else if list_ex (\<lambda>v. v \<noteq> ''unavailable'') (drop 5 vals) then Inl (Protocol ''inconsistent unavailable power receipt'')
     else Inr None)"

definition parse_profile_apply_receipt :: "string \<Rightarrow> control_error + profile_apply_receipt" where
  "parse_profile_apply_receipt v = res_bind (parse_exact_fields v RECEIPT_FIELDS) (\<lambda>vals.
     res_bind (validate_profile_token (vals ! 0) True) (\<lambda>_.
     res_bind (parse_gpu_offsets (vals ! 1)) (\<lambda>gpu.
     res_bind (ok_or (Protocol ''invalid GPU P-state count in control receipt'') (parse_uint 10 u64_max (vals ! 2))) (\<lambda>count.
     res_bind (parse_capability (vals ! 3) ''GPU'') (\<lambda>gpu_available.
     res_bind (parse_capability (vals ! 4) ''power'') (\<lambda>power_available.
     res_bind (parse_receipt_power vals power_available) (\<lambda>power.
       if \<not> gpu_available \<and> (gpu \<noteq> Gpu_unavailable \<or> count \<noteq> 0 \<or> power \<noteq> None)
       then Inl (Protocol ''inconsistent unavailable GPU receipt'')
       else if gpu_available \<and> gpu = Gpu_unavailable then Inl (Protocol ''inconsistent available GPU receipt'')
       else Inr \<lparr>pr_firmware_profile = vals ! 0, pr_gpu_offsets = gpu, pr_gpu_pstate_count = count,
         pr_gpu_capability_available = gpu_available, pr_power = power\<rparr>)))))))"

definition available_name :: "bool \<Rightarrow> string" where
  "available_name b = (if b then ''available'' else ''unavailable'')"

definition receipt_values :: "profile_apply_receipt \<Rightarrow> string list" where
  "receipt_values r = [pr_firmware_profile r, gpu_offsets_name (pr_gpu_offsets r), show_nat (pr_gpu_pstate_count r),
     available_name (pr_gpu_capability_available r)] @ (case pr_power r of
       Some p \<Rightarrow> [''available'', show_word (pp_enforced_limit_mw p), show_word (pp_maximum_limit_mw p),
         ''0x'' @ show_hex (unat (pp_clock_event_reasons p))]
     | None \<Rightarrow> [''unavailable'', ''unavailable'', ''unavailable'', ''unavailable''])"

definition encode_profile_apply_receipt :: "profile_apply_receipt \<Rightarrow> string" where
  "encode_profile_apply_receipt r = join_with '' ''
     (map (\<lambda>(k, v). k @ ''='' @ v) (zip RECEIPT_FIELDS (receipt_values r)))"

section \<open>Capability snapshots\<close>

definition validate_capability_text :: "string \<Rightarrow> nat \<Rightarrow> bool \<Rightarrow> control_error + unit" where
  "validate_capability_text v maximum protocol = require_capability
     (v \<noteq> [] \<and> length v \<le> maximum \<and> \<not> has_control v) protocol ''invalid capability text''"

fun validate_all :: "('a \<Rightarrow> control_error + unit) \<Rightarrow> 'a list \<Rightarrow> control_error + unit" where
  "validate_all f [] = Inr ()"
| "validate_all f (x # xs) = res_bind (f x) (\<lambda>_. validate_all f xs)"

definition validate_choice :: "bool \<Rightarrow> profile_choice \<Rightarrow> control_error + unit" where
  "validate_choice protocol c = res_bind (validate_profile_token (pc_raw c) protocol)
     (\<lambda>_. validate_capability_text (pc_label c) MAX_CAPABILITY_LABEL_BYTES protocol)"

text \<open>A list checked with the element before each one.\<close>

fun with_previous :: "'a option \<Rightarrow> 'a list \<Rightarrow> ('a option \<times> 'a) list" where
  "with_previous p [] = []"
| "with_previous p (x # xs) = (p, x) # with_previous (Some x) xs"

definition validate_channel :: "bool \<Rightarrow> fan_rpm_channel option \<times> fan_rpm_channel \<Rightarrow> control_error + unit" where
  "validate_channel protocol pc = (case pc of (previous, c) \<Rightarrow>
     res_bind (require_capability (1 \<le> unat (rc_index c) \<and> unat (rc_index c) \<le> MAX_CAPABILITY_FANS
         \<and> (case previous of None \<Rightarrow> True | Some p \<Rightarrow> rc_index p < rc_index c)
         \<and> (case rc_rpm c of None \<Rightarrow> True | Some rpm \<Rightarrow> rpm \<le> 100000)) protocol
       ''fan channel is invalid or indices are not unique and ascending'')
     (\<lambda>_. validate_capability_text (rc_label c) MAX_CAPABILITY_LABEL_BYTES protocol))"

definition validate_device :: "bool \<Rightarrow> lighting_device option \<times> lighting_device \<Rightarrow> control_error + unit" where
  "validate_device protocol pd = (case pd of (previous, d) \<Rightarrow>
     res_bind (require_capability (1 \<le> unat (ld_zones d) \<and> unat (ld_zones d) \<le> 16
         \<and> (case previous of None \<Rightarrow> True | Some p \<Rightarrow> ld_id p < ld_id d)) protocol
       ''invalid lighting zone count or non-ascending device ID'')
     (\<lambda>_. validate_capability_text (ld_id d) MAX_CAPABILITY_TOKEN_BYTES protocol))"

definition validate_control_capabilities :: "control_capabilities \<Rightarrow> bool \<Rightarrow> control_error + unit" where
  "validate_control_capabilities c protocol =
     res_bind (require_capability (length (prc_choices (cc_profiles c)) \<le> MAX_CAPABILITY_PROFILES
        \<and> length (fc_rpm_channels (cc_fans c)) \<le> MAX_CAPABILITY_FANS
        \<and> length (cc_lighting c) \<le> MAX_CAPABILITY_LIGHTING_DEVICES) protocol ''capability collection exceeds protocol bounds'') (\<lambda>_.
     res_bind (validate_capability_text (cc_vendor c) MAX_CAPABILITY_IDENTITY_BYTES protocol) (\<lambda>_.
     res_bind (validate_capability_text (cc_product c) MAX_CAPABILITY_IDENTITY_BYTES protocol) (\<lambda>_.
     res_bind (require_capability (prc_backend (cc_profiles c) \<noteq> None
        \<or> prc_choices (cc_profiles c) = [] \<and> prc_current (cc_profiles c) = None) protocol
        ''profile state requires a profile backend'') (\<lambda>_.
     res_bind (validate_all (validate_choice protocol) (prc_choices (cc_profiles c))) (\<lambda>_.
     res_bind (case prc_current (cc_profiles c) of None \<Rightarrow> Inr () | Some t \<Rightarrow> validate_profile_token t protocol) (\<lambda>_.
     res_bind (require_capability (fc_backend (cc_fans c) \<noteq> None
        \<or> \<not> (fc_auto (cc_fans c) \<or> fc_manual (cc_fans c) \<or> fc_maximum (cc_fans c))) protocol
        ''fan modes require a fan backend'') (\<lambda>_.
     res_bind (validate_all (validate_channel protocol) (with_previous None (fc_rpm_channels (cc_fans c)))) (\<lambda>_.
       validate_all (validate_device protocol) (with_previous None (cc_lighting c))))))))))"

text \<open>\<open>sort_by_key\<close> and \<open>sort_by\<close> are stable sorts by channel index and by device id.\<close>

definition sorted_capabilities :: "control_capabilities \<Rightarrow> control_capabilities" where
  "sorted_capabilities c = c\<lparr>cc_fans := (cc_fans c)\<lparr>fc_rpm_channels := sort_key rc_index (fc_rpm_channels (cc_fans c))\<rparr>,
     cc_lighting := sort_key ld_id (cc_lighting c)\<rparr>"

definition caps_prefix :: string where "caps_prefix = ''caps='' @ show_word CAPABILITIES_SCHEMA_VERSION"

definition encode_control_capabilities ::
  "(control_capabilities \<Rightarrow> string + string) \<Rightarrow> control_capabilities \<Rightarrow> control_error + string" where
  "encode_control_capabilities to_json caps = (let c = sorted_capabilities caps in
     res_bind (validate_control_capabilities c False) (\<lambda>_.
     res_bind (res_map_err (\<lambda>e. Invalid_request (''cannot encode capabilities: '' @ e)) (to_json c)) (\<lambda>json.
       let encoded = caps_prefix @ '' '' @ json in
       if length encoded > MAX_CONTROL_RESPONSE_PAYLOAD_BYTES
       then Inl (Invalid_request ''capability response exceeds the control line limit'') else Inr encoded)))"

definition parse_control_capabilities ::
  "(string \<Rightarrow> string + control_capabilities) \<Rightarrow> string \<Rightarrow> control_error + control_capabilities" where
  "parse_control_capabilities of_json v = (if length v > MAX_CONTROL_RESPONSE_PAYLOAD_BYTES
     then Inl (Protocol ''capability response exceeds the control line limit'')
     else (case split_once (CHR '' '') v of None \<Rightarrow> Inl (Protocol ''invalid capability response framing'')
       | Some (schema, json) \<Rightarrow> if schema \<noteq> caps_prefix then Inl (Protocol ''unsupported capability schema'')
           else res_bind (res_map_err (\<lambda>e. Protocol (''invalid capability JSON: '' @ e)) (of_json json)) (\<lambda>c.
             res_bind (validate_control_capabilities c True) (\<lambda>_. Inr c))))"

section \<open>The client\<close>

text \<open>A connected stream: writing all of some bytes, flushing, and what the reader will deliver.\<close>

record 'c link =
  ln_write :: "string \<Rightarrow> 'c \<Rightarrow> (io_error + unit) \<times> 'c"
  ln_flush :: "'c \<Rightarrow> (io_error + unit) \<times> 'c"
  ln_events :: "'c \<Rightarrow> read_event list"
  ln_rest :: "read_event list \<Rightarrow> 'c \<Rightarrow> 'c"

type_synonym ('c, 'a) client_io = "('c, control_error, 'a) io"

definition receive :: "'c link \<Rightarrow> ('c, string) client_io" where
  "receive ln = (\<lambda>c. case read_response_line [] False (ln_events ln c) of (r, es) \<Rightarrow> (r, ln_rest ln es c))"

definition request :: "'c link \<Rightarrow> string \<Rightarrow> ('c, string) client_io" where
  "request ln command =
     io_then (io_map_err (Transport_io ''control write failed'')
       (io_then (ln_write ln command) (io_then (ln_write ln [NL]) (ln_flush ln))))
     (io_bind (receive ln) (\<lambda>line. io_of (parse_response line)))"

definition hello_command :: string where "hello_command = ''HELLO '' @ show_word CONTROL_PROTOCOL_VERSION"

definition negotiate :: "'c link \<Rightarrow> ('c, handshake_receipt) client_io" where
  "negotiate ln =
     io_bind (io_map_err (\<lambda>e. case e of
         Command_rejected m \<Rightarrow> Protocol (''control protocol negotiation was rejected: '' @ m) | _ \<Rightarrow> e)
       (request ln hello_command)) (\<lambda>line.
     io_bind (io_of (parse_handshake line)) (\<lambda>h.
       if hr_protocol h \<noteq> CONTROL_PROTOCOL_VERSION then io_err (Protocol ''unsupported control protocol'') else io_ret h))"

definition unit_request :: "'c link \<Rightarrow> string \<Rightarrow> ('c, unit) client_io" where
  "unit_request ln command = io_bind (request ln command) (\<lambda>_. io_ret ())"

definition client_fan_auto :: "'c link \<Rightarrow> ('c, unit) client_io" where "client_fan_auto ln = unit_request ln ''FAN AUTO''"
definition client_fan_maximum :: "'c link \<Rightarrow> ('c, unit) client_io" where "client_fan_maximum ln = unit_request ln ''FAN MAXIMUM''"
definition client_ping :: "'c link \<Rightarrow> ('c, unit) client_io" where "client_ping ln = unit_request ln ''PING''"

definition fan_manual_command :: "u8 \<Rightarrow> u8 \<Rightarrow> control_error + string" where
  "fan_manual_command c g = (let inside = (\<lambda>p. 20 \<le> unat p \<and> unat p \<le> 100) in
     if \<not> inside c \<or> \<not> inside g then Inl (Invalid_request ''manual fan percentage must be within 20..=100'')
     else Inr (''FAN MANUAL '' @ show_word c @ '' '' @ show_word g))"

definition client_fan_manual :: "'c link \<Rightarrow> u8 \<Rightarrow> u8 \<Rightarrow> ('c, unit) client_io" where
  "client_fan_manual ln c g = io_bind (io_of (fan_manual_command c g)) (unit_request ln)"

definition client_capabilities ::
  "(string \<Rightarrow> string + control_capabilities) \<Rightarrow> 'c link \<Rightarrow> ('c, control_capabilities) client_io" where
  "client_capabilities of_json ln = io_bind (request ln ''CAPS'') (\<lambda>r. io_of (parse_control_capabilities of_json r))"

definition client_set_profile :: "'c link \<Rightarrow> string \<Rightarrow> ('c, profile_apply_receipt) client_io" where
  "client_set_profile ln profile = io_then (io_of (validate_profile_token profile False))
     (io_bind (request ln (''PROFILE '' @ profile)) (\<lambda>r. io_of (parse_profile_apply_receipt r)))"

definition client_keyboard_state :: "'c link \<Rightarrow> ('c, string) client_io" where
  "client_keyboard_state ln = request ln ''RGB GET''"

definition mode_word :: "lighting_mode \<Rightarrow> string" where
  "mode_word m = (case m of Mode_off \<Rightarrow> ''OFF'' | Mode_static \<Rightarrow> ''STATIC'' | Mode_breathing \<Rightarrow> ''BREATHING'' | Mode_neon \<Rightarrow> ''NEON'')"

definition zones_word :: "rgb list \<Rightarrow> string" where
  "zones_word zs = (if zs = [] then ''-'' else join_with '','' (map hex_rgb zs))"

definition lighting_apply_command :: "string \<Rightarrow> lighting_mode \<Rightarrow> u8 \<Rightarrow> u8 \<Rightarrow> rgb \<Rightarrow> rgb list \<Rightarrow> control_error + string" where
  "lighting_apply_command device mode brightness speed color zones =
     (if \<not> valid_lighting_device_id device \<or> brightness > 100 \<or> speed > 9 \<or> length zones > 16
      then Inl (Invalid_request ''invalid typed lighting request'')
      else (let command = join_with '' '' [''LIGHTING'', ''APPLY'', device, mode_word mode, show_word brightness,
              show_word speed, hex_rgb color, zones_word zones] in
        if length command > MAX_CONTROL_COMMAND_BYTES
        then Inl (Invalid_request ''typed lighting request exceeds the control line limit'') else Inr command))"

definition client_lighting_apply ::
  "'c link \<Rightarrow> string \<Rightarrow> lighting_mode \<Rightarrow> u8 \<Rightarrow> u8 \<Rightarrow> rgb \<Rightarrow> rgb list \<Rightarrow> ('c, string) client_io" where
  "client_lighting_apply ln device mode brightness speed color zones =
     io_bind (io_of (lighting_apply_command device mode brightness speed color zones)) (request ln)"

definition on_off :: "bool \<Rightarrow> string" where "on_off b = (if b then ''ON'' else ''OFF'')"

definition client_lighting_power :: "'c link \<Rightarrow> string \<Rightarrow> bool \<Rightarrow> ('c, string) client_io" where
  "client_lighting_power ln device enabled = (if \<not> valid_lighting_device_id device
     then io_err (Invalid_request ''invalid typed lighting power request'')
     else request ln (''LIGHTING POWER '' @ device @ '' '' @ on_off enabled))"

definition platform_request_line :: "'c link \<Rightarrow> string \<Rightarrow> ('c, platform_state) client_io" where
  "platform_request_line ln command = io_bind (request ln command) (\<lambda>r. io_of (res_map_err Protocol_platform (parse_state r)))"

definition set_platform_toggle :: "'c link \<Rightarrow> string \<Rightarrow> bool \<Rightarrow> ('c, platform_state) client_io" where
  "set_platform_toggle ln name enabled = platform_request_line ln (''PLATFORM '' @ name @ '' '' @ on_off enabled)"

definition client_platform_state :: "'c link \<Rightarrow> ('c, platform_state) client_io" where
  "client_platform_state ln = platform_request_line ln ''PLATFORM GET''"
definition client_set_battery_limit :: "'c link \<Rightarrow> bool \<Rightarrow> ('c, platform_state) client_io" where
  "client_set_battery_limit ln b = set_platform_toggle ln ''BATTERY_LIMIT'' b"
definition client_set_battery_calibration :: "'c link \<Rightarrow> bool \<Rightarrow> ('c, platform_state) client_io" where
  "client_set_battery_calibration ln b = platform_request_line ln
     (if b then ''PLATFORM BATTERY_CALIBRATION START'' else ''PLATFORM BATTERY_CALIBRATION STOP'')"
definition client_set_usb_charging :: "'c link \<Rightarrow> usb_charging \<Rightarrow> ('c, platform_state) client_io" where
  "client_set_usb_charging ln u = platform_request_line ln (''PLATFORM USB_CHARGING '' @ show_word (threshold u))"
definition client_set_keyboard_timeout :: "'c link \<Rightarrow> bool \<Rightarrow> ('c, platform_state) client_io" where
  "client_set_keyboard_timeout ln b = set_platform_toggle ln ''KEYBOARD_TIMEOUT'' b"
definition client_set_boot_sound :: "'c link \<Rightarrow> bool \<Rightarrow> ('c, platform_state) client_io" where
  "client_set_boot_sound ln b = set_platform_toggle ln ''BOOT_SOUND'' b"
definition client_set_lcd_override :: "'c link \<Rightarrow> bool \<Rightarrow> ('c, platform_state) client_io" where
  "client_set_lcd_override ln b = set_platform_toggle ln ''LCD_OVERRIDE'' b"

definition rear_logo_command :: "rear_logo_state \<Rightarrow> control_error + string" where
  "rear_logo_command l = (if lg_brightness l > 100 then Inl (Invalid_request ''rear logo brightness must be within 0..=100'')
     else Inr (join_with '' '' [''PLATFORM'', ''REAR_LOGO'', hex_rgb (lg_color l), show_word (lg_brightness l), on_off (lg_enabled l)]))"

definition client_set_rear_logo :: "'c link \<Rightarrow> rear_logo_state \<Rightarrow> ('c, platform_state) client_io" where
  "client_set_rear_logo ln l = io_bind (io_of (rear_logo_command l)) (platform_request_line ln)"

end
