(* ===== verification/Mutation_Lock.thy ===== *)
theory Mutation_Lock
  imports Sysfs
begin

text \<open>
  \<open>src/mutation_lock.rs\<close>: the lock file that serialises the firmware transactions of several
  processes. The kernel (opening, metadata, \<open>flock\<close>) and the monotonic clock are a parameter,
  a record of functions on a state \<open>'c\<close>; time is counted in nanoseconds. The retry loop has no
  bound of its own, so it is a partial function whose value \<open>None\<close> is ``does not return''.
\<close>

section \<open>The operating system as a parameter\<close>

record lock_metadata =
  lm_is_file :: bool
  lm_uid :: u32
  lm_nlink :: u64
  lm_mode :: u32

record 'c lock_os =
  lo_open :: "path \<Rightarrow> 'c \<Rightarrow> (io_error + unit) \<times> 'c"
  lo_metadata :: "path \<Rightarrow> 'c \<Rightarrow> io_error + lock_metadata"
  lo_flock :: "path \<Rightarrow> 'c \<Rightarrow> (io_error + unit) \<times> 'c"
  lo_now :: "'c \<Rightarrow> nat \<times> 'c"
  lo_sleep :: "nat \<Rightarrow> 'c \<Rightarrow> 'c"

definition MUTATION_LOCK :: path where "MUTATION_LOCK = [''run'', ''asense-mutation.lock'']"
definition MUTATION_LOCK_TIMEOUT :: nat where "MUTATION_LOCK_TIMEOUT = 3000000000"
definition MUTATION_LOCK_RETRY :: nat where "MUTATION_LOCK_RETRY = 25000000"

datatype lock_error =
    Cannot_open_lock io_error
  | Cannot_inspect_lock io_error
  | Unsafe_lock_file
  | Lock_stayed_busy nat
  | Cannot_lock io_error

section \<open>Acquiring the guard\<close>

definition lock_file_is_safe :: "lock_metadata \<Rightarrow> bool" where
  "lock_file_is_safe m \<longleftrightarrow> lm_is_file m \<and> lm_uid m = 0 \<and> lm_nlink m = 1 \<and> and (lm_mode m) 0x1FF = 0x180"

partial_function (option) lock_loop ::
  "'c lock_os \<Rightarrow> path \<Rightarrow> nat \<Rightarrow> nat \<Rightarrow> 'c \<Rightarrow> ((lock_error + unit) \<times> 'c) option" where
  "lock_loop os p timeout deadline c = (case lo_flock os p c of (status, c1) \<Rightarrow> (case status of
       Inr _ \<Rightarrow> Some (Inr (), c1)
     | Inl x \<Rightarrow>
         if io_error_kind x = Interrupted then (case lo_now os c1 of (t, c2) \<Rightarrow>
             if t < deadline then lock_loop os p timeout deadline c2
             else Some (Inl (Lock_stayed_busy (timeout div 1000000)), c2))
         else if io_error_kind x = WouldBlock then (case lo_now os c1 of (t, c2) \<Rightarrow>
             if t < deadline then (case lo_now os c2 of (t', c3) \<Rightarrow>
                 lock_loop os p timeout deadline (lo_sleep os (min MUTATION_LOCK_RETRY (deadline - t')) c3))
             else Some (Inl (Lock_stayed_busy (timeout div 1000000)), c2))
         else Some (Inl (Cannot_lock x), c1)))"

definition lock_file_with_timeout ::
  "'c lock_os \<Rightarrow> path \<Rightarrow> nat \<Rightarrow> 'c \<Rightarrow> ((lock_error + unit) \<times> 'c) option" where
  "lock_file_with_timeout os p timeout c = (case lo_now os c of (t, c1) \<Rightarrow> lock_loop os p timeout (t + timeout) c1)"

definition acquire_at_with_timeout ::
  "'c lock_os \<Rightarrow> path \<Rightarrow> nat \<Rightarrow> 'c \<Rightarrow> ((lock_error + unit) \<times> 'c) option" where
  "acquire_at_with_timeout os p timeout c = (case lo_open os p c of
       (Inl x, c1) \<Rightarrow> Some (Inl (Cannot_open_lock x), c1)
     | (Inr _, c1) \<Rightarrow> (case lo_metadata os p c1 of
           Inl x \<Rightarrow> Some (Inl (Cannot_inspect_lock x), c1)
         | Inr m \<Rightarrow> if \<not> lock_file_is_safe m then Some (Inl Unsafe_lock_file, c1)
             else lock_file_with_timeout os p timeout c1))"

definition guard_acquire :: "'c lock_os \<Rightarrow> 'c \<Rightarrow> ((lock_error + unit) \<times> 'c) option" where
  "guard_acquire os = acquire_at_with_timeout os MUTATION_LOCK MUTATION_LOCK_TIMEOUT"

section \<open>A returned guard holds the lock\<close>

lemma lock_loop_Inr:
  assumes ret: "lock_loop os p timeout deadline c = Some rc"
  shows "fst rc = Inr () \<longrightarrow> (\<exists>c0. lo_flock os p c0 = (Inr (), snd rc))"
proof (rule lock_loop.raw_induct
    [where P = "\<lambda>os p timeout deadline c rc. fst rc = Inr () \<longrightarrow> (\<exists>c0. lo_flock os p c0 = (Inr (), snd rc))", OF _ ret])
  fix f :: "'b lock_os \<Rightarrow> path \<Rightarrow> nat \<Rightarrow> nat \<Rightarrow> 'b \<Rightarrow> ((lock_error + unit) \<times> 'b) option"
    and os p timeout deadline c rc
  assume IH: "\<And>os p timeout deadline c rc. f os p timeout deadline c = Some rc \<Longrightarrow>
      fst rc = Inr () \<longrightarrow> (\<exists>c0. lo_flock os p c0 = (Inr (), snd rc))"
    and eq: "(case lo_flock os p c of (status, c1) \<Rightarrow> (case status of
       Inr _ \<Rightarrow> Some (Inr (), c1)
     | Inl x \<Rightarrow>
         if io_error_kind x = Interrupted then (case lo_now os c1 of (t, c2) \<Rightarrow>
             if t < deadline then f os p timeout deadline c2
             else Some (Inl (Lock_stayed_busy (timeout div 1000000)), c2))
         else if io_error_kind x = WouldBlock then (case lo_now os c1 of (t, c2) \<Rightarrow>
             if t < deadline then (case lo_now os c2 of (t', c3) \<Rightarrow>
                 f os p timeout deadline (lo_sleep os (min MUTATION_LOCK_RETRY (deadline - t')) c3))
             else Some (Inl (Lock_stayed_busy (timeout div 1000000)), c2))
         else Some (Inl (Cannot_lock x), c1))) = Some rc"
  show "fst rc = Inr () \<longrightarrow> (\<exists>c0. lo_flock os p c0 = (Inr (), snd rc))"
    using eq by (auto split: prod.splits sum.splits if_splits dest: IH)
qed

lemmas acquire_defs = guard_acquire_def acquire_at_with_timeout_def lock_file_with_timeout_def

text \<open>C18: a returned guard means that the lock file was a regular file of root with one link and mode 0600, and that the last kernel call took the lock on it; no other outcome is reported as success.\<close>

theorem guard_holds_lock:
  assumes "guard_acquire os c = Some (Inr (), c')"
  shows "\<exists>c1 m. lo_open os MUTATION_LOCK c = (Inr (), c1) \<and> lo_metadata os MUTATION_LOCK c1 = Inr m
    \<and> lm_is_file m \<and> lm_uid m = 0 \<and> lm_nlink m = 1 \<and> and (lm_mode m) 0x1FF = 0x180
    \<and> (\<exists>c0. lo_flock os MUTATION_LOCK c0 = (Inr (), c'))"
  using assms unfolding acquire_defs
  by (auto simp: lock_file_is_safe_def dest!: lock_loop_Inr split: prod.splits sum.splits if_splits)

text \<open>
  A scripted kernel: the clock, and the answers of the coming lock attempts (busy when they have
  run out).
\<close>

definition scripted_os :: "(nat \<times> (io_error + unit) list) lock_os" where
  "scripted_os = \<lparr>lo_open = \<lambda>p c. (Inr (), c),
     lo_metadata = \<lambda>p c. Inr \<lparr>lm_is_file = True, lm_uid = 0, lm_nlink = 1, lm_mode = 0x8180\<rparr>,
     lo_flock = \<lambda>p c. (case snd c of [] \<Rightarrow> (Inl (Os_error 11), (Suc (fst c), [])) | r # rs \<Rightarrow> (r, (Suc (fst c), rs))),
     lo_now = \<lambda>c. (fst c, c), lo_sleep = \<lambda>d c. (fst c + d, snd c)\<rparr>"

lemma scripted_acquire:
  "guard_acquire scripted_os (0, [Inl (Os_error 11), Inl (Os_error 4), Inr ()]) = Some (Inr (), (25000003, []))"
  by (simp add: guard_acquire_def acquire_at_with_timeout_def lock_file_with_timeout_def lock_loop.simps
      scripted_os_def lock_file_is_safe_def io_error_kind_def MUTATION_LOCK_TIMEOUT_def MUTATION_LOCK_RETRY_def)

theorem guard_holds_lock_witness:
  "guard_acquire scripted_os (0, [Inl (Os_error 11), Inl (Os_error 4), Inr ()]) = Some (Inr (), (25000003, []))
   \<and> (\<exists>c0. lo_flock scripted_os MUTATION_LOCK c0 = (Inr (), (25000003, [])))"
  using guard_holds_lock [OF scripted_acquire] scripted_acquire by blast

section \<open>The wait is bounded\<close>

text \<open>
  \<open>time\<close> is the instant of a state. Nothing moves it back, a clock reading returns an instant not
  after the state it leaves, and an attempt to lock takes at least one nanosecond.
\<close>

definition clock_advances :: "'c lock_os \<Rightarrow> path \<Rightarrow> ('c \<Rightarrow> nat) \<Rightarrow> bool" where
  "clock_advances os p time \<longleftrightarrow>
     (\<forall>c r c'. lo_flock os p c = (r, c') \<longrightarrow> time c < time c')
   \<and> (\<forall>c t c'. lo_now os c = (t, c') \<longrightarrow> time c \<le> t \<and> t \<le> time c')
   \<and> (\<forall>d c. time c \<le> time (lo_sleep os d c))"

lemma clock_advancesD:
  assumes "clock_advances os p time"
  shows "lo_flock os p c = (r, c') \<Longrightarrow> time c < time c'"
    and "lo_now os c = (t, c') \<Longrightarrow> time c \<le> t" and "lo_now os c = (t, c') \<Longrightarrow> t \<le> time c'"
    and "time c \<le> time (lo_sleep os d c)"
  using assms unfolding clock_advances_def by blast+

lemma lock_loop_returns:
  assumes clock: "clock_advances os p time"
  shows "\<exists>rc. lock_loop os p timeout deadline c = Some rc"
proof (induction "deadline - time c" arbitrary: c rule: less_induct)
  case less
  obtain status c1 where flock: "lo_flock os p c = (status, c1)" by (cases "lo_flock os p c") auto
  obtain t c2 where now: "lo_now os c1 = (t, c2)" by (cases "lo_now os c1") auto
  obtain t' c3 where again: "lo_now os c2 = (t', c3)" by (cases "lo_now os c2") auto
  define c4 where "c4 = lo_sleep os (min MUTATION_LOCK_RETRY (deadline - t')) c3"
  have order: "time c < time c1" "time c1 \<le> t" "t \<le> time c2" "time c2 \<le> t'" "t' \<le> time c3" "time c3 \<le> time c4"
    using clock_advancesD [OF clock] flock now again unfolding c4_def by blast+
  have again_returns: "\<exists>rc. lock_loop os p timeout deadline d = Some rc" if "t < deadline" "time c2 \<le> time d" for d
    by (rule less.hyps) (use that order in linarith)
  show ?case
    using order again_returns [of c2] again_returns [of c4]
    by (subst lock_loop.simps) (auto simp: flock now again c4_def split: sum.splits)
qed

text \<open>Taking the mutation lock returns, whatever the other processes do with it: on a clock that advances with every attempt the retry loop ends with the guard or with an error.\<close>

theorem guard_acquire_returns:
  assumes "clock_advances os MUTATION_LOCK time"
  shows "\<exists>r c'. guard_acquire os c = Some (r, c')"
proof -
  have "\<exists>r c'. lock_file_with_timeout os MUTATION_LOCK timeout c1 = Some (r, c')" for timeout c1
    using lock_loop_returns [OF assms] unfolding lock_file_with_timeout_def
    by (auto split: prod.splits)
  then show ?thesis
    unfolding guard_acquire_def acquire_at_with_timeout_def by (auto split: prod.splits sum.splits)
qed

lemma scripted_clock: "clock_advances scripted_os MUTATION_LOCK fst"
  by (auto simp: clock_advances_def scripted_os_def split: list.splits)

theorem guard_acquire_returns_witness:
  "\<exists>r c'. guard_acquire scripted_os (0, []) = Some (r, c')"
  by (rule guard_acquire_returns [OF scripted_clock])

end
