(* ===== verification/Daemon_Wire.thy ===== *)
theory Daemon_Wire
  imports Control Mutation_Lock
begin

text \<open>
  \<open>src/daemon.rs\<close>, the socket side that touches no hardware: the bounded command decoder, the
  response sanitizer and framing, the protocol negotiation, the classification and argument
  parsing of commands, the socket-activation check and the pool of client permits.
\<close>

section \<open>The command decoder\<close>

text \<open>\<open>read\<close> of \<open>CommandDecoder\<close>: the result, the retained bytes, and the events left.\<close>

definition decoder_push :: "string \<Rightarrow> string \<Rightarrow> bool \<times> string" where
  "decoder_push pending bytes = (if length bytes > MAX_CONTROL_COMMAND_BYTES - length pending
     then (False, []) else (True, pending @ bytes))"

definition decoder_finish :: "string \<Rightarrow> string + string" where
  "decoder_finish pending = (if utf8_valid pending then Inr pending else Inl ''command must be valid UTF-8'')"

definition decoder_eof :: "string \<Rightarrow> io_error + (string + string) option" where
  "decoder_eof pending = (if pending = [] then Inr None else Inl Invalid_data)"

fun decoder_read :: "string \<Rightarrow> read_event list \<Rightarrow> (io_error + (string + string) option) \<times> string \<times> read_event list" where
  "decoder_read pending [] = (decoder_eof pending, [], [])"
| "decoder_read pending (Read_error x late # es) = (Inl x, pending, es)"
| "decoder_read pending (Bytes b # es) =
     (if b = [] then (decoder_eof pending, [], es)
      else (case decoder_push pending (line_part b) of
          (False, p) \<Rightarrow> (Inl Invalid_data, p, push_back (after_line b) es)
        | (True, p) \<Rightarrow> if has_newline b then (Inr (Some (decoder_finish p)), [], push_back (after_line b) es)
            else decoder_read p es))"

section \<open>Responses\<close>

definition sanitize_char :: "string \<Rightarrow> string" where
  "sanitize_char ch = (if ch = [CHR 0x0D] \<or> ch = [NL] then '' '' else if is_control ch then ''?'' else ch)"

text \<open>Characters are appended until one would pass the payload limit.\<close>

fun sanitize_chars :: "nat \<Rightarrow> string list \<Rightarrow> string" where
  "sanitize_chars used [] = []"
| "sanitize_chars used (ch # chs) = (let c = sanitize_char ch in
     if used + length c > MAX_CONTROL_RESPONSE_PAYLOAD_BYTES then [] else c @ sanitize_chars (used + length c) chs)"

definition sanitize_response_payload :: "string \<Rightarrow> string" where
  "sanitize_response_payload v = (case utf8_chars v of None \<Rightarrow> [] | Some chs \<Rightarrow> sanitize_chars 0 chs)"

text \<open>The line written for a result.\<close>

definition response_line :: "string + string \<Rightarrow> string" where
  "response_line r = (case r of Inr v \<Rightarrow> ''OK '' @ sanitize_response_payload v | Inl e \<Rightarrow> ''ERR '' @ sanitize_response_payload e)"

definition response_bytes :: "string + string \<Rightarrow> string" where
  "response_bytes r = response_line r @ [NL]"

definition write_response :: "'c link \<Rightarrow> string + string \<Rightarrow> ('c, io_error, unit) io" where
  "write_response ln r = io_then (ln_write ln (response_bytes r)) (ln_flush ln)"

section \<open>Negotiation\<close>

text \<open>\<open>CARGO_PKG_VERSION\<close> of the manifest.\<close>

definition PKG_VERSION :: string where "PKG_VERSION = ''0.4.0''"

definition protocol_handshake :: "string list \<Rightarrow> (string + string) option" where
  "protocol_handshake args = (case args of [h, version] \<Rightarrow> if h \<noteq> ''HELLO'' then None
       else (case parse_u16 version of None \<Rightarrow> Some (Inl ''protocol version must be an integer'')
         | Some v \<Rightarrow> if v \<noteq> CONTROL_PROTOCOL_VERSION
             then Some (Inl (''unsupported protocol version '' @ show_word v @ ''; expected '' @ show_word CONTROL_PROTOCOL_VERSION))
             else Some (Inr (''protocol='' @ show_word CONTROL_PROTOCOL_VERSION @ '' daemon='' @ PKG_VERSION)))
     | _ \<Rightarrow> None)"

datatype protocol_action = Handshake_accepted string | Handshake_rejected string | Dispatch

definition protocol_accept :: "bool \<Rightarrow> string \<Rightarrow> protocol_action \<times> bool" where
  "protocol_accept negotiated command = (if negotiated then (Dispatch, True)
     else (case protocol_handshake (split_ascii_ws command) of
         None \<Rightarrow> (Handshake_rejected (''protocol negotiation required; expected HELLO '' @ show_word CONTROL_PROTOCOL_VERSION), False)
       | Some (Inl e) \<Rightarrow> (Handshake_rejected e, False)
       | Some (Inr r) \<Rightarrow> (Handshake_accepted r, True)))"

section \<open>Commands\<close>

text \<open>Slice patterns: a literal head and any rest.\<close>

definition command_is_mutation :: "string list \<Rightarrow> bool" where
  "command_is_mutation args \<longleftrightarrow> (case args of [] \<Rightarrow> False
     | c # rest \<Rightarrow> c = ''FAN'' \<or> c = ''PROFILE''
         \<or> (case rest of [] \<Rightarrow> False
            | operation # _ \<Rightarrow> (c = ''RGB'' \<or> c = ''PLATFORM'') \<and> operation \<noteq> ''GET''
                \<or> c = ''LIGHTING'' \<and> (operation = ''APPLY'' \<or> operation = ''POWER'')))"

definition command_activates_runtime_maintenance :: "string list \<Rightarrow> bool" where
  "command_activates_runtime_maintenance args \<longleftrightarrow> args \<noteq> [''DIAG'', ''PASSIVE'']"

text \<open>The three exact shapes of a fan command.\<close>

definition is_fan_override :: "string list \<Rightarrow> bool" where
  "is_fan_override args \<longleftrightarrow> args = [''FAN'', ''AUTO''] \<or> args = [''FAN'', ''MAXIMUM'']"

definition is_fan_command :: "string list \<Rightarrow> bool" where
  "is_fan_command args \<longleftrightarrow> is_fan_override args
     \<or> (case args of [f, m, c, g] \<Rightarrow> f = ''FAN'' \<and> m = ''MANUAL'' | _ \<Rightarrow> False)"

definition is_profile_command :: "string list \<Rightarrow> bool" where
  "is_profile_command args \<longleftrightarrow> (case args of [p, v] \<Rightarrow> p = ''PROFILE'' | _ \<Rightarrow> False)"

datatype daemon_error =
    De_message string
  | De_hardware hardware_error
  | De_tuning tuning_error
  | De_platform platform_error
  | De_lighting lighting_error
  | De_lock lock_error
  | De_control control_error
  | De_io string io_error
  | De_context string daemon_error
  | De_list "daemon_error list"

definition parse_lighting_mode :: "string \<Rightarrow> daemon_error + lighting_mode" where
  "parse_lighting_mode v = (if v = ''OFF'' then Inr Mode_off else if v = ''STATIC'' then Inr Mode_static
     else if v = ''BREATHING'' then Inr Mode_breathing else if v = ''NEON'' then Inr Mode_neon
     else Inl (De_message ''lighting mode must be OFF, STATIC, BREATHING or NEON''))"

definition parse_color :: "string \<Rightarrow> daemon_error + rgb" where
  "parse_color v = ok_or (De_message ''keyboard color must be exactly RRGGBB'') (rgb_of_hex v)"

definition parse_zone_colors :: "string \<Rightarrow> daemon_error + rgb list" where
  "parse_zone_colors v = (if v = ''-'' then Inr [] else (let colors = split_char (CHR '','') v in
     if colors = [] \<or> length colors > 16 then Inl (De_message ''lighting request must contain 1..=16 zone colors'')
     else res_map_list parse_color colors))"

definition parse_on_off :: "string \<Rightarrow> string \<Rightarrow> daemon_error + bool" where
  "parse_on_off v label = (if v = ''ON'' then Inr True else if v = ''OFF'' then Inr False
     else Inl (De_message (label @ '' must be ON or OFF'')))"

definition parse_arg_u8 :: "string \<Rightarrow> string \<Rightarrow> daemon_error + u8" where
  "parse_arg_u8 v label = ok_or (De_message (label @ '' must be an integer within 0..=255'')) (parse_u8 v)"

definition parse_manual_percent :: "string \<Rightarrow> daemon_error + u8" where
  "parse_manual_percent v = (case parse_u8 v of None \<Rightarrow> Inl (De_message ''fan percentage must be an integer'')
     | Some p \<Rightarrow> if \<not> (20 \<le> unat p \<and> unat p \<le> 100) then Inl (De_message ''manual fan percentage must be within 20..=100'')
         else Inr p)"

definition mode_label :: "lighting_mode \<Rightarrow> string" where
  "mode_label m = (case m of Mode_off \<Rightarrow> ''off'' | Mode_static \<Rightarrow> ''static'' | Mode_breathing \<Rightarrow> ''breathing'' | Mode_neon \<Rightarrow> ''neon'')"

definition encode_lighting_status :: "lighting_status \<Rightarrow> string" where
  "encode_lighting_status s = (case s of Firmware_state st \<Rightarrow> encode_lighting_state st
     | Unknown_state \<Rightarrow> ''state=unknown''
     | Last_applied r \<Rightarrow> ''state=last-applied mode='' @ mode_label (lr_mode r) @ '' brightness='' @ show_word (lr_brightness r)
         @ '' speed='' @ show_word (lr_speed r) @ '' color='' @ hex_rgb (lr_color r)
         @ '' zones='' @ show_nat (length (lr_zone_colors r)))"

section \<open>Socket activation and credentials\<close>

definition validate_socket_activation :: "string \<Rightarrow> string \<Rightarrow> u32 \<Rightarrow> daemon_error + unit" where
  "validate_socket_activation pid descriptors current_pid =
     res_bind (ok_or (De_message ''invalid socket activation PID'') (parse_u32 pid)) (\<lambda>p.
     res_bind (ok_or (De_message ''invalid socket activation descriptor count'') (parse_u32 descriptors)) (\<lambda>d.
       if p \<noteq> current_pid \<or> d \<noteq> 1
       then Inl (De_message ''daemon requires exactly one systemd-activated socket for its own PID'') else Inr ()))"

text \<open>
  The listener handed over by systemd: the two variables of the environment (\<open>None\<close> when unset)
  and the address the descriptor is bound to.
\<close>

definition activated_listener ::
  "string option \<Rightarrow> string option \<Rightarrow> u32 \<Rightarrow> io_error + string option \<Rightarrow> daemon_error + unit" where
  "activated_listener pid descriptors current_pid address =
     res_bind (ok_or (De_message ''missing socket activation PID'') pid) (\<lambda>p.
     res_bind (ok_or (De_message ''missing socket activation descriptor count'') descriptors) (\<lambda>d.
     res_bind (validate_socket_activation p d current_pid) (\<lambda>_.
     res_bind (res_map_err (De_io ''invalid activated Unix socket'') address) (\<lambda>a.
       if a \<noteq> Some CONTROL_SOCKET
       then Inl (De_message ''activated listener does not match the protected ASense socket'') else Inr ()))))"

text \<open>
  \<open>authorize_peer\<close> on what the kernel answers: mode and owner of the socket file, and the length
  and uid of the peer credentials (a \<open>ucred\<close> has 12 bytes).
\<close>

definition UCRED_BYTES :: nat where "UCRED_BYTES = 12"

definition authorize_peer :: "io_error + u32 \<times> u32 \<Rightarrow> io_error + nat \<times> u32 \<Rightarrow> daemon_error + unit" where
  "authorize_peer socket credentials =
     res_bind (res_map_err (De_io ''cannot verify control socket owner'') socket) (\<lambda>(mode, owner).
     if and mode 0x1FF \<noteq> 0x180 \<or> owner = 0 then Inl (De_message ''unsafe control socket ownership or mode'')
     else res_bind (res_map_err (De_io ''cannot verify control peer credentials'') credentials) (\<lambda>(len, uid).
       if len \<noteq> UCRED_BYTES then Inl (De_message ''kernel returned malformed control peer credentials'')
       else if uid \<noteq> owner then Inl (De_message ''unauthorized control peer'') else Inr ()))"

text \<open>\<open>ensure_root\<close> on the text of \<open>/proc/self/status\<close>: the second number of the \<open>Uid:\<close> line.\<close>

definition find_uid_line :: "string list \<Rightarrow> string option" where
  "find_uid_line ls = (case List.map_filter (strip_pre ''Uid:'') ls of [] \<Rightarrow> None | t # _ \<Rightarrow> Some t)"

definition ensure_root :: "string \<Rightarrow> daemon_error + unit" where
  "ensure_root status = (let effective = (case find_uid_line (str_lines status) of None \<Rightarrow> None
       | Some l \<Rightarrow> (case split_ascii_ws l of (_ # e # _) \<Rightarrow> parse_u32 e | _ \<Rightarrow> None)) in
     if effective = Some 0 then Inr () else Inl (De_message ''daemon must run as root''))"

section \<open>Client permits\<close>

definition MAX_CONTROL_CLIENTS :: nat where "MAX_CONTROL_CLIENTS = 8"

text \<open>
  \<open>ClientPermit::acquire\<close> per thread: the counter is loaded, then a compare-and-exchange of the
  loaded value is retried until it succeeds or the loaded value is at the limit; the weak
  exchange may fail spuriously. Dropping the permit decrements.
\<close>

datatype permit_state = Starting | Trying nat | Holding | Refused | Released

record permits =
  pm_active :: nat
  pm_threads :: "permit_state list"

inductive permit_step :: "permits \<Rightarrow> permits \<Rightarrow> bool" where
  Spawn: "permit_step p (p\<lparr>pm_threads := pm_threads p @ [Starting]\<rparr>)"
| Load: "i < length (pm_threads p) \<Longrightarrow> pm_threads p ! i = Starting \<Longrightarrow>
     permit_step p (p\<lparr>pm_threads := (pm_threads p)[i := Trying (pm_active p)]\<rparr>)"
| Refuse: "i < length (pm_threads p) \<Longrightarrow> pm_threads p ! i = Trying n \<Longrightarrow> MAX_CONTROL_CLIENTS \<le> n \<Longrightarrow>
     permit_step p (p\<lparr>pm_threads := (pm_threads p)[i := Refused]\<rparr>)"
| Exchange: "i < length (pm_threads p) \<Longrightarrow> pm_threads p ! i = Trying n \<Longrightarrow> n < MAX_CONTROL_CLIENTS \<Longrightarrow> pm_active p = n \<Longrightarrow>
     permit_step p (p\<lparr>pm_active := n + 1, pm_threads := (pm_threads p)[i := Holding]\<rparr>)"
| Retry: "i < length (pm_threads p) \<Longrightarrow> pm_threads p ! i = Trying n \<Longrightarrow> n < MAX_CONTROL_CLIENTS \<Longrightarrow>
     permit_step p (p\<lparr>pm_threads := (pm_threads p)[i := Trying (pm_active p)]\<rparr>)"
| Drop: "i < length (pm_threads p) \<Longrightarrow> pm_threads p ! i = Holding \<Longrightarrow>
     permit_step p (p\<lparr>pm_active := pm_active p - 1, pm_threads := (pm_threads p)[i := Released]\<rparr>)"

inductive_cases permit_stepE: "permit_step p q"

end
