(* ===== verification/Wire_Safety.thy ===== *)
theory Wire_Safety
  imports Daemon_Wire Platform_Safety
begin

text \<open>
  The control protocol end to end. The command decoder retains a bounded number of bytes and
  returns the same command however the stream is cut; every response the daemon writes is one
  line within the client's limit, free of control characters; the client reads back exactly
  that line; and each value with a wire codec (a lawful pair of encoder and parser, the locale
  \<open>wire_codec\<close>) arrives at the client as the value the daemon encoded.
\<close>

section \<open>Characters of UTF-8 text\<close>

definition char_ok :: "string \<Rightarrow> bool" where
  "char_ok ch \<longleftrightarrow> utf8_head_ok ch \<and> length ch = lead_width (hd ch)"

lemma char_okD: "char_ok ch \<Longrightarrow> ch \<noteq> []"
  by (auto simp: char_ok_def utf8_head_ok_def)

lemma char_ok_ascii: "byte c < 0x80 \<Longrightarrow> char_ok [c]"
  by (simp add: char_ok_def utf8_head_ok_def lead_width_def)

lemma char_ok_append:
  assumes "char_ok ch"
  shows "utf8_chars (ch @ s) = map_option (\<lambda>cs. ch # cs) (utf8_chars s)"
proof -
  obtain a r where ch: "ch = a # r" using char_okD [OF assms] by (cases ch) auto
  have w: "length ch = lead_width a" and h: "utf8_head_ok ch" using assms ch by (auto simp: char_ok_def)
  have "utf8_head_ok (ch @ s)"
    using h w ch by (cases r) (auto simp: utf8_head_ok_def w [symmetric, unfolded ch])
  moreover have "take (lead_width (hd (ch @ s))) (ch @ s) = ch" "drop (lead_width (hd (ch @ s))) (ch @ s) = s"
    using w ch by (simp_all add: w [symmetric, unfolded ch])
  moreover have "ch @ s \<noteq> []" using ch by simp
  ultimately show ?thesis by (subst utf8_chars.simps) (simp only: if_False if_True)
qed

lemma utf8_chars_of_ok: "list_all char_ok cs \<Longrightarrow> utf8_chars (concat cs) = Some cs"
  by (induction cs) (auto simp: char_ok_append)

lemma utf8_chars_all_ok: "utf8_chars s = Some cs \<Longrightarrow> list_all char_ok cs"
proof (induction s arbitrary: cs rule: utf8_chars.induct)
  case (1 s)
  show ?case
  proof (cases "s = []")
    case True
    with 1 show ?thesis by simp
  next
    case False
    with 1(2) have h: "utf8_head_ok s" by (auto simp: utf8_chars.simps [of s] split: if_splits)
    with 1(2) False obtain ds where ds: "utf8_chars (drop (lead_width (hd s)) s) = Some ds"
      "cs = take (lead_width (hd s)) s # ds"
      by (auto simp: utf8_chars.simps [of s])
    obtain a r where s: "s = a # r" using False by (cases s) auto
    have "lead_width a \<noteq> 0" "lead_width a \<le> length s" using h s by (auto simp: utf8_head_ok_def)
    then obtain k where k: "lead_width a = Suc k" by (cases "lead_width a") auto
    have "k \<noteq> 0 \<longrightarrow> hd (take k r) = hd r" by (cases k; cases r) auto
    then have "char_ok (take (lead_width (hd s)) s)"
      using h s k by (cases "k = 0") (auto simp: char_ok_def utf8_head_ok_def min_def split: if_splits)
    with 1(1) [OF False h ds(1)] ds(2) show ?thesis by simp
  qed
qed

lemma char_ok_high: "char_ok ch \<Longrightarrow> length ch \<noteq> 1 \<Longrightarrow> c \<in> set ch \<Longrightarrow> 0x80 \<le> byte c"
proof -
  assume a: "char_ok ch" "length ch \<noteq> 1" "c \<in> set ch"
  then obtain x r where ch: "ch = x # r" using char_okD by (cases ch) auto
  from a ch have "lead_width x \<noteq> 1" "list_all cont (take (lead_width x - 1) r)" "length r = lead_width x - 1"
    by (auto simp: char_ok_def utf8_head_ok_def)
  with ch a(3) show ?thesis
    by (auto simp: lead_width_def list_all_iff cont_def split: if_splits)
qed

section \<open>Sanitized payloads\<close>

lemma sanitize_char_ok: "char_ok ch \<Longrightarrow> char_ok (sanitize_char ch)"
proof -
  have "char_ok '' ''" "char_ok ''?''" by (rule char_ok_ascii; simp add: byte_def)+
  then show "char_ok ch \<Longrightarrow> char_ok (sanitize_char ch)" by (simp add: sanitize_char_def)
qed

lemma sanitize_char_clean: "\<not> is_control (sanitize_char ch)"
proof -
  have "\<not> is_control '' ''" "\<not> is_control ''?''" by (simp_all add: is_control_def byte_def)
  then show ?thesis by (simp add: sanitize_char_def)
qed

lemma control_newline: "char_ok ch \<Longrightarrow> NL \<in> set ch \<Longrightarrow> ch = [NL]"
proof -
  assume a: "char_ok ch" "NL \<in> set ch"
  have "byte NL = 10" by (simp add: NL_def byte_def)
  with a char_ok_high [of ch NL] have "length ch = 1" by fastforce
  with a(2) show ?thesis by (cases ch) auto
qed

lemma sanitize_char_line: "char_ok ch \<Longrightarrow> NL \<notin> set (sanitize_char ch)"
proof
  assume a: "char_ok ch" and n: "NL \<in> set (sanitize_char ch)"
  from control_newline [OF sanitize_char_ok [OF a] n] have "sanitize_char ch = [NL]" .
  moreover have "is_control [NL]" by (simp add: is_control_def NL_def byte_def)
  ultimately show False using sanitize_char_clean [of ch] by simp
qed

lemma sanitize_chars_prefix:
  "used \<le> MAX_CONTROL_RESPONSE_PAYLOAD_BYTES \<Longrightarrow>
   \<exists>k. sanitize_chars used chs = concat (map sanitize_char (take k chs))
     \<and> used + length (sanitize_chars used chs) \<le> MAX_CONTROL_RESPONSE_PAYLOAD_BYTES"
proof (induction used chs rule: sanitize_chars.induct)
  case (1 used)
  then show ?case by auto
next
  case (2 used ch chs)
  show ?case
  proof (cases "used + length (sanitize_char ch) > MAX_CONTROL_RESPONSE_PAYLOAD_BYTES")
    case True
    with 2(2) show ?thesis by (intro exI [of _ 0]) simp
  next
    case False
    with 2(1) [OF refl] obtain k where "sanitize_chars (used + length (sanitize_char ch)) chs = concat (map sanitize_char (take k chs))"
      "used + length (sanitize_char ch) + length (sanitize_chars (used + length (sanitize_char ch)) chs) \<le> MAX_CONTROL_RESPONSE_PAYLOAD_BYTES"
      by auto
    with False show ?thesis by (intro exI [of _ "Suc k"]) (simp add: Let_def)
  qed
qed

definition clean_payload :: "string \<Rightarrow> bool" where
  "clean_payload s \<longleftrightarrow> utf8_valid s \<and> \<not> has_control s \<and> NL \<notin> set s \<and> length s \<le> MAX_CONTROL_RESPONSE_PAYLOAD_BYTES"

lemma sanitized_clean: "clean_payload (sanitize_response_payload v)"
proof (cases "utf8_chars v")
  case None
  then show ?thesis by (simp add: sanitize_response_payload_def clean_payload_def utf8_valid_def has_control_def)
next
  case (Some chs)
  then obtain k where k: "sanitize_response_payload v = concat (map sanitize_char (take k chs))"
    "length (sanitize_response_payload v) \<le> MAX_CONTROL_RESPONSE_PAYLOAD_BYTES"
    using sanitize_chars_prefix [of 0 chs] by (auto simp: sanitize_response_payload_def)
  have all_ok: "list_all char_ok (take k chs)"
    using utf8_chars_all_ok [OF Some] by (auto simp: list_all_iff dest: in_set_takeD)
  then have ok: "list_all char_ok (map sanitize_char (take k chs))"
    by (auto simp: list_all_iff sanitize_char_ok)
  note chars = utf8_chars_of_ok [OF ok]
  have "NL \<notin> set (concat (map sanitize_char (take k chs)))"
    using all_ok sanitize_char_line by (auto simp: list_all_iff)
  moreover have "\<not> list_ex is_control (map sanitize_char (take k chs))"
    by (auto simp: list_ex_iff sanitize_char_clean)
  ultimately show ?thesis
    using k chars by (simp add: clean_payload_def utf8_valid_def has_control_def)
qed

lemma sanitize_chars_id:
  "list_all (\<lambda>ch. \<not> is_control ch) chs \<Longrightarrow> used + length (concat chs) \<le> MAX_CONTROL_RESPONSE_PAYLOAD_BYTES
    \<Longrightarrow> sanitize_chars used chs = concat chs"
proof (induction chs arbitrary: used)
  case (Cons ch chs)
  have "is_control [CHR 0x0D]" "is_control [NL]" by (simp_all add: is_control_def NL_def byte_def)
  with Cons.prems(1) have "sanitize_char ch = ch" by (auto simp: sanitize_char_def)
  with Cons show ?case by simp
qed simp

lemma sanitize_id: "clean_payload s \<Longrightarrow> sanitize_response_payload s = s"
proof -
  assume c: "clean_payload s"
  then obtain chs where chs: "utf8_chars s = Some chs" by (auto simp: clean_payload_def utf8_valid_def)
  with c have "list_all (\<lambda>ch. \<not> is_control ch) chs"
    by (auto simp: clean_payload_def has_control_def list_all_iff list_ex_iff)
  moreover have "concat chs = s" using utf8_chars_concat [OF chs] .
  ultimately show ?thesis
    using c chs sanitize_chars_id [of chs 0] by (simp add: sanitize_response_payload_def clean_payload_def)
qed

section \<open>The command decoder\<close>

lemma decoder_push_bound:
  "decoder_push p b = (ok, q) \<Longrightarrow> length p \<le> MAX_CONTROL_COMMAND_BYTES \<Longrightarrow> length q \<le> MAX_CONTROL_COMMAND_BYTES"
  by (auto simp: decoder_push_def split: if_splits)

text \<open>C15: Whatever a client sends and however it is cut, the decoder never retains more than 192 bytes, and a
  command it returns is at most 192 bytes long and contains no newline.\<close>

theorem decoder_bounded:
  assumes "length pending \<le> MAX_CONTROL_COMMAND_BYTES" and "NL \<notin> set pending"
    and "decoder_read pending es = (r, pending', es')"
  shows "length pending' \<le> MAX_CONTROL_COMMAND_BYTES \<and> NL \<notin> set pending'
    \<and> (\<forall>c. r = Inr (Some (Inr c)) \<longrightarrow> length c \<le> MAX_CONTROL_COMMAND_BYTES \<and> NL \<notin> set c)"
  using assms
proof (induction pending es rule: decoder_read.induct)
  case (3 pending b es)
  show ?case
  proof (cases "b = []")
    case True
    with 3(4) show ?thesis by (auto simp: decoder_eof_def split: if_splits)
  next
    case False
    obtain ok q where q: "decoder_push pending (line_part b) = (ok, q)" by (cases "decoder_push pending (line_part b)")
    have len: "length q \<le> MAX_CONTROL_COMMAND_BYTES" using decoder_push_bound [OF q 3(2)] .
    have nl: "NL \<notin> set q"
      using q 3(3) line_part_no_newline [of b] by (auto simp: decoder_push_def split: if_splits)
    show ?thesis
    proof (cases "ok \<and> \<not> has_newline b")
      case True
      with 3(1) [OF False q [symmetric]] len nl 3(4) False q show ?thesis by auto
    next
      case other: False
      with 3(4) False q len nl show ?thesis
        by (cases ok) (auto simp: decoder_finish_def split: if_splits)
    qed
  qed
qed (auto simp: decoder_eof_def split: if_splits)

definition sample_events :: "read_event list" where
  "sample_events = [Bytes ''N AU'', Bytes ''TO\<newline>PI'', Bytes ''NG\<newline>'']"

lemma decoder_bounded_witness: "length (fst (snd (decoder_read ''FA'' sample_events))) \<le> MAX_CONTROL_COMMAND_BYTES"
proof -
  obtain r p es where run: "decoder_read ''FA'' sample_events = (r, p, es)" by (metis prod_cases3)
  have "length ''FA'' \<le> MAX_CONTROL_COMMAND_BYTES" "NL \<notin> set ''FA''" by (simp_all add: MAX_CONTROL_COMMAND_BYTES_def NL_def)
  from decoder_bounded [OF this run] show ?thesis by (simp only: run fst_conv snd_conv)
qed

text \<open>C16: The decoder is independent of how the stream is cut: a line that fits is returned whole, with the
  bytes already retained before it, and what follows is left for the next read; the reference is
  the line itself, whatever the pieces.\<close>

theorem decoder_chunk_independent:
  assumes "carries es (line @ NL # rest)" and "NL \<notin> set line"
    and "length pending + length line \<le> MAX_CONTROL_COMMAND_BYTES"
  shows "\<exists>es'. decoder_read pending es = (Inr (Some (decoder_finish (pending @ line))), [], es') \<and> carries es' rest"
  using assms
proof (induction pending es arbitrary: line rule: decoder_read.induct)
  case (1 pending)
  then show ?case by simp
next
  case (2 pending x late es)
  then show ?case by simp
next
  case (3 pending b es)
  from 3(2,3) show ?case
  proof (cases rule: carries_line_cases)
    case (1 c fs)
    then have b: "b \<noteq> []" "\<not> has_newline b" "prefix b line" "carries es (drop (length b) line @ NL # rest)" by auto
    have len: "length b \<le> length line" using b(3) by (rule prefix_length_le)
    have push: "decoder_push pending (line_part b) = (True, pending @ b)"
      using b(2) len 3(4) by (simp add: decoder_push_def line_part_free)
    have "NL \<notin> set (drop (length b) line)" using 3(3) by (auto dest: in_set_dropD)
    moreover have "length (pending @ b) + length (drop (length b) line) \<le> MAX_CONTROL_COMMAND_BYTES"
      using 3(4) len by simp
    ultimately obtain es' where "decoder_read (pending @ b) es
        = (Inr (Some (decoder_finish ((pending @ b) @ drop (length b) line))), [], es')" "carries es' rest"
      using 3(1) [OF b(1) push [symmetric] refl b(2) b(4)] by blast
    moreover have "(pending @ b) @ drop (length b) line = pending @ line"
      using b(3) by (auto simp: prefix_def)
    ultimately show ?thesis using b push by simp
  next
    case (2 c fs)
    then have b: "has_newline b" "line_part b = line" "carries (push_back (after_line b) es) rest" by auto
    moreover have "b \<noteq> []" using b(1) by (auto simp: has_newline_def)
    moreover have "decoder_push pending line = (True, pending @ line)" using 3(4) by (simp add: decoder_push_def)
    ultimately show ?thesis by simp
  qed
qed

lemma decoder_chunk_independent_witness:
  "\<exists>es'. decoder_read ''FA'' sample_events = (Inr (Some (decoder_finish ''FAN AUTO'')), [], es') \<and> carries es' ''PING\<newline>''"
proof -
  have "carries sample_events (''N AUTO'' @ NL # ''PING\<newline>'')" "NL \<notin> set ''N AUTO''"
    "length ''FA'' + length ''N AUTO'' \<le> MAX_CONTROL_COMMAND_BYTES"
    by code_simp+
  from decoder_chunk_independent [OF this] show ?thesis by simp
qed

section \<open>Responses reach the client\<close>

lemma utf8_valid_append: "utf8_valid a \<Longrightarrow> utf8_valid b \<Longrightarrow> utf8_valid (a @ b)"
proof -
  assume "utf8_valid a" "utf8_valid b"
  then obtain ca cb where c: "utf8_chars a = Some ca" "utf8_chars b = Some cb" by (auto simp: utf8_valid_def)
  then have "utf8_chars (concat (ca @ cb)) = Some (ca @ cb)"
    using utf8_chars_all_ok by (intro utf8_chars_of_ok) (auto simp: list_all_iff)
  moreover have "concat (ca @ cb) = a @ b" using c utf8_chars_concat by simp
  ultimately show ?thesis by (simp add: utf8_valid_def)
qed

lemma response_line_shape:
  "NL \<notin> set (response_line r) \<and> utf8_valid (response_line r) \<and> length (response_line r) \<le> MAX_CONTROL_RESPONSE_LINE_BYTES"
proof -
  have lit: "utf8_valid ''OK ''" "utf8_valid ''ERR ''" "NL \<notin> set ''OK ''" "NL \<notin> set ''ERR ''" by code_simp+
  have p: "clean_payload (sanitize_response_payload v)" for v by (rule sanitized_clean)
  have b: "4 + length (sanitize_response_payload v) \<le> MAX_CONTROL_RESPONSE_LINE_BYTES" for v
    using p [of v] by (simp add: clean_payload_def MAX_CONTROL_RESPONSE_PAYLOAD_BYTES_def MAX_CONTROL_RESPONSE_LINE_BYTES_def)
  show ?thesis
  proof (cases r)
    case (Inl e)
    then show ?thesis using lit p [of e] b [of e] utf8_valid_append [OF lit(2), of "sanitize_response_payload e"]
      by (simp add: response_line_def clean_payload_def)
  next
    case (Inr v)
    then show ?thesis using lit p [of v] b [of v] utf8_valid_append [OF lit(1), of "sanitize_response_payload v"]
      by (simp add: response_line_def clean_payload_def)
  qed
qed

lemma read_carried_line:
  assumes "carries es (line @ NL # rest)" and "NL \<notin> set line"
    and "length response + length line \<le> MAX_CONTROL_RESPONSE_LINE_BYTES" and "utf8_valid (response @ line)"
  shows "\<exists>es'. read_response_line response False es = (Inr (response @ line), es') \<and> carries es' rest"
  using assms
proof (induction es arbitrary: response line)
  case Nil
  then show ?case by simp
next
  case (Cons ev es)
  from Cons.prems(1,2) show ?case
  proof (cases rule: carries_line_cases)
    case (1 b fs)
    have len: "length b \<le> length line" using 1(4) by (rule prefix_length_le)
    have cut: "(response @ b) @ drop (length b) line = response @ line" using 1(4) by (auto simp: prefix_def)
    have "NL \<notin> set (drop (length b) line)" using Cons.prems(2) by (auto dest: in_set_dropD)
    moreover have "length (response @ b) + length (drop (length b) line) \<le> MAX_CONTROL_RESPONSE_LINE_BYTES"
      using Cons.prems(3) len by simp
    ultimately obtain es' where "read_response_line (response @ b) False es = (Inr (response @ line), es')" "carries es' rest"
      using Cons.IH [of "drop (length b) line" "response @ b"] 1 Cons.prems(4) cut by auto
    moreover have "\<not> length b > MAX_CONTROL_RESPONSE_LINE_BYTES - length response" using Cons.prems(3) len by simp
    ultimately show ?thesis using 1 by (simp add: Let_def line_part_free)
  next
    case (2 b fs)
    then have "b \<noteq> []" by (auto simp: has_newline_def)
    moreover have "\<not> length line > MAX_CONTROL_RESPONSE_LINE_BYTES - length response" using Cons.prems(3) by simp
    ultimately show ?thesis using 2 Cons.prems(4) by (simp add: Let_def)
  qed
qed

text \<open>Every response reaches the client: for any result, in any chunking of its bytes, the client's reader
  returns exactly the line the daemon wrote, within its length limit, as valid UTF-8 without
  control characters in the payload, and leaves what follows.\<close>

theorem response_delivered:
  assumes "carries es (response_bytes r @ rest)"
  shows "\<exists>es'. read_response_line [] False es = (Inr (response_line r), es') \<and> carries es' rest
    \<and> (\<exists>v. clean_payload v \<and> response_line r = (if is_ok r then ''OK '' else ''ERR '') @ v)"
proof -
  have "carries es (response_line r @ NL # rest)" using assms by (simp add: response_bytes_def)
  then obtain es' where "read_response_line [] False es = (Inr (response_line r), es')" "carries es' rest"
    using read_carried_line [of es "response_line r" rest "[]"] response_line_shape [of r] by auto
  moreover have "\<exists>v. clean_payload v \<and> response_line r = (if is_ok r then ''OK '' else ''ERR '') @ v"
    using sanitized_clean by (cases r) (auto simp: response_line_def)
  ultimately show ?thesis by blast
qed

lemma response_delivered_witness:
  "\<exists>es'. read_response_line [] False [Bytes ''OK rea'', Bytes ''dy\<newline>''] = (Inr ''OK ready'', es')"
proof -
  have "utf8_valid ''ready''" "\<not> has_control ''ready''" "NL \<notin> set ''ready''" by code_simp+
  then have "clean_payload ''ready''"
    by (simp add: clean_payload_def MAX_CONTROL_RESPONSE_PAYLOAD_BYTES_def MAX_CONTROL_RESPONSE_LINE_BYTES_def)
  then have line: "response_line (Inr ''ready'') = ''OK ready''" by (simp add: response_line_def sanitize_id)
  have "carries [Bytes ''OK rea'', Bytes ''dy\<newline>''] (response_bytes (Inr ''ready'') @ [])"
    unfolding response_bytes_def line by code_simp
  from response_delivered [OF this] line show ?thesis by auto
qed

section \<open>Wire codecs\<close>

text \<open>A payload whose first and last characters are graphic survives trimming.\<close>

definition wire_payload :: "string \<Rightarrow> bool" where
  "wire_payload s \<longleftrightarrow> s \<noteq> [] \<and> trimmed s \<and> clean_payload s"

text \<open>What a client call makes of the bytes it reads.\<close>

definition receive_payload :: "read_event list \<Rightarrow> control_error + string" where
  "receive_payload es = res_bind (fst (read_response_line [] False es)) parse_response"

lemma parse_ok_response: "wire_payload v \<Longrightarrow> parse_response (''OK '' @ v) = Inr v"
proof -
  assume w: "wire_payload v"
  have "graphic (CHR ''O'')" by (simp add: char_defs)
  with w have "trimmed (''OK '' @ v)" by (auto simp: wire_payload_def trimmed_def)
  then have "str_trim (''OK '' @ v) = ''OK '' @ v" by (rule str_trim_trimmed)
  moreover have "''OK '' @ v \<noteq> ''OK''" by simp
  moreover have "str_trim v = v" using w by (simp add: wire_payload_def str_trim_trimmed)
  ultimately show ?thesis unfolding parse_response_def Let_def by (simp only: if_False strip_pre_append option.case)
qed

locale wire_codec =
  fixes encode :: "'a \<Rightarrow> string" and decode :: "string \<Rightarrow> 'e + 'a" and valid :: "'a \<Rightarrow> bool"
  assumes decode_encode: "valid a \<Longrightarrow> decode (encode a) = Inr a"
    and encode_wire: "valid a \<Longrightarrow> wire_payload (encode a)"
begin

lemma exchange:
  assumes "valid a" and "carries es (response_bytes (Inr (encode a)) @ rest)"
  shows "\<exists>v. receive_payload es = Inr v \<and> decode v = Inr a"
proof -
  have "response_line (Inr (encode a)) = ''OK '' @ encode a"
    using encode_wire [OF assms(1)] by (simp add: response_line_def wire_payload_def sanitize_id)
  with response_delivered [OF assms(2)] have "receive_payload es = parse_response (''OK '' @ encode a)"
    by (auto simp: receive_payload_def)
  then show ?thesis using parse_ok_response [OF encode_wire [OF assms(1)]] decode_encode [OF assms(1)] by simp
qed

end

end
