(* ===== verification/Wire_Codecs.thy ===== *)
theory Wire_Codecs
  imports Wire_Safety
begin

text \<open>
  The values that cross the control socket: platform states and profile receipts are shown to
  have wire codecs, so that they arrive unchanged at the client; the commands the client builds
  are split by the daemon into the fields it meant.
\<close>

section \<open>Lines of tokens are wire payloads\<close>

lemma join_token_set:
  "\<forall>t \<in> set ts. token t \<Longrightarrow> c \<in> set (join_with '' '' ts) \<Longrightarrow> graphic c \<or> c = CHR '' ''"
  by (induction "'' ''" ts rule: join_with.induct) (auto dest: tokenD)

lemma join_token_ends:
  "ts \<noteq> [] \<Longrightarrow> \<forall>t \<in> set ts. token t \<Longrightarrow>
     join_with '' '' ts \<noteq> [] \<and> graphic (hd (join_with '' '' ts)) \<and> graphic (last (join_with '' '' ts))"
proof (induction "'' ''" ts rule: join_with.induct)
  case (3 t u ts)
  then have "join_with '' '' (u # ts) \<noteq> []" "graphic (last (join_with '' '' (u # ts)))" by auto
  moreover have "t \<noteq> []" "graphic (hd t)" using 3(3) by (auto simp: token_def)
  ultimately show ?case by simp
qed (auto simp: token_def)

lemma ascii_clean:
  assumes "\<forall>c \<in> set s. graphic c \<or> c = CHR '' ''" and "length s \<le> MAX_CONTROL_RESPONSE_PAYLOAD_BYTES"
  shows "clean_payload s"
proof -
  have bytes: "0x20 \<le> byte c \<and> byte c < 0x7F" if "c \<in> set s" for c
  proof -
    have "byte (CHR '' '') = 0x20" by (simp add: byte_def)
    with assms(1) that show ?thesis by (auto simp: graphic_def)
  qed
  then have chars: "utf8_chars s = Some (map (\<lambda>c. [c]) s)"
    by (intro utf8_chars_ascii) fastforce
  have "\<not> list_ex is_control (map (\<lambda>c. [c]) s)"
    using bytes by (fastforce simp: list_ex_iff is_control_def)
  moreover have "NL \<notin> set s"
  proof
    assume "NL \<in> set s"
    then have "0x20 \<le> byte NL" using bytes by blast
    then show False by (simp add: NL_def byte_def)
  qed
  ultimately show ?thesis using assms(2) chars by (simp add: clean_payload_def utf8_valid_def has_control_def)
qed

lemma tokens_wire:
  assumes "ts \<noteq> []" and "\<forall>t \<in> set ts. token t" and "length (join_with '' '' ts) \<le> MAX_CONTROL_RESPONSE_PAYLOAD_BYTES"
  shows "wire_payload (join_with '' '' ts)"
  using join_token_ends [OF assms(1,2)] join_token_set [OF assms(2)] assms(3)
  by (auto simp: wire_payload_def trimmed_def intro: ascii_clean)

lemma length_join: "length (join_with '' '' ts) \<le> sum_list (map length ts) + length ts"
  by (induction "'' ''" ts rule: join_with.induct) auto

lemma show_word_u8_length: "length (show_word (w :: u8)) \<le> 3"
proof -
  have "unat w < 10 ^ Suc 2" using unat_u8_le [of w] by (simp add: u8_max_def)
  from show_radix_length [OF _ this] show ?thesis by (simp add: show_word_def show_nat_def)
qed

section \<open>Platform states\<close>

lemma state_line_length: "length (encode_state s) \<le> MAX_CONTROL_RESPONSE_PAYLOAD_BYTES"
proof -
  have ob: "length (encode_optional_bool b) \<le> 11" for b
    by (cases b) (auto simp: encode_optional_bool_def encode_bool_def)
  have usb: "length (encode_usb u) \<le> 11" for u
    using show_word_u8_length [of "threshold (the u)"] by (cases u) (auto simp: encode_usb_def)
  have logo: "length (encode_logo l) \<le> 14" for l
    using show_word_u8_length [of "lg_brightness (the l)"] by (cases l) (auto simp: encode_logo_def encode_bool_def)
  note bounds = ob [of "ps_battery_limit s"] ob [of "ps_battery_calibration s"] usb [of "ps_usb_charging s"]
    ob [of "ps_keyboard_timeout s"] ob [of "ps_boot_sound s"] ob [of "ps_lcd_override s"] logo [of "ps_rear_logo s"]
    show_word_u8_length [of "ps_read_error_mask s"]
  have "length (encode_state s) \<le> sum_list (map length (map (\<lambda>(k, v). k @ ''='' @ v) (state_fields s))) + 8"
    unfolding encode_state_def using length_join [of "map (\<lambda>(k, v). k @ ''='' @ v) (state_fields s)"]
    by (simp add: state_fields_def)
  also have "\<dots> \<le> 300" using bounds by (simp add: state_fields_def)
  finally show ?thesis by (simp add: MAX_CONTROL_RESPONSE_PAYLOAD_BYTES_def MAX_CONTROL_RESPONSE_LINE_BYTES_def)
qed

lemma state_line_wire: "wire_payload (encode_state s)"
  unfolding encode_state_def
  by (rule tokens_wire) (use state_fields_tokens state_line_length [of s] in \<open>auto simp: state_fields_def encode_state_def\<close>)

interpretation platform_wire: wire_codec encode_state parse_state valid_platform_state
  by unfold_locales (auto intro: state_line_codec state_line_wire)

section \<open>Profile receipts\<close>

definition valid_receipt :: "profile_apply_receipt \<Rightarrow> bool" where
  "valid_receipt r \<longleftrightarrow> is_ok (validate_profile_token (pr_firmware_profile r) True)
     \<and> pr_gpu_pstate_count r \<le> u64_max
     \<and> (if pr_gpu_capability_available r then pr_gpu_offsets r \<noteq> Gpu_unavailable
        else pr_gpu_offsets r = Gpu_unavailable \<and> pr_gpu_pstate_count r = 0 \<and> pr_power r = None)"

lemma profile_token: "is_ok (validate_profile_token p proto) \<Longrightarrow> token p \<and> length p \<le> 48"
proof -
  assume "is_ok (validate_profile_token p proto)"
  then have p: "p \<noteq> []" "length p \<le> 48" "list_all profile_char p"
    by (auto simp: validate_profile_token_def require_capability_def MAX_CAPABILITY_TOKEN_BYTES_def split: if_splits)
  have "graphic c" if "profile_char c" for c
    using that by (auto simp: profile_char_def char_defs)
  with p show ?thesis by (auto simp: token_def list_all_iff)
qed

lemma receipt_values_tokens:
  assumes "valid_receipt r" and "v \<in> set (receipt_values r)" shows "token v \<and> length v \<le> 48"
proof -
  have lit: "token ''unavailable''" "token ''reset''" "token ''oem-turbo''" "token ''custom-or-partial''" "token ''available''" "token ''0x''"
    by (simp_all add: token_literal char_defs)
  have hx: "token (CHR ''0'' # CHR ''x'' # show_hex n)" for n using token_append [OF lit(6) token_show_hex [of n]] by simp
  have len_nat: "length (show_nat n) \<le> 20" if "n \<le> u64_max" for n
    using that show_radix_length [of 10 n 19] by (simp add: show_nat_def u64_max_def)
  have len_hex: "length (show_hex (unat (w :: u64))) \<le> 20" for w
  proof -
    have "unat w < 16 ^ Suc 15" using unat_u64_le [of w] by (simp add: u64_max_def)
    from show_radix_length [OF _ this] show ?thesis by (simp add: show_hex_def)
  qed
  have len_u32: "length (show_word (w :: u32)) \<le> 20" for w
  proof -
    have "unat w \<le> u64_max" using unat_u32_le [of w] by (simp add: u32_max_def u64_max_def)
    then show ?thesis using len_nat by (simp add: show_word_def)
  qed
  show ?thesis
    using assms profile_token [of "pr_firmware_profile r" True] lit len_nat [of "pr_gpu_pstate_count r"] len_hex len_u32
    by (auto simp: receipt_values_def valid_receipt_def gpu_offsets_name_def available_name_def hx
        le_trans [OF len_u32] le_trans [OF len_hex] split: gpu_offset_state.splits option.splits)
qed

lemma exact_fields:
  "length ns = length vs \<Longrightarrow> \<forall>n \<in> set ns. CHR ''='' \<notin> set n \<Longrightarrow> [] \<notin> set vs \<Longrightarrow>
   res_map_list exact_field (zip ns (map (\<lambda>(k, v). k @ ''='' @ v) (zip ns vs))) = Inr vs"
proof (induction ns vs rule: list_induct2)
  case (Cons n ns v vs)
  have "exact_field (n, n @ ''='' @ v) = Inr v"
    using Cons.prems split_once_append [of "CHR ''=''" n v] by (auto simp: exact_field_def)
  with Cons show ?case by simp
qed simp

lemma receipt_line_tokens:
  assumes "valid_receipt r"
  shows "t \<in> set (map (\<lambda>(k, v). k @ ''='' @ v) (zip RECEIPT_FIELDS (receipt_values r))) \<Longrightarrow> token t \<and> length t \<le> 65"
proof -
  have names: "token k \<and> length k \<le> 16" if "k \<in> set RECEIPT_FIELDS" for k
    using that by (auto simp: RECEIPT_FIELDS_def token_literal char_defs)
  have eq: "token ''=''" by (simp add: token_literal char_defs)
  assume "t \<in> set (map (\<lambda>(k, v). k @ ''='' @ v) (zip RECEIPT_FIELDS (receipt_values r)))"
  then obtain k v where t: "t = k @ ''='' @ v" "k \<in> set RECEIPT_FIELDS" "v \<in> set (receipt_values r)"
    by (auto dest: set_zip_leftD set_zip_rightD)
  from names [OF t(2)] receipt_values_tokens [OF assms t(3)] t(1) show ?thesis
    using token_append [OF eq, of v] token_append [of k "''='' @ v"] by auto
qed

lemma receipt_power_parse:
  assumes "valid_receipt r"
  shows "parse_receipt_power (receipt_values r) (pr_power r \<noteq> None) = Inr (pr_power r)"
proof (cases "pr_power r")
  case None
  then show ?thesis by (simp add: parse_receipt_power_def receipt_values_def)
next
  case (Some p)
  have h: "parse_uint 16 u64_max (show_hex (unat (pp_clock_event_reasons p))) = Some (unat (pp_clock_event_reasons p))"
    using unat_u64_le by simp
  have s: "strip_pre ''0x'' (CHR ''0'' # CHR ''x'' # t) = Some t" for t using strip_pre_append [of "''0x''" t] by simp
  show ?thesis
    using h s by (simp add: Some parse_receipt_power_def receipt_values_def parse_u32_receipt_def)
qed

lemma receipt_codec:
  assumes "valid_receipt r"
  shows "parse_profile_apply_receipt (encode_profile_apply_receipt r) = Inr r"
proof -
  let ?vs = "receipt_values r" and ?ts = "map (\<lambda>(k, v). k @ ''='' @ v) (zip RECEIPT_FIELDS (receipt_values r))"
  have len: "length ?vs = 8" by (simp add: receipt_values_def split: option.split)
  have "split_ascii_ws (encode_profile_apply_receipt r) = ?ts"
    unfolding encode_profile_apply_receipt_def
    by (rule split_ascii_ws_tokens) (use receipt_line_tokens [OF assms] in blast)
  moreover have "res_map_list exact_field (zip RECEIPT_FIELDS ?ts) = Inr ?vs"
    using receipt_values_tokens [OF assms] len by (intro exact_fields) (auto simp: RECEIPT_FIELDS_def token_def)
  ultimately have vals: "parse_exact_fields (encode_profile_apply_receipt r) RECEIPT_FIELDS = Inr ?vs"
    using len by (simp add: parse_exact_fields_def Let_def RECEIPT_FIELDS_def)
  have heads: "?vs ! 0 = pr_firmware_profile r" "?vs ! 1 = gpu_offsets_name (pr_gpu_offsets r)"
    "?vs ! 2 = show_nat (pr_gpu_pstate_count r)" "?vs ! 3 = available_name (pr_gpu_capability_available r)"
    "?vs ! 4 = available_name (pr_power r \<noteq> None)"
    by (simp_all add: receipt_values_def available_name_def split: option.split)
  have vt: "validate_profile_token (pr_firmware_profile r) True = Inr ()"
    using assms by (auto simp: valid_receipt_def is_ok_iff)
  have pg: "parse_gpu_offsets (gpu_offsets_name g) = Inr g" for g
    by (cases g) (simp_all add: parse_gpu_offsets_def gpu_offsets_name_def)
  have pc: "parse_capability (available_name b) l = Inr b" for b l
    by (simp add: parse_capability_def available_name_def)
  have pu: "parse_uint 10 u64_max (show_nat (pr_gpu_pstate_count r)) = Some (pr_gpu_pstate_count r)"
    using assms by (simp add: valid_receipt_def)
  show ?thesis
    unfolding parse_profile_apply_receipt_def vals res_bind_simps heads vt pg pc pu ok_or_simps receipt_power_parse [OF assms]
    using assms by (cases r) (auto simp: valid_receipt_def split: if_splits)
qed

lemma receipt_wire: "valid_receipt r \<Longrightarrow> wire_payload (encode_profile_apply_receipt r)"
proof -
  assume v: "valid_receipt r"
  let ?ts = "map (\<lambda>(k, v). k @ ''='' @ v) (zip RECEIPT_FIELDS (receipt_values r))"
  have n: "length ?ts \<le> 8" by (simp add: RECEIPT_FIELDS_def)
  have "sum_list (map length ?ts) \<le> sum_list (map (\<lambda>_. 65) ?ts)"
    by (rule sum_list_mono) (use receipt_line_tokens [OF v] in blast)
  also have "\<dots> = 65 * length ?ts" by (simp only: sum_list_triv) simp
  also have "\<dots> \<le> 65 * 8" using n by simp
  finally have "length (join_with '' '' ?ts) \<le> 65 * 8 + 8" using length_join [of ?ts] n by linarith
  then have "length (join_with '' '' ?ts) \<le> MAX_CONTROL_RESPONSE_PAYLOAD_BYTES"
    by (simp add: MAX_CONTROL_RESPONSE_PAYLOAD_BYTES_def MAX_CONTROL_RESPONSE_LINE_BYTES_def)
  moreover have "?ts \<noteq> []" by (simp add: RECEIPT_FIELDS_def receipt_values_def)
  ultimately show ?thesis
    unfolding encode_profile_apply_receipt_def using receipt_line_tokens [OF v] by (intro tokens_wire) blast+
qed

interpretation receipt_wire: wire_codec encode_profile_apply_receipt parse_profile_apply_receipt valid_receipt
  by unfold_locales (auto intro: receipt_codec receipt_wire)

text \<open>C17: A platform state sent by the daemon arrives at the client as the same state, and a profile receipt
  as the same receipt, through sanitizing, framing, any cutting of the stream, and parsing.\<close>

theorem values_cross_socket:
  assumes "valid_platform_state s" and "carries es (response_bytes (Inr (encode_state s)) @ rest)"
    and "valid_receipt r" and "carries fs (response_bytes (Inr (encode_profile_apply_receipt r)) @ rest')"
  shows "(\<exists>v. receive_payload es = Inr v \<and> parse_state v = Inr s)
    \<and> (\<exists>v. receive_payload fs = Inr v \<and> parse_profile_apply_receipt v = Inr r)"
  using platform_wire.exchange [OF assms(1,2)] receipt_wire.exchange [OF assms(3,4)] by blast

definition sample_receipt :: profile_apply_receipt where
  "sample_receipt = \<lparr>pr_firmware_profile = ''performance'', pr_gpu_offsets = Gpu_oem_turbo, pr_gpu_pstate_count = 3,
     pr_gpu_capability_available = True,
     pr_power = Some \<lparr>pp_enforced_limit_mw = 140, pp_maximum_limit_mw = 175, pp_clock_event_reasons = 4\<rparr>\<rparr>"

lemma sample_receipt_valid: "valid_receipt sample_receipt"
  by (simp add: valid_receipt_def sample_receipt_def validate_profile_token_def require_capability_def
      MAX_CAPABILITY_TOKEN_BYTES_def profile_char_def char_defs u64_max_def)

lemma carries_whole: "s \<noteq> [] \<Longrightarrow> carries [Bytes s] (s @ [])"
  by simp

lemma values_cross_socket_witness:
  "\<exists>v. receive_payload [Bytes (response_bytes (Inr (encode_profile_apply_receipt sample_receipt)))] = Inr v
     \<and> parse_profile_apply_receipt v = Inr sample_receipt"
proof -
  have ne: "response_bytes q \<noteq> []" for q by (simp add: response_bytes_def)
  show ?thesis
    using values_cross_socket [OF sample_platform_valid carries_whole [OF ne] sample_receipt_valid carries_whole [OF ne]] by blast
qed

end
