(* ===== verification/Memory_Hardware.thy ===== *)
theory Memory_Hardware
  imports Control
begin

text \<open>
  The memory-hardware part of \<open>src/telemetry.rs\<close>: the privileged DMI and EDAC readers of the
  daemon's \<open>HARDWARE GET\<close>, the summary over the memory modules, the wire form of the summary, and
  the client command of \<open>src/control.rs\<close> that reads it. A raw DMI entry is its string of bytes.
\<close>

section \<open>Data\<close>

record memory_hardware_info =
  mh_total_mib :: "u64 option"
  mh_speed_mt_s :: "u32 option"
  mh_memory_type :: "string option"
  mh_channels :: "u32 option"
  mh_modules :: "u32 option"

record memory_module =
  mm_size_mib :: u64
  mm_memory_type :: "string option"
  mm_speed_mt_s :: "u32 option"
  mm_channel :: "string option"

section \<open>Searching in a string\<close>

text \<open>\<open>str::find\<close> and \<open>str::rfind\<close> of a needle.\<close>

fun str_find :: "string \<Rightarrow> string \<Rightarrow> nat option" where
  "str_find needle [] = (if needle = [] then Some 0 else None)"
| "str_find needle (c # cs) = (if prefix needle (c # cs) then Some 0 else map_option Suc (str_find needle cs))"

fun str_rfind :: "string \<Rightarrow> string \<Rightarrow> nat option" where
  "str_rfind needle [] = (if needle = [] then Some 0 else None)"
| "str_rfind needle (c # cs) = (case str_rfind needle cs of Some i \<Rightarrow> Some (Suc i)
     | None \<Rightarrow> if prefix needle (c # cs) then Some 0 else None)"

definition memory_channel_label :: "string \<Rightarrow> string option" where
  "memory_channel_label locator =
     (let normalized = map (\<lambda>c. if c = CHR '' '' \<or> c = CHR ''_'' then CHR ''-'' else c) (ascii_lower locator) in
      case str_find ''channel'' normalized of None \<Rightarrow> None
      | Some channel \<Rightarrow>
          (let controller = (case str_rfind ''controller'' (take channel normalized) of None \<Rightarrow> channel | Some i \<Rightarrow> i);
               channel_id = takeWhile is_alnum (dropWhile (\<lambda>c. c = CHR ''-'') (drop (channel + 7) normalized)) in
           if channel_id = [] then None
           else Some (drop controller (take channel normalized) @ ''channel-'' @ channel_id)))"

section \<open>DMI entries\<close>

definition raw_byte :: "string \<Rightarrow> nat \<Rightarrow> nat" where
  "raw_byte raw i = byte (raw ! i)"

definition u16_at :: "string \<Rightarrow> nat \<Rightarrow> nat" where
  "u16_at raw i = raw_byte raw i + 256 * raw_byte raw (i + 1)"

definition u32_at :: "string \<Rightarrow> nat \<Rightarrow> nat" where
  "u32_at raw i = u16_at raw i + 65536 * u16_at raw (i + 2)"

definition read_dmi_u16 :: "string \<Rightarrow> nat \<Rightarrow> nat \<Rightarrow> nat option" where
  "read_dmi_u16 raw formatted_length offset = (if offset + 2 \<le> formatted_length then Some (u16_at raw offset) else None)"

definition str_nth :: "nat \<Rightarrow> 'a list \<Rightarrow> 'a option" where
  "str_nth i xs = (if i < length xs then Some (xs ! i) else None)"

definition dmi_string :: "string \<Rightarrow> nat \<Rightarrow> nat \<Rightarrow> string option" where
  "dmi_string raw formatted_length index = (if index = 0 \<or> formatted_length \<ge> length raw then None
     else (case str_nth (index - 1) (takeWhile (\<lambda>v. v \<noteq> []) (split_char (CHR 0x00) (drop formatted_length raw))) of
         None \<Rightarrow> None
       | Some v \<Rightarrow> if utf8_valid v \<and> str_trim v \<noteq> [] then Some (str_trim v) else None))"

definition dmi_memory_type :: "nat \<Rightarrow> string option" where
  "dmi_memory_type v = map_of [(0x0F, ''SDRAM''), (0x12, ''DDR''), (0x13, ''DDR2''), (0x18, ''DDR3''), (0x1A, ''DDR4''),
     (0x1B, ''LPDDR''), (0x1C, ''LPDDR2''), (0x1D, ''LPDDR3''), (0x1E, ''LPDDR4''), (0x22, ''DDR5''), (0x23, ''LPDDR5'')] v"

definition dmi_size_mib :: "string \<Rightarrow> nat \<Rightarrow> nat" where
  "dmi_size_mib raw formatted_length = (let v = u16_at raw 0x0C in
     if v = 0 \<or> v = 0xFFFF then 0
     else if v = 0x7FFF \<and> formatted_length \<ge> 0x20 then u32_at raw 0x1C mod 0x80000000
     else if v \<ge> 0x8000 then (v - 0x8000) div 1024
     else v)"

definition usable_speed :: "nat option \<Rightarrow> nat option" where
  "usable_speed s = (case s of None \<Rightarrow> None | Some v \<Rightarrow> if v \<noteq> 0 \<and> v \<noteq> 0xFFFF then Some v else None)"

definition parse_dmi_memory_device :: "string \<Rightarrow> memory_module option" where
  "parse_dmi_memory_device raw = (if length raw < 0x15 \<or> raw_byte raw 0 \<noteq> 17 then None
     else (let formatted_length = raw_byte raw 1 in
       if formatted_length < 0x15 \<or> formatted_length > length raw then None
       else (let device_locator = dmi_string raw formatted_length (raw_byte raw 0x10);
                 bank_locator = dmi_string raw formatted_length (raw_byte raw 0x11) in
         Some \<lparr>mm_size_mib = of_nat (dmi_size_mib raw formatted_length),
           mm_memory_type = dmi_memory_type (raw_byte raw 0x12),
           mm_speed_mt_s = map_option of_nat (or_else (usable_speed (read_dmi_u16 raw formatted_length 0x20))
             (usable_speed (read_dmi_u16 raw formatted_length 0x15))),
           mm_channel = or_else (Option.bind device_locator memory_channel_label)
             (Option.bind bank_locator memory_channel_label)\<rparr>)))"

section \<open>Reading the machine\<close>

definition read_bounded :: "'e sysfs \<Rightarrow> path \<Rightarrow> nat \<Rightarrow> ('e world, 'x, string option) io" where
  "read_bounded fs p maximum_bytes = io_bind (io_ok (fs_read fs p)) (\<lambda>r.
     io_ret (case r of None \<Rightarrow> None | Some v \<Rightarrow> if length v \<le> maximum_bytes then Some v else None))"

definition read_text :: "'e sysfs \<Rightarrow> path \<Rightarrow> ('e world, 'x, string option) io" where
  "read_text fs p = io_bind (io_ok (fs_read_to_string fs p)) (\<lambda>r.
     io_ret (case r of None \<Rightarrow> None | Some v \<Rightarrow> if str_trim v \<noteq> [] then Some (str_trim v) else None))"

definition read_u64 :: "'e sysfs \<Rightarrow> path \<Rightarrow> ('e world, 'x, u64 option) io" where
  "read_u64 fs p = io_bind (read_text fs p) (\<lambda>t. io_ret (Option.bind t parse_u64))"

definition read_u32 :: "'e sysfs \<Rightarrow> path \<Rightarrow> ('e world, 'x, u32 option) io" where
  "read_u32 fs p = io_bind (read_text fs p) (\<lambda>t. io_ret (Option.bind t parse_u32))"

definition dmi_entry :: "'e sysfs \<Rightarrow> path \<Rightarrow> string \<Rightarrow> ('e world, 'x, memory_module option) io" where
  "dmi_entry fs dir name = (if \<not> prefix ''17-'' name then io_ret None
     else io_bind (read_bounded fs (dir @ [name, ''raw'']) 4096) (\<lambda>r. io_ret (Option.bind r parse_dmi_memory_device)))"

definition read_dmi_memory_modules :: "'e sysfs \<Rightarrow> path \<Rightarrow> ('e world, 'x, memory_module list option) io" where
  "read_dmi_memory_modules fs root = (let dir = rooted root ''sys/firmware/dmi/entries'' in
     io_bind (fs_query (k_read_dir fs dir)) (\<lambda>entries. case entries of Inl _ \<Rightarrow> io_ret None
       | Inr names \<Rightarrow> io_bind (io_filter_map (dmi_entry fs dir) (take 64 names)) (\<lambda>found.
           io_ret (if found = [] then None else Some (filter (\<lambda>m. mm_size_mib m > 0) found)))))"

definition edac_dimm :: "'e sysfs \<Rightarrow> path \<Rightarrow> string \<Rightarrow> ('e world, 'x, memory_module option) io" where
  "edac_dimm fs dir name = (if \<not> prefix ''dimm'' name then io_ret None
     else io_bind (read_u64 fs (dir @ [name, ''size''])) (\<lambda>size.
       if size = None \<or> size = Some 0 then io_ret None
       else io_bind (read_text fs (dir @ [name, ''dimm_mem_type''])) (\<lambda>memory_type.
       io_bind (read_u32 fs (dir @ [name, ''dimm_speed''])) (\<lambda>dimm_speed.
       io_bind (if dimm_speed \<noteq> None then io_ret dimm_speed else read_u32 fs (dir @ [name, ''speed''])) (\<lambda>speed.
       io_bind (read_text fs (dir @ [name, ''dimm_location''])) (\<lambda>location.
         io_ret (Some \<lparr>mm_size_mib = the size, mm_memory_type = memory_type, mm_speed_mt_s = speed,
           mm_channel = Option.bind location memory_channel_label\<rparr>)))))))"

definition edac_controller :: "'e sysfs \<Rightarrow> path \<Rightarrow> string \<Rightarrow> ('e world, 'x, memory_module list option) io" where
  "edac_controller fs dir name = (if \<not> prefix ''mc'' name then io_ret None
     else io_bind (fs_query (k_read_dir fs (dir @ [name]))) (\<lambda>entries. case entries of Inl _ \<Rightarrow> io_ret None
       | Inr names \<Rightarrow> io_bind (io_filter_map (edac_dimm fs (dir @ [name])) names) (\<lambda>dimms. io_ret (Some dimms))))"

definition read_edac_memory_modules :: "'e sysfs \<Rightarrow> path \<Rightarrow> ('e world, 'x, memory_module list option) io" where
  "read_edac_memory_modules fs root = (let dir = rooted root ''sys/devices/system/edac/mc'' in
     io_bind (fs_query (k_read_dir fs dir)) (\<lambda>entries. case entries of Inl _ \<Rightarrow> io_ret None
       | Inr names \<Rightarrow> io_bind (io_filter_map (edac_controller fs dir) names) (\<lambda>groups.
           io_ret (if concat groups = [] then None else Some (concat groups)))))"

section \<open>The summary\<close>

text \<open>A \<open>BTreeSet\<close> of the collected values: ascending, without duplicates.\<close>

definition btree_set :: "'a::linorder list \<Rightarrow> 'a list" where
  "btree_set xs = sort (remdups xs)"

text \<open>The one value all modules have, if they have one.\<close>

definition agreed :: "('a::linorder) option list \<Rightarrow> 'a option" where
  "agreed xs = (let vs = btree_set (List.map_filter id xs) in
     if length vs = 1 \<and> list_all (\<lambda>x. x \<noteq> None) xs then Some (hd vs) else None)"

definition summarize_memory_modules :: "u64 option \<Rightarrow> memory_module list option \<Rightarrow> memory_hardware_info" where
  "summarize_memory_modules total_mib modules = (case modules of
      None \<Rightarrow> \<lparr>mh_total_mib = total_mib, mh_speed_mt_s = None, mh_memory_type = None, mh_channels = None, mh_modules = None\<rparr>
    | Some ms \<Rightarrow> (let channels = btree_set (List.map_filter mm_channel ms) in
        \<lparr>mh_total_mib = total_mib, mh_speed_mt_s = agreed (map mm_speed_mt_s ms),
         mh_memory_type = agreed (map mm_memory_type ms),
         mh_channels = (if list_all (\<lambda>m. mm_channel m \<noteq> None) ms \<and> channels \<noteq> [] then Some (of_nat (length channels)) else None),
         mh_modules = Some (of_nat (length ms))\<rparr>))"

definition read_privileged_memory_hardware :: "'e sysfs \<Rightarrow> ('e world, 'x, memory_hardware_info) io" where
  "read_privileged_memory_hardware fs = io_bind (read_dmi_memory_modules fs []) (\<lambda>dmi.
     io_bind (if dmi = None \<or> dmi = Some [] then read_edac_memory_modules fs [] else io_ret dmi) (\<lambda>modules.
       io_ret (summarize_memory_modules None modules)))"

definition read_memory_hardware :: "'e sysfs \<Rightarrow> path \<Rightarrow> u64 \<Rightarrow> ('e world, 'x, memory_hardware_info) io" where
  "read_memory_hardware fs root total_mib = io_bind (read_dmi_memory_modules fs root) (\<lambda>dmi.
     io_bind (if dmi = None \<or> dmi = Some [] then read_edac_memory_modules fs root else io_ret dmi) (\<lambda>modules.
       io_ret (summarize_memory_modules (Some total_mib) modules)))"

section \<open>The wire form\<close>

definition encode_optional_number :: "u32 option \<Rightarrow> string" where
  "encode_optional_number v = (case v of None \<Rightarrow> ''unknown'' | Some n \<Rightarrow> show_word n)"

definition parse_optional_number :: "string \<Rightarrow> string + u32 option" where
  "parse_optional_number v = (if v = ''unknown'' then Inr None
     else (case parse_u32 v of None \<Rightarrow> Inl ''invalid hardware memory number'' | Some n \<Rightarrow> Inr (Some n)))"

definition wire_type_char :: "char \<Rightarrow> bool" where
  "wire_type_char c \<longleftrightarrow> is_alnum c \<or> c = CHR ''.'' \<or> c = CHR ''_'' \<or> c = CHR ''-''"

definition wire_memory_type :: "string option \<Rightarrow> string" where
  "wire_memory_type t = (case t of None \<Rightarrow> ''unknown'' | Some v \<Rightarrow> if v \<noteq> [] \<and> list_all wire_type_char v then v else ''unknown'')"

definition encode_memory_hardware :: "memory_hardware_info \<Rightarrow> string" where
  "encode_memory_hardware i = join_with '' '' [''type='' @ wire_memory_type (mh_memory_type i),
     ''speed_mt_s='' @ encode_optional_number (mh_speed_mt_s i), ''channels='' @ encode_optional_number (mh_channels i),
     ''modules='' @ encode_optional_number (mh_modules i)]"

text \<open>The four slots of the parser; \<open>None\<close> is a field not seen yet.\<close>

record memory_slots =
  ms_type :: "string option option"
  ms_speed :: "u32 option option"
  ms_channels :: "u32 option option"
  ms_modules :: "u32 option option"

definition set_protocol_field :: "'a option \<Rightarrow> 'a \<Rightarrow> string + 'a option" where
  "set_protocol_field slot v = (if slot \<noteq> None then Inl ''duplicate hardware memory field'' else Inr (Some v))"

definition parse_memory_field :: "memory_slots \<Rightarrow> string \<Rightarrow> string + memory_slots" where
  "parse_memory_field s field = (case split_once (CHR ''='') field of
      None \<Rightarrow> Inl ''invalid hardware memory field''
    | Some (name, v) \<Rightarrow>
        if name = ''type'' then res_bind (set_protocol_field (ms_type s) (if v \<noteq> ''unknown'' then Some v else None))
          (\<lambda>x. Inr (s\<lparr>ms_type := x\<rparr>))
        else if name = ''speed_mt_s'' then res_bind (parse_optional_number v) (\<lambda>n.
          res_bind (set_protocol_field (ms_speed s) n) (\<lambda>x. Inr (s\<lparr>ms_speed := x\<rparr>)))
        else if name = ''channels'' then res_bind (parse_optional_number v) (\<lambda>n.
          res_bind (set_protocol_field (ms_channels s) n) (\<lambda>x. Inr (s\<lparr>ms_channels := x\<rparr>)))
        else if name = ''modules'' then res_bind (parse_optional_number v) (\<lambda>n.
          res_bind (set_protocol_field (ms_modules s) n) (\<lambda>x. Inr (s\<lparr>ms_modules := x\<rparr>)))
        else Inl ''unknown hardware memory field'')"

fun parse_memory_fields :: "memory_slots \<Rightarrow> string list \<Rightarrow> string + memory_slots" where
  "parse_memory_fields s [] = Inr s"
| "parse_memory_fields s (f # rest) = res_bind (parse_memory_field s f) (\<lambda>s'. parse_memory_fields s' rest)"

definition parse_memory_hardware :: "string \<Rightarrow> string + memory_hardware_info" where
  "parse_memory_hardware v = (let vals = split_ascii_ws v in
     if length vals \<noteq> 4 then Inl ''invalid hardware memory field count''
     else res_bind (parse_memory_fields \<lparr>ms_type = None, ms_speed = None, ms_channels = None, ms_modules = None\<rparr> vals) (\<lambda>s.
       res_bind (ok_or ''missing hardware memory type'' (ms_type s)) (\<lambda>t.
       res_bind (ok_or ''missing hardware memory speed'' (ms_speed s)) (\<lambda>sp.
       res_bind (ok_or ''missing hardware memory channels'' (ms_channels s)) (\<lambda>ch.
       res_bind (ok_or ''missing hardware memory modules'' (ms_modules s)) (\<lambda>mo.
         Inr \<lparr>mh_total_mib = None, mh_speed_mt_s = sp, mh_memory_type = t, mh_channels = ch, mh_modules = mo\<rparr>))))))"

definition client_memory_hardware_info :: "'c link \<Rightarrow> ('c, memory_hardware_info) client_io" where
  "client_memory_hardware_info ln = io_bind (request ln ''HARDWARE GET'') (\<lambda>r.
     io_of (res_map_err (\<lambda>e. Protocol (''invalid hardware response: '' @ e)) (parse_memory_hardware r)))"

end
