(* ===== verification/Memory_Report.thy ===== *)
theory Memory_Report
  imports Memory_Hardware Wire_Codecs
begin

text \<open>
  The memory report: the summary never claims more than the modules agree on, and the report of
  the daemon's \<open>HARDWARE GET\<close> is what the client parses.
\<close>

section \<open>The summary\<close>

lemma set_btree_set [simp]: "set (btree_set xs) = set xs"
  by (simp add: btree_set_def)

lemma length_btree_set: "length (btree_set xs) = card (set xs)"
  by (simp add: btree_set_def length_remdups_card_conv)

lemma set_map_filter: "x \<in> set (List.map_filter f xs) \<longleftrightarrow> (\<exists>a \<in> set xs. f a = Some x)"
  by (force simp: List.map_filter_def)

lemma single_value:
  "length (btree_set vs) = 1 \<and> hd (btree_set vs) = v \<longleftrightarrow> set vs = {v}"
proof
  assume one: "length (btree_set vs) = 1 \<and> hd (btree_set vs) = v"
  then have "btree_set vs = [v]" by (cases "btree_set vs") auto
  then show "set vs = {v}" using set_btree_set [of vs] by simp
next
  assume s: "set vs = {v}"
  then have "length (btree_set vs) = 1" by (simp add: length_btree_set)
  then obtain u where "btree_set vs = [u]" by (cases "btree_set vs") auto
  with s show "length (btree_set vs) = 1 \<and> hd (btree_set vs) = v" using set_btree_set [of vs] by simp
qed

lemma agreed_iff:
  "agreed xs = Some v \<longleftrightarrow> xs \<noteq> [] \<and> (\<forall>x \<in> set xs. x = Some v)"
proof -
  have "agreed xs = Some v \<longleftrightarrow> set (List.map_filter id xs) = {v} \<and> (\<forall>x \<in> set xs. x \<noteq> None)"
    using single_value [of "List.map_filter id xs" v] by (auto simp: agreed_def Let_def list_all_iff)
  also have "\<dots> \<longleftrightarrow> xs \<noteq> [] \<and> (\<forall>x \<in> set xs. x = Some v)"
  proof
    assume l: "set (List.map_filter id xs) = {v} \<and> (\<forall>x \<in> set xs. x \<noteq> None)"
    have "x = Some v" if "x \<in> set xs" for x
    proof -
      obtain u where u: "x = Some u" using l \<open>x \<in> set xs\<close> by blast
      have "u \<in> set (List.map_filter id xs)" unfolding set_map_filter using u that by (intro bexI [of _ x]) simp_all
      with l u show ?thesis by simp
    qed
    moreover have "xs \<noteq> []" using l by (auto simp: List.map_filter_def)
    ultimately show "xs \<noteq> [] \<and> (\<forall>x \<in> set xs. x = Some v)" by blast
  next
    assume r: "xs \<noteq> [] \<and> (\<forall>x \<in> set xs. x = Some v)"
    then have "v \<in> set (List.map_filter id xs)" unfolding set_map_filter by (cases xs) auto
    moreover have "u = v" if "u \<in> set (List.map_filter id xs)" for u
      using that r unfolding set_map_filter by auto
    ultimately show "set (List.map_filter id xs) = {v} \<and> (\<forall>x \<in> set xs. x \<noteq> None)" using r by blast
  qed
  finally show ?thesis .
qed

definition agrees_on :: "('m \<Rightarrow> 'a option) \<Rightarrow> 'm list \<Rightarrow> 'a \<Rightarrow> bool" where
  "agrees_on f ms v \<longleftrightarrow> ms \<noteq> [] \<and> (\<forall>m \<in> set ms. f m = Some v)"

definition channels_known :: "memory_module list \<Rightarrow> nat \<Rightarrow> bool" where
  "channels_known ms n \<longleftrightarrow> ms \<noteq> [] \<and> (\<forall>m \<in> set ms. mm_channel m \<noteq> None) \<and> n = card (mm_channel ` set ms)"

lemma known_channels:
  assumes "list_all (\<lambda>m. mm_channel m \<noteq> None) ms"
  shows "length (btree_set (List.map_filter mm_channel ms)) = card (mm_channel ` set ms)"
proof -
  have "Some ` set (List.map_filter mm_channel ms) = mm_channel ` set ms"
    using assms by (force simp: set_map_filter image_iff list_all_iff)
  with card_image [of Some "set (List.map_filter mm_channel ms)"] show ?thesis
    by (simp add: length_btree_set)
qed

text \<open>The memory summary reports a speed or a type exactly when there are modules and all of them have it, and a channel count exactly when every module's channel is known: then it is the number of distinct channels, at least one and at most the number of modules.\<close>

theorem memory_summary_truthful:
  assumes "length ms < 2 ^ 32"
  shows "(mh_speed_mt_s (summarize_memory_modules mib (Some ms)) = Some s \<longleftrightarrow> agrees_on mm_speed_mt_s ms s)
    \<and> (mh_memory_type (summarize_memory_modules mib (Some ms)) = Some t \<longleftrightarrow> agrees_on mm_memory_type ms t)
    \<and> (mh_channels (summarize_memory_modules mib (Some ms)) = Some c \<longleftrightarrow> channels_known ms (unat c))
    \<and> (mh_modules (summarize_memory_modules mib (Some ms)) = Some n \<longleftrightarrow> unat n = length ms)"
proof -
  have small: "(of_nat k = (w :: u32)) = (unat w = k)" if "k \<le> length ms" for k w
  proof -
    from that have "unat (of_nat k :: u32) = k" using assms by (simp add: unsigned_of_nat take_bit_nat_eq_self)
    then show ?thesis by (metis unat_arith_simps(3))
  qed
  have le: "card (mm_channel ` set ms) \<le> length ms"
    using card_image_le [of "set ms" mm_channel] card_length [of ms] by simp
  have ne: "btree_set (List.map_filter mm_channel ms) \<noteq> [] \<longleftrightarrow> ms \<noteq> []" if "list_all (\<lambda>m. mm_channel m \<noteq> None) ms"
  proof -
    have "0 < length (btree_set (List.map_filter mm_channel ms)) \<longleftrightarrow> ms \<noteq> []"
      unfolding known_channels [OF that] by (simp add: card_gt_0_iff)
    then show ?thesis by simp
  qed
  have "mh_channels (summarize_memory_modules mib (Some ms)) = Some c \<longleftrightarrow> channels_known ms (unat c)"
  proof (cases "list_all (\<lambda>m. mm_channel m \<noteq> None) ms")
    case True
    then have all: "\<forall>m \<in> set ms. mm_channel m \<noteq> None" by (simp add: list_all_iff)
    show ?thesis
      using True all ne [OF True] known_channels [OF True] small [OF le, of c]
      by (auto simp: summarize_memory_modules_def Let_def channels_known_def)
  next
    case False
    then have "\<not> (\<forall>m \<in> set ms. mm_channel m \<noteq> None)" by (simp add: list_all_iff)
    with False show ?thesis by (simp only: summarize_memory_modules_def Let_def channels_known_def) simp
  qed
  then show ?thesis
    using small [OF order_refl] by (auto simp: summarize_memory_modules_def Let_def agreed_iff agrees_on_def)
qed

definition sample_modules :: "memory_module list" where
  "sample_modules = [\<lparr>mm_size_mib = 16384, mm_memory_type = Some ''DDR5'', mm_speed_mt_s = Some 5600, mm_channel = Some ''channel-a''\<rparr>,
     \<lparr>mm_size_mib = 16384, mm_memory_type = Some ''DDR5'', mm_speed_mt_s = Some 4800, mm_channel = Some ''channel-a''\<rparr>]"

theorem memory_summary_truthful_witness:
  "mh_speed_mt_s (summarize_memory_modules None (Some sample_modules)) \<noteq> Some 5600
   \<and> mh_memory_type (summarize_memory_modules None (Some sample_modules)) = Some ''DDR5''
   \<and> mh_channels (summarize_memory_modules None (Some sample_modules)) = Some 1"
  using memory_summary_truthful [of sample_modules None 5600 "''DDR5''" 1 2]
  by (simp add: sample_modules_def agrees_on_def channels_known_def)

section \<open>The report on the wire\<close>

text \<open>What the four fields can carry: no total, and a type of plain characters other than the word \<open>unknown\<close>.\<close>

definition wire_view :: "memory_hardware_info \<Rightarrow> memory_hardware_info" where
  "wire_view i = i\<lparr>mh_total_mib := None,
     mh_memory_type := (if wire_memory_type (mh_memory_type i) = ''unknown'' then None else Some (wire_memory_type (mh_memory_type i)))\<rparr>"

lemma token_wire_type: "token (wire_memory_type t)"
proof -
  have "graphic c" if "wire_type_char c" for c
    using that by (auto simp: wire_type_char_def char_defs)
  then show ?thesis
    by (auto simp: wire_memory_type_def token_def list_all_iff char_defs split: option.split)
qed

lemma token_optional_number: "token (encode_optional_number n)"
  by (auto simp: encode_optional_number_def token_show_word token_literal char_defs split: option.split)

lemma parse_optional_number_encode: "parse_optional_number (encode_optional_number n) = Inr n"
proof (cases n)
  case (Some w)
  have "show_word w \<noteq> ''unknown''"
  proof
    assume "show_word w = ''unknown''"
    then have "CHR ''u'' \<in> set (show_nat (unat w))" by (simp add: show_word_def)
    then show False by (auto dest!: show_nat_digits simp: char_defs)
  qed
  with Some show ?thesis by (simp add: parse_optional_number_def encode_optional_number_def)
qed (simp add: parse_optional_number_def encode_optional_number_def)

definition memory_tokens :: "memory_hardware_info \<Rightarrow> string list" where
  "memory_tokens i = [''type='' @ wire_memory_type (mh_memory_type i),
     ''speed_mt_s='' @ encode_optional_number (mh_speed_mt_s i), ''channels='' @ encode_optional_number (mh_channels i),
     ''modules='' @ encode_optional_number (mh_modules i)]"

lemma memory_tokens_token: "\<forall>t \<in> set (memory_tokens i). token t"
proof -
  have "token ''type=''" "token ''speed_mt_s=''" "token ''channels=''" "token ''modules=''"
    by (simp_all add: token_literal char_defs)
  then show ?thesis
    using token_append [OF _ token_wire_type] token_append [OF _ token_optional_number]
    unfolding memory_tokens_def by (metis empty_iff empty_set set_ConsD)
qed

lemma memory_codec: "parse_memory_hardware (encode_memory_hardware i) = Inr (wire_view i)"
proof -
  have toks: "split_ascii_ws (encode_memory_hardware i) = memory_tokens i"
    unfolding encode_memory_hardware_def memory_tokens_def [symmetric]
    by (rule split_ascii_ws_tokens) (rule memory_tokens_token)
  have so: "split_once (CHR ''='') (k @ CHR ''='' # v) = Some (k, v)" if "CHR ''='' \<notin> set k" for k v
    using split_once_append [OF that] by simp
  have "split_once (CHR ''='') (''type='' @ v) = Some (''type'', v)"
    "split_once (CHR ''='') (''speed_mt_s='' @ v) = Some (''speed_mt_s'', v)"
    "split_once (CHR ''='') (''channels='' @ v) = Some (''channels'', v)"
    "split_once (CHR ''='') (''modules='' @ v) = Some (''modules'', v)" for v
    using so [of "''type''" v] so [of "''speed_mt_s''" v] so [of "''channels''" v] so [of "''modules''" v] by simp_all
  note splits = this
  show ?thesis
    unfolding parse_memory_hardware_def toks Let_def
    by (simp add: memory_tokens_def splits [simplified] parse_memory_field_def set_protocol_field_def
        parse_optional_number_encode wire_view_def)
qed

definition short_type :: "memory_hardware_info \<Rightarrow> bool" where
  "short_type i \<longleftrightarrow> (case mh_memory_type i of None \<Rightarrow> True | Some t \<Rightarrow> length t \<le> 4096)"

lemma encode_optional_number_length: "length (encode_optional_number n) \<le> 10"
proof (cases n)
  case (Some w)
  have "unat w < 10 ^ Suc 9" using unat_u32_le [of w] by (simp add: u32_max_def)
  from show_radix_length [OF _ this] Some show ?thesis
    by (simp add: encode_optional_number_def show_word_def show_nat_def)
qed (simp add: encode_optional_number_def)

lemma memory_wire:
  assumes "short_type i" shows "wire_payload (encode_memory_hardware i)"
  unfolding encode_memory_hardware_def memory_tokens_def [symmetric]
proof (rule tokens_wire)
  have t: "length (wire_memory_type (mh_memory_type i)) \<le> 4096"
    using assms by (auto simp: wire_memory_type_def short_type_def split: option.splits)
  have "length (join_with '' '' (memory_tokens i)) \<le> sum_list (map length (memory_tokens i)) + 4"
    using length_join [of "memory_tokens i"] by (simp add: memory_tokens_def)
  also have "\<dots> \<le> 4200"
    using t encode_optional_number_length [of "mh_speed_mt_s i"] encode_optional_number_length [of "mh_channels i"]
      encode_optional_number_length [of "mh_modules i"] by (simp add: memory_tokens_def)
  finally show "length (join_with '' '' (memory_tokens i)) \<le> MAX_CONTROL_RESPONSE_PAYLOAD_BYTES"
    by (simp add: MAX_CONTROL_RESPONSE_PAYLOAD_BYTES_def MAX_CONTROL_RESPONSE_LINE_BYTES_def)
qed (simp add: memory_tokens_def, rule memory_tokens_token)

interpretation memory_wire: wire_codec encode_memory_hardware parse_memory_hardware "\<lambda>i. short_type i \<and> wire_view i = i"
  by unfold_locales (auto simp: memory_codec intro: memory_wire)

text \<open>
  Encoding looks at the wire view only, so the report of any summary is the report of its view,
  which is a value of the codec.
\<close>

lemma encode_wire_view: "encode_memory_hardware (wire_view i) = encode_memory_hardware i"
  by (auto simp: encode_memory_hardware_def wire_view_def wire_memory_type_def split: option.splits)

lemma wire_view_view: "wire_view (wire_view i) = wire_view i"
  by (auto simp: wire_view_def wire_memory_type_def split: option.splits)

lemma short_type_view: "short_type i \<Longrightarrow> short_type (wire_view i)"
  by (auto simp: short_type_def wire_view_def wire_memory_type_def split: option.splits)

text \<open>Whatever memory summary the daemon reports for HARDWARE GET (with a type no longer than a page), the client reads back its speed, channels and modules, and its type when that is plain text, however the response is cut on the way.\<close>

theorem memory_report_crosses:
  assumes "short_type i" and "carries es (response_bytes (Inr (encode_memory_hardware i)) @ rest)"
  shows "\<exists>v. receive_payload es = Inr v \<and> parse_memory_hardware v = Inr (wire_view i)"
  using memory_wire.exchange [of "wire_view i" es rest] assms
  by (simp add: short_type_view wire_view_view encode_wire_view)

theorem memory_report_crosses_witness:
  "\<exists>v. receive_payload [Bytes (response_bytes (Inr (encode_memory_hardware (summarize_memory_modules None (Some sample_modules)))))] = Inr v
     \<and> parse_memory_hardware v = Inr (wire_view (summarize_memory_modules None (Some sample_modules)))"
proof -
  have "mh_memory_type (summarize_memory_modules None (Some sample_modules)) = Some ''DDR5''"
    by (simp add: summarize_memory_modules_def sample_modules_def Let_def agreed_iff)
  then have "short_type (summarize_memory_modules None (Some sample_modules))" by (simp add: short_type_def)
  then show ?thesis
    by (rule memory_report_crosses [where rest = "[]"]) (simp add: response_bytes_def)
qed

end
