(* ===== verification/Diagnostic_Types.thy ===== *)
theory Diagnostic_Types
  imports Lighting_Control
begin

text \<open>
  \<open>src/passive_diagnostics.rs\<close>, the vocabulary of passive evidence: an observation is a value, a
  named absence or a bounded error, and the validators of its parts. \<open>passive_hid.rs\<close> uses the same
  types. At the end, the predicate on computations that the collectors' proofs are written in.
\<close>

section \<open>Observations\<close>

datatype diag_absence = Not_exposed | Incomplete_interface | Not_applicable
datatype diag_stage = Stage_discover | Stage_open | Stage_read | Stage_decode
datatype diag_class = Class_not_found | Class_permission_denied | Class_io | Class_invalid_value | Class_oversize
datatype raw_encoding = U8_hex | Ascii_token | Scalar_hex

record diag_raw =
  dr_encoding :: raw_encoding
  dr_bytes :: nat
  dr_value :: string

record diag_error =
  dx_stage :: diag_stage
  dx_class :: diag_class
  dx_errno :: "int option"
  dx_raw :: "diag_raw option"

datatype 'a observation = Ob_value 'a | Ob_absent diag_absence | Ob_error diag_error

definition diag_error_new :: "diag_stage \<Rightarrow> diag_class \<Rightarrow> int option \<Rightarrow> diag_error" where
  "diag_error_new stage cls errno = \<lparr>dx_stage = stage, dx_class = cls, dx_errno = errno, dx_raw = None\<rparr>"

definition invalid_raw :: "diag_raw \<Rightarrow> diag_error" where
  "invalid_raw raw = \<lparr>dx_stage = Stage_decode, dx_class = Class_invalid_value, dx_errno = None, dx_raw = Some raw\<rparr>"

definition decode_error :: "diag_class \<Rightarrow> diag_error" where
  "decode_error cls = diag_error_new Stage_decode cls None"

text \<open>\<open>io_error\<close> of a failed read, and \<open>io_diagnostic\<close> of the HID collector.\<close>

definition kind_class :: "io_error \<Rightarrow> diag_class" where
  "kind_class x = (if io_error_kind x = NotFound then Class_not_found
     else if io_error_kind x = PermissionDenied then Class_permission_denied else Class_io)"

definition diag_io_error :: "io_error \<Rightarrow> diag_error" where
  "diag_io_error x = diag_error_new Stage_read (kind_class x) (raw_os_error x)"

definition io_diagnostic :: "diag_stage \<Rightarrow> io_error \<Rightarrow> diag_error" where
  "io_diagnostic stage x = diag_error_new stage (kind_class x)
     (case raw_os_error x of Some n \<Rightarrow> if n \<ge> 0 then Some n else None | None \<Rightarrow> None)"

section \<open>Validators\<close>

definition is_hex :: "string \<Rightarrow> nat \<Rightarrow> bool" where
  "is_hex v digits \<longleftrightarrow> length v = digits \<and> list_all is_hexdigit v"

definition token_char :: "char \<Rightarrow> bool" where
  "token_char c \<longleftrightarrow> is_alnum c \<or> c = CHR ''-'' \<or> c = CHR ''_'' \<or> c = CHR ''.''"

definition validate_token :: "string \<Rightarrow> nat \<Rightarrow> string \<Rightarrow> string + unit" where
  "validate_token v mx label = (if v \<noteq> [] \<and> length v \<le> mx \<and> list_all token_char v then Inr () else Inl (''invalid '' @ label))"

definition validate_text :: "string \<Rightarrow> nat \<Rightarrow> string \<Rightarrow> string + unit" where
  "validate_text v mx label = (if v \<noteq> [] \<and> length v \<le> mx \<and> \<not> has_control v then Inr () else Inl (''invalid '' @ label))"

definition validate_raw :: "diag_raw \<Rightarrow> string + unit" where
  "validate_raw raw = (case dr_encoding raw of
      U8_hex \<Rightarrow> if dr_bytes raw \<noteq> 1 \<or> \<not> is_hex (dr_value raw) 2 then Inl ''invalid one-byte diagnostic raw'' else Inr ()
    | Ascii_token \<Rightarrow> if dr_bytes raw \<noteq> length (dr_value raw) then Inl ''diagnostic ASCII raw length differs''
        else validate_token (dr_value raw) 48 ''diagnostic ASCII raw''
    | Scalar_hex \<Rightarrow> if dr_bytes raw = 0 \<or> dr_bytes raw > 8 \<or> \<not> is_hex (dr_value raw) (dr_bytes raw * 2)
        then Inl ''invalid diagnostic scalar raw'' else Inr ())"

definition res_all :: "('a \<Rightarrow> 'e + unit) \<Rightarrow> 'a list \<Rightarrow> 'e + unit" where
  "res_all f xs = foldr (\<lambda>x r. res_bind (f x) (\<lambda>_. r)) xs (Inr ())"

definition validate_error :: "diag_error \<Rightarrow> string + unit" where
  "validate_error x = (if (case dx_errno x of Some n \<Rightarrow> n < 0 | None \<Rightarrow> False) then Inl ''diagnostic errno must be non-negative''
     else (case dx_raw x of None \<Rightarrow> Inr ()
       | Some raw \<Rightarrow> res_bind (validate_raw raw) (\<lambda>_.
           if dr_encoding raw \<noteq> Scalar_hex \<or> dr_bytes raw > 8 then Inl ''diagnostic error raw is not a bounded scalar'' else Inr ())))"

definition validate_observation :: "'a observation \<Rightarrow> ('a \<Rightarrow> string + unit) \<Rightarrow> string + unit" where
  "validate_observation ob f = (case ob of Ob_value v \<Rightarrow> f v | Ob_absent _ \<Rightarrow> Inr () | Ob_error x \<Rightarrow> validate_error x)"

text \<open>An observation in which no check can fail except those of its value.\<close>

definition ob_ok :: "('a \<Rightarrow> bool) \<Rightarrow> 'a observation \<Rightarrow> bool" where
  "ob_ok P ob \<longleftrightarrow> (case ob of Ob_value v \<Rightarrow> P v | Ob_absent _ \<Rightarrow> True | Ob_error x \<Rightarrow> validate_error x = Inr ())"

named_theorems diag_simps \<open>validity of observations\<close>

lemma ob_ok_simps [diag_simps, simp]:
  "ob_ok P (Ob_value v) = P v" "ob_ok P (Ob_absent r)" "ob_ok P (Ob_error x) = (validate_error x = Inr ())"
  by (simp_all add: ob_ok_def)

lemma validate_observation_ok: "validate_observation ob f = Inr () \<longleftrightarrow> ob_ok (\<lambda>v. f v = Inr ()) ob"
  by (cases ob) (simp_all add: validate_observation_def)

lemma ob_ok_mono: "(\<And>v. P v \<Longrightarrow> Q v) \<Longrightarrow> ob_ok P ob \<Longrightarrow> ob_ok Q ob"
  by (cases ob) simp_all

lemma validate_error_new [diag_simps, simp]:
  "validate_error (diag_error_new stage cls errno) = Inr () \<longleftrightarrow> (case errno of Some n \<Rightarrow> 0 \<le> n | None \<Rightarrow> True)"
  "validate_error (decode_error cls) = Inr ()"
  "validate_error (io_diagnostic stage x) = Inr ()"
  by (auto simp: validate_error_def diag_error_new_def decode_error_def io_diagnostic_def split: option.splits)

lemma validate_error_raw:
  "dr_encoding raw = Scalar_hex \<Longrightarrow> 0 < dr_bytes raw \<Longrightarrow> dr_bytes raw \<le> 8 \<Longrightarrow> is_hex (dr_value raw) (dr_bytes raw * 2) \<Longrightarrow>
     validate_error (invalid_raw raw) = Inr ()"
  by (simp add: validate_error_def invalid_raw_def validate_raw_def)

lemma res_all_ok: "res_all f xs = Inr () \<longleftrightarrow> (\<forall>x \<in> set xs. f x = Inr ())"
proof (induction xs)
  case (Cons x xs)
  then show ?case by (cases "f x") (auto simp: res_all_def)
qed (simp add: res_all_def)

section \<open>Results of computations\<close>

text \<open>\<open>gives P m\<close>: every run of \<open>m\<close> succeeds with a value that satisfies \<open>P\<close>.\<close>

definition gives :: "('a \<Rightarrow> bool) \<Rightarrow> ('w, 'x, 'a) io \<Rightarrow> bool" where
  "gives P m \<longleftrightarrow> (\<forall>w. \<exists>a w'. m w = (Inr a, w') \<and> P a)"

named_theorems gives_intros \<open>compositional rules for \<open>gives\<close>\<close>

lemma givesE:
  assumes "gives P m" obtains a w' where "m w = (Inr a, w')" and "P a"
  using assms unfolding gives_def by blast

lemma gives_mono: "gives P m \<Longrightarrow> (\<And>a. P a \<Longrightarrow> Q a) \<Longrightarrow> gives Q m"
  unfolding gives_def by blast

lemma gives_ret [gives_intros]: "P a \<Longrightarrow> gives P (io_ret a)"
  by (simp add: gives_def io_ret_apply)

lemma gives_bind: "gives Q m \<Longrightarrow> (\<And>a. Q a \<Longrightarrow> gives P (f a)) \<Longrightarrow> gives P (io_bind m f)"
  unfolding gives_def by (metis (mono_tags, lifting) io_bind_apply old.prod.case sum.case(2))

lemma gives_try: "(\<And>r. gives P (f r)) \<Longrightarrow> gives P (io_try m f)"
  unfolding gives_def by (simp add: io_try_apply split: prod.split)

lemma gives_try_cases:
  assumes "\<And>x. gives P (f (Inl x))" and "\<And>a w w'. m w = (Inr a, w') \<Longrightarrow> \<exists>b w''. f (Inr a) w' = (Inr b, w'') \<and> P b"
  shows "gives P (io_try m f)"
  unfolding gives_def
proof
  fix w obtain r w' where m: "m w = (r, w')" by (cases "m w") auto
  show "\<exists>a w'. io_try m f w = (Inr a, w') \<and> P a"
    using assms m by (cases r) (auto simp: io_try_apply gives_def)
qed

lemma gives_if: "(b \<Longrightarrow> gives P m) \<Longrightarrow> (\<not> b \<Longrightarrow> gives P n) \<Longrightarrow> gives P (if b then m else n)"
  by simp

lemma gives_query [gives_intros]: "(\<And>e. P (f e)) \<Longrightarrow> gives P (fs_query f)"
  by (simp add: gives_def fs_query_def)

lemma gives_total: "io_total m \<Longrightarrow> gives (\<lambda>_. True) m"
  unfolding gives_def by (metis io_totalE)

lemma gives_filter_map:
  assumes "\<And>x. x \<in> set xs \<Longrightarrow> gives (\<lambda>y. \<forall>b. y = Some b \<longrightarrow> P b) (f x)"
  shows "gives (\<lambda>ys. (\<forall>b \<in> set ys. P b) \<and> length ys \<le> length xs) (io_filter_map f xs)"
  using assms
proof (induction xs)
  case (Cons x xs)
  have rest: "gives (\<lambda>ys. (\<forall>b \<in> set ys. P b) \<and> length ys \<le> length xs) (io_filter_map f xs)"
    by (rule Cons.IH) (simp add: Cons.prems)
  show ?case
    unfolding io_filter_map.simps
    by (rule gives_bind [OF Cons.prems], simp, rule gives_bind [OF rest], rule gives_ret) (auto split: option.split)
qed (simp add: gives_ret)

lemma gives_map_list:
  assumes "\<And>x. x \<in> set xs \<Longrightarrow> gives (R x) (f x)"
  shows "gives (list_all2 R xs) (io_map_list f xs)"
  using assms
proof (induction xs)
  case (Cons x xs)
  have rest: "gives (list_all2 R xs) (io_map_list f xs)"
    by (rule Cons.IH) (simp add: Cons.prems)
  show ?case
    unfolding io_map_list.simps
    by (rule gives_bind [OF Cons.prems], simp, rule gives_bind [OF rest], rule gives_ret) simp
qed (simp add: gives_ret)

text \<open>\<open>yields E P m\<close>: whatever the world, \<open>m\<close> fails with an error in \<open>E\<close> or succeeds with a value in \<open>P\<close>.\<close>

definition yields :: "('e \<Rightarrow> bool) \<Rightarrow> ('a \<Rightarrow> bool) \<Rightarrow> ('w, 'e, 'a) io \<Rightarrow> bool" where
  "yields E P m \<longleftrightarrow> (\<forall>w. case fst (m w) of Inl x \<Rightarrow> E x | Inr a \<Rightarrow> P a)"

lemma gives_result: "gives P m \<Longrightarrow> m w = (Inr a, w') \<Longrightarrow> P a"
  by (auto simp: gives_def dest: spec [of _ w])

lemma yields_result: "yields E P m \<Longrightarrow> m w = (Inr a, w') \<Longrightarrow> P a"
  by (auto simp: yields_def dest: spec [of _ w])

lemma yields_ret: "P a \<Longrightarrow> yields E P (io_ret a)"
  by (simp add: yields_def io_ret_apply)

lemma yields_err: "E x \<Longrightarrow> yields E P (io_err x)"
  by (simp add: yields_def io_err_apply)

lemma yields_of: "(\<And>x. r = Inl x \<Longrightarrow> E x) \<Longrightarrow> (\<And>a. r = Inr a \<Longrightarrow> P a) \<Longrightarrow> yields E P (io_of r)"
  by (cases r) (simp_all add: yields_def io_of_apply)

lemma yields_any: "(\<And>x. E x) \<Longrightarrow> yields E (\<lambda>_. True) m"
  by (simp add: yields_def split: sum.split)

lemma yields_map_err: "(\<And>x. E (g x)) \<Longrightarrow> yields E (\<lambda>_. True) (io_map_err g m)"
  by (auto simp: yields_def io_map_err_def res_map_err_def split: sum.splits prod.splits)

lemma yields_bind:
  assumes "yields E Q m" and "\<And>a. Q a \<Longrightarrow> yields E P (f a)" shows "yields E P (io_bind m f)"
  unfolding yields_def
proof
  fix w obtain r w' where m: "m w = (r, w')" by (cases "m w") auto
  show "case fst (io_bind m f w) of Inl x \<Rightarrow> E x | Inr a \<Rightarrow> P a"
  proof (cases r)
    case (Inl x)
    with assms(1) m show ?thesis by (auto simp: yields_def io_bind_apply dest: spec [of _ w])
  next
    case (Inr a)
    with assms(1) m have "Q a" by (auto simp: yields_def dest: spec [of _ w])
    with assms(2) m Inr show ?thesis by (simp add: yields_def io_bind_apply)
  qed
qed

lemma yields_then: "yields E Q m \<Longrightarrow> yields E P n \<Longrightarrow> yields E P (io_then m n)"
  by (simp add: io_then_def yields_bind)

lemma gives_try_yields:
  assumes "yields E P m" and "\<And>x. E x \<Longrightarrow> gives Q (f (Inl x))" and "\<And>a. P a \<Longrightarrow> gives Q (f (Inr a))"
  shows "gives Q (io_try m f)"
  unfolding gives_def
proof
  fix w obtain r w' where m: "m w = (r, w')" by (cases "m w") auto
  with assms(1) have "case r of Inl x \<Rightarrow> E x | Inr a \<Rightarrow> P a" by (auto simp: yields_def dest: spec [of _ w])
  with assms(2,3) m show "\<exists>a w'. io_try m f w = (Inr a, w') \<and> Q a"
    by (cases r) (auto simp: io_try_apply gives_def)
qed

end
