(* ===== verification/Passive_Hid.thy ===== *)
theory Passive_Hid
  imports Diagnostic_Types
begin

text \<open>
  \<open>src/passive_hid.rs\<close>: the bounded passive HID evidence. The report descriptor is decoded by a
  stack machine over its items; the collector picks allow-listed identities, reads driver and
  descriptor, asks an ENEK function for its A1 target list, and sorts and deduplicates the records;
  the validator says what a report may contain. \<open>sha2\<close> is a parameter \<open>sha\<close> on bytes.
\<close>

definition MAX_HIDRAW_ENTRIES :: nat where "MAX_HIDRAW_ENTRIES = 256"
definition MAX_HID_CANDIDATES :: nat where "MAX_HID_CANDIDATES = 8"
definition MAX_UEVENT_BYTES :: nat where "MAX_UEVENT_BYTES = 4096"
definition MAX_DESCRIPTOR_BYTES :: nat where "MAX_DESCRIPTOR_BYTES = 4096"
definition MAX_FEATURE_REPORTS :: nat where "MAX_FEATURE_REPORTS = 64"
definition MAX_FEATURE_REPORT_BYTES :: nat where "MAX_FEATURE_REPORT_BYTES = 4096"
definition MAX_FEATURE_PAYLOAD_BYTES :: nat where "MAX_FEATURE_PAYLOAD_BYTES = 64"
definition MAX_A1_TARGETS :: nat where "MAX_A1_TARGETS = 32"
definition MAX_HID_STACK_DEPTH :: nat where "MAX_HID_STACK_DEPTH = 32"
definition MAX_DRIVER_BYTES :: nat where "MAX_DRIVER_BYTES = 64"

datatype hid_role = Enek5130_lighting | Acer_ec_hid_power_candidate | Darfon_lighting_candidate
datatype hid_bus = Bus_i2c | Bus_usb
datatype hid_name = Name_enek5130 | Name_acer_ec_hid | Name_darfon_usb_hid

text \<open>\<open>Ord\<close> of the roles is their order of declaration.\<close>

fun role_index :: "hid_role \<Rightarrow> nat" where
  "role_index Enek5130_lighting = 0"
| "role_index Acer_ec_hid_power_candidate = 1"
| "role_index Darfon_lighting_candidate = 2"

instantiation hid_role :: linorder
begin
definition less_eq_hid_role :: "hid_role \<Rightarrow> hid_role \<Rightarrow> bool" where "less_eq_hid_role a b \<longleftrightarrow> role_index a \<le> role_index b"
definition less_hid_role :: "hid_role \<Rightarrow> hid_role \<Rightarrow> bool" where "less_hid_role a b \<longleftrightarrow> role_index a < role_index b"
instance
proof
  fix x y z :: hid_role
  show "x < y \<longleftrightarrow> x \<le> y \<and> \<not> y \<le> x" by (auto simp: less_eq_hid_role_def less_hid_role_def)
  show "x \<le> x" by (simp add: less_eq_hid_role_def)
  show "x \<le> y \<Longrightarrow> y \<le> z \<Longrightarrow> x \<le> z" by (simp add: less_eq_hid_role_def)
  show "x \<le> y \<Longrightarrow> y \<le> x \<Longrightarrow> x = y" by (cases x; cases y) (simp_all add: less_eq_hid_role_def)
  show "x \<le> y \<or> y \<le> x" by (auto simp: less_eq_hid_role_def)
qed
end

record hid_identity =
  hi_bus :: hid_bus
  hi_vid :: u16
  hi_pid :: u16
  hi_name :: hid_name
  hi_interface :: "u8 option"
  hi_usage_page :: "u16 option"
  hi_usage :: "u16 option"

record feature_geometry =
  fg_id :: u8
  fg_bytes :: nat

record hid_descriptor =
  hd_bytes :: nat
  hd_sha256 :: string
  hd_feature_reports :: "feature_geometry list"

record hid_a1 =
  a1_requested_bytes :: nat
  a1_returned_bytes :: nat
  a1_payload_hex :: string
  a1_targets :: "u8 list"

record diagnostic_hid =
  dh_role :: hid_role
  dh_identity :: hid_identity
  dh_driver :: "string observation"
  dh_descriptor :: "hid_descriptor observation"
  dh_a1 :: "hid_a1 observation option"

record hid_candidate =
  hc_sysfs :: path
  hc_node :: path
  hc_role :: hid_role
  hc_identity :: hid_identity

definition bytes_of :: "string \<Rightarrow> u8 list" where "bytes_of s = map (\<lambda>c. of_nat (byte c)) s"

definition bytes_hex :: "u8 list \<Rightarrow> string" where "bytes_hex bs = concat (map hex2 bs)"

section \<open>The report descriptor\<close>

record hid_global =
  hg_usage_page :: "u16 option"
  hg_report_size :: "u32 option"
  hg_report_count :: "u32 option"
  hg_report_id :: u8

type_synonym hid_usage = "u16 \<times> u16"

text \<open>
  The parser's variables. Stacks have their top first; the \<open>BTreeMap\<close> of bit totals is an
  association list in ascending order of report id, and the set of usages a list without repetition.
\<close>

record descriptor_state =
  ps_global :: hid_global
  ps_global_stack :: "hid_global list"
  ps_collections :: "hid_usage option list"
  ps_local_usage :: "hid_usage option"
  ps_feature_bits :: "(u8 \<times> nat) list"
  ps_feature_usages :: "hid_usage list"
  ps_without_usage :: bool

definition initial_descriptor_state :: descriptor_state where
  "initial_descriptor_state = \<lparr>ps_global = \<lparr>hg_usage_page = None, hg_report_size = None, hg_report_count = None, hg_report_id = 0\<rparr>,
     ps_global_stack = [], ps_collections = [], ps_local_usage = None, ps_feature_bits = [], ps_feature_usages = [],
     ps_without_usage = False\<rparr>"

definition unsigned_item :: "u8 list \<Rightarrow> u32" where
  "unsigned_item bs = u32_from_le_bytes (byte_at bs 0) (byte_at bs 1) (byte_at bs 2) (byte_at bs 3)"

definition usage_from_item :: "u16 option \<Rightarrow> u8 list \<Rightarrow> hid_usage option" where
  "usage_from_item page bs = (let v = unsigned_item bs in
     if length bs = 4 \<and> unat v > u16_max then Some (ucast (drop_bit 16 v), ucast v)
     else (case page of None \<Rightarrow> None | Some p \<Rightarrow> if unat v > u16_max then None else Some (p, ucast v)))"

fun btree_put :: "'k::linorder \<Rightarrow> 'v \<Rightarrow> ('k \<times> 'v) list \<Rightarrow> ('k \<times> 'v) list" where
  "btree_put k v [] = [(k, v)]"
| "btree_put k v ((k', v') # kvs) = (if k < k' then (k, v) # (k', v') # kvs
     else if k = k' then (k, v) # kvs else (k', v') # btree_put k v kvs)"

definition top_usage :: "hid_usage option list \<Rightarrow> hid_usage option" where
  "top_usage cs = (case cs of [] \<Rightarrow> None | u # _ \<Rightarrow> u)"

text \<open>The item arms that can fail.\<close>

definition push_collection :: "u32 \<Rightarrow> descriptor_state \<Rightarrow> diag_error + descriptor_state" where
  "push_collection v s = (if length (ps_collections s) = MAX_HID_STACK_DEPTH then Inl (decode_error Class_oversize)
     else (let parent = top_usage (ps_collections s);
         application = (if v = 1 \<and> parent = None then ps_local_usage s else parent) in
       Inr (s\<lparr>ps_collections := application # ps_collections s, ps_local_usage := None\<rparr>)))"

definition pop_collection :: "descriptor_state \<Rightarrow> diag_error + descriptor_state" where
  "pop_collection s = (case ps_collections s of [] \<Rightarrow> Inl (decode_error Class_invalid_value)
     | _ # cs \<Rightarrow> Inr (s\<lparr>ps_collections := cs, ps_local_usage := None\<rparr>))"

definition add_feature :: "descriptor_state \<Rightarrow> diag_error + descriptor_state" where
  "add_feature s = (let g = ps_global s in case (hg_report_size g, hg_report_count g) of
      (Some sz, Some n) \<Rightarrow> (let bits = unat sz * unat n in
         if bits > u64_max \<or> bits = 0 then Inl (decode_error Class_invalid_value)
         else (let total = (case map_of (ps_feature_bits s) (hg_report_id g) of None \<Rightarrow> 0 | Some t \<Rightarrow> t) + bits;
             feature_bits = btree_put (hg_report_id g) total (ps_feature_bits s) in
           if total > u64_max \<or> length feature_bits > MAX_FEATURE_REPORTS then Inl (decode_error Class_oversize)
           else Inr ((case top_usage (ps_collections s) of
               Some u \<Rightarrow> s\<lparr>ps_feature_usages := List.insert u (ps_feature_usages s)\<rparr>
             | None \<Rightarrow> s\<lparr>ps_without_usage := True\<rparr>)\<lparr>ps_feature_bits := feature_bits, ps_local_usage := None\<rparr>)))
    | _ \<Rightarrow> Inl (decode_error Class_invalid_value))"

definition push_global :: "descriptor_state \<Rightarrow> diag_error + descriptor_state" where
  "push_global s = (if length (ps_global_stack s) = MAX_HID_STACK_DEPTH then Inl (decode_error Class_oversize)
     else Inr (s\<lparr>ps_global_stack := ps_global s # ps_global_stack s\<rparr>))"

definition pop_global :: "descriptor_state \<Rightarrow> diag_error + descriptor_state" where
  "pop_global s = (case ps_global_stack s of [] \<Rightarrow> Inl (decode_error Class_invalid_value)
     | g # gs \<Rightarrow> Inr (s\<lparr>ps_global := g, ps_global_stack := gs\<rparr>))"

definition set_report_id :: "u32 \<Rightarrow> descriptor_state \<Rightarrow> diag_error + descriptor_state" where
  "set_report_id v s = (if unat v > u8_max \<or> v = 0 then Inl (decode_error Class_invalid_value)
     else Inr (s\<lparr>ps_global := (ps_global s)\<lparr>hg_report_id := ucast v\<rparr>\<rparr>))"

definition set_usage_page :: "u32 \<Rightarrow> descriptor_state \<Rightarrow> diag_error + descriptor_state" where
  "set_usage_page v s = (if unat v > u16_max then Inl (decode_error Class_invalid_value)
     else Inr (s\<lparr>ps_global := (ps_global s)\<lparr>hg_usage_page := Some (ucast v)\<rparr>\<rparr>))"

definition descriptor_item :: "u8 \<Rightarrow> u8 \<Rightarrow> u8 list \<Rightarrow> descriptor_state \<Rightarrow> diag_error + descriptor_state" where
  "descriptor_item item_type tag bs s = (let v = unsigned_item bs in
     if item_type = 1 then
       (if tag = 0 then set_usage_page v s
        else if tag = 7 then Inr (s\<lparr>ps_global := (ps_global s)\<lparr>hg_report_size := Some v\<rparr>\<rparr>)
        else if tag = 8 then set_report_id v s
        else if tag = 9 then Inr (s\<lparr>ps_global := (ps_global s)\<lparr>hg_report_count := Some v\<rparr>\<rparr>)
        else if tag = 10 then push_global s
        else if tag = 11 then pop_global s
        else Inr s)
     else if item_type = 2 then
       (if tag = 0 \<and> ps_local_usage s = None
        then Inr (s\<lparr>ps_local_usage := usage_from_item (hg_usage_page (ps_global s)) bs\<rparr>) else Inr s)
     else if item_type = 0 then
       (if tag = 10 then push_collection v s
        else if tag = 12 then pop_collection s
        else if tag = 11 then add_feature s
        else Inr (s\<lparr>ps_local_usage := None\<rparr>))
     else Inr s)"

definition item_size :: "u8 \<Rightarrow> nat" where
  "item_size p = (let n = unat (and p 3) in if n = 3 then 4 else n)"

function descriptor_items :: "u8 list \<Rightarrow> descriptor_state \<Rightarrow> diag_error + descriptor_state" where
  "descriptor_items [] s = Inr s"
| "descriptor_items (p # rest) s = (if p = 0xFE \<or> item_size p > length rest then Inl (decode_error Class_invalid_value)
     else (case descriptor_item (and (drop_bit 2 p) 3) (drop_bit 4 p) (take (item_size p) rest) s of
         Inl x \<Rightarrow> Inl x
       | Inr s' \<Rightarrow> descriptor_items (drop (item_size p) rest) s'))"
  by pat_completeness auto
termination by (relation "measure (\<lambda>(bs, s). length bs)") auto

declare descriptor_items.simps [simp del]

definition feature_report :: "u8 \<times> nat \<Rightarrow> diag_error + feature_geometry" where
  "feature_report = (\<lambda>(i, bits). if bits + 7 > u64_max then Inl (decode_error Class_oversize)
     else (let report_bytes = (bits + 7) div 8 + (if i \<noteq> 0 then 1 else 0) in
       if report_bytes > u64_max \<or> report_bytes = 0 \<or> report_bytes > MAX_FEATURE_REPORT_BYTES
       then Inl (decode_error Class_oversize)
       else Inr \<lparr>fg_id = i, fg_bytes = report_bytes\<rparr>))"

definition parse_report_descriptor :: "u8 list \<Rightarrow> diag_error + feature_geometry list \<times> hid_usage option" where
  "parse_report_descriptor bs = res_bind (descriptor_items bs initial_descriptor_state) (\<lambda>s.
     if ps_global_stack s \<noteq> [] \<or> ps_collections s \<noteq> [] then Inl (decode_error Class_invalid_value)
     else res_bind (res_map_list feature_report (ps_feature_bits s)) (\<lambda>reports.
       Inr (reports, (case ps_feature_usages s of [u] \<Rightarrow> if \<not> ps_without_usage s then Some u else None | _ \<Rightarrow> None))))"

section \<open>Identities\<close>

definition hidraw_index :: "string \<Rightarrow> u32 option" where
  "hidraw_index name = (if \<not> utf8_valid name then None else case strip_pre ''hidraw'' name of None \<Rightarrow> None
     | Some digits \<Rightarrow> if digits = [] \<or> length digits > 10 \<or> \<not> list_all is_digit digits then None else parse_u32 digits)"

definition allowlisted :: "nat \<Rightarrow> nat \<Rightarrow> nat \<Rightarrow> (hid_role \<times> hid_name) option" where
  "allowlisted bus vendor product =
     (if (bus, vendor, product) = (0x18, 0x0cf2, 0x5130) then Some (Enek5130_lighting, Name_enek5130)
      else if (bus, vendor, product) = (0x18, 0x1025, 0x174b) then Some (Acer_ec_hid_power_candidate, Name_acer_ec_hid)
      else if (bus, vendor, product) = (0x03, 0x0d62, 0xba51) then Some (Darfon_lighting_candidate, Name_darfon_usb_hid)
      else None)"

text \<open>One \<open>HID_ID\<close> value.\<close>

definition hid_id_identity :: "string \<Rightarrow> (hid_role \<times> hid_identity) option" where
  "hid_id_identity v = (case split_char (CHR '':'') (str_trim v) of
      [b, ve, p] \<Rightarrow> Option.bind (parse_uint 16 u32_max b) (\<lambda>bus. Option.bind (parse_uint 16 u32_max ve) (\<lambda>vendor.
        Option.bind (parse_uint 16 u32_max p) (\<lambda>product. Option.bind (allowlisted bus vendor product) (\<lambda>(role, name).
          if vendor > u16_max \<or> product > u16_max then None
          else Some (role, \<lparr>hi_bus = (if bus = 3 then Bus_usb else Bus_i2c), hi_vid = of_nat vendor, hi_pid = of_nat product,
            hi_name = name, hi_interface = None, hi_usage_page = None, hi_usage = None\<rparr>)))))
    | _ \<Rightarrow> None)"

text \<open>The loop over the lines; a second \<open>HID_ID\<close> or an unknown one is refused.\<close>

fun identity_lines :: "string list \<Rightarrow> (hid_role \<times> hid_identity) option \<Rightarrow> (hid_role \<times> hid_identity) option" where
  "identity_lines [] parsed = parsed"
| "identity_lines (l # ls) parsed = (case strip_pre ''HID_ID='' l of
      None \<Rightarrow> identity_lines ls parsed
    | Some v \<Rightarrow> (case hid_id_identity v of None \<Rightarrow> None
        | Some x \<Rightarrow> if parsed \<noteq> None then None else identity_lines ls (Some x)))"

definition parse_allowlisted_identity :: "string \<Rightarrow> (hid_role \<times> hid_identity) option" where
  "parse_allowlisted_identity uevent = (if \<not> utf8_valid uevent then None else identity_lines (str_lines uevent) None)"

section \<open>Reading one function\<close>

definition hid_read_bounded :: "'e sysfs \<Rightarrow> 'e hid \<Rightarrow> path \<Rightarrow> nat \<Rightarrow> ('e world, diag_error, string) io" where
  "hid_read_bounded fs hr p max_bytes = io_then (io_map_err (io_diagnostic Stage_open) (dev_open hr p False))
     (io_bind (io_map_err (io_diagnostic Stage_read) (fs_read fs p)) (\<lambda>bytes.
        if length bytes > max_bytes then io_err (diag_error_new Stage_read Class_oversize None) else io_ret bytes))"

definition driver_token :: "string \<Rightarrow> bool" where
  "driver_token d \<longleftrightarrow> d \<noteq> [] \<and> length d \<le> MAX_DRIVER_BYTES \<and> list_all token_char d"

definition driver_of_link :: "path \<Rightarrow> string observation" where
  "driver_of_link target = (case path_file_name target of
      Some d \<Rightarrow> if utf8_valid d \<and> driver_token d then Ob_value d else Ob_error (decode_error Class_invalid_value)
    | None \<Rightarrow> Ob_error (decode_error Class_invalid_value))"

definition hid_read_driver :: "'e sysfs \<Rightarrow> path \<Rightarrow> ('e world, 'x, string observation) io" where
  "hid_read_driver fs p = io_bind (fs_query (k_read_link fs p)) (\<lambda>r. io_ret (case r of
      Inr target \<Rightarrow> driver_of_link target
    | Inl x \<Rightarrow> if io_error_kind x = NotFound then Ob_absent Not_exposed else Ob_error (io_diagnostic Stage_read x)))"

definition descriptor_evidence :: "(u8 list \<Rightarrow> u8 list) \<Rightarrow> u8 list \<Rightarrow> diag_error + hid_descriptor \<times> hid_usage option" where
  "descriptor_evidence sha bs = (if bs = [] then Inl (decode_error Class_invalid_value)
     else res_bind (parse_report_descriptor bs) (\<lambda>(reports, usage).
       Inr (\<lparr>hd_bytes = length bs, hd_sha256 = bytes_hex (sha bs), hd_feature_reports = reports\<rparr>, usage)))"

definition read_descriptor :: "(u8 list \<Rightarrow> u8 list) \<Rightarrow> 'e sysfs \<Rightarrow> 'e hid \<Rightarrow> path
    \<Rightarrow> ('e world, diag_error, hid_descriptor \<times> hid_usage option) io" where
  "read_descriptor sha fs hr p = io_bind (hid_read_bounded fs hr p MAX_DESCRIPTOR_BYTES) (\<lambda>bytes.
     io_of (descriptor_evidence sha (bytes_of bytes)))"

definition parse_a1_payload :: "nat \<Rightarrow> u8 list \<Rightarrow> diag_error + hid_a1" where
  "parse_a1_payload requested payload = (if length payload < 2 \<or> length payload > requested \<or> payload ! 0 \<noteq> REPORT_TARGET_LIST
     then Inl (decode_error Class_invalid_value)
     else (let n = unat (payload ! 1) in
       if n > MAX_A1_TARGETS then Inl (decode_error Class_oversize)
       else if 2 + n > length payload then Inl (decode_error Class_invalid_value)
       else Inr \<lparr>a1_requested_bytes = requested, a1_returned_bytes = length payload, a1_payload_hex = bytes_hex payload,
         a1_targets = remdups_adj (sort (drop 2 (take (2 + n) payload)))\<rparr>))"

type_synonym 'e feature_reader = "path \<Rightarrow> u8 \<Rightarrow> nat \<Rightarrow> ('e world, diag_error, u8 list) io"

definition payload_size_ok :: "nat \<Rightarrow> bool" where
  "payload_size_ok n \<longleftrightarrow> 2 \<le> n \<and> n \<le> MAX_FEATURE_PAYLOAD_BYTES"

definition read_a1 :: "path \<Rightarrow> nat \<Rightarrow> 'e feature_reader \<Rightarrow> ('e world, 'x, hid_a1 observation) io" where
  "read_a1 node requested reader = (if \<not> payload_size_ok requested
     then io_ret (Ob_error (decode_error (if requested > MAX_FEATURE_PAYLOAD_BYTES then Class_oversize else Class_invalid_value)))
     else io_try (reader node REPORT_TARGET_LIST requested) (\<lambda>r. io_ret (case r of
         Inl x \<Rightarrow> Ob_error x
       | Inr payload \<Rightarrow> (case parse_a1_payload requested payload of Inl x \<Rightarrow> Ob_error x | Inr v \<Rightarrow> Ob_value v))))"

text \<open>\<open>HIDIOCGFEATURE(len)\<close>.\<close>

definition get_feature_ioctl :: "nat \<Rightarrow> diag_error + u64" where
  "get_feature_ioctl len = (if \<not> payload_size_ok len then Inl (decode_error Class_oversize)
     else Inr (or (or (or (push_bit 30 (or 2 1)) (push_bit 16 (of_nat len))) (push_bit 8 0x48)) 0x07))"

definition read_feature_report :: "'e hid \<Rightarrow> 'e feature_reader" where
  "read_feature_report hr node report_id requested = (if \<not> payload_size_ok requested then io_err (decode_error Class_oversize)
     else io_then (io_map_err (io_diagnostic Stage_open) (dev_open hr node False))
       (io_bind (io_of (get_feature_ioctl requested)) (\<lambda>q.
        io_bind (io_map_err (io_diagnostic Stage_read) (dev_ioctl hr node q ((replicate requested 0)[0 := report_id]))) (\<lambda>(returned, buf).
          if returned = 0 \<or> returned > requested then io_err (diag_error_new Stage_read Class_invalid_value None)
          else io_ret (take returned buf)))))"

definition find_a1_geometry :: "hid_descriptor \<Rightarrow> feature_geometry option" where
  "find_a1_geometry d = find (\<lambda>g. fg_id g = REPORT_TARGET_LIST) (hd_feature_reports d)"

definition collect_a1 :: "hid_candidate \<Rightarrow> hid_descriptor observation \<Rightarrow> 'e feature_reader
    \<Rightarrow> ('e world, 'x, hid_a1 observation option) io" where
  "collect_a1 c descriptor reader = (if hc_role c \<noteq> Enek5130_lighting then io_ret None
     else io_bind (case descriptor of
         Ob_value d \<Rightarrow> (case find_a1_geometry d of None \<Rightarrow> io_ret (Ob_absent Incomplete_interface)
           | Some g \<Rightarrow> read_a1 (hc_node c) (fg_bytes g) reader)
       | _ \<Rightarrow> io_ret (Ob_absent Incomplete_interface)) (\<lambda>a1. io_ret (Some a1)))"

definition with_usage :: "hid_usage option \<Rightarrow> hid_identity \<Rightarrow> hid_identity" where
  "with_usage u i = (case u of None \<Rightarrow> i | Some (page, usage) \<Rightarrow> i\<lparr>hi_usage_page := Some page, hi_usage := Some usage\<rparr>)"

definition collect_candidate :: "(u8 list \<Rightarrow> u8 list) \<Rightarrow> 'e sysfs \<Rightarrow> 'e hid \<Rightarrow> 'e feature_reader \<Rightarrow> hid_candidate
    \<Rightarrow> ('e world, 'x, diagnostic_hid) io" where
  "collect_candidate sha fs hr reader c = io_bind (hid_read_driver fs (hc_sysfs c @ [''device'', ''driver''])) (\<lambda>driver.
     io_try (read_descriptor sha fs hr (hc_sysfs c @ [''device'', ''report_descriptor''])) (\<lambda>r.
       let (descriptor, identity) = (case r of
           Inr (d, usage) \<Rightarrow> (Ob_value d, with_usage usage (hc_identity c))
         | Inl x \<Rightarrow> (Ob_error x, hc_identity c)) in
       io_bind (collect_a1 c descriptor reader) (\<lambda>a1.
         io_ret \<lparr>dh_role = hc_role c, dh_identity = identity, dh_driver = driver, dh_descriptor = descriptor, dh_a1 = a1\<rparr>)))"

section \<open>The inventory\<close>

definition descriptor_hash :: "diagnostic_hid \<Rightarrow> string" where
  "descriptor_hash h = (case dh_descriptor h of Ob_value d \<Rightarrow> hd_sha256 d | _ \<Rightarrow> [])"

text \<open>\<open>compare_hid\<close> compares these components in this order.\<close>

definition hid_key :: "diagnostic_hid \<Rightarrow> hid_role \<times> u16 \<times> u16 \<times> u16 option \<times> u16 option \<times> string" where
  "hid_key h = (dh_role h, hi_vid (dh_identity h), hi_pid (dh_identity h), hi_usage_page (dh_identity h),
     hi_usage (dh_identity h), descriptor_hash h)"

definition observation_quality :: "'a observation \<Rightarrow> int" where
  "observation_quality ob = (case ob of Ob_value _ \<Rightarrow> 2 | Ob_error _ \<Rightarrow> 1 | Ob_absent _ \<Rightarrow> 0)"

definition evidence_quality :: "diagnostic_hid \<Rightarrow> int \<times> int \<times> int" where
  "evidence_quality h = (observation_quality (dh_descriptor h),
     (case dh_a1 h of None \<Rightarrow> 0 | Some a \<Rightarrow> observation_quality a), observation_quality (dh_driver h))"

definition a1_payload :: "diagnostic_hid \<Rightarrow> string" where
  "a1_payload h = (case dh_a1 h of Some (Ob_value a) \<Rightarrow> a1_payload_hex a | _ \<Rightarrow> [])"

definition driver_value :: "diagnostic_hid \<Rightarrow> string" where
  "driver_value h = (case dh_driver h of Ob_value d \<Rightarrow> d | _ \<Rightarrow> [])"

text \<open>The sort order: the identity, then the better evidence first, then its texts.\<close>

definition hid_order :: "diagnostic_hid \<Rightarrow> (hid_role \<times> u16 \<times> u16 \<times> u16 option \<times> u16 option \<times> string)
    \<times> (int \<times> int \<times> int) \<times> string \<times> string" where
  "hid_order h = (hid_key h, (case evidence_quality h of (a, b, c) \<Rightarrow> (- a, - b, - c)), a1_payload h, driver_value h)"

text \<open>\<open>dedup_by\<close>: a record is dropped when it compares equal to the last one kept.\<close>

fun dedup_hid :: "diagnostic_hid list \<Rightarrow> diagnostic_hid list" where
  "dedup_hid (a # b # hs) = (if hid_key b = hid_key a then dedup_hid (a # hs) else a # dedup_hid (b # hs))"
| "dedup_hid hs = hs"

definition hidraw_entry :: "path \<Rightarrow> path \<Rightarrow> string \<Rightarrow> (u32 \<times> path \<times> path) option" where
  "hidraw_entry sysfs_root dev_root name = map_option (\<lambda>i. (i, path_join sysfs_root name, path_join dev_root name)) (hidraw_index name)"

definition candidate_of :: "path \<Rightarrow> path \<Rightarrow> string \<Rightarrow> hid_candidate option" where
  "candidate_of sysfs node uevent = map_option (\<lambda>(role, identity).
     \<lparr>hc_sysfs = sysfs, hc_node = node, hc_role = role, hc_identity = identity\<rparr>) (parse_allowlisted_identity uevent)"

text \<open>The candidate loop; \<open>n\<close> is how many more may be taken.\<close>

fun hid_candidates :: "'e sysfs \<Rightarrow> 'e hid \<Rightarrow> nat \<Rightarrow> (u32 \<times> path \<times> path) list \<Rightarrow> ('e world, 'x, hid_candidate list) io" where
  "hid_candidates fs hr n [] = io_ret []"
| "hid_candidates fs hr n ((i, sysfs, node) # es) =
     io_try (hid_read_bounded fs hr (sysfs @ [''device'', ''uevent'']) MAX_UEVENT_BYTES) (\<lambda>r.
       case (case r of Inl _ \<Rightarrow> None | Inr uevent \<Rightarrow> candidate_of sysfs node uevent) of
         None \<Rightarrow> hid_candidates fs hr n es
       | Some c \<Rightarrow> if n \<le> 1 then io_ret [c]
           else io_bind (hid_candidates fs hr (n - 1) es) (\<lambda>cs. io_ret (c # cs)))"

definition collect_hid_at_with :: "(u8 list \<Rightarrow> u8 list) \<Rightarrow> 'e sysfs \<Rightarrow> 'e hid \<Rightarrow> 'e feature_reader \<Rightarrow> path
    \<Rightarrow> ('e world, 'x, diagnostic_hid list) io" where
  "collect_hid_at_with sha fs hr reader root = (let sysfs_root = rooted root ''sys/class/hidraw''; dev_root = rooted root ''dev'' in
     io_bind (fs_query (k_read_dir fs sysfs_root)) (\<lambda>r. case r of Inl _ \<Rightarrow> io_ret []
       | Inr names \<Rightarrow> (let entries = take (MAX_HIDRAW_ENTRIES + 1) (List.map_filter (hidraw_entry sysfs_root dev_root) names) in
           if length entries > MAX_HIDRAW_ENTRIES then io_ret []
           else io_bind (hid_candidates fs hr MAX_HID_CANDIDATES (sort_key fst entries)) (\<lambda>candidates.
                io_bind (io_map_list (collect_candidate sha fs hr reader) candidates) (\<lambda>inventory.
                  io_ret (dedup_hid (sort_key hid_order inventory)))))))"

definition collect_hid_at :: "(u8 list \<Rightarrow> u8 list) \<Rightarrow> 'e sysfs \<Rightarrow> 'e hid \<Rightarrow> path \<Rightarrow> ('e world, 'x, diagnostic_hid list) io" where
  "collect_hid_at sha fs hr = collect_hid_at_with sha fs hr (read_feature_report hr)"

section \<open>Validation\<close>

definition validate_a1 :: "hid_a1 \<Rightarrow> string + unit" where
  "validate_a1 a = (if \<not> payload_size_ok (a1_requested_bytes a)
      \<or> \<not> (2 \<le> a1_returned_bytes a \<and> a1_returned_bytes a \<le> a1_requested_bytes a)
      \<or> length (a1_payload_hex a) \<noteq> a1_returned_bytes a * 2 \<or> \<not> list_all is_hexdigit (a1_payload_hex a)
      \<or> \<not> prefix ''a1'' (a1_payload_hex a) \<or> length (a1_targets a) > MAX_A1_TARGETS
      \<or> \<not> sorted_wrt (<) (a1_targets a)
     then Inl ''passive ENEK A1 evidence is invalid'' else Inr ())"

fun validate_geometries :: "u8 option \<Rightarrow> feature_geometry list \<Rightarrow> string + unit" where
  "validate_geometries prior [] = Inr ()"
| "validate_geometries prior (g # gs) = (if fg_bytes g = 0 \<or> fg_bytes g > MAX_FEATURE_REPORT_BYTES
     then Inl ''passive HID feature geometry is invalid''
     else if (case prior of Some p \<Rightarrow> fg_id g \<le> p | None \<Rightarrow> False)
     then Inl ''passive HID feature geometry is not sorted and unique''
     else validate_geometries (Some (fg_id g)) gs)"

definition validate_descriptor :: "hid_descriptor \<Rightarrow> string + unit" where
  "validate_descriptor d = (if hd_bytes d = 0 \<or> hd_bytes d > MAX_DESCRIPTOR_BYTES \<or> length (hd_sha256 d) \<noteq> 64
      \<or> \<not> list_all is_hexdigit (hd_sha256 d) \<or> length (hd_feature_reports d) > MAX_FEATURE_REPORTS
     then Inl ''passive HID descriptor evidence is invalid'' else validate_geometries None (hd_feature_reports d))"

definition expected_identity :: "hid_role \<Rightarrow> hid_bus \<times> u16 \<times> u16 \<times> hid_name" where
  "expected_identity r = (case r of
      Enek5130_lighting \<Rightarrow> (Bus_i2c, 0x0cf2, 0x5130, Name_enek5130)
    | Acer_ec_hid_power_candidate \<Rightarrow> (Bus_i2c, 0x1025, 0x174b, Name_acer_ec_hid)
    | Darfon_lighting_candidate \<Rightarrow> (Bus_usb, 0x0d62, 0xba51, Name_darfon_usb_hid))"

definition validate_hid :: "diagnostic_hid \<Rightarrow> string + unit" where
  "validate_hid h = (let i = dh_identity h in
     if (hi_bus i, hi_vid i, hi_pid i, hi_name i) \<noteq> expected_identity (dh_role h) \<or> hi_interface i \<noteq> None
       \<or> (hi_usage_page i \<noteq> None) \<noteq> (hi_usage i \<noteq> None)
     then Inl ''passive HID identity differs from its exact allow-list''
     else res_bind (validate_observation (dh_driver h) (\<lambda>d. if \<not> driver_token d then Inl ''passive HID driver token is invalid'' else Inr ())) (\<lambda>_.
       res_bind (validate_observation (dh_descriptor h) validate_descriptor) (\<lambda>_.
       if dh_role h = Enek5130_lighting then (case dh_a1 h of
           Some a1 \<Rightarrow> validate_observation a1 validate_a1
         | None \<Rightarrow> Inl ''ENEK passive HID evidence omits A1 status'')
       else if dh_a1 h = None then Inr () else Inl ''non-ENEK HID candidate contains ENEK A1 evidence'')))"

fun validate_records :: "diagnostic_hid option \<Rightarrow> diagnostic_hid list \<Rightarrow> string + unit" where
  "validate_records previous [] = Inr ()"
| "validate_records previous (h # hs) = res_bind (validate_hid h) (\<lambda>_.
     if (case previous of Some p \<Rightarrow> \<not> hid_key p < hid_key h | None \<Rightarrow> False)
     then Inl ''passive HID inventory is not stably sorted and unique'' else validate_records (Some h) hs)"

definition validate_inventory :: "diagnostic_hid list \<Rightarrow> string + unit" where
  "validate_inventory inventory = (if length inventory > MAX_HID_CANDIDATES then Inl ''passive HID inventory is oversized''
     else validate_records None inventory)"

end
