(* ===== verification/Hid_Safety.thy ===== *)
theory Hid_Safety
  imports Passive_Hid
begin

text \<open>
  The passive HID evidence is bounded and always acceptable to its own validator, whatever the
  kernel answers: the invariant of the descriptor's stack machine, the validity of every part, the
  order of the inventory, and the requests that can reach a device.
\<close>

section \<open>The descriptor machine\<close>

definition descriptor_bounded :: "descriptor_state \<Rightarrow> bool" where
  "descriptor_bounded s \<longleftrightarrow> length (ps_global_stack s) \<le> MAX_HID_STACK_DEPTH \<and> length (ps_collections s) \<le> MAX_HID_STACK_DEPTH
     \<and> sorted_wrt (<) (map fst (ps_feature_bits s)) \<and> length (ps_feature_bits s) \<le> MAX_FEATURE_REPORTS
     \<and> (\<forall>(i, bits) \<in> set (ps_feature_bits s). 0 < bits \<and> bits \<le> u64_max)"

lemma btree_put_set: "set (btree_put k v m) \<subseteq> insert (k, v) (set m)"
  by (induction k v m rule: btree_put.induct) auto

lemma btree_put_keys: "fst ` set (btree_put k v m) = insert k (fst ` set m)"
  by (induction k v m rule: btree_put.induct) auto

lemma btree_put_sorted: "sorted_wrt (<) (map fst m) \<Longrightarrow> sorted_wrt (<) (map fst (btree_put k v m))"
proof (induction k v m rule: btree_put.induct)
  case (2 k v k' v' kvs)
  have "k' < a" if "a \<in> fst ` set (btree_put k v kvs)" "k' < k" for a
    using that 2(2) by (auto simp: btree_put_keys)
  with 2 show ?case by (auto intro: order.strict_trans)
qed simp

lemma add_feature_bounded:
  assumes "descriptor_bounded s" "add_feature s = Inr s'" shows "descriptor_bounded s'"
proof -
  let ?i = "hg_report_id (ps_global s)"
  from assms(2) obtain sz n where g: "hg_report_size (ps_global s) = Some sz" "hg_report_count (ps_global s) = Some n"
    by (auto simp: add_feature_def Let_def split: option.splits)
  let ?bits = "unat sz * unat n"
  let ?total = "(case map_of (ps_feature_bits s) ?i of None \<Rightarrow> 0 | Some t \<Rightarrow> t) + ?bits"
  let ?m = "btree_put ?i ?total (ps_feature_bits s)"
  from assms(2) g have ok: "0 < ?bits" "?total \<le> u64_max" "length ?m \<le> MAX_FEATURE_REPORTS"
    and s': "s' = (case top_usage (ps_collections s) of
               Some u \<Rightarrow> s\<lparr>ps_feature_usages := List.insert u (ps_feature_usages s)\<rparr>
             | None \<Rightarrow> s\<lparr>ps_without_usage := True\<rparr>)\<lparr>ps_feature_bits := ?m, ps_local_usage := None\<rparr>"
    by (auto simp: add_feature_def Let_def split: if_splits)
  have "\<forall>(i, bits) \<in> set ?m. 0 < bits \<and> bits \<le> u64_max"
    using btree_put_set [of ?i ?total "ps_feature_bits s"] assms(1) ok by (auto simp: descriptor_bounded_def)
  with ok assms(1) btree_put_sorted [of "ps_feature_bits s" ?i ?total] show ?thesis
    unfolding s' by (auto simp: descriptor_bounded_def split: option.split)
qed

lemma descriptor_item_bounded:
  assumes "descriptor_bounded s" "descriptor_item ty tag bs s = Inr s'" shows "descriptor_bounded s'"
  using assms(2) unfolding descriptor_item_def Let_def
  using assms(1) add_feature_bounded [OF assms(1)]
  by (auto simp: set_usage_page_def set_report_id_def push_global_def pop_global_def push_collection_def pop_collection_def
      descriptor_bounded_def Let_def split: if_splits list.splits)

lemma descriptor_items_bounded:
  "descriptor_items bs s = Inr s' \<Longrightarrow> descriptor_bounded s \<Longrightarrow> descriptor_bounded s'"
proof (induction bs s rule: descriptor_items.induct)
  case (2 p rest s)
  then show ?case
    by (auto simp: descriptor_items.simps split: if_splits sum.splits dest: descriptor_item_bounded)
qed (simp add: descriptor_items.simps)

lemma initial_bounded: "descriptor_bounded initial_descriptor_state"
  by (simp add: descriptor_bounded_def initial_descriptor_state_def)

text \<open>Every failure is a plain decoding error.\<close>

definition decode_failure :: "diag_error \<Rightarrow> bool" where "decode_failure x \<longleftrightarrow> (\<exists>cls. x = decode_error cls)"

lemma decode_failure_valid: "decode_failure x \<Longrightarrow> validate_error x = Inr ()"
  by (auto simp: decode_failure_def)

lemma descriptor_item_error: "descriptor_item ty tag bs s = Inl x \<Longrightarrow> decode_failure x"
  by (auto simp: descriptor_item_def Let_def set_usage_page_def set_report_id_def push_global_def pop_global_def
      push_collection_def pop_collection_def add_feature_def decode_failure_def split: if_splits list.splits option.splits)

lemma descriptor_items_error: "descriptor_items bs s = Inl x \<Longrightarrow> decode_failure x"
proof (induction bs s rule: descriptor_items.induct)
  case (2 p rest s)
  then show ?case
    by (auto simp: descriptor_items.simps decode_failure_def split: if_splits sum.splits dest: descriptor_item_error)
qed (simp add: descriptor_items.simps)

lemma feature_report_ok:
  "feature_report x = Inr g \<Longrightarrow> fg_id g = fst x \<and> 0 < fg_bytes g \<and> fg_bytes g \<le> MAX_FEATURE_REPORT_BYTES"
  by (cases x) (auto simp: feature_report_def Let_def split: if_splits)

lemma feature_reports_ok:
  "res_map_list feature_report m = Inr gs \<Longrightarrow> map fg_id gs = map fst m
     \<and> (\<forall>g \<in> set gs. 0 < fg_bytes g \<and> fg_bytes g \<le> MAX_FEATURE_REPORT_BYTES)"
proof (induction m arbitrary: gs)
  case (Cons x m)
  then obtain g gs' where "feature_report x = Inr g" "res_map_list feature_report m = Inr gs'" "gs = g # gs'"
    by (auto simp: res_bind_def split: sum.splits)
  with Cons.IH [of gs'] feature_report_ok [of x g] show ?case by simp
qed simp

lemma feature_reports_error: "res_map_list feature_report m = Inl x \<Longrightarrow> decode_failure x"
  by (induction m) (auto simp: res_bind_def feature_report_def Let_def decode_failure_def split: sum.splits if_splits prod.splits)

definition reports_ok :: "feature_geometry list \<Rightarrow> bool" where
  "reports_ok gs \<longleftrightarrow> length gs \<le> MAX_FEATURE_REPORTS \<and> sorted_wrt (<) (map fg_id gs)
     \<and> (\<forall>g \<in> set gs. 0 < fg_bytes g \<and> fg_bytes g \<le> MAX_FEATURE_REPORT_BYTES)"

lemma parse_report_ok: "parse_report_descriptor bs = Inr (gs, u) \<Longrightarrow> reports_ok gs"
proof -
  assume run: "parse_report_descriptor bs = Inr (gs, u)"
  then obtain s where s: "descriptor_items bs initial_descriptor_state = Inr s" "res_map_list feature_report (ps_feature_bits s) = Inr gs"
    by (auto simp: parse_report_descriptor_def res_bind_def split: sum.splits if_splits)
  have "descriptor_bounded s" using descriptor_items_bounded [OF s(1) initial_bounded] .
  moreover have "length gs = length (ps_feature_bits s)" using feature_reports_ok [OF s(2)] by (metis length_map)
  ultimately show ?thesis using feature_reports_ok [OF s(2)] by (simp add: reports_ok_def descriptor_bounded_def)
qed

lemma parse_report_error: "parse_report_descriptor bs = Inl x \<Longrightarrow> decode_failure x"
  by (auto simp: parse_report_descriptor_def res_bind_def decode_failure_def
      split: sum.splits if_splits dest: descriptor_items_error feature_reports_error)

lemma validate_geometries_ok:
  "sorted_wrt (<) (map fg_id gs) \<Longrightarrow> (\<forall>g \<in> set gs. 0 < fg_bytes g \<and> fg_bytes g \<le> MAX_FEATURE_REPORT_BYTES)
    \<Longrightarrow> (\<forall>p. prior = Some p \<longrightarrow> (\<forall>g \<in> set gs. p < fg_id g)) \<Longrightarrow> validate_geometries prior gs = Inr ()"
  by (induction prior gs rule: validate_geometries.induct) (auto split: option.split)

section \<open>The parts of a record\<close>

lemma gives_driver: "gives (ob_ok driver_token) (hid_read_driver fs p)"
  unfolding hid_read_driver_def
  by (rule gives_bind [OF gives_query], rule TrueI, rule gives_ret)
    (auto simp: driver_of_link_def split: sum.split option.split)

lemma hex2_hexdigits: "list_all is_hexdigit (hex2 w)" "length (hex2 w) = 2"
  by (simp_all add: list_all_iff hex2_chars)

lemma bytes_hex_ok: "list_all is_hexdigit (bytes_hex bs)" "length (bytes_hex bs) = 2 * length bs"
  by (induction bs) (simp_all add: bytes_hex_def hex2_hexdigits)

definition valid_sha :: "(u8 list \<Rightarrow> u8 list) \<Rightarrow> bool" where
  "valid_sha sha \<longleftrightarrow> (\<forall>bs. length (sha bs) = 32)"

lemma descriptor_evidence_ok:
  assumes "valid_sha sha" "length bs \<le> MAX_DESCRIPTOR_BYTES" "descriptor_evidence sha bs = Inr (d, u)"
  shows "validate_descriptor d = Inr ()"
proof -
  from assms(3) obtain gs where run: "parse_report_descriptor bs = Inr (gs, u)" "bs \<noteq> []"
    and d: "d = \<lparr>hd_bytes = length bs, hd_sha256 = bytes_hex (sha bs), hd_feature_reports = gs\<rparr>"
    by (auto simp: descriptor_evidence_def res_bind_def split: if_splits sum.splits)
  have "length (sha bs) = 32" using assms(1) by (simp add: valid_sha_def)
  moreover have "reports_ok gs" using parse_report_ok [OF run(1)] .
  ultimately show ?thesis
    using run(2) assms(2) by (simp add: d validate_descriptor_def bytes_hex_ok reports_ok_def validate_geometries_ok)
qed

lemma descriptor_evidence_error: "descriptor_evidence sha bs = Inl x \<Longrightarrow> decode_failure x"
  by (auto simp: descriptor_evidence_def res_bind_def decode_failure_def split: if_splits sum.splits dest: parse_report_error)

definition good_error :: "diag_error \<Rightarrow> bool" where "good_error x \<longleftrightarrow> validate_error x = Inr ()"

lemma good_errors [simp]: "good_error (io_diagnostic stage x)" "good_error (decode_error cls)" "good_error (diag_error_new stage cls None)"
  by (simp_all add: good_error_def)

lemma yields_bounded: "yields good_error (\<lambda>bytes. length bytes \<le> max_bytes) (hid_read_bounded fs hr p max_bytes)"
  unfolding hid_read_bounded_def
  by (intro yields_then [OF yields_map_err] yields_bind [OF yields_map_err]) (auto intro: yields_ret yields_err)

lemma yields_descriptor:
  assumes "valid_sha sha"
  shows "yields good_error (\<lambda>(d, u). validate_descriptor d = Inr ()) (read_descriptor sha fs hr p)"
  unfolding read_descriptor_def
proof (rule yields_bind [OF yields_bounded], rule yields_of)
  fix bytes :: string and x assume "descriptor_evidence sha (bytes_of bytes) = Inl x"
  then show "good_error x" using descriptor_evidence_error decode_failure_valid by (simp add: good_error_def)
next
  fix bytes :: string and a assume "length bytes \<le> MAX_DESCRIPTOR_BYTES" "descriptor_evidence sha (bytes_of bytes) = Inr a"
  then show "case a of (d, u) \<Rightarrow> validate_descriptor d = Inr ()"
    using descriptor_evidence_ok [OF assms, of "bytes_of bytes"] by (auto simp: bytes_of_def)
qed

lemma sorted_remdups: "sorted (xs :: 'a::linorder list) \<Longrightarrow> sorted_wrt (<) (remdups_adj xs)"
  by (induction xs rule: remdups_adj.induct) (auto simp: order.strict_iff_order)

lemma sorted_targets: "sorted_wrt (<) (remdups_adj (sort (xs :: u8 list)))"
  by (rule sorted_remdups) simp

lemma parse_a1_ok: "payload_size_ok n \<Longrightarrow> parse_a1_payload n payload = Inr a \<Longrightarrow> validate_a1 a = Inr ()"
proof -
  assume n: "payload_size_ok n" and run: "parse_a1_payload n payload = Inr a"
  then obtain c rest where p: "payload = REPORT_TARGET_LIST # c # rest" "length payload \<le> n" "unat c \<le> MAX_A1_TARGETS"
      "2 + unat c \<le> length payload"
    and a: "a = \<lparr>a1_requested_bytes = n, a1_returned_bytes = length payload, a1_payload_hex = bytes_hex payload,
         a1_targets = remdups_adj (sort (drop 2 (take (2 + unat c) payload)))\<rparr>"
    by (cases payload; cases "tl payload") (auto simp: parse_a1_payload_def Let_def split: if_splits)
  have hex: "hex2 REPORT_TARGET_LIST = ''a1''" by code_simp
  have "prefix ''a1'' (bytes_hex payload)" by (simp add: p(1) bytes_hex_def hex)
  moreover have "length (remdups_adj (sort (drop 2 (take (2 + unat c) payload)))) \<le> MAX_A1_TARGETS"
    using p(3) remdups_adj_length [of "sort (drop 2 (take (2 + unat c) payload))"] by simp
  ultimately show ?thesis using n p by (simp add: a validate_a1_def bytes_hex_ok sorted_targets)
qed

lemma yields_feature_report: "yields good_error (\<lambda>_. True) (read_feature_report hr node i n)"
  unfolding read_feature_report_def
  by (auto intro!: yields_err yields_then [OF yields_map_err] yields_bind [OF yields_of] yields_bind [OF yields_map_err] yields_ret
      simp: get_feature_ioctl_def split: if_splits)

lemma parse_a1_error: "parse_a1_payload n payload = Inl x \<Longrightarrow> good_error x"
  by (auto simp: parse_a1_payload_def Let_def split: if_splits)

lemma gives_a1: "gives (ob_ok (\<lambda>a. validate_a1 a = Inr ())) (read_a1 node n (read_feature_report hr))"
proof (cases "payload_size_ok n")
  case True
  then show ?thesis
    unfolding read_a1_def
    by (simp, intro gives_try_yields [OF yields_feature_report] gives_ret)
      (auto simp: good_error_def dest: parse_a1_ok parse_a1_error split: sum.split)
qed (simp add: read_a1_def gives_ret)

section \<open>Candidates\<close>

text \<open>What an allow-listed identity fixes.\<close>

definition identity_ok :: "hid_role \<Rightarrow> hid_identity \<Rightarrow> bool" where
  "identity_ok r i \<longleftrightarrow> (hi_bus i, hi_vid i, hi_pid i, hi_name i) = expected_identity r \<and> hi_interface i = None
     \<and> (hi_usage_page i = None \<longleftrightarrow> hi_usage i = None)"

lemma hid_id_ok: "hid_id_identity v = Some (r, i) \<Longrightarrow> identity_ok r i"
proof -
  assume run: "hid_id_identity v = Some (r, i)"
  then obtain bus vendor product name where a: "allowlisted bus vendor product = Some (r, name)"
    and i: "i = \<lparr>hi_bus = (if bus = 3 then Bus_usb else Bus_i2c), hi_vid = of_nat vendor, hi_pid = of_nat product,
            hi_name = name, hi_interface = None, hi_usage_page = None, hi_usage = None\<rparr>"
    by (auto simp: hid_id_identity_def bind_eq_Some_conv split: list.splits if_splits)
  from a show ?thesis by (auto simp: allowlisted_def identity_ok_def expected_identity_def i split: if_splits)
qed

lemma identity_lines_ok:
  "identity_lines ls parsed = Some (r, i) \<Longrightarrow> (\<forall>x. parsed = Some x \<longrightarrow> identity_ok (fst x) (snd x)) \<Longrightarrow> identity_ok r i"
proof (induction ls arbitrary: parsed)
  case (Cons l ls)
  show ?case
  proof (cases "strip_pre ''HID_ID='' l")
    case None
    with Cons show ?thesis by simp
  next
    case (Some v)
    with Cons.prems(1) obtain x where x: "hid_id_identity v = Some x" "identity_lines ls (Some x) = Some (r, i)"
      by (auto split: option.splits if_splits)
    have "identity_ok (fst x) (snd x)" using hid_id_ok [of v "fst x" "snd x"] x(1) by simp
    with Cons.IH [OF x(2)] show ?thesis by simp
  qed
qed simp

lemma candidate_ok: "candidate_of sysfs node uevent = Some c \<Longrightarrow> identity_ok (hc_role c) (hc_identity c)"
  by (auto simp: candidate_of_def parse_allowlisted_identity_def split: if_splits dest: identity_lines_ok)

lemma gives_candidates:
  "0 < n \<Longrightarrow> gives (\<lambda>cs. length cs \<le> n \<and> (\<forall>c \<in> set cs. identity_ok (hc_role c) (hc_identity c)))
     (hid_candidates fs hr n es :: ('e world, 'x, _) io)"
proof (induction es arbitrary: n)
  case Nil
  then show ?case by (simp add: gives_ret)
next
  case (Cons e es)
  obtain i sysfs node where e: "e = (i, sysfs, node)" by (cases e) auto
  show ?case
    unfolding e hid_candidates.simps
  proof (rule gives_try)
    fix r :: "diag_error + string"
    show "gives (\<lambda>cs. length cs \<le> n \<and> (\<forall>c \<in> set cs. identity_ok (hc_role c) (hc_identity c)))
        (case (case r of Inl _ \<Rightarrow> None | Inr uevent \<Rightarrow> candidate_of sysfs node uevent) of
           None \<Rightarrow> hid_candidates fs hr n es :: ('e world, 'x, _) io
         | Some c \<Rightarrow> if n \<le> 1 then io_ret [c] else io_bind (hid_candidates fs hr (n - 1) es) (\<lambda>cs. io_ret (c # cs)))"
    proof (cases "case r of Inl _ \<Rightarrow> None | Inr uevent \<Rightarrow> candidate_of sysfs node uevent")
      case None
      with Cons show ?thesis by simp
    next
      case (Some c)
      then have c: "identity_ok (hc_role c) (hc_identity c)" by (auto dest: candidate_ok split: sum.splits)
      show ?thesis
      proof (cases "n \<le> 1")
        case True
        with c Cons.prems show ?thesis by (simp add: Some gives_ret)
      next
        case False
        then have pos: "0 < n - 1" by simp
        show ?thesis using False
          by (simp add: Some del: One_nat_def) (rule gives_bind [OF Cons.IH [OF pos]], rule gives_ret, use c in auto)
      qed
    qed
  qed
qed

lemma with_usage_ok: "identity_ok r i \<Longrightarrow> identity_ok r (with_usage u i)"
  by (auto simp: identity_ok_def with_usage_def split: option.split)

text \<open>A record that \<open>validate_hid\<close> accepts.\<close>

lemma validate_hid_ok:
  assumes "identity_ok (dh_role h) (dh_identity h)" "ob_ok driver_token (dh_driver h)"
    and "ob_ok (\<lambda>d. validate_descriptor d = Inr ()) (dh_descriptor h)"
    and "if dh_role h = Enek5130_lighting then \<exists>a1. dh_a1 h = Some a1 \<and> ob_ok (\<lambda>a. validate_a1 a = Inr ()) a1 else dh_a1 h = None"
  shows "validate_hid h = Inr ()"
proof -
  have 1: "validate_observation (dh_driver h) (\<lambda>d. if \<not> driver_token d then Inl ''passive HID driver token is invalid'' else Inr ()) = Inr ()"
    using assms(2) by (auto simp: validate_observation_ok elim: ob_ok_mono [rotated])
  have 2: "validate_observation (dh_descriptor h) validate_descriptor = Inr ()"
    using assms(3) by (simp add: validate_observation_ok)
  show ?thesis
  proof (cases "dh_role h = Enek5130_lighting")
    case True
    with assms(4) obtain a1 where "dh_a1 h = Some a1" "validate_observation a1 validate_a1 = Inr ()"
      by (auto simp: validate_observation_ok)
    with True assms(1) show ?thesis
      by (cases "hi_usage (dh_identity h)") (simp_all add: validate_hid_def Let_def identity_ok_def 1 2)
  next
    case False
    with assms(1,4) show ?thesis
      by (cases "hi_usage (dh_identity h)") (simp_all add: validate_hid_def Let_def identity_ok_def 1 2)
  qed
qed

lemma gives_collect_a1:
  "gives (\<lambda>a. if hc_role c = Enek5130_lighting then \<exists>a1. a = Some a1 \<and> ob_ok (\<lambda>a. validate_a1 a = Inr ()) a1 else a = None)
     (collect_a1 c d (read_feature_report hr))"
proof (cases "hc_role c = Enek5130_lighting")
  case True
  have "gives (ob_ok (\<lambda>a. validate_a1 a = Inr ()))
      (case d of Ob_value d \<Rightarrow> (case find_a1_geometry d of None \<Rightarrow> io_ret (Ob_absent Incomplete_interface)
           | Some g \<Rightarrow> read_a1 (hc_node c) (fg_bytes g) (read_feature_report hr))
       | _ \<Rightarrow> io_ret (Ob_absent Incomplete_interface))"
    by (cases d) (auto intro: gives_ret gives_a1 split: option.split)
  with True show ?thesis
    unfolding collect_a1_def by (simp, intro gives_bind gives_ret) auto
qed (simp add: collect_a1_def gives_ret)

lemma gives_candidate:
  assumes "valid_sha sha" "identity_ok (hc_role c) (hc_identity c)"
  shows "gives (\<lambda>h. validate_hid h = Inr ()) (collect_candidate sha fs hr (read_feature_report hr) c)"
  unfolding collect_candidate_def
proof (rule gives_bind [OF gives_driver], rule gives_try_yields [OF yields_descriptor [OF assms(1)]])
  fix driver x assume d: "ob_ok driver_token driver" and x: "good_error x"
  show "gives (\<lambda>h. validate_hid h = Inr ()) (let (descriptor, identity) = (case Inl x of
           Inr (d, usage) \<Rightarrow> (Ob_value d, with_usage usage (hc_identity c))
         | Inl x \<Rightarrow> (Ob_error x, hc_identity c)) in
       io_bind (collect_a1 c descriptor (read_feature_report hr)) (\<lambda>a1.
         io_ret \<lparr>dh_role = hc_role c, dh_identity = identity, dh_driver = driver, dh_descriptor = descriptor, dh_a1 = a1\<rparr>))"
    using d x assms(2)
    by (simp, intro gives_bind [OF gives_collect_a1] gives_ret validate_hid_ok) (simp_all add: good_error_def)
next
  fix driver and a :: "hid_descriptor \<times> hid_usage option" assume d: "ob_ok driver_token driver" and a: "case a of (d, u) \<Rightarrow> validate_descriptor d = Inr ()"
  obtain ds u where p: "a = (ds, u)" by (cases a) auto
  show "gives (\<lambda>h. validate_hid h = Inr ()) (let (descriptor, identity) = (case Inr a of
           Inr (d, usage) \<Rightarrow> (Ob_value d, with_usage usage (hc_identity c))
         | Inl x \<Rightarrow> (Ob_error x, hc_identity c)) in
       io_bind (collect_a1 c descriptor (read_feature_report hr)) (\<lambda>a1.
         io_ret \<lparr>dh_role = hc_role c, dh_identity = identity, dh_driver = driver, dh_descriptor = descriptor, dh_a1 = a1\<rparr>))"
    using d a assms(2)
    by (simp add: p, intro gives_bind [OF gives_collect_a1] gives_ret validate_hid_ok) (simp_all add: with_usage_ok)
qed

section \<open>The order of the inventory\<close>

lemma dedup_hid_sub: "set (dedup_hid hs) \<subseteq> set hs" "length (dedup_hid hs) \<le> length hs"
  by (induction hs rule: dedup_hid.induct) auto

lemma dedup_hid_head: "hs \<noteq> [] \<Longrightarrow> \<exists>t. dedup_hid hs = hd hs # t"
  by (induction hs rule: dedup_hid.induct) auto

lemma dedup_hid_sorted: "sorted (map hid_key hs) \<Longrightarrow> sorted_wrt (<) (map hid_key (dedup_hid hs))"
proof (induction hs rule: dedup_hid.induct)
  case (1 a b hs)
  show ?case
  proof (cases "hid_key b = hid_key a")
    case True
    with 1 show ?thesis by simp
  next
    case False
    with 1(3) have "hid_key a < hid_key b" by (simp add: order.strict_iff_order)
    moreover have "hid_key b \<le> hid_key h" if "h \<in> set (b # hs)" for h using that 1(3) by auto
    ultimately have "hid_key a < hid_key h" if "h \<in> set (dedup_hid (b # hs))" for h
      using that dedup_hid_sub(1) by (meson order.strict_trans2 subsetD)
    with False 1 show ?thesis by simp
  qed
qed simp_all

lemma hid_order_key: "hid_order a \<le> hid_order b \<Longrightarrow> hid_key a \<le> hid_key b"
  unfolding hid_order_def less_eq_prod_simp by (elim disjE conjE) (simp_all only: order.strict_implies_order)

lemma sort_hid_sorted: "sorted (map hid_key (sort_key hid_order hs))"
proof -
  have "sorted (map hid_order (sort_key hid_order hs))" by simp
  then show ?thesis unfolding sorted_map by (rule sorted_wrt_mono_rel [rotated]) (rule hid_order_key)
qed

lemma validate_records_ok:
  assumes "\<forall>h \<in> set hs. validate_hid h = Inr ()"
  shows "sorted_wrt (<) (map hid_key hs) \<Longrightarrow> (\<forall>p. previous = Some p \<longrightarrow> (\<forall>h \<in> set hs. hid_key p < hid_key h))
    \<Longrightarrow> validate_records previous hs = Inr ()"
  using assms by (induction previous hs rule: validate_records.induct) (auto split: option.split)

section \<open>The inventory\<close>

lemma gives_inventory:
  assumes "valid_sha sha"
  shows "gives (\<lambda>inv. validate_inventory inv = Inr ()) (collect_hid_at sha fs hr root)"
proof -
  have empty: "validate_inventory [] = Inr ()" by (simp add: validate_inventory_def)
  have run: "gives (\<lambda>inv. validate_inventory inv = Inr ())
      (io_bind (hid_candidates fs hr MAX_HID_CANDIDATES entries) (\<lambda>candidates.
        io_bind (io_map_list (collect_candidate sha fs hr (read_feature_report hr)) candidates) (\<lambda>inventory.
          io_ret (dedup_hid (sort_key hid_order inventory)))))" for entries
  proof (rule gives_bind [OF gives_candidates])
    show "0 < MAX_HID_CANDIDATES" by (simp add: MAX_HID_CANDIDATES_def)
  next
    fix cs :: "hid_candidate list" assume cs: "length cs \<le> MAX_HID_CANDIDATES \<and> (\<forall>c \<in> set cs. identity_ok (hc_role c) (hc_identity c))"
    show "gives (\<lambda>inv. validate_inventory inv = Inr ()) (io_bind (io_map_list (collect_candidate sha fs hr (read_feature_report hr)) cs)
        (\<lambda>inventory. io_ret (dedup_hid (sort_key hid_order inventory))))"
    proof (rule gives_bind [OF gives_map_list [where R = "\<lambda>_ h. validate_hid h = Inr ()"]])
      show "gives (\<lambda>h. validate_hid h = Inr ()) (collect_candidate sha fs hr (read_feature_report hr) c)" if "c \<in> set cs" for c
        using gives_candidate [OF assms] cs that by blast
    next
      fix inventory assume all: "list_all2 (\<lambda>_ h. validate_hid h = Inr ()) cs inventory"
      then have valid: "\<forall>h \<in> set inventory. validate_hid h = Inr ()" and len: "length inventory = length cs"
        by (auto simp: list_all2_conv_all_nth in_set_conv_nth)
      let ?hs = "dedup_hid (sort_key hid_order inventory)"
      have "length ?hs \<le> MAX_HID_CANDIDATES" using dedup_hid_sub(2) [of "sort_key hid_order inventory"] len cs by simp
      moreover have "\<forall>h \<in> set ?hs. validate_hid h = Inr ()" using dedup_hid_sub(1) [of "sort_key hid_order inventory"] valid by auto
      ultimately show "gives (\<lambda>inv. validate_inventory inv = Inr ()) (io_ret ?hs)"
        using validate_records_ok dedup_hid_sorted [OF sort_hid_sorted] by (intro gives_ret) (simp add: validate_inventory_def)
    qed
  qed
  show ?thesis
    unfolding collect_hid_at_def collect_hid_at_with_def Let_def
    by (rule gives_bind [OF gives_query], rule TrueI) (auto intro: gives_ret run simp: empty split: sum.split)
qed

text \<open>C35: Whatever the kernel answers, collecting the passive HID evidence returns an inventory that its own validator accepts: at most eight records in strictly ascending order of public identity, each with its exact allow-listed identity, a bounded descriptor with ascending report ids, and an A1 payload that matches its declared sizes.\<close>

theorem hid_inventory_valid:
  assumes "valid_sha sha"
  shows "\<exists>inventory w'. collect_hid_at sha fs hr root w = (Inr inventory, w') \<and> validate_inventory inventory = Inr ()"
  using gives_inventory [OF assms] unfolding gives_def by blast

text \<open>A machine with one lighting function, its descriptor and a controller that answers the target list.\<close>

definition bench_descriptor :: "u8 list" where
  "bench_descriptor = [0x05, 1, 0x09, 2, 0xA1, 1, 0x85, 0xA1, 0x75, 8, 0x95, 15, 0xB1, 2, 0xC0]"

definition bench_hid_files :: file_tree where
  "bench_hid_files = [(rooted [] ''sys/class/hidraw/hidraw0/device/uevent'', ''HID_ID=0018:00000CF2:00005130''),
     (rooted [] ''sys/class/hidraw/hidraw0/device/report_descriptor'', map (\<lambda>b. char_of (unat b)) bench_descriptor)]"

definition bench_hid :: "file_tree hid" where
  "bench_hid = \<lparr>hd_open = (\<lambda>p rw t. (Inr (), t)), hd_ioctl = (\<lambda>p q buf t. (Inr (4, [0xA1, 2, 0x83, 0x21]), t))\<rparr>"

lemma bench_descriptor_parses:
  "parse_report_descriptor bench_descriptor = Inr ([\<lparr>fg_id = 0xA1, fg_bytes = 16\<rparr>], Some (1, 2))"
  by (simp add: parse_report_descriptor_def bench_descriptor_def descriptor_items.simps item_size_def descriptor_item_def
    unsigned_item_def u32_from_le_bytes_def byte_at_def initial_descriptor_state_def set_usage_page_def usage_from_item_def
    push_collection_def pop_collection_def set_report_id_def add_feature_def top_usage_def feature_report_def
    MAX_HID_STACK_DEPTH_def MAX_FEATURE_REPORTS_def MAX_FEATURE_REPORT_BYTES_def u8_max_def u16_max_def u64_max_def)

theorem hid_inventory_valid_witness:
  "valid_sha (\<lambda>_. replicate 32 0) \<and> (\<exists>inventory w'.
     collect_hid_at (\<lambda>_. replicate 32 0) tree_sysfs bench_hid [] \<lparr>wenv = bench_hid_files, wlog = []\<rparr>
       = (Inr inventory :: unit + diagnostic_hid list, w') \<and> validate_inventory inventory = Inr ())"
proof -
  have sha: "valid_sha (\<lambda>_. replicate 32 0)" by (simp add: valid_sha_def)
  from sha hid_inventory_valid [OF sha] show ?thesis by blast
qed

section \<open>Passivity\<close>

text \<open>Nothing is written, and every request is a sized query of the A1 report.\<close>

definition a1_query :: "path \<times> u64 \<times> u8 list \<Rightarrow> bool" where
  "a1_query = (\<lambda>(p, q, buf). 2 \<le> length buf \<and> length buf \<le> 64 \<and> buf ! 0 = 0xA1 \<and> get_feature_ioctl (length buf) = Inr q)"

definition only_queries :: "'e world \<Rightarrow> 'e world \<Rightarrow> bool" where
  "only_queries w w' \<longleftrightarrow> (\<exists>es. wlog w' = wlog w @ es \<and> writes_of es = [] \<and> list_all a1_query (ioctls_of es))"

lemma only_queries_trans: "only_queries a b \<Longrightarrow> only_queries b c \<Longrightarrow> only_queries a c"
  unfolding only_queries_def by (elim exE conjE, rule_tac x = "es @ esa" in exI) simp

lemma only_queries_rel [simp]: "reflp only_queries" "transp only_queries"
  by (simp add: reflp_def only_queries_def) (blast intro: transpI only_queries_trans)

lemma fs_read_queries: "io_keeps only_queries (fs_read fs p)"
  by (auto simp: io_keeps_def fs_read_def only_queries_def split: prod.splits)

lemma dev_open_queries: "io_keeps only_queries (dev_open hr p rw)"
  by (auto simp: io_keeps_def dev_open_def only_queries_def split: prod.splits)

lemma dev_ioctl_queries: "a1_query (p, q, buf) \<Longrightarrow> io_keeps only_queries (dev_ioctl hr p q buf)"
  by (auto simp: io_keeps_def dev_ioctl_def only_queries_def split: prod.splits)

lemma hid_read_bounded_queries: "io_keeps only_queries (hid_read_bounded fs hr p n)"
  unfolding hid_read_bounded_def
  by (intro io_keeps_intros fs_read_queries dev_open_queries) simp_all

lemma io_bind_of: "io_bind (io_of (Inr q)) f = f q"
  by (simp add: fun_eq_iff io_bind_apply io_of_apply)

lemma feature_report_queries: "io_keeps only_queries (read_feature_report hr node REPORT_TARGET_LIST n)"
proof (cases "payload_size_ok n")
  case True
  then obtain q where q: "get_feature_ioctl n = Inr q" by (simp add: get_feature_ioctl_def)
  have "a1_query (node, q, (replicate n 0)[0 := REPORT_TARGET_LIST])"
    using True q by (simp add: a1_query_def payload_size_ok_def MAX_FEATURE_PAYLOAD_BYTES_def REPORT_TARGET_LIST_def)
  moreover have "read_feature_report hr node REPORT_TARGET_LIST n = io_then (io_map_err (io_diagnostic Stage_open) (dev_open hr node False))
       (io_bind (io_map_err (io_diagnostic Stage_read) (dev_ioctl hr node q ((replicate n 0)[0 := REPORT_TARGET_LIST]))) (\<lambda>(returned, buf).
          if returned = 0 \<or> returned > n then io_err (diag_error_new Stage_read Class_invalid_value None)
          else io_ret (take returned buf)))"
    using True q by (simp add: read_feature_report_def io_bind_of)
  ultimately show ?thesis
    by (auto intro!: io_keeps_intros dev_ioctl_queries dev_open_queries split: prod.split)
qed (simp add: read_feature_report_def io_keeps_err)

lemma collect_candidate_queries: "io_keeps only_queries (collect_candidate sha fs hr (read_feature_report hr) c)"
proof -
  have a1: "io_keeps only_queries (collect_a1 c d (read_feature_report hr))" for d
    unfolding collect_a1_def read_a1_def
    by (auto intro!: io_keeps_intros feature_report_queries split: observation.split option.split)
  show ?thesis
    unfolding collect_candidate_def hid_read_driver_def read_descriptor_def Let_def
    by (auto intro!: io_keeps_intros hid_read_bounded_queries a1 split: prod.split)
qed

lemma hid_candidates_queries: "io_keeps only_queries (hid_candidates fs hr n es)"
  by (induction fs hr n es rule: hid_candidates.induct)
    (auto intro!: io_keeps_intros hid_read_bounded_queries split: option.split)

text \<open>Collecting the passive HID evidence writes nothing and sends a device nothing but sized queries of report A1.\<close>

lemma hid_collection_queries: "io_keeps only_queries (collect_hid_at sha fs hr root)"
  unfolding collect_hid_at_def collect_hid_at_with_def Let_def
  by (auto intro!: io_keeps_intros hid_candidates_queries collect_candidate_queries split: sum.split)

end
