(* ===== verification/Passive_Diagnostics.thy ===== *)
theory Passive_Diagnostics
  imports Hid_Safety Fan_Safety Platform_Safety
begin

text \<open>
  \<open>src/passive_diagnostics.rs\<close>: the read-only report of the daemon. One group of definitions per
  part of the report (profile, fans, platform, lighting), each a collector that turns what the kernel
  exposes into observations; then the validator, and \<open>encode\<close> and \<open>parse\<close>, which refuse any report
  the validator refuses. Opening a file is the opener of the HID model; \<open>serde_json\<close> is a parameter.
\<close>

section \<open>The report\<close>

definition PASSIVE_DIAGNOSTICS_SCHEMA :: u8 where "PASSIVE_DIAGNOSTICS_SCHEMA = 2"
definition MAX_PASSIVE_DIAGNOSTICS_BYTES :: nat where "MAX_PASSIVE_DIAGNOSTICS_BYTES = 32764"
definition MAX_LABEL_BYTES :: nat where "MAX_LABEL_BYTES = 64"
definition MAX_PROFILE_CHOICES :: nat where "MAX_PROFILE_CHOICES = 8"
definition MAX_CHANNELS :: nat where "MAX_CHANNELS = 8"
definition MAX_FILE_BYTES :: nat where "MAX_FILE_BYTES = 256"
definition TIMEOUT_UNINITIALIZED :: u64 where "TIMEOUT_UNINITIALIZED = 0"
definition TIMEOUT_OFF :: u64 where "TIMEOUT_OFF = 0x80000"
definition TIMEOUT_ON :: u64 where "TIMEOUT_ON = 0x1e0000080000"
definition BOOT_SOUND_OFF :: u64 where "BOOT_SOUND_OFF = 0"
definition BOOT_SOUND_ON :: u64 where "BOOT_SOUND_ON = 0x100"
definition LCD_STATE_VALID :: u64 where "LCD_STATE_VALID = push_bit 24 1"
definition LCD_STATE_ENABLED :: u64 where "LCD_STATE_ENABLED = push_bit 48 1"
definition USB_STATUS_MASK :: u64 where "USB_STATUS_MASK = 0xff"
definition USB_MODE_MASK :: u64 where "USB_MODE_MASK = push_bit 8 0xff"
definition USB_THRESHOLD_MASK :: u64 where "USB_THRESHOLD_MASK = push_bit 16 0xff"
definition USB_MODE_ENABLED :: u8 where "USB_MODE_ENABLED = 0x0f"
definition USB_MODE_DISABLED :: u8 where "USB_MODE_DISABLED = 0x1f"

datatype diag_source = Src_kernel_platform_profile | Src_gaming_wmi_profile | Src_known_gaming_wmi_commands
  | Src_acer_hwmon | Src_gaming_wmi_fan | Src_platform_discovery | Src_asense_rgb | Src_asense_battery | Src_asense_apge
datatype diag_profile_backend = Dpb_kernel | Dpb_gaming_wmi
datatype diag_profile_name = Dpn_quiet | Dpn_balanced | Dpn_performance | Dpn_turbo | Dpn_eco
datatype diag_fan_backend = Dfb_kernel_pwm | Dfb_gaming_wmi
datatype diag_setpoint_unit = Unit_pwm255 | Unit_percent
datatype diag_fan_mode = Dfm_maximum | Dfm_manual | Dfm_auto
datatype diag_field_name = Fld_battery_limit | Fld_battery_calibration | Fld_usb_off_charging | Fld_keyboard_timeout
  | Fld_boot_sound | Fld_lcd_override | Fld_rear_logo
datatype diag_platform_value = Val_bool bool | Val_usb_threshold u8 | Val_rear_logo bool u8 string
datatype diag_light_backend = Dlb_zoned_wmi
datatype diag_light_target = Dlt_keyboard

record diag_transport =
  dt_source :: diag_source
  dt_backend :: diag_profile_backend

record diag_current =
  dcu_source :: diag_source
  dcu_raw :: diag_raw
  dcu_profile :: "diag_profile_name option"

record diag_choice =
  dch_command :: string
  dch_profile :: diag_profile_name
  dch_transport_raw :: "diag_raw option"
  dch_selectable :: bool

record diag_profile =
  dp_transport :: "diag_transport observation"
  dp_current :: "diag_current observation"
  dp_choices :: "diag_choice list observation"

record diag_fan_modes =
  dm_auto :: bool
  dm_manual :: bool
  dm_maximum :: bool

record diag_fan_control =
  dfc_source :: diag_source
  dfc_backend :: diag_fan_backend
  dfc_modes :: diag_fan_modes

record diag_fan_channel =
  dfn_channel :: u8
  dfn_source :: diag_source
  dfn_unit :: diag_setpoint_unit
  dfn_setpoint :: "u8 observation"
  dfn_mode :: "diag_fan_mode observation"

record diag_rpm =
  drp_channel :: u8
  drp_label :: string
  drp_read :: "u32 observation"

record diag_temperature =
  dtp_channel :: u8
  dtp_label :: string
  dtp_read :: "int observation"

record diag_fans =
  df_control :: "diag_fan_control observation"
  df_channels :: "diag_fan_channel list"
  df_rpm :: "diag_rpm list"
  df_temperatures :: "diag_temperature list"

record diag_field =
  dfl_name :: diag_field_name
  dfl_expected :: bool
  dfl_exposed :: bool
  dfl_source :: diag_source
  dfl_read :: "diag_platform_value observation"

record diag_platform =
  dpl_transport :: "diag_source observation"
  dpl_fields :: "diag_field list"

record diag_light_modes =
  dlm_static_color :: bool
  dlm_brightness :: bool
  dlm_breathing :: bool
  dlm_neon :: bool

record diag_lighting =
  dl_id :: string
  dl_backend :: diag_light_backend
  dl_target :: diag_light_target
  dl_zones :: u8
  dl_modes :: diag_light_modes
  dl_state_readable :: bool

record passive_diagnostics =
  pd_schema :: u8
  pd_profile :: diag_profile
  pd_fans :: diag_fans
  pd_platform :: diag_platform
  pd_lighting :: "diag_lighting list"
  pd_hid :: "diagnostic_hid list"

type_synonym ('e, 'x, 'a) collector = "('e world, 'x, 'a) io"

section \<open>Reading files\<close>

text \<open>An absent or failed reading keeps its reason; a value is decoded.\<close>

definition ob_bind :: "'a observation \<Rightarrow> ('a \<Rightarrow> 'b observation) \<Rightarrow> 'b observation" where
  "ob_bind ob f = (case ob of Ob_value v \<Rightarrow> f v | Ob_absent r \<Rightarrow> Ob_absent r | Ob_error x \<Rightarrow> Ob_error x)"

definition ob_of :: "diag_error + 'a \<Rightarrow> 'a observation" where
  "ob_of r = (case r of Inl x \<Rightarrow> Ob_error x | Inr v \<Rightarrow> Ob_value v)"

definition invalid_value :: diag_error where "invalid_value = decode_error Class_invalid_value"

definition text_of_bytes :: "string \<Rightarrow> string observation" where
  "text_of_bytes bytes = (if length bytes > MAX_FILE_BYTES then Ob_error (diag_error_new Stage_read Class_oversize None)
     else if utf8_valid bytes then Ob_value (str_trim bytes) else Ob_error invalid_value)"

definition diag_read_text :: "'e sysfs \<Rightarrow> 'e hid \<Rightarrow> path \<Rightarrow> ('e, 'x, string observation) collector" where
  "diag_read_text fs hr p = io_try (dev_open hr p False) (\<lambda>r. case r of
      Inl x \<Rightarrow> io_ret (if io_error_kind x = NotFound then Ob_absent Not_exposed else Ob_error (diag_io_error x))
    | Inr _ \<Rightarrow> io_bind (fs_query (k_is_file fs p)) (\<lambda>regular. if \<not> regular then io_ret (Ob_absent Not_exposed)
        else io_try (fs_read fs p) (\<lambda>r. io_ret (case r of Inl x \<Rightarrow> Ob_error (diag_io_error x) | Inr bytes \<Rightarrow> text_of_bytes bytes))))"

definition read_number :: "(string \<Rightarrow> 'n option) \<Rightarrow> 'e sysfs \<Rightarrow> 'e hid \<Rightarrow> path \<Rightarrow> ('e, 'x, 'n observation) collector" where
  "read_number parse fs hr p = io_bind (diag_read_text fs hr p) (\<lambda>t. io_ret (ob_bind t (\<lambda>v.
     case parse v of None \<Rightarrow> Ob_error invalid_value | Some n \<Rightarrow> Ob_value n)))"

definition read_value :: "(string \<Rightarrow> diag_error + 'v) \<Rightarrow> 'e sysfs \<Rightarrow> 'e hid \<Rightarrow> path \<Rightarrow> ('e, 'x, 'v observation) collector" where
  "read_value decode fs hr p = io_bind (diag_read_text fs hr p) (\<lambda>t. io_ret (ob_bind t (\<lambda>v. ob_of (decode v))))"

section \<open>The profile\<close>

definition profile_for_command :: "string \<Rightarrow> bool \<Rightarrow> diag_profile_name option" where
  "profile_for_command v turbo = (if v = ''low-power'' then Some Dpn_eco
     else if v = ''quiet'' then Some Dpn_quiet else if v = ''balanced'' then Some Dpn_balanced
     else if v = ''balanced-performance'' then Some Dpn_performance
     else if v = ''performance'' then Some (if turbo then Dpn_turbo else Dpn_performance) else None)"

definition profile_for_gaming_raw :: "string \<Rightarrow> diag_profile_name option" where
  "profile_for_gaming_raw v = (if v = ''00'' then Some Dpn_quiet else if v = ''01'' then Some Dpn_balanced
     else if v = ''04'' then Some Dpn_performance else if v = ''05'' then Some Dpn_turbo
     else if v = ''06'' then Some Dpn_eco else None)"

definition gaming_raw_for_command :: "string \<Rightarrow> string option" where
  "gaming_raw_for_command v = (if v = ''quiet'' then Some ''00'' else if v = ''balanced'' then Some ''01''
     else if v = ''balanced-performance'' then Some ''04'' else if v = ''performance'' then Some ''05''
     else if v = ''low-power'' then Some ''06'' else None)"

text \<open>
  \<open>read_profile_current\<close> is called with an ASCII token or a byte in hexadecimal only; its third
  arm is \<open>unreachable!()\<close>, so the encoding is read here as ``is it a byte''.
\<close>

definition current_of_text :: "diag_source \<Rightarrow> raw_encoding \<Rightarrow> bool \<Rightarrow> string \<Rightarrow> diag_current observation" where
  "current_of_text source encoding turbo v = (if encoding = U8_hex then
       (if \<not> is_hex v 2 then Ob_error invalid_value
        else Ob_value \<lparr>dcu_source = source, dcu_raw = \<lparr>dr_encoding = U8_hex, dr_bytes = 1, dr_value = ascii_lower v\<rparr>,
          dcu_profile = profile_for_gaming_raw (ascii_lower v)\<rparr>)
     else (if validate_token v 48 ''profile current'' \<noteq> Inr () then Ob_error invalid_value
        else Ob_value \<lparr>dcu_source = source, dcu_raw = \<lparr>dr_encoding = encoding, dr_bytes = length v, dr_value = v\<rparr>,
          dcu_profile = profile_for_command v turbo\<rparr>))"

definition read_profile_current :: "'e sysfs \<Rightarrow> 'e hid \<Rightarrow> path \<Rightarrow> diag_source \<Rightarrow> raw_encoding \<Rightarrow> bool
    \<Rightarrow> ('e, 'x, diag_current observation) collector" where
  "read_profile_current fs hr p source encoding turbo =
     io_bind (diag_read_text fs hr p) (\<lambda>t. io_ret (ob_bind t (current_of_text source encoding turbo)))"

definition choice_of_command :: "diag_profile_backend \<Rightarrow> bool \<Rightarrow> string \<Rightarrow> diag_error + diag_choice" where
  "choice_of_command backend turbo command = (case profile_for_command command turbo of
      None \<Rightarrow> Inl invalid_value
    | Some profile \<Rightarrow> Inr \<lparr>dch_command = command, dch_profile = profile,
        dch_transport_raw = (if backend = Dpb_gaming_wmi
          then map_option (\<lambda>v. \<lparr>dr_encoding = U8_hex, dr_bytes = 1, dr_value = v\<rparr>) (gaming_raw_for_command command) else None),
        dch_selectable = True\<rparr>)"

definition choices_of_text :: "diag_profile_backend \<Rightarrow> bool \<Rightarrow> string \<Rightarrow> diag_error + diag_choice list" where
  "choices_of_text backend turbo v = res_bind (res_map_list (choice_of_command backend turbo) (split_ascii_ws v)) (\<lambda>choices.
     if choices = [] \<or> length choices > MAX_PROFILE_CHOICES then Inl invalid_value else Inr choices)"

definition read_profile_choices :: "'e sysfs \<Rightarrow> 'e hid \<Rightarrow> path \<Rightarrow> diag_profile_backend \<Rightarrow> bool
    \<Rightarrow> ('e, 'x, diag_choice list observation) collector" where
  "read_profile_choices fs hr p backend turbo = read_value (choices_of_text backend turbo) fs hr p"

definition diag_kernel_candidate :: "'e sysfs \<Rightarrow> path \<Rightarrow> string \<Rightarrow> ('e, 'x, (path \<times> path) option) collector" where
  "diag_kernel_candidate fs class_root n = (let p = path_join class_root n;
       profile = path_join p ''profile''; choices = path_join p ''choices'' in
     io_bind (fs_query (\<lambda>e. k_is_file fs profile e \<and> k_is_file fs choices e)) (\<lambda>complete.
       if \<not> complete then io_ret None
       else io_try (fs_read_to_string fs (path_join p ''name'')) (\<lambda>r.
         io_ret (if str_contains (ascii_lower (case r of Inr s \<Rightarrow> s | Inl _ \<Rightarrow> utf8_lossy n)) ''acer''
           then Some (profile, choices) else None))))"

definition discover_kernel_profile :: "'e sysfs \<Rightarrow> path \<Rightarrow> ('e, 'x, (path \<times> path) option) collector" where
  "discover_kernel_profile fs root = (let class_root = rooted root ''sys/class/platform-profile'';
       profile = rooted root ''sys/firmware/acpi/platform_profile'';
       choices = rooted root ''sys/firmware/acpi/platform_profile_choices'' in
     io_bind (fs_query (k_read_dir fs class_root)) (\<lambda>r.
     io_bind (case r of Inl _ \<Rightarrow> io_ret [] | Inr names \<Rightarrow> io_filter_map (diag_kernel_candidate fs class_root) (take 32 names)) (\<lambda>cands.
       case sort cands of
         c # _ \<Rightarrow> io_ret (Some c)
       | [] \<Rightarrow> fs_query (\<lambda>e. if k_is_file fs profile e \<and> k_is_file fs choices e then Some (profile, choices) else None))))"

definition hardware_turbo :: "'e sysfs \<Rightarrow> path \<Rightarrow> ('e, 'x, bool) collector" where
  "hardware_turbo fs root = io_try (discover_at fs root) (\<lambda>r. io_ret (case r of Inl _ \<Rightarrow> False | Inr hw \<Rightarrow> performance_is_turbo hw))"

definition gaming_profile_current :: "'e sysfs \<Rightarrow> 'e hid \<Rightarrow> path option \<Rightarrow> path \<Rightarrow> ('e, 'x, diag_current observation) collector" where
  "gaming_profile_current fs hr diagnostics base = (case diagnostics of
      Some d \<Rightarrow> read_profile_current fs hr (path_join d ''profile_raw'') Src_gaming_wmi_profile U8_hex True
    | None \<Rightarrow> read_profile_current fs hr (path_join base ''profile'') Src_gaming_wmi_profile Ascii_token True)"

definition absent_profile :: diag_profile where
  "absent_profile = \<lparr>dp_transport = Ob_absent Not_exposed, dp_current = Ob_absent Not_exposed, dp_choices = Ob_absent Not_exposed\<rparr>"

definition collect_gaming_profile :: "'e sysfs \<Rightarrow> 'e hid \<Rightarrow> path option \<times> path option \<Rightarrow> ('e, 'x, diag_profile) collector" where
  "collect_gaming_profile fs hr = (\<lambda>(diagnostics, production). case or_else diagnostics production of
      None \<Rightarrow> io_ret absent_profile
    | Some base \<Rightarrow> io_bind (gaming_profile_current fs hr diagnostics base) (\<lambda>current.
        io_bind (case production of None \<Rightarrow> io_ret (Ob_absent Not_exposed)
          | Some p \<Rightarrow> read_profile_choices fs hr (path_join p ''choices'') Dpb_gaming_wmi True) (\<lambda>choices.
        io_ret \<lparr>dp_transport = Ob_value \<lparr>dt_source = Src_gaming_wmi_profile, dt_backend = Dpb_gaming_wmi\<rparr>,
          dp_current = current, dp_choices = choices\<rparr>)))"

definition collect_profile :: "'e sysfs \<Rightarrow> 'e hid \<Rightarrow> path \<Rightarrow> ('e, 'x, diag_profile) collector" where
  "collect_profile fs hr root = io_bind (hardware_turbo fs root) (\<lambda>turbo.
     io_bind (discover_kernel_profile fs root) (\<lambda>found. case found of
       Some (profile, choices) \<Rightarrow>
         io_bind (read_profile_current fs hr profile Src_kernel_platform_profile Ascii_token turbo) (\<lambda>current.
         io_bind (read_profile_choices fs hr choices Dpb_kernel turbo) (\<lambda>cs.
           io_ret \<lparr>dp_transport = Ob_value \<lparr>dt_source = Src_kernel_platform_profile, dt_backend = Dpb_kernel\<rparr>,
             dp_current = current, dp_choices = cs\<rparr>))
     | None \<Rightarrow> io_bind (fs_query (\<lambda>e. (find_wmi_group fs (rooted root ''sys/bus/wmi/devices'') GAMING_WMI_GUID ''asense_diagnostics'' e,
           find_wmi_group fs (rooted root ''sys/bus/wmi/devices'') GAMING_WMI_GUID ''gaming_profile'' e)))
         (collect_gaming_profile fs hr)))"

section \<open>The fans\<close>

definition fan_mode_of :: "u8 \<Rightarrow> diag_fan_mode observation" where
  "fan_mode_of v = (if v = 0 then Ob_value Dfm_maximum else if v = 1 then Ob_value Dfm_manual
     else if v = 2 then Ob_value Dfm_auto else Ob_error invalid_value)"

definition diag_read_fan_mode :: "'e sysfs \<Rightarrow> 'e hid \<Rightarrow> path \<Rightarrow> ('e, 'x, diag_fan_mode observation) collector" where
  "diag_read_fan_mode fs hr p = io_bind (read_number parse_u8 fs hr p) (\<lambda>n. io_ret (ob_bind n fan_mode_of))"

definition fan_channel :: "'e sysfs \<Rightarrow> 'e hid \<Rightarrow> u8 \<Rightarrow> diag_source \<Rightarrow> diag_setpoint_unit \<Rightarrow> path \<Rightarrow> path
    \<Rightarrow> ('e, 'x, diag_fan_channel) collector" where
  "fan_channel fs hr channel source u sp mp = io_bind (read_number parse_u8 fs hr sp) (\<lambda>setpoint.
     io_bind (diag_read_fan_mode fs hr mp) (\<lambda>mode.
       io_ret \<lparr>dfn_channel = channel, dfn_source = source, dfn_unit = u, dfn_setpoint = setpoint, dfn_mode = mode\<rparr>))"

definition collect_kernel_fan_channels :: "'e sysfs \<Rightarrow> 'e hid \<Rightarrow> path \<Rightarrow> ('e, 'x, diag_fan_channel list) collector" where
  "collect_kernel_fan_channels fs hr base = io_map_list (\<lambda>c :: u8. fan_channel fs hr c Src_acer_hwmon Unit_pwm255
     (path_join base (''pwm'' @ show_word c)) (path_join base (''pwm'' @ show_word c @ ''_enable''))) [1, 2]"

definition collect_gaming_fan_channels :: "'e sysfs \<Rightarrow> 'e hid \<Rightarrow> path \<Rightarrow> bool \<Rightarrow> ('e, 'x, diag_fan_channel list) collector" where
  "collect_gaming_fan_channels fs hr base diagnostic_names = (let pre = (if diagnostic_names then ''diagnostic_'' else '''') in
     io_map_list (\<lambda>(c :: u8, role). fan_channel fs hr c Src_gaming_wmi_fan Unit_percent
       (path_join base (pre @ role @ ''_speed'')) (path_join base (pre @ role @ ''_mode''))) [(1, ''cpu''), (2, ''gpu'')])"

definition label_fallback :: "string \<Rightarrow> u8 \<Rightarrow> string" where
  "label_fallback pre channel = (if channel = 1 then ''CPU'' else if channel = 2 then ''GPU''
     else if pre = ''fan'' then ''Fan '' @ show_word channel else ''Temperature '' @ show_word channel)"

definition read_label :: "'e sysfs \<Rightarrow> 'e hid \<Rightarrow> path \<Rightarrow> string \<Rightarrow> u8 \<Rightarrow> ('e, 'x, string) collector" where
  "read_label fs hr base pre channel = io_bind (diag_read_text fs hr (path_join base (pre @ show_word channel @ ''_label''))) (\<lambda>t.
     io_ret (case t of Ob_value v \<Rightarrow> if v \<noteq> [] \<and> length v \<le> MAX_LABEL_BYTES then v else label_fallback pre channel
       | _ \<Rightarrow> label_fallback pre channel))"

definition rpm_channel :: "'e sysfs \<Rightarrow> 'e hid \<Rightarrow> path \<Rightarrow> u8 \<Rightarrow> ('e, 'x, diag_rpm option) collector" where
  "rpm_channel fs hr base c = (let p = path_join base (''fan'' @ show_word c @ ''_input'') in
     io_bind (fs_query (k_exists fs p)) (\<lambda>present. if \<not> present then io_ret None
       else io_bind (read_label fs hr base ''fan'' c) (\<lambda>label. io_bind (read_number parse_u32 fs hr p) (\<lambda>n.
         io_ret (Some \<lparr>drp_channel = c, drp_label = label, drp_read = n\<rparr>)))))"

definition temperature_channel :: "'e sysfs \<Rightarrow> 'e hid \<Rightarrow> path \<Rightarrow> u8 \<Rightarrow> ('e, 'x, diag_temperature option) collector" where
  "temperature_channel fs hr base c = (let p = path_join base (''temp'' @ show_word c @ ''_input'') in
     io_bind (fs_query (k_exists fs p)) (\<lambda>present. if \<not> present then io_ret None
       else io_bind (read_label fs hr base ''temp'' c) (\<lambda>label. io_bind (read_number (parse_sint 64) fs hr p) (\<lambda>n.
         io_ret (Some \<lparr>dtp_channel = c, dtp_label = label, dtp_read = n\<rparr>)))))"

definition collect_rpm :: "'e sysfs \<Rightarrow> 'e hid \<Rightarrow> path \<Rightarrow> ('e, 'x, diag_rpm list) collector" where
  "collect_rpm fs hr base = io_filter_map (rpm_channel fs hr base) channels_1_8"

definition collect_temperatures :: "'e sysfs \<Rightarrow> 'e hid \<Rightarrow> path \<Rightarrow> ('e, 'x, diag_temperature list) collector" where
  "collect_temperatures fs hr base = io_filter_map (temperature_channel fs hr base) channels_1_8"

text \<open>What the discovery of \<open>collect_fans\<close> finds.\<close>

record fan_view =
  fv_hwmon :: "path option"
  fv_gaming :: "path option"
  fv_diagnostic :: "path option"
  fv_kernel_complete :: bool
  fv_gaming_complete :: bool
  fv_kernel_setpoint :: bool

definition kernel_setpoint :: "'e sysfs \<Rightarrow> path option \<Rightarrow> 'e \<Rightarrow> bool" where
  "kernel_setpoint fs hwmon e \<longleftrightarrow> (case hwmon of None \<Rightarrow> False | Some base \<Rightarrow> list_ex (\<lambda>c :: u8.
     k_is_file fs (path_join base (''pwm'' @ show_word c)) e \<or> k_is_file fs (path_join base (''pwm'' @ show_word c @ ''_enable'')) e) [1, 2])"

definition fan_view_of :: "'e sysfs \<Rightarrow> path \<Rightarrow> path option \<Rightarrow> 'e \<Rightarrow> fan_view" where
  "fan_view_of fs root hwmon e = (let wmi_root = rooted root ''sys/bus/wmi/devices'';
       gaming = find_wmi_group fs wmi_root GAMING_WMI_GUID ''gaming_fan'' e;
       at = (\<lambda>base name. k_is_file fs (path_join base name) e) in
     \<lparr>fv_hwmon = hwmon, fv_gaming = gaming,
      fv_diagnostic = find_wmi_group fs wmi_root GAMING_WMI_GUID ''asense_diagnostics'' e,
      fv_kernel_complete = (case hwmon of None \<Rightarrow> False | Some base \<Rightarrow> list_all (at base) [''pwm1_enable'', ''pwm2_enable'']),
      fv_gaming_complete = (case gaming of None \<Rightarrow> False | Some base \<Rightarrow> at base ''cpu_mode'' \<and> at base ''gpu_mode''),
      fv_kernel_setpoint = kernel_setpoint fs hwmon e\<rparr>)"

definition interface_exposed :: "fan_view \<Rightarrow> bool" where
  "interface_exposed v \<longleftrightarrow> fv_diagnostic v \<noteq> None \<or> fv_gaming_complete v \<or> fv_kernel_setpoint v"

definition control_of :: "fan_view \<Rightarrow> fan_capabilities \<Rightarrow> diag_fan_control observation" where
  "control_of v fans = (let modes = \<lparr>dm_auto = fc_auto fans, dm_manual = fc_manual fans, dm_maximum = fc_maximum fans\<rparr> in
     case fc_backend fans of
       Some Fan_kernel_pwm \<Rightarrow> Ob_value \<lparr>dfc_source = Src_acer_hwmon, dfc_backend = Dfb_kernel_pwm, dfc_modes = modes\<rparr>
     | Some Fan_acer_gaming_wmi \<Rightarrow> Ob_value \<lparr>dfc_source = Src_gaming_wmi_fan, dfc_backend = Dfb_gaming_wmi, dfc_modes = modes\<rparr>
     | None \<Rightarrow> Ob_absent (if interface_exposed v then Incomplete_interface else Not_exposed))"

definition fan_control_error :: "hardware_error \<Rightarrow> diag_error" where
  "fan_control_error x = (case x of Hw_io _ _ source \<Rightarrow> diag_io_error source
     | _ \<Rightarrow> diag_error_new Stage_discover Class_invalid_value None)"

definition collect_fan_control :: "'e sysfs \<Rightarrow> path \<Rightarrow> fan_view \<Rightarrow> ('e, 'x, diag_fan_control observation) collector" where
  "collect_fan_control fs root v = io_try (discover_at fs root) (\<lambda>r. case r of
      Inl x \<Rightarrow> io_ret (Ob_error (fan_control_error x))
    | Inr hw \<Rightarrow> io_bind (capabilities fs hw) (\<lambda>caps. io_ret (control_of v (hc_fans caps))))"

definition collect_fan_channels :: "'e sysfs \<Rightarrow> 'e hid \<Rightarrow> fan_view \<Rightarrow> ('e, 'x, diag_fan_channel list) collector" where
  "collect_fan_channels fs hr v =
     (case (fv_hwmon v, fv_kernel_complete v) of (Some base, True) \<Rightarrow> collect_kernel_fan_channels fs hr base
      | _ \<Rightarrow> (case (fv_gaming v, fv_gaming_complete v) of
          (Some base, True) \<Rightarrow> (case fv_diagnostic v of None \<Rightarrow> collect_gaming_fan_channels fs hr base False
            | Some d \<Rightarrow> collect_gaming_fan_channels fs hr d True)
        | _ \<Rightarrow> (case (fv_hwmon v, fv_kernel_setpoint v) of (Some base, True) \<Rightarrow> collect_kernel_fan_channels fs hr base
            | _ \<Rightarrow> (case fv_diagnostic v of Some d \<Rightarrow> collect_gaming_fan_channels fs hr d True | None \<Rightarrow> io_ret []))))"

definition collect_fans :: "'e sysfs \<Rightarrow> 'e hid \<Rightarrow> path \<Rightarrow> ('e, 'x, diag_fans) collector" where
  "collect_fans fs hr root = io_bind (discover_acer_hwmon fs root) (\<lambda>hwmon.
     io_bind (fs_query (fan_view_of fs root hwmon)) (\<lambda>v.
     io_bind (collect_fan_control fs root v) (\<lambda>control.
     io_bind (fs_query (\<lambda>e. v\<lparr>fv_kernel_setpoint := kernel_setpoint fs hwmon e\<rparr>)) (\<lambda>v.
     io_bind (collect_fan_channels fs hr v) (\<lambda>channels.
     io_bind (case hwmon of None \<Rightarrow> io_ret [] | Some base \<Rightarrow> collect_rpm fs hr base) (\<lambda>rpm.
     io_bind (case hwmon of None \<Rightarrow> io_ret [] | Some base \<Rightarrow> collect_temperatures fs hr base) (\<lambda>temperatures.
       io_ret \<lparr>df_control = control, df_channels = channels, df_rpm = rpm, df_temperatures = temperatures\<rparr>)))))))"

section \<open>The platform\<close>

definition parse_hex_bytes :: "string \<Rightarrow> nat \<Rightarrow> diag_error + u8 list" where
  "parse_hex_bytes v n = (if \<not> is_hex v (n * 2) then Inl invalid_value
     else res_map_list (\<lambda>i. ok_or invalid_value (map_option of_nat (parse_uint 16 u8_max (take 2 (drop (i * 2) v))))) [0..<n])"

definition scalar_raw :: "string \<Rightarrow> diag_error + diag_raw" where
  "scalar_raw v = (if \<not> is_hex v 16 then Inl invalid_value
     else Inr \<lparr>dr_encoding = Scalar_hex, dr_bytes = 8, dr_value = ascii_lower v\<rparr>)"

definition parse_scalar :: "string \<Rightarrow> diag_error + u64 \<times> diag_raw" where
  "parse_scalar v = res_bind (scalar_raw v) (\<lambda>raw. case parse_uint 16 u64_max v of
      None \<Rightarrow> Inl (invalid_raw raw) | Some n \<Rightarrow> Inr (of_nat n, raw))"

definition decode_bool_text :: "string \<Rightarrow> diag_error + diag_platform_value" where
  "decode_bool_text v = (if v = ''0'' then Inr (Val_bool False) else if v = ''1'' then Inr (Val_bool True) else Inl invalid_value)"

definition decode_usb_text :: "string \<Rightarrow> diag_error + diag_platform_value" where
  "decode_usb_text v = (case parse_u8 v of None \<Rightarrow> Inl invalid_value
     | Some n \<Rightarrow> if n \<in> {0, 10, 20, 30} then Inr (Val_usb_threshold n) else Inl invalid_value)"

definition decode_logo_text :: "string \<Rightarrow> diag_error + diag_platform_value" where
  "decode_logo_text v = (case split_char (CHR '','') v of
      [color, brightness, enabled] \<Rightarrow> if \<not> is_hex color 6 then Inl invalid_value
        else (case (parse_u8 brightness, parse_u8 enabled) of
            (Some b, Some n) \<Rightarrow> if b \<le> 100 \<and> n \<le> 1 then Inr (Val_rear_logo (n = 1) b (ascii_lower color)) else Inl invalid_value
          | _ \<Rightarrow> Inl invalid_value)
    | _ \<Rightarrow> Inl invalid_value)"

definition decode_usb_raw :: "string \<Rightarrow> diag_error + diag_platform_value" where
  "decode_usb_raw v = res_bind (parse_scalar v) (\<lambda>(scalar, raw).
     let status = (ucast (and scalar USB_STATUS_MASK) :: u8);
         mode = (ucast (drop_bit 8 (and scalar USB_MODE_MASK)) :: u8);
         threshold = (ucast (drop_bit 16 (and scalar USB_THRESHOLD_MASK)) :: u8) in
     if status \<noteq> 0 \<or> mode \<notin> {USB_MODE_ENABLED, USB_MODE_DISABLED} \<or> threshold \<notin> {10, 20, 30} then Inl (invalid_raw raw)
     else Inr (Val_usb_threshold (if mode = USB_MODE_ENABLED then threshold else 0)))"

definition decode_timeout_raw :: "string \<Rightarrow> diag_error + diag_platform_value" where
  "decode_timeout_raw v = res_bind (parse_scalar v) (\<lambda>(scalar, raw).
     if scalar = TIMEOUT_UNINITIALIZED \<or> scalar = TIMEOUT_OFF then Inr (Val_bool False)
     else if scalar = TIMEOUT_ON then Inr (Val_bool True) else Inl (invalid_raw raw))"

definition decode_boot_sound_raw :: "string \<Rightarrow> diag_error + diag_platform_value" where
  "decode_boot_sound_raw v = res_bind (parse_scalar v) (\<lambda>(scalar, raw).
     if scalar = BOOT_SOUND_OFF then Inr (Val_bool False)
     else if scalar = BOOT_SOUND_ON then Inr (Val_bool True) else Inl (invalid_raw raw))"

definition decode_lcd_raw :: "string \<Rightarrow> diag_error + diag_platform_value" where
  "decode_lcd_raw v = res_bind (parse_scalar v) (\<lambda>(scalar, raw).
     if and scalar LCD_STATE_VALID = 0 then Inl (invalid_raw raw) else Inr (Val_bool (and scalar LCD_STATE_ENABLED \<noteq> 0)))"

definition decode_logo_raw :: "string \<Rightarrow> diag_error + diag_platform_value" where
  "decode_logo_raw v = res_bind (parse_hex_bytes v 8) (\<lambda>bytes.
     if bytes ! 0 \<noteq> 0 \<or> bytes ! 4 > 100 \<or> bytes ! 5 > 1
     then Inl (invalid_raw \<lparr>dr_encoding = Scalar_hex, dr_bytes = 8, dr_value = ascii_lower v\<rparr>)
     else Inr (Val_rear_logo (bytes ! 5 = 1) (bytes ! 4) (hex2 (bytes ! 1) @ hex2 (bytes ! 2) @ hex2 (bytes ! 3))))"

definition battery_value :: "u8 \<Rightarrow> nat \<Rightarrow> string \<Rightarrow> diag_platform_value observation" where
  "battery_value support_mask value_index v = (case parse_hex_bytes v 8 of
      Inl x \<Rightarrow> Ob_error x
    | Inr bytes \<Rightarrow> if and (bytes ! 0) support_mask \<noteq> 0 then Ob_value (Val_bool (bytes ! value_index \<noteq> 0)) else Ob_absent Not_applicable)"

definition platform_battery_field :: "'e sysfs \<Rightarrow> 'e hid \<Rightarrow> diag_field_name \<Rightarrow> string \<Rightarrow> u8 \<Rightarrow> nat \<Rightarrow> path option \<Rightarrow> string observation
    \<Rightarrow> ('e, 'x, diag_field) collector" where
  "platform_battery_field fs hr name normal_name support_mask value_index production raw_read =
     io_bind (fs_query (\<lambda>e. case production of None \<Rightarrow> False | Some base \<Rightarrow> k_is_file fs (path_join base normal_name) e)) (\<lambda>exposed.
     io_bind (case raw_read of
         Ob_value v \<Rightarrow> io_ret (battery_value support_mask value_index v)
       | Ob_error x \<Rightarrow> io_ret (Ob_error x)
       | Ob_absent reason \<Rightarrow> if exposed then (case production of None \<Rightarrow> io_ret (Ob_absent Not_exposed)
             | Some base \<Rightarrow> read_value decode_bool_text fs hr (path_join base normal_name))
           else io_ret (Ob_absent reason)) (\<lambda>r.
     io_ret \<lparr>dfl_name = name, dfl_expected = ((case raw_read of Ob_absent _ \<Rightarrow> False | _ \<Rightarrow> True) \<or> exposed),
       dfl_exposed = exposed, dfl_source = Src_asense_battery, dfl_read = r\<rparr>))"

definition file_at :: "'e sysfs \<Rightarrow> path option \<Rightarrow> 'e \<Rightarrow> path option" where
  "file_at fs p e = (case p of Some q \<Rightarrow> if k_is_file fs q e then Some q else None | None \<Rightarrow> None)"

definition platform_field :: "'e sysfs \<Rightarrow> 'e hid \<Rightarrow> diag_field_name \<Rightarrow> diag_source \<Rightarrow> path option \<Rightarrow> path option
    \<Rightarrow> (string \<Rightarrow> diag_error + diag_platform_value) \<Rightarrow> (string \<Rightarrow> diag_error + diag_platform_value) \<Rightarrow> ('e, 'x, diag_field) collector" where
  "platform_field fs hr name source raw_path normal_path decode_raw decode_normal =
     io_bind (fs_query (\<lambda>e. (file_at fs raw_path e, file_at fs normal_path e))) (\<lambda>(raw, normal).
     io_bind (case raw of Some p \<Rightarrow> read_value decode_raw fs hr p
       | None \<Rightarrow> (case normal of Some p \<Rightarrow> read_value decode_normal fs hr p | None \<Rightarrow> io_ret (Ob_absent Not_exposed))) (\<lambda>r.
     io_ret \<lparr>dfl_name = name, dfl_expected = (raw \<noteq> None \<or> normal \<noteq> None), dfl_exposed = (normal \<noteq> None),
       dfl_source = source, dfl_read = r\<rparr>))"

record platform_view =
  pv_gaming_diag :: "path option"
  pv_battery_diag :: "path option"
  pv_apge_diag :: "path option"
  pv_gaming :: "path option"
  pv_battery :: "path option"
  pv_apge :: "path option"

definition platform_view_of :: "'e sysfs \<Rightarrow> path \<Rightarrow> 'e \<Rightarrow> platform_view" where
  "platform_view_of fs root e = (let wmi_root = rooted root ''sys/bus/wmi/devices'';
       gaming = find_wmi_group fs wmi_root GAMING_WMI_GUID ''asense_rgb'' e;
       holding = (\<lambda>name. case gaming of Some base \<Rightarrow> if k_is_file fs (path_join base name) e then Some base else None | None \<Rightarrow> None) in
     \<lparr>pv_gaming_diag = find_wmi_group fs wmi_root GAMING_WMI_GUID ''asense_diagnostics'' e,
      pv_battery_diag = find_wmi_group fs wmi_root BATTERY_WMI_GUID ''asense_diagnostics'' e,
      pv_apge_diag = find_wmi_group fs wmi_root APGE_WMI_GUID ''asense_diagnostics'' e,
      pv_gaming = gaming,
      pv_battery = or_else (find_wmi_group fs wmi_root BATTERY_WMI_GUID ''asense_battery'' e) (holding ''battery_limit''),
      pv_apge = or_else (find_wmi_group fs wmi_root APGE_WMI_GUID ''asense_apge'' e) (holding ''usb_charging'')\<rparr>)"

definition any_transport :: "platform_view \<Rightarrow> bool" where
  "any_transport v \<longleftrightarrow> pv_gaming_diag v \<noteq> None \<or> pv_battery_diag v \<noteq> None \<or> pv_apge_diag v \<noteq> None
     \<or> pv_gaming v \<noteq> None \<or> pv_battery v \<noteq> None \<or> pv_apge v \<noteq> None"

text \<open>The seven fields, in the order the validator demands.\<close>

definition platform_fields :: "'e sysfs \<Rightarrow> 'e hid \<Rightarrow> platform_view \<Rightarrow> string observation \<Rightarrow> ('e, 'x, diag_field) collector list" where
  "platform_fields fs hr v battery_raw = (let at = (\<lambda>base name. map_option (\<lambda>b. path_join b name) base) in
     [platform_battery_field fs hr Fld_battery_limit ''battery_limit'' 1 3 (pv_battery v) battery_raw,
      platform_battery_field fs hr Fld_battery_calibration ''battery_calibration'' 2 4 (pv_battery v) battery_raw,
      platform_field fs hr Fld_usb_off_charging Src_asense_apge (at (pv_apge_diag v) ''usb_raw'') (at (pv_apge v) ''usb_charging'') decode_usb_raw decode_usb_text,
      platform_field fs hr Fld_keyboard_timeout Src_asense_apge (at (pv_apge_diag v) ''timeout_raw'') (at (pv_apge v) ''keyboard_timeout'') decode_timeout_raw decode_bool_text,
      platform_field fs hr Fld_boot_sound Src_asense_rgb (at (pv_gaming_diag v) ''boot_sound_raw'') (at (pv_gaming v) ''boot_sound'') decode_boot_sound_raw decode_bool_text,
      platform_field fs hr Fld_lcd_override Src_asense_rgb (at (pv_gaming_diag v) ''lcd_raw'') (at (pv_gaming v) ''lcd_override'') decode_lcd_raw decode_bool_text,
      platform_field fs hr Fld_rear_logo Src_asense_rgb (at (pv_gaming_diag v) ''rear_logo_raw'') (at (pv_gaming v) ''rear_logo'') decode_logo_raw decode_logo_text])"

definition collect_platform :: "'e sysfs \<Rightarrow> 'e hid \<Rightarrow> path \<Rightarrow> ('e, 'x, diag_platform) collector" where
  "collect_platform fs hr root = io_bind (fs_query (platform_view_of fs root)) (\<lambda>v.
     io_bind (case pv_battery_diag v of None \<Rightarrow> io_ret (Ob_absent Not_exposed)
       | Some base \<Rightarrow> diag_read_text fs hr (path_join base ''battery_raw'')) (\<lambda>battery_raw.
     io_bind (io_map_list (\<lambda>m. m) (platform_fields fs hr v battery_raw)) (\<lambda>fields.
       io_ret \<lparr>dpl_transport = (if any_transport v then Ob_value Src_platform_discovery else Ob_absent Not_exposed),
         dpl_fields = fields\<rparr>)))"

section \<open>The lighting\<close>

definition zoned_wmi_zone_count :: "string \<Rightarrow> u8 option" where
  "zoned_wmi_zone_count v = (let m = (case strip_pre ''0x'' v of Some s \<Rightarrow> s | None \<Rightarrow> v) in
     if m \<in> {''01'', ''1''} then Some 1 else if m \<in> {''03'', ''3''} then Some 2
     else if m \<in> {''07'', ''7''} then Some 3 else if m \<in> {''0f'', ''0F'', ''f'', ''F''} then Some 4 else None)"

definition non_empty_text :: "string observation \<Rightarrow> bool" where
  "non_empty_text t \<longleftrightarrow> (case t of Ob_value v \<Rightarrow> v \<noteq> [] | _ \<Rightarrow> False)"

definition zoned_light :: "u8 \<Rightarrow> bool \<Rightarrow> diag_lighting" where
  "zoned_light zones readable = \<lparr>dl_id = ''zoned-wmi-keyboard'', dl_backend = Dlb_zoned_wmi, dl_target = Dlt_keyboard, dl_zones = zones,
     dl_modes = \<lparr>dlm_static_color = True, dlm_brightness = True, dlm_breathing = True, dlm_neon = True\<rparr>, dl_state_readable = readable\<rparr>"

definition collect_light_at :: "'e sysfs \<Rightarrow> 'e hid \<Rightarrow> path \<Rightarrow> ('e, 'x, diag_lighting list) collector" where
  "collect_light_at fs hr base = io_bind (diag_read_text fs hr (path_join base ''zone_mask'')) (\<lambda>t. case t of
      Ob_value zone_mask \<Rightarrow> (case zoned_wmi_zone_count zone_mask of None \<Rightarrow> io_ret []
        | Some zones \<Rightarrow> io_bind (io_map_list (\<lambda>n. diag_read_text fs hr (path_join base n)) [''power'', ''effect'', ''zones'']) (\<lambda>ts.
            io_ret [zoned_light zones (list_all non_empty_text ts)]))
    | _ \<Rightarrow> io_ret [])"

definition collect_lighting :: "'e sysfs \<Rightarrow> 'e hid \<Rightarrow> path \<Rightarrow> ('e, 'x, diag_lighting list) collector" where
  "collect_lighting fs hr root = io_bind (fs_query (\<lambda>e.
       case find_wmi_group fs (rooted root ''sys/bus/wmi/devices'') GAMING_WMI_GUID ''asense_rgb'' e of
         Some base \<Rightarrow> if list_all (\<lambda>n. k_is_file fs (path_join base n) e) [''power'', ''effect'', ''zones''] then Some base else None
       | None \<Rightarrow> None)) (\<lambda>found. case found of None \<Rightarrow> io_ret [] | Some base \<Rightarrow> collect_light_at fs hr base)"

section \<open>The whole report\<close>

definition collect_diagnostics :: "(u8 list \<Rightarrow> u8 list) \<Rightarrow> 'e sysfs \<Rightarrow> 'e hid \<Rightarrow> path \<Rightarrow> ('e, 'x, passive_diagnostics) collector" where
  "collect_diagnostics sha fs hr root = io_bind (collect_profile fs hr root) (\<lambda>profile.
     io_bind (collect_fans fs hr root) (\<lambda>fans.
     io_bind (collect_platform fs hr root) (\<lambda>platform.
     io_bind (collect_lighting fs hr root) (\<lambda>lighting.
     io_bind (collect_hid_at sha fs hr root) (\<lambda>hid.
       io_ret \<lparr>pd_schema = PASSIVE_DIAGNOSTICS_SCHEMA, pd_profile = profile, pd_fans = fans, pd_platform = platform,
         pd_lighting = lighting, pd_hid = hid\<rparr>)))))"

section \<open>Validation\<close>

definition validate_current :: "diag_current \<Rightarrow> string + unit" where
  "validate_current c = res_bind (validate_raw (dcu_raw c)) (\<lambda>_.
     if dr_encoding (dcu_raw c) = U8_hex \<and> dr_bytes (dcu_raw c) \<noteq> 1
     then Inl ''Gaming-WMI profile raw must contain one byte'' else Inr ())"

fun validate_choice_list :: "diag_choice list \<Rightarrow> diag_choice list \<Rightarrow> string + unit" where
  "validate_choice_list before [] = Inr ()"
| "validate_choice_list before (c # cs) = res_bind (validate_token (dch_command c) 48 ''profile command'') (\<lambda>_.
     if \<not> dch_selectable c then Inl ''passive profile choice is not selectable''
     else if list_ex (\<lambda>p. dch_command p = dch_command c) before then Inl ''passive profile choices are not unique''
     else res_bind (case dch_transport_raw c of Some raw \<Rightarrow> validate_raw raw | None \<Rightarrow> Inr ()) (\<lambda>_.
       validate_choice_list (before @ [c]) cs))"

definition validate_choices :: "diag_choice list \<Rightarrow> string + unit" where
  "validate_choices cs = (if length cs > MAX_PROFILE_CHOICES then Inl ''too many passive profile choices'' else validate_choice_list [] cs)"

definition validate_diag_channel :: "u8 \<Rightarrow> string + unit" where
  "validate_diag_channel c = (if 1 \<le> c \<and> c \<le> of_nat MAX_CHANNELS then Inr () else Inl ''diagnostic channel is out of range'')"

fun channel_order :: "u8 option \<Rightarrow> string \<Rightarrow> u8 list \<Rightarrow> string + unit" where
  "channel_order previous label [] = Inr ()"
| "channel_order previous label (c # cs) = (if (case previous of Some p \<Rightarrow> c \<le> p | None \<Rightarrow> False)
     then Inl (''passive '' @ label @ '' channels are not sorted and unique'') else channel_order (Some c) label cs)"

definition validate_channel_order :: "string \<Rightarrow> u8 list \<Rightarrow> string + unit" where
  "validate_channel_order label cs = channel_order None label cs"

definition validate_fan_channel :: "diag_fan_channel \<Rightarrow> string + unit" where
  "validate_fan_channel c = res_bind (validate_diag_channel (dfn_channel c)) (\<lambda>_.
     res_bind (validate_observation (dfn_setpoint c) (\<lambda>v. case dfn_unit c of Unit_pwm255 \<Rightarrow> Inr ()
       | Unit_percent \<Rightarrow> if v \<le> 100 then Inr () else Inl ''Gaming-WMI fan setpoint exceeds 100'')) (\<lambda>_.
     validate_observation (dfn_mode c) (\<lambda>_. Inr ())))"

definition validate_rpm :: "diag_rpm \<Rightarrow> string + unit" where
  "validate_rpm c = res_bind (validate_diag_channel (drp_channel c)) (\<lambda>_.
     res_bind (validate_text (drp_label c) MAX_LABEL_BYTES ''fan label'') (\<lambda>_. validate_observation (drp_read c) (\<lambda>_. Inr ())))"

definition validate_temperature :: "diag_temperature \<Rightarrow> string + unit" where
  "validate_temperature c = res_bind (validate_diag_channel (dtp_channel c)) (\<lambda>_.
     res_bind (validate_text (dtp_label c) MAX_LABEL_BYTES ''temperature label'') (\<lambda>_.
     validate_observation (dtp_read c) (\<lambda>v. if -100000 \<le> v \<and> v \<le> 250000 then Inr () else Inl ''temperature is outside physical bounds'')))"

definition validate_fans :: "diag_fans \<Rightarrow> string + unit" where
  "validate_fans f = res_bind (validate_observation (df_control f) (\<lambda>_. Inr ())) (\<lambda>_.
     if length (df_channels f) > MAX_CHANNELS \<or> length (df_rpm f) > MAX_CHANNELS \<or> length (df_temperatures f) > MAX_CHANNELS
     then Inl ''passive fan inventory is oversized''
     else res_bind (res_all validate_fan_channel (df_channels f)) (\<lambda>_.
       res_bind (validate_channel_order ''fan setpoint'' (map dfn_channel (df_channels f))) (\<lambda>_.
       res_bind (res_all validate_rpm (df_rpm f)) (\<lambda>_.
       res_bind (validate_channel_order ''fan RPM'' (map drp_channel (df_rpm f))) (\<lambda>_.
       res_bind (res_all validate_temperature (df_temperatures f)) (\<lambda>_.
       validate_channel_order ''temperature'' (map dtp_channel (df_temperatures f))))))))"

definition field_order :: "diag_field_name list" where
  "field_order = [Fld_battery_limit, Fld_battery_calibration, Fld_usb_off_charging, Fld_keyboard_timeout,
     Fld_boot_sound, Fld_lcd_override, Fld_rear_logo]"

definition field_sources :: "diag_source list" where
  "field_sources = [Src_asense_battery, Src_asense_battery, Src_asense_apge, Src_asense_apge, Src_asense_rgb, Src_asense_rgb, Src_asense_rgb]"

definition validate_platform_value :: "diag_platform_value \<Rightarrow> string + unit" where
  "validate_platform_value v = (case v of Val_bool _ \<Rightarrow> Inr ()
     | Val_usb_threshold n \<Rightarrow> if n \<in> {0, 10, 20, 30} then Inr () else Inl ''USB threshold is invalid''
     | Val_rear_logo _ brightness color \<Rightarrow> if brightness \<le> 100 \<and> is_hex color 6 then Inr () else Inl ''rear-logo value is invalid'')"

definition validate_field :: "diag_field \<times> diag_source \<Rightarrow> string + unit" where
  "validate_field = (\<lambda>(f, expected_source). if dfl_source f \<noteq> expected_source then Inl ''passive platform field source differs''
     else validate_observation (dfl_read f) validate_platform_value)"

definition validate_platform :: "diag_platform \<Rightarrow> string + unit" where
  "validate_platform p = res_bind (validate_observation (dpl_transport p) (\<lambda>_. Inr ())) (\<lambda>_.
     if map dfl_name (dpl_fields p) \<noteq> field_order then Inl ''passive platform field order differs''
     else res_all validate_field (zip (dpl_fields p) field_sources))"

definition validate_light :: "diag_lighting \<Rightarrow> string + unit" where
  "validate_light l = (if dl_id l \<noteq> ''zoned-wmi-keyboard'' \<or> dl_backend l \<noteq> Dlb_zoned_wmi \<or> dl_target l \<noteq> Dlt_keyboard
      \<or> \<not> (1 \<le> dl_zones l \<and> dl_zones l \<le> 4) \<or> \<not> dlm_static_color (dl_modes l) \<or> \<not> dlm_brightness (dl_modes l)
      \<or> \<not> dlm_breathing (dl_modes l) \<or> \<not> dlm_neon (dl_modes l)
     then Inl ''passive zoned-WMI lighting evidence is invalid'' else Inr ())"

definition validate_profile :: "diag_profile \<Rightarrow> string + unit" where
  "validate_profile p = res_bind (validate_observation (dp_transport p) (\<lambda>_. Inr ())) (\<lambda>_.
     res_bind (validate_observation (dp_current p) validate_current) (\<lambda>_.
     validate_observation (dp_choices p) validate_choices))"

text \<open>\<open>serde_json\<close>: the writer and the reader of one report.\<close>

record diag_json =
  dj_write :: "passive_diagnostics \<Rightarrow> string + string"
  dj_read :: "string \<Rightarrow> string + passive_diagnostics"

definition validate_size :: "diag_json \<Rightarrow> passive_diagnostics \<Rightarrow> string + unit" where
  "validate_size js d = res_bind (res_map_err (\<lambda>x. ''cannot size passive diagnostics: '' @ x) (dj_write js d)) (\<lambda>encoded.
     if length encoded > MAX_PASSIVE_DIAGNOSTICS_BYTES then Inl ''passive diagnostics response is oversized'' else Inr ())"

definition validate_diagnostics :: "diag_json \<Rightarrow> passive_diagnostics \<Rightarrow> string + unit" where
  "validate_diagnostics js d = (if pd_schema d \<notin> {1, PASSIVE_DIAGNOSTICS_SCHEMA} then Inl ''passive diagnostics schema differs''
     else if pd_schema d = 1 \<and> list_ex (\<lambda>h. dh_role h = Darfon_lighting_candidate) (pd_hid d)
     then Inl ''legacy passive schema cannot contain USB lighting candidates''
     else res_bind (validate_profile (pd_profile d)) (\<lambda>_.
       res_bind (validate_fans (pd_fans d)) (\<lambda>_.
       res_bind (validate_platform (pd_platform d)) (\<lambda>_.
       if length (pd_lighting d) > 1 then Inl ''too many passive zoned-WMI lighting devices''
       else res_bind (res_all validate_light (pd_lighting d)) (\<lambda>_.
         res_bind (validate_inventory (pd_hid d)) (\<lambda>_. validate_size js d))))))"

definition encode_diagnostics :: "diag_json \<Rightarrow> passive_diagnostics \<Rightarrow> string + string" where
  "encode_diagnostics js d = res_bind (validate_diagnostics js d) (\<lambda>_.
     res_map_err (\<lambda>x. ''cannot encode passive diagnostics: '' @ x) (dj_write js d))"

definition parse_diagnostics :: "diag_json \<Rightarrow> string \<Rightarrow> string + passive_diagnostics" where
  "parse_diagnostics js v = (if length v > MAX_PASSIVE_DIAGNOSTICS_BYTES then Inl ''passive diagnostics response is oversized''
     else res_bind (res_map_err (\<lambda>x. ''invalid passive diagnostics response: '' @ x) (dj_read js v)) (\<lambda>d.
       res_bind (validate_diagnostics js d) (\<lambda>_. Inr d)))"

end
