(* ===== verification/Daemon_State.thy ===== *)
theory Daemon_State
  imports Daemon_Wire Memory_Hardware Tuning Lighting_Control Passive_Diagnostics
begin

text \<open>
  \<open>src/daemon.rs\<close>, the state behind the socket: the machine the daemon drives, the remembered
  ENEK lighting, the deferred NVIDIA reconciliation, the resume and failsafe entry points, the
  fan session states, and the runtime shared by the client threads with its lazy maintenance.
\<close>

section \<open>The machine\<close>

text \<open>
  What the daemon uses besides the files: the HID nodes, NVML, the mutation guard (the outcome of
  \<open>guard_acquire\<close>, which always returns), the clock in nanoseconds, opening, creating and removing
  files, the \<open>serde_json\<close> codec of the lighting cache, of the capabilities and of the passive
  report, SHA-256, and the texts of errors. All of them are arbitrary functions.
\<close>

datatype 'r cached_lighting = Cached_lighting nat "'r list"

record 'e machine =
  mc_fs :: "'e sysfs"
  mc_hid :: "'e hid"
  mc_nvml :: "'e nvml"
  mc_lock :: "'e \<Rightarrow> (lock_error + unit) \<times> 'e"
  mc_now :: "'e \<Rightarrow> nat \<times> 'e"
  mc_open :: "path \<Rightarrow> 'e \<Rightarrow> (io_error + unit) \<times> 'e"
  mc_create :: "path \<Rightarrow> 'e \<Rightarrow> (io_error + unit) \<times> 'e"
  mc_remove :: "path \<Rightarrow> 'e \<Rightarrow> (io_error + unit) \<times> 'e"
  mc_make_dirs :: "path \<Rightarrow> 'e \<Rightarrow> (io_error + unit) \<times> 'e"
  mc_cache_of_json :: "string \<Rightarrow> string + lighting_request cached_lighting"
  mc_cache_to_json :: "lighting_request cached_lighting \<Rightarrow> string + string"
  mc_caps_to_json :: "control_capabilities \<Rightarrow> string + string"
  mc_diag_json :: diag_json
  mc_sha256 :: "u8 list \<Rightarrow> u8 list"
  mc_show :: "daemon_error \<Rightarrow> string"

type_synonym ('e, 'a) dm_io = "('e world, daemon_error, 'a) io"

definition os_call :: "('e \<Rightarrow> ('x + 'a) \<times> 'e) \<Rightarrow> ('e world, 'x, 'a) io" where
  "os_call f = (\<lambda>w. case f (wenv w) of (r, e) \<Rightarrow> (r, w\<lparr>wenv := e\<rparr>))"

definition os_now :: "'e machine \<Rightarrow> ('e world, 'x, nat) io" where
  "os_now m = (\<lambda>w. case mc_now m (wenv w) of (t, e) \<Rightarrow> (Inr t, w\<lparr>wenv := e\<rparr>))"

definition acquire_guard :: "'e machine \<Rightarrow> ('e, unit) dm_io" where
  "acquire_guard m = io_map_err De_lock (os_call (mc_lock m))"

definition discover_hardware :: "'e machine \<Rightarrow> ('e, acer_hardware) dm_io" where
  "discover_hardware m = io_map_err De_hardware (discover_at (mc_fs m) [])"

definition require_root :: "'e machine \<Rightarrow> ('e, unit) dm_io" where
  "require_root m = io_bind (io_map_err (De_io ''cannot read process credentials'')
     (fs_read_to_string (mc_fs m) [''proc'', ''self'', ''status''])) (\<lambda>s. io_of (ensure_root s))"

section \<open>The lighting cache\<close>

definition ENEK_LIGHTING_CACHE :: path where "ENEK_LIGHTING_CACHE = [''var'', ''lib'', ''asense'', ''enek5130.json'']"
definition MAX_LIGHTING_CACHE_BYTES :: nat where "MAX_LIGHTING_CACHE_BYTES = 2048"
definition MAX_CACHED_LIGHTING_TARGETS :: nat where "MAX_CACHED_LIGHTING_TARGETS = 4"

definition decode_cached_lighting :: "'e machine \<Rightarrow> string \<Rightarrow> daemon_error + lighting_request list" where
  "decode_cached_lighting m bytes = (if length bytes > MAX_LIGHTING_CACHE_BYTES then Inl (De_message ''lighting cache is too large'')
     else (case mc_cache_of_json m bytes of
         Inl x \<Rightarrow> Inl (De_message (''invalid lighting cache: '' @ x))
       | Inr (Cached_lighting schema requests) \<Rightarrow>
           if schema \<noteq> 1 then Inl (De_message ''unsupported lighting cache schema'')
           else if length requests > MAX_CACHED_LIGHTING_TARGETS then Inl (De_message ''lighting cache has too many targets'')
           else Inr requests))"

definition load_cached_lighting :: "'e machine \<Rightarrow> path \<Rightarrow> ('e, lighting_request list) dm_io" where
  "load_cached_lighting m p = io_try (os_call (mc_open m p)) (\<lambda>r. case r of
       Inl x \<Rightarrow> if io_error_kind x = NotFound then io_ret [] else io_err (De_io ''cannot open lighting cache'' x)
     | Inr _ \<Rightarrow> io_bind (io_map_err (De_io ''cannot read lighting cache'') (fs_read (mc_fs m) p)) (\<lambda>bytes.
         io_of (decode_cached_lighting m (take (MAX_LIGHTING_CACHE_BYTES + 1) bytes))))"

definition updated_cache :: "lighting_request \<Rightarrow> lighting_request list \<Rightarrow> lighting_request list" where
  "updated_cache r requests = filter (\<lambda>c. lr_target c \<noteq> lr_target r) requests @ [r]"

definition save_cached_lighting_at :: "'e machine \<Rightarrow> path \<Rightarrow> lighting_request \<Rightarrow> ('e, unit) dm_io" where
  "save_cached_lighting_at m p r = io_bind (load_cached_lighting m p) (\<lambda>requests.
     io_bind (io_of (res_map_err (\<lambda>x. De_message (''cannot encode lighting cache: '' @ x))
       (mc_cache_to_json m (Cached_lighting 1 (updated_cache r requests))))) (\<lambda>bytes.
     if length bytes > MAX_LIGHTING_CACHE_BYTES then io_err (De_message ''lighting cache is too large'')
     else io_then (io_map_err (De_io ''cannot create lighting cache directory'') (os_call (mc_make_dirs m (butlast p))))
       (io_then (io_map_err (De_io ''cannot open lighting cache for writing'') (os_call (mc_create m p)))
         (io_map_err (De_io ''cannot write lighting cache'') (fs_write_existing (mc_fs m) p bytes)))))"

definition save_cached_lighting :: "'e machine \<Rightarrow> lighting_request \<Rightarrow> ('e, unit) dm_io" where
  "save_cached_lighting m = save_cached_lighting_at m ENEK_LIGHTING_CACHE"

text \<open>One remembered request is applied by the ENEK controller that has its target, if there is one.\<close>

definition serves_target :: "lighting_target \<Rightarrow> lighting_controller \<Rightarrow> bool" where
  "serves_target t c \<longleftrightarrow> controller_backend c = Enek5130_hid \<and> list_ex (\<lambda>d. ld_target d = t) (controller_devices c)"

definition restore_request :: "'e machine \<Rightarrow> lighting_controller list \<Rightarrow> lighting_request \<Rightarrow> ('e world, 'x, daemon_error option) io" where
  "restore_request m controllers r = (case find (serves_target (lr_target r)) controllers of
      None \<Rightarrow> io_ret None
    | Some c \<Rightarrow> io_try (controller_apply (mc_fs m) (mc_hid m) c r) (\<lambda>q. io_ret (case q of Inl x \<Rightarrow> Some (De_lighting x) | Inr _ \<Rightarrow> None)))"

definition restore_cached_enek_lighting :: "'e machine \<Rightarrow> ('e, unit) dm_io" where
  "restore_cached_enek_lighting m = io_bind (load_cached_lighting m ENEK_LIGHTING_CACHE) (\<lambda>requests.
     if requests = [] then io_ret ()
     else io_bind (discover_all (mc_fs m) (mc_hid m)) (\<lambda>controllers.
       io_bind (io_filter_map (restore_request m controllers) requests) (\<lambda>failures.
         if failures = [] then io_ret () else io_err (De_list failures))))"

section \<open>Deferred NVIDIA reconciliation\<close>

definition NVIDIA_RESUME_PENDING :: path where "NVIDIA_RESUME_PENDING = [''run'', ''asense-nvidia-reconcile'']"
definition NVIDIA_RECONCILE_RETRY :: nat where "NVIDIA_RECONCILE_RETRY = 30000000000"
definition NVIDIA_RECONCILE_POLL :: nat where "NVIDIA_RECONCILE_POLL = 1000000000"

definition require_reconciled_nvidia :: "tuning_state \<Rightarrow> string \<Rightarrow> daemon_error + unit" where
  "require_reconciled_nvidia s context = (case ts_gpu_capability_error s of None \<Rightarrow> Inr ()
     | Some x \<Rightarrow> Inl (De_context (context @ '' NVIDIA offset reconciliation remains pending'') (De_tuning (Tn_nvidia x))))"

text \<open>The controller is discovered for one profile transaction and dropped after it.\<close>

definition set_profile_once :: "'e machine \<Rightarrow> acer_hardware \<Rightarrow> platform_profile \<Rightarrow> ('e world, tuning_error, tuning_state) io" where
  "set_profile_once m hw profile = io_bind (profile_controller_discover (mc_nvml m) (mc_fs m)) (\<lambda>cap.
     io_try (tuning_set_profile (mc_nvml m) (mc_fs m) cap hw profile) (\<lambda>r.
       io_then (case cap of Nvidia_available _ \<Rightarrow> runtime_drop (mc_nvml m) | Nvidia_unavailable _ \<Rightarrow> io_ret ()) (io_of r)))"

definition reconcile_reference_profile :: "'e machine \<Rightarrow> acer_hardware \<Rightarrow> string \<Rightarrow> ('e, unit) dm_io" where
  "reconcile_reference_profile m hw context =
     io_bind (io_map_err (\<lambda>x. De_context (context @ '' profile readback'') (De_hardware x)) (current_profile (mc_fs m) hw)) (\<lambda>profile.
     io_bind (io_map_err (\<lambda>x. De_context (context @ '' profile reconciliation'') (De_tuning x)) (set_profile_once m hw profile)) (\<lambda>s.
       io_of (require_reconciled_nvidia s context)))"

definition write_pending_nvidia_reconciliation :: "'e machine \<Rightarrow> path \<Rightarrow> ('e, unit) dm_io" where
  "write_pending_nvidia_reconciliation m p =
     io_then (io_map_err (De_io ''cannot defer NVIDIA resume reconciliation'') (os_call (mc_create m p)))
       (io_map_err (De_io ''cannot record deferred NVIDIA reconciliation'') (fs_write_existing (mc_fs m) p ''pending\<newline>''))"

definition remove_pending_nvidia_reconciliation :: "'e machine \<Rightarrow> path \<Rightarrow> ('e, unit) dm_io" where
  "remove_pending_nvidia_reconciliation m p = io_try (os_call (mc_remove m p)) (\<lambda>r. case r of
       Inr _ \<Rightarrow> io_ret ()
     | Inl x \<Rightarrow> if io_error_kind x = NotFound then io_ret () else io_err (De_io ''cannot clear deferred NVIDIA reconciliation'' x))"

definition finish_pending_nvidia_reconciliation :: "'e machine \<Rightarrow> path \<Rightarrow> daemon_error + unit \<Rightarrow> ('e, unit) dm_io" where
  "finish_pending_nvidia_reconciliation m p r = io_then (io_of r) (remove_pending_nvidia_reconciliation m p)"

definition pending_exists :: "'e machine \<Rightarrow> ('e world, 'x, bool) io" where
  "pending_exists m = fs_query (k_exists (mc_fs m) NVIDIA_RESUME_PENDING)"

definition oem_gpu_ready :: "'e machine \<Rightarrow> ('e world, 'x, bool) io" where
  "oem_gpu_ready m = io_bind (discover_nvidia_pci_device (mc_fs m) []) (\<lambda>d. io_ret (case d of None \<Rightarrow> False
     | Some dev \<Rightarrow> is_exact_oem_target dev \<and> permits_live_nvml (pd_runtime_status dev)))"

definition reconcile_pending_nvidia :: "'e machine \<Rightarrow> acer_hardware \<Rightarrow> ('e, unit) dm_io" where
  "reconcile_pending_nvidia m hw = io_bind (pending_exists m) (\<lambda>pending.
     if \<not> pending then io_ret ()
     else if \<not> is_reference_model hw then remove_pending_nvidia_reconciliation m NVIDIA_RESUME_PENDING
     else io_bind (oem_gpu_ready m) (\<lambda>ready. if \<not> ready then io_ret ()
     else io_then (acquire_guard m)
       (io_bind (pending_exists m) (\<lambda>still. if \<not> still then io_ret ()
        else io_bind (oem_gpu_ready m) (\<lambda>ready. if \<not> ready then io_ret ()
        else io_try (reconcile_reference_profile m hw ''deferred post-resume'')
          (finish_pending_nvidia_reconciliation m NVIDIA_RESUME_PENDING))))))"

section \<open>Failsafe and resume\<close>

datatype failsafe_fan_reset = Reset_verified | Reset_not_exposed

definition reset_automatic_fans :: "'e machine \<Rightarrow> acer_hardware \<Rightarrow> ('e, failsafe_fan_reset) dm_io" where
  "reset_automatic_fans m hw = io_bind (capabilities (mc_fs m) hw) (\<lambda>caps.
     io_bind (if fc_backend (hc_fans caps) \<noteq> None then io_ret True else fs_query (fan_control_exposed (mc_fs m) hw)) (\<lambda>exposed.
     if exposed then io_bind (io_map_err De_hardware (apply_fan_setting (mc_fs m) hw Set_automatic)) (\<lambda>_. io_ret Reset_verified)
     else io_ret Reset_not_exposed))"

definition failsafe_auto :: "'e machine \<Rightarrow> ('e, failsafe_fan_reset) dm_io" where
  "failsafe_auto m = io_then (require_root m) (io_then (acquire_guard m)
     (io_bind (discover_hardware m) (reset_automatic_fans m)))"

definition resume_fans :: "'e machine \<Rightarrow> acer_hardware \<Rightarrow> ('e, unit) dm_io" where
  "resume_fans m hw = io_bind (capabilities (mc_fs m) hw) (\<lambda>caps.
     if fc_backend (hc_fans caps) = None then io_ret ()
     else io_bind (io_map_err (\<lambda>x. De_context ''post-resume fan safety'' (De_hardware x))
       (apply_fan_setting (mc_fs m) hw Set_automatic)) (\<lambda>_. io_ret ()))"

definition resume_nvidia :: "'e machine \<Rightarrow> acer_hardware \<Rightarrow> ('e, unit) dm_io" where
  "resume_nvidia m hw = (if \<not> is_reference_model hw then io_ret ()
     else io_then (write_pending_nvidia_reconciliation m NVIDIA_RESUME_PENDING)
       (io_bind (oem_gpu_ready m) (\<lambda>ready. if \<not> ready then io_ret ()
        else io_try (reconcile_reference_profile m hw ''post-resume'') (\<lambda>r. case r of
            Inr _ \<Rightarrow> remove_pending_nvidia_reconciliation m NVIDIA_RESUME_PENDING
          | Inl _ \<Rightarrow> io_ret ()))))"

definition resume_after_sleep :: "'e machine \<Rightarrow> ('e, unit) dm_io" where
  "resume_after_sleep m = io_then (require_root m) (io_then (acquire_guard m)
     (io_bind (discover_hardware m) (\<lambda>hw.
        io_then (resume_fans m hw) (io_then (resume_nvidia m hw)
          (io_map_err (De_context ''post-resume ENEK lighting restore'') (restore_cached_enek_lighting m))))))"

section \<open>Fan sessions\<close>

datatype fan_session_state =
    Session_automatic
  | Pending_mutation
  | Session_manual
  | Maximum_awaiting_response
  | Persistent_maximum
  | Emergency_maximum

definition response_delivered_to :: "fan_session_state \<Rightarrow> fan_session_state" where
  "response_delivered_to s = (if s = Maximum_awaiting_response then Persistent_maximum else s)"

definition needs_thermal_watchdog :: "fan_session_state \<Rightarrow> bool" where
  "needs_thermal_watchdog s \<longleftrightarrow> s = Pending_mutation \<or> s = Session_manual"

definition requires_auto_on_disconnect :: "fan_session_state \<Rightarrow> bool" where
  "requires_auto_on_disconnect s \<longleftrightarrow> s = Pending_mutation \<or> s = Session_manual
     \<or> s = Maximum_awaiting_response \<or> s = Emergency_maximum"

section \<open>The shared runtime\<close>

text \<open>
  What all client threads share under the runtime mutex. \<open>sh_fans\<close> is not program state: it
  records every fan transaction with its success, and every failsafe that could not restore Auto
  (which the program reports on its error output).
\<close>

datatype fan_event = Fan_applied fan_setting bool | Failsafe_failed

record 'e shared =
  sh_world :: "'e world"
  sh_memory :: "memory_hardware_info option"
  sh_active :: bool
  sh_next :: nat
  sh_owner :: "nat option"
  sh_fans :: "fan_event list"

definition on_world :: "('e world, 'x, 'a) io \<Rightarrow> ('e shared, 'x, 'a) io" where
  "on_world f = (\<lambda>s. case f (sh_world s) of (r, w) \<Rightarrow> (r, s\<lparr>sh_world := w\<rparr>))"

definition update :: "('s \<Rightarrow> 's) \<Rightarrow> ('s, 'x, unit) io" where
  "update f = (\<lambda>s. (Inr (), f s))"

definition claim_fan_command :: "nat \<Rightarrow> string list \<Rightarrow> nat option \<Rightarrow> (string + unit) \<times> nat option" where
  "claim_fan_command client args owner =
     (if \<not> is_fan_command args \<and> \<not> is_profile_command args then (Inr (), owner)
      else if (case owner of Some c \<Rightarrow> c \<noteq> client | None \<Rightarrow> False) \<and> \<not> is_fan_override args
      then (Inl ''another client owns manual fan control; Auto or Maximum can safely override it'', owner)
      else (Inr (), Some client))"

definition release_unleased_fans :: "nat \<Rightarrow> fan_session_state \<Rightarrow> nat option \<Rightarrow> nat option" where
  "release_unleased_fans client s owner = (if owner = Some client \<and> \<not> requires_auto_on_disconnect s then None else owner)"

text \<open>Runtime maintenance; errors are reported on the error output only.\<close>

definition activate :: "'e machine \<Rightarrow> ('e shared, 'x, unit) io" where
  "activate m = (\<lambda>s. if sh_active s then (Inr (), s)
     else io_then (update (\<lambda>s. s\<lparr>sh_active := True\<rparr>)) (io_bind (io_ok (on_world (restore_cached_enek_lighting m))) (\<lambda>_. io_ret ())) s)"

definition record_reconciliation :: "'e machine \<Rightarrow> daemon_error + unit \<Rightarrow> ('e shared, 'x, unit) io" where
  "record_reconciliation m r = io_bind (on_world (os_now m)) (\<lambda>now.
     update (\<lambda>s. s\<lparr>sh_next := now + (if is_ok r then NVIDIA_RECONCILE_POLL else NVIDIA_RECONCILE_RETRY)\<rparr>))"

text \<open>The guard shared by both polls; \<open>||\<close> reads the clock only when the first two tests pass.\<close>

definition reconciliation_due :: "'e machine \<Rightarrow> ('e shared, 'x, bool) io" where
  "reconciliation_due m = (\<lambda>s. if \<not> sh_active s then (Inr False, s)
     else io_bind (on_world (pending_exists m)) (\<lambda>pending. if \<not> pending then io_ret False
       else io_bind (on_world (os_now m)) (\<lambda>now. io_ret (sh_next s \<le> now))) s)"

definition poll_with :: "'e machine \<Rightarrow> acer_hardware \<Rightarrow> ('e shared, 'x, unit) io" where
  "poll_with m hw = io_bind (reconciliation_due m) (\<lambda>due. if \<not> due then io_ret ()
     else io_try (on_world (reconcile_pending_nvidia m hw)) (record_reconciliation m))"

definition poll_with_discovery :: "'e machine \<Rightarrow> ('e shared, 'x, unit) io" where
  "poll_with_discovery m = io_bind (reconciliation_due m) (\<lambda>due. if \<not> due then io_ret ()
     else io_try (on_world (io_bind (discover_hardware m) (reconcile_pending_nvidia m))) (record_reconciliation m))"

end
