(* ===== verification/Daemon.thy ===== *)
theory Daemon
  imports Daemon_State
begin

text \<open>
  \<open>src/daemon.rs\<close>, the client threads: the commands, the thermal watchdog, and the sections of
  \<open>serve_client\<close> between which the runtime mutex is released. A section runs on the shared runtime
  and the thread's own session. The interleaving of the threads is the step relation at the end.
\<close>

record session =
  ss_hardware :: acer_hardware
  ss_fan :: fan_session_state
  ss_negotiated :: bool
  ss_maintenance :: bool
  ss_pending :: string

type_synonym ('e, 'a) ss_io = "('e shared \<times> session, daemon_error, 'a) io"

definition on_shared :: "('e shared, 'x, 'a) io \<Rightarrow> ('e shared \<times> session, 'x, 'a) io" where
  "on_shared f = (\<lambda>(s, c). case f s of (r, s') \<Rightarrow> (r, (s', c)))"

definition machine_io :: "('e world, 'x, 'a) io \<Rightarrow> ('e shared \<times> session, 'x, 'a) io" where
  "machine_io f = on_shared (on_world f)"

definition set_fan_session :: "fan_session_state \<Rightarrow> ('e shared \<times> session, 'x, unit) io" where
  "set_fan_session f = (\<lambda>(s, c). (Inr (), (s, c\<lparr>ss_fan := f\<rparr>)))"

definition with_session :: "(session \<Rightarrow> ('e shared \<times> session, 'x, 'a) io) \<Rightarrow> ('e shared \<times> session, 'x, 'a) io" where
  "with_session f = (\<lambda>(s, c). f c (s, c))"

text \<open>A fan transaction of the daemon, recorded with its success.\<close>

definition apply_fans :: "'e machine \<Rightarrow> acer_hardware \<Rightarrow> fan_setting \<Rightarrow> ('e shared \<times> session, hardware_error, unit) io" where
  "apply_fans m hw setting = (\<lambda>(s, c). case apply_fan_setting (mc_fs m) hw setting (sh_world s) of (r, w) \<Rightarrow>
     (case r of Inl x \<Rightarrow> Inl x | Inr _ \<Rightarrow> Inr (),
      (s\<lparr>sh_world := w, sh_fans := sh_fans s @ [Fan_applied setting (is_ok r)]\<rparr>, c)))"

section \<open>Capabilities\<close>

definition collect_control_capabilities :: "'e machine \<Rightarrow> acer_hardware \<Rightarrow> ('e world, 'x, control_capabilities) io" where
  "collect_control_capabilities m hw = io_bind (capabilities (mc_fs m) hw) (\<lambda>found.
     io_bind (if is_acer hw then discover_all (mc_fs m) (mc_hid m) else io_ret []) (\<lambda>controllers.
     io_bind (if is_acer hw then io_ok (platform_discover_at (mc_fs m) WMI_DEVICES) else io_ret None) (\<lambda>controls.
     io_bind (case controls of Some pc \<Rightarrow> fs_query (platform_read_capabilities (mc_fs m) pc)
         | None \<Rightarrow> io_ret \<lparr>cap_battery_limit = False, cap_battery_calibration = False, cap_usb_off_charging = False,
             cap_keyboard_timeout = False, cap_boot_sound = False, cap_lcd_override = False, cap_rear_logo = False\<rparr>) (\<lambda>platform.
       io_ret \<lparr>cc_vendor = hc_vendor found, cc_product = hc_product found, cc_reference_model = hc_reference_model found,
         cc_profiles = hc_profiles found, cc_fans = hc_fans found,
         cc_lighting = concat (map controller_devices controllers), cc_platform = platform\<rparr>))))"

definition capabilities_line :: "'e machine \<Rightarrow> acer_hardware \<Rightarrow> ('e, string) dm_io" where
  "capabilities_line m hw = io_bind (collect_control_capabilities m hw) (\<lambda>caps.
     io_of (res_map_err De_control (encode_control_capabilities (mc_caps_to_json m) caps)))"

definition probe_line :: "'e machine \<Rightarrow> ('e, string) dm_io" where
  "probe_line m = io_then (require_root m) (io_bind (discover_hardware m) (capabilities_line m))"

section \<open>Profile command\<close>

definition preserve_verified_profile_after_fan_refresh :: "'r \<Rightarrow> 'x + unit \<Rightarrow> 'r \<times> 'x option" where
  "preserve_verified_profile_after_fan_refresh receipt refresh =
     (receipt, (case refresh of Inl x \<Rightarrow> Some x | Inr _ \<Rightarrow> None))"

definition uses_gaming_fans :: "'e machine \<Rightarrow> acer_hardware \<Rightarrow> ('e world, 'x, bool) io" where
  "uses_gaming_fans m hw = io_bind (capabilities (mc_fs m) hw) (\<lambda>caps.
     io_ret (fc_backend (hc_fans caps) = Some Fan_acer_gaming_wmi))"

text \<open>Gaming-WMI profiles need automatic fans: another mode is taken back to Auto first.\<close>

definition reconcile_gaming_fans :: "'e machine \<Rightarrow> acer_hardware \<Rightarrow> ('e, unit) ss_io" where
  "reconcile_gaming_fans m hw = io_bind (machine_io (io_map_err
       (\<lambda>x. De_context ''cannot reconcile Gaming-WMI fan mode before profile write'' (De_hardware x)) (read_fan_state (mc_fs m) hw))) (\<lambda>st.
     if ch_mode (fan_cpu st) = Some Mode_automatic \<and> ch_mode (fan_gpu st) = Some Mode_automatic then io_ret ()
     else io_then (set_fan_session Pending_mutation)
       (io_then (io_map_err De_hardware (apply_fans m hw Set_automatic)) (set_fan_session Session_automatic)))"

definition reference_receipt :: "tuning_state \<Rightarrow> profile_apply_receipt" where
  "reference_receipt t = \<lparr>pr_firmware_profile = profile_as_sysfs (ts_profile t), pr_gpu_offsets = ts_gpu_offsets t,
     pr_gpu_pstate_count = ts_gpu_pstate_count t, pr_gpu_capability_available = (ts_gpu_capability_error t = None),
     pr_power = map_option (\<lambda>p. \<lparr>pp_enforced_limit_mw = pt_enforced_limit p, pp_maximum_limit_mw = pt_maximum_limit p,
       pp_clock_event_reasons = pt_clock_event_reasons p\<rparr>) (ts_power t)\<rparr>"

definition apply_profile :: "'e machine \<Rightarrow> acer_hardware \<Rightarrow> string \<Rightarrow> ('e, profile_apply_receipt) dm_io" where
  "apply_profile m hw profile = (if is_reference_model hw then
       io_bind (io_of (res_map_err De_hardware (profile_from_sysfs profile))) (\<lambda>p.
       io_bind (io_map_err De_tuning (set_profile_once m hw p)) (\<lambda>t.
       io_bind (if ts_gpu_capability_error t = None
           then io_bind (io_ok (remove_pending_nvidia_reconciliation m NVIDIA_RESUME_PENDING)) (\<lambda>_. io_ret ()) else io_ret ()) (\<lambda>_.
         io_ret (reference_receipt t))))
     else io_then (io_map_err De_hardware (set_profile_raw (mc_fs m) hw profile))
       (io_bind (io_map_err De_hardware (current_profile_raw (mc_fs m) hw)) (\<lambda>raw.
         io_ret \<lparr>pr_firmware_profile = raw, pr_gpu_offsets = Gpu_unavailable, pr_gpu_pstate_count = 0,
           pr_gpu_capability_available = False, pr_power = None\<rparr>)))"

definition execute_profile :: "'e machine \<Rightarrow> acer_hardware \<Rightarrow> string \<Rightarrow> ('e, string) ss_io" where
  "execute_profile m hw profile = io_bind (machine_io (uses_gaming_fans m hw)) (\<lambda>gaming.
     io_then (if gaming then reconcile_gaming_fans m hw else io_ret ())
     (io_bind (machine_io (apply_profile m hw profile)) (\<lambda>receipt.
      io_bind (machine_io (uses_gaming_fans m hw)) (\<lambda>gaming.
       if gaming then io_try (machine_io (read_fan_state (mc_fs m) hw)) (\<lambda>r.
           case preserve_verified_profile_after_fan_refresh receipt (case r of Inl x \<Rightarrow> Inl x | Inr _ \<Rightarrow> Inr ()) of
             (kept, warning) \<Rightarrow> io_ret (encode_profile_apply_receipt kept))
       else io_ret (encode_profile_apply_receipt receipt)))))"

section \<open>Fan commands\<close>

definition execute_fans :: "'e machine \<Rightarrow> acer_hardware \<Rightarrow> fan_setting \<Rightarrow> fan_session_state \<Rightarrow> string \<Rightarrow> ('e, string) ss_io" where
  "execute_fans m hw setting confirmed reply = io_then (io_map_err De_hardware (apply_fans m hw setting))
     (io_then (set_fan_session confirmed) (io_ret reply))"

definition execute_manual :: "'e machine \<Rightarrow> acer_hardware \<Rightarrow> string \<Rightarrow> string \<Rightarrow> ('e, string) ss_io" where
  "execute_manual m hw cpu gpu = io_bind (io_of (parse_manual_percent cpu)) (\<lambda>c.
     io_bind (io_of (parse_manual_percent gpu)) (\<lambda>g.
       execute_fans m hw (Set_manual c g) Session_manual (''fan=manual cpu='' @ show_word c @ '' gpu='' @ show_word g)))"

text \<open>\<open>["FAN", ..]\<close>\<close>

definition unsupported :: "('w, daemon_error, 'a) io" where
  "unsupported = io_err (De_message ''unsupported command'')"

definition execute_fan :: "'e machine \<Rightarrow> acer_hardware \<Rightarrow> string list \<Rightarrow> ('e, string) ss_io" where
  "execute_fan m hw rest = (case rest of
      [op] \<Rightarrow> if op = ''AUTO'' then execute_fans m hw Set_automatic Session_automatic ''fan=auto''
        else if op = ''MAXIMUM'' then execute_fans m hw Set_maximum Maximum_awaiting_response ''fan=maximum'' else unsupported
    | [op, cpu, gpu] \<Rightarrow> if op = ''MANUAL'' then execute_manual m hw cpu gpu else unsupported
    | _ \<Rightarrow> unsupported)"

section \<open>Lighting and platform commands\<close>

definition find_device :: "string \<Rightarrow> lighting_controller list \<Rightarrow> (lighting_controller \<times> lighting_device) option" where
  "find_device ident controllers = (case List.map_filter (\<lambda>c. map_option (Pair c)
       (find (\<lambda>d. ld_id d = ident) (controller_devices c))) controllers of [] \<Rightarrow> None | x # _ \<Rightarrow> Some x)"

definition execute_lighting_apply ::
  "'e machine \<Rightarrow> string \<Rightarrow> string \<Rightarrow> string \<Rightarrow> string \<Rightarrow> string \<Rightarrow> string \<Rightarrow> ('e, string) dm_io" where
  "execute_lighting_apply m ident mode brightness speed color zones =
     io_bind (io_of (parse_lighting_mode mode)) (\<lambda>mo.
     io_bind (io_of (parse_color color)) (\<lambda>co.
     io_bind (io_of (parse_zone_colors zones)) (\<lambda>zs.
     io_bind (io_of (parse_arg_u8 brightness ''lighting brightness'')) (\<lambda>br.
     io_bind (io_of (parse_arg_u8 speed ''lighting speed'')) (\<lambda>sp.
     if br > 100 \<or> sp > 9 then io_err (De_message ''lighting brightness must be 0..=100 and speed must be 0..=9'')
     else io_bind (discover_all (mc_fs m) (mc_hid m)) (\<lambda>controllers.
       case find_device ident controllers of
         None \<Rightarrow> io_err (De_message ''lighting device is unavailable'')
       | Some (c, d) \<Rightarrow> (let request = \<lparr>lr_target = ld_target d, lr_mode = mo, lr_brightness = br, lr_speed = sp,
             lr_color = co, lr_zone_colors = zs\<rparr> in
           io_bind (io_map_err De_lighting (controller_apply (mc_fs m) (mc_hid m) c request)) (\<lambda>status.
           io_bind (if controller_backend c = Enek5130_hid
               then io_bind (io_ok (save_cached_lighting m request)) (\<lambda>_. io_ret ()) else io_ret ()) (\<lambda>_.
             io_ret (encode_lighting_status status))))))))))"

definition execute_lighting_power :: "'e machine \<Rightarrow> string \<Rightarrow> string \<Rightarrow> ('e, string) dm_io" where
  "execute_lighting_power m ident v = io_bind (io_of (parse_on_off v ''lighting power'')) (\<lambda>enabled.
     io_bind (discover_all (mc_fs m) (mc_hid m)) (\<lambda>controllers.
       case find_device ident controllers of
         None \<Rightarrow> io_err (De_message ''lighting device is unavailable'')
       | Some (c, d) \<Rightarrow> io_bind (io_map_err De_lighting (controller_set_power (mc_fs m) c (ld_target d) enabled))
           (\<lambda>status. io_ret (encode_lighting_status status))))"

definition execute_lighting :: "'e machine \<Rightarrow> string list \<Rightarrow> ('e, string) dm_io" where
  "execute_lighting m rest = (case rest of
      [op, ident, v] \<Rightarrow> if op = ''POWER'' then execute_lighting_power m ident v else unsupported
    | [op, ident, mode, brightness, speed, color, zones] \<Rightarrow>
        if op = ''APPLY'' then execute_lighting_apply m ident mode brightness speed color zones else unsupported
    | _ \<Rightarrow> unsupported)"

definition on_platform :: "'e machine \<Rightarrow> (platform_controls \<Rightarrow> ('e, platform_state) dm_io) \<Rightarrow> ('e, string) dm_io" where
  "on_platform m f = io_bind (io_map_err De_platform (platform_discover_at (mc_fs m) WMI_DEVICES)) (\<lambda>pc.
     io_bind (f pc) (\<lambda>s. io_ret (encode_state s)))"

definition platform_toggle ::
  "'e machine \<Rightarrow> ('e sysfs \<Rightarrow> platform_controls \<Rightarrow> bool \<Rightarrow> ('e, platform_state) pf_io) \<Rightarrow> string \<Rightarrow> string \<Rightarrow> ('e, string) dm_io" where
  "platform_toggle m setter v label = on_platform m (\<lambda>pc. io_bind (io_of (parse_on_off v label)) (\<lambda>b.
     io_map_err De_platform (setter (mc_fs m) pc b)))"

definition execute_calibration :: "'e machine \<Rightarrow> string \<Rightarrow> ('e, string) dm_io" where
  "execute_calibration m v = io_bind (if v = ''START'' then io_ret True else if v = ''STOP'' then io_ret False
       else io_err (De_message ''battery calibration must be START or STOP'')) (\<lambda>b.
     on_platform m (\<lambda>pc. io_map_err De_platform (set_battery_calibration (mc_fs m) pc b)))"

definition execute_usb_charging :: "'e machine \<Rightarrow> string \<Rightarrow> ('e, string) dm_io" where
  "execute_usb_charging m v = io_bind (io_of (parse_arg_u8 v ''USB charging threshold'')) (\<lambda>t.
     io_bind (io_of (res_map_err De_platform (from_threshold t))) (\<lambda>mode.
       on_platform m (\<lambda>pc. io_map_err De_platform (set_usb_charging (mc_fs m) pc mode))))"

definition execute_rear_logo :: "'e machine \<Rightarrow> string \<Rightarrow> string \<Rightarrow> string \<Rightarrow> ('e, string) dm_io" where
  "execute_rear_logo m color brightness v = io_bind (io_of (parse_on_off v ''rear logo power'')) (\<lambda>enabled.
     io_bind (io_of (parse_arg_u8 brightness ''rear logo brightness'')) (\<lambda>br.
     io_bind (io_of (parse_color color)) (\<lambda>co.
       on_platform m (\<lambda>pc. io_map_err De_platform (set_rear_logo (mc_fs m) pc
         \<lparr>lg_enabled = enabled, lg_brightness = br, lg_color = co\<rparr>)))))"

definition execute_platform :: "'e machine \<Rightarrow> string list \<Rightarrow> ('e, string) dm_io" where
  "execute_platform m args = (case args of
      [op] \<Rightarrow> if op = ''GET'' then on_platform m (\<lambda>pc. io_map_err De_platform (platform_read (mc_fs m) pc))
        else unsupported
    | [op, v] \<Rightarrow> if op = ''BATTERY_LIMIT'' then platform_toggle m set_battery_limit v ''battery limit''
        else if op = ''BATTERY_CALIBRATION'' then execute_calibration m v
        else if op = ''USB_CHARGING'' then execute_usb_charging m v
        else if op = ''KEYBOARD_TIMEOUT'' then platform_toggle m set_keyboard_timeout v ''keyboard timeout''
        else if op = ''BOOT_SOUND'' then platform_toggle m set_boot_sound v ''boot sound''
        else if op = ''LCD_OVERRIDE'' then platform_toggle m set_lcd_override v ''LCD override''
        else unsupported
    | [op, color, brightness, v] \<Rightarrow> if op = ''REAR_LOGO'' then execute_rear_logo m color brightness v
        else unsupported
    | _ \<Rightarrow> unsupported)"

section \<open>Queries\<close>

definition execute_hardware_get :: "'e machine \<Rightarrow> ('e shared, 'x, string) io" where
  "execute_hardware_get m = (\<lambda>s. case sh_memory s of
       Some i \<Rightarrow> (Inr (encode_memory_hardware i), s)
     | None \<Rightarrow> io_bind (on_world (read_privileged_memory_hardware (mc_fs m))) (\<lambda>i.
         io_then (update (\<lambda>s. s\<lparr>sh_memory := Some i\<rparr>)) (io_ret (encode_memory_hardware i))) s)"

definition execute_capabilities :: "'e machine \<Rightarrow> ('e, string) ss_io" where
  "execute_capabilities m = io_bind (machine_io (discover_hardware m)) (\<lambda>hw.
     io_bind (machine_io (collect_control_capabilities m hw)) (\<lambda>caps.
       io_then (update (\<lambda>(s, c). (s, c\<lparr>ss_hardware := hw\<rparr>)))
         (io_of (res_map_err De_control (encode_control_capabilities (mc_caps_to_json m) caps)))))"

definition execute_keyboard_get :: "'e machine \<Rightarrow> ('e, string) dm_io" where
  "execute_keyboard_get m = io_map_err De_lighting (io_bind (keyboard_discover (mc_fs m)) (\<lambda>k.
     io_bind (keyboard_read (mc_fs m) k) (\<lambda>st. io_ret (encode_lighting_state st))))"

definition execute_diagnostics :: "'e machine \<Rightarrow> acer_hardware \<Rightarrow> ('e, string) dm_io" where
  "execute_diagnostics m hw = io_bind (collect_diagnostics (mc_sha256 m) (mc_fs m) (mc_hid m) (hw_root hw)) (\<lambda>d.
     io_of (res_map_err De_message (encode_diagnostics (mc_diag_json m) d)))"

section \<open>Dispatch\<close>

definition dispatch_command :: "'e machine \<Rightarrow> acer_hardware \<Rightarrow> string list \<Rightarrow> ('e, string) ss_io" where
  "dispatch_command m hw args = (case args of
      [] \<Rightarrow> unsupported
    | c # rest \<Rightarrow>
        if c = ''PING'' \<and> rest = [] then io_ret ''ready''
        else if c = ''DIAG'' \<and> rest = [''PASSIVE''] then machine_io (execute_diagnostics m hw)
        else if c = ''CAPS'' \<and> rest = [] then execute_capabilities m
        else if c = ''HARDWARE'' \<and> rest = [''GET''] then on_shared (execute_hardware_get m)
        else if c = ''FAN'' then execute_fan m hw rest
        else if c = ''PROFILE'' then (case rest of [profile] \<Rightarrow> execute_profile m hw profile | _ \<Rightarrow> unsupported)
        else if c = ''RGB'' \<and> rest = [''GET''] then machine_io (execute_keyboard_get m)
        else if c = ''LIGHTING'' then machine_io (execute_lighting m rest)
        else if c = ''PLATFORM'' then machine_io (execute_platform m rest)
        else unsupported)"

definition refreshes_hardware :: "string list \<Rightarrow> bool" where
  "refreshes_hardware args \<longleftrightarrow> (case args of [] \<Rightarrow> False | c # _ \<Rightarrow> c = ''FAN'' \<or> c = ''PROFILE'')"

definition refresh_session_hardware :: "'e machine \<Rightarrow> ('e, unit) ss_io" where
  "refresh_session_hardware m = with_session (\<lambda>c. io_bind (machine_io (io_map_err De_hardware (refreshed (mc_fs m) (ss_hardware c)))) (\<lambda>hw.
     update (\<lambda>(s, c). (s, c\<lparr>ss_hardware := hw\<rparr>))))"

definition execute_command :: "'e machine \<Rightarrow> string \<Rightarrow> ('e, string) ss_io" where
  "execute_command m command = (let args = split_ascii_ws command in
     io_then (if is_fan_command args then set_fan_session Pending_mutation else io_ret ())
     (with_session (\<lambda>c. if command_is_mutation args \<and> \<not> is_acer (ss_hardware c)
        then io_err (De_message ''Acer firmware mutations are unavailable on this system'')
        else io_then (if command_is_mutation args then machine_io (acquire_guard m) else io_ret ())
          (io_then (if refreshes_hardware args then refresh_session_hardware m else io_ret ())
            (with_session (\<lambda>c. dispatch_command m (ss_hardware c) args))))))"

end
