(* ===== verification/Daemon_Serve.thy ===== *)
theory Daemon_Serve
  imports Daemon
begin

text \<open>
  \<open>src/daemon.rs\<close>, \<open>serve_client\<close>: the thermal watchdog, the sections a client thread runs under
  the runtime mutex, and the interleaving of the threads. A thread is a \<open>phase\<close>: between two
  phases the mutex is free, so any other thread may take a step there. A step is a function of the
  thread's phase, the instant at which it reads the clock, and whether its response could be
  written; the step relation \<open>daemon_step\<close> chooses those, the thread, the connections and what the
  rest of the machine does in between.
\<close>

section \<open>The thermal watchdog\<close>

definition CPU_LIMIT :: int where "CPU_LIMIT = 92000"
definition GPU_LIMIT :: int where "GPU_LIMIT = 84000"

definition unsafe_temperature :: "int \<Rightarrow> 'x + int \<Rightarrow> bool" where
  "unsafe_temperature limit r \<longleftrightarrow> (case r of Inl _ \<Rightarrow> True | Inr t \<Rightarrow> limit \<le> t)"

definition enforce_thermal_watchdog :: "'e machine \<Rightarrow> ('e, unit) ss_io" where
  "enforce_thermal_watchdog m = with_session (\<lambda>c. if \<not> needs_thermal_watchdog (ss_fan c) then io_ret ()
     else io_try (machine_io (read_acer_temp_millidegrees (mc_fs m) (ss_hardware c) 1)) (\<lambda>cpu.
       io_try (machine_io (read_acer_temp_millidegrees (mc_fs m) (ss_hardware c) 2)) (\<lambda>gpu.
       if \<not> (unsafe_temperature CPU_LIMIT cpu \<or> unsafe_temperature GPU_LIMIT gpu) then io_ret ()
       else io_then (set_fan_session Emergency_maximum)
         (io_then (machine_io (acquire_guard m))
           (io_map_err (\<lambda>x. De_context ''thermal failsafe failed'' (De_hardware x)) (apply_fans m (ss_hardware c) Set_maximum))))))"

section \<open>Sections under the runtime mutex\<close>

definition serve_head :: "'e machine \<Rightarrow> nat \<Rightarrow> ('e, unit) ss_io" where
  "serve_head m client = io_then (with_session (\<lambda>c. if ss_maintenance c then on_shared (poll_with m (ss_hardware c)) else io_ret ()))
     (\<lambda>(s, c). if sh_owner s = Some client then enforce_thermal_watchdog m (s, c)
        else if requires_auto_on_disconnect (ss_fan c) then set_fan_session Session_automatic (s, c)
        else (Inr (), (s, c)))"

definition maintain_before :: "'e machine \<Rightarrow> string list \<Rightarrow> ('e, unit) ss_io" where
  "maintain_before m args = (if \<not> command_activates_runtime_maintenance args then io_ret ()
     else io_then (update (\<lambda>(s, c). (s, c\<lparr>ss_maintenance := True\<rparr>)))
       (io_then (on_shared (activate m)) (with_session (\<lambda>c. on_shared (poll_with m (ss_hardware c))))))"

definition serve_dispatch :: "'e machine \<Rightarrow> nat \<Rightarrow> string \<Rightarrow> ('e, string) ss_io" where
  "serve_dispatch m client command = (\<lambda>(s, c). let args = split_ascii_ws command in
     case claim_fan_command client args (sh_owner s) of
       (Inl x, owner) \<Rightarrow> (Inl (De_message x), (s\<lparr>sh_owner := owner\<rparr>, c))
     | (Inr _, owner) \<Rightarrow> io_then (maintain_before m args) (execute_command m command) (s\<lparr>sh_owner := owner\<rparr>, c))"

definition serve_after :: "nat \<Rightarrow> bool \<Rightarrow> 'e shared \<times> session \<Rightarrow> 'e shared \<times> session" where
  "serve_after client succeeded = (\<lambda>(s, c). if sh_owner s \<noteq> Some client then (s, c)
     else (let f = (if succeeded then response_delivered_to (ss_fan c) else ss_fan c) in
       (s\<lparr>sh_owner := release_unleased_fans client f (sh_owner s)\<rparr>, c\<lparr>ss_fan := f\<rparr>)))"

text \<open>The failsafe of a closing thread; its failure goes to the error output.\<close>

definition failsafe_on_disconnect :: "'e machine \<Rightarrow> ('e, unit) ss_io" where
  "failsafe_on_disconnect m = with_session (\<lambda>c.
     io_then (io_map_err (De_context ''failsafe Auto could not acquire mutation lock after disconnect'') (machine_io (acquire_guard m)))
       (io_map_err (\<lambda>x. De_context ''failsafe Auto failed after disconnect'' (De_hardware x))
         (io_bind (machine_io (refreshed (mc_fs m) (ss_hardware c))) (\<lambda>hw. apply_fans m hw Set_automatic))))"

definition serve_cleanup :: "'e machine \<Rightarrow> nat \<Rightarrow> ('e, unit) ss_io" where
  "serve_cleanup m client = (\<lambda>(s, c). let owns = (sh_owner s = Some client) in
     if owns \<and> requires_auto_on_disconnect (ss_fan c)
     then (case failsafe_on_disconnect m (s, c) of
         (Inr _, (s', c')) \<Rightarrow> (Inr (), (s'\<lparr>sh_owner := None\<rparr>, c'))
       | (Inl x, (s', c')) \<Rightarrow> (Inl x, (s'\<lparr>sh_owner := None, sh_fans := sh_fans s' @ [Failsafe_failed]\<rparr>, c')))
     else (Inr (), (if owns then s\<lparr>sh_owner := None\<rparr> else s, c)))"

section \<open>A client thread\<close>

datatype continuation = Then_head | Then_close | Then_after bool

datatype phase =
    At_head
  | At_read
  | At_dispatch string
  | At_respond "string + string" continuation
  | At_after bool
  | At_close "daemon_error + unit"

record client =
  cl_session :: session
  cl_phase :: phase
  cl_input :: "read_event list"
  cl_connected :: nat

definition CLIENT_HANDSHAKE_TIMEOUT :: nat where "CLIENT_HANDSHAKE_TIMEOUT = 5000000000"

definition retry_kind :: "io_error \<Rightarrow> bool" where
  "retry_kind x \<longleftrightarrow> io_error_kind x = WouldBlock \<or> io_error_kind x = TimedOut"

text \<open>What becomes of a decoded line: the phase, and whether the protocol is negotiated afterwards.\<close>

definition accept_line :: "bool \<Rightarrow> string + string \<Rightarrow> phase \<times> bool" where
  "accept_line negotiated line = (case line of
      Inl x \<Rightarrow> (At_respond (Inl x) Then_head, negotiated)
    | Inr command \<Rightarrow> (case protocol_accept negotiated (str_trim command) of
          (Handshake_accepted r, n) \<Rightarrow> (At_respond (Inr r) Then_head, n)
        | (Handshake_rejected x, n) \<Rightarrow> (At_respond (Inl x) Then_close, n)
        | (Dispatch, n) \<Rightarrow> (At_dispatch (str_trim command), n)))"

definition read_step :: "nat \<Rightarrow> client \<Rightarrow> client" where
  "read_step now cl = (let c = cl_session cl in
     if \<not> ss_negotiated c \<and> CLIENT_HANDSHAKE_TIMEOUT \<le> now - cl_connected cl
     then cl\<lparr>cl_phase := At_close (Inl (De_message ''control protocol handshake timed out''))\<rparr>
     else (case decoder_read (ss_pending c) (cl_input cl) of (r, pending, rest) \<Rightarrow>
       (case (case r of
            Inl x \<Rightarrow> (if retry_kind x then At_head else At_close (Inl (De_io ''read failed'' x)), ss_negotiated c)
          | Inr None \<Rightarrow> (At_close (Inr ()), ss_negotiated c)
          | Inr (Some line) \<Rightarrow> accept_line (ss_negotiated c) line) of
        (p, n) \<Rightarrow> cl\<lparr>cl_session := c\<lparr>ss_pending := pending, ss_negotiated := n\<rparr>, cl_phase := p, cl_input := rest\<rparr>)))"

definition continue_after :: "continuation \<Rightarrow> phase" where
  "continue_after k = (case k of Then_head \<Rightarrow> At_head | Then_close \<Rightarrow> At_close (Inr ()) | Then_after b \<Rightarrow> At_after b)"

definition client_step :: "'e machine \<Rightarrow> nat \<Rightarrow> bool \<Rightarrow> nat \<Rightarrow> 'e shared \<times> client \<Rightarrow> 'e shared \<times> client option" where
  "client_step m now written ident = (\<lambda>(s, cl). case cl_phase cl of
      At_head \<Rightarrow> (case serve_head m ident (s, cl_session cl) of (r, (s', c)) \<Rightarrow>
          (s', Some (cl\<lparr>cl_session := c, cl_phase := (case r of Inr _ \<Rightarrow> At_read | Inl x \<Rightarrow> At_close (Inl x))\<rparr>)))
    | At_read \<Rightarrow> (s, Some (read_step now cl))
    | At_dispatch command \<Rightarrow> (case serve_dispatch m ident command (s, cl_session cl) of (r, (s', c)) \<Rightarrow>
          (s', Some (cl\<lparr>cl_session := c, cl_phase := At_respond (res_map_err (mc_show m) r) (Then_after (is_ok r))\<rparr>)))
    | At_respond r k \<Rightarrow> (s, Some (cl\<lparr>cl_phase := (if written then continue_after k else At_close (Inl (De_message ''response write failed'')))\<rparr>))
    | At_after succeeded \<Rightarrow> (case serve_after ident succeeded (s, cl_session cl) of (s', c) \<Rightarrow>
          (s', Some (cl\<lparr>cl_session := c, cl_phase := At_head\<rparr>)))
    | At_close r \<Rightarrow> (case serve_cleanup m ident (s, cl_session cl) of (q, (s', c)) \<Rightarrow> (s', None)))"

section \<open>The daemon\<close>

record 'e system =
  sy_shared :: "'e shared"
  sy_last_id :: nat
  sy_clients :: "nat \<Rightarrow> client option"

definition fresh_session :: "acer_hardware \<Rightarrow> session" where
  "fresh_session hw = \<lparr>ss_hardware = hw, ss_fan = Session_automatic, ss_negotiated = False, ss_maintenance = False, ss_pending = []\<rparr>"

text \<open>
  One accepted connection: the identity is spent first; without a permit the client is refused,
  and a worker that cannot discover the hardware ends at once.
\<close>

definition admit :: "'e machine \<Rightarrow> read_event list \<Rightarrow> nat \<Rightarrow> 'e system \<Rightarrow> 'e system" where
  "admit m input now y = (let ident = sy_last_id y + 1 in
     if card (dom (sy_clients y)) \<ge> MAX_CONTROL_CLIENTS then y\<lparr>sy_last_id := ident\<rparr>
     else case on_world (discover_hardware m) (sy_shared y) of
       (Inr hw, s) \<Rightarrow> y\<lparr>sy_shared := s, sy_last_id := ident, sy_clients := (sy_clients y)(ident \<mapsto>
           \<lparr>cl_session = fresh_session hw, cl_phase = At_head, cl_input = input, cl_connected = now\<rparr>)\<rparr>
     | (Inl _, s) \<Rightarrow> y\<lparr>sy_shared := s, sy_last_id := ident\<rparr>)"

definition run_client :: "'e machine \<Rightarrow> nat \<Rightarrow> bool \<Rightarrow> nat \<Rightarrow> 'e system \<Rightarrow> 'e system" where
  "run_client m now written ident y = (case sy_clients y ident of None \<Rightarrow> y
     | Some cl \<Rightarrow> (case client_step m now written ident (sy_shared y, cl) of
         (s, cl') \<Rightarrow> y\<lparr>sy_shared := s, sy_clients := (sy_clients y)(ident := cl')\<rparr>))"

text \<open>
  \<open>Elsewhere\<close> is everything outside the daemon: the firmware, the driver and other processes.
\<close>

inductive daemon_step :: "'e machine \<Rightarrow> 'e system \<Rightarrow> 'e system \<Rightarrow> bool" for m where
  Connect: "sy_last_id y < u64_max \<Longrightarrow> daemon_step m y (admit m input now y)"
| Poll: "poll_with_discovery m (sy_shared y) = (r :: daemon_error + unit, s) \<Longrightarrow> daemon_step m y (y\<lparr>sy_shared := s\<rparr>)"
| Thread: "sy_clients y ident \<noteq> None \<Longrightarrow> daemon_step m y (run_client m now written ident y)"
| Elsewhere: "daemon_step m y (y\<lparr>sy_shared := (sy_shared y)\<lparr>sh_world := (sh_world (sy_shared y))\<lparr>wenv := e\<rparr>\<rparr>\<rparr>)"

inductive_cases daemon_stepE: "daemon_step m y z"

definition initial_system :: "'e world \<Rightarrow> nat \<Rightarrow> 'e system" where
  "initial_system w now = \<lparr>sy_shared = \<lparr>sh_world = w, sh_memory = None, sh_active = False, sh_next = now, sh_owner = None, sh_fans = []\<rparr>,
     sy_last_id = 0, sy_clients = Map.empty\<rparr>"

inductive reachable :: "'e machine \<Rightarrow> 'e system \<Rightarrow> bool" for m where
  Start: "reachable m (initial_system w now)"
| Next: "reachable m y \<Longrightarrow> daemon_step m y z \<Longrightarrow> reachable m z"

end
