(* ===== verification/Daemon_Safety.thy ===== *)
theory Daemon_Safety
  imports Daemon_Serve
begin

text \<open>
  What the client threads guarantee about the fans: the frame of every section (which of them can
  touch the owner, the fan log and the session state), the attendance invariant over all
  interleavings, the exclusivity of the manual lease, and the thermal watchdog.
\<close>

section \<open>Frames\<close>

text \<open>\<open>quiet\<close>: the owner, the fan log and the session's fan state are left alone.\<close>

definition quiet_shared :: "'e shared \<Rightarrow> 'e shared \<Rightarrow> bool" where
  "quiet_shared s s' \<longleftrightarrow> sh_owner s' = sh_owner s \<and> sh_fans s' = sh_fans s"

definition quiet :: "'e shared \<times> session \<Rightarrow> 'e shared \<times> session \<Rightarrow> bool" where
  "quiet x y \<longleftrightarrow> quiet_shared (fst x) (fst y) \<and> ss_fan (snd y) = ss_fan (snd x)"

lemma quiet_shared_rel [simp]: "reflp quiet_shared" "transp quiet_shared"
  by (auto simp: quiet_shared_def reflp_def transp_def)

lemma quiet_rel [simp]: "reflp quiet" "transp quiet"
  by (auto simp: quiet_def quiet_shared_def reflp_def transp_def)

lemma quiet_refl [simp]: "quiet x x" by (simp add: quiet_def quiet_shared_def)

lemma on_world_quiet [io_keeps_intros]: "io_keeps quiet_shared (on_world f)"
  by (auto simp: io_keeps_def on_world_def quiet_shared_def split: prod.splits)

lemma on_shared_quiet [io_keeps_intros]: "io_keeps quiet_shared f \<Longrightarrow> io_keeps quiet (on_shared f)"
  by (auto simp: io_keeps_def on_shared_def quiet_def split: prod.splits) (metis snd_conv)+

lemma machine_io_quiet [io_keeps_intros]: "io_keeps quiet (machine_io f)"
  unfolding machine_io_def by (intro io_keeps_intros)

lemma with_session_keeps: "(\<And>c. io_keeps R (f c)) \<Longrightarrow> io_keeps R (with_session f)"
  by (auto simp: io_keeps_def with_session_def)

lemma update_hardware_quiet: "io_keeps quiet (update (\<lambda>(s, c). (s, c\<lparr>ss_hardware := hw\<rparr>)))"
  by (auto simp: io_keeps_def update_def quiet_def quiet_shared_def)

lemma update_maintenance_quiet: "io_keeps quiet (update (\<lambda>(s, c). (s, c\<lparr>ss_maintenance := b\<rparr>)))"
  by (auto simp: io_keeps_def update_def quiet_def quiet_shared_def)

lemma io_keeps_io_case: "io_keeps R (f (fst p) (snd p)) \<Longrightarrow> io_keeps R (case p of (a, b) \<Rightarrow> f a b)"
  by (simp add: case_prod_unfold)

lemma activate_quiet: "io_keeps quiet_shared (activate m)"
proof -
  have on: "io_keeps quiet_shared (update (\<lambda>s. s\<lparr>sh_active := True\<rparr>))"
    by (simp add: io_keeps_def update_def quiet_shared_def)
  have "io_keeps quiet_shared (io_then (update (\<lambda>s. s\<lparr>sh_active := True\<rparr>))
      (io_bind (io_ok (on_world (restore_cached_enek_lighting m))) (\<lambda>_. io_ret ())))"
    by (intro io_keeps_intros on) simp_all
  then show ?thesis unfolding activate_def io_keeps_def by (auto simp: quiet_shared_def)
qed

lemma reconciliation_due_quiet: "io_keeps quiet_shared (reconciliation_due m)"
proof -
  have "io_keeps quiet_shared (io_bind (on_world (pending_exists m)) (\<lambda>pending. if \<not> pending then io_ret False
       else io_bind (on_world (os_now m)) (\<lambda>now. io_ret (t \<le> now))))" for t
    by (intro io_keeps_intros) simp_all
  then show ?thesis unfolding reconciliation_due_def io_keeps_def by (auto simp: quiet_shared_def)
qed

lemma record_reconciliation_quiet: "io_keeps quiet_shared (record_reconciliation m r)"
  unfolding record_reconciliation_def
  by (intro io_keeps_intros) (simp_all add: io_keeps_def update_def quiet_shared_def)

lemma poll_quiet: "io_keeps quiet_shared (poll_with m hw)" "io_keeps quiet_shared (poll_with_discovery m)"
  unfolding poll_with_def poll_with_discovery_def
  by (intro io_keeps_intros reconciliation_due_quiet record_reconciliation_quiet; simp)+

lemma hardware_get_quiet: "io_keeps quiet_shared (execute_hardware_get m)"
proof -
  have upd: "io_keeps quiet_shared (update (\<lambda>s. s\<lparr>sh_memory := x\<rparr>))" for x
    by (simp add: io_keeps_def update_def quiet_shared_def)
  have "io_keeps quiet_shared (io_bind (on_world (read_privileged_memory_hardware (mc_fs m))) (\<lambda>i.
         io_then (update (\<lambda>s. s\<lparr>sh_memory := Some i\<rparr>)) (io_ret (encode_memory_hardware i))))"
    by (intro io_keeps_intros upd) simp_all
  then show ?thesis unfolding execute_hardware_get_def io_keeps_def
    by (auto simp: quiet_shared_def split: option.splits)
qed

lemma capabilities_quiet: "io_keeps quiet (execute_capabilities m)"
  unfolding execute_capabilities_def
  by (intro io_keeps_intros update_hardware_quiet) simp_all

lemma refresh_quiet: "io_keeps quiet (refresh_session_hardware m)"
  unfolding refresh_session_hardware_def
  by (intro with_session_keeps io_keeps_intros update_hardware_quiet) simp_all

lemma maintain_quiet: "io_keeps quiet (maintain_before m args)"
  unfolding maintain_before_def
  by (intro io_keeps_intros with_session_keeps update_maintenance_quiet activate_quiet poll_quiet) simp_all

section \<open>Attended fans\<close>

text \<open>
  The fans are \<open>unsettled\<close> when the last fan transaction was Manual, or did not succeed: then they
  are not known to be under firmware control or at full speed. A failsafe that failed has been
  reported and nothing in the program owns the fans any more.
\<close>

definition unsettled :: "fan_event list \<Rightarrow> bool" where
  "unsettled es \<longleftrightarrow> es \<noteq> [] \<and> (case last es of
      Failsafe_failed \<Rightarrow> False
    | Fan_applied setting ok \<Rightarrow> \<not> ok \<or> (setting \<noteq> Set_automatic \<and> setting \<noteq> Set_maximum))"

text \<open>The session states in which a thread still has to bring the fans back.\<close>

definition leased :: "fan_session_state \<Rightarrow> bool" where
  "leased f \<longleftrightarrow> f = Pending_mutation \<or> f = Session_manual \<or> f = Emergency_maximum"

lemma leased_requires: "leased f \<Longrightarrow> requires_auto_on_disconnect f"
  by (auto simp: leased_def requires_auto_on_disconnect_def)

definition attended :: "'e shared \<times> session \<Rightarrow> bool" where
  "attended x \<longleftrightarrow> (unsettled (sh_fans (fst x)) \<longrightarrow> leased (ss_fan (snd x)))"

lemma attended_quiet: "quiet x y \<Longrightarrow> attended x \<Longrightarrow> attended y"
  by (simp add: quiet_def quiet_shared_def attended_def)

definition lease_kept :: "'e shared \<times> session \<Rightarrow> 'e shared \<times> session \<Rightarrow> bool" where
  "lease_kept x y \<longleftrightarrow> sh_owner (fst y) = sh_owner (fst x) \<and> (attended x \<longrightarrow> attended y)"

lemma lease_kept_rel [simp]: "reflp lease_kept" "transp lease_kept"
  by (auto simp: lease_kept_def reflp_def transp_def)

lemma quiet_kept: "quiet x y \<Longrightarrow> lease_kept x y"
  by (simp add: lease_kept_def attended_quiet) (simp add: quiet_def quiet_shared_def)

lemma lease_kept_trans: "lease_kept x y \<Longrightarrow> lease_kept y z \<Longrightarrow> lease_kept x z"
  by (simp add: lease_kept_def)

lemma quiet_lease_kept: "io_keeps quiet f \<Longrightarrow> io_keeps lease_kept f"
  by (simp add: io_keeps_def quiet_kept)

text \<open>
  \<open>settles f\<close>: started in a leased session, the run of \<open>f\<close> keeps the owner and leaves the fans
  settled or the session leased.
\<close>

definition settles :: "('e shared \<times> session, 'x, 'a) io \<Rightarrow> bool" where
  "settles f \<longleftrightarrow> (\<forall>x. leased (ss_fan (snd x)) \<longrightarrow> lease_kept x (snd (f x)))"

lemma leased_attended: "leased (ss_fan (snd x)) \<Longrightarrow> attended x"
  by (simp add: attended_def)

lemma settles_quiet: "io_keeps quiet f \<Longrightarrow> settles f"
  using quiet_lease_kept unfolding settles_def io_keeps_def by blast

lemma settles_bind:
  assumes "io_keeps quiet f" and "\<And>a. settles (g a)" shows "settles (io_bind f g)"
  unfolding settles_def
proof (intro allI impI)
  fix x :: "'a shared \<times> session" assume pending: "leased (ss_fan (snd x))"
  obtain r y where f: "f x = (r, y)" by (cases "f x")
  have q: "quiet x y" using io_keepsD [OF assms(1) f] .
  have "lease_kept x (snd (io_bind f g x))"
  proof (cases r)
    case (Inl e)
    with f have "snd (io_bind f g x) = y" by (simp add: io_bind_apply)
    with quiet_kept [OF q] show ?thesis by simp
  next
    case (Inr a)
    have "leased (ss_fan (snd y))" using q pending by (simp add: quiet_def)
    then have "lease_kept y (snd (g a y))" using assms(2) unfolding settles_def by blast
    moreover have "snd (io_bind f g x) = snd (g a y)" using f Inr by (simp add: io_bind_apply)
    ultimately show ?thesis using lease_kept_trans [OF quiet_kept [OF q]] by simp
  qed
  then show "lease_kept x (snd (io_bind f g x))" .
qed

lemma settles_then: "io_keeps quiet f \<Longrightarrow> settles g \<Longrightarrow> settles (io_then f g)"
  by (simp add: io_then_def settles_bind)

lemma settles_with_session: "(\<And>c. settles (f c)) \<Longrightarrow> settles (with_session f)"
  unfolding settles_def with_session_def by (auto simp: split_beta)

lemma settles_if: "(b \<Longrightarrow> settles f) \<Longrightarrow> (\<not> b \<Longrightarrow> settles g) \<Longrightarrow> settles (if b then f else g)"
  by simp

section \<open>Fan transactions\<close>

lemma apply_fans_cases:
  obtains s' where "apply_fans m hw setting (s, c) = (Inr (), (s', c))" "sh_owner s' = sh_owner s"
      "sh_fans s' = sh_fans s @ [Fan_applied setting True]"
  | e s' where "apply_fans m hw setting (s, c) = (Inl e, (s', c))" "sh_owner s' = sh_owner s"
      "sh_fans s' = sh_fans s @ [Fan_applied setting False]"
proof -
  obtain r w where "apply_fan_setting (mc_fs m) hw setting (sh_world s) = (r, w)" by fastforce
  then show ?thesis using that by (cases r) (auto simp: apply_fans_def)
qed

text \<open>The state a confirmed setting leads to.\<close>

definition confirms :: "fan_setting \<Rightarrow> fan_session_state \<Rightarrow> bool" where
  "confirms setting f \<longleftrightarrow> setting = Set_automatic \<or> setting = Set_maximum \<or> leased f"

lemma apply_then_confirm_settles:
  assumes "confirms setting confirmed"
  shows "settles (io_then (io_map_err g (apply_fans m hw setting)) (set_fan_session confirmed))"
  unfolding settles_def
proof (intro allI impI)
  fix x :: "'a shared \<times> session" assume pending: "leased (ss_fan (snd x))"
  obtain s c where x: "x = (s, c)" by (cases x)
  show "lease_kept x (snd (io_then (io_map_err g (apply_fans m hw setting)) (set_fan_session confirmed) x))"
    unfolding x
  proof (cases rule: apply_fans_cases [of m hw setting s c])
    case (1 s')
    then show "lease_kept (s, c) (snd (io_then (io_map_err g (apply_fans m hw setting)) (set_fan_session confirmed) (s, c)))"
      using assms by (auto simp: io_then_apply io_map_err_apply set_fan_session_def lease_kept_def attended_def
          unsettled_def confirms_def)
  next
    case (2 e s')
    then show "lease_kept (s, c) (snd (io_then (io_map_err g (apply_fans m hw setting)) (set_fan_session confirmed) (s, c)))"
      using pending x by (auto simp: io_then_apply io_map_err_apply lease_kept_def attended_def leased_def)
  qed
qed

lemma io_then_ret_snd: "snd (io_then f (io_then g (io_ret a)) x) = snd (io_then f g x)"
  by (auto simp: io_then_apply io_ret_apply split: prod.splits sum.splits)

lemma execute_fans_settles:
  assumes "confirms setting confirmed"
  shows "settles (execute_fans m hw setting confirmed reply)"
  using apply_then_confirm_settles [OF assms, where g = De_hardware]
  unfolding settles_def execute_fans_def io_then_ret_snd .

lemma execute_manual_settles: "settles (execute_manual m hw cpu gpu)"
  unfolding execute_manual_def
  by (intro settles_bind io_keeps_intros execute_fans_settles) (simp_all add: confirms_def leased_def)

section \<open>Commands\<close>

lemma leased_run:
  assumes "leased f" and "settles g"
  shows "sh_owner (fst (snd (io_then (set_fan_session f) g x))) = sh_owner (fst x)"
    and "attended (snd (io_then (set_fan_session f) g x))"
proof -
  obtain s c where x: "x = (s, c)" by (cases x) auto
  let ?y = "(s, c\<lparr>ss_fan := f\<rparr>)"
  have run: "io_then (set_fan_session f) g x = g ?y"
    by (simp add: io_then_apply set_fan_session_def x)
  have "lease_kept ?y (snd (g ?y))" "attended ?y" using assms by (auto simp: settles_def attended_def)
  then show "sh_owner (fst (snd (io_then (set_fan_session f) g x))) = sh_owner (fst x)"
    and "attended (snd (io_then (set_fan_session f) g x))"
    unfolding run by (auto simp: lease_kept_def x)
qed

lemma set_leased_kept: "leased f \<Longrightarrow> settles g \<Longrightarrow> io_keeps lease_kept (io_then (set_fan_session f) g)"
  unfolding io_keeps_def lease_kept_def by (intro allI conjI impI leased_run)

lemmas machine_kept = quiet_lease_kept [OF machine_io_quiet]

lemma reconcile_gaming_kept: "io_keeps lease_kept (reconcile_gaming_fans m hw)"
  unfolding reconcile_gaming_fans_def
  by (intro io_keeps_intros machine_kept set_leased_kept apply_then_confirm_settles) (simp_all add: confirms_def leased_def)

lemma execute_profile_kept: "io_keeps lease_kept (execute_profile m hw profile)"
  unfolding execute_profile_def preserve_verified_profile_after_fan_refresh_def prod.case
  by (intro io_keeps_intros machine_kept reconcile_gaming_kept) simp_all

definition plain_command :: "string list \<Rightarrow> bool" where
  "plain_command args \<longleftrightarrow> \<not> is_fan_command args \<and> \<not> is_profile_command args"

lemma fan_command_iff: "is_fan_command args \<longleftrightarrow> (\<exists>rest. args = ''FAN'' # rest \<and>
     (rest = [''AUTO''] \<or> rest = [''MAXIMUM''] \<or> (\<exists>x y. rest = [''MANUAL'', x, y])))"
  unfolding is_fan_command_def is_fan_override_def
  by (cases args; simp; cases "tl args"; simp split: list.split) blast+

lemma profile_command_iff: "is_profile_command args \<longleftrightarrow> (\<exists>p. args = [''PROFILE'', p])"
  unfolding is_profile_command_def by (auto split: list.splits)

lemma unsupported_keeps [io_keeps_intros]: "reflp R \<Longrightarrow> io_keeps R unsupported"
  unfolding unsupported_def by (rule io_keeps_err)

lemma execute_fan_plain: "\<not> is_fan_command (''FAN'' # rest) \<Longrightarrow> execute_fan m hw rest = unsupported"
  unfolding execute_fan_def fan_command_iff by (auto split: list.split)

lemma execute_fan_settles: "is_fan_command (''FAN'' # rest) \<Longrightarrow> settles (execute_fan m hw rest)"
  unfolding execute_fan_def fan_command_iff
  by (auto intro!: execute_fans_settles execute_manual_settles simp: confirms_def)

lemma dispatch_plain_quiet:
  assumes "plain_command args" shows "io_keeps quiet (dispatch_command m hw args)"
proof (cases args)
  case (Cons c rest)
  have fan: "c = ''FAN'' \<Longrightarrow> execute_fan m hw rest = unsupported"
    using assms execute_fan_plain Cons by (auto simp: plain_command_def)
  have profile: "c = ''PROFILE'' \<Longrightarrow> (case rest of [p] \<Rightarrow> execute_profile m hw p | _ \<Rightarrow> unsupported) = unsupported"
    using assms Cons by (auto simp: plain_command_def profile_command_iff split: list.split)
  show ?thesis
    unfolding dispatch_command_def Cons list.case
    by (intro io_keeps_if io_keeps_intros capabilities_quiet hardware_get_quiet)
      (simp_all only: fan profile, simp_all add: unsupported_keeps)
qed (simp add: dispatch_command_def unsupported_keeps)

lemma dispatch_profile:
  "is_profile_command args \<Longrightarrow> \<exists>p. dispatch_command m hw args = execute_profile m hw p"
  unfolding profile_command_iff dispatch_command_def by auto

lemma dispatch_fans:
  assumes "is_fan_command args" shows "settles (dispatch_command m hw args)"
proof -
  obtain rest where "args = ''FAN'' # rest" using assms by (auto simp: fan_command_iff)
  with assms show ?thesis using execute_fan_settles by (simp add: dispatch_command_def)
qed

definition guarded_dispatch :: "'e machine \<Rightarrow> string list \<Rightarrow> ('e, string) ss_io" where
  "guarded_dispatch m args = with_session (\<lambda>c. if command_is_mutation args \<and> \<not> is_acer (ss_hardware c)
        then io_err (De_message ''Acer firmware mutations are unavailable on this system'')
        else io_then (if command_is_mutation args then machine_io (acquire_guard m) else io_ret ())
          (io_then (if refreshes_hardware args then refresh_session_hardware m else io_ret ())
            (with_session (\<lambda>c. dispatch_command m (ss_hardware c) args))))"

lemma execute_command_guarded:
  "execute_command m command = io_then
     (if is_fan_command (split_ascii_ws command) then set_fan_session Pending_mutation else io_ret ())
     (guarded_dispatch m (split_ascii_ws command))"
  by (simp add: execute_command_def guarded_dispatch_def Let_def)

lemma io_then_ret: "io_then (io_ret ()) f = f"
  by (rule ext) (simp add: io_then_apply io_ret_apply)

lemma io_keeps_weaken: "(\<And>x y. Q x y \<Longrightarrow> R x y) \<Longrightarrow> io_keeps Q f \<Longrightarrow> io_keeps R f"
  by (simp add: io_keeps_def)

lemma guarded_keeps:
  assumes "reflp R" "transp R" "\<And>hw. io_keeps R (dispatch_command m hw args)" "\<And>x y. quiet x y \<Longrightarrow> R x y"
  shows "io_keeps R (guarded_dispatch m args)"
  unfolding guarded_dispatch_def
  by (intro with_session_keeps io_keeps_if io_keeps_then io_keeps_err io_keeps_ret
      assms(1-3) io_keeps_weaken [OF assms(4) machine_io_quiet] io_keeps_weaken [OF assms(4) refresh_quiet])

lemma guarded_settles:
  assumes "is_fan_command args" shows "settles (guarded_dispatch m args)"
  unfolding guarded_dispatch_def
  by (intro settles_with_session settles_if settles_then dispatch_fans [OF assms] settles_quiet [OF io_keeps_err]
      io_keeps_if machine_io_quiet refresh_quiet io_keeps_ret) simp_all

lemma execute_plain_quiet: "plain_command (split_ascii_ws command) \<Longrightarrow> io_keeps quiet (execute_command m command)"
  unfolding execute_command_guarded
  by (simp add: plain_command_def io_then_ret) (rule guarded_keeps; simp add: dispatch_plain_quiet plain_command_def)

lemma execute_profile_command_kept:
  assumes "is_profile_command (split_ascii_ws command)" shows "io_keeps lease_kept (execute_command m command)"
proof -
  have "\<not> is_fan_command (split_ascii_ws command)" using assms by (auto simp: profile_command_iff fan_command_iff)
  moreover have "io_keeps lease_kept (guarded_dispatch m (split_ascii_ws command))"
  proof (rule guarded_keeps)
    show "io_keeps lease_kept (dispatch_command m hw (split_ascii_ws command))" for hw
      using dispatch_profile [OF assms, of m hw] execute_profile_kept by auto
  qed (simp_all add: quiet_kept)
  ultimately show ?thesis unfolding execute_command_guarded by (simp add: io_then_ret)
qed

lemma execute_fan_command:
  assumes "is_fan_command (split_ascii_ws command)"
  shows "sh_owner (fst (snd (execute_command m command x))) = sh_owner (fst x)" "attended (snd (execute_command m command x))"
  unfolding execute_command_guarded using assms leased_run [OF _ guarded_settles [OF assms], of Pending_mutation]
  by (simp_all add: leased_def)

section \<open>Sections of a thread\<close>

lemma watchdog_kept: "io_keeps lease_kept (enforce_thermal_watchdog m)"
proof -
  have "settles (io_then (machine_io (acquire_guard m))
      (io_map_err (\<lambda>x. De_context ''thermal failsafe failed'' (De_hardware x)) (apply_fans m hw Set_maximum)))" for hw
  proof -
    have "settles (io_map_err g (apply_fans m hw Set_maximum))" for g :: "hardware_error \<Rightarrow> daemon_error"
      unfolding settles_def
    proof (intro allI impI)
      fix x :: "'a shared \<times> session" assume "leased (ss_fan (snd x))"
      then show "lease_kept x (snd (io_map_err g (apply_fans m hw Set_maximum) x))"
        by (cases x, cases rule: apply_fans_cases [of m hw Set_maximum "fst x" "snd x"])
          (auto simp: io_map_err_apply lease_kept_def attended_def)
    qed
    then show ?thesis by (intro settles_then machine_io_quiet)
  qed
  then show ?thesis
    unfolding enforce_thermal_watchdog_def
    by (intro with_session_keeps io_keeps_if io_keeps_try io_keeps_ret machine_kept set_leased_kept) (simp_all add: leased_def)
qed

text \<open>Maintenance reports its errors and never fails.\<close>

lemma on_world_total: "io_total f \<Longrightarrow> io_total (on_world f)"
  by (auto simp: io_total_def on_world_def split: prod.splits) (metis fst_conv)

lemma on_shared_total: "io_total f \<Longrightarrow> io_total (on_shared f)"
  by (auto simp: io_total_def on_shared_def split: prod.splits) (metis fst_conv)

lemma with_session_total: "(\<And>c. io_total (f c)) \<Longrightarrow> io_total (with_session f)"
  by (auto simp: io_total_def with_session_def)

lemma update_total: "io_total (update f)"
  by (simp add: io_total_def update_def)

lemma os_now_total: "io_total (os_now m)"
  by (simp add: io_total_def os_now_def split: prod.split)

lemma reconciliation_due_total: "io_total (reconciliation_due m)"
proof -
  have "io_total (io_bind (on_world (pending_exists m)) (\<lambda>pending. if \<not> pending then io_ret False
       else io_bind (on_world (os_now m)) (\<lambda>now. io_ret (t \<le> now))))" for t
    unfolding pending_exists_def by (auto intro!: io_total_bind on_world_total os_now_total)
  then show ?thesis unfolding io_total_def reconciliation_due_def by auto
qed

lemma poll_total: "io_total (poll_with m hw)"
  unfolding poll_with_def record_reconciliation_def
  by (auto intro!: io_total_bind io_total_try reconciliation_due_total on_world_total os_now_total update_total)

lemma activate_total: "io_total (activate m)"
proof -
  have "io_total (io_then (update (\<lambda>s. s\<lparr>sh_active := True\<rparr>))
      (io_bind (io_ok (on_world (restore_cached_enek_lighting m))) (\<lambda>_. io_ret ())))"
    by (intro io_total_then io_total_bind io_total_ok io_total_ret update_total)
  then show ?thesis unfolding io_total_def activate_def by auto
qed

lemma maintain_total: "fst (maintain_before m args x) = Inr ()"
proof -
  have "io_total (maintain_before m args)"
    unfolding maintain_before_def
    by (auto intro!: io_total_then with_session_total on_shared_total activate_total poll_total update_total)
  then have "is_ok (fst (maintain_before m args x))" unfolding io_total_def by blast
  then show ?thesis by (cases "fst (maintain_before m args x)") simp_all
qed

text \<open>What one thread's step does to the shared state and its own fan state.\<close>

definition looked_after :: "'e shared \<Rightarrow> (nat \<Rightarrow> fan_session_state option) \<Rightarrow> bool" where
  "looked_after s F \<longleftrightarrow> (unsettled (sh_fans s) \<longrightarrow> (\<exists>i f. sh_owner s = Some i \<and> F i = Some f \<and> leased f))"

lemma looked_after_owner:
  "looked_after s F \<Longrightarrow> sh_owner s = Some i \<Longrightarrow> F i = Some (ss_fan c) \<Longrightarrow> attended (s, c)"
  by (auto simp: looked_after_def attended_def)

lemma looked_after_kept:
  "attended (s', c') \<Longrightarrow> sh_owner s' = Some i \<Longrightarrow> looked_after s' (F(i \<mapsto> ss_fan c'))"
  by (auto simp: looked_after_def attended_def)

lemma looked_after_other:
  assumes "looked_after s F" "sh_owner s \<noteq> Some i" "sh_owner s' = sh_owner s" "sh_fans s' = sh_fans s"
  shows "looked_after s' (F(i := x))"
  using assms by (auto simp: looked_after_def)

lemma looked_after_same:
  assumes "looked_after s F" "F i = Some (ss_fan c)" "quiet (s, c) (s', c')"
  shows "looked_after s' (F(i \<mapsto> ss_fan c'))"
  using assms by (auto simp: looked_after_def quiet_def quiet_shared_def)

lemma serve_head_looked_after:
  assumes inv: "looked_after s F" and F: "F i = Some (ss_fan c)" and run: "serve_head m i (s, c) = (r, (s', c'))"
  shows "looked_after s' (F(i \<mapsto> ss_fan c'))"
proof -
  let ?poll = "with_session (\<lambda>c. if ss_maintenance c then on_shared (poll_with m (ss_hardware c)) else io_ret ())
    :: ('a, unit) ss_io"
  have poll: "io_keeps quiet ?poll"
    by (intro with_session_keeps io_keeps_if on_shared_quiet poll_quiet io_keeps_ret) simp
  obtain q s1 c1 where p: "?poll (s, c) = (q, (s1, c1))" by (cases "?poll (s, c)") auto
  have q: "quiet (s, c) (s1, c1)" using io_keepsD [OF poll p] .
  have inv1: "looked_after s1 F" and F1: "F i = Some (ss_fan c1)"
    using looked_after_same [OF inv F q] F q by (auto simp: quiet_def fun_upd_idem)
  show ?thesis
  proof (cases q)
    case (Inl x)
    with run p have "s' = s1" "c' = c1" by (simp_all add: serve_head_def io_then_apply)
    with inv1 F1 show ?thesis by (simp add: fun_upd_idem)
  next
    case (Inr u)
    show ?thesis
    proof (cases "sh_owner s1 = Some i")
      case True
      with run p Inr have "enforce_thermal_watchdog m (s1, c1) = (r, (s', c'))"
        by (simp add: serve_head_def io_then_apply)
      then have "lease_kept (s1, c1) (s', c')" by (rule io_keepsD [OF watchdog_kept])
      with True looked_after_owner [OF inv1 True F1] show ?thesis
        by (intro looked_after_kept) (simp_all add: lease_kept_def)
    next
      case False
      with run p Inr have "s' = s1"
        by (auto simp: serve_head_def io_then_apply set_fan_session_def split: if_splits)
      with looked_after_other [OF inv1 False, of s' "Some (ss_fan c')"] show ?thesis by simp
    qed
  qed
qed

lemma claim_cases:
  assumes "claim_fan_command i args owner = (r, owner')"
  obtains "r = Inr ()" "owner' = owner" "plain_command args"
    | "r = Inr ()" "owner' = Some i" "is_fan_command args"
    | "r = Inr ()" "owner' = Some i" "is_profile_command args" "owner = None \<or> owner = Some i"
    | x where "r = Inl x" "owner' = owner"
proof -
  have override: "is_fan_override args \<Longrightarrow> is_fan_command args" by (simp add: is_fan_command_def)
  show ?thesis
  proof (cases "plain_command args")
    case True
    then show ?thesis using assms that(1) by (simp add: claim_fan_command_def plain_command_def)
  next
    case False
    show ?thesis
    proof (cases "(case owner of Some c \<Rightarrow> c \<noteq> i | None \<Rightarrow> False) \<and> \<not> is_fan_override args")
      case True
      then show ?thesis using assms False that(4) by (auto simp: claim_fan_command_def plain_command_def split: if_splits)
    next
      case ok: False
      then have "r = Inr ()" "owner' = Some i" using assms False by (auto simp: claim_fan_command_def plain_command_def split: if_splits)
      then show ?thesis using False ok override that(2,3) by (auto simp: plain_command_def split: option.splits)
    qed
  qed
qed

lemma serve_dispatch_looked_after:
  assumes inv: "looked_after s F" and F: "F i = Some (ss_fan c)" and run: "serve_dispatch m i command (s, c) = (r, (s', c'))"
  shows "looked_after s' (F(i \<mapsto> ss_fan c'))"
proof -
  let ?args = "split_ascii_ws command"
  obtain q owner where claim: "claim_fan_command i ?args (sh_owner s) = (q, owner)" by fastforce
  let ?s = "s\<lparr>sh_owner := owner\<rparr>"
  let ?body = "io_then (maintain_before m ?args) (execute_command m command)"
  have same: "?thesis" if "quiet (s, c) (s', c')" using looked_after_same [OF inv F that] .
  have ok: "?body (?s, c) = (r, (s', c'))" if "q = Inr ()"
    using run claim that by (simp add: serve_dispatch_def Let_def)
  have owned: "?thesis" if "lease_kept (?s, c) (s', c')" "owner = Some i" "attended (?s, c)"
    using that by (intro looked_after_kept) (simp_all add: lease_kept_def)
  from claim show ?thesis
  proof (cases rule: claim_cases)
    case 1
    have "io_keeps quiet ?body" by (intro io_keeps_then maintain_quiet execute_plain_quiet 1) simp
    from io_keepsD [OF this ok [OF 1(1)]] same 1(2) show ?thesis by simp
  next
    case 2
    obtain x where m1: "maintain_before m ?args (?s, c) = (Inr (), x)" using maintain_total by (metis prod.collapse)
    have q1: "quiet (?s, c) x" using io_keepsD [OF maintain_quiet m1] .
    have "execute_command m command x = (r, (s', c'))" using ok [OF 2(1)] m1 by (simp add: io_then_apply)
    with execute_fan_command [OF 2(3), of m x] have "attended (s', c')" "sh_owner s' = sh_owner (fst x)" by simp_all
    moreover have "sh_owner (fst x) = Some i" using q1 2(2) by (simp add: quiet_def quiet_shared_def)
    ultimately show ?thesis by (simp add: looked_after_kept)
  next
    case 3
    have "io_keeps lease_kept ?body"
      by (intro io_keeps_then quiet_lease_kept maintain_quiet execute_profile_command_kept 3) simp
    from io_keepsD [OF this ok [OF 3(1)]] have "lease_kept (?s, c) (s', c')" .
    moreover have "attended (?s, c)"
      using inv F 3(4) by (auto simp: looked_after_def attended_def)
    ultimately show ?thesis using owned 3(2) by blast
  next
    case (4 x)
    then have "s' = s" "c' = c" using run claim by (simp_all add: serve_dispatch_def Let_def)
    then show ?thesis using same by simp
  qed
qed

lemma serve_after_looked_after:
  assumes inv: "looked_after s F" and F: "F i = Some (ss_fan c)" and run: "serve_after i ok (s, c) = (s', c')"
  shows "looked_after s' (F(i \<mapsto> ss_fan c'))"
proof (cases "sh_owner s = Some i")
  case True
  have keep: "f = ss_fan c \<and> requires_auto_on_disconnect f"
    if "leased (ss_fan c)" "f = (if ok then response_delivered_to (ss_fan c) else ss_fan c)" for f
    using that by (auto simp: leased_def response_delivered_to_def requires_auto_on_disconnect_def split: if_splits)
  have "unsettled (sh_fans s) \<Longrightarrow> leased (ss_fan c)" using looked_after_owner [OF inv True F] by (simp add: attended_def)
  with keep [OF _ refl] run True show ?thesis
    by (auto simp: serve_after_def Let_def looked_after_def release_unleased_fans_def split: if_splits)
next
  case False
  with run have "s' = s" "c' = c" by (auto simp: serve_after_def)
  with inv F show ?thesis by (simp add: fun_upd_idem)
qed

lemma failsafe_success_settles:
  assumes "failsafe_on_disconnect m (s, c) = (Inr u, (s', c'))"
  shows "\<not> unsettled (sh_fans s')"
proof -
  have settled: "\<not> unsettled (sh_fans s1)" if "apply_fans m hw Set_automatic x = (Inr v, (s1, c1))" for x hw v s1 c1
    using that by (cases x, cases rule: apply_fans_cases [of m hw Set_automatic "fst x" "snd x"]) (auto simp: unsettled_def)
  from assms show ?thesis
    unfolding failsafe_on_disconnect_def with_session_def
    by (auto simp: io_then_apply io_map_err_apply io_bind_apply dest: settled split: prod.splits sum.splits)
qed

lemma serve_cleanup_looked_after:
  assumes inv: "looked_after s F" and F: "F i = Some (ss_fan c)" and run: "serve_cleanup m i (s, c) = (r, (s', c'))"
  shows "looked_after s' (F(i := None))"
proof (cases "sh_owner s = Some i")
  case False
  with run have "s' = s" by (auto simp: serve_cleanup_def Let_def)
  with looked_after_other [OF inv False, of s' None] show ?thesis by simp
next
  case True
  have "\<not> unsettled (sh_fans s')"
  proof (cases "requires_auto_on_disconnect (ss_fan c)")
    case False
    then have "\<not> unsettled (sh_fans s)"
      using looked_after_owner [OF inv True F] leased_requires by (auto simp: attended_def)
    then show ?thesis using run True False by (auto simp: serve_cleanup_def Let_def)
  next
    case requires: True
    obtain q s1 c1 where fs: "failsafe_on_disconnect m (s, c) = (q, (s1, c1))"
      by (cases "failsafe_on_disconnect m (s, c)") auto
    show ?thesis
    proof (cases q)
      case (Inl x)
      with run True requires fs have "sh_fans s' = sh_fans s1 @ [Failsafe_failed]" by (auto simp: serve_cleanup_def Let_def)
      then show ?thesis by (simp add: unsettled_def)
    next
      case (Inr u)
      with run True requires fs have "sh_fans s' = sh_fans s1" by (auto simp: serve_cleanup_def Let_def)
      with failsafe_success_settles fs Inr show ?thesis by metis
    qed
  qed
  then show ?thesis by (simp add: looked_after_def)
qed

section \<open>The attendance invariant\<close>

definition fan_states :: "(nat \<Rightarrow> client option) \<Rightarrow> nat \<Rightarrow> fan_session_state option" where
  "fan_states cls i = map_option (\<lambda>cl. ss_fan (cl_session cl)) (cls i)"

lemma fan_states_update: "fan_states (cls(i := x)) = (fan_states cls)(i := map_option (\<lambda>cl. ss_fan (cl_session cl)) x)"
  by (rule ext) (simp add: fan_states_def)

lemma read_step_fan: "ss_fan (cl_session (read_step now cl)) = ss_fan (cl_session cl)"
  by (simp add: read_step_def Let_def split: prod.split)

lemma client_step_looked_after:
  assumes inv: "looked_after s F" and F: "F i = Some (ss_fan (cl_session cl))"
    and run: "client_step m now written i (s, cl) = (s', next_client)"
  shows "looked_after s' (F(i := map_option (\<lambda>cl. ss_fan (cl_session cl)) next_client))"
proof -
  have idem: "F(i \<mapsto> ss_fan (cl_session cl)) = F" using F by (simp add: fun_upd_idem)
  show ?thesis
  proof (cases "cl_phase cl")
    case At_head
    with run serve_head_looked_after [OF inv F] show ?thesis by (auto simp: client_step_def split: prod.splits)
  next
    case At_read
    with run inv idem read_step_fan [of now cl] show ?thesis by (auto simp: client_step_def)
  next
    case (At_dispatch command)
    with run serve_dispatch_looked_after [OF inv F] show ?thesis by (auto simp: client_step_def split: prod.splits)
  next
    case (At_respond r k)
    with run inv idem show ?thesis by (auto simp: client_step_def)
  next
    case (At_after b)
    with run serve_after_looked_after [OF inv F] show ?thesis by (auto simp: client_step_def split: prod.splits)
  next
    case (At_close r)
    with run serve_cleanup_looked_after [OF inv F] show ?thesis by (auto simp: client_step_def split: prod.splits)
  qed
qed

text \<open>The owner only changes to the stepping thread or to nobody, and a closed thread owns nothing.\<close>

lemma serve_head_owner: "serve_head m i (s, c) = (r, (s', c')) \<Longrightarrow> sh_owner s' = sh_owner s"
proof -
  assume run: "serve_head m i (s, c) = (r, (s', c'))"
  define same :: "'a shared \<times> session \<Rightarrow> 'a shared \<times> session \<Rightarrow> bool"
    where "same = (\<lambda>x y. sh_owner (fst y) = sh_owner (fst x))"
  have rel: "reflp same" "transp same" by (auto simp: same_def reflp_def transp_def)
  have q: "io_keeps quiet f \<Longrightarrow> io_keeps same f" for f :: "('a, 'x) ss_io"
    by (auto simp: io_keeps_def same_def quiet_def quiet_shared_def)
  have w: "io_keeps same (enforce_thermal_watchdog m)"
    using watchdog_kept [of m] by (auto simp: io_keeps_def same_def lease_kept_def)
  have "io_keeps same (serve_head m i)"
    unfolding serve_head_def
  proof (intro io_keeps_then rel)
    show "io_keeps same (with_session (\<lambda>c. if ss_maintenance c then on_shared (poll_with m (ss_hardware c)) else io_ret ()) :: ('a, unit) ss_io)"
      by (intro q with_session_keeps io_keeps_if on_shared_quiet poll_quiet io_keeps_ret) simp
    show "io_keeps same (\<lambda>(s, c). if sh_owner s = Some i then enforce_thermal_watchdog m (s, c)
        else if requires_auto_on_disconnect (ss_fan c) then set_fan_session Session_automatic (s, c)
        else (Inr (), (s, c)))"
      using w by (auto simp: io_keeps_def same_def set_fan_session_def)
  qed
  from io_keepsD [OF this run] show ?thesis by (simp add: same_def)
qed

lemma serve_dispatch_owner:
  assumes run: "serve_dispatch m i command (s, c) = (r, (s', c'))"
  shows "sh_owner s' = sh_owner s \<or> sh_owner s' = Some i"
proof -
  let ?args = "split_ascii_ws command" and ?body = "io_then (maintain_before m (split_ascii_ws command)) (execute_command m command)"
  obtain q owner where claim: "claim_fan_command i ?args (sh_owner s) = (q, owner)" by fastforce
  have ok: "?body (s\<lparr>sh_owner := owner\<rparr>, c) = (r, (s', c'))" if "q = Inr ()"
    using run claim that by (simp add: serve_dispatch_def Let_def)
  obtain x where m1: "maintain_before m ?args (s\<lparr>sh_owner := owner\<rparr>, c) = (Inr (), x)"
    using maintain_total by (metis prod.collapse)
  have x: "sh_owner (fst x) = owner" using io_keepsD [OF maintain_quiet m1] by (simp add: quiet_def quiet_shared_def)
  have body: "execute_command m command x = (r, (s', c'))" if "q = Inr ()" using ok [OF that] m1 by (simp add: io_then_apply)
  have kept: "sh_owner s' = owner" if k: "io_keeps lease_kept (execute_command m command)" and "q = Inr ()"
    using io_keepsD [OF k body [OF \<open>q = Inr ()\<close>]] x by (simp add: lease_kept_def)
  from claim show ?thesis
  proof (cases rule: claim_cases)
    case 1
    with kept [OF quiet_lease_kept [OF execute_plain_quiet]] show ?thesis by simp
  next
    case 2
    with body x execute_fan_command(1) [OF 2(3), of m x] show ?thesis by simp
  next
    case 3
    with kept [OF execute_profile_command_kept] show ?thesis by simp
  next
    case (4 e)
    with run claim show ?thesis by (simp add: serve_dispatch_def Let_def)
  qed
qed

lemma serve_cleanup_owner: "serve_cleanup m i (s, c) = (r, (s', c')) \<Longrightarrow>
    sh_owner s' \<noteq> Some i \<and> (sh_owner s' = sh_owner s \<or> sh_owner s' = None)"
  by (auto simp: serve_cleanup_def Let_def split: if_splits prod.splits sum.splits)

lemma client_step_owner:
  assumes run: "client_step m now written i (s, cl) = (s', next_client)"
  shows "sh_owner s' = sh_owner s \<or> sh_owner s' = None \<or> sh_owner s' = Some i"
    and "next_client = None \<Longrightarrow> sh_owner s' \<noteq> Some i"
proof -
  have "(sh_owner s' = sh_owner s \<or> sh_owner s' = None \<or> sh_owner s' = Some i) \<and> (next_client = None \<longrightarrow> sh_owner s' \<noteq> Some i)"
  proof (cases "cl_phase cl")
    case At_head
    with run serve_head_owner show ?thesis by (fastforce simp: client_step_def split: prod.splits)
  next
    case (At_dispatch command)
    with run serve_dispatch_owner show ?thesis by (fastforce simp: client_step_def split: prod.splits)
  next
    case (At_after b)
    with run show ?thesis
      by (auto simp: client_step_def serve_after_def Let_def release_unleased_fans_def split: prod.splits if_splits)
  next
    case (At_close r)
    with run serve_cleanup_owner show ?thesis by (fastforce simp: client_step_def split: prod.splits)
  qed (use run in \<open>auto simp: client_step_def\<close>)
  then show "sh_owner s' = sh_owner s \<or> sh_owner s' = None \<or> sh_owner s' = Some i"
    and "next_client = None \<Longrightarrow> sh_owner s' \<noteq> Some i" by blast+
qed

definition daemon_inv :: "'e system \<Rightarrow> bool" where
  "daemon_inv y \<longleftrightarrow> looked_after (sy_shared y) (fan_states (sy_clients y))
     \<and> (\<forall>i \<in> dom (sy_clients y). i \<le> sy_last_id y)
     \<and> (\<forall>i. sh_owner (sy_shared y) = Some i \<longrightarrow> i \<in> dom (sy_clients y))"

lemma quiet_shared_looked_after: "quiet_shared s s' \<Longrightarrow> looked_after s F = looked_after s' F"
  by (auto simp: quiet_shared_def looked_after_def)

lemma daemon_inv_initial: "daemon_inv (initial_system w now)"
  by (simp add: daemon_inv_def initial_system_def looked_after_def unsettled_def)

lemma daemon_inv_quiet:
  "daemon_inv y \<Longrightarrow> quiet_shared (sy_shared y) s \<Longrightarrow> daemon_inv (y\<lparr>sy_shared := s\<rparr>)"
  by (simp add: daemon_inv_def quiet_shared_looked_after [of "sy_shared y" s]) (simp add: quiet_shared_def)

lemma daemon_inv_admit:
  assumes inv: "daemon_inv y" shows "daemon_inv (admit m input now y)"
proof -
  let ?i = "sy_last_id y + 1"
  obtain r s where d: "on_world (discover_hardware m) (sy_shared y) = (r, s)"
    by (cases "on_world (discover_hardware m) (sy_shared y)") auto
  have q: "quiet_shared (sy_shared y) s" using io_keepsD [OF on_world_quiet d] .
  have la: "looked_after (sy_shared y) (fan_states (sy_clients y))" using inv by (simp add: daemon_inv_def)
  have owner: "sh_owner (sy_shared y) \<noteq> Some ?i"
  proof
    assume "sh_owner (sy_shared y) = Some ?i"
    with inv have "?i \<le> sy_last_id y" unfolding daemon_inv_def by blast
    then show False by simp
  qed
  have "looked_after s ((fan_states (sy_clients y))(?i := x))" for x
    using q by (intro looked_after_other [OF la owner]) (simp_all add: quiet_shared_def)
  moreover have "\<forall>i. sh_owner s = Some i \<longrightarrow> i \<in> dom (sy_clients y)"
    using inv q by (simp add: daemon_inv_def quiet_shared_def)
  ultimately show ?thesis
    using inv d quiet_shared_looked_after [OF q, of "fan_states (sy_clients y)"]
    by (cases r; cases "card (dom (sy_clients y)) \<ge> MAX_CONTROL_CLIENTS")
      (auto simp: admit_def Let_def daemon_inv_def fan_states_update split: if_splits intro: le_SucI)
qed

lemma daemon_inv_run:
  assumes inv: "daemon_inv y" shows "daemon_inv (run_client m now written i y)"
proof (cases "sy_clients y i")
  case None
  with inv show ?thesis by (simp add: run_client_def)
next
  case (Some cl)
  obtain s' next_client where run: "client_step m now written i (sy_shared y, cl) = (s', next_client)" by fastforce
  have F: "fan_states (sy_clients y) i = Some (ss_fan (cl_session cl))" using Some by (simp add: fan_states_def)
  have la: "looked_after (sy_shared y) (fan_states (sy_clients y))" using inv by (simp add: daemon_inv_def)
  have "looked_after s' (fan_states ((sy_clients y)(i := next_client)))"
    unfolding fan_states_update by (rule client_step_looked_after [OF la F run])
  moreover have "j \<in> dom ((sy_clients y)(i := next_client))" if "sh_owner s' = Some j" for j
  proof (cases "j = i")
    case True
    with client_step_owner(2) [OF run] that show ?thesis by (cases next_client) auto
  next
    case False
    with client_step_owner(1) [OF run] that have "sh_owner (sy_shared y) = Some j" by auto
    with inv False show ?thesis by (auto simp: daemon_inv_def)
  qed
  moreover have "\<forall>j \<in> dom ((sy_clients y)(i := next_client)). j \<le> sy_last_id y"
    using inv Some by (auto simp: daemon_inv_def split: if_splits)
  ultimately show ?thesis using run Some by (simp add: run_client_def daemon_inv_def)
qed

lemma daemon_inv_step: "daemon_step m y z \<Longrightarrow> daemon_inv y \<Longrightarrow> daemon_inv z"
proof (induction rule: daemon_step.induct)
  case (Poll y r s)
  from daemon_inv_quiet [OF Poll(2) io_keepsD [OF poll_quiet(2) Poll(1)]] show ?case .
next
  case (Elsewhere y e)
  then show ?case by (rule daemon_inv_quiet) (simp add: quiet_shared_def)
qed (auto intro: daemon_inv_admit daemon_inv_run)

lemma reachable_inv: "reachable m y \<Longrightarrow> daemon_inv y"
  by (induction rule: reachable.induct) (auto intro: daemon_inv_initial daemon_inv_step)

text \<open>C19: In every state the daemon can reach, by any interleaving of clients, polls and outside changes, fans that were last set to Manual, or whose last transaction failed, belong to a connected client whose disconnection restores Auto; and the owner of the fans is always a connected client. One case is not counted (\<open>unsettled\<close>): after a disconnection whose failsafe itself failed, the failure has been reported and the fans may stay in Manual without an owner. C22 states when that happens.\<close>

theorem fans_never_abandoned:
  assumes "reachable m y"
  shows "(unsettled (sh_fans (sy_shared y)) \<longrightarrow> (\<exists>i cl. sh_owner (sy_shared y) = Some i \<and> sy_clients y i = Some cl
      \<and> requires_auto_on_disconnect (ss_fan (cl_session cl))))
    \<and> (\<forall>i. sh_owner (sy_shared y) = Some i \<longrightarrow> sy_clients y i \<noteq> None)"
  using reachable_inv [OF assms] leased_requires
  by (fastforce simp: daemon_inv_def looked_after_def fan_states_def)

section \<open>Bounded clients\<close>

definition bounded_clients :: "'e system \<Rightarrow> bool" where
  "bounded_clients y \<longleftrightarrow> finite (dom (sy_clients y)) \<and> card (dom (sy_clients y)) \<le> MAX_CONTROL_CLIENTS
     \<and> dom (sy_clients y) \<subseteq> {1..sy_last_id y} \<and> sy_last_id y \<le> u64_max"

lemma bounded_admit:
  assumes "bounded_clients y" "sy_last_id y < u64_max" shows "bounded_clients (admit m input now y)"
proof (cases "card (dom (sy_clients y)) \<ge> MAX_CONTROL_CLIENTS")
  case True
  with assms show ?thesis by (auto simp: bounded_clients_def admit_def)
next
  case False
  obtain r s where d: "on_world (discover_hardware m) (sy_shared y) = (r, s)"
    by (cases "on_world (discover_hardware m) (sy_shared y)") auto
  have "card (insert (Suc (sy_last_id y)) (dom (sy_clients y))) \<le> MAX_CONTROL_CLIENTS"
    using assms(1) False by (auto simp: bounded_clients_def card_insert_if)
  with assms False d show ?thesis
    by (cases r) (auto simp: bounded_clients_def admit_def Let_def)
qed

lemma bounded_fewer:
  assumes b: "bounded_clients y" and sub: "dom C \<subseteq> dom (sy_clients y)"
  shows "bounded_clients (y\<lparr>sy_shared := s, sy_clients := C\<rparr>)"
proof -
  have fin: "finite (dom (sy_clients y))" using b by (simp add: bounded_clients_def)
  have "card (dom C) \<le> MAX_CONTROL_CLIENTS"
    using b card_mono [OF fin sub] by (simp add: bounded_clients_def)
  then show ?thesis using b sub finite_subset [OF sub fin] by (simp add: bounded_clients_def subset_trans [OF sub])
qed

lemma bounded_run:
  assumes b: "bounded_clients y" shows "bounded_clients (run_client m now written i y)"
proof (cases "sy_clients y i")
  case (Some cl)
  have "dom ((sy_clients y)(i := next_client)) \<subseteq> dom (sy_clients y)" for next_client using Some by auto
  from bounded_fewer [OF b this] show ?thesis by (simp add: run_client_def Some split: prod.split)
qed (simp add: run_client_def b)

lemma bounded_step: "daemon_step m y z \<Longrightarrow> bounded_clients y \<Longrightarrow> bounded_clients z"
  by (induction rule: daemon_step.induct) (simp_all add: bounded_admit bounded_run, simp_all add: bounded_clients_def)

lemma reachable_bounded: "reachable m y \<Longrightarrow> bounded_clients y"
  by (induction rule: reachable.induct) (simp_all add: bounded_step, simp add: bounded_clients_def initial_system_def)

text \<open>In every reachable state at most eight clients are connected, their identities are distinct, lie between 1 and the last identity given out, and that counter never exceeds 64 bits.\<close>

theorem clients_bounded:
  assumes "reachable m y"
  shows "card (dom (sy_clients y)) \<le> 8 \<and> finite (dom (sy_clients y)) \<and> dom (sy_clients y) \<subseteq> {1..sy_last_id y} \<and> sy_last_id y \<le> u64_max"
  using reachable_bounded [OF assms] by (simp add: bounded_clients_def MAX_CONTROL_CLIENTS_def)

section \<open>The lease\<close>

text \<open>C20: While one client owns the fans, a Manual or profile command of any other client changes nothing that is shared - no file, no owner, no fan transaction - and is answered with the error that names the lease.\<close>

theorem lease_exclusive:
  assumes "sh_owner (sy_shared y) = Some j" and "i \<noteq> j" and "sy_clients y i = Some cl" and "cl_phase cl = At_dispatch command"
    and "is_fan_command (split_ascii_ws command) \<or> is_profile_command (split_ascii_ws command)"
    and "\<not> is_fan_override (split_ascii_ws command)"
  shows "run_client m now written i y = y\<lparr>sy_clients := (sy_clients y)(i \<mapsto> cl\<lparr>cl_phase := At_respond
      (Inl (mc_show m (De_message ''another client owns manual fan control; Auto or Maximum can safely override it'')))
      (Then_after False)\<rparr>)\<rparr>"
proof -
  have claim: "claim_fan_command i (split_ascii_ws command) (Some j)
      = (Inl ''another client owns manual fan control; Auto or Maximum can safely override it'', Some j)"
    using assms(2,5,6) by (auto simp: claim_fan_command_def)
  have "sy_shared y\<lparr>sh_owner := Some j\<rparr> = sy_shared y" using assms(1) by simp
  then have "serve_dispatch m i command (sy_shared y, cl_session cl)
      = (Inl (De_message ''another client owns manual fan control; Auto or Maximum can safely override it''),
         (sy_shared y, cl_session cl))"
    using claim assms(1) by (simp add: serve_dispatch_def Let_def)
  then show ?thesis using assms(3,4) by (simp add: run_client_def client_step_def)
qed

section \<open>The thermal watchdog\<close>

text \<open>C21: For a session that holds a manual or unconfirmed mode, a watchdog round changes nothing exactly when both temperatures could be read and are below 92 and 84 degrees; otherwise the session becomes an emergency lease first, and unless the mutation guard is refused, Maximum is requested and the round succeeds only if that transaction was verified.\<close>

theorem watchdog_guards:
  assumes "needs_thermal_watchdog (ss_fan c)"
    and cpu: "read_acer_temp_millidegrees (mc_fs m) (ss_hardware c) 1 (sh_world s) = (cpu, w1)"
    and gpu: "read_acer_temp_millidegrees (mc_fs m) (ss_hardware c) 2 w1 = (gpu, w2)"
    and run: "enforce_thermal_watchdog m (s, c) = (r, (s', c'))"
  shows "if \<exists>t u. cpu = Inr t \<and> gpu = Inr u \<and> t < 92000 \<and> u < 84000
    then r = Inr () \<and> s' = s\<lparr>sh_world := w2\<rparr> \<and> c' = c
    else ss_fan c' = Emergency_maximum \<and> sh_owner s' = sh_owner s
      \<and> ((\<exists>x. fst (mc_lock m (wenv w2)) = Inl x \<and> r = Inl (De_lock x) \<and> sh_fans s' = sh_fans s)
       \<or> (fst (mc_lock m (wenv w2)) = Inr () \<and> sh_fans s' = sh_fans s @ [Fan_applied Set_maximum (is_ok r)]))"
proof -
  let ?safe = "\<exists>t u. cpu = Inr t \<and> gpu = Inr u \<and> t < 92000 \<and> u < 84000"
  let ?s = "s\<lparr>sh_world := w2\<rparr>"
  have safe: "?safe \<longleftrightarrow> \<not> (unsafe_temperature CPU_LIMIT cpu \<or> unsafe_temperature GPU_LIMIT gpu)"
    by (cases cpu; cases gpu) (auto simp: unsafe_temperature_def CPU_LIMIT_def GPU_LIMIT_def)
  have step: "enforce_thermal_watchdog m (s, c) = (if ?safe then (Inr (), (?s, c))
      else io_then (machine_io (acquire_guard m))
        (io_map_err (\<lambda>x. De_context ''thermal failsafe failed'' (De_hardware x)) (apply_fans m (ss_hardware c) Set_maximum))
        (?s, c\<lparr>ss_fan := Emergency_maximum\<rparr>))"
    using assms(1) unfolding safe
    by (simp add: enforce_thermal_watchdog_def with_session_def io_try_apply machine_io_def on_shared_def on_world_def cpu gpu
        io_then_apply set_fan_session_def io_ret_apply)
  show ?thesis
  proof (cases ?safe)
    case True
    with step run show ?thesis by simp
  next
    case False
    obtain q e where lock: "mc_lock m (wenv w2) = (q, e)" by (cases "mc_lock m (wenv w2)") auto
    let ?t = "?s\<lparr>sh_world := w2\<lparr>wenv := e\<rparr>\<rparr>"
    have guard: "machine_io (acquire_guard m) (?s, c') = (case q of Inl x \<Rightarrow> Inl (De_lock x) | Inr u \<Rightarrow> Inr u, (?t, c'))" for c'
      by (cases q) (simp_all add: machine_io_def on_shared_def on_world_def acquire_guard_def os_call_def lock io_map_err_apply)
    have out: "(r, (s', c')) = io_then (machine_io (acquire_guard m))
        (io_map_err (\<lambda>x. De_context ''thermal failsafe failed'' (De_hardware x)) (apply_fans m (ss_hardware c) Set_maximum))
        (?s, c\<lparr>ss_fan := Emergency_maximum\<rparr>)"
      using step run False by (simp only: if_False)
    have "ss_fan c' = Emergency_maximum \<and> sh_owner s' = sh_owner s
      \<and> ((\<exists>x. fst (mc_lock m (wenv w2)) = Inl x \<and> r = Inl (De_lock x) \<and> sh_fans s' = sh_fans s)
       \<or> (fst (mc_lock m (wenv w2)) = Inr () \<and> sh_fans s' = sh_fans s @ [Fan_applied Set_maximum (is_ok r)]))"
    proof (cases q)
      case (Inl x)
      with out guard lock show ?thesis by (simp add: io_then_apply)
    next
      case (Inr u)
      from apply_fans_cases [of m "ss_hardware c" Set_maximum ?t "c\<lparr>ss_fan := Emergency_maximum\<rparr>"]
      show ?thesis using out guard Inr lock by cases (simp_all add: io_then_apply io_map_err_apply)
    qed
    with False show ?thesis by (simp only: if_False)
  qed
qed

section \<open>Disconnection\<close>

text \<open>C22: A closing thread that owns the fans in a state that needs Auto requests Automatic, with the mutation guard and freshly discovered hardware, and either that transaction was verified or the failure is reported; it always gives the fans up and disappears. A thread that does not own the fans, or needs no Auto, closes without a fan transaction.\<close>

theorem disconnect_restores_auto:
  assumes "sy_clients y i = Some cl" and "cl_phase cl = At_close r" and z: "z = run_client m now written i y"
  shows "sy_clients z i = None \<and> sh_owner (sy_shared z) \<noteq> Some i
    \<and> (if sh_owner (sy_shared y) = Some i \<and> requires_auto_on_disconnect (ss_fan (cl_session cl))
       then last (sh_fans (sy_shared z)) = Fan_applied Set_automatic True
         \<or> last (sh_fans (sy_shared z)) = Failsafe_failed
       else sh_fans (sy_shared z) = sh_fans (sy_shared y))"
proof -
  let ?s = "sy_shared y" and ?c = "cl_session cl"
  obtain q s' c' where run: "serve_cleanup m i (?s, ?c) = (q, (s', c'))" by (cases "serve_cleanup m i (?s, ?c)") auto
  have z': "sy_shared z = s'" "sy_clients z i = None"
    using assms run by (simp_all add: run_client_def client_step_def)
  have last: "last (sh_fans s'') = Fan_applied Set_automatic True"
    if "failsafe_on_disconnect m (?s, ?c) = (Inr u, (s'', c''))" for u s'' c''
  proof -
    let ?G = "io_map_err (De_context ''failsafe Auto could not acquire mutation lock after disconnect'') (machine_io (acquire_guard m))"
    let ?R = "machine_io (refreshed (mc_fs m) (ss_hardware ?c))"
    obtain g x where G: "?G (?s, ?c) = (g, x)" by (cases "?G (?s, ?c)") auto
    obtain h x' where R: "?R x = (h, x')" by (cases "?R x") auto
    obtain s3 c3 where x': "x' = (s3, c3)" by (cases x') auto
    have "io_then ?G (io_map_err (\<lambda>x. De_context ''failsafe Auto failed after disconnect'' (De_hardware x))
         (io_bind ?R (\<lambda>hw. apply_fans m hw Set_automatic))) (?s, ?c) = (Inr u, (s'', c''))"
      using that by (simp add: failsafe_on_disconnect_def with_session_def)
    then obtain hw where "h = Inr hw" "apply_fans m hw Set_automatic (s3, c3) = (Inr u, (s'', c''))"
      using G R x' by (auto simp: io_then_apply io_map_err_apply io_bind_apply split: sum.splits prod.splits)
    then show ?thesis by (cases rule: apply_fans_cases [of m hw Set_automatic s3 c3]) auto
  qed
  obtain q' s'' c'' where f: "failsafe_on_disconnect m (?s, ?c) = (q', (s'', c''))"
    by (cases "failsafe_on_disconnect m (?s, ?c)") auto
  have "last (sh_fans s') = Fan_applied Set_automatic True \<or> last (sh_fans s') = Failsafe_failed"
    if "sh_owner ?s = Some i" "requires_auto_on_disconnect (ss_fan ?c)"
    using run f that last by (cases q') (auto simp: serve_cleanup_def Let_def)
  moreover have "sh_fans s' = sh_fans ?s"
    if "\<not> (sh_owner ?s = Some i \<and> requires_auto_on_disconnect (ss_fan ?c))"
    using run that by (auto simp: serve_cleanup_def Let_def split: if_splits)
  ultimately show ?thesis using serve_cleanup_owner [OF run] z' by auto
qed

end
