(* ===== verification/Daemon_Bench.thy ===== *)
theory Daemon_Bench
  imports Daemon_Safety Fan_Safety
begin

text \<open>
  A small laptop for runs of the daemon: a kernel PWM interface whose two mode files keep what is
  written, cool temperatures, and no profile interface. The facts here evaluate discovery, the fan
  transactions and the sections of a client thread on it.
\<close>

section \<open>The bench laptop\<close>

text \<open>The state is the contents of the two mode files.\<close>

definition bench_files :: "string \<times> string \<Rightarrow> string \<Rightarrow> string option" where
  "bench_files e = map_of [(''sys_vendor'', ''Acer''), (''product_name'', ''Nitro''), (''name'', ''acer''),
     (''pwm1_enable'', fst e), (''pwm2_enable'', snd e), (''pwm1'', ''9''), (''pwm2'', ''9''),
     (''temp1_input'', ''9''), (''temp2_input'', ''9'')]"

definition bench_write :: "path \<Rightarrow> string \<Rightarrow> string \<times> string \<Rightarrow> (io_error + unit) \<times> (string \<times> string)" where
  "bench_write p v e = (Inr (), if last p = ''pwm1_enable'' then (v, snd e) else if last p = ''pwm2_enable'' then (fst e, v) else e)"

definition bench_fs :: "(string \<times> string) sysfs" where
  "bench_fs = \<lparr>k_read = \<lambda>p e. (case bench_files e (last p) of None \<Rightarrow> Inl (Os_error ENOENT) | Some v \<Rightarrow> Inr v, e),
     k_write = bench_write, k_create = bench_write,
     k_is_file = \<lambda>p e. bench_files e (last p) \<noteq> None, k_is_dir = \<lambda>p e. False,
     k_read_dir = \<lambda>p e. if last p = ''hwmon'' then Inr [''h0''] else Inl (Os_error ENOENT),
     k_read_link = \<lambda>p e. Inl (Os_error ENOENT), u_upper = id\<rparr>"

definition bench_hwmon :: path where "bench_hwmon = [''sys'', ''class'', ''hwmon'', ''h0'']"

definition bench_hw :: acer_hardware where
  "bench_hw = \<lparr>hw_platform = \<lparr>vp_vendor = ''Acer'', vp_product = ''Nitro'', vp_acer = True\<rparr>, hw_root = [],
     hw_hwmon = Some bench_hwmon, hw_profile = None, hw_fan = Some (I_kernel_pwm bench_hwmon True)\<rparr>"

lemma bench_run:
  "fs_read_to_string bench_fs p w = (case bench_files (wenv w) (last p) of
      None \<Rightarrow> (Inl (Os_error ENOENT), w\<lparr>wlog := wlog w @ [Fs_read p (Inl (Os_error ENOENT))]\<rparr>)
    | Some s \<Rightarrow> (if utf8_valid s then Inr s else Inl Invalid_data, w\<lparr>wlog := wlog w @ [Fs_read p (Inr s)]\<rparr>))"
  "fs_query f w = (Inr (f (wenv w)), w)"
  by (auto simp: fs_read_to_string_def fs_read_def bench_fs_def io_simps fs_query_def split: option.split)


lemma bench_paths:
  "rooted [] ''sys/class/dmi/id/sys_vendor'' = [''sys'', ''class'', ''dmi'', ''id'', ''sys_vendor'']"
  "rooted [] ''sys/class/dmi/id/product_name'' = [''sys'', ''class'', ''dmi'', ''id'', ''product_name'']"
  "rooted [] ''sys/class/hwmon'' = [''sys'', ''class'', ''hwmon'']"
  "rooted [] ''sys/class/platform-profile'' = [''sys'', ''class'', ''platform-profile'']"
  "rooted [] ''sys/firmware/acpi/platform_profile'' = [''sys'', ''firmware'', ''acpi'', ''platform_profile'']"
  "rooted [] ''sys/firmware/acpi/platform_profile_choices'' = [''sys'', ''firmware'', ''acpi'', ''platform_profile_choices'']"
  "rooted [] ''sys/bus/wmi/devices'' = [''sys'', ''bus'', ''wmi'', ''devices'']"
  by code_simp+
lemma bench_texts:
  "utf8_valid ''Acer''" "utf8_valid ''Nitro''" "utf8_valid ''acer''" "utf8_valid ''9''" "utf8_valid ''2''" "utf8_valid ''0''"
  "str_trim ''Acer'' = ''Acer''" "str_trim ''Nitro'' = ''Nitro''" "str_trim ''9'' = ''9''" "str_trim ''0'' = ''0''" "str_trim ''2'' = ''2''"
  "eq_ignore_case ''Acer'' EXPECTED_VENDOR" "is_acer_hwmon_identity ''acer''"
  by code_simp+
lemma bench_numbers: "parse_sint 64 ''9'' = Some 9" "parse_u8 ''9'' = Some 9"
  by (simp add: number_eval, code_simp)
lemma bench_words: "show_word (1::u8) = ''1''" "show_word (2::u8) = ''2''" "show_word (3::u8) = ''3''" "show_word (4::u8) = ''4''"
 "show_word (5::u8) = ''5''" "show_word (6::u8) = ''6''" "show_word (7::u8) = ''7''" "show_word (8::u8) = ''8''"
  by code_simp+


lemma bench_os:
  "k_read_dir bench_fs p e = (if last p = ''hwmon'' then Inr [''h0''] else Inl (Os_error ENOENT))"
  "k_is_file bench_fs p e = (bench_files e (last p) \<noteq> None)" "k_is_dir bench_fs p e = False"
  "k_read_link bench_fs p e = Inl (Os_error ENOENT)"
  by (simp_all add: bench_fs_def)

lemmas bench_defs = bench_run bench_os bench_files_def bench_paths bench_texts bench_numbers bench_words path_join_def

lemma read_trimmed_bench:
  "read_trimmed bench_fs p a w = (case bench_files (wenv w) (last p) of
      None \<Rightarrow> (Inl (Hw_io a p (Os_error ENOENT)), w\<lparr>wlog := wlog w @ [Fs_read p (Inl (Os_error ENOENT))]\<rparr>)
    | Some s \<Rightarrow> (if utf8_valid s then Inr (str_trim s) else Inl (Hw_io a p Invalid_data), w\<lparr>wlog := wlog w @ [Fs_read p (Inr s)]\<rparr>))"
  by (simp add: read_trimmed_def io_simps bench_run split: option.split)

definition reads :: "('e world, 'x, 'a) io \<Rightarrow> 'e \<Rightarrow> 'a \<Rightarrow> bool" where
  "reads m e a \<longleftrightarrow> (\<forall>w. wenv w = e \<longrightarrow> (\<exists>w'. m w = (Inr a, w') \<and> wenv w' = e))"

lemma reads_bind: "reads m e a \<Longrightarrow> reads (f a) e b \<Longrightarrow> reads (io_bind m f) e b"
  unfolding reads_def by (fastforce simp: io_bind_apply)

lemma disc_platform: "reads (discover_platform bench_fs []) e \<lparr>vp_vendor = ''Acer'', vp_product = ''Nitro'', vp_acer = True\<rparr>"
  by (simp add: reads_def discover_platform_def io_simps read_trimmed_bench bench_defs)

lemma disc_hwmon: "reads (discover_acer_hwmon bench_fs []) e (Some bench_hwmon)"
  by (simp add: reads_def discover_acer_hwmon_def io_simps bench_defs hwmon_candidate_def Let_def select_hwmon_def bench_hwmon_def hwmon_driver_identity_def)

lemma disc_profile: "reads (discover_kernel_profile_interface bench_fs []) e None"
  by (simp add: reads_def discover_kernel_profile_interface_def io_simps bench_defs legacy_profile_def Let_def)

lemma temp_path: "reads (acer_temperature_path bench_fs bench_hwmon (c :: u8)) e (bench_hwmon @ [''temp'' @ show_word c @ ''_input''])" if "c = 1 \<or> c = 2"
  using that by (auto simp: reads_def acer_temperature_path_def io_simps bench_defs fan_role_def channels_1_8_def bench_hwmon_def Let_def)


lemma watchdog_temp: "reads (read_watchdog_temperature bench_fs (bench_hwmon @ [''temp'' @ show_word (c :: u8) @ ''_input''])) e 9" if "c = 1 \<or> c = 2"
  using that by (auto simp: reads_def read_watchdog_temperature_def parse_value_def read_trimmed_bench io_simps bench_defs)

lemma disc_temps: "reads (manual_watchdog_available bench_fs bench_hwmon) e True"
proof -
  have one: "reads (io_bind (acer_temperature_path bench_fs bench_hwmon c) (\<lambda>p. io_is_ok (read_watchdog_temperature bench_fs p))) e True"
    if "c = 1 \<or> c = 2" for c
  proof (rule reads_bind [OF temp_path [OF that]])
    show "reads (io_is_ok (read_watchdog_temperature bench_fs (bench_hwmon @ [''temp'' @ show_word c @ ''_input'']))) e True"
      using watchdog_temp [OF that, of e] unfolding reads_def by (fastforce simp: io_is_ok_def io_simps)
  qed
  show ?thesis
    unfolding manual_watchdog_available_def io_all.simps
    by (rule reads_bind [OF one], simp, simp, rule reads_bind [OF one], simp) (simp add: reads_def io_simps)
qed

definition mode_texts :: "string \<times> string \<Rightarrow> bool" where
  "mode_texts e \<longleftrightarrow> (\<forall>t \<in> {fst e, snd e}. t = ''0'' \<or> t = ''2'')"

lemma disc_fans: "mode_texts e \<Longrightarrow> reads (discover_kernel_fan_interface bench_fs (Some bench_hwmon)) e (Some (I_kernel_pwm bench_hwmon True))"
  unfolding discover_kernel_fan_interface_def option.case
proof (rule reads_bind [where a = True])
  assume m: "mode_texts e"
  show "reads (fs_query (\<lambda>e. list_all (\<lambda>n. k_is_file bench_fs (path_join bench_hwmon n) e) [''pwm1_enable'', ''pwm2_enable''])) e True"
    by (simp add: reads_def bench_defs)
  show "reads (io_bind (io_all (\<lambda>ch. io_try (read_trimmed bench_fs (path_join bench_hwmon (''pwm'' @ show_word (ch :: u8) @ ''_enable'')) ''probe fan mode'')
            (\<lambda>r. io_ret (is_ok (optional_fan_mode r)))) [1, 2]) (\<lambda>usable.
          if True \<and> usable then
            io_bind (manual_watchdog_available bench_fs bench_hwmon) (\<lambda>wd.
            io_bind (if wd then io_all (\<lambda>ch. io_try (read_optional_pwm bench_fs (path_join bench_hwmon (''pwm'' @ show_word (ch :: u8))))
                 (\<lambda>r. io_ret (case r of Inr (Some _) \<Rightarrow> True | _ \<Rightarrow> False))) [1, 2] else io_ret False) (\<lambda>manual.
              io_ret (Some (I_kernel_pwm bench_hwmon manual))))
          else io_ret None)) e (Some (I_kernel_pwm bench_hwmon True))"
  proof (rule reads_bind [where a = True])
    show "reads (io_all (\<lambda>ch. io_try (read_trimmed bench_fs (path_join bench_hwmon (''pwm'' @ show_word (ch :: u8) @ ''_enable'')) ''probe fan mode'')
            (\<lambda>r. io_ret (is_ok (optional_fan_mode r)))) [1, 2]) e True"
      using m by (auto simp: reads_def io_simps read_trimmed_bench bench_defs mode_texts_def optional_fan_mode_def mode_from_sysfs_def split: prod.split)
  qed (simp, rule reads_bind [OF disc_temps], simp add: reads_def io_simps read_optional_pwm_def parse_value_def read_trimmed_bench bench_defs)
qed

lemma disc_hw: "mode_texts e \<Longrightarrow> reads (discover_at bench_fs []) e bench_hw"
proof -
  assume m: "mode_texts e"
  have g: "reads (fs_query (discover_gaming_wmi_profile_interface bench_fs [])) e None"
    by (simp add: reads_def bench_defs discover_gaming_wmi_profile_interface_def find_wmi_group_def matching_wmi_devices_def)
  have f: "reads (io_bind (discover_kernel_fan_interface bench_fs (Some bench_hwmon)) (\<lambda>k. case k of
             Some i \<Rightarrow> io_ret (Some i)
           | None \<Rightarrow> discover_gaming_wmi_fan_interface bench_fs [] (Some bench_hwmon))) e (Some (I_kernel_pwm bench_hwmon True))"
    by (rule reads_bind [OF disc_fans [OF m]]) (simp add: reads_def io_simps)
  show ?thesis
    unfolding discover_at_def
    by (rule reads_bind [OF disc_platform], simp, rule reads_bind [OF disc_hwmon], rule reads_bind [OF disc_profile],
        rule reads_bind [OF g], rule reads_bind [OF f]) (simp add: reads_def io_simps bench_hw_def)
qed

lemma bench_write_run:
  "fs_write_existing bench_fs p t w = (Inr (), w\<lparr>wenv := snd (bench_write p t (wenv w)), wlog := wlog w @ [Fs_write p t (Inr ())]\<rparr>)"
  by (simp add: fs_write_existing_def bench_fs_def bench_write_def)

lemmas bench_fan_run = apply_fan_setting_def [THEN fun_cong] fan_transaction_def [THEN fun_cong]
  fan_preconditions_def [THEN fun_cong] fan_mutation_def [THEN fun_cong]
  read_verified_fan_state_def [THEN fun_cong] read_fan_state_def [THEN fun_cong]
  read_fan_channel_def [THEN fun_cong]
  set_both_modes_def [THEN fun_cong] verify_mode_def [THEN fun_cong] write_mode_def [THEN fun_cong]
  read_optional_fan_mode_def [THEN fun_cong] read_optional_pwm_def [THEN fun_cong] parse_value_def [THEN fun_cong]
  write_existing_def [THEN fun_cong] read_rpm_def [THEN fun_cong] io_ok_def [THEN fun_cong] io_is_ok_def [THEN fun_cong]
  read_trimmed_bench bench_write_run force_mode_unchecked_def [THEN fun_cong]

lemma bench_apply:
  assumes "mode_texts (wenv w)" "s = Set_automatic \<and> v = ''2'' \<or> s = Set_maximum \<and> v = ''0''"
  shows "\<exists>st w'. apply_fan_setting bench_fs bench_hw s w = (Inr st, w') \<and> wenv w' = (v, v)"
proof -
  obtain a b where e: "wenv w = (a, b)" by (cases "wenv w")
  show ?thesis
    using assms(2) e
    by (elim disjE conjE) (simp_all add: bench_fan_run io_simps bench_hw_def hw_eval bench_defs bench_write_def bench_hwmon_def)
qed
section \<open>The machine\<close>

definition no_nvml :: "'e nvml" where
  "no_nvml = \<lparr>nv_load = \<lambda>e. False, nv_has_symbol = \<lambda>s. False, nv_init = \<lambda>e. (0, e), nv_shutdown = id,
     nv_error_string = \<lambda>c. None, nv_handle = \<lambda>s e. ((0, None), e), nv_get_states = None, nv_get_offsets = None,
     nv_set_offsets = None, nv_power_usage = None, nv_enforced_limit = None, nv_default_limit = None,
     nv_limit_constraints = None, nv_event_reasons = None, nv_temperature = None, nv_utilization = None, nv_memory = None, nv_clock_info = None, nv_max_clock_info = None, nv_performance_state = None, nv_name = None, nv_driver_version = None\<rparr>"

definition bench_machine :: "(string \<times> string) machine" where
  "bench_machine = \<lparr>mc_fs = bench_fs,
     mc_hid = \<lparr>hd_open = \<lambda>p b e. (Inl (Os_error ENOENT), e), hd_ioctl = \<lambda>p q b e. (Inl (Os_error ENOENT), e)\<rparr>,
     mc_nvml = no_nvml, mc_lock = \<lambda>e. (Inr (), e), mc_now = \<lambda>e. (0, e), mc_open = \<lambda>p e. (Inl (Os_error ENOENT), e),
     mc_create = \<lambda>p e. (Inr (), e), mc_remove = \<lambda>p e. (Inr (), e), mc_make_dirs = \<lambda>p e. (Inr (), e),
     mc_cache_of_json = \<lambda>s. Inl s, mc_cache_to_json = \<lambda>c. Inl ''none'', mc_caps_to_json = \<lambda>c. Inl ''none'',
     mc_diag_json = \<lparr>dj_write = \<lambda>d. Inl ''none'', dj_read = \<lambda>s. Inl ''none''\<rparr>, mc_sha256 = \<lambda>b. replicate 32 0, mc_show = \<lambda>x. ''error''\<rparr>"

lemma bench_machine_sel [simp]:
  "mc_fs bench_machine = bench_fs" "mc_lock bench_machine = (\<lambda>e. (Inr (), e))" "mc_open bench_machine = (\<lambda>p e. (Inl (Os_error ENOENT), e))"
  by (simp_all add: bench_machine_def)

text \<open>The shared runtime and a session on the bench.\<close>

definition bench_shared :: "(string \<times> string) world \<Rightarrow> bool \<Rightarrow> nat option \<Rightarrow> fan_event list \<Rightarrow> (string \<times> string) shared" where
  "bench_shared w active owner fans = \<lparr>sh_world = w, sh_memory = None, sh_active = active, sh_next = 0,
     sh_owner = owner, sh_fans = fans\<rparr>"

definition bench_session :: "fan_session_state \<Rightarrow> bool \<Rightarrow> bool \<Rightarrow> session" where
  "bench_session f negotiated maintenance = \<lparr>ss_hardware = bench_hw, ss_fan = f, ss_negotiated = negotiated,
     ss_maintenance = maintenance, ss_pending = []\<rparr>"

lemma bench_sel [simp]:
  "sh_world (bench_shared w a ow fs) = w" "sh_active (bench_shared w a ow fs) = a" "sh_owner (bench_shared w a ow fs) = ow"
  "sh_fans (bench_shared w a ow fs) = fs"
  "bench_shared w a ow fs\<lparr>sh_world := w'\<rparr> = bench_shared w' a ow fs"
  "bench_shared w a ow fs\<lparr>sh_active := a'\<rparr> = bench_shared w a' ow fs"
  "bench_shared w a ow fs\<lparr>sh_owner := ow'\<rparr> = bench_shared w a ow' fs"
  "bench_shared w a ow fs\<lparr>sh_fans := fs'\<rparr> = bench_shared w a ow fs'"
  "ss_hardware (bench_session f n mt) = bench_hw" "ss_fan (bench_session f n mt) = f"
  "ss_negotiated (bench_session f n mt) = n" "ss_maintenance (bench_session f n mt) = mt" "ss_pending (bench_session f n mt) = []"
  "bench_session f n mt\<lparr>ss_fan := f'\<rparr> = bench_session f' n mt"
  "bench_session f n mt\<lparr>ss_maintenance := mt'\<rparr> = bench_session f n mt'"
  "bench_session f n mt\<lparr>ss_hardware := bench_hw\<rparr> = bench_session f n mt"
  "bench_session f n mt\<lparr>ss_pending := [], ss_negotiated := n'\<rparr> = bench_session f n' mt"
  "bench_session f n mt\<lparr>ss_negotiated := n', ss_pending := []\<rparr> = bench_session f n' mt"
  "fresh_session bench_hw = bench_session Session_automatic False False"
  by (simp_all add: bench_shared_def bench_session_def fresh_session_def)

lemma readsE:
  assumes "reads f e a" "wenv w = e" obtains w' where "f w = (Inr a, w')" "wenv w' = e"
  using assms unfolding reads_def by blast

section \<open>Sections\<close>

lemma machine_reads:
  assumes "reads f (wenv w) a"
  shows "\<exists>w'. machine_io f (bench_shared w act ow fs, c) = (Inr a, (bench_shared w' act ow fs, c)) \<and> wenv w' = wenv w"
proof -
  obtain w' where "f w = (Inr a, w')" "wenv w' = wenv w" using readsE [OF assms refl] .
  then show ?thesis by (intro exI [of _ w']) (simp add: machine_io_def on_shared_def on_world_def)
qed

lemma bench_activate:
  "activate bench_machine (bench_shared w act ow fs) = (Inr (), bench_shared w True ow fs)"
  by (simp add: activate_def io_then_apply update_def io_bind_apply io_ok_def io_try_apply on_world_def
      restore_cached_enek_lighting_def load_cached_lighting_def os_call_def io_ret_apply io_error_kind_def ENOENT_def)

lemma bench_poll: "poll_with bench_machine hw (bench_shared w act ow fs) = (Inr (), bench_shared w act ow fs)"
  by (simp add: poll_with_def reconciliation_due_def io_bind_apply io_ret_apply on_world_def pending_exists_def
      fs_query_def k_exists_def bench_defs NVIDIA_RESUME_PENDING_def)

lemma bench_maintain:
  "command_activates_runtime_maintenance args \<Longrightarrow> maintain_before bench_machine args (bench_shared w act ow fs, bench_session f n mt)
     = (Inr (), (bench_shared w True ow fs, bench_session f n True))"
  by (simp add: maintain_before_def io_then_apply update_def on_shared_def with_session_def bench_activate bench_poll)

lemma bench_refresh:
  assumes "mode_texts (wenv w)"
  shows "\<exists>w'. refresh_session_hardware bench_machine (bench_shared w act ow fs, bench_session f n mt)
     = (Inr (), (bench_shared w' act ow fs, bench_session f n mt)) \<and> wenv w' = wenv w"
proof -
  have "reads (io_map_err De_hardware (refreshed bench_fs bench_hw)) (wenv w) bench_hw"
    using disc_hw [OF assms] unfolding reads_def refreshed_def bench_hw_def by (fastforce simp: io_map_err_apply)
  from machine_reads [OF this] obtain w' where "machine_io (io_map_err De_hardware (refreshed bench_fs bench_hw))
        (bench_shared w act ow fs, bench_session f n mt)
      = (Inr bench_hw, (bench_shared w' act ow fs, bench_session f n mt))" "wenv w' = wenv w"
    by blast
  then show ?thesis
    by (intro exI [of _ w']) (simp add: refresh_session_hardware_def with_session_def io_bind_apply update_def)
qed

lemma bench_apply_fans:
  assumes "mode_texts (wenv w)" "s = Set_automatic \<and> v = ''2'' \<or> s = Set_maximum \<and> v = ''0''"
  shows "\<exists>w'. apply_fans bench_machine bench_hw s (bench_shared w act ow fs, c)
      = (Inr (), (bench_shared w' act ow (fs @ [Fan_applied s True]), c)) \<and> wenv w' = (v, v)"
proof -
  obtain st w' where "apply_fan_setting bench_fs bench_hw s w = (Inr st, w')" "wenv w' = (v, v)"
    using bench_apply [OF assms] by blast
  then show ?thesis by (intro exI [of _ w']) (simp add: apply_fans_def)
qed

lemma bench_guard:
  "machine_io (acquire_guard bench_machine) (bench_shared w act ow fs, c) = (Inr (), (bench_shared w act ow fs, c))"
  by (simp add: machine_io_def on_shared_def on_world_def acquire_guard_def os_call_def io_map_err_apply)

lemma bench_temperature:
  assumes "ch = 1 \<or> ch = 2" shows "reads (read_acer_temp_millidegrees bench_fs bench_hw ch) e 9"
proof -
  have run: "read_acer_temp_millidegrees bench_fs bench_hw ch
      = io_bind (acer_temperature_path bench_fs bench_hwmon ch) (read_watchdog_temperature bench_fs)"
    by (simp add: read_acer_temp_millidegrees_def bench_hw_def)
  show ?thesis unfolding run by (rule reads_bind [OF temp_path [OF assms]], rule watchdog_temp [OF assms])
qed

lemma bench_watchdog:
  "\<exists>w'. enforce_thermal_watchdog bench_machine (bench_shared w act ow fs, bench_session f n mt)
     = (Inr (), (bench_shared w' act ow fs, bench_session f n mt)) \<and> wenv w' = wenv w"
proof (cases "needs_thermal_watchdog f")
  case True
  obtain w1 where t1: "read_acer_temp_millidegrees bench_fs bench_hw 1 w = (Inr 9, w1)" "wenv w1 = wenv w"
    using readsE [OF bench_temperature refl] by blast
  obtain w2 where t2: "read_acer_temp_millidegrees bench_fs bench_hw 2 w1 = (Inr 9, w2)" "wenv w2 = wenv w1"
    using readsE [OF bench_temperature refl] by blast
  from True t1 t2 show ?thesis
    by (intro exI [of _ w2]) (simp add: enforce_thermal_watchdog_def with_session_def io_try_apply machine_io_def
      on_shared_def on_world_def io_ret_apply unsafe_temperature_def CPU_LIMIT_def GPU_LIMIT_def)
qed (auto simp: enforce_thermal_watchdog_def with_session_def io_ret_apply)

lemma bench_head:
  "\<exists>w'. serve_head bench_machine i (bench_shared w act ow fs, bench_session f n mt)
     = (Inr (), (bench_shared w' act ow fs, bench_session (if ow \<noteq> Some i \<and> requires_auto_on_disconnect f then Session_automatic else f) n mt))
     \<and> wenv w' = wenv w"
proof (cases "ow = Some i")
  case True
  obtain w' where "enforce_thermal_watchdog bench_machine (bench_shared w act ow fs, bench_session f n mt)
     = (Inr (), (bench_shared w' act ow fs, bench_session f n mt))" "wenv w' = wenv w" using bench_watchdog by blast
  with True show ?thesis
    by (intro exI [of _ w']) (cases mt; simp add: serve_head_def io_then_apply with_session_def on_shared_def bench_poll io_ret_apply)
next
  case False
  then show ?thesis
    by (intro exI [of _ w]) (simp add: serve_head_def io_then_apply with_session_def on_shared_def bench_poll io_ret_apply set_fan_session_def)
qed

section \<open>Commands\<close>

lemma bench_claimed:
  assumes "mode_texts (wenv w)" "args = split_ascii_ws command" "is_fan_command args \<or> is_profile_command args"
    and claim: "claim_fan_command i args ow = (Inr (), Some i)"
  shows "\<exists>w'. wenv w' = wenv w \<and> serve_dispatch bench_machine i command (bench_shared w act ow fs, bench_session f n mt)
     = dispatch_command bench_machine bench_hw args
         (bench_shared w' True (Some i) fs, bench_session (if is_fan_command args then Pending_mutation else f) n True)"
proof -
  let ?f = "if is_fan_command args then Pending_mutation else f"
  obtain w' where refresh: "refresh_session_hardware bench_machine (bench_shared w True (Some i) fs, bench_session ?f n True)
     = (Inr (), (bench_shared w' True (Some i) fs, bench_session ?f n True))" "wenv w' = wenv w"
    using bench_refresh [OF assms(1)] by blast
  have kind: "command_is_mutation args" "refreshes_hardware args" "command_activates_runtime_maintenance args"
    using assms(3) by (auto simp: command_is_mutation_def refreshes_hardware_def command_activates_runtime_maintenance_def
        fan_command_iff profile_command_iff)
  have "is_acer bench_hw" by (simp add: is_acer_def bench_hw_def)
  then show ?thesis using refresh claim kind
    by (intro exI [of _ w']) (cases "is_fan_command args"; simp add: serve_dispatch_def Let_def assms(2) [symmetric] io_then_apply bench_maintain
        execute_command_def with_session_def bench_guard set_fan_session_def io_ret_apply)
qed

lemma bench_maximum:
  assumes "mode_texts (wenv w)"
  shows "\<exists>w'. serve_dispatch bench_machine i ''FAN MAXIMUM'' (bench_shared w act ow fs, bench_session f n mt)
      = (Inr ''fan=maximum'', (bench_shared w' True (Some i) (fs @ [Fan_applied Set_maximum True]),
          bench_session Maximum_awaiting_response n True)) \<and> wenv w' = (''0'', ''0'')"
proof -
  have args: "[''FAN'', ''MAXIMUM''] = split_ascii_ws ''FAN MAXIMUM''" by code_simp
  have fan: "is_fan_command [''FAN'', ''MAXIMUM'']" "is_fan_override [''FAN'', ''MAXIMUM'']"
    by (simp_all add: is_fan_command_def is_fan_override_def)
  have "claim_fan_command i [''FAN'', ''MAXIMUM''] ow = (Inr (), Some i)" by (simp add: claim_fan_command_def fan)
  then obtain w1 where w1: "wenv w1 = wenv w"
    "serve_dispatch bench_machine i ''FAN MAXIMUM'' (bench_shared w act ow fs, bench_session f n mt)
     = dispatch_command bench_machine bench_hw [''FAN'', ''MAXIMUM'']
         (bench_shared w1 True (Some i) fs, bench_session Pending_mutation n True)"
    using bench_claimed [OF assms args] fan by fastforce
  obtain w' where "apply_fans bench_machine bench_hw Set_maximum (bench_shared w1 True (Some i) fs, bench_session Pending_mutation n True)
      = (Inr (), (bench_shared w' True (Some i) (fs @ [Fan_applied Set_maximum True]), bench_session Pending_mutation n True))"
      "wenv w' = (''0'', ''0'')"
    using bench_apply_fans [of w1 Set_maximum "''0''"] assms w1 by (simp, blast)
  then show ?thesis
    by (intro exI [of _ w']) (simp add: w1 dispatch_command_def execute_fan_def execute_fans_def io_then_apply io_map_err_apply
        set_fan_session_def io_ret_apply)
qed

lemma bench_manual:
  assumes "mode_texts (wenv w)" "ow = None \<or> ow = Some i"
  shows "\<exists>w' x. serve_dispatch bench_machine i ''FAN MANUAL x x'' (bench_shared w act ow fs, bench_session f n mt)
      = (Inl x, (bench_shared w' True (Some i) fs, bench_session Pending_mutation n True)) \<and> wenv w' = wenv w"
proof -
  have args: "[''FAN'', ''MANUAL'', ''x'', ''x''] = split_ascii_ws ''FAN MANUAL x x''" by code_simp
  have fan: "is_fan_command [''FAN'', ''MANUAL'', ''x'', ''x'']" by (simp add: is_fan_command_def)
  have "claim_fan_command i [''FAN'', ''MANUAL'', ''x'', ''x''] ow = (Inr (), Some i)"
    using assms(2) fan by (auto simp: claim_fan_command_def)
  then obtain w1 where w1: "wenv w1 = wenv w"
    "serve_dispatch bench_machine i ''FAN MANUAL x x'' (bench_shared w act ow fs, bench_session f n mt)
     = dispatch_command bench_machine bench_hw [''FAN'', ''MANUAL'', ''x'', ''x'']
         (bench_shared w1 True (Some i) fs, bench_session Pending_mutation n True)"
    using bench_claimed [OF assms(1) args] fan by fastforce
  have "parse_manual_percent ''x'' = Inl (De_message ''fan percentage must be an integer'')" by code_simp
  then show ?thesis
    by (intro exI [of _ w1]) (simp add: w1 dispatch_command_def execute_fan_def execute_manual_def io_bind_apply io_of_def)
qed

lemma bench_profile:
  assumes "mode_texts (wenv w)" "ow = None \<or> ow = Some i"
  shows "\<exists>w' x. serve_dispatch bench_machine i ''PROFILE x'' (bench_shared w act ow fs, bench_session f n mt)
      = (Inl x, (bench_shared w' True (Some i) fs, bench_session f n True)) \<and> wenv w' = wenv w"
proof -
  have args: "[''PROFILE'', ''x''] = split_ascii_ws ''PROFILE x''" by code_simp
  have kind: "is_profile_command [''PROFILE'', ''x'']" "\<not> is_fan_command [''PROFILE'', ''x'']"
    by (simp_all add: is_profile_command_def is_fan_command_def is_fan_override_def)
  have "claim_fan_command i [''PROFILE'', ''x''] ow = (Inr (), Some i)"
    using assms(2) kind by (auto simp: claim_fan_command_def)
  then obtain w1 where w1: "wenv w1 = wenv w"
    "serve_dispatch bench_machine i ''PROFILE x'' (bench_shared w act ow fs, bench_session f n mt)
     = dispatch_command bench_machine bench_hw [''PROFILE'', ''x''] (bench_shared w1 True (Some i) fs, bench_session f n True)"
    using bench_claimed [OF assms(1) args] kind by fastforce
  have gaming: "reads (uses_gaming_fans bench_machine bench_hw :: (_, daemon_error, _) io) (wenv w) False"
    by (simp add: reads_def uses_gaming_fans_def capabilities_def io_simps io_ok_def profile_choices_def current_profile_raw_def
        bench_hw_def fan_backend_modes_def fan_rpm_channels_def channels_1_8_def bench_defs)
  obtain w2 where w2: "machine_io (uses_gaming_fans bench_machine bench_hw) (bench_shared w1 True (Some i) fs, bench_session f n True)
      = (Inr False :: daemon_error + bool, (bench_shared w2 True (Some i) fs, bench_session f n True))" "wenv w2 = wenv w1"
    using machine_reads [OF gaming [folded w1(1)]] by blast
  have "\<exists>x. machine_io (apply_profile bench_machine bench_hw ''x'') (bench_shared w2 True (Some i) fs, bench_session f n True)
      = (Inl x, (bench_shared w2 True (Some i) fs, bench_session f n True))"
    by (simp add: machine_io_def on_shared_def on_world_def apply_profile_def is_reference_model_def bench_hw_def is_acer_def
        REFERENCE_PRODUCT_def set_profile_raw_def io_simps require_acer_def)
  with w2 w1 show ?thesis
    by (auto intro!: exI [of _ w2] simp: dispatch_command_def execute_profile_def io_bind_apply io_then_apply io_ret_apply)
qed

lemma bench_close:
  assumes "mode_texts (wenv w)" "requires_auto_on_disconnect f"
  shows "\<exists>w' c'. serve_cleanup bench_machine i (bench_shared w act (Some i) fs, bench_session f n mt)
      = (Inr (), (bench_shared w' act None (fs @ [Fan_applied Set_automatic True]), c')) \<and> wenv w' = (''2'', ''2'')"
proof -
  let ?c = "bench_session f n mt"
  have "reads (refreshed bench_fs bench_hw) (wenv w) bench_hw"
    using disc_hw [OF assms(1)] by (simp add: refreshed_def bench_hw_def)
  then obtain w1 where w1: "machine_io (refreshed bench_fs bench_hw) (bench_shared w act (Some i) fs, ?c)
      = (Inr bench_hw, (bench_shared w1 act (Some i) fs, ?c))" "wenv w1 = wenv w"
    using machine_reads by metis
  obtain w' where "apply_fans bench_machine bench_hw Set_automatic (bench_shared w1 act (Some i) fs, ?c)
      = (Inr (), (bench_shared w' act (Some i) (fs @ [Fan_applied Set_automatic True]), ?c))" "wenv w' = (''2'', ''2'')"
    using bench_apply_fans [of w1 Set_automatic "''2''"] assms w1 by (simp, blast)
  with w1 assms(2) show ?thesis
    by (intro exI [of _ w'] exI [of _ ?c]) (simp add: serve_cleanup_def Let_def failsafe_on_disconnect_def with_session_def
        io_then_apply io_map_err_apply bench_guard io_bind_apply)
qed

end
