(* ===== verification/Daemon_Stale.thy ===== *)
theory Daemon_Stale
  imports Daemon_Bench
begin

text \<open>
  Runs of whole clients on the bench laptop, up to the interleaving in which a client whose lease
  was revoked leases the fans again with its stale session state, so that its disconnection undoes
  the other client's Maximum.
\<close>

section \<open>Steps of one client\<close>

definition bench_client :: "fan_session_state \<Rightarrow> bool \<Rightarrow> bool \<Rightarrow> phase \<Rightarrow> read_event list \<Rightarrow> client" where
  "bench_client f negotiated maintenance p input = \<lparr>cl_session = bench_session f negotiated maintenance,
     cl_phase = p, cl_input = input, cl_connected = 0\<rparr>"

definition client_runs :: "nat \<Rightarrow> (string \<times> string) shared \<times> client \<Rightarrow> (string \<times> string) shared \<times> client \<Rightarrow> bool" where
  "client_runs i = (\<lambda>x y. \<exists>written. client_step bench_machine 0 written i x = (fst y, Some (snd y)))\<^sup>*\<^sup>*"

lemma client_runs_trans: "client_runs i x y \<Longrightarrow> client_runs i y z \<Longrightarrow> client_runs i x z"
  by (simp add: client_runs_def)

lemma client_runs_step: "client_step bench_machine 0 written i x = (s, Some c) \<Longrightarrow> client_runs i x (s, c)"
  unfolding client_runs_def by (rule r_into_rtranclp) auto

lemma bench_client_sel [simp]:
  "cl_session (bench_client f n mt p inp) = bench_session f n mt" "cl_phase (bench_client f n mt p inp) = p"
  "cl_input (bench_client f n mt p inp) = inp" "cl_connected (bench_client f n mt p inp) = 0"
  "bench_client f n mt p inp\<lparr>cl_phase := p'\<rparr> = bench_client f n mt p' inp"
  "bench_client f n mt p inp\<lparr>cl_session := bench_session f' n' mt', cl_phase := p'\<rparr> = bench_client f' n' mt' p' inp"
  "bench_client f n mt p inp\<lparr>cl_session := bench_session f' n' mt', cl_phase := p', cl_input := inp'\<rparr> = bench_client f' n' mt' p' inp'"
  by (simp_all add: bench_client_def)

lemma run_head:
  "\<exists>w'. client_runs i (bench_shared w act ow fs, bench_client f n mt At_head inp)
     (bench_shared w' act ow fs, bench_client (if ow \<noteq> Some i \<and> requires_auto_on_disconnect f then Session_automatic else f) n mt At_read inp)
     \<and> wenv w' = wenv w"
proof -
  let ?f = "if ow \<noteq> Some i \<and> requires_auto_on_disconnect f then Session_automatic else f"
  obtain w' where "serve_head bench_machine i (bench_shared w act ow fs, bench_session f n mt)
     = (Inr (), (bench_shared w' act ow fs, bench_session ?f n mt))" "wenv w' = wenv w" using bench_head by metis
  then show ?thesis by (intro exI [of _ w'] conjI client_runs_step) (simp_all add: client_step_def)
qed

lemma decoder_line:
  assumes "NL \<notin> set c" "length c \<le> MAX_CONTROL_COMMAND_BYTES" "utf8_valid c"
  shows "decoder_read [] (Bytes (c @ [NL]) # es) = (Inr (Some (Inr c)), [], es)"
  using assms line_part_append [of c "[]"] after_line_append [of c "[]"]
  by (simp add: decoder_push_def decoder_finish_def has_newline_def push_back_def)

lemma run_read:
  assumes "NL \<notin> set c" "length c \<le> MAX_CONTROL_COMMAND_BYTES" "utf8_valid c" "accept_line n (Inr c) = (p, n')"
  shows "client_runs i (s, bench_client f n mt At_read (Bytes (c @ [NL]) # inp)) (s, bench_client f n' mt p inp)"
proof (rule client_runs_step)
  show "client_step bench_machine 0 True i (s, bench_client f n mt At_read (Bytes (c @ [NL]) # inp))
      = (s, Some (bench_client f n' mt p inp))"
    using assms(4) by (simp add: client_step_def read_step_def Let_def CLIENT_HANDSHAKE_TIMEOUT_def decoder_line [OF assms(1-3)] del: decoder_read.simps)
qed

lemma run_respond:
  "client_runs i (s, bench_client f n mt (At_respond r k) inp) (s, bench_client f n mt (continue_after k) inp)"
  by (rule client_runs_step [where written = True]) (simp add: client_step_def)

lemma hello_line: "NL \<notin> set ''HELLO 2''" "length ''HELLO 2'' \<le> MAX_CONTROL_COMMAND_BYTES" "utf8_valid ''HELLO 2''"
  by code_simp+

lemma show_two: "show_word (2 :: u16) = ''2''" by code_simp

lemma hello_accepted: "\<exists>r. accept_line False (Inr ''HELLO 2'') = (At_respond (Inr r) Then_head, True)"
proof -
  have "str_trim ''HELLO 2'' = ''HELLO 2''" "split_ascii_ws ''HELLO 2'' = [''HELLO'', ''2'']" by code_simp+
  moreover have "parse_u16 ''2'' = Some 2" using parse_u16_show [of 2] by (simp add: show_two)
  ultimately show ?thesis
    by (simp add: accept_line_def protocol_accept_def protocol_handshake_def CONTROL_PROTOCOL_VERSION_def)
qed

text \<open>A fresh client negotiates and its first command reaches dispatch.\<close>

lemma run_first_command:
  assumes "NL \<notin> set c" "length c \<le> MAX_CONTROL_COMMAND_BYTES" "utf8_valid c" "str_trim c = c"
  shows "\<exists>w'. client_runs i (bench_shared w act ow fs, bench_client Session_automatic False False At_head
        (Bytes (''HELLO 2'' @ [NL]) # Bytes (c @ [NL]) # inp))
      (bench_shared w' act ow fs, bench_client Session_automatic True False (At_dispatch c) inp) \<and> wenv w' = wenv w"
proof -
  obtain r where r: "accept_line False (Inr ''HELLO 2'') = (At_respond (Inr r) Then_head, True)"
    using hello_accepted by blast
  have c: "accept_line True (Inr c) = (At_dispatch c, True)"
    using assms(4) by (simp add: accept_line_def protocol_accept_def)
  have auto: "\<not> requires_auto_on_disconnect Session_automatic" by (simp add: requires_auto_on_disconnect_def)
  obtain w1 where h1: "client_runs i (bench_shared w act ow fs, bench_client Session_automatic False False At_head
        (Bytes (''HELLO 2'' @ [NL]) # Bytes (c @ [NL]) # inp))
      (bench_shared w1 act ow fs, bench_client Session_automatic False False At_read
        (Bytes (''HELLO 2'' @ [NL]) # Bytes (c @ [NL]) # inp))" "wenv w1 = wenv w"
    using run_head [where f = Session_automatic] auto by fastforce
  obtain w2 where h2: "client_runs i (bench_shared w1 act ow fs, bench_client Session_automatic True False At_head (Bytes (c @ [NL]) # inp))
      (bench_shared w2 act ow fs, bench_client Session_automatic True False At_read (Bytes (c @ [NL]) # inp))" "wenv w2 = wenv w1"
    using run_head [where f = Session_automatic] auto by fastforce
  have "client_runs i (bench_shared w1 act ow fs, bench_client Session_automatic False False At_read
        (Bytes (''HELLO 2'' @ [NL]) # Bytes (c @ [NL]) # inp))
      (bench_shared w1 act ow fs, bench_client Session_automatic True False At_head (Bytes (c @ [NL]) # inp))"
    using client_runs_trans [OF run_read [OF hello_line r] run_respond] by (simp add: continue_after_def)
  from client_runs_trans [OF client_runs_trans [OF client_runs_trans [OF h1(1) this] h2(1)] run_read [OF assms(1-3) c]]
  show ?thesis using h1(2) h2(2) by auto
qed

text \<open>A dispatched command is answered and the client returns to its loop head.\<close>

lemma run_dispatched:
  assumes "serve_dispatch bench_machine i c (bench_shared w act ow fs, bench_session f n mt)
      = (r, (bench_shared w' act' (Some i) fs', bench_session f' n mt'))"
    and "g = (if is_ok r then response_delivered_to f' else f')"
  shows "client_runs i (bench_shared w act ow fs, bench_client f n mt (At_dispatch c) inp)
      (bench_shared w' act' (release_unleased_fans i g (Some i)) fs', bench_client g n mt' At_head inp)"
proof -
  have 1: "client_runs i (bench_shared w act ow fs, bench_client f n mt (At_dispatch c) inp)
      (bench_shared w' act' (Some i) fs', bench_client f' n mt' (At_respond (res_map_err (mc_show bench_machine) r) (Then_after (is_ok r))) inp)"
    by (rule client_runs_step [where written = True]) (simp add: client_step_def assms(1))
  have 3: "client_runs i (bench_shared w' act' (Some i) fs', bench_client f' n mt' (At_after (is_ok r)) inp)
      (bench_shared w' act' (release_unleased_fans i g (Some i)) fs', bench_client g n mt' At_head inp)"
    by (rule client_runs_step [where written = True]) (simp add: client_step_def serve_after_def assms(2) Let_def)
  from client_runs_trans [OF client_runs_trans [OF 1 run_respond]] 3 show ?thesis by (simp add: continue_after_def)
qed

section \<open>The interleaving\<close>

text \<open>Client 1 is a manual client, client 2 asks for Maximum.\<close>

definition bench_system :: "(string \<times> string) shared \<Rightarrow> client \<Rightarrow> client \<Rightarrow> (string \<times> string) system" where
  "bench_system s c1 c2 = \<lparr>sy_shared = s, sy_last_id = 2, sy_clients = [1 \<mapsto> c1, 2 \<mapsto> c2]\<rparr>"

lemma bench_step_thread:
  "client_step bench_machine 0 written 1 (s, c1) = (s', Some c1') \<Longrightarrow> daemon_step bench_machine (bench_system s c1 c2) (bench_system s' c1' c2)"
  "client_step bench_machine 0 written 2 (s, c2) = (s', Some c2') \<Longrightarrow> daemon_step bench_machine (bench_system s c1 c2) (bench_system s' c1 c2')"
proof -
  assume step: "client_step bench_machine 0 written 1 (s, c1) = (s', Some c1')"
  have "run_client bench_machine 0 written 1 (bench_system s c1 c2) = bench_system s' c1' c2"
    using step by (simp add: run_client_def bench_system_def fun_upd_twist)
  then show "daemon_step bench_machine (bench_system s c1 c2) (bench_system s' c1' c2)"
    using daemon_step.Thread [of "bench_system s c1 c2" 1 bench_machine 0 written] by (simp add: bench_system_def)
next
  assume step: "client_step bench_machine 0 written 2 (s, c2) = (s', Some c2')"
  have "run_client bench_machine 0 written 2 (bench_system s c1 c2) = bench_system s' c1 c2'"
    using step by (simp add: run_client_def bench_system_def)
  then show "daemon_step bench_machine (bench_system s c1 c2) (bench_system s' c1 c2')"
    using daemon_step.Thread [of "bench_system s c1 c2" 2 bench_machine 0 written] by (simp add: bench_system_def)
qed

lemma client_runs_system:
  "client_runs 1 x y \<Longrightarrow> (daemon_step bench_machine)\<^sup>*\<^sup>* (bench_system (fst x) (snd x) c) (bench_system (fst y) (snd y) c)"
  "client_runs 2 x y \<Longrightarrow> (daemon_step bench_machine)\<^sup>*\<^sup>* (bench_system (fst x) c (snd x)) (bench_system (fst y) c (snd y))"
proof -
  show "client_runs 1 x y \<Longrightarrow> (daemon_step bench_machine)\<^sup>*\<^sup>* (bench_system (fst x) (snd x) c) (bench_system (fst y) (snd y) c)"
    unfolding client_runs_def
    by (induction rule: rtranclp_induct) (auto intro: rtranclp.rtrancl_into_rtrancl bench_step_thread(1) simp del: One_nat_def)
  show "client_runs 2 x y \<Longrightarrow> (daemon_step bench_machine)\<^sup>*\<^sup>* (bench_system (fst x) c (snd x)) (bench_system (fst y) c (snd y))"
    unfolding client_runs_def
    by (induction rule: rtranclp_induct) (auto intro: rtranclp.rtrancl_into_rtrancl bench_step_thread(2))
qed

lemma reachable_steps: "(daemon_step m)\<^sup>*\<^sup>* y z \<Longrightarrow> reachable m y \<Longrightarrow> reachable m z"
  by (induction rule: rtranclp_induct) (auto intro: reachable.Next)

definition manual_input :: "read_event list" where
  "manual_input = [Bytes (''HELLO 2'' @ [NL]), Bytes (''FAN MANUAL x x'' @ [NL]), Bytes (''PROFILE x'' @ [NL])]"

definition maximum_input :: "read_event list" where
  "maximum_input = [Bytes (''HELLO 2'' @ [NL]), Bytes (''FAN MAXIMUM'' @ [NL])]"

lemma bench_lines:
  "NL \<notin> set ''FAN MANUAL x x''" "length ''FAN MANUAL x x'' \<le> MAX_CONTROL_COMMAND_BYTES" "utf8_valid ''FAN MANUAL x x''" "str_trim ''FAN MANUAL x x'' = ''FAN MANUAL x x''"
  "NL \<notin> set ''FAN MAXIMUM''" "length ''FAN MAXIMUM'' \<le> MAX_CONTROL_COMMAND_BYTES" "utf8_valid ''FAN MAXIMUM''" "str_trim ''FAN MAXIMUM'' = ''FAN MAXIMUM''"
  "NL \<notin> set ''PROFILE x''" "length ''PROFILE x'' \<le> MAX_CONTROL_COMMAND_BYTES" "utf8_valid ''PROFILE x''" "str_trim ''PROFILE x'' = ''PROFILE x''"
  by code_simp+

lemma session_facts:
  "requires_auto_on_disconnect Pending_mutation" "\<not> requires_auto_on_disconnect Session_automatic" "\<not> requires_auto_on_disconnect Persistent_maximum"
  "response_delivered_to Maximum_awaiting_response = Persistent_maximum"
  by (simp_all add: requires_auto_on_disconnect_def response_delivered_to_def)

text \<open>Both clients connected, in the firmware's automatic mode.\<close>

lemma bench_connected:
  "\<exists>w. wenv w = (''2'', ''2'') \<and> reachable bench_machine (bench_system (bench_shared w False None [])
     (bench_client Session_automatic False False At_head in1) (bench_client Session_automatic False False At_head in2))"
proof -
  let ?w0 = "\<lparr>wenv = (''2'', ''2''), wlog = []\<rparr>"
  let ?y0 = "initial_system ?w0 0 :: (string \<times> string) system"
  let ?c1 = "bench_client Session_automatic False False At_head in1"
  let ?c2 = "bench_client Session_automatic False False At_head in2"
  have disc: "reads (discover_hardware bench_machine) (''2'', ''2'') bench_hw"
    using disc_hw [of "(''2'', ''2'')"] unfolding reads_def discover_hardware_def
    by (fastforce simp: io_map_err_apply mode_texts_def)
  obtain w1 where w1: "discover_hardware bench_machine ?w0 = (Inr bench_hw, w1)" "wenv w1 = (''2'', ''2'')"
    using readsE [OF disc, of ?w0] by auto
  obtain w2 where w2: "discover_hardware bench_machine w1 = (Inr bench_hw, w2)" "wenv w2 = (''2'', ''2'')"
    using readsE [OF disc w1(2)] by blast
  have y0: "?y0 = \<lparr>sy_shared = bench_shared ?w0 False None [], sy_last_id = 0, sy_clients = Map.empty\<rparr>"
    by (simp add: initial_system_def bench_shared_def)
  let ?y1 = "\<lparr>sy_shared = bench_shared w1 False None [], sy_last_id = 1, sy_clients = [1 \<mapsto> ?c1]\<rparr>"
  have a1: "admit bench_machine in1 0 ?y0 = ?y1"
    by (simp add: admit_def y0 MAX_CONTROL_CLIENTS_def on_world_def w1 bench_client_def)
  have a2: "admit bench_machine in2 0 ?y1 = bench_system (bench_shared w2 False None []) ?c1 ?c2"
    by (simp add: admit_def MAX_CONTROL_CLIENTS_def on_world_def w2 bench_client_def bench_system_def numeral_2_eq_2)
  have "reachable bench_machine ?y0" by (rule reachable.Start)
  then have "reachable bench_machine ?y1"
    using daemon_step.Connect [of ?y0 bench_machine in1 0] unfolding a1
    by (auto intro: reachable.Next simp: y0 u64_max_def)
  then have "reachable bench_machine (bench_system (bench_shared w2 False None []) ?c1 ?c2)"
    using daemon_step.Connect [of ?y1 bench_machine in2 0] unfolding a2
    by (auto intro: reachable.Next simp: u64_max_def)
  with w2(2) show ?thesis by blast
qed

text \<open>Client 1 sends a refused Manual request, then client 2 is given Maximum and its response.\<close>

lemma bench_revoked:
  "\<exists>w. wenv w = (''0'', ''0'') \<and> reachable bench_machine (bench_system (bench_shared w True None [Fan_applied Set_maximum True])
     (bench_client Pending_mutation True True At_read [Bytes (''PROFILE x'' @ [NL])])
     (bench_client Persistent_maximum True True At_head []))"
proof -
  let ?in = "[Bytes (''PROFILE x'' @ [NL])]"
  let ?c2 = "bench_client Session_automatic False False At_head maximum_input"
  obtain w0 where w0: "wenv w0 = (''2'', ''2'')" "reachable bench_machine (bench_system (bench_shared w0 False None [])
     (bench_client Session_automatic False False At_head manual_input) ?c2)"
    using bench_connected by blast
  obtain w1 where w1: "client_runs 1 (bench_shared w0 False None [], bench_client Session_automatic False False At_head manual_input)
      (bench_shared w1 False None [], bench_client Session_automatic True False (At_dispatch ''FAN MANUAL x x'') ?in)" "wenv w1 = (''2'', ''2'')"
    using run_first_command [OF bench_lines(1-4), of 1 w0 False None "[]" ?in] w0(1) unfolding manual_input_def by auto
  have m1: "mode_texts (wenv w1)" by (simp add: w1 mode_texts_def)
  obtain w2 x where w2: "serve_dispatch bench_machine 1 ''FAN MANUAL x x'' (bench_shared w1 False None [], bench_session Session_automatic True False)
      = (Inl x, (bench_shared w2 True (Some 1) [], bench_session Pending_mutation True True))" "wenv w2 = (''2'', ''2'')"
    using bench_manual [OF m1, of None 1] w1(2) by metis
  have r2: "client_runs 1 (bench_shared w1 False None [], bench_client Session_automatic True False (At_dispatch ''FAN MANUAL x x'') ?in)
      (bench_shared w2 True (Some 1) [], bench_client Pending_mutation True True At_head ?in)"
    using run_dispatched [OF w2(1) refl, of ?in] by (simp add: release_unleased_fans_def session_facts)
  obtain w3 where w3: "client_runs 1 (bench_shared w2 True (Some 1) [], bench_client Pending_mutation True True At_head ?in)
      (bench_shared w3 True (Some 1) [], bench_client Pending_mutation True True At_read ?in)" "wenv w3 = (''2'', ''2'')"
    using run_head [of 1 w2 True "Some 1" "[]" Pending_mutation True True ?in] w2(2) by auto
  have y1: "reachable bench_machine (bench_system (bench_shared w3 True (Some 1) []) (bench_client Pending_mutation True True At_read ?in) ?c2)"
    using reachable_steps [OF client_runs_system(1) [OF client_runs_trans [OF client_runs_trans [OF w1(1) r2] w3(1)], of ?c2]] w0(2)
    by simp
  obtain w4 where w4: "client_runs 2 (bench_shared w3 True (Some 1) [], ?c2)
      (bench_shared w4 True (Some 1) [], bench_client Session_automatic True False (At_dispatch ''FAN MAXIMUM'') [])" "wenv w4 = (''2'', ''2'')"
    using run_first_command [OF bench_lines(5-8), of 2 w3 True "Some 1" "[]" "[]"] w3(2) unfolding maximum_input_def by auto
  have m4: "mode_texts (wenv w4)" by (simp add: w4 mode_texts_def)
  obtain w5 where w5: "serve_dispatch bench_machine 2 ''FAN MAXIMUM'' (bench_shared w4 True (Some 1) [], bench_session Session_automatic True False)
      = (Inr ''fan=maximum'', (bench_shared w5 True (Some 2) [Fan_applied Set_maximum True], bench_session Maximum_awaiting_response True True))"
      "wenv w5 = (''0'', ''0'')"
    using bench_maximum [OF m4, of 2 True "Some 1" "[]"] by (simp del: One_nat_def, blast)
  have r5: "client_runs 2 (bench_shared w4 True (Some 1) [], bench_client Session_automatic True False (At_dispatch ''FAN MAXIMUM'') [])
      (bench_shared w5 True None [Fan_applied Set_maximum True], bench_client Persistent_maximum True True At_head [])"
    using run_dispatched [OF w5(1) refl, of "[]"] by (simp add: release_unleased_fans_def session_facts)
  have "reachable bench_machine (bench_system (bench_shared w5 True None [Fan_applied Set_maximum True])
     (bench_client Pending_mutation True True At_read ?in) (bench_client Persistent_maximum True True At_head []))"
    using reachable_steps [OF client_runs_system(2) [OF client_runs_trans [OF w4(1) r5],
        of "bench_client Pending_mutation True True At_read ?in"]] y1 by simp
  with w5(2) show ?thesis by blast
qed

text \<open>Client 1 leases the fans again with its stale state, loses its connection and restores Auto.\<close>

lemma bench_undone:
  assumes "wenv w = (''0'', ''0'')"
  shows "\<exists>z. (daemon_step bench_machine)\<^sup>*\<^sup>* (bench_system (bench_shared w True None fs)
      (bench_client Pending_mutation True True At_read [Bytes (''PROFILE x'' @ [NL])]) c2) z
    \<and> sh_fans (sy_shared z) = fs @ [Fan_applied Set_automatic True] \<and> wenv (sh_world (sy_shared z)) = (''2'', ''2'')
    \<and> sy_clients z = [2 \<mapsto> c2]"
proof -
  let ?c = "\<lambda>p. bench_client Pending_mutation True True p []"
  have m: "mode_texts (wenv w)" by (simp add: assms mode_texts_def)
  have read: "client_runs 1 (bench_shared w True None fs, bench_client Pending_mutation True True At_read [Bytes (''PROFILE x'' @ [NL])])
      (bench_shared w True None fs, ?c (At_dispatch ''PROFILE x''))"
    by (rule run_read [OF bench_lines(9-11)]) (simp add: accept_line_def protocol_accept_def bench_lines(12))
  obtain w1 x where w1: "serve_dispatch bench_machine 1 ''PROFILE x'' (bench_shared w True None fs, bench_session Pending_mutation True True)
      = (Inl x, (bench_shared w1 True (Some 1) fs, bench_session Pending_mutation True True))" "wenv w1 = (''0'', ''0'')"
    using bench_profile [OF m, of None 1] assms by metis
  let ?r = "Inl (mc_show bench_machine x)"
  have dispatch: "client_runs 1 (bench_shared w True None fs, ?c (At_dispatch ''PROFILE x''))
      (bench_shared w1 True (Some 1) fs, ?c (At_respond ?r (Then_after False)))"
    by (rule client_runs_step [where written = True]) (simp add: client_step_def w1(1) del: One_nat_def)
  have lost: "client_runs 1 (bench_shared w1 True (Some 1) fs, ?c (At_respond ?r (Then_after False)))
      (bench_shared w1 True (Some 1) fs, ?c (At_close (Inl (De_message ''response write failed''))))"
    by (rule client_runs_step [where written = False]) (simp add: client_step_def)
  let ?y = "bench_system (bench_shared w1 True (Some 1) fs) (?c (At_close (Inl (De_message ''response write failed'')))) c2"
  have to: "(daemon_step bench_machine)\<^sup>*\<^sup>* (bench_system (bench_shared w True None fs)
      (bench_client Pending_mutation True True At_read [Bytes (''PROFILE x'' @ [NL])]) c2) ?y"
    using client_runs_system(1) [OF client_runs_trans [OF client_runs_trans [OF read dispatch] lost], of c2] by simp
  have m1: "mode_texts (wenv w1)" by (simp add: w1 mode_texts_def)
  obtain w2 c' where w2: "serve_cleanup bench_machine 1 (bench_shared w1 True (Some 1) fs, bench_session Pending_mutation True True)
      = (Inr (), (bench_shared w2 True None (fs @ [Fan_applied Set_automatic True]), c'))" "wenv w2 = (''2'', ''2'')"
    using bench_close [OF m1 session_facts(1)] by blast
  let ?z = "run_client bench_machine 0 True 1 ?y"
  have z: "?z = \<lparr>sy_shared = bench_shared w2 True None (fs @ [Fan_applied Set_automatic True]), sy_last_id = 2, sy_clients = [2 \<mapsto> c2]\<rparr>"
    using w2(1) by (auto simp: run_client_def bench_system_def client_step_def fun_eq_iff)
  have "daemon_step bench_machine ?y ?z" by (rule daemon_step.Thread) (simp add: bench_system_def)
  with to have "(daemon_step bench_machine)\<^sup>*\<^sup>* (bench_system (bench_shared w True None fs)
      (bench_client Pending_mutation True True At_read [Bytes (''PROFILE x'' @ [NL])]) c2) ?z" by (rule rtranclp.rtrancl_into_rtrancl)
  with z w2(2) show ?thesis by (intro exI [of _ ?z]) simp
qed

text \<open>C23: A client whose lease was revoked can still undo the other client's Maximum: in a reachable state client 2 was told that its verified Maximum is in effect and keeps no lease, and from there, without any command of client 2, a profile command of client 1 with its stale session state followed by the loss of its connection sets the fans back to Auto.\<close>

theorem revoked_lease_undoes_maximum:
  "\<exists>y z c2. reachable bench_machine y \<and> sy_clients y 2 = Some c2 \<and> ss_fan (cl_session c2) = Persistent_maximum
    \<and> sh_owner (sy_shared y) = None \<and> last (sh_fans (sy_shared y)) = Fan_applied Set_maximum True
    \<and> wenv (sh_world (sy_shared y)) = (''0'', ''0'')
    \<and> (daemon_step bench_machine)\<^sup>*\<^sup>* y z \<and> sy_clients z 2 = Some c2
    \<and> last (sh_fans (sy_shared z)) = Fan_applied Set_automatic True \<and> wenv (sh_world (sy_shared z)) = (''2'', ''2'')"
proof -
  let ?c2 = "bench_client Persistent_maximum True True At_head []"
  obtain w where w: "wenv w = (''0'', ''0'')" "reachable bench_machine (bench_system (bench_shared w True None [Fan_applied Set_maximum True])
     (bench_client Pending_mutation True True At_read [Bytes (''PROFILE x'' @ [NL])]) ?c2)"
    (is "reachable _ ?y") using bench_revoked by blast
  obtain z where z: "(daemon_step bench_machine)\<^sup>*\<^sup>* ?y z" "sh_fans (sy_shared z) = [Fan_applied Set_maximum True] @ [Fan_applied Set_automatic True]"
    "wenv (sh_world (sy_shared z)) = (''2'', ''2'')" "sy_clients z = [2 \<mapsto> ?c2]"
    using bench_undone [OF w(1), of "[Fan_applied Set_maximum True]" ?c2] by blast
  show ?thesis
    by (rule exI [of _ ?y], rule exI [of _ z], rule exI [of _ ?c2]) (use w z in \<open>simp add: bench_system_def\<close>)
qed

section \<open>The safety properties on the bench\<close>

lemma bench_manual_tried:
  assumes "mode_texts (wenv w)"
  shows "\<exists>r w' s' c'. serve_dispatch bench_machine 1 ''FAN MANUAL 50 50'' (bench_shared w act None [], bench_session f n mt) = (r, (s', c'))
      \<and> unsettled (sh_fans s')"
proof -
  have args: "[''FAN'', ''MANUAL'', ''50'', ''50''] = split_ascii_ws ''FAN MANUAL 50 50''" by code_simp
  have fan: "is_fan_command [''FAN'', ''MANUAL'', ''50'', ''50'']" by (simp add: is_fan_command_def)
  have "claim_fan_command 1 [''FAN'', ''MANUAL'', ''50'', ''50''] None = (Inr (), Some 1)"
    using fan by (auto simp: claim_fan_command_def)
  then obtain w1 where w1: "serve_dispatch bench_machine 1 ''FAN MANUAL 50 50'' (bench_shared w act None [], bench_session f n mt)
     = dispatch_command bench_machine bench_hw [''FAN'', ''MANUAL'', ''50'', ''50'']
         (bench_shared w1 True (Some 1) [], bench_session Pending_mutation n True)"
    using bench_claimed [OF assms args] fan by fastforce
  have "parse_manual_percent ''50'' = Inr 50" by code_simp
  then have "serve_dispatch bench_machine 1 ''FAN MANUAL 50 50'' (bench_shared w act None [], bench_session f n mt)
      = execute_fans bench_machine bench_hw (Set_manual 50 50) Session_manual (''fan=manual cpu='' @ show_word (50 :: u8) @ '' gpu='' @ show_word (50 :: u8))
         (bench_shared w1 True (Some 1) [], bench_session Pending_mutation n True)"
    by (simp add: w1 dispatch_command_def execute_fan_def execute_manual_def io_bind_apply io_of_def del: One_nat_def)
  then show ?thesis
    using apply_fans_cases [of bench_machine bench_hw "Set_manual 50 50" "bench_shared w1 True (Some 1) []" "bench_session Pending_mutation n True"]
    by (fastforce simp: execute_fans_def io_then_apply io_map_err_apply set_fan_session_def io_ret_apply unsettled_def)
qed

lemma fans_never_abandoned_witness:
  "\<exists>y. reachable bench_machine y \<and> unsettled (sh_fans (sy_shared y)) \<and> (\<exists>i cl. sh_owner (sy_shared y) = Some i
      \<and> sy_clients y i = Some cl \<and> requires_auto_on_disconnect (ss_fan (cl_session cl)))"
proof -
  let ?in = "[Bytes (''HELLO 2'' @ [NL]), Bytes (''FAN MANUAL 50 50'' @ [NL])]"
  let ?c2 = "bench_client Session_automatic False False At_head []"
  have line: "NL \<notin> set ''FAN MANUAL 50 50''" "length ''FAN MANUAL 50 50'' \<le> MAX_CONTROL_COMMAND_BYTES"
    "utf8_valid ''FAN MANUAL 50 50''" "str_trim ''FAN MANUAL 50 50'' = ''FAN MANUAL 50 50''" by code_simp+
  obtain w0 where w0: "wenv w0 = (''2'', ''2'')" "reachable bench_machine (bench_system (bench_shared w0 False None [])
     (bench_client Session_automatic False False At_head ?in) ?c2)"
    using bench_connected by blast
  obtain w1 where w1: "client_runs 1 (bench_shared w0 False None [], bench_client Session_automatic False False At_head ?in)
      (bench_shared w1 False None [], bench_client Session_automatic True False (At_dispatch ''FAN MANUAL 50 50'') [])" "wenv w1 = (''2'', ''2'')"
    using run_first_command [OF line, of 1 w0 False None "[]" "[]"] w0(1) by auto
  obtain r s' c' where d: "serve_dispatch bench_machine 1 ''FAN MANUAL 50 50'' (bench_shared w1 False None [], bench_session Session_automatic True False) = (r, (s', c'))"
     "unsettled (sh_fans s')"
    using bench_manual_tried [of w1 False Session_automatic True False] w1(2) by (auto simp: mode_texts_def)
  let ?c1 = "bench_client Session_automatic True False (At_dispatch ''FAN MANUAL 50 50'') []
      \<lparr>cl_session := c', cl_phase := At_respond (res_map_err (mc_show bench_machine) r) (Then_after (is_ok r))\<rparr>"
  have "client_runs 1 (bench_shared w1 False None [], bench_client Session_automatic True False (At_dispatch ''FAN MANUAL 50 50'') []) (s', ?c1)"
    by (rule client_runs_step [where written = True]) (simp add: client_step_def d(1) del: One_nat_def)
  with w1 have "client_runs 1 (bench_shared w0 False None [], bench_client Session_automatic False False At_head ?in) (s', ?c1)"
    by (blast intro: client_runs_trans)
  then have "reachable bench_machine (bench_system s' ?c1 ?c2)"
    using reachable_steps [OF client_runs_system(1)] w0(2) by fastforce
  with d(2) fans_never_abandoned [OF this] show ?thesis
    by (intro exI [of _ "bench_system s' ?c1 ?c2"]) (simp add: bench_system_def)
qed

lemma clients_bounded_witness:
  "\<exists>y. reachable bench_machine y \<and> dom (sy_clients y) = {1, 2} \<and> dom (sy_clients y) \<subseteq> {1..sy_last_id y} \<and> sy_last_id y \<le> u64_max"
proof -
  obtain w0 where r: "reachable bench_machine (bench_system (bench_shared w0 False None [])
     (bench_client Session_automatic False False At_head []) (bench_client Session_automatic False False At_head []))" (is "reachable _ ?y")
    using bench_connected by blast
  have "dom (sy_clients ?y) = {1, 2}" by (auto simp: bench_system_def)
  with r clients_bounded [OF r] show ?thesis by blast
qed

definition bench_world :: "(string \<times> string) world" where "bench_world = \<lparr>wenv = (''2'', ''2''), wlog = []\<rparr>"

lemma lease_exclusive_witness:
  "sy_shared (run_client bench_machine 0 True 2 (bench_system (bench_shared bench_world True (Some 1) [])
      (bench_client Session_manual True True At_read []) (bench_client Session_automatic True True (At_dispatch ''PROFILE x'') [])))
    = bench_shared bench_world True (Some 1) []"
proof -
  let ?c2 = "bench_client Session_automatic True True (At_dispatch ''PROFILE x'') []"
  let ?y = "bench_system (bench_shared bench_world True (Some 1) []) (bench_client Session_manual True True At_read []) ?c2"
  have "split_ascii_ws ''PROFILE x'' = [''PROFILE'', ''x'']" by code_simp
  then have "is_profile_command (split_ascii_ws ''PROFILE x'')" "\<not> is_fan_override (split_ascii_ws ''PROFILE x'')"
    by (simp_all add: is_profile_command_def is_fan_override_def)
  then show ?thesis
    using lease_exclusive [of ?y 1 2 ?c2 "''PROFILE x''" bench_machine 0 True] by (simp add: bench_system_def)
qed

lemma watchdog_guards_witness:
  "ss_fan (snd (snd (enforce_thermal_watchdog bench_machine (bench_shared bench_world True (Some 1) [],
      bench_session Session_manual True True\<lparr>ss_hardware := bench_hw\<lparr>hw_hwmon := None\<rparr>\<rparr>)))) = Emergency_maximum"
proof -
  let ?c = "bench_session Session_manual True True\<lparr>ss_hardware := bench_hw\<lparr>hw_hwmon := None\<rparr>\<rparr>"
  have blind: "read_acer_temp_millidegrees (mc_fs bench_machine) (ss_hardware ?c) i (sh_world s) = (Inl Acer_hwmon_not_found, sh_world s)" for i s
    by (simp add: read_acer_temp_millidegrees_def io_err_apply)
  let ?s = "bench_shared bench_world True (Some 1) []"
  have needs: "needs_thermal_watchdog (ss_fan ?c)" by (simp add: needs_thermal_watchdog_def bench_session_def)
  obtain r s' c' where run: "enforce_thermal_watchdog bench_machine (?s, ?c) = (r, (s', c'))"
    by (cases "enforce_thermal_watchdog bench_machine (?s, ?c)") auto
  from watchdog_guards [OF needs blind blind run] run show ?thesis by simp
qed

lemma disconnect_restores_auto_witness:
  "(let z = run_client bench_machine 0 True 1 (bench_system (bench_shared bench_world True (Some 1) [])
      (bench_client Session_manual True True (At_close (Inr ())) []) (bench_client Session_automatic True True At_read []))
    in sy_clients z 1 = None \<and> last (sh_fans (sy_shared z)) \<in> {Fan_applied Set_automatic True, Failsafe_failed})"
proof -
  let ?c1 = "bench_client Session_manual True True (At_close (Inr ())) []"
  let ?y = "bench_system (bench_shared bench_world True (Some 1) []) ?c1 (bench_client Session_automatic True True At_read [])"
  have "sy_clients ?y 1 = Some ?c1" "cl_phase ?c1 = At_close (Inr ())" by (simp_all add: bench_system_def)
  from disconnect_restores_auto [OF this refl, of bench_machine 0 True]
  show ?thesis by (simp add: bench_system_def requires_auto_on_disconnect_def Let_def)
qed

end
