(* ===== verification/Control_Diagnostics.thy ===== *)
theory Control_Diagnostics
  imports Control Passive_Diagnostics
begin

text \<open>
  \<open>src/control.rs\<close>: the client command whose payload is the passive report. It stands apart from the
  other client commands because its codec belongs to \<open>passive_diagnostics.rs\<close>.
\<close>

definition client_passive_diagnostics :: "diag_json \<Rightarrow> 'c link \<Rightarrow> ('c, passive_diagnostics) client_io" where
  "client_passive_diagnostics js ln = io_bind (request ln ''DIAG PASSIVE'') (\<lambda>r.
     io_of (res_map_err (\<lambda>x. Protocol (''invalid passive diagnostic response: '' @ x)) (parse_diagnostics js r)))"

end
