(* ===== verification/Diagnostics_Safety.thy ===== *)
theory Diagnostics_Safety
  imports Control_Diagnostics Wire_Codecs
begin

text \<open>
  What the passive report promises: whatever the machine exposes, the collector returns a report, and
  its own validator refuses that report for one of five reasons only, which are named exactly. The
  lemmas follow the parts of the report; each shows which observations a part can hold.
\<close>

section \<open>Errors of the kernel\<close>

definition good_io :: "io_error \<Rightarrow> bool" where
  "good_io x \<longleftrightarrow> (case x of Os_error n \<Rightarrow> 0 \<le> n | Invalid_data \<Rightarrow> True)"

text \<open>Error numbers are not negative.\<close>

definition kernel_errnos :: "'e sysfs \<Rightarrow> 'e hid \<Rightarrow> bool" where
  "kernel_errnos fs hr \<longleftrightarrow> (\<forall>p e x. fst (k_read fs p e) = Inl x \<longrightarrow> good_io x)
     \<and> (\<forall>p rw e x. fst (hd_open hr p rw e) = Inl x \<longrightarrow> good_io x)"

lemma good_io_error: "good_io x \<Longrightarrow> validate_error (diag_io_error x) = Inr ()"
  by (cases x) (simp_all add: good_io_def diag_io_error_def raw_os_error_def)

lemma invalid_value_ok [simp]: "validate_error invalid_value = Inr ()"
  by (simp add: invalid_value_def)

lemma yields_open: "kernel_errnos fs hr \<Longrightarrow> yields good_io (\<lambda>_. True) (dev_open hr p rw)"
  by (auto simp: yields_def dev_open_def kernel_errnos_def split: prod.split sum.split) (metis fst_conv)

lemma yields_read: "kernel_errnos fs hr \<Longrightarrow> yields good_io (\<lambda>_. True) (fs_read fs p)"
  by (auto simp: yields_def fs_read_def kernel_errnos_def split: prod.split sum.split) (metis fst_conv)

lemma yields_read_string: "kernel_errnos fs hr \<Longrightarrow> yields good_io (\<lambda>_. True) (fs_read_to_string fs p)"
  unfolding fs_read_to_string_def
  by (rule yields_bind [OF yields_read]) (auto intro: yields_ret yields_err simp: good_io_def)

section \<open>Observations\<close>

abbreviation sound :: "'a observation \<Rightarrow> bool" where "sound ob \<equiv> ob_ok (\<lambda>_. True) ob"

definition value_ok :: "('a \<Rightarrow> bool) \<Rightarrow> 'a observation \<Rightarrow> bool" where
  "value_ok P ob \<longleftrightarrow> (case ob of Ob_value v \<Rightarrow> P v | _ \<Rightarrow> True)"

lemma ob_ok_split: "ob_ok P ob \<longleftrightarrow> sound ob \<and> value_ok P ob"
  by (cases ob) (simp_all add: value_ok_def)

lemma ob_ok_bind: "sound ob \<Longrightarrow> (\<And>v. ob_ok P (f v)) \<Longrightarrow> ob_ok P (ob_bind ob f)"
  by (cases ob) (simp_all add: ob_bind_def)

definition decoder_ok :: "('v \<Rightarrow> bool) \<Rightarrow> (string \<Rightarrow> diag_error + 'v) \<Rightarrow> bool" where
  "decoder_ok P decode \<longleftrightarrow> (\<forall>v. ob_ok P (ob_of (decode v)))"

lemma decoder_okI:
  "(\<And>v x. decode v = Inl x \<Longrightarrow> validate_error x = Inr ()) \<Longrightarrow> (\<And>v a. decode v = Inr a \<Longrightarrow> P a) \<Longrightarrow> decoder_ok P decode"
  by (auto simp: decoder_ok_def ob_of_def split: sum.split)

lemma gives_text: "kernel_errnos fs hr \<Longrightarrow> gives sound (diag_read_text fs hr p)"
  unfolding diag_read_text_def
proof (rule gives_try_yields [OF yields_open], assumption, goal_cases)
  case (1 x)
  then show ?case by (auto intro!: gives_ret good_io_error)
next
  case (2 a)
  have "gives sound (io_try (fs_read fs p) (\<lambda>r. io_ret (case r of Inl x \<Rightarrow> Ob_error (diag_io_error x) | Inr bytes \<Rightarrow> text_of_bytes bytes)))"
    by (rule gives_try_yields [OF yields_read [OF 2(1)]]) (auto intro!: gives_ret good_io_error simp: text_of_bytes_def)
  then show ?case
    by (auto intro!: gives_bind [OF gives_query, of "\<lambda>_. True"] gives_ret)
qed

lemma gives_value: "kernel_errnos fs hr \<Longrightarrow> decoder_ok P decode \<Longrightarrow> gives (ob_ok P) (read_value decode fs hr p)"
  unfolding read_value_def
  by (rule gives_bind [OF gives_text]) (auto intro!: gives_ret ob_ok_bind simp: decoder_ok_def)

lemma gives_number: "kernel_errnos fs hr \<Longrightarrow> gives sound (read_number parse fs hr p)"
  unfolding read_number_def
  by (rule gives_bind [OF gives_text]) (auto intro!: gives_ret ob_ok_bind split: option.split)

section \<open>The profile\<close>

lemma to_lower_hex: "is_hexdigit c \<Longrightarrow> is_hexdigit (to_lower c)"
  by (cases "is_upper c") (auto simp: is_hexdigit_def to_lower_def is_upper_def is_digit_def byte_def)

lemma lower_hex: "is_hex v n \<Longrightarrow> is_hex (ascii_lower v) n"
  by (auto simp: is_hex_def ascii_lower_def list_all_iff to_lower_hex)

lemma current_ok: "encoding = U8_hex \<or> encoding = Ascii_token \<Longrightarrow>
    ob_ok (\<lambda>c. validate_current c = Inr ()) (current_of_text source encoding turbo v)"
  by (auto simp: current_of_text_def validate_current_def validate_raw_def lower_hex validate_token_def)

lemma gives_current: "kernel_errnos fs hr \<Longrightarrow> encoding = U8_hex \<or> encoding = Ascii_token \<Longrightarrow>
    gives (ob_ok (\<lambda>c. validate_current c = Inr ())) (read_profile_current fs hr p source encoding turbo)"
  unfolding read_profile_current_def
  by (rule gives_bind [OF gives_text]) (auto intro!: gives_ret ob_ok_bind current_ok)

text \<open>The command names.\<close>

lemma command_cases:
  assumes "profile_for_command v turbo = Some n"
  shows "v \<in> {''low-power'', ''quiet'', ''balanced'', ''balanced-performance'', ''performance''}"
  using assms by (auto simp: profile_for_command_def split: if_splits)

lemma command_raw:
  assumes "profile_for_command v turbo = Some n"
  shows "\<exists>r. gaming_raw_for_command v = Some r \<and> r \<in> {''00'', ''01'', ''04'', ''05'', ''06''}"
  using command_cases [OF assms] by (auto simp: gaming_raw_for_command_def)

lemma command_token: "profile_for_command v turbo = Some n \<Longrightarrow> validate_token v 48 l = Inr ()"
  by (drule command_cases) (auto simp: validate_token_def token_char_def is_alnum_def is_digit_def is_lower_def byte_def)

definition choice_ok :: "diag_choice \<Rightarrow> bool" where
  "choice_ok c \<longleftrightarrow> (\<forall>l. validate_token (dch_command c) 48 l = Inr ()) \<and> dch_selectable c
     \<and> (\<forall>raw. dch_transport_raw c = Some raw \<longrightarrow> validate_raw raw = Inr ())"

lemma raw_byte_ok: "r \<in> {''00'', ''01'', ''04'', ''05'', ''06''} \<Longrightarrow>
    validate_raw \<lparr>dr_encoding = U8_hex, dr_bytes = 1, dr_value = r\<rparr> = Inr ()"
  by (auto simp: validate_raw_def is_hex_def is_hexdigit_def is_digit_def byte_def)

lemma choice_of_command_ok:
  assumes "choice_of_command backend turbo v = Inr c" shows "choice_ok c \<and> dch_command c = v"
proof -
  from assms obtain n where n: "profile_for_command v turbo = Some n"
    and c: "c = \<lparr>dch_command = v, dch_profile = n, dch_transport_raw = (if backend = Dpb_gaming_wmi
          then map_option (\<lambda>v. \<lparr>dr_encoding = U8_hex, dr_bytes = 1, dr_value = v\<rparr>) (gaming_raw_for_command v) else None), dch_selectable = True\<rparr>"
    by (auto simp: choice_of_command_def split: option.splits)
  from command_raw [OF n] show ?thesis
    by (auto simp: c choice_ok_def command_token [OF n] raw_byte_ok simp del: One_nat_def)
qed

lemma choice_list_distinct: "list_all choice_ok cs \<Longrightarrow>
    validate_choice_list before cs = Inr () \<longleftrightarrow>
      distinct (map dch_command cs) \<and> (\<forall>p \<in> set before. \<forall>c \<in> set cs. dch_command p \<noteq> dch_command c)"
proof (induction cs arbitrary: before)
  case (Cons c cs)
  then have "choice_ok c" and all: "list_all choice_ok cs" by simp_all
  then have "validate_choice_list before (c # cs) = (if list_ex (\<lambda>p. dch_command p = dch_command c) before
      then Inl ''passive profile choices are not unique'' else validate_choice_list (before @ [c]) cs)"
    by (cases "dch_transport_raw c") (simp_all add: choice_ok_def)
  then show ?case by (simp add: Cons.IH [OF all] list_ex_iff) blast
qed simp

definition choices_ok :: "diag_choice list \<Rightarrow> bool" where
  "choices_ok cs \<longleftrightarrow> (validate_choices cs = Inr () \<longleftrightarrow> distinct (map dch_command cs))"

lemma res_map_list_Inl: "res_map_list f xs = Inl x \<Longrightarrow> \<exists>y \<in> set xs. f y = Inl x"
  by (induction xs) (auto split: sum.splits)

lemma choices_decoder: "decoder_ok choices_ok (choices_of_text backend turbo)"
proof (rule decoder_okI)
  fix v x assume "choices_of_text backend turbo v = Inl x"
  then show "validate_error x = Inr ()"
    by (auto simp: choices_of_text_def res_bind_Inl_iff choice_of_command_def dest!: res_map_list_Inl split: if_splits option.splits)
next
  fix v cs assume cs: "choices_of_text backend turbo v = Inr cs"
  then have l: "res_map_list (choice_of_command backend turbo) (split_ascii_ws v) = Inr cs" "length cs \<le> MAX_PROFILE_CHOICES"
    by (auto simp: choices_of_text_def res_bind_Inr_iff split: if_splits)
  have "list_all choice_ok cs"
    using res_map_list_Inr_all [OF l(1)] choice_of_command_ok by (fastforce simp: list_all2_conv_all_nth list_all_length)
  with l(2) show "choices_ok cs"
    by (simp add: choices_ok_def validate_choices_def choice_list_distinct)
qed

definition profile_fit :: "diag_profile \<Rightarrow> bool" where
  "profile_fit p \<longleftrightarrow> value_ok (\<lambda>cs. distinct (map dch_command cs)) (dp_choices p)"

definition profile_iff :: "diag_profile \<Rightarrow> bool" where
  "profile_iff p \<longleftrightarrow> (validate_profile p = Inr () \<longleftrightarrow> profile_fit p)"

lemma profile_iffI:
  assumes "sound (dp_transport p)" and "ob_ok (\<lambda>c. validate_current c = Inr ()) (dp_current p)" and "ob_ok choices_ok (dp_choices p)"
  shows "profile_iff p"
  using assms by (cases "dp_choices p")
    (auto simp: profile_iff_def profile_fit_def validate_profile_def res_bind_Inr_iff validate_observation_ok value_ok_def choices_ok_def)

lemma gives_any_bind: "gives (\<lambda>_. True) m \<Longrightarrow> (\<And>a. gives P (f a)) \<Longrightarrow> gives P (io_bind m f)"
  by (rule gives_bind) auto

lemma gives_kernel_profile: "gives (\<lambda>_. True) (discover_kernel_profile fs root)"
proof -
  have c: "gives (\<lambda>_. True) (io_filter_map (diag_kernel_candidate fs d) ns)" for d ns
    by (rule gives_mono [OF gives_filter_map [where P = "\<lambda>_. True"]])
      (auto simp: diag_kernel_candidate_def Let_def intro!: gives_any_bind gives_query gives_ret gives_try)
  show ?thesis
    unfolding discover_kernel_profile_def Let_def
    by (rule gives_any_bind [OF gives_query], simp, rule gives_any_bind)
      (auto split: sum.split list.split intro: c gives_ret gives_query)
qed

lemma gives_gaming_profile:
  assumes "kernel_errnos fs hr" shows "gives profile_iff (collect_gaming_profile fs hr found)"
proof (cases found)
  case (Pair d p)
  show ?thesis
  proof (cases "or_else d p")
    case None
    then show ?thesis
      by (auto simp: Pair collect_gaming_profile_def absent_profile_def intro!: gives_ret profile_iffI)
  next
    case (Some base)
    have cur: "gives (ob_ok (\<lambda>c. validate_current c = Inr ())) (gaming_profile_current fs hr d base)"
      by (auto simp: gaming_profile_current_def assms intro!: gives_current split: option.split)
    have cs: "gives (ob_ok choices_ok) (case p of None \<Rightarrow> io_ret (Ob_absent Not_exposed)
        | Some q \<Rightarrow> read_profile_choices fs hr (path_join q ''choices'') Dpb_gaming_wmi True)"
      by (auto simp: read_profile_choices_def intro!: gives_ret gives_value assms choices_decoder split: option.split)
    show ?thesis
      unfolding Pair collect_gaming_profile_def prod.case Some option.case
      by (rule gives_bind [OF cur], rule gives_bind [OF cs], rule gives_ret, rule profile_iffI) simp_all
  qed
qed

lemma gives_profile:
  assumes "kernel_errnos fs hr" shows "gives profile_iff (collect_profile fs hr root)"
proof -
  have turbo: "gives (\<lambda>_. True) (hardware_turbo fs root)"
    unfolding hardware_turbo_def by (intro gives_try gives_ret) simp
  have found: "gives profile_iff (io_bind (read_profile_current fs hr p Src_kernel_platform_profile Ascii_token t) (\<lambda>current.
         io_bind (read_profile_choices fs hr c Dpb_kernel t) (\<lambda>cs.
           io_ret \<lparr>dp_transport = Ob_value \<lparr>dt_source = Src_kernel_platform_profile, dt_backend = Dpb_kernel\<rparr>,
             dp_current = current, dp_choices = cs\<rparr>)))" for p c t
    unfolding read_profile_choices_def
    by (rule gives_bind [OF gives_current [OF assms]], simp, rule gives_bind [OF gives_value [OF assms choices_decoder]],
        rule gives_ret, rule profile_iffI) simp_all
  show ?thesis
    unfolding collect_profile_def
    by (rule gives_any_bind [OF turbo], rule gives_any_bind [OF gives_kernel_profile])
      (auto split: option.split intro: found gives_any_bind gives_query gives_gaming_profile [OF assms])
qed

section \<open>The fans\<close>

text \<open>What can still be wrong with the values of a fan inventory.\<close>

definition fans_fit :: "diag_fans \<Rightarrow> bool" where
  "fans_fit f \<longleftrightarrow> list_all (\<lambda>c. dfn_unit c = Unit_percent \<longrightarrow> value_ok (\<lambda>v. v \<le> 100) (dfn_setpoint c)) (df_channels f)
     \<and> list_all (\<lambda>c. \<not> has_control (drp_label c)) (df_rpm f)
     \<and> list_all (\<lambda>c. \<not> has_control (dtp_label c) \<and> value_ok (\<lambda>v. -100000 \<le> v \<and> v \<le> 250000) (dtp_read c)) (df_temperatures f)"

definition fans_iff :: "diag_fans \<Rightarrow> bool" where
  "fans_iff f \<longleftrightarrow> (validate_fans f = Inr () \<longleftrightarrow> fans_fit f)"

definition channel_sound :: "diag_fan_channel \<Rightarrow> bool" where
  "channel_sound c \<longleftrightarrow> sound (dfn_setpoint c) \<and> sound (dfn_mode c)"

definition label_sized :: "string \<Rightarrow> bool" where
  "label_sized l \<longleftrightarrow> l \<noteq> [] \<and> length l \<le> MAX_LABEL_BYTES"

lemma channel_order_sorted: "channel_order previous l cs = Inr () \<longleftrightarrow>
    sorted_wrt (<) cs \<and> (\<forall>p. previous = Some p \<longrightarrow> (\<forall>c \<in> set cs. p < c))"
  by (induction previous l cs rule: channel_order.induct) (auto split: option.splits)

lemma channel_range: "c \<in> set channels_1_8 \<Longrightarrow> validate_diag_channel c = Inr ()"
  by (auto simp: channels_1_8_def validate_diag_channel_def MAX_CHANNELS_def)

lemma validate_fan_channel_iff:
  assumes "dfn_channel c \<in> set channels_1_8" and "channel_sound c"
  shows "validate_fan_channel c = Inr () \<longleftrightarrow> (dfn_unit c = Unit_percent \<longrightarrow> value_ok (\<lambda>v. v \<le> 100) (dfn_setpoint c))"
  using assms by (cases "dfn_setpoint c"; cases "dfn_unit c")
    (simp_all add: validate_fan_channel_def channel_range channel_sound_def res_bind_Inr_iff validate_observation_ok value_ok_def)

lemma validate_rpm_iff:
  assumes "drp_channel c \<in> set channels_1_8" and "label_sized (drp_label c)" and "sound (drp_read c)"
  shows "validate_rpm c = Inr () \<longleftrightarrow> \<not> has_control (drp_label c)"
  using assms by (simp add: validate_rpm_def channel_range validate_text_def label_sized_def validate_observation_ok)

lemma validate_temperature_iff:
  assumes "dtp_channel c \<in> set channels_1_8" and "label_sized (dtp_label c)" and "sound (dtp_read c)"
  shows "validate_temperature c = Inr () \<longleftrightarrow> \<not> has_control (dtp_label c) \<and> value_ok (\<lambda>v. -100000 \<le> v \<and> v \<le> 250000) (dtp_read c)"
  using assms by (cases "dtp_read c")
    (simp_all add: validate_temperature_def channel_range validate_text_def label_sized_def validate_observation_ok value_ok_def)

text \<open>A list of channel records in ascending order.\<close>

definition channels_ascend :: "u8 list \<Rightarrow> bool" where
  "channels_ascend cs \<longleftrightarrow> sorted_wrt (<) cs \<and> set cs \<subseteq> set channels_1_8 \<and> length cs \<le> MAX_CHANNELS"

lemma ascend_Nil [simp]: "channels_ascend []"
  by (simp add: channels_ascend_def)

lemma validate_fans_iff:
  assumes "sound (df_control f)"
    and "channels_ascend (map dfn_channel (df_channels f))" and "list_all channel_sound (df_channels f)"
    and "channels_ascend (map drp_channel (df_rpm f))" and "list_all (\<lambda>c. label_sized (drp_label c) \<and> sound (drp_read c)) (df_rpm f)"
    and "channels_ascend (map dtp_channel (df_temperatures f))"
    and "list_all (\<lambda>c. label_sized (dtp_label c) \<and> sound (dtp_read c)) (df_temperatures f)"
  shows "fans_iff f"
proof -
  have "res_all validate_fan_channel (df_channels f) = Inr () \<longleftrightarrow>
      list_all (\<lambda>c. dfn_unit c = Unit_percent \<longrightarrow> value_ok (\<lambda>v. v \<le> 100) (dfn_setpoint c)) (df_channels f)"
    unfolding res_all_ok list_all_iff using assms(2,3)
    by (intro ball_cong refl validate_fan_channel_iff) (auto simp: list_all_iff channels_ascend_def)
  moreover have "res_all validate_rpm (df_rpm f) = Inr () \<longleftrightarrow> list_all (\<lambda>c. \<not> has_control (drp_label c)) (df_rpm f)"
    unfolding res_all_ok list_all_iff using assms(4,5)
    by (intro ball_cong refl validate_rpm_iff) (auto simp: list_all_iff channels_ascend_def)
  moreover have "res_all validate_temperature (df_temperatures f) = Inr () \<longleftrightarrow>
      list_all (\<lambda>c. \<not> has_control (dtp_label c) \<and> value_ok (\<lambda>v. -100000 \<le> v \<and> v \<le> 250000) (dtp_read c)) (df_temperatures f)"
    unfolding res_all_ok list_all_iff using assms(6,7)
    by (intro ball_cong refl validate_temperature_iff) (auto simp: list_all_iff channels_ascend_def)
  ultimately show ?thesis
    using assms(1,2,4,6)
    by (simp add: fans_iff_def fans_fit_def validate_fans_def res_bind_Inr_iff validate_observation_ok validate_channel_order_def
        channel_order_sorted channels_ascend_def linorder_not_less)
qed

lemma gives_filter_map_key:
  assumes "\<And>x. gives (\<lambda>y. \<forall>b. y = Some b \<longrightarrow> key b = x \<and> P b) (f x)"
  shows "gives (\<lambda>ys. subseq (map key ys) xs \<and> list_all P ys) (io_filter_map f xs)"
proof (induction xs)
  case (Cons x xs)
  show ?case
    unfolding io_filter_map.simps
    by (rule gives_bind [OF assms], rule gives_bind [OF Cons.IH], rule gives_ret) (auto split: option.split)
qed (simp add: gives_ret)

lemma subseq_sorted: "subseq xs ys \<Longrightarrow> sorted_wrt R ys \<Longrightarrow> sorted_wrt R xs"
  by (induction rule: list_emb.induct) (auto dest: list_emb_set)

lemma subseq_ascend:
  assumes "subseq cs channels_1_8" shows "channels_ascend cs"
proof -
  have "sorted_wrt (<) channels_1_8" by (simp add: channels_1_8_def)
  moreover have "length cs \<le> MAX_CHANNELS" using list_emb_length [OF assms] by (simp add: channels_1_8_def MAX_CHANNELS_def)
  ultimately show ?thesis
    using subseq_sorted [OF assms] list_emb_set [OF assms] by (auto simp: channels_ascend_def)
qed

lemma two_channels_ascend: "channels_ascend [1, 2]"
  by (simp add: channels_ascend_def channels_1_8_def MAX_CHANNELS_def)

lemma gives_mode: "kernel_errnos fs hr \<Longrightarrow> gives sound (diag_read_fan_mode fs hr p)"
  unfolding diag_read_fan_mode_def
  by (rule gives_bind [OF gives_number]) (auto intro!: gives_ret ob_ok_bind simp: fan_mode_of_def)

lemma gives_fan_channel:
  assumes "kernel_errnos fs hr"
  shows "gives (\<lambda>c. dfn_channel c = n \<and> channel_sound c) (fan_channel fs hr n source u sp mp)"
  unfolding fan_channel_def
  by (rule gives_bind [OF gives_number [OF assms]], rule gives_bind [OF gives_mode [OF assms]], rule gives_ret)
    (simp add: channel_sound_def)

definition channels_sound :: "diag_fan_channel list \<Rightarrow> bool" where
  "channels_sound cs \<longleftrightarrow> channels_ascend (map dfn_channel cs) \<and> list_all channel_sound cs"

lemma gives_two_channels:
  assumes "\<And>x. x \<in> set xs \<Longrightarrow> gives (\<lambda>c. dfn_channel c = ch x \<and> channel_sound c) (f x)" and "map ch xs = [1, 2]"
  shows "gives channels_sound (io_map_list f xs)"
proof (rule gives_mono [OF gives_map_list [OF assms(1)]])
  fix cs assume "list_all2 (\<lambda>x c. dfn_channel c = ch x \<and> channel_sound c) xs cs"
  then have "map dfn_channel cs = map ch xs" and "list_all channel_sound cs"
    by (induction rule: list_all2_induct) simp_all
  then show "channels_sound cs" using assms(2) two_channels_ascend by (simp add: channels_sound_def)
qed

lemma gives_kernel_channels: "kernel_errnos fs hr \<Longrightarrow> gives channels_sound (collect_kernel_fan_channels fs hr base)"
  unfolding collect_kernel_fan_channels_def
  by (rule gives_two_channels [where ch = "\<lambda>c. c"]) (simp_all add: gives_fan_channel)

lemma gives_gaming_channels: "kernel_errnos fs hr \<Longrightarrow> gives channels_sound (collect_gaming_fan_channels fs hr base d)"
  unfolding collect_gaming_fan_channels_def Let_def
  by (rule gives_two_channels [where ch = fst]) (auto simp: gives_fan_channel)

lemma gives_channels: "kernel_errnos fs hr \<Longrightarrow> gives channels_sound (collect_fan_channels fs hr v)"
  unfolding collect_fan_channels_def
  by (auto simp: gives_kernel_channels gives_gaming_channels channels_sound_def channels_ascend_def intro!: gives_ret
      split: option.split prod.split bool.split)

lemma gives_label:
  assumes "kernel_errnos fs hr" shows "gives label_sized (read_label fs hr base pre c)"
proof -
  have "label_sized (label_fallback pre c)"
    using show_word_u8_length [of c] by (auto simp: label_sized_def label_fallback_def MAX_LABEL_BYTES_def)
  then show ?thesis
    unfolding read_label_def
    by (intro gives_bind [OF gives_text [OF assms]] gives_ret) (auto simp: label_sized_def split: observation.split)
qed

lemma gives_rpm:
  assumes "kernel_errnos fs hr"
  shows "gives (\<lambda>cs. channels_ascend (map drp_channel cs) \<and> list_all (\<lambda>c. label_sized (drp_label c) \<and> sound (drp_read c)) cs) (collect_rpm fs hr base)"
proof -
  have "gives (\<lambda>y. \<forall>c. y = Some c \<longrightarrow> drp_channel c = n \<and> label_sized (drp_label c) \<and> sound (drp_read c)) (rpm_channel fs hr base n)" for n
    unfolding rpm_channel_def Let_def
    by (rule gives_any_bind [OF gives_query], simp, rule gives_if, rule gives_ret, simp, rule gives_bind [OF gives_label [OF assms]],
        rule gives_bind [OF gives_number [OF assms]], rule gives_ret, simp)
  from gives_filter_map_key [OF this] show ?thesis
    unfolding collect_rpm_def by (rule gives_mono) (simp add: subseq_ascend)
qed

lemma gives_temperatures:
  assumes "kernel_errnos fs hr"
  shows "gives (\<lambda>cs. channels_ascend (map dtp_channel cs) \<and> list_all (\<lambda>c. label_sized (dtp_label c) \<and> sound (dtp_read c)) cs) (collect_temperatures fs hr base)"
proof -
  have "gives (\<lambda>y. \<forall>c. y = Some c \<longrightarrow> dtp_channel c = n \<and> label_sized (dtp_label c) \<and> sound (dtp_read c)) (temperature_channel fs hr base n)" for n
    unfolding temperature_channel_def Let_def
    by (rule gives_any_bind [OF gives_query], simp, rule gives_if, rule gives_ret, simp, rule gives_bind [OF gives_label [OF assms]],
        rule gives_bind [OF gives_number [OF assms]], rule gives_ret, simp)
  from gives_filter_map_key [OF this] show ?thesis
    unfolding collect_temperatures_def by (rule gives_mono) (simp add: subseq_ascend)
qed

text \<open>Discovery: a failure carries a kernel error.\<close>

definition good_hardware :: "hardware_error \<Rightarrow> bool" where
  "good_hardware x \<longleftrightarrow> (\<forall>op p y. x = Hw_io op p y \<longrightarrow> good_io y)"

lemma yields_map_error:
  assumes "yields E P m" and "\<And>x. E x \<Longrightarrow> E' (g x)" shows "yields E' P (io_map_err g m)"
  unfolding yields_def
proof
  fix w obtain r w' where "m w = (r, w')" by (cases "m w") auto
  with assms show "case fst (io_map_err g m w) of Inl x \<Rightarrow> E' x | Inr a \<Rightarrow> P a"
    by (cases r) (auto simp: yields_def io_map_err_apply dest: spec [of _ w])
qed

lemma yields_trimmed: "kernel_errnos fs hr \<Longrightarrow> yields good_hardware (\<lambda>_. True) (read_trimmed fs p op)"
  unfolding read_trimmed_def
  by (rule yields_bind [OF yields_map_error [OF yields_read_string]]) (auto simp: good_hardware_def intro: yields_ret)

lemma gives_yields: "gives P m \<Longrightarrow> yields E P m"
  unfolding gives_def yields_def by (metis fst_conv sum.case(2))

lemma gives_hwmon: "gives (\<lambda>_. True) (discover_acer_hwmon fs root)"
proof -
  have "gives (\<lambda>_. True) (io_filter_map (\<lambda>n. hwmon_candidate fs (path_join d n)) ns)" for d ns
    by (rule gives_mono [OF gives_filter_map [where P = "\<lambda>_. True"]])
      (auto simp: hwmon_candidate_def intro!: gives_try gives_ret gives_query split: sum.split)
  then show ?thesis
    unfolding discover_acer_hwmon_def Let_def
    by (auto intro!: gives_any_bind gives_query gives_ret split: sum.split)
qed

lemma gives_all: "(\<And>x. gives (\<lambda>_. True) (f x)) \<Longrightarrow> gives (\<lambda>_. True) (io_all f xs)"
  by (induction xs) (auto intro!: gives_any_bind gives_ret)

lemma gives_temperature_path: "gives (\<lambda>_. True) (acer_temperature_path fs base c)"
proof -
  have "gives (\<lambda>_. True) (find_temperature_input fs base role is)" for role "is"
    by (induction fs base role "is" rule: find_temperature_input.induct)
      (auto simp: Let_def intro!: gives_try gives_ret gives_any_bind gives_query split: sum.split)
  then show ?thesis
    unfolding acer_temperature_path_def Let_def by (auto intro!: gives_ret gives_any_bind split: sum.split)
qed

lemma gives_watchdog: "gives (\<lambda>_. True) (manual_watchdog_available fs base)"
  unfolding manual_watchdog_available_def io_is_ok_def
  by (intro gives_all gives_any_bind gives_temperature_path gives_try gives_ret) simp

lemma gives_fan_interfaces:
  "gives (\<lambda>_. True) (discover_kernel_fan_interface fs hwmon)"
  "gives (\<lambda>_. True) (discover_gaming_wmi_fan_interface fs root hwmon)"
  unfolding discover_kernel_fan_interface_def discover_gaming_wmi_fan_interface_def
  by (auto intro!: gives_any_bind gives_query gives_ret gives_all gives_try gives_watchdog split: option.split)

lemma gives_profile_interface: "gives (\<lambda>_. True) (discover_kernel_profile_interface fs root)"
proof -
  have "gives (\<lambda>_. True) (io_filter_map (kernel_profile_candidate fs d) ns)" for d ns
    by (rule gives_mono [OF gives_filter_map [where P = "\<lambda>_. True"]])
      (auto simp: kernel_profile_candidate_def Let_def intro!: gives_any_bind gives_try gives_ret gives_query)
  then show ?thesis
    unfolding discover_kernel_profile_interface_def Let_def
    by (auto intro!: gives_any_bind gives_query gives_ret split: sum.split list.split)
qed

lemma yields_discover:
  assumes "kernel_errnos fs hr" shows "yields good_hardware (\<lambda>_. True) (discover_at fs root)"
proof -
  have pl: "yields good_hardware (\<lambda>_. True) (discover_platform fs root)"
    unfolding discover_platform_def
    by (intro yields_bind [OF yields_trimmed [OF assms]] yields_ret) simp
  show ?thesis
    unfolding discover_at_def
    by (rule yields_bind [OF pl], rule gives_yields)
      (auto intro!: gives_any_bind gives_hwmon gives_ret gives_query gives_profile_interface gives_fan_interfaces split: option.split)
qed

lemma gives_capabilities: "gives (\<lambda>_. True) (capabilities fs hw)"
proof -
  have "gives (\<lambda>_. True) (fan_rpm_channels fs hw)"
  proof (cases "hw_hwmon hw")
    case (Some base)
    show ?thesis
      unfolding fan_rpm_channels_def Some option.case
      by (rule gives_mono [OF gives_filter_map [where P = "\<lambda>_. True"]])
        (auto simp: Let_def io_ok_def intro!: gives_any_bind gives_query gives_try gives_ret)
  qed (simp add: fan_rpm_channels_def gives_ret)
  then show ?thesis
    unfolding capabilities_def io_ok_def
    by (auto intro!: gives_any_bind gives_try gives_ret split: prod.split)
qed

lemma gives_control:
  assumes "kernel_errnos fs hr" shows "gives sound (collect_fan_control fs root v)"
  unfolding collect_fan_control_def
proof (rule gives_try_yields [OF yields_discover [OF assms]], goal_cases)
  case (1 x)
  have "validate_error (fan_control_error x) = Inr ()"
    using 1 by (cases x) (auto simp: fan_control_error_def good_hardware_def intro: good_io_error)
  then show ?case by (simp add: gives_ret)
next
  case (2 hw)
  have "sound (control_of v fans)" for fans
    by (simp add: control_of_def Let_def split: option.split fan_backend.split)
  then show ?case by (auto intro!: gives_any_bind [OF gives_capabilities] gives_ret)
qed

lemma gives_fans:
  assumes "kernel_errnos fs hr" shows "gives fans_iff (collect_fans fs hr root)"
proof -
  have rpm: "gives (\<lambda>cs. channels_ascend (map drp_channel cs) \<and> list_all (\<lambda>c. label_sized (drp_label c) \<and> sound (drp_read c)) cs)
      (case h of None \<Rightarrow> io_ret [] | Some base \<Rightarrow> collect_rpm fs hr base)" for h
    by (auto intro!: gives_ret gives_rpm [OF assms] split: option.split)
  have temp: "gives (\<lambda>cs. channels_ascend (map dtp_channel cs) \<and> list_all (\<lambda>c. label_sized (dtp_label c) \<and> sound (dtp_read c)) cs)
      (case h of None \<Rightarrow> io_ret [] | Some base \<Rightarrow> collect_temperatures fs hr base)" for h
    by (auto intro!: gives_ret gives_temperatures [OF assms] split: option.split)
  show ?thesis
    unfolding collect_fans_def
    apply (rule gives_any_bind [OF gives_hwmon], rule gives_any_bind [OF gives_query], rule TrueI)
    apply (rule gives_bind [OF gives_control [OF assms]], rule gives_any_bind [OF gives_query], rule TrueI)
    apply (rule gives_bind [OF gives_channels [OF assms]], rule gives_bind [OF rpm], rule gives_bind [OF temp], rule gives_ret)
    by (rule validate_fans_iff) (simp_all add: channels_sound_def)
qed

section \<open>The platform\<close>

definition platform_value_ok :: "diag_platform_value \<Rightarrow> bool" where
  "platform_value_ok v \<longleftrightarrow> validate_platform_value v = Inr ()"

lemma hex_bytes_error: "parse_hex_bytes v n = Inl x \<Longrightarrow> x = invalid_value"
  by (auto simp: parse_hex_bytes_def ok_or_def split: if_splits option.splits dest!: res_map_list_Inl)

lemma hex_bytes_hex: "parse_hex_bytes v n = Inr bs \<Longrightarrow> is_hex v (n * 2)"
  by (auto simp: parse_hex_bytes_def split: if_splits)

lemma scalar_raw_ok: "is_hex v 16 \<Longrightarrow> validate_error (invalid_raw \<lparr>dr_encoding = Scalar_hex, dr_bytes = 8, dr_value = ascii_lower v\<rparr>) = Inr ()"
  by (rule validate_error_raw) (simp_all add: lower_hex)

lemma parse_scalar_cases:
  "parse_scalar v = Inl x \<Longrightarrow> validate_error x = Inr ()"
  "parse_scalar v = Inr (n, raw) \<Longrightarrow> validate_error (invalid_raw raw) = Inr ()"
  by (auto simp: parse_scalar_def scalar_raw_def scalar_raw_ok split: if_splits option.splits)

lemma scalar_decoder:
  assumes "\<And>n raw x. f (n, raw) = Inl x \<Longrightarrow> x = invalid_raw raw" and "\<And>n raw a. f (n, raw) = Inr a \<Longrightarrow> platform_value_ok a"
  shows "decoder_ok platform_value_ok (\<lambda>v. res_bind (parse_scalar v) f)"
  by (rule decoder_okI) (auto simp: res_bind_Inl_iff res_bind_Inr_iff dest: parse_scalar_cases assms)

lemma bool_ok [simp]: "platform_value_ok (Val_bool b)"
  by (simp add: platform_value_ok_def validate_platform_value_def)

lemma text_decoders: "decoder_ok platform_value_ok decode_bool_text" "decoder_ok platform_value_ok decode_usb_text"
  "decoder_ok platform_value_ok decode_logo_text"
proof -
  show "decoder_ok platform_value_ok decode_bool_text"
    by (rule decoder_okI) (auto simp: decode_bool_text_def split: if_splits)
  show "decoder_ok platform_value_ok decode_usb_text"
    by (rule decoder_okI) (auto simp: decode_usb_text_def platform_value_ok_def validate_platform_value_def split: if_splits option.splits)
  show "decoder_ok platform_value_ok decode_logo_text"
    by (rule decoder_okI)
      (auto simp: decode_logo_text_def platform_value_ok_def validate_platform_value_def lower_hex split: if_splits option.splits list.splits)
qed

lemma raw_decoders: "decoder_ok platform_value_ok decode_timeout_raw" "decoder_ok platform_value_ok decode_boot_sound_raw"
  "decoder_ok platform_value_ok decode_lcd_raw" "decoder_ok platform_value_ok decode_usb_raw"
  unfolding decode_timeout_raw_def decode_boot_sound_raw_def decode_lcd_raw_def decode_usb_raw_def
  by (rule scalar_decoder; auto simp: Let_def platform_value_ok_def validate_platform_value_def split: if_splits)+

lemma rgb_hex: "is_hex (hex2 a @ hex2 b @ hex2 c) 6"
  by (simp add: is_hex_def list_all_iff ball_Un hex2_chars)

lemma logo_decoder: "decoder_ok platform_value_ok decode_logo_raw"
proof (rule decoder_okI)
  fix v x assume "decode_logo_raw v = Inl x"
  then show "validate_error x = Inr ()"
    by (auto simp: decode_logo_raw_def res_bind_Inl_iff scalar_raw_ok dest: hex_bytes_error dest!: hex_bytes_hex split: if_splits)
next
  fix v a assume "decode_logo_raw v = Inr a"
  then show "platform_value_ok a"
    by (auto simp: decode_logo_raw_def res_bind_Inr_iff platform_value_ok_def validate_platform_value_def rgb_hex split: if_splits)
qed

definition field_ok :: "diag_field_name \<times> diag_source \<Rightarrow> diag_field \<Rightarrow> bool" where
  "field_ok = (\<lambda>(name, source) f. dfl_name f = name \<and> dfl_source f = source \<and> ob_ok platform_value_ok (dfl_read f))"

lemma gives_field:
  assumes "kernel_errnos fs hr" and "decoder_ok platform_value_ok d1" and "decoder_ok platform_value_ok d2"
  shows "gives (field_ok (name, source)) (platform_field fs hr name source p q d1 d2)"
  unfolding platform_field_def
  apply (rule gives_any_bind [OF gives_query], rule TrueI, clarsimp simp: split_beta)
  apply (rule gives_bind [where Q = "ob_ok platform_value_ok"])
  by (auto intro!: gives_ret gives_value assms simp: field_ok_def split: option.split)

lemma gives_battery_field:
  assumes "kernel_errnos fs hr" and "sound raw"
  shows "gives (field_ok (name, Src_asense_battery)) (platform_battery_field fs hr name n m i p raw)"
proof -
  have "ob_ok platform_value_ok (battery_value m i v)" for v
    by (auto simp: battery_value_def split: sum.split dest: hex_bytes_error)
  then show ?thesis
    unfolding platform_battery_field_def using assms(2)
    apply (intro gives_any_bind [OF gives_query] TrueI)
    apply (rule gives_bind [where Q = "ob_ok platform_value_ok"])
    by (auto intro!: gives_ret gives_value assms(1) text_decoders simp: field_ok_def split: option.split observation.split)
qed

lemma gives_sequence:
  "list_all2 (\<lambda>P m. gives P m) Ps ms \<Longrightarrow> gives (list_all2 (\<lambda>P y. P y) Ps) (io_map_list (\<lambda>m. m) ms)"
proof (induction rule: list_all2_induct)
  case (Cons P Ps m ms)
  show ?case
    unfolding io_map_list.simps
    by (rule gives_bind [OF Cons.hyps(1)], rule gives_bind [OF Cons.IH], rule gives_ret) simp
qed (simp add: gives_ret)

lemma fields_valid:
  assumes "list_all2 (\<lambda>P f. P f) (map field_ok (zip field_order field_sources)) fs"
  shows "map dfl_name fs = field_order \<and> res_all validate_field (zip fs field_sources) = Inr ()"
proof -
  have "list_all2 field_ok (zip field_order field_sources) fs" using assms by (simp add: list_all2_map1)
  then obtain a b c d e f g where fs: "fs = [a, b, c, d, e, f, g]"
    and ok: "field_ok (Fld_battery_limit, Src_asense_battery) a" "field_ok (Fld_battery_calibration, Src_asense_battery) b"
      "field_ok (Fld_usb_off_charging, Src_asense_apge) c" "field_ok (Fld_keyboard_timeout, Src_asense_apge) d"
      "field_ok (Fld_boot_sound, Src_asense_rgb) e" "field_ok (Fld_lcd_override, Src_asense_rgb) f" "field_ok (Fld_rear_logo, Src_asense_rgb) g"
    by (auto simp: field_order_def field_sources_def list_all2_Cons1)
  then show ?thesis
    by (simp add: field_ok_def field_order_def field_sources_def res_all_ok validate_field_def validate_observation_ok
        platform_value_ok_def [symmetric])
qed

lemma gives_platform:
  assumes "kernel_errnos fs hr" shows "gives (\<lambda>p. validate_platform p = Inr ()) (collect_platform fs hr root)"
proof -
  have raw: "gives sound (case b of None \<Rightarrow> io_ret (Ob_absent Not_exposed) | Some base \<Rightarrow> diag_read_text fs hr (path_join base ''battery_raw''))" for b
    by (auto intro!: gives_ret gives_text [OF assms] split: option.split)
  have fields: "gives (list_all2 (\<lambda>P f. P f) (map field_ok (zip field_order field_sources))) (io_map_list (\<lambda>m. m) (platform_fields fs hr v raw))"
    if "sound raw" for v raw
    by (rule gives_sequence)
      (simp add: platform_fields_def field_order_def field_sources_def Let_def gives_battery_field gives_field assms that
        text_decoders raw_decoders logo_decoder)
  show ?thesis
    unfolding collect_platform_def
    by (rule gives_any_bind [OF gives_query], rule TrueI, rule gives_bind [OF raw], rule gives_bind [OF fields], assumption, rule gives_ret)
      (auto simp: validate_platform_def res_bind_Inr_iff validate_observation_ok dest: fields_valid)
qed

section \<open>The lighting\<close>

lemma gives_lighting:
  assumes "kernel_errnos fs hr"
  shows "gives (\<lambda>ls. length ls \<le> 1 \<and> res_all validate_light ls = Inr ()) (collect_lighting fs hr root)"
proof -
  have light: "validate_light (zoned_light z r) = Inr ()" if "zoned_wmi_zone_count t = Some z" for t z r
    using that by (auto simp: zoned_wmi_zone_count_def validate_light_def zoned_light_def Let_def split: if_splits)
  have none: "res_all validate_light [] = Inr ()" by (simp add: res_all_def)
  have texts: "gives (\<lambda>_. True) (io_map_list (\<lambda>n. diag_read_text fs hr (path_join base n)) ns)" for base ns
    by (rule gives_mono [OF gives_map_list [where R = "\<lambda>_ _. True"]]) (auto intro: gives_mono [OF gives_text [OF assms]])
  have at: "gives (\<lambda>ls. length ls \<le> 1 \<and> res_all validate_light ls = Inr ()) (collect_light_at fs hr base)" for base
    unfolding collect_light_at_def
    by (rule gives_bind [OF gives_text [OF assms]])
      (auto intro!: gives_ret gives_any_bind [OF texts] simp: light res_all_ok simp del: io_map_list.simps split: observation.split option.split)
  show ?thesis
    unfolding collect_lighting_def
    by (rule gives_any_bind [OF gives_query]) (auto intro: gives_ret at simp: none simp del: One_nat_def split: option.split)
qed

section \<open>The report\<close>

definition size_fit :: "diag_json \<Rightarrow> passive_diagnostics \<Rightarrow> bool" where
  "size_fit js d \<longleftrightarrow> (case dj_write js d of Inl _ \<Rightarrow> False | Inr s \<Rightarrow> length s \<le> MAX_PASSIVE_DIAGNOSTICS_BYTES)"

lemma validate_size_iff: "validate_size js d = Inr () \<longleftrightarrow> size_fit js d"
  by (cases "dj_write js d") (simp_all add: validate_size_def size_fit_def)

definition report_fit :: "diag_json \<Rightarrow> passive_diagnostics \<Rightarrow> bool" where
  "report_fit js d \<longleftrightarrow> profile_fit (pd_profile d) \<and> fans_fit (pd_fans d) \<and> size_fit js d"

lemma gives_diagnostics:
  assumes "valid_sha sha" and "kernel_errnos fs hr"
  shows "gives (\<lambda>d. validate_diagnostics js d = Inr () \<longleftrightarrow> report_fit js d) (collect_diagnostics sha fs hr root)"
  unfolding collect_diagnostics_def
  by (rule gives_bind [OF gives_profile [OF assms(2)]], rule gives_bind [OF gives_fans [OF assms(2)]],
      rule gives_bind [OF gives_platform [OF assms(2)]], rule gives_bind [OF gives_lighting [OF assms(2)]],
      rule gives_bind [OF gives_inventory [OF assms(1)]], rule gives_ret)
    (auto simp: validate_diagnostics_def report_fit_def profile_iff_def fans_iff_def res_bind_Inr_iff validate_size_iff
      PASSIVE_DIAGNOSTICS_SCHEMA_def)

text \<open>C36: Whatever the machine exposes, collecting the passive report succeeds, and the report passes its own validator exactly when the profile choices are distinct, every Gaming-WMI fan percentage is at most 100, no fan or temperature label holds a control character, every temperature lies in -100000 to 250000 millidegrees, and its JSON text fits: a single reading outside these bounds makes the whole report be refused.\<close>

theorem diagnostics_accepted_iff:
  assumes "valid_sha sha" and "kernel_errnos fs hr"
  shows "\<exists>d w'. collect_diagnostics sha fs hr root w = (Inr d :: 'x + passive_diagnostics, w')
    \<and> (is_ok (encode_diagnostics js d) \<longleftrightarrow>
         value_ok (\<lambda>cs. distinct (map dch_command cs)) (dp_choices (pd_profile d))
       \<and> list_all (\<lambda>c. dfn_unit c = Unit_percent \<longrightarrow> value_ok (\<lambda>v. v \<le> 100) (dfn_setpoint c)) (df_channels (pd_fans d))
       \<and> list_all (\<lambda>c. \<not> has_control (drp_label c)) (df_rpm (pd_fans d))
       \<and> list_all (\<lambda>c. \<not> has_control (dtp_label c) \<and> value_ok (\<lambda>v. -100000 \<le> v \<and> v \<le> 250000) (dtp_read c)) (df_temperatures (pd_fans d))
       \<and> (\<exists>s. dj_write js d = Inr s \<and> length s \<le> 32764))"
proof -
  from gives_diagnostics [OF assms, of js root] obtain d w' where run: "collect_diagnostics sha fs hr root w = (Inr d :: 'x + passive_diagnostics, w')"
    and iff: "validate_diagnostics js d = Inr () \<longleftrightarrow> report_fit js d" by (rule givesE)
  have "is_ok (encode_diagnostics js d) \<longleftrightarrow> report_fit js d"
    unfolding iff [symmetric]
    by (cases "dj_write js d"; cases "validate_diagnostics js d")
      (auto simp: encode_diagnostics_def validate_diagnostics_def validate_size_def res_bind_Inr_iff split: if_splits)
  moreover have "size_fit js d \<longleftrightarrow> (\<exists>s. dj_write js d = Inr s \<and> length s \<le> 32764)"
    by (simp add: size_fit_def MAX_PASSIVE_DIAGNOSTICS_BYTES_def split: sum.split)
  ultimately show ?thesis
    using run unfolding report_fit_def profile_fit_def fans_fit_def by blast
qed

lemma encoded_valid:
  assumes "encode_diagnostics js d = Inr s"
  shows "validate_diagnostics js d = Inr ()" and "length s \<le> MAX_PASSIVE_DIAGNOSTICS_BYTES"
proof -
  from assms show v: "validate_diagnostics js d = Inr ()" by (auto simp: encode_diagnostics_def res_bind_Inr_iff)
  from assms have s: "dj_write js d = Inr s" by (auto simp: encode_diagnostics_def res_bind_Inr_iff)
  from v have "validate_size js d = Inr ()"
    by (auto simp: validate_diagnostics_def res_bind_Inr_iff split: if_splits)
  with s show "length s \<le> MAX_PASSIVE_DIAGNOSTICS_BYTES" by (auto simp: validate_size_def split: if_splits)
qed

text \<open>What \<open>serde_json\<close> promises of the texts it writes: they read back, and they are plain text in one line.\<close>

definition json_text :: "diag_json \<Rightarrow> passive_diagnostics \<Rightarrow> string \<Rightarrow> bool" where
  "json_text js d s \<longleftrightarrow> dj_read js s = Inr d \<and> s \<noteq> [] \<and> trimmed s \<and> utf8_valid s \<and> \<not> has_control s \<and> NL \<notin> set s"

text \<open>C37: A passive report that the daemon encodes always fits one response, and the client that reads the response, however it is cut on the way, obtains the same report.\<close>

theorem diagnostics_cross_socket:
  assumes "encode_diagnostics js d = Inr s" and "json_text js d s" and "carries es (response_bytes (Inr s) @ rest)"
  shows "\<exists>v. receive_payload es = Inr v \<and> parse_diagnostics js v = Inr d"
proof -
  have "wire_payload s"
    using encoded_valid(2) [OF assms(1)] assms(2)
    by (simp add: json_text_def wire_payload_def clean_payload_def MAX_PASSIVE_DIAGNOSTICS_BYTES_def
        MAX_CONTROL_RESPONSE_PAYLOAD_BYTES_def MAX_CONTROL_RESPONSE_LINE_BYTES_def)
  then have "response_line (Inr s) = ''OK '' @ s" and "parse_response (''OK '' @ s) = Inr s"
    using parse_ok_response by (simp_all only: response_line_def wire_payload_def sanitize_id sum.case is_ok_simps if_True)
  with response_delivered [OF assms(3)] have "receive_payload es = Inr s" by (auto simp: receive_payload_def)
  moreover have "parse_diagnostics js s = Inr d"
    using encoded_valid [OF assms(1)] assms(2) by (simp add: parse_diagnostics_def json_text_def)
  ultimately show ?thesis by blast
qed

section \<open>Witnesses\<close>

definition bare_json :: diag_json where
  "bare_json = \<lparr>dj_write = (\<lambda>_. Inr ''{}''), dj_read = (\<lambda>_. Inl ''unread'')\<rparr>"

definition bare_field :: "diag_field_name \<times> diag_source \<Rightarrow> diag_field" where
  "bare_field = (\<lambda>(n, s). \<lparr>dfl_name = n, dfl_expected = False, dfl_exposed = False, dfl_source = s, dfl_read = Ob_absent Not_exposed\<rparr>)"

text \<open>The report of a machine with one sensor, at 45 degrees.\<close>

definition bare_report :: passive_diagnostics where
  "bare_report = \<lparr>pd_schema = 2, pd_profile = absent_profile,
     pd_fans = \<lparr>df_control = Ob_absent Not_exposed, df_channels = [], df_rpm = [],
       df_temperatures = [\<lparr>dtp_channel = 1, dtp_label = ''CPU'', dtp_read = Ob_value 45000\<rparr>]\<rparr>,
     pd_platform = \<lparr>dpl_transport = Ob_absent Not_exposed, dpl_fields = map bare_field (zip field_order field_sources)\<rparr>,
     pd_lighting = [], pd_hid = []\<rparr>"

lemma cpu_label: "\<not> has_control ''CPU''"
  by code_simp

lemma tree_errnos: "kernel_errnos tree_sysfs bench_hid"
  by (simp add: kernel_errnos_def tree_sysfs_def bench_hid_def good_io_def ENOENT_def split: option.split)

theorem diagnostics_accepted_iff_witness:
  "valid_sha (\<lambda>_. replicate 32 0) \<and> kernel_errnos tree_sysfs bench_hid \<and> (\<exists>d w'.
     collect_diagnostics (\<lambda>_. replicate 32 0) tree_sysfs bench_hid [] \<lparr>wenv = bench_hid_files, wlog = []\<rparr> = (Inr d :: unit + passive_diagnostics, w')
     \<and> (list_all (\<lambda>c. \<not> has_control (dtp_label c)) (df_temperatures (pd_fans d)) \<or> \<not> is_ok (encode_diagnostics bare_json d)))"
proof -
  have sha: "valid_sha (\<lambda>_. replicate 32 0)" by (simp add: valid_sha_def)
  obtain d w' where run: "collect_diagnostics (\<lambda>_. replicate 32 0) tree_sysfs bench_hid [] \<lparr>wenv = bench_hid_files, wlog = []\<rparr>
      = (Inr d :: unit + passive_diagnostics, w')"
    and ok: "is_ok (encode_diagnostics bare_json d) \<longrightarrow> list_all (\<lambda>c. \<not> has_control (dtp_label c)) (df_temperatures (pd_fans d))"
    using diagnostics_accepted_iff [OF sha tree_errnos, of "[]" "\<lparr>wenv = bench_hid_files, wlog = []\<rparr>" bare_json]
    by (auto simp: list_all_iff)
  with sha tree_errnos show ?thesis by blast
qed

lemma bare_report_encodes: "encode_diagnostics (bare_json\<lparr>dj_read := \<lambda>_. Inr bare_report\<rparr>) bare_report = Inr ''{}''"
  by (simp add: encode_diagnostics_def validate_diagnostics_def bare_report_def bare_json_def validate_profile_def absent_profile_def
      validate_observation_def validate_fans_def MAX_CHANNELS_def res_all_def validate_temperature_def validate_diag_channel_def
      validate_text_def MAX_LABEL_BYTES_def cpu_label validate_channel_order_def validate_platform_def field_order_def field_sources_def
      bare_field_def validate_field_def validate_inventory_def MAX_HID_CANDIDATES_def validate_size_def
      MAX_PASSIVE_DIAGNOSTICS_BYTES_def PASSIVE_DIAGNOSTICS_SCHEMA_def)

theorem diagnostics_cross_socket_witness:
  "\<exists>v. receive_payload [Bytes (response_bytes (Inr ''{}''))] = Inr v
     \<and> parse_diagnostics (bare_json\<lparr>dj_read := \<lambda>_. Inr bare_report\<rparr>) v = Inr bare_report"
proof -
  have "utf8_valid ''{}''" "\<not> has_control ''{}''" by code_simp+
  then have "json_text (bare_json\<lparr>dj_read := \<lambda>_. Inr bare_report\<rparr>) bare_report ''{}''"
    by (simp add: json_text_def bare_json_def trimmed_def char_defs NL_def)
  from diagnostics_cross_socket [OF bare_report_encodes this, of _ "[]"] show ?thesis
    by (simp add: response_bytes_def)
qed

end
