(* ===== verification/Telemetry_Text.thy ===== *)
theory Telemetry_Text
  imports Complex_Main Memory_Hardware
begin

text \<open>
  The text readers of \<open>src/telemetry.rs\<close>: CPU counters and load, memory counters, CPU lists, cache
  sizes, \<open>/proc/cpuinfo\<close>, the NVIDIA version line and PCI addresses. Counters are natural numbers
  bounded by their width, with the saturating operations written out. A percentage is the exact
  rational of which the code keeps the nearest \<open>f32\<close>, and so is a temperature. What an
  error says is a constructor with the values its text is made of.
\<close>

section \<open>Errors\<close>

datatype telemetry_detail =
    Cpu_line_missing | Bad_counter string | Short_counters nat | Bad_memory_value string | Not_in_kb string
  | Memory_total_missing | Memory_available_missing | Available_exceeds_total | Bad_temperature string

datatype telemetry_error =
    Te_hardware hardware_error
  | Te_io string path io_error
  | Te_invalid_data string telemetry_detail

definition is_descriptor_exhaustion :: "io_error \<Rightarrow> bool" where
  "is_descriptor_exhaustion x \<longleftrightarrow> raw_os_error x = Some 24 \<or> raw_os_error x = Some 23"

section \<open>CPU counters\<close>

record cpu_times =
  ct_user :: nat
  ct_nice :: nat
  ct_system :: nat
  ct_idle :: nat
  ct_iowait :: nat
  ct_irq :: nat
  ct_softirq :: nat
  ct_steal :: nat

definition sat_add :: "nat \<Rightarrow> nat \<Rightarrow> nat" where "sat_add a b = min u64_max (a + b)"

definition idle_total :: "cpu_times \<Rightarrow> nat" where
  "idle_total t = sat_add (ct_idle t) (ct_iowait t)"

definition times_total :: "cpu_times \<Rightarrow> nat" where
  "times_total t = foldl sat_add (ct_user t) [ct_nice t, ct_system t, ct_idle t, ct_iowait t, ct_irq t, ct_softirq t, ct_steal t]"

definition parse_counter :: "string \<Rightarrow> telemetry_error + nat" where
  "parse_counter v = ok_or (Te_invalid_data ''/proc/stat'' (Bad_counter v)) (parse_uint 10 u64_max v)"

definition times_of_counters :: "nat list \<Rightarrow> telemetry_error + cpu_times" where
  "times_of_counters values = (case values of
      [user, nice, system, idle, iowait, irq, softirq, steal] \<Rightarrow>
        Inr \<lparr>ct_user = user, ct_nice = nice, ct_system = system, ct_idle = idle, ct_iowait = iowait,
          ct_irq = irq, ct_softirq = softirq, ct_steal = steal\<rparr>
    | _ \<Rightarrow> Inl (Te_invalid_data ''/proc/stat'' (Short_counters (length values))))"

definition parse_cpu_times :: "string \<Rightarrow> telemetry_error + cpu_times" where
  "parse_cpu_times proc_stat = res_bind
     (ok_or (Te_invalid_data ''/proc/stat'' Cpu_line_missing) (find (prefix ''cpu '') (str_lines proc_stat))) (\<lambda>line.
     res_bind (res_map_list parse_counter (take 8 (drop 1 (split_ascii_ws line)))) times_of_counters)"

definition checked_sub :: "nat \<Rightarrow> nat \<Rightarrow> nat option" where
  "checked_sub a b = (if b \<le> a then Some (a - b) else None)"

definition cpu_utilization :: "cpu_times \<Rightarrow> cpu_times \<Rightarrow> rat option" where
  "cpu_utilization previous current = Option.bind (checked_sub (times_total current) (times_total previous)) (\<lambda>total_delta.
     if total_delta = 0 then None
     else Option.bind (checked_sub (idle_total current) (idle_total previous)) (\<lambda>idle_delta.
       Some (of_nat (total_delta - idle_delta) * 100 / of_nat total_delta)))"

section \<open>Memory counters\<close>

type_synonym memory_counters = "nat option \<times> nat option"

definition put_counter :: "string \<Rightarrow> nat \<Rightarrow> memory_counters \<Rightarrow> memory_counters" where
  "put_counter name v = (\<lambda>(total, available). if name = ''MemTotal:'' then (Some v, available) else (total, Some v))"

definition memory_line :: "string \<Rightarrow> memory_counters \<Rightarrow> telemetry_error + memory_counters" where
  "memory_line line c = (case split_ascii_ws line of
      [] \<Rightarrow> Inr c
    | name # words \<Rightarrow> if name \<noteq> ''MemTotal:'' \<and> name \<noteq> ''MemAvailable:'' then Inr c
        else (case words of
            [] \<Rightarrow> Inl (Te_invalid_data ''/proc/meminfo'' (Bad_memory_value name))
          | v # units \<Rightarrow> (case parse_uint 10 u64_max v of
              None \<Rightarrow> Inl (Te_invalid_data ''/proc/meminfo'' (Bad_memory_value name))
            | Some n \<Rightarrow> (case units of
                u # _ \<Rightarrow> if u = ''kB'' then Inr (put_counter name n c) else Inl (Te_invalid_data ''/proc/meminfo'' (Not_in_kb name))
              | [] \<Rightarrow> Inl (Te_invalid_data ''/proc/meminfo'' (Not_in_kb name))))))"

fun memory_lines :: "string list \<Rightarrow> memory_counters \<Rightarrow> telemetry_error + memory_counters" where
  "memory_lines [] c = Inr c"
| "memory_lines (l # ls) c = res_bind (memory_line l c) (memory_lines ls)"

definition parse_memory_usage :: "string \<Rightarrow> telemetry_error + nat \<times> nat" where
  "parse_memory_usage meminfo = res_bind (memory_lines (str_lines meminfo) (None, None)) (\<lambda>(t, a).
     res_bind (ok_or (Te_invalid_data ''/proc/meminfo'' Memory_total_missing) t) (\<lambda>total_kib.
     res_bind (ok_or (Te_invalid_data ''/proc/meminfo'' Memory_available_missing) a) (\<lambda>available_kib.
     if available_kib > total_kib then Inl (Te_invalid_data ''/proc/meminfo'' Available_exceeds_total)
     else Inr ((total_kib - available_kib) div 1024, total_kib div 1024))))"

section \<open>CPU lists\<close>

text \<open>A \<open>BTreeSet\<close> of CPU numbers is the strictly ascending list of its elements.\<close>

definition MAX_CPUS :: nat where "MAX_CPUS = 4096"

definition cpu_range :: "string \<Rightarrow> (nat \<times> nat) option" where
  "cpu_range part = (let range_text = str_trim part in case split_once (CHR ''-'') range_text of
      Some (s, e) \<Rightarrow> Option.bind (parse_uint 10 u32_max s) (\<lambda>start. map_option (Pair start) (parse_uint 10 u32_max e))
    | None \<Rightarrow> map_option (\<lambda>cpu. (cpu, cpu)) (parse_uint 10 u32_max range_text))"

definition insert_cpu :: "nat \<Rightarrow> nat list \<Rightarrow> nat list" where
  "insert_cpu c cpus = (if c \<in> set cpus then cpus else insort c cpus)"

fun insert_cpus :: "nat list \<Rightarrow> nat list \<Rightarrow> nat list option" where
  "insert_cpus [] cpus = Some cpus"
| "insert_cpus (c # cs) cpus = (let more = insert_cpu c cpus in
     if length more > MAX_CPUS then None else insert_cpus cs more)"

fun cpu_parts :: "string list \<Rightarrow> nat list \<Rightarrow> nat list option" where
  "cpu_parts [] cpus = Some cpus"
| "cpu_parts (p # ps) cpus = Option.bind (cpu_range p) (\<lambda>(start, end_cpu).
     if start > end_cpu \<or> end_cpu - start \<ge> MAX_CPUS then None
     else Option.bind (insert_cpus [start..<Suc end_cpu] cpus) (cpu_parts ps))"

definition parse_cpu_list :: "string \<Rightarrow> nat list option" where
  "parse_cpu_list v = (let list_text = str_trim v in
     if list_text = [] then Some [] else cpu_parts (split_char (CHR '','') list_text) [])"

section \<open>Sizes and clocks\<close>

definition khz_to_mhz :: "nat \<Rightarrow> nat option" where
  "khz_to_mhz v = (let mhz = sat_add v 500 div 1000 in if mhz \<le> u32_max then Some mhz else None)"

definition parse_cache_size_kib :: "string \<Rightarrow> nat option" where
  "parse_cache_size_kib v = (let s = str_trim v; digits = takeWhile is_digit s; rest = dropWhile is_digit s in
     if rest = [] then None
     else Option.bind (parse_uint 10 u64_max digits) (\<lambda>number.
       let u = ascii_upper (str_trim rest) in
       if u \<in> {''K'', ''KB'', ''KIB''} then Some number
       else if u \<in> {''M'', ''MB'', ''MIB''} then (if number * 1024 \<le> u64_max then Some (number * 1024) else None)
       else None))"

definition millidegrees_to_celsius :: "int \<Rightarrow> rat option" where
  "millidegrees_to_celsius v = (if -50000 \<le> v \<and> v \<le> 200000 then Some (of_int v / 1000) else None)"

section \<open>Decimal fractions\<close>

text \<open>
  \<open>str::parse::<f64>\<close> of a finite number that is not negative, as the exact value and then the nearest
  \<open>f64\<close> (ties to even) in the range that matters here; other numbers are out of range either way.
\<close>

definition decimal_exponent :: "string \<Rightarrow> int option" where
  "decimal_exponent s = (case s of [] \<Rightarrow> Some 0
     | c # r \<Rightarrow> if c \<noteq> CHR ''e'' \<and> c \<noteq> CHR ''E'' then None
        else (let negative = (case r of d # _ \<Rightarrow> d = CHR ''-'' | [] \<Rightarrow> False);
             digits = (case r of d # q \<Rightarrow> if d = CHR ''-'' \<or> d = CHR ''+'' then q else r | [] \<Rightarrow> r) in
           if digits = [] \<or> \<not> list_all is_digit digits then None
           else Some (let n = int (digits_value 10 (map (\<lambda>d. byte d - 48) digits)) in if negative then - n else n)))"

definition scale10 :: "nat \<Rightarrow> int \<Rightarrow> rat" where
  "scale10 n k = (if k \<ge> 0 then of_nat n * 10 ^ nat k else of_nat n / 10 ^ nat (- k))"

definition parse_decimal :: "string \<Rightarrow> rat option" where
  "parse_decimal t = (let s = (case t of c # r \<Rightarrow> if c = CHR ''+'' then r else t | [] \<Rightarrow> t);
       whole = takeWhile is_digit s; r = dropWhile is_digit s;
       (fraction, rest) = (case r of c # q \<Rightarrow> if c = CHR ''.'' then (takeWhile is_digit q, dropWhile is_digit q) else ([], r)
         | [] \<Rightarrow> ([], r)) in
     if whole = [] \<and> fraction = [] then None
     else map_option (\<lambda>k. scale10 (digits_value 10 (map (\<lambda>d. byte d - 48) (whole @ fraction))) (k - int (length fraction)))
       (decimal_exponent rest))"

definition binade :: "rat \<Rightarrow> nat option" where
  "binade v = find (\<lambda>i. v < 2 ^ i) [0..<17]"

text \<open>A number below \<open>2 ^ i\<close> and not below \<open>2 ^ (i - 1)\<close> is a multiple of \<open>2 ^ (i - 53)\<close>.\<close>

definition nearest_f64 :: "rat \<Rightarrow> rat" where
  "nearest_f64 v = (case binade v of None \<Rightarrow> v
     | Some i \<Rightarrow> (let steps = v * 2 ^ (53 - i); low = \<lfloor>steps\<rfloor>; gap = steps - of_int low;
           m = (if gap < 1 / 2 then low else if gap > 1 / 2 then low + 1 else if even low then low else low + 1) in
         of_int m / 2 ^ (53 - i)))"

definition parse_cpu_mhz :: "string \<Rightarrow> nat option" where
  "parse_cpu_mhz v = Option.bind (map_option nearest_f64 (parse_decimal v)) (\<lambda>f.
     if 1 \<le> f \<and> f \<le> 20000 then Some (nat \<lfloor>f + 1 / 2\<rfloor>) else None)"

section \<open>Processor description\<close>

record cpu_hardware_info =
  ci_model :: "string option"
  ci_architecture :: "string option"
  ci_family :: "nat option"
  ci_l3_cache_kib :: "nat option"
  ci_physical_cores :: "nat option"
  ci_logical_processors :: "nat option"
  ci_performance_cores :: "nat option"
  ci_efficiency_cores :: "nat option"
  ci_current_frequency_mhz :: "nat option"
  ci_maximum_frequency_mhz :: "nat option"

definition no_cpu_info :: cpu_hardware_info where
  "no_cpu_info = \<lparr>ci_model = None, ci_architecture = None, ci_family = None, ci_l3_cache_kib = None, ci_physical_cores = None,
     ci_logical_processors = None, ci_performance_cores = None, ci_efficiency_cores = None, ci_current_frequency_mhz = None,
     ci_maximum_frequency_mhz = None\<rparr>"

text \<open>\<open>split("\n\n")\<close>.\<close>

fun split_blank_lines :: "string \<Rightarrow> string list" where
  "split_blank_lines [] = [[]]"
| "split_blank_lines [c] = [[c]]"
| "split_blank_lines (c # d # cs) = (if c = NL \<and> d = NL then [] # split_blank_lines cs
     else (case split_blank_lines (d # cs) of [] \<Rightarrow> [[c]] | b # bs \<Rightarrow> (c # b) # bs))"

text \<open>The variables of the loop over the blocks, and of one block.\<close>

record cpuinfo_state =
  cs_model :: "string option"
  cs_family :: "nat option"
  cs_logical :: nat
  cs_cores :: "(int \<times> int) list"
  cs_mhz :: "nat option"

record cpuinfo_block =
  cb_processor :: bool
  cb_package :: "int option"
  cb_core :: "int option"

definition max_of :: "nat option \<Rightarrow> nat \<Rightarrow> nat option" where
  "max_of highest v = Some (case highest of None \<Rightarrow> v | Some h \<Rightarrow> max h v)"

definition cpu_field :: "string \<Rightarrow> string \<Rightarrow> cpuinfo_state \<times> cpuinfo_block \<Rightarrow> cpuinfo_state \<times> cpuinfo_block" where
  "cpu_field name v = (\<lambda>(s, b).
     if name = ''processor'' then (s, b\<lparr>cb_processor := parse_uint 10 u32_max v \<noteq> None\<rparr>)
     else if name = ''model name'' \<and> cs_model s = None then
       (let normalized = join_with '' '' (split_ascii_ws v) in
         (if normalized = [] then s else s\<lparr>cs_model := Some normalized\<rparr>, b))
     else if name = ''cpu family'' \<and> cs_family s = None then (s\<lparr>cs_family := parse_uint 10 u32_max v\<rparr>, b)
     else if name = ''physical id'' then (s, b\<lparr>cb_package := parse_sint 32 v\<rparr>)
     else if name = ''core id'' then (s, b\<lparr>cb_core := parse_sint 32 v\<rparr>)
     else if name = ''cpu MHz'' then (case parse_cpu_mhz v of None \<Rightarrow> (s, b) | Some n \<Rightarrow> (s\<lparr>cs_mhz := max_of (cs_mhz s) n\<rparr>, b))
     else (s, b))"

definition cpu_line :: "string \<Rightarrow> cpuinfo_state \<times> cpuinfo_block \<Rightarrow> cpuinfo_state \<times> cpuinfo_block" where
  "cpu_line line x = (case split_once (CHR '':'') line of None \<Rightarrow> x | Some (name, v) \<Rightarrow> cpu_field (str_trim name) (str_trim v) x)"

definition cpu_block :: "cpuinfo_state \<Rightarrow> string \<Rightarrow> cpuinfo_state" where
  "cpu_block s block = (case fold cpu_line (str_lines block) (s, \<lparr>cb_processor = False, cb_package = None, cb_core = None\<rparr>) of
     (s, b) \<Rightarrow> if \<not> cb_processor b then s
       else (let counted = s\<lparr>cs_logical := min u32_max (cs_logical s + 1)\<rparr> in
         case (cb_package b, cb_core b) of
           (Some package, Some core) \<Rightarrow> counted\<lparr>cs_cores := List.insert (package, core) (cs_cores counted)\<rparr>
         | _ \<Rightarrow> counted))"

text \<open>\<open>ARCH\<close> is the architecture the program was built for.\<close>

definition parse_cpu_hardware_info :: "string \<Rightarrow> string \<Rightarrow> cpu_hardware_info" where
  "parse_cpu_hardware_info ARCH cpuinfo = (let s = foldl cpu_block
       \<lparr>cs_model = None, cs_family = None, cs_logical = 0, cs_cores = [], cs_mhz = None\<rparr> (split_blank_lines cpuinfo) in
     no_cpu_info\<lparr>ci_model := cs_model s, ci_architecture := (if cs_logical s > 0 then Some ARCH else None), ci_family := cs_family s,
       ci_physical_cores := (if cs_cores s = [] then None else Some (length (cs_cores s))),
       ci_logical_processors := (if cs_logical s > 0 then Some (cs_logical s) else None),
       ci_current_frequency_mhz := cs_mhz s\<rparr>)"

section \<open>NVIDIA texts\<close>

definition version_char :: "char \<Rightarrow> bool" where "version_char c \<longleftrightarrow> is_alnum c \<or> c = CHR ''.''"

definition version_token :: "string \<Rightarrow> string option" where
  "version_token word = (let t = rev (dropWhile (\<lambda>c. \<not> version_char c) (rev (dropWhile (\<lambda>c. \<not> version_char c) word))) in
     if CHR ''.'' \<in> set t \<and> list_all (\<lambda>c. is_digit c \<or> c = CHR ''.'') t then Some t else None)"

definition parse_nvidia_driver_version :: "string \<Rightarrow> string option" where
  "parse_nvidia_driver_version version = Option.bind (find (prefix ''NVRM version:'') (str_lines version)) (\<lambda>line.
     case List.map_filter version_token (split_ascii_ws line) of [] \<Rightarrow> None | t # _ \<Rightarrow> Some t)"

definition normalize_pci_bus_id :: "string \<Rightarrow> string" where
  "normalize_pci_bus_id v = (let bus_id = str_trim v in case split_once (CHR '':'') bus_id of
      None \<Rightarrow> bus_id
    | Some (domain, rest) \<Rightarrow> if length domain > 4 \<and> list_all is_hexdigit domain
        then drop (length domain - 4) domain @ CHR '':'' # rest else bus_id)"

end
