(* ===== verification/Telemetry_Hardware.thy ===== *)
theory Telemetry_Hardware
  imports "HOL-Library.AList" Telemetry_Text
begin

text \<open>
  The readers of \<open>src/telemetry.rs\<close> that need no state: power supplies, the online processors,
  their topology, frequencies and cache, the NVIDIA entries of \<open>/proc\<close>, labeled temperatures and
  the description of the machine. \<open>read_text\<close> of \<open>Memory_Hardware\<close> is the file's \<open>read_trimmed\<close>.
  An ordered map or set is the list of its entries, ascending where the code walks it.
\<close>

fun io_fold :: "('a \<Rightarrow> 's \<Rightarrow> ('w, 'e, 's) io) \<Rightarrow> 'a list \<Rightarrow> 's \<Rightarrow> ('w, 'e, 's) io" where
  "io_fold f [] s = io_ret s"
| "io_fold f (x # xs) s = io_bind (f x s) (io_fold f xs)"

lemma io_total_fold: "(\<And>x s. io_total (f x s)) \<Longrightarrow> io_total (io_fold f xs s)"
  by (induction xs arbitrary: s) (auto intro!: io_total_bind)

lemma io_keeps_fold [io_keeps_intros]:
  assumes "reflp R" and "transp R" and "\<And>x s. io_keeps R (f x s)"
  shows "io_keeps R (io_fold f xs s)"
  by (induction xs arbitrary: s) (auto intro!: io_keeps_intros assms)

section \<open>Numbers in files\<close>

definition read_nat :: "nat \<Rightarrow> 'e sysfs \<Rightarrow> path \<Rightarrow> ('e world, 'x, nat option) io" where
  "read_nat mx fs p = io_bind (read_text fs p) (\<lambda>t. io_ret (Option.bind t (parse_uint 10 mx)))"

definition read_i32 :: "'e sysfs \<Rightarrow> path \<Rightarrow> ('e world, 'x, int option) io" where
  "read_i32 fs p = io_bind (read_text fs p) (\<lambda>t. io_ret (Option.bind t (parse_sint 32)))"

section \<open>Power supplies\<close>

datatype battery_status = Charging | Discharging | Full | NotCharging | Battery_unknown

record power_supply_telemetry =
  ps_battery_percent :: "nat option"
  ps_battery_status :: "battery_status option"
  ps_ac_online :: "bool option"
  ps_usb_power_online :: "bool option"
  ps_read_error :: bool

definition no_power_supply :: power_supply_telemetry where
  "no_power_supply = \<lparr>ps_battery_percent = None, ps_battery_status = None, ps_ac_online = None,
     ps_usb_power_online = None, ps_read_error = False\<rparr>"

record online_power_evidence =
  oe_present :: bool
  oe_online :: bool
  oe_unreadable :: bool

definition no_evidence :: online_power_evidence where
  "no_evidence = \<lparr>oe_present = False, oe_online = False, oe_unreadable = False\<rparr>"

definition observe_online :: "nat option \<Rightarrow> online_power_evidence \<Rightarrow> online_power_evidence" where
  "observe_online v x = (let seen = x\<lparr>oe_present := True\<rparr> in
     if v = Some 0 then seen else if v = Some 1 then seen\<lparr>oe_online := True\<rparr> else seen\<lparr>oe_unreadable := True\<rparr>)"

definition online_value :: "online_power_evidence \<Rightarrow> bool option" where
  "online_value x = (if oe_online x then Some True else if oe_present x \<and> \<not> oe_unreadable x then Some False else None)"

definition battery_status_of :: "string \<Rightarrow> battery_status" where
  "battery_status_of s = (if s = ''Charging'' then Charging else if s = ''Discharging'' then Discharging
     else if s = ''Full'' then Full else if s = ''Not charging'' then NotCharging else Battery_unknown)"

type_synonym supply_state = "power_supply_telemetry \<times> online_power_evidence \<times> online_power_evidence"

definition supply_entry :: "'e sysfs \<Rightarrow> path \<Rightarrow> string \<Rightarrow> supply_state \<Rightarrow> ('e world, 'x, supply_state) io" where
  "supply_entry fs dir name = (\<lambda>(result, ac, usb). io_bind (read_text fs (dir @ [name, ''type''])) (\<lambda>k. case k of
      None \<Rightarrow> io_ret (result\<lparr>ps_read_error := True\<rparr>, ac, usb)
    | Some kind \<Rightarrow>
        if kind = ''Battery'' \<and> ps_battery_percent result = None then
          io_bind (read_nat u8_max fs (dir @ [name, ''capacity''])) (\<lambda>percent.
          io_bind (read_text fs (dir @ [name, ''status''])) (\<lambda>status.
            io_ret (result\<lparr>ps_battery_percent := (case percent of Some v \<Rightarrow> if v \<le> 100 then Some v else None | None \<Rightarrow> None),
              ps_battery_status := map_option battery_status_of status\<rparr>, ac, usb)))
        else if kind = ''Mains'' then
          io_bind (read_nat u8_max fs (dir @ [name, ''online''])) (\<lambda>v. io_ret (result, observe_online v ac, usb))
        else if kind \<in> {''USB'', ''USB_C'', ''USB_PD''} then
          io_bind (read_nat u8_max fs (dir @ [name, ''online''])) (\<lambda>v. io_ret (result, ac, observe_online v usb))
        else io_ret (result, ac, usb)))"

definition supply_result :: "supply_state \<Rightarrow> power_supply_telemetry" where
  "supply_result = (\<lambda>(result, ac, usb). result\<lparr>ps_ac_online := online_value ac, ps_usb_power_online := online_value usb,
     ps_read_error := ps_read_error result \<or> oe_unreadable ac \<or> oe_unreadable usb\<rparr>)"

definition read_power_supply :: "'e sysfs \<Rightarrow> path \<Rightarrow> ('e world, 'x, power_supply_telemetry) io" where
  "read_power_supply fs sysroot = (let dir = rooted sysroot ''sys/class/power_supply'' in
     io_bind (fs_query (k_read_dir fs dir)) (\<lambda>entries. case entries of
        Inl x \<Rightarrow> io_ret (no_power_supply\<lparr>ps_read_error := io_error_kind x \<noteq> NotFound\<rparr>)
      | Inr names \<Rightarrow> io_bind (io_fold (supply_entry fs dir) names (no_power_supply, no_evidence, no_evidence))
          (\<lambda>s. io_ret (supply_result s))))"

section \<open>Online processors\<close>

definition cpu_entry :: "'e sysfs \<Rightarrow> path \<Rightarrow> string \<Rightarrow> nat list \<Rightarrow> ('e world, 'x, nat list) io" where
  "cpu_entry fs dir name ids = (case Option.bind (strip_pre ''cpu'' name) (parse_uint 10 u32_max) of
      None \<Rightarrow> io_ret ids
    | Some cpu \<Rightarrow> io_bind (io_ok (fs_read_to_string fs (dir @ [name, ''online'']))) (\<lambda>r.
        io_ret (if (case r of Some v \<Rightarrow> str_trim v \<noteq> ''0'' | None \<Rightarrow> cpu = 0) then insert_cpu cpu ids else ids)))"

definition online_cpu_ids :: "'e sysfs \<Rightarrow> path \<Rightarrow> ('e world, 'x, nat list) io" where
  "online_cpu_ids fs sysroot = (let dir = rooted sysroot ''sys/devices/system/cpu'' in
     io_bind (io_ok (fs_read_to_string fs (dir @ [''online'']))) (\<lambda>online.
     case Option.bind online parse_cpu_list of Some ids \<Rightarrow> io_ret ids
     | None \<Rightarrow> io_bind (fs_query (k_read_dir fs dir)) (\<lambda>entries. case entries of
           Inl _ \<Rightarrow> io_ret []
         | Inr names \<Rightarrow> io_fold (cpu_entry fs dir) names [])))"

definition cpu_topology_key :: "'e sysfs \<Rightarrow> path \<Rightarrow> ('e world, 'x, nat list option) io" where
  "cpu_topology_key fs sysroot = io_bind (online_cpu_ids fs sysroot) (\<lambda>ids. io_ret (if ids = [] then None else Some ids))"

definition read_cpu_set :: "'e sysfs \<Rightarrow> path \<Rightarrow> string \<Rightarrow> ('e world, 'x, nat list option) io" where
  "read_cpu_set fs sysroot p = io_bind (io_ok (fs_read_to_string fs (rooted sysroot p))) (\<lambda>r. io_ret (Option.bind r parse_cpu_list))"

section \<open>Topology\<close>

datatype hybrid_core_kind = Performance_core | Efficiency_core

definition merge_core_kind :: "hybrid_core_kind option \<Rightarrow> hybrid_core_kind option \<Rightarrow> hybrid_core_kind option" where
  "merge_core_kind current incoming = (case (current, incoming) of
      (Some c, Some i) \<Rightarrow> if c \<noteq> i then None else Some c
    | (Some c, None) \<Rightarrow> Some c
    | (None, i) \<Rightarrow> i)"

definition core_type_kind :: "nat \<Rightarrow> hybrid_core_kind option" where
  "core_type_kind v = (if v = 1 then Some Efficiency_core else if v = 2 then Some Performance_core else None)"

text \<open>The kind the two PMU masks give a processor, when both are readable.\<close>

definition pmu_kind :: "nat list option \<Rightarrow> nat list option \<Rightarrow> nat \<Rightarrow> hybrid_core_kind option" where
  "pmu_kind performance_ids efficiency_ids cpu = (case (performance_ids, efficiency_ids) of
      (Some p, Some e) \<Rightarrow> if cpu \<in> set p \<and> cpu \<notin> set e then Some Performance_core
        else if cpu \<notin> set p \<and> cpu \<in> set e then Some Efficiency_core else None
    | _ \<Rightarrow> None)"

type_synonym core_table = "((int \<times> int) \<times> hybrid_core_kind option) list"

definition record_core :: "int \<times> int \<Rightarrow> hybrid_core_kind option \<Rightarrow> core_table \<Rightarrow> core_table" where
  "record_core k incoming cores = AList.update k
     (merge_core_kind (case map_of cores k of None \<Rightarrow> None | Some kind \<Rightarrow> kind) incoming) cores"

definition topology_entry :: "'e sysfs \<Rightarrow> path \<Rightarrow> nat list option \<Rightarrow> nat list option \<Rightarrow> nat \<Rightarrow> core_table \<Rightarrow>
    ('e world, 'x, core_table) io" where
  "topology_entry fs sysroot performance_ids efficiency_ids cpu cores =
     (let topology = rooted sysroot (''sys/devices/system/cpu/cpu'' @ show_nat cpu @ ''/topology'') in
      io_bind (read_i32 fs (topology @ [''physical_package_id''])) (\<lambda>package. case package of None \<Rightarrow> io_ret cores
      | Some p \<Rightarrow> io_bind (read_i32 fs (topology @ [''core_id''])) (\<lambda>core. case core of None \<Rightarrow> io_ret cores
        | Some c \<Rightarrow> io_bind (read_nat u8_max fs (topology @ [''core_type''])) (\<lambda>t.
            io_ret (record_core (p, c) (or_else (Option.bind t core_type_kind) (pmu_kind performance_ids efficiency_ids cpu)) cores)))))"

definition core_count :: "hybrid_core_kind \<Rightarrow> core_table \<Rightarrow> nat" where
  "core_count kind cores = length (filter (\<lambda>c. snd c = Some kind) cores)"

definition publish_cores :: "core_table \<Rightarrow> cpu_hardware_info \<Rightarrow> cpu_hardware_info" where
  "publish_cores cores info = (if cores = [] then info
     else (let counted = info\<lparr>ci_physical_cores := Some (length cores)\<rparr> in
       if list_all (\<lambda>c. snd c \<noteq> None) cores
       then counted\<lparr>ci_performance_cores := Some (core_count Performance_core cores),
              ci_efficiency_cores := Some (core_count Efficiency_core cores)\<rparr>
       else counted))"

definition apply_cpu_topology :: "'e sysfs \<Rightarrow> path \<Rightarrow> cpu_hardware_info \<Rightarrow> ('e world, 'x, cpu_hardware_info) io" where
  "apply_cpu_topology fs sysroot info = io_bind (online_cpu_ids fs sysroot) (\<lambda>ids.
     if ids = [] then io_ret info
     else io_bind (read_cpu_set fs sysroot ''sys/bus/event_source/devices/cpu_core/cpus'') (\<lambda>performance_ids.
       io_bind (read_cpu_set fs sysroot ''sys/bus/event_source/devices/cpu_atom/cpus'') (\<lambda>efficiency_ids.
       io_bind (io_fold (topology_entry fs sysroot performance_ids efficiency_ids) ids []) (\<lambda>cores.
         io_ret (publish_cores cores (info\<lparr>ci_logical_processors := Some (length ids)\<rparr>))))))"

definition refresh_cpu_topology :: "'e sysfs \<Rightarrow> path \<Rightarrow> cpu_hardware_info \<Rightarrow> ('e world, 'x, cpu_hardware_info) io" where
  "refresh_cpu_topology fs sysroot info = apply_cpu_topology fs sysroot
     (info\<lparr>ci_physical_cores := None, ci_logical_processors := None, ci_performance_cores := None, ci_efficiency_cores := None\<rparr>)"

section \<open>Frequencies\<close>

definition read_frequency_khz :: "'e sysfs \<Rightarrow> path \<Rightarrow> ('e world, 'x, nat option) io" where
  "read_frequency_khz fs p = io_bind (read_nat u64_max fs p) (\<lambda>v.
     io_ret (case v of Some n \<Rightarrow> if 1000 \<le> n \<and> n \<le> 20000000 then Some n else None | None \<Rightarrow> None))"

definition read_frequency_either :: "'e sysfs \<Rightarrow> path \<Rightarrow> path \<Rightarrow> ('e world, 'x, nat option) io" where
  "read_frequency_either fs p q = io_bind (read_frequency_khz fs p) (\<lambda>v.
     if v \<noteq> None then io_ret v else read_frequency_khz fs q)"

definition raise_to :: "nat option \<Rightarrow> nat option \<Rightarrow> nat option" where
  "raise_to highest v = (case v of None \<Rightarrow> highest | Some n \<Rightarrow> max_of highest n)"

definition frequency_entry :: "'e sysfs \<Rightarrow> path \<Rightarrow> nat \<Rightarrow> nat option \<times> nat option \<Rightarrow>
    ('e world, 'x, nat option \<times> nat option) io" where
  "frequency_entry fs sysroot cpu = (\<lambda>(current_khz, maximum_khz).
     (let cpufreq = rooted sysroot (''sys/devices/system/cpu/cpu'' @ show_nat cpu @ ''/cpufreq'') in
      io_bind (read_frequency_either fs (cpufreq @ [''scaling_cur_freq'']) (cpufreq @ [''cpuinfo_cur_freq''])) (\<lambda>current.
      io_bind (read_frequency_either fs (cpufreq @ [''cpuinfo_max_freq'']) (cpufreq @ [''scaling_max_freq''])) (\<lambda>maximum.
        io_ret (raise_to current_khz current, raise_to maximum_khz maximum)))))"

definition publish_frequencies :: "nat option \<times> nat option \<Rightarrow> cpu_hardware_info \<Rightarrow> cpu_hardware_info" where
  "publish_frequencies = (\<lambda>(current_khz, maximum_khz) info.
     (let a = (case Option.bind current_khz khz_to_mhz of None \<Rightarrow> info | Some v \<Rightarrow> info\<lparr>ci_current_frequency_mhz := Some v\<rparr>) in
      case Option.bind maximum_khz khz_to_mhz of None \<Rightarrow> a | Some v \<Rightarrow> a\<lparr>ci_maximum_frequency_mhz := Some v\<rparr>))"

definition refresh_cpu_frequencies :: "'e sysfs \<Rightarrow> path \<Rightarrow> cpu_hardware_info \<Rightarrow> ('e world, 'x, cpu_hardware_info) io" where
  "refresh_cpu_frequencies fs sysroot info = io_bind (online_cpu_ids fs sysroot) (\<lambda>ids.
     io_bind (io_fold (frequency_entry fs sysroot) ids (None, None)) (\<lambda>f. io_ret (publish_frequencies f info)))"

section \<open>Cache\<close>

type_synonym cache_table = "(string \<times> nat) list"

definition cache_entry :: "'e sysfs \<Rightarrow> path \<Rightarrow> nat \<Rightarrow> string \<Rightarrow> cache_table \<Rightarrow> ('e world, 'x, cache_table) io" where
  "cache_entry fs cache_root cpu name instances =
     io_bind (read_nat u8_max fs (cache_root @ [name, ''level''])) (\<lambda>level.
     if level \<noteq> Some 3 then io_ret instances
     else io_bind (read_text fs (cache_root @ [name, ''size''])) (\<lambda>t. case Option.bind t parse_cache_size_kib of
         None \<Rightarrow> io_ret instances
       | Some size_kib \<Rightarrow> io_bind (read_text fs (cache_root @ [name, ''shared_cpu_list''])) (\<lambda>k.
           (let key = (case k of Some v \<Rightarrow> v | None \<Rightarrow> ''cpu'' @ show_nat cpu) in
            io_ret (if map_of instances key \<noteq> None then instances else (key, size_kib) # instances)))))"

definition cpu_cache :: "'e sysfs \<Rightarrow> path \<Rightarrow> nat \<Rightarrow> cache_table \<Rightarrow> ('e world, 'x, cache_table) io" where
  "cpu_cache fs sysroot cpu instances =
     (let cache_root = rooted sysroot (''sys/devices/system/cpu/cpu'' @ show_nat cpu @ ''/cache'') in
      io_bind (fs_query (k_read_dir fs cache_root)) (\<lambda>entries. case entries of Inl _ \<Rightarrow> io_ret instances
        | Inr names \<Rightarrow> io_fold (cache_entry fs cache_root cpu) (take 16 names) instances))"

text \<open>The sum is one of \<open>u64\<close> values, which wraps in a release build.\<close>

definition read_l3_cache_kib :: "'e sysfs \<Rightarrow> path \<Rightarrow> ('e world, 'x, nat option) io" where
  "read_l3_cache_kib fs sysroot = io_bind (online_cpu_ids fs sysroot) (\<lambda>ids.
     io_bind (io_fold (cpu_cache fs sysroot) ids []) (\<lambda>instances.
       io_ret (if instances = [] then None else Some (sum_list (map snd instances) mod 2 ^ 64))))"

section \<open>The NVIDIA entries of proc\<close>

record gpu_hardware_info =
  gi_model :: "string option"
  gi_vram_total_mib :: "u64 option"
  gi_driver_version :: "string option"
  gi_pci_bus_id :: "string option"
  gi_streaming_multiprocessors :: "u32 option"
  gi_cuda_cores :: "u32 option"
  gi_current_graphics_clock_mhz :: "u32 option"
  gi_maximum_graphics_clock_mhz :: "u32 option"
  gi_current_memory_clock_mhz :: "u32 option"
  gi_maximum_memory_clock_mhz :: "u32 option"

definition no_gpu_info :: gpu_hardware_info where
  "no_gpu_info = \<lparr>gi_model = None, gi_vram_total_mib = None, gi_driver_version = None, gi_pci_bus_id = None,
     gi_streaming_multiprocessors = None, gi_cuda_cores = None, gi_current_graphics_clock_mhz = None,
     gi_maximum_graphics_clock_mhz = None, gi_current_memory_clock_mhz = None, gi_maximum_memory_clock_mhz = None\<rparr>"

definition gpu_line :: "string \<Rightarrow> gpu_hardware_info \<Rightarrow> gpu_hardware_info" where
  "gpu_line line candidate = (case split_once (CHR '':'') line of None \<Rightarrow> candidate
     | Some (name, v) \<Rightarrow>
         if str_trim name = ''Model'' \<and> str_trim v \<noteq> [] then candidate\<lparr>gi_model := Some (str_trim v)\<rparr>
         else if str_trim name = ''Bus Location'' \<and> str_trim v \<noteq> []
           then candidate\<lparr>gi_pci_bus_id := Some (normalize_pci_bus_id (str_trim v))\<rparr>
         else candidate)"

definition gpu_selected :: "string option \<Rightarrow> gpu_hardware_info \<Rightarrow> bool" where
  "gpu_selected selected_bus_id candidate = (case map_option normalize_pci_bus_id selected_bus_id of None \<Rightarrow> True
     | Some s \<Rightarrow> gi_pci_bus_id candidate = Some s)"

fun first_gpu :: "'e sysfs \<Rightarrow> path \<Rightarrow> string option \<Rightarrow> string list \<Rightarrow> ('e world, 'x, gpu_hardware_info) io" where
  "first_gpu fs dir selected_bus_id [] = io_ret no_gpu_info"
| "first_gpu fs dir selected_bus_id (name # names) = io_bind (read_text fs (dir @ [name, ''information''])) (\<lambda>r. case r of
      None \<Rightarrow> first_gpu fs dir selected_bus_id names
    | Some contents \<Rightarrow> (let candidate = fold gpu_line (str_lines contents) no_gpu_info in
        if gpu_selected selected_bus_id candidate then io_ret candidate else first_gpu fs dir selected_bus_id names))"

definition read_nvidia_proc_hardware :: "'e sysfs \<Rightarrow> path \<Rightarrow> string option \<Rightarrow> ('e world, 'x, gpu_hardware_info) io" where
  "read_nvidia_proc_hardware fs sysroot selected_bus_id = (let dir = rooted sysroot ''proc/driver/nvidia/gpus'' in
     io_bind (fs_query (k_read_dir fs dir)) (\<lambda>entries.
     io_bind (case entries of Inl _ \<Rightarrow> io_ret no_gpu_info | Inr names \<Rightarrow> first_gpu fs dir selected_bus_id (sort names)) (\<lambda>info.
     io_bind (read_text fs (rooted sysroot ''proc/driver/nvidia/version'')) (\<lambda>version.
       io_ret (case version of None \<Rightarrow> info | Some v \<Rightarrow> info\<lparr>gi_driver_version := parse_nvidia_driver_version v\<rparr>)))))"

section \<open>The machine\<close>

record hardware_info =
  hi_cpu :: cpu_hardware_info
  hi_gpu :: gpu_hardware_info
  hi_memory :: memory_hardware_info

definition read_hardware_info_for_gpu :: "string \<Rightarrow> 'e sysfs \<Rightarrow> path \<Rightarrow> u64 \<Rightarrow> string option \<Rightarrow>
    ('e world, 'x, hardware_info) io" where
  "read_hardware_info_for_gpu ARCH fs sysroot memory_total_mib selected_bus_id =
     io_bind (io_ok (fs_read_to_string fs (rooted sysroot ''proc/cpuinfo''))) (\<lambda>r.
     io_bind (apply_cpu_topology fs sysroot (parse_cpu_hardware_info ARCH (case r of None \<Rightarrow> [] | Some v \<Rightarrow> v))) (\<lambda>placed.
     io_bind (refresh_cpu_frequencies fs sysroot placed) (\<lambda>clocked.
     io_bind (read_l3_cache_kib fs sysroot) (\<lambda>cache.
     io_bind (read_nvidia_proc_hardware fs sysroot selected_bus_id) (\<lambda>gpu.
     io_bind (read_memory_hardware fs sysroot memory_total_mib) (\<lambda>memory.
       io_ret \<lparr>hi_cpu = clocked\<lparr>ci_l3_cache_kib := cache\<rparr>, hi_gpu = gpu, hi_memory = memory\<rparr>))))))"

section \<open>Labeled temperatures\<close>

type_synonym ('e, 'a) te_io = "('e world, telemetry_error, 'a) io"

definition label_index :: "string \<Rightarrow> string option" where
  "label_index name = Option.bind (strip_pre ''temp'' (utf8_lossy name)) (\<lambda>rest.
     if suffix ''_label'' rest then Some (take (length rest - 6) rest) else None)"

fun labeled_sensor :: "'e sysfs \<Rightarrow> path \<Rightarrow> string \<Rightarrow> string list \<Rightarrow> ('e, rat option option) te_io" where
  "labeled_sensor fs directory expected_label [] = io_ret None"
| "labeled_sensor fs directory expected_label (name # names) = (case label_index name of
      None \<Rightarrow> labeled_sensor fs directory expected_label names
    | Some index \<Rightarrow>
        io_bind (io_map_err (Te_io ''read temperature label'' (directory @ [name])) (fs_read_to_string fs (directory @ [name]))) (\<lambda>label.
        if str_trim label \<noteq> expected_label then labeled_sensor fs directory expected_label names
        else (let input_path = directory @ [''temp'' @ index @ ''_input''] in
          io_bind (io_map_err (Te_io ''read labeled temperature'' input_path) (fs_read_to_string fs input_path)) (\<lambda>input.
          io_bind (io_of (ok_or (Te_invalid_data ''hwmon'' (Bad_temperature input)) (parse_sint 64 (str_trim input)))) (\<lambda>v.
            io_ret (Some (millidegrees_to_celsius v)))))))"

fun labeled_device :: "'e sysfs \<Rightarrow> path \<Rightarrow> string \<Rightarrow> string \<Rightarrow> string list \<Rightarrow> ('e, rat option) te_io" where
  "labeled_device fs hwmon_root expected_name expected_label [] = io_ret None"
| "labeled_device fs hwmon_root expected_name expected_label (d # ds) = (let directory = hwmon_root @ [d] in
     io_try (fs_read_to_string fs (directory @ [''name''])) (\<lambda>r. case r of
        Inl x \<Rightarrow> if io_error_kind x = NotFound then labeled_device fs hwmon_root expected_name expected_label ds
          else io_err (Te_io ''read temperature sensor name'' (directory @ [''name'']) x)
      | Inr name \<Rightarrow> if str_trim name \<noteq> expected_name then labeled_device fs hwmon_root expected_name expected_label ds
          else io_bind (fs_query (k_read_dir fs directory)) (\<lambda>entries. case entries of
              Inl x \<Rightarrow> io_err (Te_io ''enumerate hwmon temperature attributes'' directory x)
            | Inr names \<Rightarrow> io_bind (labeled_sensor fs directory expected_label names) (\<lambda>found. case found of
                Some v \<Rightarrow> io_ret v
              | None \<Rightarrow> labeled_device fs hwmon_root expected_name expected_label ds))))"

definition find_labeled_temperature :: "'e sysfs \<Rightarrow> path \<Rightarrow> string \<Rightarrow> string \<Rightarrow> ('e, rat option) te_io" where
  "find_labeled_temperature fs sysroot expected_name expected_label = (let hwmon_root = rooted sysroot ''sys/class/hwmon'' in
     io_bind (fs_query (k_read_dir fs hwmon_root)) (\<lambda>entries. case entries of
        Inl x \<Rightarrow> if io_error_kind x = NotFound then io_ret None
          else io_err (Te_io ''enumerate temperature sensors'' hwmon_root x)
      | Inr ds \<Rightarrow> labeled_device fs hwmon_root expected_name expected_label ds))"

definition unavailable_fan_state :: "fan_rpm_channel list \<Rightarrow> fan_state" where
  "unavailable_fan_state rpm_channels = (let channel = (\<lambda>i. \<lparr>ch_mode = None, ch_pwm_raw = None,
       ch_rpm = Option.bind (find (\<lambda>c. rc_index c = i) rpm_channels) rc_rpm\<rparr>) in
     \<lparr>fan_cpu = channel 1, fan_gpu = channel 2\<rparr>)"

end
