(* ===== verification/Telemetry_Reader.thy ===== *)
theory Telemetry_Reader
  imports Telemetry_Hardware
begin

text \<open>
  The \<open>TelemetryReader\<close> of \<open>src/telemetry.rs\<close>: the session it keeps with NVML, its retry and idle
  lifecycles, and one sample. A field that held a controller and is assigned calls \<open>nvmlShutdown\<close>,
  the \<open>Drop\<close> of the runtime it owns. An error text is the list of the errors joined in it.
\<close>

section \<open>Timing in samples\<close>

definition HARDWARE_FREQUENCY_REFRESH_SAMPLES :: nat where "HARDWARE_FREQUENCY_REFRESH_SAMPLES = 5"
definition NVIDIA_SLOW_REFRESH_SAMPLES :: nat where "NVIDIA_SLOW_REFRESH_SAMPLES = 10"
definition NVIDIA_RETRY_MAX_SAMPLES :: nat where "NVIDIA_RETRY_MAX_SAMPLES = 30"
definition NVIDIA_IDLE_RELEASE_SAMPLES :: nat where "NVIDIA_IDLE_RELEASE_SAMPLES = 5"
definition NVIDIA_IDLE_REOPEN_HOLDOFF_SAMPLES :: nat where "NVIDIA_IDLE_REOPEN_HOLDOFF_SAMPLES = 5"

record sample_backoff =
  sb_samples_until_retry :: nat
  sb_next_delay :: nat

definition default_backoff :: sample_backoff where
  "default_backoff = \<lparr>sb_samples_until_retry = 0, sb_next_delay = 1\<rparr>"

definition retry_due :: "sample_backoff \<Rightarrow> bool \<times> sample_backoff" where
  "retry_due b = (let left = (if sb_samples_until_retry b > 0 then sb_samples_until_retry b - 1 else 0) in
     (left = 0, b\<lparr>sb_samples_until_retry := left\<rparr>))"

definition record_failure :: "sample_backoff \<Rightarrow> sample_backoff" where
  "record_failure b = \<lparr>sb_samples_until_retry = sb_next_delay b,
     sb_next_delay = min (min u8_max (sb_next_delay b * 2)) NVIDIA_RETRY_MAX_SAMPLES\<rparr>"

record idle_lifecycle =
  il_idle_samples :: nat
  il_reopen_holdoff_samples :: nat
  il_release_armed :: bool

definition default_lifecycle :: idle_lifecycle where
  "default_lifecycle = \<lparr>il_idle_samples = 0, il_reopen_holdoff_samples = 0, il_release_armed = True\<rparr>"

definition discovery_allowed :: "idle_lifecycle \<Rightarrow> bool \<times> idle_lifecycle" where
  "discovery_allowed l = (if il_reopen_holdoff_samples l > 0
     then (False, l\<lparr>il_reopen_holdoff_samples := il_reopen_holdoff_samples l - 1\<rparr>) else (True, l))"

definition observe_live_sample :: "bool \<Rightarrow> u32 option \<Rightarrow> bool \<Rightarrow> idle_lifecycle \<Rightarrow> bool \<times> idle_lifecycle" where
  "observe_live_sample runtime_can_suspend runtime_usage idle l = (
     if \<not> runtime_can_suspend then (False, \<lparr>il_idle_samples = 0, il_reopen_holdoff_samples = 0, il_release_armed = True\<rparr>)
     else if \<not> idle then (False, l\<lparr>il_idle_samples := 0, il_release_armed := True\<rparr>)
     else if \<not> il_release_armed l then (False, l)
     else (let n = min u8_max (il_idle_samples l + 1) in
       if n < NVIDIA_IDLE_RELEASE_SAMPLES then (False, l\<lparr>il_idle_samples := n\<rparr>)
       else (True, \<lparr>il_idle_samples = 0, il_reopen_holdoff_samples = NVIDIA_IDLE_REOPEN_HOLDOFF_SAMPLES, il_release_armed = False\<rparr>)))"

section \<open>State\<close>

datatype nvidia_detail = Nd_error nvidia_error | Nd_offsets nvidia_error | Nd_power nvidia_error | Nd_invalidated | Nd_unavailable

record nvidia_slow =
  ns_core_offset_mhz :: "int option"
  ns_memory_offset_mhz :: "int option"
  ns_offsets_uniform :: "bool option"
  ns_session_lost :: bool
  ns_errors :: "nvidia_detail list"

definition default_slow :: nvidia_slow where
  "default_slow = \<lparr>ns_core_offset_mhz = None, ns_memory_offset_mhz = None, ns_offsets_uniform = None,
     ns_session_lost = False, ns_errors = []\<rparr>"

record telemetry_reader =
  tr_previous_cpu_times :: "cpu_times option"
  tr_nvidia :: "nvidia_controller option"
  tr_static :: "nvidia_static_info option"
  tr_discovery_error :: "nvidia_detail list option"
  tr_pci_bus_id :: "string option"
  tr_pci_identity :: "pci_identity option"
  tr_exact_oem_target :: bool
  tr_runtime_sleeping :: bool
  tr_runtime_can_suspend :: bool
  tr_runtime_usage :: "u32 option"
  tr_retry :: sample_backoff
  tr_idle :: idle_lifecycle
  tr_hardware_info :: "hardware_info option"
  tr_cpu_online_ids :: "nat list option"
  tr_frequency_refresh :: nat
  tr_slow :: nvidia_slow
  tr_slow_refresh :: nat

definition reader_new :: telemetry_reader where
  "reader_new = \<lparr>tr_previous_cpu_times = None, tr_nvidia = None, tr_static = None, tr_discovery_error = None,
     tr_pci_bus_id = None, tr_pci_identity = None, tr_exact_oem_target = False, tr_runtime_sleeping = False,
     tr_runtime_can_suspend = False, tr_runtime_usage = None, tr_retry = default_backoff, tr_idle = default_lifecycle,
     tr_hardware_info = None, tr_cpu_online_ids = None, tr_frequency_refresh = 0, tr_slow = default_slow, tr_slow_refresh = 0\<rparr>"

type_synonym ('e, 'x) tr_io = "('e world, 'x, telemetry_reader) io"

section \<open>The NVML session\<close>

text \<open>\<open>self.nvidia = c\<close>.\<close>

definition set_nvidia :: "'e nvml \<Rightarrow> nvidia_controller option \<Rightarrow> telemetry_reader \<Rightarrow> ('e, 'x) tr_io" where
  "set_nvidia nv c t = (if tr_nvidia t = None then io_ret (t\<lparr>tr_nvidia := c\<rparr>)
     else io_then (runtime_drop nv) (io_ret (t\<lparr>tr_nvidia := c\<rparr>)))"

definition discover_nvidia :: "'e nvml \<Rightarrow> 'e sysfs \<Rightarrow> path \<Rightarrow> nvidia_pci_device \<Rightarrow> telemetry_reader \<Rightarrow> ('e, 'x) tr_io" where
  "discover_nvidia nv fs sysroot pci_device t =
     io_try (discover_telemetry nv fs pci_device sysroot (tr_slow_refresh t = 0)) (\<lambda>r. case r of
        Inr controller \<Rightarrow>
          io_bind (if tr_static t = None then io_bind (static_info nv controller) (\<lambda>i. io_ret (t\<lparr>tr_static := Some i\<rparr>)) else io_ret t) (\<lambda>t.
          io_bind (set_nvidia nv (Some controller) t) (\<lambda>t.
            io_ret (t\<lparr>tr_discovery_error := None, tr_retry := default_backoff\<rparr>)))
      | Inl x \<Rightarrow> io_bind (set_nvidia nv None t) (\<lambda>t.
          io_ret (t\<lparr>tr_static := None, tr_discovery_error := Some [Nd_error x], tr_slow := default_slow, tr_slow_refresh := 0,
            tr_retry := record_failure (tr_retry t)\<rparr>)))"

definition drop_nvidia_for_runtime_state :: "'e nvml \<Rightarrow> string option \<Rightarrow> bool \<Rightarrow> telemetry_reader \<Rightarrow> ('e, 'x) tr_io" where
  "drop_nvidia_for_runtime_state nv bus_id sleeping t = io_bind (set_nvidia nv None t) (\<lambda>t.
     io_ret (t\<lparr>tr_discovery_error := None, tr_slow := default_slow, tr_slow_refresh := 0, tr_retry := default_backoff,
       tr_idle := default_lifecycle, tr_pci_bus_id := bus_id, tr_runtime_sleeping := sleeping, tr_runtime_can_suspend := False,
       tr_runtime_usage := None, tr_exact_oem_target := (if bus_id = None then False else tr_exact_oem_target t)\<rparr>))"

definition lose_nvidia_session :: "'e nvml \<Rightarrow> nvidia_detail list \<Rightarrow> telemetry_reader \<Rightarrow> ('e, 'x) tr_io" where
  "lose_nvidia_session nv detail t = io_bind (set_nvidia nv None t) (\<lambda>t.
     io_ret (t\<lparr>tr_static := None, tr_discovery_error := Some detail, tr_slow := default_slow, tr_slow_refresh := 0,
       tr_retry := record_failure (tr_retry t), tr_idle := default_lifecycle\<rparr>))"

definition invalidate_nvidia_session :: "'e nvml \<Rightarrow> telemetry_reader \<Rightarrow> ('e, 'x) tr_io" where
  "invalidate_nvidia_session nv t = io_bind (lose_nvidia_session nv [Nd_invalidated] t) (\<lambda>t.
     io_ret (t\<lparr>tr_retry := default_backoff\<rparr>))"

definition release_nvidia_after_idle :: "'e nvml \<Rightarrow> telemetry_reader \<Rightarrow> ('e, 'x) tr_io" where
  "release_nvidia_after_idle nv t = io_bind (set_nvidia nv None t) (\<lambda>t.
     io_ret (t\<lparr>tr_discovery_error := None, tr_slow := default_slow, tr_slow_refresh := 0, tr_retry := default_backoff\<rparr>))"

definition pci_identity_changed :: "nvidia_pci_device \<Rightarrow> telemetry_reader \<Rightarrow> bool" where
  "pci_identity_changed d t \<longleftrightarrow> tr_pci_bus_id t \<noteq> Some (pd_bus_id d) \<or> tr_pci_identity t \<noteq> Some (pd_identity d)"

text \<open>The fields taken from the PCI device before its power state is looked at.\<close>

definition adopt_pci_device :: "nvidia_pci_device \<Rightarrow> telemetry_reader \<Rightarrow> telemetry_reader" where
  "adopt_pci_device d t = (let t1 = (if pci_identity_changed d t
       then t\<lparr>tr_hardware_info := None, tr_static := None, tr_idle := default_lifecycle\<rparr> else t) in
     t1\<lparr>tr_pci_bus_id := Some (pd_bus_id d), tr_pci_identity := Some (pd_identity d), tr_exact_oem_target := is_exact_oem_target d,
       tr_runtime_sleeping := (pd_runtime_status d = Rt_suspended), tr_runtime_can_suspend := (pd_runtime_status d = Rt_active),
       tr_runtime_usage := pd_runtime_usage d\<rparr>)"

definition wrong_device :: "bool \<Rightarrow> nvidia_pci_device \<Rightarrow> telemetry_reader \<Rightarrow> bool" where
  "wrong_device identity_changed d t \<longleftrightarrow> identity_changed \<or>
     (case tr_nvidia t of None \<Rightarrow> False | Some c \<Rightarrow> nc_bus_id c \<noteq> pd_bus_id d)"

definition open_nvidia :: "'e nvml \<Rightarrow> 'e sysfs \<Rightarrow> path \<Rightarrow> nvidia_pci_device \<Rightarrow> telemetry_reader \<Rightarrow> ('e, 'x) tr_io" where
  "open_nvidia nv fs sysroot d t = (if tr_nvidia t \<noteq> None then io_ret t
     else (case discovery_allowed (tr_idle t) of (allowed, l) \<Rightarrow>
       if \<not> allowed then io_ret (t\<lparr>tr_idle := l\<rparr>)
       else (case retry_due (tr_retry t) of (due, b) \<Rightarrow>
         if due then discover_nvidia nv fs sysroot d (t\<lparr>tr_idle := l, tr_retry := b\<rparr>)
         else io_ret (t\<lparr>tr_idle := l, tr_retry := b\<rparr>))))"

definition refresh_nvidia_lifecycle :: "'e nvml \<Rightarrow> 'e sysfs \<Rightarrow> path \<Rightarrow> telemetry_reader \<Rightarrow> ('e, 'x) tr_io" where
  "refresh_nvidia_lifecycle nv fs sysroot t = io_bind (discover_nvidia_pci_device fs sysroot) (\<lambda>found. case found of
      None \<Rightarrow> drop_nvidia_for_runtime_state nv None False
        (t\<lparr>tr_hardware_info := (if tr_pci_bus_id t \<noteq> None then None else tr_hardware_info t), tr_static := None, tr_pci_identity := None\<rparr>)
    | Some d \<Rightarrow> (let changed = pci_identity_changed d t; t1 = adopt_pci_device d t in
        if \<not> permits_live_nvml (pd_runtime_status d)
        then drop_nvidia_for_runtime_state nv (Some (pd_bus_id d)) (pd_runtime_status d = Rt_suspended) t1
        else if tr_runtime_can_suspend t1 \<and> pd_runtime_usage d = Some 0
        then io_bind (release_nvidia_after_idle nv t1) (\<lambda>t2. io_ret (t2\<lparr>tr_idle := default_lifecycle\<rparr>))
        else io_bind (if wrong_device changed d t1
              then io_bind (set_nvidia nv None t1) (\<lambda>t2. io_ret (t2\<lparr>tr_static := None, tr_slow := default_slow,
                tr_slow_refresh := 0, tr_retry := default_backoff\<rparr>))
              else io_ret t1) (open_nvidia nv fs sysroot d)))"

definition slow_of_snapshot :: "offset_snapshot \<Rightarrow> nvidia_slow" where
  "slow_of_snapshot snapshot = (case snapshot of
      [] \<Rightarrow> default_slow\<lparr>ns_offsets_uniform := Some False\<rparr>
    | s # _ \<Rightarrow> if list_all (\<lambda>x. or_current (so_core x) = or_current (so_core s) \<and> or_current (so_memory x) = or_current (so_memory s)) snapshot
        then default_slow\<lparr>ns_core_offset_mhz := Some (or_current (so_core s)), ns_memory_offset_mhz := Some (or_current (so_memory s)),
          ns_offsets_uniform := Some True\<rparr>
        else default_slow\<lparr>ns_offsets_uniform := Some False\<rparr>)"

definition refresh_nvidia_slow :: "'e nvml \<Rightarrow> telemetry_reader \<Rightarrow> ('e, 'x) tr_io" where
  "refresh_nvidia_slow nv t = (case tr_nvidia t of
      None \<Rightarrow> io_ret (t\<lparr>tr_slow := default_slow, tr_slow_refresh := 0\<rparr>)
    | Some c \<Rightarrow> if tr_slow_refresh t > 0 then io_ret (t\<lparr>tr_slow_refresh := tr_slow_refresh t - 1\<rparr>)
        else if nc_states c = [] then io_ret (t\<lparr>tr_slow := default_slow, tr_slow_refresh := NVIDIA_SLOW_REFRESH_SAMPLES\<rparr>)
        else io_try (snapshot_offsets nv c) (\<lambda>r. io_ret (t\<lparr>tr_slow_refresh := NVIDIA_SLOW_REFRESH_SAMPLES,
          tr_slow := (case r of Inr snapshot \<Rightarrow> slow_of_snapshot snapshot
            | Inl x \<Rightarrow> default_slow\<lparr>ns_session_lost := Nvidia.invalidates_session x, ns_errors := [Nd_offsets x]\<rparr>)\<rparr>)))"

section \<open>One sample\<close>

record nvidia_telemetry =
  nt_temperature_c :: "rat option"
  nt_utilization_percent :: "rat option"
  nt_power_w :: "rat option"
  nt_pstate :: "string option"
  nt_memory_used_mib :: "u64 option"
  nt_memory_total_mib :: "u64 option"
  nt_graphics_clock_mhz :: "u32 option"
  nt_memory_clock_mhz :: "u32 option"
  nt_maximum_graphics_clock_mhz :: "u32 option"
  nt_maximum_memory_clock_mhz :: "u32 option"
  nt_model :: "string option"
  nt_driver_version :: "string option"
  nt_pci_bus_id :: "string option"

definition rat_of :: "'a::len word \<Rightarrow> rat" where "rat_of v = of_nat (unat v)"

definition pstate_text :: "performance_state \<Rightarrow> string" where "pstate_text p = CHR ''P'' # show_nat (nat (pstate_index p))"

definition nvidia_telemetry_of :: "nvidia_live_telemetry \<Rightarrow> nvidia_static_info option \<Rightarrow> nvidia_telemetry" where
  "nvidia_telemetry_of live i = \<lparr>nt_temperature_c = map_option rat_of (nl_temperature live),
     nt_utilization_percent = map_option rat_of (nl_utilization live), nt_power_w = map_option (\<lambda>v. rat_of v / 1000) (nl_power_draw live),
     nt_pstate = map_option pstate_text (nl_pstate live), nt_memory_used_mib = nl_memory_used_mib live,
     nt_memory_total_mib = nl_memory_total_mib live, nt_graphics_clock_mhz = nl_graphics_clock live,
     nt_memory_clock_mhz = nl_memory_clock live,
     nt_maximum_graphics_clock_mhz = Option.bind i ni_maximum_graphics_clock,
     nt_maximum_memory_clock_mhz = Option.bind i ni_maximum_memory_clock, nt_model = Option.bind i ni_model,
     nt_driver_version = Option.bind i ni_driver_version, nt_pci_bus_id = Option.bind i ni_pci_bus_id\<rparr>"

record gpu_telemetry =
  gt_sleeping :: bool
  gt_temperature_c :: "rat option"
  gt_utilization_percent :: "rat option"
  gt_power_w :: "rat option"
  gt_pstate :: "string option"
  gt_memory_used_mib :: "u64 option"
  gt_memory_total_mib :: "u64 option"
  gt_graphics_clock_mhz :: "u32 option"
  gt_memory_clock_mhz :: "u32 option"
  gt_core_offset_mhz :: "int option"
  gt_memory_offset_mhz :: "int option"
  gt_offsets_uniform :: "bool option"
  gt_enforced_power_limit_w :: "rat option"
  gt_maximum_power_limit_w :: "rat option"
  gt_clock_event_reasons :: "u64 option"
  gt_nvidia_error :: "nvidia_detail list option"

record system_telemetry =
  st_cpu_temperature_c :: "rat option"
  st_cpu_utilization_percent :: "rat option"
  st_memory_used_mib :: nat
  st_memory_total_mib :: nat
  st_gpu :: gpu_telemetry
  st_fans :: fan_state
  st_fan_rpm_channels :: "fan_rpm_channel list"
  st_profile_raw :: "string option"
  st_profile :: "platform_profile option"
  st_hardware :: hardware_info
  st_power_supply :: power_supply_telemetry

definition read_cpu_times :: "'e sysfs \<Rightarrow> path \<Rightarrow> ('e, cpu_times) te_io" where
  "read_cpu_times fs p = io_bind (io_map_err (Te_io ''read CPU counters'' p) (fs_read_to_string fs p)) (\<lambda>s. io_of (parse_cpu_times s))"

definition read_memory_usage :: "'e sysfs \<Rightarrow> path \<Rightarrow> ('e, nat \<times> nat) te_io" where
  "read_memory_usage fs p = io_bind (io_map_err (Te_io ''read memory counters'' p) (fs_read_to_string fs p)) (\<lambda>s. io_of (parse_memory_usage s))"

text \<open>The description kept between samples, or a new one.\<close>

definition cached_hardware :: "string \<Rightarrow> 'e sysfs \<Rightarrow> path \<Rightarrow> u64 \<Rightarrow> telemetry_reader \<Rightarrow>
    ('e world, 'x, hardware_info \<times> telemetry_reader) io" where
  "cached_hardware ARCH fs sysroot memory_total_mib t = (case tr_hardware_info t of
      Some cached \<Rightarrow> io_bind (cpu_topology_key fs sysroot) (\<lambda>ids.
        io_bind (if ids \<noteq> tr_cpu_online_ids t then refresh_cpu_topology fs sysroot (hi_cpu cached) else io_ret (hi_cpu cached)) (\<lambda>cpu.
        let t1 = t\<lparr>tr_hardware_info := None, tr_cpu_online_ids := ids\<rparr> in
        if tr_frequency_refresh t \<le> 1 then io_bind (refresh_cpu_frequencies fs sysroot cpu) (\<lambda>cpu.
          io_ret (cached\<lparr>hi_cpu := cpu\<rparr>, t1\<lparr>tr_frequency_refresh := HARDWARE_FREQUENCY_REFRESH_SAMPLES\<rparr>))
        else io_ret (cached\<lparr>hi_cpu := cpu\<rparr>, t1\<lparr>tr_frequency_refresh := tr_frequency_refresh t - 1\<rparr>)))
    | None \<Rightarrow> io_bind (cpu_topology_key fs sysroot) (\<lambda>ids.
        io_bind (read_hardware_info_for_gpu ARCH fs sysroot memory_total_mib (tr_pci_bus_id t)) (\<lambda>info.
          io_ret (info, t\<lparr>tr_frequency_refresh := HARDWARE_FREQUENCY_REFRESH_SAMPLES, tr_cpu_online_ids := ids\<rparr>))))"

definition keep_old :: "'a option \<Rightarrow> 'a option \<Rightarrow> 'a option" where
  "keep_old v old = (if v = None then old else v)"

definition gpu_with_session :: "nvidia_telemetry option \<Rightarrow> gpu_hardware_info \<Rightarrow> gpu_hardware_info" where
  "gpu_with_session nvidia g = (case nvidia of
      Some n \<Rightarrow> g\<lparr>gi_model := keep_old (nt_model n) (gi_model g), gi_vram_total_mib := keep_old (nt_memory_total_mib n) (gi_vram_total_mib g),
        gi_driver_version := keep_old (nt_driver_version n) (gi_driver_version g),
        gi_pci_bus_id := keep_old (map_option normalize_pci_bus_id (nt_pci_bus_id n)) (gi_pci_bus_id g),
        gi_current_graphics_clock_mhz := nt_graphics_clock_mhz n, gi_maximum_graphics_clock_mhz := nt_maximum_graphics_clock_mhz n,
        gi_current_memory_clock_mhz := nt_memory_clock_mhz n, gi_maximum_memory_clock_mhz := nt_maximum_memory_clock_mhz n\<rparr>
    | None \<Rightarrow> g\<lparr>gi_current_graphics_clock_mhz := None, gi_current_memory_clock_mhz := None\<rparr>)"

definition hardware_snapshot :: "string \<Rightarrow> 'e sysfs \<Rightarrow> path \<Rightarrow> u64 \<Rightarrow> nvidia_telemetry option \<Rightarrow> telemetry_reader \<Rightarrow>
    ('e world, 'x, hardware_info \<times> telemetry_reader) io" where
  "hardware_snapshot ARCH fs sysroot memory_total_mib nvidia t =
     io_bind (cached_hardware ARCH fs sysroot memory_total_mib t) (\<lambda>(info, t1).
       (let located = (case tr_pci_bus_id t of None \<Rightarrow> hi_gpu info | Some b \<Rightarrow> (hi_gpu info)\<lparr>gi_pci_bus_id := Some (normalize_pci_bus_id b)\<rparr>);
            live = gpu_with_session nvidia located;
            gpu = (if tr_exact_oem_target t then live\<lparr>gi_streaming_multiprocessors := Some 36, gi_cuda_cores := Some 4608\<rparr> else live);
            out = info\<lparr>hi_gpu := gpu, hi_memory := (hi_memory info)\<lparr>mh_total_mib := Some memory_total_mib\<rparr>\<rparr> in
        io_ret (out, t1\<lparr>tr_hardware_info := Some out\<rparr>)))"

text \<open>What the session gives a sample: readings, power, errors, whether it was lost, whether the GPU is idle.\<close>

record nvidia_observation =
  no_nvidia :: "nvidia_telemetry option"
  no_power :: "power_telemetry option"
  no_errors :: "nvidia_detail list"
  no_lost_session :: bool
  no_idle :: "bool option"

definition observe_nvidia :: "'e nvml \<Rightarrow> telemetry_reader \<Rightarrow> ('e world, 'x, nvidia_observation) io" where
  "observe_nvidia nv t = (case tr_nvidia t of
      None \<Rightarrow> io_ret \<lparr>no_nvidia = None, no_power = None,
        no_errors = (case tr_discovery_error t of None \<Rightarrow> [] | Some d \<Rightarrow> d), no_lost_session = False, no_idle = None\<rparr>
    | Some c \<Rightarrow> io_bind (live_telemetry nv c) (\<lambda>live. io_try (read_power_telemetry nv c) (\<lambda>p.
        (let errors = map Nd_error (case tr_static t of None \<Rightarrow> [] | Some i \<Rightarrow> ni_errors i) @ map Nd_error (nl_errors live) @ ns_errors (tr_slow t) in
         io_ret \<lparr>no_nvidia = Some (nvidia_telemetry_of live (tr_static t)), no_power = res_ok p,
           no_errors = errors @ (case p of Inl x \<Rightarrow> [Nd_power x] | Inr _ \<Rightarrow> []),
           no_lost_session = (nl_session_lost live \<or> (case p of Inl x \<Rightarrow> Nvidia.invalidates_session x | Inr _ \<Rightarrow> False)),
           no_idle = Some (is_runtime_idle live)\<rparr>))))"

definition settle_observation :: "'e nvml \<Rightarrow> nvidia_observation \<Rightarrow> telemetry_reader \<Rightarrow>
    ('e world, 'x, nvidia_observation \<times> telemetry_reader) io" where
  "settle_observation nv x t = (if no_lost_session x
     then io_bind (lose_nvidia_session nv (if no_errors x = [] then [Nd_unavailable] else no_errors x) t)
       (\<lambda>t1. io_ret (x\<lparr>no_nvidia := None, no_power := None\<rparr>, t1))
     else io_ret (x, t))"

definition gpu_sample :: "nvidia_observation \<Rightarrow> rat option \<Rightarrow> telemetry_reader \<Rightarrow> gpu_telemetry" where
  "gpu_sample x acer_gpu_temp t = (let n = no_nvidia x; p = no_power x in
     \<lparr>gt_sleeping = (n = None \<and> tr_runtime_sleeping t), gt_temperature_c = or_else (Option.bind n nt_temperature_c) acer_gpu_temp,
      gt_utilization_percent = Option.bind n nt_utilization_percent, gt_power_w = Option.bind n nt_power_w,
      gt_pstate = Option.bind n nt_pstate, gt_memory_used_mib = Option.bind n nt_memory_used_mib,
      gt_memory_total_mib = Option.bind n nt_memory_total_mib, gt_graphics_clock_mhz = Option.bind n nt_graphics_clock_mhz,
      gt_memory_clock_mhz = Option.bind n nt_memory_clock_mhz,
      gt_core_offset_mhz = ns_core_offset_mhz (tr_slow t), gt_memory_offset_mhz = ns_memory_offset_mhz (tr_slow t),
      gt_offsets_uniform = ns_offsets_uniform (tr_slow t),
      gt_enforced_power_limit_w = map_option (\<lambda>v. rat_of (pt_enforced_limit v) / 1000) p,
      gt_maximum_power_limit_w = map_option (\<lambda>v. rat_of (pt_maximum_limit v) / 1000) p,
      gt_clock_event_reasons = map_option pt_clock_event_reasons p,
      gt_nvidia_error = (if no_errors x = [] then None else Some (no_errors x))\<rparr>)"

definition observe_idle :: "'e nvml \<Rightarrow> nvidia_observation \<Rightarrow> telemetry_reader \<Rightarrow> ('e, 'x) tr_io" where
  "observe_idle nv x t = (if no_lost_session x then io_ret t
     else (case no_idle x of None \<Rightarrow> io_ret t
       | Some idle \<Rightarrow> (case observe_live_sample (tr_runtime_can_suspend t) (tr_runtime_usage t) idle (tr_idle t) of (release, l) \<Rightarrow>
           if release then release_nvidia_after_idle nv (t\<lparr>tr_idle := l\<rparr>) else io_ret (t\<lparr>tr_idle := l\<rparr>))))"

text \<open>The steps of \<open>sample\<close> that may fail, each of which returns early.\<close>

definition acer_celsius :: "'e sysfs \<Rightarrow> acer_hardware \<Rightarrow> u8 \<Rightarrow> ('e world, 'x, rat option) io" where
  "acer_celsius fs hw channel = io_bind (io_ok (read_acer_temp_millidegrees fs hw channel)) (\<lambda>r. io_ret (Option.bind r millidegrees_to_celsius))"

definition begin_sample :: "'e nvml \<Rightarrow> 'e sysfs \<Rightarrow> path \<Rightarrow> telemetry_reader \<Rightarrow> ('e, 'x) tr_io" where
  "begin_sample nv fs sysroot t = io_bind (refresh_nvidia_lifecycle nv fs sysroot t) (\<lambda>t1.
     io_bind (refresh_nvidia_slow nv t1) (\<lambda>t2.
       if ns_session_lost (tr_slow t2) then lose_nvidia_session nv (ns_errors (tr_slow t2)) t2 else io_ret t2))"

definition finish_sample :: "'e nvml \<Rightarrow> 'e sysfs \<Rightarrow> string \<Rightarrow> acer_hardware \<Rightarrow> rat option \<Rightarrow> nat \<times> nat \<Rightarrow> rat option \<Rightarrow> rat option \<Rightarrow>
    telemetry_reader \<Rightarrow> ('e world, 'x, system_telemetry \<times> telemetry_reader) io" where
  "finish_sample nv fs ARCH hw utilization_percent memory cpu_temp gpu_temp t =
     io_bind (observe_nvidia nv t) (\<lambda>x.
     io_bind (settle_observation nv x t) (\<lambda>(x, t1).
     io_bind (hardware_snapshot ARCH fs (hw_root hw) (of_nat (snd memory)) (no_nvidia x) t1) (\<lambda>(info, t2).
     io_bind (fan_rpm_channels fs hw) (\<lambda>channels.
     io_bind (io_ok (read_fan_state fs hw)) (\<lambda>fans.
     io_bind (io_ok (current_profile_raw fs hw)) (\<lambda>raw.
     io_bind (observe_idle nv x t2) (\<lambda>t3.
     io_bind (read_power_supply fs (hw_root hw)) (\<lambda>supply.
       io_ret (\<lparr>st_cpu_temperature_c = cpu_temp, st_cpu_utilization_percent = utilization_percent,
         st_memory_used_mib = fst memory, st_memory_total_mib = snd memory, st_gpu = gpu_sample x gpu_temp t2,
         st_fans = (case fans of Some f \<Rightarrow> f | None \<Rightarrow> unavailable_fan_state channels), st_fan_rpm_channels = channels,
         st_profile_raw = raw, st_profile = Option.bind raw (\<lambda>v. res_ok (profile_from_sysfs v)),
         st_hardware = info, st_power_supply = supply\<rparr>, t3)))))))))"

definition read_sample :: "'e nvml \<Rightarrow> 'e sysfs \<Rightarrow> string \<Rightarrow> acer_hardware \<Rightarrow> telemetry_reader \<Rightarrow>
    ('e world, 'x, (telemetry_error + system_telemetry) \<times> telemetry_reader) io" where
  "read_sample nv fs ARCH hw t1 = io_try (read_cpu_times fs (rooted (hw_root hw) ''proc/stat'')) (\<lambda>r. case r of Inl x \<Rightarrow> io_ret (Inl x, t1)
     | Inr now \<Rightarrow> (let load = Option.bind (tr_previous_cpu_times t1) (\<lambda>previous. cpu_utilization previous now);
           t2 = t1\<lparr>tr_previous_cpu_times := Some now\<rparr> in
       io_try (read_memory_usage fs (rooted (hw_root hw) ''proc/meminfo'')) (\<lambda>r. case r of Inl x \<Rightarrow> io_ret (Inl x, t2)
       | Inr memory \<Rightarrow>
         io_bind (acer_celsius fs hw 1) (\<lambda>acer_cpu_temp.
         io_bind (acer_celsius fs hw 2) (\<lambda>acer_gpu_temp.
         io_try (find_labeled_temperature fs (hw_root hw) ''coretemp'' ''Package id 0'') (\<lambda>r. case r of Inl x \<Rightarrow> io_ret (Inl x, t2)
         | Inr package \<Rightarrow> io_bind (finish_sample nv fs ARCH hw load memory (or_else package acer_cpu_temp) acer_gpu_temp t2)
             (\<lambda>(s, t3). io_ret (Inr s, t3))))))))"

definition sample :: "'e nvml \<Rightarrow> 'e sysfs \<Rightarrow> string \<Rightarrow> acer_hardware \<Rightarrow> telemetry_reader \<Rightarrow>
    ('e world, 'x, (telemetry_error + system_telemetry) \<times> telemetry_reader) io" where
  "sample nv fs ARCH hw t = io_bind (begin_sample nv fs (hw_root hw) t) (read_sample nv fs ARCH hw)"

end
