(* ===== verification/Telemetry_Safety.thy ===== *)
theory Telemetry_Safety
  imports Telemetry_Reader Diagnostic_Types
begin

text \<open>
  Properties of the telemetry reader: the readers below it never fail, the invariant of its state
  over every sequence of samples and resumes, the ranges of what a sample reports, and what it does
  to a GPU that sleeps or idles.
\<close>

section \<open>Computations that cannot fail\<close>

named_theorems totals \<open>computations that cannot fail\<close>

lemmas [totals] = io_total_ret io_total_query io_total_ok io_total_bind io_total_try io_total_then io_total_fold

lemma total_filter_map [totals]: "(\<And>x. io_total (f x)) \<Longrightarrow> io_total (io_filter_map f xs)"
  by (induction xs) (auto intro!: totals)

lemma total_nv_call [totals]: "io_total (nv_call f)"
  by (auto simp: io_total_def nv_call_def split: prod.split)

lemma total_read_text [totals]: "io_total (read_text fs p)"
  unfolding read_text_def by (intro totals)

lemma total_read_nat [totals]: "io_total (read_nat mx fs p)" and total_read_i32 [totals]: "io_total (read_i32 fs p)"
  and total_read_u64 [totals]: "io_total (read_u64 fs p)" and total_read_u32 [totals]: "io_total (read_u32 fs p)"
  and total_read_bounded [totals]: "io_total (read_bounded fs p n)"
  unfolding read_nat_def read_i32_def read_u64_def read_u32_def read_bounded_def by (intro totals)+

lemma total_online_cpu_ids [totals]: "io_total (online_cpu_ids fs r)"
  unfolding online_cpu_ids_def cpu_entry_def Let_def by (auto intro!: totals split: option.split sum.split)

lemma total_topology [totals]: "io_total (apply_cpu_topology fs r info)"
  unfolding apply_cpu_topology_def topology_entry_def read_cpu_set_def Let_def
  by (auto intro!: totals split: option.split)

lemma total_refresh_topology [totals]: "io_total (refresh_cpu_topology fs r info)"
  unfolding refresh_cpu_topology_def by (rule totals)

lemma total_frequencies [totals]: "io_total (refresh_cpu_frequencies fs r info)"
  unfolding refresh_cpu_frequencies_def frequency_entry_def read_frequency_either_def read_frequency_khz_def Let_def
  by (auto intro!: totals split: prod.split)

lemma total_cache [totals]: "io_total (read_l3_cache_kib fs r)"
  unfolding read_l3_cache_kib_def cpu_cache_def cache_entry_def Let_def
  by (auto intro!: totals split: option.split sum.split)

lemma total_first_gpu [totals]: "io_total (first_gpu fs dir sel names)"
  by (induction names) (auto simp: Let_def intro!: totals split: option.split)

lemma total_proc_gpu [totals]: "io_total (read_nvidia_proc_hardware fs r sel)"
  unfolding read_nvidia_proc_hardware_def Let_def by (auto intro!: totals split: sum.split option.split)

lemma total_memory [totals]: "io_total (read_memory_hardware fs r n)"
  unfolding read_memory_hardware_def read_dmi_memory_modules_def read_edac_memory_modules_def dmi_entry_def
    edac_controller_def edac_dimm_def Let_def
  by (auto intro!: totals split: sum.split option.split)

lemma total_hardware_info [totals]: "io_total (read_hardware_info_for_gpu arch fs r n sel)"
  unfolding read_hardware_info_for_gpu_def by (auto intro!: totals)

lemma total_power_supply [totals]: "io_total (read_power_supply fs r)"
  unfolding read_power_supply_def supply_entry_def Let_def by (auto intro!: totals split: sum.split option.split prod.split)

lemma total_topology_key [totals]: "io_total (cpu_topology_key fs r)"
  unfolding cpu_topology_key_def by (intro totals)

lemma total_discover_pci [totals]: "io_total (discover_nvidia_pci_device fs r)"
  unfolding discover_nvidia_pci_device_def by (auto intro!: totals split: sum.split)

lemma total_collect [totals]: "io_total (collect_metric es m)" "io_total (collect_live_metric st m)"
  unfolding collect_metric_def collect_live_metric_def by (intro totals)+

lemma total_static_info [totals]: "io_total (static_info nv c)"
  unfolding static_info_def by (auto intro!: totals)

lemma total_fan_rpm [totals]: "io_total (fan_rpm_channels fs hw)"
  unfolding fan_rpm_channels_def Let_def by (auto intro!: totals split: option.split)

section \<open>The description of the processor\<close>

text \<open>Performance and efficiency cores are published together, and then they are all the cores.\<close>

definition cores_ok :: "cpu_hardware_info \<Rightarrow> bool" where
  "cores_ok c \<longleftrightarrow> (case (ci_performance_cores c, ci_efficiency_cores c) of (None, None) \<Rightarrow> True
     | (Some p, Some e) \<Rightarrow> ci_physical_cores c = Some (p + e) | _ \<Rightarrow> False)"

lemma core_count_total:
  "list_all (\<lambda>c. snd c \<noteq> None) cores \<Longrightarrow> core_count Performance_core cores + core_count Efficiency_core cores = length cores"
proof (induction cores)
  case (Cons c cs)
  then show ?case by (cases "snd c"; cases "the (snd c)") (auto simp: core_count_def)
qed (simp add: core_count_def)

lemma publish_cores_ok:
  "ci_performance_cores info = None \<Longrightarrow> ci_efficiency_cores info = None \<Longrightarrow> cores_ok (publish_cores cores info)"
  by (auto simp: publish_cores_def cores_ok_def Let_def core_count_total)

lemma gives_any: "io_total m \<Longrightarrow> (\<And>a. gives P (f a)) \<Longrightarrow> gives P (io_bind m f)"
  by (rule gives_bind [OF gives_total])

lemma gives_topology:
  assumes "ci_performance_cores info = None" and "ci_efficiency_cores info = None"
  shows "gives cores_ok (apply_cpu_topology fs r info)"
  unfolding apply_cpu_topology_def
proof (rule gives_any, rule totals, cases)
  fix ids :: "nat list" assume "ids = []"
  with assms show "gives cores_ok (if ids = [] then io_ret info
     else io_bind (read_cpu_set fs r ''sys/bus/event_source/devices/cpu_core/cpus'') (\<lambda>performance_ids.
       io_bind (read_cpu_set fs r ''sys/bus/event_source/devices/cpu_atom/cpus'') (\<lambda>efficiency_ids.
       io_bind (io_fold (topology_entry fs r performance_ids efficiency_ids) ids []) (\<lambda>cores.
         io_ret (publish_cores cores (info\<lparr>ci_logical_processors := Some (length ids)\<rparr>))))))"
    by (simp add: gives_ret cores_ok_def)
next
  fix ids :: "nat list" assume "ids \<noteq> []"
  with assms show "gives cores_ok (if ids = [] then io_ret info
     else io_bind (read_cpu_set fs r ''sys/bus/event_source/devices/cpu_core/cpus'') (\<lambda>performance_ids.
       io_bind (read_cpu_set fs r ''sys/bus/event_source/devices/cpu_atom/cpus'') (\<lambda>efficiency_ids.
       io_bind (io_fold (topology_entry fs r performance_ids efficiency_ids) ids []) (\<lambda>cores.
         io_ret (publish_cores cores (info\<lparr>ci_logical_processors := Some (length ids)\<rparr>))))))"
    unfolding read_cpu_set_def topology_entry_def Let_def
    by (auto intro!: gives_any gives_ret totals publish_cores_ok split: option.split)
qed

lemma publish_frequencies_ok: "cores_ok c \<Longrightarrow> cores_ok (publish_frequencies f c)"
  by (cases f) (auto simp: publish_frequencies_def cores_ok_def Let_def split: option.splits)

lemma gives_frequencies: "cores_ok c \<Longrightarrow> gives cores_ok (refresh_cpu_frequencies fs r c)"
  unfolding refresh_cpu_frequencies_def frequency_entry_def read_frequency_either_def read_frequency_khz_def Let_def
  by (auto intro!: gives_any gives_ret totals publish_frequencies_ok split: prod.split)

lemma parsed_cpu_unpublished:
  "ci_performance_cores (parse_cpu_hardware_info arch t) = None" "ci_efficiency_cores (parse_cpu_hardware_info arch t) = None"
  by (simp_all add: parse_cpu_hardware_info_def no_cpu_info_def Let_def)

lemma gives_hardware_info: "gives (\<lambda>i. cores_ok (hi_cpu i)) (read_hardware_info_for_gpu arch fs r n sel)"
  unfolding read_hardware_info_for_gpu_def
  apply (rule gives_any [OF io_total_ok])
  apply (rule gives_bind [OF gives_topology], rule parsed_cpu_unpublished, rule parsed_cpu_unpublished)
  apply (rule gives_bind [OF gives_frequencies], assumption)
  apply (intro gives_any totals gives_ret)
  apply (simp add: cores_ok_def split: option.splits)
  done

section \<open>The invariant of the reader\<close>

text \<open>The counters stay within their bounds.\<close>

definition timing_ok :: "telemetry_reader \<Rightarrow> bool" where
  "timing_ok t \<longleftrightarrow> 1 \<le> sb_next_delay (tr_retry t) \<and> sb_next_delay (tr_retry t) \<le> NVIDIA_RETRY_MAX_SAMPLES
     \<and> sb_samples_until_retry (tr_retry t) \<le> NVIDIA_RETRY_MAX_SAMPLES
     \<and> il_idle_samples (tr_idle t) < NVIDIA_IDLE_RELEASE_SAMPLES
     \<and> il_reopen_holdoff_samples (tr_idle t) \<le> NVIDIA_IDLE_REOPEN_HOLDOFF_SAMPLES
     \<and> (il_idle_samples (tr_idle t) > 0 \<longrightarrow> il_release_armed (tr_idle t))
     \<and> tr_slow_refresh t \<le> NVIDIA_SLOW_REFRESH_SAMPLES \<and> tr_frequency_refresh t \<le> HARDWARE_FREQUENCY_REFRESH_SAMPLES"

definition hardware_ok :: "telemetry_reader \<Rightarrow> bool" where
  "hardware_ok t \<longleftrightarrow> (\<forall>i. tr_hardware_info t = Some i \<longrightarrow> cores_ok (hi_cpu i))"

text \<open>Without a session nothing of an earlier one is kept; an open session is that of the awake device the
  reader last saw, with its static description and without an error or a holdoff.\<close>

definition session_ok :: "telemetry_reader \<Rightarrow> bool" where
  "session_ok t \<longleftrightarrow> (case tr_nvidia t of None \<Rightarrow> tr_slow t = default_slow \<and> tr_slow_refresh t = 0
     | Some c \<Rightarrow> tr_static t \<noteq> None \<and> tr_discovery_error t = None \<and> \<not> tr_runtime_sleeping t
         \<and> tr_pci_bus_id t = Some (nc_bus_id c) \<and> il_reopen_holdoff_samples (tr_idle t) = 0)"

definition reader_ok :: "telemetry_reader \<Rightarrow> bool" where
  "reader_ok t \<longleftrightarrow> timing_ok t \<and> hardware_ok t \<and> session_ok t"

lemmas reader_defs = reader_ok_def timing_ok_def hardware_ok_def session_ok_def
lemmas sample_bounds = NVIDIA_RETRY_MAX_SAMPLES_def NVIDIA_IDLE_RELEASE_SAMPLES_def NVIDIA_SLOW_REFRESH_SAMPLES_def
  NVIDIA_IDLE_REOPEN_HOLDOFF_SAMPLES_def HARDWARE_FREQUENCY_REFRESH_SAMPLES_def u8_max_def

lemma reader_new_ok: "reader_ok reader_new"
  by (simp add: reader_defs reader_new_def default_backoff_def default_lifecycle_def sample_bounds)

lemma timing_parts [simp]:
  "timing_ok t \<Longrightarrow> timing_ok (t\<lparr>tr_retry := default_backoff\<rparr>)"
  "timing_ok t \<Longrightarrow> timing_ok (t\<lparr>tr_retry := record_failure (tr_retry t)\<rparr>)"
  "timing_ok t \<Longrightarrow> timing_ok (t\<lparr>tr_idle := default_lifecycle\<rparr>)"
  by (auto simp: timing_ok_def default_backoff_def default_lifecycle_def record_failure_def sample_bounds)

lemma gives_set_nvidia: "gives (\<lambda>t'. t' = t\<lparr>tr_nvidia := c\<rparr>) (set_nvidia nv c t)"
  unfolding set_nvidia_def runtime_drop_def gives_def by (simp add: io_simps nv_call_def)

lemma gives_set_nvidia_bind: "gives P (f (t\<lparr>tr_nvidia := c\<rparr>)) \<Longrightarrow> gives P (io_bind (set_nvidia nv c t) f)"
  by (rule gives_bind [OF gives_set_nvidia]) simp

text \<open>What closes a session establishes the invariant from its timing and hardware parts.\<close>

lemma gives_drop: "timing_ok t \<Longrightarrow> hardware_ok t \<Longrightarrow> gives reader_ok (drop_nvidia_for_runtime_state nv b s t)"
  unfolding drop_nvidia_for_runtime_state_def
  by (intro gives_set_nvidia_bind gives_ret) (simp add: reader_defs default_backoff_def default_lifecycle_def sample_bounds)

lemma gives_lose: "timing_ok t \<Longrightarrow> hardware_ok t \<Longrightarrow> gives reader_ok (lose_nvidia_session nv d t)"
  unfolding lose_nvidia_session_def
  by (intro gives_set_nvidia_bind gives_ret) (simp add: reader_defs record_failure_def default_lifecycle_def sample_bounds)

lemma gives_release:
  "timing_ok t \<Longrightarrow> hardware_ok t \<Longrightarrow> gives (\<lambda>t'. reader_ok t' \<and> tr_nvidia t' = None) (release_nvidia_after_idle nv t)"
  unfolding release_nvidia_after_idle_def
  by (intro gives_set_nvidia_bind gives_ret) (simp add: reader_defs default_backoff_def sample_bounds)

lemma reader_okD: "reader_ok t \<Longrightarrow> timing_ok t" "reader_ok t \<Longrightarrow> hardware_ok t" "reader_ok t \<Longrightarrow> session_ok t"
  by (simp_all add: reader_ok_def)

text \<open>The session is opened for the device the reader last saw.\<close>

lemma discover_telemetry_bus:
  "yields (\<lambda>_. True) (\<lambda>c. nc_bus_id c = pd_bus_id d) (discover_telemetry nv fs d r probe)"
  unfolding yields_def discover_telemetry_def owning_runtime_def
  by (auto simp: io_simps Let_def split: if_splits prod.splits sum.splits)

lemma gives_discover:
  assumes ok: "timing_ok t" "hardware_ok t" and "tr_nvidia t = None" and "\<not> tr_runtime_sleeping t"
    and "tr_pci_bus_id t = Some (pd_bus_id d)" and "il_reopen_holdoff_samples (tr_idle t) = 0"
  shows "gives reader_ok (discover_nvidia nv fs r d t)"
  unfolding discover_nvidia_def
proof (rule gives_try_yields [OF discover_telemetry_bus], goal_cases)
  case (1 x)
  from ok show ?case
    by (simp, intro gives_set_nvidia_bind gives_ret) (simp add: reader_defs record_failure_def sample_bounds)
next
  case (2 c)
  have opened: "gives reader_ok (io_bind (set_nvidia nv (Some c) t') (\<lambda>t. io_ret (t\<lparr>tr_discovery_error := None, tr_retry := default_backoff\<rparr>)))"
    if "t' = t \<and> tr_static t \<noteq> None \<or> (\<exists>i. t' = t\<lparr>tr_static := Some i\<rparr>)" for t'
    by (intro gives_set_nvidia_bind gives_ret)
      (use that assms 2 in \<open>auto simp: reader_defs default_backoff_def sample_bounds\<close>)
  show ?case
    by (auto intro!: gives_any [OF total_static_info] gives_bind [where Q = "\<lambda>t'. t' = t \<and> tr_static t \<noteq> None \<or> (\<exists>i. t' = t\<lparr>tr_static := Some i\<rparr>)"]
      gives_ret opened)
qed

lemma adopt_keeps:
  assumes "timing_ok t" and "hardware_ok t"
  shows "timing_ok (adopt_pci_device d t)" and "hardware_ok (adopt_pci_device d t)"
  using assms by (auto simp: adopt_pci_device_def timing_ok_def hardware_ok_def default_lifecycle_def sample_bounds Let_def)

lemma gives_open:
  assumes "reader_ok t" and "\<not> tr_runtime_sleeping t" and "tr_pci_bus_id t = Some (pd_bus_id d)"
  shows "gives reader_ok (open_nvidia nv fs r d t)"
proof (cases "tr_nvidia t")
  case None
  obtain a l where l: "discovery_allowed (tr_idle t) = (a, l)" by (cases "discovery_allowed (tr_idle t)")
  obtain u b where b: "retry_due (tr_retry t) = (u, b)" by (cases "retry_due (tr_retry t)")
  from l b have idle: "il_idle_samples l = il_idle_samples (tr_idle t)" "il_release_armed l = il_release_armed (tr_idle t)"
    "il_reopen_holdoff_samples l \<le> il_reopen_holdoff_samples (tr_idle t)" "a \<longrightarrow> il_reopen_holdoff_samples l = 0"
    and retry: "sb_next_delay b = sb_next_delay (tr_retry t)" "sb_samples_until_retry b \<le> sb_samples_until_retry (tr_retry t)"
    by (auto simp: discovery_allowed_def retry_due_def Let_def split: if_splits)
  from assms(1) None idle have "reader_ok (t\<lparr>tr_idle := l\<rparr>)" by (auto simp: reader_defs)
  moreover from assms(1) None idle retry have both: "reader_ok (t\<lparr>tr_idle := l, tr_retry := b\<rparr>)" by (auto simp: reader_defs)
  moreover have "gives reader_ok (discover_nvidia nv fs r d (t\<lparr>tr_idle := l, tr_retry := b\<rparr>))" if a
    by (rule gives_discover [OF reader_okD(1) [OF both] reader_okD(2) [OF both]]) (use None assms idle that in simp_all)
  ultimately show ?thesis using None l b by (auto simp: open_nvidia_def intro!: gives_ret)
qed (simp add: open_nvidia_def gives_ret assms)

lemma adopted_session_ok:
  assumes "reader_ok t" and "\<not> wrong_device (pci_identity_changed d t) d (adopt_pci_device d t)" and "permits_live_nvml (pd_runtime_status d)"
  shows "reader_ok (adopt_pci_device d t)"
  using assms
  by (auto simp: reader_defs adopt_pci_device_def wrong_device_def pci_identity_changed_def permits_live_nvml_def Let_def split: option.splits)

lemma gives_lifecycle:
  assumes ok: "reader_ok t" shows "gives reader_ok (refresh_nvidia_lifecycle nv fs r t)"
  unfolding refresh_nvidia_lifecycle_def
proof (rule gives_any [OF total_discover_pci])
  fix found :: "nvidia_pci_device option"
  note parts = reader_okD(1) [OF ok] reader_okD(2) [OF ok]
  show "gives reader_ok (case found of None \<Rightarrow> drop_nvidia_for_runtime_state nv None False
        (t\<lparr>tr_hardware_info := (if tr_pci_bus_id t \<noteq> None then None else tr_hardware_info t), tr_static := None, tr_pci_identity := None\<rparr>)
    | Some d \<Rightarrow> (let changed = pci_identity_changed d t; t1 = adopt_pci_device d t in
        if \<not> permits_live_nvml (pd_runtime_status d)
        then drop_nvidia_for_runtime_state nv (Some (pd_bus_id d)) (pd_runtime_status d = Rt_suspended) t1
        else if tr_runtime_can_suspend t1 \<and> pd_runtime_usage d = Some 0
        then io_bind (release_nvidia_after_idle nv t1) (\<lambda>t2. io_ret (t2\<lparr>tr_idle := default_lifecycle\<rparr>))
        else io_bind (if wrong_device changed d t1
              then io_bind (set_nvidia nv None t1) (\<lambda>t2. io_ret (t2\<lparr>tr_static := None, tr_slow := default_slow,
                tr_slow_refresh := 0, tr_retry := default_backoff\<rparr>))
              else io_ret t1) (open_nvidia nv fs r d)))"
  proof (cases found)
    case None
    from parts show ?thesis using None by (auto simp: timing_ok_def hardware_ok_def intro!: gives_drop)
  next
    case (Some d)
    note adopted = adopt_keeps [OF parts, of d]
    have seen: "tr_pci_bus_id (adopt_pci_device d t) = Some (pd_bus_id d)"
      "permits_live_nvml (pd_runtime_status d) \<longrightarrow> \<not> tr_runtime_sleeping (adopt_pci_device d t)"
      by (auto simp: adopt_pci_device_def permits_live_nvml_def Let_def)
    have rest: "gives reader_ok (io_bind (release_nvidia_after_idle nv (adopt_pci_device d t)) (\<lambda>t2. io_ret (t2\<lparr>tr_idle := default_lifecycle\<rparr>)))"
      by (rule gives_bind [OF gives_release [OF adopted]], rule gives_ret)
        (auto simp: reader_defs default_lifecycle_def sample_bounds)
    have open_dev: "gives reader_ok (io_bind (if wrong_device (pci_identity_changed d t) d (adopt_pci_device d t)
        then io_bind (set_nvidia nv None (adopt_pci_device d t)) (\<lambda>t2. io_ret (t2\<lparr>tr_static := None, tr_slow := default_slow,
          tr_slow_refresh := 0, tr_retry := default_backoff\<rparr>))
        else io_ret (adopt_pci_device d t)) (open_nvidia nv fs r d))" if live: "permits_live_nvml (pd_runtime_status d)"
      by (rule gives_bind [where Q = "\<lambda>t'. reader_ok t' \<and> \<not> tr_runtime_sleeping t' \<and> tr_pci_bus_id t' = Some (pd_bus_id d)"])
        (use seen adopted live adopted_session_ok [OF ok _ live] in
          \<open>auto intro!: gives_set_nvidia_bind gives_ret gives_open simp: reader_defs default_backoff_def sample_bounds\<close>)
    show ?thesis using Some rest open_dev adopted by (auto simp: Let_def intro!: gives_drop)
  qed
qed

lemma gives_slow: "reader_ok t \<Longrightarrow> gives reader_ok (refresh_nvidia_slow nv t)"
  unfolding refresh_nvidia_slow_def
  by (auto intro!: gives_ret gives_try simp: reader_defs sample_bounds split: option.split)

lemma gives_begin: "reader_ok t \<Longrightarrow> gives reader_ok (begin_sample nv fs r t)"
  unfolding begin_sample_def
  by (rule gives_bind [OF gives_lifecycle], assumption, rule gives_bind [OF gives_slow], assumption)
    (auto intro: gives_ret gives_lose dest: reader_okD)

end
