(* ===== verification/Telemetry_Samples.thy ===== *)
theory Telemetry_Samples
  imports Telemetry_Safety
begin

text \<open>
  What a sample reports, over every kernel and NVML behaviour: the ranges of its readings, the
  invariant of the reader across samples and resumes, and the GPU it leaves asleep.
\<close>

section \<open>Ranges of the readings\<close>

definition percent :: "rat \<Rightarrow> bool" where "percent p \<longleftrightarrow> 0 \<le> p \<and> p \<le> 100"

definition plausible_temperature :: "rat \<Rightarrow> bool" where "plausible_temperature v \<longleftrightarrow> - 50 \<le> v \<and> v \<le> 200"

definition opt_all :: "('a \<Rightarrow> bool) \<Rightarrow> 'a option \<Rightarrow> bool" where
  "opt_all P v = (case v of None \<Rightarrow> True | Some a \<Rightarrow> P a)"

lemma opt_all_simps [simp]: "opt_all P None" "opt_all P (Some a) = P a"
  by (simp_all add: opt_all_def)

lemma opt_all_bind: "(\<And>a. opt_all P (f a)) \<Longrightarrow> opt_all P (Option.bind v f)"
  by (cases v) simp_all

lemma opt_all_or_else: "opt_all P a \<Longrightarrow> opt_all P b \<Longrightarrow> opt_all P (or_else a b)"
  by (cases a) (simp_all add: or_else_def)

lemma cpu_utilization_percent: "opt_all percent (cpu_utilization previous now)"
proof -
  have "of_nat a * 100 / of_nat b \<le> (100 :: rat)" if "a \<le> b" "b \<noteq> 0" for a b :: nat
    using that by (simp add: divide_le_eq)
  then show ?thesis
    by (auto simp: cpu_utilization_def percent_def intro!: opt_all_bind)
qed

lemma celsius_plausible: "opt_all plausible_temperature (millidegrees_to_celsius v)"
proof -
  have "of_int v / 1000 \<le> (200 :: rat)" if "v \<le> 200000"
    using that by (simp add: divide_le_eq)
  moreover have "- 50 \<le> (of_int v / 1000 :: rat)" if "- 50000 \<le> v"
    using that by (simp add: le_divide_eq)
  ultimately show ?thesis by (simp add: millidegrees_to_celsius_def plausible_temperature_def)
qed

lemma parse_memory_usage_le: "parse_memory_usage s = Inr (u, n) \<Longrightarrow> u \<le> n"
  by (auto simp: parse_memory_usage_def res_bind_def ok_or_def split: prod.splits sum.splits if_splits option.splits
    intro!: div_le_mono)

text \<open>What one look at NVML may give.\<close>

definition live_ok :: "nvidia_live_telemetry \<Rightarrow> bool" where
  "live_ok l \<longleftrightarrow> opt_all (\<lambda>u. u \<le> 100) (nl_utilization l)
     \<and> (\<forall>a b. nl_memory_used_mib l = Some a \<longrightarrow> nl_memory_total_mib l = Some b \<longrightarrow> a \<le> b)"

lemma utilization_yields: "yields (\<lambda>_. True) (opt_all (\<lambda>u. u \<le> 100)) (utilization nv c)"
  unfolding utilization_def optional_get_def
  by (auto simp: yields_def io_simps split: option.splits prod.splits sum.splits if_splits)

lemma memory_yields: "yields (\<lambda>_. True) (opt_all (\<lambda>(total, free, used). used \<le> total)) (memory_info nv c)"
  unfolding memory_info_def optional_get_def
  by (auto simp: yields_def io_simps split: option.splits prod.splits sum.splits if_splits)

lemma collect_gives:
  "yields (\<lambda>_. True) (opt_all P) m \<Longrightarrow> gives (\<lambda>r. opt_all P (fst r)) (collect_live_metric st m)"
  unfolding collect_live_metric_def by (rule gives_try_yields, assumption) (auto intro!: gives_ret)

lemma live_gives: "gives live_ok (live_telemetry nv c)"
proof -
  have mib: "a div BYTES_PER_MIB \<le> b div BYTES_PER_MIB" if "a \<le> b" for a b :: u64
    using that by (simp add: word_le_nat_alt unat_div div_le_mono)
  show ?thesis
    unfolding live_telemetry_def
    apply (rule gives_any [OF total_collect(2)], clarify)
    apply (rule gives_bind [OF collect_gives [OF utilization_yields]], clarify)
    apply (rule gives_any [OF total_collect(2)], clarify)
    apply (rule gives_any [OF total_collect(2)], clarify)
    apply (rule gives_bind [OF collect_gives [OF memory_yields]], clarify)
    apply (rule gives_any [OF total_collect(2)], clarify)
    apply (rule gives_any [OF total_collect(2)], clarify)
    apply (rule gives_ret)
    apply (auto simp: live_ok_def mib)
    done
qed

definition session_values_ok :: "nvidia_telemetry \<Rightarrow> bool" where
  "session_values_ok n \<longleftrightarrow> opt_all percent (nt_utilization_percent n)
     \<and> (\<forall>a b. nt_memory_used_mib n = Some a \<longrightarrow> nt_memory_total_mib n = Some b \<longrightarrow> a \<le> b)"

lemma rat_of_le: "unat u \<le> n \<Longrightarrow> 0 \<le> rat_of u \<and> rat_of u \<le> of_nat n"
  unfolding rat_of_def by (simp del: of_nat_unat)

lemma session_values: "live_ok l \<Longrightarrow> session_values_ok (nvidia_telemetry_of l i)"
  by (cases "nl_utilization l")
    (auto simp: live_ok_def session_values_ok_def nvidia_telemetry_of_def percent_def word_le_nat_alt
      dest: rat_of_le [of _ 100])

lemma observe_gives: "gives (\<lambda>x. opt_all session_values_ok (no_nvidia x)) (observe_nvidia nv t)"
  unfolding observe_nvidia_def Let_def
  by (auto intro!: gives_ret gives_bind [OF live_gives] gives_try session_values split: option.split)

lemma settle_gives:
  assumes "reader_ok t" and "opt_all session_values_ok (no_nvidia x)"
  shows "gives (\<lambda>(x, t'). reader_ok t' \<and> opt_all session_values_ok (no_nvidia x)) (settle_observation nv x t)"
  unfolding settle_observation_def
  by (auto intro!: gives_bind [OF gives_lose] gives_ret simp: assms reader_okD)

lemma cached_gives:
  assumes ok: "reader_ok t"
  shows "gives (\<lambda>(i, t'). cores_ok (hi_cpu i) \<and> (\<exists>h k n. n \<le> HARDWARE_FREQUENCY_REFRESH_SAMPLES
      \<and> t' = t\<lparr>tr_hardware_info := h, tr_cpu_online_ids := k, tr_frequency_refresh := n\<rparr>))
    (cached_hardware arch fs r n t)"
proof (cases "tr_hardware_info t")
  case None
  then have "\<exists>h k n. n \<le> HARDWARE_FREQUENCY_REFRESH_SAMPLES
      \<and> t\<lparr>tr_frequency_refresh := HARDWARE_FREQUENCY_REFRESH_SAMPLES, tr_cpu_online_ids := ids\<rparr>
        = t\<lparr>tr_hardware_info := h, tr_cpu_online_ids := k, tr_frequency_refresh := n\<rparr>" for ids
    by (intro exI [of _ None] exI [of _ ids] exI [of _ HARDWARE_FREQUENCY_REFRESH_SAMPLES]) (cases t, simp)
  with None show ?thesis
    unfolding cached_hardware_def
    by (auto intro!: gives_any [OF total_topology_key] gives_bind [OF gives_hardware_info] gives_ret)
next
  case (Some i)
  with ok have i: "cores_ok (hi_cpu i)" by (simp add: reader_defs)
  have same: "gives cores_ok (if b then refresh_cpu_topology fs r (hi_cpu i) else io_ret (hi_cpu i))" for b
    unfolding refresh_cpu_topology_def by (auto intro!: gives_ret gives_topology i)
  have "\<exists>h k n. n \<le> HARDWARE_FREQUENCY_REFRESH_SAMPLES
      \<and> t\<lparr>tr_hardware_info := None, tr_cpu_online_ids := ids, tr_frequency_refresh := m\<rparr>
        = t\<lparr>tr_hardware_info := h, tr_cpu_online_ids := k, tr_frequency_refresh := n\<rparr>"
    if "m \<le> HARDWARE_FREQUENCY_REFRESH_SAMPLES" for ids m
    using that by blast
  moreover have "tr_frequency_refresh t \<le> HARDWARE_FREQUENCY_REFRESH_SAMPLES" using ok by (simp add: reader_defs)
  ultimately show ?thesis
    unfolding cached_hardware_def Let_def using Some
    by (auto intro!: gives_any [OF total_topology_key] gives_bind [OF same] gives_bind [OF gives_frequencies] gives_ret)
qed

lemma snapshot_gives:
  assumes ok: "reader_ok t"
  shows "gives (\<lambda>(i, t'). reader_ok t' \<and> cores_ok (hi_cpu i)) (hardware_snapshot arch fs r n x t)"
  unfolding hardware_snapshot_def Let_def
  by (rule gives_bind [OF cached_gives [OF ok]]) (use ok in \<open>auto intro!: gives_ret simp: reader_defs split: option.splits\<close>)

lemma observe_idle_gives:
  assumes ok: "reader_ok t" shows "gives reader_ok (observe_idle nv x t)"
proof -
  have l: "timing_ok (t\<lparr>tr_idle := l\<rparr>) \<and> hardware_ok (t\<lparr>tr_idle := l\<rparr>) \<and> (\<not> release \<longrightarrow> reader_ok (t\<lparr>tr_idle := l\<rparr>))"
    if "observe_live_sample a u idle (tr_idle t) = (release, l)" for a u idle release l
    using that ok by (auto simp: observe_live_sample_def reader_defs sample_bounds Let_def split: if_splits option.splits)
  show ?thesis
    unfolding observe_idle_def
    using ok l by (auto intro!: gives_ret gives_mono [OF gives_release] split: option.split prod.split)
qed

abbreviation battery_ok :: "power_supply_telemetry \<Rightarrow> bool" where
  "battery_ok p \<equiv> opt_all (\<lambda>b. b \<le> 100) (ps_battery_percent p)"

lemma supply_entry_gives:
  assumes "battery_ok p" shows "gives (\<lambda>s. battery_ok (fst s)) (supply_entry fs dir name (p, ac, usb))"
  unfolding supply_entry_def prod.case
proof (rule gives_any [OF total_read_text], goal_cases)
  case (1 k)
  show ?case
  proof (cases k)
    case None
    with assms show ?thesis by (simp add: gives_ret)
  next
    case (Some kind)
    show ?thesis
      unfolding Some option.case
      by (intro gives_if gives_any [OF total_read_text] gives_any [OF total_read_nat] gives_ret)
        (simp_all add: assms split: option.split)
  qed
qed

lemma supply_fold_gives:
  "battery_ok (fst s) \<Longrightarrow> gives (\<lambda>s. battery_ok (fst s)) (io_fold (supply_entry fs dir) names s)"
proof (induction names arbitrary: s)
  case (Cons n ns)
  obtain p ac usb where s: "s = (p, ac, usb)" by (cases s)
  with Cons.prems have "battery_ok p" by simp
  from gives_bind [OF supply_entry_gives [OF this] Cons.IH] show ?case by (simp only: io_fold.simps s)
qed (simp add: gives_ret)

lemma supply_gives: "gives battery_ok (read_power_supply fs r)"
  unfolding read_power_supply_def Let_def
proof (rule gives_any [OF io_total_query], goal_cases)
  case (1 entries)
  have start: "battery_ok (fst (no_power_supply, no_evidence, no_evidence))" by (simp add: no_power_supply_def)
  show ?case
  proof (cases entries)
    case (Inr names)
    show ?thesis
      unfolding Inr sum.case
      by (rule gives_bind [OF supply_fold_gives [OF start]], rule gives_ret) (auto simp: supply_result_def)
  qed (simp add: gives_ret no_power_supply_def)
qed

lemma acer_gives: "gives (opt_all plausible_temperature) (acer_celsius fs hw n)"
  unfolding acer_celsius_def by (intro gives_any totals gives_ret opt_all_bind celsius_plausible)

section \<open>A whole sample\<close>

definition sample_sane :: "system_telemetry \<Rightarrow> bool" where
  "sample_sane s \<longleftrightarrow> opt_all percent (st_cpu_utilization_percent s) \<and> st_memory_used_mib s \<le> st_memory_total_mib s
     \<and> opt_all plausible_temperature (st_cpu_temperature_c s) \<and> opt_all percent (gt_utilization_percent (st_gpu s))
     \<and> (\<forall>a b. gt_memory_used_mib (st_gpu s) = Some a \<longrightarrow> gt_memory_total_mib (st_gpu s) = Some b \<longrightarrow> a \<le> b)
     \<and> (gt_sleeping (st_gpu s) \<longrightarrow> gt_utilization_percent (st_gpu s) = None \<and> gt_power_w (st_gpu s) = None
         \<and> gt_pstate (st_gpu s) = None \<and> gt_graphics_clock_mhz (st_gpu s) = None)
     \<and> cores_ok (hi_cpu (st_hardware s)) \<and> battery_ok (st_power_supply s)"

lemma gpu_sample_values:
  assumes "opt_all session_values_ok (no_nvidia x)"
  shows "opt_all percent (gt_utilization_percent (gpu_sample x temp t))"
    and "gt_memory_used_mib (gpu_sample x temp t) = Some a \<Longrightarrow> gt_memory_total_mib (gpu_sample x temp t) = Some b \<Longrightarrow> a \<le> b"
    and "gt_sleeping (gpu_sample x temp t) \<Longrightarrow> gt_utilization_percent (gpu_sample x temp t) = None
      \<and> gt_power_w (gpu_sample x temp t) = None \<and> gt_pstate (gpu_sample x temp t) = None
      \<and> gt_graphics_clock_mhz (gpu_sample x temp t) = None"
  using assms by (cases "no_nvidia x"; simp add: gpu_sample_def Let_def session_values_ok_def)+

lemma finish_gives:
  assumes ok: "reader_ok t" and "opt_all percent load" and "fst memory \<le> snd memory" and "opt_all plausible_temperature temp"
  shows "gives (\<lambda>(s, t'). reader_ok t' \<and> sample_sane s) (finish_sample nv fs arch hw load memory temp gtemp t)"
  unfolding finish_sample_def
  apply (rule gives_bind [OF observe_gives])
  apply (rule gives_bind [OF settle_gives [OF ok]], assumption, clarify)
  apply (rule gives_bind [OF snapshot_gives], assumption, clarify)
  apply (rule gives_any [OF total_fan_rpm])
  apply (rule gives_any [OF io_total_ok])
  apply (rule gives_any [OF io_total_ok])
  apply (rule gives_bind [OF observe_idle_gives], assumption)
  apply (rule gives_bind [OF supply_gives])
  apply (rule gives_ret)
  apply (auto simp: sample_sane_def assms gpu_sample_values)
  done

lemma labeled_sensor_yields:
  "yields (\<lambda>_. True) (opt_all (opt_all plausible_temperature)) (labeled_sensor fs dir label names)"
proof (induction names)
  case (Cons n ns)
  show ?case
    unfolding labeled_sensor.simps Let_def
    by (auto intro!: yields_bind [OF yields_any] yields_ret celsius_plausible Cons.IH split: option.split)
qed (simp add: yields_ret)

lemma yields_try: "(\<And>r. yields E P (f r)) \<Longrightarrow> yields E P (io_try m f)"
  by (simp add: yields_def io_try_apply split: prod.split)

lemma labeled_device_yields:
  "yields (\<lambda>_. True) (opt_all plausible_temperature) (labeled_device fs dir name label ds)"
proof (induction ds arbitrary: name)
  case (Cons d ds)
  show ?case
    unfolding labeled_device.simps Let_def
    by (auto intro!: yields_try yields_bind [OF yields_any] yields_bind [OF labeled_sensor_yields] yields_ret yields_err Cons.IH
      split: option.split sum.split)
qed (simp add: yields_ret)

lemma labeled_temperature_yields:
  "yields (\<lambda>_. True) (opt_all plausible_temperature) (find_labeled_temperature fs r name label)"
  unfolding find_labeled_temperature_def Let_def
  by (auto intro!: yields_bind [OF yields_any] yields_ret yields_err labeled_device_yields split: sum.split)

lemma memory_usage_yields: "yields (\<lambda>_. True) (\<lambda>(u, n). u \<le> n) (read_memory_usage fs p)"
  unfolding read_memory_usage_def
  by (auto intro!: yields_bind [OF yields_any] yields_of dest: parse_memory_usage_le)

definition sample_result_ok :: "(telemetry_error + system_telemetry) \<times> telemetry_reader \<Rightarrow> bool" where
  "sample_result_ok = (\<lambda>(r, t). reader_ok t \<and> (\<forall>s. r = Inr s \<longrightarrow> sample_sane s))"

lemma sample_gives:
  assumes "reader_ok t" shows "gives sample_result_ok (sample nv fs arch hw t)"
  unfolding sample_def read_sample_def
proof (rule gives_bind [OF gives_begin [OF assms]], rule gives_try, goal_cases)
  case (1 t1 r)
  show ?case
  proof (cases r)
    case (Inl x)
    with 1 show ?thesis by (auto intro!: gives_ret simp: sample_result_ok_def)
  next
    case (Inr now)
    let ?load = "Option.bind (tr_previous_cpu_times t1) (\<lambda>previous. cpu_utilization previous now)"
    let ?t2 = "t1\<lparr>tr_previous_cpu_times := Some now\<rparr>"
    from 1 have t2: "reader_ok ?t2" by (simp add: reader_defs split: option.splits)
    have load: "opt_all percent ?load" by (intro opt_all_bind cpu_utilization_percent)
    have last: "gives sample_result_ok (io_bind (finish_sample nv fs arch hw ?load memory temp gtemp ?t2) (\<lambda>(s, t3). io_ret (Inr s, t3)))"
      if "fst memory \<le> snd memory" "opt_all plausible_temperature temp" for memory temp gtemp
      by (rule gives_bind [OF finish_gives [OF t2 load that]]) (auto intro!: gives_ret simp: sample_result_ok_def)
    show ?thesis
      unfolding Inr sum.case Let_def
      apply (rule gives_try_yields [OF memory_usage_yields])
       apply (simp add: gives_ret sample_result_ok_def t2)
      apply (unfold sum.case)
      apply (rule gives_bind [OF acer_gives])
      apply (rule gives_bind [OF acer_gives])
      apply (rule gives_try_yields [OF labeled_temperature_yields])
       apply (simp add: gives_ret sample_result_ok_def t2)
      apply (unfold sum.case)
      apply (rule last)
       apply (simp_all add: case_prod_beta opt_all_or_else)
      done
  qed
qed

section \<open>The GPU at rest\<close>

text \<open>The states of the PCI device in which the reader leaves NVML alone.\<close>

definition gpu_deferred :: "nvidia_pci_device option \<Rightarrow> bool" where
  "gpu_deferred found = (case found of None \<Rightarrow> True
     | Some d \<Rightarrow> \<not> permits_live_nvml (pd_runtime_status d) \<or> (pd_runtime_status d = Rt_active \<and> pd_runtime_usage d = Some 0))"

definition gpu_suspended :: "nvidia_pci_device option \<Rightarrow> bool" where
  "gpu_suspended found \<longleftrightarrow> (\<exists>d. found = Some d \<and> pd_runtime_status d = Rt_suspended)"

lemma set_nvidia_closed: "tr_nvidia t = None \<Longrightarrow> set_nvidia nv c t = io_ret (t\<lparr>tr_nvidia := c\<rparr>)"
  by (simp add: set_nvidia_def)

text \<open>Such a sample begins by shutting the library down when there is a session, without the library
  otherwise; there is no session after it.\<close>

definition closed_world :: "('e \<Rightarrow> 'e) \<Rightarrow> telemetry_reader \<Rightarrow> 'e world \<Rightarrow> 'e world" where
  "closed_world close t w = (if tr_nvidia t = None then w else w\<lparr>wenv := close (wenv w)\<rparr>)"

definition dropped :: "string option \<Rightarrow> bool \<Rightarrow> telemetry_reader \<Rightarrow> telemetry_reader" where
  "dropped bus_id sleeping t = t\<lparr>tr_nvidia := None, tr_discovery_error := None, tr_slow := default_slow, tr_slow_refresh := 0,
     tr_retry := default_backoff, tr_idle := default_lifecycle, tr_pci_bus_id := bus_id, tr_runtime_sleeping := sleeping,
     tr_runtime_can_suspend := False, tr_runtime_usage := None,
     tr_exact_oem_target := (if bus_id = None then False else tr_exact_oem_target t)\<rparr>"

definition released :: "telemetry_reader \<Rightarrow> telemetry_reader" where
  "released t = t\<lparr>tr_nvidia := None, tr_discovery_error := None, tr_slow := default_slow, tr_slow_refresh := 0,
     tr_retry := default_backoff, tr_idle := default_lifecycle\<rparr>"

definition deferred_reader :: "nvidia_pci_device option \<Rightarrow> telemetry_reader \<Rightarrow> telemetry_reader" where
  "deferred_reader found t = (case found of
      None \<Rightarrow> dropped None False
        (t\<lparr>tr_hardware_info := (if tr_pci_bus_id t \<noteq> None then None else tr_hardware_info t), tr_static := None, tr_pci_identity := None\<rparr>)
    | Some d \<Rightarrow> if permits_live_nvml (pd_runtime_status d) then released (adopt_pci_device d t)
        else dropped (Some (pd_bus_id d)) (pd_runtime_status d = Rt_suspended) (adopt_pci_device d t))"

lemma set_nvidia_none: "tr_nvidia t = None \<or> nv_shutdown nv = close \<Longrightarrow>
    (set_nvidia nv None t w :: ('x + _) \<times> 'e world) = (Inr (t\<lparr>tr_nvidia := None\<rparr>), closed_world close t w)"
  by (cases "tr_nvidia t") (auto simp: set_nvidia_def closed_world_def runtime_drop_def nv_call_def io_simps)

lemma dropped_run:
  assumes "tr_nvidia t = None \<or> nv_shutdown nv = close"
  shows "(drop_nvidia_for_runtime_state nv bus_id sleeping t w :: ('x + _) \<times> 'e world) = (Inr (dropped bus_id sleeping t), closed_world close t w)"
  unfolding drop_nvidia_for_runtime_state_def by (simp add: io_bind_apply set_nvidia_none [OF assms] io_ret_apply dropped_def)

lemma released_run:
  assumes "tr_nvidia t = None \<or> nv_shutdown nv = close"
  shows "(io_bind (release_nvidia_after_idle nv t) (\<lambda>t. io_ret (t\<lparr>tr_idle := default_lifecycle\<rparr>)) w :: ('x + _) \<times> 'e world)
    = (Inr (released t), closed_world close t w)"
  unfolding release_nvidia_after_idle_def by (simp add: io_bind_apply set_nvidia_none [OF assms] io_ret_apply released_def)

lemma adopted: "tr_nvidia (adopt_pci_device d t) = tr_nvidia t" "tr_runtime_can_suspend (adopt_pci_device d t) = (pd_runtime_status d = Rt_active)"
  by (simp_all add: adopt_pci_device_def Let_def)

lemma refresh_deferred:
  assumes found: "(discover_nvidia_pci_device fs r w :: ('x + _) \<times> 'e world) = (Inr found, w1)" and deferred: "gpu_deferred found"
    and nv: "tr_nvidia t = None \<or> nv_shutdown nv = close"
  shows "(refresh_nvidia_lifecycle nv fs r t w :: ('x + _) \<times> 'e world) = (Inr (deferred_reader found t), closed_world close t w1)"
proof (cases found)
  case None
  define t0 where "t0 = t\<lparr>tr_hardware_info := (if tr_pci_bus_id t \<noteq> None then None else tr_hardware_info t), tr_static := None, tr_pci_identity := None\<rparr>"
  have same: "tr_nvidia t0 = tr_nvidia t" by (simp add: t0_def)
  have "(refresh_nvidia_lifecycle nv fs r t w :: ('x + _) \<times> 'e world) = drop_nvidia_for_runtime_state nv None False t0 w1"
    by (simp add: refresh_nvidia_lifecycle_def io_bind_apply found None t0_def)
  also have "\<dots> = (Inr (dropped None False t0), closed_world close t0 w1)"
    by (rule dropped_run) (use nv same in simp)
  finally show ?thesis by (auto simp: None deferred_reader_def t0_def closed_world_def)
next
  case (Some d)
  have nv': "tr_nvidia (adopt_pci_device d t) = None \<or> nv_shutdown nv = close" using nv by (simp add: adopted)
  from Some deferred have "\<not> permits_live_nvml (pd_runtime_status d) \<or> pd_runtime_status d = Rt_active \<and> pd_runtime_usage d = Some 0"
    by (auto simp: gpu_deferred_def)
  then show ?thesis
    using Some dropped_run [OF nv'] released_run [OF nv']
    by (auto simp: refresh_nvidia_lifecycle_def io_bind_apply [of "discover_nvidia_pci_device _ _"] found deferred_reader_def Let_def adopted
        closed_world_def permits_live_nvml_def)
qed

lemma deferred_reader_closed: "gpu_deferred found \<Longrightarrow> tr_nvidia (deferred_reader found t) = None \<and> tr_runtime_sleeping (deferred_reader found t) = gpu_suspended found"
  by (cases found) (auto simp: deferred_reader_def dropped_def released_def adopt_pci_device_def Let_def gpu_suspended_def gpu_deferred_def permits_live_nvml_def)

lemma begin_deferred:
  assumes found: "(discover_nvidia_pci_device fs r w :: ('x + _) \<times> 'e world) = (Inr found, w1)" and "gpu_deferred found"
  obtains t' where "tr_nvidia t' = None" and "tr_runtime_sleeping t' = gpu_suspended found"
    and "\<And>nv. tr_nvidia t = None \<or> nv_shutdown nv = close \<Longrightarrow>
      (begin_sample nv fs r t w :: ('x + _) \<times> 'e world) = (Inr t', closed_world close t w1)"
proof -
  let ?t = "deferred_reader found t"
  have closed: "tr_nvidia ?t = None" "tr_runtime_sleeping ?t = gpu_suspended found"
    using deferred_reader_closed [OF assms(2)] by simp_all
  show thesis
    by (rule that [of "?t\<lparr>tr_slow := default_slow, tr_slow_refresh := 0\<rparr>"])
      (simp_all add: closed begin_sample_def io_bind_apply refresh_deferred [OF assms] refresh_nvidia_slow_def default_slow_def io_ret_apply)
qed

text \<open>What follows does not use the library either.\<close>

lemma bind_ret: "io_bind (io_ret a) f = f a"
  by (simp add: io_bind_def io_ret_def)

definition closed_observation :: "telemetry_reader \<Rightarrow> nvidia_observation" where
  "closed_observation t = \<lparr>no_nvidia = None, no_power = None,
     no_errors = (case tr_discovery_error t of None \<Rightarrow> [] | Some d \<Rightarrow> d), no_lost_session = False, no_idle = None\<rparr>"

lemma closed_steps:
  "tr_nvidia t = None \<Longrightarrow> observe_nvidia nv t = io_ret (closed_observation t)"
  "settle_observation nv (closed_observation t) t = io_ret (closed_observation t, t)"
  "observe_idle nv (closed_observation t) t' = io_ret t'"
  by (simp_all add: observe_nvidia_def settle_observation_def observe_idle_def closed_observation_def)

lemma finish_closed_same:
  assumes "tr_nvidia t = None"
  shows "finish_sample nv fs arch hw load memory temp gtemp t = finish_sample nv' fs arch hw load memory temp gtemp t"
  by (simp add: finish_sample_def closed_steps(1) [OF assms] closed_steps(2,3) bind_ret case_prod_beta)

lemma cached_session: "gives (\<lambda>(i, t'). tr_nvidia t' = tr_nvidia t \<and> tr_runtime_sleeping t' = tr_runtime_sleeping t)
    (cached_hardware arch fs r n t)"
proof (cases "tr_hardware_info t")
  case (Some i)
  have "io_total (if b then refresh_cpu_topology fs r (hi_cpu i) else io_ret (hi_cpu i))" for b by (auto intro: totals)
  with Some show ?thesis unfolding cached_hardware_def Let_def by (auto intro!: gives_any totals gives_ret)
qed (auto simp: cached_hardware_def intro!: gives_any totals gives_ret)

lemma finish_closed:
  assumes "tr_nvidia t = None"
  shows "gives (\<lambda>(s, t'). tr_nvidia t' = None \<and> gt_sleeping (st_gpu s) = tr_runtime_sleeping t)
    (finish_sample nv fs arch hw load memory temp gtemp t)"
proof -
  have snap: "gives (\<lambda>(i, t'). tr_nvidia t' = None \<and> tr_runtime_sleeping t' = tr_runtime_sleeping t)
      (hardware_snapshot arch fs q n x t)" for q n x
    unfolding hardware_snapshot_def Let_def
    by (rule gives_bind [OF cached_session]) (use assms in \<open>auto intro!: gives_ret\<close>)
  show ?thesis
    unfolding finish_sample_def closed_steps(1) [OF assms] bind_ret closed_steps(2,3) prod.case
    apply (rule gives_bind [OF snap], clarify)
    apply (rule gives_any [OF total_fan_rpm])
    apply (rule gives_any [OF io_total_ok])
    apply (rule gives_any [OF io_total_ok])
    apply (rule gives_any [OF total_power_supply])
    apply (rule gives_ret)
    apply (simp add: gpu_sample_def closed_observation_def Let_def)
    done
qed

lemma read_closed_same:
  "tr_nvidia t = None \<Longrightarrow> read_sample nv fs arch hw t = read_sample nv' fs arch hw t"
  unfolding read_sample_def Let_def
  by (subst finish_closed_same [of "t\<lparr>tr_previous_cpu_times := _\<rparr>" _ _ _ _ _ _ _ _ nv']) simp_all

lemma read_closed:
  assumes "tr_nvidia t = None"
  shows "gives (\<lambda>(r, t'). tr_nvidia t' = None \<and> (\<forall>s. r = Inr s \<longrightarrow> gt_sleeping (st_gpu s) = tr_runtime_sleeping t))
    (read_sample nv fs arch hw t)"
  unfolding read_sample_def Let_def
proof (rule gives_try, goal_cases)
  case (1 r)
  show ?case
  proof (cases r)
    case (Inr now)
    have fin: "gives (\<lambda>(r, t'). tr_nvidia t' = None \<and> (\<forall>s. r = Inr s \<longrightarrow> gt_sleeping (st_gpu s) = tr_runtime_sleeping t))
        (io_bind (finish_sample nv fs arch hw load memory temp gtemp (t\<lparr>tr_previous_cpu_times := Some now\<rparr>)) (\<lambda>(s, t3). io_ret (Inr s, t3)))"
      for load memory temp gtemp
      by (rule gives_bind [OF finish_closed]) (use assms in \<open>auto intro!: gives_ret\<close>)
    show ?thesis
      unfolding Inr sum.case
      by (rule gives_try) (auto intro!: gives_try gives_any totals gives_ret fin gives_bind [OF acer_gives] simp: assms split: sum.split)
  qed (simp add: gives_ret assms)
qed

section \<open>The idle streak\<close>

definition lifecycle_after :: "(u32 option \<times> bool) list \<Rightarrow> bool \<times> idle_lifecycle" where
  "lifecycle_after obs = foldl (\<lambda>(_, l) (usage, idle). observe_live_sample True usage idle l) (False, default_lifecycle) obs"

definition idle_streak :: "(u32 option \<times> bool) list \<Rightarrow> nat" where
  "idle_streak obs = length (takeWhile snd (rev obs))"

lemma lifecycle_after_streak:
  "fst (lifecycle_after obs) = (idle_streak obs = 5) \<and> il_release_armed (snd (lifecycle_after obs)) = (idle_streak obs < 5)
    \<and> il_idle_samples (snd (lifecycle_after obs)) = (if idle_streak obs < 5 then idle_streak obs else 0)"
proof (induction obs rule: rev_induct)
  case (snoc x xs)
  obtain r l where xs: "lifecycle_after xs = (r, l)" by (cases "lifecycle_after xs")
  have step: "lifecycle_after (xs @ [x]) = observe_live_sample True (fst x) (snd x) l"
    using xs by (simp add: lifecycle_after_def case_prod_beta)
  have streak: "idle_streak (xs @ [x]) = (if snd x then Suc (idle_streak xs) else 0)" by (simp add: idle_streak_def)
  from snoc.IH xs show ?case
    unfolding step streak by (auto simp: observe_live_sample_def sample_bounds Let_def)
qed (simp add: lifecycle_after_def idle_streak_def default_lifecycle_def)

section \<open>Properties\<close>

text \<open>The readers reached by samples and resumes, each in any world.\<close>

inductive reader_reached :: "'e nvml \<Rightarrow> 'e sysfs \<Rightarrow> string \<Rightarrow> acer_hardware \<Rightarrow> telemetry_reader \<Rightarrow> bool"
  for nv fs arch hw where
  fresh: "reader_reached nv fs arch hw reader_new"
| sampled: "reader_reached nv fs arch hw t \<Longrightarrow>
    (sample nv fs arch hw t w :: (unit + _) \<times> _) = (Inr (r, t'), w') \<Longrightarrow> reader_reached nv fs arch hw t'"
| resumed: "reader_reached nv fs arch hw t \<Longrightarrow>
    (invalidate_nvidia_session nv t w :: (unit + _) \<times> _) = (Inr t', w') \<Longrightarrow> reader_reached nv fs arch hw t'"

lemma gives_invalidate: "reader_ok t \<Longrightarrow> gives reader_ok (invalidate_nvidia_session nv t)"
  unfolding invalidate_nvidia_session_def
  by (rule gives_bind [OF gives_lose]) (auto intro!: gives_ret dest: reader_okD simp: reader_defs default_backoff_def sample_bounds split: option.splits)

text \<open>C24: after any sequence of samples and resumes, whatever the kernel and NVML answered, the reader is
  well formed: its retry delay is between 1 and 30 samples, its idle and holdoff counters within 5, a
  session only remains open for the awake device it was opened for, with a known description, and
  nothing of an earlier session is shown without one.\<close>

theorem reader_invariant:
  assumes "reader_reached nv fs arch hw t" shows "reader_ok t"
  using assms
proof induction
  case (sampled t w r t' w')
  from gives_result [OF sample_gives sampled.hyps(2)] sampled.IH show ?case by (simp add: sample_result_ok_def)
next
  case (resumed t w t' w')
  from gives_result [OF gives_invalidate resumed.hyps(2)] resumed.IH show ?case by simp
qed (rule reader_new_ok)

text \<open>A sample always returns; when it succeeds, the CPU and GPU loads are percentages, used memory
  is within total memory in RAM and on the GPU, temperatures are plausible, the battery is at most full,
  performance and efficiency cores add up to the physical cores, and a sleeping GPU shows no live value.\<close>

theorem sample_in_range:
  assumes "reader_ok t"
  shows "\<exists>r t' w'. (sample nv fs arch hw t w :: ('x + _) \<times> 'e world) = (Inr (r, t'), w') \<and> (\<forall>s. r = Inr s \<longrightarrow> sample_sane s)"
proof -
  obtain x w' where "(sample nv fs arch hw t w :: ('x + _) \<times> 'e world) = (Inr x, w')" and "sample_result_ok x"
    using givesE [OF sample_gives [OF assms]] by blast
  then show ?thesis by (cases x) (auto simp: sample_result_ok_def)
qed

text \<open>C25: the dGPU is left asleep. While its runtime state defers NVML (no NVIDIA device, suspended,
  changing or unknown, or active without any user) a sample ends without a session and reports the GPU as
  sleeping exactly when it is suspended. A reader without a session samples without the NVML library,
  whichever it is; of a reader with one, the sample depends on nothing of the library but its shutdown.\<close>

theorem sleeping_gpu_untouched:
  assumes "(discover_nvidia_pci_device fs (hw_root hw) w :: ('x + _) \<times> 'e world) = (Inr found, w1)" and "gpu_deferred found"
  shows "\<exists>r t' w'. (\<forall>nv. tr_nvidia t = None \<or> nv_shutdown nv = close \<longrightarrow>
        (sample nv fs arch hw t w :: ('x + _) \<times> 'e world) = (Inr (r, t'), w'))
    \<and> tr_nvidia t' = None \<and> (\<forall>s. r = Inr s \<longrightarrow> gt_sleeping (st_gpu s) = gpu_suspended found)"
proof -
  obtain t1 where t1: "tr_nvidia t1 = None" "tr_runtime_sleeping t1 = gpu_suspended found"
    and begins: "\<And>nv. tr_nvidia t = None \<or> nv_shutdown nv = close \<Longrightarrow>
      (begin_sample nv fs (hw_root hw) t w :: ('x + _) \<times> 'e world) = (Inr t1, closed_world close t w1)"
    by (rule begin_deferred [OF assms]) blast
  fix lib :: "'e nvml"
  obtain x w' where rest: "(read_sample lib fs arch hw t1 (closed_world close t w1) :: ('x + _) \<times> 'e world) = (Inr x, w')"
    and x: "(\<lambda>(r, t'). tr_nvidia t' = None \<and> (\<forall>s. r = Inr s \<longrightarrow> gt_sleeping (st_gpu s) = tr_runtime_sleeping t1)) x"
    by (rule givesE [OF read_closed [OF t1(1)]])
  have same: "(read_sample nv fs arch hw t1 :: 'e world \<Rightarrow> ('x + _) \<times> 'e world) = read_sample lib fs arch hw t1" for nv
    by (rule read_closed_same [OF t1(1)])
  have all: "(sample nv fs arch hw t w :: ('x + _) \<times> 'e world) = (Inr x, w')" if "tr_nvidia t = None \<or> nv_shutdown nv = close" for nv
    by (simp only: sample_def io_bind_def begins [OF that] prod.case sum.case same [of nv] rest)
  obtain r t' where "x = (r, t')" by (cases x)
  with x t1(2) all show ?thesis by (intro exI [of _ r] exI [of _ t'] exI [of _ w']) auto
qed

text \<open>An idle session is released once. Over any sequence of live samples of a device that can
  suspend, the reader decides to release its session exactly at the fifth consecutive idle sample, and
  not again before a sample shows activity.\<close>

theorem idle_release_fifth: "fst (lifecycle_after obs) \<longleftrightarrow> idle_streak obs = 5"
  using lifecycle_after_streak by blast

section \<open>Examples\<close>

text \<open>A machine without Acer interfaces, with a suspended NVIDIA GPU.\<close>

definition quiet_board :: acer_hardware where
  "quiet_board = \<lparr>hw_platform = \<lparr>vp_vendor = ''Acer'', vp_product = ''X'', vp_acer = True\<rparr>, hw_root = [],
     hw_hwmon = None, hw_profile = None, hw_fan = None\<rparr>"

definition asleep_files :: file_tree where
  "asleep_files = map (\<lambda>(n, v). ([''sys'', ''bus'', ''pci'', ''devices'', ''gpu''] @ n, v))
     [([''vendor''], ''0x10de''), ([''class''], ''0x030000''), ([''device''], ''0x2''), ([''subsystem_vendor''], ''0x3''),
      ([''subsystem_device''], ''0x4''), ([''power'', ''runtime_status''], ''suspended'')]"

definition asleep_world :: "file_tree world" where "asleep_world = \<lparr>wenv = asleep_files, wlog = []\<rparr>"

definition asleep_gpu :: nvidia_pci_device where
  "asleep_gpu = \<lparr>pd_bus_id = ''gpu'', pd_identity = \<lparr>id_vendor = 0x10DE, id_device = 2, id_subsystem_vendor = 3, id_subsystem_device = 4\<rparr>,
     pd_runtime_status = Rt_suspended, pd_runtime_usage = None\<rparr>"

lemma asleep_texts:
  "rooted [] ''sys/bus/pci/devices'' = [''sys'', ''bus'', ''pci'', ''devices'']"
  "hex_digits ''0x10de'' = ''10de''" "hex_digits ''0x030000'' = ''030000''" "hex_digits ''0x2'' = ''2''"
  "hex_digits ''0x3'' = ''3''" "hex_digits ''0x4'' = ''4''"
  by code_simp+

lemma asleep_candidate:
  assumes "wenv w = asleep_files"
  shows "fst (pci_candidate tree_sysfs [] ''gpu'' w) = Inr asleep_gpu"
    and "wenv (snd (pci_candidate tree_sysfs [] ''gpu'' w)) = asleep_files"
  using assms
  by (simp_all add: pci_candidate_def [THEN fun_cong] skip_error_def read_pci_identity_at_def read_hex_u16_def read_hex_u32_def read_hex_def
    asleep_files_def asleep_gpu_def asleep_texts io_simps tree_sysfs_run path_join_def NVIDIA_VENDOR_ID_def
    classify_runtime_status_def graphic_text graphic_def byte_def number_eval Let_def)

lemma asleep_found:
  "\<exists>w1. (discover_nvidia_pci_device tree_sysfs [] asleep_world :: (unit + _) \<times> _) = (Inr (Some asleep_gpu), w1)"
proof -
  have dir: "k_read_dir tree_sysfs [''sys'', ''bus'', ''pci'', ''devices''] asleep_files = Inr [''gpu'']" by code_simp
  obtain w1 where "pci_candidate tree_sysfs [] ''gpu'' asleep_world = (Inr asleep_gpu, w1)"
    using asleep_candidate(1) [of asleep_world] by (cases "pci_candidate tree_sysfs [] ''gpu'' asleep_world") (auto simp: asleep_world_def)
  then show ?thesis
    by (simp add: discover_nvidia_pci_device_def fs_query_def io_ok_def io_simps asleep_texts dir select_pci_device_def asleep_world_def)
qed

theorem reader_invariant_witness:
  "reader_ok (reader_new\<lparr>tr_discovery_error := Some [Nd_invalidated]\<rparr>)"
proof (rule reader_invariant [of bare_nvml tree_sysfs "''x86_64''" quiet_board], rule resumed [OF fresh])
  show "(invalidate_nvidia_session bare_nvml reader_new asleep_world :: (unit + _) \<times> _)
      = (Inr (reader_new\<lparr>tr_discovery_error := Some [Nd_invalidated]\<rparr>), asleep_world)"
    by (simp add: invalidate_nvidia_session_def lose_nvidia_session_def set_nvidia_def reader_new_def io_simps)
qed

theorem sleeping_gpu_untouched_witness:
  "(\<exists>r t' w'. (\<forall>nv. (sample nv tree_sysfs ''x86_64'' quiet_board reader_new asleep_world :: (unit + _) \<times> _) = (Inr (r, t'), w'))
      \<and> tr_nvidia t' = None \<and> (\<forall>s. r = Inr s \<longrightarrow> gt_sleeping (st_gpu s)))
   \<and> (\<exists>r t' w'. (sample bare_nvml tree_sysfs ''x86_64'' quiet_board (reader_new\<lparr>tr_nvidia := Some example_controller\<rparr>) asleep_world
        :: (unit + _) \<times> _) = (Inr (r, t'), w') \<and> tr_nvidia t' = None)"
proof -
  obtain w1 where found: "(discover_nvidia_pci_device tree_sysfs (hw_root quiet_board) asleep_world :: (unit + _) \<times> _) = (Inr (Some asleep_gpu), w1)"
    using asleep_found by (auto simp: quiet_board_def)
  have "tr_nvidia reader_new = None" and deferred: "gpu_deferred (Some asleep_gpu)" and "gpu_suspended (Some asleep_gpu)"
    by (simp_all add: reader_new_def gpu_deferred_def gpu_suspended_def asleep_gpu_def permits_live_nvml_def)
  then show ?thesis
    using sleeping_gpu_untouched [OF found deferred, of reader_new id "''x86_64''"]
      sleeping_gpu_untouched [OF found deferred, of "reader_new\<lparr>tr_nvidia := Some example_controller\<rparr>" "nv_shutdown bare_nvml" "''x86_64''"]
    by (intro conjI) (simp, metis)+
qed

text \<open>A machine with counters only.\<close>

definition counter_world :: "file_tree world" where
  "counter_world = \<lparr>wenv = [([''proc'', ''stat''], ''cpu 1 2 3 4 5 6 7 8''),
     ([''proc'', ''meminfo''], ''MemTotal: 4096 kB'' @ [NL] @ ''MemAvailable: 2048 kB'')], wlog = []\<rparr>"

lemma counter_texts:
  "rooted [] ''proc/stat'' = [''proc'', ''stat'']" "rooted [] ''proc/meminfo'' = [''proc'', ''meminfo'']"
  "utf8_valid ''cpu 1 2 3 4 5 6 7 8''" "utf8_valid (''MemTotal: 4096 kB'' @ [NL] @ ''MemAvailable: 2048 kB'')"
  "k_read_dir tree_sysfs (rooted [] ''sys/class/hwmon'') (wenv counter_world) = Inl (Os_error ENOENT)"
  "find (prefix ''cpu '') (str_lines ''cpu 1 2 3 4 5 6 7 8'') = Some ''cpu 1 2 3 4 5 6 7 8''"
  "split_ascii_ws ''cpu 1 2 3 4 5 6 7 8'' = [''cpu'', ''1'', ''2'', ''3'', ''4'', ''5'', ''6'', ''7'', ''8'']"
  "str_lines (''MemTotal: 4096 kB'' @ [NL] @ ''MemAvailable: 2048 kB'') = [''MemTotal: 4096 kB'', ''MemAvailable: 2048 kB'']"
  "split_ascii_ws ''MemTotal: 4096 kB'' = [''MemTotal:'', ''4096'', ''kB'']"
  "split_ascii_ws ''MemAvailable: 2048 kB'' = [''MemAvailable:'', ''2048'', ''kB'']"
  by code_simp+

lemma counter_parsed:
  "is_ok (parse_cpu_times ''cpu 1 2 3 4 5 6 7 8'')"
  "parse_memory_usage (''MemTotal: 4096 kB'' @ [NL] @ ''MemAvailable: 2048 kB'') = Inr (2, 4)"
  by (simp_all add: parse_cpu_times_def parse_counter_def times_of_counters_def parse_memory_usage_def memory_line_def put_counter_def
    counter_texts number_eval res_simps del: append.simps)

lemma counter_read:
  assumes "wenv w = wenv counter_world"
  shows "\<exists>now w'. (read_cpu_times tree_sysfs [''proc'', ''stat''] w) = (Inr now, w') \<and> wenv w' = wenv counter_world"
    and "\<exists>w'. (read_memory_usage tree_sysfs [''proc'', ''meminfo''] w) = (Inr (2, 4), w') \<and> wenv w' = wenv counter_world"
  using assms counter_parsed
  by (auto simp: read_cpu_times_def read_memory_usage_def counter_world_def io_simps tree_sysfs_run counter_texts is_ok_iff
    simp del: append.simps)

lemma counter_sample:
  "\<exists>s t' w'. (sample bare_nvml tree_sysfs ''x86_64'' quiet_board reader_new counter_world :: (unit + _) \<times> _) = (Inr (Inr s, t'), w')"
proof -
  have "(discover_nvidia_pci_device tree_sysfs [] counter_world :: (unit + _) \<times> _) = (Inr None, counter_world)"
    by (simp add: discover_nvidia_pci_device_def fs_query_def io_simps, code_simp)
  then obtain t1 where "tr_nvidia t1 = None"
    and begins: "(begin_sample bare_nvml tree_sysfs [] reader_new counter_world :: (unit + _) \<times> _) = (Inr t1, counter_world)"
    by (rule begin_deferred [where t = reader_new and close = id]) (auto simp: reader_new_def gpu_deferred_def closed_world_def)
  obtain now w1 where cpu: "read_cpu_times tree_sysfs [''proc'', ''stat''] counter_world = (Inr now, w1)" "wenv w1 = wenv counter_world"
    using counter_read(1) by blast
  obtain w2 where mem: "read_memory_usage tree_sysfs [''proc'', ''meminfo''] w1 = (Inr (2, 4), w2)" "wenv w2 = wenv counter_world"
    using counter_read(2) [OF cpu(2)] by blast
  have acer: "(acer_celsius tree_sysfs quiet_board n v :: (unit + _) \<times> _) = (Inr None, v)" for n v
    by (simp add: acer_celsius_def read_acer_temp_millidegrees_def quiet_board_def io_ok_def io_simps)
  have label: "find_labeled_temperature tree_sysfs [] n l w2 = (Inr None, w2)" for n l
    by (simp add: find_labeled_temperature_def fs_query_def io_simps mem(2) counter_texts io_error_kind_def ENOENT_def Let_def)
  obtain s t' w3 where "(finish_sample bare_nvml tree_sysfs ''x86_64'' quiet_board (Option.bind (tr_previous_cpu_times t1) (\<lambda>p. cpu_utilization p now))
      (2, 4) (or_else None None) None (t1\<lparr>tr_previous_cpu_times := Some now\<rparr>) w2 :: (unit + _) \<times> _) = (Inr (s, t'), w3)"
    by (rule givesE [OF finish_closed [of "t1\<lparr>tr_previous_cpu_times := Some now\<rparr>"]])
      (auto simp: \<open>tr_nvidia t1 = None\<close>)
  then have "(sample bare_nvml tree_sysfs ''x86_64'' quiet_board reader_new counter_world :: (unit + _) \<times> _) = (Inr (Inr s, t'), w3)"
    using begins cpu mem by (simp add: sample_def read_sample_def quiet_board_def counter_texts io_simps acer [unfolded quiet_board_def] label Let_def)
  then show ?thesis by blast
qed

theorem sample_in_range_witness:
  "\<exists>s t' w'. (sample bare_nvml tree_sysfs ''x86_64'' quiet_board reader_new counter_world :: (unit + _) \<times> _) = (Inr (Inr s, t'), w')
     \<and> sample_sane s"
  using counter_sample sample_in_range [OF reader_new_ok, of bare_nvml tree_sysfs "''x86_64''" quiet_board counter_world]
  by (metis Inr_inject prod.inject)

end
