(* ===== verification/Gui_Instance.thy ===== *)
theory Gui_Instance
  imports Sysfs
begin

text \<open>
  \<open>src/gui_instance.rs\<close>: the lease of the desktop window, an abstract socket of the user, and the
  termination of the window that holds it. The kernel (sockets, peer credentials, pidfds, signals,
  \<open>poll\<close>) and the clock are a parameter, a record of functions on a state \<open>'g\<close>; time is counted in
  nanoseconds. The signals that were sent are recorded. The waiting loop and the thread that accepts
  abandoned connections have no bound of their own, so they are partial functions whose value
  \<open>None\<close> is ``does not return''.
\<close>

section \<open>The operating system as a parameter\<close>

datatype accept_result = Accepted | Accept_error io_error

record 'g gui_os =
  gs_euid :: u32
  gs_pid :: int
  gs_bind_addr :: "'g \<Rightarrow> (io_error + unit) \<times> 'g"
  gs_set_nonblocking :: "'g \<Rightarrow> (io_error + unit) \<times> 'g"
  gs_try_clone :: "'g \<Rightarrow> (io_error + unit) \<times> 'g"
  gs_spawn :: "'g \<Rightarrow> (io_error + unit) \<times> 'g"
  gs_close :: "'g \<Rightarrow> 'g"
  gs_connect :: "'g \<Rightarrow> (io_error + unit) \<times> 'g"
  gs_getsockopt_cred :: "'g \<Rightarrow> io_error + int \<times> u32 \<times> nat"
  gs_getsockopt_pidfd :: "'g \<Rightarrow> (io_error + int \<times> nat) \<times> 'g"
  gs_send_signal :: "int \<Rightarrow> 'g \<Rightarrow> (io_error + unit) \<times> 'g"
  gs_poll :: "nat \<Rightarrow> 'g \<Rightarrow> (io_error + nat \<times> bool) \<times> 'g"
  gs_now :: "'g \<Rightarrow> nat \<times> 'g"
  gs_stopped :: "'g \<Rightarrow> bool"
  gs_accept :: "'g \<Rightarrow> accept_result \<times> 'g"
  gs_park :: "'g \<Rightarrow> 'g"
  gs_stop_and_join :: "'g \<Rightarrow> 'g"

text \<open>\<open>gs_poll\<close> answers with the number of ready descriptors and whether \<open>POLLNVAL\<close> is set.\<close>

record 'g gui_world =
  gw_env :: 'g
  gw_signals :: "int list"

datatype gui_error =
    Gui_io io_error
  | Gui_different_user
  | Gui_invalid_owner
  | Gui_malformed_credentials
  | Gui_malformed_pidfd
  | Gui_invalid_pidfd
  | Gui_did_not_exit

datatype gui_mode = Mode_open | Mode_toggle

type_synonym ('g, 'a) gui_run = "'g gui_world \<Rightarrow> ((gui_error + 'a) \<times> 'g gui_world) option"

definition TERM_TIMEOUT :: nat where "TERM_TIMEOUT = 4000000000"
definition KILL_TIMEOUT :: nat where "KILL_TIMEOUT = 2000000000"
definition SIGTERM :: int where "SIGTERM = 15"
definition SIGKILL :: int where "SIGKILL = 9"
definition UCRED_SIZE :: nat where "UCRED_SIZE = 12"
definition C_INT_SIZE :: nat where "C_INT_SIZE = 4"

definition gui_call :: "('g \<Rightarrow> (io_error + 'a) \<times> 'g) \<Rightarrow> 'g gui_world \<Rightarrow> (io_error + 'a) \<times> 'g gui_world" where
  "gui_call f w = (case f (gw_env w) of (r, g) \<Rightarrow> (r, w\<lparr>gw_env := g\<rparr>))"

section \<open>The lease\<close>

text \<open>\<open>GuiLease::bind\<close>: what fails after the socket is bound closes it again.\<close>

definition lease_bind :: "'g gui_os \<Rightarrow> 'g gui_world \<Rightarrow> (io_error + unit) \<times> 'g gui_world" where
  "lease_bind os w = (let close = (\<lambda>v. v\<lparr>gw_env := gs_close os (gw_env v)\<rparr>) in
     case gui_call (gs_bind_addr os) w of (Inl x, w1) \<Rightarrow> (Inl x, w1)
     | (Inr _, w1) \<Rightarrow> (case gui_call (gs_set_nonblocking os) w1 of (Inl x, w2) \<Rightarrow> (Inl x, close w2)
       | (Inr _, w2) \<Rightarrow> (case gui_call (gs_try_clone os) w2 of (Inl x, w3) \<Rightarrow> (Inl x, close w3)
         | (Inr _, w3) \<Rightarrow> (case gui_call (gs_spawn os) w3 of (Inl x, w4) \<Rightarrow> (Inl x, close w4)
           | (Inr _, w4) \<Rightarrow> (Inr (), w4)))))"

text \<open>\<open>Drop for GuiLease\<close>: the thread is stopped and joined, then the socket is closed.\<close>

definition lease_drop :: "'g gui_os \<Rightarrow> 'g gui_world \<Rightarrow> 'g gui_world" where
  "lease_drop os w = w\<lparr>gw_env := gs_close os (gs_stop_and_join os (gw_env w))\<rparr>"

text \<open>\<open>True\<close> is a lease, \<open>False\<close> an address in use.\<close>

definition try_bind :: "'g gui_os \<Rightarrow> 'g gui_world \<Rightarrow> (io_error + bool) \<times> 'g gui_world" where
  "try_bind os w = (case lease_bind os w of (Inr _, w1) \<Rightarrow> (Inr True, w1)
     | (Inl x, w1) \<Rightarrow> if raw_os_error x = Some 98 then (Inr False, w1) else (Inl x, w1))"

definition owner_disappeared :: "io_error \<Rightarrow> bool" where
  "owner_disappeared x \<longleftrightarrow> raw_os_error x = Some 111 \<or> raw_os_error x = Some 2"

text \<open>The thread: all pending connections are accepted, then it parks, until it is told to stop.\<close>

partial_function (option) drain_connections :: "'g gui_os \<Rightarrow> bool \<Rightarrow> 'g \<Rightarrow> 'g option" where
  "drain_connections os accepting g = (if \<not> accepting then (if gs_stopped os g then Some g else drain_connections os True g)
     else (case gs_accept os g of (a, g1) \<Rightarrow> (case a of
         Accepted \<Rightarrow> drain_connections os True g1
       | Accept_error x \<Rightarrow> if io_error_kind x = WouldBlock then drain_connections os False (gs_park os g1)
           else if io_error_kind x = Interrupted then drain_connections os True g1
           else Some g1)))"

section \<open>Ending the previous window\<close>

definition peer_credentials :: "'g gui_os \<Rightarrow> 'g gui_world \<Rightarrow> gui_error + int \<times> u32" where
  "peer_credentials os w = (case gs_getsockopt_cred os (gw_env w) of Inl x \<Rightarrow> Inl (Gui_io x)
     | Inr (pid, uid, len) \<Rightarrow> if len \<noteq> UCRED_SIZE then Inl Gui_malformed_credentials else Inr (pid, uid))"

definition peer_pidfd :: "'g gui_os \<Rightarrow> 'g gui_world \<Rightarrow> (gui_error + unit) \<times> 'g gui_world" where
  "peer_pidfd os w = (case gui_call (gs_getsockopt_pidfd os) w of (Inl x, w1) \<Rightarrow> (Inl (Gui_io x), w1)
     | (Inr (descriptor, len), w1) \<Rightarrow> if descriptor < 0 \<or> len \<noteq> C_INT_SIZE then (Inl Gui_malformed_pidfd, w1) else (Inr (), w1))"

definition send_pidfd_signal :: "'g gui_os \<Rightarrow> int \<Rightarrow> 'g gui_world \<Rightarrow> (gui_error + unit) \<times> 'g gui_world" where
  "send_pidfd_signal os signal w = (case gui_call (gs_send_signal os signal) (w\<lparr>gw_signals := gw_signals w @ [signal]\<rparr>) of
       (Inr _, w1) \<Rightarrow> (Inr (), w1)
     | (Inl x, w1) \<Rightarrow> if raw_os_error x = Some 3 then (Inr (), w1) else (Inl (Gui_io x), w1))"

definition poll_milliseconds :: "nat \<Rightarrow> nat" where
  "poll_milliseconds remaining = (if remaining = 0 then 0 else min (2 ^ 31 - 1) (max 1 (remaining div 1000000)))"

partial_function (option) wait_until :: "'g gui_os \<Rightarrow> nat \<Rightarrow> ('g, bool) gui_run" where
  "wait_until os deadline w = (case gs_now os (gw_env w) of (t, g1) \<Rightarrow>
     (case gs_poll os (poll_milliseconds (deadline - t)) g1 of (r, g2) \<Rightarrow> (case r of
        Inr n \<Rightarrow> if fst n > 0 then (if snd n then Some (Inl Gui_invalid_pidfd, w\<lparr>gw_env := g2\<rparr>) else Some (Inr True, w\<lparr>gw_env := g2\<rparr>))
          else Some (Inr False, w\<lparr>gw_env := g2\<rparr>)
      | Inl x \<Rightarrow> if io_error_kind x \<noteq> Interrupted then Some (Inl (Gui_io x), w\<lparr>gw_env := g2\<rparr>)
          else (case gs_now os g2 of (t', g3) \<Rightarrow>
            if deadline \<le> t' then Some (Inr False, w\<lparr>gw_env := g3\<rparr>) else wait_until os deadline (w\<lparr>gw_env := g3\<rparr>)))))"

definition wait_for_exit :: "'g gui_os \<Rightarrow> nat \<Rightarrow> ('g, bool) gui_run" where
  "wait_for_exit os timeout w = (case gs_now os (gw_env w) of (t, g) \<Rightarrow> wait_until os (t + timeout) (w\<lparr>gw_env := g\<rparr>))"

definition kill_owner :: "'g gui_os \<Rightarrow> ('g, unit) gui_run" where
  "kill_owner os w = (case send_pidfd_signal os SIGKILL w of (Inl x, w1) \<Rightarrow> Some (Inl x, w1)
     | (Inr _, w1) \<Rightarrow> Option.bind (wait_for_exit os KILL_TIMEOUT w1) (\<lambda>(r, w2). Some (case r of Inl x \<Rightarrow> (Inl x, w2)
         | Inr exited \<Rightarrow> if exited then (Inr (), w2) else (Inl Gui_did_not_exit, w2))))"

definition terminate_owner :: "'g gui_os \<Rightarrow> ('g, unit) gui_run" where
  "terminate_owner os w = (case peer_credentials os w of Inl x \<Rightarrow> Some (Inl x, w)
     | Inr (pid, uid) \<Rightarrow>
         if uid \<noteq> gs_euid os then Some (Inl Gui_different_user, w)
         else if pid \<le> 0 \<or> pid = gs_pid os then Some (Inl Gui_invalid_owner, w)
         else (case peer_pidfd os w of (Inl x, w1) \<Rightarrow> Some (Inl x, w1)
           | (Inr _, w1) \<Rightarrow> (case send_pidfd_signal os SIGTERM w1 of (Inl x, w2) \<Rightarrow> Some (Inl x, w2)
             | (Inr _, w2) \<Rightarrow> Option.bind (wait_for_exit os TERM_TIMEOUT w2) (\<lambda>(r, w3). case r of Inl x \<Rightarrow> Some (Inl x, w3)
                 | Inr exited \<Rightarrow> if exited then Some (Inr (), w3) else kill_owner os w3))))"

section \<open>Claiming the lease\<close>

definition gui_result :: "(io_error + 'a) \<times> 'g gui_world \<Rightarrow> ((gui_error + 'a) \<times> 'g gui_world) option" where
  "gui_result rw = Some (res_map_err Gui_io (fst rw), snd rw)"

definition claim_with :: "'g gui_os \<Rightarrow> gui_mode \<Rightarrow> ('g, unit) gui_run \<Rightarrow> ('g, bool) gui_run" where
  "claim_with os mode terminate w = (case try_bind os w of
       (Inl x, w1) \<Rightarrow> Some (Inl (Gui_io x), w1)
     | (Inr bound, w1) \<Rightarrow> if bound then Some (Inr True, w1)
         else (case gui_call (gs_connect os) w1 of
             (Inl x, w2) \<Rightarrow> if owner_disappeared x
                then (case mode of Mode_toggle \<Rightarrow> Some (Inr False, w2) | Mode_open \<Rightarrow> gui_result (try_bind os w2))
                else Some (Inl (Gui_io x), w2)
           | (Inr _, w2) \<Rightarrow> Option.bind (terminate w2) (\<lambda>(r, w3). case r of Inl x \<Rightarrow> Some (Inl x, w3)
               | Inr _ \<Rightarrow> if mode = Mode_toggle then Some (Inr False, w3) else gui_result (try_bind os w3))))"

definition gui_claim :: "'g gui_os \<Rightarrow> gui_mode \<Rightarrow> ('g, bool) gui_run" where
  "gui_claim os mode = claim_with os mode (terminate_owner os)"

end
