(* ===== verification/Gui_Safety.thy ===== *)
theory Gui_Safety
  imports Gui_Instance
begin

text \<open>
  What claiming the window guarantees: which signals can be sent, to whom and in which order, that a
  lease is a bound socket, and that the claim returns.
\<close>

section \<open>Signals\<close>

lemma gui_call_signals: "gui_call f w = (r, w') \<Longrightarrow> gw_signals w' = gw_signals w"
  by (auto simp: gui_call_def split: prod.splits)

lemma try_bind_signals: "try_bind os w = (r, w') \<Longrightarrow> gw_signals w' = gw_signals w"
  unfolding try_bind_def lease_bind_def Let_def
  by (auto dest!: gui_call_signals split: prod.splits sum.splits if_splits)

lemma wait_until_signals:
  assumes ret: "wait_until os deadline w = Some rw"
  shows "gw_signals (snd rw) = gw_signals w"
proof (rule wait_until.raw_induct [where P = "\<lambda>os deadline w rw. gw_signals (snd rw) = gw_signals w", OF _ ret])
  fix f :: "'b gui_os \<Rightarrow> nat \<Rightarrow> ('b, bool) gui_run" and os deadline w rw
  assume IH: "\<And>os deadline w rw. f os deadline w = Some rw \<Longrightarrow> gw_signals (snd rw) = gw_signals w"
    and eq: "(case gs_now os (gw_env w) of (t, g1) \<Rightarrow>
     (case gs_poll os (poll_milliseconds (deadline - t)) g1 of (r, g2) \<Rightarrow> (case r of
        Inr n \<Rightarrow> if fst n > 0 then (if snd n then Some (Inl Gui_invalid_pidfd, w\<lparr>gw_env := g2\<rparr>) else Some (Inr True, w\<lparr>gw_env := g2\<rparr>))
          else Some (Inr False, w\<lparr>gw_env := g2\<rparr>)
      | Inl x \<Rightarrow> if io_error_kind x \<noteq> Interrupted then Some (Inl (Gui_io x), w\<lparr>gw_env := g2\<rparr>)
          else (case gs_now os g2 of (t', g3) \<Rightarrow>
            if deadline \<le> t' then Some (Inr False, w\<lparr>gw_env := g3\<rparr>) else f os deadline (w\<lparr>gw_env := g3\<rparr>))))) = Some rw"
  show "gw_signals (snd rw) = gw_signals w"
    using eq by (auto split: prod.splits sum.splits if_splits dest!: IH)
qed

lemma wait_for_exit_signals: "wait_for_exit os timeout w = Some (r, w') \<Longrightarrow> gw_signals w' = gw_signals w"
  unfolding wait_for_exit_def by (auto split: prod.splits dest!: wait_until_signals)

lemma send_signal_log: "send_pidfd_signal os s w = (r, w') \<Longrightarrow> gw_signals w' = gw_signals w @ [s]"
  unfolding send_pidfd_signal_def by (auto dest!: gui_call_signals split: prod.splits sum.splits if_splits)

text \<open>The peer is a window of the same user, and not this process.\<close>

definition own_window :: "'g gui_os \<Rightarrow> 'g gui_world \<Rightarrow> bool" where
  "own_window os w \<longleftrightarrow> (\<exists>pid. gs_getsockopt_cred os (gw_env w) = Inr (pid, gs_euid os, UCRED_SIZE) \<and> 0 < pid \<and> pid \<noteq> gs_pid os)"

text \<open>Signals are sent to such a window only, a kill follows a termination that did not end it in time.\<close>

definition escalates :: "'g gui_os \<Rightarrow> 'g gui_world \<Rightarrow> int list \<Rightarrow> bool" where
  "escalates os w ss \<longleftrightarrow> ss = [] \<or> own_window os w \<and> (ss = [SIGTERM]
     \<or> ss = [SIGTERM, SIGKILL] \<and> (\<exists>v v'. wait_for_exit os TERM_TIMEOUT v = Some (Inr False, v')))"

lemma kill_owner_log: "kill_owner os w = Some (r, w') \<Longrightarrow> gw_signals w' = gw_signals w @ [SIGKILL]"
  unfolding kill_owner_def
  by (auto split: prod.splits sum.splits if_splits Option.bind_splits dest!: wait_for_exit_signals dest: send_signal_log)

lemma terminate_owner_log:
  assumes "terminate_owner os w = Some (r, w')"
  shows "\<exists>ss. gw_signals w' = gw_signals w @ ss \<and> escalates os w ss"
proof (cases "own_window os w")
  case False
  then have "gw_signals w' = gw_signals w"
    using assms unfolding terminate_owner_def peer_credentials_def own_window_def
    by (auto split: sum.splits prod.splits if_splits)
  then show ?thesis by (auto simp: escalates_def)
next
  case True
  then obtain pid where pid: "peer_credentials os w = Inr (pid, gs_euid os)" "\<not> (pid \<le> 0 \<or> pid = gs_pid os)"
    by (auto simp: own_window_def peer_credentials_def)
  obtain q w1 where fd: "peer_pidfd os w = (q, w1)" by (cases "peer_pidfd os w") auto
  then have w1: "gw_signals w1 = gw_signals w"
    unfolding peer_pidfd_def by (auto dest!: gui_call_signals split: prod.splits sum.splits if_splits)
  show ?thesis
  proof (cases q)
    case (Inl x)
    with assms pid fd w1 show ?thesis by (auto simp: terminate_owner_def escalates_def)
  next
    case (Inr u)
    obtain s w2 where sent: "send_pidfd_signal os SIGTERM w1 = (s, w2)" by (cases "send_pidfd_signal os SIGTERM w1") auto
    with w1 have w2: "gw_signals w2 = gw_signals w @ [SIGTERM]" by (simp add: send_signal_log)
    have "gw_signals w' = gw_signals w @ [SIGTERM]
        \<or> (gw_signals w' = gw_signals w @ [SIGTERM, SIGKILL] \<and> (\<exists>v v'. wait_for_exit os TERM_TIMEOUT v = Some (Inr False, v')))"
    proof (cases s)
      case (Inl x)
      with assms pid fd Inr sent w2 show ?thesis by (simp add: terminate_owner_def)
    next
      case sok: (Inr u)
      obtain e w3 where wait: "wait_for_exit os TERM_TIMEOUT w2 = Some (e, w3)"
        using assms pid fd Inr sent sok by (cases "wait_for_exit os TERM_TIMEOUT w2") (auto simp: terminate_owner_def)
      note w3 = wait_for_exit_signals [OF wait]
      show ?thesis
        using assms pid fd Inr sent sok wait w2 w3
        by (auto simp: terminate_owner_def split: sum.splits if_splits dest!: kill_owner_log)
    qed
    with True show ?thesis unfolding escalates_def by blast
  qed
qed

section \<open>The lease is a bound socket\<close>

lemma try_bind_True: "try_bind os w = (Inr True, w') \<Longrightarrow> lease_bind os w = (Inr (), w')"
  unfolding try_bind_def by (auto split: prod.splits sum.splits if_splits)

text \<open>C26: claiming the window signals nobody unless the address is taken and the connected owner is another
  process of the same user; then at most one SIGTERM, and one SIGKILL only after the owner did not exit in
  time. A lease is returned only when the last step bound the socket, and a toggle that met an owner never
  returns one.\<close>

theorem claim_signals_own_window:
  assumes run: "gui_claim os mode w = Some (r, w')"
  shows "\<exists>ss. gw_signals w' = gw_signals w @ ss
    \<and> (ss \<noteq> [] \<longrightarrow> (\<exists>w1 w2. try_bind os w = (Inr False, w1) \<and> gui_call (gs_connect os) w1 = (Inr (), w2) \<and> escalates os w2 ss))
    \<and> (r = Inr True \<longrightarrow> (\<exists>v. lease_bind os v = (Inr (), w')))
    \<and> (mode = Mode_toggle \<and> fst (try_bind os w) = Inr False \<longrightarrow> r \<noteq> Inr True)"
proof -
  obtain b w1 where b: "try_bind os w = (b, w1)" by (cases "try_bind os w") auto
  have w1: "gw_signals w1 = gw_signals w" using try_bind_signals [OF b] .
  obtain c w2 where c: "gui_call (gs_connect os) w1 = (c, w2)" by (cases "gui_call (gs_connect os) w1") auto
  have w2: "gw_signals w2 = gw_signals w" using gui_call_signals [OF c] w1 by simp
  obtain q w3 where q: "try_bind os w2 = (q, w3)" by (cases "try_bind os w2") auto
  have w3: "gw_signals w3 = gw_signals w" using try_bind_signals [OF q] w2 by simp
  show ?thesis
  proof (cases "b = Inr False \<and> is_ok c")
    case False
    then show ?thesis
      using run b c w1 w2 w3 q unfolding gui_claim_def claim_with_def gui_result_def
      by (auto split: sum.splits if_splits gui_mode.splits dest: try_bind_True simp: res_map_err_def)
  next
    case True
    then obtain r4 w4 where t: "terminate_owner os w2 = Some (r4, w4)"
      and rest: "(r4 = Inr () \<and> mode = Mode_toggle \<and> r = Inr False \<and> w' = w4)
        \<or> (r4 = Inr () \<and> mode \<noteq> Mode_toggle \<and> gui_result (try_bind os w4) = Some (r, w')) \<or> (\<exists>x. r4 = Inl x \<and> r = Inl x \<and> w' = w4)"
      using run b c unfolding gui_claim_def claim_with_def
      by (auto split: sum.splits if_splits Option.bind_splits)
    from terminate_owner_log [OF t] obtain ss where ss: "gw_signals w4 = gw_signals w @ ss" "escalates os w2 ss"
      using w2 by auto
    have "gw_signals w' = gw_signals w4 \<and> (r = Inr True \<longrightarrow> (\<exists>v. lease_bind os v = (Inr (), w'))) \<and> (mode = Mode_toggle \<longrightarrow> r \<noteq> Inr True)"
      using rest unfolding gui_result_def
      by (cases "try_bind os w4") (auto dest: try_bind_signals try_bind_True simp: res_map_err_def split: sum.splits)
    moreover have "b = Inr False" "c = Inr ()" using True by (auto simp: is_ok_iff)
    ultimately show ?thesis using ss b c by (intro exI [of _ ss]) auto
  qed
qed

text \<open>A stubborn window: its owner ignores a termination and goes when it is killed. The state is the clock and
  whether the owner lives.\<close>

definition stubborn_os :: "(nat \<times> bool) gui_os" where
  "stubborn_os = \<lparr>gs_euid = 1000, gs_pid = 77,
     gs_bind_addr = \<lambda>g. (if snd g then Inl (Os_error 98) else Inr (), g), gs_set_nonblocking = \<lambda>g. (Inr (), g),
     gs_try_clone = \<lambda>g. (Inr (), g), gs_spawn = \<lambda>g. (Inr (), g), gs_close = id, gs_connect = \<lambda>g. (Inr (), g),
     gs_getsockopt_cred = \<lambda>g. Inr (42, 1000, 12), gs_getsockopt_pidfd = \<lambda>g. (Inr (5, 4), g),
     gs_send_signal = \<lambda>s g. (Inr (), (fst g, snd g \<and> s \<noteq> 9)),
     gs_poll = \<lambda>ms g. (Inr (if snd g then 0 else 1, False), (Suc (fst g), snd g)), gs_now = \<lambda>g. (fst g, g),
     gs_stopped = \<lambda>g. True, gs_accept = \<lambda>g. (Accept_error (Os_error 11), g), gs_park = id, gs_stop_and_join = id\<rparr>"

definition stubborn_world :: "(nat \<times> bool) gui_world" where
  "stubborn_world = \<lparr>gw_env = (0, True), gw_signals = []\<rparr>"

lemma stubborn_claim:
  "gui_claim stubborn_os Mode_open stubborn_world = Some (Inr True, \<lparr>gw_env = (2, False), gw_signals = [SIGTERM, SIGKILL]\<rparr>)"
  by (simp add: gui_claim_def claim_with_def try_bind_def lease_bind_def gui_call_def terminate_owner_def peer_credentials_def
    peer_pidfd_def send_pidfd_signal_def wait_for_exit_def wait_until.simps kill_owner_def gui_result_def stubborn_os_def
    stubborn_world_def raw_os_error_def UCRED_SIZE_def C_INT_SIZE_def SIGTERM_def SIGKILL_def res_map_err_def)

theorem claim_signals_own_window_witness:
  "gui_claim stubborn_os Mode_open stubborn_world = Some (Inr True, \<lparr>gw_env = (2, False), gw_signals = [SIGTERM, SIGKILL]\<rparr>)
   \<and> (\<exists>w1 w2. try_bind stubborn_os stubborn_world = (Inr False, w1) \<and> gui_call (gs_connect stubborn_os) w1 = (Inr (), w2)
        \<and> escalates stubborn_os w2 [SIGTERM, SIGKILL])"
  using claim_signals_own_window [OF stubborn_claim] stubborn_claim by (auto simp: stubborn_world_def)

section \<open>The claim returns\<close>

text \<open>\<open>time\<close> is the instant of a state: nothing moves it back, and waiting in \<open>poll\<close> takes at least a nanosecond.\<close>

definition gui_clock_advances :: "'g gui_os \<Rightarrow> ('g \<Rightarrow> nat) \<Rightarrow> bool" where
  "gui_clock_advances os time \<longleftrightarrow> (\<forall>g t g'. gs_now os g = (t, g') \<longrightarrow> time g \<le> t \<and> t \<le> time g')
     \<and> (\<forall>ms g r g'. gs_poll os ms g = (r, g') \<longrightarrow> time g < time g')"

lemma wait_until_returns:
  assumes clock: "gui_clock_advances os time"
  shows "\<exists>rw. wait_until os deadline w = Some rw"
proof (induction "deadline - time (gw_env w)" arbitrary: w rule: less_induct)
  case less
  obtain t g1 where n1: "gs_now os (gw_env w) = (t, g1)" by (cases "gs_now os (gw_env w)")
  obtain r g2 where p: "gs_poll os (poll_milliseconds (deadline - t)) g1 = (r, g2)" by (cases "gs_poll os (poll_milliseconds (deadline - t)) g1")
  obtain t' g3 where n2: "gs_now os g2 = (t', g3)" by (cases "gs_now os g2")
  from clock n1 p n2 have "time (gw_env w) \<le> t" "t \<le> time g1" "time g1 < time g2" "time g2 \<le> t'" "t' \<le> time g3"
    unfolding gui_clock_advances_def by blast+
  then have "deadline - time (gw_env (w\<lparr>gw_env := g3\<rparr>)) < deadline - time (gw_env w)" if "\<not> deadline \<le> t'"
    using that by simp
  from less.hyps [OF this] show ?case
    by (subst wait_until.simps) (auto simp: n1 p n2 split: sum.splits)
qed

lemma wait_for_exit_returns: "gui_clock_advances os time \<Longrightarrow> \<exists>r w'. wait_for_exit os timeout w = Some (r, w')"
  using wait_until_returns unfolding wait_for_exit_def by (fastforce split: prod.splits)

lemma kill_owner_returns:
  assumes "gui_clock_advances os time" shows "\<exists>rw. kill_owner os w = Some rw"
proof -
  obtain r v where "\<And>w. wait_for_exit os KILL_TIMEOUT w = Some (r w, v w)"
    using wait_for_exit_returns [OF assms, of KILL_TIMEOUT] by metis
  then show ?thesis unfolding kill_owner_def by (auto split: prod.splits sum.splits)
qed

lemma terminate_owner_returns:
  assumes "gui_clock_advances os time" shows "\<exists>rw. terminate_owner os w = Some rw"
proof -
  obtain r v where "\<And>w. wait_for_exit os TERM_TIMEOUT w = Some (r w, v w)"
    using wait_for_exit_returns [OF assms, of TERM_TIMEOUT] by metis
  with kill_owner_returns [OF assms] show ?thesis
    unfolding terminate_owner_def by (auto split: prod.splits sum.splits)
qed

text \<open>C27: claiming the window returns, with a lease, without one or with an error, whatever the previous owner
  does, as long as the clock advances while the program waits.\<close>

theorem gui_claim_returns:
  assumes "gui_clock_advances os time" shows "\<exists>r w'. gui_claim os mode w = Some (r, w')"
proof -
  obtain f where "\<And>w. terminate_owner os w = Some (f w)" using terminate_owner_returns [OF assms] by metis
  then show ?thesis
    unfolding gui_claim_def claim_with_def gui_result_def
    by (auto split: prod.splits sum.splits gui_mode.splits)
qed

theorem gui_claim_returns_witness: "\<exists>r w'. gui_claim stubborn_os Mode_toggle stubborn_world = Some (r, w')"
  by (rule gui_claim_returns [of _ fst]) (auto simp: gui_clock_advances_def stubborn_os_def)

end
