(* ===== verification/App_Resize.thy ===== *)
theory App_Resize
  imports Complex_Main Asense_Prelude
begin

text \<open>
  \<open>src/app.rs\<close>, the window: the proportions it is held to and the state machine that corrects a
  size the window manager chose. The window (its size and scale) is what the toolkit reports, an argument
  of the steps; lengths in design units and scales are exact rationals, a scale that is not finite is
  \<open>None\<close>. The toolkit runs a queued idle callback and an armed timeout once each, at a time of
  its choice.
\<close>

section \<open>Proportions\<close>

definition COMPACT_DESIGN_WIDTH :: rat where "COMPACT_DESIGN_WIDTH = 620"
definition ADVANCED_DESIGN_WIDTH :: rat where "ADVANCED_DESIGN_WIDTH = 1200"
definition WORKSPACE_DESIGN_HEIGHT :: rat where "WORKSPACE_DESIGN_HEIGHT = 650"
definition TITLEBAR_DESIGN_HEIGHT :: rat where "TITLEBAR_DESIGN_HEIGHT = 48"
definition INITIAL_WINDOW_HEIGHT :: rat where "INITIAL_WINDOW_HEIGHT = 830"
definition MIN_WINDOW_HEIGHT :: rat where "MIN_WINDOW_HEIGHT = 690"
definition MAX_WINDOW_HEIGHT :: rat where "MAX_WINDOW_HEIGHT = 1100"

record physical_size =
  pz_width :: u32
  pz_height :: u32

datatype resize_direction = Dir_north | Dir_south | Dir_east | Dir_west
  | Dir_north_east | Dir_north_west | Dir_south_east | Dir_south_west

definition design_width :: "bool \<Rightarrow> rat" where
  "design_width advanced = (if advanced then ADVANCED_DESIGN_WIDTH else COMPACT_DESIGN_WIDTH)"

definition workspace_aspect_ratio :: "bool \<Rightarrow> rat" where
  "workspace_aspect_ratio advanced = design_width advanced / WORKSPACE_DESIGN_HEIGHT"

text \<open>\<open>f64::clamp\<close>, \<open>f64::max\<close>, and the saturating cast of a rounded value to \<open>u32\<close>.\<close>

definition rat_clamp :: "rat \<Rightarrow> rat \<Rightarrow> rat \<Rightarrow> rat" where
  "rat_clamp x low high = (if x < low then low else if high < x then high else x)"

definition saturate_u32 :: "rat \<Rightarrow> u32" where
  "saturate_u32 x = of_int (min (2 ^ 32 - 1) (max 0 (round x)))"

definition logical_window_size :: "bool \<Rightarrow> rat \<Rightarrow> rat \<times> rat" where
  "logical_window_size advanced height =
     (let height = rat_clamp height MIN_WINDOW_HEIGHT MAX_WINDOW_HEIGHT;
          workspace_height = max (height - TITLEBAR_DESIGN_HEIGHT) 1
      in (workspace_height * workspace_aspect_ratio advanced, height))"

definition abs_diff_u32 :: "u32 \<Rightarrow> u32 \<Rightarrow> nat" where
  "abs_diff_u32 a b = (if a < b then unat b - unat a else unat a - unat b)"

definition physical_size_close :: "physical_size \<Rightarrow> physical_size \<Rightarrow> bool" where
  "physical_size_close left right \<longleftrightarrow> abs_diff_u32 (pz_width left) (pz_width right) \<le> 2
     \<and> abs_diff_u32 (pz_height left) (pz_height right) \<le> 2"

definition usable_scale :: "rat option \<Rightarrow> rat" where
  "usable_scale scale = (case scale of Some s \<Rightarrow> if 0 < s then s else 1 | None \<Rightarrow> 1)"

definition width_driven :: "physical_size \<Rightarrow> physical_size \<Rightarrow> rat \<Rightarrow> resize_direction option \<Rightarrow> bool" where
  "width_driven requested accepted ratio direction = (
     if direction \<in> {Some Dir_east, Some Dir_west} then True
     else if direction \<in> {Some Dir_north, Some Dir_south} then False
     else of_nat (abs_diff_u32 (pz_height requested) (pz_height accepted)) * ratio
       \<le> (of_nat (abs_diff_u32 (pz_width requested) (pz_width accepted)) :: rat))"

definition constrained_height ::
  "physical_size \<Rightarrow> physical_size \<Rightarrow> bool \<Rightarrow> rat \<Rightarrow> resize_direction option \<Rightarrow> rat" where
  "constrained_height requested accepted advanced s direction =
     (let ratio = workspace_aspect_ratio advanced;
          requested_width = of_nat (max 1 (unat (pz_width requested)));
          requested_height = of_nat (max 1 (unat (pz_height requested)))
      in rat_clamp (if width_driven requested accepted ratio direction
           then requested_width / ratio + TITLEBAR_DESIGN_HEIGHT * s else requested_height)
         (MIN_WINDOW_HEIGHT * s) (MAX_WINDOW_HEIGHT * s))"

definition aspect_constrained_size ::
  "physical_size \<Rightarrow> physical_size \<Rightarrow> bool \<Rightarrow> rat option \<Rightarrow> resize_direction option \<Rightarrow> physical_size" where
  "aspect_constrained_size requested accepted advanced scale direction =
     (let s = usable_scale scale;
          height = constrained_height requested accepted advanced s direction;
          workspace_height = max (height - TITLEBAR_DESIGN_HEIGHT * s) 1
      in \<lparr>pz_width = saturate_u32 (max (of_int (round (workspace_height * workspace_aspect_ratio advanced))) 1),
          pz_height = saturate_u32 (max (of_int (round height)) 1)\<rparr>)"

section \<open>The correction state\<close>

record pending_resize_correction =
  pc_target :: physical_size
  pc_generation :: u64
  pc_ignore_intermediate :: bool

datatype resize_observation = Ignore | No_schedule | Schedule_correction

record aspect_resize_state =
  ar_advanced :: bool
  ar_accepted :: physical_size
  ar_pending :: "pending_resize_correction option"
  ar_generation :: u64
  ar_latest :: "physical_size option"
  ar_scheduled :: bool
  ar_finalize :: bool
  ar_direction :: "resize_direction option"

definition aspect_resize_new :: "physical_size \<Rightarrow> aspect_resize_state" where
  "aspect_resize_new accepted = \<lparr>ar_advanced = False, ar_accepted = accepted, ar_pending = None,
     ar_generation = 0, ar_latest = None, ar_scheduled = False, ar_finalize = False, ar_direction = None\<rparr>"

text \<open>What \<open>observe_resize\<close> and \<open>expire_pending_correction\<close> share: the request that a drag
  left to be finished is queued, unless a correction is queued already.\<close>

definition finalize_drag :: "physical_size \<Rightarrow> aspect_resize_state \<Rightarrow> resize_observation \<times> aspect_resize_state" where
  "finalize_drag actual a = (if ar_finalize a
     then let a = a\<lparr>ar_finalize := False, ar_latest := Some actual\<rparr> in
       if \<not> ar_scheduled a then (Schedule_correction, a\<lparr>ar_scheduled := True\<rparr>) else (No_schedule, a)
     else (No_schedule, a))"

definition observe_resize :: "physical_size \<Rightarrow> aspect_resize_state \<Rightarrow> resize_observation \<times> aspect_resize_state" where
  "observe_resize requested a = (case ar_pending a of
     Some p \<Rightarrow>
       if physical_size_close (pc_target p) requested
       then (No_schedule, a\<lparr>ar_accepted := requested, ar_pending := None, ar_latest := None, ar_finalize := False\<rparr>)
       else if pc_ignore_intermediate p then (Ignore, a)
       else finalize_drag requested (a\<lparr>ar_accepted := requested, ar_pending := None, ar_latest := None\<rparr>)
   | None \<Rightarrow> let a = a\<lparr>ar_latest := Some requested\<rparr> in
       if ar_scheduled a then (No_schedule, a) else (Schedule_correction, a\<lparr>ar_scheduled := True\<rparr>))"

definition begin_pending_correction :: "physical_size \<Rightarrow> bool \<Rightarrow> aspect_resize_state \<Rightarrow> u64 \<times> aspect_resize_state" where
  "begin_pending_correction target ignore_intermediate a = (let generation = ar_generation a + 1 in
     (generation, a\<lparr>ar_generation := generation,
        ar_pending := Some \<lparr>pc_target = target, pc_generation = generation, pc_ignore_intermediate = ignore_intermediate\<rparr>,
        ar_finalize := False\<rparr>))"

definition expire_pending_correction ::
  "u64 \<Rightarrow> physical_size \<Rightarrow> aspect_resize_state \<Rightarrow> resize_observation \<times> aspect_resize_state" where
  "expire_pending_correction generation actual a = (
     if (case ar_pending a of None \<Rightarrow> True | Some p \<Rightarrow> pc_generation p \<noteq> generation) then (Ignore, a)
     else finalize_drag actual (a\<lparr>ar_pending := None, ar_latest := None, ar_accepted := actual\<rparr>))"

definition finish_drag :: "physical_size \<Rightarrow> aspect_resize_state \<Rightarrow> bool \<times> aspect_resize_state" where
  "finish_drag actual a = (if ar_direction a = None then (False, a)
     else let a = a\<lparr>ar_direction := None\<rparr> in
       if ar_pending a \<noteq> None then (False, a\<lparr>ar_latest := None, ar_finalize := True\<rparr>)
       else let a = a\<lparr>ar_finalize := False, ar_latest := Some actual\<rparr> in
         if ar_scheduled a then (False, a) else (True, a\<lparr>ar_scheduled := True\<rparr>))"

section \<open>The window and its callbacks\<close>

text \<open>Beside the correction state: how many idle callbacks are queued, the generations of the armed
  timeouts, and the sizes the window was asked to take.\<close>

record resize_loop =
  rl_state :: aspect_resize_state
  rl_idle :: nat
  rl_timers :: "u64 list"
  rl_asked :: "physical_size list"

definition schedule_aspect_correction :: "resize_loop \<Rightarrow> resize_loop" where
  "schedule_aspect_correction l = l\<lparr>rl_idle := Suc (rl_idle l)\<rparr>"

definition after_observation :: "resize_observation \<times> aspect_resize_state \<Rightarrow> resize_loop \<Rightarrow> resize_loop" where
  "after_observation r l = (let l = l\<lparr>rl_state := snd r\<rparr> in
     if fst r = Schedule_correction then schedule_aspect_correction l else l)"

definition queue_aspect_resize :: "physical_size \<Rightarrow> resize_loop \<Rightarrow> resize_loop" where
  "queue_aspect_resize requested l = after_observation (observe_resize requested (rl_state l)) l"

definition schedule_pending_correction_timeout :: "u64 \<Rightarrow> resize_loop \<Rightarrow> resize_loop" where
  "schedule_pending_correction_timeout generation l = l\<lparr>rl_timers := generation # rl_timers l\<rparr>"

definition timeout_fires :: "u64 \<Rightarrow> physical_size \<Rightarrow> resize_loop \<Rightarrow> resize_loop" where
  "timeout_fires generation actual l = after_observation (expire_pending_correction generation actual (rl_state l))
     (l\<lparr>rl_timers := remove1 generation (rl_timers l)\<rparr>)"

definition set_inner_size :: "physical_size \<Rightarrow> resize_loop \<Rightarrow> resize_loop" where
  "set_inner_size target l = l\<lparr>rl_asked := target # rl_asked l\<rparr>"

definition idle_fires :: "rat option \<Rightarrow> resize_loop \<Rightarrow> resize_loop" where
  "idle_fires scale l = (let a = (rl_state l)\<lparr>ar_scheduled := False, ar_latest := None\<rparr>;
       l = l\<lparr>rl_idle := rl_idle l - 1\<rparr> in
     case ar_latest (rl_state l) of None \<Rightarrow> l\<lparr>rl_state := a\<rparr>
     | Some requested \<Rightarrow> (let target = aspect_constrained_size requested (ar_accepted a) (ar_advanced a) scale (ar_direction a) in
         if physical_size_close target requested
         then l\<lparr>rl_state := a\<lparr>ar_accepted := target, ar_pending := None, ar_finalize := False\<rparr>\<rparr>
         else (case begin_pending_correction target False a of (generation, a) \<Rightarrow>
           set_inner_size target (schedule_pending_correction_timeout generation (l\<lparr>rl_state := a\<rparr>)))))"

definition finish_aspect_resize :: "physical_size \<Rightarrow> resize_loop \<Rightarrow> resize_loop" where
  "finish_aspect_resize actual l = (case finish_drag actual (rl_state l) of (scheduled, a) \<Rightarrow>
     let l = l\<lparr>rl_state := a\<rparr> in if scheduled then schedule_aspect_correction l else l)"

text \<open>\<open>to_physical\<close> belongs to the toolkit and is a parameter.\<close>

definition set_window_mode ::
  "(rat \<times> rat \<Rightarrow> rat \<Rightarrow> physical_size) \<Rightarrow> rat \<Rightarrow> physical_size \<Rightarrow> bool \<Rightarrow> resize_loop \<Rightarrow> resize_loop" where
  "set_window_mode to_physical scale current advanced l =
     (let s = max scale (1 / 2 ^ 52);
          target = to_physical (logical_window_size advanced (rat_clamp (of_nat (unat (pz_height current)) / s)
            MIN_WINDOW_HEIGHT MAX_WINDOW_HEIGHT)) s
      in case begin_pending_correction target True
           ((rl_state l)\<lparr>ar_advanced := advanced, ar_latest := None, ar_finalize := False, ar_direction := None\<rparr>) of
         (generation, a) \<Rightarrow> set_inner_size target (schedule_pending_correction_timeout generation (l\<lparr>rl_state := a\<rparr>)))"

definition start_drag :: "resize_direction \<Rightarrow> physical_size \<Rightarrow> resize_loop \<Rightarrow> resize_loop" where
  "start_drag direction actual l = l\<lparr>rl_state := (rl_state l)\<lparr>ar_accepted := actual, ar_direction := Some direction\<rparr>\<rparr>"

text \<open>The events, with what the toolkit reports at that moment.\<close>

inductive resize_step :: "(rat \<times> rat \<Rightarrow> rat \<Rightarrow> physical_size) \<Rightarrow> resize_loop \<Rightarrow> resize_loop \<Rightarrow> bool" for tp where
  resized: "resize_step tp l (queue_aspect_resize requested l)"
| released: "resize_step tp l (finish_aspect_resize actual l)"
| handle: "resize_step tp l (start_drag direction actual l)"
| mode_set: "resize_step tp l (set_window_mode tp scale current advanced l)"
| idle_run: "0 < rl_idle l \<Longrightarrow> resize_step tp l (idle_fires scale l)"
| timed_out: "generation \<in> set (rl_timers l) \<Longrightarrow> resize_step tp l (timeout_fires generation actual l)"

inductive resize_reachable :: "(rat \<times> rat \<Rightarrow> rat \<Rightarrow> physical_size) \<Rightarrow> resize_loop \<Rightarrow> bool" for tp where
  opened: "resize_reachable tp \<lparr>rl_state = aspect_resize_new actual, rl_idle = 0, rl_timers = [], rl_asked = []\<rparr>"
| moved: "resize_reachable tp l \<Longrightarrow> resize_step tp l l' \<Longrightarrow> resize_reachable tp l'"

section \<open>The correction is bounded and does not repeat\<close>

named_theorems resize_defs \<open>the operations of the correction state machine\<close>

lemmas [resize_defs] = finalize_drag_def observe_resize_def begin_pending_correction_def
  expire_pending_correction_def finish_drag_def schedule_aspect_correction_def after_observation_def
  queue_aspect_resize_def schedule_pending_correction_timeout_def timeout_fires_def set_inner_size_def
  idle_fires_def finish_aspect_resize_def set_window_mode_def start_drag_def aspect_resize_new_def Let_def

definition resize_wf :: "resize_loop \<Rightarrow> bool" where
  "resize_wf l \<longleftrightarrow> rl_idle l = (if ar_scheduled (rl_state l) then 1 else 0)
     \<and> (ar_latest (rl_state l) \<noteq> None \<longrightarrow> ar_scheduled (rl_state l))
     \<and> (\<forall>p. ar_pending (rl_state l) = Some p \<longrightarrow> pc_generation p \<in> set (rl_timers l))
     \<and> (ar_finalize (rl_state l) \<longrightarrow> ar_pending (rl_state l) \<noteq> None)"

lemma in_remove1: "g \<noteq> g' \<Longrightarrow> g \<in> set xs \<Longrightarrow> g \<in> set (remove1 g' xs)"
  by (induction xs) auto

lemma resize_step_wf: "resize_step tp l l' \<Longrightarrow> resize_wf l \<Longrightarrow> resize_wf l'"
proof (induction rule: resize_step.induct)
  case (resized l requested)
  then show ?case by (auto simp: resize_wf_def resize_defs split: option.splits if_splits)
next
  case (released l actual)
  then show ?case by (auto simp: resize_wf_def resize_defs split: option.splits if_splits prod.splits)
next
  case (handle l direction actual)
  then show ?case by (auto simp: resize_wf_def resize_defs)
next
  case (mode_set l scale current advanced)
  then show ?case by (auto simp: resize_wf_def resize_defs)
next
  case (idle_run l scale)
  then show ?case by (auto simp: resize_wf_def resize_defs split: option.splits if_splits)
next
  case (timed_out generation l actual)
  then show ?case by (auto simp: resize_wf_def resize_defs in_remove1 split: option.splits if_splits)
qed

lemma resize_opened_wf:
  "resize_wf \<lparr>rl_state = aspect_resize_new actual, rl_idle = 0, rl_timers = [], rl_asked = []\<rparr>"
  by (simp add: resize_wf_def aspect_resize_new_def)

lemma resize_reachable_wf: "resize_reachable tp l \<Longrightarrow> resize_wf l"
  by (induction rule: resize_reachable.induct) (blast intro: resize_opened_wf resize_step_wf)+

text \<open>C28: whatever the order of window events, idle callbacks and timeouts, at most one correction is
  queued and no request is waiting without it; a correction the window manager has not acknowledged is
  covered by an armed timeout, and when that fires the window is free again and a drag that ended
  meanwhile is corrected from the size the window really has.\<close>

theorem resize_never_stuck:
  assumes "resize_reachable tp l"
  shows "rl_idle l \<le> 1 \<and> (rl_idle l = 0 \<longrightarrow> ar_latest (rl_state l) = None)
    \<and> (ar_finalize (rl_state l) \<longrightarrow> ar_pending (rl_state l) \<noteq> None)
    \<and> (\<forall>p. ar_pending (rl_state l) = Some p \<longrightarrow> pc_generation p \<in> set (rl_timers l)
        \<and> (\<forall>actual. let l' = timeout_fires (pc_generation p) actual l in
             ar_pending (rl_state l') = None
             \<and> (ar_finalize (rl_state l) \<longrightarrow> rl_idle l' = 1 \<and> ar_latest (rl_state l') = Some actual)))"
proof -
  have wf: "resize_wf l" using resize_reachable_wf [OF assms] .
  have fires: "ar_pending (rl_state (timeout_fires (pc_generation p) actual l)) = None
      \<and> (ar_finalize (rl_state l) \<longrightarrow> rl_idle (timeout_fires (pc_generation p) actual l) = 1
          \<and> ar_latest (rl_state (timeout_fires (pc_generation p) actual l)) = Some actual)"
    if "ar_pending (rl_state l) = Some p" for p actual
    using wf that by (auto simp: resize_wf_def resize_defs split: if_splits)
  show ?thesis using wf fires by (auto simp: resize_wf_def Let_def)
qed

definition dragged_window :: resize_loop where
  "dragged_window = (let l = \<lparr>rl_state = aspect_resize_new \<lparr>pz_width = 746, pz_height = 830\<rparr>, rl_idle = 0, rl_timers = [], rl_asked = []\<rparr>;
       l = set_window_mode (\<lambda>_ _. \<lparr>pz_width = 1444, pz_height = 830\<rparr>) 1 \<lparr>pz_width = 746, pz_height = 830\<rparr> True l;
       l = start_drag Dir_east \<lparr>pz_width = 746, pz_height = 830\<rparr> l
     in finish_aspect_resize \<lparr>pz_width = 900, pz_height = 830\<rparr> l)"

lemma dragged_window_reachable:
  "resize_reachable (\<lambda>_ _. \<lparr>pz_width = 1444, pz_height = 830\<rparr>) dragged_window"
  unfolding dragged_window_def Let_def
  by (rule moved [OF moved [OF moved [OF opened mode_set] handle] released])

lemma dragged_window_state: "ar_finalize (rl_state dragged_window)"
  "ar_pending (rl_state dragged_window)
     = Some \<lparr>pc_target = \<lparr>pz_width = 1444, pz_height = 830\<rparr>, pc_generation = 1, pc_ignore_intermediate = True\<rparr>"
  by (simp_all add: dragged_window_def resize_defs)

theorem resize_never_stuck_witness:
  "rl_idle (timeout_fires 1 \<lparr>pz_width = 900, pz_height = 830\<rparr> dragged_window) = 1"
  using resize_never_stuck [OF dragged_window_reachable] dragged_window_state
  by (simp add: Let_def)

section \<open>The corrected size\<close>

lemma ratio_bounds: "31 / 33 < workspace_aspect_ratio advanced" "workspace_aspect_ratio advanced < 37 / 20"
  by (simp_all add: workspace_aspect_ratio_def design_width_def COMPACT_DESIGN_WIDTH_def
      ADVANCED_DESIGN_WIDTH_def WORKSPACE_DESIGN_HEIGHT_def)

lemma rat_clamp_bounds: "low \<le> high \<Longrightarrow> low \<le> rat_clamp x low high \<and> rat_clamp x low high \<le> high"
  by (simp add: rat_clamp_def)

lemma rat_clamp_near:
  assumes "low \<le> h" "h \<le> high" "\<bar>x - h\<bar> \<le> d"
  shows "\<bar>rat_clamp x low high - h\<bar> \<le> d"
  using assms by (auto simp: rat_clamp_def abs_le_iff)

lemma constrained_height_bounds:
  "0 < s \<Longrightarrow> MIN_WINDOW_HEIGHT * s \<le> constrained_height r a advanced s d
     \<and> constrained_height r a advanced s d \<le> MAX_WINDOW_HEIGHT * s"
  unfolding constrained_height_def Let_def
  by (rule rat_clamp_bounds) (simp add: MIN_WINDOW_HEIGHT_def MAX_WINDOW_HEIGHT_def)

lemma saturate_u32_unat:
  assumes "1 \<le> x" "x \<le> 2 ^ 31" shows "uint (saturate_u32 x) = round x"
proof -
  have "1 \<le> round x" using assms(1) round_mono [of 1 x] by simp
  moreover have "round x \<le> 2 ^ 31" using assms(2) round_mono [of x "2 ^ 31"] by simp
  ultimately show ?thesis by (simp add: saturate_u32_def unsigned_of_int take_bit_int_eq_self)
qed

lemma max_one_round: "(1 :: rat) \<le> x \<Longrightarrow> max (of_int (round x)) 1 = (of_int (round x) :: rat)"
  using round_mono [of 1 x] by (simp add: max_def)

definition workspace_width :: "rat \<Rightarrow> rat \<Rightarrow> bool \<Rightarrow> rat" where
  "workspace_width h s advanced = (h - TITLEBAR_DESIGN_HEIGHT * s) * workspace_aspect_ratio advanced"

lemma workspace_width_bounds:
  assumes "1 / 4 \<le> s" "s \<le> 1000" "MIN_WINDOW_HEIGHT * s \<le> h" "h \<le> MAX_WINDOW_HEIGHT * s"
  shows "1 \<le> workspace_width h s advanced" "workspace_width h s advanced < 2 ^ 31"
    "1 \<le> h - TITLEBAR_DESIGN_HEIGHT * s" "1 \<le> h" "h < 2 ^ 31"
proof -
  have b: "642 * s \<le> h - TITLEBAR_DESIGN_HEIGHT * s" "h - TITLEBAR_DESIGN_HEIGHT * s \<le> 1052 * s"
    using assms by (simp_all add: TITLEBAR_DESIGN_HEIGHT_def MIN_WINDOW_HEIGHT_def MAX_WINDOW_HEIGHT_def)
  show one: "1 \<le> h - TITLEBAR_DESIGN_HEIGHT * s" using b assms(1) by simp
  show "1 \<le> h" "h < 2 ^ 31" using assms by (simp_all add: MIN_WINDOW_HEIGHT_def MAX_WINDOW_HEIGHT_def)
  have "160 * (31 / 33) \<le> workspace_width h s advanced"
    unfolding workspace_width_def using b assms(1) ratio_bounds(1) [of advanced] by (intro mult_mono) simp_all
  then show "1 \<le> workspace_width h s advanced" by simp
  have "workspace_width h s advanced \<le> 1052000 * (37 / 20)"
    unfolding workspace_width_def using b assms(2) one ratio_bounds [of advanced] by (intro mult_mono) simp_all
  then show "workspace_width h s advanced < 2 ^ 31" by simp
qed

lemma round_bounds: "1 \<le> x \<Longrightarrow> x < 2 ^ 31 \<Longrightarrow> 1 \<le> (of_int (round x) :: rat) \<and> (of_int (round x) :: rat) \<le> 2 ^ 31"
  for x :: rat
  using round_mono [of 1 x] round_mono [of x "2 ^ 31"] by simp

lemma constrained_size_eq:
  fixes r a advanced scale d
  defines "h \<equiv> constrained_height r a advanced (usable_scale scale) d"
  assumes "1 / 4 \<le> usable_scale scale" "usable_scale scale \<le> 1000"
  shows "uint (pz_height (aspect_constrained_size r a advanced scale d)) = round h"
    and "uint (pz_width (aspect_constrained_size r a advanced scale d))
      = round (workspace_width h (usable_scale scale) advanced)"
proof -
  have "0 < usable_scale scale" using assms(2) by simp
  note h = constrained_height_bounds [OF this, of r a advanced d, folded h_def]
  note b = workspace_width_bounds [OF assms(2,3) h [THEN conjunct1] h [THEN conjunct2]]
  note rb = round_bounds [OF b(1,2)] round_bounds [OF b(4,5)]
  show "uint (pz_height (aspect_constrained_size r a advanced scale d)) = round h"
    using b rb by (simp add: aspect_constrained_size_def Let_def h_def [symmetric] max_one_round saturate_u32_unat)
  show "uint (pz_width (aspect_constrained_size r a advanced scale d))
      = round (workspace_width h (usable_scale scale) advanced)"
    using b rb by (simp add: aspect_constrained_size_def Let_def h_def [symmetric]
        workspace_width_def [symmetric] max_one_round saturate_u32_unat)
qed

lemma round_plus_one: "round (y + 1) = round y + 1" for y :: rat
  using floor_add_int [of "y + 1 / 2" 1] by (simp add: round_def add.commute add.left_commute)

lemma round_near: "\<bar>x - y\<bar> \<le> 1 \<Longrightarrow> \<bar>round x - round y\<bar> \<le> 1" for x y :: rat
proof -
  assume "\<bar>x - y\<bar> \<le> 1"
  then have "x \<le> y + 1" "y \<le> x + 1" by (simp_all add: abs_le_iff)
  then have "round x \<le> round y + 1" "round y \<le> round x + 1"
    unfolding round_plus_one [symmetric] by (auto intro: round_mono)
  then show ?thesis by simp
qed

lemma abs_diff_int: "int (abs_diff_u32 a b) = \<bar>uint a - uint b\<bar>"
  unfolding abs_diff_u32_def word_less_nat_alt uint_nat by (split if_split, intro conjI impI; linarith)

text \<open>The height a corrected size asks for again differs by less than one pixel.\<close>

lemma constrained_height_again:
  fixes r a advanced scale d a' d'
  defines "s \<equiv> usable_scale scale" and "t \<equiv> aspect_constrained_size r a advanced scale d"
    and "h \<equiv> constrained_height r a advanced (usable_scale scale) d"
  assumes s: "1 / 4 \<le> s" "s \<le> 1000"
  shows "\<bar>constrained_height t a' advanced s d' - h\<bar> \<le> 33 / 62"
proof -
  let ?q = "workspace_aspect_ratio advanced" and ?T = "TITLEBAR_DESIGN_HEIGHT * s"
  have s0: "0 < s" using s by simp
  have h: "MIN_WINDOW_HEIGHT * s \<le> h" "h \<le> MAX_WINDOW_HEIGHT * s"
    using constrained_height_bounds [OF s0, of r a advanced d] by (simp_all add: h_def s_def)
  note e = constrained_size_eq [of scale r a advanced d, folded t_def h_def s_def, OF s]
  have th: "of_nat (unat (pz_height t)) = (of_int (round h) :: rat)" using e(1) by (metis uint_nat of_int_of_nat_eq)
  have tw: "of_nat (unat (pz_width t)) = (of_int (round (workspace_width h s advanced)) :: rat)"
    using e(2) by (metis uint_nat of_int_of_nat_eq)
  have one: "1 \<le> round h" "1 \<le> round (workspace_width h s advanced)"
    using round_mono [OF workspace_width_bounds(4) [OF s h]] round_mono [OF workspace_width_bounds(1) [OF s h]] by simp_all
  have max1: "max 1 (unat (pz_height t)) = unat (pz_height t)" "max 1 (unat (pz_width t)) = unat (pz_width t)"
    using e one unfolding uint_nat by linarith+
  have n1: "\<bar>of_nat (max 1 (unat (pz_height t))) - h\<bar> \<le> 33 / 62"
    using of_int_round_abs_le [of h] unfolding max1 th by simp
  have q: "0 < ?q" "1 / ?q \<le> 33 / 31" using ratio_bounds(1) [of advanced] by (simp_all add: field_simps)
  have "of_nat (max 1 (unat (pz_width t))) / ?q + ?T - h
      = (of_int (round (workspace_width h s advanced)) - workspace_width h s advanced) * (1 / ?q)"
    using q(1) unfolding max1 tw by (simp add: workspace_width_def field_simps)
  also have "\<bar>\<dots>\<bar> \<le> 1 / 2 * (33 / 31)"
    unfolding abs_mult using of_int_round_abs_le [of "workspace_width h s advanced"] q by (intro mult_mono) simp_all
  finally have n2: "\<bar>of_nat (max 1 (unat (pz_width t))) / ?q + ?T - h\<bar> \<le> 33 / 62" by simp
  show ?thesis unfolding constrained_height_def Let_def
    by (rule rat_clamp_near [OF h]) (use n1 n2 in simp)
qed

text \<open>A corrected size is one: corrected again, from whatever accepted size and drag direction, it
  moves by at most a pixel in each axis, which the window accepts without a further correction. So the
  application never argues with a window manager that honours its requests.\<close>

theorem correction_stable:
  assumes "1 / 4 \<le> usable_scale scale" "usable_scale scale \<le> 1000"
  shows "physical_size_close
    (aspect_constrained_size (aspect_constrained_size r a advanced scale d) a' advanced scale d')
    (aspect_constrained_size r a advanced scale d)"
proof -
  let ?s = "usable_scale scale" and ?t = "aspect_constrained_size r a advanced scale d"
  let ?h = "constrained_height r a advanced ?s d" and ?h' = "constrained_height ?t a' advanced ?s d'"
  have near: "\<bar>?h' - ?h\<bar> \<le> 33 / 62" by (rule constrained_height_again [OF assms])
  have "workspace_width ?h' ?s advanced - workspace_width ?h ?s advanced = (?h' - ?h) * workspace_aspect_ratio advanced"
    by (simp add: workspace_width_def algebra_simps)
  also have "\<bar>\<dots>\<bar> \<le> 33 / 62 * (37 / 20)"
    unfolding abs_mult using near ratio_bounds [of advanced] by (intro mult_mono) simp_all
  finally have wide: "\<bar>workspace_width ?h' ?s advanced - workspace_width ?h ?s advanced\<bar> \<le> 1" by simp
  have "\<bar>round ?h' - round ?h\<bar> \<le> 1" using round_near near by fastforce
  moreover note round_near [OF wide]
  ultimately have "int (abs_diff_u32 (pz_height (aspect_constrained_size ?t a' advanced scale d')) (pz_height ?t)) \<le> 1"
    "int (abs_diff_u32 (pz_width (aspect_constrained_size ?t a' advanced scale d')) (pz_width ?t)) \<le> 1"
    unfolding abs_diff_int constrained_size_eq [OF assms] by simp_all
  then show ?thesis by (simp add: physical_size_close_def)
qed

theorem correction_stable_witness:
  "physical_size_close
    (aspect_constrained_size (aspect_constrained_size \<lparr>pz_width = 900, pz_height = 830\<rparr> \<lparr>pz_width = 746, pz_height = 830\<rparr> False (Some (5 / 4)) None)
       \<lparr>pz_width = 746, pz_height = 830\<rparr> False (Some (5 / 4)) (Some Dir_east))
    (aspect_constrained_size \<lparr>pz_width = 900, pz_height = 830\<rparr> \<lparr>pz_width = 746, pz_height = 830\<rparr> False (Some (5 / 4)) None)"
  by (rule correction_stable) (simp_all add: usable_scale_def)

end
