(* ===== verification/App_State.thy ===== *)
theory App_State
  imports Control Telemetry_Reader
begin

text \<open>
  \<open>src/app.rs\<close>, the state behind the window: the requests a person makes, what the control worker
  answers, and how an answer changes what is shown. Fields the source keeps as \<open>f32\<close> are exact
  rationals; texts for people (message tables, labels) are not modelled, so a diagnostic keeps the detail
  it was made from.
\<close>

section \<open>Texts kept from errors\<close>

definition RAW_DETAIL_MAX_CHARS :: nat where "RAW_DETAIL_MAX_CHARS = 512"

text \<open>The first \<open>n\<close> characters of a UTF-8 text, and how many it has. The mark that something was
  left out is the character U+2026.\<close>

fun take_chars :: "nat \<Rightarrow> string \<Rightarrow> string" where
  "take_chars n [] = []"
| "take_chars n (c # cs) = (if cont c then c # take_chars n cs
     else case n of 0 \<Rightarrow> [] | Suc m \<Rightarrow> c # take_chars m cs)"

definition char_count :: "string \<Rightarrow> nat" where
  "char_count s = length (filter (\<lambda>c. \<not> cont c) s)"

definition ELLIPSIS :: string where "ELLIPSIS = map char_of [0xE2 :: nat, 0x80, 0xA6]"

definition raw_detail :: "string \<Rightarrow> string" where
  "raw_detail value = take_chars RAW_DETAIL_MAX_CHARS value
     @ (if char_count value > RAW_DETAIL_MAX_CHARS then ELLIPSIS else [])"

datatype platform_issue = Issue_readback u8 | Issue_raw string

definition read_error_set :: "u8 \<Rightarrow> u8 option" where
  "read_error_set m = (if m \<noteq> 0 then Some m else None)"

definition error_set_contains :: "u8 \<Rightarrow> u8 \<Rightarrow> bool" where
  "error_set_contains s b \<longleftrightarrow> and s b \<noteq> 0"

datatype ui_diagnostic = Diag_lighting string | Diag_platform platform_issue | Diag_hardware string

datatype ui_error_kind = Err_initialization | Err_fan | Err_profile | Err_lighting | Err_platform | Err_refresh

datatype ui_status = Acer_connected | Acer_nvidia_connected | Read_only_connected | Connecting_controls
  | Platform_refreshed | Settings_confirmed | Lighting_confirmed | Applied_without_readback
  | Writing_and_verifying | Profile_verified profile_apply_receipt | Gpu_mismatch int int
  | Partial_capabilities "ui_diagnostic list" | Readback_failed u8 | Failure ui_error_kind string

section \<open>Requests\<close>

datatype gui_fan_mode = Fan_auto | Fan_manual | Fan_maximum

datatype gui_profile = Gp_low_power | Gp_quiet | Gp_balanced | Gp_performance | Gp_turbo

definition gui_profiles :: "gui_profile list" where
  "gui_profiles = [Gp_low_power, Gp_quiet, Gp_balanced, Gp_performance, Gp_turbo]"

fun gui_profile_sysfs :: "gui_profile \<Rightarrow> string" where
  "gui_profile_sysfs Gp_low_power = ''low-power''"
| "gui_profile_sysfs Gp_quiet = ''quiet''"
| "gui_profile_sysfs Gp_balanced = ''balanced''"
| "gui_profile_sysfs Gp_performance = ''balanced-performance''"
| "gui_profile_sysfs Gp_turbo = ''performance''"

fun gui_profile_from_hardware :: "platform_profile \<Rightarrow> gui_profile" where
  "gui_profile_from_hardware Eco = Gp_low_power"
| "gui_profile_from_hardware Quiet = Gp_quiet"
| "gui_profile_from_hardware Balanced = Gp_balanced"
| "gui_profile_from_hardware Performance = Gp_performance"
| "gui_profile_from_hardware Turbo = Gp_turbo"

definition gui_profile_from_raw :: "string \<Rightarrow> gui_profile option" where
  "gui_profile_from_raw raw = find (\<lambda>p. gui_profile_sysfs p = raw) gui_profiles"

definition gui_performance_is_turbo :: "control_capabilities option \<Rightarrow> bool" where
  "gui_performance_is_turbo caps = (case caps of None \<Rightarrow> True
     | Some c \<Rightarrow> cc_reference_model c \<or> list_ex (\<lambda>choice. pc_raw choice = ''performance'' \<and> pc_label choice = ''Turbo'')
         (prc_choices (cc_profiles c)))"

definition profile_from_raw_for_machine :: "string \<Rightarrow> bool \<Rightarrow> gui_profile option" where
  "profile_from_raw_for_machine raw turbo = (if \<not> turbo \<and> raw = ''performance'' then Some Gp_performance
     else gui_profile_from_raw raw)"

record manual_fan_request =
  mf_cpu_percent :: u8
  mf_gpu_percent :: u8

record lighting_apply_request =
  la_device_id :: string
  la_state_readable :: bool
  la_mode :: lighting_mode
  la_brightness :: u8
  la_speed :: u8
  la_color :: rgb
  la_zone_colors :: "rgb list"

record lighting_power_request =
  lp_device_id :: string
  lp_enabled :: bool

datatype platform_action = Pa_refresh | Pa_battery_limit bool | Pa_battery_calibration bool
  | Pa_usb_charging usb_charging | Pa_keyboard_timeout bool | Pa_boot_sound bool | Pa_lcd_override bool
  | Pa_rear_logo rear_logo_state

datatype control_action = Ac_initialize | Ac_fan_mode gui_fan_mode | Ac_manual_fans manual_fan_request
  | Ac_profile string | Ac_lighting_apply lighting_apply_request | Ac_lighting_power lighting_power_request
  | Ac_platform platform_action | Ac_refresh

definition touches_platform :: "control_action \<Rightarrow> bool" where
  "touches_platform a \<longleftrightarrow> (case a of Ac_initialize \<Rightarrow> True | Ac_platform _ \<Rightarrow> True | Ac_refresh \<Rightarrow> True | _ \<Rightarrow> False)"

definition action_error_kind :: "control_action \<Rightarrow> ui_error_kind" where
  "action_error_kind a = (case a of Ac_initialize \<Rightarrow> Err_initialization | Ac_fan_mode _ \<Rightarrow> Err_fan
     | Ac_manual_fans _ \<Rightarrow> Err_fan | Ac_profile _ \<Rightarrow> Err_profile | Ac_lighting_apply _ \<Rightarrow> Err_lighting
     | Ac_lighting_power _ \<Rightarrow> Err_lighting | Ac_platform _ \<Rightarrow> Err_platform | Ac_refresh \<Rightarrow> Err_refresh)"

record control_request =
  cr_action :: control_action
  cr_foreground :: bool

definition foreground_request :: "control_action \<Rightarrow> control_request" where
  "foreground_request a = \<lparr>cr_action = a, cr_foreground = True\<rparr>"

definition background_request :: "control_action \<Rightarrow> control_request" where
  "background_request a = \<lparr>cr_action = a, cr_foreground = False\<rparr>"

section \<open>Lighting states\<close>

record gui_lighting =
  gl_available :: bool
  gl_powered :: bool
  gl_mode :: u8
  gl_speed :: u8
  gl_brightness :: u8
  gl_direction :: u8
  gl_color :: u32
  gl_zones :: "u32 list"

definition default_lighting :: gui_lighting where
  "default_lighting = \<lparr>gl_available = False, gl_powered = False, gl_mode = 0, gl_speed = 0, gl_brightness = 100,
     gl_direction = 0, gl_color = 0x7C5CFF, gl_zones = [0x36D7FF, 0x6E7CFF, 0x9B6DFF, 0xD15CFF]\<rparr>"

definition parse_response_u8 :: "string \<Rightarrow> u8 \<Rightarrow> string \<Rightarrow> string + u8" where
  "parse_response_u8 v maximum label = res_bind (ok_or (''invalid RGB '' @ label) (parse_u8 v)) (\<lambda>n.
     if n > maximum then Inl (''RGB '' @ label @ '' out of range'') else Inr n)"

definition parse_response_color :: "string \<Rightarrow> string + u32" where
  "parse_response_color v = (if length v \<noteq> 6 \<or> \<not> list_all is_hexdigit v then Inl ''invalid RGB color readback''
     else ok_or ''invalid RGB color readback'' (map_option of_nat (parse_uint 16 u32_max v)))"

definition parse_response_zones :: "string \<Rightarrow> string + u32 list" where
  "parse_response_zones v = (let colors = split_char (CHR '','') v in
     if length colors \<noteq> 4 then Inl ''RGB response must contain four zones''
     else res_map_list parse_response_color colors)"

definition lighting_field :: "string \<Rightarrow> gui_lighting \<times> u8 \<Rightarrow> string + gui_lighting \<times> u8" where
  "lighting_field f s = (case s of (state, seen) \<Rightarrow>
     res_bind (ok_or ''invalid RGB state response'' (split_once (CHR ''='') f)) (\<lambda>(name, v).
       if name = ''power'' then
         (if v = ''on'' then Inr (state\<lparr>gl_powered := True\<rparr>, or seen (push_bit 6 1))
          else if v = ''off'' then Inr (state\<lparr>gl_powered := False\<rparr>, or seen (push_bit 6 1))
          else Inl ''invalid RGB power state'')
       else if name = ''mode'' then res_bind (parse_response_u8 v 7 name) (\<lambda>n. Inr (state\<lparr>gl_mode := n\<rparr>, or seen (push_bit 0 1)))
       else if name = ''speed'' then res_bind (parse_response_u8 v 9 name) (\<lambda>n. Inr (state\<lparr>gl_speed := n\<rparr>, or seen (push_bit 1 1)))
       else if name = ''brightness'' then
         res_bind (parse_response_u8 v 100 name) (\<lambda>n. Inr (state\<lparr>gl_brightness := n\<rparr>, or seen (push_bit 2 1)))
       else if name = ''direction'' then
         res_bind (parse_response_u8 v 2 name) (\<lambda>n. Inr (state\<lparr>gl_direction := n\<rparr>, or seen (push_bit 3 1)))
       else if name = ''color'' then res_bind (parse_response_color v) (\<lambda>n. Inr (state\<lparr>gl_color := n\<rparr>, or seen (push_bit 4 1)))
       else if name = ''zones'' then res_bind (parse_response_zones v) (\<lambda>zs. Inr (state\<lparr>gl_zones := zs\<rparr>, or seen (push_bit 5 1)))
       else Inl ''unknown RGB state field''))"

fun lighting_fields :: "string list \<Rightarrow> gui_lighting \<times> u8 \<Rightarrow> string + gui_lighting \<times> u8" where
  "lighting_fields [] s = Inr s"
| "lighting_fields (f # fs) s = res_bind (lighting_field f s) (lighting_fields fs)"

definition parse_lighting_state :: "string \<Rightarrow> string + gui_lighting" where
  "parse_lighting_state response =
     res_bind (lighting_fields (split_ascii_ws response) (default_lighting\<lparr>gl_available := True\<rparr>, 0)) (\<lambda>(state, seen).
       if seen \<noteq> 0x7F then Inl ''incomplete RGB state response'' else Inr state)"

section \<open>Outcomes\<close>

datatype control_outcome =
    Oc_refreshed_then control_outcome "string + control_outcome"
  | Oc_initialize control_capabilities "string + gui_lighting" "string + memory_hardware_info" "string + platform_state"
  | Oc_fan_mode gui_fan_mode
  | Oc_manual_fans manual_fan_request
  | Oc_profile string profile_apply_receipt
  | Oc_lighting_applied lighting_apply_request "gui_lighting option"
  | Oc_lighting_powered gui_lighting
  | Oc_platform platform_action platform_state
  | Oc_refresh control_capabilities "string + gui_lighting" "string + platform_state"

record control_update =
  cu_request :: control_request
  cu_result :: "string + control_outcome"

section \<open>Telemetry shown\<close>

definition TELEMETRY_HISTORY_CAPACITY :: nat where "TELEMETRY_HISTORY_CAPACITY = 120"
definition PROFILE_SYNC_GRACE_SAMPLES :: nat where "PROFILE_SYNC_GRACE_SAMPLES = 12"
definition PROFILE_MISMATCH_DEBOUNCE_SAMPLES :: nat where "PROFILE_MISMATCH_DEBOUNCE_SAMPLES = 2"
definition TELEMETRY_RETRY_MAX_SECONDS :: nat where "TELEMETRY_RETRY_MAX_SECONDS = 8"

record shown_telemetry =
  sh_cpu_temperature_c :: "rat option"
  sh_cpu_load_percent :: "rat option"
  sh_memory_used_mib :: "nat option"
  sh_memory_total_mib :: "nat option"
  sh_cpu_fan_rpm :: "u32 option"
  sh_cpu_fan_max_rpm :: u32
  sh_gpu_temperature_c :: "rat option"
  sh_gpu_sleeping :: bool
  sh_gpu_load_percent :: "rat option"
  sh_gpu_fan_rpm :: "u32 option"
  sh_gpu_fan_max_rpm :: u32
  sh_gpu_aux_fan_rpm :: "u32 option"
  sh_additional_fans :: "(string \<times> u32) list"
  sh_gpu_power_w :: "rat option"
  sh_gpu_pstate :: "string option"
  sh_gpu_memory_used_mib :: "u64 option"
  sh_gpu_memory_total_mib :: "u64 option"
  sh_gpu_graphics_clock_mhz :: "u32 option"
  sh_gpu_memory_clock_mhz :: "u32 option"
  sh_gpu_core_offset_mhz :: "int option"
  sh_gpu_memory_offset_mhz :: "int option"
  sh_gpu_offsets_uniform :: "bool option"
  sh_gpu_enforced_power_limit_w :: "rat option"
  sh_gpu_maximum_power_limit_w :: "rat option"
  sh_gpu_clock_event_reasons :: "u64 option"
  sh_gpu_error :: "nvidia_detail list option"
  sh_battery_percent :: "nat option"
  sh_battery_status :: "battery_status option"
  sh_ac_online :: "bool option"
  sh_usb_power_online :: "bool option"

record telemetry_point =
  tp_cpu_load_percent :: "rat option"
  tp_memory_load_percent :: "rat option"
  tp_gpu_load_percent :: "rat option"
  tp_gpu_memory_load_percent :: "rat option"
  tp_cpu_temperature_c :: "rat option"
  tp_gpu_temperature_c :: "rat option"
  tp_gpu_power_w :: "rat option"
  tp_gpu_power_limit_w :: "rat option"
  tp_gpu_graphics_clock_mhz :: "rat option"
  tp_gpu_memory_clock_mhz :: "rat option"

definition ratio_percent :: "nat option \<Rightarrow> nat option \<Rightarrow> rat option" where
  "ratio_percent used total_mib = (case (used, total_mib) of
      (Some u, Some t) \<Rightarrow> if t > 0 then Some (of_nat (min u t) * 100 / of_nat t) else None
    | _ \<Rightarrow> None)"

definition or_option :: "'a option \<Rightarrow> 'a option \<Rightarrow> 'a option" where
  "or_option a b = (case a of Some x \<Rightarrow> Some x | None \<Rightarrow> b)"

definition point_of_telemetry :: "shown_telemetry \<Rightarrow> telemetry_point" where
  "point_of_telemetry v = (let gpu_zero = (if sh_gpu_sleeping v then Some 0 else None) in
     \<lparr>tp_cpu_load_percent = sh_cpu_load_percent v,
      tp_memory_load_percent = ratio_percent (sh_memory_used_mib v) (sh_memory_total_mib v),
      tp_gpu_load_percent = or_option gpu_zero (sh_gpu_load_percent v),
      tp_gpu_memory_load_percent = ratio_percent (map_option unat (sh_gpu_memory_used_mib v))
        (map_option unat (sh_gpu_memory_total_mib v)),
      tp_cpu_temperature_c = sh_cpu_temperature_c v, tp_gpu_temperature_c = sh_gpu_temperature_c v,
      tp_gpu_power_w = or_option gpu_zero (sh_gpu_power_w v),
      tp_gpu_power_limit_w = sh_gpu_enforced_power_limit_w v,
      tp_gpu_graphics_clock_mhz = or_option gpu_zero (map_option (\<lambda>c. of_nat (unat c)) (sh_gpu_graphics_clock_mhz v)),
      tp_gpu_memory_clock_mhz = or_option gpu_zero (map_option (\<lambda>c. of_nat (unat c)) (sh_gpu_memory_clock_mhz v))\<rparr>)"

definition no_point :: telemetry_point where
  "no_point = \<lparr>tp_cpu_load_percent = None, tp_memory_load_percent = None, tp_gpu_load_percent = None,
     tp_gpu_memory_load_percent = None, tp_cpu_temperature_c = None, tp_gpu_temperature_c = None,
     tp_gpu_power_w = None, tp_gpu_power_limit_w = None, tp_gpu_graphics_clock_mhz = None,
     tp_gpu_memory_clock_mhz = None\<rparr>"

text \<open>The history is an array written in a ring.\<close>

record telemetry_history =
  th_samples :: "telemetry_point list"
  th_next :: nat
  th_len :: nat

definition empty_history :: telemetry_history where
  "empty_history = \<lparr>th_samples = replicate TELEMETRY_HISTORY_CAPACITY no_point, th_next = 0, th_len = 0\<rparr>"

definition history_push :: "telemetry_point \<Rightarrow> telemetry_history \<Rightarrow> telemetry_history" where
  "history_push p h = h\<lparr>th_samples := (th_samples h)[th_next h := p],
     th_next := (th_next h + 1) mod TELEMETRY_HISTORY_CAPACITY,
     th_len := min (th_len h + 1) TELEMETRY_HISTORY_CAPACITY\<rparr>"

definition history_get :: "telemetry_history \<Rightarrow> nat \<Rightarrow> telemetry_point option" where
  "history_get h i = (if i \<ge> th_len h then None
     else let start = (if th_len h = TELEMETRY_HISTORY_CAPACITY then th_next h else 0) in
       Some (th_samples h ! ((start + i) mod TELEMETRY_HISTORY_CAPACITY)))"

datatype telemetry_health = Health_connecting | Health_online | Health_reconnecting nat

datatype health_state = Healthy | Applying | Warning

text \<open>\<open>telemetry_retry_delay\<close>, in seconds.\<close>

definition telemetry_retry_delay :: "nat \<Rightarrow> nat" where
  "telemetry_retry_delay consecutive_failures =
     min (2 ^ min (consecutive_failures - 1) 3) TELEMETRY_RETRY_MAX_SECONDS"

section \<open>The state of the window\<close>

record profile_sync =
  py_target :: "gui_profile option"
  py_grace_samples :: nat
  py_mismatch_samples :: nat

definition no_sync :: profile_sync where
  "no_sync = \<lparr>py_target = None, py_grace_samples = 0, py_mismatch_samples = 0\<rparr>"

record app_state =
  ap_product_name :: string
  ap_model_name :: string
  ap_telemetry :: shown_telemetry
  ap_hardware :: hardware_info
  ap_history :: telemetry_history
  ap_fan_mode :: gui_fan_mode
  ap_cpu_fan_percent :: u8
  ap_gpu_fan_percent :: u8
  ap_platform_profile :: gui_profile
  ap_platform_profile_raw :: "string option"
  ap_capabilities :: "control_capabilities option"
  ap_profile_sync :: profile_sync
  ap_lighting :: gui_lighting
  ap_last_applied :: "lighting_apply_request list"
  ap_lighting_error :: "string option"
  ap_platform :: "platform_state option"
  ap_platform_busy :: bool
  ap_platform_error :: "platform_issue option"
  ap_hardware_error :: "string option"
  ap_platform_revision :: u64
  ap_logo_last_brightness :: u8
  ap_control_busy :: bool
  ap_health :: health_state
  ap_status :: ui_status
  ap_controls_enabled :: bool
  ap_telemetry_health :: telemetry_health
  ap_telemetry_error :: "string option"

definition no_telemetry :: shown_telemetry where
  "no_telemetry = \<lparr>sh_cpu_temperature_c = None, sh_cpu_load_percent = None, sh_memory_used_mib = None,
     sh_memory_total_mib = None, sh_cpu_fan_rpm = None, sh_cpu_fan_max_rpm = 8000, sh_gpu_temperature_c = None,
     sh_gpu_sleeping = False, sh_gpu_load_percent = None, sh_gpu_fan_rpm = None, sh_gpu_fan_max_rpm = 7000,
     sh_gpu_aux_fan_rpm = None, sh_additional_fans = [], sh_gpu_power_w = None, sh_gpu_pstate = None,
     sh_gpu_memory_used_mib = None, sh_gpu_memory_total_mib = None, sh_gpu_graphics_clock_mhz = None,
     sh_gpu_memory_clock_mhz = None, sh_gpu_core_offset_mhz = None, sh_gpu_memory_offset_mhz = None,
     sh_gpu_offsets_uniform = None, sh_gpu_enforced_power_limit_w = None, sh_gpu_maximum_power_limit_w = None,
     sh_gpu_clock_event_reasons = None, sh_gpu_error = None, sh_battery_percent = None, sh_battery_status = None,
     sh_ac_online = None, sh_usb_power_online = None\<rparr>"

definition no_memory_info :: memory_hardware_info where
  "no_memory_info = \<lparr>mh_total_mib = None, mh_speed_mt_s = None, mh_memory_type = None, mh_channels = None, mh_modules = None\<rparr>"

definition no_hardware_info :: hardware_info where
  "no_hardware_info = \<lparr>hi_cpu = no_cpu_info, hi_gpu = no_gpu_info, hi_memory = no_memory_info\<rparr>"

definition default_app_state :: app_state where
  "default_app_state = \<lparr>ap_product_name = ''ASense'', ap_model_name = ''Acer Predator PHN16-72'',
     ap_telemetry = no_telemetry, ap_hardware = no_hardware_info, ap_history = empty_history, ap_fan_mode = Fan_auto,
     ap_cpu_fan_percent = 50, ap_gpu_fan_percent = 50, ap_platform_profile = Gp_balanced,
     ap_platform_profile_raw = Some (gui_profile_sysfs Gp_balanced), ap_capabilities = None,
     ap_profile_sync = no_sync, ap_lighting = default_lighting, ap_last_applied = [], ap_lighting_error = None,
     ap_platform = None, ap_platform_busy = False, ap_platform_error = None, ap_hardware_error = None,
     ap_platform_revision = 0, ap_logo_last_brightness = 100, ap_control_busy = False, ap_health = Healthy,
     ap_status = Acer_connected, ap_controls_enabled = True, ap_telemetry_health = Health_online,
     ap_telemetry_error = None\<rparr>"

definition boot_state :: app_state where
  "boot_state = default_app_state\<lparr>ap_platform_busy := True, ap_control_busy := True, ap_health := Applying,
     ap_status := Connecting_controls, ap_controls_enabled := False, ap_telemetry_health := Health_connecting\<rparr>"

end
