(* ===== verification/App_Update.thy ===== *)
theory App_Update
  imports App_State
begin

text \<open>
  \<open>src/app.rs\<close>, how the state behind the window changes: a request begins or fails, the control
  worker answers, a telemetry sample arrives.
\<close>

section \<open>Requests\<close>

definition begin_control_request :: "control_request \<Rightarrow> app_state \<Rightarrow> bool \<times> app_state" where
  "begin_control_request rq v = (if ap_control_busy v then (False, v) else
     (let v = v\<lparr>ap_control_busy := True\<rparr>;
          v = (if touches_platform (cr_action rq) then v\<lparr>ap_platform_busy := True\<rparr> else v);
          v = (if cr_foreground rq then v\<lparr>ap_health := Applying,
                 ap_status := (case cr_action rq of Ac_platform _ \<Rightarrow> Writing_and_verifying | _ \<Rightarrow> ap_status v)\<rparr> else v)
      in (True, v)))"

definition fail_control_request :: "control_request \<Rightarrow> string \<Rightarrow> app_state \<Rightarrow> app_state" where
  "fail_control_request rq error v =
     (let v = v\<lparr>ap_control_busy := False\<rparr>;
          detail = raw_detail error;
          v = (if touches_platform (cr_action rq)
               then v\<lparr>ap_platform_busy := False, ap_platform_error := Some (Issue_raw detail)\<rparr> else v);
          initial_failed = (cr_action rq = Ac_initialize \<and> ap_capabilities v = None);
          v = (if initial_failed then v\<lparr>ap_controls_enabled := False\<rparr> else v)
      in if cr_foreground rq \<or> initial_failed
         then v\<lparr>ap_health := Warning, ap_status := Failure (action_error_kind (cr_action rq)) detail\<rparr> else v)"

section \<open>Answers\<close>

definition finish_control_success :: "ui_status \<Rightarrow> app_state \<Rightarrow> app_state" where
  "finish_control_success status v = v\<lparr>ap_health := Healthy, ap_status := status\<rparr>"

definition lighting_apply_status :: "bool \<Rightarrow> ui_status" where
  "lighting_apply_status state_readable = (if state_readable then Settings_confirmed else Applied_without_readback)"

definition store_platform_state :: "platform_state \<Rightarrow> app_state \<Rightarrow> platform_issue option \<times> app_state" where
  "store_platform_state p v =
     (let error = map_option Issue_readback (read_error_set (ps_read_error_mask p));
          v = (case ps_rear_logo p of
                 Some logo \<Rightarrow> if lg_brightness logo > 0 then v\<lparr>ap_logo_last_brightness := lg_brightness logo\<rparr> else v
               | None \<Rightarrow> v)
      in (error, v\<lparr>ap_platform := Some p, ap_platform_error := error, ap_platform_revision := ap_platform_revision v + 1\<rparr>))"

definition adopt_profile :: "string \<Rightarrow> bool \<Rightarrow> app_state \<Rightarrow> app_state" where
  "adopt_profile raw turbo v = (case profile_from_raw_for_machine raw turbo of
     Some p \<Rightarrow> v\<lparr>ap_platform_profile := p\<rparr> | None \<Rightarrow> v)"

definition store_lighting :: "string + gui_lighting \<Rightarrow> app_state \<Rightarrow> ui_diagnostic list \<times> app_state" where
  "store_lighting lighting v = (case lighting of
      Inr l \<Rightarrow> ([], v\<lparr>ap_lighting := l, ap_lighting_error := None\<rparr>)
    | Inl error \<Rightarrow> ([Diag_lighting (raw_detail error)], v\<lparr>ap_lighting_error := Some (raw_detail error)\<rparr>))"

definition store_platform :: "string + platform_state \<Rightarrow> app_state \<Rightarrow> ui_diagnostic list \<times> app_state" where
  "store_platform platform v = (case platform of
      Inr p \<Rightarrow> (case store_platform_state p v of (issue, v) \<Rightarrow>
        ((case issue of Some i \<Rightarrow> [Diag_platform i] | None \<Rightarrow> []), v))
    | Inl error \<Rightarrow> ([Diag_platform (Issue_raw (raw_detail error))], v\<lparr>ap_platform_error := Some (Issue_raw (raw_detail error))\<rparr>))"

definition apply_capability_snapshot ::
  "control_capabilities \<Rightarrow> string + gui_lighting \<Rightarrow> string + platform_state \<Rightarrow> app_state \<Rightarrow>
    (bool \<times> ui_diagnostic list) \<times> app_state" where
  "apply_capability_snapshot caps lighting platform v =
     (let turbo_alias = gui_performance_is_turbo (Some caps);
          v = v\<lparr>ap_platform_profile_raw := prc_current (cc_profiles caps)\<rparr>;
          v = (case ap_platform_profile_raw v of Some raw \<Rightarrow> adopt_profile raw turbo_alias v | None \<Rightarrow> v);
          v = v\<lparr>ap_model_name := cc_vendor caps @ '' '' @ cc_product caps, ap_capabilities := Some caps,
                ap_controls_enabled := True\<rparr>
      in case store_lighting lighting v of (lit, v) \<Rightarrow>
         (case store_platform platform v of (plat, v) \<Rightarrow>
           ((eq_ignore_case (str_trim (cc_vendor caps)) ''acer'', lit @ plat), v)))"

definition finish_snapshot :: "ui_diagnostic list \<Rightarrow> ui_status \<Rightarrow> app_state \<Rightarrow> app_state" where
  "finish_snapshot diagnostics status v = (if diagnostics = [] then finish_control_success status v
     else v\<lparr>ap_health := Warning, ap_status := Partial_capabilities diagnostics\<rparr>)"

definition store_memory :: "string + memory_hardware_info \<Rightarrow> app_state \<Rightarrow> ui_diagnostic list \<times> app_state" where
  "store_memory memory v = (case memory of
      Inr m \<Rightarrow> ([], v\<lparr>ap_hardware := (ap_hardware v)\<lparr>hi_memory := m\<rparr>, ap_hardware_error := None\<rparr>)
    | Inl error \<Rightarrow> ([Diag_hardware (raw_detail error)], v\<lparr>ap_hardware_error := Some (raw_detail error)\<rparr>))"

text \<open>What every answer does first, and what a refused one does then.\<close>

definition release_control :: "control_request \<Rightarrow> app_state \<Rightarrow> app_state" where
  "release_control rq v = (let v = v\<lparr>ap_control_busy := False\<rparr> in
     if touches_platform (cr_action rq) then v\<lparr>ap_platform_busy := False\<rparr> else v)"

definition refuse_update :: "control_request \<Rightarrow> string \<Rightarrow> app_state \<Rightarrow> app_state" where
  "refuse_update rq error v =
     (let detail = raw_detail error;
          v = (case cr_action rq of Ac_profile _ \<Rightarrow> v\<lparr>ap_profile_sync := no_sync\<rparr> | _ \<Rightarrow> v);
          v = (if touches_platform (cr_action rq) then v\<lparr>ap_platform_error := Some (Issue_raw detail)\<rparr> else v);
          v = (if cr_action rq = Ac_initialize \<and> ap_capabilities v = None then v\<lparr>ap_controls_enabled := False\<rparr> else v)
      in if cr_foreground rq \<or> cr_action rq = Ac_initialize
         then v\<lparr>ap_health := Warning, ap_status := Failure (action_error_kind (cr_action rq)) detail\<rparr> else v)"

text \<open>The answers that carry no other answer.\<close>

definition confirm_profile :: "string \<Rightarrow> profile_apply_receipt \<Rightarrow> app_state \<Rightarrow> app_state" where
  "confirm_profile raw receipt v =
     (let v = v\<lparr>ap_platform_profile_raw := Some raw\<rparr>;
          profile = profile_from_raw_for_machine raw (gui_performance_is_turbo (ap_capabilities v));
          v = (case profile of Some p \<Rightarrow> v\<lparr>ap_platform_profile := p\<rparr> | None \<Rightarrow> v)
      in finish_control_success (Profile_verified receipt)
        (v\<lparr>ap_profile_sync := \<lparr>py_target = profile, py_grace_samples = PROFILE_SYNC_GRACE_SAMPLES, py_mismatch_samples = 0\<rparr>\<rparr>))"

definition confirm_lighting :: "lighting_apply_request \<Rightarrow> gui_lighting option \<Rightarrow> app_state \<Rightarrow> app_state" where
  "confirm_lighting applied firmware_state v = finish_control_success (lighting_apply_status (firmware_state \<noteq> None))
     (case firmware_state of Some l \<Rightarrow> v\<lparr>ap_lighting := l\<rparr>
      | None \<Rightarrow> v\<lparr>ap_last_applied := filter (\<lambda>previous. la_device_id previous \<noteq> la_device_id applied) (ap_last_applied v)
          @ [applied]\<rparr>)"

definition confirm_platform :: "bool \<Rightarrow> platform_action \<Rightarrow> platform_state \<Rightarrow> app_state \<Rightarrow> app_state" where
  "confirm_platform foreground action p v = (case store_platform_state p v of (issue, v) \<Rightarrow>
     (case issue of
        Some (Issue_readback s) \<Rightarrow> v\<lparr>ap_health := Warning, ap_status := Readback_failed s\<rparr>
      | Some (Issue_raw detail) \<Rightarrow> v\<lparr>ap_health := Warning, ap_status := Failure Err_platform detail\<rparr>
      | None \<Rightarrow> if foreground
          then finish_control_success (if action = Pa_refresh then Platform_refreshed else Settings_confirmed) v else v))"

fun apply_outcome :: "control_request \<Rightarrow> control_outcome \<Rightarrow> app_state \<Rightarrow> app_state" where
  "apply_outcome rq (Oc_refreshed_then refresh result) v =
     (let refreshed = background_request Ac_refresh;
          v = apply_outcome refreshed refresh (release_control refreshed v);
          v = release_control rq v
      in case result of Inl error \<Rightarrow> refuse_update rq error v | Inr outcome \<Rightarrow> apply_outcome rq outcome v)"
| "apply_outcome rq (Oc_initialize caps lighting memory platform) v =
     (case apply_capability_snapshot caps lighting platform v of ((acer_controls, diagnostics), v) \<Rightarrow>
       (case store_memory memory v of (memory_diagnostics, v) \<Rightarrow>
         finish_snapshot (diagnostics @ memory_diagnostics) (if acer_controls then Acer_connected else Read_only_connected) v))"
| "apply_outcome rq (Oc_fan_mode mode) v = finish_control_success Settings_confirmed (v\<lparr>ap_fan_mode := mode\<rparr>)"
| "apply_outcome rq (Oc_manual_fans fans) v = finish_control_success Settings_confirmed
     (v\<lparr>ap_fan_mode := Fan_manual, ap_cpu_fan_percent := mf_cpu_percent fans, ap_gpu_fan_percent := mf_gpu_percent fans\<rparr>)"
| "apply_outcome rq (Oc_profile raw receipt) v = confirm_profile raw receipt v"
| "apply_outcome rq (Oc_lighting_applied applied firmware_state) v = confirm_lighting applied firmware_state v"
| "apply_outcome rq (Oc_lighting_powered l) v = finish_control_success Lighting_confirmed (v\<lparr>ap_lighting := l\<rparr>)"
| "apply_outcome rq (Oc_platform action p) v = confirm_platform (cr_foreground rq) action p v"
| "apply_outcome rq (Oc_refresh caps lighting platform) v =
     (case apply_capability_snapshot caps lighting platform v of ((_, diagnostics), v) \<Rightarrow>
       finish_snapshot diagnostics Platform_refreshed v)"

definition apply_control_update :: "control_update \<Rightarrow> app_state \<Rightarrow> app_state" where
  "apply_control_update u v = (let v = release_control (cu_request u) v in
     case cu_result u of Inl error \<Rightarrow> refuse_update (cu_request u) error v
     | Inr outcome \<Rightarrow> apply_outcome (cu_request u) outcome v)"

section \<open>Telemetry\<close>

definition clear_profile_mismatch :: "bool \<Rightarrow> app_state \<Rightarrow> app_state" where
  "clear_profile_mismatch nvidia_offsets_available v = (case ap_status v of
      Gpu_mismatch _ _ \<Rightarrow> v\<lparr>ap_health := Healthy,
        ap_status := (if nvidia_offsets_available then Acer_nvidia_connected else Acer_connected)\<rparr>
    | _ \<Rightarrow> v)"

definition observe_profile :: "gui_profile \<Rightarrow> app_state \<Rightarrow> app_state" where
  "observe_profile p v = v\<lparr>ap_platform_profile := p, ap_platform_profile_raw := Some (gui_profile_sysfs p)\<rparr>"

definition offset_readback :: "int option \<Rightarrow> int option \<Rightarrow> bool option \<Rightarrow> (int \<times> int \<times> bool) option" where
  "offset_readback core_mhz memory_mhz uniform = (case (core_mhz, memory_mhz, uniform) of
     (Some c, Some m, Some u) \<Rightarrow> Some (c, m, u) | _ \<Rightarrow> None)"

text \<open>Whether the offsets read back are those of the profile; \<open>None\<close> when they could not be read.\<close>

definition offsets_match :: "platform_profile \<Rightarrow> (int \<times> int \<times> bool) option \<Rightarrow> bool option" where
  "offsets_match profile readback = map_option (\<lambda>(c, m, u).
     u \<and> (c, m) = (if profile = Turbo then (100, 200) else (0, 0))) readback"

text \<open>The part of \<open>reconcile_profile_telemetry\<close> after the grace period.\<close>

definition show_profile :: "gui_profile \<Rightarrow> (int \<times> int \<times> bool) option \<Rightarrow> bool option \<Rightarrow> app_state \<Rightarrow> app_state" where
  "show_profile observed readback sync v = (case sync of
      Some False \<Rightarrow>
        (let n = min (py_mismatch_samples (ap_profile_sync v) + 1) u8_max;
             v = v\<lparr>ap_profile_sync := (ap_profile_sync v)\<lparr>py_mismatch_samples := n\<rparr>\<rparr>
         in if n < PROFILE_MISMATCH_DEBOUNCE_SAMPLES then v
            else (let v = observe_profile observed v in case readback of None \<Rightarrow> v
              | Some (c, m, _) \<Rightarrow> v\<lparr>ap_health := Warning, ap_status := Gpu_mismatch c m\<rparr>))
    | Some True \<Rightarrow> clear_profile_mismatch True
        ((observe_profile observed v)\<lparr>ap_profile_sync := (ap_profile_sync v)\<lparr>py_mismatch_samples := 0\<rparr>\<rparr>)
    | None \<Rightarrow> clear_profile_mismatch False
        ((observe_profile observed v)\<lparr>ap_profile_sync := (ap_profile_sync v)\<lparr>py_mismatch_samples := 0\<rparr>\<rparr>))"

definition reconcile_profile_telemetry ::
  "platform_profile \<Rightarrow> int option \<Rightarrow> int option \<Rightarrow> bool option \<Rightarrow> app_state \<Rightarrow> app_state" where
  "reconcile_profile_telemetry profile core_mhz memory_mhz uniform v = (if ap_control_busy v then v else
     (let observed = gui_profile_from_hardware profile;
          readback = offset_readback core_mhz memory_mhz uniform;
          sync = offsets_match profile readback
      in case py_target (ap_profile_sync v) of
           Some target \<Rightarrow>
             if observed = target \<and> sync \<noteq> Some False
             then clear_profile_mismatch (sync \<noteq> None) ((observe_profile target v)\<lparr>ap_profile_sync := no_sync\<rparr>)
             else if py_grace_samples (ap_profile_sync v) > 0
             then v\<lparr>ap_profile_sync := (ap_profile_sync v)\<lparr>py_grace_samples := py_grace_samples (ap_profile_sync v) - 1\<rparr>\<rparr>
             else show_profile observed readback sync
               (v\<lparr>ap_profile_sync := (ap_profile_sync v)\<lparr>py_target := None, py_mismatch_samples := 0\<rparr>\<rparr>)
         | None \<Rightarrow> show_profile observed readback sync v))"

definition merge_privileged_memory :: "memory_hardware_info \<Rightarrow> memory_hardware_info \<Rightarrow> memory_hardware_info" where
  "merge_privileged_memory current privileged =
     \<lparr>mh_total_mib = or_option (mh_total_mib current) (mh_total_mib privileged),
      mh_speed_mt_s = or_option (mh_speed_mt_s current) (mh_speed_mt_s privileged),
      mh_memory_type = or_option (mh_memory_type current) (mh_memory_type privileged),
      mh_channels = or_option (mh_channels current) (mh_channels privileged),
      mh_modules = or_option (mh_modules current) (mh_modules privileged)\<rparr>"

definition channel_rpm :: "fan_rpm_channel list \<Rightarrow> u8 \<Rightarrow> u32 option" where
  "channel_rpm channels index = Option.bind (find (\<lambda>c. rc_index c = index) channels) rc_rpm"

definition additional_fans :: "fan_rpm_channel list \<Rightarrow> (string \<times> u32) list" where
  "additional_fans channels = List.map_filter (\<lambda>c. map_option (\<lambda>rpm. (rc_label c, rpm)) (rc_rpm c))
     (filter (\<lambda>c. rc_index c \<ge> 4) channels)"

definition shown_sample :: "system_telemetry \<Rightarrow> shown_telemetry" where
  "shown_sample s = (let g = st_gpu s; p = st_power_supply s; channels = st_fan_rpm_channels s in
     \<lparr>sh_cpu_temperature_c = st_cpu_temperature_c s, sh_cpu_load_percent = st_cpu_utilization_percent s,
      sh_memory_used_mib = Some (st_memory_used_mib s), sh_memory_total_mib = Some (st_memory_total_mib s),
      sh_cpu_fan_rpm = channel_rpm channels 1, sh_cpu_fan_max_rpm = 8000,
      sh_gpu_temperature_c = gt_temperature_c g, sh_gpu_sleeping = gt_sleeping g,
      sh_gpu_load_percent = gt_utilization_percent g, sh_gpu_fan_rpm = channel_rpm channels 2,
      sh_gpu_fan_max_rpm = 7000, sh_gpu_aux_fan_rpm = channel_rpm channels 3,
      sh_additional_fans = additional_fans channels, sh_gpu_power_w = gt_power_w g, sh_gpu_pstate = gt_pstate g,
      sh_gpu_memory_used_mib = gt_memory_used_mib g, sh_gpu_memory_total_mib = gt_memory_total_mib g,
      sh_gpu_graphics_clock_mhz = gt_graphics_clock_mhz g, sh_gpu_memory_clock_mhz = gt_memory_clock_mhz g,
      sh_gpu_core_offset_mhz = gt_core_offset_mhz g, sh_gpu_memory_offset_mhz = gt_memory_offset_mhz g,
      sh_gpu_offsets_uniform = gt_offsets_uniform g, sh_gpu_enforced_power_limit_w = gt_enforced_power_limit_w g,
      sh_gpu_maximum_power_limit_w = gt_maximum_power_limit_w g, sh_gpu_clock_event_reasons = gt_clock_event_reasons g,
      sh_gpu_error = gt_nvidia_error g, sh_battery_percent = ps_battery_percent p,
      sh_battery_status = ps_battery_status p, sh_ac_online = ps_ac_online p, sh_usb_power_online = ps_usb_power_online p\<rparr>)"

definition pwm_percent :: "fan_channel_state \<Rightarrow> rat option" where
  "pwm_percent c = map_option (\<lambda>raw. of_nat (unat raw) * 100 / of_nat (unat PWM_MAX)) (ch_pwm_raw c)"

definition gui_mode_of :: "fan_mode \<Rightarrow> gui_fan_mode" where
  "gui_mode_of m = (case m of Mode_automatic \<Rightarrow> Fan_auto | Mode_manual \<Rightarrow> Fan_manual | Mode_maximum \<Rightarrow> Fan_maximum)"

text \<open>\<open>percent.round() as u8\<close>; a PWM of at most 255 gives at most 100.\<close>

definition rounded_percent :: "rat \<Rightarrow> u8" where
  "rounded_percent p = of_int (min 255 (max 0 (round p)))"

definition show_fans :: "fan_state \<Rightarrow> app_state \<Rightarrow> app_state" where
  "show_fans fans v =
     (let cpu = fan_cpu fans; gpu = fan_gpu fans;
          v = (case (ch_mode cpu, ch_mode gpu) of
                 (Some c, Some g) \<Rightarrow> if c = g then v\<lparr>ap_fan_mode := gui_mode_of c\<rparr> else v
               | _ \<Rightarrow> v)
      in if ch_mode cpu = Some Mode_manual \<and> ch_mode gpu = Some Mode_manual
         then (let v = (case pwm_percent cpu of Some p \<Rightarrow> v\<lparr>ap_cpu_fan_percent := rounded_percent p\<rparr> | None \<Rightarrow> v)
               in case pwm_percent gpu of Some p \<Rightarrow> v\<lparr>ap_gpu_fan_percent := rounded_percent p\<rparr> | None \<Rightarrow> v)
         else v)"

definition show_sample_profile :: "system_telemetry \<Rightarrow> app_state \<Rightarrow> app_state" where
  "show_sample_profile s v =
     (if (case ap_capabilities v of Some c \<Rightarrow> cc_reference_model c | None \<Rightarrow> False)
      then (let v = (if py_target (ap_profile_sync v) = None then v\<lparr>ap_platform_profile_raw := st_profile_raw s\<rparr> else v) in
        case st_profile s of
          Some profile \<Rightarrow> reconcile_profile_telemetry profile (gt_core_offset_mhz (st_gpu s))
            (gt_memory_offset_mhz (st_gpu s)) (gt_offsets_uniform (st_gpu s)) v
        | None \<Rightarrow> if py_target (ap_profile_sync v) \<noteq> None
            then (let n = py_grace_samples (ap_profile_sync v) - 1;
                      v = v\<lparr>ap_profile_sync := (ap_profile_sync v)\<lparr>py_grace_samples := n\<rparr>\<rparr>
                  in if n = 0 then v\<lparr>ap_profile_sync := no_sync, ap_platform_profile_raw := st_profile_raw s\<rparr> else v)
            else v)
      else (let v = v\<lparr>ap_profile_sync := no_sync, ap_platform_profile_raw := st_profile_raw s\<rparr> in
        case st_profile_raw s of
          Some raw \<Rightarrow> adopt_profile raw (gui_performance_is_turbo (ap_capabilities v)) v
        | None \<Rightarrow> v))"

definition apply_telemetry :: "system_telemetry \<Rightarrow> app_state \<Rightarrow> app_state" where
  "apply_telemetry s v =
     (let hardware = (st_hardware s)\<lparr>hi_memory := merge_privileged_memory (hi_memory (st_hardware s)) (hi_memory (ap_hardware v))\<rparr>;
          v = v\<lparr>ap_hardware := hardware, ap_telemetry := shown_sample s,
                ap_history := history_push (point_of_telemetry (shown_sample s)) (ap_history v)\<rparr>
      in show_fans (st_fans s) (show_sample_profile s v))"

end
