(* ===== verification/App_Worker.thy ===== *)
theory App_Worker
  imports App_Update
begin

text \<open>
  \<open>src/app.rs\<close>, the control worker: one thread that holds at most one connected client and executes
  the requests of the window one at a time. The connection is the \<open>link\<close> of the client model; opening
  and closing it, the texts of errors, and JSON are parameters.
\<close>

section \<open>The held client\<close>

record 'c desk =
  dk_link :: "'c link"
  dk_open :: "('c, unit) client_io"
  dk_close :: "'c \<Rightarrow> 'c"
  dk_sleep :: "'c \<Rightarrow> 'c"
  dk_text :: "control_error \<Rightarrow> string"
  dk_json :: "string \<Rightarrow> string + control_capabilities"

text \<open>Whether a client is held, and the world its stream lives in.\<close>

type_synonym 'c held = "bool \<times> 'c"
type_synonym ('c, 'a) worker = "'c held \<Rightarrow> (string + 'a) \<times> 'c held"

text \<open>A stream whose handshake fails is dropped with the client that was being built.\<close>

definition client_connect :: "'c desk \<Rightarrow> ('c, unit) client_io" where
  "client_connect dk = io_then (dk_open dk) (\<lambda>c. case negotiate (dk_link dk) c of
     (Inl e, c) \<Rightarrow> (Inl e, dk_close dk c) | (Inr _, c) \<Rightarrow> (Inr (), c))"

definition ensure_client :: "'c desk \<Rightarrow> ('c, unit) worker" where
  "ensure_client dk s = (case s of (held, c) \<Rightarrow> if held then (Inr (), s)
     else (case client_connect dk c of (Inl e, c) \<Rightarrow> (Inl (dk_text dk e), (False, c)) | (Inr _, c) \<Rightarrow> (Inr (), (True, c))))"

definition with_control :: "'c desk \<Rightarrow> ('c, 'a) client_io \<Rightarrow> ('c, 'a) worker" where
  "with_control dk operation s = (case ensure_client dk s of
     (Inl e, s) \<Rightarrow> (Inl e, s)
   | (Inr _, (_, c)) \<Rightarrow> (case operation c of
       (Inr a, c) \<Rightarrow> (Inr a, (True, c))
     | (Inl e, c) \<Rightarrow> (Inl (dk_text dk e), if invalidates_session e then (False, dk_close dk c) else (True, c))))"

definition partial_control_result :: "'c desk \<Rightarrow> ('c, 'a) client_io \<Rightarrow> ('c, string + 'a) client_io" where
  "partial_control_result dk m = io_try m (\<lambda>r. case r of Inr v \<Rightarrow> io_ret (Inr v)
     | Inl e \<Rightarrow> if invalidates_session e then io_err e else io_ret (Inl (dk_text dk e)))"

section \<open>Snapshots\<close>

definition parse_lighting_response :: "string \<Rightarrow> control_error + gui_lighting" where
  "parse_lighting_response response =
     res_map_err (\<lambda>e. Protocol (''invalid RGB response: '' @ e)) (parse_lighting_state response)"

definition keyboard_lighting_snapshot :: "'c desk \<Rightarrow> control_capabilities \<Rightarrow> ('c, gui_lighting) client_io" where
  "keyboard_lighting_snapshot dk caps =
     (if list_ex (\<lambda>d. ld_target d = Keyboard \<and> ld_backend d = Zoned_wmi \<and> ld_state_readable d) (cc_lighting caps)
      then io_bind (client_keyboard_state (dk_link dk)) (\<lambda>r. io_of (parse_lighting_response r))
      else if list_ex (\<lambda>d. ld_target d = Keyboard) (cc_lighting caps)
      then io_ret (default_lighting\<lparr>gl_available := True\<rparr>)
      else io_ret default_lighting)"

definition empty_platform_state :: platform_state where
  "empty_platform_state = \<lparr>ps_battery_limit = None, ps_battery_calibration = None, ps_usb_charging = None,
     ps_keyboard_timeout = None, ps_boot_sound = None, ps_lcd_override = None, ps_rear_logo = None, ps_read_error_mask = 0\<rparr>"

definition platform_snapshot :: "'c desk \<Rightarrow> control_capabilities \<Rightarrow> ('c, platform_state) client_io" where
  "platform_snapshot dk caps = (let p = cc_platform caps in
     if cap_battery_limit p \<or> cap_battery_calibration p \<or> cap_usb_off_charging p \<or> cap_keyboard_timeout p
       \<or> cap_boot_sound p \<or> cap_lcd_override p \<or> cap_rear_logo p
     then client_platform_state (dk_link dk) else io_ret empty_platform_state)"

definition initialize_control :: "'c desk \<Rightarrow> ('c, control_outcome) worker" where
  "initialize_control dk = with_control dk
     (io_bind (client_capabilities (dk_json dk) (dk_link dk)) (\<lambda>caps.
      io_bind (partial_control_result dk (keyboard_lighting_snapshot dk caps)) (\<lambda>lighting.
      io_bind (partial_control_result dk (client_memory_hardware_info (dk_link dk))) (\<lambda>memory.
      io_bind (partial_control_result dk (platform_snapshot dk caps)) (\<lambda>platform.
        io_ret (Oc_initialize caps lighting memory platform))))))"

definition refresh_snapshot :: "'c desk \<Rightarrow> ('c, control_outcome) client_io" where
  "refresh_snapshot dk =
     io_bind (client_capabilities (dk_json dk) (dk_link dk)) (\<lambda>caps.
     io_bind (partial_control_result dk (keyboard_lighting_snapshot dk caps)) (\<lambda>lighting.
     io_bind (partial_control_result dk (platform_snapshot dk caps)) (\<lambda>platform.
       io_ret (Oc_refresh caps lighting platform))))"

text \<open>The held client is asked whether it still answers; it is replaced only when its session is over.\<close>

definition reconnect_control :: "'c desk \<Rightarrow> ('c, control_outcome) worker" where
  "reconnect_control dk s = (case s of (held, c) \<Rightarrow>
     if \<not> held then with_control dk (refresh_snapshot dk) s
     else (case client_ping (dk_link dk) c of
        (Inr _, c) \<Rightarrow> with_control dk (refresh_snapshot dk) (True, c)
      | (Inl e, c) \<Rightarrow> if invalidates_session e then with_control dk (refresh_snapshot dk) (False, dk_close dk c)
          else (Inl (dk_text dk e), (True, c))))"

section \<open>Executing a request\<close>

definition fan_mode_operation :: "'c desk \<Rightarrow> gui_fan_mode \<Rightarrow> ('c, unit) client_io" where
  "fan_mode_operation dk mode = (case mode of
      Fan_auto \<Rightarrow> client_fan_auto (dk_link dk)
    | Fan_manual \<Rightarrow> io_err (Invalid_request ''manual fan mode requires explicit fan speeds'')
    | Fan_maximum \<Rightarrow> client_fan_maximum (dk_link dk))"

definition profile_operation :: "'c desk \<Rightarrow> string \<Rightarrow> ('c, control_outcome) client_io" where
  "profile_operation dk raw = io_bind (client_set_profile (dk_link dk) raw) (\<lambda>receipt.
     if pr_firmware_profile receipt \<noteq> raw
     then io_err (Protocol (''control receipt mismatch: requested '' @ raw @ '', firmware confirmed '' @ pr_firmware_profile receipt))
     else io_ret (Oc_profile raw receipt))"

definition lighting_apply_operation :: "'c desk \<Rightarrow> lighting_apply_request \<Rightarrow> ('c, control_outcome) client_io" where
  "lighting_apply_operation dk rq =
     io_bind (client_lighting_apply (dk_link dk) (la_device_id rq) (la_mode rq) (la_brightness rq) (la_speed rq)
       (la_color rq) (la_zone_colors rq)) (\<lambda>response.
     io_bind (if la_state_readable rq then io_bind (io_of (parse_lighting_response response)) (\<lambda>l. io_ret (Some l))
         else io_ret None) (\<lambda>firmware_state.
       io_ret (Oc_lighting_applied rq firmware_state)))"

definition lighting_power_operation :: "'c desk \<Rightarrow> lighting_power_request \<Rightarrow> ('c, control_outcome) client_io" where
  "lighting_power_operation dk rq = io_bind (client_lighting_power (dk_link dk) (lp_device_id rq) (lp_enabled rq))
     (\<lambda>response. io_bind (io_of (parse_lighting_response response)) (\<lambda>l. io_ret (Oc_lighting_powered l)))"

definition platform_operation :: "'c desk \<Rightarrow> platform_action \<Rightarrow> ('c, platform_state) client_io" where
  "platform_operation dk action = (let ln = dk_link dk in case action of
      Pa_refresh \<Rightarrow> client_platform_state ln
    | Pa_battery_limit b \<Rightarrow> client_set_battery_limit ln b
    | Pa_battery_calibration b \<Rightarrow> client_set_battery_calibration ln b
    | Pa_usb_charging u \<Rightarrow> client_set_usb_charging ln u
    | Pa_keyboard_timeout b \<Rightarrow> client_set_keyboard_timeout ln b
    | Pa_boot_sound b \<Rightarrow> client_set_boot_sound ln b
    | Pa_lcd_override b \<Rightarrow> client_set_lcd_override ln b
    | Pa_rear_logo l \<Rightarrow> client_set_rear_logo ln l)"

definition initialize_twice :: "'c desk \<Rightarrow> ('c, control_outcome) worker" where
  "initialize_twice dk s = (case initialize_control dk s of
      (Inr first, s) \<Rightarrow> (Inr first, s)
    | (Inl _, (held, c)) \<Rightarrow> initialize_control dk (held, dk_sleep dk c))"

definition execute_control_action_inner :: "'c desk \<Rightarrow> control_action \<Rightarrow> ('c, control_outcome) worker" where
  "execute_control_action_inner dk action = (case action of
      Ac_initialize \<Rightarrow> initialize_twice dk
    | Ac_fan_mode mode \<Rightarrow> with_control dk (io_bind (fan_mode_operation dk mode) (\<lambda>_. io_ret (Oc_fan_mode mode)))
    | Ac_manual_fans rq \<Rightarrow> with_control dk (io_bind (client_fan_manual (dk_link dk) (mf_cpu_percent rq) (mf_gpu_percent rq))
        (\<lambda>_. io_ret (Oc_manual_fans rq)))
    | Ac_profile raw \<Rightarrow> with_control dk (profile_operation dk raw)
    | Ac_lighting_apply rq \<Rightarrow> with_control dk (lighting_apply_operation dk rq)
    | Ac_lighting_power rq \<Rightarrow> with_control dk (lighting_power_operation dk rq)
    | Ac_platform p \<Rightarrow> with_control dk (io_bind (platform_operation dk p) (\<lambda>st. io_ret (Oc_platform p st)))
    | Ac_refresh \<Rightarrow> reconnect_control dk)"

definition execute_control_action :: "'c desk \<Rightarrow> control_action \<Rightarrow> ('c, control_outcome) worker" where
  "execute_control_action dk action s =
     (if action = Ac_initialize \<or> action = Ac_refresh then execute_control_action_inner dk action s
      else if fst s then execute_control_action_inner dk action s
      else (case reconnect_control dk s of
          (Inl e, s) \<Rightarrow> (Inl e, s)
        | (Inr refresh, s) \<Rightarrow> (case execute_control_action_inner dk action s of
            (r, s) \<Rightarrow> (Inr (Oc_refreshed_then refresh r), s))))"

section \<open>The window, the worker and the queues between them\<close>

definition CONTROL_COMMAND_QUEUE_CAPACITY :: nat where "CONTROL_COMMAND_QUEUE_CAPACITY = 1"

text \<open>The bounded channel of commands, the request the worker is executing, the completions that wait
  for the window, and the flag that remembers a capability refresh after a resume.\<close>

record 'c desktop =
  dt_view :: app_state
  dt_channel :: "control_request list"
  dt_running :: "control_request option"
  dt_results :: "control_update list"
  dt_held :: "'c held"
  dt_refresh :: bool

definition submit :: "control_request \<Rightarrow> 'c desktop \<Rightarrow> (string + unit) \<times> 'c desktop" where
  "submit rq d = (if length (dt_channel d) \<ge> CONTROL_COMMAND_QUEUE_CAPACITY
     then (Inl ''control worker queue is full'', d) else (Inr (), d\<lparr>dt_channel := dt_channel d @ [rq]\<rparr>))"

definition queue_control_request :: "control_request \<Rightarrow> 'c desktop \<Rightarrow> bool \<times> 'c desktop" where
  "queue_control_request rq d = (case begin_control_request rq (dt_view d) of
      (False, _) \<Rightarrow> (False, d)
    | (True, v) \<Rightarrow> (case submit rq (d\<lparr>dt_view := v\<rparr>) of
        (Inl e, d) \<Rightarrow> (False, d\<lparr>dt_view := fail_control_request rq e (dt_view d)\<rparr>)
      | (Inr _, d) \<Rightarrow> (True, d)))"

text \<open>Manual is a two-step operation in the window: choosing it sends nothing.\<close>

definition set_fan_mode :: "gui_fan_mode \<Rightarrow> 'c desktop \<Rightarrow> 'c desktop" where
  "set_fan_mode mode d = (if mode = Fan_manual then d else snd (queue_control_request (foreground_request (Ac_fan_mode mode)) d))"

definition set_manual_fans :: "manual_fan_request \<Rightarrow> 'c desktop \<Rightarrow> 'c desktop" where
  "set_manual_fans rq d = snd (queue_control_request (foreground_request (Ac_manual_fans rq)) d)"

definition set_platform_profile :: "string \<Rightarrow> 'c desktop \<Rightarrow> 'c desktop" where
  "set_platform_profile raw d = snd (queue_control_request (foreground_request (Ac_profile raw)) d)"

definition apply_lighting :: "lighting_apply_request \<Rightarrow> 'c desktop \<Rightarrow> 'c desktop" where
  "apply_lighting rq d = snd (queue_control_request (foreground_request (Ac_lighting_apply rq)) d)"

definition set_lighting_power :: "lighting_power_request \<Rightarrow> 'c desktop \<Rightarrow> 'c desktop" where
  "set_lighting_power rq d = snd (queue_control_request (foreground_request (Ac_lighting_power rq)) d)"

definition on_platform_action :: "platform_action \<Rightarrow> 'c desktop \<Rightarrow> 'c desktop" where
  "on_platform_action a d = snd (queue_control_request (foreground_request (Ac_platform a)) d)"

definition on_refresh :: "'c desktop \<Rightarrow> 'c desktop" where
  "on_refresh d = snd (queue_control_request (foreground_request Ac_refresh) d)"

text \<open>The worker receives a request, executes it, and publishes the completion.\<close>

definition worker_receive :: "'c desktop \<Rightarrow> 'c desktop" where
  "worker_receive d = (case (dt_running d, dt_channel d) of
     (None, rq # rest) \<Rightarrow> d\<lparr>dt_running := Some rq, dt_channel := rest\<rparr> | _ \<Rightarrow> d)"

definition publish :: "control_update \<Rightarrow> 'c desktop \<Rightarrow> 'c desktop" where
  "publish u d = d\<lparr>dt_results := dt_results d @ [u]\<rparr>"

definition worker_execute :: "'c desk \<Rightarrow> 'c desktop \<Rightarrow> 'c desktop" where
  "worker_execute dk d = (case dt_running d of None \<Rightarrow> d
     | Some rq \<Rightarrow> (case execute_control_action dk (cr_action rq) (dt_held d) of (r, held) \<Rightarrow>
         publish \<lparr>cu_request = rq, cu_result = r\<rparr> (d\<lparr>dt_running := None, dt_held := held\<rparr>)))"

definition receive_result :: "'c desktop \<Rightarrow> 'c desktop" where
  "receive_result d = (case dt_results d of [] \<Rightarrow> d
     | u # us \<Rightarrow> d\<lparr>dt_results := us, dt_view := apply_control_update u (dt_view d)\<rparr>)"

text \<open>The telemetry updates the window receives.\<close>

datatype telemetry_update = Sample_update system_telemetry bool | Error_update string nat

definition receive_telemetry :: "telemetry_update \<Rightarrow> 'c desktop \<Rightarrow> 'c desktop" where
  "receive_telemetry u d = (case u of
      Sample_update s refresh_capabilities \<Rightarrow>
        (let v = (apply_telemetry s (dt_view d))\<lparr>ap_telemetry_health := Health_online, ap_telemetry_error := None\<rparr>;
             d = d\<lparr>dt_view := v, dt_refresh := dt_refresh d \<or> refresh_capabilities\<rparr>
         in if dt_refresh d
            then (case queue_control_request (background_request Ac_refresh) d of
                (True, d) \<Rightarrow> d\<lparr>dt_refresh := False\<rparr> | (False, d) \<Rightarrow> d)
            else d)
    | Error_update message retry_after \<Rightarrow> d\<lparr>dt_view := (dt_view d)\<lparr>
        ap_telemetry_health := Health_reconnecting retry_after, ap_telemetry_error := Some (raw_detail message)\<rparr>\<rparr>)"

definition desktop_boot :: "'c \<Rightarrow> 'c desktop" where
  "desktop_boot c = (let d = \<lparr>dt_view = boot_state, dt_channel = [], dt_running = None, dt_results = [],
       dt_held = (False, c), dt_refresh = False\<rparr>; rq = background_request Ac_initialize in
     case submit rq d of (Inl e, d) \<Rightarrow> publish \<lparr>cu_request = rq, cu_result = Inl e\<rparr> d | (Inr _, d) \<Rightarrow> d)"

end
