(* ===== verification/App_Safety.thy ===== *)
theory App_Safety
  imports App_Worker Wire_Codecs
begin

text \<open>
  What the desktop application guarantees about its own state: the history ring is the last samples, one
  request is in flight exactly while the window is busy, a profile is called verified only when the
  firmware confirmed the one asked for, and which lighting readbacks a session survives.
\<close>

section \<open>The history\<close>

definition ring_holds :: "telemetry_history \<Rightarrow> telemetry_point list \<Rightarrow> bool" where
  "ring_holds h ps \<longleftrightarrow> length (th_samples h) = TELEMETRY_HISTORY_CAPACITY
     \<and> th_len h = min (length ps) TELEMETRY_HISTORY_CAPACITY
     \<and> th_next h = length ps mod TELEMETRY_HISTORY_CAPACITY
     \<and> (\<forall>k. k < length ps \<longrightarrow> length ps \<le> k + TELEMETRY_HISTORY_CAPACITY \<longrightarrow>
          th_samples h ! (k mod TELEMETRY_HISTORY_CAPACITY) = ps ! k)"

lemma ring_holds_empty: "ring_holds empty_history []"
  by (simp add: ring_holds_def empty_history_def TELEMETRY_HISTORY_CAPACITY_def)

lemma same_slot:
  fixes k n c :: nat
  assumes "k < n" "n < k + c" shows "k mod c \<noteq> n mod c"
proof
  assume "k mod c = n mod c"
  then have "c dvd n - k" using assms(1) by (metis mod_eq_dvd_iff_nat less_imp_le)
  then show False using assms by (auto dest: dvd_imp_le)
qed

lemma ring_holds_push:
  assumes "ring_holds h ps" shows "ring_holds (history_push p h) (ps @ [p])"
proof -
  have slot: "th_samples (history_push p h) ! (k mod TELEMETRY_HISTORY_CAPACITY) = (ps @ [p]) ! k"
    if "k < Suc (length ps)" "Suc (length ps) \<le> k + TELEMETRY_HISTORY_CAPACITY" for k
  proof (cases "k = length ps")
    case True
    then show ?thesis using assms
      by (simp add: history_push_def ring_holds_def TELEMETRY_HISTORY_CAPACITY_def)
  next
    case False
    then have "k mod TELEMETRY_HISTORY_CAPACITY \<noteq> length ps mod TELEMETRY_HISTORY_CAPACITY"
      using that by (intro same_slot) simp_all
    then show ?thesis using assms that False
      by (simp add: history_push_def ring_holds_def nth_append)
  qed
  show ?thesis using assms slot
    by (auto simp: ring_holds_def history_push_def mod_Suc_eq)
qed

lemma ring_holds_fold: "ring_holds h ps \<Longrightarrow> ring_holds (fold history_push qs h) (ps @ qs)"
proof (induction qs arbitrary: h ps)
  case (Cons q qs)
  then show ?case using ring_holds_push [OF Cons.prems, of q] by fastforce
qed simp

lemma ring_holds_get:
  assumes "ring_holds h ps" "i < th_len h"
  shows "history_get h i = Some (drop (length ps - TELEMETRY_HISTORY_CAPACITY) ps ! i)"
proof (cases "length ps < TELEMETRY_HISTORY_CAPACITY")
  case True
  then show ?thesis using assms by (simp add: history_get_def ring_holds_def Let_def)
next
  case False
  let ?k = "length ps - TELEMETRY_HISTORY_CAPACITY + i"
  have len: "th_len h = TELEMETRY_HISTORY_CAPACITY" using assms(1) False by (simp add: ring_holds_def)
  have "(th_next h + i) mod TELEMETRY_HISTORY_CAPACITY = (length ps + i) mod TELEMETRY_HISTORY_CAPACITY"
    using assms(1) by (simp add: ring_holds_def mod_add_left_eq)
  also have "length ps + i = ?k + TELEMETRY_HISTORY_CAPACITY" using False by simp
  also have "\<dots> mod TELEMETRY_HISTORY_CAPACITY = ?k mod TELEMETRY_HISTORY_CAPACITY" by (rule mod_add_self2)
  finally have "(th_next h + i) mod TELEMETRY_HISTORY_CAPACITY = ?k mod TELEMETRY_HISTORY_CAPACITY" .
  moreover have "?k < length ps" "length ps \<le> ?k + TELEMETRY_HISTORY_CAPACITY"
    using assms(2) False len by simp_all
  ultimately show ?thesis using assms len by (simp add: history_get_def ring_holds_def Let_def)
qed

text \<open>C31: the history the charts are drawn from is the last 120 samples in the order they arrived, however
  many have been pushed, and nothing else can be read from it.\<close>

theorem history_is_last_samples:
  fixes ps
  defines "h \<equiv> fold history_push ps empty_history"
  shows "map (history_get h) [0..<TELEMETRY_HISTORY_CAPACITY + 1]
    = map Some (drop (length ps - 120) ps) @ replicate (121 - length (drop (length ps - 120) ps)) None"
proof -
  have ring: "ring_holds h ps" using ring_holds_fold [OF ring_holds_empty, of ps] by (simp add: h_def)
  have len: "th_len h = min (length ps) 120" using ring by (simp add: ring_holds_def TELEMETRY_HISTORY_CAPACITY_def)
  show ?thesis
  proof (rule nth_equalityI)
    show "length (map (history_get h) [0..<TELEMETRY_HISTORY_CAPACITY + 1])
      = length (map Some (drop (length ps - 120) ps) @ replicate (121 - length (drop (length ps - 120) ps)) None)"
      by (simp add: TELEMETRY_HISTORY_CAPACITY_def)
  next
    fix i assume "i < length (map (history_get h) [0..<TELEMETRY_HISTORY_CAPACITY + 1])"
    then have i: "i < 121" by (simp add: TELEMETRY_HISTORY_CAPACITY_def)
    show "map (history_get h) [0..<TELEMETRY_HISTORY_CAPACITY + 1] ! i
      = (map Some (drop (length ps - 120) ps) @ replicate (121 - length (drop (length ps - 120) ps)) None) ! i"
      using i len ring_holds_get [OF ring, of i]
      by (cases "i < th_len h") (auto simp: nth_append history_get_def TELEMETRY_HISTORY_CAPACITY_def simp del: upt_Suc)
  qed
qed

section \<open>One request at a time\<close>

definition idle_flags :: "app_state \<Rightarrow> bool" where
  "idle_flags v \<longleftrightarrow> \<not> ap_control_busy v \<and> \<not> ap_platform_busy v"

named_theorems flag_simps \<open>operations that leave the busy flags alone\<close>

lemma flags_of_updates [flag_simps]:
  "ap_control_busy (finish_control_success st v) = ap_control_busy v"
  "ap_platform_busy (finish_control_success st v) = ap_platform_busy v"
  "ap_control_busy (finish_snapshot ds st v) = ap_control_busy v"
  "ap_platform_busy (finish_snapshot ds st v) = ap_platform_busy v"
  "ap_control_busy (snd (store_memory mem v)) = ap_control_busy v"
  "ap_platform_busy (snd (store_memory mem v)) = ap_platform_busy v"
  "ap_control_busy (snd (store_platform_state p v)) = ap_control_busy v"
  "ap_platform_busy (snd (store_platform_state p v)) = ap_platform_busy v"
  "ap_control_busy (adopt_profile raw turbo v) = ap_control_busy v"
  "ap_platform_busy (adopt_profile raw turbo v) = ap_platform_busy v"
  "ap_control_busy (snd (store_lighting lit v)) = ap_control_busy v"
  "ap_platform_busy (snd (store_lighting lit v)) = ap_platform_busy v"
  by (auto simp: finish_control_success_def finish_snapshot_def store_memory_def store_platform_state_def
      adopt_profile_def store_lighting_def Let_def split: sum.splits option.splits)

lemma flags_store_platform [flag_simps]:
  "ap_control_busy (snd (store_platform r v)) = ap_control_busy v"
  "ap_platform_busy (snd (store_platform r v)) = ap_platform_busy v"
  by (auto simp: store_platform_def store_platform_state_def Let_def split: sum.splits option.splits)

lemma flags_snapshot [flag_simps]:
  "ap_control_busy (snd (apply_capability_snapshot caps lit plat v)) = ap_control_busy v"
  "ap_platform_busy (snd (apply_capability_snapshot caps lit plat v)) = ap_platform_busy v"
  using flags_store_platform flags_of_updates
  by (auto simp: apply_capability_snapshot_def Let_def case_prod_beta split: option.splits)

lemma flags_confirm [flag_simps]:
  "ap_control_busy (confirm_profile raw rc v) = ap_control_busy v"
  "ap_platform_busy (confirm_profile raw rc v) = ap_platform_busy v"
  "ap_control_busy (confirm_lighting la st v) = ap_control_busy v"
  "ap_platform_busy (confirm_lighting la st v) = ap_platform_busy v"
  by (auto simp: confirm_profile_def confirm_lighting_def flag_simps Let_def split: option.splits)

lemma flags_confirm_platform [flag_simps]:
  "ap_control_busy (confirm_platform fg a p v) = ap_control_busy v"
  "ap_platform_busy (confirm_platform fg a p v) = ap_platform_busy v"
proof -
  obtain issue v' where s: "store_platform_state p v = (issue, v')" by (cases "store_platform_state p v")
  have "ap_control_busy v' = ap_control_busy v" "ap_platform_busy v' = ap_platform_busy v"
    using flags_of_updates(7,8) [of p v] s by simp_all
  then show "ap_control_busy (confirm_platform fg a p v) = ap_control_busy v"
    "ap_platform_busy (confirm_platform fg a p v) = ap_platform_busy v"
    by (auto simp: confirm_platform_def s flag_simps split: option.splits platform_issue.splits)
qed

lemma flags_refuse [flag_simps]:
  "ap_control_busy (refuse_update rq x v) = ap_control_busy v"
  "ap_platform_busy (refuse_update rq x v) = ap_platform_busy v"
  by (auto simp: refuse_update_def Let_def split: control_action.splits)

lemma idle_release: "idle_flags v \<Longrightarrow> idle_flags (release_control rq v)"
  by (simp add: idle_flags_def release_control_def Let_def)

lemma idle_outcome: "idle_flags v \<Longrightarrow> idle_flags (apply_outcome rq oc v)"
proof (induction rq oc v rule: apply_outcome.induct)
  case (1 rq refresh r v)
  have refreshed: "idle_flags (apply_outcome (background_request Ac_refresh) refresh
      (release_control (background_request Ac_refresh) v))" (is "idle_flags ?v")
    by (rule 1(1)) (simp_all add: idle_release 1(3))
  show ?case
  proof (cases r)
    case (Inl x)
    then show ?thesis using idle_release [OF refreshed, of rq] by (simp add: Let_def idle_flags_def flag_simps)
  next
    case (Inr outcome)
    have "idle_flags (apply_outcome rq outcome (release_control rq ?v))"
      by (rule 1(2)) (simp_all add: Inr idle_release refreshed)
    then show ?thesis using Inr by (simp add: Let_def)
  qed
qed (auto simp: idle_flags_def flag_simps case_prod_beta)

text \<open>The requests that were accepted and whose completion the window has not shown, oldest first.\<close>

definition outstanding :: "'c desktop \<Rightarrow> control_request list" where
  "outstanding d = map cu_request (dt_results d) @ (case dt_running d of None \<Rightarrow> [] | Some rq \<Rightarrow> [rq]) @ dt_channel d"

inductive desktop_step :: "'c desk \<Rightarrow> 'c desktop \<Rightarrow> 'c desktop \<Rightarrow> bool" for dk where
  asked: "desktop_step dk d (snd (queue_control_request rq d))"
| received: "desktop_step dk d (worker_receive d)"
| executed: "desktop_step dk d (worker_execute dk d)"
| shown: "desktop_step dk d (receive_result d)"
| sampled: "desktop_step dk d (receive_telemetry u d)"

inductive desktop_reachable :: "'c desk \<Rightarrow> 'c desktop \<Rightarrow> bool" for dk where
  booted: "desktop_reachable dk (desktop_boot c)"
| stepped: "desktop_reachable dk d \<Longrightarrow> desktop_step dk d d' \<Longrightarrow> desktop_reachable dk d'"

definition one_in_flight :: "'c desktop \<Rightarrow> bool" where
  "one_in_flight d \<longleftrightarrow> (if ap_control_busy (dt_view d)
     then \<exists>rq. outstanding d = [rq] \<and> ap_platform_busy (dt_view d) = touches_platform (cr_action rq)
     else outstanding d = [] \<and> \<not> ap_platform_busy (dt_view d))"

lemma begin_flags:
  "\<not> ap_control_busy v \<Longrightarrow> \<not> ap_platform_busy v \<Longrightarrow> \<exists>v'. begin_control_request rq v = (True, v') \<and> ap_control_busy v'
     \<and> ap_platform_busy v' = touches_platform (cr_action rq)"
  "ap_control_busy v \<Longrightarrow> begin_control_request rq v = (False, v)"
  by (simp_all add: begin_control_request_def Let_def)

lemma outstanding_view [simp]: "outstanding (d\<lparr>dt_view := v\<rparr>) = outstanding d" "outstanding (d\<lparr>dt_refresh := b\<rparr>) = outstanding d"
  by (simp_all add: outstanding_def)

lemma queue_when_busy: "ap_control_busy (dt_view d) \<Longrightarrow> queue_control_request rq d = (False, d)"
  by (simp add: queue_control_request_def begin_flags)

lemma queue_when_idle:
  assumes "one_in_flight d" "\<not> ap_control_busy (dt_view d)"
  shows "fst (queue_control_request rq d) \<and> one_in_flight (snd (queue_control_request rq d))
    \<and> outstanding (snd (queue_control_request rq d)) = [rq]"
proof -
  have e: "outstanding d = []" "\<not> ap_platform_busy (dt_view d)" using assms by (simp_all add: one_in_flight_def)
  obtain v' where v: "begin_control_request rq (dt_view d) = (True, v')" "ap_control_busy v'"
    "ap_platform_busy v' = touches_platform (cr_action rq)" using begin_flags(1) assms(2) e(2) by blast
  have "dt_channel d = []" "dt_running d = None" "dt_results d = []" using e(1) by (auto simp: outstanding_def split: option.splits)
  then show ?thesis using v
    by (simp add: queue_control_request_def submit_def CONTROL_COMMAND_QUEUE_CAPACITY_def one_in_flight_def outstanding_def)
qed

lemma queue_keeps: "one_in_flight d \<Longrightarrow> one_in_flight (snd (queue_control_request rq d))"
  by (cases "ap_control_busy (dt_view d)") (simp_all add: queue_when_busy queue_when_idle)

lemma flags_show_fans [flag_simps]:
  "ap_control_busy (show_fans f v) = ap_control_busy v" "ap_platform_busy (show_fans f v) = ap_platform_busy v"
  by (simp_all add: show_fans_def Let_def split: option.splits)

lemma flags_profile_parts [flag_simps]:
  "ap_control_busy (clear_profile_mismatch b v) = ap_control_busy v"
  "ap_platform_busy (clear_profile_mismatch b v) = ap_platform_busy v"
  "ap_control_busy (observe_profile p v) = ap_control_busy v"
  "ap_platform_busy (observe_profile p v) = ap_platform_busy v"
  by (simp_all add: clear_profile_mismatch_def observe_profile_def split: ui_status.splits)

lemma flags_show_profile [flag_simps]:
  "ap_control_busy (show_profile g rb sync v) = ap_control_busy v"
  "ap_platform_busy (show_profile g rb sync v) = ap_platform_busy v"
  by (auto simp: show_profile_def Let_def flag_simps split: option.splits bool.splits)

lemma flags_reconcile [flag_simps]:
  "ap_control_busy (reconcile_profile_telemetry p c m u v) = ap_control_busy v"
  "ap_platform_busy (reconcile_profile_telemetry p c m u v) = ap_platform_busy v"
  by (simp_all add: reconcile_profile_telemetry_def Let_def flag_simps split: option.splits)

lemma flags_telemetry [flag_simps]:
  "ap_control_busy (apply_telemetry st v) = ap_control_busy v"
  "ap_platform_busy (apply_telemetry st v) = ap_platform_busy v"
  by (simp_all add: apply_telemetry_def show_sample_profile_def Let_def flag_simps split: option.splits)

lemma one_in_flight_view:
  "ap_control_busy v = ap_control_busy (dt_view d) \<Longrightarrow> ap_platform_busy v = ap_platform_busy (dt_view d) \<Longrightarrow>
    one_in_flight (d\<lparr>dt_view := v\<rparr>) = one_in_flight d"
  by (simp add: one_in_flight_def)

lemma one_in_flight_refresh [simp]: "one_in_flight (d\<lparr>dt_refresh := b\<rparr>) = one_in_flight d"
  by (simp add: one_in_flight_def)

lemma telemetry_keeps: "one_in_flight d \<Longrightarrow> one_in_flight (receive_telemetry u d)"
proof (cases u)
  case (Sample_update st refresh)
  assume d: "one_in_flight d"
  let ?v = "(apply_telemetry st (dt_view d))\<lparr>ap_telemetry_health := Health_online, ap_telemetry_error := None\<rparr>"
  let ?d = "d\<lparr>dt_view := ?v, dt_refresh := dt_refresh d \<or> refresh\<rparr>"
  have e: "one_in_flight ?d"
    using d one_in_flight_view [of ?v d] by (simp add: flag_simps)
  from queue_keeps [OF e, of "background_request Ac_refresh"] e show ?thesis
    unfolding Sample_update receive_telemetry_def Let_def telemetry_update.case
    by (auto split: prod.splits bool.splits)
qed (simp add: receive_telemetry_def one_in_flight_view)

lemma idle_update: "idle_flags (release_control (cu_request u) v) \<Longrightarrow> idle_flags (apply_control_update u v)"
  by (cases "cu_result u") (simp_all add: apply_control_update_def idle_outcome idle_flags_def [of "refuse_update _ _ _"]
      idle_flags_def [of "release_control _ _"] flag_simps)

lemma shown_keeps: "one_in_flight d \<Longrightarrow> one_in_flight (receive_result d)"
proof (cases "dt_results d")
  case (Cons u us)
  assume d: "one_in_flight d"
  have o: "us = []" "outstanding d = [cu_request u]" "dt_running d = None" "dt_channel d = []"
    and b: "ap_control_busy (dt_view d)"
    "ap_platform_busy (dt_view d) = touches_platform (cr_action (cu_request u))"
    using d Cons by (auto simp: one_in_flight_def outstanding_def split: if_splits option.splits)
  have "idle_flags (release_control (cu_request u) (dt_view d))"
    using b by (simp add: idle_flags_def release_control_def Let_def)
  then have "idle_flags (apply_control_update u (dt_view d))"
    by (rule idle_update)
  then show ?thesis using o Cons by (simp add: receive_result_def one_in_flight_def outstanding_def idle_flags_def)
qed (simp add: receive_result_def)

lemma step_keeps: "desktop_step dk d d' \<Longrightarrow> one_in_flight d \<Longrightarrow> one_in_flight d'"
proof (induction rule: desktop_step.induct)
  case (received d)
  then show ?case by (auto simp: one_in_flight_def worker_receive_def outstanding_def split: option.splits list.splits if_splits)
next
  case (executed d)
  then show ?case by (auto simp: one_in_flight_def worker_execute_def publish_def outstanding_def
      split: option.splits if_splits prod.splits)
qed (simp_all add: queue_keeps shown_keeps telemetry_keeps)

lemma boot_one_in_flight: "one_in_flight (desktop_boot c)"
  by (simp add: desktop_boot_def Let_def submit_def CONTROL_COMMAND_QUEUE_CAPACITY_def one_in_flight_def outstanding_def
      boot_state_def background_request_def touches_platform_def)

lemma reachable_one_in_flight: "desktop_reachable dk d \<Longrightarrow> one_in_flight d"
  by (induction rule: desktop_reachable.induct) (blast intro: boot_one_in_flight step_keeps)+

text \<open>C29: over every interleaving of clicks, telemetry, the worker and its completions, the window is busy
  exactly while one request is in flight, and the platform controls are locked exactly while that request
  touches them. A request is taken exactly when the window is idle: it then never meets a full queue, and a
  refused one changes nothing.\<close>

theorem single_flight:
  assumes "desktop_reachable dk d"
  shows "(if ap_control_busy (dt_view d)
      then \<exists>rq. outstanding d = [rq] \<and> ap_platform_busy (dt_view d) = touches_platform (cr_action rq)
      else outstanding d = [] \<and> \<not> ap_platform_busy (dt_view d))
    \<and> (\<forall>rq. fst (queue_control_request rq d) = (\<not> ap_control_busy (dt_view d))
        \<and> outstanding (snd (queue_control_request rq d)) = (if ap_control_busy (dt_view d) then outstanding d else [rq]))"
  using reachable_one_in_flight [OF assms] queue_when_idle [of d] queue_when_busy [of d]
  by (simp add: one_in_flight_def)

text \<open>A second click while the first request runs: nothing is taken until its completion is shown.\<close>

theorem single_flight_witness:
  "let d = worker_receive (desktop_boot ());
       rq = foreground_request (Ac_fan_mode Fan_maximum)
   in ap_control_busy (dt_view d) \<and> \<not> fst (queue_control_request rq d) \<and> outstanding d = [background_request Ac_initialize]"
proof -
  have r: "desktop_reachable dk (worker_receive (desktop_boot ()))" for dk :: "unit desk"
    by (rule stepped [OF booted received])
  have b: "ap_control_busy (dt_view (worker_receive (desktop_boot ())))"
    "outstanding (worker_receive (desktop_boot ())) = [background_request Ac_initialize]"
    by (simp_all add: desktop_boot_def Let_def submit_def CONTROL_COMMAND_QUEUE_CAPACITY_def boot_state_def
        worker_receive_def outstanding_def)
  show ?thesis using single_flight [OF r] b by (simp add: Let_def)
qed

section \<open>A profile is verified when the firmware said so\<close>

lemma status_refuse:
  "ap_status (refuse_update rq x v) = ap_status v \<or> ap_status (refuse_update rq x v) = Failure (action_error_kind (cr_action rq)) (raw_detail x)"
  by (auto simp: refuse_update_def Let_def split: control_action.splits)

lemma with_control_ok: "with_control dk m s = (Inr a, s') \<Longrightarrow> \<exists>c c'. m c = (Inr a, c')"
  by (auto simp: with_control_def split: prod.splits sum.splits if_splits)

lemma refresh_snapshot_ok: "refresh_snapshot dk c = (Inr oc, c') \<Longrightarrow> \<exists>caps lit plat. oc = Oc_refresh caps lit plat"
  unfolding refresh_snapshot_def by (elim io_bind_Inr) (auto simp: io_ret_apply)

lemma initialize_control_ok: "initialize_control dk s = (Inr oc, s') \<Longrightarrow> \<exists>caps lit mem plat. oc = Oc_initialize caps lit mem plat"
  unfolding initialize_control_def by (drule with_control_ok) (elim exE io_bind_Inr, auto simp: io_ret_apply)

lemma with_refresh: "with_control dk (refresh_snapshot dk) s = (Inr oc, s') \<Longrightarrow> \<exists>caps lit plat. oc = Oc_refresh caps lit plat"
  using with_control_ok refresh_snapshot_ok by metis

lemma reconnect_refresh: "reconnect_control dk s = (Inr oc, s') \<Longrightarrow> \<exists>caps lit plat. oc = Oc_refresh caps lit plat"
  unfolding reconnect_control_def
  by (cases s; cases "fst s"; cases "client_ping (dk_link dk) (snd s)"; cases "fst (client_ping (dk_link dk) (snd s))")
    (auto split: if_splits dest: with_refresh)

text \<open>Which outcomes answer an action; a profile is answered by a receipt that names it.\<close>

definition answers :: "control_action \<Rightarrow> control_outcome \<Rightarrow> bool" where
  "answers act oc \<longleftrightarrow> (case act of
      Ac_initialize \<Rightarrow> (\<exists>caps lit mem plat. oc = Oc_initialize caps lit mem plat)
    | Ac_fan_mode mode \<Rightarrow> oc = Oc_fan_mode mode
    | Ac_manual_fans fans \<Rightarrow> oc = Oc_manual_fans fans
    | Ac_profile raw \<Rightarrow> (\<exists>rc. oc = Oc_profile raw rc \<and> pr_firmware_profile rc = raw)
    | Ac_lighting_apply la \<Rightarrow> (\<exists>st. oc = Oc_lighting_applied la st \<and> (st \<noteq> None \<longleftrightarrow> la_state_readable la))
    | Ac_lighting_power lp \<Rightarrow> (\<exists>l. oc = Oc_lighting_powered l)
    | Ac_platform a \<Rightarrow> (\<exists>st. oc = Oc_platform a st)
    | Ac_refresh \<Rightarrow> (\<exists>caps lit plat. oc = Oc_refresh caps lit plat))"

lemma profile_operation_ok:
  "profile_operation dk raw c = (Inr oc, c') \<Longrightarrow> \<exists>rc. oc = Oc_profile raw rc \<and> pr_firmware_profile rc = raw"
  unfolding profile_operation_def by (elim io_bind_Inr) (auto simp: io_ret_apply io_err_apply split: if_splits)

lemma lighting_operation_ok:
  "lighting_apply_operation dk la c = (Inr oc, c') \<Longrightarrow>
    \<exists>st. oc = Oc_lighting_applied la st \<and> (st \<noteq> None \<longleftrightarrow> la_state_readable la)"
  unfolding lighting_apply_operation_def
  by (elim io_bind_Inr) (auto simp: io_ret_apply split: if_splits elim!: io_bind_Inr)

lemma power_operation_ok: "lighting_power_operation dk lp c = (Inr oc, c') \<Longrightarrow> \<exists>l. oc = Oc_lighting_powered l"
  unfolding lighting_power_operation_def by (elim io_bind_Inr) (auto simp: io_ret_apply)

lemma inner_answers:
  assumes "execute_control_action_inner dk act s = (Inr oc, s')" shows "answers act oc"
proof (cases act)
  case Ac_initialize
  then show ?thesis using assms
    by (auto simp: execute_control_action_inner_def initialize_twice_def answers_def dest!: initialize_control_ok
        split: prod.splits sum.splits)
next
  case Ac_refresh
  then show ?thesis using reconnect_refresh [of dk s oc s'] assms by (simp add: execute_control_action_inner_def answers_def)
next
  case (Ac_profile raw)
  then show ?thesis using assms
    by (auto simp: execute_control_action_inner_def answers_def dest!: with_control_ok profile_operation_ok)
next
  case (Ac_lighting_apply la)
  then show ?thesis using assms
    by (auto simp: execute_control_action_inner_def answers_def dest!: with_control_ok lighting_operation_ok)
next
  case (Ac_lighting_power lp)
  then show ?thesis using assms
    by (auto simp: execute_control_action_inner_def answers_def dest!: with_control_ok power_operation_ok)
qed (use assms in \<open>auto simp: execute_control_action_inner_def answers_def io_ret_apply dest!: with_control_ok elim!: io_bind_Inr\<close>)

lemma execute_answers:
  assumes "execute_control_action dk act s = (Inr oc, s')"
  shows "answers act oc \<or> (\<exists>refresh result. \<not> fst s \<and> oc = Oc_refreshed_then refresh result \<and> answers Ac_refresh refresh
    \<and> (\<forall>oc'. result = Inr oc' \<longrightarrow> answers act oc'))"
proof (cases "act = Ac_initialize \<or> act = Ac_refresh \<or> fst s")
  case True
  then have "execute_control_action dk act s = execute_control_action_inner dk act s"
    by (auto simp: execute_control_action_def)
  then show ?thesis using inner_answers [of dk act s oc s'] assms by simp
next
  case False
  obtain x s1 where r: "reconnect_control dk s = (x, s1)" by (cases "reconnect_control dk s")
  obtain y s2 where i: "execute_control_action_inner dk act s1 = (y, s2)" by (cases "execute_control_action_inner dk act s1")
  from assms False r i obtain refresh where "x = Inr refresh" "oc = Oc_refreshed_then refresh y"
    by (auto simp: execute_control_action_def split: sum.splits)
  moreover have "\<exists>caps lit plat. refresh = Oc_refresh caps lit plat"
    using reconnect_refresh [of dk s refresh s1] r \<open>x = Inr refresh\<close> by simp
  moreover have "answers act oc'" if "y = Inr oc'" for oc' using inner_answers [of dk act s1 oc' s2] i that by simp
  ultimately show ?thesis using False by (simp add: answers_def)
qed

lemma status_of_refresh:
  "answers Ac_refresh oc \<Longrightarrow> ap_status (apply_outcome rq oc v) \<noteq> Profile_verified rc"
  by (auto simp: answers_def finish_snapshot_def finish_control_success_def split: prod.splits if_splits)

lemma status_of_platform: "ap_status (confirm_platform fg a p v) = Profile_verified rc \<Longrightarrow> ap_status v = Profile_verified rc"
  by (auto simp: confirm_platform_def store_platform_state_def Let_def finish_control_success_def
      split: option.splits platform_issue.splits if_splits)

lemma status_of_answer:
  assumes "answers act oc" "ap_status (apply_outcome rq oc v) = Profile_verified rc"
  shows "ap_status v = Profile_verified rc \<or> (act = Ac_profile (pr_firmware_profile rc)
    \<and> ap_platform_profile_raw (apply_outcome rq oc v) = Some (pr_firmware_profile rc))"
  using assms
  by (cases act) (auto simp: answers_def finish_control_success_def finish_snapshot_def confirm_lighting_def
      lighting_apply_status_def confirm_profile_def Let_def dest: status_of_platform split: prod.splits option.splits if_splits)

lemma status_release [simp]: "ap_status (release_control rq v) = ap_status v"
  by (simp add: release_control_def Let_def)

lemma verified_or_kept:
  assumes "execute_control_action dk (cr_action rq) s = (r, s')"
    and "ap_status (apply_control_update \<lparr>cu_request = rq, cu_result = r\<rparr> v) = Profile_verified rc"
  shows "ap_status v = Profile_verified rc \<or> (cr_action rq = Ac_profile (pr_firmware_profile rc)
    \<and> ap_platform_profile_raw (apply_control_update \<lparr>cu_request = rq, cu_result = r\<rparr> v) = Some (pr_firmware_profile rc))"
proof (cases r)
  case (Inl x)
  then show ?thesis using assms(2) status_refuse [of rq x "release_control rq v"]
    by (auto simp: apply_control_update_def)
next
  case (Inr oc)
  let ?v = "release_control rq v"
  have st: "ap_status (apply_outcome rq oc ?v) = Profile_verified rc" using assms(2) Inr by (simp add: apply_control_update_def)
  from execute_answers [OF assms(1) [unfolded Inr]] show ?thesis
  proof (elim disjE exE conjE)
    assume "answers (cr_action rq) oc"
    from status_of_answer [OF this st] show ?thesis using Inr by (simp add: apply_control_update_def)
  next
    fix refresh result
    assume oc: "oc = Oc_refreshed_then refresh result" and refresh: "answers Ac_refresh refresh"
      and result: "\<forall>oc'. result = Inr oc' \<longrightarrow> answers (cr_action rq) oc'"
    define u where "u = release_control rq (apply_outcome (background_request Ac_refresh) refresh
      (release_control (background_request Ac_refresh) ?v))"
    have u: "ap_status u \<noteq> Profile_verified rc" using status_of_refresh [OF refresh] by (simp add: u_def)
    have st': "ap_status (case result of Inl x \<Rightarrow> refuse_update rq x u | Inr oc' \<Rightarrow> apply_outcome rq oc' u) = Profile_verified rc"
      using st unfolding oc u_def apply_outcome.simps Let_def .
    show ?thesis
    proof (cases result)
      case (Inl x)
      then show ?thesis using st' u status_refuse [of rq x u] by auto
    next
      case (Inr oc')
      then have "cr_action rq = Ac_profile (pr_firmware_profile rc)
          \<and> ap_platform_profile_raw (apply_outcome rq oc' u) = Some (pr_firmware_profile rc)"
        using status_of_answer [of "cr_action rq" oc' rq u rc] result st' u by auto
      then show ?thesis using Inr \<open>r = Inr oc\<close> by (simp add: apply_control_update_def oc u_def Let_def)
    qed
  qed
qed

text \<open>C30: the window says that a profile was verified only when the request it completes asked for exactly the
  profile the firmware confirmed in its receipt, and then shows that profile; no other request, refresh,
  reconnection or error can turn the status into a verification.\<close>

theorem profile_verified_truthful:
  assumes "execute_control_action dk (cr_action rq) s = (r, s')"
    and "ap_status v \<noteq> Profile_verified rc"
    and "ap_status (apply_control_update \<lparr>cu_request = rq, cu_result = r\<rparr> v) = Profile_verified rc"
  shows "cr_action rq = Ac_profile (pr_firmware_profile rc)
    \<and> ap_platform_profile_raw (apply_control_update \<lparr>cu_request = rq, cu_result = r\<rparr> v) = Some (pr_firmware_profile rc)"
  using verified_or_kept [OF assms(1,3)] assms(2) by blast

text \<open>A link that accepts every command and delivers the same bytes each time.\<close>

definition answering_desk :: "read_event list \<Rightarrow> unit desk" where
  "answering_desk es = \<lparr>dk_link = \<lparr>ln_write = (\<lambda>_ c. (Inr (), c)), ln_flush = (\<lambda>c. (Inr (), c)),
     ln_events = (\<lambda>_. es), ln_rest = (\<lambda>_ c. c)\<rparr>,
     dk_open = (\<lambda>c. (Inr (), c)), dk_close = (\<lambda>c. c), dk_sleep = (\<lambda>c. c),
     dk_text = (\<lambda>_. ''error''), dk_json = (\<lambda>_. Inl ''no json'')\<rparr>"

lemma answering_request: "request (dk_link (answering_desk es)) command c = (receive_payload es, c)"
  by (cases "fst (read_response_line [] False es)")
    (simp_all add: request_def receive_def answering_desk_def receive_payload_def io_simps io_then_def case_prod_beta)

lemma sample_profile_executed:
  assumes "es = [Bytes (response_bytes (Inr (encode_profile_apply_receipt sample_receipt)))]"
  shows "execute_control_action (answering_desk es) (Ac_profile ''performance'') (True, ())
    = (Inr (Oc_profile ''performance'' sample_receipt), (True, ()))"
proof -
  have "response_bytes q \<noteq> []" for q by (simp add: response_bytes_def)
  from receipt_wire.exchange [OF sample_receipt_valid carries_whole [OF this]] obtain v
    where v: "receive_payload es = Inr v" "parse_profile_apply_receipt v = Inr sample_receipt" using assms by blast
  have "validate_profile_token ''performance'' False = Inr ()" by code_simp
  then show ?thesis using v
    by (simp add: execute_control_action_def execute_control_action_inner_def with_control_def ensure_client_def
        profile_operation_def client_set_profile_def io_simps answering_request sample_receipt_def)
qed

theorem profile_verified_truthful_witness:
  "ap_platform_profile_raw (apply_control_update
     \<lparr>cu_request = foreground_request (Ac_profile ''performance''), cu_result = Inr (Oc_profile ''performance'' sample_receipt)\<rparr>
     boot_state) = Some ''performance''"
  using profile_verified_truthful [of "answering_desk [Bytes (response_bytes (Inr (encode_profile_apply_receipt sample_receipt)))]"
      "foreground_request (Ac_profile ''performance'')" "(True, ())" "Inr (Oc_profile ''performance'' sample_receipt)" "(True, ())"
      boot_state sample_receipt] sample_profile_executed
  by (simp add: foreground_request_def boot_state_def apply_control_update_def confirm_profile_def
      finish_control_success_def Let_def sample_receipt_def split: option.splits)

end
