(* ===== verification/App_Lighting.thy ===== *)
theory App_Lighting
  imports App_Worker Wire_Codecs
begin

text \<open>
  \<open>src/app.rs\<close>, lighting: the drafts of the lighting editor, and what the window makes of the keyboard
  state the daemon sends. A state the parser of the window refuses ends the session, because it is taken for a
  broken protocol.
\<close>

section \<open>Drafts\<close>

definition MAX_LIGHTING_ZONES :: nat where "MAX_LIGHTING_ZONES = 16"

text \<open>\<open>u32::from_be_bytes([0, r, g, b])\<close>.\<close>

definition packed_rgb :: "rgb \<Rightarrow> u32" where
  "packed_rgb c = of_nat (unat (fst c) * 65536 + unat (fst (snd c)) * 256 + unat (snd (snd c)))"

definition rgb_bytes :: "u32 \<Rightarrow> rgb" where
  "rgb_bytes c = (ucast (drop_bit 16 c), ucast (drop_bit 8 c), ucast c)"

definition keyboard_editor_readback :: "gui_lighting \<Rightarrow> (u8 \<times> u32 list) option" where
  "keyboard_editor_readback l = (if \<not> gl_available l then None
     else Some (gl_brightness l, if gl_mode l = 1 \<or> gl_mode l = 4 then (gl_zones l)[0 := gl_color l] else gl_zones l))"

definition fan_mode_supported :: "fan_capabilities option \<Rightarrow> gui_fan_mode \<Rightarrow> bool" where
  "fan_mode_supported caps mode = (case caps of None \<Rightarrow> True
     | Some c \<Rightarrow> (case mode of Fan_auto \<Rightarrow> fc_auto c | Fan_manual \<Rightarrow> fc_manual c | Fan_maximum \<Rightarrow> fc_maximum c))"

definition position :: "('a \<Rightarrow> bool) \<Rightarrow> 'a list \<Rightarrow> nat option" where
  "position P xs = (let n = length (takeWhile (\<lambda>x. \<not> P x) xs) in if n < length xs then Some n else None)"

definition preferred_lighting_index :: "lighting_device list \<Rightarrow> nat option" where
  "preferred_lighting_index devices = or_option
     (position (\<lambda>d. ld_target d = Keyboard \<and> ld_backend d = Zoned_wmi \<and> ld_state_readable d) devices)
     (position (\<lambda>d. ld_target d = Keyboard) devices)"

definition lighting_zone_draft :: "u32 list \<Rightarrow> u32 list" where
  "lighting_zone_draft seed = (let defaults = gl_zones default_lighting in
     map (\<lambda>i. if i < length seed then seed ! i else defaults ! (i mod length defaults)) [0..<MAX_LIGHTING_ZONES])"

definition lighting_draft_for_device ::
  "lighting_device \<Rightarrow> gui_lighting \<Rightarrow> lighting_apply_request list \<Rightarrow> u8 \<times> u32 list" where
  "lighting_draft_for_device device lighting last_applied =
     (case (if ld_state_readable device \<and> gl_available lighting then keyboard_editor_readback lighting else None) of
        Some (brightness, zones) \<Rightarrow> (brightness, lighting_zone_draft zones)
      | None \<Rightarrow> (case find (\<lambda>rq. la_device_id rq = ld_id device) last_applied of
          Some rq \<Rightarrow> (let colors = map packed_rgb (la_zone_colors rq) in
            (la_brightness rq, lighting_zone_draft (if colors = [] then [packed_rgb (la_color rq)] else colors)))
        | None \<Rightarrow> (gl_brightness default_lighting, lighting_zone_draft (gl_zones default_lighting))))"

definition lighting_mode_visibility :: "lighting_modes option \<Rightarrow> bool \<times> bool \<times> bool \<times> bool" where
  "lighting_mode_visibility modes = (case modes of None \<Rightarrow> (True, True, True, True)
     | Some m \<Rightarrow> (lm_static_color m, lm_brightness m, lm_breathing m, lm_neon m))"

definition lighting_mode_number :: "lighting_mode \<Rightarrow> u8" where
  "lighting_mode_number m = (case m of Mode_off \<Rightarrow> 0 | Mode_static \<Rightarrow> 0 | Mode_breathing \<Rightarrow> 1 | Mode_neon \<Rightarrow> 2)"

definition gui_lighting_request ::
  "string \<Rightarrow> bool \<Rightarrow> lighting_mode \<Rightarrow> u8 \<Rightarrow> u8 \<Rightarrow> u32 \<Rightarrow> u32 list \<Rightarrow> lighting_apply_request" where
  "gui_lighting_request device_id state_readable mode brightness speed color zone_colors =
     \<lparr>la_device_id = device_id, la_state_readable = state_readable, la_mode = mode, la_brightness = brightness,
      la_speed = speed, la_color = rgb_bytes color, la_zone_colors = map rgb_bytes zone_colors\<rparr>"

definition gui_rear_logo_state :: "bool \<Rightarrow> u8 \<Rightarrow> u32 \<Rightarrow> rear_logo_state" where
  "gui_rear_logo_state enabled brightness color =
     \<lparr>lg_enabled = enabled, lg_brightness = (if enabled then brightness else 0), lg_color = rgb_bytes color\<rparr>"

definition clamp_brightness :: "u8 \<Rightarrow> u8" where
  "clamp_brightness b = (if b < 1 then 1 else if b > 100 then 100 else b)"

definition rear_logo_editor_seed :: "rear_logo_state option \<Rightarrow> u8 \<Rightarrow> u8 \<times> u32" where
  "rear_logo_editor_seed observed last_brightness = (case observed of
      Some l \<Rightarrow> (if lg_brightness l = 0 then clamp_brightness last_brightness else lg_brightness l, packed_rgb (lg_color l))
    | None \<Rightarrow> (clamp_brightness last_brightness, 0x5B6EFF))"

definition parse_color_value :: "string \<Rightarrow> u32 option" where
  "parse_color_value v = Option.bind (strip_pre ''#'' v) (\<lambda>v.
     if length v = 6 then map_option of_nat (parse_uint 16 u32_max v) else None)"

section \<open>What a draft turns into\<close>

lemma packed_rgb_unat: "unat (packed_rgb (r, g, b)) = unat r * 65536 + unat g * 256 + unat b"
proof -
  have "unat r * 65536 + unat g * 256 + unat b < 2 ^ 32"
    using unat_u8_le [of r] unat_u8_le [of g] unat_u8_le [of b] by (simp add: u8_max_def)
  moreover have "unat (of_nat n :: u32) = n" if "n < 2 ^ 32" for n
    using that by (simp add: unsigned_of_nat take_bit_nat_eq_self)
  ultimately show ?thesis unfolding packed_rgb_def fst_conv snd_conv by blast
qed

lemma unat_drop_u32: "unat (drop_bit k (w :: u32)) = unat w div 2 ^ k"
  using unat_u32_le [of w]
  by (simp only: unsigned_drop_bit_eq) (simp add: drop_bit_eq_div take_bit_nat_eq_self u32_max_def)

lemma unat_ucast_u8: "unat (ucast (w :: u32) :: u8) = unat w mod 256"
  by (simp add: unsigned_ucast_eq take_bit_eq_mod)

text \<open>Colours packed for the editor come out of it as they went in.\<close>

lemma rgb_bytes_packed [simp, roundtrip]: "rgb_bytes (packed_rgb c) = c"
proof -
  obtain r g b where c: "c = (r, g, b)" by (cases c) auto
  note le = unat_u8_le [of r, unfolded u8_max_def] unat_u8_le [of g, unfolded u8_max_def] unat_u8_le [of b, unfolded u8_max_def]
  have n: "unat (drop_bit k (packed_rgb c)) = (unat r * 65536 + unat g * 256 + unat b) div 2 ^ k" for k
    by (simp only: c packed_rgb_unat unat_drop_u32)
  have x: "unat r * 65536 + unat g * 256 + unat b = unat b + 256 * (unat g + 256 * unat r)" (is "?x = _") by simp
  have q: "(m + 256 * n) mod 256 = m" "(m + 256 * n) div 256 = n" if "m \<le> 255" for m n :: nat using that by simp_all
  have "?x div 65536 = ?x div 256 div 256" by (simp add: div_mult2_eq [symmetric])
  then have "?x div 65536 mod 256 = unat r" "?x div 256 mod 256 = unat g" "?x mod 256 = unat b"
    using le unfolding x by (simp_all only: q) simp
  then show ?thesis using n [of 16] n [of 8] n [of 0] by (simp add: rgb_bytes_def word_unat_eq_iff unat_ucast_u8 c)
qed

lemma draft_length [simp]: "length (lighting_zone_draft seed) = 16"
  by (simp add: lighting_zone_draft_def Let_def MAX_LIGHTING_ZONES_def)

lemma logo_seed_bounds: "1 \<le> fst (rear_logo_editor_seed observed b)"
  by (auto simp: rear_logo_editor_seed_def clamp_brightness_def not_less [symmetric] split: option.splits)

section \<open>The keyboard state on the wire\<close>

text \<open>What the window accepts, and what it then shows.\<close>

definition shown_range :: "lighting_state \<Rightarrow> bool" where
  "shown_range s \<longleftrightarrow> ls_mode s \<le> 7 \<and> ls_speed s \<le> 9 \<and> ls_brightness s \<le> 100 \<and> ls_direction s \<le> 2"

definition gui_of_lighting :: "lighting_state \<Rightarrow> gui_lighting" where
  "gui_of_lighting s = \<lparr>gl_available = True, gl_powered = ls_powered s, gl_mode = ls_mode s, gl_speed = ls_speed s,
     gl_brightness = ls_brightness s, gl_direction = ls_direction s, gl_color = packed_rgb (ls_color s),
     gl_zones = map packed_rgb (ls_zones s)\<rparr>"

lemma parse_hex_rgb: "parse_uint 16 u32_max (hex_rgb (r, g, b)) = Some (unat r * 65536 + unat g * 256 + unat b)"
proof -
  let ?d = "\<lambda>w :: u8. [unat w div 16, unat w mod 16]"
  have lt: "unat w div 16 < 16" for w :: u8 using unat_u8_le [of w] by (simp add: u8_max_def)
  have "strip_plus (hex_rgb (r, g, b)) = hex_rgb (r, g, b)"
    by (rule strip_plus_id) (simp add: hex_rgb_def hex2_def digit_char_not_plus lt)
  moreover have "those (map (digit_val 16) (hex_rgb (r, g, b))) = Some (?d r @ ?d g @ ?d b)"
    by (simp add: hex_rgb_def hex2_def digit_val_char lt)
  moreover have "digits_value 16 (?d r @ ?d g @ ?d b) = unat r * 65536 + unat g * 256 + unat b"
  proof -
    have w: "unat w div 16 * 16 + unat w mod 16 = unat w" for w :: u8 by simp
    have "digits_value 16 (?d r @ ?d g @ ?d b) = ((unat r div 16 * 16 + unat r mod 16) * 256
        + (unat g div 16 * 16 + unat g mod 16)) * 256 + (unat b div 16 * 16 + unat b mod 16)"
      by (simp add: digits_value_def algebra_simps)
    then show ?thesis by (simp only: w) simp
  qed
  moreover have "unat r * 65536 + unat g * 256 + unat b \<le> u32_max"
    using unat_u8_le [of r] unat_u8_le [of g] unat_u8_le [of b] by (simp add: u8_max_def u32_max_def)
  ultimately show ?thesis by (simp add: parse_uint_def hex_rgb_def hex2_def)
qed

lemma parse_response_color_hex [simp]: "parse_response_color (hex_rgb c) = Inr (packed_rgb c)"
proof -
  obtain r g b where c: "c = (r, g, b)" by (cases c) auto
  have "list_all is_hexdigit (hex_rgb c)" by (auto simp: list_all_iff dest: hex_rgb_chars)
  then show ?thesis using parse_hex_rgb [of r g b] by (simp add: parse_response_color_def c packed_rgb_def)
qed

lemma map_colors: "res_map_list parse_response_color (map hex_rgb zs) = Inr (map packed_rgb zs)"
  by (induction zs) simp_all

lemma parse_zones_hex: "length zs = 4 \<Longrightarrow> parse_response_zones (join_with '','' (map hex_rgb zs)) = Inr (map packed_rgb zs)"
proof -
  assume n: "length zs = 4"
  then have "map hex_rgb zs \<noteq> []" by auto
  moreover have "\<forall>t \<in> set (map hex_rgb zs). CHR '','' \<notin> set t" using comma_not_hex by simp
  ultimately have "split_char (CHR '','') (join_with '','' (map hex_rgb zs)) = map hex_rgb zs" by (rule split_char_join)
  then show ?thesis using n by (simp add: parse_response_zones_def map_colors)
qed

lemma parse_response_shown: "parse_response_u8 (show_word n) mx label
    = (if n > mx then Inl (''RGB '' @ label @ '' out of range'') else Inr n)"
  by (simp add: parse_response_u8_def)

definition lighting_tokens :: "lighting_state \<Rightarrow> string list" where
  "lighting_tokens s = [''power'' @ ''='' @ (if ls_powered s then ''on'' else ''off''), ''mode'' @ ''='' @ show_word (ls_mode s),
     ''speed'' @ ''='' @ show_word (ls_speed s), ''brightness'' @ ''='' @ show_word (ls_brightness s),
     ''direction'' @ ''='' @ show_word (ls_direction s), ''color'' @ ''='' @ hex_rgb (ls_color s),
     ''zones'' @ ''='' @ join_with '','' (map hex_rgb (ls_zones s))]"

lemma encode_tokens: "encode_lighting_state s = join_with '' '' (lighting_tokens s)"
  by (simp add: encode_lighting_state_def lighting_tokens_def)

lemma lighting_tokens_token:
  assumes "length (ls_zones s) = 4" shows "\<forall>t \<in> set (lighting_tokens s). token t"
proof -
  have "ls_zones s \<noteq> []" using assms by auto
  then have z: "token (join_with '','' (map hex_rgb (ls_zones s)))" by (intro token_join_comma) simp_all
  have lit: "token ''power''" "token ''mode''" "token ''speed''" "token ''brightness''" "token ''direction''" "token ''color''"
    "token ''zones''" "token ''=''" "token ''on''" "token ''off''" by (simp_all add: token_literal char_defs)
  have p: "token (if ls_powered s then ''on'' else ''off'')" using lit by simp
  show ?thesis unfolding lighting_tokens_def list.set ball_simps(7)
    by (simp only: token_append lit p z token_show_word token_hex_rgb ball_empty simp_thms)
qed

lemma lighting_split: "length (ls_zones s) = 4 \<Longrightarrow> split_ascii_ws (encode_lighting_state s) = lighting_tokens s"
  unfolding encode_tokens by (rule split_ascii_ws_tokens [OF lighting_tokens_token])

lemma field_of: "CHR ''='' \<notin> set k \<Longrightarrow> split_once (CHR ''='') (k @ ''='' @ v) = Some (k, v)"
  by (rule split_once_field)

lemma lighting_field_steps:
  "lighting_field (''power'' @ ''='' @ (if b then ''on'' else ''off'')) (st, seen) = Inr (st\<lparr>gl_powered := b\<rparr>, or seen (push_bit 6 1))"
  "lighting_field (''mode'' @ ''='' @ show_word m) (st, seen)
     = (if m > 7 then Inl ''RGB mode out of range'' else Inr (st\<lparr>gl_mode := m\<rparr>, or seen (push_bit 0 1)))"
  "lighting_field (''speed'' @ ''='' @ show_word m) (st, seen)
     = (if m > 9 then Inl ''RGB speed out of range'' else Inr (st\<lparr>gl_speed := m\<rparr>, or seen (push_bit 1 1)))"
  "lighting_field (''brightness'' @ ''='' @ show_word m) (st, seen)
     = (if m > 100 then Inl ''RGB brightness out of range'' else Inr (st\<lparr>gl_brightness := m\<rparr>, or seen (push_bit 2 1)))"
  "lighting_field (''direction'' @ ''='' @ show_word m) (st, seen)
     = (if m > 2 then Inl ''RGB direction out of range'' else Inr (st\<lparr>gl_direction := m\<rparr>, or seen (push_bit 3 1)))"
  "lighting_field (''color'' @ ''='' @ hex_rgb c) (st, seen) = Inr (st\<lparr>gl_color := packed_rgb c\<rparr>, or seen (push_bit 4 1))"
  "length zs = 4 \<Longrightarrow> lighting_field (''zones'' @ ''='' @ join_with '','' (map hex_rgb zs)) (st, seen)
     = Inr (st\<lparr>gl_zones := map packed_rgb zs\<rparr>, or seen (push_bit 5 1))"
  unfolding lighting_field_def by (simp_all add: field_of [unfolded append.simps] parse_response_shown parse_zones_hex
      split_once_field del: append.simps)

lemma seen_all: "or (or (or (or (or (or (or (0 :: u8) (push_bit 6 1)) (push_bit 0 1)) (push_bit 1 1)) (push_bit 2 1)) (push_bit 3 1))
    (push_bit 4 1)) (push_bit 5 1) = 0x7F"
  by simp

lemma lighting_reading:
  assumes "length (ls_zones s) = 4"
  shows "(if shown_range s then parse_lighting_state (encode_lighting_state s) = Inr (gui_of_lighting s)
      else \<exists>e. parse_lighting_state (encode_lighting_state s) = Inl e)"
proof -
  let ?st = "default_lighting\<lparr>gl_available := True\<rparr>"
  have "parse_lighting_state (encode_lighting_state s) = res_bind (lighting_fields (lighting_tokens s) (?st, 0)) (\<lambda>(state, seen).
       if seen \<noteq> 0x7F then Inl ''incomplete RGB state response'' else Inr state)"
    by (simp add: parse_lighting_state_def lighting_split [OF assms])
  also have "\<dots> = (if ls_mode s > 7 then Inl ''RGB mode out of range'' else if ls_speed s > 9 then Inl ''RGB speed out of range''
      else if ls_brightness s > 100 then Inl ''RGB brightness out of range''
      else if ls_direction s > 2 then Inl ''RGB direction out of range'' else Inr (gui_of_lighting s))"
    unfolding lighting_tokens_def lighting_fields.simps lighting_field_steps(1) res_bind_simps lighting_field_steps(2)
    by (simp add: lighting_field_steps(1-6) lighting_field_steps(7) [OF assms]
        seen_all gui_of_lighting_def default_lighting_def del: append.simps)
  finally show ?thesis by (auto simp: shown_range_def not_le not_less)
qed

lemma lighting_refused:
  "length (ls_zones s) = 4 \<Longrightarrow> \<not> shown_range s \<Longrightarrow> \<exists>x. parse_lighting_state (encode_lighting_state s) = Inl x"
  using lighting_reading [of s] by simp

text \<open>C32: the window reads a keyboard state line of the daemon back as exactly the state that was encoded, colours
  packed, when mode, speed, brightness and direction are in the ranges of its protocol; every other state the
  daemon can send is refused. The daemon does not check these ranges when it reads the firmware.\<close>

theorem lighting_reading_accepted:
  assumes "length (ls_zones s) = 4"
  shows "(if shown_range s then parse_lighting_state (encode_lighting_state s) = Inr (gui_of_lighting s)
      else \<exists>e. parse_lighting_state (encode_lighting_state s) = Inl e)"
  by (rule lighting_reading [OF assms])

definition sample_keyboard :: "u8 \<Rightarrow> lighting_state" where
  "sample_keyboard mode = \<lparr>ls_powered = True, ls_mode = mode, ls_speed = 0, ls_brightness = 80, ls_direction = 0,
     ls_color = (0x12, 0xAB, 0xFF), ls_zones = [(1, 2, 3), (4, 5, 6), (7, 8, 9), (0xFF, 0, 0xFF)]\<rparr>"

theorem lighting_reading_accepted_witness:
  "parse_lighting_state (encode_lighting_state (sample_keyboard 3)) = Inr (gui_of_lighting (sample_keyboard 3))
    \<and> (\<exists>e. parse_lighting_state (encode_lighting_state (sample_keyboard 8)) = Inl e)"
proof -
  have l: "length (ls_zones (sample_keyboard n)) = 4" for n by (simp add: sample_keyboard_def)
  have r: "shown_range (sample_keyboard 3)" "\<not> shown_range (sample_keyboard 8)" by (simp_all add: shown_range_def sample_keyboard_def)
  show ?thesis using lighting_reading_accepted [OF l, of 3] lighting_reading_accepted [OF l, of 8] r by (simp only: if_True if_False simp_thms)
qed

section \<open>A refused state ends the session\<close>

lemma keyboard_snapshot_refused:
  assumes "list_ex (\<lambda>d. ld_target d = Keyboard \<and> ld_backend d = Zoned_wmi \<and> ld_state_readable d) (cc_lighting caps)"
    and "client_keyboard_state (dk_link dk) c = (Inr line, c')" and "parse_lighting_state line = Inl x"
  shows "partial_control_result dk (keyboard_lighting_snapshot dk caps) c = (Inl (Protocol (''invalid RGB response: '' @ x)), c')"
  using assms by (simp add: partial_control_result_def keyboard_lighting_snapshot_def parse_lighting_response_def io_simps
      invalidates_session_def)

text \<open>C33: when the firmware reports a keyboard state outside the ranges of the window, which the daemon passes on,
  connecting and refreshing fail as a whole and the session is closed: the failure of one reading is not kept
  apart, although a partial result is what the operation is built to give.\<close>

theorem refused_reading_ends_session:
  assumes "client_capabilities (dk_json dk) (dk_link dk) c = (Inr caps, c1)"
    and "list_ex (\<lambda>d. ld_target d = Keyboard \<and> ld_backend d = Zoned_wmi \<and> ld_state_readable d) (cc_lighting caps)"
    and "client_keyboard_state (dk_link dk) c1 = (Inr (encode_lighting_state s), c2)"
    and "length (ls_zones s) = 4" "\<not> shown_range s"
  shows "(\<exists>e. initialize_control dk (True, c) = (Inl e, (False, dk_close dk c2)))
    \<and> (\<exists>e. with_control dk (refresh_snapshot dk) (True, c) = (Inl e, (False, dk_close dk c2)))"
proof -
  obtain x where "parse_lighting_state (encode_lighting_state s) = Inl x"
    using lighting_refused [OF assms(4,5)] by blast
  from keyboard_snapshot_refused [OF assms(2,3) this] assms(1) show ?thesis
    by (simp add: initialize_control_def refresh_snapshot_def with_control_def ensure_client_def io_simps invalidates_session_def)
qed

text \<open>A desk whose daemon answers with one line after the other.\<close>

definition scripted_desk :: "control_capabilities \<Rightarrow> string list desk" where
  "scripted_desk caps = \<lparr>dk_link = \<lparr>ln_write = (\<lambda>_ c. (Inr (), c)), ln_flush = (\<lambda>c. (Inr (), c)),
     ln_events = (\<lambda>c. [Bytes (response_bytes (Inr (hd c)))]), ln_rest = (\<lambda>_ c. tl c)\<rparr>,
     dk_open = (\<lambda>c. (Inr (), c)), dk_close = (\<lambda>_. []), dk_sleep = (\<lambda>c. c),
     dk_text = (\<lambda>_. ''error''), dk_json = (\<lambda>_. Inr caps)\<rparr>"

lemma scripted_request:
  assumes "wire_payload p" shows "request (dk_link (scripted_desk caps)) command (p # c) = (Inr p, c)"
proof -
  have "carries [Bytes (response_bytes (Inr p))] (response_bytes (Inr p) @ [])" by (simp add: response_bytes_def)
  from response_delivered [OF this] obtain es' where
    e: "read_response_line [] False [Bytes (response_bytes (Inr p))] = (Inr (response_line (Inr p)), es')" by blast
  have "response_line (Inr p) = ''OK '' @ p" using assms by (simp add: response_line_def wire_payload_def sanitize_id)
  then show ?thesis using e parse_ok_response [OF assms]
    by (simp add: request_def receive_def scripted_desk_def io_simps io_then_def del: read_response_line.simps)
qed

lemma lighting_line_wire:
  assumes "length (ls_zones s) = 4" shows "wire_payload (encode_lighting_state s)"
proof -
  have n: "length (show_word (w :: u8)) \<le> 3" for w by (rule show_word_u8_length)
  obtain a b c d where z: "ls_zones s = [a, b, c, d]" using assms by (auto simp: length_Suc_conv numeral_eq_Suc)
  have "length (encode_lighting_state s) \<le> 200"
    using n [of "ls_mode s"] n [of "ls_speed s"] n [of "ls_brightness s"] n [of "ls_direction s"]
    by (simp add: encode_lighting_state_def z)
  then show ?thesis unfolding encode_tokens
    by (intro tokens_wire lighting_tokens_token [OF assms])
      (simp_all add: lighting_tokens_def [symmetric] encode_tokens [symmetric] MAX_CONTROL_RESPONSE_PAYLOAD_BYTES_def
        MAX_CONTROL_RESPONSE_LINE_BYTES_def, simp add: lighting_tokens_def)
qed

definition sample_caps :: control_capabilities where
  "sample_caps = \<lparr>cc_vendor = ''Acer'', cc_product = ''Predator'', cc_reference_model = False,
     cc_profiles = \<lparr>prc_backend = None, prc_choices = [], prc_current = None\<rparr>,
     cc_fans = \<lparr>fc_backend = None, fc_rpm_channels = [], fc_auto = False, fc_manual = False, fc_maximum = False\<rparr>,
     cc_lighting = [\<lparr>ld_id = ''keyboard'', ld_backend = Zoned_wmi, ld_target = Keyboard, ld_zones = 4,
       ld_modes = \<lparr>lm_static_color = True, lm_brightness = True, lm_breathing = True, lm_neon = True\<rparr>,
       ld_state_readable = True\<rparr>],
     cc_platform = \<lparr>cap_battery_limit = False, cap_battery_calibration = False, cap_usb_off_charging = False,
       cap_keyboard_timeout = False, cap_boot_sound = False, cap_lcd_override = False, cap_rear_logo = False\<rparr>\<rparr>"

lemma sample_caps_valid: "validate_control_capabilities sample_caps True = Inr ()"
proof -
  have t: "\<not> has_control ''Acer''" "\<not> has_control ''Predator''" "\<not> has_control ''keyboard''" by code_simp+
  show ?thesis by (simp add: validate_control_capabilities_def sample_caps_def require_capability_def
      validate_capability_text_def validate_device_def t MAX_CAPABILITY_PROFILES_def MAX_CAPABILITY_FANS_def
      MAX_CAPABILITY_LIGHTING_DEVICES_def MAX_CAPABILITY_IDENTITY_BYTES_def MAX_CAPABILITY_TOKEN_BYTES_def)
qed

lemma sample_caps_parsed: "parse_control_capabilities (\<lambda>_. Inr sample_caps) ''caps=1 {}'' = Inr sample_caps"
proof -
  have "split_once (CHR '' '') ''caps=1 {}'' = Some (''caps=1'', ''{}'')" by code_simp
  moreover have "caps_prefix = ''caps=1''" by (simp add: caps_prefix_def CAPABILITIES_SCHEMA_VERSION_def show_word_channels)
  ultimately show ?thesis by (simp add: parse_control_capabilities_def sample_caps_valid
      MAX_CONTROL_RESPONSE_PAYLOAD_BYTES_def MAX_CONTROL_RESPONSE_LINE_BYTES_def)
qed

lemma caps_line_wire: "wire_payload ''caps=1 {}''"
  using tokens_wire [of "[''caps=1'', ''{}'']"]
  by (simp add: token_literal char_defs MAX_CONTROL_RESPONSE_PAYLOAD_BYTES_def MAX_CONTROL_RESPONSE_LINE_BYTES_def)

theorem refused_reading_ends_session_witness:
  "\<exists>e. initialize_control (scripted_desk sample_caps) (True, [''caps=1 {}'', encode_lighting_state (sample_keyboard 8)])
    = (Inl e, (False, []))"
proof -
  let ?dk = "scripted_desk sample_caps" and ?line = "encode_lighting_state (sample_keyboard 8)"
  have l: "length (ls_zones (sample_keyboard 8)) = 4" "\<not> shown_range (sample_keyboard 8)"
    by (simp_all add: shown_range_def sample_keyboard_def)
  have j: "dk_json ?dk = (\<lambda>_. Inr sample_caps)" "dk_close ?dk [] = []" by (simp_all add: scripted_desk_def)
  have c: "client_capabilities (dk_json ?dk) (dk_link ?dk) [''caps=1 {}'', ?line] = (Inr sample_caps, [?line])"
    by (simp add: client_capabilities_def io_simps scripted_request [OF caps_line_wire] j sample_caps_parsed)
  have k: "client_keyboard_state (dk_link ?dk) [?line] = (Inr ?line, [])"
    by (simp add: client_keyboard_state_def scripted_request [OF lighting_line_wire [OF l(1)]])
  have d: "list_ex (\<lambda>d. ld_target d = Keyboard \<and> ld_backend d = Zoned_wmi \<and> ld_state_readable d) (cc_lighting sample_caps)"
    by (simp add: sample_caps_def)
  show ?thesis using refused_reading_ends_session [OF c d k l] j(2) by simp
qed

end
