(* ===== verification/App_Feed.thy ===== *)
theory App_Feed
  imports App_Worker Telemetry_Samples
begin

text \<open>
  \<open>src/app.rs\<close>, the telemetry thread of the window: it discovers the hardware, samples it, and leaves each
  result in a slot that holds the latest one. After a resume it drops its handles and asks, with its next
  sample, that the capabilities be read again. The texts of errors are parameters.
\<close>

section \<open>The slot and the thread\<close>

record feed =
  fd_hardware :: "acer_hardware option"
  fd_reader :: telemetry_reader
  fd_failures :: nat
  fd_refresh :: bool
  fd_resume :: bool
  fd_slot :: "telemetry_update option"

definition feed_start :: feed where
  "feed_start = \<lparr>fd_hardware = None, fd_reader = reader_new, fd_failures = 0, fd_refresh = False, fd_resume = False, fd_slot = None\<rparr>"

definition publish_latest :: "telemetry_update \<Rightarrow> feed \<Rightarrow> feed" where
  "publish_latest u f = f\<lparr>fd_slot := Some u\<rparr>"

definition take_update :: "feed \<Rightarrow> telemetry_update option \<times> feed" where
  "take_update f = (fd_slot f, f\<lparr>fd_slot := None\<rparr>)"

definition notice_resume :: "'e nvml \<Rightarrow> feed \<Rightarrow> ('e world, 'x, feed) io" where
  "notice_resume nv f = (if fd_resume f
     then io_bind (invalidate_nvidia_session nv (fd_reader f)) (\<lambda>t.
       io_ret (f\<lparr>fd_hardware := None, fd_reader := t, fd_failures := 0, fd_refresh := True, fd_resume := False\<rparr>))
     else io_ret f)"

text \<open>A failed round: the failure is published with the delay the thread then sleeps.\<close>

definition failed_round :: "string \<Rightarrow> feed \<Rightarrow> feed \<times> nat" where
  "failed_round message f = (let n = min (fd_failures f + 1) u32_max; delay = telemetry_retry_delay n in
     (publish_latest (Error_update message delay) (f\<lparr>fd_failures := n\<rparr>), delay))"

definition sampled_round :: "(telemetry_error \<Rightarrow> string) \<Rightarrow> telemetry_error + system_telemetry \<Rightarrow> feed \<Rightarrow> feed \<times> nat" where
  "sampled_round tx r f = (case r of
      Inr s \<Rightarrow> ((publish_latest (Sample_update s (fd_refresh f)) (f\<lparr>fd_failures := 0\<rparr>))\<lparr>fd_refresh := False\<rparr>, 1)
    | Inl x \<Rightarrow> failed_round (tx x) (f\<lparr>fd_hardware := None\<rparr>))"

definition sample_with :: "'e nvml \<Rightarrow> 'e sysfs \<Rightarrow> string \<Rightarrow> (telemetry_error \<Rightarrow> string) \<Rightarrow> acer_hardware \<Rightarrow> feed \<Rightarrow>
    ('e world, 'x, feed \<times> nat) io" where
  "sample_with nv fs ARCH tx hw f = io_bind (sample nv fs ARCH hw (fd_reader f)) (\<lambda>(r, t).
     io_ret (sampled_round tx r (f\<lparr>fd_reader := t\<rparr>)))"

text \<open>One turn of the loop, with the seconds it sleeps at the end.\<close>

definition telemetry_round :: "'e nvml \<Rightarrow> 'e sysfs \<Rightarrow> string \<Rightarrow> (hardware_error \<Rightarrow> string) \<Rightarrow> (telemetry_error \<Rightarrow> string) \<Rightarrow>
    feed \<Rightarrow> ('e world, 'x, feed \<times> nat) io" where
  "telemetry_round nv fs ARCH hx tx f = io_bind (notice_resume nv f) (\<lambda>f. case fd_hardware f of
      Some hw \<Rightarrow> sample_with nv fs ARCH tx hw f
    | None \<Rightarrow> io_try (discover_at fs []) (\<lambda>r. case r of
        Inl x \<Rightarrow> io_ret (failed_round (hx x) f)
      | Inr hw \<Rightarrow> sample_with nv fs ARCH tx hw (f\<lparr>fd_hardware := Some hw\<rparr>)))"

section \<open>What a stalled window misses\<close>

lemma failed_round_flags:
  "failed_round m f = (f', d) \<Longrightarrow> fd_refresh f' = fd_refresh f \<and> (\<forall>s b. fd_slot f' \<noteq> Some (Sample_update s b))
    \<and> 1 \<le> d \<and> d \<le> TELEMETRY_RETRY_MAX_SECONDS"
  by (auto simp: failed_round_def publish_latest_def Let_def telemetry_retry_delay_def TELEMETRY_RETRY_MAX_SECONDS_def)

text \<open>What a round without a pending resume and without a pending refresh can leave behind.\<close>

definition quiet_round :: "feed \<times> nat \<Rightarrow> bool" where
  "quiet_round r \<longleftrightarrow> \<not> fd_refresh (fst r) \<and> (\<forall>s. fd_slot (fst r) \<noteq> Some (Sample_update s True))
     \<and> 1 \<le> snd r \<and> snd r \<le> TELEMETRY_RETRY_MAX_SECONDS"

lemma quiet_failed: "\<not> fd_refresh f \<Longrightarrow> quiet_round (failed_round m f)"
  using failed_round_flags [of m f] by (cases "failed_round m f") (auto simp: quiet_round_def)

lemma quiet_sampled: "\<not> fd_refresh f \<Longrightarrow> quiet_round (sampled_round tx r f)"
  by (cases r) (simp_all add: sampled_round_def quiet_failed, simp add: quiet_round_def publish_latest_def TELEMETRY_RETRY_MAX_SECONDS_def)

lemma quiet_with:
  assumes "(sample_with nv fs ARCH tx hw f w :: ('x + _) \<times> 'e world) = (Inr out, w')" "\<not> fd_refresh f"
  shows "quiet_round out"
  using assms(1) unfolding sample_with_def
  by (elim io_bind_Inr) (auto simp: io_ret_apply quiet_sampled assms(2) split: prod.splits)

lemma round_quiet:
  assumes "(telemetry_round nv fs ARCH hx tx f w :: ('x + _) \<times> 'e world) = (Inr out, w')" "\<not> fd_resume f" "\<not> fd_refresh f"
  shows "quiet_round out"
  using assms
  by (auto simp: telemetry_round_def notice_resume_def io_bind_apply io_ret_apply io_try_apply quiet_failed
      split: option.splits prod.splits sum.splits elim: quiet_with)

lemma published_refresh:
  assumes "(telemetry_round nv fs ARCH hx tx f w :: ('x + _) \<times> 'e world) = (Inr (f1, d1), w1)"
    and "fd_slot f1 = Some (Sample_update s True)"
  shows "\<not> fd_refresh f1"
proof -
  have f: False if "failed_round m g = (f1, d1)" for m g using failed_round_flags [OF that] assms(2) by blast
  have s: "\<not> fd_refresh f1" if "sampled_round tx r g = (f1, d1)" for r g
    using that f by (auto simp: sampled_round_def split: sum.splits)
  have w: "\<not> fd_refresh f1" if "(sample_with nv fs ARCH tx hw g v :: ('x + _) \<times> 'e world) = (Inr (f1, d1), w1)" for hw g v
    using that s unfolding sample_with_def by (elim io_bind_Inr) (auto simp: io_ret_apply split: prod.splits)
  show ?thesis using assms(1) f w unfolding telemetry_round_def
    by (elim io_bind_Inr) (auto simp: io_try_apply io_ret_apply split: option.splits prod.splits sum.splits)
qed

text \<open>C34: a request to read the capabilities again after a resume can be lost. It travels with one sample, and when
  the window has not taken that sample before the next round, whatever that round finds, the slot no longer
  carries the request and the thread no longer remembers it.\<close>

theorem stalled_window_loses_refresh:
  assumes "(telemetry_round nv fs ARCH hx tx f w :: ('x + _) \<times> 'e world) = (Inr (f1, d1), w1)"
    and "fd_slot f1 = Some (Sample_update s True)" and "\<not> fd_resume f1"
    and "(telemetry_round nv fs ARCH hx tx f1 w1 :: ('x + _) \<times> 'e world) = (Inr (f2, d2), w2)"
  shows "\<not> fd_refresh f2 \<and> (\<forall>s'. fst (take_update f2) \<noteq> Some (Sample_update s' True))"
  using round_quiet [OF assms(4,3) published_refresh [OF assms(1,2)]] by (simp add: quiet_round_def take_update_def)

text \<open>The request of a resume is published with the first sample, and lost in the second round.\<close>

theorem stalled_window_loses_refresh_witness:
  "let f = feed_start\<lparr>fd_hardware := Some quiet_board, fd_refresh := True\<rparr>;
       go = telemetry_round bare_nvml tree_sysfs ''x86_64'' (\<lambda>_. []) (\<lambda>_. []) in
   \<exists>f1 d1 w1 f2 d2 w2 s. (go f counter_world :: (unit + _) \<times> _) = (Inr (f1, d1), w1) \<and> go f1 w1 = (Inr (f2, d2), w2)
     \<and> fd_slot f1 = Some (Sample_update s True) \<and> \<not> fd_refresh f2 \<and> (\<forall>s'. fd_slot f2 \<noteq> Some (Sample_update s' True))"
proof -
  let ?f = "feed_start\<lparr>fd_hardware := Some quiet_board, fd_refresh := True\<rparr>"
  let ?go = "\<lambda>f w. (telemetry_round bare_nvml tree_sysfs ''x86_64'' (\<lambda>_. []) (\<lambda>_. []) f w :: (unit + _) \<times> _)"
  obtain s t' w1 where run: "(sample bare_nvml tree_sysfs ''x86_64'' quiet_board reader_new counter_world :: (unit + _) \<times> _)
      = (Inr (Inr s, t'), w1)" using counter_sample by blast
  let ?f1 = "\<lparr>fd_hardware = Some quiet_board, fd_reader = t', fd_failures = 0, fd_refresh = False, fd_resume = False,
    fd_slot = Some (Sample_update s True)\<rparr>"
  have g1: "?go ?f counter_world = (Inr (?f1, 1), w1)"
    using run by (simp add: telemetry_round_def notice_resume_def sample_with_def sampled_round_def publish_latest_def io_simps feed_start_def)
  have "reader_ok t'" using gives_result [OF sample_gives [OF reader_new_ok] run] by (simp add: sample_result_ok_def)
  then obtain r t2 w2 where "(sample bare_nvml tree_sysfs ''x86_64'' quiet_board t' w1 :: (unit + _) \<times> _) = (Inr (r, t2), w2)"
    using givesE [OF sample_gives] by (metis surj_pair)
  then have g2: "\<exists>f2 d2. ?go ?f1 w1 = (Inr (f2, d2), w2)"
    by (cases "sampled_round (\<lambda>_. []) r (?f1\<lparr>fd_reader := t2\<rparr>)")
      (simp add: telemetry_round_def notice_resume_def sample_with_def io_simps)
  then obtain f2 d2 where g2: "?go ?f1 w1 = (Inr (f2, d2), w2)" by blast
  show ?thesis using g1 g2 stalled_window_loses_refresh [OF g1 _ _ g2] unfolding Let_def take_update_def
    by (intro exI [of _ ?f1] exI [of _ 1] exI [of _ w1] exI [of _ f2] exI [of _ d2] exI [of _ w2] exI [of _ s]) simp
qed

end
