(* ===== verification/Probe_Schema.thy ===== *)
theory Probe_Schema
  imports Diagnostic_Types
begin

text \<open>
  \<open>src/probe/schema.rs\<close>: the report of \<open>asense probe\<close>. First its types, in the order of the
  source; then \<open>ProbeReport::validate\<close> and the validators of the sections, every check in its
  order with its message; then the sections a report has when there is no daemon to ask. The
  sections reuse none of the daemon's types: \<open>probe.rs\<close> maps one vocabulary to the other. A
  \<open>usize\<close> is a natural number and \<open>serde_json\<close>, which sizes the report, is a parameter.
\<close>

definition PROBE_SCHEMA :: u8 where "PROBE_SCHEMA = 4"
definition MAX_REPORT_BYTES :: nat where "MAX_REPORT_BYTES = 262144"
definition MAX_TEXT_BYTES :: nat where "MAX_TEXT_BYTES = 96"
definition MAX_COMMAND_BYTES :: nat where "MAX_COMMAND_BYTES = 48"
definition MAX_ITEMS :: nat where "MAX_ITEMS = 32"
definition MAX_POWER_ITEMS :: nat where "MAX_POWER_ITEMS = 8"
definition MAX_DESCRIPTOR_GEOMETRY :: nat where "MAX_DESCRIPTOR_GEOMETRY = 64"
definition MAX_HID_PAYLOAD_BYTES :: nat where "MAX_HID_PAYLOAD_BYTES = 64"

lemmas probe_bounds = MAX_REPORT_BYTES_def MAX_TEXT_BYTES_def MAX_COMMAND_BYTES_def MAX_ITEMS_def MAX_POWER_ITEMS_def
  MAX_DESCRIPTOR_GEOMETRY_def MAX_HID_PAYLOAD_BYTES_def

section \<open>Observations\<close>

datatype source_id = Id_control_socket | Id_dmi_vendor | Id_dmi_product | Id_dmi_board | Id_dmi_bios | Id_uname
  | Id_os_release | Id_power_supply | Id_module_sysfs | Id_wmi_driver | Id_hwmon_driver | Id_profile_discovery
  | Id_kernel_platform_profile | Id_gaming_wmi_profile | Id_known_gaming_wmi_commands
  | Id_gaming_wmi_supported_profiles | Id_fan_discovery | Id_acer_hwmon | Id_gaming_wmi_fan | Id_platform_discovery
  | Id_asense_rgb | Id_asense_battery | Id_asense_apge | Id_hid_driver | Id_hid_report_descriptor | Id_hid_feature_a1
  | Id_hid_selector_a2 | Id_hid_feature_a3

datatype absence_reason = Abs_not_exposed | Abs_not_installed | Abs_not_applicable | Abs_daemon_unavailable
  | Abs_incomplete_control_interface

datatype error_stage = Es_discover | Es_open | Es_read | Es_decode | Es_protocol | Es_verify

datatype error_class = Ec_not_found | Ec_permission_denied | Ec_io | Ec_timeout | Ec_invalid_value | Ec_incompatible
  | Ec_unsupported | Ec_oversize

datatype probe_encoding = Enc_u8_hex | Enc_ascii_token | Enc_scalar_hex | Enc_hex

record raw_value =
  rv_encoding :: probe_encoding
  rv_bytes :: nat
  rv_value :: string

record probe_error =
  pe_stage :: error_stage
  pe_class :: error_class
  pe_errno :: "int option"
  pe_raw :: "raw_value option"

definition probe_error_new :: "error_stage \<Rightarrow> error_class \<Rightarrow> int option \<Rightarrow> probe_error" where
  "probe_error_new stage cls errno = \<lparr>pe_stage = stage, pe_class = cls, pe_errno = errno, pe_raw = None\<rparr>"

datatype 'a probe_observation = Pv_value source_id 'a | Pv_absent source_id absence_reason | Pv_error source_id probe_error

section \<open>The machine\<close>

record daemon_identity =
  di_protocol :: u16
  di_version :: string

datatype probe_mode = Mode_passive | Mode_extended_hid

record provenance =
  pr_report :: string
  pr_asense_version :: string
  pr_build_commit :: "string option"
  pr_captured_at_utc :: string
  pr_capture_duration_ms :: u64
  pr_mode :: probe_mode
  pr_daemon :: "daemon_identity probe_observation"

record dmi_evidence =
  dmi_vendor :: "string probe_observation"
  dmi_product :: "string probe_observation"
  dmi_board :: "string probe_observation"
  dmi_bios :: "string probe_observation"

record kernel_evidence =
  kr_release :: "string probe_observation"
  kr_architecture :: "string probe_observation"

record os_evidence =
  os_id :: "string probe_observation"
  os_version_id :: "string probe_observation"

record machine_evidence =
  me_dmi :: dmi_evidence
  me_kernel :: kernel_evidence
  me_os :: os_evidence

datatype ac_kind = Ac_mains | Ac_usb | Ac_usb_c | Ac_usb_pd

record ac_evidence =
  ac_ordinal :: nat
  ac_supply_kind :: ac_kind
  ac_online :: "bool probe_observation"

datatype probe_battery_status = Bs_charging | Bs_discharging | Bs_full | Bs_not_charging | Bs_unknown

record battery_evidence =
  bt_ordinal :: nat
  bt_present :: "bool probe_observation"
  bt_status :: "probe_battery_status probe_observation"
  bt_capacity_percent :: "u8 probe_observation"

record power_evidence =
  pw_ac :: "ac_evidence list"
  pw_batteries :: "battery_evidence list"

datatype probe_module = Mod_acer_wmi | Mod_asense_rgb

record module_evidence =
  mod_name :: probe_module
  mod_loaded :: "bool probe_observation"
  mod_version :: "string probe_observation"

datatype wmi_group = Grp_asense_diagnostics | Grp_asense_rgb | Grp_rgb_zoned | Grp_gaming_fan | Grp_gaming_profile
  | Grp_asense_battery | Grp_asense_apge

text \<open>\<open>Ord\<close> of the groups is their order of declaration.\<close>

fun group_index :: "wmi_group \<Rightarrow> nat" where
  "group_index Grp_asense_diagnostics = 0"
| "group_index Grp_asense_rgb = 1"
| "group_index Grp_rgb_zoned = 2"
| "group_index Grp_gaming_fan = 3"
| "group_index Grp_gaming_profile = 4"
| "group_index Grp_asense_battery = 5"
| "group_index Grp_asense_apge = 6"

instantiation wmi_group :: linorder
begin
definition less_eq_wmi_group :: "wmi_group \<Rightarrow> wmi_group \<Rightarrow> bool" where "less_eq_wmi_group a b \<longleftrightarrow> group_index a \<le> group_index b"
definition less_wmi_group :: "wmi_group \<Rightarrow> wmi_group \<Rightarrow> bool" where "less_wmi_group a b \<longleftrightarrow> group_index a < group_index b"
instance
proof
  fix x y :: wmi_group
  show "x \<le> y \<Longrightarrow> y \<le> x \<Longrightarrow> x = y" by (cases x; cases y) (simp_all add: less_eq_wmi_group_def)
qed (auto simp: less_eq_wmi_group_def less_wmi_group_def)
end

record wmi_evidence =
  we_guid :: string
  we_instances :: nat
  we_owner :: "string probe_observation"
  we_groups :: "wmi_group list"

record driver_evidence =
  dv_modules :: "module_evidence list"
  dv_wmi :: "wmi_evidence list"
  dv_hwmon_owner :: "string probe_observation"

section \<open>The daemon's sections\<close>

datatype 'a backend_transport = Tr_present source_id 'a | Tr_absent source_id absence_reason | Tr_error source_id probe_error

datatype probe_profile_backend = Ppb_kernel | Ppb_gaming_wmi

datatype probe_profile_name = Ppn_quiet | Ppn_balanced | Ppn_performance | Ppn_turbo | Ppn_eco

datatype profile_current = Cur_known source_id raw_value probe_profile_name | Cur_unknown source_id raw_value
  | Cur_absent source_id absence_reason | Cur_error source_id probe_error

record probe_profile_choice =
  ppc_command :: string
  ppc_profile :: probe_profile_name
  ppc_transport_raw :: "raw_value option"
  ppc_selectable :: bool

datatype firmware_bitmap_authority = Firmware_advisory

record firmware_bitmap =
  fb_authority :: firmware_bitmap_authority
  fb_raw :: raw_value

datatype physical_effect = Effect_unverified

record profile_evidence =
  pf_transport :: "probe_profile_backend backend_transport"
  pf_current :: profile_current
  pf_choices :: "probe_profile_choice list probe_observation"
  pf_firmware_supported_bitmap :: "firmware_bitmap probe_observation"
  pf_physical_effect :: physical_effect

datatype probe_fan_backend = Pfb_kernel_pwm | Pfb_gaming_wmi

record probe_fan_modes =
  pm_auto :: bool
  pm_manual :: bool
  pm_maximum :: bool

datatype probe_fan_control = Fcn_present source_id probe_fan_backend probe_fan_modes
  | Fcn_absent source_id absence_reason | Fcn_error source_id probe_error

record rpm_evidence =
  re_channel :: u8
  re_label :: string
  re_read :: "u32 probe_observation"

datatype pwm_setpoint_unit = Set_pwm255 | Set_percent

datatype pwm_mode = Pwm_maximum | Pwm_manual | Pwm_auto

record pwm_evidence =
  pwe_channel :: u8
  pwe_setpoint_unit :: pwm_setpoint_unit
  pwe_setpoint :: "u8 probe_observation"
  pwe_mode :: "pwm_mode probe_observation"

record temperature_evidence =
  tev_channel :: u8
  tev_label :: string
  tev_millidegrees_c :: "int probe_observation"

record fan_evidence =
  fe_control :: probe_fan_control
  fe_rpm :: "rpm_evidence list"
  fe_pwm :: "pwm_evidence list"
  fe_temperatures :: "temperature_evidence list"

datatype platform_backend = Plb_gaming_wmi

datatype probe_platform_field = Pfd_battery_limit | Pfd_battery_calibration | Pfd_usb_off_charging | Pfd_keyboard_timeout
  | Pfd_boot_sound | Pfd_lcd_override | Pfd_rear_logo

datatype probe_platform_value = Pval_bool bool | Pval_usb_threshold u8 | Pval_rear_logo bool u8 string

record platform_field_evidence =
  pfe_name :: probe_platform_field
  pfe_expected :: bool
  pfe_exposed :: bool
  pfe_source :: source_id
  pfe_read :: "probe_platform_value probe_observation"

record platform_evidence =
  ple_transport :: "platform_backend backend_transport"
  ple_fields :: "platform_field_evidence list"

datatype probe_lighting_backend = Lbk_zoned_wmi | Lbk_enek5130

datatype probe_lighting_target = Ltg_keyboard | Ltg_cover_logo | Ltg_rear_logo | Ltg_lightbar

record probe_lighting_modes =
  plm_static_color :: bool
  plm_brightness :: bool
  plm_breathing :: bool
  plm_neon :: bool

datatype lighting_authority = Transport_capability

record lighting_evidence =
  le_id :: string
  le_backend :: probe_lighting_backend
  le_target :: probe_lighting_target
  le_zones :: u8
  le_modes :: probe_lighting_modes
  le_state_readable :: bool
  le_authority :: lighting_authority

section \<open>HID and privacy\<close>

datatype probe_hid_role = Rl_enek5130_lighting | Rl_acer_ec_hid_power_candidate | Rl_darfon_lighting_candidate

fun probe_role_index :: "probe_hid_role \<Rightarrow> nat" where
  "probe_role_index Rl_enek5130_lighting = 0"
| "probe_role_index Rl_acer_ec_hid_power_candidate = 1"
| "probe_role_index Rl_darfon_lighting_candidate = 2"

instantiation probe_hid_role :: linorder
begin
definition less_eq_probe_hid_role :: "probe_hid_role \<Rightarrow> probe_hid_role \<Rightarrow> bool" where
  "less_eq_probe_hid_role a b \<longleftrightarrow> probe_role_index a \<le> probe_role_index b"
definition less_probe_hid_role :: "probe_hid_role \<Rightarrow> probe_hid_role \<Rightarrow> bool" where
  "less_probe_hid_role a b \<longleftrightarrow> probe_role_index a < probe_role_index b"
instance
proof
  fix x y :: probe_hid_role
  show "x \<le> y \<Longrightarrow> y \<le> x \<Longrightarrow> x = y" by (cases x; cases y) (simp_all add: less_eq_probe_hid_role_def)
qed (auto simp: less_eq_probe_hid_role_def less_probe_hid_role_def)
end

datatype probe_hid_bus = Phb_i2c | Phb_usb

datatype probe_hid_name = Phn_enek5130 | Phn_acer_ec_hid | Phn_darfon_usb_hid

record probe_hid_identity =
  pid_bus :: probe_hid_bus
  pid_vid :: string
  pid_pid :: string
  pid_name :: probe_hid_name
  pid_interface :: "u8 option"
  pid_usage_page :: "string option"
  pid_usage :: "string option"

record hid_feature_geometry =
  hfg_id :: string
  hfg_bytes :: nat

record probe_hid_descriptor =
  phd_bytes :: nat
  phd_sha256 :: string
  phd_feature_reports :: "hid_feature_geometry list"

record probe_hid_a1 =
  pa1_requested_bytes :: nat
  pa1_returned_bytes :: nat
  pa1_payload :: raw_value
  pa1_targets :: "string list"

datatype hid_selector_result = Selector_sent

record hid_selector_receipt =
  hs_target :: string
  hs_result :: "hid_selector_result probe_observation"

record hid_report =
  hrp_requested_bytes :: nat
  hrp_returned_bytes :: nat
  hrp_payload :: raw_value

record hid_a3_evidence =
  a3_target :: string
  a3_read :: "hid_report probe_observation"

record hid_extended =
  hx_requested :: bool
  hx_selectors :: "hid_selector_receipt list"
  hx_a3 :: "hid_a3_evidence list"

record hid_evidence =
  he_role :: probe_hid_role
  he_identity :: probe_hid_identity
  he_driver :: "string probe_observation"
  he_descriptor :: "probe_hid_descriptor probe_observation"
  he_a1 :: "probe_hid_a1 probe_observation option"
  he_extended :: hid_extended

datatype mutation_operation = Enek_a2_selector

record mutation_receipt =
  mr_operation :: mutation_operation
  mr_target :: string

datatype excluded_identity = Ex_serials | Ex_uuids | Ex_hostname | Ex_user_identity | Ex_network_identity | Ex_boot_id
  | Ex_storage_identity | Ex_hid_serial_and_physical_path | Ex_journals | Ex_raw_acpi_tables | Ex_absolute_device_paths
  | Ex_environment

record raw_allowance =
  ra_path :: string
  ra_max_bytes :: nat

record privacy_evidence =
  pv_automatic_upload :: bool
  pv_persistent_report_id :: bool
  pv_default_mutations :: "mutation_receipt list"
  pv_extended_mutations :: "mutation_receipt list"
  pv_excluded :: "excluded_identity list"
  pv_bounded_raw :: "raw_allowance list"

record probe_report =
  rp_schema :: u8
  rp_provenance :: provenance
  rp_machine :: machine_evidence
  rp_power :: power_evidence
  rp_drivers :: driver_evidence
  rp_profile :: profile_evidence
  rp_fans :: fan_evidence
  rp_platform :: platform_evidence
  rp_lighting :: "lighting_evidence list"
  rp_hid :: "hid_evidence list"
  rp_privacy :: privacy_evidence

section \<open>Checks\<close>

type_synonym check = "string + unit"

definition require :: "bool \<Rightarrow> string \<Rightarrow> check" where
  "require condition error = (if condition then Inr () else Inl error)"

text \<open>A sequence of checks with the question mark operator: the first failure is the result.\<close>

fun checks :: "check list \<Rightarrow> check" where
  "checks [] = Inr ()"
| "checks (c # cs) = res_bind c (\<lambda>_. checks cs)"

text \<open>A loop over the elements in which each may look at the one before.\<close>

fun each_after :: "('a option \<Rightarrow> 'a \<Rightarrow> check) \<Rightarrow> 'a option \<Rightarrow> 'a list \<Rightarrow> check" where
  "each_after f previous [] = Inr ()"
| "each_after f previous (x # xs) = res_bind (f previous x) (\<lambda>_. each_after f (Some x) xs)"

definition is_lower_hex :: "char \<Rightarrow> bool" where
  "is_lower_hex c \<longleftrightarrow> is_digit c \<or> (97 \<le> byte c \<and> byte c \<le> 102)"

definition lower_hex_text :: "string \<Rightarrow> nat \<Rightarrow> bool" where
  "lower_hex_text v n \<longleftrightarrow> length v = n \<and> list_all is_lower_hex v"

definition guid_char :: "nat \<Rightarrow> char \<Rightarrow> bool" where
  "guid_char i c \<longleftrightarrow> (if i \<in> {8, 13, 18, 23} then c = CHR ''-'' else is_digit c \<or> (65 \<le> byte c \<and> byte c \<le> 70))"

definition is_guid :: "string \<Rightarrow> bool" where
  "is_guid v \<longleftrightarrow> length v = 36 \<and> list_all (\<lambda>(i, c). guid_char i c) (List.enumerate 0 v)"

definition timestamp_char :: "nat \<Rightarrow> char \<Rightarrow> bool" where
  "timestamp_char i c \<longleftrightarrow> (if i = 4 \<or> i = 7 then c = CHR ''-'' else if i = 10 then c = CHR ''T''
     else if i = 13 \<or> i = 16 then c = CHR '':'' else if i = 19 then c = CHR ''Z'' else is_digit c)"

definition validate_timestamp :: "string \<Rightarrow> check" where
  "validate_timestamp v = require (length v = 20 \<and> list_all (\<lambda>(i, c). timestamp_char i c) (List.enumerate 0 v))
     ''capture timestamp is not canonical RFC 3339 UTC''"

definition probe_validate_text :: "string \<Rightarrow> nat \<Rightarrow> string \<Rightarrow> check" where
  "probe_validate_text v maximum label = checks [
     require (v \<noteq> []) (label @ '' is empty''),
     require (length v \<le> maximum) (label @ '' is oversized''),
     require (\<not> has_control v) (label @ '' contains control characters''),
     require (\<not> prefix ''/'' v) (label @ '' contains an absolute path'')]"

definition probe_token_char :: "char \<Rightarrow> bool" where
  "probe_token_char c \<longleftrightarrow> token_char c \<or> c = CHR ''+'' \<or> c = CHR '':''"

definition probe_validate_token :: "string \<Rightarrow> nat \<Rightarrow> string \<Rightarrow> check" where
  "probe_validate_token v maximum label = checks [
     probe_validate_text v maximum label,
     require (list_all probe_token_char v) (label @ '' is not a bounded token'')]"

definition probe_validate_raw :: "raw_value \<Rightarrow> nat \<Rightarrow> probe_encoding list \<Rightarrow> check" where
  "probe_validate_raw raw maximum allowed = checks [
     require (rv_encoding raw \<in> set allowed) ''raw encoding is not allowed'',
     require (rv_bytes raw \<le> maximum) ''raw value exceeds its byte bound'',
     (if rv_encoding raw = Enc_ascii_token then checks [
        require (length (rv_value raw) = rv_bytes raw) ''raw ASCII byte count differs'',
        probe_validate_token (rv_value raw) maximum ''raw ASCII token'']
      else require (lower_hex_text (rv_value raw) (min u64_max (rv_bytes raw * 2)))
        ''raw hex value has invalid length or characters'')]"

definition probe_validate_error :: "probe_error \<Rightarrow> check" where
  "probe_validate_error x = checks [
     (case pe_errno x of Some n \<Rightarrow> require (0 \<le> n) ''errno must be non-negative'' | None \<Rightarrow> Inr ()),
     (case pe_raw x of Some raw \<Rightarrow> probe_validate_raw raw 8 [Enc_scalar_hex] | None \<Rightarrow> Inr ())]"

definition probe_validate_observation :: "'a probe_observation \<Rightarrow> ('a \<Rightarrow> check) \<Rightarrow> check" where
  "probe_validate_observation ob f = (case ob of Pv_value _ v \<Rightarrow> f v | Pv_absent _ _ \<Rightarrow> Inr ()
     | Pv_error _ x \<Rightarrow> probe_validate_error x)"

definition any_value :: "'a \<Rightarrow> check" where "any_value v = Inr ()"

fun observation_source :: "'a probe_observation \<Rightarrow> source_id" where
  "observation_source (Pv_value source v) = source"
| "observation_source (Pv_absent source reason) = source"
| "observation_source (Pv_error source x) = source"

definition validate_backend_transport :: "'a backend_transport \<Rightarrow> check" where
  "validate_backend_transport t = (case t of Tr_error _ x \<Rightarrow> probe_validate_error x | _ \<Rightarrow> Inr ())"

definition probe_channel_order :: "string \<Rightarrow> u8 list \<Rightarrow> check" where
  "probe_channel_order label = each_after (\<lambda>previous c.
     require (case previous of Some p \<Rightarrow> p < c | None \<Rightarrow> True) (label @ '' channels are not sorted and unique'')) None"

section \<open>The machine's sections\<close>

definition validate_daemon :: "daemon_identity \<Rightarrow> check" where
  "validate_daemon d = checks [
     require (0 < di_protocol d) ''daemon protocol must be non-zero'',
     probe_validate_text (di_version d) MAX_TEXT_BYTES ''daemon version'']"

definition machine_texts :: "machine_evidence \<Rightarrow> (string \<times> string probe_observation) list" where
  "machine_texts m = [(''DMI vendor'', dmi_vendor (me_dmi m)), (''DMI product'', dmi_product (me_dmi m)),
     (''DMI board'', dmi_board (me_dmi m)), (''DMI BIOS'', dmi_bios (me_dmi m)),
     (''kernel release'', kr_release (me_kernel m)), (''kernel architecture'', kr_architecture (me_kernel m)),
     (''OS ID'', os_id (me_os m)), (''OS version ID'', os_version_id (me_os m))]"

definition validate_machine :: "machine_evidence \<Rightarrow> check" where
  "validate_machine m = res_all (\<lambda>(label, ob).
     probe_validate_observation ob (\<lambda>v. probe_validate_text v MAX_TEXT_BYTES label)) (machine_texts m)"

definition validate_supply :: "nat \<times> ac_evidence \<Rightarrow> check" where
  "validate_supply = (\<lambda>(i, s). checks [
     require (ac_ordinal s = i) ''AC ordinals are not canonical'',
     probe_validate_observation (ac_online s) any_value])"

definition validate_battery :: "nat \<times> battery_evidence \<Rightarrow> check" where
  "validate_battery = (\<lambda>(i, b). checks [
     require (bt_ordinal b = i) ''battery ordinals are not canonical'',
     probe_validate_observation (bt_present b) any_value,
     probe_validate_observation (bt_status b) any_value,
     probe_validate_observation (bt_capacity_percent b) (\<lambda>v. require (v \<le> 100) ''battery capacity exceeds 100'')])"

definition validate_power :: "power_evidence \<Rightarrow> check" where
  "validate_power p = checks [
     require (length (pw_ac p) \<le> MAX_POWER_ITEMS) ''too many AC supplies'',
     require (length (pw_batteries p) \<le> MAX_POWER_ITEMS) ''too many batteries'',
     res_all validate_supply (List.enumerate 0 (pw_ac p)),
     res_all validate_battery (List.enumerate 0 (pw_batteries p))]"

definition validate_module :: "module_evidence \<Rightarrow> check" where
  "validate_module m = checks [
     probe_validate_observation (mod_loaded m) any_value,
     probe_validate_observation (mod_version m) (\<lambda>v. probe_validate_token v MAX_TEXT_BYTES ''module version'')]"

definition validate_wmi :: "wmi_evidence \<Rightarrow> check" where
  "validate_wmi i = checks [
     require (is_guid (we_guid i)) ''invalid WMI GUID'',
     require (0 < we_instances i \<and> we_instances i \<le> 32) ''invalid WMI instance count'',
     probe_validate_observation (we_owner i) (\<lambda>v. probe_validate_token v MAX_TEXT_BYTES ''WMI driver owner''),
     require (length (we_groups i) \<le> 7) ''too many WMI groups'',
     require (sorted_wrt (<) (we_groups i)) ''WMI groups are not sorted and unique'']"

definition validate_drivers :: "driver_evidence \<Rightarrow> check" where
  "validate_drivers d = checks [
     require (length (dv_modules d) = 2) ''module inventory must have two entries'',
     require (map mod_name (dv_modules d) = [Mod_acer_wmi, Mod_asense_rgb]) ''module inventory order is not canonical'',
     res_all validate_module (dv_modules d),
     require (length (dv_wmi d) \<le> 3) ''too many WMI GUIDs'',
     res_all validate_wmi (dv_wmi d),
     probe_validate_observation (dv_hwmon_owner d) (\<lambda>v. probe_validate_token v MAX_TEXT_BYTES ''hwmon owner'')]"

section \<open>The profile\<close>

definition profile_name_for_raw :: "raw_value \<Rightarrow> probe_profile_name option" where
  "profile_name_for_raw raw = (let is = (\<lambda>hex token. (rv_encoding raw = Enc_u8_hex \<and> rv_value raw = hex)
       \<or> (rv_encoding raw = Enc_ascii_token \<and> rv_value raw = token)) in
     if is ''00'' ''quiet'' then Some Ppn_quiet
     else if is ''01'' ''balanced'' then Some Ppn_balanced
     else if is ''04'' ''balanced-performance'' then Some Ppn_performance
     else if is ''05'' ''performance'' then Some Ppn_turbo
     else if is ''06'' ''low-power'' then Some Ppn_eco
     else None)"

definition profile_name_for_command :: "string \<Rightarrow> probe_profile_name option" where
  "profile_name_for_command command =
     profile_name_for_raw \<lparr>rv_encoding = Enc_ascii_token, rv_bytes = length command, rv_value = command\<rparr>"

definition validate_profile_raw :: "raw_value \<Rightarrow> check" where
  "validate_profile_raw raw = (case rv_encoding raw of
      Enc_u8_hex \<Rightarrow> probe_validate_raw raw 1 [Enc_u8_hex]
    | Enc_ascii_token \<Rightarrow> probe_validate_raw raw MAX_COMMAND_BYTES [Enc_ascii_token]
    | _ \<Rightarrow> Inl ''profile current raw encoding is invalid'')"

text \<open>On a kernel transport a schema-4 report may call the bare \<open>performance\<close> token Performance.\<close>

definition generic_performance :: "u8 \<Rightarrow> profile_evidence \<Rightarrow> bool" where
  "generic_performance schema p \<longleftrightarrow> 4 \<le> schema \<and> (case pf_transport p of Tr_present _ b \<Rightarrow> b = Ppb_kernel | _ \<Rightarrow> False)"

definition probe_validate_current :: "bool \<Rightarrow> profile_current \<Rightarrow> check" where
  "probe_validate_current generic c = (case c of
      Cur_known _ raw profile \<Rightarrow> checks [
        validate_profile_raw raw,
        require (profile_name_for_raw raw = Some profile
            \<or> (generic \<and> rv_encoding raw = Enc_ascii_token \<and> rv_value raw = ''performance'' \<and> profile = Ppn_performance))
          ''known profile semantic does not match its raw authority'']
    | Cur_unknown _ raw \<Rightarrow> checks [
        validate_profile_raw raw,
        require (profile_name_for_raw raw = None) ''known profile raw was represented as unknown'']
    | Cur_absent _ _ \<Rightarrow> Inr ()
    | Cur_error _ x \<Rightarrow> probe_validate_error x)"

definition probe_validate_choice :: "bool \<Rightarrow> probe_profile_choice list \<Rightarrow> probe_profile_choice \<Rightarrow> check" where
  "probe_validate_choice generic before c = checks [
     probe_validate_token (ppc_command c) MAX_COMMAND_BYTES ''profile command'',
     require (list_all (\<lambda>p. ppc_command p \<noteq> ppc_command c) before) ''profile choices are not unique'',
     require (profile_name_for_command (ppc_command c) = Some (ppc_profile c)
         \<or> (generic \<and> ppc_command c = ''performance'' \<and> ppc_profile c = Ppn_performance))
       ''profile choice command and semantic differ'',
     (case ppc_transport_raw c of None \<Rightarrow> Inr ()
      | Some raw \<Rightarrow> checks [
          probe_validate_raw raw 1 [Enc_u8_hex],
          require (profile_name_for_raw raw = Some (ppc_profile c)) ''profile choice raw and semantic differ''])]"

fun probe_validate_choice_list :: "bool \<Rightarrow> probe_profile_choice list \<Rightarrow> probe_profile_choice list \<Rightarrow> check" where
  "probe_validate_choice_list generic before [] = Inr ()"
| "probe_validate_choice_list generic before (c # cs) = res_bind (probe_validate_choice generic before c) (\<lambda>_.
     probe_validate_choice_list generic (before @ [c]) cs)"

definition probe_validate_choices :: "bool \<Rightarrow> probe_profile_choice list \<Rightarrow> check" where
  "probe_validate_choices generic cs = checks [
     require (length cs \<le> 8) ''too many profile choices'',
     probe_validate_choice_list generic [] cs]"

definition probe_validate_profile :: "profile_evidence \<Rightarrow> u8 \<Rightarrow> check" where
  "probe_validate_profile p schema = checks [
     validate_backend_transport (pf_transport p),
     probe_validate_current (generic_performance schema p) (pf_current p),
     probe_validate_observation (pf_choices p) (probe_validate_choices (generic_performance schema p)),
     probe_validate_observation (pf_firmware_supported_bitmap p) (\<lambda>b. probe_validate_raw (fb_raw b) 1 [Enc_u8_hex])]"

section \<open>The fans and the platform\<close>

definition probe_validate_rpm :: "rpm_evidence \<Rightarrow> check" where
  "probe_validate_rpm r = checks [
     require (0 < re_channel r) ''RPM channel must be non-zero'',
     probe_validate_text (re_label r) MAX_TEXT_BYTES ''RPM label'',
     probe_validate_observation (re_read r) any_value,
     require (observation_source (re_read r) = Id_acer_hwmon) ''RPM source differs'']"

definition probe_validate_pwm :: "pwm_evidence \<Rightarrow> check" where
  "probe_validate_pwm p = checks [
     require (0 < pwe_channel p) ''PWM channel must be non-zero'',
     probe_validate_observation (pwe_setpoint p) (\<lambda>v. case pwe_setpoint_unit p of Set_pwm255 \<Rightarrow> Inr ()
       | Set_percent \<Rightarrow> require (v \<le> 100) ''fan percentage exceeds 100''),
     probe_validate_observation (pwe_mode p) any_value,
     require (observation_source (pwe_mode p) = observation_source (pwe_setpoint p)) ''fan mode and setpoint sources differ'',
     require ((observation_source (pwe_setpoint p), pwe_setpoint_unit p) \<in> {(Id_acer_hwmon, Set_pwm255), (Id_gaming_wmi_fan, Set_percent)})
       ''fan setpoint unit does not match its source'']"

definition probe_validate_temperature :: "temperature_evidence \<Rightarrow> check" where
  "probe_validate_temperature t = checks [
     require (0 < tev_channel t) ''temperature channel must be non-zero'',
     probe_validate_text (tev_label t) MAX_TEXT_BYTES ''temperature label'',
     probe_validate_observation (tev_millidegrees_c t) (\<lambda>v.
       require (-100000 \<le> v \<and> v \<le> 250000) ''temperature is outside physical bounds''),
     require (observation_source (tev_millidegrees_c t) = Id_acer_hwmon) ''temperature source differs'']"

definition probe_validate_fans :: "fan_evidence \<Rightarrow> check" where
  "probe_validate_fans f = checks [
     (case fe_control f of Fcn_error _ x \<Rightarrow> probe_validate_error x | _ \<Rightarrow> Inr ()),
     require (length (fe_rpm f) \<le> MAX_ITEMS) ''too many RPM channels'',
     require (length (fe_pwm f) \<le> MAX_ITEMS) ''too many PWM channels'',
     require (length (fe_temperatures f) \<le> MAX_ITEMS) ''too many temperature channels'',
     res_all probe_validate_rpm (fe_rpm f),
     res_all probe_validate_pwm (fe_pwm f),
     res_all probe_validate_temperature (fe_temperatures f),
     probe_channel_order ''RPM'' (map re_channel (fe_rpm f)),
     probe_channel_order ''PWM'' (map pwe_channel (fe_pwm f)),
     probe_channel_order ''temperature'' (map tev_channel (fe_temperatures f))]"

definition probe_field_order :: "(probe_platform_field \<times> source_id) list" where
  "probe_field_order = [(Pfd_battery_limit, Id_asense_battery), (Pfd_battery_calibration, Id_asense_battery),
     (Pfd_usb_off_charging, Id_asense_apge), (Pfd_keyboard_timeout, Id_asense_apge), (Pfd_boot_sound, Id_asense_rgb),
     (Pfd_lcd_override, Id_asense_rgb), (Pfd_rear_logo, Id_asense_rgb)]"

definition probe_validate_value :: "probe_platform_value \<Rightarrow> check" where
  "probe_validate_value v = (case v of
      Pval_bool _ \<Rightarrow> Inr ()
    | Pval_usb_threshold n \<Rightarrow> require (n \<in> {0, 10, 20, 30}) ''USB threshold is invalid''
    | Pval_rear_logo _ brightness color \<Rightarrow> checks [
        require (brightness \<le> 100) ''rear logo brightness exceeds 100'',
        require (lower_hex_text color 6) ''rear logo color is not six hex digits''])"

definition probe_validate_field :: "platform_field_evidence \<times> probe_platform_field \<times> source_id \<Rightarrow> check" where
  "probe_validate_field = (\<lambda>(f, expected, source). checks [
     require (pfe_name f = expected) ''platform field order differs'',
     require (pfe_source f = source) ''platform field source differs'',
     require (observation_source (pfe_read f) = pfe_source f) ''platform read source differs from its field'',
     probe_validate_observation (pfe_read f) probe_validate_value])"

definition probe_validate_platform :: "platform_evidence \<Rightarrow> check" where
  "probe_validate_platform p = checks [
     validate_backend_transport (ple_transport p),
     require (length (ple_fields p) = length probe_field_order) ''platform field count differs'',
     res_all probe_validate_field (zip (ple_fields p) probe_field_order)]"

definition probe_validate_light :: "lighting_evidence option \<Rightarrow> lighting_evidence \<Rightarrow> check" where
  "probe_validate_light previous l = checks [
     probe_validate_token (le_id l) MAX_TEXT_BYTES ''lighting id'',
     require (1 \<le> le_zones l \<and> le_zones l \<le> 32) ''lighting zone count is out of range'',
     require (case previous of None \<Rightarrow> True | Some p \<Rightarrow> le_id p < le_id l) ''lighting inventory is not stably sorted and unique'']"

section \<open>HID evidence\<close>

text \<open>
  \<open>as_chunks\<close> splits the text into pairs and a remainder, each pair is read as a byte. The pairs
  of a text that passed \<open>validate_raw\<close> are ASCII, so the source's \<open>expect\<close> cannot fire there.
\<close>

fun hex_pairs :: "string \<Rightarrow> string list \<times> string" where
  "hex_pairs (a # b # s) = (let (ps, r) = hex_pairs s in ([a, b] # ps, r))"
| "hex_pairs s = ([], s)"

definition decode_hex :: "string \<Rightarrow> string + u8 list" where
  "decode_hex v = (case hex_pairs v of (pairs, remainder) \<Rightarrow>
     res_bind (require (remainder = []) ''hex payload has odd length'') (\<lambda>_.
       res_map_list (\<lambda>p. ok_or ''hex payload is invalid'' (map_option of_nat (parse_uint 16 u8_max p))) pairs))"

definition a1_targets_from_payload :: "string \<Rightarrow> string + string list" where
  "a1_targets_from_payload v = res_bind (decode_hex v) (\<lambda>bytes.
     res_bind (require (2 \<le> length bytes \<and> bytes ! 0 = 0xa1) ''A1 payload header is invalid'') (\<lambda>_.
       let n = unat (bytes ! 1) in
       res_bind (require (2 + n \<le> u64_max) ''A1 target count overflows'') (\<lambda>_.
       res_bind (require (n \<le> MAX_ITEMS \<and> 2 + n \<le> length bytes) ''A1 target count is invalid'') (\<lambda>_.
         Inr (remdups_adj (sort (map hex2 (drop 2 (take (2 + n) bytes)))))))))"

definition probe_validate_a1 :: "probe_hid_a1 \<Rightarrow> check" where
  "probe_validate_a1 a = checks [
     require (2 \<le> pa1_requested_bytes a \<and> pa1_requested_bytes a \<le> MAX_HID_PAYLOAD_BYTES
         \<and> 2 \<le> pa1_returned_bytes a \<and> pa1_returned_bytes a \<le> pa1_requested_bytes a) ''A1 report is oversized'',
     probe_validate_raw (pa1_payload a) MAX_HID_PAYLOAD_BYTES [Enc_hex],
     require (rv_bytes (pa1_payload a) = pa1_returned_bytes a \<and> prefix ''a1'' (rv_value (pa1_payload a)))
       ''A1 payload length or report ID differs'',
     require (length (pa1_targets a) \<le> MAX_ITEMS) ''too many A1 targets'',
     require (list_all (\<lambda>t. lower_hex_text t 2) (pa1_targets a)) ''A1 target is invalid'',
     require (sorted_wrt (<) (pa1_targets a)) ''A1 targets are not sorted and unique'',
     res_bind (a1_targets_from_payload (rv_value (pa1_payload a))) (\<lambda>ts.
       require (ts = pa1_targets a) ''A1 decoded targets differ from its retained payload'')]"

definition probe_validate_geometry :: "hid_feature_geometry option \<Rightarrow> hid_feature_geometry \<Rightarrow> check" where
  "probe_validate_geometry previous g = checks [
     require (lower_hex_text (hfg_id g) 2) ''HID report ID is invalid'',
     require (1 \<le> hfg_bytes g \<and> hfg_bytes g \<le> 4096) ''HID report geometry is oversized'',
     require (case previous of None \<Rightarrow> True | Some p \<Rightarrow> hfg_id p < hfg_id g) ''HID report geometry is not sorted and unique'']"

definition probe_validate_descriptor :: "probe_hid_descriptor \<Rightarrow> check" where
  "probe_validate_descriptor d = checks [
     require (1 \<le> phd_bytes d \<and> phd_bytes d \<le> 4096) ''HID descriptor is oversized'',
     require (lower_hex_text (phd_sha256 d) 64) ''HID descriptor SHA-256 is invalid'',
     require (length (phd_feature_reports d) \<le> MAX_DESCRIPTOR_GEOMETRY) ''too many HID feature reports'',
     each_after probe_validate_geometry None (phd_feature_reports d)]"

definition identity_is :: "probe_hid_identity \<Rightarrow> probe_hid_bus \<Rightarrow> string \<Rightarrow> string \<Rightarrow> probe_hid_name \<Rightarrow> bool" where
  "identity_is i bus vid pid name \<longleftrightarrow> pid_bus i = bus \<and> pid_vid i = vid \<and> pid_pid i = pid \<and> pid_name i = name"

definition validate_role :: "hid_evidence \<Rightarrow> check" where
  "validate_role h = (case he_role h of
      Rl_enek5130_lighting \<Rightarrow> checks [
        require (identity_is (he_identity h) Phb_i2c ''0cf2'' ''5130'' Phn_enek5130) ''ENEK role and exact HID identity differ'',
        require (he_a1 h \<noteq> None) ''ENEK HID evidence omits A1 status'']
    | Rl_acer_ec_hid_power_candidate \<Rightarrow> checks [
        require (identity_is (he_identity h) Phb_i2c ''1025'' ''174b'' Phn_acer_ec_hid) ''Acer EC-HID role and exact identity differ'',
        require (he_a1 h = None) ''Acer EC-HID contains ENEK A1 evidence'']
    | Rl_darfon_lighting_candidate \<Rightarrow> checks [
        require (identity_is (he_identity h) Phb_usb ''0d62'' ''ba51'' Phn_darfon_usb_hid) ''Darfon role and exact USB identity differ'',
        require (he_a1 h = None) ''Darfon candidate contains ENEK A1 evidence'',
        require (\<not> hx_requested (he_extended h) \<and> hx_selectors (he_extended h) = [] \<and> hx_a3 (he_extended h) = [])
          ''Darfon candidate contains active ENEK evidence''])"

definition validate_selector :: "hid_selector_receipt \<Rightarrow> check" where
  "validate_selector s = checks [
     require (lower_hex_text (hs_target s) 2) ''A2 target is invalid'',
     require (observation_source (hs_result s) = Id_hid_selector_a2) ''A2 selector source differs'',
     probe_validate_observation (hs_result s) any_value]"

definition validate_a3 :: "hid_a3_evidence \<Rightarrow> check" where
  "validate_a3 a = checks [
     require (lower_hex_text (a3_target a) 2) ''A3 target is invalid'',
     require (observation_source (a3_read a) = Id_hid_feature_a3) ''A3 report source differs'',
     probe_validate_observation (a3_read a) (\<lambda>r. checks [
       require (hrp_requested_bytes r \<le> MAX_HID_PAYLOAD_BYTES \<and> hrp_returned_bytes r \<le> MAX_HID_PAYLOAD_BYTES) ''A3 report is oversized'',
       probe_validate_raw (hrp_payload r) MAX_HID_PAYLOAD_BYTES [Enc_hex]])]"

definition validate_extended :: "hid_extended \<Rightarrow> check" where
  "validate_extended x = checks [
     require (length (hx_selectors x) \<le> MAX_ITEMS \<and> length (hx_a3 x) \<le> MAX_ITEMS) ''extended HID evidence is oversized'',
     require (hx_requested x \<or> hx_selectors x = [] \<and> hx_a3 x = []) ''passive HID evidence contains extended receipts'',
     res_all validate_selector (hx_selectors x),
     res_all validate_a3 (hx_a3 x)]"

definition validate_usage :: "probe_hid_identity \<Rightarrow> check" where
  "validate_usage i = checks [
     require ((pid_usage_page i \<noteq> None) = (pid_usage i \<noteq> None)) ''HID usage page and usage must be present together'',
     (case (pid_usage_page i, pid_usage i) of
        (Some page, Some usage) \<Rightarrow> checks [
          require (lower_hex_text page 4) ''HID usage page is invalid'',
          require (lower_hex_text usage 4) ''HID usage is invalid'']
      | _ \<Rightarrow> Inr ())]"

definition probe_validate_hid :: "hid_evidence \<Rightarrow> check" where
  "probe_validate_hid h = checks [
     require (lower_hex_text (pid_vid (he_identity h)) 4) ''HID VID is invalid'',
     require (lower_hex_text (pid_pid (he_identity h)) 4) ''HID PID is invalid'',
     validate_usage (he_identity h),
     require (pid_interface (he_identity h) = None) ''passive HID identity has a fabricated interface'',
     validate_role h,
     require (observation_source (he_driver h) = Id_hid_driver) ''HID driver source differs'',
     probe_validate_observation (he_driver h) (\<lambda>v. probe_validate_token v MAX_TEXT_BYTES ''HID driver''),
     require (observation_source (he_descriptor h) = Id_hid_report_descriptor) ''HID descriptor source differs'',
     probe_validate_observation (he_descriptor h) probe_validate_descriptor,
     (case he_a1 h of None \<Rightarrow> Inr ()
      | Some a1 \<Rightarrow> checks [
          require (observation_source a1 = Id_hid_feature_a1) ''A1 source differs'',
          probe_validate_observation a1 probe_validate_a1]),
     validate_extended (he_extended h)]"

definition hid_descriptor_hash :: "hid_evidence \<Rightarrow> string" where
  "hid_descriptor_hash h = (case he_descriptor h of Pv_value _ d \<Rightarrow> phd_sha256 d | _ \<Rightarrow> [])"

text \<open>\<open>compare_hid\<close> compares these components in this order.\<close>

definition probe_hid_key :: "hid_evidence \<Rightarrow> probe_hid_role \<times> string option \<times> string option \<times> string" where
  "probe_hid_key h = (he_role h, pid_usage_page (he_identity h), pid_usage (he_identity h), hid_descriptor_hash h)"

definition validate_hid_entry :: "u8 \<Rightarrow> hid_evidence option \<Rightarrow> hid_evidence \<Rightarrow> check" where
  "validate_hid_entry schema previous h = checks [
     require (4 \<le> schema \<or> he_role h \<noteq> Rl_darfon_lighting_candidate) ''schema 3 cannot contain USB lighting candidates'',
     probe_validate_hid h,
     require (case previous of None \<Rightarrow> True | Some p \<Rightarrow> probe_hid_key p < probe_hid_key h)
       ''HID inventory is not stably sorted and unique'']"

section \<open>Privacy\<close>

definition EXCLUDED :: "excluded_identity list" where
  "EXCLUDED = [Ex_serials, Ex_uuids, Ex_hostname, Ex_user_identity, Ex_network_identity, Ex_boot_id, Ex_storage_identity,
     Ex_hid_serial_and_physical_path, Ex_journals, Ex_raw_acpi_tables, Ex_absolute_device_paths, Ex_environment]"

definition RAW_ALLOWED :: "(string \<times> nat) list" where
  "RAW_ALLOWED = [(''profile.current.raw'', 48), (''profile.choices.value[].transport_raw'', 1),
     (''profile.firmware_supported_bitmap.value.raw'', 1), (''platform.fields[].read.error.raw'', 8),
     (''hid[].a1.value.payload'', 64), (''hid[].extended.a3[].read.value.payload'', 64)]"

definition validate_privacy :: "privacy_evidence \<Rightarrow> check" where
  "validate_privacy p = checks [
     require (\<not> pv_automatic_upload p) ''probe may not upload automatically'',
     require (\<not> pv_persistent_report_id p) ''probe may not create a persistent report ID'',
     require (pv_default_mutations p = []) ''default probe contains a mutation receipt'',
     require (pv_excluded p = EXCLUDED) ''privacy exclusion list differs'',
     require (length (pv_bounded_raw p) = length RAW_ALLOWED) ''raw allow-list differs'',
     res_all (\<lambda>(item, entry). require ((ra_path item, ra_max_bytes item) = entry) ''raw allow-list entry differs'')
       (zip (pv_bounded_raw p) RAW_ALLOWED),
     res_all (\<lambda>m. require (lower_hex_text (mr_target m) 2) ''mutation target is invalid'') (pv_extended_mutations p)]"

section \<open>The report\<close>

text \<open>\<open>serde_json\<close>: the pretty writer and the reader of one report.\<close>

record probe_json =
  pj_write :: "probe_report \<Rightarrow> string + string"
  pj_read :: "string \<Rightarrow> string + probe_report"

definition validate_commit :: "string option \<Rightarrow> check" where
  "validate_commit commit = (case commit of None \<Rightarrow> Inr ()
     | Some c \<Rightarrow> require (lower_hex_text c 40) ''build commit must be lowercase 40-hex'')"

definition validate_provenance :: "provenance \<Rightarrow> check" where
  "validate_provenance p = checks [
     require (pr_report p = ''asense-probe'') ''invalid report token'',
     probe_validate_text (pr_asense_version p) MAX_TEXT_BYTES ''ASense version'',
     validate_commit (pr_build_commit p),
     validate_timestamp (pr_captured_at_utc p),
     probe_validate_observation (pr_daemon p) validate_daemon]"

definition validate_report_size :: "probe_json \<Rightarrow> probe_report \<Rightarrow> check" where
  "validate_report_size js r = res_bind (res_map_err (\<lambda>x. ''cannot size probe report: '' @ x) (pj_write js r)) (\<lambda>encoded.
     require (length encoded < MAX_REPORT_BYTES) ''probe report is oversized'')"

definition validate_report :: "probe_json \<Rightarrow> probe_report \<Rightarrow> check" where
  "validate_report js r = checks [
     require (rp_schema r = 3 \<or> rp_schema r = PROBE_SCHEMA) ''probe schema must be 3 or 4'',
     validate_provenance (rp_provenance r),
     validate_machine (rp_machine r),
     validate_power (rp_power r),
     validate_drivers (rp_drivers r),
     probe_validate_profile (rp_profile r) (rp_schema r),
     probe_validate_fans (rp_fans r),
     probe_validate_platform (rp_platform r),
     require (length (rp_lighting r) \<le> MAX_ITEMS) ''too many lighting devices'',
     each_after probe_validate_light None (rp_lighting r),
     require (length (rp_hid r) \<le> MAX_ITEMS) ''too many HID devices'',
     each_after (validate_hid_entry (rp_schema r)) None (rp_hid r),
     validate_privacy (rp_privacy r),
     validate_report_size js r]"

section \<open>Sections without a daemon\<close>

definition probe_absent_profile :: profile_evidence where
  "probe_absent_profile = \<lparr>pf_transport = Tr_absent Id_profile_discovery Abs_daemon_unavailable,
     pf_current = Cur_absent Id_profile_discovery Abs_daemon_unavailable,
     pf_choices = Pv_absent Id_profile_discovery Abs_daemon_unavailable,
     pf_firmware_supported_bitmap = Pv_absent Id_gaming_wmi_supported_profiles Abs_daemon_unavailable,
     pf_physical_effect = Effect_unverified\<rparr>"

definition absent_fans :: fan_evidence where
  "absent_fans = \<lparr>fe_control = Fcn_absent Id_fan_discovery Abs_daemon_unavailable, fe_rpm = [], fe_pwm = [], fe_temperatures = []\<rparr>"

definition bare_probe_field :: "(source_id \<Rightarrow> probe_platform_value probe_observation) \<Rightarrow> probe_platform_field \<times> source_id
    \<Rightarrow> platform_field_evidence" where
  "bare_probe_field read = (\<lambda>(name, source). \<lparr>pfe_name = name, pfe_expected = False, pfe_exposed = False,
     pfe_source = source, pfe_read = read source\<rparr>)"

definition absent_platform :: platform_evidence where
  "absent_platform = \<lparr>ple_transport = Tr_absent Id_platform_discovery Abs_daemon_unavailable,
     ple_fields = map (bare_probe_field (\<lambda>source. Pv_absent source Abs_daemon_unavailable)) probe_field_order\<rparr>"

definition passive_privacy :: privacy_evidence where
  "passive_privacy = \<lparr>pv_automatic_upload = False, pv_persistent_report_id = False, pv_default_mutations = [],
     pv_extended_mutations = [], pv_excluded = EXCLUDED,
     pv_bounded_raw = map (\<lambda>(path, n). \<lparr>ra_path = path, ra_max_bytes = n\<rparr>) RAW_ALLOWED\<rparr>"

section \<open>Facts about checks\<close>

named_theorems probe_simps \<open>when a check passes\<close>

lemma require_ok [simp, probe_simps]: "require c x = Inr u \<longleftrightarrow> c"
  by (simp add: require_def)

lemma checks_ok [simp, probe_simps]: "checks cs = Inr u \<longleftrightarrow> (\<forall>c \<in> set cs. c = Inr ())"
proof (induction cs)
  case (Cons c cs)
  then show ?case by (cases c) auto
qed simp

declare checks.simps [simp del]

lemma any_value_ok [simp]: "any_value v = Inr ()"
  by (simp add: any_value_def)

lemma each_after_ok: "each_after f previous xs = Inr () \<longleftrightarrow>
    (case xs of [] \<Rightarrow> True | x # ys \<Rightarrow> f previous x = Inr () \<and> each_after f (Some x) ys = Inr ())"
  by (cases xs) (auto simp: res_bind_Inr_iff)

text \<open>A loop that compares keys accepts exactly the ascending lists of acceptable elements.\<close>

lemma each_after_sorted:
  assumes "\<And>previous x. f previous x = Inr () \<longleftrightarrow> P x \<and> (\<forall>p. previous = Some p \<longrightarrow> key p < (key x :: 'k::order))"
  shows "each_after f previous xs = Inr () \<longleftrightarrow> list_all P xs \<and> sorted_wrt (<) (map key xs)
    \<and> (\<forall>p. previous = Some p \<longrightarrow> (\<forall>x \<in> set xs. key p < key x))"
proof (induction xs arbitrary: previous)
  case (Cons x xs)
  have "(\<forall>y \<in> set xs. key x < key y) \<Longrightarrow> key p < key x \<Longrightarrow> (\<forall>y \<in> set xs. key p < key y)" for p
    by (meson order.strict_trans)
  then show ?case by (auto simp: res_bind_Inr_iff assms Cons.IH)
qed simp

lemma channel_order_ok: "probe_channel_order label cs = Inr () \<longleftrightarrow> sorted_wrt (<) cs"
proof -
  have "(\<lambda>c :: u8. c) = id" by auto
  then show ?thesis
    unfolding probe_channel_order_def by (subst each_after_sorted [where P = "\<lambda>_. True" and key = id]) (auto split: option.split simp: list_all_iff)
qed

definition pob_ok :: "('a \<Rightarrow> bool) \<Rightarrow> 'a probe_observation \<Rightarrow> bool" where
  "pob_ok P ob \<longleftrightarrow> (case ob of Pv_value _ v \<Rightarrow> P v | Pv_absent _ _ \<Rightarrow> True | Pv_error _ x \<Rightarrow> probe_validate_error x = Inr ())"

lemma pob_ok_simps [simp]: "pob_ok P (Pv_value s v) = P v" "pob_ok P (Pv_absent s r)"
  "pob_ok P (Pv_error s x) = (probe_validate_error x = Inr ())"
  by (simp_all add: pob_ok_def)

lemma probe_observation_ok [simp]: "probe_validate_observation ob f = Inr () \<longleftrightarrow> pob_ok (\<lambda>v. f v = Inr ()) ob"
  by (cases ob) (simp_all add: probe_validate_observation_def)

lemma new_error_ok [simp]: "probe_validate_error (probe_error_new stage cls errno) = Inr () \<longleftrightarrow> (case errno of Some n \<Rightarrow> 0 \<le> n | None \<Rightarrow> True)"
  by (simp add: probe_validate_error_def probe_error_new_def split: option.split)

text \<open>The fixed sections.\<close>

lemma bare_fields_ok:
  assumes "\<And>source. observation_source (read source) = source" and "\<And>source. probe_validate_observation (read source) probe_validate_value = Inr ()"
  shows "res_all probe_validate_field (zip (map (bare_probe_field read) probe_field_order) probe_field_order) = Inr ()"
proof -
  have "probe_validate_field (bare_probe_field read e, e) = Inr ()" for e
    by (cases e) (use assms in \<open>simp add: probe_validate_field_def bare_probe_field_def\<close>)
  then show ?thesis by (auto simp: res_all_ok zip_map1 zip_same_conv_map)
qed

lemma absent_sections_ok:
  "probe_validate_profile probe_absent_profile schema = Inr ()" "probe_validate_fans absent_fans = Inr ()"
  "probe_validate_platform absent_platform = Inr ()"
proof -
  show "probe_validate_profile probe_absent_profile schema = Inr ()"
    by (simp add: probe_validate_profile_def probe_absent_profile_def validate_backend_transport_def probe_validate_current_def)
  show "probe_validate_fans absent_fans = Inr ()"
    by (simp add: probe_validate_fans_def absent_fans_def res_all_def channel_order_ok)
  show "probe_validate_platform absent_platform = Inr ()"
    by (simp add: probe_validate_platform_def absent_platform_def validate_backend_transport_def bare_fields_ok)
qed

lemma passive_privacy_ok: "validate_privacy passive_privacy = Inr ()"
  by (auto simp: validate_privacy_def passive_privacy_def res_all_ok zip_map1 zip_same_conv_map split: prod.splits)

end
