(* ===== verification/Probe_Map.thy ===== *)
theory Probe_Map
  imports Probe_Schema Control_Diagnostics
begin

text \<open>
  \<open>src/probe.rs\<close>, the daemon's part of the report: the one conversation with the control service
  (the handshake and \<open>DIAG PASSIVE\<close>, nothing else), and the translation of the passive report the
  daemon answers into the sections of \<open>schema.rs\<close>. When the daemon is absent the sections say so,
  when the conversation failed they carry its error.
\<close>

section \<open>Vocabulary\<close>

text \<open>\<open>format!("{:04x}")\<close> of a \<open>u16\<close>.\<close>

definition hex4 :: "u16 \<Rightarrow> string" where
  "hex4 w = map digit_char [unat w div 4096, unat w div 256 mod 16, unat w div 16 mod 16, unat w mod 16]"

definition map_source :: "diag_source \<Rightarrow> source_id" where
  "map_source s = (case s of
      Src_kernel_platform_profile \<Rightarrow> Id_kernel_platform_profile
    | Src_gaming_wmi_profile \<Rightarrow> Id_gaming_wmi_profile
    | Src_known_gaming_wmi_commands \<Rightarrow> Id_known_gaming_wmi_commands
    | Src_acer_hwmon \<Rightarrow> Id_acer_hwmon
    | Src_gaming_wmi_fan \<Rightarrow> Id_gaming_wmi_fan
    | Src_platform_discovery \<Rightarrow> Id_platform_discovery
    | Src_asense_rgb \<Rightarrow> Id_asense_rgb
    | Src_asense_battery \<Rightarrow> Id_asense_battery
    | Src_asense_apge \<Rightarrow> Id_asense_apge)"

definition map_absence :: "diag_absence \<Rightarrow> absence_reason" where
  "map_absence r = (case r of Not_exposed \<Rightarrow> Abs_not_exposed | Incomplete_interface \<Rightarrow> Abs_incomplete_control_interface
     | Not_applicable \<Rightarrow> Abs_not_applicable)"

definition map_raw :: "diag_raw \<Rightarrow> raw_value" where
  "map_raw raw = \<lparr>rv_encoding = (case dr_encoding raw of U8_hex \<Rightarrow> Enc_u8_hex | Ascii_token \<Rightarrow> Enc_ascii_token | Scalar_hex \<Rightarrow> Enc_scalar_hex),
     rv_bytes = dr_bytes raw, rv_value = dr_value raw\<rparr>"

definition map_diagnostic_error :: "diag_error \<Rightarrow> probe_error" where
  "map_diagnostic_error x = \<lparr>
     pe_stage = (case dx_stage x of Stage_discover \<Rightarrow> Es_discover | Stage_open \<Rightarrow> Es_open | Stage_read \<Rightarrow> Es_read | Stage_decode \<Rightarrow> Es_decode),
     pe_class = (case dx_class x of Class_not_found \<Rightarrow> Ec_not_found | Class_permission_denied \<Rightarrow> Ec_permission_denied
       | Class_io \<Rightarrow> Ec_io | Class_invalid_value \<Rightarrow> Ec_invalid_value | Class_oversize \<Rightarrow> Ec_oversize),
     pe_errno = dx_errno x, pe_raw = map_option map_raw (dx_raw x)\<rparr>"

text \<open>The source's \<open>map_observation\<close>.\<close>

definition map_observation_to :: "source_id \<Rightarrow> ('a \<Rightarrow> 'b) \<Rightarrow> 'a observation \<Rightarrow> 'b probe_observation" where
  "map_observation_to source f ob = (case ob of Ob_value v \<Rightarrow> Pv_value source (f v)
     | Ob_absent r \<Rightarrow> Pv_absent source (map_absence r) | Ob_error x \<Rightarrow> Pv_error source (map_diagnostic_error x))"

definition map_profile_name :: "diag_profile_name \<Rightarrow> probe_profile_name" where
  "map_profile_name n = (case n of Dpn_quiet \<Rightarrow> Ppn_quiet | Dpn_balanced \<Rightarrow> Ppn_balanced | Dpn_performance \<Rightarrow> Ppn_performance
     | Dpn_turbo \<Rightarrow> Ppn_turbo | Dpn_eco \<Rightarrow> Ppn_eco)"

definition map_platform_field :: "diag_field_name \<Rightarrow> probe_platform_field" where
  "map_platform_field n = (case n of Fld_battery_limit \<Rightarrow> Pfd_battery_limit | Fld_battery_calibration \<Rightarrow> Pfd_battery_calibration
     | Fld_usb_off_charging \<Rightarrow> Pfd_usb_off_charging | Fld_keyboard_timeout \<Rightarrow> Pfd_keyboard_timeout
     | Fld_boot_sound \<Rightarrow> Pfd_boot_sound | Fld_lcd_override \<Rightarrow> Pfd_lcd_override | Fld_rear_logo \<Rightarrow> Pfd_rear_logo)"

section \<open>Sections\<close>

definition map_lighting :: "diag_lighting \<Rightarrow> lighting_evidence" where
  "map_lighting l = \<lparr>le_id = dl_id l,
     le_backend = (case dl_backend l of Dlb_zoned_wmi \<Rightarrow> Lbk_zoned_wmi),
     le_target = (case dl_target l of Dlt_keyboard \<Rightarrow> Ltg_keyboard),
     le_zones = dl_zones l,
     le_modes = \<lparr>plm_static_color = dlm_static_color (dl_modes l), plm_brightness = dlm_brightness (dl_modes l),
       plm_breathing = dlm_breathing (dl_modes l), plm_neon = dlm_neon (dl_modes l)\<rparr>,
     le_state_readable = dl_state_readable l, le_authority = Transport_capability\<rparr>"

definition map_identity :: "hid_identity \<Rightarrow> probe_hid_identity" where
  "map_identity i = \<lparr>pid_bus = (case hi_bus i of Bus_i2c \<Rightarrow> Phb_i2c | Bus_usb \<Rightarrow> Phb_usb),
     pid_vid = hex4 (hi_vid i), pid_pid = hex4 (hi_pid i),
     pid_name = (case hi_name i of Name_enek5130 \<Rightarrow> Phn_enek5130 | Name_acer_ec_hid \<Rightarrow> Phn_acer_ec_hid | Name_darfon_usb_hid \<Rightarrow> Phn_darfon_usb_hid),
     pid_interface = hi_interface i, pid_usage_page = map_option hex4 (hi_usage_page i), pid_usage = map_option hex4 (hi_usage i)\<rparr>"

definition map_role :: "hid_role \<Rightarrow> probe_hid_role" where
  "map_role r = (case r of Enek5130_lighting \<Rightarrow> Rl_enek5130_lighting | Acer_ec_hid_power_candidate \<Rightarrow> Rl_acer_ec_hid_power_candidate
     | Darfon_lighting_candidate \<Rightarrow> Rl_darfon_lighting_candidate)"

definition map_descriptor :: "hid_descriptor \<Rightarrow> probe_hid_descriptor" where
  "map_descriptor d = \<lparr>phd_bytes = hd_bytes d, phd_sha256 = hd_sha256 d,
     phd_feature_reports = map (\<lambda>g. \<lparr>hfg_id = hex2 (fg_id g), hfg_bytes = fg_bytes g\<rparr>) (hd_feature_reports d)\<rparr>"

definition map_a1 :: "hid_a1 \<Rightarrow> probe_hid_a1" where
  "map_a1 a = \<lparr>pa1_requested_bytes = a1_requested_bytes a, pa1_returned_bytes = a1_returned_bytes a,
     pa1_payload = \<lparr>rv_encoding = Enc_hex, rv_bytes = a1_returned_bytes a, rv_value = a1_payload_hex a\<rparr>,
     pa1_targets = map hex2 (a1_targets a)\<rparr>"

definition map_hid :: "diagnostic_hid \<Rightarrow> hid_evidence" where
  "map_hid h = \<lparr>he_role = map_role (dh_role h), he_identity = map_identity (dh_identity h),
     he_driver = map_observation_to Id_hid_driver (\<lambda>v. v) (dh_driver h),
     he_descriptor = map_observation_to Id_hid_report_descriptor map_descriptor (dh_descriptor h),
     he_a1 = map_option (map_observation_to Id_hid_feature_a1 map_a1) (dh_a1 h),
     he_extended = \<lparr>hx_requested = False, hx_selectors = [], hx_a3 = []\<rparr>\<rparr>"

definition current_source :: "diag_profile \<Rightarrow> source_id" where
  "current_source p = (case dp_transport p of Ob_value t \<Rightarrow> map_source (dt_source t) | _ \<Rightarrow> Id_profile_discovery)"

definition choices_source :: "diag_profile \<Rightarrow> source_id" where
  "choices_source p = (case dp_transport p of
      Ob_value t \<Rightarrow> if dt_backend t = Dpb_gaming_wmi then Id_known_gaming_wmi_commands else map_source (dt_source t)
    | _ \<Rightarrow> Id_profile_discovery)"

definition map_profile_transport :: "diag_transport observation \<Rightarrow> probe_profile_backend backend_transport" where
  "map_profile_transport t = (case t of
      Ob_value v \<Rightarrow> Tr_present (map_source (dt_source v)) (case dt_backend v of Dpb_kernel \<Rightarrow> Ppb_kernel | Dpb_gaming_wmi \<Rightarrow> Ppb_gaming_wmi)
    | Ob_absent r \<Rightarrow> Tr_absent Id_profile_discovery (map_absence r)
    | Ob_error x \<Rightarrow> Tr_error Id_profile_discovery (map_diagnostic_error x))"

definition map_current :: "source_id \<Rightarrow> diag_current observation \<Rightarrow> profile_current" where
  "map_current source c = (case c of
      Ob_value v \<Rightarrow> (case dcu_profile v of
          None \<Rightarrow> Cur_unknown (map_source (dcu_source v)) (map_raw (dcu_raw v))
        | Some n \<Rightarrow> Cur_known (map_source (dcu_source v)) (map_raw (dcu_raw v)) (map_profile_name n))
    | Ob_absent r \<Rightarrow> Cur_absent source (map_absence r)
    | Ob_error x \<Rightarrow> Cur_error source (map_diagnostic_error x))"

definition map_choice :: "diag_choice \<Rightarrow> probe_profile_choice" where
  "map_choice c = \<lparr>ppc_command = dch_command c, ppc_profile = map_profile_name (dch_profile c),
     ppc_transport_raw = map_option map_raw (dch_transport_raw c), ppc_selectable = dch_selectable c\<rparr>"

definition map_profile :: "diag_profile \<Rightarrow> profile_evidence" where
  "map_profile p = \<lparr>pf_transport = map_profile_transport (dp_transport p),
     pf_current = map_current (current_source p) (dp_current p),
     pf_choices = map_observation_to (choices_source p) (map map_choice) (dp_choices p),
     pf_firmware_supported_bitmap = Pv_absent Id_gaming_wmi_supported_profiles Abs_not_exposed,
     pf_physical_effect = Effect_unverified\<rparr>"

definition map_fan_control :: "diag_fan_control observation \<Rightarrow> probe_fan_control" where
  "map_fan_control c = (case c of
      Ob_value v \<Rightarrow> Fcn_present (map_source (dfc_source v))
        (case dfc_backend v of Dfb_kernel_pwm \<Rightarrow> Pfb_kernel_pwm | Dfb_gaming_wmi \<Rightarrow> Pfb_gaming_wmi)
        \<lparr>pm_auto = dm_auto (dfc_modes v), pm_manual = dm_manual (dfc_modes v), pm_maximum = dm_maximum (dfc_modes v)\<rparr>
    | Ob_absent r \<Rightarrow> Fcn_absent Id_fan_discovery (map_absence r)
    | Ob_error x \<Rightarrow> Fcn_error Id_fan_discovery (map_diagnostic_error x))"

definition map_pwm :: "diag_fan_channel \<Rightarrow> pwm_evidence" where
  "map_pwm c = (let source = map_source (dfn_source c) in
     \<lparr>pwe_channel = dfn_channel c,
      pwe_setpoint_unit = (case dfn_unit c of Unit_pwm255 \<Rightarrow> Set_pwm255 | Unit_percent \<Rightarrow> Set_percent),
      pwe_setpoint = map_observation_to source (\<lambda>v. v) (dfn_setpoint c),
      pwe_mode = map_observation_to source (\<lambda>m. case m of Dfm_maximum \<Rightarrow> Pwm_maximum | Dfm_manual \<Rightarrow> Pwm_manual | Dfm_auto \<Rightarrow> Pwm_auto)
        (dfn_mode c)\<rparr>)"

definition map_rpm :: "diag_rpm \<Rightarrow> rpm_evidence" where
  "map_rpm r = \<lparr>re_channel = drp_channel r, re_label = drp_label r, re_read = map_observation_to Id_acer_hwmon (\<lambda>v. v) (drp_read r)\<rparr>"

definition map_temperature :: "diag_temperature \<Rightarrow> temperature_evidence" where
  "map_temperature t = \<lparr>tev_channel = dtp_channel t, tev_label = dtp_label t,
     tev_millidegrees_c = map_observation_to Id_acer_hwmon (\<lambda>v. v) (dtp_read t)\<rparr>"

definition map_fans :: "diag_fans \<Rightarrow> fan_evidence" where
  "map_fans f = \<lparr>fe_control = map_fan_control (df_control f), fe_rpm = map map_rpm (df_rpm f),
     fe_pwm = map map_pwm (df_channels f), fe_temperatures = map map_temperature (df_temperatures f)\<rparr>"

definition map_platform_value :: "diag_platform_value \<Rightarrow> probe_platform_value" where
  "map_platform_value v = (case v of Val_bool b \<Rightarrow> Pval_bool b | Val_usb_threshold n \<Rightarrow> Pval_usb_threshold n
     | Val_rear_logo enabled brightness color \<Rightarrow> Pval_rear_logo enabled brightness color)"

definition map_field :: "diag_field \<Rightarrow> platform_field_evidence" where
  "map_field f = (let source = map_source (dfl_source f) in
     \<lparr>pfe_name = map_platform_field (dfl_name f), pfe_expected = dfl_expected f, pfe_exposed = dfl_exposed f,
      pfe_source = source, pfe_read = map_observation_to source map_platform_value (dfl_read f)\<rparr>)"

definition map_platform :: "diag_platform \<Rightarrow> platform_evidence" where
  "map_platform p = \<lparr>ple_transport = (case dpl_transport p of
        Ob_value source \<Rightarrow> Tr_present (map_source source) Plb_gaming_wmi
      | Ob_absent r \<Rightarrow> Tr_absent Id_platform_discovery (map_absence r)
      | Ob_error x \<Rightarrow> Tr_error Id_platform_discovery (map_diagnostic_error x)),
     ple_fields = map map_field (dpl_fields p)\<rparr>"

definition diagnostic_error_profile :: "probe_error \<Rightarrow> profile_evidence" where
  "diagnostic_error_profile x = \<lparr>pf_transport = Tr_error Id_profile_discovery x, pf_current = Cur_error Id_profile_discovery x,
     pf_choices = Pv_error Id_profile_discovery x, pf_firmware_supported_bitmap = Pv_error Id_gaming_wmi_supported_profiles x,
     pf_physical_effect = Effect_unverified\<rparr>"

definition diagnostic_error_fans :: "probe_error \<Rightarrow> fan_evidence" where
  "diagnostic_error_fans x = \<lparr>fe_control = Fcn_error Id_fan_discovery x, fe_rpm = [], fe_pwm = [], fe_temperatures = []\<rparr>"

definition diagnostic_error_platform :: "probe_error \<Rightarrow> platform_evidence" where
  "diagnostic_error_platform x = \<lparr>ple_transport = Tr_error Id_platform_discovery x,
     ple_fields = map (bare_probe_field (\<lambda>source. Pv_error source x)) probe_field_order\<rparr>"

section \<open>The conversation\<close>

datatype daemon_diagnostics = Diag_value passive_diagnostics | Diag_unavailable | Diag_error probe_error

record daemon_context =
  dc_identity :: "daemon_identity probe_observation"
  dc_diagnostics :: daemon_diagnostics

definition control_probe_error :: "control_error \<Rightarrow> probe_error" where
  "control_probe_error x = (case x of
      Transport _ \<Rightarrow> probe_error_new Es_protocol Ec_io None
    | Transport_io _ _ \<Rightarrow> probe_error_new Es_protocol Ec_io None
    | Timeout \<Rightarrow> probe_error_new Es_protocol Ec_timeout None
    | Protocol _ \<Rightarrow> probe_error_new Es_protocol Ec_incompatible None
    | Protocol_platform _ \<Rightarrow> probe_error_new Es_protocol Ec_incompatible None
    | Command_rejected _ \<Rightarrow> probe_error_new Es_protocol Ec_incompatible None
    | Invalid_request _ \<Rightarrow> probe_error_new Es_protocol Ec_invalid_value None)"

text \<open>Why there is no connection; \<open>socket_exists\<close> is the answer of \<open>Path::exists\<close> at that moment.\<close>

definition is_transport :: "control_error \<Rightarrow> bool" where
  "is_transport x \<longleftrightarrow> (case x of Transport _ \<Rightarrow> True | Transport_io _ _ \<Rightarrow> True | _ \<Rightarrow> False)"

definition daemon_identity_error :: "bool \<Rightarrow> control_error \<Rightarrow> daemon_identity probe_observation" where
  "daemon_identity_error socket_exists x = (if is_transport x then
       (if socket_exists then Pv_error Id_control_socket (probe_error_new Es_open Ec_io None)
        else Pv_absent Id_control_socket Abs_daemon_unavailable)
     else Pv_error Id_control_socket (control_probe_error x))"

definition failed_context :: "bool \<Rightarrow> control_error \<Rightarrow> daemon_context" where
  "failed_context socket_exists x = (let identity = daemon_identity_error socket_exists x in
     \<lparr>dc_identity = identity, dc_diagnostics = (case identity of Pv_error _ y \<Rightarrow> Diag_error y | _ \<Rightarrow> Diag_unavailable)\<rparr>)"

definition answered_context :: "handshake_receipt \<Rightarrow> control_error + passive_diagnostics \<Rightarrow> daemon_context" where
  "answered_context h r = \<lparr>
     dc_identity = Pv_value Id_control_socket \<lparr>di_protocol = hr_protocol h, di_version = hr_daemon_version h\<rparr>,
     dc_diagnostics = (case r of Inl x \<Rightarrow> Diag_error (control_probe_error x) | Inr d \<Rightarrow> Diag_value d)\<rparr>"

text \<open>
  \<open>collect_daemon_context\<close>. A client that connected holds the receipt of its handshake, so its
  \<open>negotiated_daemon\<close> is never \<open>None\<close>. \<open>open\<close> connects the stream.
\<close>

definition collect_daemon_context :: "diag_json \<Rightarrow> 'c link \<Rightarrow> ('c, unit) client_io \<Rightarrow> ('c \<Rightarrow> bool) \<Rightarrow> 'c \<Rightarrow> daemon_context \<times> 'c" where
  "collect_daemon_context js ln open socket_exists c = (case io_then open (negotiate ln) c of
      (Inl x, c) \<Rightarrow> (failed_context (socket_exists c) x, c)
    | (Inr h, c) \<Rightarrow> (case client_passive_diagnostics js ln c of (r, c) \<Rightarrow> (answered_context h r, c)))"

type_synonym daemon_sections = "profile_evidence \<times> fan_evidence \<times> platform_evidence \<times> lighting_evidence list \<times> hid_evidence list"

definition map_daemon_diagnostics :: "daemon_diagnostics \<Rightarrow> daemon_sections" where
  "map_daemon_diagnostics d = (case d of
      Diag_value v \<Rightarrow> (map_profile (pd_profile v), map_fans (pd_fans v), map_platform (pd_platform v),
        map map_lighting (pd_lighting v), map map_hid (pd_hid v))
    | Diag_unavailable \<Rightarrow> (probe_absent_profile, absent_fans, absent_platform, [], [])
    | Diag_error x \<Rightarrow> (diagnostic_error_profile x, diagnostic_error_fans x, diagnostic_error_platform x, [], []))"

end
