(* ===== verification/Probe_Sections.thy ===== *)
theory Probe_Sections
  imports Probe_Map Diagnostics_Safety
begin

text \<open>
  The two vocabularies of the passive report agree: whatever the daemon collects, and its own
  validator lets pass, becomes sections that the validator of \<open>schema.rs\<close> accepts, but for one class
  of texts. The two validators are not the same (one takes upper-case digits, the other compares the
  targets with the payload they came from), so the agreement rests on what the collectors produce.
\<close>

section \<open>Digits and texts\<close>

lemma digit_char_lower: "d < 16 \<Longrightarrow> is_lower_hex (digit_char d)"
  by (auto simp: digit_char_def is_lower_hex_def is_digit_def)

lemma digit_char_less: "a < 16 \<Longrightarrow> b < 16 \<Longrightarrow> digit_char a < digit_char b \<longleftrightarrow> a < b"
  by (auto simp: digit_char_def less_char_def)

lemma digit_char_inj: "a < 16 \<Longrightarrow> b < 16 \<Longrightarrow> digit_char a = digit_char b \<longleftrightarrow> a = b"
  by (metis digit_char_less linorder_neq_iff)

lemma hex2_lower [simp]: "list_all is_lower_hex (hex2 w)"
  using unat_u8_le [of w] by (simp add: hex2_def digit_char_lower u8_max_def)

lemma lower_hex2 [simp]: "lower_hex_text (hex2 w) 2"
  by (simp add: lower_hex_text_def)

lemma lower_hex4 [simp]: "lower_hex_text (hex4 w) 4"
proof -
  have "unat w div 4096 < 16" using unat_u16_le [of w] by (simp add: u16_max_def)
  then show ?thesis by (simp add: lower_hex_text_def hex4_def digit_char_lower)
qed

lemma bytes_hex_lower [simp]: "list_all is_lower_hex (bytes_hex bs)"
  by (induction bs) (simp_all add: bytes_hex_def)

lemma less_by_digit: "0 < (k :: nat) \<Longrightarrow> n < m \<longleftrightarrow> n div k < m div k \<or> n div k = m div k \<and> n mod k < m mod k"
  by (metis add_less_cancel_left div_le_mono div_mult_mod_eq le_eq_less_or_eq linorder_not_less)

lemma split_less: "(n :: nat) < m \<longleftrightarrow> n div 16 < m div 16 \<or> n div 16 = m div 16 \<and> n mod 16 < m mod 16"
  by (rule less_by_digit) simp

lemma split_eq: "(n :: nat) = m \<longleftrightarrow> n div k = m div k \<and> n mod k = m mod k"
  by (metis div_mult_mod_eq)

lemma hex2_less: "hex2 a < hex2 b \<longleftrightarrow> a < b"
proof -
  have lt: "unat a div 16 < 16" "unat b div 16 < 16"
    using unat_u8_le [of a] unat_u8_le [of b] by (simp_all add: u8_max_def)
  show ?thesis
    unfolding word_less_nat_alt split_less [of "unat a" "unat b"]
    by (simp add: hex2_def digit_char_less digit_char_inj lt)
qed

lemma hex4_less: "hex4 a < hex4 b \<longleftrightarrow> a < b"
proof -
  have lt: "unat a div 4096 < 16" "unat b div 4096 < 16"
    using unat_u16_le [of a] unat_u16_le [of b] by (simp_all add: u16_max_def)
  have s: "n < m \<longleftrightarrow> n div 4096 < m div 4096 \<or> n div 4096 = m div 4096 \<and> (n div 256 mod 16 < m div 256 mod 16
      \<or> n div 256 mod 16 = m div 256 mod 16 \<and> (n div 16 mod 16 < m div 16 mod 16 \<or> n div 16 mod 16 = m div 16 mod 16 \<and> n mod 16 < m mod 16))"
    for n m :: nat
  proof -
    have d: "n div 16 div 16 = n div 256" "n div 256 div 16 = n div 4096" "m div 16 div 16 = m div 256" "m div 256 div 16 = m div 4096"
      by (simp_all add: div_mult2_eq [symmetric])
    show ?thesis
      using split_less [of n m] split_less [of "n div 16" "m div 16"] split_less [of "n div 256" "m div 256"]
        split_eq [of "n div 16" "m div 16" 16] split_eq [of "n div 256" "m div 256" 16] unfolding d by blast
  qed
  show ?thesis
    unfolding word_less_nat_alt s [of "unat a" "unat b"] by (simp add: hex4_def digit_char_less digit_char_inj lt)
qed

lemma hex2_eq [simp]: "hex2 a = hex2 b \<longleftrightarrow> a = b"
  by (metis hex2_less linorder_neq_iff)

lemma hex4_eq [simp]: "hex4 a = hex4 b \<longleftrightarrow> a = b"
  by (metis hex4_less linorder_neq_iff)

lemma lower_of_hex: "is_hexdigit c \<Longrightarrow> is_lower_hex (to_lower c)"
  by (cases "is_upper c") (auto simp: is_hexdigit_def is_lower_hex_def to_lower_def is_upper_def is_digit_def byte_def)

lemma ascii_lower_hex: "is_hex v n \<Longrightarrow> lower_hex_text (ascii_lower v) n"
  by (auto simp: is_hex_def lower_hex_text_def ascii_lower_def list_all_iff lower_of_hex)

lemma token_char_graphic: "token_char c \<Longrightarrow> graphic c \<and> c \<noteq> CHR ''/''"
  by (auto simp: token_char_def alnum_graphic graphic_def char_defs)

lemma graphic_no_control: "list_all graphic v \<Longrightarrow> \<not> has_control v"
  by (subst has_control_def, subst utf8_chars_ascii) (auto simp: list_all_iff graphic_ascii list_ex_iff graphic_not_control)

lemma token_accepted:
  assumes "v \<noteq> []" and "length v \<le> n" and "list_all token_char v" shows "probe_validate_token v n label = Inr ()"
proof -
  have "\<not> prefix ''/'' v" using assms(1,3) by (cases v) (auto dest: token_char_graphic)
  moreover have "\<not> has_control v" using assms(3) by (intro graphic_no_control) (auto simp: list_all_iff dest: token_char_graphic)
  ultimately show ?thesis
    using assms by (auto simp: probe_validate_token_def probe_validate_text_def probe_token_char_def list_all_iff)
qed

lemma validated_token: "validate_token v k l = Inr () \<Longrightarrow> k \<le> n \<Longrightarrow> probe_validate_token v n label = Inr ()"
  by (rule token_accepted) (auto simp: validate_token_def split: if_splits)

lemma label_accepted: "validate_text v MAX_LABEL_BYTES l = Inr () \<Longrightarrow>
    probe_validate_text v MAX_TEXT_BYTES label = Inr () \<longleftrightarrow> \<not> prefix ''/'' v"
  by (auto simp: validate_text_def probe_validate_text_def MAX_LABEL_BYTES_def MAX_TEXT_BYTES_def split: if_splits)

section \<open>Errors and observations\<close>

text \<open>An error whose raw value, if it has one, is in lower case.\<close>

definition clean_error :: "diag_error \<Rightarrow> bool" where
  "clean_error x \<longleftrightarrow> (\<forall>raw. dx_raw x = Some raw \<longrightarrow> list_all is_lower_hex (dr_value raw))"

definition ob_clean :: "('a \<Rightarrow> bool) \<Rightarrow> 'a observation \<Rightarrow> bool" where
  "ob_clean P ob \<longleftrightarrow> (case ob of Ob_value v \<Rightarrow> P v | Ob_absent _ \<Rightarrow> True | Ob_error x \<Rightarrow> clean_error x)"

lemma ob_clean_simps [simp]: "ob_clean P (Ob_value v) = P v" "ob_clean P (Ob_absent r)" "ob_clean P (Ob_error x) = clean_error x"
  by (simp_all add: ob_clean_def)

lemma clean_errors [simp]: "clean_error (diag_error_new stage cls errno)" "clean_error (decode_error cls)" "clean_error invalid_value"
  "clean_error (diag_io_error y)" "clean_error (io_diagnostic stage y)" "clean_error (invalid_raw raw) = list_all is_lower_hex (dr_value raw)"
  by (simp_all add: clean_error_def diag_error_new_def decode_error_def invalid_value_def diag_io_error_def io_diagnostic_def invalid_raw_def)

lemma mapped_error_ok:
  assumes "validate_error x = Inr ()" and "clean_error x" shows "probe_validate_error (map_diagnostic_error x) = Inr ()"
proof (cases "dx_raw x")
  case None
  with assms(1) show ?thesis
    by (cases "dx_errno x") (auto simp: validate_error_def probe_validate_error_def map_diagnostic_error_def split: if_splits)
next
  case (Some raw)
  with assms have raw: "dr_encoding raw = Scalar_hex" "dr_bytes raw \<le> 8" "length (dr_value raw) = dr_bytes raw * 2" "list_all is_lower_hex (dr_value raw)"
    by (auto simp: validate_error_def validate_raw_def res_bind_Inr_iff is_hex_def clean_error_def split: if_splits)
  then have "probe_validate_raw (map_raw raw) 8 [Enc_scalar_hex] = Inr ()"
    by (simp add: probe_validate_raw_def map_raw_def lower_hex_text_def u64_max_def)
  with Some assms(1) show ?thesis
    by (cases "dx_errno x") (auto simp: validate_error_def probe_validate_error_def map_diagnostic_error_def split: if_splits)
qed

lemma mapped_observation_ok:
  assumes "ob_ok P ob" and "ob_clean Q ob" and "\<And>v. P v \<Longrightarrow> Q v \<Longrightarrow> R (f v)"
  shows "pob_ok R (map_observation_to source f ob)"
  using assms by (cases ob) (simp_all add: map_observation_to_def mapped_error_ok)

lemma mapped_source [simp]: "observation_source (map_observation_to source f ob) = source"
  by (cases ob) (simp_all add: map_observation_to_def)

section \<open>What the readers return\<close>

lemma gives_conj: "gives P m \<Longrightarrow> gives Q m \<Longrightarrow> gives (\<lambda>a. P a \<and> Q a) m"
  unfolding gives_def by (metis Pair_inject sum.inject(2))

lemma clean_text: "gives (ob_clean (\<lambda>_. True)) (diag_read_text fs hr p)"
  unfolding diag_read_text_def
  by (auto intro!: gives_try gives_ret gives_any_bind gives_query simp: text_of_bytes_def split: sum.split)

definition decoder_clean :: "('v \<Rightarrow> bool) \<Rightarrow> (string \<Rightarrow> diag_error + 'v) \<Rightarrow> bool" where
  "decoder_clean P decode \<longleftrightarrow> (\<forall>v. ob_clean P (ob_of (decode v)))"

lemma decoder_cleanI:
  "(\<And>v x. decode v = Inl x \<Longrightarrow> clean_error x) \<Longrightarrow> (\<And>v a. decode v = Inr a \<Longrightarrow> P a) \<Longrightarrow> decoder_clean P decode"
  by (auto simp: decoder_clean_def ob_of_def split: sum.split)

lemma clean_bind: "ob_clean (\<lambda>_. True) ob \<Longrightarrow> (\<And>v. ob_clean P (f v)) \<Longrightarrow> ob_clean P (ob_bind ob f)"
  by (cases ob) (simp_all add: ob_bind_def)

lemma clean_value: "decoder_clean P decode \<Longrightarrow> gives (ob_clean P) (read_value decode fs hr p)"
  unfolding read_value_def by (rule gives_bind [OF clean_text]) (auto intro!: gives_ret clean_bind simp: decoder_clean_def)

lemma clean_number: "gives (ob_clean (\<lambda>_. True)) (read_number parse fs hr p)"
  unfolding read_number_def by (rule gives_bind [OF clean_text]) (auto intro!: gives_ret clean_bind split: option.split)

section \<open>The profile\<close>

definition current_fit :: "bool \<Rightarrow> diag_current \<Rightarrow> bool" where
  "current_fit generic c \<longleftrightarrow> probe_validate_current generic (map_current Id_profile_discovery (Ob_value c)) = Inr ()"

lemma gaming_raw_names: "profile_name_for_raw \<lparr>rv_encoding = Enc_u8_hex, rv_bytes = n, rv_value = v\<rparr> = map_option map_profile_name (profile_for_gaming_raw v)"
  by (simp add: profile_name_for_raw_def profile_for_gaming_raw_def map_profile_name_def)

lemma command_names: "profile_name_for_raw \<lparr>rv_encoding = Enc_ascii_token, rv_bytes = n, rv_value = v\<rparr> = map_option map_profile_name (profile_for_command v True)"
  by (auto simp: profile_name_for_raw_def profile_for_command_def map_profile_name_def)

lemma command_generic: "profile_for_command v False = (if v = ''performance'' then Some Dpn_performance else profile_for_command v True)"
  by (simp add: profile_for_command_def)

lemma current_clean:
  assumes "encoding = U8_hex \<or> encoding = Ascii_token \<and> (turbo \<or> generic)"
  shows "ob_clean (current_fit generic) (current_of_text source encoding turbo v)"
proof (cases "encoding = U8_hex")
  case True
  have "probe_validate_raw \<lparr>rv_encoding = Enc_u8_hex, rv_bytes = 1, rv_value = ascii_lower v\<rparr> 1 [Enc_u8_hex] = Inr ()" if "is_hex v 2"
    using ascii_lower_hex [OF that] by (simp add: probe_validate_raw_def u64_max_def)
  with True show ?thesis
    by (auto simp: current_of_text_def current_fit_def map_current_def map_raw_def probe_validate_current_def validate_profile_raw_def
        gaming_raw_names split: option.split)
next
  case False
  then have e: "encoding = Ascii_token" "turbo \<or> generic" using assms by auto
  have raw: "probe_validate_raw \<lparr>rv_encoding = Enc_ascii_token, rv_bytes = length v, rv_value = v\<rparr> MAX_COMMAND_BYTES [Enc_ascii_token] = Inr ()"
    if "validate_token v 48 l = Inr ()" for l
    using that validated_token [OF that] by (auto simp: probe_validate_raw_def MAX_COMMAND_BYTES_def validate_token_def split: if_splits)
  show ?thesis
  proof (cases turbo)
    case True
    with e raw show ?thesis
      by (auto simp: current_of_text_def current_fit_def map_current_def map_raw_def probe_validate_current_def validate_profile_raw_def
          command_names split: option.split)
  next
    case False
    with e raw show ?thesis
      by (auto simp: current_of_text_def current_fit_def map_current_def map_raw_def probe_validate_current_def validate_profile_raw_def
          command_names command_generic map_profile_name_def split: option.split)
  qed
qed

lemma clean_current:
  assumes "encoding = U8_hex \<or> encoding = Ascii_token \<and> (turbo \<or> generic)"
  shows "gives (ob_clean (current_fit generic)) (read_profile_current fs hr p source encoding turbo)"
  unfolding read_profile_current_def by (rule gives_bind [OF clean_text]) (auto intro!: gives_ret clean_bind current_clean assms)

definition choice_fit :: "bool \<Rightarrow> diag_choice \<Rightarrow> bool" where
  "choice_fit generic c \<longleftrightarrow> (\<forall>before. list_all (\<lambda>p. ppc_command p \<noteq> dch_command c) before \<longrightarrow>
     probe_validate_choice generic before (map_choice c) = Inr ())"

lemma choice_of_command_fit:
  assumes "choice_of_command backend turbo v = Inr c" and "turbo \<or> generic \<and> backend = Dpb_kernel"
  shows "choice_fit generic c"
proof -
  from assms(1) obtain n where n: "profile_for_command v turbo = Some n"
    and c: "c = \<lparr>dch_command = v, dch_profile = n, dch_transport_raw = (if backend = Dpb_gaming_wmi
          then map_option (\<lambda>v. \<lparr>dr_encoding = U8_hex, dr_bytes = 1, dr_value = v\<rparr>) (gaming_raw_for_command v) else None), dch_selectable = True\<rparr>"
    by (auto simp: choice_of_command_def split: option.splits)
  have token: "probe_validate_token v MAX_COMMAND_BYTES ''profile command'' = Inr ()"
    using command_token [OF n] by (rule validated_token) (simp add: MAX_COMMAND_BYTES_def)
  have name: "profile_name_for_command v = Some (map_profile_name n) \<or> generic \<and> v = ''performance'' \<and> map_profile_name n = Ppn_performance"
    using n assms(2) by (cases turbo) (auto simp: profile_name_for_command_def command_names command_generic map_profile_name_def split: if_splits)
  have raw: "probe_validate_raw \<lparr>rv_encoding = Enc_u8_hex, rv_bytes = 1, rv_value = r\<rparr> 1 [Enc_u8_hex] = Inr ()
      \<and> profile_name_for_raw \<lparr>rv_encoding = Enc_u8_hex, rv_bytes = 1, rv_value = r\<rparr> = Some (map_profile_name n)"
    if "backend = Dpb_gaming_wmi" "gaming_raw_for_command v = Some r" for r
    using n that assms(2)
    by (auto simp: gaming_raw_for_command_def profile_for_command_def probe_validate_raw_def lower_hex_text_def is_lower_hex_def is_digit_def
        byte_def u64_max_def profile_name_for_raw_def map_profile_name_def split: if_splits)
  show ?thesis
    using token name raw by (auto simp: choice_fit_def probe_validate_choice_def map_choice_def map_raw_def c split: option.split)
qed

lemma choices_clean:
  assumes "turbo \<or> generic \<and> backend = Dpb_kernel"
  shows "decoder_clean (list_all (choice_fit generic)) (choices_of_text backend turbo)"
proof (rule decoder_cleanI)
  fix v x assume "choices_of_text backend turbo v = Inl x"
  then show "clean_error x"
    by (auto simp: choices_of_text_def res_bind_Inl_iff choice_of_command_def dest!: res_map_list_Inl split: if_splits option.splits)
next
  fix v cs assume "choices_of_text backend turbo v = Inr cs"
  then have "res_map_list (choice_of_command backend turbo) (split_ascii_ws v) = Inr cs"
    by (auto simp: choices_of_text_def res_bind_Inr_iff split: if_splits)
  from res_map_list_Inr_all [OF this] choice_of_command_fit [OF _ assms] show "list_all (choice_fit generic) cs"
    by (fastforce simp: list_all2_conv_all_nth list_all_length)
qed

lemma choice_list_mapped: "list_all (choice_fit generic) cs \<Longrightarrow> validate_choice_list before cs = Inr () \<Longrightarrow>
    probe_validate_choice_list generic (map map_choice before) (map map_choice cs) = Inr ()"
proof (induction cs arbitrary: before)
  case (Cons c cs)
  then have "list_all (\<lambda>p. ppc_command p \<noteq> dch_command c) (map map_choice before)" and rest: "validate_choice_list (before @ [c]) cs = Inr ()"
    by (auto simp: res_bind_Inr_iff list_ex_iff list_all_iff map_choice_def split: if_splits)
  moreover from this Cons.prems(1) have "probe_validate_choice generic (map map_choice before) (map_choice c) = Inr ()"
    by (simp add: choice_fit_def)
  ultimately show ?case using Cons.IH [OF _ rest] Cons.prems(1) by simp
qed simp

definition profile_mapped :: "diag_profile \<Rightarrow> bool" where
  "profile_mapped p \<longleftrightarrow> (validate_profile p = Inr () \<longrightarrow> probe_validate_profile (map_profile p) PROBE_SCHEMA = Inr ())"

lemma profile_mappedI:
  assumes "ob_clean (\<lambda>t. generic \<longrightarrow> dt_backend t = Dpb_kernel) (dp_transport p)" and "generic \<longrightarrow> (\<exists>t. dp_transport p = Ob_value t)"
    and "ob_clean (current_fit generic) (dp_current p)"
    and "ob_clean (list_all (choice_fit generic)) (dp_choices p)"
  shows "profile_mapped p"
  unfolding profile_mapped_def
proof
  assume v: "validate_profile p = Inr ()"
  let ?g = "generic_performance PROBE_SCHEMA (map_profile p)"
  have g: "generic \<longrightarrow> ?g" using assms(1,2)
    by (auto simp: generic_performance_def map_profile_def map_profile_transport_def PROBE_SCHEMA_def)
  have t: "validate_backend_transport (pf_transport (map_profile p)) = Inr ()"
    using v assms(1) by (cases "dp_transport p")
      (auto simp: validate_profile_def validate_observation_ok res_bind_Inr_iff validate_backend_transport_def map_profile_def
        map_profile_transport_def mapped_error_ok)
  have mono: "probe_validate_current True c = Inr ()" if "probe_validate_current h c = Inr ()" for h c
    using that by (cases h) (auto simp: probe_validate_current_def split: profile_current.splits)
  have c: "probe_validate_current ?g (pf_current (map_profile p)) = Inr ()"
  proof (cases "dp_current p")
    case (Ob_value x)
    with assms(3) have "probe_validate_current generic (pf_current (map_profile p)) = Inr ()"
      by (cases "dcu_profile x") (simp_all add: current_fit_def map_profile_def map_current_def)
    with g mono show ?thesis by (cases generic; cases ?g) auto
  next
    case (Ob_error x)
    with v assms(3) show ?thesis
      by (auto simp: validate_profile_def validate_observation_ok res_bind_Inr_iff map_profile_def map_current_def
          probe_validate_current_def mapped_error_ok)
  qed (simp add: map_profile_def map_current_def probe_validate_current_def)
  have monoc: "probe_validate_choice_list True before cs = Inr ()" if "probe_validate_choice_list h before cs = Inr ()" for h before cs
    using that by (cases h; induction h before cs rule: probe_validate_choice_list.induct)
      (auto simp: probe_validate_choice_def res_bind_Inr_iff)
  have cs: "pob_ok (\<lambda>cs. probe_validate_choices ?g cs = Inr ()) (pf_choices (map_profile p))"
  proof (cases "dp_choices p")
    case (Ob_value cs)
    with v have "validate_choice_list [] cs = Inr ()" "length cs \<le> 8"
      by (auto simp: validate_profile_def validate_observation_ok res_bind_Inr_iff validate_choices_def MAX_PROFILE_CHOICES_def split: if_splits)
    with Ob_value assms(4) choice_list_mapped [of generic cs "[]"] have "probe_validate_choice_list generic [] (map map_choice cs) = Inr ()" by simp
    with g monoc have "probe_validate_choice_list ?g [] (map map_choice cs) = Inr ()" by (cases generic; cases ?g) auto
    with Ob_value \<open>length cs \<le> 8\<close> show ?thesis by (simp add: map_profile_def map_observation_to_def probe_validate_choices_def)
  next
    case (Ob_error x)
    with v assms(4) show ?thesis
      by (auto simp: validate_profile_def validate_observation_ok res_bind_Inr_iff map_profile_def map_observation_to_def mapped_error_ok)
  qed (simp add: map_profile_def map_observation_to_def)
  show "probe_validate_profile (map_profile p) PROBE_SCHEMA = Inr ()"
    unfolding probe_validate_profile_def using t c cs by (simp add: map_profile_def)
qed

lemma mapped_gaming_profile: "gives profile_mapped (collect_gaming_profile fs hr found)"
proof (cases found)
  case (Pair d p)
  show ?thesis
  proof (cases "or_else d p")
    case None
    then show ?thesis
      by (auto simp: Pair collect_gaming_profile_def absent_profile_def intro!: gives_ret profile_mappedI [where generic = False])
  next
    case (Some base)
    have cur: "gives (ob_clean (current_fit False)) (gaming_profile_current fs hr d base)"
      by (auto simp: gaming_profile_current_def intro!: clean_current split: option.split)
    have cs: "gives (ob_clean (list_all (choice_fit False))) (case p of None \<Rightarrow> io_ret (Ob_absent Not_exposed)
        | Some q \<Rightarrow> read_profile_choices fs hr (path_join q ''choices'') Dpb_gaming_wmi True)"
      by (auto simp: read_profile_choices_def intro!: gives_ret clean_value choices_clean split: option.split)
    show ?thesis
      unfolding Pair collect_gaming_profile_def prod.case Some option.case
      by (rule gives_bind [OF cur], rule gives_bind [OF cs], rule gives_ret, rule profile_mappedI [where generic = False]) simp_all
  qed
qed

lemma mapped_profile: "gives profile_mapped (collect_profile fs hr root)"
proof -
  have turbo: "gives (\<lambda>_. True) (hardware_turbo fs root)"
    unfolding hardware_turbo_def by (intro gives_try gives_ret) simp
  have cur: "gives (ob_clean (current_fit True)) (read_profile_current fs hr p Src_kernel_platform_profile Ascii_token t)" for p t
    by (rule clean_current) simp
  have cs: "gives (ob_clean (list_all (choice_fit True))) (read_value (choices_of_text Dpb_kernel t) fs hr c)" for t c
    by (intro clean_value choices_clean) simp
  have found: "gives profile_mapped (io_bind (read_profile_current fs hr p Src_kernel_platform_profile Ascii_token t) (\<lambda>current.
         io_bind (read_profile_choices fs hr c Dpb_kernel t) (\<lambda>cs.
           io_ret \<lparr>dp_transport = Ob_value \<lparr>dt_source = Src_kernel_platform_profile, dt_backend = Dpb_kernel\<rparr>,
             dp_current = current, dp_choices = cs\<rparr>)))" for p c t
    unfolding read_profile_choices_def
    by (rule gives_bind [OF cur], rule gives_bind [OF cs], rule gives_ret, rule profile_mappedI [where generic = True]) simp_all
  show ?thesis
    unfolding collect_profile_def
    by (rule gives_any_bind [OF turbo], rule gives_any_bind [OF gives_kernel_profile])
      (auto split: option.split intro: found gives_any_bind gives_query mapped_gaming_profile)
qed

section \<open>The fans\<close>

text \<open>What is left to check: no label is an absolute path.\<close>

definition labels_relative :: "diag_fans \<Rightarrow> bool" where
  "labels_relative f \<longleftrightarrow> list_all (\<lambda>c. \<not> prefix ''/'' (drp_label c)) (df_rpm f) \<and> list_all (\<lambda>c. \<not> prefix ''/'' (dtp_label c)) (df_temperatures f)"

definition channel_clean :: "diag_fan_channel \<Rightarrow> bool" where
  "channel_clean c \<longleftrightarrow> (dfn_source c, dfn_unit c) \<in> {(Src_acer_hwmon, Unit_pwm255), (Src_gaming_wmi_fan, Unit_percent)}
     \<and> ob_clean (\<lambda>_. True) (dfn_setpoint c) \<and> ob_clean (\<lambda>_. True) (dfn_mode c)"

definition fans_clean :: "diag_fans \<Rightarrow> bool" where
  "fans_clean f \<longleftrightarrow> ob_clean (\<lambda>_. True) (df_control f) \<and> list_all channel_clean (df_channels f)
     \<and> list_all (\<lambda>c. ob_clean (\<lambda>_. True) (drp_read c)) (df_rpm f) \<and> list_all (\<lambda>c. ob_clean (\<lambda>_. True) (dtp_read c)) (df_temperatures f)"

lemma channel_positive: "validate_diag_channel c = Inr () \<Longrightarrow> 0 < c"
  by (auto simp: validate_diag_channel_def word_less_nat_alt word_le_nat_alt split: if_splits)

lemma mapped_pwm_ok:
  assumes "validate_fan_channel c = Inr ()" and "channel_clean c" shows "probe_validate_pwm (map_pwm c) = Inr ()"
proof -
  from assms(1) have v: "validate_diag_channel (dfn_channel c) = Inr ()"
    "ob_ok (\<lambda>v. (case dfn_unit c of Unit_pwm255 \<Rightarrow> Inr () | Unit_percent \<Rightarrow> if v \<le> 100 then Inr () else Inl ''Gaming-WMI fan setpoint exceeds 100'') = Inr ()) (dfn_setpoint c)"
    "ob_ok (\<lambda>_. True) (dfn_mode c)"
    by (auto simp: validate_fan_channel_def res_bind_Inr_iff validate_observation_ok)
  from assms(2) consider "dfn_source c = Src_acer_hwmon" "dfn_unit c = Unit_pwm255" | "dfn_source c = Src_gaming_wmi_fan" "dfn_unit c = Unit_percent"
    by (auto simp: channel_clean_def)
  then show ?thesis
  proof cases
    case 1
    with v assms(2) channel_positive [OF v(1)] show ?thesis
      by (auto simp: probe_validate_pwm_def map_pwm_def channel_clean_def map_source_def intro: mapped_observation_ok)
  next
    case 2
    with v assms(2) channel_positive [OF v(1)] show ?thesis
      by (auto simp: probe_validate_pwm_def map_pwm_def channel_clean_def map_source_def intro: mapped_observation_ok split: if_splits)
  qed
qed

lemma mapped_rpm_ok:
  assumes "validate_rpm c = Inr ()" and "ob_clean (\<lambda>_. True) (drp_read c)"
  shows "probe_validate_rpm (map_rpm c) = Inr () \<longleftrightarrow> \<not> prefix ''/'' (drp_label c)"
proof -
  from assms(1) have v: "validate_diag_channel (drp_channel c) = Inr ()" "validate_text (drp_label c) MAX_LABEL_BYTES ''fan label'' = Inr ()"
    "ob_ok (\<lambda>_. True) (drp_read c)"
    by (auto simp: validate_rpm_def res_bind_Inr_iff validate_observation_ok)
  then show ?thesis
    using channel_positive [OF v(1)] label_accepted [OF v(2)] mapped_observation_ok [OF v(3) assms(2), of "\<lambda>_. True" "\<lambda>v. v"]
    by (simp add: probe_validate_rpm_def map_rpm_def)
qed

lemma mapped_temperature_ok:
  assumes "validate_temperature c = Inr ()" and "ob_clean (\<lambda>_. True) (dtp_read c)"
  shows "probe_validate_temperature (map_temperature c) = Inr () \<longleftrightarrow> \<not> prefix ''/'' (dtp_label c)"
proof -
  from assms(1) have v: "validate_diag_channel (dtp_channel c) = Inr ()" "validate_text (dtp_label c) MAX_LABEL_BYTES ''temperature label'' = Inr ()"
    "ob_ok (\<lambda>v. -100000 \<le> v \<and> v \<le> 250000) (dtp_read c)"
    by (auto simp: validate_temperature_def res_bind_Inr_iff validate_observation_ok elim!: ob_ok_mono [rotated] split: if_splits)
  then show ?thesis
    using channel_positive [OF v(1)] label_accepted [OF v(2)] mapped_observation_ok [OF v(3) assms(2), of "\<lambda>v. -100000 \<le> v \<and> v \<le> 250000" "\<lambda>v. v"]
    by (simp add: probe_validate_temperature_def map_temperature_def)
qed

lemma mapped_fans_iff:
  assumes "fans_clean f" and "validate_fans f = Inr ()"
  shows "probe_validate_fans (map_fans f) = Inr () \<longleftrightarrow> labels_relative f"
proof -
  from assms(2) have len: "length (df_channels f) \<le> 32" "length (df_rpm f) \<le> 32" "length (df_temperatures f) \<le> 32"
    and ch: "\<forall>c \<in> set (df_channels f). validate_fan_channel c = Inr ()" and rpm: "\<forall>c \<in> set (df_rpm f). validate_rpm c = Inr ()"
    and temp: "\<forall>c \<in> set (df_temperatures f). validate_temperature c = Inr ()"
    and sorted: "sorted_wrt (<) (map dfn_channel (df_channels f))" "sorted_wrt (<) (map drp_channel (df_rpm f))"
      "sorted_wrt (<) (map dtp_channel (df_temperatures f))"
    and control: "ob_ok (\<lambda>_. True) (df_control f)"
    by (auto simp: validate_fans_def res_bind_Inr_iff res_all_ok validate_channel_order_def channel_order_sorted MAX_CHANNELS_def
        validate_observation_ok split: if_splits)
  have c: "(case map_fan_control (df_control f) of Fcn_error _ x \<Rightarrow> probe_validate_error x | _ \<Rightarrow> Inr ()) = Inr ()"
    using control assms(1) by (cases "df_control f") (simp_all add: map_fan_control_def fans_clean_def mapped_error_ok)
  have "res_all probe_validate_pwm (map map_pwm (df_channels f)) = Inr ()"
    using ch assms(1) by (auto simp: res_all_ok fans_clean_def list_all_iff mapped_pwm_ok)
  moreover have "res_all probe_validate_rpm (map map_rpm (df_rpm f)) = Inr () \<longleftrightarrow> list_all (\<lambda>c. \<not> prefix ''/'' (drp_label c)) (df_rpm f)"
    using rpm assms(1) by (auto simp: res_all_ok fans_clean_def list_all_iff mapped_rpm_ok)
  moreover have "res_all probe_validate_temperature (map map_temperature (df_temperatures f)) = Inr () \<longleftrightarrow> list_all (\<lambda>c. \<not> prefix ''/'' (dtp_label c)) (df_temperatures f)"
    using temp assms(1) by (auto simp: res_all_ok fans_clean_def list_all_iff mapped_temperature_ok)
  moreover have "map re_channel (map map_rpm (df_rpm f)) = map drp_channel (df_rpm f)" "map pwe_channel (map map_pwm (df_channels f)) = map dfn_channel (df_channels f)"
    "map tev_channel (map map_temperature (df_temperatures f)) = map dtp_channel (df_temperatures f)"
    by (simp_all add: map_rpm_def map_pwm_def map_temperature_def Let_def comp_def)
  ultimately show ?thesis
    using c len sorted by (simp add: probe_validate_fans_def map_fans_def labels_relative_def MAX_ITEMS_def channel_order_ok del: map_map)
qed

lemma clean_mode: "gives (ob_clean (\<lambda>_. True)) (diag_read_fan_mode fs hr p)"
  unfolding diag_read_fan_mode_def by (rule gives_bind [OF clean_number]) (auto intro!: gives_ret clean_bind simp: fan_mode_of_def)

lemma clean_fan_channel: "(source, u) \<in> {(Src_acer_hwmon, Unit_pwm255), (Src_gaming_wmi_fan, Unit_percent)} \<Longrightarrow>
    gives channel_clean (fan_channel fs hr n source u sp mp)"
  unfolding fan_channel_def by (rule gives_bind [OF clean_number], rule gives_bind [OF clean_mode], rule gives_ret) (auto simp: channel_clean_def)

lemma clean_channel_list: "(\<And>x. gives channel_clean (f x)) \<Longrightarrow> gives (list_all channel_clean) (io_map_list f xs)"
  by (rule gives_mono [OF gives_map_list [where R = "\<lambda>_. channel_clean"]]) (auto simp: list_all2_conv_all_nth list_all_length)

lemma clean_channels: "gives (list_all channel_clean) (collect_fan_channels fs hr v)"
proof -
  have "gives (list_all channel_clean) (collect_kernel_fan_channels fs hr base)" for base
    unfolding collect_kernel_fan_channels_def by (intro clean_channel_list clean_fan_channel) simp
  moreover have "gives (list_all channel_clean) (collect_gaming_fan_channels fs hr base d)" for base d
    unfolding collect_gaming_fan_channels_def Let_def by (intro clean_channel_list) (auto intro: clean_fan_channel)
  ultimately show ?thesis
    unfolding collect_fan_channels_def by (auto intro!: gives_ret split: option.split prod.split bool.split)
qed

lemma clean_inputs:
  "gives (list_all (\<lambda>c. ob_clean (\<lambda>_. True) (drp_read c))) (collect_rpm fs hr base)"
  "gives (list_all (\<lambda>c. ob_clean (\<lambda>_. True) (dtp_read c))) (collect_temperatures fs hr base)"
proof -
  have label: "gives (\<lambda>_. True) (read_label fs hr base pre c)" for pre c
    unfolding read_label_def by (rule gives_bind [OF clean_text]) (auto intro: gives_ret)
  show "gives (list_all (\<lambda>c. ob_clean (\<lambda>_. True) (drp_read c))) (collect_rpm fs hr base)"
    unfolding collect_rpm_def rpm_channel_def Let_def
    by (rule gives_mono [OF gives_filter_map [where P = "\<lambda>c. ob_clean (\<lambda>_. True) (drp_read c)"]])
      (auto intro!: gives_any_bind [OF gives_query] gives_ret gives_any_bind [OF label] gives_bind [OF clean_number] simp: list_all_iff)
  show "gives (list_all (\<lambda>c. ob_clean (\<lambda>_. True) (dtp_read c))) (collect_temperatures fs hr base)"
    unfolding collect_temperatures_def temperature_channel_def Let_def
    by (rule gives_mono [OF gives_filter_map [where P = "\<lambda>c. ob_clean (\<lambda>_. True) (dtp_read c)"]])
      (auto intro!: gives_any_bind [OF gives_query] gives_ret gives_any_bind [OF label] gives_bind [OF clean_number] simp: list_all_iff)
qed

lemma clean_control: "gives (ob_clean (\<lambda>_. True)) (collect_fan_control fs root v)"
proof -
  have "clean_error (fan_control_error x)" for x by (cases x) (simp_all add: fan_control_error_def)
  moreover have "ob_clean (\<lambda>_. True) (control_of v fans)" for fans
    by (simp add: control_of_def Let_def split: option.split fan_backend.split)
  ultimately show ?thesis
    unfolding collect_fan_control_def by (auto intro!: gives_try gives_ret gives_any_bind [OF gives_capabilities] split: sum.split)
qed

lemma clean_fans: "gives fans_clean (collect_fans fs hr root)"
proof -
  have rpm: "gives (list_all (\<lambda>c. ob_clean (\<lambda>_. True) (drp_read c))) (case h of None \<Rightarrow> io_ret [] | Some base \<Rightarrow> collect_rpm fs hr base)" for h
    by (auto intro!: gives_ret clean_inputs split: option.split)
  have temp: "gives (list_all (\<lambda>c. ob_clean (\<lambda>_. True) (dtp_read c))) (case h of None \<Rightarrow> io_ret [] | Some base \<Rightarrow> collect_temperatures fs hr base)" for h
    by (auto intro!: gives_ret clean_inputs split: option.split)
  show ?thesis
    unfolding collect_fans_def
    apply (rule gives_any_bind [OF gives_hwmon], rule gives_any_bind [OF gives_query], rule TrueI)
    apply (rule gives_bind [OF clean_control], rule gives_any_bind [OF gives_query], rule TrueI)
    apply (rule gives_bind [OF clean_channels], rule gives_bind [OF rpm], rule gives_bind [OF temp], rule gives_ret)
    by (simp add: fans_clean_def)
qed

section \<open>The platform and the lighting\<close>

definition value_lower :: "diag_platform_value \<Rightarrow> bool" where
  "value_lower v \<longleftrightarrow> (case v of Val_rear_logo _ _ color \<Rightarrow> list_all is_lower_hex color | _ \<Rightarrow> True)"

lemma value_lower_simps [simp]: "value_lower (Val_bool b)" "value_lower (Val_usb_threshold n)"
  "value_lower (Val_rear_logo e n color) = list_all is_lower_hex color"
  by (simp_all add: value_lower_def)

lemma lower_text_chars: "is_hex v n \<Longrightarrow> list_all is_lower_hex (ascii_lower v)"
  using ascii_lower_hex [of v n] by (simp add: lower_hex_text_def)

lemma clean_scalar:
  assumes "\<And>n raw x. f (n, raw) = Inl x \<Longrightarrow> x = invalid_raw raw" and "\<And>n raw a. f (n, raw) = Inr a \<Longrightarrow> value_lower a"
  shows "decoder_clean value_lower (\<lambda>v. res_bind (parse_scalar v) f)"
proof (rule decoder_cleanI)
  fix v x assume "res_bind (parse_scalar v) f = Inl x"
  then show "clean_error x"
    by (auto simp: res_bind_Inl_iff parse_scalar_def scalar_raw_def lower_text_chars dest!: assms(1) split: if_splits option.splits)
next
  fix v a assume "res_bind (parse_scalar v) f = Inr a"
  then show "value_lower a" by (auto simp: res_bind_Inr_iff dest: assms(2))
qed

lemma clean_decoders: "decoder_clean value_lower decode_bool_text" "decoder_clean value_lower decode_usb_text"
  "decoder_clean value_lower decode_logo_text" "decoder_clean value_lower decode_logo_raw"
  "decoder_clean value_lower decode_timeout_raw" "decoder_clean value_lower decode_boot_sound_raw"
  "decoder_clean value_lower decode_lcd_raw" "decoder_clean value_lower decode_usb_raw"
proof -
  show "decoder_clean value_lower decode_bool_text" by (rule decoder_cleanI) (auto simp: decode_bool_text_def split: if_splits)
  show "decoder_clean value_lower decode_usb_text" by (rule decoder_cleanI) (auto simp: decode_usb_text_def split: if_splits option.splits)
  show "decoder_clean value_lower decode_logo_text"
    by (rule decoder_cleanI) (auto simp: decode_logo_text_def lower_text_chars split: if_splits option.splits list.splits)
  show "decoder_clean value_lower decode_logo_raw"
    by (rule decoder_cleanI)
      (auto simp: decode_logo_raw_def res_bind_Inl_iff res_bind_Inr_iff lower_text_chars dest: hex_bytes_error dest!: hex_bytes_hex split: if_splits)
  show "decoder_clean value_lower decode_timeout_raw" "decoder_clean value_lower decode_boot_sound_raw"
    "decoder_clean value_lower decode_lcd_raw" "decoder_clean value_lower decode_usb_raw"
    unfolding decode_timeout_raw_def decode_boot_sound_raw_def decode_lcd_raw_def decode_usb_raw_def
    by (rule clean_scalar; auto simp: Let_def split: if_splits)+
qed

definition field_clean :: "diag_field \<Rightarrow> bool" where "field_clean f \<longleftrightarrow> ob_clean value_lower (dfl_read f)"

definition platform_clean :: "diag_platform \<Rightarrow> bool" where
  "platform_clean p \<longleftrightarrow> ob_clean (\<lambda>_. True) (dpl_transport p) \<and> list_all field_clean (dpl_fields p)"

lemma clean_field:
  assumes "decoder_clean value_lower d1" and "decoder_clean value_lower d2"
  shows "gives field_clean (platform_field fs hr name source p q d1 d2)"
  unfolding platform_field_def
  apply (rule gives_any_bind [OF gives_query], rule TrueI, clarsimp simp: split_beta)
  apply (rule gives_bind [where Q = "ob_clean value_lower"])
  by (auto intro!: gives_ret clean_value assms simp: field_clean_def split: option.split)

lemma clean_battery_field:
  assumes "ob_clean (\<lambda>_. True) raw" shows "gives field_clean (platform_battery_field fs hr name n m i p raw)"
proof -
  have "ob_clean value_lower (battery_value m i v)" for v
    by (auto simp: battery_value_def split: sum.split dest: hex_bytes_error)
  then show ?thesis
    unfolding platform_battery_field_def using assms
    apply (intro gives_any_bind [OF gives_query] TrueI)
    apply (rule gives_bind [where Q = "ob_clean value_lower"])
    by (auto intro!: gives_ret clean_value clean_decoders simp: field_clean_def split: option.split observation.split)
qed

lemma clean_platform: "gives platform_clean (collect_platform fs hr root)"
proof -
  have raw: "gives (ob_clean (\<lambda>_. True)) (case b of None \<Rightarrow> io_ret (Ob_absent Not_exposed) | Some base \<Rightarrow> diag_read_text fs hr (path_join base ''battery_raw''))" for b
    by (auto intro!: gives_ret clean_text split: option.split)
  have fields: "gives (list_all field_clean) (io_map_list (\<lambda>m. m) (platform_fields fs hr v raw))" if "ob_clean (\<lambda>_. True) raw" for v raw
  proof (rule gives_mono [OF gives_map_list [where R = "\<lambda>_. field_clean"]])
    show "gives field_clean m" if "m \<in> set (platform_fields fs hr v raw)" for m
      using that \<open>ob_clean (\<lambda>_. True) raw\<close>
      by (auto simp: platform_fields_def Let_def clean_decoders intro!: clean_field clean_battery_field)
  qed (auto simp: list_all2_conv_all_nth list_all_length)
  show ?thesis
    unfolding collect_platform_def
    by (rule gives_any_bind [OF gives_query], rule TrueI, rule gives_bind [OF raw], rule gives_bind [OF fields], assumption, rule gives_ret)
      (simp add: platform_clean_def)
qed

lemma mapped_field_ok:
  assumes "validate_field (f, s) = Inr ()" and "field_clean f"
  shows "probe_validate_field (map_field f, map_platform_field (dfl_name f), map_source s) = Inr ()"
proof -
  from assms(1) have s: "dfl_source f = s" and v: "ob_ok (\<lambda>v. validate_platform_value v = Inr ()) (dfl_read f)"
    by (auto simp: validate_field_def validate_observation_ok split: if_splits)
  have "pob_ok (\<lambda>v. probe_validate_value v = Inr ()) (map_observation_to source map_platform_value (dfl_read f))" for source
    by (rule mapped_observation_ok [OF v assms(2) [unfolded field_clean_def]])
      (auto simp: validate_platform_value_def probe_validate_value_def map_platform_value_def lower_hex_text_def is_hex_def
        split: diag_platform_value.splits if_splits)
  then show ?thesis by (simp add: probe_validate_field_def map_field_def s Let_def)
qed

lemma mapped_platform_ok:
  assumes "platform_clean p" and "validate_platform p = Inr ()" shows "probe_validate_platform (map_platform p) = Inr ()"
proof -
  from assms(2) have names: "map dfl_name (dpl_fields p) = field_order" and fields: "res_all validate_field (zip (dpl_fields p) field_sources) = Inr ()"
    and transport: "ob_ok (\<lambda>_. True) (dpl_transport p)"
    by (auto simp: validate_platform_def res_bind_Inr_iff validate_observation_ok split: if_splits)
  then obtain a b c d e f g where fs: "dpl_fields p = [a, b, c, d, e, f, g]"
    by (auto simp: field_order_def map_eq_Cons_conv)
  have "validate_backend_transport (ple_transport (map_platform p)) = Inr ()"
    using transport assms(1) by (cases "dpl_transport p")
      (simp_all add: map_platform_def validate_backend_transport_def platform_clean_def mapped_error_ok)
  moreover have "res_all probe_validate_field (zip (map map_field (dpl_fields p)) probe_field_order) = Inr ()"
    using names fields assms(1) mapped_field_ok [of a Src_asense_battery] mapped_field_ok [of b Src_asense_battery]
      mapped_field_ok [of c Src_asense_apge] mapped_field_ok [of d Src_asense_apge] mapped_field_ok [of e Src_asense_rgb]
      mapped_field_ok [of f Src_asense_rgb] mapped_field_ok [of g Src_asense_rgb]
    by (simp add: fs field_order_def field_sources_def probe_field_order_def res_all_ok platform_clean_def map_platform_field_def map_source_def)
  ultimately show ?thesis
    by (simp add: probe_validate_platform_def map_platform_def fs probe_field_order_def)
qed

lemma mapped_lights_ok:
  assumes "length ls \<le> 1" and "res_all validate_light ls = Inr ()"
  shows "each_after probe_validate_light None (map map_lighting ls) = Inr ()"
proof (cases ls)
  case (Cons l rest)
  with assms have l: "ls = [l]" "validate_light l = Inr ()" by (auto simp: res_all_ok)
  then have z: "dl_id l = ''zoned-wmi-keyboard''" "1 \<le> dl_zones l" "dl_zones l \<le> 4"
    by (auto simp: validate_light_def split: if_splits)
  have "probe_validate_token ''zoned-wmi-keyboard'' MAX_TEXT_BYTES ''lighting id'' = Inr ()"
    by (rule token_accepted) (simp_all add: MAX_TEXT_BYTES_def token_char_def is_alnum_def is_lower_def is_upper_def is_digit_def byte_def)
  moreover have "dl_zones l \<le> 32" using z(3) by (rule order.trans) simp
  ultimately show ?thesis using z l by (simp add: probe_validate_light_def map_lighting_def res_bind_Inr_iff)
qed simp

section \<open>HID evidence\<close>

lemma hex_pairs_bytes: "hex_pairs (bytes_hex bs) = (map hex2 bs, [])"
  by (induction bs) (simp_all add: bytes_hex_def hex2_def)

lemma decode_bytes_hex: "decode_hex (bytes_hex bs) = Inr bs"
proof -
  have "res_map_list (\<lambda>p. ok_or ''hex payload is invalid'' (map_option of_nat (parse_uint 16 u8_max p))) (map hex2 bs) = Inr bs"
    by (rule res_map_list_map) simp
  then show ?thesis by (simp add: decode_hex_def hex_pairs_bytes require_def)
qed

lemma hex2_targets: "remdups_adj (sort (map hex2 xs)) = map hex2 (remdups_adj (sort xs))"
proof -
  have "insort (hex2 x) (map hex2 ys) = map hex2 (insort x ys)" for x ys
    by (induction ys) (auto simp: hex2_less not_less [symmetric])
  then have "sort (map hex2 xs) = map hex2 (sort xs)" by (induction xs) simp_all
  moreover have "inj hex2" by (rule injI) simp
  ultimately show ?thesis by (simp add: remdups_adj_map_injective)
qed

text \<open>A target list that is the decoded front of its payload.\<close>

definition a1_clean :: "hid_a1 \<Rightarrow> bool" where
  "a1_clean a \<longleftrightarrow> (\<exists>c rest. a1_payload_hex a = bytes_hex (0xA1 # c # rest) \<and> unat c \<le> MAX_A1_TARGETS \<and> unat c \<le> length rest
     \<and> a1_targets a = remdups_adj (sort (take (unat c) rest)))"

lemma parse_a1_clean: "parse_a1_payload n payload = Inr a \<Longrightarrow> a1_clean a"
proof -
  assume run: "parse_a1_payload n payload = Inr a"
  then obtain c rest where p: "payload = 0xA1 # c # rest" "unat c \<le> MAX_A1_TARGETS" "unat c \<le> length rest"
    and a: "a = \<lparr>a1_requested_bytes = n, a1_returned_bytes = length payload, a1_payload_hex = bytes_hex payload,
         a1_targets = remdups_adj (sort (drop 2 (take (2 + unat c) payload)))\<rparr>"
    by (cases payload; cases "tl payload") (auto simp: parse_a1_payload_def Let_def REPORT_TARGET_LIST_def split: if_splits)
  then show ?thesis by (auto simp: a1_clean_def)
qed

lemma mapped_a1_ok:
  assumes "validate_a1 a = Inr ()" and "a1_clean a" shows "probe_validate_a1 (map_a1 a) = Inr ()"
proof -
  from assms(2) obtain c rest where p: "a1_payload_hex a = bytes_hex (0xA1 # c # rest)" "unat c \<le> 32" "unat c \<le> length rest"
    and t: "a1_targets a = remdups_adj (sort (take (unat c) rest))"
    by (auto simp: a1_clean_def MAX_A1_TARGETS_def)
  have hex: "hex2 0xA1 = ''a1''" by code_simp
  from assms(1) have v: "2 \<le> a1_requested_bytes a" "a1_requested_bytes a \<le> 64" "2 \<le> a1_returned_bytes a"
    "a1_returned_bytes a \<le> a1_requested_bytes a" "length (a1_payload_hex a) = a1_returned_bytes a * 2"
    "length (a1_targets a) \<le> 32" "sorted_wrt (<) (a1_targets a)"
    by (auto simp: validate_a1_def payload_size_ok_def MAX_FEATURE_PAYLOAD_BYTES_def MAX_A1_TARGETS_def split: if_splits)
  have "a1_targets_from_payload (a1_payload_hex a) = Inr (map hex2 (a1_targets a))"
    using p(2,3) by (simp add: a1_targets_from_payload_def p(1) decode_bytes_hex MAX_ITEMS_def u64_max_def t hex2_targets [symmetric] drop_map [symmetric] take_map require_def)
  moreover have "prefix ''a1'' (a1_payload_hex a)" by (simp add: p(1) bytes_hex_def hex)
  moreover have "sorted_wrt (<) (map hex2 (a1_targets a))" using v(7) by (simp add: sorted_wrt_map hex2_less)
  moreover have "probe_validate_raw (pa1_payload (map_a1 a)) MAX_HID_PAYLOAD_BYTES [Enc_hex] = Inr ()"
    using v by (simp add: probe_validate_raw_def map_a1_def MAX_HID_PAYLOAD_BYTES_def lower_hex_text_def u64_max_def p(1))
  ultimately show ?thesis
    using v by (simp add: probe_validate_a1_def map_a1_def MAX_HID_PAYLOAD_BYTES_def MAX_ITEMS_def list_all_iff)
qed

definition hid_clean :: "diagnostic_hid \<Rightarrow> bool" where
  "hid_clean h \<longleftrightarrow> ob_clean (\<lambda>_. True) (dh_driver h) \<and> ob_clean (\<lambda>d. list_all is_lower_hex (hd_sha256 d)) (dh_descriptor h)
     \<and> (\<forall>a1. dh_a1 h = Some a1 \<longrightarrow> ob_clean a1_clean a1)"

lemma geometries_ok: "validate_geometries prior gs = Inr () \<longleftrightarrow> (\<forall>g \<in> set gs. 1 \<le> fg_bytes g \<and> fg_bytes g \<le> 4096)
    \<and> sorted_wrt (<) (map fg_id gs) \<and> (\<forall>p. prior = Some p \<longrightarrow> (\<forall>g \<in> set gs. p < fg_id g))"
  by (induction prior gs rule: validate_geometries.induct) (auto simp: MAX_FEATURE_REPORT_BYTES_def not_less split: option.splits)

lemma mapped_descriptor_ok:
  assumes "validate_descriptor d = Inr ()" and "list_all is_lower_hex (hd_sha256 d)"
  shows "probe_validate_descriptor (map_descriptor d) = Inr ()"
proof -
  from assms(1) have v: "1 \<le> hd_bytes d" "hd_bytes d \<le> 4096" "length (hd_sha256 d) = 64" "length (hd_feature_reports d) \<le> 64"
    "\<forall>g \<in> set (hd_feature_reports d). 1 \<le> fg_bytes g \<and> fg_bytes g \<le> 4096" "sorted_wrt (<) (map fg_id (hd_feature_reports d))"
    by (auto simp: validate_descriptor_def MAX_DESCRIPTOR_BYTES_def MAX_FEATURE_REPORTS_def geometries_ok split: if_splits)
  have "each_after probe_validate_geometry None (phd_feature_reports (map_descriptor d)) = Inr ()"
  proof (subst each_after_sorted [where P = "\<lambda>g. lower_hex_text (hfg_id g) 2 \<and> 1 \<le> hfg_bytes g \<and> hfg_bytes g \<le> 4096" and key = hfg_id])
    show "probe_validate_geometry previous g = Inr () \<longleftrightarrow>
        (lower_hex_text (hfg_id g) 2 \<and> 1 \<le> hfg_bytes g \<and> hfg_bytes g \<le> 4096) \<and> (\<forall>p. previous = Some p \<longrightarrow> hfg_id p < hfg_id g)" for previous g
      by (auto simp: probe_validate_geometry_def split: option.splits)
  qed (use v(5,6) in \<open>auto simp: map_descriptor_def list_all_iff sorted_wrt_map hex2_less\<close>)
  then show ?thesis
    using v assms(2) by (simp add: probe_validate_descriptor_def map_descriptor_def MAX_DESCRIPTOR_GEOMETRY_def lower_hex_text_def)
qed

lemma digit_chars: "digit_char 0 = CHR ''0''" "digit_char 1 = CHR ''1''" "digit_char 2 = CHR ''2''" "digit_char 3 = CHR ''3''" "digit_char 4 = CHR ''4''"
  "digit_char 5 = CHR ''5''" "digit_char 6 = CHR ''6''" "digit_char 7 = CHR ''7''" "digit_char 8 = CHR ''8''" "digit_char 9 = CHR ''9''"
  "digit_char 10 = CHR ''a''" "digit_char 11 = CHR ''b''" "digit_char 12 = CHR ''c''" "digit_char 13 = CHR ''d''" "digit_char 14 = CHR ''e''"
  "digit_char 15 = CHR ''f''"
  by code_simp+

lemma role_identities:
  "hex4 0x0cf2 = ''0cf2''" "hex4 0x5130 = ''5130''" "hex4 0x1025 = ''1025''" "hex4 0x174b = ''174b''" "hex4 0x0d62 = ''0d62''" "hex4 0xba51 = ''ba51''"
  by (simp_all add: hex4_def digit_chars digit_chars [simplified])

lemma mapped_role_ok:
  assumes "validate_hid h = Inr ()" shows "validate_role (map_hid h) = Inr ()"
  using assms by (cases "dh_role h")
    (auto simp: validate_hid_def Let_def res_bind_Inr_iff expected_identity_def validate_role_def map_hid_def map_role_def map_identity_def
      identity_is_def role_identities split: if_splits option.splits)

lemma mapped_hid_ok:
  assumes "validate_hid h = Inr ()" and "hid_clean h" shows "probe_validate_hid (map_hid h) = Inr ()"
proof -
  from assms(1) have i: "hi_interface (dh_identity h) = None" "(hi_usage_page (dh_identity h) = None) = (hi_usage (dh_identity h) = None)"
    and driver: "ob_ok driver_token (dh_driver h)" and descriptor: "ob_ok (\<lambda>d. validate_descriptor d = Inr ()) (dh_descriptor h)"
    and a1: "\<forall>a1. dh_a1 h = Some a1 \<longrightarrow> ob_ok (\<lambda>a. validate_a1 a = Inr ()) a1"
    by (auto simp: validate_hid_def Let_def res_bind_Inr_iff validate_observation_ok elim!: ob_ok_mono [rotated] split: if_splits option.splits)
  have "probe_validate_token v MAX_TEXT_BYTES ''HID driver'' = Inr ()" if "driver_token v" for v
    using that by (intro token_accepted) (auto simp: driver_token_def MAX_DRIVER_BYTES_def MAX_TEXT_BYTES_def)
  then have d: "pob_ok (\<lambda>v. probe_validate_token v MAX_TEXT_BYTES ''HID driver'' = Inr ()) (he_driver (map_hid h))"
    using driver assms(2) unfolding map_hid_def by (auto simp: hid_clean_def intro!: mapped_observation_ok)
  have e: "pob_ok (\<lambda>v. probe_validate_descriptor v = Inr ()) (he_descriptor (map_hid h))"
    using descriptor assms(2) mapped_descriptor_ok unfolding map_hid_def by (auto simp: hid_clean_def intro!: mapped_observation_ok)
  have a: "pob_ok (\<lambda>v. probe_validate_a1 v = Inr ()) (map_observation_to Id_hid_feature_a1 map_a1 x)" if "dh_a1 h = Some x" for x
    using a1 assms(2) that mapped_a1_ok by (auto simp: hid_clean_def intro!: mapped_observation_ok)
  have u: "validate_usage (map_identity (dh_identity h)) = Inr ()"
    using i by (cases "hi_usage (dh_identity h)"; cases "hi_usage_page (dh_identity h)") (auto simp: validate_usage_def map_identity_def)
  have x: "validate_extended (he_extended (map_hid h)) = Inr ()"
    by (simp add: map_hid_def validate_extended_def MAX_ITEMS_def res_all_def)
  show ?thesis
    using d e u x i(1) mapped_role_ok [OF assms(1)] a
    by (auto simp: probe_validate_hid_def map_hid_def map_identity_def split: option.split)
qed

lemma map_role_less: "map_role a < map_role b \<longleftrightarrow> a < b"
  by (cases a; cases b) (simp_all add: map_role_def less_hid_role_def less_probe_hid_role_def)

lemma hex4_option_less: "map_option hex4 a < map_option hex4 b \<longleftrightarrow> a < b"
  by (cases a; cases b) (simp_all add: hex4_less)

lemma hex4_option_eq: "map_option hex4 a = map_option hex4 b \<longleftrightarrow> a = b"
  by (cases a; cases b) simp_all

lemma mapped_hash: "hid_descriptor_hash (map_hid h) = descriptor_hash h"
  by (cases "dh_descriptor h") (simp_all add: hid_descriptor_hash_def descriptor_hash_def map_hid_def map_observation_to_def map_descriptor_def)

lemma mapped_key_less:
  assumes "validate_hid a = Inr ()" and "validate_hid b = Inr ()" and "hid_key a < hid_key b"
  shows "probe_hid_key (map_hid a) < probe_hid_key (map_hid b)"
proof -
  have id: "(hi_vid (dh_identity h), hi_pid (dh_identity h)) = (fst (snd (expected_identity (dh_role h))), fst (snd (snd (expected_identity (dh_role h)))))"
    if "validate_hid h = Inr ()" for h
    using that by (cases "dh_role h") (auto simp: validate_hid_def Let_def expected_identity_def split: if_splits)
  have keys: "probe_hid_key (map_hid h) = (map_role (dh_role h), map_option hex4 (hi_usage_page (dh_identity h)),
      map_option hex4 (hi_usage (dh_identity h)), descriptor_hash h)" for h
    unfolding probe_hid_key_def mapped_hash by (simp add: map_hid_def map_identity_def)
  show ?thesis
    using assms(3) id [OF assms(1)] id [OF assms(2)]
    by (auto simp: keys hid_key_def less_prod_simp map_role_less hex4_option_less hex4_option_eq)
qed

lemma records_ok: "validate_records previous hs = Inr () \<longleftrightarrow> (\<forall>h \<in> set hs. validate_hid h = Inr ()) \<and> sorted_wrt (<) (map hid_key hs)
    \<and> (\<forall>p. previous = Some p \<longrightarrow> (\<forall>h \<in> set hs. hid_key p < hid_key h))"
proof (induction hs arbitrary: previous)
  case (Cons h hs)
  have "hid_key p < hid_key h \<Longrightarrow> (\<forall>x \<in> set hs. hid_key h < hid_key x) \<Longrightarrow> (\<forall>x \<in> set hs. hid_key p < hid_key x)" for p
    by (meson order.strict_trans)
  then show ?case by (auto simp: res_bind_Inr_iff Cons.IH split: option.splits if_splits)
qed simp

lemma mapped_inventory_ok:
  assumes "validate_inventory hs = Inr ()" and "list_all hid_clean hs"
  shows "length (map map_hid hs) \<le> MAX_ITEMS" and "each_after (validate_hid_entry PROBE_SCHEMA) None (map map_hid hs) = Inr ()"
proof -
  from assms(1) have v: "length hs \<le> 8" "\<forall>h \<in> set hs. validate_hid h = Inr ()" "sorted_wrt (<) (map hid_key hs)"
    by (auto simp: validate_inventory_def MAX_HID_CANDIDATES_def records_ok split: if_splits)
  then show "length (map map_hid hs) \<le> MAX_ITEMS" by (simp add: MAX_ITEMS_def)
  have "sorted_wrt (\<lambda>a b. probe_hid_key (map_hid a) < probe_hid_key (map_hid b)) hs"
    using v(3) unfolding sorted_wrt_map by (rule sorted_wrt_mono_rel [rotated]) (use v(2) mapped_key_less in blast)
  moreover have "validate_hid_entry PROBE_SCHEMA previous x = Inr () \<longleftrightarrow>
      probe_validate_hid x = Inr () \<and> (\<forall>p. previous = Some p \<longrightarrow> probe_hid_key p < probe_hid_key x)" for previous x
    by (auto simp: validate_hid_entry_def PROBE_SCHEMA_def split: option.splits)
  ultimately show "each_after (validate_hid_entry PROBE_SCHEMA) None (map map_hid hs) = Inr ()"
    using v(2) assms(2) by (subst each_after_sorted [where P = "\<lambda>x. probe_validate_hid x = Inr ()" and key = probe_hid_key])
      (auto simp: list_all_iff sorted_wrt_map mapped_hid_ok)
qed

section \<open>What the HID collector returns\<close>

lemma clean_driver: "gives (ob_clean (\<lambda>_. True)) (hid_read_driver fs p)"
  unfolding hid_read_driver_def
  by (rule gives_bind [OF gives_query], rule TrueI, rule gives_ret) (auto simp: driver_of_link_def split: sum.split option.split)

lemma decode_failure_clean: "decode_failure x \<Longrightarrow> clean_error x"
  by (auto simp: decode_failure_def)

lemma clean_bounded: "yields clean_error (\<lambda>_. True) (hid_read_bounded fs hr p n)"
  unfolding hid_read_bounded_def
  by (intro yields_then [OF yields_map_err] yields_bind [OF yields_map_err]) (auto intro: yields_ret yields_err)

lemma clean_descriptor: "yields clean_error (\<lambda>(d, u). list_all is_lower_hex (hd_sha256 d)) (read_descriptor sha fs hr p)"
  unfolding read_descriptor_def
proof (rule yields_bind [OF clean_bounded], rule yields_of)
  fix bytes :: string and x assume "descriptor_evidence sha (bytes_of bytes) = Inl x"
  then show "clean_error x" using descriptor_evidence_error decode_failure_clean by blast
next
  fix bytes :: string and a assume "descriptor_evidence sha (bytes_of bytes) = Inr a"
  then show "case a of (d, u) \<Rightarrow> list_all is_lower_hex (hd_sha256 d)"
    by (auto simp: descriptor_evidence_def res_bind_Inr_iff split: if_splits)
qed

lemma clean_report: "yields clean_error (\<lambda>_. True) (read_feature_report hr node i n)"
  unfolding read_feature_report_def
  by (auto intro!: yields_err yields_then [OF yields_map_err] yields_bind [OF yields_of] yields_bind [OF yields_map_err] yields_ret
      simp: get_feature_ioctl_def split: if_splits)

lemma clean_a1: "gives (ob_clean a1_clean) (read_a1 node n (read_feature_report hr))"
proof -
  have "clean_error x" if "parse_a1_payload n payload = Inl x" for payload x
    using that by (auto simp: parse_a1_payload_def Let_def split: if_splits)
  then show ?thesis
    unfolding read_a1_def
    by (auto intro!: gives_ret gives_try_yields [OF clean_report] dest: parse_a1_clean split: sum.split)
qed

lemma clean_collect_a1: "gives (\<lambda>a. \<forall>a1. a = Some a1 \<longrightarrow> ob_clean a1_clean a1) (collect_a1 c d (read_feature_report hr))"
proof -
  have "gives (ob_clean a1_clean) (case d of Ob_value d \<Rightarrow> (case find_a1_geometry d of None \<Rightarrow> io_ret (Ob_absent Incomplete_interface)
           | Some g \<Rightarrow> read_a1 (hc_node c) (fg_bytes g) (read_feature_report hr))
       | _ \<Rightarrow> io_ret (Ob_absent Incomplete_interface))"
    by (cases d) (auto intro: gives_ret clean_a1 split: option.split)
  then show ?thesis
    unfolding collect_a1_def by (auto intro!: gives_ret gives_bind)
qed

lemma clean_candidate: "gives hid_clean (collect_candidate sha fs hr (read_feature_report hr) c)"
  unfolding collect_candidate_def
  by (rule gives_bind [OF clean_driver], rule gives_try_yields [OF clean_descriptor])
    (auto simp: hid_clean_def intro!: gives_bind [OF clean_collect_a1] gives_ret)

lemma clean_inventory: "gives (list_all hid_clean) (collect_hid_at sha fs hr root)"
proof -
  have cands: "gives (\<lambda>_. True) (hid_candidates fs hr MAX_HID_CANDIDATES entries)" for entries
    by (rule gives_mono [OF gives_candidates]) (simp_all add: MAX_HID_CANDIDATES_def)
  have run: "gives (list_all hid_clean) (io_bind (io_map_list (collect_candidate sha fs hr (read_feature_report hr)) cs)
      (\<lambda>inventory. io_ret (dedup_hid (sort_key hid_order inventory))))" for cs
  proof (rule gives_bind [OF gives_map_list [where R = "\<lambda>_. hid_clean"]])
    fix inv assume "list_all2 (\<lambda>_. hid_clean) cs inv"
    then have "\<forall>h \<in> set inv. hid_clean h" by (auto simp: list_all2_conv_all_nth in_set_conv_nth)
    then show "gives (list_all hid_clean) (io_ret (dedup_hid (sort_key hid_order inv)))"
      using dedup_hid_sub(1) [of "sort_key hid_order inv"] by (intro gives_ret) (auto simp: list_all_iff)
  qed (rule clean_candidate)
  show ?thesis
    unfolding collect_hid_at_def collect_hid_at_with_def Let_def
    by (rule gives_bind [OF gives_query], rule TrueI) (auto intro!: gives_ret gives_any_bind [OF cands] run split: sum.split)
qed

section \<open>The sections of a report\<close>

definition sections_accepted :: "daemon_sections \<Rightarrow> bool" where
  "sections_accepted = (\<lambda>(profile, fans, platform, lighting, hid).
     probe_validate_profile profile PROBE_SCHEMA = Inr () \<and> probe_validate_fans fans = Inr () \<and> probe_validate_platform platform = Inr ()
     \<and> length lighting \<le> MAX_ITEMS \<and> each_after probe_validate_light None lighting = Inr ()
     \<and> length hid \<le> MAX_ITEMS \<and> each_after (validate_hid_entry PROBE_SCHEMA) None hid = Inr ())"

definition report_clean :: "passive_diagnostics \<Rightarrow> bool" where
  "report_clean d \<longleftrightarrow> profile_mapped (pd_profile d) \<and> fans_clean (pd_fans d) \<and> platform_clean (pd_platform d) \<and> list_all hid_clean (pd_hid d)"

lemma clean_diagnostics: "gives report_clean (collect_diagnostics sha fs hr root)"
proof -
  have light: "gives (\<lambda>_. True) (collect_lighting fs hr root)"
  proof -
    have texts: "gives (\<lambda>_. True) (io_map_list (\<lambda>n. diag_read_text fs hr (path_join base n)) ns)" for base ns
      by (rule gives_mono [OF gives_map_list [where R = "\<lambda>_ _. True"]]) (auto intro: gives_mono [OF clean_text])
    have "gives (\<lambda>_. True) (collect_light_at fs hr base)" for base
      unfolding collect_light_at_def
      by (rule gives_bind [OF clean_text])
        (auto intro!: gives_ret gives_any_bind [OF texts] simp del: io_map_list.simps split: observation.split option.split)
    then show ?thesis
      unfolding collect_lighting_def by (auto intro!: gives_any_bind [OF gives_query] gives_ret split: option.split)
  qed
  show ?thesis
    unfolding collect_diagnostics_def
    by (rule gives_bind [OF mapped_profile], rule gives_bind [OF clean_fans], rule gives_bind [OF clean_platform],
        rule gives_any_bind [OF light], rule gives_bind [OF clean_inventory], rule gives_ret) (simp add: report_clean_def)
qed

lemma clean_sections:
  assumes "report_clean d" and "validate_diagnostics js d = Inr ()"
  shows "sections_accepted (map_daemon_diagnostics (Diag_value d)) \<longleftrightarrow> labels_relative (pd_fans d)"
proof -
  from assms(2) have v: "validate_profile (pd_profile d) = Inr ()" "validate_fans (pd_fans d) = Inr ()" "validate_platform (pd_platform d) = Inr ()"
    "length (pd_lighting d) \<le> 1" "res_all validate_light (pd_lighting d) = Inr ()" "validate_inventory (pd_hid d) = Inr ()"
    by (auto simp: validate_diagnostics_def res_bind_Inr_iff split: if_splits)
  show ?thesis
    using assms(1) v mapped_fans_iff [of "pd_fans d"] mapped_platform_ok [of "pd_platform d"] mapped_lights_ok [OF v(4,5)] mapped_inventory_ok [OF v(6)]
    by (simp add: sections_accepted_def map_daemon_diagnostics_def report_clean_def profile_mapped_def MAX_ITEMS_def)
qed

lemma error_sections:
  assumes "probe_validate_error x = Inr ()" shows "sections_accepted (map_daemon_diagnostics (Diag_error x))"
proof -
  have "probe_validate_profile (diagnostic_error_profile x) PROBE_SCHEMA = Inr ()"
    using assms by (simp add: probe_validate_profile_def diagnostic_error_profile_def validate_backend_transport_def probe_validate_current_def)
  moreover have "probe_validate_fans (diagnostic_error_fans x) = Inr ()"
    using assms by (simp add: probe_validate_fans_def diagnostic_error_fans_def res_all_def channel_order_ok)
  moreover have "probe_validate_platform (diagnostic_error_platform x) = Inr ()"
    using assms by (simp add: probe_validate_platform_def diagnostic_error_platform_def validate_backend_transport_def bare_fields_ok)
  ultimately show ?thesis by (simp add: sections_accepted_def map_daemon_diagnostics_def)
qed

lemma absent_sections: "sections_accepted (map_daemon_diagnostics Diag_unavailable)"
  by (simp add: sections_accepted_def map_daemon_diagnostics_def absent_sections_ok)

text \<open>C39: a passive report that the daemon collects and sends turns into sections that the probe's own validator
  accepts exactly when no fan or temperature label begins with a slash. Without a daemon, or when the conversation
  with it failed, the sections are accepted as well.\<close>

theorem daemon_sections_accepted:
  assumes "collect_diagnostics sha fs hr root w = (Inr d :: 'x + passive_diagnostics, w')" and "encode_diagnostics js d = Inr s"
  shows "(sections_accepted (map_daemon_diagnostics (Diag_value d)) \<longleftrightarrow>
        list_all (\<lambda>r. \<not> prefix ''/'' (drp_label r)) (df_rpm (pd_fans d)) \<and> list_all (\<lambda>t. \<not> prefix ''/'' (dtp_label t)) (df_temperatures (pd_fans d)))
    \<and> sections_accepted (map_daemon_diagnostics Diag_unavailable)
    \<and> sections_accepted (map_daemon_diagnostics (Diag_error (control_probe_error e)))"
proof -
  have "report_clean d"
    using clean_diagnostics [of sha fs hr root, where 'b = 'x] assms(1) by (auto simp: gives_def dest: spec [of _ w])
  from clean_sections [OF this encoded_valid(1) [OF assms(2)]] have "sections_accepted (map_daemon_diagnostics (Diag_value d)) = labels_relative (pd_fans d)" .
  moreover have "sections_accepted (map_daemon_diagnostics (Diag_error (control_probe_error e)))"
    by (rule error_sections) (cases e; simp add: control_probe_error_def)
  ultimately show ?thesis by (simp add: absent_sections labels_relative_def)
qed

text \<open>A machine that exposes nothing.\<close>

lemma bare_fans: "\<exists>w' c. collect_fans tree_sysfs bench_hid [] \<lparr>wenv = [], wlog = es\<rparr>
    = (Inr \<lparr>df_control = c, df_channels = [], df_rpm = [], df_temperatures = []\<rparr> :: unit + diag_fans, w')"
  by (simp add: collect_fans_def discover_acer_hwmon_def io_simps fs_query_def tree_sysfs_def Let_def fan_view_of_def
      collect_fan_control_def discover_at_def discover_platform_def read_trimmed_def fs_read_to_string_def fs_read_def
      collect_fan_channels_def find_wmi_group_def matching_wmi_devices_def kernel_setpoint_def)

lemma bare_profile: "\<exists>es'. collect_profile tree_sysfs bench_hid [] \<lparr>wenv = [], wlog = es\<rparr>
    = (Inr absent_profile :: unit + diag_profile, \<lparr>wenv = [], wlog = es'\<rparr>)"
  by (simp add: collect_profile_def hardware_turbo_def discover_kernel_profile_def io_simps fs_query_def tree_sysfs_def Let_def
      discover_at_def discover_platform_def read_trimmed_def fs_read_to_string_def fs_read_def find_wmi_group_def
      matching_wmi_devices_def collect_gaming_profile_def or_else_def)

lemma bare_run: "\<exists>d w'. collect_diagnostics (\<lambda>_. replicate 32 0) tree_sysfs bench_hid [] \<lparr>wenv = [], wlog = []\<rparr>
    = (Inr d :: unit + passive_diagnostics, w') \<and> df_rpm (pd_fans d) = [] \<and> df_temperatures (pd_fans d) = []
      \<and> encode_diagnostics bare_json d = Inr ''{}''"
proof -
  have sha: "valid_sha (\<lambda>_. replicate 32 0)" by (simp add: valid_sha_def)
  obtain es where profile: "collect_profile tree_sysfs bench_hid [] \<lparr>wenv = [], wlog = []\<rparr>
      = (Inr absent_profile :: unit + diag_profile, \<lparr>wenv = [], wlog = es\<rparr>)"
    using bare_profile by blast
  obtain c w1 where fans: "collect_fans tree_sysfs bench_hid [] \<lparr>wenv = [], wlog = es\<rparr>
      = (Inr \<lparr>df_control = c, df_channels = [], df_rpm = [], df_temperatures = []\<rparr> :: unit + diag_fans, w1)"
    using bare_fans by blast
  obtain d w' where run: "collect_diagnostics (\<lambda>_. replicate 32 0) tree_sysfs bench_hid [] \<lparr>wenv = [], wlog = []\<rparr>
      = (Inr d :: unit + passive_diagnostics, w')" and iff: "validate_diagnostics bare_json d = Inr () \<longleftrightarrow> report_fit bare_json d"
    using gives_diagnostics [OF sha tree_errnos, of bare_json "[]", where 'b = unit] unfolding gives_def by blast
  from run have parts: "pd_profile d = absent_profile" "pd_fans d = \<lparr>df_control = c, df_channels = [], df_rpm = [], df_temperatures = []\<rparr>"
    unfolding collect_diagnostics_def by (auto simp: io_simps profile fans split: prod.splits sum.splits)
  then have "report_fit bare_json d"
    by (simp add: report_fit_def profile_fit_def fans_fit_def size_fit_def value_ok_def bare_json_def absent_profile_def MAX_PASSIVE_DIAGNOSTICS_BYTES_def)
  with iff have "encode_diagnostics bare_json d = Inr ''{}''" by (simp add: encode_diagnostics_def bare_json_def)
  with run parts show ?thesis by simp
qed

theorem daemon_sections_accepted_witness:
  "\<exists>d w'. collect_diagnostics (\<lambda>_. replicate 32 0) tree_sysfs bench_hid [] \<lparr>wenv = [], wlog = []\<rparr>
      = (Inr d :: unit + passive_diagnostics, w') \<and> encode_diagnostics bare_json d = Inr ''{}''
    \<and> sections_accepted (map_daemon_diagnostics (Diag_value d))"
proof -
  obtain d w' where run: "collect_diagnostics (\<lambda>_. replicate 32 0) tree_sysfs bench_hid [] \<lparr>wenv = [], wlog = []\<rparr>
      = (Inr d :: unit + passive_diagnostics, w')" "encode_diagnostics bare_json d = Inr ''{}''"
    and no: "df_rpm (pd_fans d) = []" "df_temperatures (pd_fans d) = []"
    using bare_run by blast
  from daemon_sections_accepted [OF run] no run show ?thesis by auto
qed

end
