(* ===== verification/Probe_Collect.thy ===== *)
theory Probe_Collect
  imports Probe_Map
begin

text \<open>
  \<open>src/probe.rs\<close>, the machine's part of the report and the report itself: DMI, kernel and system
  identity, power supplies, modules and WMI owners, each a bounded read; then \<open>generate\<close>, which puts
  the sections together and refuses to print a report its schema refuses. Directory entries,
  \<open>metadata\<close>, \<open>uname\<close>, \<open>gmtime_r\<close> and the build's environment are parameters.
\<close>

section \<open>The operating system\<close>

definition MAX_INPUT_BYTES :: nat where "MAX_INPUT_BYTES = 4096"
definition MAX_POWER_DIRECTORY_ENTRIES :: nat where "MAX_POWER_DIRECTORY_ENTRIES = 64"
definition GAMING_GUID :: string where "GAMING_GUID = ''7A4DDFE7-5B5D-40B4-8595-4408E0CC7F56''"
definition BATTERY_GUID :: string where "BATTERY_GUID = ''79772EC5-04B1-4BFD-843C-61E7F77B6CC9''"
definition APGE_GUID :: string where "APGE_GUID = ''61EF69EA-865C-4BC3-A502-A0DEBA0CB531''"

text \<open>
  Besides the files: the entries of a directory as the iterator yields them, whether a path has
  metadata, and the release and machine fields of \<open>uname\<close>.
\<close>

record 'e probe_os =
  po_fs :: "'e sysfs"
  po_hid :: "'e hid"
  po_entries :: "path \<Rightarrow> 'e \<Rightarrow> io_error + (io_error + string) list"
  po_metadata :: "path \<Rightarrow> 'e \<Rightarrow> io_error + unit"
  po_uname :: "'e \<Rightarrow> io_error + string \<times> string"

section \<open>Reading text\<close>

definition io_error_class :: "io_error \<Rightarrow> error_class" where
  "io_error_class x = (case io_error_kind x of NotFound \<Rightarrow> Ec_not_found | PermissionDenied \<Rightarrow> Ec_permission_denied
     | TimedOut \<Rightarrow> Ec_timeout | _ \<Rightarrow> Ec_io)"

definition io_probe_error :: "error_stage \<Rightarrow> io_error \<Rightarrow> probe_error" where
  "io_probe_error stage x = probe_error_new stage (io_error_class x)
     (case raw_os_error x of Some n \<Rightarrow> if 0 \<le> n then Some n else None | None \<Rightarrow> None)"

definition undecodable :: "source_id \<Rightarrow> 'a probe_observation" where
  "undecodable source = Pv_error source (probe_error_new Es_decode Ec_invalid_value None)"

text \<open>\<open>take(maximum + 1)\<close> never shows more than one byte beyond the bound.\<close>

definition read_bounded_bytes :: "'e probe_os \<Rightarrow> path \<Rightarrow> nat \<Rightarrow> ('e world, probe_error, string option) io" where
  "read_bounded_bytes os p maximum = io_try (dev_open (po_hid os) p False) (\<lambda>r. case r of
      Inl x \<Rightarrow> if io_error_kind x = NotFound then io_ret None else io_err (io_probe_error Es_open x)
    | Inr _ \<Rightarrow> io_bind (io_map_err (io_probe_error Es_read) (fs_read (po_fs os) p)) (\<lambda>content.
        let bytes = take (maximum + 1) content in
        if maximum < length bytes then io_err (probe_error_new Es_read Ec_oversize None) else io_ret (Some bytes)))"

definition decode_observation :: "source_id \<Rightarrow> string \<Rightarrow> string probe_observation" where
  "decode_observation source bytes = (if \<not> utf8_valid bytes then undecodable source
     else (let v = str_trim bytes in
       if v = [] then Pv_absent source Abs_not_exposed
       else if MAX_TEXT_BYTES < length v then Pv_error source (probe_error_new Es_decode Ec_oversize None)
       else if has_control v then undecodable source
       else Pv_value source v))"

definition read_text_observation :: "'e probe_os \<Rightarrow> source_id \<Rightarrow> path \<Rightarrow> ('e world, 'x, string probe_observation) io" where
  "read_text_observation os source p = io_try (read_bounded_bytes os p MAX_TEXT_BYTES) (\<lambda>r. io_ret (case r of
      Inr (Some bytes) \<Rightarrow> decode_observation source bytes
    | Inr None \<Rightarrow> Pv_absent source Abs_not_exposed
    | Inl x \<Rightarrow> Pv_error source x))"

definition map_text_observation :: "(string \<Rightarrow> probe_error + 'a) \<Rightarrow> string probe_observation \<Rightarrow> 'a probe_observation" where
  "map_text_observation convert ob = (case ob of
      Pv_value source v \<Rightarrow> (case convert v of Inr a \<Rightarrow> Pv_value source a | Inl x \<Rightarrow> Pv_error source x)
    | Pv_absent source r \<Rightarrow> Pv_absent source r
    | Pv_error source x \<Rightarrow> Pv_error source x)"

definition bool_of_text :: "string \<Rightarrow> probe_error + bool" where
  "bool_of_text v = (if v = ''0'' then Inr False else if v = ''1'' then Inr True
     else Inl (probe_error_new Es_decode Ec_invalid_value None))"

definition read_bool_observation :: "'e probe_os \<Rightarrow> source_id \<Rightarrow> path \<Rightarrow> ('e world, 'x, bool probe_observation) io" where
  "read_bool_observation os source p = io_bind (read_text_observation os source p) (\<lambda>t. io_ret (map_text_observation bool_of_text t))"

definition status_of_text :: "string \<Rightarrow> probe_error + probe_battery_status" where
  "status_of_text v = Inr (if v = ''Charging'' then Bs_charging else if v = ''Discharging'' then Bs_discharging
     else if v = ''Full'' then Bs_full else if v = ''Not charging'' then Bs_not_charging else Bs_unknown)"

definition read_battery_status :: "'e probe_os \<Rightarrow> path \<Rightarrow> ('e world, 'x, probe_battery_status probe_observation) io" where
  "read_battery_status os p = io_bind (read_text_observation os Id_power_supply p) (\<lambda>t. io_ret (map_text_observation status_of_text t))"

definition capacity_of_text :: "string \<Rightarrow> probe_error + u8" where
  "capacity_of_text v = (case parse_u8 v of
      Some n \<Rightarrow> if n \<le> 100 then Inr n else Inl (probe_error_new Es_decode Ec_invalid_value None)
    | None \<Rightarrow> Inl (probe_error_new Es_decode Ec_invalid_value None))"

definition read_capacity :: "'e probe_os \<Rightarrow> path \<Rightarrow> ('e world, 'x, u8 probe_observation) io" where
  "read_capacity os p = io_bind (read_text_observation os Id_power_supply p) (\<lambda>t. io_ret (map_text_observation capacity_of_text t))"

section \<open>The machine\<close>

text \<open>Backslash escapes of a quoted value; \<open>True\<close> beside the text when one is left open.\<close>

fun unescape :: "bool \<Rightarrow> bool \<Rightarrow> string \<Rightarrow> string \<times> bool" where
  "unescape quoted escaped [] = ([], escaped)"
| "unescape quoted escaped (c # cs) = (if \<not> escaped \<and> quoted \<and> c = CHR 0x5C then unescape quoted True cs
     else (case unescape quoted False cs of (out, open) \<Rightarrow> (c # out, open)))"

definition quoted_by :: "char \<Rightarrow> string \<Rightarrow> bool" where
  "quoted_by q v \<longleftrightarrow> 2 \<le> length v \<and> v ! 0 = q \<and> last v = q"

definition decode_os_release_value :: "string \<Rightarrow> unit + string" where
  "decode_os_release_value text = (let v = str_trim text;
       quoted = (quoted_by (CHR 0x22) v \<or> quoted_by (CHR 0x27) v);
       body = (if quoted then drop 1 (butlast v) else v) in
     if \<not> quoted \<and> list_ex is_ascii_ws body then Inl ()
     else (case unescape quoted False body of (out, open) \<Rightarrow> if open \<or> has_control out then Inl () else Inr out))"

fun os_release_lookup :: "string \<Rightarrow> string list \<Rightarrow> string option" where
  "os_release_lookup key [] = None"
| "os_release_lookup key (l # ls) = (case split_once (CHR ''='') l of
      Some (candidate, v) \<Rightarrow> if candidate = key then Some v else os_release_lookup key ls
    | None \<Rightarrow> os_release_lookup key ls)"

definition os_release_value :: "string \<Rightarrow> string \<Rightarrow> string probe_observation" where
  "os_release_value content key = (case os_release_lookup key (str_lines content) of
      None \<Rightarrow> Pv_absent Id_os_release Abs_not_exposed
    | Some raw \<Rightarrow> (case decode_os_release_value raw of
        Inl _ \<Rightarrow> undecodable Id_os_release
      | Inr v \<Rightarrow> if v = [] then Pv_absent Id_os_release Abs_not_exposed
          else if length v \<le> MAX_TEXT_BYTES then Pv_value Id_os_release v
          else Pv_error Id_os_release (probe_error_new Es_decode Ec_oversize None)))"

definition collect_os_release :: "'e probe_os \<Rightarrow> path \<Rightarrow> ('e world, 'x, os_evidence) io" where
  "collect_os_release os base = io_try (read_bounded_bytes os (rooted base ''etc/os-release'') MAX_INPUT_BYTES) (\<lambda>r. io_ret (
     let both = (\<lambda>ob. \<lparr>os_id = ob, os_version_id = ob\<rparr>) in case r of
       Inr None \<Rightarrow> both (Pv_absent Id_os_release Abs_not_exposed)
     | Inl x \<Rightarrow> both (Pv_error Id_os_release x)
     | Inr (Some bytes) \<Rightarrow> if \<not> utf8_valid bytes then both (undecodable Id_os_release)
         else \<lparr>os_id = os_release_value bytes ''ID'', os_version_id = os_release_value bytes ''VERSION_ID''\<rparr>))"

definition collect_uname :: "'e probe_os \<Rightarrow> ('e world, 'x, kernel_evidence) io" where
  "collect_uname os = io_bind (fs_query (po_uname os)) (\<lambda>r. io_ret (case r of
      Inl x \<Rightarrow> \<lparr>kr_release = Pv_error Id_uname (io_probe_error Es_read x), kr_architecture = Pv_error Id_uname (io_probe_error Es_read x)\<rparr>
    | Inr (release, architecture) \<Rightarrow>
        \<lparr>kr_release = decode_observation Id_uname release, kr_architecture = decode_observation Id_uname architecture\<rparr>))"

definition collect_dmi :: "'e probe_os \<Rightarrow> path \<Rightarrow> ('e world, 'x, dmi_evidence) io" where
  "collect_dmi os dmi_root = io_bind (read_text_observation os Id_dmi_vendor (path_join dmi_root ''sys_vendor'')) (\<lambda>vendor.
     io_bind (read_text_observation os Id_dmi_product (path_join dmi_root ''product_name'')) (\<lambda>product.
     io_bind (read_text_observation os Id_dmi_board (path_join dmi_root ''board_name'')) (\<lambda>board.
     io_bind (read_text_observation os Id_dmi_bios (path_join dmi_root ''bios_version'')) (\<lambda>bios.
       io_ret \<lparr>dmi_vendor = vendor, dmi_product = product, dmi_board = board, dmi_bios = bios\<rparr>))))"

definition collect_machine :: "'e probe_os \<Rightarrow> path \<Rightarrow> ('e world, 'x, machine_evidence) io" where
  "collect_machine os base = io_bind (collect_uname os) (\<lambda>kernel. io_bind (collect_os_release os base) (\<lambda>release.
     io_bind (collect_dmi os (rooted base ''sys/class/dmi/id'')) (\<lambda>dmi.
       io_ret \<lparr>me_dmi = dmi, me_kernel = kernel, me_os = release\<rparr>)))"

section \<open>Power supplies\<close>

text \<open>The loop of \<open>sorted_entries_bounded\<close> over the iterator; \<open>n\<close> entries are already taken.\<close>

fun take_entries :: "nat \<Rightarrow> nat \<Rightarrow> (io_error + string) list \<Rightarrow> io_error + string list" where
  "take_entries maximum n [] = Inr []"
| "take_entries maximum n (Inl x # es) = Inl x"
| "take_entries maximum n (Inr name # es) = (if maximum < n + 1 then Inl Invalid_data
     else res_bind (take_entries maximum (n + 1) es) (\<lambda>names. Inr (name # names)))"

definition sorted_entries_bounded :: "'e probe_os \<Rightarrow> path \<Rightarrow> nat \<Rightarrow> 'e \<Rightarrow> io_error + string list" where
  "sorted_entries_bounded os p maximum e = res_bind (po_entries os p e) (\<lambda>entries.
     res_bind (take_entries maximum 0 entries) (\<lambda>names. Inr (sort names)))"

definition class_debug :: "error_class \<Rightarrow> string" where
  "class_debug c = (case c of Ec_not_found \<Rightarrow> ''NotFound'' | Ec_permission_denied \<Rightarrow> ''PermissionDenied'' | Ec_io \<Rightarrow> ''Io''
     | Ec_timeout \<Rightarrow> ''Timeout'' | Ec_invalid_value \<Rightarrow> ''InvalidValue'' | Ec_incompatible \<Rightarrow> ''Incompatible''
     | Ec_unsupported \<Rightarrow> ''Unsupported'' | Ec_oversize \<Rightarrow> ''Oversize'')"

text \<open>An inventory that does not exist is empty; any other failure ends the probe.\<close>

definition inventory :: "'e probe_os \<Rightarrow> path \<Rightarrow> nat \<Rightarrow> string \<Rightarrow> ('e world, string, string list) io" where
  "inventory os p maximum what = io_bind (fs_query (sorted_entries_bounded os p maximum)) (\<lambda>r. case r of
      Inr names \<Rightarrow> io_ret names
    | Inl x \<Rightarrow> if io_error_kind x = NotFound then io_ret []
        else io_err (''cannot enumerate the bounded '' @ what @ '' inventory: '' @ class_debug (io_error_class x)))"

definition ac_kind_of :: "string \<Rightarrow> ac_kind option" where
  "ac_kind_of v = (if v = ''Mains'' then Some Ac_mains else if v = ''USB'' then Some Ac_usb
     else if v = ''USB_C'' then Some Ac_usb_c else if v = ''USB_PD'' then Some Ac_usb_pd else None)"

text \<open>One supply: what it adds to the adapters and batteries found before it.\<close>

definition power_supply :: "'e probe_os \<Rightarrow> path \<Rightarrow> string \<Rightarrow> power_evidence \<Rightarrow> ('e world, string, power_evidence) io" where
  "power_supply os p kind found = (case ac_kind_of kind of
      Some k \<Rightarrow> if length (pw_ac found) < MAX_POWER_ITEMS
        then io_bind (read_bool_observation os Id_power_supply (path_join p ''online'')) (\<lambda>online.
          io_ret (found\<lparr>pw_ac := pw_ac found @ [\<lparr>ac_ordinal = length (pw_ac found), ac_supply_kind = k, ac_online = online\<rparr>]\<rparr>))
        else io_ret found
    | None \<Rightarrow> if kind = ''Battery'' \<and> length (pw_batteries found) < MAX_POWER_ITEMS
        then io_bind (read_bool_observation os Id_power_supply (path_join p ''present'')) (\<lambda>present.
          io_bind (read_battery_status os (path_join p ''status'')) (\<lambda>status.
          io_bind (read_capacity os (path_join p ''capacity'')) (\<lambda>capacity.
          io_ret (found\<lparr>pw_batteries := pw_batteries found @
            [\<lparr>bt_ordinal = length (pw_batteries found), bt_present = present, bt_status = status, bt_capacity_percent = capacity\<rparr>]\<rparr>))))
        else io_ret found)"

fun power_supplies :: "'e probe_os \<Rightarrow> path \<Rightarrow> string list \<Rightarrow> power_evidence \<Rightarrow> ('e world, string, power_evidence) io" where
  "power_supplies os directory [] found = io_ret found"
| "power_supplies os directory (n # ns) found = (let p = path_join directory n in
     io_bind (read_text_observation os Id_power_supply (path_join p ''type'')) (\<lambda>t. case t of
       Pv_absent _ _ \<Rightarrow> power_supplies os directory ns found
     | Pv_error _ _ \<Rightarrow> io_err ''a power-supply type could not be read safely''
     | Pv_value _ kind \<Rightarrow> io_bind (power_supply os p kind found) (\<lambda>found. power_supplies os directory ns found)))"

definition collect_power :: "'e probe_os \<Rightarrow> path \<Rightarrow> ('e world, string, power_evidence) io" where
  "collect_power os base = (let directory = rooted base ''sys/class/power_supply'' in
     io_bind (inventory os directory MAX_POWER_DIRECTORY_ENTRIES ''power-supply'') (\<lambda>names.
       power_supplies os directory names \<lparr>pw_ac = [], pw_batteries = []\<rparr>))"

section \<open>Drivers\<close>

definition replace_char :: "char \<Rightarrow> char \<Rightarrow> string \<Rightarrow> string" where
  "replace_char a b = map (\<lambda>c. if c = a then b else c)"

definition normalize_driver_token :: "string \<Rightarrow> string" where
  "normalize_driver_token v = replace_char (CHR ''-'') (CHR ''_'') (ascii_lower (str_trim v))"

definition owner_of_link :: "source_id \<Rightarrow> path \<Rightarrow> string probe_observation" where
  "owner_of_link source target = (case path_file_name target of
      None \<Rightarrow> undecodable source
    | Some name \<Rightarrow> if \<not> utf8_valid name then undecodable source
        else (let owner = normalize_driver_token name in
          if owner = [] \<or> MAX_TEXT_BYTES < length owner then Pv_error source (probe_error_new Es_decode Ec_oversize None)
          else Pv_value source owner))"

text \<open>The candidates in order: the first link that exists decides.\<close>

fun link_owner :: "source_id \<Rightarrow> (io_error + path) list \<Rightarrow> string probe_observation" where
  "link_owner source [] = Pv_absent source Abs_not_exposed"
| "link_owner source (Inr target # rs) = owner_of_link source target"
| "link_owner source (Inl x # rs) = (if io_error_kind x = NotFound then link_owner source rs
     else Pv_error source (io_probe_error Es_read x))"

definition read_driver_owner :: "'e probe_os \<Rightarrow> source_id \<Rightarrow> path \<Rightarrow> 'e \<Rightarrow> string probe_observation" where
  "read_driver_owner os source p e =
     link_owner source (map (\<lambda>c. k_read_link (po_fs os) c e) [p @ [''driver''], p @ [''driver'', ''module'']])"

text \<open>The loop of \<open>combine_owners\<close>; \<open>v\<close> is the owner seen so far.\<close>

fun combine_from :: "source_id \<Rightarrow> string option \<Rightarrow> string probe_observation list \<Rightarrow> string probe_observation" where
  "combine_from source v [] = (case v of None \<Rightarrow> Pv_absent source Abs_not_exposed | Some owner \<Rightarrow> Pv_value source owner)"
| "combine_from source v (Pv_value _ owner # obs) = (if v \<noteq> None \<and> v \<noteq> Some owner
     then Pv_error source (probe_error_new Es_verify Ec_invalid_value None) else combine_from source (Some owner) obs)"
| "combine_from source v (Pv_error _ x # obs) = Pv_error source x"
| "combine_from source v (Pv_absent _ _ # obs) = combine_from source v obs"

definition combine_owners :: "string probe_observation list \<Rightarrow> source_id \<Rightarrow> string probe_observation" where
  "combine_owners owners source = combine_from source None owners"

definition module_token :: "probe_module \<Rightarrow> string" where
  "module_token m = (case m of Mod_acer_wmi \<Rightarrow> ''acer_wmi'' | Mod_asense_rgb \<Rightarrow> ''asense_rgb'')"

definition module_loaded :: "io_error + unit \<Rightarrow> bool probe_observation" where
  "module_loaded r = (case r of Inr _ \<Rightarrow> Pv_value Id_module_sysfs True
     | Inl x \<Rightarrow> if io_error_kind x = NotFound then Pv_value Id_module_sysfs False
         else Pv_error Id_module_sysfs (io_probe_error Es_discover x))"

definition collect_module :: "'e probe_os \<Rightarrow> path \<Rightarrow> probe_module \<Rightarrow> ('e world, 'x, module_evidence) io" where
  "collect_module os base name = (let p = path_join (rooted base ''sys/module'') (module_token name) in
     io_bind (fs_query (po_metadata os p)) (\<lambda>r.
     io_bind (if module_loaded r = Pv_value Id_module_sysfs True then read_text_observation os Id_module_sysfs (path_join p ''version'')
       else io_ret (Pv_absent Id_module_sysfs Abs_not_exposed)) (\<lambda>version.
     io_ret \<lparr>mod_name = name, mod_loaded = module_loaded r, mod_version = version\<rparr>)))"

definition probe_wmi_name_matches :: "string \<Rightarrow> string \<Rightarrow> bool" where
  "probe_wmi_name_matches name guid \<longleftrightarrow> utf8_valid name \<and> (let upper = ascii_upper name in upper = guid
     \<or> (case strip_pre guid upper of Some (c # digits) \<Rightarrow> c = CHR ''-'' \<and> list_all is_digit digits | _ \<Rightarrow> False))"

definition wmi_authorities :: "(string \<times> (string \<times> wmi_group) list) list" where
  "wmi_authorities = [
     (GAMING_GUID, [(''asense_diagnostics'', Grp_asense_diagnostics), (''asense_rgb'', Grp_asense_rgb), (''rgb_zoned'', Grp_rgb_zoned),
        (''gaming_fan'', Grp_gaming_fan), (''gaming_profile'', Grp_gaming_profile)]),
     (BATTERY_GUID, [(''asense_diagnostics'', Grp_asense_diagnostics), (''asense_battery'', Grp_asense_battery)]),
     (APGE_GUID, [(''asense_diagnostics'', Grp_asense_diagnostics), (''asense_apge'', Grp_asense_apge)])]"

text \<open>One GUID: no evidence without an instance, a failure beyond the bound.\<close>

definition wmi_guid_evidence :: "'e probe_os \<Rightarrow> path \<Rightarrow> string list \<Rightarrow> 'e \<Rightarrow> string \<times> (string \<times> wmi_group) list
    \<Rightarrow> string + wmi_evidence option" where
  "wmi_guid_evidence os directory names e = (\<lambda>(guid, known_groups).
     let instances = sort (filter (\<lambda>n. probe_wmi_name_matches n guid) names);
         at = path_join directory in
     if instances = [] then Inr None
     else if MAX_ITEMS < length instances then Inl (''WMI GUID '' @ guid @ '' exceeds the instance bound'')
     else Inr (Some \<lparr>we_guid = guid, we_instances = length instances,
       we_owner = combine_owners (map (\<lambda>n. read_driver_owner os Id_wmi_driver (at n) e) instances) Id_wmi_driver,
       we_groups = remdups_adj (sort (map snd (filter (\<lambda>(name, g).
         list_ex (\<lambda>n. k_is_dir (po_fs os) (path_join (at n) name) e) instances) known_groups)))\<rparr>))"

definition collect_wmi :: "'e probe_os \<Rightarrow> path \<Rightarrow> ('e world, string, wmi_evidence list) io" where
  "collect_wmi os base = (let directory = rooted base ''sys/bus/wmi/devices'' in
     io_bind (inventory os directory 256 ''WMI'') (\<lambda>names.
     io_bind (fs_query (\<lambda>e. res_map_list (wmi_guid_evidence os directory names e) wmi_authorities)) (\<lambda>r.
     io_bind (io_of r) (\<lambda>found. io_ret (List.map_filter (\<lambda>x. x) found)))))"

definition collect_hwmon_owner :: "'e probe_os \<Rightarrow> path \<Rightarrow> ('e world, 'x, string probe_observation) io" where
  "collect_hwmon_owner os base = io_bind (discover_acer_hwmon (po_fs os) base) (\<lambda>hwmon. case hwmon of
      None \<Rightarrow> io_ret (Pv_absent Id_hwmon_driver Abs_not_exposed)
    | Some p \<Rightarrow> io_bind (fs_query (read_driver_owner os Id_hwmon_driver (path_join p ''device''))) (\<lambda>owner. case owner of
        Pv_absent _ _ \<Rightarrow> io_bind (read_text_observation os Id_hwmon_driver (path_join p ''name'')) (\<lambda>name.
          io_ret (map_text_observation (\<lambda>v. Inr (normalize_driver_token v)) name))
      | _ \<Rightarrow> io_ret owner))"

definition collect_drivers :: "'e probe_os \<Rightarrow> path \<Rightarrow> ('e world, string, driver_evidence) io" where
  "collect_drivers os base = io_bind (io_map_list (collect_module os base) [Mod_acer_wmi, Mod_asense_rgb]) (\<lambda>modules.
     io_bind (collect_wmi os base) (\<lambda>wmi. io_bind (collect_hwmon_owner os base) (\<lambda>owner.
       io_ret \<lparr>dv_modules = modules, dv_wmi = wmi, dv_hwmon_owner = owner\<rparr>)))"

section \<open>The report\<close>

text \<open>What the build and the clock add: \<open>CARGO_PKG_VERSION\<close>, \<open>ASENSE_BUILD_COMMIT\<close> and the elapsed time.\<close>

record probe_build =
  pb_version :: string
  pb_commit :: "string option"
  pb_elapsed_ms :: nat

definition build_commit :: "string option \<Rightarrow> string + string option" where
  "build_commit commit = (case commit of None \<Rightarrow> Inr None
     | Some c \<Rightarrow> if lower_hex_text c 40 then Inr (Some c) else Inl ''ASENSE_BUILD_COMMIT must be lowercase 40-hex when set'')"

definition assemble_report :: "probe_build \<Rightarrow> string option \<Rightarrow> string \<Rightarrow> daemon_context \<Rightarrow> machine_evidence \<Rightarrow> power_evidence
    \<Rightarrow> driver_evidence \<Rightarrow> probe_report" where
  "assemble_report build commit captured daemon machine supplies drivers =
     (case map_daemon_diagnostics (dc_diagnostics daemon) of (profile, fans, platform, lighting, hid) \<Rightarrow>
       \<lparr>rp_schema = PROBE_SCHEMA,
        rp_provenance = \<lparr>pr_report = ''asense-probe'', pr_asense_version = pb_version build, pr_build_commit = commit,
          pr_captured_at_utc = captured, pr_capture_duration_ms = of_nat (min (pb_elapsed_ms build) u64_max), pr_mode = Mode_passive,
          pr_daemon = dc_identity daemon\<rparr>,
        rp_machine = machine, rp_power = supplies, rp_drivers = drivers, rp_profile = profile, rp_fans = fans,
        rp_platform = platform, rp_lighting = lighting, rp_hid = hid, rp_privacy = passive_privacy\<rparr>)"

definition encode_report :: "probe_json \<Rightarrow> probe_report \<Rightarrow> string + string" where
  "encode_report js r = res_bind (validate_report js r) (\<lambda>_.
     res_bind (res_map_err (\<lambda>x. ''cannot encode capability report: '' @ x) (pj_write js r)) (\<lambda>encoded.
       let output = encoded @ [CHR 0x0A] in
       if MAX_REPORT_BYTES < length output then Inl ''capability report exceeds the probe byte bound'' else Inr output))"

definition generate_at_with_context :: "probe_json \<Rightarrow> 'e probe_os \<Rightarrow> probe_build \<Rightarrow> path \<Rightarrow> string \<Rightarrow> daemon_context
    \<Rightarrow> ('e world, string, string) io" where
  "generate_at_with_context js os build base captured daemon = io_bind (collect_machine os base) (\<lambda>machine.
     io_bind (collect_power os base) (\<lambda>supplies. io_bind (collect_drivers os base) (\<lambda>drivers.
     io_bind (io_of (build_commit (pb_commit build))) (\<lambda>commit.
       io_of (encode_report js (assemble_report build commit captured daemon machine supplies drivers))))))"

text \<open>The clock: seconds since the epoch, or none before it; \<open>gmtime_r\<close> fails with a null.\<close>

record broken_time =
  tm_year :: nat
  tm_mon :: nat
  tm_mday :: nat
  tm_hour :: nat
  tm_min :: nat
  tm_sec :: nat

definition padded :: "nat \<Rightarrow> nat \<Rightarrow> string" where
  "padded width n = (let s = show_nat n in replicate (width - length s) (CHR ''0'') @ s)"

definition utc_text :: "broken_time \<Rightarrow> string" where
  "utc_text t = padded 4 (tm_year t + 1900) @ ''-'' @ padded 2 (tm_mon t + 1) @ ''-'' @ padded 2 (tm_mday t) @ ''T''
     @ padded 2 (tm_hour t) @ '':'' @ padded 2 (tm_min t) @ '':'' @ padded 2 (tm_sec t) @ ''Z''"

definition captured_at_utc :: "(nat \<Rightarrow> broken_time option) \<Rightarrow> nat option \<Rightarrow> string + string" where
  "captured_at_utc gmtime now = (case now of
      None \<Rightarrow> Inl ''system clock predates the Unix epoch''
    | Some seconds \<Rightarrow> if 2 ^ 63 - 1 < seconds then Inl ''system timestamp does not fit time_t''
        else (case gmtime seconds of None \<Rightarrow> Inl ''cannot convert system time to UTC'' | Some t \<Rightarrow> Inr (utc_text t)))"

definition generate_at :: "probe_json \<Rightarrow> 'e probe_os \<Rightarrow> probe_build \<Rightarrow> (nat \<Rightarrow> broken_time option) \<Rightarrow> nat option \<Rightarrow> path
    \<Rightarrow> ('e world, string, string) io" where
  "generate_at js os build gmtime now base = io_bind (io_of (captured_at_utc gmtime now)) (\<lambda>captured.
     generate_at_with_context js os build base captured
       \<lparr>dc_identity = Pv_absent Id_control_socket Abs_daemon_unavailable, dc_diagnostics = Diag_unavailable\<rparr>)"

text \<open>
  \<open>generate\<close>: the root is \<open>/\<close> and the context comes from the control service. The socket and the
  files are separate worlds here: the conversation touches no file the collectors read.
\<close>

definition generate :: "probe_json \<Rightarrow> 'e probe_os \<Rightarrow> probe_build \<Rightarrow> (nat \<Rightarrow> broken_time option) \<Rightarrow> nat option \<Rightarrow> daemon_context
    \<Rightarrow> ('e world, string, string) io" where
  "generate js os build gmtime now daemon = io_bind (io_of (captured_at_utc gmtime now)) (\<lambda>captured.
     generate_at_with_context js os build [] captured daemon)"

end
