(* ===== verification/Probe_Safety.thy ===== *)
theory Probe_Safety
  imports Probe_Sections Probe_Collect
begin

text \<open>
  Collecting evidence changes nothing: the collectors of the daemon's passive report and those of the
  probe only read files, but for the HID queries of report A1.
\<close>

section \<open>Reading only\<close>

definition reads_only :: "'e world \<Rightarrow> 'e world \<Rightarrow> bool" where
  "reads_only w w' \<longleftrightarrow> (\<exists>es. wlog w' = wlog w @ es \<and> writes_of es = [] \<and> ioctls_of es = [])"

lemma reads_only_trans: "reads_only a b \<Longrightarrow> reads_only b c \<Longrightarrow> reads_only a c"
  unfolding reads_only_def by (elim exE conjE, rule_tac x = "es @ esa" in exI) simp

lemma reads_only_rel [simp]: "reflp reads_only" "transp reads_only"
  by (simp add: reflp_def reads_only_def) (blast intro: transpI reads_only_trans)

lemma reads_only_queries: "io_keeps reads_only m \<Longrightarrow> io_keeps only_queries m"
  by (fastforce simp: io_keeps_def reads_only_def only_queries_def)

named_theorems reading \<open>computations that only read\<close>

lemma fs_read_reading [reading]: "io_keeps reads_only (fs_read fs p)"
  by (auto simp: io_keeps_def fs_read_def reads_only_def split: prod.splits)

lemma dev_open_reading [reading]: "io_keeps reads_only (dev_open hr p rw)"
  by (auto simp: io_keeps_def dev_open_def reads_only_def split: prod.splits)

lemma fs_read_to_string_reading [reading]: "io_keeps reads_only (fs_read_to_string fs p)"
  unfolding fs_read_to_string_def by (intro io_keeps_intros reading) simp_all

lemma read_trimmed_reading [reading]: "io_keeps reads_only (read_trimmed fs p what)"
  unfolding read_trimmed_def by (intro io_keeps_intros reading) simp_all

lemma parse_value_reading [reading]: "io_keeps reads_only (parse_value fs parse p field)"
  unfolding parse_value_def by (intro io_keeps_intros reading) simp_all

section \<open>Discovery\<close>

lemma read_optional_pwm_reading [reading]: "io_keeps reads_only (read_optional_pwm fs p)"
  unfolding read_optional_pwm_def
  by (intro io_keeps_intros reading) (auto split: sum.split hardware_error.split intro!: io_keeps_intros)

lemma read_watchdog_temperature_reading [reading]: "io_keeps reads_only (read_watchdog_temperature fs p)"
  unfolding read_watchdog_temperature_def by (intro io_keeps_intros reading) simp_all

lemma find_temperature_input_reading [reading]: "io_keeps reads_only (find_temperature_input fs base role is)"
  by (induction "is") (auto simp: Let_def intro!: io_keeps_intros reading split: sum.split)

lemma acer_temperature_path_reading [reading]: "io_keeps reads_only (acer_temperature_path fs base channel)"
  unfolding acer_temperature_path_def Let_def by (auto split: sum.split intro!: io_keeps_intros reading)

lemma manual_watchdog_available_reading [reading]: "io_keeps reads_only (manual_watchdog_available fs base)"
  unfolding manual_watchdog_available_def by (intro io_keeps_all io_keeps_bind io_keeps_is_ok reading) simp_all

lemma discover_acer_hwmon_reading [reading]: "io_keeps reads_only (discover_acer_hwmon fs root)"
  unfolding discover_acer_hwmon_def hwmon_candidate_def Let_def by (auto split: sum.split intro!: io_keeps_intros reading)

lemma discover_platform_reading [reading]: "io_keeps reads_only (discover_platform fs root)"
  unfolding discover_platform_def by (intro io_keeps_intros reading) simp_all

lemma discover_kernel_profile_interface_reading [reading]: "io_keeps reads_only (discover_kernel_profile_interface fs root)"
  unfolding discover_kernel_profile_interface_def kernel_profile_candidate_def Let_def
  by (auto split: sum.split list.split intro!: io_keeps_intros reading)

lemma discover_kernel_fan_interface_reading [reading]: "io_keeps reads_only (discover_kernel_fan_interface fs hwmon)"
  unfolding discover_kernel_fan_interface_def
  by (auto split: option.split sum.split simp del: io_all.simps intro!: io_keeps_intros reading)

lemma discover_gaming_wmi_fan_interface_reading [reading]: "io_keeps reads_only (discover_gaming_wmi_fan_interface fs root hwmon)"
  unfolding discover_gaming_wmi_fan_interface_def
  by (auto split: option.split sum.split simp del: io_all.simps intro!: io_keeps_intros reading)

lemma discover_at_reading [reading]: "io_keeps reads_only (discover_at fs root)"
  unfolding discover_at_def by (auto split: option.split intro!: io_keeps_intros reading)

lemma read_rpm_reading [reading]: "io_keeps reads_only (read_rpm fs hw ch)"
  unfolding read_rpm_def by (auto split: option.split intro!: io_keeps_intros reading)

lemma fan_rpm_channels_reading [reading]: "io_keeps reads_only (fan_rpm_channels fs hw)"
  unfolding fan_rpm_channels_def Let_def by (auto split: option.split simp del: io_filter_map.simps intro!: io_keeps_intros reading)

lemma capabilities_reading [reading]: "io_keeps reads_only (capabilities fs hw)"
  unfolding capabilities_def profile_choices_def current_profile_raw_def
  by (auto split: option.split prod.split intro!: io_keeps_intros reading)

section \<open>The daemon's report\<close>

lemma diag_read_text_reading [reading]: "io_keeps reads_only (diag_read_text fs hr p)"
  unfolding diag_read_text_def by (auto split: sum.split intro!: io_keeps_intros reading)

lemma read_number_reading [reading]: "io_keeps reads_only (read_number parse fs hr p)"
  unfolding read_number_def by (intro io_keeps_intros reading) simp_all

lemma read_value_reading [reading]: "io_keeps reads_only (read_value decode fs hr p)"
  unfolding read_value_def by (intro io_keeps_intros reading) simp_all

lemma read_profile_current_reading [reading]: "io_keeps reads_only (read_profile_current fs hr p source encoding turbo)"
  unfolding read_profile_current_def by (intro io_keeps_intros reading) simp_all

lemma read_profile_choices_reading [reading]: "io_keeps reads_only (read_profile_choices fs hr p backend turbo)"
  unfolding read_profile_choices_def by (rule reading)

lemma discover_kernel_profile_reading [reading]: "io_keeps reads_only (discover_kernel_profile fs root)"
  unfolding discover_kernel_profile_def diag_kernel_candidate_def Let_def
  by (auto split: sum.split list.split intro!: io_keeps_intros reading)

lemma collect_profile_reading [reading]: "io_keeps reads_only (collect_profile fs hr root)"
  unfolding collect_profile_def hardware_turbo_def collect_gaming_profile_def gaming_profile_current_def
  by (auto split: sum.split option.split prod.split intro!: io_keeps_intros reading)

lemma fan_channel_reading [reading]: "io_keeps reads_only (fan_channel fs hr c source u sp mp)"
  unfolding fan_channel_def diag_read_fan_mode_def by (intro io_keeps_intros reading) simp_all

lemma collect_fan_channels_reading [reading]: "io_keeps reads_only (collect_fan_channels fs hr v)"
proof -
  have k: "io_keeps reads_only (collect_kernel_fan_channels fs hr base)" for base
    unfolding collect_kernel_fan_channels_def by (intro io_keeps_map_list reading) simp_all
  have g: "io_keeps reads_only (collect_gaming_fan_channels fs hr base names)" for base names
    unfolding collect_gaming_fan_channels_def Let_def by (intro io_keeps_map_list) (auto intro: reading)
  show ?thesis
    unfolding collect_fan_channels_def by (auto split: option.split bool.split intro: k g io_keeps_ret)
qed

lemma read_label_reading [reading]: "io_keeps reads_only (read_label fs hr base pre c)"
  unfolding read_label_def by (intro io_keeps_intros reading) simp_all

lemma collect_fans_reading [reading]: "io_keeps reads_only (collect_fans fs hr root)"
  unfolding collect_fans_def collect_fan_control_def collect_rpm_def collect_temperatures_def rpm_channel_def temperature_channel_def Let_def
  by (auto split: sum.split option.split simp del: io_filter_map.simps intro!: io_keeps_intros reading)

lemma collect_platform_reading [reading]: "io_keeps reads_only (collect_platform fs hr root)"
proof -
  have "io_keeps reads_only (platform_battery_field fs hr n f m i p r)" for n f m i p r
    unfolding platform_battery_field_def by (auto split: observation.split option.split intro!: io_keeps_intros reading)
  moreover have "io_keeps reads_only (platform_field fs hr n s rp np d d')" for n s rp np d d'
    unfolding platform_field_def by (auto split: option.split prod.split intro!: io_keeps_intros reading)
  ultimately have fields: "io_keeps reads_only (io_map_list (\<lambda>m. m) (platform_fields fs hr v raw))" for v raw
    unfolding platform_fields_def Let_def by (auto intro!: io_keeps_intros)
  show ?thesis
    unfolding collect_platform_def by (auto split: option.split intro!: io_keeps_bind io_keeps_ret fs_query_keeps fields reading)
qed

lemma collect_lighting_reading [reading]: "io_keeps reads_only (collect_lighting fs hr root)"
  unfolding collect_lighting_def collect_light_at_def
  by (auto split: option.split observation.split simp del: io_map_list.simps intro!: io_keeps_intros reading)

lemma diagnostics_queries: "io_keeps only_queries (collect_diagnostics sha fs hr root)"
  unfolding collect_diagnostics_def
  by (intro io_keeps_bind io_keeps_ret hid_collection_queries reads_only_queries [OF collect_profile_reading]
      reads_only_queries [OF collect_fans_reading] reads_only_queries [OF collect_platform_reading]
      reads_only_queries [OF collect_lighting_reading]) simp_all

section \<open>The probe\<close>

lemma read_bounded_bytes_reading [reading]: "io_keeps reads_only (read_bounded_bytes os p n)"
  unfolding read_bounded_bytes_def Let_def by (auto split: sum.split intro!: io_keeps_intros reading)

lemma read_text_observation_reading [reading]: "io_keeps reads_only (read_text_observation os source p)"
  unfolding read_text_observation_def by (intro io_keeps_intros reading) simp_all

lemma collect_machine_reading [reading]: "io_keeps reads_only (collect_machine os base)"
  unfolding collect_machine_def collect_uname_def collect_os_release_def collect_dmi_def by (intro io_keeps_intros reading) simp_all

lemma inventory_reading [reading]: "io_keeps reads_only (inventory os p n what)"
  unfolding inventory_def by (auto split: sum.split intro!: io_keeps_intros)

lemma power_supply_reading [reading]: "io_keeps reads_only (power_supply os p kind found)"
  unfolding power_supply_def read_bool_observation_def read_battery_status_def read_capacity_def
  by (auto split: option.split intro!: io_keeps_intros reading)

lemma power_supplies_reading [reading]: "io_keeps reads_only (power_supplies os directory names found)"
  by (induction os directory names found rule: power_supplies.induct)
    (auto simp: Let_def split: probe_observation.split intro!: io_keeps_intros reading)

lemma collect_power_reading [reading]: "io_keeps reads_only (collect_power os base)"
  unfolding collect_power_def Let_def by (intro io_keeps_intros reading) simp_all

lemma collect_module_reading [reading]: "io_keeps reads_only (collect_module os base name)"
  unfolding collect_module_def Let_def by (intro io_keeps_intros reading) simp_all

lemma collect_wmi_reading [reading]: "io_keeps reads_only (collect_wmi os base)"
  unfolding collect_wmi_def Let_def by (intro io_keeps_intros reading) simp_all

lemma collect_hwmon_owner_reading [reading]: "io_keeps reads_only (collect_hwmon_owner os base)"
  unfolding collect_hwmon_owner_def by (auto split: option.split probe_observation.split intro!: io_keeps_intros reading)

lemma collect_drivers_reading [reading]: "io_keeps reads_only (collect_drivers os base)"
  unfolding collect_drivers_def by (intro io_keeps_intros reading) simp_all

text \<open>C38: The evidence is collected passively. Whatever the machine answers, collecting the daemon's passive report
  writes no file and sends a HID device nothing but queries of report A1 with a buffer of 2 to 64 bytes and the request
  number that encodes exactly that length; and printing the probe report writes no file and sends no device anything.\<close>

theorem evidence_passive:
  "(\<exists>es. wlog (snd (collect_diagnostics sha fs hr root w :: ('x + passive_diagnostics) \<times> 'e world)) = wlog w @ es
      \<and> writes_of es = [] \<and> list_all a1_query (ioctls_of es))
    \<and> (\<exists>es. wlog (snd (generate_at_with_context js os build base captured daemon w)) = wlog w @ es \<and> writes_of es = [] \<and> ioctls_of es = [])"
proof -
  have "io_keeps reads_only (generate_at_with_context js os build base captured daemon)"
    unfolding generate_at_with_context_def by (intro io_keeps_intros reading) simp_all
  moreover have "io_keeps only_queries (collect_diagnostics sha fs hr root :: ('e, 'x, passive_diagnostics) collector)"
    by (rule diagnostics_queries)
  ultimately show ?thesis by (simp add: io_keeps_def reads_only_def only_queries_def)
qed

section \<open>What the collectors leave to the validator\<close>

definition text_clean :: "string \<Rightarrow> bool" where
  "text_clean v \<longleftrightarrow> v \<noteq> [] \<and> length v \<le> MAX_TEXT_BYTES \<and> \<not> has_control v"

definition relative_text :: "string probe_observation \<Rightarrow> bool" where
  "relative_text ob \<longleftrightarrow> (case ob of Pv_value _ v \<Rightarrow> \<not> prefix ''/'' v | _ \<Rightarrow> True)"

definition probe_token :: "string probe_observation \<Rightarrow> bool" where
  "probe_token ob \<longleftrightarrow> (case ob of Pv_value _ v \<Rightarrow> v \<noteq> [] \<and> list_all probe_token_char v | _ \<Rightarrow> True)"

lemma kernel_error_ok [simp]: "probe_validate_error (io_probe_error stage x) = Inr ()"
  by (simp add: io_probe_error_def split: option.split)

lemma undecodable_ok [simp]: "pob_ok P (undecodable source)"
  by (simp add: undecodable_def)

lemma decoded_ok [simp]: "pob_ok text_clean (decode_observation source bytes)"
  by (simp add: decode_observation_def Let_def text_clean_def)

lemma yields_after_try: "(\<And>r. yields E P (f r)) \<Longrightarrow> yields E P (io_try m f)"
  by (simp add: yields_def io_try_apply split: prod.split)

lemma bounded_errors: "yields (\<lambda>x. probe_validate_error x = Inr ()) (\<lambda>_. True) (read_bounded_bytes os p n)"
  unfolding read_bounded_bytes_def Let_def
  by (auto intro!: yields_after_try yields_ret yields_err yields_bind [OF yields_map_err] split: sum.split)

lemma text_observations: "gives (pob_ok text_clean) (read_text_observation os source p)"
  unfolding read_text_observation_def
  by (rule gives_try_yields [OF bounded_errors]) (auto intro!: gives_ret split: option.split)

lemma mapped_text_ok: "pob_ok P ob \<Longrightarrow> (\<And>v. P v \<Longrightarrow> case convert v of Inr a \<Rightarrow> Q a | Inl x \<Rightarrow> probe_validate_error x = Inr ())
    \<Longrightarrow> pob_ok Q (map_text_observation convert ob)"
  by (cases ob) (fastforce simp: map_text_observation_def split: sum.splits)+

lemma cleaned_text_valid: "pob_ok text_clean ob \<Longrightarrow>
    probe_validate_observation ob (\<lambda>v. probe_validate_text v MAX_TEXT_BYTES label) = Inr () \<longleftrightarrow> relative_text ob"
  by (cases ob) (auto simp: text_clean_def relative_text_def probe_validate_text_def)

definition machine_clean :: "machine_evidence \<Rightarrow> bool" where
  "machine_clean m \<longleftrightarrow> list_all (\<lambda>(label, ob). pob_ok text_clean ob) (machine_texts m)"

lemma os_release_clean: "pob_ok text_clean (os_release_value content key)"
  by (auto simp: os_release_value_def text_clean_def decode_os_release_value_def Let_def split: option.split sum.split if_splits prod.splits)

lemma clean_machine: "gives machine_clean (collect_machine os base)"
proof -
  have kernel: "gives (\<lambda>k. pob_ok text_clean (kr_release k) \<and> pob_ok text_clean (kr_architecture k)) (collect_uname os)"
    unfolding collect_uname_def by (rule gives_bind [OF gives_query], rule TrueI) (auto intro!: gives_ret split: sum.split)
  have release: "gives (\<lambda>r. pob_ok text_clean (os_id r) \<and> pob_ok text_clean (os_version_id r)) (collect_os_release os base)"
    unfolding collect_os_release_def
    by (rule gives_try_yields [OF bounded_errors]) (auto intro!: gives_ret simp: Let_def os_release_clean split: option.split)
  have dmi: "gives (\<lambda>d. pob_ok text_clean (dmi_vendor d) \<and> pob_ok text_clean (dmi_product d) \<and> pob_ok text_clean (dmi_board d)
      \<and> pob_ok text_clean (dmi_bios d)) (collect_dmi os p)" for p
    unfolding collect_dmi_def
    by (rule gives_bind [OF text_observations], rule gives_bind [OF text_observations], rule gives_bind [OF text_observations],
        rule gives_bind [OF text_observations], rule gives_ret) simp
  show ?thesis
    unfolding collect_machine_def
    by (rule gives_bind [OF kernel], rule gives_bind [OF release], rule gives_bind [OF dmi], rule gives_ret)
      (simp add: machine_clean_def machine_texts_def)
qed

lemma texts_accepted_iff: "list_all (\<lambda>(label, ob). pob_ok text_clean ob) xs \<Longrightarrow>
    list_all (\<lambda>x. (\<lambda>(label, ob). probe_validate_observation ob (\<lambda>v. probe_validate_text v MAX_TEXT_BYTES label)) x = Inr ()) xs
      \<longleftrightarrow> list_all (\<lambda>(label, ob). relative_text ob) xs"
  by (induction xs) (auto simp: cleaned_text_valid simp del: probe_observation_ok)

lemma machine_accepted_iff: "machine_clean m \<Longrightarrow> validate_machine m = Inr () \<longleftrightarrow> list_all (\<lambda>(label, ob). relative_text ob) (machine_texts m)"
  unfolding validate_machine_def res_all_ok machine_clean_def list_all_iff [symmetric] by (rule texts_accepted_iff)

section \<open>Power\<close>

lemma enumerate_snoc: "List.enumerate n (xs @ [x]) = List.enumerate n xs @ [(n + length xs, x)]"
  by (simp add: enumerate_append_eq)

definition power_clean :: "power_evidence \<Rightarrow> bool" where
  "power_clean p \<longleftrightarrow> validate_power p = Inr ()"

lemma bool_text: "gives (pob_ok (\<lambda>_. True)) (read_bool_observation os source p)"
  unfolding read_bool_observation_def
  by (rule gives_bind [OF text_observations], rule gives_ret, erule mapped_text_ok) (simp add: bool_of_text_def)

lemma status_text: "gives (pob_ok (\<lambda>_. True)) (read_battery_status os p)"
  unfolding read_battery_status_def
  by (rule gives_bind [OF text_observations], rule gives_ret, erule mapped_text_ok) (simp add: status_of_text_def)

lemma capacity_text: "gives (pob_ok (\<lambda>v. v \<le> 100)) (read_capacity os p)"
  unfolding read_capacity_def
  by (rule gives_bind [OF text_observations], rule gives_ret, erule mapped_text_ok) (simp add: capacity_of_text_def split: option.split)

lemma clean_supply: "power_clean found \<Longrightarrow> yields (\<lambda>_. True) power_clean (power_supply os p kind found)"
  unfolding power_supply_def
  by (auto intro!: yields_ret yields_bind [OF gives_yields [OF bool_text]] yields_bind [OF gives_yields [OF status_text]]
      yields_bind [OF gives_yields [OF capacity_text]]
      simp: power_clean_def validate_power_def res_all_ok enumerate_snoc validate_supply_def validate_battery_def split: option.split)

lemma clean_supplies: "power_clean found \<Longrightarrow> yields (\<lambda>_. True) power_clean (power_supplies os directory ns found)"
proof (induction os directory ns found rule: power_supplies.induct)
  case (2 os directory n ns found)
  then show ?case
    unfolding power_supplies.simps Let_def
    by (intro yields_bind [OF gives_yields [OF text_observations]])
      (auto split: probe_observation.split intro!: yields_err yields_bind [OF clean_supply])
qed (simp add: yields_ret)

lemma clean_power: "yields (\<lambda>_. True) (\<lambda>p. validate_power p = Inr ()) (collect_power os base)"
proof -
  have "power_clean \<lparr>pw_ac = [], pw_batteries = []\<rparr>" by (simp add: power_clean_def validate_power_def res_all_ok)
  then show ?thesis
    unfolding collect_power_def Let_def by (intro yields_bind [OF yields_any] clean_supplies [unfolded power_clean_def]) (simp_all add: power_clean_def)
qed

section \<open>Drivers\<close>

lemma probe_token_char_graphic: "probe_token_char c \<Longrightarrow> graphic c \<and> c \<noteq> CHR ''/''"
  using token_char_graphic [of c] by (auto simp: probe_token_char_def token_char_def is_alnum_def is_digit_def is_lower_def is_upper_def graphic_def byte_def)

lemma probe_token_valid: "probe_validate_token v MAX_TEXT_BYTES label = Inr () \<longleftrightarrow> v \<noteq> [] \<and> length v \<le> MAX_TEXT_BYTES \<and> list_all probe_token_char v"
proof -
  have "\<not> prefix ''/'' v" "\<not> has_control v" if "list_all probe_token_char v"
  proof -
    show "\<not> prefix ''/'' v" using that by (auto simp: prefix_def dest: probe_token_char_graphic)
    show "\<not> has_control v" using that by (intro graphic_no_control) (auto simp: list_all_iff dest: probe_token_char_graphic)
  qed
  then show ?thesis by (auto simp: probe_validate_token_def probe_validate_text_def)
qed

definition bounded_text :: "string \<Rightarrow> bool" where
  "bounded_text v \<longleftrightarrow> length v \<le> MAX_TEXT_BYTES"

lemma bounded_token_valid: "pob_ok bounded_text ob \<Longrightarrow>
    probe_validate_observation ob (\<lambda>v. probe_validate_token v MAX_TEXT_BYTES label) = Inr () \<longleftrightarrow> probe_token ob"
  by (cases ob) (auto simp: bounded_text_def probe_token_def probe_token_valid)

lemma bounded_clean: "pob_ok text_clean ob \<Longrightarrow> pob_ok bounded_text ob"
  by (cases ob) (simp_all add: text_clean_def bounded_text_def)

lemma bounded_owner: "pob_ok bounded_text (read_driver_owner os source p e)"
proof -
  have "pob_ok bounded_text (owner_of_link source target)" for target
    by (auto simp: owner_of_link_def bounded_text_def Let_def split: option.split)
  then have "pob_ok bounded_text (link_owner source rs)" for rs
    by (induction source rs rule: link_owner.induct) simp_all
  then show ?thesis by (simp add: read_driver_owner_def)
qed

lemma bounded_combined: "\<forall>ob \<in> set obs. pob_ok bounded_text ob \<Longrightarrow> \<forall>owner. v = Some owner \<longrightarrow> bounded_text owner
    \<Longrightarrow> pob_ok bounded_text (combine_from source v obs)"
  by (induction source v obs rule: combine_from.induct) (auto split: option.split)

lemma bounded_owners: "\<forall>ob \<in> set obs. pob_ok bounded_text ob \<Longrightarrow> pob_ok bounded_text (combine_owners obs source)"
  by (simp add: combine_owners_def bounded_combined)

definition wmi_clean :: "wmi_evidence \<Rightarrow> bool" where
  "wmi_clean i \<longleftrightarrow> is_guid (we_guid i) \<and> 0 < we_instances i \<and> we_instances i \<le> 32 \<and> pob_ok bounded_text (we_owner i)
     \<and> length (we_groups i) \<le> 7 \<and> sorted_wrt (<) (we_groups i)"

lemma known_guids: "is_guid GAMING_GUID" "is_guid BATTERY_GUID" "is_guid APGE_GUID"
  by code_simp+

lemma authority_guids: "(guid, groups) \<in> set wmi_authorities \<Longrightarrow> is_guid guid \<and> length groups \<le> 7"
  by (auto simp: wmi_authorities_def known_guids)

lemma distinct_chosen: "length (remdups_adj (sort (map f (filter P xs)))) \<le> length xs"
  using le_trans [OF remdups_adj_length [of "sort (map f (filter P xs))"]] length_filter_le [of P xs] by simp

lemma clean_wmi_guid:
  assumes "wmi_guid_evidence os directory names e (guid, groups) = Inr (Some i)" and "is_guid guid" "length groups \<le> 7"
  shows "wmi_clean i"
proof -
  let ?ns = "sort (filter (\<lambda>n. probe_wmi_name_matches n guid) names)"
  from assms(1) have ns: "?ns \<noteq> []" "length ?ns \<le> 32" and fields: "we_guid i = guid" "we_instances i = length ?ns"
    "we_owner i = combine_owners (map (\<lambda>n. read_driver_owner os Id_wmi_driver (path_join directory n) e) ?ns) Id_wmi_driver"
    "we_groups i = remdups_adj (sort (map snd (filter (\<lambda>(name, g).
         list_ex (\<lambda>n. k_is_dir (po_fs os) (path_join (path_join directory n) name) e) ?ns) groups)))"
    unfolding wmi_guid_evidence_def Let_def prod.case MAX_ITEMS_def by (auto simp del: length_sort split: if_split_asm)
  have "length (we_groups i) \<le> 7" unfolding fields by (rule le_trans [OF distinct_chosen assms(3)])
  moreover have "sorted_wrt (<) (we_groups i)" unfolding fields by (rule sorted_remdups) simp
  moreover have "pob_ok bounded_text (we_owner i)" unfolding fields by (rule bounded_owners) (auto simp: bounded_owner)
  moreover have "0 < we_instances i" "we_instances i \<le> 32" unfolding fields using ns by (simp_all only: length_greater_0_conv not_False_eq_True)
  ultimately show ?thesis using assms(2) fields(1) by (simp add: wmi_clean_def)
qed

lemma mapped_all: "res_map_list f xs = Inr ys \<Longrightarrow> length ys = length xs \<and> (\<forall>y \<in> set ys. \<exists>x \<in> set xs. f x = Inr y)"
  by (induction xs arbitrary: ys) (auto split: sum.splits)

lemma kept_some: "set (List.map_filter (\<lambda>x. x) xs) = {y. Some y \<in> set xs}" "length (List.map_filter (\<lambda>x. x) xs) \<le> length xs"
  by (auto simp: map_filter_def image_iff) (metis option.sel)+

lemma clean_wmi: "yields (\<lambda>_. True) (\<lambda>found. length found \<le> 3 \<and> list_all wmi_clean found) (collect_wmi os base)"
proof -
  have "length (List.map_filter (\<lambda>x. x) found) \<le> 3 \<and> list_all wmi_clean (List.map_filter (\<lambda>x. x) found)"
    if "res_map_list (wmi_guid_evidence os directory names e) wmi_authorities = Inr found" for directory names e found
  proof
    from mapped_all [OF that] have "length found = 3" and each: "\<And>y. y \<in> set found \<Longrightarrow> \<exists>x \<in> set wmi_authorities. wmi_guid_evidence os directory names e x = Inr y"
      by (simp_all add: wmi_authorities_def)
    then show "length (List.map_filter (\<lambda>x. x) found) \<le> 3" using kept_some(2) [of found] by simp
    show "list_all wmi_clean (List.map_filter (\<lambda>x. x) found)"
      unfolding list_all_iff kept_some(1) using each authority_guids by (fastforce intro: clean_wmi_guid)
  qed
  note found = this
  have query: "yields (\<lambda>_. True) (\<lambda>r. \<exists>e. r = res_map_list (wmi_guid_evidence os directory names e) wmi_authorities)
      (fs_query (\<lambda>e. res_map_list (wmi_guid_evidence os directory names e) wmi_authorities) :: ('e world, string, _) io)" for os :: "'e probe_os" and directory names
    by (rule gives_yields [OF gives_query]) auto
  show ?thesis
    unfolding collect_wmi_def Let_def
    by (rule yields_bind [OF yields_any], rule TrueI, rule yields_bind [OF query],
        rule yields_bind [OF yields_of [where P = "\<lambda>a. \<exists>directory names e. res_map_list (wmi_guid_evidence os directory names e) wmi_authorities = Inr a"]])
      (auto intro!: yields_ret dest!: found, metis)
qed

definition module_clean :: "probe_module \<Rightarrow> module_evidence \<Rightarrow> bool" where
  "module_clean name m \<longleftrightarrow> mod_name m = name \<and> pob_ok (\<lambda>_. True) (mod_loaded m) \<and> pob_ok bounded_text (mod_version m)"

lemma clean_module: "gives (module_clean name) (collect_module os base name)"
proof -
  have loaded: "pob_ok (\<lambda>_. True) (module_loaded r)" for r by (simp add: module_loaded_def split: sum.split)
  have version: "gives (pob_ok bounded_text) (if b then read_text_observation os source p else io_ret (Pv_absent source' r))" for b source p source' r
    by (auto intro!: gives_ret gives_mono [OF text_observations] simp: bounded_clean)
  show ?thesis
    unfolding collect_module_def Let_def
    by (rule gives_bind [OF gives_query], rule TrueI, rule gives_bind [OF version], rule gives_ret) (simp add: loaded module_clean_def)
qed

lemma drop_ws_shorter: "length (drop_ws f v) \<le> length v"
  by (induction f v rule: drop_ws.induct) (subst drop_ws.simps, auto)

lemma trimmed_shorter: "length (str_trim v) \<le> length v"
  using drop_ws_shorter [of ws_len v] drop_ws_shorter [of ws_len_rev "rev (drop_ws ws_len v)"]
  by (simp add: str_trim_def trim_start_def trim_end_def)

lemma clean_hwmon_owner: "gives (pob_ok bounded_text) (collect_hwmon_owner os base)"
proof -
  have owner: "gives (pob_ok bounded_text) (fs_query (read_driver_owner os source p))" for source p
    by (rule gives_query) (simp add: bounded_owner)
  have name: "gives (pob_ok bounded_text) (io_bind (read_text_observation os source p) (\<lambda>name. io_ret (map_text_observation (\<lambda>v. Inr (normalize_driver_token v)) name)))" for source p
    by (rule gives_bind [OF text_observations], rule gives_ret, erule mapped_text_ok)
      (simp add: text_clean_def bounded_text_def normalize_driver_token_def replace_char_def ascii_lower_def le_trans [OF trimmed_shorter])
  show ?thesis
    unfolding collect_hwmon_owner_def
    by (rule gives_any_bind [OF gives_mono [OF gives_hwmon]]) (auto intro!: gives_ret gives_bind [OF owner] name split: option.split probe_observation.split)
qed

definition drivers_clean :: "driver_evidence \<Rightarrow> bool" where
  "drivers_clean d \<longleftrightarrow> list_all2 module_clean [Mod_acer_wmi, Mod_asense_rgb] (dv_modules d) \<and> length (dv_wmi d) \<le> 3
     \<and> list_all wmi_clean (dv_wmi d) \<and> pob_ok bounded_text (dv_hwmon_owner d)"

lemma clean_drivers: "yields (\<lambda>_. True) drivers_clean (collect_drivers os base)"
  unfolding collect_drivers_def
  by (rule yields_bind [OF gives_yields [OF gives_map_list [OF clean_module]]], rule yields_bind [OF clean_wmi],
      rule yields_bind [OF gives_yields [OF clean_hwmon_owner]], rule yields_ret) (simp add: drivers_clean_def)

lemma loaded_valid: "pob_ok (\<lambda>_. True) ob \<Longrightarrow> probe_validate_observation ob any_value = Inr ()"
  by simp

lemma drivers_accepted_iff: "drivers_clean d \<Longrightarrow> validate_drivers d = Inr () \<longleftrightarrow>
    list_all (\<lambda>m. probe_token (mod_version m)) (dv_modules d) \<and> list_all (\<lambda>i. probe_token (we_owner i)) (dv_wmi d) \<and> probe_token (dv_hwmon_owner d)"
  unfolding drivers_clean_def
  by (auto simp: loaded_valid validate_drivers_def res_all_ok list_all_iff validate_module_def validate_wmi_def wmi_clean_def module_clean_def
      list_all2_Cons1 bounded_token_valid simp del: probe_observation_ok)

section \<open>The whole report\<close>

lemma commit_valid: "build_commit c = Inr commit \<Longrightarrow> validate_commit commit = Inr ()"
  by (auto simp: build_commit_def validate_commit_def split: option.splits if_splits)

lemma report_size_ok: "validate_report_size js r = Inr () \<longleftrightarrow> (\<exists>s. pj_write js r = Inr s \<and> length s < MAX_REPORT_BYTES)"
  by (cases "pj_write js r") (simp_all add: validate_report_size_def res_map_err_def res_bind_def)

lemma encoded_ok: "is_ok (encode_report js r) \<longleftrightarrow> validate_report js r = Inr ()"
proof (cases "validate_report js r")
  case (Inr u)
  then have "validate_report_size js r = Inr ()" by (simp add: validate_report_def)
  then obtain s where "pj_write js r = Inr s" "length s < MAX_REPORT_BYTES" using report_size_ok by blast
  with Inr show ?thesis by (simp add: encode_report_def res_bind_def res_map_err_def is_ok_def)
qed (simp add: encode_report_def is_ok_def res_bind_def)

text \<open>C40: Given what the collectors returned, the probe prints its report exactly when no text of the machine begins with a
  slash, the module versions and the owners of the drivers are nonempty tokens, the daemon's sections are accepted, the
  version, the time and the daemon's identity are well formed, and the JSON text fits. Nothing else that the machine
  exposes (power supplies, inventories, failed readings) can lose the report; but one odd text loses it as a whole.\<close>

theorem probe_printed_iff:
  assumes "collect_machine os base w = (Inr m :: string + machine_evidence, w1)" and "collect_power os base w1 = (Inr p, w2)" and "collect_drivers os base w2 = (Inr d, w3)"
    and "build_commit (pb_commit build) = Inr commit"
  shows "is_ok (fst (generate_at_with_context js os build base captured daemon w)) \<longleftrightarrow>
      list_all (\<lambda>(label, ob). relative_text ob) (machine_texts m)
    \<and> list_all (\<lambda>m. probe_token (mod_version m)) (dv_modules d) \<and> list_all (\<lambda>i. probe_token (we_owner i)) (dv_wmi d) \<and> probe_token (dv_hwmon_owner d)
    \<and> sections_accepted (map_daemon_diagnostics (dc_diagnostics daemon))
    \<and> probe_validate_text (pb_version build) MAX_TEXT_BYTES ''ASense version'' = Inr () \<and> validate_timestamp captured = Inr ()
    \<and> probe_validate_observation (dc_identity daemon) validate_daemon = Inr ()
    \<and> (\<exists>s. pj_write js (assemble_report build commit captured daemon m p d) = Inr s \<and> length s < MAX_REPORT_BYTES)"
proof -
  have m: "machine_clean m" by (rule gives_result [OF clean_machine assms(1)])
  have p: "validate_power p = Inr ()" by (rule yields_result [OF clean_power assms(2)])
  have d: "drivers_clean d" by (rule yields_result [OF clean_drivers assms(3)])
  have "is_ok (fst (generate_at_with_context js os build base captured daemon w)) \<longleftrightarrow> validate_report js (assemble_report build commit captured daemon m p d) = Inr ()"
    by (simp add: generate_at_with_context_def io_simps assms encoded_ok)
  also have "\<dots> \<longleftrightarrow> validate_machine m = Inr () \<and> validate_drivers d = Inr () \<and> sections_accepted (map_daemon_diagnostics (dc_diagnostics daemon))
    \<and> probe_validate_text (pb_version build) MAX_TEXT_BYTES ''ASense version'' = Inr () \<and> validate_timestamp captured = Inr ()
    \<and> probe_validate_observation (dc_identity daemon) validate_daemon = Inr ()
    \<and> (\<exists>s. pj_write js (assemble_report build commit captured daemon m p d) = Inr s \<and> length s < MAX_REPORT_BYTES)"
    using p commit_valid [OF assms(4)]
    by (auto simp: validate_report_def assemble_report_def validate_provenance_def report_size_ok sections_accepted_def passive_privacy_ok
        PROBE_SCHEMA_def split: prod.splits simp del: probe_observation_ok)
  finally show ?thesis by (simp add: machine_accepted_iff [OF m] drivers_accepted_iff [OF d] del: probe_observation_ok)
qed

text \<open>A machine with a kernel and nothing else.\<close>

definition bare_os :: "file_tree probe_os" where
  "bare_os = \<lparr>po_fs = tree_sysfs, po_hid = bench_hid, po_entries = (\<lambda>p e. Inl (Os_error ENOENT)), po_metadata = (\<lambda>p e. Inl (Os_error ENOENT)),
     po_uname = (\<lambda>e. Inr (''6.12'', ''x86_64''))\<rparr>"

definition bare_build :: probe_build where
  "bare_build = \<lparr>pb_version = ''1.0'', pb_commit = None, pb_elapsed_ms = 7\<rparr>"

definition empty_json :: probe_json where
  "empty_json = \<lparr>pj_write = (\<lambda>_. Inr ''{}''), pj_read = (\<lambda>_. Inl ''unread'')\<rparr>"

lemma bare_texts: "decode_observation Id_uname ''6.12'' = Pv_value Id_uname ''6.12''" "decode_observation Id_uname ''x86_64'' = Pv_value Id_uname ''x86_64''"
  "probe_validate_text ''1.0'' MAX_TEXT_BYTES ''ASense version'' = Inr ()" "validate_timestamp ''2026-01-02T03:04:05Z'' = Inr ()"
  by code_simp+

lemma bare_reads: "read_bounded_bytes bare_os p n \<lparr>wenv = [], wlog = es\<rparr>
    = (Inl (io_probe_error Es_read (Os_error ENOENT)), \<lparr>wenv = [], wlog = es @ [Fs_read p (Inl (Os_error ENOENT))]\<rparr>)"
  by (simp add: read_bounded_bytes_def bare_os_def dev_open_def bench_hid_def fs_read_def tree_sysfs_def io_simps io_map_err_def res_map_err_def)

lemma bare_observations: "read_text_observation bare_os source p \<lparr>wenv = [], wlog = es\<rparr>
    = (Inr (Pv_error source (io_probe_error Es_read (Os_error ENOENT))), \<lparr>wenv = [], wlog = es @ [Fs_read p (Inl (Os_error ENOENT))]\<rparr>)"
  by (simp add: read_text_observation_def io_simps bare_reads)

lemma bare_machine: "\<exists>m es'. collect_machine bare_os [] \<lparr>wenv = [], wlog = es\<rparr> = (Inr m :: string + machine_evidence, \<lparr>wenv = [], wlog = es'\<rparr>)
    \<and> list_all (\<lambda>(label, ob). relative_text ob) (machine_texts m)"
proof -
  have uname: "po_uname bare_os e = Inr (''6.12'', ''x86_64'')" for e by (simp add: bare_os_def)
  show ?thesis
    by (simp add: collect_machine_def collect_uname_def collect_os_release_def collect_dmi_def io_simps fs_query_def uname bare_reads bare_observations
        bare_texts machine_texts_def relative_text_def Let_def)
qed

lemma bare_power: "\<exists>p es'. collect_power bare_os [] \<lparr>wenv = [], wlog = es\<rparr> = (Inr p, \<lparr>wenv = [], wlog = es'\<rparr>)"
  by (simp add: collect_power_def inventory_def sorted_entries_bounded_def bare_os_def io_simps fs_query_def Let_def ENOENT_def io_error_kind_def res_bind_def)

lemma bare_drivers: "\<exists>d w'. collect_drivers bare_os [] \<lparr>wenv = [], wlog = es\<rparr> = (Inr d, w')
    \<and> list_all (\<lambda>m. probe_token (mod_version m)) (dv_modules d) \<and> dv_wmi d = [] \<and> probe_token (dv_hwmon_owner d)"
proof -
  have guids: "res_map_list (wmi_guid_evidence os directory [] e) wmi_authorities = Inr [None, None, None]" for os :: "file_tree probe_os" and directory e
    by (simp add: wmi_authorities_def wmi_guid_evidence_def)
  show ?thesis
    by (simp add: collect_drivers_def collect_module_def collect_wmi_def collect_hwmon_owner_def discover_acer_hwmon_def inventory_def
        sorted_entries_bounded_def module_loaded_def bare_os_def tree_sysfs_def io_simps fs_query_def Let_def ENOENT_def guids probe_token_def
        io_error_kind_def res_bind_def map_filter_simps)
qed

theorem probe_printed_iff_witness:
  "is_ok (fst (generate_at_with_context empty_json bare_os bare_build [] ''2026-01-02T03:04:05Z''
     \<lparr>dc_identity = Pv_absent Id_control_socket Abs_daemon_unavailable, dc_diagnostics = Diag_unavailable\<rparr> \<lparr>wenv = [], wlog = []\<rparr>))"
proof -
  obtain m es where m: "collect_machine bare_os [] \<lparr>wenv = [], wlog = []\<rparr> = (Inr m :: string + machine_evidence, \<lparr>wenv = [], wlog = es\<rparr>)"
    and texts: "list_all (\<lambda>(label, ob). relative_text ob) (machine_texts m)"
    using bare_machine by blast
  obtain p es' where p: "collect_power bare_os [] \<lparr>wenv = [], wlog = es\<rparr> = (Inr p, \<lparr>wenv = [], wlog = es'\<rparr>)" using bare_power by blast
  obtain d w3 where d: "collect_drivers bare_os [] \<lparr>wenv = [], wlog = es'\<rparr> = (Inr d, w3)"
    and tokens: "list_all (\<lambda>m. probe_token (mod_version m)) (dv_modules d)" "dv_wmi d = []" "probe_token (dv_hwmon_owner d)"
    using bare_drivers by blast
  have "build_commit (pb_commit bare_build) = Inr None" by (simp add: build_commit_def bare_build_def)
  from probe_printed_iff [OF m p d this] texts tokens absent_sections bare_texts(3,4) show ?thesis
    by (simp add: bare_build_def empty_json_def MAX_REPORT_BYTES_def)
qed

end
