(* ===== verification/Spec2Isabelle.thy ===== *)
theory Spec2Isabelle
  imports Tuning_Safety Nvidia_Escape Platform_Delivery Lighting_Safety Wire_Codecs Memory_Report Daemon_Stale
    Diagnostics_Safety Telemetry_Samples Gui_Safety App_Resize App_Safety App_Lighting App_Feed Probe_Safety
begin

text \<open>
  Verification development of ASense, a control centre for Acer laptops written in Rust.

  \<^bold>\<open>The program.\<close> A privileged daemon (\<open>src/src/daemon.rs\<close>) drives the firmware through sysfs files,
  the NVIDIA library and hidraw; a desktop application (\<open>src/src/app.rs\<close>) samples telemetry itself and sends
  the daemon commands, one text line each, through the client of \<open>src/src/control.rs\<close>. The daemon runs one
  thread per client; a client that sets the fans leases them, and its disconnection restores automatic
  control. The daemon's state is behind one mutex and, between processes, behind the lock file of
  \<open>mutation_lock.rs\<close>.

  \<^bold>\<open>How code corresponds to definitions.\<close> A struct is a record, an enum a datatype, an unsigned integer a
  word of its width (or a natural number whose saturation is written out), a \<open>Result\<close> a sum with the error on
  the left. A computation that touches the machine is a function from the world to a result and the new
  world, composed by \<open>io_bind\<close> (the question mark operator) and \<open>io_try\<close> (an inspected result), both in
  \<open>Asense_Prelude\<close>. Text is a list of UTF-8 bytes with the operations of \<open>str\<close> in \<open>Rust_Text\<close>. Definitions
  keep the names of the functions they translate; a name that is taken has a prefix for its component
  (\<open>client_\<close>, \<open>gui_\<close>, \<open>diag_\<close>) and record fields have a prefix of two or three letters.

  \<^bold>\<open>What is a parameter.\<close> Code that is not in the repository is an argument of the definitions that use it:
  \<^item> the kernel's files: the record \<open>sysfs\<close> of functions on an environment, \<open>Sysfs\<close>. Every read may answer
    anything and may change the environment. The locales \<open>attribute_store\<close> and \<open>file_store\<close> state what an
    attribute that keeps what is written promises; the tree of files \<open>tree_sysfs\<close> interprets both;
  \<^item> the NVIDIA library: the record \<open>nvml\<close> in \<open>Nvidia\<close>; its registers are the locale \<open>nvml_registers\<close>;
  \<^item> hidraw (\<open>hid\<close>), the lock file and the clock (\<open>lock_os\<close>), the abstract socket, signals and the clock of the
    window lease (\<open>gui_os\<close>), the connected stream of a client (\<open>link\<close>), opening it and the texts of errors
    (\<open>desk\<close>), the size and scale of the window;
  \<^item> \<open>serde_json\<close> as a pair of functions and SHA-256 as a function; no property needs more of them than the
    hypotheses it names.

  \<^bold>\<open>The parts.\<close>
  \<^item> \<open>Asense_Prelude\<close>, \<open>Rust_Text\<close>, \<open>Line_Io\<close>: results and computations, text and numbers, lines of a stream;
    the collections \<open>io_simps\<close>, \<open>res_simps\<close>, \<open>roundtrip\<close>, \<open>number_eval\<close> used throughout.
  \<^item> \<open>Hardware\<close> (\<open>hardware.rs\<close>): discovery, profiles, and the fan transaction with readback and recovery.
    \<open>Fan_Safety\<close> shows, for every kernel, that an applied setting was read back, that the writes are a prefix of
    the canonical order followed by the recovery the error names, and that an error states the mode last
    confirmed; \<open>Fan_Liveness\<close>, that a Manual request in range succeeds on files that keep what is written, under
    either backend.
  \<^item> \<open>Nvidia\<close> (\<open>nvidia.rs\<close>), \<open>Tuning\<close> (\<open>tuning.rs\<close>): telemetry, the offset transaction with its journal and
    rollback, and the profile transaction over firmware and GPU. \<open>Nvidia_Safety\<close> shows the offset transaction
    atomic on the registers of the library; \<open>Nvidia_Escape\<close>, the one escape from it, over the contract
    \<open>sticky_registers\<close> of a setter that stores and reports an error; \<open>Tuning_Safety\<close>, that the outcome of the profile transaction states what both planes then report, over the contract
    \<open>observed_planes\<close>.
  \<^item> \<open>Platform\<close> (\<open>platform.rs\<close>): attributes with isolated getter failures and verified setters;
    \<open>Platform_Safety\<close>, \<open>Platform_Delivery\<close>.
  \<^item> \<open>Lighting\<close>, \<open>Enek5130\<close>, \<open>Lighting_Control\<close> (\<open>lighting.rs\<close>, \<open>lighting/enek5130.rs\<close>): the zoned keyboard, the HID
    reports and the controller over both; \<open>Lighting_Safety\<close>, up to everything an apply sends to the HID device.
  \<^item> \<open>Control\<close>, \<open>Control_Diagnostics\<close> (\<open>control.rs\<close>) and \<open>Daemon_Wire\<close> (\<open>daemon.rs\<close>): the two ends of the socket.
    \<open>Wire_Safety\<close> bounds the decoder, makes it independent of how the stream is cut and delivers every
    response as one line; the locale \<open>wire_codec\<close> carries a value with a lawful codec across, and
    \<open>Wire_Codecs\<close> and \<open>Memory_Report\<close> interpret it for the values that cross.
  \<^item> \<open>Mutation_Lock\<close> (\<open>mutation_lock.rs\<close>): a guard that is handed out holds the lock, and acquiring returns.
  \<^item> \<open>Memory_Hardware\<close>, \<open>Telemetry_Text\<close>, \<open>Telemetry_Hardware\<close>, \<open>Telemetry_Reader\<close> (\<open>telemetry.rs\<close>): memory
    reports, counters, topology, power supplies, and the reader with its NVML session, retry and idle
    release. \<open>Telemetry_Safety\<close> and \<open>Telemetry_Samples\<close> show the invariant of the reader, the ranges of a
    sample, and that a sleeping GPU is left alone.
  \<^item> \<open>Diagnostic_Types\<close>, \<open>Passive_Hid\<close>, \<open>Passive_Diagnostics\<close> (\<open>passive_hid.rs\<close>, \<open>passive_diagnostics.rs\<close>): the read-only
    evidence and the report made of it. \<open>Hid_Safety\<close> and \<open>Diagnostics_Safety\<close> show that every inventory is
    accepted by its own validator and name the reports that are not.
  \<^item> \<open>Daemon_State\<close>, \<open>Daemon\<close>, \<open>Daemon_Serve\<close> (\<open>daemon.rs\<close>): the shared state, the commands, the client threads and
    the step relation \<open>daemon_step\<close> of their sections under the mutex. \<open>Daemon_Safety\<close> shows the fans attended
    and the lease exclusive over all interleavings, up to a failsafe that fails and is reported; \<open>Daemon_Bench\<close> and \<open>Daemon_Stale\<close> run whole clients on a
    small laptop, up to an interleaving in which a stale lease undoes another client's setting.
  \<^item> \<open>Gui_Instance\<close>, \<open>Gui_Safety\<close> (\<open>gui_instance.rs\<close>): the lease of the window, whom it may signal, and that
    claiming it returns.
  \<^item> \<open>App_Resize\<close>, \<open>App_State\<close>, \<open>App_Update\<close>, \<open>App_Worker\<close>, \<open>App_Lighting\<close>, \<open>App_Feed\<close> (\<open>app.rs\<close>): the correction of
    the window's proportions, the state behind the window and its updates, the control worker and the
    queues, the lighting editor, and the telemetry thread. They show that corrections neither accumulate
    nor repeat, that one request is in flight exactly while the window is busy, that a profile is called
    verified only when the firmware confirmed the one asked for, that the history ring is the last samples
    (\<open>App_Safety\<close>), which lighting readings a session survives, and how a refresh can be lost.
  \<^item> \<open>Probe_Schema\<close> (\<open>probe/schema.rs\<close>), \<open>Probe_Map\<close>, \<open>Probe_Collect\<close> (\<open>probe.rs\<close>): the anonymised report a person
    attaches to an issue: its types and validator, the translation of the daemon's passive report, and the
    collectors of machine, power and driver evidence. \<open>Probe_Sections\<close> shows that what the daemon sends is
    accepted by the probe's own validator, but for one class of labels; \<open>Probe_Safety\<close>, that all evidence is
    collected by reading only, and exactly which readings lose a report.

  \<^bold>\<open>Loops and bounds.\<close> Loops over data are structural recursion or have a termination proof. Three loops
  wait for the outside world and are \<open>partial_function (option)\<close>: taking the lock file (\<open>lock_loop\<close>) and
  waiting for a process (\<open>wait_until\<close>), which are shown to return when the clock advances, and accepting
  abandoned connections (\<open>drain_connections\<close>), which runs until the lease is dropped. No fuel is used. The
  threads of the daemon and the events of the window are step relations with reachable states.

  \<^bold>\<open>Simplifications.\<close> Values the code keeps as \<open>f32\<close> or \<open>f64\<close> are exact rationals; where a decision depends on
  rounding (\<open>nearest_f64\<close>) it is written out. A directory listing succeeds or fails as a whole, so an error of
  a single entry is not modelled; nor are mutex poisoning and threads that fail to start.

  \<^bold>\<open>Not modelled.\<close> The text summary of the probe report, which only prints it. The Dioxus views of \<open>app.rs\<close>,
  \<open>app/docs_modal.rs\<close> and \<open>app/i18n.rs\<close>: rendering, static text and message tables; texts for people are left
  out of errors and states for the same reason. The wakers of the asynchronous receivers, which only
  schedule them. \<open>main.rs\<close>, \<open>asensed.rs\<close>, \<open>lib.rs\<close>, which start the parts above. The kernel module, packaging
  and scripts, which are not Rust.
\<close>

end
